(* ===== verification/Prelude.thy ===== *)
theory Prelude
  imports Complex_Main "HOL-Library.Monad_Syntax" "HOL-Library.Multiset" "HOL-Library.Sublist"
begin

text \<open>
  Shared vocabulary of the development. A Go call that can fail at run time (a nil
  dereference, an index out of range) is modelled in the option type, with \<open>None\<close> for
  the panic, so that \<^theory_text>\<open>do\<close>-blocks read like the straight-line code they model. A
  Go pointer that may be nil is an \<open>option\<close>. A Go call that returns an error next to a value
  is a sum with the error on the left.
\<close>

named_theorems f64_eval \<open>evaluation of binary64 arithmetic on literals\<close>
named_theorems f64_intro \<open>order facts of binary64 arithmetic\<close>
named_theorems go_unfold \<open>small operations unfolded in case analyses\<close>

type_synonym 'a panics = "'a option"

end
