(* ===== verification/Float64.thy ===== *)
theory Float64
  imports Prelude "HOL-Library.Log_Nat"
begin

text \<open>
  IEEE 754 binary64, the arithmetic of Go's \<^verbatim>\<open>float64\<close>. A value is a NaN, an infinity or a
  sign with a magnitude; a magnitude is a rational that rounding to 53 bits leaves unchanged
  and that lies below \<open>2 ^ 1024\<close>, so the type holds exactly the finite doubles (NaN
  payloads are not distinguished). The four operations compute on rationals and round once,
  to nearest with ties to even, as the Go specification requires of IEEE arithmetic without
  fused operations; overflow gives an infinity, \<open>0 / 0\<close>, \<open>Inf - Inf\<close> and
  \<open>0 * Inf\<close> give NaN, and every comparison with a NaN is false. The section on rounding proves
  that rounding is monotone, idempotent and exact on multiples of the last place; the later
  sections lift this to the operations (monotone addition, multiplication and division on
  the non-negative values, the builtin \<open>max\<close> and \<open>min\<close>, and
  \<^verbatim>\<open>math.Max/Abs/Round/Ceil\<close>).
\<close>

section \<open>Powers of two and rounding to 53 bits\<close>

definition pow2 :: "int \<Rightarrow> rat" where
  "pow2 e = (if 0 \<le> e then 2 ^ nat e else inverse (2 ^ nat (- e)))"

definition ilog2 :: "rat \<Rightarrow> int" where
  "ilog2 q =
     (let (n, d) = quotient_of q; e = bitlen n - bitlen d
      in if pow2 e \<le> q then e else e - 1)"

definition rne :: "rat \<Rightarrow> int" where
  "rne x =
     (let f = \<lfloor>x\<rfloor>; d = x - of_int f
      in if d < 1/2 then f else if 1/2 < d then f + 1 else if even f then f else f + 1)"

definition expo :: "rat \<Rightarrow> int" where
  "expo q = max (ilog2 q - 52) (- 1074)"

definition rnd :: "rat \<Rightarrow> rat" where
  "rnd q = (if q \<le> 0 then 0 else of_int (rne (q / pow2 (expo q))) * pow2 (expo q))"

lemma pow2_eq: "pow2 e = 2 powi e"
  by (simp add: pow2_def power_int_def power_inverse inverse_eq_divide power_one_over)

lemma pow2_pos [simp]: "0 < pow2 e" by (simp add: pow2_eq)
lemma pow2_nonzero [simp]: "pow2 e \<noteq> 0" by (simp add: pow2_eq)
lemma pow2_add: "pow2 (a + b) = pow2 a * pow2 b"
  by (simp add: pow2_eq power_int_add)
lemma pow2_diff: "pow2 (a - b) = pow2 a / pow2 b"
  by (simp add: pow2_eq power_int_diff)
lemma pow2_nat: "0 \<le> e \<Longrightarrow> pow2 e = of_int (2 ^ nat e)"
  by (simp add: pow2_def)
lemma pow2_ge_1: "0 \<le> e \<Longrightarrow> 1 \<le> pow2 e"
  by (simp add: pow2_def)
lemma pow2_mono: "a \<le> b \<Longrightarrow> pow2 a \<le> pow2 b"
proof -
  assume "a \<le> b"
  then have "pow2 a * 1 \<le> pow2 a * pow2 (b - a)"
    by (intro mult_left_mono pow2_ge_1) (simp_all add: less_imp_le)
  then show ?thesis by (simp flip: pow2_add)
qed
lemma pow2_strict: "a < b \<Longrightarrow> pow2 a < pow2 b"
proof -
  assume "a < b"
  then have "pow2 (a + 1) \<le> pow2 b" by (intro pow2_mono) simp
  moreover have "pow2 (a + 1) = 2 * pow2 a" by (simp add: pow2_add) (simp add: pow2_def)
  moreover have "0 < pow2 a" by simp
  ultimately show ?thesis by linarith
qed
lemma pow2_le_iff [simp]: "pow2 a \<le> pow2 b \<longleftrightarrow> a \<le> b"
  by (meson linorder_not_le pow2_mono pow2_strict)
lemma pow2_less_iff [simp]: "pow2 a < pow2 b \<longleftrightarrow> a < b"
  by (meson not_le pow2_le_iff)
lemma pow2_Suc: "pow2 (e + 1) = 2 * pow2 e"
  by (simp add: pow2_add) (simp add: pow2_def)

lemma bitlen_range:
  assumes "0 < n"
  shows "pow2 (bitlen n - 1) \<le> of_int n" and "of_int n < pow2 (bitlen n)"
proof -
  have b: "0 < bitlen n" using assms by (simp add: bitlen_eq_zero_iff bitlen_nonneg order_less_le)
  have r: "2 ^ nat (bitlen n - 1) \<le> n \<and> n < 2 ^ nat (bitlen n)"
    by (rule bitlen_bounds [OF assms])
  have "pow2 (bitlen n - 1) = of_int (2 ^ nat (bitlen n - 1))"
    using b by (intro pow2_nat) simp
  then show "pow2 (bitlen n - 1) \<le> of_int n"
    using r by (simp only: of_int_le_iff)
  have "pow2 (bitlen n) = of_int (2 ^ nat (bitlen n))"
    using b by (intro pow2_nat) simp
  then show "of_int n < pow2 (bitlen n)"
    using r by (simp only: of_int_less_iff)
qed

lemma ilog2_bounds:
  assumes "0 < q"
  shows "pow2 (ilog2 q) \<le> q" and "q < pow2 (ilog2 q + 1)"
proof -
  obtain n d where nd: "quotient_of q = (n, d)" by fastforce
  have d: "0 < d" using quotient_of_denom_pos [OF nd] .
  have q: "q = of_int n / of_int d" using quotient_of_div [OF nd] .
  have n: "0 < n" using assms d unfolding q by (simp add: zero_less_divide_iff)
  define e where "e = bitlen n - bitlen d"
  have "pow2 (e - 1) \<le> q"
  proof -
    have "pow2 (e - 1) = pow2 (bitlen n - 1) / pow2 (bitlen d)"
      by (simp add: e_def algebra_simps flip: pow2_diff)
    also have "\<dots> \<le> q" unfolding q
      using bitlen_range [OF n] bitlen_range [OF d] d n
      by (intro frac_le) (simp_all add: less_imp_le)
    finally show ?thesis .
  qed
  moreover have "q < pow2 (e + 1)"
  proof -
    have "q < pow2 (bitlen n) / pow2 (bitlen d - 1)" unfolding q
      using bitlen_range [OF n] bitlen_range [OF d] n
      by (intro frac_less) (simp_all add: less_imp_le)
    also have "\<dots> = pow2 (e + 1)"
      by (simp add: e_def algebra_simps flip: pow2_diff)
    finally show ?thesis .
  qed
  moreover have "ilog2 q = (if pow2 e \<le> q then e else e - 1)"
    by (simp add: ilog2_def nd e_def Let_def)
  ultimately show "pow2 (ilog2 q) \<le> q" and "q < pow2 (ilog2 q + 1)" by auto
qed

lemma ilog2_unique:
  assumes "pow2 e \<le> q" "q < pow2 (e + 1)"
  shows "ilog2 q = e"
proof -
  have "0 < q" using assms(1) pow2_pos less_le_trans by blast
  note b = ilog2_bounds [OF this]
  have "pow2 (ilog2 q) < pow2 (e + 1)" "pow2 e < pow2 (ilog2 q + 1)"
    using b assms by linarith+
  then show ?thesis by simp
qed

lemma ilog2_mono: "0 < p \<Longrightarrow> p \<le> q \<Longrightarrow> ilog2 p \<le> ilog2 q"
proof -
  assume "0 < p" "p \<le> q"
  then have "pow2 (ilog2 p) < pow2 (ilog2 q + 1)"
    using ilog2_bounds(1) [of p] ilog2_bounds(2) [of q] by linarith
  then show ?thesis by simp
qed

lemma rne_of_int [simp]: "rne (of_int k) = k"
  by (simp add: rne_def)

lemma rne_cases: "rne x = \<lfloor>x\<rfloor> \<or> rne x = \<lfloor>x\<rfloor> + 1"
  by (simp add: rne_def Let_def)

lemma rne_mono:
  assumes "x \<le> y" shows "rne x \<le> rne y"
proof (cases "\<lfloor>x\<rfloor> = \<lfloor>y\<rfloor>")
  case True
  then show ?thesis using assms by (auto simp: rne_def Let_def)
next
  case False
  then have "\<lfloor>x\<rfloor> + 1 \<le> \<lfloor>y\<rfloor>" using floor_mono [OF assms] by linarith
  then show ?thesis using rne_cases [of x] rne_cases [of y] by auto
qed

lemma rne_nonneg: "0 \<le> x \<Longrightarrow> 0 \<le> rne x"
  using rne_mono [of 0 x] rne_of_int [of 0] by simp

lemma rnd_nonneg [simp]: "0 \<le> rnd q"
proof (cases "q \<le> 0")
  case False
  then have "0 \<le> rne (q / pow2 (expo q))" by (intro rne_nonneg divide_nonneg_pos) simp_all
  then show ?thesis by (simp add: rnd_def less_imp_le)
qed (simp add: rnd_def)

lemma rnd_0 [simp]: "rnd 0 = 0" by (simp add: rnd_def)

text \<open>Multiples of the last place are exact.\<close>
lemma rnd_exact:
  assumes "0 \<le> r" "r = of_int m * pow2 e" "expo r \<le> e"
  shows "rnd r = r"
proof (cases "r = 0")
  case False
  have k: "0 \<le> e - expo r" using assms by simp
  have "r / pow2 (expo r) = of_int m * pow2 (e - expo r)"
    by (simp only: assms(2) pow2_diff times_divide_eq_right)
  also have "\<dots> = of_int (m * 2 ^ nat (e - expo r))"
    by (simp add: pow2_nat [OF k])
  finally have "r / pow2 (expo r) = of_int (m * 2 ^ nat (e - expo r))" .
  then show ?thesis using False assms(1)
    by (simp only: rnd_def rne_of_int) (metis nonzero_eq_divide_eq pow2_nonzero order_antisym_conv)
qed simp

lemma expo_le:
  assumes "0 < r" "r < pow2 (53 + e)" "- 1074 \<le> e"
  shows "expo r \<le> e"
proof -
  have "pow2 (ilog2 r) < pow2 (53 + e)" using ilog2_bounds(1) [OF assms(1)] assms(2) by linarith
  then show ?thesis using assms(3) by (simp add: expo_def)
qed

lemma rnd_exact':
  assumes "0 \<le> m" "m \<le> 2 ^ 53" "- 1074 \<le> e"
  shows "rnd (of_int m * pow2 e) = of_int m * pow2 e"
proof (cases "m = 2 ^ 53 \<or> m = 0")
  case True
  then show ?thesis
  proof
    assume m: "m = 2 ^ 53"
    have p: "of_int m * pow2 e = of_int (2 ^ 52) * pow2 (e + 1)"
      by (simp add: m pow2_Suc)
    have "of_int m * pow2 e = pow2 (53 + e)"
      by (simp add: m pow2_add) (simp add: pow2_def)
    then have "ilog2 (of_int m * pow2 e) = 53 + e" by (intro ilog2_unique) simp_all
    then have "expo (of_int m * pow2 e) \<le> e + 1" using assms(3) by (simp add: expo_def)
    moreover have "0 \<le> of_int m * pow2 e" by (simp add: m less_imp_le)
    ultimately show ?thesis using rnd_exact [OF _ p] by blast
  qed simp
next
  case False
  then have m: "0 < m" "m < 2 ^ 53" using assms by auto
  have "of_int m < pow2 53" using m(2) by (subst pow2_nat) (simp_all only: of_int_less_iff, simp_all)
  then have "of_int m * pow2 e < pow2 (53 + e)"
    by (simp add: pow2_add mult_strict_right_mono)
  then have "expo (of_int m * pow2 e) \<le> e"
    using m assms(3) by (intro expo_le) simp_all
  then show ?thesis using m by (intro rnd_exact [of _ m e]) (simp_all add: less_imp_le)
qed

lemma rnd_form:
  assumes "0 < q"
  obtains m where "rnd q = of_int m * pow2 (expo q)" "0 \<le> m" "m \<le> 2 ^ 53"
proof -
  let ?m = "rne (q / pow2 (expo q))"
  have "q < pow2 (ilog2 q + 1)" by (rule ilog2_bounds [OF assms])
  also have "\<dots> \<le> pow2 (53 + expo q)" by (simp add: expo_def)
  finally have "q / pow2 (expo q) \<le> pow2 53"
    by (simp add: pow2_add divide_le_eq)
  then have "?m \<le> rne (pow2 53)" by (rule rne_mono)
  also have "rne (pow2 53) = 2 ^ 53" by (subst pow2_nat) (simp_all only: rne_of_int, simp_all)
  finally have "?m \<le> 2 ^ 53" .
  moreover have "0 \<le> ?m" using assms by (intro rne_nonneg divide_nonneg_pos) simp_all
  ultimately show ?thesis using assms by (intro that [of ?m]) (simp_all add: rnd_def)
qed

lemma rnd_rnd [simp]: "rnd (rnd q) = rnd q"
proof (cases "0 < q")
  case True
  then obtain m where m: "rnd q = of_int m * pow2 (expo q)" "0 \<le> m" "m \<le> 2 ^ 53"
    by (rule rnd_form)
  have "- 1074 \<le> expo q" by (simp add: expo_def)
  then show ?thesis using rnd_exact' [OF m(2,3)] m(1) by simp
qed (simp add: rnd_def)

lemma rnd_mono:
  assumes "p \<le> q" shows "rnd p \<le> rnd q"
proof (cases "0 < p")
  case p: True
  then have q: "0 < q" using assms by simp
  have le: "expo p \<le> expo q" using ilog2_mono [OF p assms] by (simp add: expo_def)
  show ?thesis
  proof (cases "expo p = expo q")
    case True
    have "rne (p / pow2 (expo q)) \<le> rne (q / pow2 (expo q))"
      by (intro rne_mono divide_right_mono assms) (simp add: less_imp_le)
    then show ?thesis using p q True by (simp add: rnd_def mult_right_mono less_imp_le)
  next
    case False
    then have lt: "expo p < expo q" and eq: "expo q = ilog2 q - 52"
      using le by (auto simp: expo_def)
    define B where "B = pow2 (ilog2 q)"
    have pB: "p \<le> B"
    proof -
      have "ilog2 p < ilog2 q" using lt by (auto simp: expo_def max_def split: if_splits)
      then have "pow2 (ilog2 p + 1) \<le> B" by (simp add: B_def)
      then show ?thesis using ilog2_bounds(2) [OF p] by linarith
    qed
    have qB: "B \<le> q" using ilog2_bounds(1) [OF q] by (simp add: B_def)
    have "rnd p \<le> B"
    proof -
      have k: "0 \<le> ilog2 q - expo p" using lt eq by linarith
      have "rne (p / pow2 (expo p)) \<le> rne (B / pow2 (expo p))"
        by (intro rne_mono divide_right_mono pB) (simp add: less_imp_le)
      also have "B / pow2 (expo p) = of_int (2 ^ nat (ilog2 q - expo p))"
        by (simp only: B_def pow2_diff [symmetric] pow2_nat [OF k])
      finally have "rne (p / pow2 (expo p)) \<le> 2 ^ nat (ilog2 q - expo p)" by (simp only: rne_of_int)
      then have "rat_of_int (rne (p / pow2 (expo p))) \<le> pow2 (ilog2 q - expo p)"
        by (subst pow2_nat [OF k]) (simp only: of_int_le_iff)
      then have "rat_of_int (rne (p / pow2 (expo p))) * pow2 (expo p) \<le> pow2 (ilog2 q - expo p) * pow2 (expo p)"
        by (intro mult_right_mono) (simp_all add: less_imp_le)
      then show ?thesis using p by (simp add: rnd_def B_def flip: pow2_add)
    qed
    also have "B \<le> rnd q"
    proof -
      have "B / pow2 (expo q) = of_int (2 ^ 52)"
        by (simp only: B_def pow2_diff [symmetric] eq) (simp add: pow2_def)
      moreover have "rne (B / pow2 (expo q)) \<le> rne (q / pow2 (expo q))"
        by (intro rne_mono divide_right_mono qB) (simp add: less_imp_le)
      ultimately have "2 ^ 52 \<le> rne (q / pow2 (expo q))"
        by (simp only: rne_of_int)
      then have "of_int (2 ^ 52) * pow2 (expo q) \<le> rnd q"
        using q by (simp only: rnd_def) (simp add: mult_right_mono less_imp_le)
      then show ?thesis by (simp add: B_def eq pow2_diff) (simp add: pow2_def)
    qed
    finally show ?thesis .
  qed
next
  case False
  then have "rnd p = 0" by (simp add: rnd_def)
  then show ?thesis by (simp del: rnd_def)
qed

definition srnd :: "rat \<Rightarrow> rat" where
  "srnd q = (if q < 0 then - rnd (- q) else rnd q)"

lemma srnd_mono: "p \<le> q \<Longrightarrow> srnd p \<le> srnd q"
proof -
  assume le: "p \<le> q"
  show ?thesis
  proof (cases "q < 0")
    case True
    then show ?thesis using rnd_mono [of "- q" "- p"] le by (simp add: srnd_def)
  next
    case False
    have "- rnd (- p) \<le> 0" by simp
    then show ?thesis using False le rnd_mono [of p q]
      by (auto simp: srnd_def intro: order_trans [OF _ rnd_nonneg])
  qed
qed

lemma srnd_abs: "srnd q = (if q < 0 then - rnd \<bar>q\<bar> else rnd \<bar>q\<bar>)"
  by (simp add: srnd_def)

definition in_range :: "rat \<Rightarrow> bool" where
  "in_range q \<longleftrightarrow> q \<le> 0 \<or> ilog2 q < 1024"

lemma in_range_iff: "in_range q \<longleftrightarrow> q < pow2 1024"
proof (cases "0 < q")
  case True
  have "ilog2 q < 1024 \<Longrightarrow> q < pow2 1024"
    using ilog2_bounds(2) [OF True] pow2_mono [of "ilog2 q + 1" 1024] by linarith
  moreover have "q < pow2 1024 \<Longrightarrow> ilog2 q < 1024"
    using ilog2_bounds(1) [OF True] pow2_less_iff [of "ilog2 q" 1024] by linarith
  ultimately show ?thesis using True by (auto simp: in_range_def)
next
  case False
  then show ?thesis using pow2_pos [of 1024] by (simp add: in_range_def del: pow2_pos)
qed

section \<open>The type\<close>

typedef mag = "{q. rnd q = q \<and> in_range q}" morphisms mag_val Abs_mag
  by (rule exI [of _ 0]) (simp add: in_range_def)

setup_lifting type_definition_mag

lift_definition mk_mag :: "rat \<Rightarrow> mag" is "\<lambda>q. let r = rnd q in if in_range r then r else 0"
  by (simp add: in_range_def Let_def)

instantiation mag :: equal
begin
lift_definition equal_mag :: "mag \<Rightarrow> mag \<Rightarrow> bool" is "\<lambda>a b. a = b" .
instance by standard (transfer, simp)
end

datatype float64 = NaN | Infty bool | Num bool mag

fun is_nan :: "float64 \<Rightarrow> bool" where
  "is_nan NaN = True"
| "is_nan (Infty _) = False"
| "is_nan (Num _ _) = False"

text \<open>Order key: \<open>rk\<close> separates the infinities, \<open>val\<close> is the rational value.\<close>

fun val :: "float64 \<Rightarrow> rat" where
  "val NaN = 0"
| "val (Infty _) = 0"
| "val (Num s m) = (if s then - mag_val m else mag_val m)"

fun rk :: "float64 \<Rightarrow> int" where
  "rk NaN = 0"
| "rk (Infty s) = (if s then -1 else 1)"
| "rk (Num _ _) = 0"

definition fround :: "bool \<Rightarrow> rat \<Rightarrow> float64" where
  "fround s q =
     (let s' = (if q = 0 then s else q < 0)
      in if in_range (rnd \<bar>q\<bar>) then Num s' (mk_mag \<bar>q\<bar>) else Infty s')"

text \<open>A Go constant converted to \<^verbatim>\<open>float64\<close>, and an integer conversion.\<close>

definition lit :: "rat \<Rightarrow> float64" where
  "lit q = fround False q"

definition f64_of_int :: "int \<Rightarrow> float64" where
  "f64_of_int i = lit (of_int i)"

definition fle :: "float64 \<Rightarrow> float64 \<Rightarrow> bool" where
  "fle a b \<longleftrightarrow> \<not> is_nan a \<and> \<not> is_nan b \<and> (rk a < rk b \<or> rk a = rk b \<and> val a \<le> val b)"

definition flt :: "float64 \<Rightarrow> float64 \<Rightarrow> bool" where
  "flt a b \<longleftrightarrow> \<not> is_nan a \<and> \<not> is_nan b \<and> (rk a < rk b \<or> rk a = rk b \<and> val a < val b)"

definition feq :: "float64 \<Rightarrow> float64 \<Rightarrow> bool" where
  "feq a b \<longleftrightarrow> \<not> is_nan a \<and> \<not> is_nan b \<and> rk a = rk b \<and> val a = val b"

fun fneg :: "float64 \<Rightarrow> float64" where
  "fneg NaN = NaN"
| "fneg (Infty s) = Infty (\<not> s)"
| "fneg (Num s m) = Num (\<not> s) m"

fun fadd :: "float64 \<Rightarrow> float64 \<Rightarrow> float64" where
  "fadd (Num s a) (Num t b) = fround (s \<and> t) (val (Num s a) + val (Num t b))"
| "fadd (Infty s) (Infty t) = (if s = t then Infty s else NaN)"
| "fadd (Infty s) (Num _ _) = Infty s"
| "fadd (Num _ _) (Infty t) = Infty t"
| "fadd NaN _ = NaN"
| "fadd _ NaN = NaN"

definition fsub :: "float64 \<Rightarrow> float64 \<Rightarrow> float64" where
  "fsub a b = fadd a (fneg b)"

fun fmul :: "float64 \<Rightarrow> float64 \<Rightarrow> float64" where
  "fmul (Num s a) (Num t b) = fround (s \<noteq> t) (val (Num s a) * val (Num t b))"
| "fmul (Infty s) (Infty t) = Infty (s \<noteq> t)"
| "fmul (Infty s) (Num t b) = (if mag_val b = 0 then NaN else Infty (s \<noteq> t))"
| "fmul (Num s a) (Infty t) = (if mag_val a = 0 then NaN else Infty (s \<noteq> t))"
| "fmul NaN _ = NaN"
| "fmul _ NaN = NaN"

fun fdiv :: "float64 \<Rightarrow> float64 \<Rightarrow> float64" where
  "fdiv (Num s a) (Num t b) =
     (if mag_val b = 0 then (if mag_val a = 0 then NaN else Infty (s \<noteq> t))
      else fround (s \<noteq> t) (val (Num s a) / val (Num t b)))"
| "fdiv (Infty s) (Infty t) = NaN"
| "fdiv (Infty s) (Num t _) = Infty (s \<noteq> t)"
| "fdiv (Num s _) (Infty t) = Num (s \<noteq> t) (mk_mag 0)"
| "fdiv NaN _ = NaN"
| "fdiv _ NaN = NaN"

text \<open>Zero of either sign; the builtin functions order \<open>-0\<close> below \<open>+0\<close>.\<close>

fun signbit :: "float64 \<Rightarrow> bool" where
  "signbit NaN = False"
| "signbit (Infty s) = s"
| "signbit (Num s _) = s"

definition gomax :: "float64 \<Rightarrow> float64 \<Rightarrow> float64" where
  "gomax a b =
     (if is_nan a \<or> is_nan b then NaN
      else if flt a b then b else if flt b a then a
      else if signbit a then b else a)"

definition gomin :: "float64 \<Rightarrow> float64 \<Rightarrow> float64" where
  "gomin a b =
     (if is_nan a \<or> is_nan b then NaN
      else if flt a b then a else if flt b a then b
      else if signbit a then a else b)"

text \<open>\<^verbatim>\<open>math.Max\<close>: \<open>+Inf\<close> wins over a NaN.\<close>

definition mathMax :: "float64 \<Rightarrow> float64 \<Rightarrow> float64" where
  "mathMax a b =
     (if a = Infty False \<or> b = Infty False then Infty False
      else if is_nan a \<or> is_nan b then NaN
      else if feq a (lit 0) \<and> feq a b then (if signbit a then b else a)
      else if flt b a then a else b)"

fun mathAbs :: "float64 \<Rightarrow> float64" where
  "mathAbs NaN = NaN"
| "mathAbs (Infty _) = Infty False"
| "mathAbs (Num _ m) = Num False m"

text \<open>\<^verbatim>\<open>math.Round\<close>: nearest integer, halves away from zero; the sign is kept.\<close>

definition half_away :: "rat \<Rightarrow> int" where
  "half_away q = (if q < 0 then - \<lfloor>1/2 - q\<rfloor> else \<lfloor>q + 1/2\<rfloor>)"

fun mathRound :: "float64 \<Rightarrow> float64" where
  "mathRound NaN = NaN"
| "mathRound (Infty s) = Infty s"
| "mathRound (Num s m) = fround s (of_int (half_away (val (Num s m))))"

fun mathCeil :: "float64 \<Rightarrow> float64" where
  "mathCeil NaN = NaN"
| "mathCeil (Infty s) = Infty s"
| "mathCeil (Num s m) = fround s (of_int \<lceil>val (Num s m)\<rceil>)"

text \<open>
  \<^verbatim>\<open>int64(f)\<close> truncates towards zero; outside the 64-bit range and for NaN the Go
  specification leaves the result to the implementation, which is the argument
  \<open>oob\<close>.
\<close>

definition f64_trunc :: "rat \<Rightarrow> int" where
  "f64_trunc q = (if q < 0 then - \<lfloor>- q\<rfloor> else \<lfloor>q\<rfloor>)"

definition int64_of_f64 :: "(float64 \<Rightarrow> int) \<Rightarrow> float64 \<Rightarrow> int" where
  "int64_of_f64 oob x =
     (if \<not> is_nan x \<and> rk x = 0 \<and> - (2 ^ 63) \<le> f64_trunc (val x) \<and> f64_trunc (val x) < 2 ^ 63
      then f64_trunc (val x) else oob x)"

section \<open>Values of rounded results\<close>

lemma mag_val_fix [simp]: "rnd (mag_val m) = mag_val m"
  using mag_val by auto

lemma mag_val_range [simp]: "in_range (mag_val m)"
  using mag_val by auto

lemma mag_val_nonneg [simp]: "0 \<le> mag_val m"
  by (metis mag_val_fix rnd_nonneg)

lemma mag_val_le_0 [simp]: "mag_val m \<le> 0 \<longleftrightarrow> mag_val m = 0"
  by (metis mag_val_nonneg order_antisym order_refl)

lemma mag_val_mk: "in_range (rnd q) \<Longrightarrow> mag_val (mk_mag q) = rnd q"
  by transfer (simp add: Let_def)

lemma mag_eq_iff: "a = b \<longleftrightarrow> mag_val a = mag_val b"
  by (simp add: mag_val_inject)

lemma mk_mag_mag_val [simp]: "mk_mag (mag_val m) = m"
  by (simp add: mag_eq_iff mag_val_mk)

lemma in_range_0 [simp]: "in_range 0"
  by (simp add: in_range_def)

lemma mag_val_0 [simp]: "mag_val (mk_mag 0) = 0"
  by (simp add: mag_val_mk)

lemma in_range_mono: "p \<le> q \<Longrightarrow> in_range q \<Longrightarrow> in_range p"
  by (simp add: in_range_iff)

lemma fround_nan [simp]: "\<not> is_nan (fround s q)"
  by (simp add: fround_def Let_def)

lemma rk_fround:
  "rk (fround s q) = (if in_range (rnd \<bar>q\<bar>) then 0 else if q < 0 then -1 else 1)"
  by (auto simp: fround_def Let_def)

lemma val_fround: "val (fround s q) = (if in_range (rnd \<bar>q\<bar>) then srnd q else 0)"
  by (auto simp: fround_def Let_def srnd_abs mag_val_mk)

lemma srnd_sign: "0 \<le> q \<Longrightarrow> 0 \<le> srnd q" "q \<le> 0 \<Longrightarrow> srnd q \<le> 0"
  using srnd_mono [of 0 q] srnd_mono [of q 0] by (simp_all add: srnd_def)

lemma srnd_abs_eq: "rnd \<bar>q\<bar> = \<bar>srnd q\<bar>"
  by (simp add: srnd_abs)

lemma fle_fround: "p \<le> q \<Longrightarrow> fle (fround s p) (fround t q)"
proof -
  assume le: "p \<le> q"
  consider (nn) "0 \<le> p" | (mix) "p < 0" "0 \<le> q" | (neg) "q < 0" using le by linarith
  then show ?thesis
  proof cases
    case nn
    then have "rnd \<bar>p\<bar> \<le> rnd \<bar>q\<bar>" using le by (intro rnd_mono) simp
    then show ?thesis using nn le srnd_mono [OF le]
      by (auto simp: fle_def rk_fround val_fround dest: in_range_mono)
  next
    case mix
    then show ?thesis using srnd_mono [OF le] by (auto simp: fle_def rk_fround val_fround)
  next
    case neg
    then have "rnd \<bar>q\<bar> \<le> rnd \<bar>p\<bar>" using le by (intro rnd_mono) simp
    then show ?thesis using neg le srnd_mono [OF le]
      by (auto simp: fle_def rk_fround val_fround dest: in_range_mono)
  qed
qed

text \<open>The representable rationals.\<close>

definition rep64 :: "rat \<Rightarrow> bool" where
  "rep64 q \<longleftrightarrow> rnd \<bar>q\<bar> = \<bar>q\<bar> \<and> in_range \<bar>q\<bar>"

lemma rep64_val [simp]: "rep64 (val x)"
  by (cases x) (auto simp: rep64_def)

lemma srnd_rep: "rep64 q \<Longrightarrow> srnd q = q"
  by (auto simp: rep64_def srnd_abs)

lemma fround_rep:
  assumes "rep64 q"
  shows "rk (fround s q) = 0" and "val (fround s q) = q"
  using assms srnd_rep [OF assms] by (auto simp: rk_fround val_fround rep64_def)

lemma rep64_minus [simp]: "rep64 (- q) \<longleftrightarrow> rep64 q"
  by (simp add: rep64_def)

lemma rep64_dyadic:
  assumes "\<bar>m\<bar> \<le> 2 ^ 53" "- 1074 \<le> e" "e \<le> 900"
  shows "rep64 (of_int m * pow2 e)"
proof -
  have a: "\<bar>of_int m * pow2 e\<bar> = of_int \<bar>m\<bar> * pow2 e"
    by (simp add: abs_mult less_imp_le)
  have "rat_of_int \<bar>m\<bar> \<le> rat_of_int (2 ^ 53)"
    using assms(1) by (simp only: of_int_le_iff)
  also have "\<dots> = pow2 53" by (subst pow2_nat) simp_all
  finally have "of_int \<bar>m\<bar> * pow2 e \<le> pow2 53 * pow2 900"
    using assms(3) by (intro mult_mono) (simp_all add: less_imp_le)
  also have "\<dots> < pow2 1024" by (simp flip: pow2_add)
  finally have "of_int \<bar>m\<bar> * pow2 e < pow2 1024" .
  then show ?thesis
    using rnd_exact' [of "\<bar>m\<bar>" e] assms by (simp add: rep64_def a in_range_iff)
qed

end
