(* ===== verification/Float64_Order.thy ===== *)
theory Float64_Order
  imports Float64
begin

text \<open>
  Order theory of binary64: comparison is a total preorder on the values that are not NaN,
  the operations respect it, and arithmetic on representable literals evaluates by
  simplification (collection \<open>f64_eval\<close>), which is what the witnesses of the other
  theories use.
\<close>

section \<open>Comparison\<close>

lemma fle_refl [simp]: "fle a a \<longleftrightarrow> \<not> is_nan a"
  by (auto simp: fle_def)

lemma fle_trans [trans]: "fle a b \<Longrightarrow> fle b c \<Longrightarrow> fle a c"
  by (auto simp: fle_def)

lemma flt_fle: "flt a b \<Longrightarrow> fle a b"
  by (auto simp: flt_def fle_def)

lemma fle_flt_trans [trans]: "fle a b \<Longrightarrow> flt b c \<Longrightarrow> flt a c"
  by (auto simp: fle_def flt_def)

lemma flt_fle_trans [trans]: "flt a b \<Longrightarrow> fle b c \<Longrightarrow> flt a c"
  by (auto simp: fle_def flt_def)

lemma flt_irrefl [simp]: "\<not> flt a a"
  by (simp add: flt_def)

lemma not_flt: "\<not> is_nan a \<Longrightarrow> \<not> is_nan b \<Longrightarrow> \<not> flt a b \<longleftrightarrow> fle b a"
  by (auto simp: fle_def flt_def)

lemma not_fle: "\<not> is_nan a \<Longrightarrow> \<not> is_nan b \<Longrightarrow> \<not> fle a b \<longleftrightarrow> flt b a"
  by (auto simp: fle_def flt_def)

lemma fle_not_flt: "fle a b \<Longrightarrow> \<not> flt b a"
  by (auto simp: fle_def flt_def)

lemma fle_antisym: "fle a b \<Longrightarrow> fle b a \<Longrightarrow> feq a b"
  by (auto simp: fle_def feq_def)

lemma feq_refl [simp]: "feq a a \<longleftrightarrow> \<not> is_nan a"
  by (simp add: feq_def)

lemma feq_fle: "feq a b \<Longrightarrow> fle a b"
  by (auto simp: fle_def feq_def)

lemma fle_nan: "fle a b \<Longrightarrow> \<not> is_nan a" "fle a b \<Longrightarrow> \<not> is_nan b"
  by (auto simp: fle_def)

lemma flt_nan [simp]: "is_nan a \<Longrightarrow> \<not> flt a b" "is_nan b \<Longrightarrow> \<not> flt a b"
  by (auto simp: flt_def)

lemma flt_NaN [simp]: "\<not> flt NaN b" "\<not> flt a NaN"
  by (auto simp: flt_def)

lemma flt_trans: "flt a b \<Longrightarrow> flt b c \<Longrightarrow> flt a c"
  by (auto simp: flt_def)

lemma is_nan_iff: "is_nan a \<longleftrightarrow> a = NaN"
  by (cases a) auto

lemma fle_InftyT [simp]: "fle (Infty True) b \<longleftrightarrow> \<not> is_nan b"
  by (cases b) (auto simp: fle_def)

lemma fle_InftyF [simp]: "fle a (Infty False) \<longleftrightarrow> \<not> is_nan a"
  by (cases a) (auto simp: fle_def)

section \<open>Rounded arithmetic is monotone\<close>

lemma fadd_nan:
  "is_nan (fadd a b) \<longleftrightarrow> is_nan a \<or> is_nan b \<or> (\<exists>s. a = Infty s \<and> b = Infty (\<not> s))"
  by (cases "(a, b)" rule: fadd.cases) auto

lemma fle_Num_iff: "fle (Num s m) (Num t n) \<longleftrightarrow> val (Num s m) \<le> val (Num t n)"
  by (simp add: fle_def)

lemma fadd_mono:
  assumes "fle a a'" "fle b b'" "\<not> is_nan (fadd a b)" "\<not> is_nan (fadd a' b')"
  shows "fle (fadd a b) (fadd a' b')"
proof (cases "\<exists>s m t n s' m' t' n'. a = Num s m \<and> b = Num t n \<and> a' = Num s' m' \<and> b' = Num t' n'")
  case True
  then show ?thesis using assms(1,2)
    by (auto simp only: fadd.simps fle_Num_iff intro!: fle_fround add_mono)
next
  case False
  show ?thesis
  proof (cases "fadd a' b' = Infty False \<or> fadd a b = Infty True")
    case True
    then show ?thesis using assms(3,4) by auto
  next
    case no: False
    then show ?thesis using False assms
      by (cases a; cases b; cases a'; cases b') (auto simp: fle_def split: if_splits)
  qed
qed

lemma feq_lit0_iff: "feq x (lit 0) \<longleftrightarrow> (\<exists>s. x = Num s (mk_mag 0))"
  by (cases x) (auto simp: feq_def lit_def fround_def mag_eq_iff in_range_def)

lemma fadd_zero:
  assumes "\<not> is_nan a" shows "feq (fadd a (Num s (mk_mag 0))) a"
proof (cases a)
  case (Num t m)
  then have f: "fadd a (Num s (mk_mag 0)) = fround (t \<and> s) (val a)" by simp
  show ?thesis unfolding f using fround_rep [OF rep64_val, of "t \<and> s" a] Num
    by (simp add: feq_def)
qed (use assms in \<open>auto simp: feq_def\<close>)

abbreviation fzero :: float64 where "fzero \<equiv> lit 0"

lemma fzero_eq: "fzero = Num False (mk_mag 0)"
  by (simp add: lit_def fround_def in_range_def)

lemma val_fzero [simp]: "val fzero = 0" "rk fzero = 0" "\<not> is_nan fzero" "\<not> signbit fzero"
  by (simp_all add: fzero_eq)

lemma fle_fzero_iff: "fle fzero b \<longleftrightarrow> b = Infty False \<or> (\<exists>s m. b = Num s m \<and> 0 \<le> val b)"
  by (cases b) (auto simp: fle_def)

lemma nonneg_fadd_nan: "fle fzero a \<Longrightarrow> fle fzero b \<Longrightarrow> \<not> is_nan (fadd a b)"
  by (auto simp: fadd_nan fle_fzero_iff)

lemma fadd_ge_left:
  assumes "\<not> is_nan a" "fle fzero b" "\<not> is_nan (fadd a b)"
  shows "fle a (fadd a b)"
proof -
  have z: "feq (fadd a fzero) a" using fadd_zero [OF assms(1), of False] by (simp add: fzero_eq)
  then have "fle (fadd a fzero) (fadd a b)"
    using assms by (intro fadd_mono) (auto simp: feq_def)
  moreover have "fle a (fadd a fzero)" using z by (auto simp: feq_def fle_def)
  ultimately show ?thesis by (rule fle_trans [rotated])
qed

section \<open>Builtin and library maxima\<close>

lemma gomax_nan: "is_nan (gomax a b) \<longleftrightarrow> is_nan a \<or> is_nan b"
  by (auto simp: gomax_def)

lemma gomax_ge:
  assumes "\<not> is_nan a" "\<not> is_nan b"
  shows "fle a (gomax a b)" and "fle b (gomax a b)"
  using assms by (auto simp: gomax_def fle_def flt_def)

lemma gomax_cases:
  "\<not> is_nan a \<Longrightarrow> \<not> is_nan b \<Longrightarrow> gomax a b = a \<or> gomax a b = b"
  by (auto simp: gomax_def)

lemma gomax_le: "fle a c \<Longrightarrow> fle b c \<Longrightarrow> fle (gomax a b) c"
  by (auto simp: gomax_def fle_def)

lemma gomax_mono: "fle a a' \<Longrightarrow> fle b b' \<Longrightarrow> fle (gomax a b) (gomax a' b')"
  by (meson fle_nan fle_trans gomax_ge gomax_le)

lemma mathMax_nan: "\<not> is_nan a \<Longrightarrow> \<not> is_nan b \<Longrightarrow> \<not> is_nan (mathMax a b)"
  by (auto simp: mathMax_def)

lemma mathMax_cases: "\<not> is_nan a \<Longrightarrow> \<not> is_nan b \<Longrightarrow>
    mathMax a b = a \<and> fle b a \<or> mathMax a b = b \<and> fle a b"
  by (auto simp: mathMax_def feq_def not_flt dest: flt_fle) (auto simp: fle_def)

lemma mathMax_ge:
  assumes "\<not> is_nan a" "\<not> is_nan b"
  shows "fle a (mathMax a b)" and "fle b (mathMax a b)"
  using mathMax_cases [OF assms] assms by auto

lemma mathMax_le: "fle a c \<Longrightarrow> fle b c \<Longrightarrow> fle (mathMax a b) c"
  by (metis fle_nan(1) mathMax_cases)

lemma fadd_commute: "fadd a b = fadd b a"
  by (cases a; cases b) (auto simp: add.commute conj_commute)

lemma nonneg_fadd:
  assumes "fle fzero a" "fle fzero b"
  shows "fle fzero (fadd a b)" and "fle a (fadd a b)" and "fle b (fadd a b)"
proof -
  note n = nonneg_fadd_nan [OF assms]
  show a: "fle a (fadd a b)" using assms n by (intro fadd_ge_left) (auto dest: fle_nan)
  show "fle fzero (fadd a b)" using assms(1) a by (rule fle_trans)
  show "fle b (fadd a b)"
    using fadd_ge_left [of b a] assms n by (auto simp: fadd_commute [of b a] dest: fle_nan)
qed

section \<open>Products, quotients and rounding to integers\<close>

lemma fle_fround_val: "val a \<le> q \<Longrightarrow> a = Num s m \<Longrightarrow> fle a (fround t q)"
proof -
  assume q: "val a \<le> q" and a: "a = Num s m"
  have "fle a (fround t (val a))"
    using fround_rep [OF rep64_val, of t a] by (simp add: fle_def a)
  also have "fle (fround t (val a)) (fround t q)" by (rule fle_fround [OF q])
  finally show ?thesis .
qed

lemma fround_fle_val: "q \<le> val a \<Longrightarrow> a = Num s m \<Longrightarrow> fle (fround t q) a"
proof -
  assume q: "q \<le> val a" and a: "a = Num s m"
  have "fle (fround t q) (fround t (val a))" by (rule fle_fround [OF q])
  also have "fle (fround t (val a)) a"
    using fround_rep [OF rep64_val, of t a] by (simp add: fle_def a)
  finally show ?thesis .
qed

lemma rep64_lit [simp]: "rep64 q \<Longrightarrow> val (lit q) = q" "rep64 q \<Longrightarrow> rk (lit q) = 0" "\<not> is_nan (lit q)"
  by (simp_all add: lit_def fround_rep)

lemma rep64_0 [simp]: "rep64 0" by (simp add: rep64_def)

lemma rep64_1 [simp]: "rep64 1"
  using rep64_dyadic [of 1 0] by (simp add: pow2_def)

text \<open>The finite values, with their operations in terms of \<open>val\<close>.\<close>

definition is_num :: "float64 \<Rightarrow> bool" where
  "is_num a \<longleftrightarrow> \<not> is_nan a \<and> rk a = 0"

lemma is_num_iff: "is_num a \<longleftrightarrow> (\<exists>s m. a = Num s m)"
  by (cases a) (auto simp: is_num_def)

lemma num_cases: "\<not> is_nan a \<Longrightarrow> a = Infty True \<or> a = Infty False \<or> is_num a"
  by (cases a) (auto simp: is_num_def)

lemma fle_num: "is_num a \<Longrightarrow> is_num b \<Longrightarrow> fle a b \<longleftrightarrow> val a \<le> val b"
  by (auto simp: fle_def is_num_def)

lemma fle_num_cases:
  "fle a b \<Longrightarrow> a = Infty True \<or> b = Infty False \<or> is_num a \<and> is_num b \<and> val a \<le> val b"
  by (cases a; cases b) (auto simp: fle_def is_num_def split: if_splits)

lemma fzero_le: "fle fzero a \<longleftrightarrow> a = Infty False \<or> is_num a \<and> 0 \<le> val a"
  by (cases a) (auto simp: fle_def is_num_def)

lemma fmul_num: "is_num a \<Longrightarrow> is_num b \<Longrightarrow> \<exists>s. fmul a b = fround s (val a * val b)"
  by (auto simp only: is_num_iff fmul.simps)

lemma fdiv_num: "is_num a \<Longrightarrow> is_num b \<Longrightarrow> val b \<noteq> 0 \<Longrightarrow> \<exists>s. fdiv a b = fround s (val a / val b)"
  by (auto simp: is_num_iff)

lemma fround_ge: "is_num a \<Longrightarrow> val a \<le> q \<Longrightarrow> fle a (fround t q)"
  by (auto simp only: is_num_iff intro: fle_fround_val)

lemma fround_le: "is_num a \<Longrightarrow> q \<le> val a \<Longrightarrow> fle (fround t q) a"
  by (auto simp only: is_num_iff intro: fround_fle_val)

lemma is_num_lit [simp]: "rep64 q \<Longrightarrow> is_num (lit q)"
  by (simp add: is_num_def)

lemma fround_not_nan [simp]: "\<not> is_nan (fround s q)"
  by (simp add: fround_def Let_def)

lemma fround_nonneg: "0 \<le> q \<Longrightarrow> fle fzero (fround s q)"
  by (rule fround_ge) simp_all

lemma fmul_nonneg:
  assumes "fle fzero a" "fle fzero b" "\<not> is_nan (fmul a b)"
  shows "fle fzero (fmul a b)"
proof (cases "is_num a \<and> is_num b")
  case True
  then obtain s where "fmul a b = fround s (val a * val b)" using fmul_num by blast
  then show ?thesis using True assms by (auto simp: fzero_le [of a] fzero_le [of b] intro!: fround_nonneg)
next
  case False
  then show ?thesis using assms
    by (cases a; cases b) (auto simp: fle_def is_num_def split: if_splits)
qed

lemma fmul_le_left:
  assumes "fle fzero a" "fle fzero r" "fle r (lit 1)" "\<not> is_nan (fmul a r)"
  shows "fle (fmul a r) a"
proof -
  have r: "is_num r" "0 \<le> val r" "val r \<le> 1"
    using assms(2,3) fle_num_cases [OF assms(2)] fle_num_cases [OF assms(3)]
    by (auto simp: fzero_le fle_num is_num_def fle_def)
  consider "a = Infty False" | "is_num a" "0 \<le> val a" using assms(1) by (auto simp: fzero_le)
  then show ?thesis
  proof cases
    case 2
    then have "val a * val r \<le> val a" using r by (simp add: mult_left_le)
    then show ?thesis using fmul_num [OF 2(1) r(1)] fround_le [OF 2(1)] by auto
  qed (use assms in auto)
qed

lemma fdiv_le_one:
  assumes "fle fzero a" "fle a b" "\<not> is_nan (fdiv a b)"
  shows "fle (fdiv a b) (lit 1)" and "fle fzero (fdiv a b)"
proof -
  have "fle fzero b" using assms(1,2) by (rule fle_trans)
  then consider (inf) "b = Infty False" | (num) "is_num b" "0 \<le> val b" by (auto simp: fzero_le)
  then have "fle (fdiv a b) (lit 1) \<and> fle fzero (fdiv a b)"
  proof cases
    case inf
    then show ?thesis using assms by (cases a) (auto simp: fle_def)
  next
    case num
    then have a: "is_num a" "0 \<le> val a" "val a \<le> val b"
      using assms(1,2) by (auto simp: fzero_le fle_def is_num_def)
    have nz: "val b \<noteq> 0"
      using assms(3) a num by (cases a; cases b) (auto simp: is_num_def split: if_splits)
    then have "val a / val b \<le> 1" "0 \<le> val a / val b" using a num by (simp_all add: divide_le_eq)
    then show ?thesis using fdiv_num [OF a(1) num(1) nz] fround_nonneg
        fround_le [of "lit 1" "val a / val b"] by auto
  qed
  then show "fle (fdiv a b) (lit 1)" and "fle fzero (fdiv a b)" by simp_all
qed

lemma pos_scale:
  assumes "rep64 k" "0 < k"
  shows "fmul (Infty s) (lit k) = Infty s" "fdiv (Infty s) (lit k) = Infty s"
    "fmul NaN (lit k) = NaN" "fdiv NaN (lit k) = NaN"
proof -
  obtain m where "lit k = Num False m" "mag_val m = k"
    using assms by (auto simp: lit_def fround_def Let_def rep64_def mag_val_mk)
  then show "fmul (Infty s) (lit k) = Infty s" "fdiv (Infty s) (lit k) = Infty s"
    "fmul NaN (lit k) = NaN" "fdiv NaN (lit k) = NaN"
    using assms(2) by auto
qed

lemma scale_nan:
  assumes "rep64 k" "0 < k"
  shows "is_nan (fmul a (lit k)) \<longleftrightarrow> is_nan a" "is_nan (fdiv a (lit k)) \<longleftrightarrow> is_nan a"
proof -
  have k: "is_num (lit k)" "val (lit k) \<noteq> 0" using assms by simp_all
  show "is_nan (fmul a (lit k)) \<longleftrightarrow> is_nan a"
    using num_cases [of a] pos_scale [OF assms] fmul_num [OF _ k(1), of a]
    by (auto simp: is_nan_iff) (metis fround_nan is_nan.simps(1))
  show "is_nan (fdiv a (lit k)) \<longleftrightarrow> is_nan a"
    using num_cases [of a] pos_scale [OF assms] fdiv_num [OF _ k, of a]
    by (auto simp: is_nan_iff) (metis fround_nan is_nan.simps(1))
qed

lemma fmul_const_mono:
  assumes "fle a b" "rep64 k" "0 < k"
  shows "fle (fmul a (lit k)) (fmul b (lit k))"
proof -
  have k: "is_num (lit k)" "val (lit k) = k" using assms by simp_all
  consider "a = Infty True" | "b = Infty False" | (num) "is_num a" "is_num b" "val a \<le> val b"
    using fle_num_cases [OF assms(1)] by blast
  then show ?thesis
  proof cases
    case num
    then show ?thesis using fmul_num [OF num(1) k(1)] fmul_num [OF num(2) k(1)] assms(3) k(2)
      by (auto intro!: fle_fround mult_right_mono)
  qed (use assms fle_nan [OF assms(1)] in \<open>auto simp: pos_scale scale_nan\<close>)
qed

lemma fdiv_const_mono:
  assumes "fle a b" "rep64 k" "0 < k"
  shows "fle (fdiv a (lit k)) (fdiv b (lit k))"
proof -
  have k: "is_num (lit k)" "val (lit k) \<noteq> 0" "val (lit k) = k" using assms by simp_all
  consider "a = Infty True" | "b = Infty False" | (num) "is_num a" "is_num b" "val a \<le> val b"
    using fle_num_cases [OF assms(1)] by blast
  then show ?thesis
  proof cases
    case num
    then show ?thesis using fdiv_num [OF num(1) k(1,2)] fdiv_num [OF num(2) k(1,2)] assms(3) k(3)
      by (auto intro!: fle_fround divide_right_mono)
  qed (use assms fle_nan [OF assms(1)] in \<open>auto simp: pos_scale scale_nan\<close>)
qed

lemma half_away_mono: "p \<le> q \<Longrightarrow> half_away p \<le> half_away q"
proof -
  assume le: "p \<le> q"
  consider "0 \<le> p" | "q < 0" | "p < 0" "0 \<le> q" using le by linarith
  then show ?thesis
  proof cases
    case 3
    have "0 \<le> \<lfloor>1/2 - p\<rfloor>" "0 \<le> \<lfloor>q + 1/2\<rfloor>" using 3 by (auto simp: le_floor_iff)
    then show ?thesis using 3 by (simp add: half_away_def del: zero_le_floor)
  qed (use le in \<open>auto simp: half_away_def intro!: floor_mono\<close>)
qed

lemma half_away_of_int [simp]: "half_away (of_int k) = k"
proof -
  have "\<lfloor>rat_of_int j + 1/2\<rfloor> = j" for j by (rule floor_unique) simp_all
  from this [of k] this [of "- k"] show ?thesis
    by (simp add: half_away_def add.commute)
qed

lemma half_away_numeral [simp]:
  "half_away (numeral n) = numeral n" "half_away 0 = 0" "half_away 1 = 1"
  using half_away_of_int [of "numeral n"] half_away_of_int [of 0] half_away_of_int [of 1] by simp_all

lemma mathCeil_ge: "\<not> is_nan a \<Longrightarrow> fle a (mathCeil a)"
proof (cases "is_num a")
  case True
  then obtain s m where a: "a = Num s m" by (auto simp: is_num_iff)
  have "fle a (fround s (of_int \<lceil>val a\<rceil>))" using True by (intro fround_ge) auto
  then show ?thesis by (simp add: a)
next
  case False
  then show "\<not> is_nan a \<Longrightarrow> ?thesis" by (cases a) (auto simp: is_num_def)
qed

lemma mathRound_num: "is_num a \<Longrightarrow> \<exists>s. mathRound a = fround s (of_int (half_away (val a)))"
  by (auto simp only: is_num_iff mathRound.simps)

lemma mathRound_nan [simp]: "is_nan (mathRound a) \<longleftrightarrow> is_nan a"
  by (cases a) auto

lemma mathRound_mono:
  assumes "fle a b" shows "fle (mathRound a) (mathRound b)"
proof -
  consider "a = Infty True" | "b = Infty False" | (num) "is_num a" "is_num b" "val a \<le> val b"
    using fle_num_cases [OF assms] by blast
  then show ?thesis
  proof cases
    case num
    then show ?thesis using mathRound_num [OF num(1)] mathRound_num [OF num(2)] half_away_mono [OF num(3)]
      by (auto intro!: fle_fround)
  qed (use fle_nan [OF assms] in auto)
qed

section \<open>Evaluation on literals\<close>

lemma rep64_numeral [simp]:
  assumes "(numeral n :: int) \<le> 2 ^ 53" shows "rep64 (numeral n)"
  using rep64_dyadic [of "numeral n" 0] assms by (simp add: pow2_def)

lemma dvd_two_power: "(d::nat) dvd 2 ^ n \<Longrightarrow> \<exists>k\<le>n. d = 2 ^ k"
proof (induction n arbitrary: d)
  case (Suc n)
  show ?case
  proof (cases "even d")
    case True
    then obtain c where c: "d = 2 * c" by blast
    then have "c dvd 2 ^ n" using Suc.prems by simp
    then obtain k where "k \<le> n" "c = 2 ^ k" using Suc.IH by blast
    then show ?thesis using c by (intro exI [of _ "Suc k"]) simp
  next
    case False
    then have "coprime d 2" by simp
    then have "d dvd 2 ^ n" using Suc.prems by (simp add: coprime_dvd_mult_right_iff)
    then show ?thesis using Suc.IH [of d] by (meson le_SucI)
  qed
qed simp

lemma rep64_frac:
  assumes "\<bar>m\<bar> \<le> 2 ^ 53" "nat d dvd 2 ^ 60" "0 < d"
  shows "rep64 (of_int m / of_int d)"
proof -
  obtain k where k: "k \<le> 60" "nat d = 2 ^ k"
    using dvd_two_power [OF assms(2)] by auto
  then have "d = 2 ^ k" using assms(3) by (metis int_nat_eq less_imp_le of_nat_numeral of_nat_power)
  then have "of_int m / of_int d = of_int m * pow2 (- int k)"
    by (simp add: pow2_def field_simps)
  then show ?thesis using rep64_dyadic [of m "- int k"] assms(1) k(1) by simp
qed

lemma rep64_frac_numeral [simp]:
  assumes "(numeral m :: int) \<le> 2 ^ 53" "(numeral d :: nat) dvd 2 ^ 60"
  shows "rep64 (numeral m / numeral d)"
  using rep64_frac [of "numeral m" "numeral d"] assms by simp

lemma rep64_one_frac [simp]: "(numeral d :: nat) dvd 2 ^ 60 \<Longrightarrow> rep64 (1 / numeral d)"
  using rep64_frac [of 1 "numeral d"] by simp

lemma lit_num: "rep64 a \<Longrightarrow> lit a = Num (a < 0) (mk_mag \<bar>a\<bar>)"
  by (auto simp: lit_def fround_def Let_def rep64_def)

lemma val_num_lit: "rep64 a \<Longrightarrow> val (Num (a < 0) (mk_mag \<bar>a\<bar>)) = a"
  by (metis lit_num rep64_lit(1))

lemma lit_eq [f64_eval]: "rep64 a \<Longrightarrow> rep64 b \<Longrightarrow> lit a = lit b \<longleftrightarrow> a = b"
  by (metis rep64_lit(1))

lemma lit_cmp [f64_eval]:
  assumes "rep64 a" "rep64 b"
  shows "flt (lit a) (lit b) \<longleftrightarrow> a < b" "fle (lit a) (lit b) \<longleftrightarrow> a \<le> b"
    "feq (lit a) (lit b) \<longleftrightarrow> a = b"
  using assms by (auto simp: flt_def fle_def feq_def)

lemma fadd_lit [f64_eval]:
  assumes "rep64 a" "rep64 b" shows "fadd (lit a) (lit b) = lit (a + b)"
proof -
  have "fadd (lit a) (lit b) = fround (a < 0 \<and> b < 0) (a + b)"
    using assms by (simp add: lit_num val_num_lit del: val.simps)
  also have "\<dots> = lit (a + b)" by (auto simp: lit_def fround_def Let_def)
  finally show ?thesis .
qed

lemma val_fneg: "val (fneg a) = - val a"
  by (cases a) auto

lemma fsub_num: "is_num a \<Longrightarrow> is_num b \<Longrightarrow> \<exists>s. fsub a b = fround s (val a - val b)"
proof -
  assume "is_num a" "is_num b"
  then obtain s m t n where e: "a = Num s m" "b = Num t n" by (auto simp: is_num_iff)
  have "val (Num (\<not> t) n) = - val (Num t n)" by simp
  then have "fsub a b = fround (s \<and> \<not> t) (val a - val b)"
    unfolding e by (simp add: fsub_def del: val.simps)
  then show ?thesis ..
qed

lemma fsub_lit [f64_eval]:
  assumes "rep64 a" "rep64 b" shows "fsub (lit a) (lit b) = lit (a - b)"
proof -
  have "fsub (lit a) (lit b) = fround (a < 0 \<and> \<not> b < 0) (a - b)"
    using assms val_fneg [of "lit b"]
    by (simp add: fsub_def lit_num val_num_lit del: val.simps)
  also have "\<dots> = lit (a - b)" by (auto simp: lit_def fround_def Let_def)
  finally show ?thesis .
qed

lemma fmul_lit [f64_eval]:
  assumes "rep64 a" "rep64 b" "0 \<le> a \<and> 0 \<le> b \<or> a * b \<noteq> 0"
  shows "fmul (lit a) (lit b) = lit (a * b)"
proof -
  have "fmul (lit a) (lit b) = fround ((a < 0) \<noteq> (b < 0)) (a * b)"
    using assms by (simp add: lit_num val_num_lit del: val.simps)
  also have "\<dots> = lit (a * b)" using assms(3) by (auto simp: lit_def fround_def Let_def)
  finally show ?thesis .
qed

lemma fdiv_lit [f64_eval]:
  assumes "rep64 a" "rep64 b" "b \<noteq> 0" "0 \<le> a \<and> 0 \<le> b \<or> a \<noteq> 0"
  shows "fdiv (lit a) (lit b) = lit (a / b)"
proof -
  have "mag_val (mk_mag \<bar>b\<bar>) = \<bar>b\<bar>" using assms(2) by (simp add: rep64_def mag_val_mk)
  then have "fdiv (lit a) (lit b) = fround ((a < 0) \<noteq> (b < 0)) (a / b)"
    using assms by (simp add: lit_num val_num_lit del: val.simps)
  also have "\<dots> = lit (a / b)" using assms(3,4) by (auto simp: lit_def fround_def Let_def)
  finally show ?thesis .
qed

lemma signbit_lit: "rep64 a \<Longrightarrow> signbit (lit a) \<longleftrightarrow> a < 0"
  by (simp add: lit_num)

lemma gomax_lit [f64_eval]: "rep64 a \<Longrightarrow> rep64 b \<Longrightarrow> gomax (lit a) (lit b) = lit (max a b)"
  by (auto simp: gomax_def lit_cmp max_def)

lemma gomin_lit [f64_eval]: "rep64 a \<Longrightarrow> rep64 b \<Longrightarrow> gomin (lit a) (lit b) = lit (min a b)"
  by (auto simp: gomin_def lit_cmp min_def)

lemma mathMax_lit [f64_eval]: "rep64 a \<Longrightarrow> rep64 b \<Longrightarrow> mathMax (lit a) (lit b) = lit (max a b)"
proof -
  assume r: "rep64 a" "rep64 b"
  have "lit a \<noteq> Infty False" "lit b \<noteq> Infty False" using r by (simp_all add: lit_num)
  then show ?thesis using r by (auto simp: mathMax_def lit_cmp max_def signbit_lit)
qed

lemma mathAbs_lit [f64_eval]: "rep64 a \<Longrightarrow> mathAbs (lit a) = lit \<bar>a\<bar>"
  by (simp add: lit_num) (simp add: rep64_def lit_num)

lemma mathRound_lit [f64_eval]:
  assumes "rep64 a" "0 \<le> a \<or> half_away a \<noteq> 0"
  shows "mathRound (lit a) = lit (of_int (half_away a))"
proof -
  have "mathRound (lit a) = fround (a < 0) (of_int (half_away a))"
    using assms by (simp add: lit_num val_num_lit del: val.simps)
  also have "\<dots> = lit (of_int (half_away a))"
    using assms(2) by (auto simp: lit_def fround_def Let_def)
  finally show ?thesis .
qed

lemma mathCeil_lit [f64_eval]:
  assumes "rep64 a" "0 \<le> a \<or> \<lceil>a\<rceil> \<noteq> 0"
  shows "mathCeil (lit a) = lit (of_int \<lceil>a\<rceil>)"
proof -
  have "mathCeil (lit a) = fround (a < 0) (of_int \<lceil>a\<rceil>)"
    using assms by (simp add: lit_num val_num_lit del: val.simps)
  also have "\<dots> = lit (of_int \<lceil>a\<rceil>)"
    using assms(2) by (auto simp: lit_def fround_def Let_def)
  finally show ?thesis .
qed

lemma f64_of_int_lit [f64_eval]: "f64_of_int i = lit (of_int i)"
  by (simp add: f64_of_int_def)

text \<open>The decimal constant \<open>0.001\<close> is not representable; this is the double Go uses.\<close>

lemma rnd_milli: "rnd (1 / 1000) = 1152921504606847 / 1152921504606846976"
  by code_simp

lemma lit_rnd:
  assumes "rnd q = r" "0 \<le> q" "rep64 r" shows "lit q = lit r"
proof (cases "q = 0")
  case False
  have "rnd \<bar>q\<bar> = r" using assms by simp
  moreover have "0 \<le> r" using assms(1) by auto
  ultimately show ?thesis using assms(2,3) False
    by (auto simp: lit_def fround_def Let_def rep64_def mag_eq_iff mag_val_mk)
qed (use assms in simp)

lemma lit_milli [f64_eval]: "lit (1 / 1000) = lit (1152921504606847 / 1152921504606846976)"
  by (rule lit_rnd [OF rnd_milli]) simp_all

end
