(* ===== verification/GoStrings.thy ===== *)
theory GoStrings
  imports Prelude
begin

text \<open>
  The functions of Go's \<^verbatim>\<open>strings\<close>, \<^verbatim>\<open>strconv\<close> and \<^verbatim>\<open>regexp\<close> packages that the
  program uses, on byte strings. Case folding and white space are those of ASCII; Kubernetes
  object, namespace, container and resource names are restricted to ASCII. The two fixed
  regular expressions of the program, each a dash and a suffix anchored at the end, are
  matched by splitting at the last dash.
\<close>

section \<open>Splitting and joining\<close>

text \<open>\<^verbatim>\<open>strings.Split\<close> with a separator of one character.\<close>

fun split_on :: "char \<Rightarrow> string \<Rightarrow> string list" where
  "split_on c [] = [[]]"
| "split_on c (x # xs) =
     (if x = c then [] # split_on c xs
      else (case split_on c xs of [] \<Rightarrow> [[x]] | p # ps \<Rightarrow> (x # p) # ps))"

fun join_with :: "string \<Rightarrow> string list \<Rightarrow> string" where
  "join_with sep [] = []"
| "join_with sep [p] = p"
| "join_with sep (p # ps) = p @ sep @ join_with sep ps"

lemma split_on_nonempty [simp]: "split_on c s \<noteq> []"
  by (induction s) (auto split: list.splits)

lemma split_on_no_sep: "c \<notin> set s \<Longrightarrow> split_on c s = [s]"
  by (induction s) auto

lemma split_on_append: "c \<notin> set p \<Longrightarrow> split_on c (p @ c # s) = p # split_on c s"
  by (induction p) auto

lemma split_on_join:
  "ps \<noteq> [] \<Longrightarrow> \<forall>p \<in> set ps. c \<notin> set p \<Longrightarrow> split_on c (join_with [c] ps) = ps"
proof (induction "[c]" ps rule: join_with.induct)
  case (3 p q ps)
  then show ?case using split_on_append [of c p] by simp
qed (auto simp: split_on_no_sep)

lemma join_split: "join_with [c] (split_on c s) = s"
proof (induction s)
  case (Cons x xs)
  obtain p ps where sp: "split_on c xs = p # ps"
    using split_on_nonempty neq_Nil_conv by metis
  show ?case
  proof (cases "x = c")
    case True
    then show ?thesis using Cons sp by simp
  next
    case False
    then show ?thesis using Cons sp by (cases ps) auto
  qed
qed simp

lemma split_on_parts: "p \<in> set (split_on c s) \<Longrightarrow> c \<notin> set p"
proof (induction s arbitrary: p)
  case (Cons x xs)
  obtain q qs where "split_on c xs = q # qs"
    using split_on_nonempty neq_Nil_conv by metis
  then show ?case using Cons by (auto split: if_splits)
qed simp

section \<open>Prefixes, replacement, case\<close>

definition HasPrefix :: "string \<Rightarrow> string \<Rightarrow> bool" where
  "HasPrefix s p \<longleftrightarrow> take (length p) s = p"

definition HasSuffix :: "string \<Rightarrow> string \<Rightarrow> bool" where
  "HasSuffix s p \<longleftrightarrow> length p \<le> length s \<and> drop (length s - length p) s = p"

definition TrimPrefix :: "string \<Rightarrow> string \<Rightarrow> string" where
  "TrimPrefix s p = (if HasPrefix s p then drop (length p) s else s)"

fun Contains :: "string \<Rightarrow> string \<Rightarrow> bool" where
  "Contains [] p \<longleftrightarrow> p = []"
| "Contains (x # xs) p \<longleftrightarrow> HasPrefix (x # xs) p \<or> Contains xs p"

text \<open>\<^verbatim>\<open>strings.ReplaceAll\<close> of one character.\<close>

definition ReplaceAll1 :: "string \<Rightarrow> char \<Rightarrow> string \<Rightarrow> string" where
  "ReplaceAll1 s c r = concat (map (\<lambda>x. if x = c then r else [x]) s)"

lemma ReplaceAll1_id: "c \<notin> set s \<Longrightarrow> ReplaceAll1 s c r = s"
  by (induction s) (auto simp: ReplaceAll1_def)

definition to_lower_char :: "char \<Rightarrow> char" where
  "to_lower_char c =
     (let n = (of_char c :: nat) in if 65 \<le> n \<and> n \<le> 90 then char_of (n + 32) else c)"

definition ToLower :: "string \<Rightarrow> string" where
  "ToLower s = map to_lower_char s"

definition EqualFold :: "string \<Rightarrow> string \<Rightarrow> bool" where
  "EqualFold a b \<longleftrightarrow> ToLower a = ToLower b"

lemma EqualFold_refl [simp]: "EqualFold a a"
  by (simp add: EqualFold_def)

lemma EqualFold_sym: "EqualFold a b \<Longrightarrow> EqualFold b a"
  by (simp add: EqualFold_def)

text \<open>\<^verbatim>\<open>strings.Fields\<close>: maximal runs of characters that are not white space.\<close>

definition is_space :: "char \<Rightarrow> bool" where
  "is_space c \<longleftrightarrow> (let n = (of_char c :: nat) in n = 32 \<or> (9 \<le> n \<and> n \<le> 13))"

fun fields_aux :: "string \<Rightarrow> string \<Rightarrow> string list" where
  "fields_aux acc [] = (if acc = [] then [] else [rev acc])"
| "fields_aux acc (x # xs) =
     (if is_space x then (if acc = [] then fields_aux [] xs else rev acc # fields_aux [] xs)
      else fields_aux (x # acc) xs)"

definition Fields :: "string \<Rightarrow> string list" where
  "Fields s = fields_aux [] s"

lemma fields_aux_word:
  "\<forall>x \<in> set w. \<not> is_space x \<Longrightarrow> fields_aux acc (w @ s) = fields_aux (rev w @ acc) s"
  by (induction w arbitrary: acc) auto

lemma Fields_join:
  "\<forall>p \<in> set ps. p \<noteq> [] \<and> (\<forall>x \<in> set p. \<not> is_space x) \<Longrightarrow> Fields (join_with '' '' ps) = ps"
proof (induction "'' ''" ps rule: join_with.induct)
  case (2 p)
  then show ?case using fields_aux_word [of p "[]" "[]"] by (simp add: Fields_def)
next
  case (3 p q ps)
  have "Fields (p @ '' '' @ join_with '' '' (q # ps)) = p # Fields (join_with '' '' (q # ps))"
    using 3(2) fields_aux_word [of p "[]"] by (simp add: Fields_def is_space_def)
  then show ?case using 3 by simp
qed (simp add: Fields_def)

section \<open>Numbers\<close>

fun show_nat :: "nat \<Rightarrow> string" where
  "show_nat n =
     (if n < 10 then [char_of (48 + n)] else show_nat (n div 10) @ [char_of (48 + n mod 10)])"

declare show_nat.simps [simp del]

definition show_int :: "int \<Rightarrow> string" where
  "show_int i = (if i < 0 then ''-'' @ show_nat (nat (- i)) else show_nat (nat i))"

section \<open>The two suffix patterns\<close>

text \<open>Split at the last dash: \<open>Some (before, after)\<close>.\<close>

definition split_last_dash :: "string \<Rightarrow> (string \<times> string) option" where
  "split_last_dash s =
     (if CHR ''-'' \<in> set s
      then Some (rev (tl (dropWhile (\<lambda>c. c \<noteq> CHR ''-'') (rev s))),
                 rev (takeWhile (\<lambda>c. c \<noteq> CHR ''-'') (rev s)))
      else None)"

lemma split_last_dash_app:
  "CHR ''-'' \<notin> set h \<Longrightarrow> split_last_dash (p @ ''-'' @ h) = Some (p, h)"
proof -
  assume h: "CHR ''-'' \<notin> set h"
  have r: "rev (p @ ''-'' @ h) = rev h @ CHR ''-'' # rev p" by simp
  have "takeWhile (\<lambda>c. c \<noteq> CHR ''-'') (rev h @ CHR ''-'' # rev p) = rev h"
    using h by (subst takeWhile_append2) auto
  moreover have "dropWhile (\<lambda>c. c \<noteq> CHR ''-'') (rev h @ CHR ''-'' # rev p) = CHR ''-'' # rev p"
    using h by (subst dropWhile_append2) auto
  ultimately show ?thesis unfolding split_last_dash_def r by simp
qed

lemma split_last_dash_SomeD:
  assumes "split_last_dash s = Some (p, h)"
  shows "s = p @ ''-'' @ h" and "CHR ''-'' \<notin> set h"
proof -
  let ?P = "\<lambda>c. c \<noteq> CHR ''-''"
  have d: "CHR ''-'' \<in> set s" and p: "p = rev (tl (dropWhile ?P (rev s)))"
    and h: "h = rev (takeWhile ?P (rev s))"
    using assms by (auto simp: split_last_dash_def split: if_splits)
  have ne: "dropWhile ?P (rev s) \<noteq> []" using d by (auto simp: dropWhile_eq_Nil_conv)
  then have "hd (dropWhile ?P (rev s)) = CHR ''-''" using hd_dropWhile by blast
  then have "dropWhile ?P (rev s) = CHR ''-'' # rev p" using ne p by (metis list.collapse rev_rev_ident)
  then have "rev s = rev h @ CHR ''-'' # rev p"
    using h takeWhile_dropWhile_id [of ?P "rev s"] by (metis rev_rev_ident)
  then have "rev (rev s) = rev (rev h @ CHR ''-'' # rev p)" by (rule arg_cong)
  then show "s = p @ ''-'' @ h" by simp
  show "CHR ''-'' \<notin> set h" using h by (auto dest: set_takeWhileD)
qed

definition is_hex :: "char \<Rightarrow> bool" where
  "is_hex c \<longleftrightarrow> (let n = (of_char c :: nat) in (48 \<le> n \<and> n \<le> 57) \<or> (97 \<le> n \<and> n \<le> 102))"

definition is_alnum :: "char \<Rightarrow> bool" where
  "is_alnum c \<longleftrightarrow> (let n = (of_char c :: nat) in (48 \<le> n \<and> n \<le> 57) \<or> (97 \<le> n \<and> n \<le> 122))"

section \<open>Words of a text\<close>

lemma fields_aux_words:
  "\<forall>x \<in> set acc. \<not> is_space x \<Longrightarrow> p \<in> set (fields_aux acc s) \<Longrightarrow> p \<noteq> [] \<and> (\<forall>x \<in> set p. \<not> is_space x)"
proof (induction s arbitrary: acc)
  case (Cons x xs)
  show ?case
  proof (cases "is_space x")
    case True
    have "p = rev acc \<and> acc \<noteq> [] \<or> p \<in> set (fields_aux [] xs)"
      using Cons.prems(2) True by (simp split: if_splits)
    then show ?thesis
    proof
      assume "p \<in> set (fields_aux [] xs)"
      then show ?thesis by (intro Cons.IH [of "[]"]) simp_all
    qed (use Cons.prems(1) in simp)
  next
    case False
    show ?thesis by (rule Cons.IH [of "x # acc"]) (use Cons.prems False in simp_all)
  qed
qed (simp split: if_splits)

lemma Fields_words: "p \<in> set (Fields s) \<Longrightarrow> p \<noteq> [] \<and> (\<forall>x \<in> set p. \<not> is_space x)"
  unfolding Fields_def by (rule fields_aux_words [of "[]"]) auto

lemma set_join: "set (join_with sep ps) \<subseteq> set sep \<union> \<Union> (set ` set ps)"
  by (induction sep ps rule: join_with.induct) auto

lemma join_nonempty: "p \<in> set ps \<Longrightarrow> p \<noteq> [] \<Longrightarrow> join_with sep ps \<noteq> []"
  by (induction sep ps rule: join_with.induct) auto

lemma join_Cons_nonempty: "length ps > 1 \<Longrightarrow> sep \<noteq> [] \<Longrightarrow> join_with sep ps \<noteq> []"
  by (cases "(sep, ps)" rule: join_with.cases) auto

lemma set_split: "p \<in> set (split_on c s) \<Longrightarrow> set p \<subseteq> set s"
proof (induction s arbitrary: p)
  case (Cons x xs)
  obtain q qs where q: "split_on c xs = q # qs"
    using split_on_nonempty neq_Nil_conv by metis
  have ih: "\<And>p. p \<in> set (q # qs) \<Longrightarrow> set p \<subseteq> set xs" using Cons.IH q by simp
  show ?case
  proof (cases "x = c")
    case True
    then have "p = [] \<or> p \<in> set (q # qs)" using Cons.prems q by simp
    then show ?thesis using ih [of p] by auto
  next
    case False
    then have "p = x # q \<or> p \<in> set (q # qs)" using Cons.prems q by auto
    then show ?thesis using ih [of p] ih [of q] by auto
  qed
qed simp

end
