(* ===== verification/Types.thy ===== *)
theory Types
  imports Float64_Order GoStrings
begin

text \<open>
  The data model of \<^verbatim>\<open>pkg/types\<close>: workload statistics with their constraints, metadata and
  per-container figures, the overrides a user sets, and the small accessors on them. Pointers
  that may be nil are options. A time is a number of nanoseconds since the epoch.
\<close>

type_synonym go_time = int

definition Hour :: int where "Hour = 3600 * 10 ^ 9"
definition Minute :: int where "Minute = 60 * 10 ^ 9"

section \<open>Constraints, metadata, overrides\<close>

record WorkloadConstraints =
  wc_BlockingConsolidation :: bool
  wc_PDB :: bool
  wc_DoNotDisruptAnnotation :: bool
  wc_Volume :: bool
  wc_Affinity :: bool
  wc_TopologySpreadConstraint :: bool
  wc_PodAntiAffinity :: bool
  wc_ExcludedAnnotation :: bool

type_synonym ExcludedCode = string

definition ExcludedCodeGPUWorkload :: ExcludedCode where "ExcludedCodeGPUWorkload = ''GPU_WORKLOAD''"
definition ExcludedCodeMemoryHPA :: ExcludedCode where "ExcludedCodeMemoryHPA = ''MEMORY_HPA''"
definition ExcludedCodeCPUHPA :: ExcludedCode where "ExcludedCodeCPUHPA = ''CPU_HPA''"
definition ExcludedCodeIncomplete :: ExcludedCode where "ExcludedCodeIncomplete = ''INCOMPLETE_STATS''"

record WorkloadStatMetadata =
  md_Excluded :: bool
  md_ExcludedCodes :: "ExcludedCode list"
  md_Incomplete :: bool
  md_IsGPUWorkload :: bool
  md_InDisruptionWindow :: bool

definition empty_metadata :: WorkloadStatMetadata where
  "empty_metadata = \<lparr>md_Excluded = False, md_ExcludedCodes = [], md_Incomplete = False,
     md_IsGPUWorkload = False, md_InDisruptionWindow = False\<rparr>"

type_synonym EvictionRanking = int

definition EvictionRankingDisabled :: EvictionRanking where "EvictionRankingDisabled = 1"
definition EvictionRankingLow :: EvictionRanking where "EvictionRankingLow = 2"
definition EvictionRankingMedium :: EvictionRanking where "EvictionRankingMedium = 3"
definition EvictionRankingHigh :: EvictionRanking where "EvictionRankingHigh = 4"

lemmas EvictionRanking_defs = EvictionRankingDisabled_def EvictionRankingLow_def
  EvictionRankingMedium_def EvictionRankingHigh_def

record DisruptionWindow =
  dw_StartCron :: string
  dw_EndCron :: string

record Overrides =
  ov_EvictionRanking :: "EvictionRanking option"
  ov_Enabled :: "bool option"
  ov_DisruptionWindows :: "DisruptionWindow list"

section \<open>Container and workload statistics\<close>

type_synonym ContainerType = int

definition InitContainer :: ContainerType where "InitContainer = 1"
definition SidecarContainer :: ContainerType where "SidecarContainer = 2"
definition AppContainer :: ContainerType where "AppContainer = 3"

lemmas ContainerType_defs = InitContainer_def SidecarContainer_def AppContainer_def

record CPUStats =
  cpu_P75 :: float64

record PSIAdjustedUsageStats =
  psi_P75 :: float64

record MemoryStats =
  mem_P75 :: float64
  mem_OOMMemory :: float64

record Memory7DayStats =
  m7_Max :: float64

record SimplePrediction =
  sp_WeeklyPrediction :: float64
  sp_HourlyPrediction :: float64
  sp_CurrentPrediction :: float64
  sp_MaxValue :: float64

record MLPercentiles =
  ml_Median :: float64
  ml_P90 :: float64
  ml_P95 :: float64
  ml_P99 :: float64

record ContainerStats =
  cs_ContainerName :: string
  cs_ContainerType :: ContainerType
  cs_CPUStats :: "CPUStats option"
  cs_PSIAdjustedUsage :: "PSIAdjustedUsageStats option"
  cs_MemoryStats :: "MemoryStats option"
  cs_Memory7Day :: "Memory7DayStats option"
  cs_MLPercentilesCPU :: "MLPercentiles option"
  cs_MLPercentilesCPUPSIAdjusted :: "MLPercentiles option"
  cs_SimplePredictionsCPU :: "SimplePrediction option"
  cs_MLPercentilesMemory :: "MLPercentiles option"
  cs_SimplePredictionsMemory :: "SimplePrediction option"

record OriginalContainerResources =
  oc_Name :: string
  oc_Type :: ContainerType
  oc_CPURequest :: float64
  oc_CPULimit :: float64
  oc_MemoryRequest :: float64
  oc_MemoryLimit :: float64

record WorkloadStat =
  ws_WorkloadIdentifier :: string
  ws_Kind :: string
  ws_Namespace :: string
  ws_Name :: string
  ws_CreationTime :: go_time
  ws_UpdatedAt :: go_time
  ws_IsHorizontallyAutoscaledOnCPU :: bool
  ws_IsHorizontallyAutoscaledOnMem :: bool
  ws_Constraints :: "WorkloadConstraints option"
  ws_EvictionRanking :: EvictionRanking
  ws_Replicas :: int
  ws_Metadata :: "WorkloadStatMetadata option"
  ws_ContainerStats :: "ContainerStats list"
  ws_OriginalContainerResources :: "OriginalContainerResources list"

definition IsGPUWorkload :: "WorkloadStat \<Rightarrow> bool" where
  "IsGPUWorkload w \<longleftrightarrow> (case ws_Metadata w of None \<Rightarrow> False | Some m \<Rightarrow> md_IsGPUWorkload m)"

definition IsIncomplete :: "WorkloadStat \<Rightarrow> bool" where
  "IsIncomplete w \<longleftrightarrow> (case ws_Metadata w of None \<Rightarrow> False | Some m \<Rightarrow> md_Incomplete m)"

definition HasExcludedCode :: "WorkloadStat option \<Rightarrow> ExcludedCode \<Rightarrow> bool" where
  "HasExcludedCode w code \<longleftrightarrow>
     (case w of None \<Rightarrow> False
      | Some w \<Rightarrow> (case ws_Metadata w of None \<Rightarrow> False
          | Some m \<Rightarrow> list_ex (\<lambda>c. c = code) (md_ExcludedCodes m)))"

definition HasExcludedCodes :: "WorkloadStat option \<Rightarrow> bool" where
  "HasExcludedCodes w \<longleftrightarrow>
     (case w of None \<Rightarrow> False
      | Some w \<Rightarrow> (case ws_Metadata w of None \<Rightarrow> False
          | Some m \<Rightarrow> length (md_ExcludedCodes m) > 0))"

text \<open>
  The pod request of a workload template: application and sidecar containers run together,
  init containers one after the other before them.
\<close>

fun total_request ::
    "(OriginalContainerResources \<Rightarrow> float64) \<Rightarrow> OriginalContainerResources list
     \<Rightarrow> float64 \<Rightarrow> float64 \<Rightarrow> float64" where
  "total_request f [] sumAppSidecar maxInit = gomax sumAppSidecar maxInit"
| "total_request f (r # rs) sumAppSidecar maxInit =
     (if oc_Type r = AppContainer \<or> oc_Type r = SidecarContainer
      then total_request f rs (fadd sumAppSidecar (f r)) maxInit
      else if oc_Type r = InitContainer
      then total_request f rs sumAppSidecar (gomax maxInit (f r))
      else total_request f rs sumAppSidecar maxInit)"

definition CalculateTotalCPURequest :: "WorkloadStat \<Rightarrow> float64" where
  "CalculateTotalCPURequest w =
     total_request oc_CPURequest (ws_OriginalContainerResources w) (lit 0) (lit 0)"

definition CalculateTotalMemoryRequest :: "WorkloadStat \<Rightarrow> float64" where
  "CalculateTotalMemoryRequest w =
     total_request oc_MemoryRequest (ws_OriginalContainerResources w) (lit 0) (lit 0)"

text \<open>Lookups by container name; \<open>None\<close> is the not-found error.\<close>

definition GetContainerStats :: "WorkloadStat \<Rightarrow> string \<Rightarrow> ContainerStats option" where
  "GetContainerStats w n = find (\<lambda>c. cs_ContainerName c = n) (ws_ContainerStats w)"

definition GetOriginalContainerResource ::
    "WorkloadStat \<Rightarrow> string \<Rightarrow> OriginalContainerResources option" where
  "GetOriginalContainerResource w n = find (\<lambda>c. oc_Name c = n) (ws_OriginalContainerResources w)"

section \<open>Workloads with overrides\<close>

record WorkloadOverridesEffective =
  oe_EvictionRanking :: EvictionRanking
  oe_Enabled :: bool
  oe_DisruptionWindows :: "DisruptionWindow list"

record WorkloadOverrideInfo =
  oi_WorkloadID :: string
  oi_Name :: string
  oi_Namespace :: string
  oi_Kind :: string
  oi_Overrides :: "WorkloadOverridesEffective option"

definition info_EffectiveEnabled :: "WorkloadOverrideInfo option \<Rightarrow> bool" where
  "info_EffectiveEnabled w \<longleftrightarrow>
     (case w of None \<Rightarrow> False
      | Some i \<Rightarrow> (case oi_Overrides i of None \<Rightarrow> False | Some e \<Rightarrow> oe_Enabled e))"

definition info_EffectiveEvictionRanking :: "WorkloadOverrideInfo option \<Rightarrow> EvictionRanking" where
  "info_EffectiveEvictionRanking w =
     (case w of None \<Rightarrow> EvictionRankingMedium
      | Some i \<Rightarrow> (case oi_Overrides i of None \<Rightarrow> EvictionRankingMedium
          | Some e \<Rightarrow> oe_EvictionRanking e))"

record WorkloadInCluster =
  wk_ClusterID :: string
  wk_WorkloadID :: string
  wk_Stat :: "WorkloadStat option"
  wk_Overrides :: "Overrides option"
  wk_GeneratedAt :: go_time
  wk_CreatedAt :: go_time
  wk_UpdatedAt :: go_time

definition OverridesWithDefaults :: "WorkloadInCluster \<Rightarrow> WorkloadOverridesEffective" where
  "OverridesWithDefaults w =
     (let ranking = (case wk_Stat w of None \<Rightarrow> EvictionRankingMedium | Some s \<Rightarrow> ws_EvictionRanking s)
      in case wk_Overrides w of
           None \<Rightarrow> \<lparr>oe_EvictionRanking = ranking, oe_Enabled = False, oe_DisruptionWindows = []\<rparr>
         | Some ov \<Rightarrow>
             \<lparr>oe_EvictionRanking = (case ov_EvictionRanking ov of None \<Rightarrow> ranking | Some r \<Rightarrow> r),
              oe_Enabled = (case ov_Enabled ov of None \<Rightarrow> False | Some b \<Rightarrow> b),
              oe_DisruptionWindows =
                (if length (ov_DisruptionWindows ov) > 0 then ov_DisruptionWindows ov else [])\<rparr>)"

definition EffectiveEnabled :: "WorkloadInCluster \<Rightarrow> bool" where
  "EffectiveEnabled w = oe_Enabled (OverridesWithDefaults w)"

definition EffectiveEvictionRanking :: "WorkloadInCluster \<Rightarrow> EvictionRanking" where
  "EffectiveEvictionRanking w = oe_EvictionRanking (OverridesWithDefaults w)"

section \<open>Stored recommendations, events, snapshots and settings\<close>

record PodResourceRecommendation =
  rc_CPURequest :: float64
  rc_MemoryRequest :: float64
  rc_CPULimit :: float64
  rc_MemoryLimit :: float64
  rc_ToBeEvicted :: bool

record PodCurrentResources =
  pc_CPURequest :: float64
  pc_MemoryRequest :: float64
  pc_CPULimit :: float64
  pc_MemoryLimit :: float64

text \<open>The JSON columns hold the records they encode; an empty \<open>Current\<close> object is \<open>None\<close>.\<close>

record PodResourceRecommendationRow =
  rw_WorkloadID :: string
  rw_NodeName :: string
  rw_Namespace :: string
  rw_Pod :: string
  rw_Container :: string
  rw_Recommendation :: PodResourceRecommendation
  rw_Current :: "PodCurrentResources option"

record OOMEvent =
  om_ID :: nat
  om_ClusterID :: string
  om_ContainerID :: string
  om_PodName :: string
  om_NodeName :: string
  om_Namespace :: string
  om_Timestamp :: go_time
  om_MemoryLimit :: int
  om_MemoryRequest :: int
  om_LastObservedMemory :: int
  om_CreatedAt :: go_time
  om_UpdatedAt :: go_time

record SnapshotResourceMetrics =
  sm_CurrentAllocatable :: float64
  sm_CurrentRequested :: float64
  sm_CurrentUtilized :: float64
  sm_WorkloadRequested :: float64
  sm_RecommendedRequested :: float64

record SnapshotNodes =
  sn_Healthy :: int
  sn_Unhealthy :: int

record SnapshotData =
  sd_CPU :: SnapshotResourceMetrics
  sd_Memory :: SnapshotResourceMetrics
  sd_Nodes :: SnapshotNodes
  sd_PodsCount :: "(string \<times> int) list"

record ClusterSettings =
  cl_CPUPricePerCorePerHour :: float64
  cl_MemoryPricePerGBPerHour :: float64

section \<open>Lemmas on the data model\<close>

lemma EffectiveEnabled_iff:
  "EffectiveEnabled w \<longleftrightarrow> (\<exists>ov. wk_Overrides w = Some ov \<and> ov_Enabled ov = Some True)"
  by (auto simp: EffectiveEnabled_def OverridesWithDefaults_def Let_def split: option.splits)

lemma total_request_ge:
  assumes "\<forall>r \<in> set rs. fle fzero (f r)" "fle fzero s" "fle fzero m"
  shows "fle s (total_request f rs s m) \<and> fle m (total_request f rs s m)"
  using assms
proof (induction rs arbitrary: s m)
  case Nil
  then show ?case using gomax_ge [of s m] by (auto dest: fle_nan)
next
  case (Cons r rs)
  then have r: "fle fzero (f r)" by simp
  note add = nonneg_fadd [OF Cons.prems(2) r]
  have mx: "fle m (gomax m (f r))" "fle fzero (gomax m (f r))"
    using gomax_ge [of m "f r"] fle_nan [OF Cons.prems(3)] fle_nan [OF r] Cons.prems(3)
    by (auto intro: fle_trans)
  show ?case
    using Cons.IH [of "fadd s (f r)" m] Cons.IH [of s "gomax m (f r)"] Cons.IH [of s m]
      Cons.prems add mx by (auto intro: fle_trans)
qed

text \<open>Every container's request is covered by the pod request of its workload.\<close>

lemma total_request_covers:
  assumes "\<forall>r \<in> set rs. fle fzero (f r)" "fle fzero s" "fle fzero m"
    "r \<in> set rs" "oc_Type r \<in> {InitContainer, SidecarContainer, AppContainer}"
  shows "fle (f r) (total_request f rs s m)"
  using assms
proof (induction rs arbitrary: s m)
  case (Cons x xs)
  have x: "fle fzero (f x)" using Cons.prems by simp
  note add = nonneg_fadd [OF Cons.prems(2) x]
  have mx: "fle (f x) (gomax m (f x))" "fle fzero (gomax m (f x))"
    using gomax_ge [of m "f x"] fle_nan [OF Cons.prems(3)] fle_nan [OF x] x
    by (auto intro: fle_trans)
  have tl: "\<forall>r \<in> set xs. fle fzero (f r)" using Cons.prems by simp
  show ?case
  proof (cases "r = x")
    case True
    then show ?thesis
      using total_request_ge [OF tl add(1) Cons.prems(3)] total_request_ge [OF tl Cons.prems(2) mx(2)]
        add(3) mx(1) Cons.prems(5) by (auto intro: fle_trans)
  next
    case False
    then show ?thesis using Cons tl add(1) mx(2) by auto
  qed
qed simp

lemma GetContainerStats_name: "GetContainerStats w n = Some c \<Longrightarrow> cs_ContainerName c = n"
  by (auto simp: GetContainerStats_def find_Some_iff)

end
