(* ===== verification/Kube.thy ===== *)
theory Kube
  imports Types
begin

text \<open>
  The Kubernetes objects the program reads, reduced to the fields it uses. The API types are not
  part of the repository, so a value whose methods the code calls is represented by what those
  calls return: a quantity by its \<open>Value\<close>, \<open>MilliValue\<close> and \<open>IsZero\<close> and the amount \<open>Equal\<close>
  compares, a label selector by the result of \<open>LabelSelectorAsSelector\<close> (\<open>None\<close> when that fails).
  Maps that are nil read as empty, except where the code compares them with nil.
\<close>

section \<open>Quantities and resource lists\<close>

record quantity =
  q_Value :: int
  q_MilliValue :: int
  q_IsZero :: bool
  q_Amount :: rat

definition zero_quantity :: quantity where
  "zero_quantity = \<lparr>q_Value = 0, q_MilliValue = 0, q_IsZero = True, q_Amount = 0\<rparr>"

type_synonym resource_list = "(string \<times> quantity) list"

definition ResourceCPU :: string where "ResourceCPU = ''cpu''"
definition ResourceMemory :: string where "ResourceMemory = ''memory''"

text \<open>The comma-ok read and the plain read of a resource map; a nil map has no entries.\<close>

definition rl_get :: "resource_list option \<Rightarrow> string \<Rightarrow> quantity option" where
  "rl_get rl n = (case rl of None \<Rightarrow> None | Some l \<Rightarrow> map_of l n)"

definition rl_val :: "resource_list option \<Rightarrow> string \<Rightarrow> quantity" where
  "rl_val rl n = (case rl_get rl n of None \<Rightarrow> zero_quantity | Some q \<Rightarrow> q)"

section \<open>Containers, pods and nodes\<close>

record Container =
  c_Name :: string
  c_Requests :: "resource_list option"
  c_Limits :: "resource_list option"
  c_RestartPolicy :: "string option"

record OwnerReference =
  or_Kind :: string
  or_Name :: string

record ContainerStatus =
  st_Name :: string
  st_RestartCount :: int
  st_Terminated :: "(string \<times> go_time) option"

type_synonym string_map = "string \<rightharpoonup> string"

record Pod =
  p_Namespace :: string
  p_Name :: string
  p_GenerateName :: string
  p_Kind :: string
  p_Labels :: string_map
  p_Annotations :: string_map
  p_OwnerReferences :: "OwnerReference list"
  p_NodeName :: string
  p_Phase :: string
  p_Containers :: "Container list"
  p_InitContainers :: "Container list"
  p_ContainerStatuses :: "ContainerStatus list"
  p_InitContainerStatuses :: "ContainerStatus list"

record Taint =
  t_Key :: string
  t_Value :: string
  t_Effect :: string

record NodeCondition =
  nc_Type :: string
  nc_Status :: string

record Node =
  n_Name :: string
  n_Allocatable :: resource_list
  n_Taints :: "Taint list"
  n_Conditions :: "NodeCondition list"

section \<open>Workload objects\<close>

type_synonym LabelSelector = "(string_map \<Rightarrow> bool) option"

record PodAntiAffinity =
  paa_Required :: "string list"
  paa_Preferred :: "string list"

text \<open>
  Of an affinity the code reads the keys of the match expressions of each required node selector
  term, and the terms of the pod anti-affinity. A volume is the list of its source fields that
  are set; a topology spread constraint is its topology key.
\<close>

record Affinity =
  af_NodeRequired :: "string list list option"
  af_PodAntiAffinity :: "PodAntiAffinity option"

record PodTemplateSpec =
  pt_Labels :: string_map
  pt_Annotations :: string_map
  pt_Containers :: "Container list"
  pt_InitContainers :: "Container list"
  pt_Volumes :: "string list list"
  pt_Affinity :: "Affinity option"
  pt_TopologyKeys :: "string list"

record AppsObject =
  ao_Namespace :: string
  ao_Name :: string
  ao_CreationTime :: go_time
  ao_Selector :: "LabelSelector option"
  ao_Template :: PodTemplateSpec
  ao_SpecReplicas :: "int option"
  ao_DesiredNumberScheduled :: int

section \<open>Disruption budgets\<close>

datatype IntOrString = IsInt int | IsString string

record PodDisruptionBudget =
  pdb_Namespace :: string
  pdb_Name :: string
  pdb_Annotations :: string_map
  pdb_Selector :: "LabelSelector option"
  pdb_MaxUnavailable :: "IntOrString option"
  pdb_MinAvailable :: "IntOrString option"

section \<open>API errors\<close>

text \<open>
  An error of the API server or the database, by the classes the code distinguishes; wrapping with
  \<^verbatim>\<open>%w\<close> keeps the class and prefixes the message.
\<close>

datatype api_error = NotFound (err_msg: string) | Conflict (err_msg: string) | Other (err_msg: string)

definition wrap :: "string \<Rightarrow> api_error \<Rightarrow> api_error" where
  "wrap s e = (case e of NotFound m \<Rightarrow> NotFound (s @ m) | Conflict m \<Rightarrow> Conflict (s @ m)
               | Other m \<Rightarrow> Other (s @ m))"

definition IsNotFound :: "api_error \<Rightarrow> bool" where
  "IsNotFound e \<longleftrightarrow> (case e of NotFound m \<Rightarrow> True | _ \<Rightarrow> False)"

definition IsConflict :: "api_error \<Rightarrow> bool" where
  "IsConflict e \<longleftrightarrow> (case e of Conflict m \<Rightarrow> True | _ \<Rightarrow> False)"

lemma wrap_class [simp]: "IsNotFound (wrap s e) = IsNotFound e" "IsConflict (wrap s e) = IsConflict e"
  by (cases e; simp add: wrap_def IsNotFound_def IsConflict_def)+

end
