(* ===== verification/Keys.thy ===== *)
theory Keys
  imports Kube
begin

text \<open>
  Identifiers and classification helpers of \<^verbatim>\<open>pkg/task/utils\<close>: workload, container and pod keys
  and their parsers, the workload a pod belongs to, GPU resource names, sidecars, the eviction
  predicate's ingredients and the annotation constants.
\<close>

section \<open>Constants\<close>

definition ExcludedAnnotation :: string where
  "ExcludedAnnotation = ''cruisekube.truefoundry.com/excluded''"
definition TrueValue :: string where "TrueValue = ''true''"
definition FalseValue :: string where "FalseValue = ''false''"
definition AnnotationModified :: string where
  "AnnotationModified = ''cruisekube.truefoundry.com/modified''"
definition AnnotationPDBMaxUnavailable :: string where
  "AnnotationPDBMaxUnavailable = ''cruisekube.truefoundry.com/pdb.maxUnavailable''"
definition AnnotationPDBMinAvailable :: string where
  "AnnotationPDBMinAvailable = ''cruisekube.truefoundry.com/pdb.minAvailable''"

text \<open>The entries of the Go map, in one of its iteration orders.\<close>

definition doNotDisruptAnnotations :: "(string \<times> string) list" where
  "doNotDisruptAnnotations =
     [(''cluster-autoscaler.kubernetes.io/safe-to-evict'', FalseValue),
      (''karpenter.sh/do-not-evict'', TrueValue),
      (''karpenter.sh/do-not-disrupt'', TrueValue)]"

definition DeploymentKind :: string where "DeploymentKind = ''Deployment''"
definition StatefulSetKind :: string where "StatefulSetKind = ''StatefulSet''"
definition DaemonSetKind :: string where "DaemonSetKind = ''DaemonSet''"
definition ReplicaSetKind :: string where "ReplicaSetKind = ''ReplicaSet''"
definition RolloutKind :: string where "RolloutKind = ''Rollout''"

lemmas Kind_defs = DeploymentKind_def StatefulSetKind_def DaemonSetKind_def ReplicaSetKind_def
  RolloutKind_def

definition BytesToMBDivisor :: int where "BytesToMBDivisor = 1000000"
definition CPUClampValue :: float64 where "CPUClampValue = lit 20"

section \<open>Workload, container and pod keys\<close>

record WorkloadInfo =
  wi_Kind :: string
  wi_Namespace :: string
  wi_Name :: string

definition GetWorkloadKey :: "string \<Rightarrow> string \<Rightarrow> string \<Rightarrow> string" where
  "GetWorkloadKey kind namespace name = kind @ '':'' @ namespace @ '':'' @ name"

definition ParseWorkloadKey :: "string \<Rightarrow> (string \<times> string \<times> string) option" where
  "ParseWorkloadKey rawKey =
     (case split_on CHR '':'' rawKey of
        [k, ns, n] \<Rightarrow> Some (k, ns, n)
      | _ \<Rightarrow> None)"

definition GetWorkloadContainerKey :: "string \<Rightarrow> string \<Rightarrow> string \<Rightarrow> string \<Rightarrow> string" where
  "GetWorkloadContainerKey kind namespace name containerName =
     kind @ '':'' @ namespace @ '':'' @ name @ '':'' @ containerName"

definition ParseWorkloadContainerKey :: "string \<Rightarrow> (string \<times> string \<times> string \<times> string) option" where
  "ParseWorkloadContainerKey rawKey =
     (case split_on CHR '':'' rawKey of
        [k, ns, n, c] \<Rightarrow> Some (k, ns, n, c)
      | _ \<Rightarrow> None)"

definition GetPodKey :: "string \<Rightarrow> string \<Rightarrow> string" where
  "GetPodKey namespace name = namespace @ '':'' @ name"

section \<open>From a pod to its workload\<close>

text \<open>The pattern \<^verbatim>\<open>^(.+)-[a-f0-9]{6,12}$\<close>.\<close>

definition ExtractWorkloadFromReplicaSet :: "string \<Rightarrow> string \<times> bool" where
  "ExtractWorkloadFromReplicaSet replicaSetName =
     (case split_last_dash replicaSetName of
        None \<Rightarrow> (replicaSetName, False)
      | Some (w, h) \<Rightarrow>
          if w \<noteq> [] \<and> CHR 0x0A \<notin> set w \<and> 6 \<le> length h \<and> length h \<le> 12 \<and> list_all is_hex h
          then (w, True) else (replicaSetName, False))"

text \<open>Removing what the pattern \<^verbatim>\<open>-[a-z0-9]+$\<close> matches.\<close>

definition stripPodTemplateHash :: "string \<Rightarrow> string" where
  "stripPodTemplateHash s =
     (case split_last_dash s of
        None \<Rightarrow> s
      | Some (w, h) \<Rightarrow> if h \<noteq> [] \<and> list_all is_alnum h then w else s)"

fun owner_loop :: "OwnerReference list \<Rightarrow> OwnerReference option \<Rightarrow> OwnerReference option" where
  "owner_loop [] workloadRef = workloadRef"
| "owner_loop (r # rs) workloadRef =
     (if or_Kind r = StatefulSetKind \<or> or_Kind r = DaemonSetKind then Some r
      else if or_Kind r = ReplicaSetKind
      then owner_loop rs (Some \<lparr>or_Kind = DeploymentKind, or_Name = stripPodTemplateHash (or_Name r)\<rparr>)
      else owner_loop rs workloadRef)"

definition GetWorkloadInfoFromPod :: "Pod \<Rightarrow> WorkloadInfo option" where
  "GetWorkloadInfoFromPod pod =
     (if p_OwnerReferences pod = [] then None
      else case owner_loop (p_OwnerReferences pod) None of
             None \<Rightarrow> None
           | Some r \<Rightarrow> Some \<lparr>wi_Kind = or_Kind r, wi_Namespace = p_Namespace pod, wi_Name = or_Name r\<rparr>)"

section \<open>GPU resources, sidecars, annotations\<close>

definition gpuResourceNameExact :: "string list" where
  "gpuResourceNameExact =
     [''nvidia.com'', ''nvidia.com/gpu.shared'', ''aws.amazon.com/neuron'', ''google.com/tpu'']"

definition isGPUResourceName :: "string \<Rightarrow> bool" where
  "isGPUResourceName s \<longleftrightarrow>
     s \<in> set gpuResourceNameExact \<or> HasSuffix s ''/gpu'' \<or> HasPrefix s ''nvidia.com/mig''"

definition containerHasGPU :: "Container \<Rightarrow> bool" where
  "containerHasGPU c \<longleftrightarrow>
     list_ex (\<lambda>(name, q). isGPUResourceName name \<and> \<not> q_IsZero q)
       (case c_Requests c of None \<Rightarrow> [] | Some l \<Rightarrow> l)
     \<or> list_ex (\<lambda>(name, q). isGPUResourceName name \<and> \<not> q_IsZero q)
       (case c_Limits c of None \<Rightarrow> [] | Some l \<Rightarrow> l)"

definition WorkloadHasGPU :: "Container list list \<Rightarrow> bool" where
  "WorkloadHasGPU containers \<longleftrightarrow> list_ex (list_ex containerHasGPU) containers"

definition IsSidecarContainer :: "Container \<Rightarrow> bool" where
  "IsSidecarContainer c \<longleftrightarrow> c_RestartPolicy c = Some ''Always''"

definition PodExcludedByAnnotation :: "string_map \<Rightarrow> bool" where
  "PodExcludedByAnnotation annotations \<longleftrightarrow> annotations ExcludedAnnotation = Some TrueValue"

section \<open>Codecs\<close>

text \<open>A key format: what is encoded from admissible fields is decoded to them.\<close>

locale key_codec =
  fixes enc :: "'a \<Rightarrow> string" and dec :: "string \<Rightarrow> 'a option" and adm :: "'a \<Rightarrow> bool"
  assumes dec_enc: "adm x \<Longrightarrow> dec (enc x) = Some x"
    and enc_dec: "dec s = Some x \<Longrightarrow> enc x = s"
    and dec_adm: "dec s = Some x \<Longrightarrow> adm x"
begin

lemma enc_inj: "adm x \<Longrightarrow> adm y \<Longrightarrow> enc x = enc y \<Longrightarrow> x = y"
  using dec_enc by (metis option.inject)

lemma dec_inj: "dec s = Some x \<Longrightarrow> dec t = Some x \<Longrightarrow> s = t"
  using enc_dec by metis

lemma dec_iff: "dec s = Some x \<longleftrightarrow> adm x \<and> enc x = s"
  using dec_enc enc_dec dec_adm by metis

end

definition no_colon :: "string \<Rightarrow> bool" where
  "no_colon s \<longleftrightarrow> CHR '':'' \<notin> set s"

lemma workload_key_join:
  "GetWorkloadKey k ns n = join_with '':'' [k, ns, n]"
  "GetWorkloadContainerKey k ns n c = join_with '':'' [k, ns, n, c]"
  "GetPodKey ns n = join_with '':'' [ns, n]"
  by (simp_all add: GetWorkloadKey_def GetWorkloadContainerKey_def GetPodKey_def)

lemma join_two: "join_with '':'' [a, b] = a @ '':'' @ b"
  by simp

lemma split_three:
  assumes "split_on CHR '':'' s = [k, ns, n]"
  shows "s = GetWorkloadKey k ns n" "no_colon k" "no_colon ns" "no_colon n"
  using join_split [of "CHR '':''" s] split_on_parts [of _ "CHR '':''" s] assms
  by (auto simp: workload_key_join no_colon_def)

lemma split_four:
  assumes "split_on CHR '':'' s = [k, ns, n, c]"
  shows "s = GetWorkloadContainerKey k ns n c"
    "no_colon k" "no_colon ns" "no_colon n" "no_colon c"
  using join_split [of "CHR '':''" s] split_on_parts [of _ "CHR '':''" s] assms
  by (auto simp: workload_key_join no_colon_def)

lemma ParseWorkloadKey_iff:
  "ParseWorkloadKey s = Some (k, ns, n) \<longleftrightarrow> split_on CHR '':'' s = [k, ns, n]"
  by (auto simp: ParseWorkloadKey_def split: list.splits)

lemma ParseWorkloadContainerKey_iff:
  "ParseWorkloadContainerKey s = Some (k, ns, n, c) \<longleftrightarrow> split_on CHR '':'' s = [k, ns, n, c]"
  by (auto simp: ParseWorkloadContainerKey_def split: list.splits)

lemma split_workload_key:
  "no_colon k \<Longrightarrow> no_colon ns \<Longrightarrow> no_colon n \<Longrightarrow>
     split_on CHR '':'' (GetWorkloadKey k ns n) = [k, ns, n]"
  unfolding workload_key_join by (rule split_on_join) (auto simp: no_colon_def)

lemma split_container_key:
  "no_colon k \<Longrightarrow> no_colon ns \<Longrightarrow> no_colon n \<Longrightarrow> no_colon c \<Longrightarrow>
     split_on CHR '':'' (GetWorkloadContainerKey k ns n c) = [k, ns, n, c]"
  unfolding workload_key_join by (rule split_on_join) (auto simp: no_colon_def)

interpretation workload_key:
  key_codec "\<lambda>(k, ns, n). GetWorkloadKey k ns n" ParseWorkloadKey
    "\<lambda>(k, ns, n). no_colon k \<and> no_colon ns \<and> no_colon n"
  by unfold_locales (auto simp: ParseWorkloadKey_iff split_workload_key dest: split_three)

interpretation container_key:
  key_codec "\<lambda>(k, ns, n, c). GetWorkloadContainerKey k ns n c" ParseWorkloadContainerKey
    "\<lambda>(k, ns, n, c). no_colon k \<and> no_colon ns \<and> no_colon n \<and> no_colon c"
  by unfold_locales (auto simp: ParseWorkloadContainerKey_iff split_container_key dest: split_four)

lemma GetPodKey_inj:
  "no_colon ns \<Longrightarrow> no_colon ns' \<Longrightarrow> GetPodKey ns n = GetPodKey ns' n' \<Longrightarrow> ns = ns' \<and> n = n'"
proof -
  assume a: "no_colon ns" "no_colon ns'" and e: "GetPodKey ns n = GetPodKey ns' n'"
  have e': "ns @ CHR '':'' # n = ns' @ CHR '':'' # n'" using e by (simp add: GetPodKey_def)
  have "split_on CHR '':'' (ns @ CHR '':'' # n) = ns # split_on CHR '':'' n"
    using a by (simp add: split_on_append no_colon_def)
  moreover have "split_on CHR '':'' (ns' @ CHR '':'' # n') = ns' # split_on CHR '':'' n'"
    using a by (simp add: split_on_append no_colon_def)
  ultimately have "ns = ns'" using e' by simp
  then show ?thesis using e' by simp
qed

section \<open>Lemmas on the pod-to-workload mapping\<close>

lemma no_dash_hex: "list_all is_hex h \<Longrightarrow> CHR ''-'' \<notin> set h"
  by (auto simp: list_all_iff is_hex_def)

lemma no_dash_alnum: "list_all is_alnum h \<Longrightarrow> CHR ''-'' \<notin> set h"
  by (auto simp: list_all_iff is_alnum_def)

lemma strip_hash: "h \<noteq> [] \<Longrightarrow> list_all is_alnum h \<Longrightarrow> stripPodTemplateHash (p @ ''-'' @ h) = p"
  using split_last_dash_app [OF no_dash_alnum] by (simp add: stripPodTemplateHash_def)

lemma extract_hash:
  "p \<noteq> [] \<Longrightarrow> CHR 0x0A \<notin> set p \<Longrightarrow> 6 \<le> length h \<Longrightarrow> length h \<le> 12 \<Longrightarrow> list_all is_hex h
     \<Longrightarrow> ExtractWorkloadFromReplicaSet (p @ ''-'' @ h) = (p, True)"
  using split_last_dash_app [OF no_dash_hex] by (simp add: ExtractWorkloadFromReplicaSet_def)

text \<open>The kinds \<open>GetWorkloadInfoFromPod\<close> can return are the three the program manages.\<close>

lemma owner_loop_kind:
  "owner_loop rs w = Some r \<Longrightarrow>
     (\<And>x. w = Some x \<Longrightarrow> or_Kind x \<in> {DeploymentKind, StatefulSetKind, DaemonSetKind}) \<Longrightarrow>
     or_Kind r \<in> {DeploymentKind, StatefulSetKind, DaemonSetKind}"
proof (induction rs w arbitrary: r rule: owner_loop.induct)
  case (2 x rs w)
  then show ?case
    by (cases "or_Kind x = StatefulSetKind \<or> or_Kind x = DaemonSetKind"; cases "or_Kind x = ReplicaSetKind")
      (auto split: if_splits)
qed auto

end
