(* ===== verification/NodeStats.thy ===== *)
theory NodeStats
  imports Keys "HOL-Library.AList"
begin

text \<open>
  Node and pod accounting, \<^verbatim>\<open>pkg/task/utils/nodestats.go\<close> and \<^verbatim>\<open>nodestatsbuilder.go\<close>: the resources
  of a pod as requests and limits in cores and megabytes, the pod description the optimiser
  works on, and the map from nodes to their pods. A Go map is an association list in its
  iteration order where the code ranges over it, and a partial function where it only looks up.
\<close>

section \<open>Data\<close>

record ContainerResources =
  cr_Name :: string
  cr_CPURequest :: float64
  cr_CPULimit :: float64
  cr_MemoryRequest :: float64
  cr_MemoryLimit :: float64

record PodInfo =
  pi_Namespace :: string
  pi_Name :: string
  pi_WorkloadKind :: string
  pi_WorkloadName :: string
  pi_RequestedCPU :: float64
  pi_RequestedMemory :: float64
  pi_LimitCPU :: float64
  pi_LimitMemory :: float64
  pi_Stats :: "WorkloadStat option"
  pi_ContainerResources :: "ContainerResources list"

record NodeResourceInfo =
  nr_AllocatableCPU :: float64
  nr_AllocatableMemory :: float64
  nr_RequestedCPU :: float64
  nr_RequestedMemory :: float64
  nr_Pods :: "PodInfo list"

type_synonym PodKey = "string \<times> string"

section \<open>Predicates and lookups on a pod\<close>

definition IsBestEffortPod :: "PodInfo \<Rightarrow> bool" where
  "IsBestEffortPod p \<longleftrightarrow>
     \<not> list_ex (\<lambda>c. \<not> feq (cr_CPURequest c) (lit 0) \<or> \<not> feq (cr_CPULimit c) (lit 0)
                  \<or> \<not> feq (cr_MemoryRequest c) (lit 0) \<or> \<not> feq (cr_MemoryLimit c) (lit 0))
         (pi_ContainerResources p)"

fun guaranteed_loop :: "ContainerResources list \<Rightarrow> bool" where
  "guaranteed_loop [] = True"
| "guaranteed_loop (c # cs) =
     (if flt (lit 0) (cr_CPURequest c) \<and> \<not> feq (cr_CPULimit c) (cr_CPURequest c) then False
      else if flt (lit 0) (cr_MemoryRequest c) \<and> \<not> feq (cr_MemoryLimit c) (cr_MemoryRequest c) then False
      else guaranteed_loop cs)"

definition IsGuaranteedPod :: "PodInfo \<Rightarrow> bool" where
  "IsGuaranteedPod p = guaranteed_loop (pi_ContainerResources p)"

definition GetContainerResource :: "PodInfo \<Rightarrow> string \<Rightarrow> ContainerResources option" where
  "GetContainerResource p n = find (\<lambda>c. EqualFold (cr_Name c) n) (pi_ContainerResources p)"

definition PodInfo_GetOriginalContainerResource :: "PodInfo \<Rightarrow> string \<Rightarrow> ContainerResources option" where
  "PodInfo_GetOriginalContainerResource p n =
     (case pi_Stats p of
        None \<Rightarrow> None
      | Some s \<Rightarrow>
          if ws_OriginalContainerResources s = [] then None
          else case find (\<lambda>c. EqualFold (oc_Name c) n) (ws_OriginalContainerResources s) of
                 None \<Rightarrow> None
               | Some c \<Rightarrow> Some \<lparr>cr_Name = oc_Name c, cr_CPURequest = oc_CPURequest c,
                   cr_CPULimit = oc_CPULimit c, cr_MemoryRequest = oc_MemoryRequest c,
                   cr_MemoryLimit = oc_MemoryLimit c\<rparr>)"

section \<open>The resources of a pod\<close>

definition cores :: "quantity \<Rightarrow> float64" where
  "cores q = fdiv (f64_of_int (q_MilliValue q)) (lit 1000)"

definition megabytes :: "quantity \<Rightarrow> float64" where
  "megabytes q = fdiv (f64_of_int (q_Value q)) (lit 1000000)"

text \<open>The first loop of the request sums, over the application containers.\<close>

fun sum_app :: "string \<Rightarrow> (quantity \<Rightarrow> float64) \<Rightarrow> Container list \<Rightarrow> float64 \<Rightarrow> float64" where
  "sum_app r unit [] s = s"
| "sum_app r unit (c # cs) s =
     (case rl_get (c_Requests c) r of
        None \<Rightarrow> sum_app r unit cs s
      | Some q \<Rightarrow> sum_app r unit cs (fadd s (unit q)))"

text \<open>The second one: sidecars join the sum, other init containers the maximum.\<close>

fun sum_init ::
    "string \<Rightarrow> (quantity \<Rightarrow> float64) \<Rightarrow> Container list \<Rightarrow> float64 \<Rightarrow> float64 \<Rightarrow> float64 \<times> float64" where
  "sum_init r unit [] s m = (s, m)"
| "sum_init r unit (c # cs) s m =
     (case rl_get (c_Requests c) r of
        None \<Rightarrow> sum_init r unit cs s m
      | Some q \<Rightarrow>
          if IsSidecarContainer c then sum_init r unit cs (fadd s (unit q)) m
          else sum_init r unit cs s (gomax m (unit q)))"

definition getCurrentPodMemory :: "Pod \<Rightarrow> float64" where
  "getCurrentPodMemory pod =
     (let s0 = sum_app ResourceMemory megabytes (p_Containers pod) (lit 0);
          (s, m) = sum_init ResourceMemory megabytes (p_InitContainers pod) s0 (lit 0)
      in gomax s m)"

definition getCurrentPodCPU :: "Pod \<Rightarrow> float64" where
  "getCurrentPodCPU pod =
     (let s0 = sum_app ResourceCPU cores (p_Containers pod) (lit 0);
          (s, m) = sum_init ResourceCPU cores (p_InitContainers pod) s0 (lit 0)
      in gomax s m)"

fun sum_limits :: "string \<Rightarrow> (quantity \<Rightarrow> float64) \<Rightarrow> Container list \<Rightarrow> float64 \<Rightarrow> float64" where
  "sum_limits r unit [] s = s"
| "sum_limits r unit (c # cs) s =
     (case rl_get (c_Limits c) r of
        None \<Rightarrow> sum_limits r unit cs s
      | Some q \<Rightarrow> sum_limits r unit cs (fadd s (unit q)))"

definition getCurrentPodCPULimit :: "Pod \<Rightarrow> float64" where
  "getCurrentPodCPULimit pod = sum_limits ResourceCPU cores (p_Containers pod) (lit 0)"

definition getCurrentPodMemoryLimit :: "Pod \<Rightarrow> float64" where
  "getCurrentPodMemoryLimit pod = sum_limits ResourceMemory megabytes (p_Containers pod) (lit 0)"

definition opt_amount :: "(quantity \<Rightarrow> float64) \<Rightarrow> quantity option \<Rightarrow> float64" where
  "opt_amount unit q = (case q of None \<Rightarrow> lit 0 | Some q \<Rightarrow> unit q)"

definition getCurrentContainerResources :: "Container \<Rightarrow> ContainerResources" where
  "getCurrentContainerResources c =
     \<lparr>cr_Name = c_Name c,
      cr_CPURequest = opt_amount cores (rl_get (c_Requests c) ResourceCPU),
      cr_CPULimit = opt_amount cores (rl_get (c_Limits c) ResourceCPU),
      cr_MemoryRequest = opt_amount megabytes (rl_get (c_Requests c) ResourceMemory),
      cr_MemoryLimit = opt_amount megabytes (rl_get (c_Limits c) ResourceMemory)\<rparr>"

section \<open>Pod descriptions\<close>

fun append_sidecars :: "Container list \<Rightarrow> ContainerResources list \<Rightarrow> ContainerResources list" where
  "append_sidecars [] acc = acc"
| "append_sidecars (c # cs) acc =
     (if IsSidecarContainer c then append_sidecars cs (acc @ [getCurrentContainerResources c])
      else append_sidecars cs acc)"

fun append_containers :: "Container list \<Rightarrow> ContainerResources list \<Rightarrow> ContainerResources list" where
  "append_containers [] acc = acc"
| "append_containers (c # cs) acc = append_containers cs (acc @ [getCurrentContainerResources c])"

definition BuildPodInfoFromPod :: "Pod \<Rightarrow> WorkloadInfo option \<Rightarrow> WorkloadStat option \<Rightarrow> PodInfo" where
  "BuildPodInfoFromPod pod workloadInfo stat =
     (let info = \<lparr>pi_Namespace = p_Namespace pod, pi_Name = p_Name pod,
                  pi_WorkloadKind = '''', pi_WorkloadName = '''',
                  pi_RequestedCPU = getCurrentPodCPU pod, pi_RequestedMemory = getCurrentPodMemory pod,
                  pi_LimitCPU = getCurrentPodCPULimit pod, pi_LimitMemory = getCurrentPodMemoryLimit pod,
                  pi_Stats = None, pi_ContainerResources = []\<rparr>;
          info = (case workloadInfo of None \<Rightarrow> info
                  | Some w \<Rightarrow> info\<lparr>pi_WorkloadKind := wi_Kind w, pi_WorkloadName := wi_Name w\<rparr>);
          info = (case stat of None \<Rightarrow> info | Some s \<Rightarrow> info\<lparr>pi_Stats := Some s\<rparr>);
          info = info\<lparr>pi_ContainerResources := append_containers (p_Containers pod) []\<rparr>
      in info\<lparr>pi_ContainerResources :=
               append_sidecars (p_InitContainers pod) (pi_ContainerResources info)\<rparr>)"

section \<open>Pod to statistics, node to pods\<close>

fun CreatePodToStatsMapping ::
    "(PodKey \<times> WorkloadInfo) list \<Rightarrow> (string \<rightharpoonup> WorkloadStat) \<Rightarrow> PodKey \<rightharpoonup> WorkloadStat" where
  "CreatePodToStatsMapping [] statMap = Map.empty"
| "CreatePodToStatsMapping ((podKey, w) # rest) statMap =
     (case statMap (GetWorkloadKey (wi_Kind w) (wi_Namespace w) (wi_Name w)) of
        Some stat \<Rightarrow> (CreatePodToStatsMapping rest statMap)(podKey \<mapsto> stat)
      | None \<Rightarrow> CreatePodToStatsMapping rest statMap)"

text \<open>One iteration over the pods of a node, as \<open>CreateNodeStatsMapping\<close> has it.\<close>

definition node_pod_step ::
    "(PodKey \<rightharpoonup> WorkloadStat) \<Rightarrow> (PodKey \<rightharpoonup> WorkloadInfo) \<Rightarrow> Pod \<Rightarrow> NodeResourceInfo
     \<Rightarrow> NodeResourceInfo" where
  "node_pod_step podStats podToWorkloadMap pod nodeInfo =
     (let podKey = (p_Namespace pod, p_Name pod);
          currentCPU = getCurrentPodCPU pod;
          currentMemory = getCurrentPodMemory pod;
          limitCPU = getCurrentPodCPULimit pod;
          limitMemory = getCurrentPodMemoryLimit pod;
          nodeInfo = nodeInfo\<lparr>nr_RequestedCPU := fadd (nr_RequestedCPU nodeInfo) currentCPU,
                              nr_RequestedMemory := fadd (nr_RequestedMemory nodeInfo) currentMemory\<rparr>;
          podInfo = \<lparr>pi_Namespace = p_Namespace pod, pi_Name = p_Name pod,
                  pi_WorkloadKind = '''', pi_WorkloadName = '''',
                  pi_RequestedCPU = currentCPU, pi_RequestedMemory = currentMemory,
                  pi_LimitCPU = limitCPU, pi_LimitMemory = limitMemory,
                  pi_Stats = None, pi_ContainerResources = []\<rparr>;
          podInfo = (case podToWorkloadMap podKey of None \<Rightarrow> podInfo
                     | Some w \<Rightarrow> podInfo\<lparr>pi_WorkloadKind := wi_Kind w, pi_WorkloadName := wi_Name w\<rparr>);
          podInfo = (case podStats podKey of None \<Rightarrow> podInfo | Some s \<Rightarrow> podInfo\<lparr>pi_Stats := Some s\<rparr>);
          podInfo = podInfo\<lparr>pi_ContainerResources :=
                      append_sidecars (p_InitContainers pod) (append_containers (p_Containers pod) [])\<rparr>
      in nodeInfo\<lparr>nr_Pods := nr_Pods nodeInfo @ [podInfo]\<rparr>)"

definition node_has_gpu :: "Node \<Rightarrow> bool" where
  "node_has_gpu node \<longleftrightarrow>
     (case map_of (n_Allocatable node) ''nvidia.com/gpu'' of
        None \<Rightarrow> False | Some q \<Rightarrow> q_Value q > 0)"

definition node_info ::
    "(PodKey \<rightharpoonup> WorkloadStat) \<Rightarrow> (PodKey \<rightharpoonup> WorkloadInfo) \<Rightarrow> Pod list \<Rightarrow> Node
     \<Rightarrow> NodeResourceInfo" where
  "node_info podStats podToWorkloadMap allPods node =
     (let podsOnNode = filter (\<lambda>pod. p_NodeName pod = n_Name node) allPods;
          nodeInfo = \<lparr>nr_AllocatableCPU = cores (rl_val (Some (n_Allocatable node)) ResourceCPU),
                      nr_AllocatableMemory = megabytes (rl_val (Some (n_Allocatable node)) ResourceMemory),
                      nr_RequestedCPU = lit 0, nr_RequestedMemory = lit 0, nr_Pods = []\<rparr>
      in fold (node_pod_step podStats podToWorkloadMap) podsOnNode nodeInfo)"

fun node_map_loop ::
    "(PodKey \<rightharpoonup> WorkloadStat) \<Rightarrow> (PodKey \<rightharpoonup> WorkloadInfo) \<Rightarrow> Pod list \<Rightarrow> Node list
     \<Rightarrow> (string \<times> NodeResourceInfo) list \<Rightarrow> (string \<times> NodeResourceInfo) list" where
  "node_map_loop podStats podToWorkloadMap allPods [] nodeMap = nodeMap"
| "node_map_loop podStats podToWorkloadMap allPods (node # nodes) nodeMap =
     (if node_has_gpu node then node_map_loop podStats podToWorkloadMap allPods nodes nodeMap
      else node_map_loop podStats podToWorkloadMap allPods nodes
             (AList.update (n_Name node) (node_info podStats podToWorkloadMap allPods node) nodeMap))"

definition CreateNodeStatsMapping ::
    "api_error + Node list \<Rightarrow> (PodKey \<rightharpoonup> WorkloadStat) \<Rightarrow> (PodKey \<rightharpoonup> WorkloadInfo) \<Rightarrow> Pod list
     \<Rightarrow> api_error + (string \<times> NodeResourceInfo) list" where
  "CreateNodeStatsMapping nodes podStats podToWorkloadMap allPods =
     (case nodes of
        Inl e \<Rightarrow> Inl (wrap ''failed to get nodes: '' e)
      | Inr items \<Rightarrow> Inr (node_map_loop podStats podToWorkloadMap allPods items []))"

section \<open>Lemmas on the pod descriptions\<close>

lemma append_containers_eq: "append_containers cs acc = acc @ map getCurrentContainerResources cs"
  by (induction cs acc rule: append_containers.induct) auto

lemma append_sidecars_eq:
  "append_sidecars cs acc = acc @ map getCurrentContainerResources (filter IsSidecarContainer cs)"
  by (induction cs acc rule: append_sidecars.induct) auto

lemma BuildPodInfoFromPod_simps [simp]:
  "pi_Namespace (BuildPodInfoFromPod pod w st) = p_Namespace pod"
  "pi_Name (BuildPodInfoFromPod pod w st) = p_Name pod"
  "pi_Stats (BuildPodInfoFromPod pod w st) = st"
  "pi_RequestedCPU (BuildPodInfoFromPod pod w st) = getCurrentPodCPU pod"
  "pi_RequestedMemory (BuildPodInfoFromPod pod w st) = getCurrentPodMemory pod"
  "pi_ContainerResources (BuildPodInfoFromPod pod w st) =
     map getCurrentContainerResources (p_Containers pod @ filter IsSidecarContainer (p_InitContainers pod))"
  by (cases w; cases st; simp add: BuildPodInfoFromPod_def append_containers_eq append_sidecars_eq
      Let_def)+

text \<open>The task and the admission webhook describe a pod in the same way.\<close>

lemma node_pod_step_eq:
  "node_pod_step podStats podToWorkloadMap pod info =
     info\<lparr>nr_RequestedCPU := fadd (nr_RequestedCPU info) (getCurrentPodCPU pod),
          nr_RequestedMemory := fadd (nr_RequestedMemory info) (getCurrentPodMemory pod),
          nr_Pods := nr_Pods info @
            [BuildPodInfoFromPod pod (podToWorkloadMap (p_Namespace pod, p_Name pod))
               (podStats (p_Namespace pod, p_Name pod))]\<rparr>"
  by (simp add: node_pod_step_def BuildPodInfoFromPod_def Let_def split: option.splits)

lemma fold_node_pod_step:
  "nr_Pods (fold (node_pod_step ps pw) pods info) =
     nr_Pods info @ map (\<lambda>pod. BuildPodInfoFromPod pod (pw (p_Namespace pod, p_Name pod))
                            (ps (p_Namespace pod, p_Name pod))) pods"
  "nr_RequestedCPU (fold (node_pod_step ps pw) pods info) =
     foldl fadd (nr_RequestedCPU info) (map getCurrentPodCPU pods)"
  "nr_RequestedMemory (fold (node_pod_step ps pw) pods info) =
     foldl fadd (nr_RequestedMemory info) (map getCurrentPodMemory pods)"
  "nr_AllocatableCPU (fold (node_pod_step ps pw) pods info) = nr_AllocatableCPU info"
  by (induction pods arbitrary: info) (simp_all add: node_pod_step_eq)

lemma node_info_pods:
  "nr_Pods (node_info ps pw allPods node) =
     map (\<lambda>pod. BuildPodInfoFromPod pod (pw (p_Namespace pod, p_Name pod))
                  (ps (p_Namespace pod, p_Name pod)))
       (filter (\<lambda>pod. p_NodeName pod = n_Name node) allPods)"
  by (simp add: node_info_def fold_node_pod_step)

lemma map_of_node_map_loop:
  "distinct (map n_Name nodes) \<Longrightarrow>
     map_of (node_map_loop ps pw allPods nodes m) name =
       (case find (\<lambda>n. n_Name n = name \<and> \<not> node_has_gpu n) nodes of
          Some n \<Rightarrow> Some (node_info ps pw allPods n)
        | None \<Rightarrow> map_of m name)"
proof (induction nodes arbitrary: m)
  case (Cons n nodes)
  have none: "find (\<lambda>n'. n_Name n' = n_Name n \<and> \<not> node_has_gpu n') nodes = None"
    using Cons.prems by (auto simp: find_None_iff) (metis image_eqI)
  show ?case
    using Cons none by (auto simp: update_conv split: option.splits)
qed simp

lemma CreatePodToStatsMapping_lookup:
  "distinct (map fst pw) \<Longrightarrow>
     CreatePodToStatsMapping pw st k =
       (case map_of pw k of None \<Rightarrow> None
        | Some w \<Rightarrow> st (GetWorkloadKey (wi_Kind w) (wi_Namespace w) (wi_Name w)))"
proof (induction pw st rule: CreatePodToStatsMapping.induct)
  case (2 podKey w rest st)
  have "podKey \<notin> dom (map_of rest)" using 2(3) by (auto simp: dom_map_of_conv_image_fst)
  then have n: "map_of rest podKey = None" by auto
  have ih: "CreatePodToStatsMapping rest st k = (case map_of rest k of None \<Rightarrow> None
        | Some w \<Rightarrow> st (GetWorkloadKey (wi_Kind w) (wi_Namespace w) (wi_Name w)))"
    using 2(1,2,3) by (cases "st (GetWorkloadKey (wi_Kind w) (wi_Namespace w) (wi_Name w))") auto
  show ?case using ih n by (auto split: option.splits)
qed simp

section \<open>Lemmas on the resources of a pod\<close>

definition quantity_ok :: "quantity \<Rightarrow> bool" where
  "quantity_ok q \<longleftrightarrow> 0 \<le> q_Value q \<and> 0 \<le> q_MilliValue q"

definition container_ok :: "Container \<Rightarrow> bool" where
  "container_ok c \<longleftrightarrow>
     (\<forall>(n, q) \<in> set (case c_Requests c of None \<Rightarrow> [] | Some l \<Rightarrow> l). quantity_ok q) \<and>
     (\<forall>(n, q) \<in> set (case c_Limits c of None \<Rightarrow> [] | Some l \<Rightarrow> l). quantity_ok q)"

lemma f64_of_int_nonneg: "0 \<le> z \<Longrightarrow> fle fzero (f64_of_int z)"
proof -
  assume "0 \<le> z"
  then have "fle fzero (fround False (of_int z))" by (intro fround_nonneg) simp
  then show ?thesis by (simp only: f64_of_int_def lit_def [of "of_int z"])
qed

lemma unit_nonneg:
  "quantity_ok q \<Longrightarrow> fle fzero (cores q)" "quantity_ok q \<Longrightarrow> fle fzero (megabytes q)"
proof -
  assume q: "quantity_ok q"
  have z: "fdiv fzero (lit k) = fzero" if "k = 1000 \<or> k = 1000000" for k
    using that by (auto simp: f64_eval)
  show "fle fzero (cores q)"
    using fdiv_const_mono [OF f64_of_int_nonneg [of "q_MilliValue q"], of 1000] z q
    by (auto simp: quantity_ok_def cores_def)
  show "fle fzero (megabytes q)"
    using fdiv_const_mono [OF f64_of_int_nonneg [of "q_Value q"], of 1000000] z q
    by (auto simp: quantity_ok_def megabytes_def)
qed

lemma rl_get_ok:
  "container_ok c \<Longrightarrow> rl_get (c_Requests c) r = Some q \<Longrightarrow> quantity_ok q"
  "container_ok c \<Longrightarrow> rl_get (c_Limits c) r = Some q \<Longrightarrow> quantity_ok q"
  by (auto simp: container_ok_def rl_get_def dest!: map_of_SomeD split: option.splits)

text \<open>Requests only add up: the sum stays above its start and above every summand.\<close>

lemma sum_app_ge:
  assumes "\<forall>c \<in> set cs. container_ok c" "\<And>q. quantity_ok q \<Longrightarrow> fle fzero (unit q)" "fle fzero s"
  shows "fle s (sum_app r unit cs s)"
  using assms(1,3)
proof (induction cs arbitrary: s)
  case (Cons x xs)
  show ?case
  proof (cases "rl_get (c_Requests x) r")
    case None
    then show ?thesis using Cons by simp
  next
    case (Some q)
    then have q: "fle fzero (unit q)" using Cons.prems(1) assms(2) rl_get_ok(1) by auto
    have "fle (fadd s (unit q)) (sum_app r unit xs (fadd s (unit q)))"
      using Cons nonneg_fadd(1) [OF Cons.prems(2) q] by simp
    then show ?thesis using nonneg_fadd(2) [OF Cons.prems(2) q] Some by (auto intro: fle_trans)
  qed
qed (auto dest: fle_nan)

lemma sum_app_covers:
  assumes "\<forall>c \<in> set cs. container_ok c" "\<And>q. quantity_ok q \<Longrightarrow> fle fzero (unit q)" "fle fzero s"
    "c \<in> set cs" "rl_get (c_Requests c) r = Some q"
  shows "fle (unit q) (sum_app r unit cs s)"
  using assms(1,3,4,5)
proof (induction cs arbitrary: s)
  case (Cons x xs)
  show ?case
  proof (cases "c = x")
    case True
    have q: "fle fzero (unit q)" using Cons.prems True assms(2) rl_get_ok(1) by auto
    have "fle (fadd s (unit q)) (sum_app r unit xs (fadd s (unit q)))"
      using Cons.prems q assms(2) by (intro sum_app_ge) (auto intro: nonneg_fadd)
    moreover have "fle (unit q) (fadd s (unit q))" using nonneg_fadd(3) [OF Cons.prems(2) q] .
    ultimately show ?thesis using Cons.prems True by (auto intro: fle_trans)
  next
    case False
    then show ?thesis
      using Cons assms(2) rl_get_ok(1) [of x r] by (auto split: option.splits intro: nonneg_fadd)
  qed
qed simp

lemma sum_init_ge:
  assumes "\<forall>c \<in> set cs. container_ok c" "\<And>q. quantity_ok q \<Longrightarrow> fle fzero (unit q)"
    "fle fzero s" "fle fzero m" "sum_init r unit cs s m = (s', m')"
  shows "fle s s' \<and> fle m m'"
  using assms(1,3-5)
proof (induction cs arbitrary: s m)
  case (Cons x xs)
  have mx: "fle fzero (gomax m (unit q))" "fle m (gomax m (unit q))" if "fle fzero (unit q)" for q
    using gomax_ge [of m "unit q"] that Cons.prems(3) fle_nan(2) by (blast intro: fle_trans)+
  have u: "fle fzero (unit q)" if "rl_get (c_Requests x) r = Some q" for q
    using that Cons.prems(1) assms(2) rl_get_ok(1) by auto
  have ad: "fle fzero (fadd s (unit q))" "fle s (fadd s (unit q))" if "fle fzero (unit q)" for q
    using nonneg_fadd [OF Cons.prems(2) that] by simp_all
  have xs: "\<forall>c \<in> set xs. container_ok c" using Cons.prems(1) by simp
  consider (none) "rl_get (c_Requests x) r = None"
    | (side) q where "rl_get (c_Requests x) r = Some q" "IsSidecarContainer x"
    | (init) q where "rl_get (c_Requests x) r = Some q" "\<not> IsSidecarContainer x"
    by fastforce
  then show ?case
  proof cases
    case none
    then show ?thesis using Cons.IH [OF xs Cons.prems(2,3)] Cons.prems(4) by simp
  next
    case side
    then show ?thesis
      using Cons.IH [OF xs ad(1) [OF u] Cons.prems(3)] Cons.prems(4) ad(2) [OF u] by (auto intro: fle_trans)
  next
    case init
    then show ?thesis
      using Cons.IH [OF xs Cons.prems(2) mx(1) [OF u]] Cons.prems(4) mx(2) [OF u] by (auto intro: fle_trans)
  qed
qed (auto dest: fle_nan)

definition pod_ok :: "Pod \<Rightarrow> bool" where
  "pod_ok pod \<longleftrightarrow> (\<forall>c \<in> set (p_Containers pod) \<union> set (p_InitContainers pod). container_ok c)"

text \<open>A pod's request is at least that of each of its application containers.\<close>

lemma pod_request_covers:
  assumes "pod_ok pod" "c \<in> set (p_Containers pod)"
  shows "fle (cr_CPURequest (getCurrentContainerResources c)) (getCurrentPodCPU pod)"
    "fle (cr_MemoryRequest (getCurrentContainerResources c)) (getCurrentPodMemory pod)"
proof -
  have z: "fle fzero fzero" by simp
  have gen: "fle (opt_amount unit (rl_get (c_Requests c) r))
      (let s0 = sum_app r unit (p_Containers pod) (lit 0);
           (s, m) = sum_init r unit (p_InitContainers pod) s0 (lit 0) in gomax s m)"
    if u: "\<And>q. quantity_ok q \<Longrightarrow> fle fzero (unit q)" for r unit
  proof -
    let ?s0 = "sum_app r unit (p_Containers pod) fzero"
    have app: "\<forall>c \<in> set (p_Containers pod). container_ok c"
      and ini: "\<forall>c \<in> set (p_InitContainers pod). container_ok c"
      using assms(1) by (auto simp: pod_ok_def)
    obtain s m where sm: "sum_init r unit (p_InitContainers pod) ?s0 fzero = (s, m)" by fastforce
    have s0: "fle fzero ?s0" using sum_app_ge [OF app u z] by simp
    have le: "fle ?s0 s" "fle fzero m" using sum_init_ge [OF ini u s0 z sm] by auto
    have "fle (opt_amount unit (rl_get (c_Requests c) r)) ?s0"
      using s0 sum_app_covers [OF app u z assms(2)] by (auto simp: opt_amount_def split: option.splits)
    also note le(1)
    also have "fle s (gomax s m)" using gomax_ge(1) le fle_nan(2) by blast
    finally show ?thesis by (simp add: sm)
  qed
  show "fle (cr_CPURequest (getCurrentContainerResources c)) (getCurrentPodCPU pod)"
    using gen [OF unit_nonneg(1), where r = ResourceCPU]
    by (simp add: getCurrentContainerResources_def getCurrentPodCPU_def)
  show "fle (cr_MemoryRequest (getCurrentContainerResources c)) (getCurrentPodMemory pod)"
    using gen [OF unit_nonneg(2), where r = ResourceMemory]
    by (simp add: getCurrentContainerResources_def getCurrentPodMemory_def)
qed

section \<open>Lemmas on the pod predicates\<close>

lemma guaranteed_loop_iff:
  "guaranteed_loop cs \<longleftrightarrow>
     (\<forall>c \<in> set cs. (flt fzero (cr_CPURequest c) \<longrightarrow> feq (cr_CPULimit c) (cr_CPURequest c)) \<and>
                   (flt fzero (cr_MemoryRequest c) \<longrightarrow> feq (cr_MemoryLimit c) (cr_MemoryRequest c)))"
  by (induction cs) auto

lemma best_effort_guaranteed: "IsBestEffortPod p \<Longrightarrow> IsGuaranteedPod p"
  by (auto simp: IsBestEffortPod_def IsGuaranteedPod_def guaranteed_loop_iff list_ex_iff
      feq_def flt_def)

end
