(* ===== verification/Recommend.thy ===== *)
theory Recommend
  imports NodeStats
begin

text \<open>
  Which pods receive recommendations and what the recommended values are:
  \<^verbatim>\<open>pkg/task/utils/recommendationapply.go\<close>, \<^verbatim>\<open>validation.go\<close> and \<open>ToBeEvicted\<close> of
  \<^verbatim>\<open>util.go\<close>. The current time is an argument.
\<close>

section \<open>Minimum values\<close>

definition MinimumCPURecommendation :: float64 where "MinimumCPURecommendation = lit (1 / 1000)"
definition MinimumMemoryRecommendation :: float64 where "MinimumMemoryRecommendation = lit 16"

definition EnforceMinimumCPU :: "float64 \<Rightarrow> float64" where
  "EnforceMinimumCPU cpu = gomax MinimumCPURecommendation cpu"

definition EnforceMinimumMemory :: "float64 \<Rightarrow> float64" where
  "EnforceMinimumMemory memory = gomax MinimumMemoryRecommendation memory"

section \<open>Recommendations and the checks before them\<close>

record PodContainerRecommendation =
  pr_PodInfo :: PodInfo
  pr_ContainerName :: string
  pr_CPU :: float64
  pr_Memory :: float64
  pr_Evict :: bool

record ApplyCheckInput =
  ac_K8sVersionGE133 :: bool
  ac_K8sMemoryGE134 :: bool
  ac_OptimizeGuaranteedPods :: bool
  ac_DisableMemoryApplication :: bool
  ac_NewWorkloadThresholdHours :: int
  ac_SkipMemory :: bool
  ac_PodExcludedByAnnotation :: bool

text \<open>The product of the threshold and the hour is a 64-bit \<^verbatim>\<open>time.Duration\<close>, which wraps.\<close>

definition ShouldGenerateRecommendation ::
    "go_time \<Rightarrow> PodInfo \<Rightarrow> ApplyCheckInput \<Rightarrow> bool \<times> string" where
  "ShouldGenerateRecommendation now podInfo input =
     (case pi_Stats podInfo of
        None \<Rightarrow> (False, ''no stats for workload'')
      | Some stats \<Rightarrow>
          if IsBestEffortPod podInfo then (False, ''best effort pod'')
          else if IsIncomplete stats then (False, ''workload has incomplete stats'')
          else if ws_CreationTime stats >
                    now + signed_take_bit 63 (- 1 * Hour * ac_NewWorkloadThresholdHours input)
          then (False, ''workload is newer than NewWorkloadThresholdHours'')
          else if ws_IsHorizontallyAutoscaledOnCPU stats \<or> ws_IsHorizontallyAutoscaledOnMem stats
          then (False, ''workload is horizontally autoscaled on CPU or memory'')
          else (True, ''''))"

definition ShouldApplyRecommendationToPod ::
    "go_time \<Rightarrow> PodInfo \<Rightarrow> WorkloadOverrideInfo option \<Rightarrow> ApplyCheckInput \<Rightarrow> bool \<times> string" where
  "ShouldApplyRecommendationToPod now podInfo override input =
     (let (shouldGenerate, reason) = ShouldGenerateRecommendation now podInfo input
      in if \<not> shouldGenerate then (False, reason)
         else if ac_PodExcludedByAnnotation input then (False, ''pod annotation is excluded'')
         else if IsGuaranteedPod podInfo \<and> \<not> ac_OptimizeGuaranteedPods input
         then (False, ''guaranteed pod and config disables optimizing guaranteed pods'')
         else if \<not> ac_K8sVersionGE133 input
         then (False, ''kubernetes version is not v1.33 or above'')
         else if override = None \<or> \<not> info_EffectiveEnabled override
         then (False, ''cruisekube not enabled for workload '' @
                 (case pi_Stats podInfo of None \<Rightarrow> '''' | Some s \<Rightarrow> ws_WorkloadIdentifier s) @
                 '' (no override or recommend-only mode), skipping apply'')
         else (True, ''''))"

definition ToBeEvicted :: "PodContainerRecommendation \<Rightarrow> bool" where
  "ToBeEvicted r \<longleftrightarrow> pr_Evict r \<or> IsGuaranteedPod (pr_PodInfo r)"

section \<open>Recommended requests and limits\<close>

definition clamp_cpu :: "float64 \<Rightarrow> float64" where
  "clamp_cpu cpu = (let cpuRequest = EnforceMinimumCPU cpu
                    in if flt CPUClampValue cpuRequest then CPUClampValue else cpuRequest)"

definition memory_limit_for :: "PodContainerRecommendation \<Rightarrow> float64 \<Rightarrow> float64" where
  "memory_limit_for rec memoryRequest =
     (case pi_Stats (pr_PodInfo rec) of
        None \<Rightarrow> fmul memoryRequest (lit 2)
      | Some stats \<Rightarrow>
          (case GetContainerStats stats (pr_ContainerName rec) of
             None \<Rightarrow> fmul memoryRequest (lit 2)
           | Some cs \<Rightarrow>
               (let memMax = (case cs_Memory7Day cs of None \<Rightarrow> lit 0 | Some m \<Rightarrow> m7_Max m);
                    oom = (case cs_MemoryStats cs of None \<Rightarrow> lit 0
                           | Some m \<Rightarrow> if flt (lit 0) (mem_OOMMemory m) then mem_OOMMemory m else lit 0)
                in gomax memoryRequest (EnforceMinimumMemory (fmul (gomax memMax oom) (lit 2))))))"

definition round_milli :: "float64 \<Rightarrow> float64" where
  "round_milli x = fdiv (mathRound (fmul x (lit 1000))) (lit 1000)"

text \<open>CPU request, memory request, CPU limit, memory limit.\<close>

definition ComputeRecommendedResourceValues ::
    "PodContainerRecommendation \<Rightarrow> float64 \<Rightarrow> float64 \<times> float64 \<times> float64 \<times> float64" where
  "ComputeRecommendedResourceValues rec allocatableCPU =
     (let cpuRequest = clamp_cpu (pr_CPU rec);
          memoryRequest = EnforceMinimumMemory (pr_Memory rec);
          cpuLimit = allocatableCPU;
          memoryLimit = memory_limit_for rec memoryRequest;
          cpuRequest = round_milli cpuRequest;
          cpuLimit = round_milli cpuLimit;
          cpuLimit = (if flt (lit 0) cpuLimit then gomax cpuLimit cpuRequest else cpuLimit);
          memoryRequest = mathRound memoryRequest;
          memoryLimit = mathRound memoryLimit
      in (cpuRequest, memoryRequest, cpuLimit, memoryLimit))"

section \<open>Lemmas on the checks\<close>

lemma ShouldGenerate_iff:
  "fst (ShouldGenerateRecommendation now p i) \<longleftrightarrow>
     (\<exists>s. pi_Stats p = Some s \<and> \<not> IsBestEffortPod p \<and> \<not> IsIncomplete s \<and>
          ws_CreationTime s \<le> now + signed_take_bit 63 (- Hour * ac_NewWorkloadThresholdHours i) \<and>
          \<not> ws_IsHorizontallyAutoscaledOnCPU s \<and> \<not> ws_IsHorizontallyAutoscaledOnMem s)"
  by (auto simp: ShouldGenerateRecommendation_def split: option.splits)

lemma ShouldApply_iff:
  "fst (ShouldApplyRecommendationToPod now p ov i) \<longleftrightarrow>
     fst (ShouldGenerateRecommendation now p i) \<and> \<not> ac_PodExcludedByAnnotation i \<and>
     (IsGuaranteedPod p \<longrightarrow> ac_OptimizeGuaranteedPods i) \<and> ac_K8sVersionGE133 i \<and>
     info_EffectiveEnabled ov"
  by (auto simp: ShouldApplyRecommendationToPod_def info_EffectiveEnabled_def Let_def
      split: prod.splits option.splits)

section \<open>Lemmas on the values\<close>

lemma milli_num: "is_num (lit (1 / 1000))" "\<not> is_nan (lit (1 / 1000))"
  by (simp_all add: lit_milli)

lemma round_milli_mono: "fle a b \<Longrightarrow> fle (round_milli a) (round_milli b)"
  unfolding round_milli_def
  by (intro fdiv_const_mono mathRound_mono fmul_const_mono) simp_all

lemma round_milli_nan [simp]: "is_nan (round_milli a) \<longleftrightarrow> is_nan a"
  unfolding round_milli_def by (simp add: scale_nan)

lemma mathRound_16: "mathRound (lit 16) = lit 16"
  by (simp add: f64_eval)

lemma round_milli_20: "round_milli (lit 20) = lit 20"
  unfolding round_milli_def by (simp add: f64_eval)

lemma thousand_milli: "fmul (lit (1152921504606847 / 1152921504606846976)) (lit 1000) = lit 1"
proof -
  have r: "rnd (1152921504606847000 / 1152921504606846976) = 1" by code_simp
  have n: "lit (1152921504606847 / 1152921504606846976) = Num False (mk_mag (1152921504606847 / 1152921504606846976))"
    "lit 1000 = Num False (mk_mag 1000)" by (simp_all add: lit_num)
  have v: "val (Num False (mk_mag (1152921504606847 / 1152921504606846976))) = 1152921504606847 / 1152921504606846976"
    "val (Num False (mk_mag 1000)) = 1000"
    using val_num_lit [of "1152921504606847 / 1152921504606846976"] val_num_lit [of 1000] by simp_all
  have "fmul (lit (1152921504606847 / 1152921504606846976)) (lit 1000)
      = lit (1152921504606847000 / 1152921504606846976)"
    unfolding n by (simp add: v lit_def del: val.simps)
  also have "\<dots> = lit 1" by (rule lit_rnd [OF r]) simp_all
  finally show ?thesis .
qed

lemma round_milli_milli: "round_milli (lit (1 / 1000)) = lit (1 / 1000)"
proof -
  have "round_milli (lit (1 / 1000)) = fdiv (lit 1) (lit 1000)"
    unfolding round_milli_def lit_milli thousand_milli by (simp add: f64_eval)
  also have "\<dots> = lit (1 / 1000)" by (rule fdiv_lit) simp_all
  finally show ?thesis .
qed

lemma EnforceMinimum_ge:
  "\<not> is_nan x \<Longrightarrow> fle MinimumCPURecommendation (EnforceMinimumCPU x)"
  "\<not> is_nan x \<Longrightarrow> fle x (EnforceMinimumCPU x)"
  "\<not> is_nan x \<Longrightarrow> fle MinimumMemoryRecommendation (EnforceMinimumMemory x)"
  "\<not> is_nan x \<Longrightarrow> fle x (EnforceMinimumMemory x)"
  by (simp_all add: EnforceMinimumCPU_def EnforceMinimumMemory_def MinimumCPURecommendation_def
      MinimumMemoryRecommendation_def gomax_ge milli_num)

lemma clamp_cpu_bounds:
  assumes "\<not> is_nan x"
  shows "fle (lit (1 / 1000)) (clamp_cpu x)" "fle (clamp_cpu x) (lit 20)"
proof -
  have e: "\<not> is_nan (EnforceMinimumCPU x)" using EnforceMinimum_ge(2) [OF assms] fle_nan by blast
  have m: "fle (lit (1 / 1000)) (lit 20)" by (simp add: f64_eval)
  show "fle (lit (1 / 1000)) (clamp_cpu x)"
    using EnforceMinimum_ge(1) [OF assms] m
    by (simp add: clamp_cpu_def Let_def CPUClampValue_def MinimumCPURecommendation_def)
  show "fle (clamp_cpu x) (lit 20)"
    using e not_flt [of "lit 20" "EnforceMinimumCPU x"]
    by (simp add: clamp_cpu_def Let_def CPUClampValue_def)
qed

text \<open>The signals the memory limit is computed from are numbers.\<close>

definition memory_signals_ok :: "PodContainerRecommendation \<Rightarrow> bool" where
  "memory_signals_ok rec \<longleftrightarrow>
     (case pi_Stats (pr_PodInfo rec) of None \<Rightarrow> True
      | Some s \<Rightarrow> (case GetContainerStats s (pr_ContainerName rec) of None \<Rightarrow> True
          | Some cs \<Rightarrow> (case cs_Memory7Day cs of None \<Rightarrow> True | Some m \<Rightarrow> \<not> is_nan (m7_Max m))))"

lemma memory_limit_ge:
  assumes "memory_signals_ok rec" "fle (lit 16) m"
  shows "fle m (memory_limit_for rec m)"
proof -
  have m: "\<not> is_nan m" "fle fzero m"
    using assms(2) fle_nan(2) fle_trans [of fzero "lit 16" m] by (auto simp: f64_eval)
  have dbl: "fle m (fmul m (lit 2))"
  proof (cases "is_num m")
    case True
    then obtain s where s: "fmul m (lit 2) = fround s (val m * val (lit 2))"
      using fmul_num [of m "lit 2"] by auto
    have "0 \<le> val m" using m(2) True by (auto simp: fzero_le is_num_iff)
    then show ?thesis using True unfolding s by (intro fround_ge) auto
  next
    case False
    then have "m = Infty False" using m(2) by (auto simp: fzero_le)
    then show ?thesis using pos_scale(1) [of 2 False] by simp
  qed
  have lim: "fle m (gomax m (EnforceMinimumMemory (fmul (gomax a b) (lit 2))))"
    if "\<not> is_nan a" "\<not> is_nan b" for a b
  proof -
    have "\<not> is_nan (fmul (gomax a b) (lit 2))" using that by (simp add: scale_nan gomax_nan)
    then have "\<not> is_nan (EnforceMinimumMemory (fmul (gomax a b) (lit 2)))"
      using EnforceMinimum_ge(4) fle_nan(2) by blast
    then show ?thesis using gomax_ge(1) m(1) by blast
  qed
  have oom: "\<not> is_nan x" if "flt fzero x" for x
    using that flt_nan(2) by auto
  show ?thesis
    using assms(1) dbl lim oom
    by (auto simp: memory_limit_for_def memory_signals_ok_def Let_def split: option.splits)
qed

lemma compute_values:
  assumes "ComputeRecommendedResourceValues rec alloc = (c, m, cl, ml)"
  shows "c = round_milli (clamp_cpu (pr_CPU rec))"
    "m = mathRound (EnforceMinimumMemory (pr_Memory rec))"
    "cl = (if flt fzero (round_milli alloc) then gomax (round_milli alloc) c else round_milli alloc)"
    "ml = mathRound (memory_limit_for rec (EnforceMinimumMemory (pr_Memory rec)))"
  using assms by (auto simp: ComputeRecommendedResourceValues_def Let_def)

lemma compute_cpu_bounds:
  assumes "ComputeRecommendedResourceValues rec alloc = (c, m, cl, ml)" "\<not> is_nan (pr_CPU rec)"
  shows "fle (lit (1 / 1000)) c" "fle c (lit 20)"
  using round_milli_mono [OF clamp_cpu_bounds(1) [OF assms(2)]]
    round_milli_mono [OF clamp_cpu_bounds(2) [OF assms(2)]] compute_values(1) [OF assms(1)]
  by (simp_all add: round_milli_milli round_milli_20)

lemma compute_memory_bounds:
  assumes "ComputeRecommendedResourceValues rec alloc = (c, m, cl, ml)" "\<not> is_nan (pr_Memory rec)"
  shows "fle (lit 16) m" "memory_signals_ok rec \<Longrightarrow> fle m ml"
proof -
  have e: "fle (lit 16) (EnforceMinimumMemory (pr_Memory rec))"
    using EnforceMinimum_ge(3) [OF assms(2)] by (simp add: MinimumMemoryRecommendation_def)
  show "fle (lit 16) m"
    using mathRound_mono [OF e] compute_values(2) [OF assms(1)] by (simp add: mathRound_16)
  show "memory_signals_ok rec \<Longrightarrow> fle m ml"
    using mathRound_mono [OF memory_limit_ge [OF _ e]] compute_values(2,4) [OF assms(1)] by simp
qed

lemma compute_cpu_limit:
  assumes "ComputeRecommendedResourceValues rec alloc = (c, m, cl, ml)"
    "\<not> is_nan (pr_CPU rec)" "flt fzero cl"
  shows "fle c cl"
proof -
  have c: "\<not> is_nan c" using compute_cpu_bounds(1) [OF assms(1,2)] fle_nan(2) by blast
  have "\<not> is_nan (round_milli alloc)" if "flt fzero (round_milli alloc)"
    using that flt_nan(2) by blast
  then show ?thesis
    using compute_values(3) [OF assms(1)] assms(3) c gomax_ge(2) by (auto split: if_splits)
qed

section \<open>A sample workload, for the concrete instances\<close>

definition sample_container_stats :: "string \<Rightarrow> rat \<Rightarrow> rat \<Rightarrow> ContainerStats" where
  "sample_container_stats name cpu mem =
     \<lparr>cs_ContainerName = name, cs_ContainerType = AppContainer,
      cs_CPUStats = Some \<lparr>cpu_P75 = lit cpu\<rparr>, cs_PSIAdjustedUsage = None,
      cs_MemoryStats = Some \<lparr>mem_P75 = lit mem, mem_OOMMemory = lit 0\<rparr>,
      cs_Memory7Day = Some \<lparr>m7_Max = lit (2 * mem)\<rparr>,
      cs_MLPercentilesCPU = None, cs_MLPercentilesCPUPSIAdjusted = None,
      cs_SimplePredictionsCPU = Some \<lparr>sp_WeeklyPrediction = lit cpu, sp_HourlyPrediction = lit cpu,
        sp_CurrentPrediction = lit cpu, sp_MaxValue = lit (2 * cpu)\<rparr>,
      cs_MLPercentilesMemory = None,
      cs_SimplePredictionsMemory = Some \<lparr>sp_WeeklyPrediction = lit mem, sp_HourlyPrediction = lit mem,
        sp_CurrentPrediction = lit mem, sp_MaxValue = lit (2 * mem)\<rparr>\<rparr>"

definition sample_stat :: "string \<Rightarrow> rat \<Rightarrow> rat \<Rightarrow> WorkloadStat" where
  "sample_stat name cpu mem =
     \<lparr>ws_WorkloadIdentifier = GetWorkloadKey ''Deployment'' ''ns'' name, ws_Kind = ''Deployment'',
      ws_Namespace = ''ns'', ws_Name = name, ws_CreationTime = 0, ws_UpdatedAt = 0,
      ws_IsHorizontallyAutoscaledOnCPU = False, ws_IsHorizontallyAutoscaledOnMem = False,
      ws_Constraints = Some \<lparr>wc_BlockingConsolidation = False, wc_PDB = False,
        wc_DoNotDisruptAnnotation = False, wc_Volume = False, wc_Affinity = False,
        wc_TopologySpreadConstraint = False, wc_PodAntiAffinity = False, wc_ExcludedAnnotation = False\<rparr>,
      ws_EvictionRanking = EvictionRankingHigh, ws_Replicas = 2, ws_Metadata = None,
      ws_ContainerStats = [sample_container_stats ''app'' cpu mem],
      ws_OriginalContainerResources = []\<rparr>"

definition sample_pod_info :: "string \<Rightarrow> rat \<Rightarrow> rat \<Rightarrow> PodInfo" where
  "sample_pod_info name cpu mem =
     \<lparr>pi_Namespace = ''ns'', pi_Name = name, pi_WorkloadKind = ''Deployment'',
      pi_WorkloadName = name, pi_RequestedCPU = lit (3 * cpu), pi_RequestedMemory = lit (3 * mem),
      pi_LimitCPU = lit 0, pi_LimitMemory = lit 0, pi_Stats = Some (sample_stat name cpu mem),
      pi_ContainerResources = [\<lparr>cr_Name = ''app'', cr_CPURequest = lit (3 * cpu), cr_CPULimit = lit 0,
        cr_MemoryRequest = lit (3 * mem), cr_MemoryLimit = lit 0\<rparr>]\<rparr>"

definition sample_rec :: "string \<Rightarrow> rat \<Rightarrow> rat \<Rightarrow> PodContainerRecommendation" where
  "sample_rec name cpu mem =
     \<lparr>pr_PodInfo = sample_pod_info name cpu mem, pr_ContainerName = ''app'', pr_CPU = lit cpu,
      pr_Memory = lit mem, pr_Evict = False\<rparr>"

lemmas sample_defs = sample_container_stats_def sample_stat_def sample_pod_info_def sample_rec_def

lemmas compute_eval = ComputeRecommendedResourceValues_def clamp_cpu_def EnforceMinimumCPU_def
  EnforceMinimumMemory_def MinimumCPURecommendation_def MinimumMemoryRecommendation_def
  CPUClampValue_def memory_limit_for_def GetContainerStats_def round_milli_def Let_def

section \<open>Properties\<close>

text \<open>C9. The values written to a pod are ones Kubernetes accepts: the CPU request is between one
  millicore and the 20 core clamp, the memory request is at least 16 MB, the memory request never
  exceeds the memory limit, and a CPU limit that is set is not below the CPU request.\<close>

theorem recommended_values_valid:
  assumes "ComputeRecommendedResourceValues rec alloc = (c, m, cl, ml)"
    and "\<not> is_nan (pr_CPU rec)" "\<not> is_nan (pr_Memory rec)" "memory_signals_ok rec"
  shows "fle (lit (1 / 1000)) c \<and> fle c (lit 20) \<and> fle (lit 16) m \<and> fle m ml \<and>
    (flt (lit 0) cl \<longrightarrow> fle c cl)"
  using compute_cpu_bounds [OF assms(1,2)] compute_memory_bounds [OF assms(1,3)] assms(4)
    compute_cpu_limit [OF assms(1,2)] by blast

lemma recommended_values_valid_witness:
  "case ComputeRecommendedResourceValues (sample_rec ''web'' 25 300) (lit 4) of (c, m, cl, ml) \<Rightarrow>
     fle (lit (1 / 1000)) c \<and> fle c (lit 20) \<and> fle (lit 16) m \<and> fle m ml \<and>
     (flt (lit 0) cl \<longrightarrow> fle c cl)"
proof -
  have e: "ComputeRecommendedResourceValues (sample_rec ''web'' 25 300) (lit 4) =
      (lit 20, lit 300, lit 20, lit 1200)"
    by (simp add: compute_eval sample_defs f64_eval)
  have "memory_signals_ok (sample_rec ''web'' 25 300)"
    by (simp add: memory_signals_ok_def GetContainerStats_def sample_defs)
  from recommended_values_valid [OF e _ _ this] show ?thesis
    unfolding e prod.case by (simp add: sample_rec_def)
qed

end
