(* ===== verification/Api.thy ===== *)
theory Api
  imports Recommend
begin

text \<open>
  Writes to the cluster. A run is described by the trace of the writes it attempts; what the API
  server answers to a write, given the trace so far, is the argument \<open>reply\<close> (\<open>None\<close> when it
  succeeds). Here are the writes several components share: eviction, in-place resize (\<^verbatim>\<open>EvictPod\<close>
  and \<^verbatim>\<open>updatePodResources\<close> of \<^verbatim>\<open>pkg/task/utils/util.go\<close>) and audit records
  (\<^verbatim>\<open>pkg/types/audit.go\<close>).
\<close>

section \<open>Audit records\<close>

datatype audit_value =
  AStr string
| AInt int
| ANum float64
| AMap "(string \<times> audit_value) list"
| AList "audit_value list"

record AuditEvent =
  ae_Type :: string
  ae_Category :: string
  ae_Message :: string
  ae_Target :: "(string \<times> string) list"
  ae_Details :: "(string \<times> audit_value) list"

definition EventTypeNormal :: string where "EventTypeNormal = ''Normal''"

section \<open>Writes\<close>

text \<open>
  A quantity in a resize patch is a value with the format it is printed in; \<^verbatim>\<open>MustParse\<close> panics
  on the text of a NaN or an infinity.
\<close>

record patch_quantity =
  pq_Format :: string
  pq_Amount :: float64

record resize_patch =
  rp_Namespace :: string
  rp_Pod :: string
  rp_Container :: string
  rp_Resource :: string
  rp_Request :: patch_quantity
  rp_Limit :: "patch_quantity option"

datatype action =
  ActEvict string string
| ActResize resize_patch
| ActUpdatePod Pod
| ActUpdatePDB PodDisruptionBudget
| ActUpdateNode Node
| ActDeleteWebhookConfiguration string
| ActUpsertStat string string WorkloadStat go_time
| ActAudit AuditEvent

type_synonym trace = "action list"
type_synonym reply = "trace \<Rightarrow> action \<Rightarrow> api_error option"

definition record_audit :: "bool \<Rightarrow> AuditEvent \<Rightarrow> trace \<Rightarrow> trace" where
  "record_audit recorder ev tr = (if recorder then tr @ [ActAudit ev] else tr)"

section \<open>Eviction\<close>

definition EvictPod :: "reply \<Rightarrow> Pod \<Rightarrow> trace \<Rightarrow> (bool \<times> string) \<times> trace" where
  "EvictPod reply pod tr =
     (let act = ActEvict (p_Namespace pod) (p_Name pod)
      in case reply tr act of
           Some e \<Rightarrow>
             if IsNotFound e then ((True, ''''), tr @ [act])
             else ((False, ''failed to evict pod: '' @ err_msg e), tr @ [act])
         | None \<Rightarrow> ((True, ''''), tr @ [act]))"

section \<open>Resize\<close>

definition MustParse :: "string \<Rightarrow> float64 \<Rightarrow> patch_quantity option" where
  "MustParse format x = (if is_num x then Some \<lparr>pq_Format = format, pq_Amount = x\<rparr> else None)"

definition updatePodResources ::
    "reply \<Rightarrow> Pod \<Rightarrow> string \<Rightarrow> string \<Rightarrow> float64 \<Rightarrow> float64 \<Rightarrow> string \<Rightarrow> string \<Rightarrow> string \<Rightarrow> trace
     \<Rightarrow> ((bool \<times> string) \<times> trace) option" where
  "updatePodResources reply pod containerName resourceType requestValue limitValue
       requestFormat limitFormat resourceTypeName tr =
     do { request \<leftarrow> MustParse requestFormat requestValue;
          limit \<leftarrow> (if \<not> feq limitValue (lit 0)
                    then do { l \<leftarrow> MustParse limitFormat limitValue; Some (Some l) }
                    else Some None);
          let act = ActResize \<lparr>rp_Namespace = p_Namespace pod, rp_Pod = p_Name pod,
             rp_Container = containerName, rp_Resource = resourceType,
             rp_Request = request, rp_Limit = limit\<rparr>;
          Some (case reply tr act of
                  Some e \<Rightarrow>
                    if IsNotFound e then ((False, ''''), tr @ [act])
                    else ((False, ''failed to update container '' @ containerName @ '' '' @
                             resourceTypeName @ '' resources: '' @ err_msg e), tr @ [act])
                | None \<Rightarrow> ((True, ''''), tr @ [act])) }"

definition UpdatePodCPUResources ::
    "reply \<Rightarrow> Pod \<Rightarrow> string \<Rightarrow> float64 \<Rightarrow> float64 \<Rightarrow> trace \<Rightarrow> ((bool \<times> string) \<times> trace) option" where
  "UpdatePodCPUResources reply pod containerName request limit tr =
     updatePodResources reply pod containerName ResourceCPU request limit ''%.3f'' ''%.3f'' ''CPU'' tr"

definition UpdatePodMemoryResources ::
    "reply \<Rightarrow> Pod \<Rightarrow> string \<Rightarrow> float64 \<Rightarrow> float64 \<Rightarrow> trace \<Rightarrow> ((bool \<times> string) \<times> trace) option" where
  "UpdatePodMemoryResources reply pod containerName request limit tr =
     updatePodResources reply pod containerName ResourceMemory request limit ''%.0fM'' ''%.0fM'' ''memory'' tr"

section \<open>Lemmas\<close>

lemma EvictPod_trace: "snd (EvictPod reply pod tr) = tr @ [ActEvict (p_Namespace pod) (p_Name pod)]"
  by (simp add: EvictPod_def Let_def split: option.split)

lemma updatePodResources_SomeD:
  assumes "updatePodResources reply pod c r req lm rf lf tn tr = Some (res, tr')"
  shows "\<exists>p. tr' = tr @ [ActResize p] \<and> rp_Namespace p = p_Namespace pod \<and> rp_Pod p = p_Name pod \<and>
    rp_Container p = c \<and> rp_Resource p = r \<and>
    rp_Request p = \<lparr>pq_Format = rf, pq_Amount = req\<rparr> \<and>
    rp_Limit p = (if feq lm (lit 0) then None else Some \<lparr>pq_Format = lf, pq_Amount = lm\<rparr>) \<and>
    (fst res \<longleftrightarrow> reply tr (ActResize p) = None)"
  using assms
  by (auto simp: updatePodResources_def MustParse_def bind_eq_Some_conv Let_def
      split: if_splits option.splits)

end
