(* ===== verification/GoSort.thy ===== *)
theory GoSort
  imports Float64_Order
begin

text \<open>
  The contract of \<^verbatim>\<open>sort.Slice\<close>: the result is a permutation, and when the comparison is a
  strict weak order on the elements no element comes after one it is less than. The library's
  algorithm is not part of the repository, so the components that sort take it as an argument
  that satisfies this interface; insertion sort is one instance.
\<close>

definition strict_weak :: "('a \<Rightarrow> 'a \<Rightarrow> bool) \<Rightarrow> 'a set \<Rightarrow> bool" where
  "strict_weak lt S \<longleftrightarrow>
     (\<forall>x \<in> S. \<not> lt x x) \<and>
     (\<forall>x \<in> S. \<forall>y \<in> S. \<forall>z \<in> S. lt x y \<longrightarrow> lt y z \<longrightarrow> lt x z) \<and>
     (\<forall>x \<in> S. \<forall>y \<in> S. \<forall>z \<in> S. lt x z \<longrightarrow> lt x y \<or> lt y z)"

lemma strict_weak_subset: "strict_weak lt S \<Longrightarrow> T \<subseteq> S \<Longrightarrow> strict_weak lt T"
  unfolding strict_weak_def by blast

lemma strict_weak_asym: "strict_weak lt S \<Longrightarrow> x \<in> S \<Longrightarrow> y \<in> S \<Longrightarrow> lt x y \<Longrightarrow> \<not> lt y x"
  unfolding strict_weak_def by blast

locale go_sort =
  fixes srt :: "('a \<Rightarrow> 'a \<Rightarrow> bool) \<Rightarrow> 'a list \<Rightarrow> 'a list"
  assumes mset_srt: "mset (srt lt xs) = mset xs"
    and sorted_srt: "strict_weak lt (set xs) \<Longrightarrow> sorted_wrt (\<lambda>a b. \<not> lt b a) (srt lt xs)"
begin

lemma set_srt: "set (srt lt xs) = set xs"
  using mset_srt by (rule mset_eq_setD)

lemma length_srt: "length (srt lt xs) = length xs"
  using mset_srt by (metis size_mset)

lemma srt_order:
  "strict_weak lt (set xs) \<Longrightarrow> srt lt xs = ys @ zs \<Longrightarrow> a \<in> set ys \<Longrightarrow> b \<in> set zs \<Longrightarrow> \<not> lt b a"
  using sorted_srt [of lt xs] by (auto simp: sorted_wrt_append)

end

fun ins :: "('a \<Rightarrow> 'a \<Rightarrow> bool) \<Rightarrow> 'a \<Rightarrow> 'a list \<Rightarrow> 'a list" where
  "ins lt x [] = [x]"
| "ins lt x (y # ys) = (if lt y x then y # ins lt x ys else x # y # ys)"

definition insertion_sort :: "('a \<Rightarrow> 'a \<Rightarrow> bool) \<Rightarrow> 'a list \<Rightarrow> 'a list" where
  "insertion_sort lt xs = foldr (ins lt) xs []"

lemma mset_ins [simp]: "mset (ins lt x xs) = add_mset x (mset xs)"
  by (induction xs) auto

lemma mset_insertion_sort: "mset (insertion_sort lt xs) = mset xs"
  unfolding insertion_sort_def by (induction xs) auto

lemma set_ins [simp]: "set (ins lt x xs) = insert x (set xs)"
  by (induction xs) auto

lemma sorted_ins:
  assumes "strict_weak lt (insert x (set xs))" "sorted_wrt (\<lambda>a b. \<not> lt b a) xs"
  shows "sorted_wrt (\<lambda>a b. \<not> lt b a) (ins lt x xs)"
  using assms
proof (induction xs)
  case (Cons y ys)
  have sub: "strict_weak lt (insert x (set ys))" "strict_weak lt {x, y}"
    using strict_weak_subset [OF Cons.prems(1)] by auto
  show ?case
  proof (cases "lt y x")
    case True
    then have "\<not> lt x y" using strict_weak_asym [OF sub(2)] by auto
    then show ?thesis using Cons.IH [OF sub(1)] Cons.prems(2) True by auto
  next
    case False
    have "\<not> lt z x" if "z \<in> set ys" for z
    proof
      assume "lt z x"
      moreover have "z \<in> insert x (set (y # ys))" "y \<in> insert x (set (y # ys))" using that by auto
      ultimately have "lt z y \<or> lt y x" using Cons.prems(1) unfolding strict_weak_def by blast
      then show False using False Cons.prems(2) that by auto
    qed
    then show ?thesis using False Cons.prems(2) by auto
  qed
qed simp

lemma sorted_insertion_sort:
  "strict_weak lt (set xs) \<Longrightarrow> sorted_wrt (\<lambda>a b. \<not> lt b a) (insertion_sort lt xs)"
proof (induction xs)
  case (Cons x xs)
  have s: "set (insertion_sort lt xs) = set xs" using mset_insertion_sort by (rule mset_eq_setD)
  have "strict_weak lt (set xs)" by (rule strict_weak_subset [OF Cons.prems]) auto
  then show ?case using Cons.IH Cons.prems s sorted_ins [of lt x "insertion_sort lt xs"]
    by (simp add: insertion_sort_def)
qed (simp add: insertion_sort_def)

interpretation insertion: go_sort insertion_sort
  by unfold_locales (simp_all add: mset_insertion_sort sorted_insertion_sort)

end
