(* ===== verification/Optimize.thy ===== *)
theory Optimize
  imports Recommend GoSort
begin

text \<open>
  The node optimiser, \<^verbatim>\<open>pkg/task/applystrategies\<close>: the base and headroom ("rest") of every
  container, the per-pod metrics, the two sorts, the eviction loop that makes the pods of a node
  fit, and the distribution of the largest headroom over the containers that stay. \<open>None\<close> is the
  panic of a nil statistics pointer.
\<close>

section \<open>Base and headroom of a container\<close>

definition recommended_cpu_base :: "ContainerStats \<Rightarrow> float64 option" where
  "recommended_cpu_base cs =
     do { cpu \<leftarrow> cs_CPUStats cs;
          Some (case cs_PSIAdjustedUsage cs of None \<Rightarrow> cpu_P75 cpu | Some psi \<Rightarrow> psi_P75 psi) }"

definition getPredictedCPUMax :: "ContainerStats \<Rightarrow> float64 option" where
  "getPredictedCPUMax cs =
     do { recommendedCPU \<leftarrow> recommended_cpu_base cs;
          sp \<leftarrow> cs_SimplePredictionsCPU cs;
          Some (gomax (sp_MaxValue sp) recommendedCPU) }"

definition getPredictedMemoryMax :: "ContainerStats \<Rightarrow> float64 option" where
  "getPredictedMemoryMax cs =
     do { sp \<leftarrow> cs_SimplePredictionsMemory cs;
          m \<leftarrow> cs_MemoryStats cs;
          Some (gomax (sp_MaxValue sp) (mem_P75 m)) }"

definition GetRecommendedAndRestMemory :: "ContainerStats \<Rightarrow> (float64 \<times> float64) option" where
  "GetRecommendedAndRestMemory cs =
     do { m \<leftarrow> cs_MemoryStats cs;
          if flt (lit 0) (mem_OOMMemory m) \<and> flt (mem_P75 m) (mem_OOMMemory m)
          then Some (mem_OOMMemory m, lit 0)
          else do { pmax \<leftarrow> getPredictedMemoryMax cs;
                    Some (mem_P75 m, gomax (lit 0) (fsub pmax (mem_P75 m))) } }"

definition GetRecommendedAndRestCPU :: "ContainerStats \<Rightarrow> (float64 \<times> float64) option" where
  "GetRecommendedAndRestCPU cs =
     do { recommendedCPU \<leftarrow> recommended_cpu_base cs;
          pmax \<leftarrow> getPredictedCPUMax cs;
          Some (recommendedCPU, gomax (lit 0) (fsub pmax recommendedCPU)) }"

section \<open>Metrics of a pod\<close>

record PodMetrics =
  pm_TotalRecommendedCPU :: float64
  pm_TotalRecommendedMemory :: float64
  pm_MaxRestCPU :: float64
  pm_MaxRestMemory :: float64
  pm_EvictionRanking :: EvictionRanking

definition zero_metrics :: PodMetrics where
  "zero_metrics = \<lparr>pm_TotalRecommendedCPU = lit 0, pm_TotalRecommendedMemory = lit 0,
     pm_MaxRestCPU = lit 0, pm_MaxRestMemory = lit 0, pm_EvictionRanking = 0\<rparr>"

type_synonym metrics_cache = "string \<rightharpoonup> PodMetrics"

definition metrics_of :: "metrics_cache \<Rightarrow> PodInfo \<Rightarrow> PodMetrics" where
  "metrics_of cache p =
     (case cache (GetPodKey (pi_Namespace p) (pi_Name p)) of None \<Rightarrow> zero_metrics | Some m \<Rightarrow> m)"

text \<open>A DaemonSet's request is never raised.\<close>

definition cap_at :: "float64 \<Rightarrow> float64 \<Rightarrow> float64" where
  "cap_at current recommended = (if flt current recommended then current else recommended)"

fun metrics_loop ::
    "PodInfo \<Rightarrow> ContainerStats list \<Rightarrow> float64 \<times> float64 \<times> float64 \<times> float64
     \<Rightarrow> (float64 \<times> float64 \<times> float64 \<times> float64) option" where
  "metrics_loop pod [] acc = Some acc"
| "metrics_loop pod (cs # css) (totalCPU, totalMemory, maxRestCPU, maxRestMemory) =
     (if cs_ContainerType cs = InitContainer
      then metrics_loop pod css (totalCPU, totalMemory, maxRestCPU, maxRestMemory)
      else do {
        (recommendedCPU, cpuRest) \<leftarrow> GetRecommendedAndRestCPU cs;
        (recommendedMemory, memoryRest) \<leftarrow> GetRecommendedAndRestMemory cs;
        if pi_WorkloadKind pod = DaemonSetKind
        then (case GetContainerResource pod (cs_ContainerName cs) of
                None \<Rightarrow> metrics_loop pod css (totalCPU, totalMemory, maxRestCPU, maxRestMemory)
              | Some r \<Rightarrow>
                  metrics_loop pod css
                    (fadd totalCPU (cap_at (cr_CPURequest r) recommendedCPU),
                     fadd totalMemory (cap_at (cr_MemoryRequest r) recommendedMemory),
                     mathMax maxRestCPU (lit 0), mathMax maxRestMemory (lit 0)))
        else metrics_loop pod css
               (fadd totalCPU recommendedCPU, fadd totalMemory recommendedMemory,
                mathMax maxRestCPU cpuRest, mathMax maxRestMemory memoryRest) })"

fun max_init :: "OriginalContainerResources list \<Rightarrow> float64 \<times> float64 \<Rightarrow> float64 \<times> float64" where
  "max_init [] acc = acc"
| "max_init (r # rs) (maxInitCPU, maxInitMemory) =
     (if oc_Type r = InitContainer
      then max_init rs (gomax maxInitCPU (oc_CPURequest r), gomax maxInitMemory (oc_MemoryRequest r))
      else max_init rs (maxInitCPU, maxInitMemory))"

definition eviction_ranking_of ::
    "(string \<rightharpoonup> WorkloadOverrideInfo) \<Rightarrow> WorkloadStat \<Rightarrow> EvictionRanking" where
  "eviction_ranking_of overridesMap stats =
     (let evictionRanking = (if ws_EvictionRanking stats \<noteq> 0 then ws_EvictionRanking stats
                             else EvictionRankingHigh)
      in case overridesMap (ws_WorkloadIdentifier stats) of
           None \<Rightarrow> evictionRanking
         | Some overrides \<Rightarrow>
             if info_EffectiveEvictionRanking (Some overrides) \<noteq> 0
             then info_EffectiveEvictionRanking (Some overrides) else evictionRanking)"

definition pod_metrics ::
    "(string \<rightharpoonup> WorkloadOverrideInfo) \<Rightarrow> PodInfo \<Rightarrow> PodMetrics option" where
  "pod_metrics overridesMap podInfo =
     do { stats \<leftarrow> pi_Stats podInfo;
          (totalCPU, totalMemory, maxRestCPU, maxRestMemory) \<leftarrow>
            metrics_loop podInfo (ws_ContainerStats stats) (lit 0, lit 0, lit 0, lit 0);
          let (maxInitCPU, maxInitMemory) =
            max_init (ws_OriginalContainerResources stats) (lit 0, lit 0);
          Some \<lparr>pm_TotalRecommendedCPU = gomax totalCPU maxInitCPU,
                pm_TotalRecommendedMemory = gomax totalMemory maxInitMemory,
                pm_MaxRestCPU = maxRestCPU, pm_MaxRestMemory = maxRestMemory,
                pm_EvictionRanking = eviction_ranking_of overridesMap stats\<rparr> }"

fun metrics_cache_loop ::
    "(string \<rightharpoonup> WorkloadOverrideInfo) \<Rightarrow> PodInfo list \<Rightarrow> metrics_cache \<Rightarrow> metrics_cache option" where
  "metrics_cache_loop overridesMap [] cache = Some cache"
| "metrics_cache_loop overridesMap (p # ps) cache =
     do { m \<leftarrow> pod_metrics overridesMap p;
          metrics_cache_loop overridesMap ps (cache(GetPodKey (pi_Namespace p) (pi_Name p) \<mapsto> m)) }"

section \<open>The order in which pods are considered\<close>

definition less_by ::
    "(PodMetrics \<Rightarrow> float64) \<Rightarrow> metrics_cache \<Rightarrow> PodInfo \<Rightarrow> PodInfo \<Rightarrow> bool" where
  "less_by rest cache a b \<longleftrightarrow>
     (if pi_WorkloadKind a = DaemonSetKind \<and> pi_WorkloadKind b \<noteq> DaemonSetKind then False
      else if pi_WorkloadKind a \<noteq> DaemonSetKind \<and> pi_WorkloadKind b = DaemonSetKind then True
      else let ma = metrics_of cache a; mb = metrics_of cache b
           in if pm_EvictionRanking ma < pm_EvictionRanking mb then False
              else if pm_EvictionRanking ma > pm_EvictionRanking mb then True
              else flt (rest mb) (rest ma))"

definition less_memory :: "metrics_cache \<Rightarrow> PodInfo \<Rightarrow> PodInfo \<Rightarrow> bool" where
  "less_memory = less_by pm_MaxRestMemory"

definition less_cpu :: "metrics_cache \<Rightarrow> PodInfo \<Rightarrow> PodInfo \<Rightarrow> bool" where
  "less_cpu = less_by pm_MaxRestCPU"

section \<open>The eviction loop\<close>

definition isEvictionExcludedPod :: "PodInfo \<Rightarrow> EvictionRanking \<Rightarrow> bool option" where
  "isEvictionExcludedPod podInfo evictionRanking =
     do { stats \<leftarrow> pi_Stats podInfo;
          Some (case ws_Constraints stats of
                  None \<Rightarrow> False
                | Some c \<Rightarrow> wc_ExcludedAnnotation c \<or> pi_WorkloadKind podInfo = DaemonSetKind \<or>
                            evictionRanking = EvictionRankingDisabled) }"

fun ideal ::
    "(PodMetrics \<Rightarrow> float64) \<Rightarrow> (PodMetrics \<Rightarrow> float64) \<Rightarrow> metrics_cache \<Rightarrow> PodInfo list
     \<Rightarrow> float64 \<times> float64 \<Rightarrow> float64 \<times> float64" where
  "ideal getTotal getMaxRest cache [] acc = acc"
| "ideal getTotal getMaxRest cache (p # ps) (consumption, requiredRest) =
     ideal getTotal getMaxRest cache ps
       (fadd consumption (getTotal (metrics_of cache p)),
        mathMax (getMaxRest (metrics_of cache p)) requiredRest)"

definition fits ::
    "(PodMetrics \<Rightarrow> float64) \<Rightarrow> (PodMetrics \<Rightarrow> float64) \<Rightarrow> metrics_cache \<Rightarrow> float64 \<Rightarrow> PodInfo list
     \<Rightarrow> bool" where
  "fits getTotal getMaxRest cache allocatable pods \<longleftrightarrow>
     (let (consumption, requiredRest) = ideal getTotal getMaxRest cache pods (lit 0, lit 0);
          spare = fsub allocatable consumption
      in fle consumption allocatable \<and> fle requiredRest spare)"

fun evict_recs :: "PodInfo \<Rightarrow> ContainerStats list \<Rightarrow> PodContainerRecommendation list option" where
  "evict_recs pod [] = Some []"
| "evict_recs pod (cs # css) =
     (if cs_ContainerType cs = InitContainer then evict_recs pod css
      else do { cpu \<leftarrow> getPredictedCPUMax cs;
                memory \<leftarrow> getPredictedMemoryMax cs;
                rest \<leftarrow> evict_recs pod css;
                Some (\<lparr>pr_PodInfo = pod, pr_ContainerName = cs_ContainerName cs, pr_CPU = cpu,
                       pr_Memory = memory, pr_Evict = True\<rparr> # rest) })"

function eviction_loop ::
    "(PodMetrics \<Rightarrow> float64) \<Rightarrow> (PodMetrics \<Rightarrow> float64) \<Rightarrow> metrics_cache \<Rightarrow> float64 \<Rightarrow> nat
     \<Rightarrow> PodInfo list \<Rightarrow> PodContainerRecommendation list
     \<Rightarrow> (PodInfo list \<times> PodContainerRecommendation list) option" where
  "eviction_loop getTotal getMaxRest cache allocatable i pods recs =
     (if \<not> i < length pods then Some (pods, recs)
      else if fits getTotal getMaxRest cache allocatable pods then Some (pods, recs)
      else do {
        let podInfo = pods ! i;
        excluded \<leftarrow> isEvictionExcludedPod podInfo (pm_EvictionRanking (metrics_of cache podInfo));
        if excluded then eviction_loop getTotal getMaxRest cache allocatable (i + 1) pods recs
        else do {
          stats \<leftarrow> pi_Stats podInfo;
          new \<leftarrow> evict_recs podInfo (ws_ContainerStats stats);
          eviction_loop getTotal getMaxRest cache allocatable i
            (take i pods @ drop (i + 1) pods) (recs @ new) } })"
  by pat_completeness auto

termination
  by (relation "measure (\<lambda>(t, r, c, a, i, pods, recs). length pods - i)") auto

declare eviction_loop.simps [simp del]

definition performEvictionLoop ::
    "PodInfo list \<Rightarrow> metrics_cache \<Rightarrow> float64 \<Rightarrow> (PodMetrics \<Rightarrow> float64) \<Rightarrow> (PodMetrics \<Rightarrow> float64)
     \<Rightarrow> PodContainerRecommendation list
     \<Rightarrow> (PodInfo list \<times> PodContainerRecommendation list) option" where
  "performEvictionLoop pods cache allocatable getTotal getMaxRest recs =
     eviction_loop getTotal getMaxRest cache allocatable 0 pods recs"

section \<open>Distribution of the headroom\<close>

record ContainerMetric =
  cm_pod :: PodInfo
  cm_containerStats :: ContainerStats
  cm_currentCPU :: float64
  cm_currentMemory :: float64
  cm_restCPU :: float64
  cm_restMemory :: float64
  cm_recommendedCPU :: float64
  cm_recommendedMemory :: float64

definition container_metric ::
    "PodInfo \<Rightarrow> ContainerStats \<Rightarrow> ContainerResources \<Rightarrow> ContainerMetric option" where
  "container_metric pod cs currentResource =
     do { (recommendedCPU, restCPU) \<leftarrow> GetRecommendedAndRestCPU cs;
          (recommendedMemory, restMemory) \<leftarrow> GetRecommendedAndRestMemory cs;
          let daemon = (pi_WorkloadKind pod = DaemonSetKind);
          Some \<lparr>cm_pod = pod, cm_containerStats = cs,
                cm_currentCPU = cr_CPURequest currentResource,
                cm_currentMemory = cr_MemoryRequest currentResource,
                cm_restCPU = (if daemon then lit 0 else restCPU),
                cm_restMemory = (if daemon then lit 0 else restMemory),
                cm_recommendedCPU =
                  (if daemon then cap_at (cr_CPURequest currentResource) recommendedCPU
                   else recommendedCPU),
                cm_recommendedMemory =
                  (if daemon then cap_at (cr_MemoryRequest currentResource) recommendedMemory
                   else recommendedMemory)\<rparr> }"

fun pod_container_metrics :: "PodInfo \<Rightarrow> ContainerStats list \<Rightarrow> ContainerMetric list option" where
  "pod_container_metrics pod [] = Some []"
| "pod_container_metrics pod (cs # css) =
     (if cs_ContainerType cs = InitContainer then pod_container_metrics pod css
      else case GetContainerResource pod (cs_ContainerName cs) of
             None \<Rightarrow> pod_container_metrics pod css
           | Some r \<Rightarrow>
               do { m \<leftarrow> container_metric pod cs r;
                    ms \<leftarrow> pod_container_metrics pod css;
                    Some (m # ms) })"

fun collect_metrics :: "PodInfo list \<Rightarrow> ContainerMetric list option" where
  "collect_metrics [] = Some []"
| "collect_metrics (p # ps) =
     do { stats \<leftarrow> pi_Stats p;
          ms \<leftarrow> pod_container_metrics p (ws_ContainerStats stats);
          rest \<leftarrow> collect_metrics ps;
          Some (ms @ rest) }"

definition total_of :: "(ContainerMetric \<Rightarrow> float64) \<Rightarrow> ContainerMetric list \<Rightarrow> float64" where
  "total_of f ms = foldl (\<lambda>s m. fadd s (f m)) (lit 0) ms"

definition max_of :: "(ContainerMetric \<Rightarrow> float64) \<Rightarrow> ContainerMetric list \<Rightarrow> float64" where
  "max_of f ms = foldl (\<lambda>s m. mathMax s (f m)) (lit 0) ms"

text \<open>The share of the largest headroom a container gets.\<close>

definition additional :: "float64 \<Rightarrow> float64 \<Rightarrow> float64 \<Rightarrow> float64 \<Rightarrow> float64" where
  "additional totalRecommended totalRest maxRest rest =
     (if flt (lit 0) totalRecommended \<and> flt (lit 0) totalRest
      then fmul maxRest (fdiv rest totalRest) else lit 0)"

definition distribute :: "ContainerMetric list \<Rightarrow> PodContainerRecommendation list" where
  "distribute ms =
     map (\<lambda>m. \<lparr>pr_PodInfo = cm_pod m, pr_ContainerName = cs_ContainerName (cm_containerStats m),
               pr_CPU = fadd (cm_recommendedCPU m)
                 (additional (total_of cm_recommendedCPU ms) (total_of cm_restCPU ms)
                    (max_of cm_restCPU ms) (cm_restCPU m)),
               pr_Memory = fadd (cm_recommendedMemory m)
                 (additional (total_of cm_recommendedMemory ms) (total_of cm_restMemory ms)
                    (max_of cm_restMemory ms) (cm_restMemory m)),
               pr_Evict = False\<rparr>) ms"

section \<open>Optimising a node\<close>

record NodeOptimizationData =
  nd_NodeName :: string
  nd_AllocatableCPU :: float64
  nd_AllocatableMemory :: float64
  nd_PodInfos :: "PodInfo list"

record OptimizationResult =
  op_PodContainerRecommendations :: "PodContainerRecommendation list"
  op_MaxRestCPU :: float64
  op_MaxRestMemory :: float64

text \<open>\<^verbatim>\<open>sort.Slice\<close> is the argument \<open>srt\<close>; it is not stable.\<close>

type_synonym sorter = "(PodInfo \<Rightarrow> PodInfo \<Rightarrow> bool) \<Rightarrow> PodInfo list \<Rightarrow> PodInfo list"

definition OptimizeNode ::
    "sorter \<Rightarrow> (string \<rightharpoonup> WorkloadOverrideInfo) \<Rightarrow> NodeOptimizationData \<Rightarrow> OptimizationResult option" where
  "OptimizeNode srt overridesMap data =
     do { cache \<leftarrow> metrics_cache_loop overridesMap (nd_PodInfos data) Map.empty;
          let pods = srt (less_memory cache) (nd_PodInfos data);
          (pods, recs) \<leftarrow> performEvictionLoop pods cache (nd_AllocatableMemory data)
             pm_TotalRecommendedMemory pm_MaxRestMemory [];
          let pods = srt (less_cpu cache) pods;
          (pods, recs) \<leftarrow> performEvictionLoop pods cache (nd_AllocatableCPU data)
             pm_TotalRecommendedCPU pm_MaxRestCPU recs;
          ms \<leftarrow> collect_metrics pods;
          Some \<lparr>op_PodContainerRecommendations = recs @ distribute ms,
                op_MaxRestCPU = max_of cm_restCPU ms,
                op_MaxRestMemory = max_of cm_restMemory ms\<rparr> }"

section \<open>Lemmas on the eviction loop\<close>

definition eviction_excluded :: "metrics_cache \<Rightarrow> PodInfo \<Rightarrow> bool" where
  "eviction_excluded cache p \<longleftrightarrow>
     isEvictionExcludedPod p (pm_EvictionRanking (metrics_of cache p)) = Some True"

definition recs_of_pod :: "PodInfo \<Rightarrow> PodContainerRecommendation list" where
  "recs_of_pod p =
     (case do { stats \<leftarrow> pi_Stats p; evict_recs p (ws_ContainerStats stats) } of
        None \<Rightarrow> [] | Some rs \<Rightarrow> rs)"

definition has_recs :: "PodInfo \<Rightarrow> bool" where
  "has_recs p \<longleftrightarrow> (\<exists>st rs. pi_Stats p = Some st \<and> evict_recs p (ws_ContainerStats st) = Some rs)"

text \<open>
  What the loop does, in one equation: for some prefix of the sorted pods it removes those that
  may be evicted, and it stops at the end or as soon as the rest fits.
\<close>

lemma eviction_loop_char:
  assumes "eviction_loop T R cache alloc i pods recs = Some (kept, recs')"
    and "i \<le> length pods" "\<forall>p \<in> set (take i pods). eviction_excluded cache p"
  shows "\<exists>n \<le> length pods. i \<le> n \<and> (\<forall>p \<in> set (take n pods). eviction_excluded cache p \<or> has_recs p) \<and>
    kept = filter (eviction_excluded cache) (take n pods) @ drop n pods \<and>
    recs' = recs @ concat (map recs_of_pod (filter (\<lambda>p. \<not> eviction_excluded cache p) (take n pods))) \<and>
    (n = length pods \<or> fits T R cache alloc kept)"
  using assms
proof (induction T R cache alloc i pods recs rule: eviction_loop.induct)
  case (1 T R cache alloc i pods recs)
  let ?ex = "eviction_excluded cache" and ?p = "pods ! i"
  have pre: "filter ?ex (take i pods) = take i pods" using 1(5) by (simp add: filter_id_conv)
  have pre': "filter (\<lambda>p. \<not> ?ex p) (take i pods) = []" using 1(5) by (auto simp: filter_empty_conv)
  show ?case
  proof (cases "i < length pods \<and> \<not> fits T R cache alloc pods")
    case False
    then have "kept = pods" "recs' = recs" "i = length pods \<or> fits T R cache alloc pods"
      using 1(3,4) by (auto simp: eviction_loop.simps [of T R cache alloc i pods recs] split: if_splits)
    then show ?thesis using 1(4,5) pre pre' by (intro exI [of _ i] conjI) auto
  next
    case True
    then have i: "i < length pods" and nf: "\<not> fits T R cache alloc pods" by auto
    have tk: "take (Suc i) pods = take i pods @ [?p]" using i by (rule take_Suc_conv_app_nth)
    obtain b where b: "isEvictionExcludedPod ?p (pm_EvictionRanking (metrics_of cache ?p)) = Some b"
      using 1(3) i nf by (auto simp: eviction_loop.simps [of T R cache alloc i pods recs] Let_def
          split: Option.bind_splits)
    show ?thesis
    proof (cases b)
      case True
      have ex: "?ex ?p" using b True by (simp add: eviction_excluded_def)
      have "eviction_loop T R cache alloc (i + 1) pods recs = Some (kept, recs')"
        using 1(3) i nf b True by (simp add: eviction_loop.simps [of T R cache alloc i pods recs])
      then have "\<exists>n \<le> length pods. i + 1 \<le> n \<and> (\<forall>p \<in> set (take n pods). ?ex p \<or> has_recs p) \<and> kept = filter ?ex (take n pods) @ drop n pods \<and>
          recs' = recs @ concat (map recs_of_pod (filter (\<lambda>p. \<not> ?ex p) (take n pods))) \<and>
          (n = length pods \<or> fits T R cache alloc kept)"
        using i nf b True ex tk 1(5)
        by (intro 1(1) [of ?p True]) auto
      then show ?thesis by (auto intro: Suc_leD)
    next
      case False
      let ?pods = "take i pods @ drop (i + 1) pods"
      have ex: "\<not> ?ex ?p" using b False by (simp add: eviction_excluded_def)
      obtain stats new where st: "pi_Stats ?p = Some stats"
        and new: "evict_recs ?p (ws_ContainerStats stats) = Some new"
        and run: "eviction_loop T R cache alloc i ?pods (recs @ new) = Some (kept, recs')"
        using 1(3) i nf b False by (auto simp: eviction_loop.simps [of T R cache alloc i pods recs] Let_def
            split: Option.bind_splits)
      have rp: "recs_of_pod ?p = new" "has_recs ?p"
        using st new by (simp_all add: recs_of_pod_def has_recs_def)
      have li: "length ?pods = length pods - 1" "i \<le> length ?pods" "take i ?pods = take i pods"
        using i by auto
      have "\<exists>n \<le> length ?pods. i \<le> n \<and> (\<forall>p \<in> set (take n ?pods). ?ex p \<or> has_recs p) \<and> kept = filter ?ex (take n ?pods) @ drop n ?pods \<and>
          recs' = (recs @ new) @ concat (map recs_of_pod (filter (\<lambda>p. \<not> ?ex p) (take n ?pods))) \<and>
          (n = length ?pods \<or> fits T R cache alloc kept)"
        using i nf b False st new run li 1(5)
        by (intro 1(2) [of ?p False stats new]) auto
      then obtain n where n: "n \<le> length ?pods" "i \<le> n"
        and h: "\<forall>p \<in> set (take n ?pods). ?ex p \<or> has_recs p" and k: "kept = filter ?ex (take n ?pods) @ drop n ?pods"
        and r: "recs' = (recs @ new) @ concat (map recs_of_pod (filter (\<lambda>p. \<not> ?ex p) (take n ?pods)))"
        and f: "n = length ?pods \<or> fits T R cache alloc kept" by blast
      obtain k where nk: "n = i + k" using n(2) le_Suc_ex by blast
      have t1: "take (Suc n) pods = take i pods @ [?p] @ take k (drop (i + 1) pods)"
        using i nk tk by (metis Suc_eq_plus1 add_Suc add.commute append.assoc take_add)
      have t2: "take n ?pods = take i pods @ take k (drop (i + 1) pods)" using i nk by simp
      have d: "drop n ?pods = drop (Suc n) pods" using i nk by (simp add: add.commute)
      have "kept = filter ?ex (take (Suc n) pods) @ drop (Suc n) pods"
        using k ex d unfolding t1 t2 by simp
      moreover have "recs' = recs @ concat (map recs_of_pod (filter (\<lambda>p. \<not> ?ex p) (take (Suc n) pods)))"
        using r ex rp pre' unfolding t1 t2 by simp
      moreover have "\<forall>p \<in> set (take (Suc n) pods). ?ex p \<or> has_recs p"
        using h rp(2) unfolding t1 t2 by auto
      ultimately show ?thesis using n f li i by (intro exI [of _ "Suc n"]) auto
    qed
  qed
qed

lemma performEvictionLoop_char:
  assumes "performEvictionLoop pods cache alloc T R recs = Some (kept, recs')"
  obtains n where "n \<le> length pods"
    "kept = filter (eviction_excluded cache) (take n pods) @ drop n pods"
    "recs' = recs @ concat (map recs_of_pod (filter (\<lambda>p. \<not> eviction_excluded cache p) (take n pods)))"
    "n = length pods \<or> fits T R cache alloc kept"
    "\<forall>p \<in> set (take n pods). eviction_excluded cache p \<or> has_recs p"
  using eviction_loop_char [of T R cache alloc 0 pods recs kept recs'] assms
  by (auto simp: performEvictionLoop_def)

lemma performEvictionLoop_parts:
  assumes "performEvictionLoop pods cache alloc T R recs = Some (kept, recs')"
  obtains evicted where "mset pods = mset evicted + mset kept" "set pods = set evicted \<union> set kept"
    "recs' = recs @ concat (map recs_of_pod evicted)"
    "\<forall>p \<in> set evicted. \<not> eviction_excluded cache p \<and> has_recs p"
    "fits T R cache alloc kept \<or> (\<forall>p \<in> set kept. eviction_excluded cache p)"
proof -
  obtain n where n: "kept = filter (eviction_excluded cache) (take n pods) @ drop n pods"
    "recs' = recs @ concat (map recs_of_pod (filter (\<lambda>p. \<not> eviction_excluded cache p) (take n pods)))"
    "n = length pods \<or> fits T R cache alloc kept"
    "\<forall>p \<in> set (take n pods). eviction_excluded cache p \<or> has_recs p"
    using performEvictionLoop_char [OF assms] by auto
  let ?ev = "filter (\<lambda>p. \<not> eviction_excluded cache p) (take n pods)"
  have m: "mset pods = mset ?ev + mset kept"
    unfolding n(1)
    by (metis append.assoc append_take_drop_id add.commute mset_append mset_filter multiset_partition
        union_assoc)
  then have st: "set pods = set ?ev \<union> set kept" by (metis set_mset_mset set_mset_union)
  have k: "fits T R cache alloc kept \<or> (\<forall>p \<in> set kept. eviction_excluded cache p)"
    using n(1,3) by auto
  show thesis by (rule that [OF m st n(2) _ k]) (use n(4) in auto)
qed

section \<open>Lemmas on the order\<close>





section \<open>Lemmas on the recommendations for evicted pods\<close>

lemma evict_recs_mem:
  "evict_recs pod css = Some rs \<Longrightarrow> r \<in> set rs \<Longrightarrow> pr_PodInfo r = pod \<and> pr_Evict r"
  by (induction pod css arbitrary: rs rule: evict_recs.induct)
    (auto split: if_splits Option.bind_splits)

lemma recs_of_pod_mem: "r \<in> set (recs_of_pod p) \<Longrightarrow> pr_PodInfo r = p \<and> pr_Evict r"
  by (cases "do { stats \<leftarrow> pi_Stats p; evict_recs p (ws_ContainerStats stats) }")
    (auto simp: recs_of_pod_def bind_eq_Some_conv dest: evict_recs_mem)

lemma container_metric_SomeD:
  assumes "container_metric pod cs r = Some m"
  obtains rc sc rm sm where
    "GetRecommendedAndRestCPU cs = Some (rc, sc)" "GetRecommendedAndRestMemory cs = Some (rm, sm)"
    "cm_pod m = pod" "cm_containerStats m = cs"
    "pi_WorkloadKind pod \<noteq> DaemonSetKind \<Longrightarrow> cm_restCPU m = sc \<and> cm_restMemory m = sm \<and>
       cm_recommendedCPU m = rc \<and> cm_recommendedMemory m = rm"
    "pi_WorkloadKind pod = DaemonSetKind \<Longrightarrow> cm_restCPU m = lit 0 \<and> cm_restMemory m = lit 0 \<and>
       cm_recommendedCPU m = cap_at (cr_CPURequest r) rc \<and>
       cm_recommendedMemory m = cap_at (cr_MemoryRequest r) rm"
  using assms by (auto simp: container_metric_def bind_eq_Some_conv Let_def)

lemma pod_container_metrics_SomeD:
  "pod_container_metrics pod css = Some ms \<Longrightarrow> m \<in> set ms \<Longrightarrow>
     \<exists>cs \<in> set css. cs_ContainerType cs \<noteq> InitContainer \<and>
       (\<exists>r. GetContainerResource pod (cs_ContainerName cs) = Some r \<and> container_metric pod cs r = Some m)"
proof (induction css arbitrary: ms)
  case (Cons c css)
  then show ?case
    by (cases "GetContainerResource pod (cs_ContainerName c)")
      (auto simp: bind_eq_Some_conv split: if_splits)
qed simp

lemma collect_metrics_SomeD:
  "collect_metrics pods = Some ms \<Longrightarrow> m \<in> set ms \<Longrightarrow>
     \<exists>p \<in> set pods. \<exists>st. pi_Stats p = Some st \<and>
       (\<exists>cs \<in> set (ws_ContainerStats st). cs_ContainerType cs \<noteq> InitContainer \<and>
         (\<exists>r. GetContainerResource p (cs_ContainerName cs) = Some r \<and> container_metric p cs r = Some m))"
proof (induction pods arbitrary: ms)
  case (Cons p ps)
  then obtain st ms1 ms2 where st: "pi_Stats p = Some st"
    and "pod_container_metrics p (ws_ContainerStats st) = Some ms1" "collect_metrics ps = Some ms2"
    and "ms = ms1 @ ms2" by (auto simp: bind_eq_Some_conv)
  then show ?case
    using Cons.IH [of ms2] Cons.prems(2) pod_container_metrics_SomeD [of p "ws_ContainerStats st" ms1 m]
    by auto
qed simp

section \<open>Lemmas on the distribution\<close>

lemma foldl_fadd:
  assumes "\<forall>m \<in> set ms. fle fzero (f m)" "fle fzero s"
  shows "fle s (foldl (\<lambda>s m. fadd s (f m)) s ms)"
    "m \<in> set ms \<Longrightarrow> fle (f m) (foldl (\<lambda>s m. fadd s (f m)) s ms)"
proof -
  have *: "fle s (foldl (\<lambda>s m. fadd s (f m)) s ms)"
    if "\<forall>m \<in> set ms. fle fzero (f m)" "fle fzero s" for s ms
    using that
  proof (induction ms arbitrary: s)
    case (Cons a ms)
    then have a: "fle fzero (f a)" by simp
    note s = nonneg_fadd [OF Cons.prems(2) a]
    show ?case using Cons.IH [of "fadd s (f a)"] Cons.prems(1) s by (auto intro: fle_trans)
  qed (auto dest: fle_nan)
  show "fle s (foldl (\<lambda>s m. fadd s (f m)) s ms)" using * assms by blast
  show "fle (f m) (foldl (\<lambda>s m. fadd s (f m)) s ms)" if "m \<in> set ms"
    using assms that
  proof (induction ms arbitrary: s)
    case (Cons a ms)
    then have a: "fle fzero (f a)" by simp
    note s = nonneg_fadd [OF Cons.prems(2) a]
    show ?case
      using Cons.IH [of "fadd s (f a)"] * [of ms "fadd s (f a)"] Cons.prems(1,3) s
      by (auto intro: fle_trans)
  qed simp
qed

lemma foldl_mathMax:
  assumes "\<forall>m \<in> set ms. \<not> is_nan (f m)" "\<not> is_nan s"
  shows "fle s (foldl (\<lambda>s m. mathMax s (f m)) s ms)"
    "m \<in> set ms \<Longrightarrow> fle (f m) (foldl (\<lambda>s m. mathMax s (f m)) s ms)"
    "foldl (\<lambda>s m. mathMax s (f m)) s ms \<in> insert s (f ` set ms)"
proof -
  have *: "fle s (foldl (\<lambda>s m. mathMax s (f m)) s ms) \<and>
      foldl (\<lambda>s m. mathMax s (f m)) s ms \<in> insert s (f ` set ms)"
    if "\<forall>m \<in> set ms. \<not> is_nan (f m)" "\<not> is_nan s" for s ms
    using that
  proof (induction ms arbitrary: s)
    case (Cons a ms)
    then have a: "\<not> is_nan (f a)" by simp
    note mx = mathMax_ge(1) [OF Cons.prems(2) a] mathMax_cases [OF Cons.prems(2) a]
    show ?case using Cons.IH [of "mathMax s (f a)"] Cons.prems mathMax_nan [OF Cons.prems(2) a] mx
      by (auto intro: fle_trans)
  qed simp
  show "fle s (foldl (\<lambda>s m. mathMax s (f m)) s ms)"
    "foldl (\<lambda>s m. mathMax s (f m)) s ms \<in> insert s (f ` set ms)"
    using * assms by blast+
  show "fle (f m) (foldl (\<lambda>s m. mathMax s (f m)) s ms)" if "m \<in> set ms"
    using assms that
  proof (induction ms arbitrary: s)
    case (Cons a ms)
    then have a: "\<not> is_nan (f a)" by simp
    note mx = mathMax_ge(2) [OF Cons.prems(2) a] mathMax_nan [OF Cons.prems(2) a]
    show ?case
      using Cons.IH [of "mathMax s (f a)"] * [of ms "mathMax s (f a)"] Cons.prems mx
      by (auto intro: fle_trans)
  qed simp
qed

text \<open>The share lies between zero and the largest headroom.\<close>

lemma additional_bounds:
  assumes "fle fzero rest" "is_num rest" "fle rest totalRest" "fle fzero maxRest" "is_num maxRest"
  shows "fle fzero (additional totalRec totalRest maxRest rest)"
    "fle (additional totalRec totalRest maxRest rest) maxRest"
proof -
  have z: "fle fzero maxRest" by fact
  have "fle fzero (fmul maxRest (fdiv rest totalRest)) \<and> fle (fmul maxRest (fdiv rest totalRest)) maxRest"
    if t: "flt fzero totalRest"
  proof -
    have nn: "\<not> is_nan (fdiv rest totalRest)"
    proof (cases "is_num totalRest")
      case True
      then have "0 < val totalRest" using t by (auto simp: flt_def is_num_iff)
      then have "val totalRest \<noteq> 0" by simp
      from fdiv_num [OF assms(2) True this] show ?thesis by (metis fround_not_nan)
    next
      case False
      then have "totalRest = Infty False" using t by (cases totalRest) (auto simp: flt_def is_num_def)
      then show ?thesis using assms(2) by (auto simp: is_num_iff)
    qed
    note r = fdiv_le_one [OF assms(1,3) nn]
    have nr: "is_num (fdiv rest totalRest)"
      using r fle_fzero_iff [of "fdiv rest totalRest"]
      by (cases "fdiv rest totalRest") (auto simp: fle_def is_num_def)
    have nm: "\<not> is_nan (fmul maxRest (fdiv rest totalRest))"
      using fmul_num [OF assms(5) nr] by (metis fround_not_nan)
    show ?thesis using fmul_nonneg [OF assms(4) r(2) nm] fmul_le_left [OF assms(4) r(2,1) nm] by simp
  qed
  then show "fle fzero (additional totalRec totalRest maxRest rest)"
    "fle (additional totalRec totalRest maxRest rest) maxRest"
    using z by (auto simp: additional_def)
qed

section \<open>Statistics the optimiser can work on\<close>

definition finite_nonneg :: "float64 \<Rightarrow> bool" where
  "finite_nonneg x \<longleftrightarrow> is_num x \<and> fle fzero x"

text \<open>Every pointer the optimiser follows is set.\<close>

definition complete_cs :: "ContainerStats \<Rightarrow> bool" where
  "complete_cs cs \<longleftrightarrow>
     cs_ContainerType cs = InitContainer \<or>
     (cs_CPUStats cs \<noteq> None \<and> cs_MemoryStats cs \<noteq> None \<and>
      cs_SimplePredictionsCPU cs \<noteq> None \<and> cs_SimplePredictionsMemory cs \<noteq> None)"

text \<open>The values behind them are finite and not negative.\<close>

definition finite_cs :: "ContainerStats \<Rightarrow> bool" where
  "finite_cs cs \<longleftrightarrow>
     (\<forall>c. cs_CPUStats cs = Some c \<longrightarrow> finite_nonneg (cpu_P75 c)) \<and>
     (\<forall>c. cs_PSIAdjustedUsage cs = Some c \<longrightarrow> finite_nonneg (psi_P75 c)) \<and>
     (\<forall>c. cs_MemoryStats cs = Some c \<longrightarrow> finite_nonneg (mem_P75 c) \<and> finite_nonneg (mem_OOMMemory c)) \<and>
     (\<forall>c. cs_SimplePredictionsCPU cs = Some c \<longrightarrow> finite_nonneg (sp_MaxValue c)) \<and>
     (\<forall>c. cs_SimplePredictionsMemory cs = Some c \<longrightarrow> finite_nonneg (sp_MaxValue c))"

definition complete_pod :: "PodInfo \<Rightarrow> bool" where
  "complete_pod p \<longleftrightarrow> (case pi_Stats p of None \<Rightarrow> False
     | Some st \<Rightarrow> list_all complete_cs (ws_ContainerStats st))"

definition finite_pod :: "PodInfo \<Rightarrow> bool" where
  "finite_pod p \<longleftrightarrow> (case pi_Stats p of None \<Rightarrow> False
     | Some st \<Rightarrow> list_all finite_cs (ws_ContainerStats st))
     \<and> list_all (\<lambda>r. finite_nonneg (cr_CPURequest r) \<and> finite_nonneg (cr_MemoryRequest r))
         (pi_ContainerResources p)"

lemma finite_nonneg_zero [simp]: "finite_nonneg fzero"
  by (simp add: finite_nonneg_def)

lemma finite_nonneg_nan: "finite_nonneg x \<Longrightarrow> \<not> is_nan x"
  by (auto simp: finite_nonneg_def is_num_iff)

lemma finite_nonneg_gomax: "finite_nonneg a \<Longrightarrow> finite_nonneg b \<Longrightarrow> finite_nonneg (gomax a b)"
  using gomax_cases [of a b] finite_nonneg_nan by metis

lemma finite_nonneg_between: "fle fzero x \<Longrightarrow> fle x y \<Longrightarrow> finite_nonneg y \<Longrightarrow> finite_nonneg x"
  using fle_num_cases [of x y] by (cases x) (auto simp: finite_nonneg_def is_num_iff fle_def)

text \<open>The headroom is finite and not negative.\<close>

lemma rest_finite:
  assumes "finite_nonneg b" "finite_nonneg m"
  shows "finite_nonneg (gomax fzero (fsub (gomax m b) b))"
proof -
  let ?p = "gomax m b"
  have p: "finite_nonneg ?p" by (rule finite_nonneg_gomax [OF assms(2,1)])
  have ge: "fle b ?p" using gomax_ge(2) [of m b] assms finite_nonneg_nan by blast
  have n: "is_num ?p" "is_num b" using p assms by (simp_all add: finite_nonneg_def)
  then obtain s where s: "fsub ?p b = fround s (val ?p - val b)"
    using fsub_num by blast
  have v: "val b \<le> val ?p" using ge n by (simp add: fle_num)
  have b0: "0 \<le> val b" using assms(1) by (auto simp: finite_nonneg_def fzero_le is_num_iff)
  have "finite_nonneg (fsub ?p b)"
    unfolding s
  proof (rule finite_nonneg_between [OF _ _ p])
    show "fle fzero (fround s (val ?p - val b))" using v by (intro fround_nonneg) simp
    show "fle (fround s (val ?p - val b)) ?p" using b0 n by (intro fround_le) auto
  qed
  then show ?thesis by (intro finite_nonneg_gomax) simp_all
qed

lemma complete_base_rest:
  assumes "complete_cs cs" "cs_ContainerType cs \<noteq> InitContainer"
  obtains bc rc bm rm where "GetRecommendedAndRestCPU cs = Some (bc, rc)"
    "GetRecommendedAndRestMemory cs = Some (bm, rm)"
proof -
  have c: "cs_CPUStats cs \<noteq> None" "cs_MemoryStats cs \<noteq> None"
    "cs_SimplePredictionsCPU cs \<noteq> None" "cs_SimplePredictionsMemory cs \<noteq> None"
    using assms by (simp_all add: complete_cs_def)
  have "\<exists>b r. GetRecommendedAndRestCPU cs = Some (b, r)"
    using c by (auto simp: GetRecommendedAndRestCPU_def recommended_cpu_base_def getPredictedCPUMax_def)
  moreover have "\<exists>b r. GetRecommendedAndRestMemory cs = Some (b, r)"
    using c by (auto simp: GetRecommendedAndRestMemory_def getPredictedMemoryMax_def)
  ultimately show thesis using that by blast
qed

lemma base_rest_cpu_finite:
  assumes "GetRecommendedAndRestCPU cs = Some (b, r)" "finite_cs cs"
  shows "finite_nonneg b" "finite_nonneg r"
  using assms
  by (auto simp: finite_cs_def GetRecommendedAndRestCPU_def recommended_cpu_base_def
      getPredictedCPUMax_def bind_eq_Some_conv rest_finite split: option.splits)

lemma base_rest_memory_finite:
  assumes "GetRecommendedAndRestMemory cs = Some (b, r)" "finite_cs cs"
  shows "finite_nonneg b" "finite_nonneg r"
  using assms
  by (auto simp: finite_cs_def GetRecommendedAndRestMemory_def
      getPredictedMemoryMax_def bind_eq_Some_conv rest_finite split: if_splits)

lemma cap_at_finite:
  "finite_nonneg c \<Longrightarrow> finite_nonneg b \<Longrightarrow> finite_nonneg (cap_at c b)"
  "\<not> is_nan c \<Longrightarrow> \<not> is_nan b \<Longrightarrow> fle (cap_at c b) c"
  by (auto simp: cap_at_def not_flt)

section \<open>The optimiser never panics on complete statistics\<close>

lemma metrics_loop_total:
  "list_all complete_cs css \<Longrightarrow> \<exists>r. metrics_loop pod css acc = Some r"
proof (induction pod css acc rule: metrics_loop.induct)
  case (1 pod acc)
  then show ?case by (cases acc) auto
next
  case (2 pod cs css tc tm rc rm)
  show ?case
  proof (cases "cs_ContainerType cs = InitContainer")
    case False
    obtain a b c d where "GetRecommendedAndRestCPU cs = Some (a, b)"
      "GetRecommendedAndRestMemory cs = Some (c, d)"
      using 2(5) False by (auto elim: complete_base_rest [of cs])
    then show ?thesis using 2 False by (auto split: option.splits)
  qed (use 2 in simp)
qed

lemma pod_metrics_total: "complete_pod p \<Longrightarrow> \<exists>m. pod_metrics ov p = Some m"
proof -
  assume "complete_pod p"
  then obtain st where st: "pi_Stats p = Some st" "list_all complete_cs (ws_ContainerStats st)"
    by (auto simp: complete_pod_def split: option.splits)
  obtain a b c d where "metrics_loop p (ws_ContainerStats st) (fzero, fzero, fzero, fzero) = Some (a, b, c, d)"
    using metrics_loop_total [OF st(2)] by (metis prod_cases4)
  then show ?thesis using st(1) by (auto simp: pod_metrics_def Let_def split: prod.split)
qed

lemma metrics_cache_total:
  "\<forall>p \<in> set ps. complete_pod p \<Longrightarrow> \<exists>c. metrics_cache_loop ov ps c0 = Some c"
proof (induction ps arbitrary: c0)
  case (Cons p ps)
  then obtain m where "pod_metrics ov p = Some m" using pod_metrics_total [of p ov] by auto
  then show ?case using Cons by simp
qed simp

lemma evict_recs_total: "list_all complete_cs css \<Longrightarrow> \<exists>rs. evict_recs p css = Some rs"
proof (induction css)
  case (Cons cs css)
  show ?case
  proof (cases "cs_ContainerType cs = InitContainer")
    case False
    then show ?thesis using Cons
      by (auto simp: complete_cs_def getPredictedCPUMax_def getPredictedMemoryMax_def
          recommended_cpu_base_def)
  qed (use Cons in simp)
qed simp

lemma eviction_loop_total:
  "\<forall>p \<in> set pods. complete_pod p \<Longrightarrow>
     \<exists>r. eviction_loop T R cache alloc i pods recs = Some r"
proof (induction T R cache alloc i pods recs rule: eviction_loop.induct)
  case (1 T R cache alloc i pods recs)
  let ?p = "pods ! i"
  show ?case
  proof (cases "i < length pods \<and> \<not> fits T R cache alloc pods")
    case True
    then have cp: "complete_pod ?p" using 1(3) by simp
    then obtain st rs where st: "pi_Stats ?p = Some st" "evict_recs ?p (ws_ContainerStats st) = Some rs"
      using evict_recs_total by (auto simp: complete_pod_def split: option.splits)
    then obtain b where b: "isEvictionExcludedPod ?p (pm_EvictionRanking (metrics_of cache ?p)) = Some b"
      by (auto simp: isEvictionExcludedPod_def)
    have sub: "\<forall>p \<in> set (take i pods @ drop (i + 1) pods). complete_pod p"
      using 1(3) by (auto dest: in_set_takeD in_set_dropD)
    show ?thesis
    proof (cases b)
      case T: True
      then show ?thesis using 1(1) [of ?p True] True b 1(3)
        by (simp add: eviction_loop.simps [of T R cache alloc i pods recs])
    next
      case False
      then show ?thesis using 1(2) [of ?p False st rs] True b st sub
        by (simp add: eviction_loop.simps [of T R cache alloc i pods recs])
    qed
  qed (auto simp: eviction_loop.simps [of T R cache alloc i pods recs])
qed

lemma pod_container_metrics_total:
  "list_all complete_cs css \<Longrightarrow> \<exists>ms. pod_container_metrics p css = Some ms"
proof (induction css)
  case (Cons cs css)
  then obtain ms where ms: "pod_container_metrics p css = Some ms" by auto
  show ?case
  proof (cases "cs_ContainerType cs = InitContainer")
    case False
    then obtain a b c d where "GetRecommendedAndRestCPU cs = Some (a, b)"
      "GetRecommendedAndRestMemory cs = Some (c, d)"
      using Cons.prems by (auto elim: complete_base_rest [of cs])
    then show ?thesis using ms False
      by (cases "GetContainerResource p (cs_ContainerName cs)") (auto simp: container_metric_def Let_def)
  qed (use ms in simp)
qed simp

lemma collect_metrics_total: "\<forall>p \<in> set ps. complete_pod p \<Longrightarrow> \<exists>ms. collect_metrics ps = Some ms"
proof (induction ps)
  case (Cons p ps)
  then obtain ms st where "collect_metrics ps = Some ms" "pi_Stats p = Some st"
    "list_all complete_cs (ws_ContainerStats st)"
    by (auto simp: complete_pod_def split: option.splits)
  then show ?case using pod_container_metrics_total [of "ws_ContainerStats st" p] by auto
qed simp

section \<open>One run of the optimiser\<close>

text \<open>
  A run splits the pods of the node into those evicted, none of them excluded, and those kept,
  whose containers share the headroom; it stops evicting when the pods fit or only excluded ones
  are left.
\<close>

lemma OptimizeNode_SomeE:
  assumes "OptimizeNode srt ov data = Some res" and srt: "go_sort srt"
  obtains cache ev kept1 kept ms where
    "metrics_cache_loop ov (nd_PodInfos data) Map.empty = Some cache"
    "mset (nd_PodInfos data) = mset ev + mset kept" "mset kept \<subseteq># mset kept1"
    "\<forall>p \<in> set ev. \<not> eviction_excluded cache p \<and> has_recs p"
    "op_PodContainerRecommendations res = concat (map recs_of_pod ev) @ distribute ms"
    "collect_metrics kept = Some ms"
    "op_MaxRestCPU res = max_of cm_restCPU ms" "op_MaxRestMemory res = max_of cm_restMemory ms"
    "fits pm_TotalRecommendedMemory pm_MaxRestMemory cache (nd_AllocatableMemory data) kept1 \<or>
     (\<forall>p \<in> set kept1. eviction_excluded cache p)"
    "fits pm_TotalRecommendedCPU pm_MaxRestCPU cache (nd_AllocatableCPU data) kept \<or>
     (\<forall>p \<in> set kept. eviction_excluded cache p)"
proof -
  obtain cache kept1 recs1 kept recs2 ms where
    c: "metrics_cache_loop ov (nd_PodInfos data) Map.empty = Some cache"
    and l1: "performEvictionLoop (srt (less_memory cache) (nd_PodInfos data)) cache
      (nd_AllocatableMemory data) pm_TotalRecommendedMemory pm_MaxRestMemory [] = Some (kept1, recs1)"
    and l2: "performEvictionLoop (srt (less_cpu cache) kept1) cache
      (nd_AllocatableCPU data) pm_TotalRecommendedCPU pm_MaxRestCPU recs1 = Some (kept, recs2)"
    and m: "collect_metrics kept = Some ms"
    and r: "op_PodContainerRecommendations res = recs2 @ distribute ms"
      "op_MaxRestCPU res = max_of cm_restCPU ms" "op_MaxRestMemory res = max_of cm_restMemory ms"
    using assms(1) by (auto simp: OptimizeNode_def bind_eq_Some_conv)
  obtain ev1 where 1: "mset (nd_PodInfos data) = mset ev1 + mset kept1"
    "recs1 = concat (map recs_of_pod ev1)"
    "\<forall>p \<in> set ev1. \<not> eviction_excluded cache p \<and> has_recs p"
    "fits pm_TotalRecommendedMemory pm_MaxRestMemory cache (nd_AllocatableMemory data) kept1 \<or>
     (\<forall>p \<in> set kept1. eviction_excluded cache p)"
    using performEvictionLoop_parts [OF l1] go_sort.mset_srt [OF srt] by (metis append_Nil)
  obtain ev2 where 2: "mset kept1 = mset ev2 + mset kept"
    "recs2 = recs1 @ concat (map recs_of_pod ev2)"
    "\<forall>p \<in> set ev2. \<not> eviction_excluded cache p \<and> has_recs p"
    "fits pm_TotalRecommendedCPU pm_MaxRestCPU cache (nd_AllocatableCPU data) kept \<or>
     (\<forall>p \<in> set kept. eviction_excluded cache p)"
    using performEvictionLoop_parts [OF l2] go_sort.mset_srt [OF srt] by metis
  show thesis
    by (rule that [of cache "ev1 @ ev2" kept kept1 ms]) (use c m r 1 2 in auto)
qed

lemma metrics_cache_lookup:
  assumes "metrics_cache_loop ov ps c0 = Some c"
    "distinct (map (\<lambda>p. GetPodKey (pi_Namespace p) (pi_Name p)) ps)"
  shows "(\<forall>p \<in> set ps. pod_metrics ov p = Some (metrics_of c p)) \<and>
    (\<forall>k. k \<notin> (\<lambda>p. GetPodKey (pi_Namespace p) (pi_Name p)) ` set ps \<longrightarrow> c k = c0 k)"
  using assms
proof (induction ps arbitrary: c0)
  case (Cons p ps)
  then obtain m where m: "pod_metrics ov p = Some m"
    and r: "metrics_cache_loop ov ps (c0(GetPodKey (pi_Namespace p) (pi_Name p) \<mapsto> m)) = Some c"
    by (auto simp: bind_eq_Some_conv)
  have ih: "(\<forall>p \<in> set ps. pod_metrics ov p = Some (metrics_of c p)) \<and>
    (\<forall>k. k \<notin> (\<lambda>p. GetPodKey (pi_Namespace p) (pi_Name p)) ` set ps \<longrightarrow>
       c k = (c0(GetPodKey (pi_Namespace p) (pi_Name p) \<mapsto> m)) k)"
    using Cons.IH [OF r] Cons.prems(2) by simp
  have "metrics_of c p = m" using ih Cons.prems(2) by (simp add: metrics_of_def)
  then show ?case using ih m by auto
qed simp

lemma pod_metrics_ranking:
  "pod_metrics ov p = Some m \<Longrightarrow> pi_Stats p = Some st \<Longrightarrow>
     pm_EvictionRanking m = eviction_ranking_of ov st"
  by (cases "max_init (ws_OriginalContainerResources st) (fzero, fzero)")
    (auto simp: pod_metrics_def bind_eq_Some_conv)

text \<open>All metrics of kept pods are finite, so the shares are bounded.\<close>

lemma collect_metrics_finite:
  assumes "collect_metrics ps = Some ms" "\<forall>p \<in> set ps. finite_pod p" "m \<in> set ms"
  shows "finite_nonneg (cm_restCPU m)" "finite_nonneg (cm_restMemory m)"
    "finite_nonneg (cm_recommendedCPU m)" "finite_nonneg (cm_recommendedMemory m)"
proof -
  obtain p st cs r where p: "p \<in> set ps" "pi_Stats p = Some st" "cs \<in> set (ws_ContainerStats st)"
    "GetContainerResource p (cs_ContainerName cs) = Some r" "container_metric p cs r = Some m"
    using collect_metrics_SomeD [OF assms(1,3)] by auto
  have f: "finite_cs cs" using assms(2) p(1-3) by (fastforce simp: finite_pod_def list_all_iff)
  have "r \<in> set (pi_ContainerResources p)"
    using p(4) by (auto simp: GetContainerResource_def find_Some_iff)
  then have rr: "finite_nonneg (cr_CPURequest r)" "finite_nonneg (cr_MemoryRequest r)"
    using assms(2) p(1) by (auto simp: finite_pod_def list_all_iff)
  show "finite_nonneg (cm_restCPU m)" "finite_nonneg (cm_restMemory m)"
    "finite_nonneg (cm_recommendedCPU m)" "finite_nonneg (cm_recommendedMemory m)"
    using p(5) base_rest_cpu_finite [OF _ f] base_rest_memory_finite [OF _ f] rr cap_at_finite(1)
    by (cases "pi_WorkloadKind p = DaemonSetKind"; fastforce elim!: container_metric_SomeD)+
qed

lemma max_of_finite:
  assumes "\<forall>m \<in> set ms. finite_nonneg (f m)"
  shows "finite_nonneg (max_of f ms)"
  using foldl_mathMax(3) [of ms f fzero] assms finite_nonneg_nan by (fastforce simp: max_of_def)

lemma share_bounds:
  assumes "\<forall>m \<in> set ms. finite_nonneg (f m)" "m \<in> set ms"
  shows "fle fzero (additional t (total_of f ms) (max_of f ms) (f m))"
    "fle (additional t (total_of f ms) (max_of f ms) (f m)) (max_of f ms)"
proof -
  have "fle (f m) (total_of f ms)"
    using foldl_fadd(2) [of ms f fzero m] assms by (simp add: total_of_def finite_nonneg_def)
  then show "fle fzero (additional t (total_of f ms) (max_of f ms) (f m))"
    "fle (additional t (total_of f ms) (max_of f ms) (f m)) (max_of f ms)"
    using additional_bounds [of "f m" "total_of f ms" "max_of f ms" t] assms max_of_finite [OF assms(1)]
    by (auto simp: finite_nonneg_def)
qed

lemma additional_zero:
  assumes "finite_nonneg mx" shows "fle (additional t tot mx fzero) fzero"
proof -
  have "fle (fmul mx (fdiv fzero tot)) fzero" if t: "flt fzero tot"
  proof -
    have q: "\<exists>s. fdiv fzero tot = Num s (mk_mag 0)"
    proof (cases "is_num tot")
      case True
      then have "val tot \<noteq> 0" using t by (auto simp: flt_def is_num_iff)
      from fdiv_num [OF _ True this, of fzero] show ?thesis by (auto simp: fround_def in_range_def)
    next
      case False
      then have "tot = Infty False" using t by (cases tot) (auto simp: flt_def is_num_def)
      then show ?thesis by (intro exI [of _ False]) (simp add: fzero_eq)
    qed
    have n: "is_num mx" using assms by (simp add: finite_nonneg_def)
    obtain s where s: "fdiv fzero tot = Num s (mk_mag 0)" using q by auto
    obtain s' where "fmul mx (Num s (mk_mag 0)) = fround s' (val mx * val (Num s (mk_mag 0)))"
      using fmul_num [OF n, of "Num s (mk_mag 0)"] by (auto simp: is_num_def)
    then have "fmul mx (fdiv fzero tot) = fround s' 0" using s by simp
    then show ?thesis by (simp only:) (rule fround_le, simp_all)
  qed
  then show ?thesis by (simp add: additional_def)
qed

text \<open>Base plus share.\<close>

lemma share_fadd:
  assumes "\<forall>m \<in> set ms. finite_nonneg (f m)" "m \<in> set ms" "finite_nonneg b"
  shows "fle b (fadd b (additional t (total_of f ms) (max_of f ms) (f m)))"
    "fle (fadd b (additional t (total_of f ms) (max_of f ms) (f m))) (fadd b (max_of f ms))"
proof -
  have b: "fle fzero b" using assms(3) by (simp add: finite_nonneg_def)
  note s = share_bounds [OF assms(1,2)]
  have mx: "fle fzero (max_of f ms)" using max_of_finite [OF assms(1)] by (simp add: finite_nonneg_def)
  show "fle b (fadd b (additional t (total_of f ms) (max_of f ms) (f m)))"
    by (rule nonneg_fadd(2) [OF b s(1)])
  have "fle b b" using b fle_nan(2) by auto
  then show "fle (fadd b (additional t (total_of f ms) (max_of f ms) (f m))) (fadd b (max_of f ms))"
    using s(2) nonneg_fadd_nan [OF b s(1)] nonneg_fadd_nan [OF b mx] by (rule fadd_mono)
qed

lemma share_zero:
  assumes "finite_nonneg b" "finite_nonneg mx"
  shows "fle (fadd b (additional t tot mx fzero)) b"
proof -
  have b: "\<not> is_nan b" using finite_nonneg_nan [OF assms(1)] .
  have z: "fle (fadd b fzero) b" using fadd_zero [OF b, of False] by (simp add: fzero_eq feq_fle)
  have a: "fle (additional t tot mx fzero) fzero" by (rule additional_zero [OF assms(2)])
  have n: "\<not> is_nan (fadd b (additional t tot mx fzero))"
    using a assms(1) b by (auto simp: fadd_nan finite_nonneg_def is_num_iff dest: fle_nan)
  have "fle (fadd b (additional t tot mx fzero)) (fadd b fzero)"
    using a b n z by (intro fadd_mono) (auto dest: fle_nan)
  then show ?thesis using z by (rule fle_trans)
qed

section \<open>Which containers the recommendations name\<close>

lemma evict_recs_names:
  "evict_recs p css = Some rs \<Longrightarrow> map (\<lambda>r. (pr_ContainerName r, pr_Evict r)) rs =
     map (\<lambda>cs. (cs_ContainerName cs, True)) (filter (\<lambda>cs. cs_ContainerType cs \<noteq> InitContainer) css)"
  by (induction p css arbitrary: rs rule: evict_recs.induct) (auto split: if_splits Option.bind_splits)

lemma pod_container_metrics_pod:
  "pod_container_metrics p css = Some ms \<Longrightarrow> m \<in> set ms \<Longrightarrow> cm_pod m = p"
  using pod_container_metrics_SomeD [of p css ms m] by (metis container_metric_SomeD)

lemma container_metric_stats: "container_metric p cs r = Some m \<Longrightarrow> cm_containerStats m = cs"
  by (metis container_metric_SomeD)

lemma pod_container_metrics_names:
  "pod_container_metrics p css = Some ms \<Longrightarrow> map (\<lambda>m. cs_ContainerName (cm_containerStats m)) ms =
     map cs_ContainerName (filter (\<lambda>cs. cs_ContainerType cs \<noteq> InitContainer \<and>
       GetContainerResource p (cs_ContainerName cs) \<noteq> None) css)"
  by (induction p css arbitrary: ms rule: pod_container_metrics.induct)
    (auto dest: container_metric_stats split: if_splits option.splits Option.bind_splits)

lemma filter_recs_of_pods:
  "distinct ev \<Longrightarrow> filter (\<lambda>r. pr_PodInfo r = p) (concat (map recs_of_pod ev)) =
     (if p \<in> set ev then recs_of_pod p else [])"
proof (induction ev)
  case (Cons q ev)
  have "filter (\<lambda>r. pr_PodInfo r = p) (recs_of_pod q) = (if q = p then recs_of_pod p else [])"
    using recs_of_pod_mem by (auto simp: filter_id_conv filter_empty_conv)
  then show ?case using Cons by auto
qed simp

lemma collect_metrics_of_pod:
  assumes "collect_metrics ps = Some ms" "distinct ps" "p \<in> set ps"
  obtains st where "pi_Stats p = Some st"
    "pod_container_metrics p (ws_ContainerStats st) = Some (filter (\<lambda>m. cm_pod m = p) ms)"
proof -
  have "\<exists>st. pi_Stats p = Some st \<and>
      pod_container_metrics p (ws_ContainerStats st) = Some (filter (\<lambda>m. cm_pod m = p) ms)"
    using assms
  proof (induction ps arbitrary: ms)
    case (Cons q ps)
    obtain st m1 m2 where q: "pi_Stats q = Some st"
      "pod_container_metrics q (ws_ContainerStats st) = Some m1" "collect_metrics ps = Some m2"
      "ms = m1 @ m2"
      using Cons.prems(1) by (auto simp: bind_eq_Some_conv)
    have f1: "filter (\<lambda>m. cm_pod m = p) m1 = (if q = p then m1 else [])"
      using pod_container_metrics_pod [OF q(2)] by (auto simp: filter_id_conv filter_empty_conv)
    have "cm_pod m \<in> set ps" if mm: "m \<in> set m2" for m
    proof -
      obtain p' cs r where "p' \<in> set ps" "container_metric p' cs r = Some m"
        using collect_metrics_SomeD [OF q(3), of m] mm by blast
      then show ?thesis by (metis container_metric_SomeD)
    qed
    then have f2: "filter (\<lambda>m. cm_pod m = q) m2 = []"
      using Cons.prems(2) by (auto simp: filter_empty_conv)
    show ?case
    proof (cases "q = p")
      case True
      then show ?thesis using q f1 f2 by (intro exI [of _ st]) simp
    next
      case False
      then show ?thesis using Cons.IH [OF q(3)] Cons.prems f1 q(4) by simp
    qed
  qed simp
  then show thesis using that by blast
qed

lemma filter_distribute:
  "map (\<lambda>r. (pr_ContainerName r, pr_Evict r)) (filter (\<lambda>r. pr_PodInfo r = p) (distribute ms)) =
     map (\<lambda>m. (cs_ContainerName (cm_containerStats m), False)) (filter (\<lambda>m. cm_pod m = p) ms)"
  unfolding distribute_def by (simp add: filter_map comp_def)

text \<open>The fate of a pod: which containers it has recommendations for, and of which kind.\<close>

definition pod_fate ::
    "PodContainerRecommendation list \<Rightarrow> PodInfo \<Rightarrow> (string \<times> bool) list" where
  "pod_fate recs p =
     map (\<lambda>r. (pr_ContainerName r, pr_Evict r)) (filter (\<lambda>r. pr_PodInfo r = p) recs)"

lemma pod_fate_evicted:
  assumes "distinct ev" "p \<in> set ev" "has_recs p" "p \<notin> cm_pod ` set ms"
  obtains st where "pi_Stats p = Some st"
    "pod_fate (concat (map recs_of_pod ev) @ distribute ms) p =
      map (\<lambda>cs. (cs_ContainerName cs, True))
        (filter (\<lambda>cs. cs_ContainerType cs \<noteq> InitContainer) (ws_ContainerStats st))"
proof -
  obtain st rs where st: "pi_Stats p = Some st" "evict_recs p (ws_ContainerStats st) = Some rs"
    using assms(3) by (auto simp: has_recs_def)
  have "filter (\<lambda>m. cm_pod m = p) ms = []" using assms(4) by (auto simp: filter_empty_conv)
  then have "pod_fate (concat (map recs_of_pod ev) @ distribute ms) p =
      map (\<lambda>r. (pr_ContainerName r, pr_Evict r)) rs"
    using filter_recs_of_pods [OF assms(1), of p] assms(2) st filter_distribute [of p ms]
    by (simp add: pod_fate_def recs_of_pod_def)
  then show thesis using that st(1) evict_recs_names [OF st(2)] by simp
qed

lemma pod_fate_kept:
  assumes "distinct ev" "p \<notin> set ev" "collect_metrics kept = Some ms" "distinct kept" "p \<in> set kept"
  obtains st where "pi_Stats p = Some st"
    "pod_fate (concat (map recs_of_pod ev) @ distribute ms) p =
      map (\<lambda>cs. (cs_ContainerName cs, False))
        (filter (\<lambda>cs. cs_ContainerType cs \<noteq> InitContainer \<and>
           GetContainerResource p (cs_ContainerName cs) \<noteq> None) (ws_ContainerStats st))"
proof -
  obtain st where st: "pi_Stats p = Some st"
    "pod_container_metrics p (ws_ContainerStats st) = Some (filter (\<lambda>m. cm_pod m = p) ms)"
    using collect_metrics_of_pod [OF assms(3-5)] .
  have "pod_fate (concat (map recs_of_pod ev) @ distribute ms) p =
      map (\<lambda>n. (n, False)) (map (\<lambda>m. cs_ContainerName (cm_containerStats m)) (filter (\<lambda>m. cm_pod m = p) ms))"
    using filter_recs_of_pods [OF assms(1), of p] assms(2) filter_distribute [of p ms]
    by (simp add: pod_fate_def comp_def)
  also have "\<dots> = map (\<lambda>n. (n, False)) (map cs_ContainerName
      (filter (\<lambda>cs. cs_ContainerType cs \<noteq> InitContainer \<and>
         GetContainerResource p (cs_ContainerName cs) \<noteq> None) (ws_ContainerStats st)))"
    by (simp only: pod_container_metrics_names [OF st(2)])
  finally show thesis by (intro that [OF st(1)]) (simp add: comp_def)
qed

section \<open>A sample node\<close>

text \<open>Two pods whose predicted peaks do not fit together on four cores.\<close>

definition sample_node :: NodeOptimizationData where
  "sample_node = \<lparr>nd_NodeName = ''node-1'', nd_AllocatableCPU = lit 4, nd_AllocatableMemory = lit 1000,
     nd_PodInfos = [sample_pod_info ''web'' 1 100, sample_pod_info ''api'' 2 200]\<rparr>"

lemmas base_rest_eval = GetRecommendedAndRestCPU_def GetRecommendedAndRestMemory_def
  recommended_cpu_base_def getPredictedCPUMax_def getPredictedMemoryMax_def

lemma sample_complete: "complete_pod (sample_pod_info n c m)"
  by (simp add: complete_pod_def complete_cs_def sample_defs)

definition sample_evict_rec :: PodContainerRecommendation where
  "sample_evict_rec = \<lparr>pr_PodInfo = sample_pod_info ''api'' 2 200, pr_ContainerName = ''app'',
     pr_CPU = lit 4, pr_Memory = lit 400, pr_Evict = True\<rparr>"

definition sample_keep_rec :: PodContainerRecommendation where
  "sample_keep_rec = \<lparr>pr_PodInfo = sample_pod_info ''web'' 1 100, pr_ContainerName = ''app'',
     pr_CPU = lit 2, pr_Memory = lit 200, pr_Evict = False\<rparr>"

lemma sample_metrics:
  assumes "rep64 c" "rep64 m" "rep64 (2 * c)" "rep64 (2 * m)" "0 \<le> c" "0 \<le> m"
  shows "pod_metrics Map.empty (sample_pod_info n c m) =
    Some \<lparr>pm_TotalRecommendedCPU = lit c, pm_TotalRecommendedMemory = lit m,
          pm_MaxRestCPU = lit c, pm_MaxRestMemory = lit m, pm_EvictionRanking = EvictionRankingHigh\<rparr>"
  using assms
  by (simp add: pod_metrics_def sample_defs base_rest_eval f64_eval AppContainer_def InitContainer_def
      DaemonSetKind_def eviction_ranking_of_def EvictionRanking_defs)

abbreviation sample_web :: PodInfo where "sample_web \<equiv> sample_pod_info ''web'' 1 100"
abbreviation sample_api :: PodInfo where "sample_api \<equiv> sample_pod_info ''api'' 2 200"

definition sample_cache :: metrics_cache where
  "sample_cache =
     [GetPodKey ''ns'' ''web'' \<mapsto> \<lparr>pm_TotalRecommendedCPU = lit 1, pm_TotalRecommendedMemory = lit 100,
          pm_MaxRestCPU = lit 1, pm_MaxRestMemory = lit 100, pm_EvictionRanking = EvictionRankingHigh\<rparr>,
      GetPodKey ''ns'' ''api'' \<mapsto> \<lparr>pm_TotalRecommendedCPU = lit 2, pm_TotalRecommendedMemory = lit 200,
          pm_MaxRestCPU = lit 2, pm_MaxRestMemory = lit 200, pm_EvictionRanking = EvictionRankingHigh\<rparr>]"

lemma sample_fields:
  "pi_Namespace (sample_pod_info n c m) = ''ns''" "pi_Name (sample_pod_info n c m) = n"
  "pi_WorkloadKind (sample_pod_info n c m) = ''Deployment''"
  "pi_Stats (sample_pod_info n c m) = Some (sample_stat n c m)"
  by (simp_all add: sample_defs)

lemma sample_excluded:
  "isEvictionExcludedPod (sample_pod_info n c m) k = Some (k = EvictionRankingDisabled)"
  by (simp add: isEvictionExcludedPod_def sample_defs DaemonSetKind_def)

lemma sample_metrics_of:
  "metrics_of sample_cache sample_web = \<lparr>pm_TotalRecommendedCPU = lit 1, pm_TotalRecommendedMemory = lit 100,
     pm_MaxRestCPU = lit 1, pm_MaxRestMemory = lit 100, pm_EvictionRanking = EvictionRankingHigh\<rparr>"
  "metrics_of sample_cache sample_api = \<lparr>pm_TotalRecommendedCPU = lit 2, pm_TotalRecommendedMemory = lit 200,
     pm_MaxRestCPU = lit 2, pm_MaxRestMemory = lit 200, pm_EvictionRanking = EvictionRankingHigh\<rparr>"
  by (simp_all add: metrics_of_def sample_fields GetPodKey_def sample_cache_def)

lemma sample_cache_run: "metrics_cache_loop Map.empty [sample_web, sample_api] Map.empty = Some sample_cache"
  by (simp add: sample_metrics sample_fields sample_cache_def)

lemma sample_sorted:
  "insertion_sort (less_memory sample_cache) [sample_web, sample_api] = [sample_api, sample_web]"
  "insertion_sort (less_by pm_MaxRestCPU sample_cache) [sample_web, sample_api] = [sample_api, sample_web]"
  "insertion_sort (less_cpu sample_cache) [sample_api, sample_web] = [sample_api, sample_web]"
  by (simp_all add: insertion_sort_def less_memory_def less_cpu_def less_by_def sample_metrics_of
      sample_fields DaemonSetKind_def f64_eval)

lemma sample_loop_memory:
  "performEvictionLoop [sample_api, sample_web] sample_cache (lit 1000) pm_TotalRecommendedMemory
     pm_MaxRestMemory [] = Some ([sample_api, sample_web], [])"
  by (simp add: performEvictionLoop_def eviction_loop.simps fits_def sample_metrics_of f64_eval)

lemma sample_loop_cpu:
  "performEvictionLoop [sample_api, sample_web] sample_cache (lit 4) pm_TotalRecommendedCPU
     pm_MaxRestCPU [] = Some ([sample_web], [sample_evict_rec])"
proof -
  have ex: "isEvictionExcludedPod sample_api EvictionRankingHigh = Some False"
    by (simp add: sample_excluded EvictionRanking_defs)
  have er: "evict_recs sample_api (ws_ContainerStats (sample_stat ''api'' 2 200)) = Some [sample_evict_rec]"
    by (simp add: sample_defs sample_evict_rec_def base_rest_eval f64_eval AppContainer_def
        InitContainer_def)
  have fit2: "\<not> fits pm_TotalRecommendedCPU pm_MaxRestCPU sample_cache (lit 4) [sample_api, sample_web]"
    "fits pm_TotalRecommendedCPU pm_MaxRestCPU sample_cache (lit 4) [sample_web]"
    by (simp_all add: fits_def sample_metrics_of f64_eval)
  show ?thesis
    by (simp add: performEvictionLoop_def eviction_loop.simps [of _ _ _ _ 0] fit2 sample_metrics_of ex er
        sample_fields)
qed

lemma sample_run:
  "OptimizeNode insertion_sort Map.empty sample_node =
     Some \<lparr>op_PodContainerRecommendations = [sample_evict_rec, sample_keep_rec],
           op_MaxRestCPU = lit 1, op_MaxRestMemory = lit 100\<rparr>"
proof -
  obtain ms where ms: "collect_metrics [sample_web] = Some ms" "distribute ms = [sample_keep_rec]"
      "max_of cm_restCPU ms = lit 1" "max_of cm_restMemory ms = lit 100"
    by (simp add: sample_defs sample_keep_rec_def base_rest_eval f64_eval AppContainer_def
        InitContainer_def DaemonSetKind_def GetContainerResource_def container_metric_def
        distribute_def additional_def total_of_def max_of_def)
  show ?thesis
    unfolding OptimizeNode_def sample_node_def
    by (simp add: sample_cache_run sample_sorted sample_loop_memory sample_loop_cpu ms
        del: metrics_cache_loop.simps collect_metrics.simps)
qed

section \<open>Properties\<close>

text \<open>C4. On pods whose container statistics are complete the optimiser always returns a result: no
  nil statistic is followed and the eviction loops end.\<close>

theorem OptimizeNode_total:
  assumes "go_sort srt" "\<forall>p \<in> set (nd_PodInfos data). complete_pod p"
  shows "\<exists>res. OptimizeNode srt overridesMap data = Some res"
proof -
  obtain cache where c: "metrics_cache_loop overridesMap (nd_PodInfos data) Map.empty = Some cache"
    using metrics_cache_total [OF assms(2)] by blast
  let ?p1 = "srt (less_memory cache) (nd_PodInfos data)"
  have p1: "\<forall>p \<in> set ?p1. complete_pod p" using assms go_sort.set_srt by blast
  then obtain k1 r1 where l1: "performEvictionLoop ?p1 cache (nd_AllocatableMemory data)
      pm_TotalRecommendedMemory pm_MaxRestMemory [] = Some (k1, r1)"
    using eviction_loop_total unfolding performEvictionLoop_def by fastforce
  have "set k1 \<subseteq> set ?p1" using performEvictionLoop_parts [OF l1] by (metis Un_upper2)
  then have p2: "\<forall>p \<in> set (srt (less_cpu cache) k1). complete_pod p"
    using p1 go_sort.set_srt [OF assms(1)] by blast
  then obtain k2 r2 where l2: "performEvictionLoop (srt (less_cpu cache) k1) cache
      (nd_AllocatableCPU data) pm_TotalRecommendedCPU pm_MaxRestCPU r1 = Some (k2, r2)"
    using eviction_loop_total unfolding performEvictionLoop_def by fastforce
  have "set k2 \<subseteq> set (srt (less_cpu cache) k1)"
    using performEvictionLoop_parts [OF l2] by (metis Un_upper2)
  then obtain ms where "collect_metrics k2 = Some ms" using p2 collect_metrics_total by blast
  then show ?thesis using c l1 l2 by (simp add: OptimizeNode_def)
qed

lemma OptimizeNode_total_witness:
  "\<exists>res. OptimizeNode insertion_sort Map.empty sample_node = Some res"
  by (rule OptimizeNode_total [OF insertion.go_sort_axioms])
    (simp add: sample_node_def sample_complete)

text \<open>C6. Every pod of the node is either evicted or resized, never both and never forgotten: with
  \<^verbatim>\<open>evict\<close> for the choice, the recommendations of the pod are, in the order of its statistics, one
  for each container that is not an init container, all of them marked for eviction or none; a
  container whose current resources are not known is skipped only when the pod stays. An eviction is
  always permitted: when the constraints of the pod's workload are known, there is no exclusion
  annotation, it is not a DaemonSet and its eviction ranking, after overrides, is not Disabled. No
  recommendation is for a pod that is not of the node.\<close>

theorem evictions_permitted:
  assumes "OptimizeNode srt overridesMap data = Some res" "go_sort srt"
    and "distinct (map (\<lambda>p. GetPodKey (pi_Namespace p) (pi_Name p)) (nd_PodInfos data))"
  shows "(\<forall>r \<in> set (op_PodContainerRecommendations res). pr_PodInfo r \<in> set (nd_PodInfos data)) \<and>
    (\<forall>p \<in> set (nd_PodInfos data). \<exists>st evict. pi_Stats p = Some st \<and>
       (evict \<longrightarrow> (\<forall>c. ws_Constraints st = Some c \<longrightarrow>
          \<not> wc_ExcludedAnnotation c \<and> pi_WorkloadKind p \<noteq> DaemonSetKind \<and>
          eviction_ranking_of overridesMap st \<noteq> EvictionRankingDisabled)) \<and>
       map (\<lambda>r. (pr_ContainerName r, pr_Evict r))
           (filter (\<lambda>r. pr_PodInfo r = p) (op_PodContainerRecommendations res)) =
       map (\<lambda>cs. (cs_ContainerName cs, evict))
           (filter (\<lambda>cs. cs_ContainerType cs \<noteq> InitContainer \<and>
              (evict \<or> GetContainerResource p (cs_ContainerName cs) \<noteq> None)) (ws_ContainerStats st)))"
proof -
  obtain cache ev kept1 kept ms where
    c: "metrics_cache_loop overridesMap (nd_PodInfos data) Map.empty = Some cache"
    and split: "mset (nd_PodInfos data) = mset ev + mset kept"
    and ev: "\<forall>p \<in> set ev. \<not> eviction_excluded cache p \<and> has_recs p"
    and recs: "op_PodContainerRecommendations res = concat (map recs_of_pod ev) @ distribute ms"
    and ms: "collect_metrics kept = Some ms"
    using OptimizeNode_SomeE [OF assms(1,2)] by metis
  have s: "set (nd_PodInfos data) = set ev \<union> set kept"
    using split by (metis set_mset_mset set_mset_union)
  have d: "distinct (ev @ kept)"
    using assms(3) split by (metis distinct_map mset_append mset_eq_imp_distinct_iff)
  have mp: "cm_pod m \<in> set kept" if "m \<in> set ms" for m
    using collect_metrics_SomeD [OF ms that] by (fastforce elim: container_metric_SomeD)
  have "pr_PodInfo r \<in> set (nd_PodInfos data)" if "r \<in> set (op_PodContainerRecommendations res)" for r
    using that recs recs_of_pod_mem mp s by (fastforce simp: distribute_def)
  moreover have "\<exists>st evict. pi_Stats p = Some st \<and>
      (evict \<longrightarrow> (\<forall>c. ws_Constraints st = Some c \<longrightarrow>
         \<not> wc_ExcludedAnnotation c \<and> pi_WorkloadKind p \<noteq> DaemonSetKind \<and>
         eviction_ranking_of overridesMap st \<noteq> EvictionRankingDisabled)) \<and>
      pod_fate (op_PodContainerRecommendations res) p =
      map (\<lambda>cs. (cs_ContainerName cs, evict))
          (filter (\<lambda>cs. cs_ContainerType cs \<noteq> InitContainer \<and>
             (evict \<or> GetContainerResource p (cs_ContainerName cs) \<noteq> None)) (ws_ContainerStats st))"
    if p: "p \<in> set (nd_PodInfos data)" for p
  proof (cases "p \<in> set ev")
    case True
    then have nk: "p \<notin> cm_pod ` set ms" using d mp by auto
    obtain st where st: "pi_Stats p = Some st"
      "pod_fate (op_PodContainerRecommendations res) p = map (\<lambda>cs. (cs_ContainerName cs, True))
        (filter (\<lambda>cs. cs_ContainerType cs \<noteq> InitContainer) (ws_ContainerStats st))"
      using pod_fate_evicted [of ev p ms] d True ev nk recs by auto
    have rk: "pm_EvictionRanking (metrics_of cache p) = eviction_ranking_of overridesMap st"
      using metrics_cache_lookup [OF c assms(3)] p pod_metrics_ranking [OF _ st(1)] by blast
    show ?thesis using st ev True rk
      by (intro exI [of _ st] exI [of _ True]) (auto simp: eviction_excluded_def isEvictionExcludedPod_def)
  next
    case False
    then obtain st where "pi_Stats p = Some st"
      "pod_fate (op_PodContainerRecommendations res) p = map (\<lambda>cs. (cs_ContainerName cs, False))
        (filter (\<lambda>cs. cs_ContainerType cs \<noteq> InitContainer \<and>
           GetContainerResource p (cs_ContainerName cs) \<noteq> None) (ws_ContainerStats st))"
      using pod_fate_kept [of ev p kept ms] d ms p s recs by auto
    then show ?thesis by (intro exI [of _ st] exI [of _ False]) simp
  qed
  ultimately show ?thesis unfolding pod_fate_def by blast
qed

lemma evictions_permitted_witness:
  "\<exists>st evict. pi_Stats sample_web = Some st \<and>
     [(pr_ContainerName sample_keep_rec, False)] =
     map (\<lambda>cs. (cs_ContainerName cs, evict))
       (filter (\<lambda>cs. cs_ContainerType cs \<noteq> InitContainer \<and>
          (evict \<or> GetContainerResource sample_web (cs_ContainerName cs) \<noteq> None)) (ws_ContainerStats st))"
proof -
  have d: "distinct (map (\<lambda>p. GetPodKey (pi_Namespace p) (pi_Name p)) (nd_PodInfos sample_node))"
    by (simp add: sample_node_def sample_pod_info_def GetPodKey_def)
  have f: "map (\<lambda>r. (pr_ContainerName r, pr_Evict r))
      (filter (\<lambda>r. pr_PodInfo r = sample_web) [sample_evict_rec, sample_keep_rec]) =
      [(pr_ContainerName sample_keep_rec, False)]"
    by (simp add: sample_evict_rec_def sample_keep_rec_def sample_pod_info_def)
  have w: "sample_web \<in> set (nd_PodInfos sample_node)" by (simp add: sample_node_def)
  note t = conjunct2 [OF evictions_permitted [OF sample_run insertion.go_sort_axioms d], rule_format, OF w]
  show ?thesis using t unfolding OptimizationResult.simps f by (elim exE conjE) (intro exI conjI)
qed

text \<open>C5. When an eviction loop ends, either the remaining pods fit (their total is within the
  allocatable amount and the largest headroom within what is spare) or none of them may be evicted;
  the pods it removed are exactly those it wrote eviction recommendations for.\<close>

theorem eviction_loop_result:
  assumes "performEvictionLoop pods cache allocatable getTotal getMaxRest recs = Some (kept, recs')"
  shows "(fits getTotal getMaxRest cache allocatable kept \<or>
      (\<forall>p \<in> set kept. isEvictionExcludedPod p (pm_EvictionRanking (metrics_of cache p)) = Some True)) \<and>
    (\<exists>evicted. mset pods = mset evicted + mset kept \<and>
       recs' = recs @ concat (map recs_of_pod evicted))"
  using performEvictionLoop_parts [OF assms] unfolding eviction_excluded_def by metis

lemma eviction_loop_result_witness:
  "fits pm_TotalRecommendedCPU pm_MaxRestCPU sample_cache (lit 4) [sample_web] \<or>
   isEvictionExcludedPod sample_web EvictionRankingHigh = Some True"
  using eviction_loop_result [OF sample_loop_cpu] by (simp add: sample_metrics_of)



text \<open>C8. A container that stays is never sized below its base, nor above its base plus the node's
  largest headroom; the container of a DaemonSet is never given more than it requests now.\<close>

theorem recommendation_between:
  assumes "OptimizeNode srt overridesMap data = Some res" "go_sort srt"
    and "\<forall>p \<in> set (nd_PodInfos data). finite_pod p"
    and "r \<in> set (op_PodContainerRecommendations res)" "\<not> pr_Evict r"
  shows "\<exists>p st cs current bc rc bm rm.
    p \<in> set (nd_PodInfos data) \<and> pr_PodInfo r = p \<and> pi_Stats p = Some st \<and>
    cs \<in> set (ws_ContainerStats st) \<and> cs_ContainerName cs = pr_ContainerName r \<and>
    GetContainerResource p (pr_ContainerName r) = Some current \<and>
    GetRecommendedAndRestCPU cs = Some (bc, rc) \<and> GetRecommendedAndRestMemory cs = Some (bm, rm) \<and>
    (if pi_WorkloadKind p = DaemonSetKind
     then fle (pr_CPU r) (cr_CPURequest current) \<and> fle (pr_Memory r) (cr_MemoryRequest current)
     else fle bc (pr_CPU r) \<and> fle (pr_CPU r) (fadd bc (op_MaxRestCPU res)) \<and>
          fle bm (pr_Memory r) \<and> fle (pr_Memory r) (fadd bm (op_MaxRestMemory res)))"
proof -
  obtain ev kept ms where
    split: "mset (nd_PodInfos data) = mset ev + mset kept"
    and recs: "op_PodContainerRecommendations res = concat (map recs_of_pod ev) @ distribute ms"
    and ms: "collect_metrics kept = Some ms"
    and mx: "op_MaxRestCPU res = max_of cm_restCPU ms" "op_MaxRestMemory res = max_of cm_restMemory ms"
    using OptimizeNode_SomeE [OF assms(1,2)] by metis
  have sub: "set kept \<subseteq> set (nd_PodInfos data)"
    using split by (metis Un_upper2 set_mset_mset set_mset_union)
  then have fin: "\<forall>p \<in> set kept. finite_pod p" using assms(3) by auto
  have "r \<in> set (distribute ms)" using recs assms(4,5) recs_of_pod_mem by fastforce
  then obtain m where m: "m \<in> set ms" and r: "pr_PodInfo r = cm_pod m"
    "pr_ContainerName r = cs_ContainerName (cm_containerStats m)"
    "pr_CPU r = fadd (cm_recommendedCPU m) (additional (total_of cm_recommendedCPU ms)
       (total_of cm_restCPU ms) (max_of cm_restCPU ms) (cm_restCPU m))"
    "pr_Memory r = fadd (cm_recommendedMemory m) (additional (total_of cm_recommendedMemory ms)
       (total_of cm_restMemory ms) (max_of cm_restMemory ms) (cm_restMemory m))"
    by (auto simp: distribute_def)
  obtain p st cs current where p: "p \<in> set kept" "pi_Stats p = Some st" "cs \<in> set (ws_ContainerStats st)"
    "GetContainerResource p (cs_ContainerName cs) = Some current" "container_metric p cs current = Some m"
    using collect_metrics_SomeD [OF ms m] by auto
  obtain bc rc bm rm where b: "GetRecommendedAndRestCPU cs = Some (bc, rc)"
    "GetRecommendedAndRestMemory cs = Some (bm, rm)" "cm_pod m = p" "cm_containerStats m = cs"
    "pi_WorkloadKind p \<noteq> DaemonSetKind \<Longrightarrow> cm_restCPU m = rc \<and> cm_restMemory m = rm \<and>
       cm_recommendedCPU m = bc \<and> cm_recommendedMemory m = bm"
    "pi_WorkloadKind p = DaemonSetKind \<Longrightarrow> cm_restCPU m = lit 0 \<and> cm_restMemory m = lit 0 \<and>
       cm_recommendedCPU m = cap_at (cr_CPURequest current) bc \<and>
       cm_recommendedMemory m = cap_at (cr_MemoryRequest current) bm"
    using container_metric_SomeD [OF p(5)] by metis
  note f = collect_metrics_finite [OF ms fin]
  have fr: "\<forall>m \<in> set ms. finite_nonneg (cm_restCPU m)" "\<forall>m \<in> set ms. finite_nonneg (cm_restMemory m)"
    using f by simp_all
  have sc: "fle (cm_recommendedCPU m) (pr_CPU r)"
    "fle (pr_CPU r) (fadd (cm_recommendedCPU m) (max_of cm_restCPU ms))"
    "fle (cm_recommendedMemory m) (pr_Memory r)"
    "fle (pr_Memory r) (fadd (cm_recommendedMemory m) (max_of cm_restMemory ms))"
    unfolding r(3,4)
    by (rule share_fadd [OF fr(1) m f(3) [OF m]] share_fadd [OF fr(2) m f(4) [OF m]])+
  show ?thesis
  proof (cases "pi_WorkloadKind p = DaemonSetKind")
    case True
    have cur: "finite_nonneg (cr_CPURequest current)" "finite_nonneg (cr_MemoryRequest current)"
      using fin p(1,4) by (auto simp: finite_pod_def list_all_iff GetContainerResource_def find_Some_iff)
    have fcs: "finite_cs cs" using fin p(1-3) by (fastforce simp: finite_pod_def list_all_iff)
    have fb: "\<not> is_nan bc" "\<not> is_nan bm"
      using finite_nonneg_nan base_rest_cpu_finite(1) [OF b(1) fcs]
        base_rest_memory_finite(1) [OF b(2) fcs] by blast+
    have mf: "finite_nonneg (max_of cm_restCPU ms)" "finite_nonneg (max_of cm_restMemory ms)"
      using f max_of_finite by blast+
    have "fle (pr_CPU r) (cm_recommendedCPU m)" "fle (pr_Memory r) (cm_recommendedMemory m)"
      using share_zero [OF f(3) [OF m] mf(1)] share_zero [OF f(4) [OF m] mf(2)] b(6) [OF True]
      by (simp_all add: r(3,4))
    moreover have "fle (cm_recommendedCPU m) (cr_CPURequest current)"
      "fle (cm_recommendedMemory m) (cr_MemoryRequest current)"
      using b(6) [OF True] cap_at_finite(2) [OF finite_nonneg_nan [OF cur(1)] fb(1)]
        cap_at_finite(2) [OF finite_nonneg_nan [OF cur(2)] fb(2)] by simp_all
    ultimately have "fle (pr_CPU r) (cr_CPURequest current)" "fle (pr_Memory r) (cr_MemoryRequest current)"
      by (auto intro: fle_trans)
    then show ?thesis using p(1-4) b(1-4) r(1,2) sub True
      by (intro exI [of _ p] exI [of _ st] exI [of _ cs] exI [of _ current] exI [of _ bc] exI [of _ rc]
          exI [of _ bm] exI [of _ rm]) (simp add: subset_iff)
  next
    case False
    then show ?thesis using p(1-4) b(1-5) sc r(1,2) sub mx
      by (intro exI [of _ p] exI [of _ st] exI [of _ cs] exI [of _ current] exI [of _ bc] exI [of _ rc]
          exI [of _ bm] exI [of _ rm]) (simp add: subset_iff)
  qed
qed

lemma recommendation_between_witness:
  "fle (lit 1) (pr_CPU sample_keep_rec) \<and> fle (pr_CPU sample_keep_rec) (fadd (lit 1) (lit 1))"
proof -
  have fin: "\<forall>p \<in> set (nd_PodInfos sample_node). finite_pod p"
    by (simp add: sample_node_def finite_pod_def finite_cs_def finite_nonneg_def sample_defs f64_eval)
  have k: "sample_keep_rec \<in> set [sample_evict_rec, sample_keep_rec]" "\<not> pr_Evict sample_keep_rec"
    by (simp_all add: sample_keep_rec_def)
  have "GetRecommendedAndRestCPU cs = Some (bc, rc) \<Longrightarrow> bc = lit 1"
    if "cs \<in> set (ws_ContainerStats (sample_stat ''web'' 1 100))" for cs bc rc
    using that by (auto simp: sample_defs base_rest_eval)
  moreover have "pr_PodInfo sample_keep_rec = sample_web" by (simp add: sample_keep_rec_def)
  ultimately show ?thesis
    using recommendation_between [OF sample_run insertion.go_sort_axioms fin _ k(2)] k(1)
    by (auto simp: sample_fields DaemonSetKind_def)
qed

end
