(* ===== verification/ApplyTask.thy ===== *)
theory ApplyTask
  imports Api Optimize
begin

text \<open>
  The apply-recommendation task, \<^verbatim>\<open>pkg/task/taskapplyrecommendation.go\<close>: the pods of a node are
  separated, the optimiser runs once for the stored recommendations and once for those applied,
  the rows are saved, and the recommendations of each node are carried out as evictions and
  in-place resizes. Metrics and the log-only counters are left out; a map the code ranges over
  is an association list.
\<close>

section \<open>Configuration and results\<close>

record ApplyConfig =
  ap_ClusterID :: string
  ap_TargetNamespace :: string
  ap_OptimizeGuaranteedPods :: bool
  ap_DisableMemoryApplication :: bool
  ap_NewWorkloadThresholdHours :: int
  ap_SkipMemory :: bool

record RecommendationResult =
  rr_NodeName :: string
  rr_NodeInfo :: NodeResourceInfo
  rr_PodContainerRecommendations :: "PodContainerRecommendation list"
  rr_NonOptimizablePods :: "PodInfo list"
  rr_OptimizableButExcludedPods :: "PodInfo list"
  rr_OptimizablePods :: "PodInfo list"
  rr_MaxRestCPU :: float64
  rr_MaxRestMemory :: float64

type_synonym overrides_map = "string \<rightharpoonup> WorkloadOverrideInfo"

section \<open>Overrides of the cluster's workloads\<close>

fun overrides_loop :: "WorkloadInCluster list \<Rightarrow> overrides_map \<Rightarrow> overrides_map" where
  "overrides_loop [] m = m"
| "overrides_loop (w # ws) m =
     (case wk_Stat w of
        None \<Rightarrow> overrides_loop ws m
      | Some stat \<Rightarrow>
          if IsGPUWorkload stat then overrides_loop ws m
          else overrides_loop ws
                 (m(wk_WorkloadID w \<mapsto>
                    \<lparr>oi_WorkloadID = wk_WorkloadID w, oi_Name = ws_Name stat,
                     oi_Namespace = ws_Namespace stat, oi_Kind = ws_Kind stat,
                     oi_Overrides = Some (OverridesWithDefaults w)\<rparr>)))"

section \<open>Separating the pods of a node\<close>

definition segregate_input :: "ApplyConfig \<Rightarrow> ApplyCheckInput" where
  "segregate_input cfg =
     \<lparr>ac_K8sVersionGE133 = True, ac_K8sMemoryGE134 = True,
      ac_OptimizeGuaranteedPods = ap_OptimizeGuaranteedPods cfg,
      ac_DisableMemoryApplication = ap_DisableMemoryApplication cfg,
      ac_NewWorkloadThresholdHours = ap_NewWorkloadThresholdHours cfg,
      ac_SkipMemory = ap_SkipMemory cfg,
      ac_PodExcludedByAnnotation = False\<rparr>"

fun segregate_loop ::
    "go_time \<Rightarrow> ApplyConfig \<Rightarrow> overrides_map \<Rightarrow> PodInfo list
     \<Rightarrow> PodInfo list \<times> PodInfo list \<times> PodInfo list \<Rightarrow> PodInfo list \<times> PodInfo list \<times> PodInfo list" where
  "segregate_loop now cfg overridesMap [] acc = acc"
| "segregate_loop now cfg overridesMap (podInfo # ps) (optimizable, excluded, nonOptimizable) =
     (case pi_Stats podInfo of
        None \<Rightarrow> segregate_loop now cfg overridesMap ps
                  (optimizable, excluded, nonOptimizable @ [podInfo])
      | Some stats \<Rightarrow>
          let override = overridesMap (ws_WorkloadIdentifier stats) in
          if \<not> fst (ShouldGenerateRecommendation now podInfo (segregate_input cfg))
          then segregate_loop now cfg overridesMap ps
                 (optimizable, excluded, nonOptimizable @ [podInfo])
          else if \<not> fst (ShouldApplyRecommendationToPod now podInfo override (segregate_input cfg))
          then segregate_loop now cfg overridesMap ps
                 (optimizable, excluded @ [podInfo], nonOptimizable)
          else segregate_loop now cfg overridesMap ps
                 (optimizable @ [podInfo], excluded, nonOptimizable))"

definition segregateOptimizableNonOptimizablePods ::
    "go_time \<Rightarrow> ApplyConfig \<Rightarrow> PodInfo list \<Rightarrow> overrides_map
     \<Rightarrow> PodInfo list \<times> PodInfo list \<times> PodInfo list" where
  "segregateOptimizableNonOptimizablePods now cfg allPodInfos overridesMap =
     segregate_loop now cfg overridesMap allPodInfos ([], [], [])"

section \<open>Recommendations for a node\<close>

text \<open>What is left after the pods the task does not touch.\<close>

definition reduce_available :: "PodInfo list \<Rightarrow> float64 \<times> float64 \<Rightarrow> float64 \<times> float64" where
  "reduce_available pods avail =
     foldl (\<lambda>(cpu, memory) p. (fsub cpu (pi_RequestedCPU p), fsub memory (pi_RequestedMemory p)))
       avail pods"

definition default_recs :: "PodInfo list \<Rightarrow> PodContainerRecommendation list" where
  "default_recs pods =
     concat (map (\<lambda>p. map (\<lambda>c. \<lparr>pr_PodInfo = p, pr_ContainerName = cr_Name c,
        pr_CPU = cr_CPURequest c, pr_Memory = cr_MemoryRequest c, pr_Evict = False\<rparr>)
        (pi_ContainerResources p)) pods)"

fun excluded_container_recs ::
    "PodInfo \<Rightarrow> WorkloadStat \<Rightarrow> ContainerResources list \<Rightarrow> PodContainerRecommendation list option" where
  "excluded_container_recs p stats [] = Some []"
| "excluded_container_recs p stats (c # cs) =
     (case GetContainerStats stats (cr_Name c) of
        None \<Rightarrow> excluded_container_recs p stats cs
      | Some containerStat \<Rightarrow>
          do { (recommendedCPU, restCPU) \<leftarrow> GetRecommendedAndRestCPU containerStat;
               (recommendedMemory, restMemory) \<leftarrow> GetRecommendedAndRestMemory containerStat;
               rest \<leftarrow> excluded_container_recs p stats cs;
               Some (\<lparr>pr_PodInfo = p, pr_ContainerName = cr_Name c,
                      pr_CPU = fadd recommendedCPU restCPU,
                      pr_Memory = fadd recommendedMemory restMemory, pr_Evict = False\<rparr> # rest) })"

fun excluded_recs :: "PodInfo list \<Rightarrow> PodContainerRecommendation list option" where
  "excluded_recs [] = Some []"
| "excluded_recs (p # ps) =
     do { rs \<leftarrow> (if pi_ContainerResources p = [] then Some []
                 else do { stats \<leftarrow> pi_Stats p;
                           excluded_container_recs p stats (pi_ContainerResources p) });
          rest \<leftarrow> excluded_recs ps;
          Some (rs @ rest) }"

definition node_results ::
    "go_time \<Rightarrow> sorter \<Rightarrow> ApplyConfig \<Rightarrow> overrides_map \<Rightarrow> string \<times> NodeResourceInfo
     \<Rightarrow> (RecommendationResult \<times> RecommendationResult) option" where
  "node_results now srt cfg overridesMap node =
     (let (nodeName, nodeInfo) = node;
          (optimizablePods, excludedPods, nonOptimizablePods) =
            segregateOptimizableNonOptimizablePods now cfg (nr_Pods nodeInfo) overridesMap;
          allOptimizablePods = optimizablePods @ excludedPods;
          (availableCPU, availableMemory) =
            reduce_available nonOptimizablePods
              (nr_AllocatableCPU nodeInfo, nr_AllocatableMemory nodeInfo);
          defaults = default_recs nonOptimizablePods
      in do {
        resultToSave \<leftarrow> OptimizeNode srt overridesMap
          \<lparr>nd_NodeName = nodeName, nd_AllocatableCPU = availableCPU,
           nd_AllocatableMemory = availableMemory, nd_PodInfos = allOptimizablePods\<rparr>;
        excl \<leftarrow> excluded_recs excludedPods;
        let (availableCPU, availableMemory) =
          reduce_available excludedPods (availableCPU, availableMemory);
        resultToApply \<leftarrow> OptimizeNode srt overridesMap
          \<lparr>nd_NodeName = nodeName, nd_AllocatableCPU = availableCPU,
           nd_AllocatableMemory = availableMemory, nd_PodInfos = optimizablePods\<rparr>;
        Some (\<lparr>rr_NodeName = nodeName, rr_NodeInfo = nodeInfo,
               rr_PodContainerRecommendations =
                 defaults @ op_PodContainerRecommendations resultToSave,
               rr_NonOptimizablePods = nonOptimizablePods, rr_OptimizableButExcludedPods = [],
               rr_OptimizablePods = allOptimizablePods,
               rr_MaxRestCPU = op_MaxRestCPU resultToSave,
               rr_MaxRestMemory = op_MaxRestMemory resultToSave\<rparr>,
              \<lparr>rr_NodeName = nodeName, rr_NodeInfo = nodeInfo,
               rr_PodContainerRecommendations =
                 defaults @ excl @ op_PodContainerRecommendations resultToApply,
               rr_NonOptimizablePods = nonOptimizablePods,
               rr_OptimizableButExcludedPods = excludedPods,
               rr_OptimizablePods = optimizablePods,
               rr_MaxRestCPU = op_MaxRestCPU resultToApply,
               rr_MaxRestMemory = op_MaxRestMemory resultToApply\<rparr>) })"

fun all_node_results ::
    "go_time \<Rightarrow> sorter \<Rightarrow> ApplyConfig \<Rightarrow> overrides_map \<Rightarrow> (string \<times> NodeResourceInfo) list
     \<Rightarrow> (RecommendationResult list \<times> RecommendationResult list) option" where
  "all_node_results now srt cfg overridesMap [] = Some ([], [])"
| "all_node_results now srt cfg overridesMap (n # ns) =
     do { (toSave, toApply) \<leftarrow> node_results now srt cfg overridesMap n;
          (saves, applies) \<leftarrow> all_node_results now srt cfg overridesMap ns;
          Some (toSave # saves, toApply # applies) }"

section \<open>Stored recommendations\<close>

definition nonOptimizablePodKeySet :: "PodInfo list \<Rightarrow> string set" where
  "nonOptimizablePodKeySet pods = (\<lambda>p. GetPodKey (pi_Namespace p) (pi_Name p)) ` set pods"

definition current_resources :: "PodContainerRecommendation \<Rightarrow> PodCurrentResources" where
  "current_resources rec =
     (case GetContainerResource (pr_PodInfo rec) (pr_ContainerName rec) of
        None \<Rightarrow> \<lparr>pc_CPURequest = lit 0, pc_MemoryRequest = lit 0, pc_CPULimit = lit 0, pc_MemoryLimit = lit 0\<rparr>
      | Some c \<Rightarrow> \<lparr>pc_CPURequest = cr_CPURequest c, pc_MemoryRequest = cr_MemoryRequest c,
                   pc_CPULimit = cr_CPULimit c, pc_MemoryLimit = cr_MemoryLimit c\<rparr>)"

text \<open>JSON has no NaN or infinity, so encoding such a value is the error case.\<close>

definition recommendation_row ::
    "string \<Rightarrow> float64 \<Rightarrow> string set \<Rightarrow> PodContainerRecommendation
     \<Rightarrow> PodResourceRecommendationRow list" where
  "recommendation_row nodeName allocatableCPU nonOptKeys rec =
     (let pod = pr_PodInfo rec;
          workloadID = GetWorkloadKey (pi_WorkloadKind pod) (pi_Namespace pod) (pi_WorkloadName pod);
          (cpuRequest, memoryRequest, cpuLimit, memoryLimit) =
            ComputeRecommendedResourceValues rec allocatableCPU;
          current = current_resources rec;
          (cpuRequest, memoryRequest, cpuLimit, memoryLimit) =
            (if GetPodKey (pi_Namespace pod) (pi_Name pod) \<in> nonOptKeys
             then case find (\<lambda>c. cr_Name c = pr_ContainerName rec) (pi_ContainerResources pod) of
                    None \<Rightarrow> (cpuRequest, memoryRequest, cpuLimit, memoryLimit)
                  | Some c \<Rightarrow> (cr_CPURequest c, cr_MemoryRequest c, cr_CPULimit c, cr_MemoryLimit c)
             else (cpuRequest, memoryRequest, cpuLimit, memoryLimit));
          currentJSON =
            (if is_num (pc_CPURequest current) \<and> is_num (pc_MemoryRequest current) \<and>
                is_num (pc_CPULimit current) \<and> is_num (pc_MemoryLimit current)
             then Some current else None)
      in if is_num cpuRequest \<and> is_num memoryRequest \<and> is_num cpuLimit \<and> is_num memoryLimit
         then [\<lparr>rw_WorkloadID = workloadID, rw_NodeName = nodeName, rw_Namespace = pi_Namespace pod,
                rw_Pod = pi_Name pod, rw_Container = pr_ContainerName rec,
                rw_Recommendation = \<lparr>rc_CPURequest = cpuRequest, rc_MemoryRequest = memoryRequest,
                  rc_CPULimit = cpuLimit, rc_MemoryLimit = memoryLimit,
                  rc_ToBeEvicted = ToBeEvicted rec\<rparr>,
                rw_Current = currentJSON\<rparr>]
         else [])"

definition buildPodRecommendationRows ::
    "RecommendationResult list \<Rightarrow> PodResourceRecommendationRow list" where
  "buildPodRecommendationRows results =
     concat (map (\<lambda>res. concat (map
       (recommendation_row (rr_NodeName res) (nr_AllocatableCPU (rr_NodeInfo res))
          (nonOptimizablePodKeySet (rr_NonOptimizablePods res)))
       (rr_PodContainerRecommendations res))) results)"

section \<open>Carrying recommendations out\<close>

type_synonym container_resources = "resource_list option \<times> resource_list option"

text \<open>The resources of the named container of the fresh pod; the last match wins.\<close>

definition current_container_resources :: "Pod \<Rightarrow> string \<Rightarrow> container_resources" where
  "current_container_resources pod name =
     fold (\<lambda>c r. if c_Name c = name then (c_Requests c, c_Limits c) else r) (p_Containers pod) (None, None)"

definition applyCPURecommendation ::
    "reply \<Rightarrow> Pod \<Rightarrow> container_resources \<Rightarrow> PodContainerRecommendation \<Rightarrow> float64 \<Rightarrow> trace
     \<Rightarrow> ((string + bool) \<times> trace) option" where
  "applyCPURecommendation reply pod current rec allocatableCPU tr =
     (case rl_get (fst current) ResourceCPU of
        None \<Rightarrow> Some (Inr False, tr)
      | Some q \<Rightarrow>
          let currentCPURequest = cores q in
          (case GetContainerResource (pr_PodInfo rec) (pr_ContainerName rec) of
             None \<Rightarrow> Some (Inl (''error getting container resource for pod '' @
                       pi_Namespace (pr_PodInfo rec) @ ''/'' @ pi_Name (pr_PodInfo rec) @
                       '': container resource '' @ pr_ContainerName rec @ '' not found''), tr)
           | Some containerResource \<Rightarrow>
               if flt MinimumCPURecommendation
                    (mathAbs (fsub currentCPURequest (cr_CPURequest containerResource)))
               then Some (Inr False, tr)
               else
                 let currentCPULimit = cores (rl_val (snd current) ResourceCPU);
                     (recommendedCPURequest, _, recommendedCPULimit, _) =
                       ComputeRecommendedResourceValues rec allocatableCPU;
                     recommendedCPULimit =
                       (if feq currentCPULimit (lit 0) then lit 0 else recommendedCPULimit)
                 in if fle (lit (1 / 1000)) (mathAbs (fsub recommendedCPURequest currentCPURequest)) \<or>
                       fle (lit (1 / 1000)) (mathAbs (fsub recommendedCPULimit currentCPULimit))
                    then do {
                      ((applied, errStr), tr) \<leftarrow> UpdatePodCPUResources reply pod (pr_ContainerName rec)
                         recommendedCPURequest recommendedCPULimit tr;
                      Some (if errStr \<noteq> '''' then Inl errStr
                            else if \<not> applied then Inr False else Inr True, tr) }
                    else Some (Inr False, tr)))"

text \<open>The outcome is (applied, skipped, error).\<close>

definition applyMemoryRecommendation ::
    "reply \<Rightarrow> Pod \<Rightarrow> container_resources \<Rightarrow> PodContainerRecommendation \<Rightarrow> bool \<Rightarrow> trace
     \<Rightarrow> ((bool \<times> bool \<times> string option) \<times> trace) option" where
  "applyMemoryRecommendation reply pod current rec supportsMemoryReduction tr =
     (let (_, recommendedMemoryRequest, _, recommendedMemoryLimit) =
            ComputeRecommendedResourceValues rec (lit 0)
      in case GetContainerResource (pr_PodInfo rec) (pr_ContainerName rec) of
           None \<Rightarrow> Some ((False, True, Some (''error getting container resource for pod '' @
                     pi_Namespace (pr_PodInfo rec) @ ''/'' @ pi_Name (pr_PodInfo rec) @
                     '': container resource '' @ pr_ContainerName rec @ '' not found'')), tr)
         | Some containerResource \<Rightarrow>
         (case rl_get (fst current) ResourceMemory of
            None \<Rightarrow> Some ((False, True, Some (''container '' @ pr_ContainerName rec @ '' in pod '' @
                      pi_Name (pr_PodInfo rec) @ '' has no memory request'')), tr)
          | Some q \<Rightarrow>
              let currentMemoryRequest = megabytes q in
              if flt MinimumMemoryRecommendation
                   (mathAbs (fsub currentMemoryRequest (cr_MemoryRequest containerResource)))
              then Some ((False, True, None), tr)
              else
                let currentMemoryLimit = megabytes (rl_val (snd current) ResourceMemory);
                    recommendedMemoryLimit =
                      (if \<not> supportsMemoryReduction \<and> flt recommendedMemoryLimit currentMemoryLimit
                       then mathCeil currentMemoryLimit else recommendedMemoryLimit);
                    recommendedMemoryLimit =
                      (if feq currentMemoryLimit (lit 0) then lit 0 else recommendedMemoryLimit)
                in if flt (lit 0) (mathAbs (fsub recommendedMemoryRequest currentMemoryRequest))
                   then do {
                     ((applied, errStr), tr) \<leftarrow> UpdatePodMemoryResources reply pod (pr_ContainerName rec)
                        recommendedMemoryRequest recommendedMemoryLimit tr;
                     Some (if errStr \<noteq> '''' then (False, False, Some errStr)
                           else if \<not> applied then (False, False, None) else (True, False, None), tr) }
                   else Some ((False, False, None), tr)))"

section \<open>Audit of what was applied\<close>

definition pod_target :: "PodContainerRecommendation \<Rightarrow> (string \<times> string) list" where
  "pod_target rec = [(''kind'', ''Pod''), (''namespace'', pi_Namespace (pr_PodInfo rec)),
     (''name'', pi_Name (pr_PodInfo rec))]"

definition rec_pod :: "PodContainerRecommendation \<Rightarrow> string" where
  "rec_pod rec = pi_Namespace (pr_PodInfo rec) @ ''/'' @ pi_Name (pr_PodInfo rec)"

definition rec_workload_key :: "PodContainerRecommendation \<Rightarrow> string" where
  "rec_workload_key rec = GetWorkloadKey (pi_WorkloadKind (pr_PodInfo rec))
     (pi_Namespace (pr_PodInfo rec)) (pi_WorkloadName (pr_PodInfo rec))"

definition eviction_event :: "string \<Rightarrow> PodContainerRecommendation \<Rightarrow> AuditEvent" where
  "eviction_event nodeName rec =
     \<lparr>ae_Type = EventTypeNormal, ae_Category = ''POD_EVICTION'',
      ae_Message = ''Pod '' @ rec_pod rec @ '' evicted for resource optimization'',
      ae_Target = pod_target rec,
      ae_Details = [(''workloadId'', AStr (case pi_Stats (pr_PodInfo rec) of None \<Rightarrow> ''''
                       | Some s \<Rightarrow> ws_WorkloadIdentifier s)),
                    (''node'', AStr nodeName), (''containerName'', AStr (pr_ContainerName rec))]\<rparr>"

definition cpu_event ::
    "(float64 \<Rightarrow> int) \<Rightarrow> string \<Rightarrow> float64 \<Rightarrow> container_resources \<Rightarrow> PodContainerRecommendation \<Rightarrow> AuditEvent" where
  "cpu_event oob nodeName allocatableCPU current rec =
     (let (recommendedCPURequest, _, recommendedCPULimit, _) =
            ComputeRecommendedResourceValues rec allocatableCPU;
          req = rl_val (fst current) ResourceCPU;
          lm = rl_val (snd current) ResourceCPU
      in \<lparr>ae_Type = EventTypeNormal, ae_Category = ''CPU_RECOMMENDATION_APPLIED'',
          ae_Message = ''CPU recommendation applied for pod '' @ rec_pod rec @ '' container '' @
            pr_ContainerName rec,
          ae_Target = pod_target rec,
          ae_Details = [(''workloadId'', AStr (rec_workload_key rec)), (''node'', AStr nodeName),
            (''containerName'', AStr (pr_ContainerName rec)),
            (''before'', AMap ((if q_IsZero req then [] else [(''cpuRequestMillis'', AInt (q_MilliValue req))]) @
                               (if q_IsZero lm then [] else [(''cpuLimitMillis'', AInt (q_MilliValue lm))]))),
            (''after'', AMap [(''cpuRequestMillis'', AInt (int64_of_f64 oob (fmul recommendedCPURequest (lit 1000)))),
                              (''cpuLimitMillis'', AInt (int64_of_f64 oob (fmul recommendedCPULimit (lit 1000))))])]\<rparr>)"

definition memory_event ::
    "string \<Rightarrow> container_resources \<Rightarrow> PodContainerRecommendation \<Rightarrow> AuditEvent" where
  "memory_event nodeName current rec =
     (let (_, recommendedMemoryRequest, _, recommendedMemoryLimit) =
            ComputeRecommendedResourceValues rec (lit 0);
          req = rl_val (fst current) ResourceMemory;
          lm = rl_val (snd current) ResourceMemory
      in \<lparr>ae_Type = EventTypeNormal, ae_Category = ''MEMORY_RECOMMENDATION_APPLIED'',
          ae_Message = ''Memory recommendation applied for pod '' @ rec_pod rec @ '' container '' @
            pr_ContainerName rec,
          ae_Target = pod_target rec,
          ae_Details = [(''workloadId'', AStr (rec_workload_key rec)), (''node'', AStr nodeName),
            (''containerName'', AStr (pr_ContainerName rec)),
            (''before'', AMap ((if q_IsZero req then [] else [(''memoryRequestMB'', ANum (megabytes req))]) @
                               (if q_IsZero lm then [] else [(''memoryLimitMB'', ANum (megabytes lm))]))),
            (''after'', AMap [(''memoryRequestMB'', ANum recommendedMemoryRequest),
                              (''memoryLimitMB'', ANum recommendedMemoryLimit)])]\<rparr>)"

section \<open>Applying the recommendations of the nodes\<close>

record ApplyEnv =
  en_reply :: reply
  en_recorder :: bool
  en_oob :: "float64 \<Rightarrow> int"
  en_podsOnNode :: "string \<Rightarrow> api_error + Pod list"
  en_supportsMemoryReduction :: bool

definition getFreshPodsOnNode :: "ApplyEnv \<Rightarrow> string \<Rightarrow> api_error + (string \<rightharpoonup> Pod)" where
  "getFreshPodsOnNode env nodeName =
     (case en_podsOnNode env nodeName of
        Inl e \<Rightarrow> Inl (wrap (''failed to get pods on node '' @ nodeName @ '': '') e)
      | Inr pods \<Rightarrow> Inr (fold (\<lambda>pod m. m(GetPodKey (p_Namespace pod) (p_Name pod) \<mapsto> pod)) pods Map.empty))"

definition apply_rec ::
    "ApplyEnv \<Rightarrow> ApplyConfig \<Rightarrow> string set \<Rightarrow> string \<Rightarrow> NodeResourceInfo \<Rightarrow> (string \<rightharpoonup> Pod)
     \<Rightarrow> PodContainerRecommendation \<Rightarrow> trace \<Rightarrow> trace option" where
  "apply_rec env cfg optimizableWorkloadIDs nodeName nodeInfo podsOnNode rec tr =
     (if rec_workload_key rec \<notin> optimizableWorkloadIDs then Some tr
      else case podsOnNode (GetPodKey (pi_Namespace (pr_PodInfo rec)) (pi_Name (pr_PodInfo rec))) of
        None \<Rightarrow> Some tr
      | Some freshPod \<Rightarrow>
          if ToBeEvicted rec
          then (case EvictPod (en_reply env) freshPod tr of ((success, errStr), tr) \<Rightarrow>
                  Some (if success then record_audit (en_recorder env) (eviction_event nodeName rec) tr
                        else tr))
          else
            let current = current_container_resources freshPod (pr_ContainerName rec) in
            do { (cpu, tr) \<leftarrow> applyCPURecommendation (en_reply env) freshPod current rec
                   (nr_AllocatableCPU nodeInfo) tr;
                 let tr = (if cpu = Inr True
                           then record_audit (en_recorder env)
                                  (cpu_event (en_oob env) nodeName (nr_AllocatableCPU nodeInfo) current rec) tr
                           else tr);
                 if \<not> ap_DisableMemoryApplication cfg \<and> \<not> ap_SkipMemory cfg
                 then do { ((applied, _, _), tr) \<leftarrow> applyMemoryRecommendation (en_reply env) freshPod
                             current rec (en_supportsMemoryReduction env) tr;
                           Some (if applied
                                 then record_audit (en_recorder env) (memory_event nodeName current rec) tr
                                 else tr) }
                 else Some tr })"

fun apply_recs ::
    "ApplyEnv \<Rightarrow> ApplyConfig \<Rightarrow> string set \<Rightarrow> string \<Rightarrow> NodeResourceInfo \<Rightarrow> (string \<rightharpoonup> Pod)
     \<Rightarrow> PodContainerRecommendation list \<Rightarrow> trace \<Rightarrow> trace option" where
  "apply_recs env cfg ids nodeName nodeInfo podsOnNode [] tr = Some tr"
| "apply_recs env cfg ids nodeName nodeInfo podsOnNode (rec # recs) tr =
     do { tr \<leftarrow> apply_rec env cfg ids nodeName nodeInfo podsOnNode rec tr;
          apply_recs env cfg ids nodeName nodeInfo podsOnNode recs tr }"

fun apply_nodes ::
    "ApplyEnv \<Rightarrow> ApplyConfig \<Rightarrow> string set \<Rightarrow> bool \<Rightarrow> RecommendationResult list \<Rightarrow> trace \<Rightarrow> trace option" where
  "apply_nodes env cfg ids generateRecommendationOnly [] tr = Some tr"
| "apply_nodes env cfg ids generateRecommendationOnly (res # rest) tr =
     (if generateRecommendationOnly then apply_nodes env cfg ids generateRecommendationOnly rest tr
      else case getFreshPodsOnNode env (rr_NodeName res) of
             Inl e \<Rightarrow> apply_nodes env cfg ids generateRecommendationOnly rest tr
           | Inr podsOnNode \<Rightarrow>
               do { tr \<leftarrow> apply_recs env cfg ids (rr_NodeName res) (rr_NodeInfo res) podsOnNode
                      (rr_PodContainerRecommendations res) tr;
                    apply_nodes env cfg ids generateRecommendationOnly rest tr })"

definition optimizable_workload_ids :: "RecommendationResult list \<Rightarrow> string set option" where
  "optimizable_workload_ids results =
     (if list_all (\<lambda>p. pi_Stats p \<noteq> None) (concat (map rr_OptimizablePods results))
      then Some ((\<lambda>p. ws_WorkloadIdentifier (the (pi_Stats p))) ` set (concat (map rr_OptimizablePods results)))
      else None)"

text \<open>
  The rows are handed to \<open>save\<close>, which answers with an error when the database does; then the
  recommendations are applied. The result pairs what is returned with the trace of writes.
\<close>

definition ApplyRecommendationsWithStrategy ::
    "go_time \<Rightarrow> sorter \<Rightarrow> ApplyEnv \<Rightarrow> (PodResourceRecommendationRow list \<Rightarrow> api_error option)
     \<Rightarrow> ApplyConfig \<Rightarrow> (string \<times> NodeResourceInfo) list \<Rightarrow> overrides_map \<Rightarrow> bool
     \<Rightarrow> ((api_error + RecommendationResult list \<times> RecommendationResult list) \<times> trace) option" where
  "ApplyRecommendationsWithStrategy now srt env save cfg nodeStatsMap overridesMap generateOnly =
     do { (toSave, toApply) \<leftarrow> all_node_results now srt cfg overridesMap nodeStatsMap;
          case save (buildPodRecommendationRows toSave) of
            Some e \<Rightarrow> Some (Inl (wrap ''failed to save pod recommendations: '' e), [])
          | None \<Rightarrow>
              do { ids \<leftarrow> optimizable_workload_ids toApply;
                   tr \<leftarrow> apply_nodes env cfg ids generateOnly toApply [];
                   Some (Inr (toApply, toSave), tr) } }"

section \<open>Lemmas on the separation\<close>

definition generates :: "go_time \<Rightarrow> ApplyConfig \<Rightarrow> PodInfo \<Rightarrow> bool" where
  "generates now cfg p \<longleftrightarrow> fst (ShouldGenerateRecommendation now p (segregate_input cfg))"

definition applies :: "go_time \<Rightarrow> ApplyConfig \<Rightarrow> overrides_map \<Rightarrow> PodInfo \<Rightarrow> bool" where
  "applies now cfg ov p \<longleftrightarrow>
     (case pi_Stats p of None \<Rightarrow> False
      | Some st \<Rightarrow> fst (ShouldApplyRecommendationToPod now p (ov (ws_WorkloadIdentifier st)) (segregate_input cfg)))"

lemma applies_generates: "applies now cfg ov p \<Longrightarrow> generates now cfg p"
  by (auto simp: applies_def generates_def ShouldApply_iff split: option.splits)

lemma generates_stats: "generates now cfg p \<Longrightarrow> \<exists>st. pi_Stats p = Some st"
  by (auto simp: generates_def ShouldGenerate_iff)

lemma segregate_loop_eq:
  "segregate_loop now cfg ov ps (a, b, c) =
     (a @ filter (applies now cfg ov) ps,
      b @ filter (\<lambda>p. generates now cfg p \<and> \<not> applies now cfg ov p) ps,
      c @ filter (\<lambda>p. \<not> generates now cfg p) ps)"
proof (induction ps arbitrary: a b c)
  case (Cons p ps)
  show ?case
  proof (cases "pi_Stats p")
    case None
    then have "\<not> generates now cfg p" using generates_stats by fastforce
    then show ?thesis using None Cons applies_generates [of now cfg ov p] by auto
  next
    case (Some st)
    have ap: "applies now cfg ov p =
        fst (ShouldApplyRecommendationToPod now p (ov (ws_WorkloadIdentifier st)) (segregate_input cfg))"
      using Some by (simp add: applies_def)
    show ?thesis
      using Some Cons applies_generates [of now cfg ov p]
      by (simp add: Let_def ap [symmetric] generates_def [symmetric])
  qed
qed simp

lemma segregate_eq:
  "segregateOptimizableNonOptimizablePods now cfg ps ov =
     (filter (applies now cfg ov) ps,
      filter (\<lambda>p. generates now cfg p \<and> \<not> applies now cfg ov p) ps,
      filter (\<lambda>p. \<not> generates now cfg p) ps)"
  by (simp add: segregateOptimizableNonOptimizablePods_def segregate_loop_eq)

lemma node_results_SomeE:
  assumes "node_results now srt cfg ov (name, info) = Some (s, a)"
  obtains excl resA where
    "rr_NodeName a = name" "rr_NodeInfo a = info"
    "rr_OptimizablePods a = filter (applies now cfg ov) (nr_Pods info)"
    "excluded_recs (filter (\<lambda>p. generates now cfg p \<and> \<not> applies now cfg ov p) (nr_Pods info)) = Some excl"
    "\<exists>cpu mem. OptimizeNode srt ov \<lparr>nd_NodeName = name, nd_AllocatableCPU = cpu,
       nd_AllocatableMemory = mem, nd_PodInfos = filter (applies now cfg ov) (nr_Pods info)\<rparr> = Some resA"
    "rr_PodContainerRecommendations a =
       default_recs (filter (\<lambda>p. \<not> generates now cfg p) (nr_Pods info)) @ excl @
       op_PodContainerRecommendations resA"
proof -
  obtain c1 m1 where r1: "reduce_available (filter (\<lambda>p. \<not> generates now cfg p) (nr_Pods info))
      (nr_AllocatableCPU info, nr_AllocatableMemory info) = (c1, m1)" by fastforce
  obtain c2 m2 where r2: "reduce_available
      (filter (\<lambda>p. generates now cfg p \<and> \<not> applies now cfg ov p) (nr_Pods info)) (c1, m1) = (c2, m2)"
    by fastforce
  show thesis
    using assms that
    by (auto simp: node_results_def segregate_eq bind_eq_Some_conv Let_def r1 r2) blast
qed

section \<open>Lemmas on single writes\<close>

lemma applyCPU_SomeD:
  assumes "applyCPURecommendation reply pod current rec alloc tr = Some (res, tr')"
    and "ComputeRecommendedResourceValues rec alloc = (c, m, cl, ml)"
  shows "tr' = tr \<and> res \<noteq> Inr True \<or>
    (\<exists>p. tr' = tr @ [ActResize p] \<and> rp_Namespace p = p_Namespace pod \<and> rp_Pod p = p_Name pod \<and>
       rp_Container p = pr_ContainerName rec \<and> rp_Resource p = ResourceCPU \<and>
       rl_get (fst current) ResourceCPU \<noteq> None \<and>
       pq_Amount (rp_Request p) = c \<and>
       (rp_Limit p = None \<or>
        \<not> feq (cores (rl_val (snd current) ResourceCPU)) (lit 0) \<and> \<not> feq cl (lit 0) \<and>
        map_option pq_Amount (rp_Limit p) = Some cl))"
proof -
  have "\<exists>p. t = tr @ [ActResize p] \<and> rp_Namespace p = p_Namespace pod \<and> rp_Pod p = p_Name pod \<and>
       rp_Container p = pr_ContainerName rec \<and> rp_Resource p = ResourceCPU \<and>
       pq_Amount (rp_Request p) = c \<and>
       rp_Limit p = (if feq l (lit 0) then None else Some \<lparr>pq_Format = ''%.3f'', pq_Amount = l\<rparr>)"
    if "UpdatePodCPUResources reply pod (pr_ContainerName rec) c l tr = Some (r, t)" for l r t
    using updatePodResources_SomeD [OF that [unfolded UpdatePodCPUResources_def]] by auto
  note up = this
  obtain q cr where "tr' = tr \<and> res \<noteq> Inr True \<or>
      (\<exists>l r. UpdatePodCPUResources reply pod (pr_ContainerName rec) c l tr = Some (r, tr') \<and>
         rl_get (fst current) ResourceCPU = Some q \<and>
         l = (if feq (cores (rl_val (snd current) ResourceCPU)) (lit 0) then lit 0 else cl))"
    using assms
    by (auto simp: applyCPURecommendation_def Let_def bind_eq_Some_conv
        split: option.splits if_splits prod.splits)
  then show ?thesis
  proof (elim disjE exE conjE)
    fix l r
    assume u: "UpdatePodCPUResources reply pod (pr_ContainerName rec) c l tr = Some (r, tr')"
      and q: "rl_get (fst current) ResourceCPU = Some q"
      and l: "l = (if feq (cores (rl_val (snd current) ResourceCPU)) (lit 0) then lit 0 else cl)"
    from up [OF u] show ?thesis using q l by (auto split: if_splits)
  qed simp
qed

lemma applyMemory_SomeD:
  assumes "applyMemoryRecommendation reply pod current rec supports tr = Some (res, tr')"
    and "ComputeRecommendedResourceValues rec (lit 0) = (c, m, cl, ml)"
  defines "lm \<equiv> megabytes (rl_val (snd current) ResourceMemory)"
  shows "tr' = tr \<and> \<not> fst res \<or>
    (\<exists>p. tr' = tr @ [ActResize p] \<and> rp_Namespace p = p_Namespace pod \<and> rp_Pod p = p_Name pod \<and>
       rp_Container p = pr_ContainerName rec \<and> rp_Resource p = ResourceMemory \<and>
       rl_get (fst current) ResourceMemory \<noteq> None \<and>
       pq_Amount (rp_Request p) = m \<and>
       (rp_Limit p = None \<or>
        \<not> feq lm (lit 0) \<and> map_option pq_Amount (rp_Limit p) =
          Some (if \<not> supports \<and> flt ml lm then mathCeil lm else ml)))"
proof -
  have up: "\<exists>p. t = tr @ [ActResize p] \<and> rp_Namespace p = p_Namespace pod \<and> rp_Pod p = p_Name pod \<and>
       rp_Container p = pr_ContainerName rec \<and> rp_Resource p = ResourceMemory \<and>
       pq_Amount (rp_Request p) = m \<and>
       rp_Limit p = (if feq l (lit 0) then None else Some \<lparr>pq_Format = ''%.0fM'', pq_Amount = l\<rparr>)"
    if "UpdatePodMemoryResources reply pod (pr_ContainerName rec) m l tr = Some (r, t)" for l r t
    using updatePodResources_SomeD [OF that [unfolded UpdatePodMemoryResources_def]] by auto
  obtain q where "tr' = tr \<and> \<not> fst res \<or>
      (\<exists>l r. UpdatePodMemoryResources reply pod (pr_ContainerName rec) m l tr = Some (r, tr') \<and>
         rl_get (fst current) ResourceMemory = Some q \<and>
         l = (if feq lm (lit 0) then lit 0 else if \<not> supports \<and> flt ml lm then mathCeil lm else ml))"
    using assms(1,2)
    by (auto simp: applyMemoryRecommendation_def Let_def bind_eq_Some_conv lm_def
        split: option.splits if_splits prod.splits)
  then show ?thesis
  proof (elim disjE exE conjE)
    fix l r
    assume u: "UpdatePodMemoryResources reply pod (pr_ContainerName rec) m l tr = Some (r, tr')"
      and q: "rl_get (fst current) ResourceMemory = Some q"
      and l: "l = (if feq lm (lit 0) then lit 0 else if \<not> supports \<and> flt ml lm then mathCeil lm else ml)"
    from up [OF u] show ?thesis using q l by (auto split: if_splits)
  qed simp
qed

section \<open>What one recommendation can cause\<close>

definition memory_limit_of :: "Pod \<Rightarrow> string \<Rightarrow> float64" where
  "memory_limit_of pod name =
     megabytes (rl_val (snd (current_container_resources pod name)) ResourceMemory)"

definition resize_for ::
    "ApplyEnv \<Rightarrow> ApplyConfig \<Rightarrow> NodeResourceInfo \<Rightarrow> Pod \<Rightarrow> PodContainerRecommendation \<Rightarrow> resize_patch \<Rightarrow> bool" where
  "resize_for env cfg info pod rec p \<longleftrightarrow>
     rp_Namespace p = p_Namespace pod \<and> rp_Pod p = p_Name pod \<and> rp_Container p = pr_ContainerName rec \<and>
     (rp_Resource p = ResourceCPU \<and>
        (case ComputeRecommendedResourceValues rec (nr_AllocatableCPU info) of (c, m, cl, ml) \<Rightarrow>
           pq_Amount (rp_Request p) = c \<and>
           (rp_Limit p = None \<or> \<not> feq cl (lit 0) \<and> map_option pq_Amount (rp_Limit p) = Some cl)) \<or>
      rp_Resource p = ResourceMemory \<and> \<not> ap_DisableMemoryApplication cfg \<and> \<not> ap_SkipMemory cfg \<and>
        (case ComputeRecommendedResourceValues rec (lit 0) of (c, m, cl, ml) \<Rightarrow>
           pq_Amount (rp_Request p) = m \<and>
           (rp_Limit p = None \<or>
            \<not> feq (memory_limit_of pod (pr_ContainerName rec)) (lit 0) \<and>
            map_option pq_Amount (rp_Limit p) =
              Some (if \<not> en_supportsMemoryReduction env \<and> flt ml (memory_limit_of pod (pr_ContainerName rec))
                    then mathCeil (memory_limit_of pod (pr_ContainerName rec)) else ml))))"

definition caused_by ::
    "ApplyEnv \<Rightarrow> ApplyConfig \<Rightarrow> string set \<Rightarrow> NodeResourceInfo \<Rightarrow> (string \<rightharpoonup> Pod)
     \<Rightarrow> PodContainerRecommendation \<Rightarrow> action \<Rightarrow> bool" where
  "caused_by env cfg ids info podsOnNode rec act \<longleftrightarrow>
     rec_workload_key rec \<in> ids \<and>
     (\<exists>pod. podsOnNode (GetPodKey (pi_Namespace (pr_PodInfo rec)) (pi_Name (pr_PodInfo rec))) = Some pod \<and>
        ((\<exists>ev. act = ActAudit ev) \<or>
         ToBeEvicted rec \<and> act = ActEvict (p_Namespace pod) (p_Name pod) \<or>
         \<not> ToBeEvicted rec \<and> (\<exists>p. act = ActResize p \<and> resize_for env cfg info pod rec p)))"

lemma record_audit_cases: "record_audit b ev tr = tr \<or> record_audit b ev tr = tr @ [ActAudit ev]"
  by (simp add: record_audit_def)

lemma apply_rec_SomeD:
  assumes "apply_rec env cfg ids nodeName info podsOnNode rec tr = Some tr'"
  shows "\<exists>new. tr' = tr @ new \<and> (\<forall>a \<in> set new. caused_by env cfg ids info podsOnNode rec a)"
proof (cases "rec_workload_key rec \<notin> ids \<or>
    podsOnNode (GetPodKey (pi_Namespace (pr_PodInfo rec)) (pi_Name (pr_PodInfo rec))) = None")
  case True
  then have "tr' = tr" using assms by (auto simp: apply_rec_def split: if_splits)
  then show ?thesis by simp
next
  case False
  then obtain pod where ids: "rec_workload_key rec \<in> ids"
    and pod: "podsOnNode (GetPodKey (pi_Namespace (pr_PodInfo rec)) (pi_Name (pr_PodInfo rec))) = Some pod"
    by auto
  have aud: "caused_by env cfg ids info podsOnNode rec (ActAudit ev)" for ev
    using ids pod by (simp add: caused_by_def)
  show ?thesis
  proof (cases "ToBeEvicted rec")
    case True
    obtain r t where ev: "EvictPod (en_reply env) pod tr = (r, t)" by fastforce
    then have t: "t = tr @ [ActEvict (p_Namespace pod) (p_Name pod)]" by (metis EvictPod_trace snd_conv)
    have "tr' = t \<or> (\<exists>e. tr' = t @ [ActAudit e])"
      using assms ids pod True ev record_audit_cases
      by (cases r) (auto simp: apply_rec_def record_audit_def split: if_splits)
    moreover have "caused_by env cfg ids info podsOnNode rec (ActEvict (p_Namespace pod) (p_Name pod))"
      using ids pod True by (simp add: caused_by_def)
    ultimately show ?thesis using t aud by auto
  next
    case False
    let ?cur = "current_container_resources pod (pr_ContainerName rec)"
    obtain c m cl ml where v: "ComputeRecommendedResourceValues rec (nr_AllocatableCPU info) = (c, m, cl, ml)"
      by (metis prod_cases4)
    obtain c' m' cl' ml' where v': "ComputeRecommendedResourceValues rec (lit 0) = (c', m', cl', ml')"
      by (metis prod_cases4)
    obtain cpu t1 where c1: "applyCPURecommendation (en_reply env) pod ?cur rec (nr_AllocatableCPU info) tr
        = Some (cpu, t1)"
      using assms ids pod False by (auto simp: apply_rec_def Let_def bind_eq_Some_conv)
    obtain new1 where n1: "t1 = tr @ new1" "\<forall>a \<in> set new1. caused_by env cfg ids info podsOnNode rec a"
      using applyCPU_SomeD [OF c1 v] ids pod False v
      by (auto simp: caused_by_def resize_for_def)
    obtain t2 where t2: "t2 = t1 \<or> (\<exists>e. t2 = t1 @ [ActAudit e])"
      and rest: "(if \<not> ap_DisableMemoryApplication cfg \<and> \<not> ap_SkipMemory cfg
         then do { ((applied, _, _), tr) \<leftarrow> applyMemoryRecommendation (en_reply env) pod ?cur rec
                     (en_supportsMemoryReduction env) t2;
                   Some (if applied
                         then record_audit (en_recorder env) (memory_event nodeName ?cur rec) tr
                         else tr) }
         else Some t2) = Some tr'"
      using assms ids pod False c1 by (auto simp: apply_rec_def Let_def record_audit_def split: if_splits)
    have n2: "\<exists>new. t2 = tr @ new \<and> (\<forall>a \<in> set new. caused_by env cfg ids info podsOnNode rec a)"
      using t2 n1 aud by auto
    show ?thesis
    proof (cases "\<not> ap_DisableMemoryApplication cfg \<and> \<not> ap_SkipMemory cfg")
      case mem: True
      obtain res t3 where m1: "applyMemoryRecommendation (en_reply env) pod ?cur rec
          (en_supportsMemoryReduction env) t2 = Some (res, t3)"
        and t3: "tr' = t3 \<or> (\<exists>e. tr' = t3 @ [ActAudit e])"
        using rest mem by (auto simp: bind_eq_Some_conv record_audit_def split: if_splits)
      have "t3 = t2 \<or> (\<exists>p. t3 = t2 @ [ActResize p] \<and> caused_by env cfg ids info podsOnNode rec (ActResize p))"
        using applyMemory_SomeD [OF m1 v'] ids pod False v' mem
        by (auto simp: caused_by_def resize_for_def memory_limit_of_def)
      then show ?thesis using t3 n2 aud by auto
    qed (use rest n2 in auto)
  qed
qed

lemma apply_recs_SomeD:
  "apply_recs env cfg ids nodeName info pods recs tr = Some tr' \<Longrightarrow>
     \<exists>new. tr' = tr @ new \<and> (\<forall>a \<in> set new. \<exists>rec \<in> set recs. caused_by env cfg ids info pods rec a)"
proof (induction recs arbitrary: tr)
  case (Cons rec recs)
  then obtain t where t: "apply_rec env cfg ids nodeName info pods rec tr = Some t"
    "apply_recs env cfg ids nodeName info pods recs t = Some tr'" by (auto simp: bind_eq_Some_conv)
  obtain n1 where n1: "t = tr @ n1" "\<forall>a \<in> set n1. caused_by env cfg ids info pods rec a"
    using apply_rec_SomeD [OF t(1)] by blast
  obtain n2 where n2: "tr' = t @ n2" "\<forall>a \<in> set n2. \<exists>r \<in> set recs. caused_by env cfg ids info pods r a"
    using Cons.IH [OF t(2)] by blast
  show ?case using n1 n2 by (intro exI [of _ "n1 @ n2"]) auto
qed simp

lemma apply_nodes_SomeD:
  "apply_nodes env cfg ids gen results tr = Some tr' \<Longrightarrow>
     \<exists>new. tr' = tr @ new \<and> (gen \<longrightarrow> new = []) \<and>
       (\<forall>a \<in> set new. \<exists>res \<in> set results. \<exists>pods. getFreshPodsOnNode env (rr_NodeName res) = Inr pods \<and>
          (\<exists>rec \<in> set (rr_PodContainerRecommendations res).
             caused_by env cfg ids (rr_NodeInfo res) pods rec a))"
proof (induction results arbitrary: tr)
  case (Cons res rest)
  show ?case
  proof (cases "gen \<or> (\<exists>e. getFreshPodsOnNode env (rr_NodeName res) = Inl e)")
    case True
    then have "apply_nodes env cfg ids gen rest tr = Some tr'" using Cons.prems by (auto split: if_splits)
    from Cons.IH [OF this] obtain new where "tr' = tr @ new" "gen \<longrightarrow> new = []"
      "\<forall>a \<in> set new. \<exists>res \<in> set rest. \<exists>pods. getFreshPodsOnNode env (rr_NodeName res) = Inr pods \<and>
          (\<exists>rec \<in> set (rr_PodContainerRecommendations res).
             caused_by env cfg ids (rr_NodeInfo res) pods rec a)" by blast
    then show ?thesis by (intro exI [of _ new]) auto
  next
    case False
    then obtain pods where p: "getFreshPodsOnNode env (rr_NodeName res) = Inr pods"
      by (cases "getFreshPodsOnNode env (rr_NodeName res)") auto
    obtain t where t: "apply_recs env cfg ids (rr_NodeName res) (rr_NodeInfo res) pods
        (rr_PodContainerRecommendations res) tr = Some t" "apply_nodes env cfg ids gen rest t = Some tr'"
      using Cons.prems False p by (auto simp: bind_eq_Some_conv)
    obtain n1 where n1: "t = tr @ n1" "\<forall>a \<in> set n1. \<exists>rec \<in> set (rr_PodContainerRecommendations res).
        caused_by env cfg ids (rr_NodeInfo res) pods rec a"
      using apply_recs_SomeD [OF t(1)] by blast
    obtain n2 where n2: "tr' = t @ n2" "\<forall>a \<in> set n2. \<exists>res \<in> set rest. \<exists>pods.
        getFreshPodsOnNode env (rr_NodeName res) = Inr pods \<and>
          (\<exists>rec \<in> set (rr_PodContainerRecommendations res).
             caused_by env cfg ids (rr_NodeInfo res) pods rec a)"
      using Cons.IH [OF t(2)] by blast
    show ?thesis using n1 n2 p False by (intro exI [of _ "n1 @ n2"]) auto
  qed
qed simp

section \<open>What a whole run can cause\<close>

lemma all_node_results_SomeD:
  "all_node_results now srt cfg ov nodes = Some (saves, apps) \<Longrightarrow> res \<in> set apps \<Longrightarrow>
     \<exists>n \<in> set nodes. \<exists>s. node_results now srt cfg ov n = Some (s, res)"
proof (induction nodes arbitrary: saves apps)
  case (Cons n ns)
  then show ?case by (fastforce simp: bind_eq_Some_conv)
qed simp

lemma optimizable_workload_ids_SomeD:
  "optimizable_workload_ids results = Some ids \<Longrightarrow> i \<in> ids \<Longrightarrow>
     \<exists>res \<in> set results. \<exists>p \<in> set (rr_OptimizablePods res). \<exists>st.
       pi_Stats p = Some st \<and> ws_WorkloadIdentifier st = i"
  by (fastforce simp: optimizable_workload_ids_def list_all_iff split: if_splits)

lemma run_SomeE:
  assumes "ApplyRecommendationsWithStrategy now srt env save cfg nodes ov gen = Some (Inr (toApply, toSave), tr)"
  obtains ids where
    "all_node_results now srt cfg ov nodes = Some (toSave, toApply)"
    "optimizable_workload_ids toApply = Some ids"
    "gen \<longrightarrow> tr = []"
    "\<And>a. a \<in> set tr \<Longrightarrow> \<exists>res \<in> set toApply. \<exists>pods. getFreshPodsOnNode env (rr_NodeName res) = Inr pods \<and>
       (\<exists>rec \<in> set (rr_PodContainerRecommendations res). caused_by env cfg ids (rr_NodeInfo res) pods rec a)"
proof -
  obtain ids where r: "all_node_results now srt cfg ov nodes = Some (toSave, toApply)"
    "optimizable_workload_ids toApply = Some ids" "apply_nodes env cfg ids gen toApply [] = Some tr"
    using assms by (auto simp: ApplyRecommendationsWithStrategy_def bind_eq_Some_conv split: option.splits)
  from apply_nodes_SomeD [OF r(3)] show thesis using that [OF r(1,2)] by auto
qed

section \<open>Numeric soundness of a run\<close>

text \<open>Pods whose resources and statistics are finite and not negative.\<close>

definition values_ok :: "PodInfo \<Rightarrow> bool" where
  "values_ok p \<longleftrightarrow>
     list_all (\<lambda>r. finite_nonneg (cr_CPURequest r) \<and> finite_nonneg (cr_MemoryRequest r)) (pi_ContainerResources p) \<and>
     (case pi_Stats p of None \<Rightarrow> True
      | Some st \<Rightarrow> list_all (\<lambda>cs. finite_cs cs \<and>
          (case cs_Memory7Day cs of None \<Rightarrow> True | Some m \<Rightarrow> \<not> is_nan (m7_Max m))) (ws_ContainerStats st))"

definition rec_ok :: "PodContainerRecommendation \<Rightarrow> bool" where
  "rec_ok rec \<longleftrightarrow> \<not> is_nan (pr_CPU rec) \<and> \<not> is_nan (pr_Memory rec) \<and> memory_signals_ok rec"

lemma values_ok_signals: "values_ok (pr_PodInfo rec) \<Longrightarrow> memory_signals_ok rec"
  by (auto simp: values_ok_def memory_signals_ok_def GetContainerStats_def list_all_iff find_Some_iff
      split: option.splits)

lemma values_ok_finite: "values_ok p \<Longrightarrow> pi_Stats p \<noteq> None \<Longrightarrow> finite_pod p"
  by (auto simp: values_ok_def finite_pod_def list_all_iff split: option.splits)

lemma default_recs_ok:
  "\<forall>p \<in> set ps. values_ok p \<Longrightarrow> rec \<in> set (default_recs ps) \<Longrightarrow> rec_ok rec"
proof -
  assume ok: "\<forall>p \<in> set ps. values_ok p" and r: "rec \<in> set (default_recs ps)"
  then obtain p c where "p \<in> set ps" "c \<in> set (pi_ContainerResources p)" "pr_PodInfo rec = p"
    "pr_CPU rec = cr_CPURequest c" "pr_Memory rec = cr_MemoryRequest c"
    by (auto simp: default_recs_def)
  then show "rec_ok rec" using ok values_ok_signals [of rec] finite_nonneg_nan
    by (auto simp: rec_ok_def values_ok_def list_all_iff)
qed

lemma excluded_container_recs_ok:
  "excluded_container_recs p st cs = Some rs \<Longrightarrow> values_ok p \<Longrightarrow> pi_Stats p = Some st \<Longrightarrow>
     rec \<in> set rs \<Longrightarrow> rec_ok rec"
proof (induction cs arbitrary: rs)
  case (Cons c cs)
  show ?case
  proof (cases "GetContainerStats st (cr_Name c)")
    case None
    then show ?thesis using Cons by simp
  next
    case (Some k)
    then obtain bc rc bm rm rs' where g: "GetRecommendedAndRestCPU k = Some (bc, rc)"
      "GetRecommendedAndRestMemory k = Some (bm, rm)" "excluded_container_recs p st cs = Some rs'"
      and rs: "rs = \<lparr>pr_PodInfo = p, pr_ContainerName = cr_Name c, pr_CPU = fadd bc rc,
                  pr_Memory = fadd bm rm, pr_Evict = False\<rparr> # rs'"
      using Cons.prems(1) by (auto simp: bind_eq_Some_conv)
    have "finite_cs k" using Some Cons.prems(2,3)
      by (auto simp: values_ok_def list_all_iff GetContainerStats_def find_Some_iff)
    then have "\<not> is_nan (fadd bc rc)" "\<not> is_nan (fadd bm rm)"
      using base_rest_cpu_finite [OF g(1)] base_rest_memory_finite [OF g(2)] nonneg_fadd_nan
      by (auto simp: finite_nonneg_def)
    moreover have "memory_signals_ok r" if "pr_PodInfo r = p" for r
      using values_ok_signals Cons.prems(2) that by blast
    ultimately show ?thesis
      using Cons.IH [OF g(3) Cons.prems(2,3)] Cons.prems(4) rs by (auto simp: rec_ok_def)
  qed
qed simp

lemma excluded_recs_ok:
  "excluded_recs ps = Some rs \<Longrightarrow> \<forall>p \<in> set ps. values_ok p \<Longrightarrow> rec \<in> set rs \<Longrightarrow> rec_ok rec"
proof (induction ps arbitrary: rs)
  case (Cons p ps)
  then show ?case
    using excluded_container_recs_ok [of p _ "pi_ContainerResources p" _ rec]
    by (auto simp: bind_eq_Some_conv split: if_splits)
qed simp

lemma recs_of_pod_ok:
  assumes "rec \<in> set (recs_of_pod p)" "values_ok p" shows "rec_ok rec"
proof -
  obtain st rs where st: "pi_Stats p = Some st" and rs: "evict_recs p (ws_ContainerStats st) = Some rs"
    and r: "rec \<in> set rs"
    using assms(1) by (cases "do { stats \<leftarrow> pi_Stats p; evict_recs p (ws_ContainerStats stats) }")
      (auto simp: recs_of_pod_def bind_eq_Some_conv)
  have "\<not> is_nan (pr_CPU rec) \<and> \<not> is_nan (pr_Memory rec)"
    if "evict_recs p css = Some rs" "rec \<in> set rs" "list_all finite_cs css" for css
    using that
  proof (induction css arbitrary: rs)
    case (Cons cs css)
    show ?case
    proof (cases "cs_ContainerType cs = InitContainer")
      case False
      then obtain cpu mem rs' where g: "getPredictedCPUMax cs = Some cpu" "getPredictedMemoryMax cs = Some mem"
        "evict_recs p css = Some rs'" and rs: "rs = \<lparr>pr_PodInfo = p, pr_ContainerName = cs_ContainerName cs,
          pr_CPU = cpu, pr_Memory = mem, pr_Evict = True\<rparr> # rs'"
        using Cons.prems(1) by (auto simp: bind_eq_Some_conv)
      have "\<not> is_nan cpu" "\<not> is_nan mem"
        using g(1,2) Cons.prems(3) finite_nonneg_nan
        by (auto simp: getPredictedCPUMax_def getPredictedMemoryMax_def recommended_cpu_base_def
            bind_eq_Some_conv finite_cs_def gomax_nan split: option.splits)
      then show ?thesis using Cons.IH [OF g(3)] Cons.prems(2,3) rs by auto
    qed (use Cons in simp)
  qed simp
  moreover have "list_all finite_cs (ws_ContainerStats st)"
    using assms(2) st by (simp add: values_ok_def list_all_iff)
  moreover have "pr_PodInfo rec = p" using recs_of_pod_mem [OF assms(1)] by simp
  ultimately show ?thesis using rs r values_ok_signals [of rec] assms(2) by (auto simp: rec_ok_def)
qed

lemma OptimizeNode_recs_ok:
  assumes "OptimizeNode srt ov data = Some res" "go_sort srt"
    and "\<forall>p \<in> set (nd_PodInfos data). values_ok p \<and> pi_Stats p \<noteq> None"
    and "rec \<in> set (op_PodContainerRecommendations res)"
  shows "rec_ok rec"
proof -
  have fin: "\<forall>p \<in> set (nd_PodInfos data). finite_pod p" using assms(3) values_ok_finite by blast
  obtain ev kept ms where
    split: "mset (nd_PodInfos data) = mset ev + mset kept"
    and recs: "op_PodContainerRecommendations res = concat (map recs_of_pod ev) @ distribute ms"
    and ms: "collect_metrics kept = Some ms"
    using OptimizeNode_SomeE [OF assms(1,2)] by metis
  have sub: "set ev \<subseteq> set (nd_PodInfos data)" "set kept \<subseteq> set (nd_PodInfos data)"
    using split by (metis Un_upper1 Un_upper2 set_mset_mset set_mset_union)+
  show ?thesis
  proof (cases "rec \<in> set (distribute ms)")
    case False
    then show ?thesis using recs assms(3,4) recs_of_pod_ok sub(1) by auto
  next
    case True
    then obtain m where m: "m \<in> set ms" "pr_PodInfo rec = cm_pod m"
      "pr_CPU rec = fadd (cm_recommendedCPU m) (additional (total_of cm_recommendedCPU ms)
         (total_of cm_restCPU ms) (max_of cm_restCPU ms) (cm_restCPU m))"
      "pr_Memory rec = fadd (cm_recommendedMemory m) (additional (total_of cm_recommendedMemory ms)
         (total_of cm_restMemory ms) (max_of cm_restMemory ms) (cm_restMemory m))"
      by (auto simp: distribute_def)
    have fk: "\<forall>p \<in> set kept. finite_pod p" using fin sub(2) by blast
    note f = collect_metrics_finite [OF ms fk]
    have fr: "\<forall>m \<in> set ms. finite_nonneg (cm_restCPU m)" "\<forall>m \<in> set ms. finite_nonneg (cm_restMemory m)"
      using f by simp_all
    have "\<not> is_nan (pr_CPU rec)" "\<not> is_nan (pr_Memory rec)"
      unfolding m(3,4)
      using fle_nan(2) [OF share_fadd(1) [OF fr(1) m(1) f(3) [OF m(1)]]]
        fle_nan(2) [OF share_fadd(1) [OF fr(2) m(1) f(4) [OF m(1)]]] by blast+
    moreover have "values_ok (pr_PodInfo rec)"
    proof -
      obtain p cs r where p: "p \<in> set kept" "container_metric p cs r = Some m"
        using collect_metrics_SomeD [OF ms m(1)] by auto
      have "cm_pod m = p" by (rule container_metric_SomeD [OF p(2)])
      then show ?thesis using p(1) m(2) sub(2) assms(3) by auto
    qed
    ultimately show ?thesis using values_ok_signals by (simp add: rec_ok_def)
  qed
qed

lemma node_results_ok:
  assumes "node_results now srt cfg ov (name, info) = Some (s, a)" "go_sort srt"
    and "\<forall>p \<in> set (nr_Pods info). values_ok p"
    and "rec \<in> set (rr_PodContainerRecommendations a)"
  shows "rec_ok rec \<and> rr_NodeInfo a = info"
  using assms(1)
proof (cases rule: node_results_SomeE)
  case (1 excl resA)
  then obtain cpu mem where o: "OptimizeNode srt ov \<lparr>nd_NodeName = name, nd_AllocatableCPU = cpu,
       nd_AllocatableMemory = mem, nd_PodInfos = filter (applies now cfg ov) (nr_Pods info)\<rparr> = Some resA"
    by blast
  have st: "pi_Stats p \<noteq> None" if "applies now cfg ov p" for p
    using that applies_generates generates_stats by fastforce
  have "rec_ok rec" if "rec \<in> set (op_PodContainerRecommendations resA)"
    using OptimizeNode_recs_ok [OF o assms(2) _ that] st assms(3) by auto
  moreover have "rec_ok rec" if "rec \<in> set excl"
    using excluded_recs_ok [OF 1(4) _ that] assms(3) by simp
  moreover have "rec_ok rec"
    if "rec \<in> set (default_recs (filter (\<lambda>p. \<not> generates now cfg p) (nr_Pods info)))"
    using default_recs_ok [OF _ that] assms(3) by simp
  ultimately show ?thesis using assms(4) 1(2,6) by auto
qed

section \<open>Targets of a run\<close>

lemma fresh_pod_lookup:
  assumes "getFreshPodsOnNode env node = Inr m" "m k = Some pod"
  shows "k = GetPodKey (p_Namespace pod) (p_Name pod)"
    "\<exists>pods. en_podsOnNode env node = Inr pods \<and> pod \<in> set pods"
proof -
  obtain pods where p: "en_podsOnNode env node = Inr pods"
    and m: "m = fold (\<lambda>pod m. m(GetPodKey (p_Namespace pod) (p_Name pod) \<mapsto> pod)) pods Map.empty"
    using assms(1) by (auto simp: getFreshPodsOnNode_def split: sum.splits)
  have "\<And>m0. fold (\<lambda>pod m. m(GetPodKey (p_Namespace pod) (p_Name pod) \<mapsto> pod)) pods m0 k = Some pod \<Longrightarrow>
      m0 k = Some pod \<or> k = GetPodKey (p_Namespace pod) (p_Name pod) \<and> pod \<in> set pods"
    by (induction pods) (fastforce split: if_splits)+
  then show "k = GetPodKey (p_Namespace pod) (p_Name pod)"
    "\<exists>pods. en_podsOnNode env node = Inr pods \<and> pod \<in> set pods"
    using assms(2) p unfolding m by fastforce+
qed

text \<open>A write to a pod comes from a recommendation of a workload one of whose pods is optimizable.\<close>

lemma run_action_cause:
  assumes "ApplyRecommendationsWithStrategy now srt env save cfg nodes ov gen = Some (Inr (toApply, toSave), tr)"
    and "a \<in> set tr"
  obtains name info s res pods rec name' info' opt st ids where
    "(name, info) \<in> set nodes" "node_results now srt cfg ov (name, info) = Some (s, res)"
    "rec \<in> set (rr_PodContainerRecommendations res)"
    "getFreshPodsOnNode env name = Inr pods" "caused_by env cfg ids info pods rec a"
    "(name', info') \<in> set nodes" "opt \<in> set (nr_Pods info')" "applies now cfg ov opt"
    "pi_Stats opt = Some st" "ws_WorkloadIdentifier st = rec_workload_key rec"
proof -
  obtain ids where r: "all_node_results now srt cfg ov nodes = Some (toSave, toApply)"
    "optimizable_workload_ids toApply = Some ids"
    and c: "\<And>a. a \<in> set tr \<Longrightarrow> \<exists>res \<in> set toApply. \<exists>pods. getFreshPodsOnNode env (rr_NodeName res) = Inr pods \<and>
       (\<exists>rec \<in> set (rr_PodContainerRecommendations res). caused_by env cfg ids (rr_NodeInfo res) pods rec a)"
    using run_SomeE [OF assms(1)] by blast
  obtain res pods rec where a: "res \<in> set toApply" "getFreshPodsOnNode env (rr_NodeName res) = Inr pods"
    "rec \<in> set (rr_PodContainerRecommendations res)" "caused_by env cfg ids (rr_NodeInfo res) pods rec a"
    using c [OF assms(2)] by blast
  obtain name info s where n: "(name, info) \<in> set nodes" "node_results now srt cfg ov (name, info) = Some (s, res)"
    using all_node_results_SomeD [OF r(1) a(1)] by auto
  have ni: "rr_NodeName res = name" "rr_NodeInfo res = info"
    using n(2) by (auto elim: node_results_SomeE)
  have "rec_workload_key rec \<in> ids" using a(4) by (simp add: caused_by_def)
  then obtain res' opt st where o: "res' \<in> set toApply" "opt \<in> set (rr_OptimizablePods res')"
    "pi_Stats opt = Some st" "ws_WorkloadIdentifier st = rec_workload_key rec"
    using optimizable_workload_ids_SomeD [OF r(2)] by blast
  obtain name' info' s' where n': "(name', info') \<in> set nodes"
    "node_results now srt cfg ov (name', info') = Some (s', res')"
    using all_node_results_SomeD [OF r(1) o(1)] by auto
  have "rr_OptimizablePods res' = filter (applies now cfg ov) (nr_Pods info')"
    using n'(2) by (auto elim: node_results_SomeE)
  then show thesis using that n a ni n' o by auto
qed

section \<open>A sample run\<close>

definition sample_config :: ApplyConfig where
  "sample_config = \<lparr>ap_ClusterID = ''c'', ap_TargetNamespace = '''', ap_OptimizeGuaranteedPods = False,
     ap_DisableMemoryApplication = False, ap_NewWorkloadThresholdHours = 0, ap_SkipMemory = False\<rparr>"

definition sample_overrides :: overrides_map where
  "sample_overrides = [GetWorkloadKey ''Deployment'' ''ns'' ''web'' \<mapsto>
     \<lparr>oi_WorkloadID = GetWorkloadKey ''Deployment'' ''ns'' ''web'', oi_Name = ''web'', oi_Namespace = ''ns'',
      oi_Kind = ''Deployment'', oi_Overrides = Some \<lparr>oe_EvictionRanking = EvictionRankingHigh,
        oe_Enabled = True, oe_DisruptionWindows = []\<rparr>\<rparr>]"

definition sample_quantity :: "int \<Rightarrow> int \<Rightarrow> quantity" where
  "sample_quantity v m = \<lparr>q_Value = v, q_MilliValue = m, q_IsZero = False, q_Amount = of_int m / 1000\<rparr>"

definition sample_pod :: Pod where
  "sample_pod =
     \<lparr>p_Namespace = ''ns'', p_Name = ''web'', p_GenerateName = '''', p_Kind = ''Pod'', p_Labels = Map.empty,
      p_Annotations = Map.empty, p_OwnerReferences = [], p_NodeName = ''node-1'', p_Phase = ''Running'',
      p_Containers = [\<lparr>c_Name = ''app'', c_Requests = Some [(''cpu'', sample_quantity 3 3000),
          (''memory'', sample_quantity 300000000 300000000000)],
        c_Limits = Some [(''memory'', sample_quantity 500000000 500000000000)], c_RestartPolicy = None\<rparr>],
      p_InitContainers = [], p_ContainerStatuses = [], p_InitContainerStatuses = []\<rparr>"

definition sample_env :: ApplyEnv where
  "sample_env = \<lparr>en_reply = (\<lambda>tr a. None), en_recorder = False, en_oob = (\<lambda>x. 0),
     en_podsOnNode = (\<lambda>n. Inr [sample_pod]), en_supportsMemoryReduction = False\<rparr>"

definition sample_node_info :: NodeResourceInfo where
  "sample_node_info = \<lparr>nr_AllocatableCPU = lit 8, nr_AllocatableMemory = lit 8000, nr_RequestedCPU = lit 3,
     nr_RequestedMemory = lit 300, nr_Pods = [sample_web]\<rparr>"

definition sample_cpu_patch :: resize_patch where
  "sample_cpu_patch = \<lparr>rp_Namespace = ''ns'', rp_Pod = ''web'', rp_Container = ''app'', rp_Resource = ''cpu'',
     rp_Request = \<lparr>pq_Format = ''%.3f'', pq_Amount = lit 2\<rparr>, rp_Limit = None\<rparr>"

definition sample_memory_patch :: resize_patch where
  "sample_memory_patch = \<lparr>rp_Namespace = ''ns'', rp_Pod = ''web'', rp_Container = ''app'', rp_Resource = ''memory'',
     rp_Request = \<lparr>pq_Format = ''%.0fM'', pq_Amount = lit 200\<rparr>,
     rp_Limit = Some \<lparr>pq_Format = ''%.0fM'', pq_Amount = lit 500\<rparr>\<rparr>"

lemma sample_applies: "applies 0 sample_config sample_overrides sample_web"
  by (simp add: applies_def sample_fields ShouldApply_iff ShouldGenerate_iff segregate_input_def
      sample_config_def sample_overrides_def info_EffectiveEnabled_def IsBestEffortPod_def
      IsIncomplete_def IsGuaranteedPod_def sample_defs Hour_def f64_eval)

definition sample_single_cache :: metrics_cache where
  "sample_single_cache = [GetPodKey ''ns'' ''web'' \<mapsto> \<lparr>pm_TotalRecommendedCPU = lit 1,
     pm_TotalRecommendedMemory = lit 100, pm_MaxRestCPU = lit 1, pm_MaxRestMemory = lit 100,
     pm_EvictionRanking = EvictionRankingHigh\<rparr>]"

lemma sample_single_node:
  "OptimizeNode insertion_sort sample_overrides \<lparr>nd_NodeName = ''node-1'', nd_AllocatableCPU = lit 8,
     nd_AllocatableMemory = lit 8000, nd_PodInfos = [sample_web]\<rparr> =
   Some \<lparr>op_PodContainerRecommendations = [sample_keep_rec], op_MaxRestCPU = lit 1, op_MaxRestMemory = lit 100\<rparr>"
proof -
  have m: "pod_metrics sample_overrides sample_web =
      Some \<lparr>pm_TotalRecommendedCPU = lit 1, pm_TotalRecommendedMemory = lit 100,
          pm_MaxRestCPU = lit 1, pm_MaxRestMemory = lit 100, pm_EvictionRanking = EvictionRankingHigh\<rparr>"
    by (simp add: pod_metrics_def sample_defs base_rest_eval f64_eval AppContainer_def InitContainer_def
        DaemonSetKind_def eviction_ranking_of_def sample_overrides_def info_EffectiveEvictionRanking_def
        EvictionRanking_defs)
  have mo: "metrics_of sample_single_cache sample_web = \<lparr>pm_TotalRecommendedCPU = lit 1,
      pm_TotalRecommendedMemory = lit 100, pm_MaxRestCPU = lit 1, pm_MaxRestMemory = lit 100,
      pm_EvictionRanking = EvictionRankingHigh\<rparr>"
    by (simp add: metrics_of_def sample_fields sample_single_cache_def)
  have c: "metrics_cache_loop sample_overrides [sample_web] Map.empty = Some sample_single_cache"
    by (simp add: m sample_fields sample_single_cache_def)
  have s: "insertion_sort f [sample_web] = [sample_web]" for f by (simp add: insertion_sort_def)
  have l: "performEvictionLoop [sample_web] sample_single_cache (lit 8000) pm_TotalRecommendedMemory
      pm_MaxRestMemory [] = Some ([sample_web], [])"
    "performEvictionLoop [sample_web] sample_single_cache (lit 8) pm_TotalRecommendedCPU
      pm_MaxRestCPU [] = Some ([sample_web], [])"
    by (simp_all add: performEvictionLoop_def eviction_loop.simps fits_def mo f64_eval)
  obtain ms where ms: "collect_metrics [sample_web] = Some ms" "distribute ms = [sample_keep_rec]"
      "max_of cm_restCPU ms = lit 1" "max_of cm_restMemory ms = lit 100"
    by (simp add: sample_defs sample_keep_rec_def base_rest_eval f64_eval AppContainer_def
        InitContainer_def DaemonSetKind_def GetContainerResource_def container_metric_def
        distribute_def additional_def total_of_def max_of_def)
  show ?thesis
    unfolding OptimizeNode_def
    by (simp add: c s l ms del: metrics_cache_loop.simps collect_metrics.simps)
qed

lemma sample_values:
  "ComputeRecommendedResourceValues sample_keep_rec a =
     (lit 2, lit 200, (if flt (lit 0) (round_milli a) then gomax (round_milli a) (lit 2) else round_milli a), lit 400)"
  by (simp add: compute_eval sample_keep_rec_def sample_defs f64_eval)

lemma sample_cpu_step:
  "applyCPURecommendation (\<lambda>tr a. None) sample_pod (current_container_resources sample_pod ''app'')
     sample_keep_rec (lit 8) [] = Some (Inr True, [ActResize sample_cpu_patch])"
proof -
  have g: "GetContainerResource (pr_PodInfo sample_keep_rec) (pr_ContainerName sample_keep_rec) =
      Some \<lparr>cr_Name = ''app'', cr_CPURequest = lit 3, cr_CPULimit = lit 0,
        cr_MemoryRequest = lit 300, cr_MemoryLimit = lit 0\<rparr>"
    by (simp add: sample_keep_rec_def sample_defs GetContainerResource_def)
  have n: "pr_ContainerName sample_keep_rec = ''app''" by (simp add: sample_keep_rec_def)
  show ?thesis
    unfolding applyCPURecommendation_def g sample_values
    by (simp add: n current_container_resources_def sample_pod_def rl_get_def rl_val_def ResourceCPU_def
        cores_def sample_quantity_def zero_quantity_def f64_eval MinimumCPURecommendation_def Let_def
        UpdatePodCPUResources_def updatePodResources_def MustParse_def sample_cpu_patch_def)
qed

lemma sample_memory_step:
  "applyMemoryRecommendation (\<lambda>tr a. None) sample_pod (current_container_resources sample_pod ''app'')
     sample_keep_rec False tr = Some ((True, False, None), tr @ [ActResize sample_memory_patch])"
proof -
  have g: "GetContainerResource (pr_PodInfo sample_keep_rec) (pr_ContainerName sample_keep_rec) =
      Some \<lparr>cr_Name = ''app'', cr_CPURequest = lit 3, cr_CPULimit = lit 0,
        cr_MemoryRequest = lit 300, cr_MemoryLimit = lit 0\<rparr>"
    by (simp add: sample_keep_rec_def sample_defs GetContainerResource_def)
  have n: "pr_ContainerName sample_keep_rec = ''app''" by (simp add: sample_keep_rec_def)
  have c: "mathCeil (lit 500) = lit 500" by (simp add: f64_eval)
  show ?thesis
    unfolding applyMemoryRecommendation_def g sample_values
    by (simp add: n c current_container_resources_def sample_pod_def rl_get_def rl_val_def ResourceMemory_def
        megabytes_def sample_quantity_def zero_quantity_def f64_eval MinimumMemoryRecommendation_def Let_def
        UpdatePodMemoryResources_def updatePodResources_def MustParse_def sample_memory_patch_def)
qed

lemma sample_apply_run:
  "\<exists>a s. ApplyRecommendationsWithStrategy 0 insertion_sort sample_env (\<lambda>rows. None) sample_config
     [(''node-1'', sample_node_info)] sample_overrides False =
   Some (Inr (a, s), [ActResize sample_cpu_patch, ActResize sample_memory_patch])"
proof -
  have seg: "segregateOptimizableNonOptimizablePods 0 sample_config [sample_web] sample_overrides = ([sample_web], [], [])"
    using applies_generates [OF sample_applies] by (simp add: segregate_eq sample_applies)
  obtain s a where nr: "node_results 0 insertion_sort sample_config sample_overrides (''node-1'', sample_node_info) = Some (s, a)"
    and a: "rr_PodContainerRecommendations a = [sample_keep_rec]" "rr_OptimizablePods a = [sample_web]"
      "rr_NodeName a = ''node-1''" "rr_NodeInfo a = sample_node_info"
    by (simp add: node_results_def sample_node_info_def seg reduce_available_def default_recs_def
        sample_single_node Let_def)
  have ids: "optimizable_workload_ids [a] = Some {GetWorkloadKey ''Deployment'' ''ns'' ''web''}"
    by (simp add: optimizable_workload_ids_def a sample_defs)
  have k: "rec_workload_key sample_keep_rec = GetWorkloadKey ''Deployment'' ''ns'' ''web''"
    by (simp add: rec_workload_key_def sample_keep_rec_def sample_defs)
  have f: "getFreshPodsOnNode sample_env ''node-1'' = Inr [GetPodKey ''ns'' ''web'' \<mapsto> sample_pod]"
    by (simp add: getFreshPodsOnNode_def sample_env_def sample_pod_def)
  have ev: "\<not> ToBeEvicted sample_keep_rec"
    by (simp add: ToBeEvicted_def sample_keep_rec_def sample_defs IsGuaranteedPod_def f64_eval)
  have pn: "pi_Namespace (pr_PodInfo sample_keep_rec) = ''ns''" "pi_Name (pr_PodInfo sample_keep_rec) = ''web''"
    "pr_ContainerName sample_keep_rec = ''app''"
    by (simp_all add: sample_keep_rec_def sample_fields)
  have al: "nr_AllocatableCPU sample_node_info = lit 8" by (simp add: sample_node_info_def)
  have en: "en_reply sample_env = (\<lambda>tr a. None)" "en_recorder sample_env = False"
      "en_supportsMemoryReduction sample_env = False"
      "ap_DisableMemoryApplication sample_config = False" "ap_SkipMemory sample_config = False"
    by (simp_all add: sample_env_def sample_config_def)
  have "apply_nodes sample_env sample_config {GetWorkloadKey ''Deployment'' ''ns'' ''web''} False [a] [] =
      Some [ActResize sample_cpu_patch, ActResize sample_memory_patch]"
    using sample_cpu_step sample_memory_step [of "[ActResize sample_cpu_patch]"]
    by (simp add: a f apply_rec_def k ev pn al en record_audit_def Let_def)
  then show ?thesis
    by (simp add: ApplyRecommendationsWithStrategy_def nr ids)
qed

section \<open>Properties\<close>

text \<open>The pods of a node are separated completely and in order: optimizable are those with stored,
  complete statistics of a workload old enough and not scaled horizontally that is enabled for
  application, excluded those where only the application is withheld, and the rest is left
  alone.\<close>

lemma pods_separated:
  "segregateOptimizableNonOptimizablePods now cfg pods overridesMap =
     (filter (applies now cfg overridesMap) pods,
      filter (\<lambda>p. generates now cfg p \<and> \<not> applies now cfg overridesMap p) pods,
      filter (\<lambda>p. \<not> generates now cfg p) pods) \<and>
   (\<forall>p. applies now cfg overridesMap p \<longleftrightarrow>
      (\<exists>st. pi_Stats p = Some st \<and> \<not> IsBestEffortPod p \<and> \<not> IsIncomplete st \<and>
         ws_CreationTime st \<le> now + signed_take_bit 63 (- Hour * ap_NewWorkloadThresholdHours cfg) \<and>
         \<not> ws_IsHorizontallyAutoscaledOnCPU st \<and> \<not> ws_IsHorizontallyAutoscaledOnMem st \<and>
         (IsGuaranteedPod p \<longrightarrow> ap_OptimizeGuaranteedPods cfg) \<and>
         info_EffectiveEnabled (overridesMap (ws_WorkloadIdentifier st))))"
  by (auto simp: segregate_eq applies_def ShouldApply_iff ShouldGenerate_iff segregate_input_def
      split: option.splits)

lemma pods_separated_witness:
  "segregateOptimizableNonOptimizablePods 0 sample_config [sample_web] sample_overrides = ([sample_web], [], [])"
  using pods_separated [of 0 sample_config "[sample_web]" sample_overrides] applies_generates [OF sample_applies]
  by (simp add: sample_applies)

text \<open>C1. Every resize a run sends is one Kubernetes accepts: the request of the resource is within the
  limit sent with it, a CPU request is at least one millicore, a memory request at least
  16 MB.\<close>

theorem run_resizes_valid:
  assumes "ApplyRecommendationsWithStrategy now srt env save cfg nodes overridesMap gen = Some (Inr (toApply, toSave), tr)"
    and "go_sort srt"
    and "\<forall>(name, info) \<in> set nodes. fle (lit 0) (nr_AllocatableCPU info) \<and> (\<forall>p \<in> set (nr_Pods info). values_ok p)"
    and "ActResize p \<in> set tr"
  shows "fle (if rp_Resource p = ResourceCPU then lit (1 / 1000) else lit 16) (pq_Amount (rp_Request p)) \<and>
    (case rp_Limit p of None \<Rightarrow> True | Some l \<Rightarrow> fle (pq_Amount (rp_Request p)) (pq_Amount l))"
  using run_action_cause [OF assms(1,4)]
proof cases
  case (1 name info s res pods rec name' info' opt st ids)
  have ok: "rec_ok rec"
    using node_results_ok [OF 1(2) assms(2) _ 1(3)] 1(1) assms(3) by auto
  then have nn: "\<not> is_nan (pr_CPU rec)" "\<not> is_nan (pr_Memory rec)" "memory_signals_ok rec"
    by (auto simp: rec_ok_def)
  obtain pod where r: "resize_for env cfg info pod rec p" using 1(5) by (auto simp: caused_by_def)
  obtain c m cl ml where v: "ComputeRecommendedResourceValues rec (nr_AllocatableCPU info) = (c, m, cl, ml)"
    by (metis prod_cases4)
  obtain c' m' cl' ml' where v': "ComputeRecommendedResourceValues rec (lit 0) = (c', m', cl', ml')"
    by (metis prod_cases4)
  have alloc: "fle (lit 0) (nr_AllocatableCPU info)" using assms(3) 1(1) by auto
  let ?R = "round_milli (nr_AllocatableCPU info)"
  have R: "fle (lit 0) ?R"
    using round_milli_mono [OF alloc] by (simp add: round_milli_def f64_eval)
  have cnn: "\<not> is_nan c" using compute_cpu_bounds(1) [OF v nn(1)] fle_nan(2) by blast
  have cl: "feq cl (lit 0) \<or> flt (lit 0) cl"
  proof (cases "flt (lit 0) ?R")
    case True
    then have "fle ?R (gomax ?R c)" using cnn flt_nan(2) gomax_ge(1) by blast
    then have "flt (lit 0) (gomax ?R c)" using True flt_fle_trans by blast
    then show ?thesis using compute_values(3) [OF v] True by simp
  next
    case False
    then have "feq ?R (lit 0)" using R by (auto simp: fle_def flt_def feq_def)
    then show ?thesis using compute_values(3) [OF v] False by simp
  qed
  show ?thesis
  proof (cases "rp_Resource p = ResourceCPU")
    case True
    then have q: "pq_Amount (rp_Request p) = c"
      "rp_Limit p = None \<or> \<not> feq cl (lit 0) \<and> map_option pq_Amount (rp_Limit p) = Some cl"
      using r v by (auto simp: resize_for_def ResourceCPU_def ResourceMemory_def)
    have "fle c cl" if "\<not> feq cl (lit 0)"
      using compute_cpu_limit [OF v nn(1)] cl that by auto
    then show ?thesis using compute_cpu_bounds(1) [OF v nn(1)] q True by (auto split: option.splits)
  next
    case False
    let ?lm = "memory_limit_of pod (pr_ContainerName rec)"
    have q: "pq_Amount (rp_Request p) = m'"
      "rp_Limit p = None \<or> map_option pq_Amount (rp_Limit p) =
         Some (if \<not> en_supportsMemoryReduction env \<and> flt ml' ?lm then mathCeil ?lm else ml')"
      using r v' False by (auto simp: resize_for_def)
    have le: "fle m' ml'" by (rule compute_memory_bounds(2) [OF v' nn(2,3)])
    have "fle m' (mathCeil ?lm)" if "flt ml' ?lm"
    proof -
      have "\<not> is_nan ?lm" using that flt_nan(2) by blast
      with le that show ?thesis using mathCeil_ge by (meson fle_trans flt_fle)
    qed
    then show ?thesis using compute_memory_bounds(1) [OF v' nn(2)] q False le
      by (auto split: option.splits if_splits)
  qed
qed

lemma run_resizes_valid_witness:
  "fle (lit 16) (pq_Amount (rp_Request sample_memory_patch)) \<and>
   fle (pq_Amount (rp_Request sample_memory_patch)) (lit 500)"
proof -
  obtain a s where run: "ApplyRecommendationsWithStrategy 0 insertion_sort sample_env (\<lambda>rows. None) sample_config
     [(''node-1'', sample_node_info)] sample_overrides False =
     Some (Inr (a, s), [ActResize sample_cpu_patch, ActResize sample_memory_patch])"
    using sample_apply_run by blast
  have ok: "\<forall>(name, info) \<in> set [(''node-1'', sample_node_info)].
      fle (lit 0) (nr_AllocatableCPU info) \<and> (\<forall>p \<in> set (nr_Pods info). values_ok p)"
    by (simp add: sample_node_info_def values_ok_def finite_cs_def finite_nonneg_def sample_defs f64_eval)
  show ?thesis
    using run_resizes_valid [OF run insertion.go_sort_axioms ok, of sample_memory_patch]
    by (simp add: sample_memory_patch_def ResourceCPU_def)
qed

text \<open>A run evicts and resizes only pods that exist on the node when it acts and belong to a
  workload that is enabled for application and has an optimizable pod; in particular a workload
  without an override, or in recommend-only mode, is never touched.\<close>

lemma run_touches_enabled_only:
  assumes "ApplyRecommendationsWithStrategy now srt env save cfg nodes overridesMap gen = Some (Inr (toApply, toSave), tr)"
    and "a \<in> set tr" "\<not> (\<exists>ev. a = ActAudit ev)"
  shows "\<exists>name info pod rec fresh opt st.
    (name, info) \<in> set nodes \<and> en_podsOnNode env name = Inr fresh \<and> pod \<in> set fresh \<and>
    GetPodKey (pi_Namespace (pr_PodInfo rec)) (pi_Name (pr_PodInfo rec)) = GetPodKey (p_Namespace pod) (p_Name pod) \<and>
    (a = ActEvict (p_Namespace pod) (p_Name pod) \<and> ToBeEvicted rec \<or>
     (\<exists>p. a = ActResize p \<and> \<not> ToBeEvicted rec \<and> rp_Namespace p = p_Namespace pod \<and> rp_Pod p = p_Name pod)) \<and>
    opt \<in> \<Union> ((\<lambda>(name, info). set (nr_Pods info)) ` set nodes) \<and>
    applies now cfg overridesMap opt \<and> pi_Stats opt = Some st \<and>
    ws_WorkloadIdentifier st = rec_workload_key rec \<and>
    info_EffectiveEnabled (overridesMap (rec_workload_key rec))"
  using run_action_cause [OF assms(1,2)]
proof cases
  case (1 name info s res pods rec name' info' opt st ids)
  obtain pod where pod: "pods (GetPodKey (pi_Namespace (pr_PodInfo rec)) (pi_Name (pr_PodInfo rec))) = Some pod"
    and act: "a = ActEvict (p_Namespace pod) (p_Name pod) \<and> ToBeEvicted rec \<or>
     (\<exists>p. a = ActResize p \<and> \<not> ToBeEvicted rec \<and> rp_Namespace p = p_Namespace pod \<and> rp_Pod p = p_Name pod)"
    using 1(5) assms(3) by (auto simp: caused_by_def resize_for_def)
  have en: "info_EffectiveEnabled (overridesMap (rec_workload_key rec))"
    using 1(8,9,10) by (auto simp: applies_def ShouldApply_iff)
  have opt: "opt \<in> \<Union> ((\<lambda>(name, info). set (nr_Pods info)) ` set nodes)" using 1(6,7) by auto
  show ?thesis
    using fresh_pod_lookup [OF 1(4) pod] 1(1,8,9,10) act en opt by blast
qed

lemma run_touches_enabled_only_witness:
  "\<exists>name info. (name, info) \<in> set [(''node-1'', sample_node_info)] \<and>
     (\<exists>opt \<in> set (nr_Pods info). applies 0 sample_config sample_overrides opt)"
proof -
  obtain a s where run: "ApplyRecommendationsWithStrategy 0 insertion_sort sample_env (\<lambda>rows. None) sample_config
     [(''node-1'', sample_node_info)] sample_overrides False =
     Some (Inr (a, s), [ActResize sample_cpu_patch, ActResize sample_memory_patch])"
    using sample_apply_run by blast
  show ?thesis
    using run_touches_enabled_only [OF run, of "ActResize sample_cpu_patch"] by auto
qed

text \<open>C3. Memory is left alone when the configuration says so: no memory resize is sent when memory
  application is disabled or skipped, and nothing is sent in recommendation-only mode. On a
  cluster that cannot lower a memory limit in place the limit sent is never below the current
  one, and no memory limit is introduced where there was none.\<close>

theorem run_memory_gates:
  assumes "ApplyRecommendationsWithStrategy now srt env save cfg nodes overridesMap gen = Some (Inr (toApply, toSave), tr)"
    and "ActResize p \<in> set tr" "rp_Resource p = ResourceMemory"
  shows "\<not> gen \<and> \<not> ap_DisableMemoryApplication cfg \<and> \<not> ap_SkipMemory cfg \<and>
    (\<exists>name fresh pod. en_podsOnNode env name = Inr fresh \<and> pod \<in> set fresh \<and>
       p_Namespace pod = rp_Namespace p \<and> p_Name pod = rp_Pod p \<and>
       (\<forall>l. rp_Limit p = Some l \<longrightarrow>
          \<not> feq (memory_limit_of pod (rp_Container p)) (lit 0) \<and>
          (\<not> en_supportsMemoryReduction env \<longrightarrow>
             \<not> flt (pq_Amount l) (memory_limit_of pod (rp_Container p)))))"
  using run_action_cause [OF assms(1,2)]
proof cases
  case (1 name info s res pods rec name' info' opt st ids)
  obtain pod where pod: "pods (GetPodKey (pi_Namespace (pr_PodInfo rec)) (pi_Name (pr_PodInfo rec))) = Some pod"
    and r: "resize_for env cfg info pod rec p"
    using 1(5) by (auto simp: caused_by_def)
  have g: "\<not> gen" using run_SomeE [OF assms(1)] assms(2) by (metis empty_iff list.set(1))
  obtain c m cl ml where v: "ComputeRecommendedResourceValues rec (lit 0) = (c, m, cl, ml)"
    by (metis prod_cases4)
  let ?lm = "memory_limit_of pod (pr_ContainerName rec)"
  have q: "rp_Namespace p = p_Namespace pod" "rp_Pod p = p_Name pod" "rp_Container p = pr_ContainerName rec"
    "\<not> ap_DisableMemoryApplication cfg" "\<not> ap_SkipMemory cfg"
    "rp_Limit p = None \<or> \<not> feq ?lm (lit 0) \<and> map_option pq_Amount (rp_Limit p) =
       Some (if \<not> en_supportsMemoryReduction env \<and> flt ml ?lm then mathCeil ?lm else ml)"
    using r assms(3) v by (auto simp: resize_for_def ResourceCPU_def ResourceMemory_def)
  have "\<not> flt (mathCeil ?lm) ?lm"
    using mathCeil_ge [of ?lm] fle_not_flt flt_nan(2) by blast
  then have "\<forall>l. rp_Limit p = Some l \<longrightarrow> \<not> feq ?lm (lit 0) \<and>
      (\<not> en_supportsMemoryReduction env \<longrightarrow> \<not> flt (pq_Amount l) ?lm)"
    using q(6) by (auto split: if_splits)
  then show ?thesis
    using g q(1-5) fresh_pod_lookup(2) [OF 1(4) pod] by (metis (full_types))
qed

lemma run_memory_gates_witness:
  "\<not> ap_DisableMemoryApplication sample_config \<and> \<not> ap_SkipMemory sample_config"
proof -
  obtain a s where run: "ApplyRecommendationsWithStrategy 0 insertion_sort sample_env (\<lambda>rows. None) sample_config
     [(''node-1'', sample_node_info)] sample_overrides False =
     Some (Inr (a, s), [ActResize sample_cpu_patch, ActResize sample_memory_patch])"
    using sample_apply_run by blast
  show ?thesis
    using run_memory_gates [OF run, of sample_memory_patch]
    by (simp add: sample_memory_patch_def ResourceMemory_def)
qed

end
