(* ===== verification/Json.thy ===== *)
theory Json
  imports Types "HOL-Library.Monad_Syntax"
begin

text \<open>
  The JSON documents the program stores in its database. A document is the tree its text stands
  for. Encoders and decoders follow \<^verbatim>\<open>encoding/json\<close> on the struct tags of
  \<^verbatim>\<open>pkg/types/stats.go\<close>, \<^verbatim>\<open>pkg/types/settings.go\<close> and \<^verbatim>\<open>pkg/types/snapshot.go\<close>: an encoder fails on a NaN, an infinity or
  a time outside the years 0 to 9999, and on numbers that are no value of the Go type; a decoder
  fails on a value of the wrong type, leaves absent and null fields at their zero value and
  ignores unknown keys. What a codec promises is the locale \<open>json_codec\<close>, interpreted for each type.
\<close>

section \<open>Documents\<close>

datatype json =
  JNull
| JBool bool
| JInt int
| JNum float64
| JStr string
| JTime go_time
| JArr "json list"
| JObj "(string \<times> json) list"

text \<open>The value of a key; the last one counts.\<close>

fun lookup :: "(string \<times> json) list \<Rightarrow> string \<Rightarrow> json option" where
  "lookup [] k = None"
| "lookup ((k', v) # kvs) k = (case lookup kvs k of Some j \<Rightarrow> Some j | None \<Rightarrow> if k' = k then Some v else None)"

text \<open>The fields of a struct that are written; \<^verbatim>\<open>omitempty\<close> leaves some out.\<close>

fun present :: "(string \<times> json option) list \<Rightarrow> (string \<times> json) list" where
  "present [] = []"
| "present ((k, None) # fs) = present fs"
| "present ((k, Some v) # fs) = (k, v) # present fs"

lemma case_option_eta [simp]: "(case x of None \<Rightarrow> None | Some j \<Rightarrow> Some j) = x"
  by (cases x) simp_all

lemma lookup_present [simp]:
  "lookup (present ((k', v) # fs)) k =
     (case lookup (present fs) k of Some j \<Rightarrow> Some j | None \<Rightarrow> if k' = k then v else None)"
  by (cases v) (auto split: option.split)

section \<open>Values\<close>

definition enc_bool :: "bool \<Rightarrow> json option" where "enc_bool b = Some (JBool b)"

fun dec_bool :: "json \<Rightarrow> bool option" where
  "dec_bool (JBool b) = Some b"
| "dec_bool JNull = Some False"
| "dec_bool _ = None"

definition enc_string :: "string \<Rightarrow> json option" where "enc_string s = Some (JStr s)"

fun dec_string :: "json \<Rightarrow> string option" where
  "dec_string (JStr s) = Some s"
| "dec_string JNull = Some []"
| "dec_string _ = None"

definition in_width :: "nat \<Rightarrow> int \<Rightarrow> bool" where
  "in_width w i \<longleftrightarrow> - (2 ^ (w - 1)) \<le> i \<and> i < 2 ^ (w - 1)"

definition enc_int :: "nat \<Rightarrow> int \<Rightarrow> json option" where
  "enc_int w i = (if in_width w i then Some (JInt i) else None)"

fun dec_int :: "nat \<Rightarrow> json \<Rightarrow> int option" where
  "dec_int w (JInt i) = (if in_width w i then Some i else None)"
| "dec_int w JNull = Some 0"
| "dec_int w _ = None"

definition enc_float :: "float64 \<Rightarrow> json option" where
  "enc_float x = (if is_num x then Some (JNum x) else None)"

fun dec_float :: "json \<Rightarrow> float64 option" where
  "dec_float (JNum x) = Some x"
| "dec_float (JInt i) = Some (f64_of_int i)"
| "dec_float JNull = Some (lit 0)"
| "dec_float _ = None"

text \<open>Times are written for the years 0 to 9999; the zero time stands for an absent one.\<close>

definition zero_time :: go_time where "zero_time = - 62135596800 * 10 ^ 9"

definition printable_time :: "go_time \<Rightarrow> bool" where
  "printable_time t \<longleftrightarrow> - 62167219200 * 10 ^ 9 \<le> t \<and> t < 253402300800 * 10 ^ 9"

definition enc_time :: "go_time \<Rightarrow> json option" where
  "enc_time t = (if printable_time t then Some (JTime t) else None)"

fun dec_time :: "json \<Rightarrow> go_time option" where
  "dec_time (JTime t) = Some t"
| "dec_time JNull = Some zero_time"
| "dec_time _ = None"

text \<open>Pointers and slices.\<close>

definition enc_ptr :: "('a \<Rightarrow> json option) \<Rightarrow> 'a option \<Rightarrow> json option" where
  "enc_ptr enc p = (case p of None \<Rightarrow> Some JNull | Some x \<Rightarrow> enc x)"

fun dec_ptr :: "(json \<Rightarrow> 'a option) \<Rightarrow> json \<Rightarrow> 'a option option" where
  "dec_ptr dec JNull = Some None"
| "dec_ptr dec j = map_option Some (dec j)"

fun enc_all :: "('a \<Rightarrow> json option) \<Rightarrow> 'a list \<Rightarrow> json list option" where
  "enc_all enc [] = Some []"
| "enc_all enc (x # xs) = do { j \<leftarrow> enc x; js \<leftarrow> enc_all enc xs; Some (j # js) }"

fun dec_all :: "(json \<Rightarrow> 'a option) \<Rightarrow> json list \<Rightarrow> 'a list option" where
  "dec_all dec [] = Some []"
| "dec_all dec (j # js) = do { x \<leftarrow> dec j; xs \<leftarrow> dec_all dec js; Some (x # xs) }"

definition enc_list :: "('a \<Rightarrow> json option) \<Rightarrow> 'a list \<Rightarrow> json option" where
  "enc_list enc xs = map_option JArr (enc_all enc xs)"

fun dec_list :: "(json \<Rightarrow> 'a option) \<Rightarrow> json \<Rightarrow> 'a list option" where
  "dec_list dec (JArr js) = dec_all dec js"
| "dec_list dec JNull = Some []"
| "dec_list dec _ = None"

text \<open>Fields: always written, left out at the zero value, or left out at a nil pointer.\<close>

definition fld :: "('a \<Rightarrow> json option) \<Rightarrow> 'a \<Rightarrow> json option option" where
  "fld enc x = map_option Some (enc x)"

definition omitempty :: "('a \<Rightarrow> json option) \<Rightarrow> 'a \<Rightarrow> 'a \<Rightarrow> json option option" where
  "omitempty enc zero x = (if x = zero then Some None else fld enc x)"

definition field_or :: "(string \<times> json) list \<Rightarrow> string \<Rightarrow> (json \<Rightarrow> 'a option) \<Rightarrow> 'a \<Rightarrow> 'a option" where
  "field_or kvs k dec zero = (case lookup kvs k of None \<Rightarrow> Some zero | Some j \<Rightarrow> dec j)"

section \<open>What a codec promises\<close>

locale json_codec =
  fixes enc :: "'a \<Rightarrow> json option" and dec :: "json \<Rightarrow> 'a option"
  assumes dec_enc: "enc x = Some j \<Longrightarrow> dec j = Some x"
    and enc_not_null: "enc x \<noteq> Some JNull"
begin

lemma ptr: "enc_ptr enc p = Some j \<Longrightarrow> dec_ptr dec j = Some p"
proof (cases p)
  case (Some x)
  assume "enc_ptr enc p = Some j"
  then have j: "enc x = Some j" using Some by (simp add: enc_ptr_def)
  then have "j \<noteq> JNull" using enc_not_null by blast
  then show ?thesis using Some dec_enc [OF j] by (cases j) simp_all
qed (simp add: enc_ptr_def)

lemma all: "enc_all enc xs = Some js \<Longrightarrow> dec_all dec js = Some xs"
  by (induction xs arbitrary: js) (auto simp: bind_eq_Some_conv dec_enc)

lemma list: "enc_list enc xs = Some j \<Longrightarrow> dec_list dec j = Some xs"
  using all by (auto simp: enc_list_def)

lemma fld: "fld enc x = Some v \<Longrightarrow> lookup kvs k = v \<Longrightarrow> field_or kvs k dec z = Some x"
  by (auto simp: fld_def field_or_def dec_enc split: option.splits)

lemma fld_ptr: "fld (enc_ptr enc) p = Some v \<Longrightarrow> lookup kvs k = v \<Longrightarrow> field_or kvs k (dec_ptr dec) z = Some p"
  by (auto simp: fld_def field_or_def ptr split: option.splits)

lemma fld_list: "fld (enc_list enc) xs = Some v \<Longrightarrow> lookup kvs k = v \<Longrightarrow> field_or kvs k (dec_list dec) z = Some xs"
  by (auto simp: fld_def field_or_def list split: option.splits)

lemma omit: "omitempty enc z x = Some v \<Longrightarrow> lookup kvs k = v \<Longrightarrow> field_or kvs k dec z = Some x"
  by (cases "lookup kvs k") (auto simp: omitempty_def fld_def field_or_def dec_enc split: if_splits)

lemma omit_ptr:
  "omitempty (enc_ptr enc) None p = Some v \<Longrightarrow> lookup kvs k = v \<Longrightarrow> field_or kvs k (dec_ptr dec) None = Some p"
  by (cases "lookup kvs k") (auto simp: omitempty_def fld_def field_or_def ptr split: if_splits)

lemma omit_list:
  "omitempty (enc_list enc) [] xs = Some v \<Longrightarrow> lookup kvs k = v \<Longrightarrow> field_or kvs k (dec_list dec) [] = Some xs"
  by (cases "lookup kvs k") (auto simp: omitempty_def fld_def field_or_def list split: if_splits)

end

interpretation c_bool: json_codec enc_bool dec_bool
  by unfold_locales (auto simp: enc_bool_def)

interpretation c_string: json_codec enc_string dec_string
  by unfold_locales (auto simp: enc_string_def)

interpretation c_int: json_codec "enc_int w" "dec_int w"
  by unfold_locales (auto simp: enc_int_def split: if_splits)

interpretation c_float: json_codec enc_float dec_float
  by unfold_locales (auto simp: enc_float_def split: if_splits)

interpretation c_time: json_codec enc_time dec_time
  by unfold_locales (auto simp: enc_time_def split: if_splits)

section \<open>Structs\<close>

named_theorems codec \<open>decoding of encoded fields\<close>

lemma bindI: "m = Some x \<Longrightarrow> f x = Some y \<Longrightarrow> Option.bind m f = Some y"
  by simp

lemmas codec_basic [codec] = c_bool.fld c_bool.fld_ptr c_bool.omit c_string.fld c_string.omit_list
  c_int.fld c_int.fld_ptr c_float.fld c_float.omit c_time.fld

section \<open>Statistics\<close>

definition zero_CPUStats :: CPUStats where
  "zero_CPUStats = \<lparr>cpu_P75 = (lit 0)\<rparr>"

definition enc_CPUStats :: "CPUStats \<Rightarrow> json option" where
  "enc_CPUStats x = do {
     x0 \<leftarrow> fld enc_float (cpu_P75 x);
     Some (JObj (present [(''p75'', x0)])) }"

fun dec_CPUStats :: "json \<Rightarrow> CPUStats option" where
  "dec_CPUStats (JObj kvs) = do {
     x0 \<leftarrow> field_or kvs ''p75'' dec_float (lit 0);
     Some \<lparr>cpu_P75 = x0\<rparr> }"
| "dec_CPUStats JNull = Some zero_CPUStats"
| "dec_CPUStats _ = None"

interpretation c_CPUStats: json_codec enc_CPUStats dec_CPUStats
proof
  fix x j assume "enc_CPUStats x = Some j"
  then show "dec_CPUStats j = Some x"
    by (clarsimp simp: enc_CPUStats_def bind_eq_Some_conv simp del: dec_CPUStats.simps)
      (simp only: dec_CPUStats.simps, (rule bindI, erule codec, simp)+, simp)
qed (auto simp: enc_CPUStats_def bind_eq_Some_conv)

lemmas codec_CPUStats [codec] = c_CPUStats.fld c_CPUStats.fld_ptr c_CPUStats.fld_list c_CPUStats.omit_ptr c_CPUStats.omit_list

definition zero_PSIAdjustedUsageStats :: PSIAdjustedUsageStats where
  "zero_PSIAdjustedUsageStats = \<lparr>psi_P75 = (lit 0)\<rparr>"

definition enc_PSIAdjustedUsageStats :: "PSIAdjustedUsageStats \<Rightarrow> json option" where
  "enc_PSIAdjustedUsageStats x = do {
     x0 \<leftarrow> fld enc_float (psi_P75 x);
     Some (JObj (present [(''p75'', x0)])) }"

fun dec_PSIAdjustedUsageStats :: "json \<Rightarrow> PSIAdjustedUsageStats option" where
  "dec_PSIAdjustedUsageStats (JObj kvs) = do {
     x0 \<leftarrow> field_or kvs ''p75'' dec_float (lit 0);
     Some \<lparr>psi_P75 = x0\<rparr> }"
| "dec_PSIAdjustedUsageStats JNull = Some zero_PSIAdjustedUsageStats"
| "dec_PSIAdjustedUsageStats _ = None"

interpretation c_PSIAdjustedUsageStats: json_codec enc_PSIAdjustedUsageStats dec_PSIAdjustedUsageStats
proof
  fix x j assume "enc_PSIAdjustedUsageStats x = Some j"
  then show "dec_PSIAdjustedUsageStats j = Some x"
    by (clarsimp simp: enc_PSIAdjustedUsageStats_def bind_eq_Some_conv simp del: dec_PSIAdjustedUsageStats.simps)
      (simp only: dec_PSIAdjustedUsageStats.simps, (rule bindI, erule codec, simp)+, simp)
qed (auto simp: enc_PSIAdjustedUsageStats_def bind_eq_Some_conv)

lemmas codec_PSIAdjustedUsageStats [codec] = c_PSIAdjustedUsageStats.fld c_PSIAdjustedUsageStats.fld_ptr c_PSIAdjustedUsageStats.fld_list c_PSIAdjustedUsageStats.omit_ptr c_PSIAdjustedUsageStats.omit_list

definition zero_MemoryStats :: MemoryStats where
  "zero_MemoryStats = \<lparr>mem_P75 = (lit 0), mem_OOMMemory = (lit 0)\<rparr>"

definition enc_MemoryStats :: "MemoryStats \<Rightarrow> json option" where
  "enc_MemoryStats x = do {
     x0 \<leftarrow> fld enc_float (mem_P75 x);
     x1 \<leftarrow> omitempty enc_float (lit 0) (mem_OOMMemory x);
     Some (JObj (present [(''p75'', x0), (''oom_memory'', x1)])) }"

fun dec_MemoryStats :: "json \<Rightarrow> MemoryStats option" where
  "dec_MemoryStats (JObj kvs) = do {
     x0 \<leftarrow> field_or kvs ''p75'' dec_float (lit 0);
     x1 \<leftarrow> field_or kvs ''oom_memory'' dec_float (lit 0);
     Some \<lparr>mem_P75 = x0, mem_OOMMemory = x1\<rparr> }"
| "dec_MemoryStats JNull = Some zero_MemoryStats"
| "dec_MemoryStats _ = None"

interpretation c_MemoryStats: json_codec enc_MemoryStats dec_MemoryStats
proof
  fix x j assume "enc_MemoryStats x = Some j"
  then show "dec_MemoryStats j = Some x"
    by (clarsimp simp: enc_MemoryStats_def bind_eq_Some_conv simp del: dec_MemoryStats.simps)
      (simp only: dec_MemoryStats.simps, (rule bindI, erule codec, simp)+, simp)
qed (auto simp: enc_MemoryStats_def bind_eq_Some_conv)

lemmas codec_MemoryStats [codec] = c_MemoryStats.fld c_MemoryStats.fld_ptr c_MemoryStats.fld_list c_MemoryStats.omit_ptr c_MemoryStats.omit_list

definition zero_Memory7DayStats :: Memory7DayStats where
  "zero_Memory7DayStats = \<lparr>m7_Max = (lit 0)\<rparr>"

definition enc_Memory7DayStats :: "Memory7DayStats \<Rightarrow> json option" where
  "enc_Memory7DayStats x = do {
     x0 \<leftarrow> fld enc_float (m7_Max x);
     Some (JObj (present [(''max'', x0)])) }"

fun dec_Memory7DayStats :: "json \<Rightarrow> Memory7DayStats option" where
  "dec_Memory7DayStats (JObj kvs) = do {
     x0 \<leftarrow> field_or kvs ''max'' dec_float (lit 0);
     Some \<lparr>m7_Max = x0\<rparr> }"
| "dec_Memory7DayStats JNull = Some zero_Memory7DayStats"
| "dec_Memory7DayStats _ = None"

interpretation c_Memory7DayStats: json_codec enc_Memory7DayStats dec_Memory7DayStats
proof
  fix x j assume "enc_Memory7DayStats x = Some j"
  then show "dec_Memory7DayStats j = Some x"
    by (clarsimp simp: enc_Memory7DayStats_def bind_eq_Some_conv simp del: dec_Memory7DayStats.simps)
      (simp only: dec_Memory7DayStats.simps, (rule bindI, erule codec, simp)+, simp)
qed (auto simp: enc_Memory7DayStats_def bind_eq_Some_conv)

lemmas codec_Memory7DayStats [codec] = c_Memory7DayStats.fld c_Memory7DayStats.fld_ptr c_Memory7DayStats.fld_list c_Memory7DayStats.omit_ptr c_Memory7DayStats.omit_list

definition zero_MLPercentiles :: MLPercentiles where
  "zero_MLPercentiles = \<lparr>ml_Median = (lit 0), ml_P90 = (lit 0), ml_P95 = (lit 0), ml_P99 = (lit 0)\<rparr>"

definition enc_MLPercentiles :: "MLPercentiles \<Rightarrow> json option" where
  "enc_MLPercentiles x = do {
     x0 \<leftarrow> fld enc_float (ml_Median x);
     x1 \<leftarrow> fld enc_float (ml_P90 x);
     x2 \<leftarrow> fld enc_float (ml_P95 x);
     x3 \<leftarrow> fld enc_float (ml_P99 x);
     Some (JObj (present [(''median'', x0), (''p90'', x1), (''p95'', x2), (''p99'', x3)])) }"

fun dec_MLPercentiles :: "json \<Rightarrow> MLPercentiles option" where
  "dec_MLPercentiles (JObj kvs) = do {
     x0 \<leftarrow> field_or kvs ''median'' dec_float (lit 0);
     x1 \<leftarrow> field_or kvs ''p90'' dec_float (lit 0);
     x2 \<leftarrow> field_or kvs ''p95'' dec_float (lit 0);
     x3 \<leftarrow> field_or kvs ''p99'' dec_float (lit 0);
     Some \<lparr>ml_Median = x0, ml_P90 = x1, ml_P95 = x2, ml_P99 = x3\<rparr> }"
| "dec_MLPercentiles JNull = Some zero_MLPercentiles"
| "dec_MLPercentiles _ = None"

interpretation c_MLPercentiles: json_codec enc_MLPercentiles dec_MLPercentiles
proof
  fix x j assume "enc_MLPercentiles x = Some j"
  then show "dec_MLPercentiles j = Some x"
    by (clarsimp simp: enc_MLPercentiles_def bind_eq_Some_conv simp del: dec_MLPercentiles.simps)
      (simp only: dec_MLPercentiles.simps, (rule bindI, erule codec, simp)+, simp)
qed (auto simp: enc_MLPercentiles_def bind_eq_Some_conv)

lemmas codec_MLPercentiles [codec] = c_MLPercentiles.fld c_MLPercentiles.fld_ptr c_MLPercentiles.fld_list c_MLPercentiles.omit_ptr c_MLPercentiles.omit_list

definition zero_SimplePrediction :: SimplePrediction where
  "zero_SimplePrediction = \<lparr>sp_WeeklyPrediction = (lit 0), sp_HourlyPrediction = (lit 0),
     sp_CurrentPrediction = (lit 0), sp_MaxValue = (lit 0)\<rparr>"

definition enc_SimplePrediction :: "SimplePrediction \<Rightarrow> json option" where
  "enc_SimplePrediction x = do {
     x0 \<leftarrow> fld enc_float (sp_WeeklyPrediction x);
     x1 \<leftarrow> fld enc_float (sp_HourlyPrediction x);
     x2 \<leftarrow> fld enc_float (sp_CurrentPrediction x);
     x3 \<leftarrow> fld enc_float (sp_MaxValue x);
     Some (JObj (present [(''weekly_prediction'', x0), (''hourly_prediction'', x1), (''current_prediction'', x2),
       (''max_value'', x3)])) }"

fun dec_SimplePrediction :: "json \<Rightarrow> SimplePrediction option" where
  "dec_SimplePrediction (JObj kvs) = do {
     x0 \<leftarrow> field_or kvs ''weekly_prediction'' dec_float (lit 0);
     x1 \<leftarrow> field_or kvs ''hourly_prediction'' dec_float (lit 0);
     x2 \<leftarrow> field_or kvs ''current_prediction'' dec_float (lit 0);
     x3 \<leftarrow> field_or kvs ''max_value'' dec_float (lit 0);
     Some \<lparr>sp_WeeklyPrediction = x0, sp_HourlyPrediction = x1, sp_CurrentPrediction = x2,
       sp_MaxValue = x3\<rparr> }"
| "dec_SimplePrediction JNull = Some zero_SimplePrediction"
| "dec_SimplePrediction _ = None"

interpretation c_SimplePrediction: json_codec enc_SimplePrediction dec_SimplePrediction
proof
  fix x j assume "enc_SimplePrediction x = Some j"
  then show "dec_SimplePrediction j = Some x"
    by (clarsimp simp: enc_SimplePrediction_def bind_eq_Some_conv simp del: dec_SimplePrediction.simps)
      (simp only: dec_SimplePrediction.simps, (rule bindI, erule codec, simp)+, simp)
qed (auto simp: enc_SimplePrediction_def bind_eq_Some_conv)

lemmas codec_SimplePrediction [codec] = c_SimplePrediction.fld c_SimplePrediction.fld_ptr c_SimplePrediction.fld_list c_SimplePrediction.omit_ptr c_SimplePrediction.omit_list

definition zero_OriginalContainerResources :: OriginalContainerResources where
  "zero_OriginalContainerResources = \<lparr>oc_Name = [], oc_Type = 0, oc_CPURequest = (lit 0), oc_CPULimit = (lit 0),
     oc_MemoryRequest = (lit 0), oc_MemoryLimit = (lit 0)\<rparr>"

definition enc_OriginalContainerResources :: "OriginalContainerResources \<Rightarrow> json option" where
  "enc_OriginalContainerResources x = do {
     x0 \<leftarrow> fld enc_string (oc_Name x);
     x1 \<leftarrow> fld (enc_int 64) (oc_Type x);
     x2 \<leftarrow> fld enc_float (oc_CPURequest x);
     x3 \<leftarrow> fld enc_float (oc_CPULimit x);
     x4 \<leftarrow> omitempty enc_float (lit 0) (oc_MemoryRequest x);
     x5 \<leftarrow> omitempty enc_float (lit 0) (oc_MemoryLimit x);
     Some (JObj (present [(''name'', x0), (''type'', x1), (''cpu_request'', x2), (''cpu_limit'', x3),
       (''memory_request'', x4), (''memory_limit'', x5)])) }"

fun dec_OriginalContainerResources :: "json \<Rightarrow> OriginalContainerResources option" where
  "dec_OriginalContainerResources (JObj kvs) = do {
     x0 \<leftarrow> field_or kvs ''name'' dec_string [];
     x1 \<leftarrow> field_or kvs ''type'' (dec_int 64) 0;
     x2 \<leftarrow> field_or kvs ''cpu_request'' dec_float (lit 0);
     x3 \<leftarrow> field_or kvs ''cpu_limit'' dec_float (lit 0);
     x4 \<leftarrow> field_or kvs ''memory_request'' dec_float (lit 0);
     x5 \<leftarrow> field_or kvs ''memory_limit'' dec_float (lit 0);
     Some \<lparr>oc_Name = x0, oc_Type = x1, oc_CPURequest = x2, oc_CPULimit = x3, oc_MemoryRequest = x4,
       oc_MemoryLimit = x5\<rparr> }"
| "dec_OriginalContainerResources JNull = Some zero_OriginalContainerResources"
| "dec_OriginalContainerResources _ = None"

interpretation c_OriginalContainerResources: json_codec enc_OriginalContainerResources dec_OriginalContainerResources
proof
  fix x j assume "enc_OriginalContainerResources x = Some j"
  then show "dec_OriginalContainerResources j = Some x"
    by (clarsimp simp: enc_OriginalContainerResources_def bind_eq_Some_conv simp del: dec_OriginalContainerResources.simps)
      (simp only: dec_OriginalContainerResources.simps, (rule bindI, erule codec, simp)+, simp)
qed (auto simp: enc_OriginalContainerResources_def bind_eq_Some_conv)

lemmas codec_OriginalContainerResources [codec] = c_OriginalContainerResources.fld c_OriginalContainerResources.fld_ptr c_OriginalContainerResources.fld_list c_OriginalContainerResources.omit_ptr c_OriginalContainerResources.omit_list

definition zero_ContainerStats :: ContainerStats where
  "zero_ContainerStats = \<lparr>cs_ContainerName = [], cs_ContainerType = 0, cs_CPUStats = None,
     cs_PSIAdjustedUsage = None, cs_MemoryStats = None, cs_Memory7Day = None,
     cs_MLPercentilesCPU = None, cs_MLPercentilesCPUPSIAdjusted = None,
     cs_SimplePredictionsCPU = None, cs_MLPercentilesMemory = None,
     cs_SimplePredictionsMemory = None\<rparr>"

definition enc_ContainerStats :: "ContainerStats \<Rightarrow> json option" where
  "enc_ContainerStats x = do {
     x0 \<leftarrow> fld enc_string (cs_ContainerName x);
     x1 \<leftarrow> fld (enc_int 64) (cs_ContainerType x);
     x2 \<leftarrow> fld (enc_ptr enc_CPUStats) (cs_CPUStats x);
     x3 \<leftarrow> omitempty (enc_ptr enc_PSIAdjustedUsageStats) None (cs_PSIAdjustedUsage x);
     x4 \<leftarrow> fld (enc_ptr enc_MemoryStats) (cs_MemoryStats x);
     x5 \<leftarrow> fld (enc_ptr enc_Memory7DayStats) (cs_Memory7Day x);
     x6 \<leftarrow> omitempty (enc_ptr enc_MLPercentiles) None (cs_MLPercentilesCPU x);
     x7 \<leftarrow> omitempty (enc_ptr enc_MLPercentiles) None (cs_MLPercentilesCPUPSIAdjusted x);
     x8 \<leftarrow> omitempty (enc_ptr enc_SimplePrediction) None (cs_SimplePredictionsCPU x);
     x9 \<leftarrow> omitempty (enc_ptr enc_MLPercentiles) None (cs_MLPercentilesMemory x);
     x10 \<leftarrow> omitempty (enc_ptr enc_SimplePrediction) None (cs_SimplePredictionsMemory x);
     Some (JObj (present [(''container_name'', x0), (''container_type'', x1), (''cpu_stats'', x2),
       (''psi_adjusted_usage'', x3), (''memory_stats'', x4), (''memory_7day'', x5),
       (''ml_percentiles_cpu'', x6), (''ml_percentiles_cpu_psi_adjusted'', x7),
       (''simple_predictions_cpu'', x8), (''ml_percentiles_memory'', x9),
       (''simple_predictions_memory'', x10)])) }"

fun dec_ContainerStats :: "json \<Rightarrow> ContainerStats option" where
  "dec_ContainerStats (JObj kvs) = do {
     x0 \<leftarrow> field_or kvs ''container_name'' dec_string [];
     x1 \<leftarrow> field_or kvs ''container_type'' (dec_int 64) 0;
     x2 \<leftarrow> field_or kvs ''cpu_stats'' (dec_ptr dec_CPUStats) None;
     x3 \<leftarrow> field_or kvs ''psi_adjusted_usage'' (dec_ptr dec_PSIAdjustedUsageStats) None;
     x4 \<leftarrow> field_or kvs ''memory_stats'' (dec_ptr dec_MemoryStats) None;
     x5 \<leftarrow> field_or kvs ''memory_7day'' (dec_ptr dec_Memory7DayStats) None;
     x6 \<leftarrow> field_or kvs ''ml_percentiles_cpu'' (dec_ptr dec_MLPercentiles) None;
     x7 \<leftarrow> field_or kvs ''ml_percentiles_cpu_psi_adjusted'' (dec_ptr dec_MLPercentiles) None;
     x8 \<leftarrow> field_or kvs ''simple_predictions_cpu'' (dec_ptr dec_SimplePrediction) None;
     x9 \<leftarrow> field_or kvs ''ml_percentiles_memory'' (dec_ptr dec_MLPercentiles) None;
     x10 \<leftarrow> field_or kvs ''simple_predictions_memory'' (dec_ptr dec_SimplePrediction) None;
     Some \<lparr>cs_ContainerName = x0, cs_ContainerType = x1, cs_CPUStats = x2, cs_PSIAdjustedUsage = x3,
       cs_MemoryStats = x4, cs_Memory7Day = x5, cs_MLPercentilesCPU = x6,
       cs_MLPercentilesCPUPSIAdjusted = x7, cs_SimplePredictionsCPU = x8,
       cs_MLPercentilesMemory = x9, cs_SimplePredictionsMemory = x10\<rparr> }"
| "dec_ContainerStats JNull = Some zero_ContainerStats"
| "dec_ContainerStats _ = None"

interpretation c_ContainerStats: json_codec enc_ContainerStats dec_ContainerStats
proof
  fix x j assume "enc_ContainerStats x = Some j"
  then show "dec_ContainerStats j = Some x"
    by (clarsimp simp: enc_ContainerStats_def bind_eq_Some_conv simp del: dec_ContainerStats.simps)
      (simp only: dec_ContainerStats.simps, (rule bindI, erule codec, simp)+, simp)
qed (auto simp: enc_ContainerStats_def bind_eq_Some_conv)

lemmas codec_ContainerStats [codec] = c_ContainerStats.fld c_ContainerStats.fld_ptr c_ContainerStats.fld_list c_ContainerStats.omit_ptr c_ContainerStats.omit_list

definition zero_WorkloadConstraints :: WorkloadConstraints where
  "zero_WorkloadConstraints = \<lparr>wc_BlockingConsolidation = False, wc_PDB = False, wc_DoNotDisruptAnnotation = False,
     wc_Volume = False, wc_Affinity = False, wc_TopologySpreadConstraint = False,
     wc_PodAntiAffinity = False, wc_ExcludedAnnotation = False\<rparr>"

definition enc_WorkloadConstraints :: "WorkloadConstraints \<Rightarrow> json option" where
  "enc_WorkloadConstraints x = do {
     x0 \<leftarrow> fld enc_bool (wc_BlockingConsolidation x);
     x1 \<leftarrow> fld enc_bool (wc_PDB x);
     x2 \<leftarrow> fld enc_bool (wc_DoNotDisruptAnnotation x);
     x3 \<leftarrow> fld enc_bool (wc_Volume x);
     x4 \<leftarrow> fld enc_bool (wc_Affinity x);
     x5 \<leftarrow> fld enc_bool (wc_TopologySpreadConstraint x);
     x6 \<leftarrow> fld enc_bool (wc_PodAntiAffinity x);
     x7 \<leftarrow> fld enc_bool (wc_ExcludedAnnotation x);
     Some (JObj (present [(''blocking_consolidation'', x0), (''pdb'', x1), (''do_not_disrupt_annotation'', x2),
       (''volume'', x3), (''affinity'', x4), (''topology_spread_constraint'', x5),
       (''pod_anti_affinity'', x6), (''excluded_annotation'', x7)])) }"

fun dec_WorkloadConstraints :: "json \<Rightarrow> WorkloadConstraints option" where
  "dec_WorkloadConstraints (JObj kvs) = do {
     x0 \<leftarrow> field_or kvs ''blocking_consolidation'' dec_bool False;
     x1 \<leftarrow> field_or kvs ''pdb'' dec_bool False;
     x2 \<leftarrow> field_or kvs ''do_not_disrupt_annotation'' dec_bool False;
     x3 \<leftarrow> field_or kvs ''volume'' dec_bool False;
     x4 \<leftarrow> field_or kvs ''affinity'' dec_bool False;
     x5 \<leftarrow> field_or kvs ''topology_spread_constraint'' dec_bool False;
     x6 \<leftarrow> field_or kvs ''pod_anti_affinity'' dec_bool False;
     x7 \<leftarrow> field_or kvs ''excluded_annotation'' dec_bool False;
     Some \<lparr>wc_BlockingConsolidation = x0, wc_PDB = x1, wc_DoNotDisruptAnnotation = x2,
       wc_Volume = x3, wc_Affinity = x4, wc_TopologySpreadConstraint = x5,
       wc_PodAntiAffinity = x6, wc_ExcludedAnnotation = x7\<rparr> }"
| "dec_WorkloadConstraints JNull = Some zero_WorkloadConstraints"
| "dec_WorkloadConstraints _ = None"

interpretation c_WorkloadConstraints: json_codec enc_WorkloadConstraints dec_WorkloadConstraints
proof
  fix x j assume "enc_WorkloadConstraints x = Some j"
  then show "dec_WorkloadConstraints j = Some x"
    by (clarsimp simp: enc_WorkloadConstraints_def bind_eq_Some_conv simp del: dec_WorkloadConstraints.simps)
      (simp only: dec_WorkloadConstraints.simps, (rule bindI, erule codec, simp)+, simp)
qed (auto simp: enc_WorkloadConstraints_def bind_eq_Some_conv)

lemmas codec_WorkloadConstraints [codec] = c_WorkloadConstraints.fld c_WorkloadConstraints.fld_ptr c_WorkloadConstraints.fld_list c_WorkloadConstraints.omit_ptr c_WorkloadConstraints.omit_list

definition zero_WorkloadStatMetadata :: WorkloadStatMetadata where
  "zero_WorkloadStatMetadata = \<lparr>md_Excluded = False, md_ExcludedCodes = [], md_Incomplete = False,
     md_IsGPUWorkload = False, md_InDisruptionWindow = False\<rparr>"

definition enc_WorkloadStatMetadata :: "WorkloadStatMetadata \<Rightarrow> json option" where
  "enc_WorkloadStatMetadata x = do {
     x0 \<leftarrow> fld enc_bool (md_Excluded x);
     x1 \<leftarrow> omitempty (enc_list enc_string) [] (md_ExcludedCodes x);
     x2 \<leftarrow> omitempty enc_bool False (md_Incomplete x);
     x3 \<leftarrow> omitempty enc_bool False (md_IsGPUWorkload x);
     x4 \<leftarrow> omitempty enc_bool False (md_InDisruptionWindow x);
     Some (JObj (present [(''excluded'', x0), (''excluded_codes'', x1), (''incomplete'', x2),
       (''is_gpu_workload'', x3), (''in_disruption_window'', x4)])) }"

fun dec_WorkloadStatMetadata :: "json \<Rightarrow> WorkloadStatMetadata option" where
  "dec_WorkloadStatMetadata (JObj kvs) = do {
     x0 \<leftarrow> field_or kvs ''excluded'' dec_bool False;
     x1 \<leftarrow> field_or kvs ''excluded_codes'' (dec_list dec_string) [];
     x2 \<leftarrow> field_or kvs ''incomplete'' dec_bool False;
     x3 \<leftarrow> field_or kvs ''is_gpu_workload'' dec_bool False;
     x4 \<leftarrow> field_or kvs ''in_disruption_window'' dec_bool False;
     Some \<lparr>md_Excluded = x0, md_ExcludedCodes = x1, md_Incomplete = x2, md_IsGPUWorkload = x3,
       md_InDisruptionWindow = x4\<rparr> }"
| "dec_WorkloadStatMetadata JNull = Some zero_WorkloadStatMetadata"
| "dec_WorkloadStatMetadata _ = None"

interpretation c_WorkloadStatMetadata: json_codec enc_WorkloadStatMetadata dec_WorkloadStatMetadata
proof
  fix x j assume "enc_WorkloadStatMetadata x = Some j"
  then show "dec_WorkloadStatMetadata j = Some x"
    by (clarsimp simp: enc_WorkloadStatMetadata_def bind_eq_Some_conv simp del: dec_WorkloadStatMetadata.simps)
      (simp only: dec_WorkloadStatMetadata.simps, (rule bindI, erule codec, simp)+, simp)
qed (auto simp: enc_WorkloadStatMetadata_def bind_eq_Some_conv)

lemmas codec_WorkloadStatMetadata [codec] = c_WorkloadStatMetadata.fld c_WorkloadStatMetadata.fld_ptr c_WorkloadStatMetadata.fld_list c_WorkloadStatMetadata.omit_ptr c_WorkloadStatMetadata.omit_list

definition zero_WorkloadStat :: WorkloadStat where
  "zero_WorkloadStat = \<lparr>ws_WorkloadIdentifier = [], ws_Kind = [], ws_Namespace = [], ws_Name = [],
     ws_CreationTime = zero_time, ws_UpdatedAt = zero_time,
     ws_IsHorizontallyAutoscaledOnCPU = False, ws_IsHorizontallyAutoscaledOnMem = False,
     ws_Constraints = None, ws_EvictionRanking = 0, ws_Replicas = 0, ws_Metadata = None,
     ws_ContainerStats = [], ws_OriginalContainerResources = []\<rparr>"

definition enc_WorkloadStat :: "WorkloadStat \<Rightarrow> json option" where
  "enc_WorkloadStat x = do {
     x0 \<leftarrow> fld enc_string (ws_WorkloadIdentifier x);
     x1 \<leftarrow> fld enc_string (ws_Kind x);
     x2 \<leftarrow> fld enc_string (ws_Namespace x);
     x3 \<leftarrow> fld enc_string (ws_Name x);
     x4 \<leftarrow> fld enc_time (ws_CreationTime x);
     x5 \<leftarrow> fld enc_time (ws_UpdatedAt x);
     x6 \<leftarrow> fld enc_bool (ws_IsHorizontallyAutoscaledOnCPU x);
     x7 \<leftarrow> fld enc_bool (ws_IsHorizontallyAutoscaledOnMem x);
     x8 \<leftarrow> omitempty (enc_ptr enc_WorkloadConstraints) None (ws_Constraints x);
     x9 \<leftarrow> fld (enc_int 64) (ws_EvictionRanking x);
     x10 \<leftarrow> fld (enc_int 32) (ws_Replicas x);
     x11 \<leftarrow> omitempty (enc_ptr enc_WorkloadStatMetadata) None (ws_Metadata x);
     x12 \<leftarrow> fld (enc_list enc_ContainerStats) (ws_ContainerStats x);
     x13 \<leftarrow> fld (enc_list enc_OriginalContainerResources) (ws_OriginalContainerResources x);
     Some (JObj (present [(''workload'', x0), (''kind'', x1), (''namespace'', x2), (''name'', x3),
       (''creation_time'', x4), (''updated_at'', x5),
       (''is_horizontally_autoscaled_on_cpu'', x6),
       (''is_horizontally_autoscaled_on_memory'', x7), (''constraints'', x8),
       (''eviction_ranking'', x9), (''replicas'', x10), (''metadata'', x11),
       (''container_stats'', x12), (''original_container_resources'', x13)])) }"

fun dec_WorkloadStat :: "json \<Rightarrow> WorkloadStat option" where
  "dec_WorkloadStat (JObj kvs) = do {
     x0 \<leftarrow> field_or kvs ''workload'' dec_string [];
     x1 \<leftarrow> field_or kvs ''kind'' dec_string [];
     x2 \<leftarrow> field_or kvs ''namespace'' dec_string [];
     x3 \<leftarrow> field_or kvs ''name'' dec_string [];
     x4 \<leftarrow> field_or kvs ''creation_time'' dec_time zero_time;
     x5 \<leftarrow> field_or kvs ''updated_at'' dec_time zero_time;
     x6 \<leftarrow> field_or kvs ''is_horizontally_autoscaled_on_cpu'' dec_bool False;
     x7 \<leftarrow> field_or kvs ''is_horizontally_autoscaled_on_memory'' dec_bool False;
     x8 \<leftarrow> field_or kvs ''constraints'' (dec_ptr dec_WorkloadConstraints) None;
     x9 \<leftarrow> field_or kvs ''eviction_ranking'' (dec_int 64) 0;
     x10 \<leftarrow> field_or kvs ''replicas'' (dec_int 32) 0;
     x11 \<leftarrow> field_or kvs ''metadata'' (dec_ptr dec_WorkloadStatMetadata) None;
     x12 \<leftarrow> field_or kvs ''container_stats'' (dec_list dec_ContainerStats) [];
     x13 \<leftarrow> field_or kvs ''original_container_resources'' (dec_list dec_OriginalContainerResources) [];
     Some \<lparr>ws_WorkloadIdentifier = x0, ws_Kind = x1, ws_Namespace = x2, ws_Name = x3,
       ws_CreationTime = x4, ws_UpdatedAt = x5, ws_IsHorizontallyAutoscaledOnCPU = x6,
       ws_IsHorizontallyAutoscaledOnMem = x7, ws_Constraints = x8, ws_EvictionRanking = x9,
       ws_Replicas = x10, ws_Metadata = x11, ws_ContainerStats = x12,
       ws_OriginalContainerResources = x13\<rparr> }"
| "dec_WorkloadStat JNull = Some zero_WorkloadStat"
| "dec_WorkloadStat _ = None"

interpretation c_WorkloadStat: json_codec enc_WorkloadStat dec_WorkloadStat
proof
  fix x j assume "enc_WorkloadStat x = Some j"
  then show "dec_WorkloadStat j = Some x"
    by (clarsimp simp: enc_WorkloadStat_def bind_eq_Some_conv simp del: dec_WorkloadStat.simps)
      (simp only: dec_WorkloadStat.simps, (rule bindI, erule codec, simp)+, simp)
qed (auto simp: enc_WorkloadStat_def bind_eq_Some_conv)

lemmas codec_WorkloadStat [codec] = c_WorkloadStat.fld c_WorkloadStat.fld_ptr c_WorkloadStat.fld_list c_WorkloadStat.omit_ptr c_WorkloadStat.omit_list

section \<open>Overrides\<close>

definition zero_DisruptionWindow :: DisruptionWindow where
  "zero_DisruptionWindow = \<lparr>dw_StartCron = [], dw_EndCron = []\<rparr>"

definition enc_DisruptionWindow :: "DisruptionWindow \<Rightarrow> json option" where
  "enc_DisruptionWindow x = do {
     x0 \<leftarrow> fld enc_string (dw_StartCron x);
     x1 \<leftarrow> fld enc_string (dw_EndCron x);
     Some (JObj (present [(''start_cron'', x0), (''end_cron'', x1)])) }"

fun dec_DisruptionWindow :: "json \<Rightarrow> DisruptionWindow option" where
  "dec_DisruptionWindow (JObj kvs) = do {
     x0 \<leftarrow> field_or kvs ''start_cron'' dec_string [];
     x1 \<leftarrow> field_or kvs ''end_cron'' dec_string [];
     Some \<lparr>dw_StartCron = x0, dw_EndCron = x1\<rparr> }"
| "dec_DisruptionWindow JNull = Some zero_DisruptionWindow"
| "dec_DisruptionWindow _ = None"

interpretation c_DisruptionWindow: json_codec enc_DisruptionWindow dec_DisruptionWindow
proof
  fix x j assume "enc_DisruptionWindow x = Some j"
  then show "dec_DisruptionWindow j = Some x"
    by (clarsimp simp: enc_DisruptionWindow_def bind_eq_Some_conv simp del: dec_DisruptionWindow.simps)
      (simp only: dec_DisruptionWindow.simps, (rule bindI, erule codec, simp)+, simp)
qed (auto simp: enc_DisruptionWindow_def bind_eq_Some_conv)

lemmas codec_DisruptionWindow [codec] = c_DisruptionWindow.fld c_DisruptionWindow.fld_ptr c_DisruptionWindow.fld_list c_DisruptionWindow.omit_ptr c_DisruptionWindow.omit_list

definition zero_Overrides :: Overrides where
  "zero_Overrides = \<lparr>ov_EvictionRanking = None, ov_Enabled = None, ov_DisruptionWindows = []\<rparr>"

definition enc_Overrides :: "Overrides \<Rightarrow> json option" where
  "enc_Overrides x = do {
     x0 \<leftarrow> fld (enc_ptr (enc_int 64)) (ov_EvictionRanking x);
     x1 \<leftarrow> fld (enc_ptr enc_bool) (ov_Enabled x);
     x2 \<leftarrow> omitempty (enc_list enc_DisruptionWindow) [] (ov_DisruptionWindows x);
     Some (JObj (present [(''eviction_ranking'', x0), (''enabled'', x1), (''disruption_windows'', x2)])) }"

fun dec_Overrides :: "json \<Rightarrow> Overrides option" where
  "dec_Overrides (JObj kvs) = do {
     x0 \<leftarrow> field_or kvs ''eviction_ranking'' (dec_ptr (dec_int 64)) None;
     x1 \<leftarrow> field_or kvs ''enabled'' (dec_ptr dec_bool) None;
     x2 \<leftarrow> field_or kvs ''disruption_windows'' (dec_list dec_DisruptionWindow) [];
     Some \<lparr>ov_EvictionRanking = x0, ov_Enabled = x1, ov_DisruptionWindows = x2\<rparr> }"
| "dec_Overrides JNull = Some zero_Overrides"
| "dec_Overrides _ = None"

interpretation c_Overrides: json_codec enc_Overrides dec_Overrides
proof
  fix x j assume "enc_Overrides x = Some j"
  then show "dec_Overrides j = Some x"
    by (clarsimp simp: enc_Overrides_def bind_eq_Some_conv simp del: dec_Overrides.simps)
      (simp only: dec_Overrides.simps, (rule bindI, erule codec, simp)+, simp)
qed (auto simp: enc_Overrides_def bind_eq_Some_conv)

lemmas codec_Overrides [codec] = c_Overrides.fld c_Overrides.fld_ptr c_Overrides.fld_list c_Overrides.omit_ptr c_Overrides.omit_list

section \<open>Snapshots and settings\<close>

text \<open>A map of counts. The keys of a Go map are distinct.\<close>

fun enc_entries :: "(string \<times> int) list \<Rightarrow> (string \<times> json) list option" where
  "enc_entries [] = Some []"
| "enc_entries ((k, i) # m) = do { j \<leftarrow> enc_int 64 i; kvs \<leftarrow> enc_entries m; Some ((k, j) # kvs) }"

fun dec_entries :: "(string \<times> json) list \<Rightarrow> (string \<times> int) list option" where
  "dec_entries [] = Some []"
| "dec_entries ((k, j) # kvs) = do { i \<leftarrow> dec_int 64 j; m \<leftarrow> dec_entries kvs;
     Some ((k, i) # filter (\<lambda>(k', _). k' \<noteq> k) m) }"

definition enc_counts :: "(string \<times> int) list \<Rightarrow> json option" where
  "enc_counts m = (if distinct (map fst m) then map_option JObj (enc_entries m) else None)"

fun dec_counts :: "json \<Rightarrow> (string \<times> int) list option" where
  "dec_counts (JObj kvs) = dec_entries kvs"
| "dec_counts JNull = Some []"
| "dec_counts _ = None"

lemma dec_entries: "distinct (map fst m) \<Longrightarrow> enc_entries m = Some kvs \<Longrightarrow> dec_entries kvs = Some m"
proof (induction m arbitrary: kvs)
  case (Cons a m)
  obtain k i where a: "a = (k, i)" by (cases a)
  with Cons.prems obtain j kvs' where "enc_int 64 i = Some j" "enc_entries m = Some kvs'" "kvs = (k, j) # kvs'"
    by (auto simp: bind_eq_Some_conv)
  moreover have "filter (\<lambda>(k', _). k' \<noteq> k) m = m"
    using Cons.prems(1) a by (auto simp: filter_id_conv image_iff split: prod.split)
  ultimately show ?case using Cons.IH Cons.prems(1) a c_int.dec_enc by simp
qed simp

interpretation c_counts: json_codec enc_counts dec_counts
  by unfold_locales (auto simp: enc_counts_def dec_entries split: if_splits)

lemmas codec_counts [codec] = c_counts.fld

definition zero_SnapshotResourceMetrics :: SnapshotResourceMetrics where
  "zero_SnapshotResourceMetrics = \<lparr>sm_CurrentAllocatable = (lit 0), sm_CurrentRequested = (lit 0),
     sm_CurrentUtilized = (lit 0), sm_WorkloadRequested = (lit 0),
     sm_RecommendedRequested = (lit 0)\<rparr>"

definition enc_SnapshotResourceMetrics :: "SnapshotResourceMetrics \<Rightarrow> json option" where
  "enc_SnapshotResourceMetrics x = do {
     x0 \<leftarrow> fld enc_float (sm_CurrentAllocatable x);
     x1 \<leftarrow> fld enc_float (sm_CurrentRequested x);
     x2 \<leftarrow> fld enc_float (sm_CurrentUtilized x);
     x3 \<leftarrow> fld enc_float (sm_WorkloadRequested x);
     x4 \<leftarrow> fld enc_float (sm_RecommendedRequested x);
     Some (JObj (present [(''currentAllocatable'', x0), (''currentRequested'', x1), (''currentUtilized'', x2),
       (''workloadRequested'', x3), (''recommendedRequested'', x4)])) }"

fun dec_SnapshotResourceMetrics :: "json \<Rightarrow> SnapshotResourceMetrics option" where
  "dec_SnapshotResourceMetrics (JObj kvs) = do {
     x0 \<leftarrow> field_or kvs ''currentAllocatable'' dec_float (lit 0);
     x1 \<leftarrow> field_or kvs ''currentRequested'' dec_float (lit 0);
     x2 \<leftarrow> field_or kvs ''currentUtilized'' dec_float (lit 0);
     x3 \<leftarrow> field_or kvs ''workloadRequested'' dec_float (lit 0);
     x4 \<leftarrow> field_or kvs ''recommendedRequested'' dec_float (lit 0);
     Some \<lparr>sm_CurrentAllocatable = x0, sm_CurrentRequested = x1, sm_CurrentUtilized = x2,
       sm_WorkloadRequested = x3, sm_RecommendedRequested = x4\<rparr> }"
| "dec_SnapshotResourceMetrics JNull = Some zero_SnapshotResourceMetrics"
| "dec_SnapshotResourceMetrics _ = None"

interpretation c_SnapshotResourceMetrics: json_codec enc_SnapshotResourceMetrics dec_SnapshotResourceMetrics
proof
  fix x j assume "enc_SnapshotResourceMetrics x = Some j"
  then show "dec_SnapshotResourceMetrics j = Some x"
    by (clarsimp simp: enc_SnapshotResourceMetrics_def bind_eq_Some_conv simp del: dec_SnapshotResourceMetrics.simps)
      (simp only: dec_SnapshotResourceMetrics.simps, (rule bindI, erule codec, simp)+, simp)
qed (auto simp: enc_SnapshotResourceMetrics_def bind_eq_Some_conv)

lemmas codec_SnapshotResourceMetrics [codec] = c_SnapshotResourceMetrics.fld c_SnapshotResourceMetrics.fld_ptr c_SnapshotResourceMetrics.fld_list c_SnapshotResourceMetrics.omit_ptr c_SnapshotResourceMetrics.omit_list

definition zero_SnapshotNodes :: SnapshotNodes where
  "zero_SnapshotNodes = \<lparr>sn_Healthy = 0, sn_Unhealthy = 0\<rparr>"

definition enc_SnapshotNodes :: "SnapshotNodes \<Rightarrow> json option" where
  "enc_SnapshotNodes x = do {
     x0 \<leftarrow> fld (enc_int 64) (sn_Healthy x);
     x1 \<leftarrow> fld (enc_int 64) (sn_Unhealthy x);
     Some (JObj (present [(''healthy'', x0), (''unhealthy'', x1)])) }"

fun dec_SnapshotNodes :: "json \<Rightarrow> SnapshotNodes option" where
  "dec_SnapshotNodes (JObj kvs) = do {
     x0 \<leftarrow> field_or kvs ''healthy'' (dec_int 64) 0;
     x1 \<leftarrow> field_or kvs ''unhealthy'' (dec_int 64) 0;
     Some \<lparr>sn_Healthy = x0, sn_Unhealthy = x1\<rparr> }"
| "dec_SnapshotNodes JNull = Some zero_SnapshotNodes"
| "dec_SnapshotNodes _ = None"

interpretation c_SnapshotNodes: json_codec enc_SnapshotNodes dec_SnapshotNodes
proof
  fix x j assume "enc_SnapshotNodes x = Some j"
  then show "dec_SnapshotNodes j = Some x"
    by (clarsimp simp: enc_SnapshotNodes_def bind_eq_Some_conv simp del: dec_SnapshotNodes.simps)
      (simp only: dec_SnapshotNodes.simps, (rule bindI, erule codec, simp)+, simp)
qed (auto simp: enc_SnapshotNodes_def bind_eq_Some_conv)

lemmas codec_SnapshotNodes [codec] = c_SnapshotNodes.fld c_SnapshotNodes.fld_ptr c_SnapshotNodes.fld_list c_SnapshotNodes.omit_ptr c_SnapshotNodes.omit_list

definition zero_SnapshotData :: SnapshotData where
  "zero_SnapshotData = \<lparr>sd_CPU = zero_SnapshotResourceMetrics, sd_Memory = zero_SnapshotResourceMetrics,
     sd_Nodes = zero_SnapshotNodes, sd_PodsCount = []\<rparr>"

definition enc_SnapshotData :: "SnapshotData \<Rightarrow> json option" where
  "enc_SnapshotData x = do {
     x0 \<leftarrow> fld enc_SnapshotResourceMetrics (sd_CPU x);
     x1 \<leftarrow> fld enc_SnapshotResourceMetrics (sd_Memory x);
     x2 \<leftarrow> fld enc_SnapshotNodes (sd_Nodes x);
     x3 \<leftarrow> fld enc_counts (sd_PodsCount x);
     Some (JObj (present [(''cpu'', x0), (''memory'', x1), (''nodes'', x2), (''podsCount'', x3)])) }"

fun dec_SnapshotData :: "json \<Rightarrow> SnapshotData option" where
  "dec_SnapshotData (JObj kvs) = do {
     x0 \<leftarrow> field_or kvs ''cpu'' dec_SnapshotResourceMetrics zero_SnapshotResourceMetrics;
     x1 \<leftarrow> field_or kvs ''memory'' dec_SnapshotResourceMetrics zero_SnapshotResourceMetrics;
     x2 \<leftarrow> field_or kvs ''nodes'' dec_SnapshotNodes zero_SnapshotNodes;
     x3 \<leftarrow> field_or kvs ''podsCount'' dec_counts [];
     Some \<lparr>sd_CPU = x0, sd_Memory = x1, sd_Nodes = x2, sd_PodsCount = x3\<rparr> }"
| "dec_SnapshotData JNull = Some zero_SnapshotData"
| "dec_SnapshotData _ = None"

interpretation c_SnapshotData: json_codec enc_SnapshotData dec_SnapshotData
proof
  fix x j assume "enc_SnapshotData x = Some j"
  then show "dec_SnapshotData j = Some x"
    by (clarsimp simp: enc_SnapshotData_def bind_eq_Some_conv simp del: dec_SnapshotData.simps)
      (simp only: dec_SnapshotData.simps, (rule bindI, erule codec, simp)+, simp)
qed (auto simp: enc_SnapshotData_def bind_eq_Some_conv)

lemmas codec_SnapshotData [codec] = c_SnapshotData.fld c_SnapshotData.fld_ptr c_SnapshotData.fld_list c_SnapshotData.omit_ptr c_SnapshotData.omit_list

definition zero_ClusterSettings :: ClusterSettings where
  "zero_ClusterSettings = \<lparr>cl_CPUPricePerCorePerHour = (lit 0), cl_MemoryPricePerGBPerHour = (lit 0)\<rparr>"

definition enc_ClusterSettings :: "ClusterSettings \<Rightarrow> json option" where
  "enc_ClusterSettings x = do {
     x0 \<leftarrow> omitempty enc_float (lit 0) (cl_CPUPricePerCorePerHour x);
     x1 \<leftarrow> omitempty enc_float (lit 0) (cl_MemoryPricePerGBPerHour x);
     Some (JObj (present [(''cpuPricePerCorePerHour'', x0), (''memoryPricePerGBPerHour'', x1)])) }"

fun dec_ClusterSettings :: "json \<Rightarrow> ClusterSettings option" where
  "dec_ClusterSettings (JObj kvs) = do {
     x0 \<leftarrow> field_or kvs ''cpuPricePerCorePerHour'' dec_float (lit 0);
     x1 \<leftarrow> field_or kvs ''memoryPricePerGBPerHour'' dec_float (lit 0);
     Some \<lparr>cl_CPUPricePerCorePerHour = x0, cl_MemoryPricePerGBPerHour = x1\<rparr> }"
| "dec_ClusterSettings JNull = Some zero_ClusterSettings"
| "dec_ClusterSettings _ = None"

interpretation c_ClusterSettings: json_codec enc_ClusterSettings dec_ClusterSettings
proof
  fix x j assume "enc_ClusterSettings x = Some j"
  then show "dec_ClusterSettings j = Some x"
    by (clarsimp simp: enc_ClusterSettings_def bind_eq_Some_conv simp del: dec_ClusterSettings.simps)
      (simp only: dec_ClusterSettings.simps, (rule bindI, erule codec, simp)+, simp)
qed (auto simp: enc_ClusterSettings_def bind_eq_Some_conv)

lemmas codec_ClusterSettings [codec] = c_ClusterSettings.fld c_ClusterSettings.fld_ptr c_ClusterSettings.fld_list c_ClusterSettings.omit_ptr c_ClusterSettings.omit_list

definition zero_PodResourceRecommendation :: PodResourceRecommendation where
  "zero_PodResourceRecommendation = \<lparr>rc_CPURequest = (lit 0), rc_MemoryRequest = (lit 0), rc_CPULimit = (lit 0),
     rc_MemoryLimit = (lit 0), rc_ToBeEvicted = False\<rparr>"

definition enc_PodResourceRecommendation :: "PodResourceRecommendation \<Rightarrow> json option" where
  "enc_PodResourceRecommendation x = do {
     x0 \<leftarrow> fld enc_float (rc_CPURequest x);
     x1 \<leftarrow> fld enc_float (rc_MemoryRequest x);
     x2 \<leftarrow> fld enc_float (rc_CPULimit x);
     x3 \<leftarrow> fld enc_float (rc_MemoryLimit x);
     x4 \<leftarrow> fld enc_bool (rc_ToBeEvicted x);
     Some (JObj (present [(''cpu_request'', x0), (''memory_request'', x1), (''cpu_limit'', x2),
       (''memory_limit'', x3), (''to_be_evicted'', x4)])) }"

fun dec_PodResourceRecommendation :: "json \<Rightarrow> PodResourceRecommendation option" where
  "dec_PodResourceRecommendation (JObj kvs) = do {
     x0 \<leftarrow> field_or kvs ''cpu_request'' dec_float (lit 0);
     x1 \<leftarrow> field_or kvs ''memory_request'' dec_float (lit 0);
     x2 \<leftarrow> field_or kvs ''cpu_limit'' dec_float (lit 0);
     x3 \<leftarrow> field_or kvs ''memory_limit'' dec_float (lit 0);
     x4 \<leftarrow> field_or kvs ''to_be_evicted'' dec_bool False;
     Some \<lparr>rc_CPURequest = x0, rc_MemoryRequest = x1, rc_CPULimit = x2, rc_MemoryLimit = x3,
       rc_ToBeEvicted = x4\<rparr> }"
| "dec_PodResourceRecommendation JNull = Some zero_PodResourceRecommendation"
| "dec_PodResourceRecommendation _ = None"

interpretation c_PodResourceRecommendation: json_codec enc_PodResourceRecommendation dec_PodResourceRecommendation
proof
  fix x j assume "enc_PodResourceRecommendation x = Some j"
  then show "dec_PodResourceRecommendation j = Some x"
    by (clarsimp simp: enc_PodResourceRecommendation_def bind_eq_Some_conv simp del: dec_PodResourceRecommendation.simps)
      (simp only: dec_PodResourceRecommendation.simps, (rule bindI, erule codec, simp)+, simp)
qed (auto simp: enc_PodResourceRecommendation_def bind_eq_Some_conv)

lemmas codec_PodResourceRecommendation [codec] = c_PodResourceRecommendation.fld c_PodResourceRecommendation.fld_ptr c_PodResourceRecommendation.fld_list c_PodResourceRecommendation.omit_ptr c_PodResourceRecommendation.omit_list

definition zero_PodCurrentResources :: PodCurrentResources where
  "zero_PodCurrentResources = \<lparr>pc_CPURequest = (lit 0), pc_MemoryRequest = (lit 0), pc_CPULimit = (lit 0),
     pc_MemoryLimit = (lit 0)\<rparr>"

definition enc_PodCurrentResources :: "PodCurrentResources \<Rightarrow> json option" where
  "enc_PodCurrentResources x = do {
     x0 \<leftarrow> fld enc_float (pc_CPURequest x);
     x1 \<leftarrow> fld enc_float (pc_MemoryRequest x);
     x2 \<leftarrow> fld enc_float (pc_CPULimit x);
     x3 \<leftarrow> fld enc_float (pc_MemoryLimit x);
     Some (JObj (present [(''cpu_request'', x0), (''memory_request'', x1), (''cpu_limit'', x2),
       (''memory_limit'', x3)])) }"

fun dec_PodCurrentResources :: "json \<Rightarrow> PodCurrentResources option" where
  "dec_PodCurrentResources (JObj kvs) = do {
     x0 \<leftarrow> field_or kvs ''cpu_request'' dec_float (lit 0);
     x1 \<leftarrow> field_or kvs ''memory_request'' dec_float (lit 0);
     x2 \<leftarrow> field_or kvs ''cpu_limit'' dec_float (lit 0);
     x3 \<leftarrow> field_or kvs ''memory_limit'' dec_float (lit 0);
     Some \<lparr>pc_CPURequest = x0, pc_MemoryRequest = x1, pc_CPULimit = x2, pc_MemoryLimit = x3\<rparr> }"
| "dec_PodCurrentResources JNull = Some zero_PodCurrentResources"
| "dec_PodCurrentResources _ = None"

interpretation c_PodCurrentResources: json_codec enc_PodCurrentResources dec_PodCurrentResources
proof
  fix x j assume "enc_PodCurrentResources x = Some j"
  then show "dec_PodCurrentResources j = Some x"
    by (clarsimp simp: enc_PodCurrentResources_def bind_eq_Some_conv simp del: dec_PodCurrentResources.simps)
      (simp only: dec_PodCurrentResources.simps, (rule bindI, erule codec, simp)+, simp)
qed (auto simp: enc_PodCurrentResources_def bind_eq_Some_conv)

lemmas codec_PodCurrentResources [codec] = c_PodCurrentResources.fld c_PodCurrentResources.fld_ptr c_PodCurrentResources.fld_list c_PodCurrentResources.omit_ptr c_PodCurrentResources.omit_list

end
