(* ===== verification/Database.thy ===== *)
theory Database
  imports Json Keys GoSort Api
begin

text \<open>
  The database of \<^verbatim>\<open>pkg/adapters/database/database.go\<close>: its tables (\<^verbatim>\<open>models.go\<close>) as lists of rows in
  the order of their primary keys, and one function per operation. What GORM adds is written out:
  a condition given as a struct ignores its empty fields, an update or delete without a
  condition is refused, and an upsert reads the first matching row and then updates or inserts.
  The driver may fail each statement: \<open>fault i\<close> is what it answers to the \<open>i\<close>th of an operation.
  Columns that hold JSON hold the document; \<open>None\<close> is the empty text.
\<close>

section \<open>Errors\<close>

datatype store_error =
  ErrWorkloadNotFound string
| ErrOOMEventNotFound string
| ErrSettingsNotFound string
| StoreError string

fun store_wrap :: "string \<Rightarrow> store_error \<Rightarrow> store_error" where
  "store_wrap p (ErrWorkloadNotFound m) = ErrWorkloadNotFound (p @ m)"
| "store_wrap p (ErrOOMEventNotFound m) = ErrOOMEventNotFound (p @ m)"
| "store_wrap p (ErrSettingsNotFound m) = ErrSettingsNotFound (p @ m)"
| "store_wrap p (StoreError m) = StoreError (p @ m)"

fun IsWorkloadNotFound :: "store_error \<Rightarrow> bool" where
  "IsWorkloadNotFound (ErrWorkloadNotFound _) = True"
| "IsWorkloadNotFound _ = False"

fun store_message :: "store_error \<Rightarrow> string" where
  "store_message (ErrWorkloadNotFound m) = m"
| "store_message (ErrOOMEventNotFound m) = m"
| "store_message (ErrSettingsNotFound m) = m"
| "store_message (StoreError m) = m"

type_synonym faults = "nat \<Rightarrow> string option"

definition failed :: "string \<Rightarrow> string \<Rightarrow> store_error" where
  "failed what e = StoreError (what @ '': '' @ e)"

definition ErrMissingWhereClause :: string where
  "ErrMissingWhereClause = ''WHERE conditions required''"

section \<open>Tables\<close>

record WorkloadRow =
  wr_ID :: nat
  wr_ClusterID :: string
  wr_WorkloadID :: string
  wr_Stats :: json
  wr_GeneratedAt :: go_time
  wr_CreatedAt :: go_time
  wr_UpdatedAt :: go_time
  wr_Overrides :: "json option"

record RecommendationRow =
  rr_ID :: nat
  rr_ClusterID :: string
  rr_Row :: PodResourceRecommendationRow

record AuditEventRow =
  ar_ID :: nat
  ar_ClusterID :: string
  ar_Type :: string
  ar_Category :: string
  ar_Payload :: json
  ar_CreatedAt :: go_time

record SnapshotRow =
  sr_ID :: nat
  sr_ClusterID :: string
  sr_Data :: json
  sr_CreatedAt :: go_time

record ClusterRow =
  cl_ID :: nat
  cl_ClusterID :: string
  cl_Settings :: json
  cl_CreatedAt :: go_time
  cl_UpdatedAt :: go_time

record Database =
  db_workloads :: "WorkloadRow list"
  db_oomEvents :: "OOMEvent list"
  db_recommendations :: "RecommendationRow list"
  db_auditEvents :: "AuditEventRow list"
  db_snapshots :: "SnapshotRow list"
  db_clusters :: "ClusterRow list"
  db_nextID :: nat

text \<open>The columns of a row that a new one gets from the database: a key, and empty overrides.\<close>

definition no_overrides :: "json option" where "no_overrides = Some (JObj [])"

section \<open>Workloads: writing\<close>

text \<open>The condition \<^verbatim>\<open>Where(&Workload{ClusterID: c, WorkloadID: w})\<close>.\<close>

definition where_ids :: "string \<Rightarrow> string \<Rightarrow> WorkloadRow \<Rightarrow> bool" where
  "where_ids clusterID workloadID r \<longleftrightarrow>
     (clusterID = '''' \<or> wr_ClusterID r = clusterID) \<and> (workloadID = '''' \<or> wr_WorkloadID r = workloadID)"

definition update_stats :: "json \<Rightarrow> go_time \<Rightarrow> go_time \<Rightarrow> WorkloadRow \<Rightarrow> WorkloadRow" where
  "update_stats statsJSON generatedAt now r =
     r\<lparr>wr_Stats := statsJSON,
       wr_GeneratedAt := (if generatedAt = zero_time then wr_GeneratedAt r else generatedAt),
       wr_UpdatedAt := now\<rparr>"

definition UpsertStat ::
    "go_time \<Rightarrow> faults \<Rightarrow> string \<Rightarrow> string \<Rightarrow> WorkloadStat \<Rightarrow> go_time \<Rightarrow> Database
     \<Rightarrow> store_error option \<times> Database" where
  "UpsertStat now fault clusterID workloadID stat generatedAt db =
     (case enc_WorkloadStat stat of
        None \<Rightarrow> (Some (StoreError ''failed to marshal stats''), db)
      | Some statsJSON \<Rightarrow>
          (case fault 0 of
             Some e \<Rightarrow> (Some (failed ''failed to upsert stats'' e), db)
           | None \<Rightarrow>
               (case fault 1 of
                  Some e \<Rightarrow> (Some (failed ''failed to upsert stats'' e), db)
                | None \<Rightarrow>
                    (case find (where_ids clusterID workloadID) (db_workloads db) of
                       Some row \<Rightarrow>
                         (None, db\<lparr>db_workloads := map (\<lambda>r. if wr_ID r = wr_ID row
                            then update_stats statsJSON generatedAt now r else r) (db_workloads db)\<rparr>)
                     | None \<Rightarrow>
                         (None, db\<lparr>db_workloads := db_workloads db @ [\<lparr>wr_ID = db_nextID db,
                            wr_ClusterID = clusterID, wr_WorkloadID = workloadID, wr_Stats = statsJSON,
                            wr_GeneratedAt = generatedAt, wr_CreatedAt = now, wr_UpdatedAt = now,
                            wr_Overrides = no_overrides\<rparr>],
                            db_nextID := Suc (db_nextID db)\<rparr>)))))"

definition delete_where ::
    "string \<Rightarrow> faults \<Rightarrow> (WorkloadRow \<Rightarrow> bool) \<Rightarrow> Database \<Rightarrow> (store_error + nat) \<times> Database" where
  "delete_where what fault P db =
     (case fault 0 of
        Some e \<Rightarrow> (Inl (failed what e), db)
      | None \<Rightarrow> (Inr (length (filter P (db_workloads db))),
          db\<lparr>db_workloads := filter (\<lambda>r. \<not> P r) (db_workloads db)\<rparr>))"

definition DeleteWorkloadsForCluster :: "faults \<Rightarrow> string \<Rightarrow> Database \<Rightarrow> store_error option \<times> Database" where
  "DeleteWorkloadsForCluster fault clusterID db =
     (if clusterID = '''' then (Some (failed ''failed to delete cluster stats'' ErrMissingWhereClause), db)
      else case delete_where ''failed to delete cluster stats'' fault (where_ids clusterID '''') db of
             (Inl e, db) \<Rightarrow> (Some e, db)
           | (Inr n, db) \<Rightarrow> (None, db))"

definition DeleteWorkload :: "faults \<Rightarrow> string \<Rightarrow> string \<Rightarrow> Database \<Rightarrow> store_error option \<times> Database" where
  "DeleteWorkload fault clusterID workloadID db =
     (if clusterID = '''' \<and> workloadID = ''''
      then (Some (failed ''failed to delete workload stat'' ErrMissingWhereClause), db)
      else case delete_where ''failed to delete workload stat'' fault (where_ids clusterID workloadID) db of
             (Inl e, db) \<Rightarrow> (Some e, db)
           | (Inr n, db) \<Rightarrow> (if n = 0 then Some (StoreError ''workload stat not found'') else None, db))"

definition DeleteWorkloadsNotInCluster ::
    "faults \<Rightarrow> string \<Rightarrow> string list \<Rightarrow> Database \<Rightarrow> (store_error + nat) \<times> Database" where
  "DeleteWorkloadsNotInCluster fault clusterID keepIDs db =
     delete_where ''failed to bulk delete stale workloads'' fault
       (\<lambda>r. wr_ClusterID r = clusterID \<and> (keepIDs = [] \<or> wr_WorkloadID r \<notin> set keepIDs)) db"

definition set_overrides :: "json \<Rightarrow> go_time \<Rightarrow> (WorkloadRow \<Rightarrow> bool) \<Rightarrow> Database \<Rightarrow> Database" where
  "set_overrides overridesJSON now P db =
     db\<lparr>db_workloads := map (\<lambda>r. if P r then r\<lparr>wr_Overrides := Some overridesJSON, wr_UpdatedAt := now\<rparr> else r)
          (db_workloads db)\<rparr>"

definition UpdateStatOverridesForWorkload ::
    "go_time \<Rightarrow> faults \<Rightarrow> string \<Rightarrow> string \<Rightarrow> Overrides option \<Rightarrow> Database \<Rightarrow> store_error option \<times> Database" where
  "UpdateStatOverridesForWorkload now fault clusterID workloadID overrides db =
     (case enc_ptr enc_Overrides overrides of
        None \<Rightarrow> (Some (StoreError ''failed to marshal overrides''), db)
      | Some overridesJSON \<Rightarrow>
          if clusterID = '''' \<and> workloadID = ''''
          then (Some (failed ''failed to update workload overrides'' ErrMissingWhereClause), db)
          else (case fault 0 of
             Some e \<Rightarrow> (Some (failed ''failed to update workload overrides'' e), db)
           | None \<Rightarrow>
               if filter (where_ids clusterID workloadID) (db_workloads db) = []
               then (Some (StoreError (''workload not found: cluster '' @ clusterID @ '', workload '' @ workloadID)), db)
               else (None, set_overrides overridesJSON now (where_ids clusterID workloadID) db)))"

definition BatchUpdateStatOverridesForWorkloads ::
    "go_time \<Rightarrow> faults \<Rightarrow> string \<Rightarrow> string list \<Rightarrow> Overrides option \<Rightarrow> Database
     \<Rightarrow> (store_error + string list) \<times> Database" where
  "BatchUpdateStatOverridesForWorkloads now fault clusterID workloadIDs overrides db =
     (if workloadIDs = [] then (Inr [], db)
      else case enc_ptr enc_Overrides overrides of
        None \<Rightarrow> (Inl (StoreError ''failed to marshal overrides''), db)
      | Some overridesJSON \<Rightarrow>
          (case fault 0 of
             Some e \<Rightarrow> (Inl (failed ''failed to query workloads'' e), db)
           | None \<Rightarrow>
               let foundIDs = map wr_WorkloadID (filter (\<lambda>r. wr_ClusterID r = clusterID \<and>
                     wr_WorkloadID r \<in> set workloadIDs) (db_workloads db))
               in if foundIDs = [] then (Inr foundIDs, db)
                  else (case fault 1 of
                     Some e \<Rightarrow> (Inl (failed ''failed to batch update workload overrides'' e), db)
                   | None \<Rightarrow> (Inr foundIDs, set_overrides overridesJSON now
                       (\<lambda>r. wr_ClusterID r = clusterID \<and> wr_WorkloadID r \<in> set foundIDs) db))))"

section \<open>Workloads: reading\<close>

type_synonym row_sorter = "(WorkloadRow \<Rightarrow> WorkloadRow \<Rightarrow> bool) \<Rightarrow> WorkloadRow list \<Rightarrow> WorkloadRow list"

text \<open>\<^verbatim>\<open>ORDER BY updated_at DESC\<close>; how ties are broken is left to the database.\<close>

definition latest_first :: "row_sorter \<Rightarrow> WorkloadRow list \<Rightarrow> WorkloadRow list" where
  "latest_first srt rows = srt (\<lambda>a b. wr_UpdatedAt b < wr_UpdatedAt a) rows"

definition row_stat :: "WorkloadRow \<Rightarrow> WorkloadStat option" where
  "row_stat r = do { stat \<leftarrow> dec_WorkloadStat (wr_Stats r); Some (stat\<lparr>ws_UpdatedAt := wr_UpdatedAt r\<rparr>) }"

fun row_stats :: "WorkloadRow list \<Rightarrow> store_error + WorkloadStat list" where
  "row_stats [] = Inr []"
| "row_stats (r # rs) =
     (case row_stat r of
        None \<Rightarrow> Inl (StoreError ''failed to unmarshal stats'')
      | Some stat \<Rightarrow> (case row_stats rs of Inl e \<Rightarrow> Inl e | Inr ss \<Rightarrow> Inr (stat # ss)))"

definition GetStatsForCluster ::
    "row_sorter \<Rightarrow> faults \<Rightarrow> string \<Rightarrow> Database \<Rightarrow> store_error + WorkloadStat list" where
  "GetStatsForCluster srt fault clusterID db =
     (case fault 0 of
        Some e \<Rightarrow> Inl (failed ''failed to query cluster stats'' e)
      | None \<Rightarrow> row_stats (latest_first srt (filter (where_ids clusterID '''') (db_workloads db))))"

definition row_overrides :: "WorkloadRow \<Rightarrow> Overrides option option" where
  "row_overrides r =
     (case wr_Overrides r of
        None \<Rightarrow> Some None
      | Some j \<Rightarrow> if j = JObj [] then Some None else map_option Some (dec_Overrides j))"

definition row_workload :: "string \<Rightarrow> WorkloadRow \<Rightarrow> store_error + WorkloadInCluster" where
  "row_workload clusterID r =
     (case row_stat r of
        None \<Rightarrow> Inl (StoreError (''failed to unmarshal stats for workload '' @ wr_WorkloadID r))
      | Some stat \<Rightarrow>
          (case row_overrides r of
             None \<Rightarrow> Inl (StoreError (''failed to unmarshal overrides for workload '' @ wr_WorkloadID r))
           | Some overrides \<Rightarrow> Inr \<lparr>wk_ClusterID = clusterID, wk_WorkloadID = wr_WorkloadID r,
               wk_Stat = Some stat, wk_Overrides = overrides, wk_GeneratedAt = wr_GeneratedAt r,
               wk_CreatedAt = wr_CreatedAt r, wk_UpdatedAt = wr_UpdatedAt r\<rparr>))"

fun row_workloads :: "string \<Rightarrow> WorkloadRow list \<Rightarrow> store_error + WorkloadInCluster list" where
  "row_workloads clusterID [] = Inr []"
| "row_workloads clusterID (r # rs) =
     (case row_workload clusterID r of
        Inl e \<Rightarrow> Inl e
      | Inr w \<Rightarrow> (case row_workloads clusterID rs of Inl e \<Rightarrow> Inl e | Inr ws \<Rightarrow> Inr (w # ws)))"

definition GetWorkloadsInCluster ::
    "row_sorter \<Rightarrow> faults \<Rightarrow> string \<Rightarrow> Database \<Rightarrow> store_error + WorkloadInCluster list" where
  "GetWorkloadsInCluster srt fault clusterID db =
     (case fault 0 of
        Some e \<Rightarrow> Inl (failed ''failed to query workloads for cluster'' e)
      | None \<Rightarrow> row_workloads clusterID
          (latest_first srt (filter (where_ids clusterID '''') (db_workloads db))))"

definition GetStatForWorkload ::
    "faults \<Rightarrow> string \<Rightarrow> string \<Rightarrow> Database \<Rightarrow> store_error + WorkloadStat" where
  "GetStatForWorkload fault clusterID workloadID db =
     (case fault 0 of
        Some e \<Rightarrow> Inl (failed ''failed to query workload stat'' e)
      | None \<Rightarrow>
          (case find (where_ids clusterID workloadID) (db_workloads db) of
             None \<Rightarrow> Inl (ErrWorkloadNotFound (''workload stat not found for cluster '' @ clusterID @
               '', workload '' @ workloadID @ '': workload not found''))
           | Some row \<Rightarrow> (case row_stat row of
                 None \<Rightarrow> Inl (StoreError ''failed to unmarshal stats'')
               | Some stat \<Rightarrow> Inr stat)))"

definition GetStatOverridesForWorkload ::
    "faults \<Rightarrow> string \<Rightarrow> string \<Rightarrow> Database \<Rightarrow> store_error + Overrides" where
  "GetStatOverridesForWorkload fault clusterID workloadID db =
     (case fault 0 of
        Some e \<Rightarrow> Inl (failed ''failed to query workload overrides'' e)
      | None \<Rightarrow>
          (case find (where_ids clusterID workloadID) (db_workloads db) of
             None \<Rightarrow> Inl (ErrWorkloadNotFound (''workload overrides not found for cluster '' @ clusterID @
               '', workload '' @ workloadID @ '': workload not found''))
           | Some row \<Rightarrow>
               (case wr_Overrides row of
                  None \<Rightarrow> Inl (StoreError ''failed to unmarshal overrides: unexpected end of JSON input'')
                | Some j \<Rightarrow> (case dec_Overrides j of
                      None \<Rightarrow> Inl (StoreError ''failed to unmarshal overrides'')
                    | Some overrides \<Rightarrow> Inr overrides))))"

definition count_rows ::
    "string \<Rightarrow> faults \<Rightarrow> (WorkloadRow \<Rightarrow> bool) \<Rightarrow> Database \<Rightarrow> store_error + nat" where
  "count_rows what fault P db =
     (case fault 0 of Some e \<Rightarrow> Inl (failed what e) | None \<Rightarrow> Inr (length (filter P (db_workloads db))))"

definition GetStatCountForCluster :: "faults \<Rightarrow> string \<Rightarrow> Database \<Rightarrow> store_error + nat" where
  "GetStatCountForCluster fault clusterID db =
     count_rows ''failed to count stats'' fault (where_ids clusterID '''') db"

definition getWorkloadCountForCluster :: "faults \<Rightarrow> string \<Rightarrow> string \<Rightarrow> Database \<Rightarrow> store_error + nat" where
  "getWorkloadCountForCluster fault clusterID workloadID db =
     count_rows ''failed to count stats'' fault (where_ids clusterID workloadID) db"

definition positive :: "store_error + nat \<Rightarrow> store_error + bool" where
  "positive r = (case r of Inl e \<Rightarrow> Inl e | Inr n \<Rightarrow> Inr (n > 0))"

definition HasRecentStat ::
    "go_time \<Rightarrow> faults \<Rightarrow> string \<Rightarrow> string \<Rightarrow> int \<Rightarrow> Database \<Rightarrow> store_error + bool" where
  "HasRecentStat now fault clusterID workloadID withinMinutes db =
     positive (count_rows ''failed to check recent stats'' fault
       (\<lambda>r. where_ids clusterID workloadID r \<and> now + - withinMinutes * Minute < wr_GeneratedAt r) db)"

definition HasCluster :: "faults \<Rightarrow> string \<Rightarrow> Database \<Rightarrow> store_error + bool" where
  "HasCluster fault clusterID db = positive (GetStatCountForCluster fault clusterID db)"

definition HasWorkloadForCluster :: "faults \<Rightarrow> string \<Rightarrow> string \<Rightarrow> Database \<Rightarrow> store_error + bool" where
  "HasWorkloadForCluster fault clusterID workloadID db =
     positive (getWorkloadCountForCluster fault clusterID workloadID db)"

section \<open>OOM events\<close>

definition same_oom :: "OOMEvent \<Rightarrow> OOMEvent \<Rightarrow> bool" where
  "same_oom a b \<longleftrightarrow> om_ClusterID a = om_ClusterID b \<and> om_ContainerID a = om_ContainerID b \<and>
     om_Timestamp a = om_Timestamp b"

definition InsertOOMEvent :: "go_time \<Rightarrow> faults \<Rightarrow> OOMEvent \<Rightarrow> Database \<Rightarrow> store_error option \<times> Database" where
  "InsertOOMEvent now fault event db =
     (case fault 0 of
        Some e \<Rightarrow> (Some (failed ''failed to insert OOM event'' e), db)
      | None \<Rightarrow>
          if list_ex (same_oom event) (db_oomEvents db) then (None, db)
          else (None, db\<lparr>db_oomEvents := db_oomEvents db @
                 [event\<lparr>om_ID := db_nextID db, om_CreatedAt := now, om_UpdatedAt := now\<rparr>],
               db_nextID := Suc (db_nextID db)\<rparr>))"

text \<open>The first row by descending time, then by key.\<close>

fun newest :: "OOMEvent list \<Rightarrow> OOMEvent option" where
  "newest [] = None"
| "newest (x # xs) = (case newest xs of
     None \<Rightarrow> Some x | Some y \<Rightarrow> if om_Timestamp x < om_Timestamp y then Some y else Some x)"

definition GetLatestOOMEventForContainer ::
    "faults \<Rightarrow> string \<Rightarrow> string \<Rightarrow> string \<Rightarrow> Database \<Rightarrow> store_error + OOMEvent" where
  "GetLatestOOMEventForContainer fault clusterID containerID podName db =
     (case fault 0 of
        Some e \<Rightarrow> Inl (failed (''failed to get OOM event for container '' @ containerID) e)
      | None \<Rightarrow>
          (case newest (filter (\<lambda>ev. om_ClusterID ev = clusterID \<and> om_ContainerID ev = containerID \<and>
                  om_PodName ev = podName) (db_oomEvents db)) of
             None \<Rightarrow> Inl (ErrOOMEventNotFound (''OOM event not found for container '' @ containerID @
               '': OOM event not found''))
           | Some ev \<Rightarrow> Inr ev))"

text \<open>The SQL operator \<^verbatim>\<open>LIKE\<close>; whether case matters depends on the database.\<close>

fun like :: "(char \<Rightarrow> char \<Rightarrow> bool) \<Rightarrow> string \<Rightarrow> string \<Rightarrow> bool" where
  "like same [] s \<longleftrightarrow> s = []"
| "like same (p # ps) [] \<longleftrightarrow> p = CHR ''%'' \<and> like same ps []"
| "like same (p # ps) (c # s) \<longleftrightarrow>
     (if p = CHR ''%'' then like same ps (c # s) \<or> like same (p # ps) s
      else (p = CHR ''_'' \<or> same p c) \<and> like same ps s)"

type_synonym oom_sorter = "(OOMEvent \<Rightarrow> OOMEvent \<Rightarrow> bool) \<Rightarrow> OOMEvent list \<Rightarrow> OOMEvent list"

definition GetOOMEventsByWorkload ::
    "(char \<Rightarrow> char \<Rightarrow> bool) \<Rightarrow> oom_sorter \<Rightarrow> faults \<Rightarrow> string \<Rightarrow> string \<Rightarrow> go_time \<Rightarrow> Database
     \<Rightarrow> store_error + OOMEvent list" where
  "GetOOMEventsByWorkload same srt fault clusterID workloadID since db =
     (case fault 0 of
        Some e \<Rightarrow> Inl (failed ''failed to query OOM events'' e)
      | None \<Rightarrow> Inr (srt (\<lambda>a b. om_Timestamp b < om_Timestamp a)
          (filter (\<lambda>ev. om_ClusterID ev = clusterID \<and> like same (workloadID @ '':%'') (om_ContainerID ev) \<and>
             since \<le> om_Timestamp ev) (db_oomEvents db))))"

definition DeleteOldOOMEvents ::
    "faults \<Rightarrow> string \<Rightarrow> go_time \<Rightarrow> Database \<Rightarrow> (store_error + nat) \<times> Database" where
  "DeleteOldOOMEvents fault clusterID olderThan db =
     (let old = (\<lambda>ev. om_ClusterID ev = clusterID \<and> om_Timestamp ev < olderThan)
      in case fault 0 of
           Some e \<Rightarrow> (Inl (failed ''failed to delete old OOM events'' e), db)
         | None \<Rightarrow> (Inr (length (filter old (db_oomEvents db))),
             db\<lparr>db_oomEvents := filter (\<lambda>ev. \<not> old ev) (db_oomEvents db)\<rparr>))"

section \<open>Recommendations\<close>

text \<open>The rows are inserted a hundred at a time, in a transaction that any failure rolls back.\<close>

definition batches :: "nat \<Rightarrow> nat" where "batches n = (n + 99) div 100"

fun number_rows :: "nat \<Rightarrow> string \<Rightarrow> PodResourceRecommendationRow list \<Rightarrow> RecommendationRow list" where
  "number_rows i clusterID [] = []"
| "number_rows i clusterID (r # rs) =
     \<lparr>rr_ID = i, rr_ClusterID = clusterID, rr_Row = r\<rparr> # number_rows (Suc i) clusterID rs"

definition SavePodRecommendations ::
    "faults \<Rightarrow> string \<Rightarrow> PodResourceRecommendationRow list option \<Rightarrow> Database
     \<Rightarrow> store_error option \<times> Database" where
  "SavePodRecommendations fault clusterID rows db =
     (case rows of
        None \<Rightarrow> (Some (StoreError ''rows cannot be nil''), db)
      | Some rows \<Rightarrow>
          (case find (\<lambda>i. fault i \<noteq> None) [0 ..< batches (length rows) + 2] of
             Some i \<Rightarrow> (Some (failed ''failed to save pod recommendations'' (the (fault i))), db)
           | None \<Rightarrow> (None, db\<lparr>db_recommendations :=
               filter (\<lambda>r. rr_ClusterID r \<noteq> clusterID) (db_recommendations db) @
                 number_rows (db_nextID db) clusterID rows,
               db_nextID := db_nextID db + length rows\<rparr>)))"

definition GetPodRecommendationsForCluster ::
    "faults \<Rightarrow> string \<Rightarrow> Database \<Rightarrow> store_error + PodResourceRecommendationRow list" where
  "GetPodRecommendationsForCluster fault clusterID db =
     (case fault 0 of
        Some e \<Rightarrow> Inl (failed ''failed to get pod recommendations for cluster'' e)
      | None \<Rightarrow> Inr (map rr_Row (filter (\<lambda>r. rr_ClusterID r = clusterID) (db_recommendations db))))"

definition GetPodRecommendationsForWorkload ::
    "faults \<Rightarrow> string \<Rightarrow> string \<Rightarrow> Database \<Rightarrow> store_error + PodResourceRecommendationRow list" where
  "GetPodRecommendationsForWorkload fault clusterID workloadID db =
     (case fault 0 of
        Some e \<Rightarrow> Inl (failed ''failed to get pod recommendations for workload'' e)
      | None \<Rightarrow> Inr (map rr_Row (filter (\<lambda>r. rr_ClusterID r = clusterID \<and> rw_WorkloadID (rr_Row r) = workloadID)
          (db_recommendations db))))"

section \<open>Audit events\<close>

fun enc_audit_value :: "audit_value \<Rightarrow> json option"
  and enc_audit_map :: "(string \<times> audit_value) list \<Rightarrow> (string \<times> json) list option"
  and enc_audit_list :: "audit_value list \<Rightarrow> json list option" where
  "enc_audit_value (AStr s) = Some (JStr s)"
| "enc_audit_value (AInt i) = Some (JInt i)"
| "enc_audit_value (ANum x) = enc_float x"
| "enc_audit_value (AMap m) = map_option JObj (enc_audit_map m)"
| "enc_audit_value (AList l) = map_option JArr (enc_audit_list l)"
| "enc_audit_map [] = Some []"
| "enc_audit_map ((k, v) # m) = do { j \<leftarrow> enc_audit_value v; kvs \<leftarrow> enc_audit_map m; Some ((k, j) # kvs) }"
| "enc_audit_list [] = Some []"
| "enc_audit_list (v # l) = do { j \<leftarrow> enc_audit_value v; js \<leftarrow> enc_audit_list l; Some (j # js) }"

definition enc_AuditPayload :: "AuditEvent \<Rightarrow> json option" where
  "enc_AuditPayload ev = do {
     details \<leftarrow> enc_audit_map (ae_Details ev);
     Some (JObj (present
       [(''message'', if ae_Message ev = '''' then None else Some (JStr (ae_Message ev))),
        (''target'', if ae_Target ev = [] then None
                     else Some (JObj (map (\<lambda>(k, v). (k, JStr v)) (ae_Target ev)))),
        (''details'', if details = [] then None else Some (JObj details))])) }"

definition InsertAuditEvent ::
    "go_time \<Rightarrow> faults \<Rightarrow> string \<Rightarrow> AuditEvent \<Rightarrow> Database \<Rightarrow> store_error option \<times> Database" where
  "InsertAuditEvent now fault clusterID event db =
     (if clusterID = '''' then (Some (StoreError ''audit event cluster ID cannot be empty''), db)
      else if ae_Type event = '''' then (Some (StoreError ''audit event type cannot be empty''), db)
      else if ae_Category event = '''' then (Some (StoreError ''audit event category cannot be empty''), db)
      else case enc_AuditPayload event of
        None \<Rightarrow> (Some (StoreError ''failed to marshal audit payload''), db)
      | Some payloadJSON \<Rightarrow>
          if payloadJSON = JObj [] \<or> payloadJSON = JNull
          then (Some (StoreError ''audit event payload cannot be empty''), db)
          else (case fault 0 of
             Some e \<Rightarrow> (Some (failed ''failed to insert audit event'' e), db)
           | None \<Rightarrow> (None, db\<lparr>db_auditEvents := db_auditEvents db @ [\<lparr>ar_ID = db_nextID db,
               ar_ClusterID = clusterID, ar_Type = ae_Type event, ar_Category = ae_Category event,
               ar_Payload = payloadJSON, ar_CreatedAt = now\<rparr>], db_nextID := Suc (db_nextID db)\<rparr>)))"

type_synonym audit_sorter = "(AuditEventRow \<Rightarrow> AuditEventRow \<Rightarrow> bool) \<Rightarrow> AuditEventRow list \<Rightarrow> AuditEventRow list"

text \<open>A payload that is no object with these fields is left out.\<close>

definition payload_ok :: "json \<Rightarrow> bool" where
  "payload_ok j = (case j of
     JNull \<Rightarrow> True
   | JObj kvs \<Rightarrow> field_or kvs ''message'' dec_string '''' \<noteq> None \<and>
       (case lookup kvs ''details'' of None \<Rightarrow> True | Some JNull \<Rightarrow> True | Some (JObj _) \<Rightarrow> True | _ \<Rightarrow> False)
   | _ \<Rightarrow> False)"

definition GetAuditEvents ::
    "audit_sorter \<Rightarrow> faults \<Rightarrow> string \<Rightarrow> go_time \<Rightarrow> Database \<Rightarrow> store_error + AuditEventRow list" where
  "GetAuditEvents srt fault clusterID since db =
     (case fault 0 of
        Some e \<Rightarrow> Inl (failed (''failed to get audit events for cluster '' @ clusterID) e)
      | None \<Rightarrow> Inr (filter (\<lambda>r. payload_ok (ar_Payload r)) (srt (\<lambda>a b. ar_CreatedAt b < ar_CreatedAt a)
          (filter (\<lambda>r. ar_ClusterID r = clusterID \<and> since \<le> ar_CreatedAt r) (db_auditEvents db)))))"

text \<open>The workload of an audit event; a value that is not text is compared as the database prints it.\<close>

definition payload_workload :: "(json \<Rightarrow> string option) \<Rightarrow> json \<Rightarrow> string option" where
  "payload_workload as_text j =
     (case j of
        JObj kvs \<Rightarrow> (case lookup kvs ''details'' of
           Some (JObj details) \<Rightarrow> (case lookup details ''workloadId'' of
              Some (JStr s) \<Rightarrow> Some s | Some v \<Rightarrow> as_text v | None \<Rightarrow> None)
         | _ \<Rightarrow> None)
      | _ \<Rightarrow> None)"

definition GetAuditEventsForWorkload ::
    "(json \<Rightarrow> string option) \<Rightarrow> audit_sorter \<Rightarrow> faults \<Rightarrow> string \<Rightarrow> string \<Rightarrow> go_time \<Rightarrow> Database
     \<Rightarrow> store_error + AuditEventRow list" where
  "GetAuditEventsForWorkload as_text srt fault clusterID workloadID since db =
     (case fault 0 of
        Some e \<Rightarrow> Inl (failed (''failed to get audit events for cluster '' @ clusterID @ '' workload '' @ workloadID) e)
      | None \<Rightarrow> Inr (filter (\<lambda>r. payload_ok (ar_Payload r)) (srt (\<lambda>a b. ar_CreatedAt b < ar_CreatedAt a)
          (filter (\<lambda>r. ar_ClusterID r = clusterID \<and> payload_workload as_text (ar_Payload r) = Some workloadID \<and>
             since \<le> ar_CreatedAt r) (db_auditEvents db)))))"

definition DeleteOldAuditEvents ::
    "faults \<Rightarrow> string \<Rightarrow> go_time \<Rightarrow> Database \<Rightarrow> (store_error + nat) \<times> Database" where
  "DeleteOldAuditEvents fault clusterID olderThan db =
     (let old = (\<lambda>r. ar_ClusterID r = clusterID \<and> ar_CreatedAt r < olderThan)
      in case fault 0 of
           Some e \<Rightarrow> (Inl (failed ''failed to delete old audit events'' e), db)
         | None \<Rightarrow> (Inr (length (filter old (db_auditEvents db))),
             db\<lparr>db_auditEvents := filter (\<lambda>r. \<not> old r) (db_auditEvents db)\<rparr>))"

section \<open>Snapshots and settings\<close>

definition InsertSnapshot ::
    "go_time \<Rightarrow> faults \<Rightarrow> (string \<times> SnapshotData) option \<Rightarrow> Database \<Rightarrow> store_error option \<times> Database" where
  "InsertSnapshot now fault snapshot db =
     (case snapshot of
        None \<Rightarrow> (Some (StoreError ''snapshot cannot be nil''), db)
      | Some (clusterID, data) \<Rightarrow>
          if clusterID = '''' then (Some (StoreError ''snapshot cluster ID cannot be empty''), db)
          else (case enc_SnapshotData data of
             None \<Rightarrow> (Some (StoreError ''failed to marshal snapshot data''), db)
           | Some dataJSON \<Rightarrow>
               (case fault 0 of
                  Some e \<Rightarrow> (Some (failed ''failed to insert node snapshot'' e), db)
                | None \<Rightarrow> (None, db\<lparr>db_snapshots := db_snapshots db @ [\<lparr>sr_ID = db_nextID db,
                    sr_ClusterID = clusterID, sr_Data = dataJSON, sr_CreatedAt = now\<rparr>],
                    db_nextID := Suc (db_nextID db)\<rparr>))))"

type_synonym snapshot_sorter = "(SnapshotRow \<Rightarrow> SnapshotRow \<Rightarrow> bool) \<Rightarrow> SnapshotRow list \<Rightarrow> SnapshotRow list"

fun snapshot_records :: "SnapshotRow list \<Rightarrow> (string \<times> SnapshotData \<times> go_time) list" where
  "snapshot_records [] = []"
| "snapshot_records (r # rs) =
     (case dec_SnapshotData (sr_Data r) of
        None \<Rightarrow> snapshot_records rs
      | Some data \<Rightarrow> (sr_ClusterID r, data, sr_CreatedAt r) # snapshot_records rs)"

definition GetSnapshotsInRange ::
    "snapshot_sorter \<Rightarrow> faults \<Rightarrow> string \<Rightarrow> go_time \<Rightarrow> go_time \<Rightarrow> Database
     \<Rightarrow> store_error + (string \<times> SnapshotData \<times> go_time) list" where
  "GetSnapshotsInRange srt fault clusterID startTime endTime db =
     (case fault 0 of
        Some e \<Rightarrow> Inl (failed (''failed to get snapshots for cluster '' @ clusterID) e)
      | None \<Rightarrow> Inr (snapshot_records (srt (\<lambda>a b. sr_CreatedAt a < sr_CreatedAt b)
          (filter (\<lambda>r. sr_ClusterID r = clusterID \<and> startTime \<le> sr_CreatedAt r \<and> sr_CreatedAt r \<le> endTime)
             (db_snapshots db)))))"

definition DeleteOldSnapshots ::
    "faults \<Rightarrow> string \<Rightarrow> go_time \<Rightarrow> Database \<Rightarrow> (store_error + nat) \<times> Database" where
  "DeleteOldSnapshots fault clusterID olderThan db =
     (let old = (\<lambda>r. sr_ClusterID r = clusterID \<and> sr_CreatedAt r < olderThan)
      in case fault 0 of
           Some e \<Rightarrow> (Inl (failed ''failed to delete old snapshots'' e), db)
         | None \<Rightarrow> (Inr (length (filter old (db_snapshots db))),
             db\<lparr>db_snapshots := filter (\<lambda>r. \<not> old r) (db_snapshots db)\<rparr>))"

definition GetClusterSettings :: "faults \<Rightarrow> string \<Rightarrow> Database \<Rightarrow> store_error + ClusterSettings" where
  "GetClusterSettings fault clusterID db =
     (case fault 0 of
        Some e \<Rightarrow> Inl (failed (''failed to get settings for cluster '' @ clusterID) e)
      | None \<Rightarrow>
          (case find (\<lambda>r. cl_ClusterID r = clusterID) (db_clusters db) of
             None \<Rightarrow> Inl (ErrSettingsNotFound (''settings not found for cluster '' @ clusterID @
               '': cluster settings not found''))
           | Some row \<Rightarrow> (case dec_ClusterSettings (cl_Settings row) of
                 None \<Rightarrow> Inl (StoreError (''failed to parse settings JSON for cluster '' @ clusterID))
               | Some settings \<Rightarrow> Inr settings)))"

definition UpdateClusterSettings ::
    "go_time \<Rightarrow> faults \<Rightarrow> string \<Rightarrow> ClusterSettings option \<Rightarrow> Database \<Rightarrow> store_error option \<times> Database" where
  "UpdateClusterSettings now fault clusterID settings db =
     (case enc_ptr enc_ClusterSettings settings of
        None \<Rightarrow> (Some (StoreError (''failed to serialize settings for cluster '' @ clusterID)), db)
      | Some data \<Rightarrow>
          (case fault 0 of
             Some e \<Rightarrow> (Some (failed (''failed to upsert settings for cluster '' @ clusterID) e), db)
           | None \<Rightarrow>
               if list_ex (\<lambda>r. cl_ClusterID r = clusterID) (db_clusters db)
               then (None, db\<lparr>db_clusters := map (\<lambda>r. if cl_ClusterID r = clusterID
                      then r\<lparr>cl_Settings := data, cl_UpdatedAt := now\<rparr> else r) (db_clusters db)\<rparr>)
               else (None, db\<lparr>db_clusters := db_clusters db @ [\<lparr>cl_ID = db_nextID db,
                      cl_ClusterID = clusterID, cl_Settings = data, cl_CreatedAt = now, cl_UpdatedAt = now\<rparr>],
                      db_nextID := Suc (db_nextID db)\<rparr>)))"

end
