(* ===== verification/Storage.thy ===== *)
theory Storage
  imports Database
begin

text \<open>
  The repository of \<^verbatim>\<open>pkg/repository/storage/storage.go\<close> over the database, and the task of
  \<^verbatim>\<open>pkg/task/taskcleanup.go\<close> that removes old rows. The tables of workloads and of settings are
  stores of values under keys: the locale \<open>kv_store\<close> states that contract, and what the
  repository does by several operations is proved from it. The state of the database is followed
  through every operation by a step relation.
\<close>

section \<open>Operations\<close>

text \<open>\<^verbatim>\<open>strings.ReplaceAll(s, "/", ":")\<close>.\<close>

definition slashes_to_colons :: "string \<Rightarrow> string" where
  "slashes_to_colons s = map (\<lambda>c. if c = CHR ''/'' then CHR '':'' else c) s"

text \<open>\<open>faults i\<close> is what the driver answers to the \<open>i\<close>th upsert.\<close>

fun WriteClusterStats ::
    "go_time \<Rightarrow> (nat \<Rightarrow> faults) \<Rightarrow> string \<Rightarrow> WorkloadStat list \<Rightarrow> go_time \<Rightarrow> Database
     \<Rightarrow> store_error option \<times> Database" where
  "WriteClusterStats now faults clusterID [] generatedAt db = (None, db)"
| "WriteClusterStats now faults clusterID (stat # stats) generatedAt db =
     (let workloadID = slashes_to_colons (ws_WorkloadIdentifier stat)
      in case UpsertStat now (faults 0) clusterID workloadID stat generatedAt db of
           (Some e, db) \<Rightarrow> (Some (store_wrap (''failed to write workload stat '' @ workloadID @ '': '') e), db)
         | (None, db) \<Rightarrow> WriteClusterStats now (\<lambda>i. faults (Suc i)) clusterID stats generatedAt db)"

definition wrap_result :: "string \<Rightarrow> store_error + 'a \<Rightarrow> store_error + 'a" where
  "wrap_result p r = (case r of Inl e \<Rightarrow> Inl (store_wrap p e) | Inr x \<Rightarrow> Inr x)"

definition ReadClusterStats ::
    "row_sorter \<Rightarrow> faults \<Rightarrow> string \<Rightarrow> Database \<Rightarrow> store_error + WorkloadStat list" where
  "ReadClusterStats srt fault clusterID db =
     wrap_result ''failed to read cluster stats: '' (GetStatsForCluster srt fault clusterID db)"

definition GetAllStatsForCluster ::
    "row_sorter \<Rightarrow> faults \<Rightarrow> string \<Rightarrow> Database \<Rightarrow> store_error + WorkloadStat list" where
  "GetAllStatsForCluster srt fault clusterID db =
     wrap_result ''failed to get stats for cluster: '' (GetStatsForCluster srt fault clusterID db)"

definition GetStat :: "faults \<Rightarrow> string \<Rightarrow> string \<Rightarrow> Database \<Rightarrow> store_error + WorkloadStat" where
  "GetStat fault clusterID workloadID db =
     (case GetStatForWorkload fault clusterID workloadID db of
        Inl e \<Rightarrow> if IsWorkloadNotFound e
          then Inl (ErrWorkloadNotFound (''workload '' @ workloadID @ '' not found in cluster '' @ clusterID @
                 '': workload not found''))
          else Inl (store_wrap (''get stat for workload '' @ workloadID @ '' in cluster '' @ clusterID @ '': '') e)
      | Inr stat \<Rightarrow> Inr stat)"

definition UpdateWorkloadOverrides ::
    "go_time \<Rightarrow> faults \<Rightarrow> faults \<Rightarrow> string \<Rightarrow> string \<Rightarrow> Overrides option \<Rightarrow> Database
     \<Rightarrow> store_error option \<times> Database" where
  "UpdateWorkloadOverrides now fault_has fault clusterID workloadID overrides db =
     (case HasWorkloadForCluster fault_has clusterID workloadID db of
        Inl e \<Rightarrow> (Some (store_wrap ''failed to get stats record: '' e), db)
      | Inr False \<Rightarrow> (Some (ErrWorkloadNotFound (''workload '' @ workloadID @ '' not found in cluster '' @
            clusterID @ '': workload not found'')), db)
      | Inr True \<Rightarrow>
          (case UpdateStatOverridesForWorkload now fault clusterID workloadID overrides db of
             (Some e, db) \<Rightarrow> (Some (store_wrap ''failed to update workload overrides: '' e), db)
           | (None, db) \<Rightarrow> (None, db)))"

definition BatchUpdateWorkloadOverrides ::
    "go_time \<Rightarrow> faults \<Rightarrow> string \<Rightarrow> string list \<Rightarrow> Overrides option \<Rightarrow> Database
     \<Rightarrow> (store_error + string list \<times> string list) \<times> Database" where
  "BatchUpdateWorkloadOverrides now fault clusterID workloadIDs overrides db =
     (case BatchUpdateStatOverridesForWorkloads now fault clusterID workloadIDs overrides db of
        (Inl e, db) \<Rightarrow> (Inl (store_wrap ''failed to batch update workload overrides: '' e), db)
      | (Inr updatedIDs, db) \<Rightarrow> (Inr (updatedIDs, filter (\<lambda>i. i \<notin> set updatedIDs) workloadIDs), db))"

definition GetWorkloadOverrides :: "faults \<Rightarrow> string \<Rightarrow> string \<Rightarrow> Database \<Rightarrow> store_error + Overrides" where
  "GetWorkloadOverrides fault clusterID workloadID db =
     wrap_result ''failed to get workload overrides: '' (GetStatOverridesForWorkload fault clusterID workloadID db)"

definition GetWorkloads ::
    "row_sorter \<Rightarrow> faults \<Rightarrow> string \<Rightarrow> Database \<Rightarrow> store_error + WorkloadInCluster list" where
  "GetWorkloads srt fault clusterID db =
     wrap_result ''failed to get workloads for cluster: '' (GetWorkloadsInCluster srt fault clusterID db)"

definition DeleteStaleWorkloads ::
    "faults \<Rightarrow> string \<Rightarrow> string list \<Rightarrow> Database \<Rightarrow> (store_error + nat) \<times> Database" where
  "DeleteStaleWorkloads fault clusterID currentWorkloadIds db =
     (case DeleteWorkloadsNotInCluster fault clusterID currentWorkloadIds db of
        (r, db) \<Rightarrow> (wrap_result ''failed to delete stale workloads: '' r, db))"

definition GetLatestOOMEvent ::
    "faults \<Rightarrow> string \<Rightarrow> string \<Rightarrow> string \<Rightarrow> Database \<Rightarrow> store_error + OOMEvent" where
  "GetLatestOOMEvent fault clusterID containerID podName db =
     (case GetLatestOOMEventForContainer fault clusterID containerID podName db of
        Inl (ErrOOMEventNotFound m) \<Rightarrow> Inl (ErrOOMEventNotFound (''no OOM event for container '' @ containerID @
          '' in pod '' @ podName @ '': OOM event not found''))
      | Inl e \<Rightarrow> Inl (store_wrap (''get latest OOM event for container '' @ containerID @ '' in pod '' @
          podName @ '': '') e)
      | Inr ev \<Rightarrow> Inr ev)"

text \<open>The first container of the name gets the memory, in MB.\<close>

fun set_oom_memory :: "string \<Rightarrow> int \<Rightarrow> ContainerStats list \<Rightarrow> ContainerStats list option" where
  "set_oom_memory containerName oomMemoryBytes [] = None"
| "set_oom_memory containerName oomMemoryBytes (c # cs) =
     (if cs_ContainerName c = containerName
      then let m = (case cs_MemoryStats c of None \<Rightarrow> zero_MemoryStats | Some m \<Rightarrow> m)
           in Some (c\<lparr>cs_MemoryStats := Some (m\<lparr>mem_OOMMemory :=
                 fdiv (f64_of_int oomMemoryBytes) (lit 1000000)\<rparr>)\<rparr> # cs)
      else map_option ((#) c) (set_oom_memory containerName oomMemoryBytes cs))"

definition UpdateOOMMemoryForContainer ::
    "go_time \<Rightarrow> faults \<Rightarrow> faults \<Rightarrow> string \<Rightarrow> string \<Rightarrow> string \<Rightarrow> int \<Rightarrow> Database
     \<Rightarrow> store_error option \<times> Database" where
  "UpdateOOMMemoryForContainer now fault_get fault clusterID workloadID containerName oomMemoryBytes db =
     (case GetStat fault_get clusterID workloadID db of
        Inl e \<Rightarrow> (Some (store_wrap ''failed to get stat for workload: '' e), db)
      | Inr stat \<Rightarrow>
          (case set_oom_memory containerName oomMemoryBytes (ws_ContainerStats stat) of
             None \<Rightarrow> (Some (StoreError (''container '' @ containerName @ '' not found in workload '' @
               workloadID @ '' stats'')), db)
           | Some cs \<Rightarrow>
               (case UpsertStat now fault clusterID workloadID (stat\<lparr>ws_ContainerStats := cs\<rparr>) now db of
                  (Some e, db) \<Rightarrow> (Some (store_wrap ''failed to update stat with OOM memory: '' e), db)
                | (None, db) \<Rightarrow> (None, db))))"

definition days :: "int \<Rightarrow> go_time" where "days n = n * 24 * Hour"

definition DeleteOldOOM :: "go_time \<Rightarrow> faults \<Rightarrow> string \<Rightarrow> int \<Rightarrow> Database \<Rightarrow> (store_error + nat) \<times> Database" where
  "DeleteOldOOM now fault clusterID retentionDays db =
     (case DeleteOldOOMEvents fault clusterID (now - days retentionDays) db of
        (r, db) \<Rightarrow> (wrap_result ''failed to delete old OOM events: '' r, db))"

definition DeleteOldAudit :: "go_time \<Rightarrow> faults \<Rightarrow> string \<Rightarrow> int \<Rightarrow> Database \<Rightarrow> (store_error + nat) \<times> Database" where
  "DeleteOldAudit now fault clusterID retentionDays db =
     (case DeleteOldAuditEvents fault clusterID (now - days retentionDays) db of
        (r, db) \<Rightarrow> (wrap_result ''failed to delete old audit events: '' r, db))"

definition DeleteOldSnapshotRows :: "go_time \<Rightarrow> faults \<Rightarrow> string \<Rightarrow> int \<Rightarrow> Database \<Rightarrow> (store_error + nat) \<times> Database" where
  "DeleteOldSnapshotRows now fault clusterID retentionDays db =
     (case DeleteOldSnapshots fault clusterID (now - days retentionDays) db of
        (r, db) \<Rightarrow> (wrap_result ''failed to delete old snapshots: '' r, db))"

definition GetSettings :: "faults \<Rightarrow> string \<Rightarrow> Database \<Rightarrow> store_error + ClusterSettings" where
  "GetSettings fault clusterID db =
     (case GetClusterSettings fault clusterID db of
        Inl (ErrSettingsNotFound m) \<Rightarrow>
          Inl (ErrSettingsNotFound (''no settings for cluster '' @ clusterID @ '': cluster settings not found''))
      | Inl e \<Rightarrow> Inl (store_wrap (''get settings for cluster '' @ clusterID @ '': '') e)
      | Inr settings \<Rightarrow> Inr settings)"

definition UpdateSettings ::
    "go_time \<Rightarrow> faults \<Rightarrow> string \<Rightarrow> ClusterSettings option \<Rightarrow> Database \<Rightarrow> store_error option \<times> Database" where
  "UpdateSettings now fault clusterID settings db =
     (case UpdateClusterSettings now fault clusterID settings db of
        (Some e, db) \<Rightarrow> (Some (store_wrap ''failed to upsert settings: '' e), db)
      | (None, db) \<Rightarrow> (None, db))"

text \<open>Reads that only add a text to an error.\<close>

definition LoadClusterRecommendations ::
    "faults \<Rightarrow> string \<Rightarrow> Database \<Rightarrow> store_error + PodResourceRecommendationRow list" where
  "LoadClusterRecommendations fault clusterID db =
     wrap_result ''failed to get pod recommendations for cluster: '' (GetPodRecommendationsForCluster fault clusterID db)"

definition LoadWorkloadRecommendations ::
    "faults \<Rightarrow> string \<Rightarrow> string \<Rightarrow> Database \<Rightarrow> store_error + PodResourceRecommendationRow list" where
  "LoadWorkloadRecommendations fault clusterID workloadID db =
     wrap_result ''failed to get pod recommendations for workload: ''
       (GetPodRecommendationsForWorkload fault clusterID workloadID db)"

definition LoadSnapshotsInRange ::
    "snapshot_sorter \<Rightarrow> faults \<Rightarrow> string \<Rightarrow> go_time \<Rightarrow> go_time \<Rightarrow> Database
     \<Rightarrow> store_error + (string \<times> SnapshotData \<times> go_time) list" where
  "LoadSnapshotsInRange srt fault clusterID startTime endTime db =
     wrap_result (''failed to get snapshots for cluster '' @ clusterID @ '' in range: '')
       (GetSnapshotsInRange srt fault clusterID startTime endTime db)"

definition LoadAuditEvents ::
    "audit_sorter \<Rightarrow> faults \<Rightarrow> string \<Rightarrow> go_time \<Rightarrow> Database \<Rightarrow> store_error + AuditEventRow list" where
  "LoadAuditEvents srt fault clusterID since db =
     wrap_result (''failed to get audit events for cluster '' @ clusterID @ '': '')
       (GetAuditEvents srt fault clusterID since db)"

definition LoadAuditEventsForWorkload ::
    "(json \<Rightarrow> string option) \<Rightarrow> audit_sorter \<Rightarrow> faults \<Rightarrow> string \<Rightarrow> string \<Rightarrow> go_time \<Rightarrow> Database
     \<Rightarrow> store_error + AuditEventRow list" where
  "LoadAuditEventsForWorkload as_text srt fault clusterID workloadID since db =
     wrap_result (''failed to get audit events for workload '' @ workloadID @ '': '')
       (GetAuditEventsForWorkload as_text srt fault clusterID workloadID since db)"

section \<open>Cleaning up\<close>

text \<open>One retention for the three tables; a failure of one does not keep the others from it.\<close>

definition Cleanup_Run ::
    "go_time \<Rightarrow> faults \<Rightarrow> faults \<Rightarrow> faults \<Rightarrow> string \<Rightarrow> int \<Rightarrow> Database \<Rightarrow> store_error list \<times> Database" where
  "Cleanup_Run now fault_oom fault_audit fault_snapshots clusterID retentionDays db =
     (let (r1, db) = DeleteOldOOM now fault_oom clusterID retentionDays db;
          (r2, db) = DeleteOldAudit now fault_audit clusterID retentionDays db;
          (r3, db) = DeleteOldSnapshotRows now fault_snapshots clusterID retentionDays db;
          errs = (\<lambda>p r. case r of Inl e \<Rightarrow> [store_wrap p e] | Inr n \<Rightarrow> [])
      in (errs ''failed to cleanup old OOM events: '' r1 @ errs ''failed to cleanup old audit events: '' r2 @
          errs ''failed to cleanup old snapshots: '' r3, db))"

end
