(* ===== verification/StorageSpec.thy ===== *)
theory StorageSpec
  imports Storage
begin

text \<open>
  What the repository of \<^verbatim>\<open>pkg/repository/storage/storage.go\<close> promises its users. The tables of
  workloads and of settings are stores of values under keys: the locale \<open>kv_store\<close> states that
  contract and is interpreted on both. Every operation on the database is a step of a transition
  relation, whose reachable states keep the keys of each table unique.
\<close>

section \<open>Stores of values under keys\<close>

locale kv_store =
  fixes ok :: "'s \<Rightarrow> bool" and good :: "'k \<Rightarrow> 'v \<Rightarrow> bool"
    and get :: "'k \<Rightarrow> 's \<Rightarrow> 'v option" and put :: "'k \<Rightarrow> 'v \<Rightarrow> 's \<Rightarrow> 's"
  assumes put_ok: "ok s \<Longrightarrow> good k v \<Longrightarrow> ok (put k v s)"
    and get_put: "ok s \<Longrightarrow> good k v \<Longrightarrow> get k' (put k v s) = (if k' = k then Some v else get k' s)"
begin

definition puts :: "('k \<times> 'v) list \<Rightarrow> 's \<Rightarrow> 's" where
  "puts kvs s = foldl (\<lambda>s (k, v). put k v s) s kvs"

lemma puts_simps [simp]:
  "puts [] s = s"
  "puts ((k, v) # kvs) s = puts kvs (put k v s)"
  by (simp_all add: puts_def)

lemma puts_ok: "ok s \<Longrightarrow> \<forall>(k, v) \<in> set kvs. good k v \<Longrightarrow> ok (puts kvs s)"
  by (induction kvs arbitrary: s) (auto simp: put_ok)

lemma get_puts:
  "ok s \<Longrightarrow> \<forall>(k, v) \<in> set kvs. good k v \<Longrightarrow>
   get k (puts kvs s) = (case map_of (rev kvs) k of Some v \<Rightarrow> Some v | None \<Rightarrow> get k s)"
proof (induction kvs arbitrary: s)
  case (Cons a kvs)
  obtain k' v' where a: "a = (k', v')" by (cases a)
  with Cons.prems have g: "good k' v'" "ok (put k' v' s)" by (auto simp: put_ok)
  then show ?case
    using Cons.IH [OF g(2)] Cons.prems a get_put [OF Cons.prems(1) g(1)]
    by (auto simp: map_add_def split: option.split)
qed simp

lemma put_idle: "ok s \<Longrightarrow> good k v \<Longrightarrow> get k s = Some v \<Longrightarrow> get k' (put k v s) = get k' s"
  by (auto simp: get_put)

end

section \<open>Keys of the tables\<close>

definition row_key :: "WorkloadRow \<Rightarrow> string \<times> string" where
  "row_key r = (wr_ClusterID r, wr_WorkloadID r)"

definition db_ok :: "Database \<Rightarrow> bool" where
  "db_ok db \<longleftrightarrow> distinct (map row_key (db_workloads db)) \<and>
     sorted_wrt (<) (map wr_ID (db_workloads db)) \<and> (\<forall>r \<in> set (db_workloads db). wr_ID r < db_nextID db) \<and>
     distinct (map cl_ClusterID (db_clusters db)) \<and>
     distinct (map (\<lambda>e. (om_ClusterID e, om_ContainerID e, om_Timestamp e)) (db_oomEvents db))"

definition workload_at :: "Database \<Rightarrow> string \<Rightarrow> string \<Rightarrow> WorkloadRow option" where
  "workload_at db clusterID workloadID =
     find (\<lambda>r. row_key r = (clusterID, workloadID)) (db_workloads db)"

lemma where_ids_key:
  "c \<noteq> [] \<Longrightarrow> w \<noteq> [] \<Longrightarrow> where_ids c w = (\<lambda>r. row_key r = (c, w))"
  by (auto simp: where_ids_def row_key_def)

lemma find_map: "(\<And>x. P (f x) = P x) \<Longrightarrow> find P (map f xs) = map_option f (find P xs)"
  by (induction xs) auto

lemma find_unique: "distinct (map f xs) \<Longrightarrow> x \<in> set xs \<Longrightarrow> find (\<lambda>y. f y = f x) xs = Some x"
  by (induction xs) (auto simp: image_iff)

lemma find_in: "find P xs = Some x \<Longrightarrow> x \<in> set xs \<and> P x"
  by (auto simp: find_Some_iff)

lemma find_append: "find P (xs @ ys) = (case find P xs of Some x \<Rightarrow> Some x | None \<Rightarrow> find P ys)"
  by (induction xs) auto

lemma find_filter: "find P (filter Q xs) = find (\<lambda>x. Q x \<and> P x) xs"
  by (induction xs) auto

lemma sorted_wrt_ids: "sorted_wrt (<) (map f (xs :: 'a list)) \<Longrightarrow> distinct (map (f :: 'a \<Rightarrow> nat) xs)"
  by (induction xs) auto

lemma update_stats_simps [simp]:
  "row_key (update_stats j g now r) = row_key r"
  "wr_ID (update_stats j g now r) = wr_ID r"
  "wr_Overrides (update_stats j g now r) = wr_Overrides r"
  "wr_CreatedAt (update_stats j g now r) = wr_CreatedAt r"
  "wr_Stats (update_stats j g now r) = j"
  "wr_UpdatedAt (update_stats j g now r) = now"
  by (simp_all add: update_stats_def row_key_def)

definition new_row :: "nat \<Rightarrow> string \<Rightarrow> string \<Rightarrow> json \<Rightarrow> go_time \<Rightarrow> go_time \<Rightarrow> WorkloadRow" where
  "new_row i c w j g now = \<lparr>wr_ID = i, wr_ClusterID = c, wr_WorkloadID = w, wr_Stats = j,
     wr_GeneratedAt = g, wr_CreatedAt = now, wr_UpdatedAt = now, wr_Overrides = no_overrides\<rparr>"

lemma UpsertStat_SomeD:
  assumes "UpsertStat now fault c w stat g db = (None, db')"
  obtains j where "enc_WorkloadStat stat = Some j"
    "db' = (case find (where_ids c w) (db_workloads db) of
       Some row \<Rightarrow> db\<lparr>db_workloads := map (\<lambda>r. if wr_ID r = wr_ID row then update_stats j g now r else r)
         (db_workloads db)\<rparr>
     | None \<Rightarrow> db\<lparr>db_workloads := db_workloads db @ [new_row (db_nextID db) c w j g now],
         db_nextID := Suc (db_nextID db)\<rparr>)"
  using assms by (auto simp: UpsertStat_def new_row_def split: option.splits)

lemma UpsertStat_error: "UpsertStat now fault c w stat g db = (Some e, db') \<Longrightarrow> db' = db"
  by (auto simp: UpsertStat_def split: option.splits)

lemma same_id:
  assumes "db_ok db" "r \<in> set (db_workloads db)" "r' \<in> set (db_workloads db)" "wr_ID r = wr_ID r'"
  shows "r = r'"
proof -
  have "distinct (map wr_ID (db_workloads db))"
    using assms(1) sorted_wrt_ids unfolding db_ok_def by blast
  then show ?thesis using assms(2-4) by (auto simp: distinct_map inj_on_def)
qed

lemma db_ok_rows:
  assumes "db_ok db" "\<And>r. row_key (f r) = row_key r" "\<And>r. wr_ID (f r) = wr_ID r"
  shows "db_ok (db\<lparr>db_workloads := map f (db_workloads db)\<rparr>)"
proof -
  have "row_key \<circ> f = row_key" "wr_ID \<circ> f = wr_ID" using assms(2,3) by auto
  then show ?thesis using assms by (simp add: db_ok_def)
qed

lemma UpsertStat_at:
  assumes ok: "db_ok db" and ne: "c \<noteq> []" "w \<noteq> []"
    and run: "UpsertStat now fault c w stat g db = (None, db')"
  shows "\<exists>j. enc_WorkloadStat stat = Some j \<and>
    workload_at db' c w = Some (case workload_at db c w of
      Some r \<Rightarrow> update_stats j g now r | None \<Rightarrow> new_row (db_nextID db) c w j g now) \<and>
    (\<forall>c' w'. (c', w') \<noteq> (c, w) \<longrightarrow> workload_at db' c' w' = workload_at db c' w')"
proof -
  obtain j where j: "enc_WorkloadStat stat = Some j"
    and db': "db' = (case find (where_ids c w) (db_workloads db) of
       Some row \<Rightarrow> db\<lparr>db_workloads := map (\<lambda>r. if wr_ID r = wr_ID row then update_stats j g now r else r)
         (db_workloads db)\<rparr>
     | None \<Rightarrow> db\<lparr>db_workloads := db_workloads db @ [new_row (db_nextID db) c w j g now],
         db_nextID := Suc (db_nextID db)\<rparr>)"
    using UpsertStat_SomeD [OF run] by blast
  note wk = where_ids_key [OF ne]
  have key: "row_key (new_row i c w j g now) = (c, w)" for i by (simp add: new_row_def row_key_def)
  show ?thesis
  proof (cases "workload_at db c w")
    case None
    then have "find (where_ids c w) (db_workloads db) = None" by (simp add: wk workload_at_def)
    then show ?thesis using j None key by (auto simp: db' workload_at_def find_append split: option.split)
  next
    case (Some row)
    then have f: "find (where_ids c w) (db_workloads db) = Some row" by (simp add: wk workload_at_def)
    let ?f = "\<lambda>r. if wr_ID r = wr_ID row then update_stats j g now r else r"
    have "workload_at db' c' w' = map_option ?f (workload_at db c' w')" for c' w'
      unfolding workload_at_def db' f by (simp add: find_map)
    moreover have "row_key row = (c, w)" using find_in [OF f] by (simp add: wk)
    moreover have "?f r = r" if "workload_at db c' w' = Some r" "(c', w') \<noteq> (c, w)" for r c' w'
      using same_id [OF ok] find_in [OF f] that find_in [of _ "db_workloads db" r]
      by (fastforce simp: workload_at_def wk)
    moreover have "?f row = update_stats j g now row" by simp
    ultimately show ?thesis using j Some
      by (intro exI [of _ j]) (auto simp: map_option_case split: option.split)
  qed
qed

lemma UpsertStat_ok:
  assumes "db_ok db" "UpsertStat now fault c w stat g db = (res, db')"
  shows "db_ok db'"
proof (cases res)
  case (Some e)
  then show ?thesis using UpsertStat_error assms by blast
next
  case None
  obtain j where db': "db' = (case find (where_ids c w) (db_workloads db) of
       Some row \<Rightarrow> db\<lparr>db_workloads := map (\<lambda>r. if wr_ID r = wr_ID row then update_stats j g now r else r)
         (db_workloads db)\<rparr>
     | None \<Rightarrow> db\<lparr>db_workloads := db_workloads db @ [new_row (db_nextID db) c w j g now],
         db_nextID := Suc (db_nextID db)\<rparr>)"
    using UpsertStat_SomeD [OF assms(2) [unfolded None]] by blast
  show ?thesis
  proof (cases "find (where_ids c w) (db_workloads db)")
    case None
    then have "(c, w) \<notin> set (map row_key (db_workloads db))"
      by (auto simp: where_ids_def row_key_def find_None_iff)
    then show ?thesis using assms(1) None
      by (auto simp: db' db_ok_def new_row_def row_key_def sorted_wrt_append less_Suc_eq)
  next
    case (Some row)
    show ?thesis unfolding db' Some by (simp, rule db_ok_rows [OF assms(1)]) simp_all
  qed
qed

section \<open>Workloads and settings as stores\<close>

definition stat_good :: "string \<times> string \<Rightarrow> WorkloadStat \<Rightarrow> bool" where
  "stat_good k stat \<longleftrightarrow> fst k \<noteq> [] \<and> snd k \<noteq> [] \<and> enc_WorkloadStat stat \<noteq> None"

definition stat_at :: "string \<times> string \<Rightarrow> Database \<Rightarrow> WorkloadStat option" where
  "stat_at k db = do { r \<leftarrow> workload_at db (fst k) (snd k); dec_WorkloadStat (wr_Stats r) }"

definition stat_put :: "go_time \<Rightarrow> go_time \<Rightarrow> string \<times> string \<Rightarrow> WorkloadStat \<Rightarrow> Database \<Rightarrow> Database" where
  "stat_put now generatedAt k stat db = snd (UpsertStat now (\<lambda>_. None) (fst k) (snd k) stat generatedAt db)"

lemma stat_at_upsert:
  assumes "db_ok db" "c \<noteq> []" "w \<noteq> []" "UpsertStat now fault c w stat g db = (None, db')"
  shows "stat_at k db' = (if k = (c, w) then Some stat else stat_at k db)"
proof -
  obtain j where j: "enc_WorkloadStat stat = Some j"
    and at: "workload_at db' c w = Some (case workload_at db c w of
      Some r \<Rightarrow> update_stats j g now r | None \<Rightarrow> new_row (db_nextID db) c w j g now)"
    and other: "\<forall>c' w'. (c', w') \<noteq> (c, w) \<longrightarrow> workload_at db' c' w' = workload_at db c' w'"
    using UpsertStat_at [OF assms] by blast
  show ?thesis
  proof (cases "k = (c, w)")
    case True
    then show ?thesis using at c_WorkloadStat.dec_enc [OF j]
      by (simp add: stat_at_def new_row_def split: option.split)
  next
    case False
    then show ?thesis using other by (cases k) (auto simp: stat_at_def)
  qed
qed

lemma upsert_succeeds:
  "enc_WorkloadStat stat \<noteq> None \<Longrightarrow> UpsertStat now (\<lambda>_. None) c w stat g db =
     (None, snd (UpsertStat now (\<lambda>_. None) c w stat g db))"
  by (auto simp: UpsertStat_def split: option.split)

interpretation workloads: kv_store db_ok stat_good stat_at "stat_put now generatedAt"
proof
  fix s k v assume s: "db_ok s" "stat_good k v"
  show "db_ok (stat_put now generatedAt k v s)"
    unfolding stat_put_def by (rule UpsertStat_ok [OF s(1)]) (rule prod.collapse [symmetric])
  show "stat_at k' (stat_put now generatedAt k v s) = (if k' = k then Some v else stat_at k' s)" for k'
    using stat_at_upsert [OF s(1) _ _ upsert_succeeds, of "fst k" "snd k" v] s(2)
    by (simp add: stat_good_def stat_put_def)
qed

definition settings_good :: "string \<Rightarrow> ClusterSettings \<Rightarrow> bool" where
  "settings_good c s \<longleftrightarrow> enc_ClusterSettings s \<noteq> None"

definition settings_at :: "string \<Rightarrow> Database \<Rightarrow> ClusterSettings option" where
  "settings_at c db = do { r \<leftarrow> find (\<lambda>r. cl_ClusterID r = c) (db_clusters db); dec_ClusterSettings (cl_Settings r) }"

definition settings_put :: "go_time \<Rightarrow> string \<Rightarrow> ClusterSettings \<Rightarrow> Database \<Rightarrow> Database" where
  "settings_put now c s db = snd (UpdateClusterSettings now (\<lambda>_. None) c (Some s) db)"

lemma cluster_keys_upd:
  "map cl_ClusterID (map (\<lambda>r. if cl_ClusterID r = c then r\<lparr>cl_Settings := d, cl_UpdatedAt := t\<rparr> else r) rs) =
   map cl_ClusterID rs"
  by (induction rs) auto

interpretation settings: kv_store db_ok settings_good settings_at "settings_put now"
proof
  fix s k v assume s: "db_ok s" "settings_good k v"
  then obtain j where j: "enc_ClusterSettings v = Some j" by (auto simp: settings_good_def)
  let ?f = "\<lambda>r. if cl_ClusterID r = k then r\<lparr>cl_Settings := j, cl_UpdatedAt := now\<rparr> else r"
  show "db_ok (settings_put now k v s)"
  proof (cases "list_ex (\<lambda>r. cl_ClusterID r = k) (db_clusters s)")
    case True
    then show ?thesis using s(1) j
      by (simp add: settings_put_def UpdateClusterSettings_def enc_ptr_def db_ok_def cluster_keys_upd del: map_map)
  next
    case False
    then show ?thesis using s(1) j
      by (auto simp: settings_put_def UpdateClusterSettings_def enc_ptr_def db_ok_def list_ex_iff less_Suc_eq)
  qed
  show "settings_at k' (settings_put now k v s) = (if k' = k then Some v else settings_at k' s)" for k'
  proof (cases "list_ex (\<lambda>r. cl_ClusterID r = k) (db_clusters s)")
    case True
    have "settings_at k' (settings_put now k v s) =
        Option.bind (find (\<lambda>r. cl_ClusterID r = k') (map ?f (db_clusters s))) (\<lambda>r. dec_ClusterSettings (cl_Settings r))"
      using True j by (simp add: settings_at_def settings_put_def UpdateClusterSettings_def enc_ptr_def)
    also have "find (\<lambda>r. cl_ClusterID r = k') (map ?f (db_clusters s)) =
        map_option ?f (find (\<lambda>r. cl_ClusterID r = k') (db_clusters s))"
      by (rule find_map) simp
    finally have eq: "settings_at k' (settings_put now k v s) =
        Option.bind (map_option ?f (find (\<lambda>r. cl_ClusterID r = k') (db_clusters s)))
          (\<lambda>r. dec_ClusterSettings (cl_Settings r))" .
    have "find (\<lambda>r. cl_ClusterID r = k) (db_clusters s) \<noteq> None"
      using True by (auto simp: find_None_iff list_ex_iff)
    then show ?thesis unfolding eq settings_at_def [of k' s] using c_ClusterSettings.dec_enc [OF j]
      by (cases "find (\<lambda>r. cl_ClusterID r = k') (db_clusters s)") (auto dest: find_in)
  next
    case False
    then have "find (\<lambda>r. cl_ClusterID r = k) (db_clusters s) = None"
      by (auto simp: find_None_iff list_ex_iff)
    then show ?thesis using False j c_ClusterSettings.dec_enc [OF j]
      by (auto simp: settings_at_def settings_put_def UpdateClusterSettings_def enc_ptr_def find_append
          split: option.split)
  qed
qed

section \<open>Steps of the database\<close>

datatype db_op =
  OpUpsertStat go_time faults string string WorkloadStat go_time
| OpDeleteCluster faults string
| OpDeleteWorkload faults string string
| OpDeleteStale faults string "string list"
| OpSetOverrides go_time faults string string "Overrides option"
| OpBatchOverrides go_time faults string "string list" "Overrides option"
| OpInsertOOM go_time faults OOMEvent
| OpDeleteOldOOM faults string go_time
| OpSaveRecommendations faults string "PodResourceRecommendationRow list option"
| OpInsertAudit go_time faults string AuditEvent
| OpDeleteOldAudit faults string go_time
| OpInsertSnapshot go_time faults "(string \<times> SnapshotData) option"
| OpDeleteOldSnapshots faults string go_time
| OpUpdateSettings go_time faults string "ClusterSettings option"

fun exec :: "db_op \<Rightarrow> Database \<Rightarrow> Database" where
  "exec (OpUpsertStat now f c w stat g) db = snd (UpsertStat now f c w stat g db)"
| "exec (OpDeleteCluster f c) db = snd (DeleteWorkloadsForCluster f c db)"
| "exec (OpDeleteWorkload f c w) db = snd (DeleteWorkload f c w db)"
| "exec (OpDeleteStale f c ids) db = snd (DeleteWorkloadsNotInCluster f c ids db)"
| "exec (OpSetOverrides now f c w ov) db = snd (UpdateStatOverridesForWorkload now f c w ov db)"
| "exec (OpBatchOverrides now f c ids ov) db = snd (BatchUpdateStatOverridesForWorkloads now f c ids ov db)"
| "exec (OpInsertOOM now f ev) db = snd (InsertOOMEvent now f ev db)"
| "exec (OpDeleteOldOOM f c t) db = snd (DeleteOldOOMEvents f c t db)"
| "exec (OpSaveRecommendations f c rows) db = snd (SavePodRecommendations f c rows db)"
| "exec (OpInsertAudit now f c ev) db = snd (InsertAuditEvent now f c ev db)"
| "exec (OpDeleteOldAudit f c t) db = snd (DeleteOldAuditEvents f c t db)"
| "exec (OpInsertSnapshot now f s) db = snd (InsertSnapshot now f s db)"
| "exec (OpDeleteOldSnapshots f c t) db = snd (DeleteOldSnapshots f c t db)"
| "exec (OpUpdateSettings now f c s) db = snd (UpdateClusterSettings now f c s db)"

definition empty_db :: Database where
  "empty_db = \<lparr>db_workloads = [], db_oomEvents = [], db_recommendations = [], db_auditEvents = [],
     db_snapshots = [], db_clusters = [], db_nextID = 1\<rparr>"

inductive reachable :: "Database \<Rightarrow> bool" where
  start: "reachable empty_db"
| step: "reachable db \<Longrightarrow> reachable (exec op db)"

lemma delete_where_effect:
  "db_workloads (snd (delete_where what f P db)) \<in> {db_workloads db, filter (\<lambda>r. \<not> P r) (db_workloads db)}"
  "db_ok db \<Longrightarrow> db_ok (snd (delete_where what f P db))"
  by (auto simp: delete_where_def db_ok_def distinct_map_filter sorted_wrt_filter inj_on_def distinct_map
      sorted_wrt_map split: option.split)

lemma set_overrides_ok: "db_ok db \<Longrightarrow> db_ok (set_overrides j now P db)"
  unfolding set_overrides_def by (rule db_ok_rows) (simp_all add: row_key_def)

lemma settings_upd_ok: "db_ok db \<Longrightarrow> db_ok (snd (UpdateClusterSettings now f c s db))"
proof (cases "enc_ptr enc_ClusterSettings s")
  case (Some j)
  assume "db_ok db"
  then show ?thesis using Some
    by (auto simp: UpdateClusterSettings_def db_ok_def cluster_keys_upd list_ex_iff less_Suc_eq
        simp del: map_map split: option.split)
qed (simp add: UpdateClusterSettings_def)

lemma oom_insert_ok:
  assumes "db_ok db"
  shows "db_ok (snd (InsertOOMEvent now f ev db))"
proof -
  have "(om_ClusterID ev, om_ContainerID ev, om_Timestamp ev) \<notin>
      (\<lambda>e. (om_ClusterID e, om_ContainerID e, om_Timestamp e)) ` set (db_oomEvents db)"
    if "\<not> list_ex (same_oom ev) (db_oomEvents db)"
    using that by (auto simp: list_ex_iff same_oom_def)
  then show ?thesis using assms
    by (auto simp: InsertOOMEvent_def db_ok_def less_Suc_eq split: option.split)
qed

lemma db_ok_other:
  assumes "db_ok db" "db_workloads db' = db_workloads db" "db_clusters db' = db_clusters db"
    "db_oomEvents db' = db_oomEvents db" "db_nextID db \<le> db_nextID db'"
  shows "db_ok db'"
  using assms by (auto simp: db_ok_def)

lemma exec_ok: "db_ok db \<Longrightarrow> db_ok (exec op db)"
proof (cases op)
  case (OpUpsertStat now f c w stat g)
  assume ok: "db_ok db"
  show ?thesis unfolding OpUpsertStat exec.simps by (rule UpsertStat_ok [OF ok prod.collapse [symmetric]])
next
  case (OpDeleteCluster f c)
  assume "db_ok db"
  then show ?thesis using OpDeleteCluster
      delete_where_effect(2) [of db "''failed to delete cluster stats''" f "where_ids c ''''"]
    by (auto simp: DeleteWorkloadsForCluster_def split: prod.split sum.split)
next
  case (OpDeleteWorkload f c w)
  assume "db_ok db"
  then show ?thesis using OpDeleteWorkload
      delete_where_effect(2) [of db "''failed to delete workload stat''" f "where_ids c w"]
    by (auto simp: DeleteWorkload_def split: prod.split sum.split)
next
  case (OpDeleteStale f c ids)
  assume "db_ok db"
  then show ?thesis using OpDeleteStale delete_where_effect(2) by (simp add: DeleteWorkloadsNotInCluster_def)
next
  case (OpSetOverrides now f c w ov)
  assume "db_ok db"
  then show ?thesis using OpSetOverrides
    by (auto simp: UpdateStatOverridesForWorkload_def set_overrides_ok split: option.split)
next
  case (OpBatchOverrides now f c ids ov)
  assume "db_ok db"
  then show ?thesis using OpBatchOverrides
    by (auto simp: BatchUpdateStatOverridesForWorkloads_def set_overrides_ok Let_def split: option.split)
next
  case (OpDeleteOldOOM f c t)
  assume "db_ok db"
  then show ?thesis using OpDeleteOldOOM
    by (auto simp: DeleteOldOOMEvents_def db_ok_def distinct_map_filter Let_def split: option.split)
next
  case (OpSaveRecommendations f c rows)
  assume "db_ok db"
  then show ?thesis using OpSaveRecommendations
    by (auto simp: SavePodRecommendations_def intro: db_ok_other split: option.split)
next
  case (OpInsertAudit now f c ev)
  assume "db_ok db"
  then show ?thesis using OpInsertAudit
    by (auto simp: InsertAuditEvent_def intro: db_ok_other split: option.split)
next
  case (OpDeleteOldAudit f c t)
  assume "db_ok db"
  then show ?thesis using OpDeleteOldAudit
    by (auto simp: DeleteOldAuditEvents_def Let_def intro: db_ok_other split: option.split)
next
  case (OpInsertSnapshot now f s)
  assume "db_ok db"
  then show ?thesis using OpInsertSnapshot
    by (auto simp: InsertSnapshot_def intro: db_ok_other split: option.split)
next
  case (OpDeleteOldSnapshots f c t)
  assume "db_ok db"
  then show ?thesis using OpDeleteOldSnapshots
    by (auto simp: DeleteOldSnapshots_def Let_def intro: db_ok_other split: option.split)
qed (simp_all add: oom_insert_ok settings_upd_ok)

lemma reachable_ok: "reachable db \<Longrightarrow> db_ok db"
  by (induction rule: reachable.induct) (simp_all add: exec_ok, simp add: db_ok_def empty_db_def)

section \<open>Keeping what users set\<close>

text \<open>What of a row the user sees as configured.\<close>

definition overrides_at :: "Database \<Rightarrow> string \<Rightarrow> string \<Rightarrow> json option option" where
  "overrides_at db c w = map_option wr_Overrides (workload_at db c w)"

text \<open>Whether an operation may set the overrides of a workload or remove it.\<close>

fun touches :: "string \<Rightarrow> string \<Rightarrow> db_op \<Rightarrow> bool" where
  "touches c w (OpDeleteCluster f c') \<longleftrightarrow> c' = c"
| "touches c w (OpDeleteWorkload f c' w') \<longleftrightarrow> (c' = '''' \<or> c' = c) \<and> (w' = '''' \<or> w' = w)"
| "touches c w (OpDeleteStale f c' ids) \<longleftrightarrow> c' = c \<and> w \<notin> set ids"
| "touches c w (OpSetOverrides now f c' w' ov) \<longleftrightarrow> (c' = '''' \<or> c' = c) \<and> (w' = '''' \<or> w' = w)"
| "touches c w (OpBatchOverrides now f c' ids ov) \<longleftrightarrow> c' = c \<and> w \<in> set ids"
| "touches c w _ \<longleftrightarrow> False"

lemma overrides_same_rows: "db_workloads db' = db_workloads db \<Longrightarrow> overrides_at db' c w = overrides_at db c w"
  by (simp add: overrides_at_def workload_at_def)

lemma overrides_map:
  assumes "\<And>r. row_key (f r) = row_key r" "\<And>r. row_key r = (c, w) \<Longrightarrow> wr_Overrides (f r) = wr_Overrides r"
  shows "overrides_at (db\<lparr>db_workloads := map f (db_workloads db)\<rparr>) c w = overrides_at db c w"
proof (cases "workload_at db c w")
  case (Some r)
  then have "row_key r = (c, w)" by (auto simp: workload_at_def dest: find_in)
  then show ?thesis using Some assms by (simp add: overrides_at_def workload_at_def find_map)
qed (simp add: overrides_at_def workload_at_def find_map assms(1))

lemma overrides_filter:
  assumes "\<And>r. row_key r = (c, w) \<Longrightarrow> P r"
  shows "overrides_at (db\<lparr>db_workloads := filter P (db_workloads db)\<rparr>) c w = overrides_at db c w"
proof -
  have "(\<lambda>r. P r \<and> row_key r = (c, w)) = (\<lambda>r. row_key r = (c, w))" using assms by auto
  then show ?thesis by (simp add: overrides_at_def workload_at_def find_filter)
qed

lemma overrides_delete:
  "(\<And>r. row_key r = (c, w) \<Longrightarrow> \<not> P r) \<Longrightarrow> overrides_at (snd (delete_where what f P db)) c w = overrides_at db c w"
  using overrides_filter [of c w "\<lambda>r. \<not> P r"] by (simp add: delete_where_def split: option.split)

lemma overrides_set:
  "(\<And>r. row_key r = (c, w) \<Longrightarrow> \<not> P r) \<Longrightarrow> overrides_at (set_overrides j now P db) c w = overrides_at db c w"
  unfolding set_overrides_def by (rule overrides_map) (auto simp: row_key_def)

lemma overrides_upsert:
  assumes "overrides_at db c w \<noteq> None"
  shows "overrides_at (snd (UpsertStat now f c' w' stat g db)) c w = overrides_at db c w"
proof (cases "UpsertStat now f c' w' stat g db")
  case (Pair res db')
  show ?thesis
  proof (cases res)
    case (Some e)
    then show ?thesis using Pair UpsertStat_error [of now f c' w' stat g db e db'] by simp
  next
    case None
    obtain j where db': "db' = (case find (where_ids c' w') (db_workloads db) of
       Some row \<Rightarrow> db\<lparr>db_workloads := map (\<lambda>r. if wr_ID r = wr_ID row then update_stats j g now r else r)
         (db_workloads db)\<rparr>
     | None \<Rightarrow> db\<lparr>db_workloads := db_workloads db @ [new_row (db_nextID db) c' w' j g now],
         db_nextID := Suc (db_nextID db)\<rparr>)"
      using UpsertStat_SomeD Pair None by blast
    show ?thesis
    proof (cases "find (where_ids c' w') (db_workloads db)")
      case None
      then show ?thesis using assms Pair
        by (auto simp: db' overrides_at_def workload_at_def find_append split: option.splits)
    next
      case (Some row)
      then show ?thesis using Pair by (simp add: db', intro overrides_map) simp_all
    qed
  qed
qed

lemma exec_overrides:
  assumes "\<not> touches c w op" "overrides_at db c w \<noteq> None"
  shows "overrides_at (exec op db) c w = overrides_at db c w"
proof (cases op)
  case (OpUpsertStat now f c' w' stat g)
  then show ?thesis using overrides_upsert [OF assms(2)] by simp
next
  case (OpDeleteCluster f c')
  have "overrides_at (snd (delete_where ''failed to delete cluster stats'' f (where_ids c' '''') db)) c w =
      overrides_at db c w" if "c' \<noteq> ''''"
    using assms(1) OpDeleteCluster that by (intro overrides_delete) (auto simp: row_key_def where_ids_def)
  then show ?thesis using OpDeleteCluster
    by (auto simp: DeleteWorkloadsForCluster_def split: prod.split sum.split)
next
  case (OpDeleteWorkload f c' w')
  have "overrides_at (snd (delete_where ''failed to delete workload stat'' f (where_ids c' w') db)) c w =
      overrides_at db c w"
    using assms(1) OpDeleteWorkload by (intro overrides_delete) (auto simp: row_key_def where_ids_def)
  then show ?thesis using OpDeleteWorkload
    by (auto simp: DeleteWorkload_def split: prod.split sum.split)
next
  case (OpDeleteStale f c' ids)
  then show ?thesis using assms(1)
    by (auto simp: DeleteWorkloadsNotInCluster_def row_key_def intro: overrides_delete)
next
  case (OpSetOverrides now f c' w' ov)
  have "overrides_at (set_overrides j now (where_ids c' w') db) c w = overrides_at db c w" for j
    using assms(1) OpSetOverrides by (intro overrides_set) (auto simp: row_key_def where_ids_def)
  then show ?thesis using OpSetOverrides
    by (auto simp: UpdateStatOverridesForWorkload_def split: option.split)
next
  case (OpBatchOverrides now f c' ids ov)
  have keep: "overrides_at (set_overrides j now P db) c w = overrides_at db c w"
    if "\<And>r. P r \<Longrightarrow> wr_ClusterID r = c' \<and> wr_WorkloadID r \<in> set ids" for j P
    using assms(1) OpBatchOverrides that by (intro overrides_set) (auto simp: row_key_def)
  then show ?thesis using OpBatchOverrides
    by (auto simp: BatchUpdateStatOverridesForWorkloads_def Let_def intro!: keep split: option.split)
qed (auto simp: InsertOOMEvent_def DeleteOldOOMEvents_def SavePodRecommendations_def InsertAuditEvent_def
    DeleteOldAuditEvents_def InsertSnapshot_def DeleteOldSnapshots_def UpdateClusterSettings_def Let_def
    intro: overrides_same_rows split: option.split)

section \<open>Properties\<close>

text \<open>C15. In every state the database can reach, whatever operations were carried out and whatever
  the driver answered, a workload has one row, a cluster one settings row, and an OOM event is
  recorded once.\<close>

theorem keys_unique:
  assumes "reachable db"
  shows "(\<forall>r \<in> set (db_workloads db). \<forall>r' \<in> set (db_workloads db).
      wr_ClusterID r = wr_ClusterID r' \<longrightarrow> wr_WorkloadID r = wr_WorkloadID r' \<longrightarrow> r = r') \<and>
    distinct (map cl_ClusterID (db_clusters db)) \<and>
    distinct (map (\<lambda>e. (om_ClusterID e, om_ContainerID e, om_Timestamp e)) (db_oomEvents db))"
  using reachable_ok [OF assms] by (auto simp: db_ok_def distinct_map inj_on_def row_key_def)

definition sample_event :: AuditEvent where
  "sample_event = \<lparr>ae_Type = ''Normal'', ae_Category = ''OOM_EVENT'', ae_Message = ''m'', ae_Target = [],
     ae_Details = [(''workloadId'', AStr ''w'')]\<rparr>"

lemma keys_unique_witness:
  "distinct (map cl_ClusterID (db_clusters (exec (OpUpdateSettings 0 (\<lambda>_. None) ''c'' None) empty_db)))"
  using keys_unique [OF step [OF start]] by blast

text \<open>C16. What a user configured for a workload stays: no sequence of operations changes it or removes the
  workload's row, unless one of them deletes the row, finds the workload gone from the cluster,
  or sets overrides of the workload. In particular new statistics never do.\<close>

theorem overrides_survive:
  assumes "overrides_at db c w = Some ov" "\<forall>op \<in> set ops. \<not> touches c w op"
  shows "overrides_at (fold exec ops db) c w = Some ov"
  using assms
proof (induction ops arbitrary: db)
  case (Cons op ops)
  have "overrides_at (exec op db) c w = Some ov"
    using exec_overrides [of c w op db] Cons.prems by simp
  then show ?case using Cons by simp
qed simp

definition sample_row :: WorkloadRow where
  "sample_row = new_row 1 ''c'' ''w'' JNull 0 0"

definition sample_db :: Database where
  "sample_db = empty_db\<lparr>db_workloads := [sample_row], db_nextID := 2\<rparr>"

lemma overrides_survive_witness:
  "overrides_at (fold exec [OpUpsertStat 1 (\<lambda>_. None) ''c'' ''w'' zero_WorkloadStat 1,
     OpDeleteStale (\<lambda>_. None) ''c'' [''w'']] sample_db) ''c'' ''w'' = Some no_overrides"
  by (rule overrides_survive)
    (simp_all add: overrides_at_def workload_at_def sample_db_def sample_row_def new_row_def row_key_def)

lemma write_stats_run:
  assumes "db_ok db" "c \<noteq> []" "WriteClusterStats now faults c stats g db = (res, db')"
    and "\<forall>st \<in> set stats. ws_WorkloadIdentifier st \<noteq> []"
  shows "db_ok db' \<and> (\<forall>k. overrides_at db c k \<noteq> None \<longrightarrow> overrides_at db' c k = overrides_at db c k) \<and>
    (res = None \<longrightarrow> (\<forall>k. stat_at k db' =
       (case map_of (rev (map (\<lambda>st. ((c, slashes_to_colons (ws_WorkloadIdentifier st)), st)) stats)) k of
          Some st \<Rightarrow> Some st | None \<Rightarrow> stat_at k db))) \<and>
    (\<forall>e. res = Some e \<longrightarrow> (\<exists>pre st post. stats = pre @ st # post \<and>
       WriteClusterStats now faults c pre g db = (None, db')))"
  using assms
proof (induction stats arbitrary: db faults)
  case (Cons st stats)
  let ?w = "slashes_to_colons (ws_WorkloadIdentifier st)"
  have w: "?w \<noteq> []" using Cons.prems(4) by (simp add: slashes_to_colons_def)
  obtain r db1 where u: "UpsertStat now (faults 0) c ?w st g db = (r, db1)" by fastforce
  note ok1 = UpsertStat_ok [OF Cons.prems(1) u]
  show ?case
  proof (cases r)
    case (Some e)
    then have "db1 = db" "db' = db" "res \<noteq> None"
      using UpsertStat_error u Cons.prems(3) by (auto simp: Let_def)
    then show ?thesis using Cons.prems(1) by (auto intro: exI [of _ "[]"])
  next
    case None
    note at = stat_at_upsert [OF Cons.prems(1,2) w u [unfolded None]]
    have rest: "WriteClusterStats now (\<lambda>i. faults (Suc i)) c stats g db1 = (res, db')"
      using Cons.prems(3) u None by (simp add: Let_def)
    have o1: "overrides_at db c k \<noteq> None \<Longrightarrow> overrides_at db1 c k = overrides_at db c k" for k
      using overrides_upsert [of db c k now "faults 0" c ?w st g] u by simp
    have "\<forall>st \<in> set stats. ws_WorkloadIdentifier st \<noteq> []" using Cons.prems(4) by simp
    note IH = Cons.IH [OF ok1 Cons.prems(2) rest this]
    have "\<exists>pre st' post. st # stats = pre @ st' # post \<and> WriteClusterStats now faults c pre g db = (None, db')"
      if e: "res = Some e" for e
    proof -
      obtain pre st' post where "stats = pre @ st' # post"
        "WriteClusterStats now (\<lambda>i. faults (Suc i)) c pre g db1 = (None, db')" using IH e by blast
      then show ?thesis using u None by (intro exI [of _ "st # pre"]) (auto simp: Let_def)
    qed
    moreover have "res = None \<Longrightarrow> stat_at k db' =
       (case map_of (rev (map (\<lambda>st. ((c, slashes_to_colons (ws_WorkloadIdentifier st)), st)) (st # stats))) k of
          Some st \<Rightarrow> Some st | None \<Rightarrow> stat_at k db)" for k
    proof -
      assume "res = None"
      then have "stat_at k db' = (case map_of (rev (map (\<lambda>st.
          ((c, slashes_to_colons (ws_WorkloadIdentifier st)), st)) stats)) k of
          Some st \<Rightarrow> Some st | None \<Rightarrow> stat_at k db1)" using IH by blast
      then show ?thesis using at [of k] by (auto simp: map_add_def split: option.split)
    qed
    ultimately show ?thesis using IH o1 by simp
  qed
qed simp

text \<open>C17. Writing the statistics of a cluster stores exactly these: afterwards each of their workloads has
  the last statistics given for it, every other workload has those it had, and the overrides of
  all workloads are unchanged. When it fails, the statistics before the one that failed are stored
  and none after it.\<close>

theorem cluster_stats_written:
  assumes "reachable db" "clusterID \<noteq> []"
    and "WriteClusterStats now faults clusterID stats generatedAt db = (res, db')"
    and "\<forall>st \<in> set stats. ws_WorkloadIdentifier st \<noteq> []"
  shows "(\<forall>k. overrides_at db clusterID k \<noteq> None \<longrightarrow> overrides_at db' clusterID k = overrides_at db clusterID k) \<and>
    (res = None \<longrightarrow> (\<forall>k. stat_at k db' =
       (case map_of (rev (map (\<lambda>st. ((clusterID, slashes_to_colons (ws_WorkloadIdentifier st)), st)) stats)) k of
          Some st \<Rightarrow> Some st | None \<Rightarrow> stat_at k db))) \<and>
    (res \<noteq> None \<longrightarrow> (\<exists>pre st post. stats = pre @ st # post \<and>
       WriteClusterStats now faults clusterID pre generatedAt db = (None, db')))"
  using write_stats_run [OF reachable_ok [OF assms(1)] assms(2-4)] by blast

lemma cluster_stats_written_witness:
  "\<exists>db'. WriteClusterStats 0 (\<lambda>_ _. None) ''c'' [zero_WorkloadStat\<lparr>ws_WorkloadIdentifier := ''a/b''\<rparr>] 0 empty_db =
      (None, db') \<and> stat_at (''c'', ''a:b'') db' = Some (zero_WorkloadStat\<lparr>ws_WorkloadIdentifier := ''a/b''\<rparr>)"
proof -
  let ?st = "zero_WorkloadStat\<lparr>ws_WorkloadIdentifier := ''a/b''\<rparr>"
  have e: "enc_WorkloadStat ?st \<noteq> None"
    by (simp add: enc_WorkloadStat_def zero_WorkloadStat_def fld_def omitempty_def enc_ptr_def enc_list_def
        enc_string_def enc_time_def printable_time_def zero_time_def enc_bool_def enc_int_def in_width_def)
  obtain res db' where w: "WriteClusterStats 0 (\<lambda>_ _. None) ''c'' [?st] 0 empty_db = (res, db')" by fastforce
  then have "res = None"
    using e upsert_succeeds [OF e, of 0 "''c''" "slashes_to_colons (ws_WorkloadIdentifier ?st)" 0 empty_db]
    by (auto simp: Let_def split: prod.splits option.splits)
  then show ?thesis
    using w cluster_stats_written [OF start _ w] by (auto simp: slashes_to_colons_def)
qed

lemma number_rows_map: "map rr_Row (number_rows i c rows) = rows" "r \<in> set (number_rows i c rows) \<Longrightarrow> rr_ClusterID r = c"
  by (induction rows arbitrary: i) auto

lemma number_rows_filter:
  "filter (\<lambda>r. rr_ClusterID r = c') (number_rows i c rows) = (if c' = c then number_rows i c rows else [])"
  by (induction rows arbitrary: i) auto

text \<open>Saving recommendations is all or nothing: on success the cluster has exactly the rows given, in
  their order, and other clusters have theirs; on failure nothing has changed.\<close>

lemma recommendations_replaced:
  assumes "SavePodRecommendations fault clusterID rows db = (res, db')"
  shows "(res = None \<longrightarrow> (\<exists>rs. rows = Some rs \<and>
      GetPodRecommendationsForCluster (\<lambda>_. None) clusterID db' = Inr rs \<and>
      (\<forall>w. GetPodRecommendationsForWorkload (\<lambda>_. None) clusterID w db' =
         Inr (filter (\<lambda>r. rw_WorkloadID r = w) rs)))) \<and>
    (\<forall>c. c \<noteq> clusterID \<longrightarrow> GetPodRecommendationsForCluster (\<lambda>_. None) c db' =
       GetPodRecommendationsForCluster (\<lambda>_. None) c db) \<and>
    (res \<noteq> None \<longrightarrow> db' = db) \<and>
    db_workloads db' = db_workloads db"
proof (cases "res = None")
  case True
  then obtain rs where rs: "rows = Some rs"
    and db': "db' = db\<lparr>db_recommendations := filter (\<lambda>r. rr_ClusterID r \<noteq> clusterID) (db_recommendations db) @
        number_rows (db_nextID db) clusterID rs, db_nextID := db_nextID db + length rs\<rparr>"
    using assms by (auto simp: SavePodRecommendations_def split: option.splits)
  have "map rr_Row (filter (\<lambda>r. rr_ClusterID r = clusterID \<and> rw_WorkloadID (rr_Row r) = w)
      (number_rows i clusterID rs)) = filter (\<lambda>r. rw_WorkloadID r = w) rs" for w i
    by (induction rs arbitrary: i) auto
  moreover have "filter (\<lambda>r. rr_ClusterID r \<noteq> clusterID \<and> rr_ClusterID r = c) xs =
      filter (\<lambda>r. rr_ClusterID r = c) xs" if "c \<noteq> clusterID" for c xs
    using that by (intro filter_cong) auto
  moreover have "filter (\<lambda>r. rr_ClusterID r \<noteq> clusterID \<and> rr_ClusterID r = clusterID \<and> P r) xs = []" for P xs
    by (simp add: filter_empty_conv)
  ultimately show ?thesis using True rs
    by (simp add: db' GetPodRecommendationsForCluster_def GetPodRecommendationsForWorkload_def
        number_rows_filter number_rows_map conj_commute)
      (auto intro!: arg_cong [of _ _ "map rr_Row"] filter_cong)
next
  case False
  then have "db' = db" using assms by (auto simp: SavePodRecommendations_def split: option.splits)
  then show ?thesis using False by blast
qed

lemma recommendations_replaced_witness:
  "GetPodRecommendationsForCluster (\<lambda>_. None) ''c''
     (snd (SavePodRecommendations (\<lambda>_. None) ''c'' (Some []) sample_db)) = Inr []"
proof -
  obtain res db' where s: "SavePodRecommendations (\<lambda>_. None) ''c'' (Some []) sample_db = (res, db')" by fastforce
  then have "res = None" by (auto simp: SavePodRecommendations_def batches_def find_None_iff split: option.splits)
  then show ?thesis using recommendations_replaced [OF s] s by simp
qed

lemma set_oom_memory_spec:
  "set_oom_memory n b cs = Some cs' \<Longrightarrow>
   \<exists>pre c post. cs = pre @ c # post \<and> cs_ContainerName c = n \<and> (\<forall>d \<in> set pre. cs_ContainerName d \<noteq> n) \<and>
     cs' = pre @ c\<lparr>cs_MemoryStats := Some ((case cs_MemoryStats c of None \<Rightarrow> zero_MemoryStats | Some m \<Rightarrow> m)
       \<lparr>mem_OOMMemory := fdiv (f64_of_int b) (lit 1000000)\<rparr>)\<rparr> # post"
proof (induction cs arbitrary: cs')
  case (Cons c cs)
  show ?case
  proof (cases "cs_ContainerName c = n")
    case True
    then show ?thesis using Cons.prems by (intro exI [of _ "[]"]) (auto simp: Let_def)
  next
    case False
    then obtain cs'' where "set_oom_memory n b cs = Some cs''" "cs' = c # cs''" using Cons.prems by auto
    then obtain pre d post where "cs = pre @ d # post" "cs_ContainerName d = n" "\<forall>d \<in> set pre. cs_ContainerName d \<noteq> n"
      "cs' = c # pre @ d\<lparr>cs_MemoryStats := Some ((case cs_MemoryStats d of None \<Rightarrow> zero_MemoryStats | Some m \<Rightarrow> m)
       \<lparr>mem_OOMMemory := fdiv (f64_of_int b) (lit 1000000)\<rparr>)\<rparr> # post" using Cons.IH by blast
    then show ?thesis using False by (intro exI [of _ "c # pre"]) auto
  qed
qed simp

lemma GetStat_row:
  assumes "GetStat f c w db = Inr stat" "c \<noteq> []" "w \<noteq> []"
  shows "\<exists>st t. stat_at (c, w) db = Some st \<and> stat = st\<lparr>ws_UpdatedAt := t\<rparr>"
  using assms
  by (auto simp: GetStat_def GetStatForWorkload_def where_ids_key workload_at_def stat_at_def row_stat_def
      bind_eq_Some_conv split: sum.splits option.splits if_splits)

text \<open>Recording the memory of an OOM changes one number: the workload's statistics keep everything but
  the OOM memory of the first container of that name, which becomes the bytes in MB (and the
  moment of the update), other workloads keep their statistics and every workload its overrides.\<close>

lemma oom_memory_recorded:
  assumes "reachable db" "clusterID \<noteq> []" "workloadID \<noteq> []"
    and "UpdateOOMMemoryForContainer now fault_get fault clusterID workloadID containerName bytes db = (None, db')"
  shows "\<exists>stat pre c post t. stat_at (clusterID, workloadID) db = Some stat \<and>
    ws_ContainerStats stat = pre @ c # post \<and> cs_ContainerName c = containerName \<and>
    (\<forall>d \<in> set pre. cs_ContainerName d \<noteq> containerName) \<and>
    stat_at (clusterID, workloadID) db' = Some (stat\<lparr>ws_UpdatedAt := t, ws_ContainerStats := pre @
      c\<lparr>cs_MemoryStats := Some ((case cs_MemoryStats c of None \<Rightarrow> zero_MemoryStats | Some m \<Rightarrow> m)
        \<lparr>mem_OOMMemory := fdiv (f64_of_int bytes) (lit 1000000)\<rparr>)\<rparr> # post\<rparr>) \<and>
    (\<forall>k. k \<noteq> (clusterID, workloadID) \<longrightarrow> stat_at k db' = stat_at k db) \<and>
    (\<forall>c w. overrides_at db c w \<noteq> None \<longrightarrow> overrides_at db' c w = overrides_at db c w)"
proof -
  obtain stat cs where g: "GetStat fault_get clusterID workloadID db = Inr stat"
    and cs: "set_oom_memory containerName bytes (ws_ContainerStats stat) = Some cs"
    and u: "UpsertStat now fault clusterID workloadID (stat\<lparr>ws_ContainerStats := cs\<rparr>) now db = (None, db')"
  proof (cases "GetStat fault_get clusterID workloadID db")
    case (Inr stat)
    moreover from this obtain cs where "set_oom_memory containerName bytes (ws_ContainerStats stat) = Some cs"
      using assms(4) by (auto simp: UpdateOOMMemoryForContainer_def split: option.splits)
    moreover from calculation have
      "UpsertStat now fault clusterID workloadID (stat\<lparr>ws_ContainerStats := cs\<rparr>) now db = (None, db')"
      using assms(4) by (simp add: UpdateOOMMemoryForContainer_def split: prod.splits option.splits)
    ultimately show thesis using that by blast
  qed (use assms(4) in \<open>simp add: UpdateOOMMemoryForContainer_def\<close>)
  obtain st t where st: "stat_at (clusterID, workloadID) db = Some st" "stat = st\<lparr>ws_UpdatedAt := t\<rparr>"
    using GetStat_row [OF g assms(2,3)] by blast
  obtain pre c post where split: "ws_ContainerStats stat = pre @ c # post" "cs_ContainerName c = containerName"
    "\<forall>d \<in> set pre. cs_ContainerName d \<noteq> containerName"
    "cs = pre @ c\<lparr>cs_MemoryStats := Some ((case cs_MemoryStats c of None \<Rightarrow> zero_MemoryStats | Some m \<Rightarrow> m)
        \<lparr>mem_OOMMemory := fdiv (f64_of_int bytes) (lit 1000000)\<rparr>)\<rparr> # post"
    using set_oom_memory_spec [OF cs] by blast
  note at = stat_at_upsert [OF reachable_ok [OF assms(1)] assms(2,3) u]
  have ov: "overrides_at db c w \<noteq> None \<Longrightarrow> overrides_at db' c w = overrides_at db c w" for c w
    using overrides_upsert [of db c w now fault clusterID workloadID "stat\<lparr>ws_ContainerStats := cs\<rparr>" now] u by simp
  show ?thesis
    by (rule exI [of _ st], rule exI [of _ pre], rule exI [of _ c], rule exI [of _ post],
        rule exI [of _ t]) (use st split at ov in simp)
qed

definition sample_container_stat :: ContainerStats where
  "sample_container_stat = zero_ContainerStats\<lparr>cs_ContainerName := ''app''\<rparr>"

definition sample_stored_stat :: WorkloadStat where
  "sample_stored_stat = zero_WorkloadStat\<lparr>ws_WorkloadIdentifier := ''w'', ws_ContainerStats := [sample_container_stat]\<rparr>"

lemmas enc_simps = enc_WorkloadStat_def enc_ContainerStats_def zero_WorkloadStat_def zero_ContainerStats_def
  fld_def omitempty_def enc_ptr_def enc_list_def enc_string_def enc_time_def printable_time_def zero_time_def
  enc_bool_def enc_int_def in_width_def enc_MemoryStats_def zero_MemoryStats_def enc_float_def

lemma sample_oom_run:
  "\<exists>db'. UpdateOOMMemoryForContainer 1 (\<lambda>_. None) (\<lambda>_. None) ''c'' ''w'' ''app'' 64000000
     (exec (OpUpsertStat 0 (\<lambda>_. None) ''c'' ''w'' sample_stored_stat 0) empty_db) = (None, db')"
proof -
  have e: "enc_WorkloadStat sample_stored_stat \<noteq> None"
    by (simp add: sample_stored_stat_def sample_container_stat_def enc_simps)
  let ?db = "exec (OpUpsertStat 0 (\<lambda>_. None) ''c'' ''w'' sample_stored_stat 0) empty_db"
  have u: "UpsertStat 0 (\<lambda>_. None) ''c'' ''w'' sample_stored_stat 0 empty_db = (None, ?db)"
    using upsert_succeeds [OF e] by simp
  have ok: "db_ok empty_db" by (rule reachable_ok [OF start])
  obtain j r where j: "enc_WorkloadStat sample_stored_stat = Some j" and r: "workload_at ?db ''c'' ''w'' = Some r"
    "wr_Stats r = j" "wr_UpdatedAt r = 0"
    using UpsertStat_at [OF ok _ _ u] by (fastforce simp: workload_at_def empty_db_def new_row_def)
  have "GetStat (\<lambda>_. None) ''c'' ''w'' ?db = Inr (sample_stored_stat\<lparr>ws_UpdatedAt := 0\<rparr>)"
    using r c_WorkloadStat.dec_enc [OF j]
    by (simp add: GetStat_def GetStatForWorkload_def where_ids_key workload_at_def row_stat_def del: exec.simps)
  moreover have "set_oom_memory ''app'' 64000000 (ws_ContainerStats (sample_stored_stat\<lparr>ws_UpdatedAt := 0\<rparr>)) =
      Some [sample_container_stat\<lparr>cs_MemoryStats := Some (zero_MemoryStats\<lparr>mem_OOMMemory :=
        fdiv (f64_of_int 64000000) (lit 1000000)\<rparr>)\<rparr>]" (is "_ = Some ?cs")
    by (simp add: sample_stored_stat_def sample_container_stat_def zero_ContainerStats_def)
  moreover have "fdiv (f64_of_int 64000000) (lit 1000000) = lit 64"
    by (simp add: f64_of_int_def f64_eval)
  moreover have e': "enc_WorkloadStat (sample_stored_stat\<lparr>ws_UpdatedAt := 0, ws_ContainerStats :=
      [sample_container_stat\<lparr>cs_MemoryStats := Some (zero_MemoryStats\<lparr>mem_OOMMemory := lit 64\<rparr>)\<rparr>]\<rparr>) \<noteq> None"
    by (simp add: sample_stored_stat_def sample_container_stat_def enc_simps)
  ultimately show ?thesis
    using upsert_succeeds [OF e', of 1 "''c''" "''w''" 1 ?db]
    by (cases "snd (UpsertStat 1 (\<lambda>_. None) ''c'' ''w'' (sample_stored_stat\<lparr>ws_UpdatedAt := 0, ws_ContainerStats :=
      [sample_container_stat\<lparr>cs_MemoryStats := Some (zero_MemoryStats\<lparr>mem_OOMMemory := lit 64\<rparr>)\<rparr>]\<rparr>) 1 ?db)")
      (simp add: UpdateOOMMemoryForContainer_def del: exec.simps)
qed

lemma oom_memory_recorded_witness:
  "\<exists>db' st c. stat_at (''c'', ''w'') db' = Some st \<and> c \<in> set (ws_ContainerStats st) \<and>
     cs_MemoryStats c \<noteq> None"
proof -
  obtain db' where run: "UpdateOOMMemoryForContainer 1 (\<lambda>_. None) (\<lambda>_. None) ''c'' ''w'' ''app'' 64000000
     (exec (OpUpsertStat 0 (\<lambda>_. None) ''c'' ''w'' sample_stored_stat 0) empty_db) = (None, db')"
    using sample_oom_run by blast
  have "\<exists>st c. stat_at (''c'', ''w'') db' = Some st \<and> c \<in> set (ws_ContainerStats st) \<and> cs_MemoryStats c \<noteq> None"
    using oom_memory_recorded [OF step [OF start] _ _ run] by fastforce
  then show ?thesis by blast
qed

lemma like_prefix:
  assumes "CHR ''%'' \<notin> set p" "CHR ''_'' \<notin> set p"
  shows "like (=) (p @ ''%'') s \<longleftrightarrow> take (length p) s = p"
proof -
  have all: "like (=) ''%'' s" for s by (induction s) simp_all
  show ?thesis using assms
  proof (induction p arbitrary: s)
    case Nil
    then show ?case using all by simp
  next
    case (Cons a p)
    then show ?case by (cases s) auto
  qed
qed

lemma container_of_workload:
  assumes "no_colon k" "no_colon ns" "no_colon n" "no_colon k'" "no_colon ns'" "no_colon n'" "no_colon c"
    and "CHR ''%'' \<notin> set (GetWorkloadKey k ns n)" "CHR ''_'' \<notin> set (GetWorkloadKey k ns n)"
  shows "like (=) (GetWorkloadKey k ns n @ '':%'') (GetWorkloadContainerKey k' ns' n' c) \<longleftrightarrow>
    k' = k \<and> ns' = ns \<and> n' = n"
proof -
  let ?p = "GetWorkloadKey k ns n @ '':''" and ?s = "GetWorkloadContainerKey k' ns' n' c"
  have p: "?p @ x = k @ CHR '':'' # ns @ CHR '':'' # n @ CHR '':'' # x" for x
    by (simp add: GetWorkloadKey_def)
  have "like (=) (GetWorkloadKey k ns n @ '':%'') ?s \<longleftrightarrow> take (length ?p) ?s = ?p"
    using like_prefix [of ?p ?s] assms(8,9) by simp
  also have "\<dots> \<longleftrightarrow> (\<exists>x. ?s = ?p @ x)"
    by (metis append_take_drop_id append_eq_conv_conj)
  also have "\<dots> \<longleftrightarrow> k' = k \<and> ns' = ns \<and> n' = n"
  proof
    assume "\<exists>x. ?s = ?p @ x"
    then obtain x where "?s = ?p @ x" by blast
    then have "split_on CHR '':'' (?p @ x) = [k', ns', n', c]"
      using split_container_key [OF assms(4-7)] by simp
    moreover have "split_on CHR '':'' (?p @ x) = k # ns # n # split_on CHR '':'' x"
      unfolding p using assms(1-3) by (simp add: split_on_append no_colon_def)
    ultimately show "k' = k \<and> ns' = ns \<and> n' = n" by simp
  qed (auto simp: GetWorkloadContainerKey_def GetWorkloadKey_def)
  finally show ?thesis .
qed

lemma newest_first:
  assumes "go_sort srt"
  shows "sorted_wrt (\<lambda>a b. om_Timestamp b \<le> om_Timestamp a) (srt (\<lambda>a b. om_Timestamp b < om_Timestamp a) evs)"
proof -
  have "strict_weak (\<lambda>a b. om_Timestamp b < om_Timestamp a) (set evs)" by (auto simp: strict_weak_def)
  from go_sort.sorted_srt [OF assms this] show ?thesis by (simp add: not_less)
qed

text \<open>The OOM events of a workload are found by a pattern on their container key; on a database whose
  patterns tell cases apart they are exactly the events since the given time of containers of that
  workload, newest first, provided its key holds no wildcard.\<close>

lemma oom_events_of_workload:
  assumes "go_sort srt" "no_colon k" "no_colon ns" "no_colon n"
    and "CHR ''%'' \<notin> set (GetWorkloadKey k ns n)" "CHR ''_'' \<notin> set (GetWorkloadKey k ns n)"
    and "\<forall>ev \<in> set (db_oomEvents db). \<exists>k' ns' n' c. no_colon k' \<and> no_colon ns' \<and> no_colon n' \<and> no_colon c \<and>
      om_ContainerID ev = GetWorkloadContainerKey k' ns' n' c"
  shows "\<exists>evs. GetOOMEventsByWorkload (=) srt (\<lambda>_. None) clusterID (GetWorkloadKey k ns n) since db = Inr evs \<and>
    set evs = {ev \<in> set (db_oomEvents db). om_ClusterID ev = clusterID \<and> since \<le> om_Timestamp ev \<and>
      (\<exists>c. no_colon c \<and> om_ContainerID ev = GetWorkloadContainerKey k ns n c)} \<and>
    sorted_wrt (\<lambda>a b. om_Timestamp b \<le> om_Timestamp a) evs"
proof -
  have key: "like (=) (GetWorkloadKey k ns n @ '':%'') (om_ContainerID ev) \<longleftrightarrow>
      (\<exists>c. no_colon c \<and> om_ContainerID ev = GetWorkloadContainerKey k ns n c)" if ev: "ev \<in> set (db_oomEvents db)" for ev
  proof -
    obtain k' ns' n' c where c: "no_colon k'" "no_colon ns'" "no_colon n'" "no_colon c"
      "om_ContainerID ev = GetWorkloadContainerKey k' ns' n' c" using bspec [OF assms(7) ev] by blast
    note own = container_of_workload [OF assms(2-4) c(1-4) assms(5,6), folded c(5)]
    show ?thesis
    proof
      assume "like (=) (GetWorkloadKey k ns n @ '':%'') (om_ContainerID ev)"
      then show "\<exists>c. no_colon c \<and> om_ContainerID ev = GetWorkloadContainerKey k ns n c"
        using own c(4,5) by (intro exI [of _ c]) simp
    next
      assume "\<exists>c. no_colon c \<and> om_ContainerID ev = GetWorkloadContainerKey k ns n c"
      then show "like (=) (GetWorkloadKey k ns n @ '':%'') (om_ContainerID ev)"
        using container_of_workload [OF assms(2-4) assms(2-4) _ assms(5,6)] by force
    qed
  qed
  let ?evs = "filter (\<lambda>ev. om_ClusterID ev = clusterID \<and>
      like (=) (GetWorkloadKey k ns n @ '':%'') (om_ContainerID ev) \<and> since \<le> om_Timestamp ev) (db_oomEvents db)"
  have "set ?evs = {ev \<in> set (db_oomEvents db). om_ClusterID ev = clusterID \<and> since \<le> om_Timestamp ev \<and>
      (\<exists>c. no_colon c \<and> om_ContainerID ev = GetWorkloadContainerKey k ns n c)}"
    unfolding set_filter using key by blast
  then have "set (srt (\<lambda>a b. om_Timestamp b < om_Timestamp a) ?evs) =
      {ev \<in> set (db_oomEvents db). om_ClusterID ev = clusterID \<and> since \<le> om_Timestamp ev \<and>
      (\<exists>c. no_colon c \<and> om_ContainerID ev = GetWorkloadContainerKey k ns n c)}"
    using go_sort.set_srt [OF assms(1)] by metis
  then show ?thesis using newest_first [OF assms(1), of ?evs]
    unfolding GetOOMEventsByWorkload_def option.case by blast
qed

lemma oom_events_of_workload_witness:
  "\<exists>evs. GetOOMEventsByWorkload (=) insertion_sort (\<lambda>_. None) ''c'' (GetWorkloadKey ''Deployment'' ''ns'' ''web'') 0
     empty_db = Inr evs"
  using oom_events_of_workload [OF insertion.go_sort_axioms, of "''Deployment''" "''ns''" "''web''" empty_db "''c''" 0]
  by (simp add: no_colon_def GetWorkloadKey_def empty_db_def)

end
