(* ===== verification/Versions.thy ===== *)
theory Versions
  imports Kube GoStrings "HOL-Library.Monad_Syntax"
begin

text \<open>
  The version of the API server and its cache, \<^verbatim>\<open>pkg/task/utils/versioncache.go\<close>. The cache is kept
  per cluster for the life of the process; a failed query is not cached. \<^verbatim>\<open>singleflight\<close> makes
  concurrent callers share one query, which a sequence of calls cannot tell apart from the cache.
\<close>

section \<open>Numbers\<close>

text \<open>\<^verbatim>\<open>strconv.Atoi\<close>: an optional sign, digits, the range of 64 bits.\<close>

definition decimal_digit :: "char \<Rightarrow> bool" where
  "decimal_digit c \<longleftrightarrow> (let n = (of_char c :: nat) in 48 \<le> n \<and> n \<le> 57)"

definition decimal :: "string \<Rightarrow> nat" where
  "decimal s = foldl (\<lambda>n c. 10 * n + (of_char c - 48)) 0 s"

definition Atoi :: "string \<Rightarrow> int option" where
  "Atoi s =
     (let (neg, ds) = (case s of
            [] \<Rightarrow> (False, [])
          | c # cs \<Rightarrow> if c = CHR ''-'' then (True, cs) else if c = CHR ''+'' then (False, cs) else (False, s));
          i = (if neg then - int (decimal ds) else int (decimal ds))
      in if ds = [] \<or> \<not> list_all decimal_digit ds then None
         else if - (2 ^ 63) \<le> i \<and> i < 2 ^ 63 then Some i else None)"

section \<open>The cache\<close>

type_synonym version_cache = "string \<rightharpoonup> (int \<times> int)"

definition isVersionAtLeast :: "int \<Rightarrow> int \<Rightarrow> int \<Rightarrow> int \<Rightarrow> bool" where
  "isVersionAtLeast major minor targetMajor targetMinor \<longleftrightarrow>
     targetMajor < major \<or> (major = targetMajor \<and> targetMinor \<le> minor)"

text \<open>The argument is the answer of the API server, with the text of the version.\<close>

definition fetchServerVersion :: "api_error + string \<Rightarrow> api_error + int \<times> int" where
  "fetchServerVersion answer =
     (case answer of
        Inl e \<Rightarrow> Inl (wrap ''get server version: '' e)
      | Inr gitVersion \<Rightarrow>
          (case split_on CHR ''.'' (TrimPrefix gitVersion ''v'') of
             majorText # minorText # rest \<Rightarrow>
               (case Atoi majorText of
                  None \<Rightarrow> Inl (Other (''parse major version '' @ majorText))
                | Some major \<Rightarrow>
                    (case Atoi minorText of
                       None \<Rightarrow> Inl (Other (''parse minor version '' @ minorText))
                     | Some minor \<Rightarrow> Inr (major, minor)))
           | _ \<Rightarrow> Inl (Other ''invalid version format'')))"

text \<open>A nil client is \<open>None\<close>.\<close>

definition CheckIfClusterVersionAbove ::
    "version_cache \<Rightarrow> string \<Rightarrow> (api_error + string) option \<Rightarrow> int \<Rightarrow> int \<Rightarrow> bool \<times> version_cache" where
  "CheckIfClusterVersionAbove cache clusterID client targetMajor targetMinor =
     (case client of
        None \<Rightarrow> (False, cache)
      | Some answer \<Rightarrow>
          (case cache clusterID of
             Some (major, minor) \<Rightarrow> (isVersionAtLeast major minor targetMajor targetMinor, cache)
           | None \<Rightarrow>
               (case fetchServerVersion answer of
                  Inl e \<Rightarrow> (False, cache)
                | Inr (major, minor) \<Rightarrow>
                    (isVersionAtLeast major minor targetMajor targetMinor,
                     cache(clusterID \<mapsto> (major, minor))))))"

section \<open>Lemmas\<close>

text \<open>Versions are compared lexicographically, so a version at least 1.34 is at least 1.33.\<close>

lemma version_monotone:
  "isVersionAtLeast a b c d \<Longrightarrow> isVersionAtLeast c d e f \<Longrightarrow> isVersionAtLeast a b e f"
  by (auto simp: isVersionAtLeast_def)

text \<open>Once a version is cached every later call answers from it.\<close>

lemma version_cached:
  "cache clusterID = Some (major, minor) \<Longrightarrow>
     CheckIfClusterVersionAbove cache clusterID (Some answer) tM tm =
       (isVersionAtLeast major minor tM tm, cache)"
  by (simp add: CheckIfClusterVersionAbove_def)

lemma version_check_cases:
  assumes "CheckIfClusterVersionAbove cache clusterID client tM tm = (b, cache')"
  shows "cache' = cache \<or> (cache clusterID = None \<and> (\<exists>v. cache' = cache(clusterID \<mapsto> v)))"
  using assms by (auto simp: CheckIfClusterVersionAbove_def split: option.splits sum.splits)

lemma version_sample:
  "CheckIfClusterVersionAbove Map.empty ''c'' (Some (Inr ''v1.33.2-gke.1'')) 1 33 =
     (True, Map.empty(''c'' \<mapsto> (1, 33)))"
  by (simp add: CheckIfClusterVersionAbove_def fetchServerVersion_def TrimPrefix_def HasPrefix_def
      Atoi_def decimal_def decimal_digit_def isVersionAtLeast_def)

end
