(* ===== verification/Workloads.thy ===== *)
theory Workloads
  imports NodeStats
begin

text \<open>
  \<^verbatim>\<open>pkg/task/utils/workloadhandler.go\<close> and the cluster queries of \<^verbatim>\<open>util.go\<close>: the workload
  objects (Deployments, StatefulSets, DaemonSets) behind one interface, their containers merged with those
  injected into running pods, the constraints that block consolidation, horizontal autoscaling
  targets, disruption budgets and the mapping from scheduled pods to workloads. What the API
  server answers to the reads is the record \<open>KubeReads\<close>. The entries of a Go map are given by a
  list where the code ranges over it and by a function where it only looks up.
\<close>

section \<open>Reads of the cluster\<close>

text \<open>A horizontal pod autoscaler: its target and its metrics (type, and resource name if any).\<close>

record HPA =
  hpa_Namespace :: string
  hpa_TargetName :: string
  hpa_TargetKind :: string
  hpa_TargetAPIVersion :: string
  hpa_Metrics :: "(string \<times> string option) list"

text \<open>
  An autoscaler that cannot be converted from its unstructured form is \<open>None\<close>. Namespaces are
  arguments of the list calls, the empty one standing for all.
\<close>

record KubeReads =
  kr_Deployments :: "string \<Rightarrow> api_error + AppsObject list"
  kr_StatefulSets :: "string \<Rightarrow> api_error + AppsObject list"
  kr_DaemonSets :: "string \<Rightarrow> api_error + AppsObject list"
  kr_getDeployment :: "string \<Rightarrow> string \<Rightarrow> api_error + AppsObject"
  kr_getStatefulSet :: "string \<Rightarrow> string \<Rightarrow> api_error + AppsObject"
  kr_getDaemonSet :: "string \<Rightarrow> string \<Rightarrow> api_error + AppsObject"
  kr_Pods :: "string \<Rightarrow> api_error + Pod list"
  kr_PodsBySelector :: "string \<Rightarrow> (string_map \<Rightarrow> bool) \<Rightarrow> api_error + Pod list"
  kr_PDBs :: "string \<Rightarrow> api_error + PodDisruptionBudget list"
  kr_getPDB :: "string \<Rightarrow> string \<Rightarrow> api_error + PodDisruptionBudget"
  kr_Nodes :: "api_error + Node list"
  kr_getNode :: "string \<Rightarrow> api_error + Node"
  kr_HPAs :: "string \<Rightarrow> api_error + HPA option list"

definition wrapped :: "string \<Rightarrow> (api_error + 'a) \<Rightarrow> api_error + 'a" where
  "wrapped msg r = (case r of Inl e \<Rightarrow> Inl (wrap msg e) | Inr x \<Rightarrow> Inr x)"

text \<open>\<^verbatim>\<open>LabelSelectorAsSelector\<close>: a nil selector matches nothing, an invalid one is an error.\<close>

definition LabelSelectorAsSelector :: "LabelSelector option \<Rightarrow> api_error + (string_map \<Rightarrow> bool)" where
  "LabelSelectorAsSelector s =
     (case s of None \<Rightarrow> Inr (\<lambda>_. False)
      | Some None \<Rightarrow> Inl (Other ''invalid selector'')
      | Some (Some m) \<Rightarrow> Inr m)"

section \<open>Containers of a workload\<close>

fun merge_loop :: "string set \<Rightarrow> Container list \<Rightarrow> Container list \<Rightarrow> Container list" where
  "merge_loop workloadNames merged [] = merged"
| "merge_loop workloadNames merged (c # cs) =
     (if c_Name c \<notin> workloadNames
      then merge_loop (insert (c_Name c) workloadNames) (merged @ [c]) cs
      else merge_loop workloadNames merged cs)"

definition mergeContainers :: "Container list \<Rightarrow> Container list \<Rightarrow> Container list" where
  "mergeContainers workloadContainers podContainers =
     (if length podContainers = 0 then workloadContainers
      else merge_loop (c_Name ` set workloadContainers) workloadContainers podContainers)"

definition GetMatchingPodsFromPodCache ::
    "(string \<rightharpoonup> Pod list) \<Rightarrow> string \<Rightarrow> (string_map \<Rightarrow> bool) \<Rightarrow> Pod list" where
  "GetMatchingPodsFromPodCache podCache namespace selector =
     (case podCache namespace of
        None \<Rightarrow> []
      | Some podsInNamespace \<Rightarrow>
          if length podsInNamespace = 0 then [] else filter (\<lambda>pod. selector (p_Labels pod)) podsInNamespace)"

section \<open>Workload objects\<close>

datatype WorkloadObject =
  DeploymentWrapper AppsObject
| StatefulSetWrapper AppsObject
| DaemonSetWrapper AppsObject

fun wo_object :: "WorkloadObject \<Rightarrow> AppsObject" where
  "wo_object (DeploymentWrapper d) = d"
| "wo_object (StatefulSetWrapper s) = s"
| "wo_object (DaemonSetWrapper d) = d"

fun GetKind :: "WorkloadObject \<Rightarrow> string" where
  "GetKind (DeploymentWrapper d) = DeploymentKind"
| "GetKind (StatefulSetWrapper s) = StatefulSetKind"
| "GetKind (DaemonSetWrapper d) = DaemonSetKind"

definition GetNamespace :: "WorkloadObject \<Rightarrow> string" where
  "GetNamespace w = ao_Namespace (wo_object w)"

definition GetName :: "WorkloadObject \<Rightarrow> string" where
  "GetName w = ao_Name (wo_object w)"

definition GetCreationTime :: "WorkloadObject \<Rightarrow> go_time" where
  "GetCreationTime w = ao_CreationTime (wo_object w)"

definition Deployment_GetSelector :: "AppsObject \<Rightarrow> api_error + (string_map \<Rightarrow> bool)" where
  "Deployment_GetSelector d =
     wrapped ''LabelSelectorAsSelector failed for selector: '' (LabelSelectorAsSelector (ao_Selector d))"

definition StatefulSet_GetSelector :: "AppsObject \<Rightarrow> api_error + (string_map \<Rightarrow> bool)" where
  "StatefulSet_GetSelector s =
     wrapped ''LabelSelectorAsSelector failed for selector: '' (LabelSelectorAsSelector (ao_Selector s))"

definition DaemonSet_GetSelector :: "AppsObject \<Rightarrow> api_error + (string_map \<Rightarrow> bool)" where
  "DaemonSet_GetSelector d =
     wrapped ''LabelSelectorAsSelector failed for selector: '' (LabelSelectorAsSelector (ao_Selector d))"

fun GetSelector :: "WorkloadObject \<Rightarrow> api_error + (string_map \<Rightarrow> bool)" where
  "GetSelector (DeploymentWrapper d) = Deployment_GetSelector d"
| "GetSelector (StatefulSetWrapper s) = StatefulSet_GetSelector s"
| "GetSelector (DaemonSetWrapper d) = DaemonSet_GetSelector d"

fun GetReplicas :: "WorkloadObject \<Rightarrow> int" where
  "GetReplicas (DeploymentWrapper d) = (case ao_SpecReplicas d of None \<Rightarrow> 1 | Some n \<Rightarrow> n)"
| "GetReplicas (StatefulSetWrapper s) = (case ao_SpecReplicas s of None \<Rightarrow> 1 | Some n \<Rightarrow> n)"
| "GetReplicas (DaemonSetWrapper d) = ao_DesiredNumberScheduled d"

definition GetWorkloadInfo :: "WorkloadObject \<Rightarrow> WorkloadInfo" where
  "GetWorkloadInfo w = \<lparr>wi_Kind = GetKind w, wi_Namespace = GetNamespace w, wi_Name = GetName w\<rparr>"

text \<open>
  The containers of the first pod matched by the selector are merged into those of the template;
  an invalid selector leaves the template's.
\<close>

definition specs_with_pod ::
    "(Pod \<Rightarrow> Container list) \<Rightarrow> Container list \<Rightarrow> api_error + (string_map \<Rightarrow> bool)
     \<Rightarrow> (string \<rightharpoonup> Pod list) \<Rightarrow> string \<Rightarrow> Container list" where
  "specs_with_pod field containers sel podCache namespace =
     (case sel of
        Inl e \<Rightarrow> containers
      | Inr selector \<Rightarrow>
          let pods = GetMatchingPodsFromPodCache podCache namespace selector;
              podContainers = (case pods of [] \<Rightarrow> [] | p # _ \<Rightarrow> field p)
          in mergeContainers containers podContainers)"

definition Deployment_GetInitContainerSpecs :: "AppsObject \<Rightarrow> (string \<rightharpoonup> Pod list) \<Rightarrow> Container list" where
  "Deployment_GetInitContainerSpecs d podCache =
     specs_with_pod p_InitContainers (pt_InitContainers (ao_Template d)) (Deployment_GetSelector d)
       podCache (ao_Namespace d)"

definition Deployment_GetContainerSpecs :: "AppsObject \<Rightarrow> (string \<rightharpoonup> Pod list) \<Rightarrow> Container list" where
  "Deployment_GetContainerSpecs d podCache =
     specs_with_pod p_Containers (pt_Containers (ao_Template d)) (Deployment_GetSelector d)
       podCache (ao_Namespace d)"

definition StatefulSet_GetInitContainerSpecs :: "AppsObject \<Rightarrow> (string \<rightharpoonup> Pod list) \<Rightarrow> Container list" where
  "StatefulSet_GetInitContainerSpecs s podCache =
     specs_with_pod p_InitContainers (pt_InitContainers (ao_Template s)) (StatefulSet_GetSelector s)
       podCache (ao_Namespace s)"

definition StatefulSet_GetContainerSpecs :: "AppsObject \<Rightarrow> (string \<rightharpoonup> Pod list) \<Rightarrow> Container list" where
  "StatefulSet_GetContainerSpecs s podCache =
     specs_with_pod p_Containers (pt_Containers (ao_Template s)) (StatefulSet_GetSelector s)
       podCache (ao_Namespace s)"

definition DaemonSet_GetInitContainerSpecs :: "AppsObject \<Rightarrow> (string \<rightharpoonup> Pod list) \<Rightarrow> Container list" where
  "DaemonSet_GetInitContainerSpecs d podCache =
     specs_with_pod p_InitContainers (pt_InitContainers (ao_Template d)) (DaemonSet_GetSelector d)
       podCache (ao_Namespace d)"

definition DaemonSet_GetContainerSpecs :: "AppsObject \<Rightarrow> (string \<rightharpoonup> Pod list) \<Rightarrow> Container list" where
  "DaemonSet_GetContainerSpecs d podCache =
     specs_with_pod p_Containers (pt_Containers (ao_Template d)) (DaemonSet_GetSelector d)
       podCache (ao_Namespace d)"

fun GetInitContainerSpecs :: "WorkloadObject \<Rightarrow> (string \<rightharpoonup> Pod list) \<Rightarrow> Container list" where
  "GetInitContainerSpecs (DeploymentWrapper d) podCache = Deployment_GetInitContainerSpecs d podCache"
| "GetInitContainerSpecs (StatefulSetWrapper s) podCache = StatefulSet_GetInitContainerSpecs s podCache"
| "GetInitContainerSpecs (DaemonSetWrapper d) podCache = DaemonSet_GetInitContainerSpecs d podCache"

fun GetContainerSpecs :: "WorkloadObject \<Rightarrow> (string \<rightharpoonup> Pod list) \<Rightarrow> Container list" where
  "GetContainerSpecs (DeploymentWrapper d) podCache = Deployment_GetContainerSpecs d podCache"
| "GetContainerSpecs (StatefulSetWrapper s) podCache = StatefulSet_GetContainerSpecs s podCache"
| "GetContainerSpecs (DaemonSetWrapper d) podCache = DaemonSet_GetContainerSpecs d podCache"

definition GetPodTemplateSpec :: "WorkloadObject \<Rightarrow> PodTemplateSpec" where
  "GetPodTemplateSpec w = ao_Template (wo_object w)"

section \<open>Fetching and listing workloads\<close>

definition GetWorkloadObject ::
    "KubeReads \<Rightarrow> string \<Rightarrow> string \<Rightarrow> string \<Rightarrow> api_error + WorkloadObject" where
  "GetWorkloadObject kr kind namespace name =
     (if kind = DeploymentKind
      then (case kr_getDeployment kr namespace name of
              Inl e \<Rightarrow> Inl (wrap (''error getting deployment '' @ namespace @ ''/'' @ name @ '': '') e)
            | Inr d \<Rightarrow> Inr (DeploymentWrapper d))
      else if kind = StatefulSetKind
      then (case kr_getStatefulSet kr namespace name of
              Inl e \<Rightarrow> Inl (wrap (''error getting statefulset '' @ namespace @ ''/'' @ name @ '': '') e)
            | Inr s \<Rightarrow> Inr (StatefulSetWrapper s))
      else if kind = DaemonSetKind
      then (case kr_getDaemonSet kr namespace name of
              Inl e \<Rightarrow> Inl (wrap (''error getting daemonset '' @ namespace @ ''/'' @ name @ '': '') e)
            | Inr d \<Rightarrow> Inr (DaemonSetWrapper d))
      else Inl (Other (''unsupported workload kind: '' @ kind)))"

definition GetWorkloadPodSpec :: "KubeReads \<Rightarrow> WorkloadInfo \<Rightarrow> api_error + PodTemplateSpec" where
  "GetWorkloadPodSpec kr info =
     (let ns = wi_Namespace info; name = wi_Name info;
          template = (\<lambda>what r. case r of
             Inl e \<Rightarrow> Inl (wrap (''failed to get '' @ what @ '' '' @ ns @ ''/'' @ name @ '': '') e)
           | Inr obj \<Rightarrow> Inr (ao_Template obj))
      in if wi_Kind info = DeploymentKind then template ''deployment'' (kr_getDeployment kr ns name)
         else if wi_Kind info = StatefulSetKind then template ''statefulset'' (kr_getStatefulSet kr ns name)
         else if wi_Kind info = DaemonSetKind then template ''daemonset'' (kr_getDaemonSet kr ns name)
         else Inl (Other (''unsupported workload kind: '' @ wi_Kind info)))"

definition with_selector :: "AppsObject list \<Rightarrow> AppsObject list" where
  "with_selector os = filter (\<lambda>obj. ao_Selector obj \<noteq> None) os"

definition ListAllWorkloadObjects :: "KubeReads \<Rightarrow> string \<Rightarrow> api_error + WorkloadObject list" where
  "ListAllWorkloadObjects kr targetNamespace =
     (case kr_Deployments kr targetNamespace of
        Inl e \<Rightarrow> Inl (wrap ''failed to list deployments: '' e)
      | Inr deployments \<Rightarrow>
          (case kr_StatefulSets kr targetNamespace of
             Inl e \<Rightarrow> Inl (wrap ''failed to list statefulsets: '' e)
           | Inr statefulSets \<Rightarrow>
               (case kr_DaemonSets kr targetNamespace of
                  Inl e \<Rightarrow> Inl (wrap ''failed to list daemonsets: '' e)
                | Inr daemonSets \<Rightarrow>
                    Inr (map DeploymentWrapper (with_selector deployments) @
                         map StatefulSetWrapper (with_selector statefulSets) @
                         map DaemonSetWrapper (with_selector daemonSets)))))"

record WorkloadLabelSelectorList =
  wl_Kind :: string
  wl_Namespace :: string
  wl_Name :: string
  wl_Selector :: "string_map \<Rightarrow> bool"

text \<open>A kind that cannot be listed, and an object with an invalid selector, are skipped.\<close>

fun selector_entries :: "string \<Rightarrow> AppsObject list \<Rightarrow> WorkloadLabelSelectorList list" where
  "selector_entries kind [] = []"
| "selector_entries kind (obj # os) =
     (if ao_Selector obj \<noteq> None
      then (case LabelSelectorAsSelector (ao_Selector obj) of
              Inl e \<Rightarrow> selector_entries kind os
            | Inr selector \<Rightarrow>
                \<lparr>wl_Kind = kind, wl_Namespace = ao_Namespace obj, wl_Name = ao_Name obj,
                 wl_Selector = selector\<rparr> # selector_entries kind os)
      else selector_entries kind os)"

definition entries_of :: "string \<Rightarrow> (api_error + AppsObject list) \<Rightarrow> WorkloadLabelSelectorList list" where
  "entries_of kind r = (case r of Inl e \<Rightarrow> [] | Inr os \<Rightarrow> selector_entries kind os)"

definition ListAllWorkloadsWithSelectors :: "KubeReads \<Rightarrow> string \<Rightarrow> WorkloadLabelSelectorList list" where
  "ListAllWorkloadsWithSelectors kr targetNamespace =
     entries_of DeploymentKind (kr_Deployments kr targetNamespace) @
     entries_of StatefulSetKind (kr_StatefulSets kr targetNamespace) @
     entries_of DaemonSetKind (kr_DaemonSets kr targetNamespace)"

text \<open>
  The namespaces of the workloads, each once. Go returns them in the order of a map iteration;
  here the workloads are given in the order of the iteration over their map, and the namespaces
  come in the order of their first workload.
\<close>

fun unique_loop :: "WorkloadObject list \<Rightarrow> string list \<Rightarrow> string list" where
  "unique_loop [] namespaces = namespaces"
| "unique_loop (w # ws) namespaces =
     (if GetNamespace w \<noteq> '''' \<and> GetNamespace w \<notin> set namespaces
      then unique_loop ws (namespaces @ [GetNamespace w]) else unique_loop ws namespaces)"

definition ExtractUniqueNamespaces :: "(string \<times> WorkloadObject) list \<Rightarrow> string list" where
  "ExtractUniqueNamespaces workloads = unique_loop (map snd workloads) []"

section \<open>Horizontal autoscalers\<close>

definition ResourceMetricSourceType :: string where "ResourceMetricSourceType = ''Resource''"

definition hpa_scales_on :: "string \<Rightarrow> HPA \<Rightarrow> bool" where
  "hpa_scales_on resourceName hpa \<longleftrightarrow>
     list_ex (\<lambda>(ty, r). ty = ResourceMetricSourceType \<and> r = Some resourceName) (hpa_Metrics hpa)"

text \<open>An Argo Rollout counts as a Deployment.\<close>

definition hpa_target_kind :: "HPA \<Rightarrow> string" where
  "hpa_target_kind hpa =
     (if hpa_TargetKind hpa = RolloutKind \<and> hpa_TargetAPIVersion hpa = ''argoproj.io/v1alpha1''
      then DeploymentKind else hpa_TargetKind hpa)"

definition markWorkloadHPA :: "HPA \<Rightarrow> (string \<rightharpoonup> bool) \<Rightarrow> (string \<rightharpoonup> bool)" where
  "markWorkloadHPA hpa workloadHpaMap =
     (let hpaTargetKind = hpa_target_kind hpa
      in if hpa_TargetName hpa \<noteq> '''' \<and> hpaTargetKind \<noteq> ''''
         then let targetKey = GetWorkloadKey hpaTargetKind (hpa_Namespace hpa) (hpa_TargetName hpa)
              in if workloadHpaMap targetKey \<noteq> None then workloadHpaMap(targetKey \<mapsto> True) else workloadHpaMap
         else workloadHpaMap)"

fun hpa_loop :: "string \<Rightarrow> HPA option list \<Rightarrow> (string \<rightharpoonup> bool) \<Rightarrow> (string \<rightharpoonup> bool)" where
  "hpa_loop resourceName [] m = m"
| "hpa_loop resourceName (h # hs) m =
     (case h of
        None \<Rightarrow> hpa_loop resourceName hs m
      | Some hpa \<Rightarrow> if \<not> hpa_scales_on resourceName hpa then hpa_loop resourceName hs m
                    else hpa_loop resourceName hs (markWorkloadHPA hpa m))"

definition checkHPAForResource ::
    "KubeReads \<Rightarrow> string \<Rightarrow> string \<Rightarrow> (string \<rightharpoonup> bool) \<Rightarrow> (string \<rightharpoonup> bool) \<times> api_error option" where
  "checkHPAForResource kr targetNamespace resourceName workloadHpaMap =
     (case kr_HPAs kr targetNamespace of
        Inl e \<Rightarrow> (workloadHpaMap, Some (wrap ''failed to list HPAs: '' e))
      | Inr hpas \<Rightarrow> (hpa_loop resourceName hpas workloadHpaMap, None))"

definition CheckHPAOnCPU :: "KubeReads \<Rightarrow> string \<Rightarrow> (string \<rightharpoonup> bool) \<Rightarrow> (string \<rightharpoonup> bool) \<times> api_error option" where
  "CheckHPAOnCPU kr ns m = checkHPAForResource kr ns ResourceCPU m"

definition CheckHPAOnMemory :: "KubeReads \<Rightarrow> string \<Rightarrow> (string \<rightharpoonup> bool) \<Rightarrow> (string \<rightharpoonup> bool) \<times> api_error option" where
  "CheckHPAOnMemory kr ns m = checkHPAForResource kr ns ResourceMemory m"

section \<open>Disruption budgets\<close>

fun FindMatchingPDBs :: "string_map \<Rightarrow> PodDisruptionBudget list \<Rightarrow> PodDisruptionBudget list" where
  "FindMatchingPDBs podLabels [] = []"
| "FindMatchingPDBs podLabels (pdb # pdbs) =
     (if pdb_Selector pdb = None then FindMatchingPDBs podLabels pdbs
      else case LabelSelectorAsSelector (pdb_Selector pdb) of
             Inl e \<Rightarrow> FindMatchingPDBs podLabels pdbs
           | Inr pdbSelector \<Rightarrow>
               if pdbSelector podLabels then pdb # FindMatchingPDBs podLabels pdbs
               else FindMatchingPDBs podLabels pdbs)"

fun pdb_loop :: "string_map \<Rightarrow> PodDisruptionBudget list \<Rightarrow> bool" where
  "pdb_loop podLabels [] = False"
| "pdb_loop podLabels (pdb # pdbs) =
     (if pdb_Selector pdb = None then pdb_loop podLabels pdbs
      else case LabelSelectorAsSelector (pdb_Selector pdb) of
             Inl e \<Rightarrow> pdb_loop podLabels pdbs
           | Inr pdbSelector \<Rightarrow> if pdbSelector podLabels then True else pdb_loop podLabels pdbs)"

text \<open>Reading a namespace that is not in the cache gives a nil slice.\<close>

definition cached :: "(string \<rightharpoonup> 'a list) \<Rightarrow> string \<Rightarrow> 'a list" where
  "cached m k = (case m k of None \<Rightarrow> [] | Some xs \<Rightarrow> xs)"

definition checkWorkloadAgainstPDBs ::
    "WorkloadObject \<Rightarrow> (string \<rightharpoonup> PodDisruptionBudget list) \<Rightarrow> bool" where
  "checkWorkloadAgainstPDBs w pdbCache =
     pdb_loop (pt_Labels (GetPodTemplateSpec w)) (cached pdbCache (GetNamespace w))"

fun fetch_loop ::
    "(string \<Rightarrow> api_error + 'a list) \<Rightarrow> string list \<Rightarrow> (string \<rightharpoonup> 'a list) \<Rightarrow> string list
     \<Rightarrow> (string \<rightharpoonup> 'a list) \<times> string list" where
  "fetch_loop read [] cache failed = (cache, failed)"
| "fetch_loop read (ns # rest) cache failed =
     (case read ns of
        Inl e \<Rightarrow> fetch_loop read rest cache (failed @ [ns])
      | Inr items \<Rightarrow> fetch_loop read rest (cache(ns \<mapsto> items)) failed)"

definition FetchPDBsForNamespaces ::
    "KubeReads \<Rightarrow> string list \<Rightarrow> (string \<rightharpoonup> PodDisruptionBudget list) \<times> api_error option" where
  "FetchPDBsForNamespaces kr namespaces =
     (let (pdbCache, failedNamespaces) = fetch_loop (kr_PDBs kr) namespaces Map.empty []
      in if length failedNamespaces > 0
         then (pdbCache, Some (Other (''failed to prefetch pdbs for namespaces: '' @
                                 join_with '', '' failedNamespaces)))
         else (pdbCache, None))"

definition FetchPodsForNamespaces ::
    "KubeReads \<Rightarrow> string list \<Rightarrow> (string \<rightharpoonup> Pod list) \<times> api_error option" where
  "FetchPodsForNamespaces kr namespaces =
     (let (podCache, failedNamespaces) = fetch_loop (kr_Pods kr) namespaces Map.empty []
      in if length failedNamespaces > 0
         then (podCache, Some (Other (''failed to prefetch pods for namespaces: '' @
                                 join_with '', '' failedNamespaces)))
         else (podCache, None))"

section \<open>Constraints that block consolidation\<close>

definition checkDoNotDisruptAnnotation :: "PodTemplateSpec \<Rightarrow> bool" where
  "checkDoNotDisruptAnnotation podTemplate \<longleftrightarrow>
     list_ex (\<lambda>(key, expected). case pt_Annotations podTemplate key of
                None \<Rightarrow> False | Some v \<Rightarrow> ToLower v = expected) doNotDisruptAnnotations"

definition blocking_sources :: "string list" where
  "blocking_sources =
     [''PersistentVolumeClaim'', ''HostPath'', ''NFS'', ''Glusterfs'', ''RBD'', ''CephFS'', ''Cinder'',
      ''FC'', ''FlexVolume'', ''Flocker'', ''AWSElasticBlockStore'', ''GCEPersistentDisk'', ''AzureDisk'',
      ''AzureFile'', ''VsphereVolume'', ''Quobyte'', ''ISCSI'', ''PhotonPersistentDisk'',
      ''PortworxVolume'', ''ScaleIO'', ''StorageOS'', ''CSI'']"

definition checkVolumes :: "PodTemplateSpec \<Rightarrow> bool" where
  "checkVolumes podTemplate \<longleftrightarrow>
     list_ex (list_ex (\<lambda>source. source \<in> set blocking_sources)) (pt_Volumes podTemplate)"

definition isCommonNodeAffinityKey :: "string \<Rightarrow> bool" where
  "isCommonNodeAffinityKey key \<longleftrightarrow>
     key \<in> set [''kubernetes.io/arch'', ''kubernetes.io/os'', ''topology.kubernetes.io/region'',
                 ''karpenter.sh/nodepool'', ''class.truefoundry.com/component'']"

definition checkUncommonAffinity :: "PodTemplateSpec \<Rightarrow> bool" where
  "checkUncommonAffinity podTemplate \<longleftrightarrow>
     (case pt_Affinity podTemplate of None \<Rightarrow> False
      | Some a \<Rightarrow> (case af_NodeRequired a of None \<Rightarrow> False
          | Some terms \<Rightarrow> list_ex (list_ex (\<lambda>key. \<not> isCommonNodeAffinityKey key)) terms))"

definition checkTopologySpreadConstraints :: "PodTemplateSpec \<Rightarrow> bool" where
  "checkTopologySpreadConstraints podTemplate \<longleftrightarrow>
     list_ex (\<lambda>key. key \<noteq> ''topology.kubernetes.io/zone'') (pt_TopologyKeys podTemplate)"

definition checkPodAntiAffinity :: "PodTemplateSpec \<Rightarrow> bool" where
  "checkPodAntiAffinity podTemplate \<longleftrightarrow>
     (case pt_Affinity podTemplate of None \<Rightarrow> False
      | Some a \<Rightarrow> (case af_PodAntiAffinity a of None \<Rightarrow> False
          | Some aa \<Rightarrow> length (paa_Required aa) > 0 \<or> length (paa_Preferred aa) > 0))"

definition no_constraints :: WorkloadConstraints where
  "no_constraints = \<lparr>wc_BlockingConsolidation = False, wc_PDB = False, wc_DoNotDisruptAnnotation = False,
     wc_Volume = False, wc_Affinity = False, wc_TopologySpreadConstraint = False,
     wc_PodAntiAffinity = False, wc_ExcludedAnnotation = False\<rparr>"

definition DetectWorkloadConstraints ::
    "WorkloadObject \<Rightarrow> (string \<rightharpoonup> PodDisruptionBudget list) \<Rightarrow> WorkloadConstraints" where
  "DetectWorkloadConstraints w pdbCache =
     (case w of
        DaemonSetWrapper d \<Rightarrow> no_constraints
      | _ \<Rightarrow>
          let pdb = checkWorkloadAgainstPDBs w pdbCache;
              podTemplate = GetPodTemplateSpec w;
              dnd = checkDoNotDisruptAnnotation podTemplate
          in \<lparr>wc_BlockingConsolidation = pdb \<or> dnd,
              wc_PDB = pdb,
              wc_DoNotDisruptAnnotation = dnd,
              wc_Volume = checkVolumes podTemplate,
              wc_Affinity = checkUncommonAffinity podTemplate,
              wc_TopologySpreadConstraint = checkTopologySpreadConstraints podTemplate,
              wc_PodAntiAffinity = checkPodAntiAffinity podTemplate,
              wc_ExcludedAnnotation = PodExcludedByAnnotation (pt_Annotations podTemplate)\<rparr>)"

section \<open>From scheduled pods to workloads\<close>

definition GetPods :: "KubeReads \<Rightarrow> string \<Rightarrow> (string_map \<Rightarrow> bool) \<Rightarrow> api_error + Pod list" where
  "GetPods kr namespace selector =
     wrapped ''failed to list pods: '' (kr_PodsBySelector kr namespace selector)"

definition PodRunning :: string where "PodRunning = ''Running''"

definition getScheduledPodsAcrossNamespaces :: "KubeReads \<Rightarrow> string \<Rightarrow> api_error + Pod list" where
  "getScheduledPodsAcrossNamespaces kr targetNamespace =
     (case kr_Pods kr targetNamespace of
        Inl e \<Rightarrow> Inl (wrap ''failed to list pods: '' e)
      | Inr pods \<Rightarrow> Inr (filter (\<lambda>pod. p_NodeName pod \<noteq> '''' \<and> p_Phase pod = PodRunning) pods))"

fun first_workload :: "Pod \<Rightarrow> WorkloadLabelSelectorList list \<Rightarrow> WorkloadInfo option" where
  "first_workload pod [] = None"
| "first_workload pod (w # ws) =
     (if wl_Namespace w = p_Namespace pod \<and> wl_Selector w (p_Labels pod)
      then Some \<lparr>wi_Kind = wl_Kind w, wi_Namespace = wl_Namespace w, wi_Name = wl_Name w\<rparr>
      else first_workload pod ws)"

text \<open>
  The map from pods to workloads is ranged over later, so its entries are kept in a list, in the
  order of first insertion; \<open>map_of\<close> looks a pod up.
\<close>

fun createPodToWorkloadMapping ::
    "Pod list \<Rightarrow> WorkloadLabelSelectorList list \<Rightarrow> (PodKey \<times> WorkloadInfo) list
     \<Rightarrow> (PodKey \<times> WorkloadInfo) list" where
  "createPodToWorkloadMapping [] workloadCache m = m"
| "createPodToWorkloadMapping (pod # pods) workloadCache m =
     createPodToWorkloadMapping pods workloadCache
       (case first_workload pod workloadCache of
          None \<Rightarrow> m
        | Some info \<Rightarrow> AList.update (p_Namespace pod, p_Name pod) info m)"

definition BuildPodToWorkloadMapping ::
    "KubeReads \<Rightarrow> string \<Rightarrow> api_error + (PodKey \<times> WorkloadInfo) list \<times> Pod list" where
  "BuildPodToWorkloadMapping kr targetNamespace =
     (case getScheduledPodsAcrossNamespaces kr targetNamespace of
        Inl e \<Rightarrow> Inl (wrap ''failed to load scheduled pods: '' e)
      | Inr allPods \<Rightarrow>
          Inr (createPodToWorkloadMapping allPods (ListAllWorkloadsWithSelectors kr targetNamespace) [],
               allPods))"

section \<open>Lemmas on merged containers\<close>

lemma merge_loop_spec:
  "\<exists>new. merge_loop names merged cs = merged @ new \<and> subseq new cs \<and> distinct (map c_Name new) \<and>
     c_Name ` set new \<inter> names = {} \<and> c_Name ` set cs \<subseteq> names \<union> c_Name ` set new"
proof (induction cs arbitrary: names merged)
  case Nil
  then show ?case by auto
next
  case (Cons c cs)
  show ?case
  proof (cases "c_Name c \<in> names")
    case True
    then show ?thesis using Cons.IH [of names merged] by auto
  next
    case False
    obtain new where n: "merge_loop (insert (c_Name c) names) (merged @ [c]) cs = (merged @ [c]) @ new"
      "subseq new cs" "distinct (map c_Name new)" "c_Name ` set new \<inter> insert (c_Name c) names = {}"
      "c_Name ` set cs \<subseteq> insert (c_Name c) names \<union> c_Name ` set new"
      using Cons.IH [of "insert (c_Name c) names" "merged @ [c]"] by blast
    have "c_Name c \<notin> set (map c_Name new)" using n(4) by auto
    then have "distinct (map c_Name (c # new))" using n(3) by simp
    moreover have "c_Name ` set (c # new) \<inter> names = {}" using n(4) False by auto
    moreover have "c_Name ` set (c # cs) \<subseteq> names \<union> c_Name ` set (c # new)" using n(5) by auto
    moreover have "subseq (c # new) (c # cs)" using n(2) by simp
    ultimately show ?thesis using False n(1) by (intro exI [of _ "c # new"]) simp
  qed
qed

lemma mergeContainers_spec:
  "\<exists>new. mergeContainers ws ps = ws @ new \<and> subseq new ps \<and> distinct (map c_Name new) \<and>
     c_Name ` set new \<inter> c_Name ` set ws = {} \<and>
     c_Name ` set (mergeContainers ws ps) = c_Name ` set ws \<union> c_Name ` set ps"
proof -
  obtain new where n: "merge_loop (c_Name ` set ws) ws ps = ws @ new" "subseq new ps"
    "distinct (map c_Name new)" "c_Name ` set new \<inter> c_Name ` set ws = {}"
    "c_Name ` set ps \<subseteq> c_Name ` set ws \<union> c_Name ` set new"
    using merge_loop_spec by blast
  have e: "mergeContainers ws ps = ws @ new"
    using n(1,2) by (cases ps) (auto simp: mergeContainers_def)
  have "set new \<subseteq> set ps" using n(2) by (metis set_nths_subset subseq_conv_nths)
  then have "c_Name ` set (ws @ new) = c_Name ` set ws \<union> c_Name ` set ps" using n(5) by auto
  then show ?thesis unfolding e using n(2,3,4) by (intro exI [of _ new]) simp
qed

section \<open>Lemmas on autoscalers, budgets and the pod mapping\<close>

lemma markWorkloadHPA_dom: "dom (markWorkloadHPA hpa m) = dom m"
  by (auto simp: markWorkloadHPA_def Let_def)

definition hpa_key :: "HPA \<Rightarrow> string" where
  "hpa_key hpa = GetWorkloadKey (hpa_target_kind hpa) (hpa_Namespace hpa) (hpa_TargetName hpa)"

definition hpa_targets :: "string \<Rightarrow> HPA \<Rightarrow> string \<Rightarrow> bool" where
  "hpa_targets resourceName hpa key \<longleftrightarrow>
     hpa_scales_on resourceName hpa \<and> hpa_TargetName hpa \<noteq> '''' \<and> hpa_target_kind hpa \<noteq> '''' \<and>
     hpa_key hpa = key"

lemma hpa_loop_lookup:
  "hpa_loop r hs m k =
     (case m k of None \<Rightarrow> None | Some b \<Rightarrow> Some (b \<or> (\<exists>hpa. Some hpa \<in> set hs \<and> hpa_targets r hpa k)))"
proof (induction hs arbitrary: m)
  case Nil
  then show ?case by (auto split: option.splits)
next
  case (Cons h hs)
  have mk: "markWorkloadHPA hpa m k =
      (case m k of None \<Rightarrow> None
       | Some b \<Rightarrow> Some (b \<or> (hpa_TargetName hpa \<noteq> '''' \<and> hpa_target_kind hpa \<noteq> '''' \<and> hpa_key hpa = k)))" for hpa
    by (auto simp: markWorkloadHPA_def hpa_key_def Let_def split: option.splits)
  show ?case
  proof (cases h)
    case None
    then show ?thesis using Cons by (simp split: option.splits)
  next
    case (Some hpa)
    show ?thesis
    proof (cases "hpa_scales_on r hpa")
      case True
      then show ?thesis using Some Cons [of "markWorkloadHPA hpa m"]
        by (auto simp: mk hpa_targets_def split: option.splits)
    next
      case False
      then have "\<not> hpa_targets r hpa k" by (simp add: hpa_targets_def)
      then show ?thesis using Some False Cons [of m] by (auto split: option.splits)
    qed
  qed
qed

lemma pdb_loop_iff: "pdb_loop l pdbs \<longleftrightarrow> FindMatchingPDBs l pdbs \<noteq> []"
  by (induction pdbs) (auto split: sum.splits)

lemma FindMatchingPDBs_iff:
  "pdb \<in> set (FindMatchingPDBs l pdbs) \<longleftrightarrow>
     pdb \<in> set pdbs \<and> (\<exists>m. pdb_Selector pdb = Some (Some m) \<and> m l)"
  by (induction pdbs) (auto simp: LabelSelectorAsSelector_def split: sum.splits option.splits)

lemma mapping_lookup_aux:
  assumes "distinct (map (\<lambda>p. (p_Namespace p, p_Name p)) pods)"
  shows "map_of (createPodToWorkloadMapping pods cache m) k =
    (case find (\<lambda>p. (p_Namespace p, p_Name p) = k) pods of
       Some p \<Rightarrow> (case first_workload p cache of Some i \<Rightarrow> Some i | None \<Rightarrow> map_of m k)
     | None \<Rightarrow> map_of m k)"
  using assms
proof (induction pods arbitrary: m)
  case (Cons p ps)
  have nf: "find (\<lambda>q. (p_Namespace q, p_Name q) = (p_Namespace p, p_Name p)) ps = None"
    unfolding find_None_iff using Cons.prems by (auto simp: image_iff)
  show ?case
  proof (cases "k = (p_Namespace p, p_Name p)")
    case True
    then show ?thesis using Cons nf
      by (auto simp: update_conv' split: option.splits)
  next
    case False
    then show ?thesis using Cons
      by (auto simp: update_conv' split: option.splits)
  qed
qed simp

lemma mapping_lookup:
  "distinct (map (\<lambda>p. (p_Namespace p, p_Name p)) pods) \<Longrightarrow> p \<in> set pods \<Longrightarrow>
     map_of (createPodToWorkloadMapping pods cache []) (p_Namespace p, p_Name p) = first_workload p cache"
proof -
  assume d: "distinct (map (\<lambda>p. (p_Namespace p, p_Name p)) pods)" and p: "p \<in> set pods"
  have "find (\<lambda>q. (p_Namespace q, p_Name q) = (p_Namespace p, p_Name p)) pods = Some p"
    using d p by (induction pods) (auto simp: image_iff)
  then show ?thesis using mapping_lookup_aux [OF d, of cache "[]" "(p_Namespace p, p_Name p)"]
    by (auto split: option.splits)
qed

lemma mapping_distinct:
  "distinct (map fst m) \<Longrightarrow> distinct (map fst (createPodToWorkloadMapping pods cache m))"
  by (induction pods arbitrary: m) (auto simp: distinct_update split: option.splits)

lemma first_workload_iff:
  "first_workload p ws = Some i \<longleftrightarrow>
     (\<exists>w. find (\<lambda>w. wl_Namespace w = p_Namespace p \<and> wl_Selector w (p_Labels p)) ws = Some w \<and>
        i = \<lparr>wi_Kind = wl_Kind w, wi_Namespace = wl_Namespace w, wi_Name = wl_Name w\<rparr>)"
  by (induction ws) auto

end
