(* ===== verification/Stats.thy ===== *)
theory Stats
  imports Workloads Optimize Json
begin

text \<open>
  How workload statistics come about: the cache of container metrics of
  \<^verbatim>\<open>pkg/task/utils/util.go\<close> (raw query results merged per workload and container, and the
  statistics built from it) and the preparation of one workload's statistics in
  \<^verbatim>\<open>pkg/task/taskcreatestats.go\<close>, with the codes that exclude a workload. Caches are
  functions of their keys; the raw results, which the code ranges over, are a list in the
  order of that iteration.
\<close>

section \<open>The cache of container metrics\<close>

record ContainerMetrics =
  mx_CPUP75 :: float64
  mx_PSIAdjustedUsage :: "float64 option"
  mx_MemoryP75 :: float64
  mx_OOMMemory :: float64
  mx_Memory7Day :: float64
  mx_MedianReplicas :: float64
  mx_HasCPUData :: bool
  mx_HasMemoryData :: bool

definition zero_container_metrics :: ContainerMetrics where
  "zero_container_metrics = \<lparr>mx_CPUP75 = lit 0, mx_PSIAdjustedUsage = None, mx_MemoryP75 = lit 0,
     mx_OOMMemory = lit 0, mx_Memory7Day = lit 0, mx_MedianReplicas = lit 0,
     mx_HasCPUData = False, mx_HasMemoryData = False\<rparr>"

type_synonym container_cache = "string \<rightharpoonup> (string \<rightharpoonup> ContainerMetrics)"

definition updateMaxValue :: "float64 \<Rightarrow> float64 \<Rightarrow> float64" where
  "updateMaxValue current newValue = (if flt current newValue then newValue else current)"

definition updateCPUMetrics :: "ContainerMetrics \<Rightarrow> float64 \<Rightarrow> string \<Rightarrow> ContainerMetrics \<times> bool" where
  "updateCPUMetrics m x metricType =
     (if metricType = ''cpu_p75'' then (m\<lparr>mx_CPUP75 := updateMaxValue (mx_CPUP75 m) x\<rparr>, True)
      else (m, False))"

definition updateMemoryMetrics :: "ContainerMetrics \<Rightarrow> float64 \<Rightarrow> string \<Rightarrow> ContainerMetrics \<times> bool" where
  "updateMemoryMetrics m x metricType =
     (if metricType = ''memory_p75'' then (m\<lparr>mx_MemoryP75 := updateMaxValue (mx_MemoryP75 m) x\<rparr>, True)
      else if metricType = ''oom_memory'' then (m\<lparr>mx_OOMMemory := updateMaxValue (mx_OOMMemory m) x\<rparr>, True)
      else (m, False))"

definition updateMemory7DayMetrics :: "ContainerMetrics \<Rightarrow> float64 \<Rightarrow> string \<Rightarrow> ContainerMetrics \<times> bool" where
  "updateMemory7DayMetrics m x metricType =
     (if metricType \<noteq> ''memory_max_7day'' then (m, False)
      else (m\<lparr>mx_Memory7Day := updateMaxValue (mx_Memory7Day m) x\<rparr>, True))"

definition updatePSIAdjustedMetrics :: "ContainerMetrics \<Rightarrow> float64 \<Rightarrow> string \<Rightarrow> ContainerMetrics" where
  "updatePSIAdjustedMetrics m x metricType =
     (let usage = (case mx_PSIAdjustedUsage m of None \<Rightarrow> lit 0 | Some u \<Rightarrow> u)
      in m\<lparr>mx_PSIAdjustedUsage :=
             Some (if metricType = ''cpu_p75'' then updateMaxValue usage x else usage)\<rparr>)"

definition updateStandardMetrics :: "ContainerMetrics \<Rightarrow> float64 \<Rightarrow> string \<Rightarrow> ContainerMetrics" where
  "updateStandardMetrics m x metricType =
     (case updateCPUMetrics m x metricType of
        (m, True) \<Rightarrow> m\<lparr>mx_HasCPUData := True\<rparr>
      | (m, False) \<Rightarrow>
          (case updateMemoryMetrics m x metricType of
             (m, True) \<Rightarrow> m\<lparr>mx_HasMemoryData := True\<rparr>
           | (m, False) \<Rightarrow>
               (case updateMemory7DayMetrics m x metricType of
                  (m, True) \<Rightarrow> m
                | (m, False) \<Rightarrow>
                    if metricType = ''median_replicas'' then m\<lparr>mx_MedianReplicas := x\<rparr> else m)))"

definition updateContainerMetrics :: "ContainerMetrics \<Rightarrow> float64 \<Rightarrow> string \<Rightarrow> bool \<Rightarrow> ContainerMetrics" where
  "updateContainerMetrics m x metricType psiAdjusted =
     (if psiAdjusted then updatePSIAdjustedMetrics m x metricType
      else updateStandardMetrics m x metricType)"

text \<open>The workload and container a raw key stands for; the ReplicaSets of a Deployment count for it.\<close>

definition raw_target :: "string \<Rightarrow> (string \<times> string) option" where
  "raw_target rawKey =
     (case ParseWorkloadContainerKey rawKey of
        None \<Rightarrow> None
      | Some (kind, namespace, workloadName, containerName) \<Rightarrow>
          let (kind, workloadName) =
            (if kind = ReplicaSetKind
             then (case ExtractWorkloadFromReplicaSet workloadName of
                     (deploymentName, True) \<Rightarrow> (DeploymentKind, deploymentName)
                   | (n, False) \<Rightarrow> (kind, workloadName))
             else (kind, workloadName))
          in Some (GetWorkloadKey kind namespace workloadName, containerName))"

definition merge_result ::
    "string \<Rightarrow> bool \<Rightarrow> container_cache \<Rightarrow> string \<times> float64 \<Rightarrow> container_cache" where
  "merge_result metricType psiAdjusted cache r =
     (case raw_target (fst r) of
        None \<Rightarrow> cache
      | Some (workloadKey, containerName) \<Rightarrow>
          let workloadContainers = (case cache workloadKey of None \<Rightarrow> Map.empty | Some m \<Rightarrow> m);
              containerMetrics = (case workloadContainers containerName of
                                    None \<Rightarrow> zero_container_metrics | Some m \<Rightarrow> m)
          in cache(workloadKey \<mapsto> workloadContainers(containerName \<mapsto>
                updateContainerMetrics containerMetrics (snd r) metricType psiAdjusted)))"

definition MergeContainerRawResultsIntoCache ::
    "container_cache \<Rightarrow> (string \<times> float64) list \<Rightarrow> string \<Rightarrow> bool \<Rightarrow> container_cache" where
  "MergeContainerRawResultsIntoCache cache rawResults metricType psiAdjusted =
     foldl (merge_result metricType psiAdjusted) cache rawResults"

section \<open>Statistics from the cache\<close>

definition empty_container_stats :: "string \<Rightarrow> ContainerType \<Rightarrow> ContainerStats" where
  "empty_container_stats name ty =
     \<lparr>cs_ContainerName = name, cs_ContainerType = ty, cs_CPUStats = None, cs_PSIAdjustedUsage = None,
      cs_MemoryStats = None, cs_Memory7Day = None, cs_MLPercentilesCPU = None,
      cs_MLPercentilesCPUPSIAdjusted = None, cs_SimplePredictionsCPU = None,
      cs_MLPercentilesMemory = None, cs_SimplePredictionsMemory = None\<rparr>"

definition container_stats_of :: "OriginalContainerResources \<Rightarrow> ContainerMetrics \<Rightarrow> ContainerStats" where
  "container_stats_of res m =
     (empty_container_stats (oc_Name res) (oc_Type res))\<lparr>
        cs_CPUStats := Some \<lparr>cpu_P75 = mx_CPUP75 m\<rparr>,
        cs_MemoryStats := Some \<lparr>mem_P75 = mx_MemoryP75 m, mem_OOMMemory = mx_OOMMemory m\<rparr>,
        cs_Memory7Day := Some \<lparr>m7_Max = mx_Memory7Day m\<rparr>,
        cs_PSIAdjustedUsage := map_option (\<lambda>u. \<lparr>psi_P75 = u\<rparr>) (mx_PSIAdjustedUsage m)\<rparr>"

fun stats_loop ::
    "(string \<rightharpoonup> ContainerMetrics) \<Rightarrow> OriginalContainerResources list \<Rightarrow> ContainerStats list \<times> float64
     \<Rightarrow> ContainerStats list \<times> float64" where
  "stats_loop containerMetrics [] acc = acc"
| "stats_loop containerMetrics (res # rest) (containerStats, medianReplicas) =
     (if oc_Type res = InitContainer then stats_loop containerMetrics rest (containerStats, medianReplicas)
      else case containerMetrics (oc_Name res) of
             None \<Rightarrow> stats_loop containerMetrics rest (containerStats, medianReplicas)
           | Some m \<Rightarrow>
               if \<not> mx_HasCPUData m \<or> \<not> mx_HasMemoryData m
               then stats_loop containerMetrics rest (containerStats, mx_MedianReplicas m)
               else stats_loop containerMetrics rest
                      (containerStats @ [container_stats_of res m], mx_MedianReplicas m))"

text \<open>\<^verbatim>\<open>int32(f)\<close>; \<open>oob\<close> outside the range.\<close>

definition int32_of_f64 :: "(float64 \<Rightarrow> int) \<Rightarrow> float64 \<Rightarrow> int" where
  "int32_of_f64 oob x =
     (if \<not> is_nan x \<and> rk x = 0 \<and> - (2 ^ 31) \<le> f64_trunc (val x) \<and> f64_trunc (val x) < 2 ^ 31
      then f64_trunc (val x) else oob x)"

definition BuildContainerStatFromCache ::
    "(float64 \<Rightarrow> int) \<Rightarrow> WorkloadInfo \<Rightarrow> container_cache \<Rightarrow> OriginalContainerResources list
     \<Rightarrow> WorkloadStat option" where
  "BuildContainerStatFromCache oob info cache containerResources =
     (let workloadKey = GetWorkloadKey (wi_Kind info) (wi_Namespace info) (wi_Name info)
      in case cache workloadKey of
           None \<Rightarrow> None
         | Some containerMetrics \<Rightarrow>
             let (containerStats, medianReplicas) = stats_loop containerMetrics containerResources ([], lit 0)
             in if length containerStats = 0 then None
                else Some \<lparr>ws_WorkloadIdentifier = workloadKey, ws_Kind = wi_Kind info,
                   ws_Namespace = wi_Namespace info, ws_Name = wi_Name info,
                   ws_CreationTime = zero_time, ws_UpdatedAt = zero_time,
                   ws_IsHorizontallyAutoscaledOnCPU = False, ws_IsHorizontallyAutoscaledOnMem = False,
                   ws_Constraints = None, ws_EvictionRanking = 0,
                   ws_Replicas = int32_of_f64 oob medianReplicas, ws_Metadata = None,
                   ws_ContainerStats = containerStats,
                   ws_OriginalContainerResources = containerResources\<rparr>)"

section \<open>Excluded codes and incomplete statistics\<close>

definition appendExcludedCode :: "ExcludedCode list \<Rightarrow> ExcludedCode \<Rightarrow> ExcludedCode list" where
  "appendExcludedCode codes code = (if code \<in> set codes then codes else codes @ [code])"

definition mergeExcludedCodes :: "ExcludedCode list \<Rightarrow> ExcludedCode list \<Rightarrow> ExcludedCode list" where
  "mergeExcludedCodes existing additions = foldl appendExcludedCode existing additions"

definition buildIncompleteContainerStats :: "OriginalContainerResources list \<Rightarrow> ContainerStats list" where
  "buildIncompleteContainerStats containerResources =
     map (\<lambda>r. empty_container_stats (oc_Name r) (oc_Type r)) containerResources"

definition metadata_of :: "WorkloadStat \<Rightarrow> WorkloadStatMetadata" where
  "metadata_of w = (case ws_Metadata w of None \<Rightarrow> empty_metadata | Some m \<Rightarrow> m)"

definition markWorkloadStatIncomplete :: "WorkloadStat \<Rightarrow> WorkloadStat" where
  "markWorkloadStatIncomplete w =
     w\<lparr>ws_ContainerStats := buildIncompleteContainerStats (ws_OriginalContainerResources w),
       ws_Metadata := Some ((metadata_of w)\<lparr>md_Incomplete := True, md_Excluded := True,
         md_ExcludedCodes := appendExcludedCode (md_ExcludedCodes (metadata_of w)) ExcludedCodeIncomplete\<rparr>)\<rparr>"

text \<open>The last statistics of a name count, as in a map filled in order.\<close>

definition hasCompleteSimplePredictions :: "WorkloadStat \<Rightarrow> OriginalContainerResources list \<Rightarrow> bool" where
  "hasCompleteSimplePredictions w containerResources \<longleftrightarrow>
     (let byName = map_of (rev (map (\<lambda>c. (cs_ContainerName c, c)) (ws_ContainerStats w)))
      in list_all (\<lambda>res.
           oc_Type res = InitContainer \<or>
           (case byName (oc_Name res) of
              None \<Rightarrow> False
            | Some c \<Rightarrow> cs_SimplePredictionsCPU c \<noteq> None \<and> cs_SimplePredictionsMemory c \<noteq> None))
         containerResources)"

section \<open>Resources of the containers\<close>

definition setResourceRequestAndLimit ::
    "Container \<Rightarrow> OriginalContainerResources \<Rightarrow> OriginalContainerResources" where
  "setResourceRequestAndLimit c res =
     (let amount = (\<lambda>unit q old. if \<not> q_IsZero q then unit q else old) in
      res\<lparr>oc_CPURequest := amount cores (rl_val (c_Requests c) ResourceCPU) (oc_CPURequest res),
          oc_CPULimit := amount cores (rl_val (c_Limits c) ResourceCPU) (oc_CPULimit res),
          oc_MemoryRequest := amount megabytes (rl_val (c_Requests c) ResourceMemory) (oc_MemoryRequest res),
          oc_MemoryLimit := amount megabytes (rl_val (c_Limits c) ResourceMemory) (oc_MemoryLimit res)\<rparr>)"

definition named_resources :: "string \<Rightarrow> ContainerType \<Rightarrow> OriginalContainerResources" where
  "named_resources name ty = \<lparr>oc_Name = name, oc_Type = ty, oc_CPURequest = lit 0, oc_CPULimit = lit 0,
     oc_MemoryRequest = lit 0, oc_MemoryLimit = lit 0\<rparr>"

definition getAllContainerResourcesFromContainerSpecs ::
    "Container list \<Rightarrow> Container list \<Rightarrow> OriginalContainerResources list" where
  "getAllContainerResourcesFromContainerSpecs containerSpecs initContainerSpecs =
     map (\<lambda>c. setResourceRequestAndLimit c (named_resources (c_Name c) AppContainer)) containerSpecs @
     map (\<lambda>c. setResourceRequestAndLimit c (named_resources (c_Name c)
            (if IsSidecarContainer c then SidecarContainer else InitContainer))) initContainerSpecs"

section \<open>Statistics of a workload\<close>

definition buildBaseWorkloadStat ::
    "(float64 \<Rightarrow> int) \<Rightarrow> go_time \<Rightarrow> string \<Rightarrow> WorkloadObject \<Rightarrow> OriginalContainerResources list
     \<Rightarrow> (string \<rightharpoonup> (string \<rightharpoonup> float64)) \<Rightarrow> WorkloadStat" where
  "buildBaseWorkloadStat oob now workloadKey obj containerResources nsVsWorkloadMetrics =
     (let replicas = (case nsVsWorkloadMetrics (GetNamespace obj) of
            None \<Rightarrow> GetReplicas obj
          | Some byWorkload \<Rightarrow>
              (case byWorkload workloadKey of
                 None \<Rightarrow> GetReplicas obj
               | Some medianReplicas \<Rightarrow>
                   if flt (lit 0) medianReplicas then int32_of_f64 oob medianReplicas else GetReplicas obj))
      in \<lparr>ws_WorkloadIdentifier = workloadKey, ws_Kind = GetKind obj, ws_Namespace = GetNamespace obj,
          ws_Name = GetName obj, ws_CreationTime = GetCreationTime obj, ws_UpdatedAt = now,
          ws_IsHorizontallyAutoscaledOnCPU = False, ws_IsHorizontallyAutoscaledOnMem = False,
          ws_Constraints = None, ws_EvictionRanking = 0, ws_Replicas = replicas, ws_Metadata = None,
          ws_ContainerStats = buildIncompleteContainerStats containerResources,
          ws_OriginalContainerResources = containerResources\<rparr>)"

text \<open>First the metrics, or an incomplete statistic when there are none.\<close>

definition with_metrics ::
    "(float64 \<Rightarrow> int) \<Rightarrow> string \<Rightarrow> WorkloadObject \<Rightarrow> (string \<rightharpoonup> container_cache)
     \<Rightarrow> OriginalContainerResources list \<Rightarrow> WorkloadStat \<Rightarrow> WorkloadStat" where
  "with_metrics oob workloadKey obj nsVsContainerMetrics containerResources w =
     (case nsVsContainerMetrics (GetNamespace obj) of
        None \<Rightarrow> markWorkloadStatIncomplete w
      | Some cache \<Rightarrow>
          if cache workloadKey = None then markWorkloadStatIncomplete w
          else (case BuildContainerStatFromCache oob (GetWorkloadInfo obj) cache containerResources of
                  None \<Rightarrow> markWorkloadStatIncomplete w
                | Some metricsStat \<Rightarrow>
                    w\<lparr>ws_ContainerStats := ws_ContainerStats metricsStat,
                      ws_Replicas := (if ws_Replicas w \<le> 0 \<and> ws_Replicas metricsStat > 0
                                      then ws_Replicas metricsStat else ws_Replicas w)\<rparr>))"

definition hpa_codes :: "bool \<Rightarrow> bool \<Rightarrow> ExcludedCode list" where
  "hpa_codes hpaOnCPU hpaOnMemory =
     (if hpaOnCPU \<and> hpaOnMemory then [ExcludedCodeCPUHPA, ExcludedCodeMemoryHPA]
      else if hpaOnCPU then [ExcludedCodeCPUHPA]
      else if hpaOnMemory then [ExcludedCodeMemoryHPA] else [])"

definition with_hpa :: "bool \<Rightarrow> bool \<Rightarrow> WorkloadStat \<Rightarrow> WorkloadStat" where
  "with_hpa hpaOnCPU hpaOnMemory w =
     (let w = w\<lparr>ws_IsHorizontallyAutoscaledOnCPU := hpaOnCPU, ws_IsHorizontallyAutoscaledOnMem := hpaOnMemory\<rparr>
      in if hpaOnCPU \<or> hpaOnMemory
         then w\<lparr>ws_Metadata := Some ((metadata_of w)\<lparr>md_Excluded := True,
                  md_ExcludedCodes := mergeExcludedCodes (md_ExcludedCodes (metadata_of w))
                    (hpa_codes hpaOnCPU hpaOnMemory)\<rparr>)\<rparr>
         else w)"

definition with_gpu :: "bool \<Rightarrow> ExcludedCode list \<Rightarrow> WorkloadStat \<Rightarrow> WorkloadStat" where
  "with_gpu hasGPU excludedCodes w =
     (if hasGPU
      then let excludedCodes = appendExcludedCode excludedCodes ExcludedCodeGPUWorkload
           in (case ws_Metadata w of
                 Some m \<Rightarrow> w\<lparr>ws_Metadata := Some (m\<lparr>
                   md_ExcludedCodes := mergeExcludedCodes (md_ExcludedCodes m) excludedCodes,
                   md_IsGPUWorkload := True\<rparr>)\<rparr>
               | None \<Rightarrow> w\<lparr>ws_Metadata := Some (empty_metadata\<lparr>md_Excluded := True,
                   md_ExcludedCodes := excludedCodes, md_IsGPUWorkload := True\<rparr>)\<rparr>)
      else w)"

definition set_predictions ::
    "(string \<rightharpoonup> SimplePrediction) \<Rightarrow> (string \<rightharpoonup> SimplePrediction) \<Rightarrow> WorkloadObject \<Rightarrow> ContainerStats \<Rightarrow> ContainerStats" where
  "set_predictions cpu mem obj c =
     (let key = GetWorkloadContainerKey (GetKind obj) (GetNamespace obj) (GetName obj) (cs_ContainerName c);
          c = (case cpu key of None \<Rightarrow> c | Some p \<Rightarrow> c\<lparr>cs_SimplePredictionsCPU := Some p\<rparr>)
      in case mem key of None \<Rightarrow> c | Some p \<Rightarrow> c\<lparr>cs_SimplePredictionsMemory := Some p\<rparr>)"

definition stored_ranking :: "WorkloadObject \<Rightarrow> WorkloadStat \<Rightarrow> EvictionRanking" where
  "stored_ranking obj w =
     (if (\<exists>c \<in> set_option (ws_Constraints w). wc_DoNotDisruptAnnotation c) then EvictionRankingDisabled
      else if GetKind obj = StatefulSetKind \<or> ws_Replicas w = 1 then EvictionRankingMedium
      else EvictionRankingHigh)"

text \<open>What \<^verbatim>\<open>prepareStatsFromMetrics\<close> reads besides the workload.\<close>

record StatsInputs =
  si_oob :: "float64 \<Rightarrow> int"
  si_now :: go_time
  si_containerMetrics :: "string \<rightharpoonup> container_cache"
  si_workloadMetrics :: "string \<rightharpoonup> (string \<rightharpoonup> float64)"
  si_cpuPredictions :: "string \<rightharpoonup> (string \<rightharpoonup> SimplePrediction)"
  si_memoryPredictions :: "string \<rightharpoonup> (string \<rightharpoonup> SimplePrediction)"
  si_hpaCPU :: "string \<rightharpoonup> bool"
  si_hpaMemory :: "string \<rightharpoonup> bool"
  si_dynamicClient :: bool
  si_pdbCache :: "string \<rightharpoonup> PodDisruptionBudget list"
  si_podCache :: "string \<rightharpoonup> Pod list"

definition nil_map :: "(string \<rightharpoonup> (string \<rightharpoonup> 'a)) \<Rightarrow> string \<Rightarrow> (string \<rightharpoonup> 'a)" where
  "nil_map m k = (case m k of None \<Rightarrow> Map.empty | Some x \<Rightarrow> x)"

definition prepareStatsFromMetrics :: "StatsInputs \<Rightarrow> string \<Rightarrow> WorkloadObject \<Rightarrow> WorkloadStat" where
  "prepareStatsFromMetrics inp workloadKey obj =
     (let containerSpecs = GetContainerSpecs obj (si_podCache inp);
          initContainerSpecs = GetInitContainerSpecs obj (si_podCache inp);
          containerResources = getAllContainerResourcesFromContainerSpecs containerSpecs initContainerSpecs;
          w = buildBaseWorkloadStat (si_oob inp) (si_now inp) workloadKey obj containerResources
                (si_workloadMetrics inp);
          w = with_metrics (si_oob inp) workloadKey obj (si_containerMetrics inp) containerResources w;
          hpaOnCPU = (si_hpaCPU inp workloadKey = Some True);
          hpaOnMemory = (si_hpaMemory inp workloadKey = Some True);
          w = with_hpa hpaOnCPU hpaOnMemory w;
          w = with_gpu (WorkloadHasGPU [containerSpecs, initContainerSpecs]) (hpa_codes hpaOnCPU hpaOnMemory) w;
          w = (if si_dynamicClient inp
               then w\<lparr>ws_Constraints := Some (DetectWorkloadConstraints obj (si_pdbCache inp))\<rparr> else w);
          w = w\<lparr>ws_ContainerStats := map (set_predictions (nil_map (si_cpuPredictions inp) (GetNamespace obj))
                 (nil_map (si_memoryPredictions inp) (GetNamespace obj)) obj) (ws_ContainerStats w)\<rparr>;
          w = (if \<not> IsIncomplete w \<and> \<not> hasCompleteSimplePredictions w containerResources
               then markWorkloadStatIncomplete w else w)
      in w\<lparr>ws_EvictionRanking := stored_ranking obj w\<rparr>)"

section \<open>The order of the query results does not matter\<close>

lemma flt_tie_eq:
  assumes "fle fzero c" "flt c x" "flt c y" "\<not> flt x y" "\<not> flt y x"
  shows "x = y"
proof -
  have nn: "\<not> is_nan x" "\<not> is_nan y" and pos: "0 \<le> rk x" "rk x = 0 \<Longrightarrow> 0 < val x"
    using assms(1-3) by (auto simp: fle_def flt_def)
  have "rk x = rk y \<and> val x = val y"
    using assms(4,5) nn by (simp add: flt_def) linarith
  moreover have "x = y" if "rk x = rk y" "val x = val y"
    using that nn pos
  proof (cases x; cases y)
    fix s m t n assume xy: "x = Num s m" "y = Num t n"
    have "\<not> s" using pos xy mag_val_nonneg [of m] by (cases s) auto
    moreover have "\<not> t" using pos xy that mag_val_nonneg [of n] by (cases t) auto
    ultimately show ?thesis using that xy by (simp add: mag_val_inject)
  qed (auto split: if_splits)
  ultimately show ?thesis by blast
qed

lemma updateMaxValue_commute:
  assumes "fle fzero c"
  shows "updateMaxValue (updateMaxValue c x) y = updateMaxValue (updateMaxValue c y) x"
proof (cases "flt c x"; cases "flt c y")
  assume "flt c x" "flt c y"
  then show ?thesis using flt_tie_eq [OF assms] flt_trans [of x y x]
    by (cases "flt x y"; cases "flt y x") (simp_all add: updateMaxValue_def)
next
  assume "flt c x" "\<not> flt c y"
  then show ?thesis using flt_trans [of c x y] by (auto simp: updateMaxValue_def)
next
  assume "\<not> flt c x" "flt c y"
  then show ?thesis using flt_trans [of c y x] by (auto simp: updateMaxValue_def)
next
  assume "\<not> flt c x" "\<not> flt c y"
  then show ?thesis by (simp add: updateMaxValue_def)
qed

lemma updateMaxValue_nonneg: "fle fzero c \<Longrightarrow> fle fzero (updateMaxValue c x)"
  by (auto simp: updateMaxValue_def intro: fle_trans flt_fle)

text \<open>Values a cache holds when it was filled from an empty one.\<close>

definition metrics_ok :: "ContainerMetrics \<Rightarrow> bool" where
  "metrics_ok m \<longleftrightarrow> fle fzero (mx_CPUP75 m) \<and> fle fzero (mx_MemoryP75 m) \<and> fle fzero (mx_OOMMemory m) \<and>
     fle fzero (mx_Memory7Day m) \<and> (\<forall>u. mx_PSIAdjustedUsage m = Some u \<longrightarrow> fle fzero u)"

definition cache_ok :: "container_cache \<Rightarrow> bool" where
  "cache_ok cache \<longleftrightarrow> (\<forall>k m n c. cache k = Some m \<longrightarrow> m n = Some c \<longrightarrow> metrics_ok c)"

lemma metrics_ok_zero [simp]: "metrics_ok zero_container_metrics"
  by (simp add: metrics_ok_def zero_container_metrics_def)

text \<open>Each metric type updates one field.\<close>

lemma update_standard:
  "updateStandardMetrics m x ty =
     (if ty = ''cpu_p75'' then m\<lparr>mx_CPUP75 := updateMaxValue (mx_CPUP75 m) x, mx_HasCPUData := True\<rparr>
      else if ty = ''memory_p75''
      then m\<lparr>mx_MemoryP75 := updateMaxValue (mx_MemoryP75 m) x, mx_HasMemoryData := True\<rparr>
      else if ty = ''oom_memory''
      then m\<lparr>mx_OOMMemory := updateMaxValue (mx_OOMMemory m) x, mx_HasMemoryData := True\<rparr>
      else if ty = ''memory_max_7day'' then m\<lparr>mx_Memory7Day := updateMaxValue (mx_Memory7Day m) x\<rparr>
      else if ty = ''median_replicas'' then m\<lparr>mx_MedianReplicas := x\<rparr> else m)"
  unfolding updateStandardMetrics_def updateCPUMetrics_def updateMemoryMetrics_def updateMemory7DayMetrics_def
  by (cases "ty = ''cpu_p75''"; cases "ty = ''memory_p75''"; cases "ty = ''oom_memory''";
      cases "ty = ''memory_max_7day''") simp_all

lemma metrics_ok_update:
  assumes "metrics_ok m"
  shows "metrics_ok (updateContainerMetrics m x ty psi)"
proof (cases psi)
  case True
  then show ?thesis using assms
    by (cases "mx_PSIAdjustedUsage m")
      (simp_all add: metrics_ok_def updateContainerMetrics_def updatePSIAdjustedMetrics_def Let_def updateMaxValue_nonneg)
next
  case False
  then show ?thesis using assms
    by (simp add: metrics_ok_def updateContainerMetrics_def update_standard updateMaxValue_nonneg)
qed

lemma update_commute:
  assumes "metrics_ok m" "psi \<or> ty \<noteq> ''median_replicas''"
  shows "updateContainerMetrics (updateContainerMetrics m x ty psi) y ty psi =
    updateContainerMetrics (updateContainerMetrics m y ty psi) x ty psi"
proof (cases psi)
  case True
  then show ?thesis using assms(1)
    by (cases "mx_PSIAdjustedUsage m")
      (simp_all add: metrics_ok_def updateContainerMetrics_def updatePSIAdjustedMetrics_def Let_def updateMaxValue_commute)
next
  case False
  then show ?thesis using assms
    by (simp add: metrics_ok_def updateContainerMetrics_def update_standard updateMaxValue_commute)
qed

lemma cache_ok_merge: "cache_ok cache \<Longrightarrow> cache_ok (merge_result ty psi cache r)"
  unfolding cache_ok_def merge_result_def Let_def
  by (auto split: option.splits prod.splits if_splits intro!: metrics_ok_update)

lemma merge_commute:
  assumes "cache_ok cache" "psi \<or> ty \<noteq> ''median_replicas''"
  shows "merge_result ty psi (merge_result ty psi cache r) s = merge_result ty psi (merge_result ty psi cache s) r"
proof (cases "raw_target (fst r) = None \<or> raw_target (fst s) = None")
  case True
  then show ?thesis by (auto simp: merge_result_def split: option.splits)
next
  case False
  then obtain k n k' n' where t: "raw_target (fst r) = Some (k, n)" "raw_target (fst s) = Some (k', n')"
    by auto
  define m where "m = (case cache k of None \<Rightarrow> Map.empty | Some m \<Rightarrow> m)"
  define c where "c = (case m n of None \<Rightarrow> zero_container_metrics | Some m \<Rightarrow> m)"
  have "metrics_ok c"
    using assms(1) by (auto simp: c_def m_def cache_ok_def split: option.splits)
  note u = update_commute [OF this assms(2), of "snd r" "snd s"]
  show ?thesis
  proof (cases "k = k'")
    case False
    then show ?thesis by (simp add: merge_result_def t Let_def fun_upd_twist)
  next
    case k: True
    show ?thesis
    proof (cases "n = n'")
      case True
      then show ?thesis using u k
        by (simp add: merge_result_def t Let_def m_def c_def)
    next
      case False
      then show ?thesis using k
        by (simp add: merge_result_def t Let_def fun_upd_twist)
    qed
  qed
qed

lemma cache_ok_foldl: "cache_ok cache \<Longrightarrow> cache_ok (foldl (merge_result ty psi) cache rs)"
  by (induction rs arbitrary: cache) (simp_all add: cache_ok_merge)

lemma merge_foldl_rotate:
  assumes "cache_ok cache" "psi \<or> ty \<noteq> ''median_replicas''"
  shows "foldl (merge_result ty psi) (merge_result ty psi cache r) rs =
    merge_result ty psi (foldl (merge_result ty psi) cache rs) r"
  using assms(1)
proof (induction rs arbitrary: cache)
  case (Cons s rs)
  then show ?case
    using Cons.IH [of "merge_result ty psi cache s"] cache_ok_merge [OF Cons.prems]
      merge_commute [OF Cons.prems assms(2), of r s] by simp
qed simp

lemma merge_foldl_mset:
  assumes "cache_ok cache" "psi \<or> ty \<noteq> ''median_replicas''" "mset rs = mset rs'"
  shows "foldl (merge_result ty psi) cache rs = foldl (merge_result ty psi) cache rs'"
  using assms(1,3)
proof (induction rs arbitrary: rs' cache)
  case (Cons r rs)
  then obtain ys zs where split: "rs' = ys @ r # zs"
    by (metis list.set_intros(1) set_mset_mset split_list)
  then have "mset rs = mset (ys @ zs)" using Cons.prems(2) by simp
  then have "foldl (merge_result ty psi) (merge_result ty psi cache r) rs =
      foldl (merge_result ty psi) (merge_result ty psi cache r) (ys @ zs)"
    using Cons.IH [OF cache_ok_merge [OF Cons.prems(1)]] by blast
  then show ?case using split merge_foldl_rotate [OF Cons.prems(1) assms(2), of r ys] by simp
qed simp

text \<open>The cache of container metrics is independent of the order in which Go ranges over a map of
  query results, for every metric that is a maximum, and a cache filled from an empty one stays
  one for which this holds. Only the replica count, which is overwritten, may depend on it.\<close>

lemma merge_order_independent:
  assumes "cache_ok cache" "psiAdjusted \<or> metricType \<noteq> ''median_replicas''"
    and "mset rawResults = mset rawResults'"
  shows "MergeContainerRawResultsIntoCache cache rawResults metricType psiAdjusted =
      MergeContainerRawResultsIntoCache cache rawResults' metricType psiAdjusted \<and>
    cache_ok (MergeContainerRawResultsIntoCache cache rawResults metricType psiAdjusted)"
  using merge_foldl_mset [OF assms] cache_ok_foldl [OF assms(1)] by (simp add: MergeContainerRawResultsIntoCache_def)

lemma merge_order_independent_witness:
  "MergeContainerRawResultsIntoCache Map.empty [(''a'', lit 1), (''b:c:d:e'', lit 2)] ''cpu_p75'' False =
    MergeContainerRawResultsIntoCache Map.empty [(''b:c:d:e'', lit 2), (''a'', lit 1)] ''cpu_p75'' False"
  using merge_order_independent [of Map.empty False "''cpu_p75''"
      "[(''a'', lit 1), (''b:c:d:e'', lit 2)]" "[(''b:c:d:e'', lit 2), (''a'', lit 1)]"]
  by (simp add: cache_ok_def)

section \<open>Why a workload is excluded\<close>

lemma set_appendExcludedCode [simp]: "set (appendExcludedCode codes code) = insert code (set codes)"
  by (auto simp: appendExcludedCode_def)

lemma distinct_appendExcludedCode [simp]: "distinct (appendExcludedCode codes code) = distinct codes"
  by (auto simp: appendExcludedCode_def)

lemma set_mergeExcludedCodes [simp]: "set (mergeExcludedCodes codes adds) = set codes \<union> set adds"
  unfolding mergeExcludedCodes_def by (induction adds arbitrary: codes) auto

lemma distinct_mergeExcludedCodes [simp]: "distinct (mergeExcludedCodes codes adds) = distinct codes"
  unfolding mergeExcludedCodes_def by (induction adds arbitrary: codes) auto

text \<open>The metadata records exactly the given reasons.\<close>

definition records_reasons :: "WorkloadStat \<Rightarrow> ExcludedCode set \<Rightarrow> bool" where
  "records_reasons w reasons \<longleftrightarrow>
     (let m = metadata_of w in
      (ws_Metadata w = None \<longrightarrow> reasons = {}) \<and> (reasons = {} \<longrightarrow> ws_Metadata w = None) \<and>
      set (md_ExcludedCodes m) = reasons \<and> distinct (md_ExcludedCodes m) \<and>
      md_Excluded m = (reasons \<noteq> {}) \<and> md_Incomplete m = (ExcludedCodeIncomplete \<in> reasons) \<and>
      md_IsGPUWorkload m = (ExcludedCodeGPUWorkload \<in> reasons))"

lemma records_reasons_upd [simp]:
  "records_reasons (w\<lparr>ws_ContainerStats := cs\<rparr>) R = records_reasons w R"
  "records_reasons (w\<lparr>ws_Constraints := con\<rparr>) R = records_reasons w R"
  "records_reasons (w\<lparr>ws_EvictionRanking := er\<rparr>) R = records_reasons w R"
  "records_reasons (w\<lparr>ws_Replicas := rp\<rparr>) R = records_reasons w R"
  by (simp_all add: records_reasons_def metadata_of_def)

lemmas ExcludedCode_defs = ExcludedCodeGPUWorkload_def ExcludedCodeMemoryHPA_def
  ExcludedCodeCPUHPA_def ExcludedCodeIncomplete_def

lemma metadata_of_upd [simp]:
  "metadata_of (w\<lparr>ws_Metadata := Some m\<rparr>) = m"
  "metadata_of (w\<lparr>ws_IsHorizontallyAutoscaledOnCPU := b\<rparr>) = metadata_of w"
  "metadata_of (w\<lparr>ws_IsHorizontallyAutoscaledOnMem := b\<rparr>) = metadata_of w"
  by (simp_all add: metadata_of_def)

lemma IsIncomplete_metadata: "IsIncomplete w = md_Incomplete (metadata_of w)"
  by (simp add: IsIncomplete_def metadata_of_def empty_metadata_def split: option.split)

lemma records_incomplete: "records_reasons w R \<Longrightarrow> IsIncomplete w \<longleftrightarrow> ExcludedCodeIncomplete \<in> R"
  by (simp add: records_reasons_def IsIncomplete_metadata Let_def)

lemma reasons_incomplete:
  "records_reasons w R \<Longrightarrow> records_reasons (markWorkloadStatIncomplete w) (insert ExcludedCodeIncomplete R)"
  by (simp add: markWorkloadStatIncomplete_def records_reasons_def ExcludedCode_defs Let_def)

lemma reasons_hpa:
  assumes "records_reasons w R"
  shows "records_reasons (with_hpa c m w) (R \<union> set (hpa_codes c m))"
proof (cases "c \<or> m")
  case True
  then show ?thesis using assms
    by (cases c; cases m) (simp_all add: with_hpa_def records_reasons_def ExcludedCode_defs hpa_codes_def
        Let_def)
next
  case False
  then show ?thesis using assms
    by (simp add: with_hpa_def records_reasons_def hpa_codes_def Let_def)
qed

lemma reasons_gpu:
  assumes "records_reasons w R" "set codes \<subseteq> R" "distinct codes"
  shows "records_reasons (with_gpu g codes w) (if g then insert ExcludedCodeGPUWorkload R else R)"
proof (cases "ws_Metadata w")
  case None
  then have "R = {}" using assms(1) by (simp add: records_reasons_def Let_def)
  then show ?thesis using None assms
    by (simp add: with_gpu_def records_reasons_def ExcludedCode_defs metadata_of_def empty_metadata_def)
next
  case (Some m)
  then have "R \<noteq> {}" using assms(1) by (auto simp: records_reasons_def Let_def)
  then show ?thesis using Some assms
    by (simp add: with_gpu_def records_reasons_def ExcludedCode_defs metadata_of_def Un_absorb2)
qed

lemma reasons_base: "records_reasons (buildBaseWorkloadStat oob now k obj res ms) {}"
  by (simp add: buildBaseWorkloadStat_def metadata_of_def empty_metadata_def records_reasons_def)

lemma reasons_metrics:
  assumes "records_reasons w {}"
  shows "records_reasons (with_metrics oob k obj ms res w)
    (if IsIncomplete (with_metrics oob k obj ms res w) then {ExcludedCodeIncomplete} else {})"
proof (cases "with_metrics oob k obj ms res w = markWorkloadStatIncomplete w")
  case True
  then show ?thesis using reasons_incomplete [OF assms] records_incomplete by fastforce
next
  case False
  then obtain cs rp where u: "with_metrics oob k obj ms res w = w\<lparr>ws_ContainerStats := cs, ws_Replicas := rp\<rparr>"
    by (auto simp: with_metrics_def split: option.splits if_splits)
  then show ?thesis
    using assms records_incomplete [of "with_metrics oob k obj ms res w" "{}"] by simp
qed

text \<open>The same statistics before the check of the predictions.\<close>

definition unchecked_stat :: "StatsInputs \<Rightarrow> string \<Rightarrow> WorkloadObject \<Rightarrow> WorkloadStat" where
  "unchecked_stat inp workloadKey obj =
     (let containerSpecs = GetContainerSpecs obj (si_podCache inp);
          initContainerSpecs = GetInitContainerSpecs obj (si_podCache inp);
          containerResources = getAllContainerResourcesFromContainerSpecs containerSpecs initContainerSpecs;
          hpaOnCPU = (si_hpaCPU inp workloadKey = Some True);
          hpaOnMemory = (si_hpaMemory inp workloadKey = Some True);
          w = with_gpu (WorkloadHasGPU [containerSpecs, initContainerSpecs]) (hpa_codes hpaOnCPU hpaOnMemory)
                (with_hpa hpaOnCPU hpaOnMemory
                  (with_metrics (si_oob inp) workloadKey obj (si_containerMetrics inp) containerResources
                    (buildBaseWorkloadStat (si_oob inp) (si_now inp) workloadKey obj containerResources
                      (si_workloadMetrics inp))));
          w = (if si_dynamicClient inp
               then w\<lparr>ws_Constraints := Some (DetectWorkloadConstraints obj (si_pdbCache inp))\<rparr> else w)
      in w\<lparr>ws_ContainerStats := map (set_predictions (nil_map (si_cpuPredictions inp) (GetNamespace obj))
             (nil_map (si_memoryPredictions inp) (GetNamespace obj)) obj) (ws_ContainerStats w)\<rparr>)"

definition resources_of :: "StatsInputs \<Rightarrow> WorkloadObject \<Rightarrow> OriginalContainerResources list" where
  "resources_of inp obj = getAllContainerResourcesFromContainerSpecs
     (GetContainerSpecs obj (si_podCache inp)) (GetInitContainerSpecs obj (si_podCache inp))"

lemma prepare_eq:
  "prepareStatsFromMetrics inp k obj =
     (let w = unchecked_stat inp k obj;
          w = (if \<not> IsIncomplete w \<and> \<not> hasCompleteSimplePredictions w (resources_of inp obj)
               then markWorkloadStatIncomplete w else w)
      in w\<lparr>ws_EvictionRanking := stored_ranking obj w\<rparr>)"
  unfolding prepareStatsFromMetrics_def unchecked_stat_def resources_of_def Let_def by (rule refl)

definition has_gpu :: "StatsInputs \<Rightarrow> WorkloadObject \<Rightarrow> bool" where
  "has_gpu inp obj = WorkloadHasGPU
     [GetContainerSpecs obj (si_podCache inp), GetInitContainerSpecs obj (si_podCache inp)]"

lemma unchecked_reasons:
  "records_reasons (unchecked_stat inp k obj)
     ((if IsIncomplete (unchecked_stat inp k obj) then {ExcludedCodeIncomplete} else {}) \<union>
      set (hpa_codes (si_hpaCPU inp k = Some True) (si_hpaMemory inp k = Some True)) \<union>
      (if has_gpu inp obj then {ExcludedCodeGPUWorkload} else {}))"
proof -
  let ?res = "resources_of inp obj"
  define m where "m = with_metrics (si_oob inp) k obj (si_containerMetrics inp) ?res
    (buildBaseWorkloadStat (si_oob inp) (si_now inp) k obj ?res (si_workloadMetrics inp))"
  define codes where "codes = hpa_codes (si_hpaCPU inp k = Some True) (si_hpaMemory inp k = Some True)"
  define R where "R = (if IsIncomplete m then {ExcludedCodeIncomplete} else {}) \<union> set codes"
  have "records_reasons (with_hpa (si_hpaCPU inp k = Some True) (si_hpaMemory inp k = Some True) m) R"
    unfolding R_def m_def codes_def by (intro reasons_hpa reasons_metrics reasons_base)
  then have "records_reasons (with_gpu (has_gpu inp obj) codes
      (with_hpa (si_hpaCPU inp k = Some True) (si_hpaMemory inp k = Some True) m))
      (if has_gpu inp obj then insert ExcludedCodeGPUWorkload R else R)"
    by (rule reasons_gpu) (simp_all add: R_def codes_def hpa_codes_def ExcludedCode_defs)
  then have r: "records_reasons (unchecked_stat inp k obj)
      (if has_gpu inp obj then insert ExcludedCodeGPUWorkload R else R)"
    by (cases "si_dynamicClient inp")
      (simp_all add: unchecked_stat_def resources_of_def has_gpu_def m_def codes_def Let_def split del: if_split)
  have "ExcludedCodeIncomplete \<notin> set codes" "ExcludedCodeIncomplete \<noteq> ExcludedCodeGPUWorkload"
    by (simp_all add: codes_def hpa_codes_def ExcludedCode_defs)
  then have "IsIncomplete (unchecked_stat inp k obj) = IsIncomplete m"
    using records_incomplete [OF r] by (simp add: R_def)
  then show ?thesis using r by (simp add: R_def codes_def split: if_splits)
qed

lemma prepared_reasons:
  "records_reasons (prepareStatsFromMetrics inp k obj)
     ((if IsIncomplete (prepareStatsFromMetrics inp k obj) then {ExcludedCodeIncomplete} else {}) \<union>
      set (hpa_codes (si_hpaCPU inp k = Some True) (si_hpaMemory inp k = Some True)) \<union>
      (if has_gpu inp obj then {ExcludedCodeGPUWorkload} else {}))"
proof (cases "\<not> IsIncomplete (unchecked_stat inp k obj) \<and>
    \<not> hasCompleteSimplePredictions (unchecked_stat inp k obj) (resources_of inp obj)")
  case True
  have "records_reasons (prepareStatsFromMetrics inp k obj)
      (insert ExcludedCodeIncomplete
        (set (hpa_codes (si_hpaCPU inp k = Some True) (si_hpaMemory inp k = Some True)) \<union>
         (if has_gpu inp obj then {ExcludedCodeGPUWorkload} else {})))"
    using True reasons_incomplete [OF unchecked_reasons, of inp k obj] by (simp add: prepare_eq Let_def)
  then show ?thesis using records_incomplete by fastforce
next
  case False
  then have p: "prepareStatsFromMetrics inp k obj = (unchecked_stat inp k obj)
      \<lparr>ws_EvictionRanking := stored_ranking obj (unchecked_stat inp k obj)\<rparr>"
    by (auto simp: prepare_eq Let_def)
  then have "IsIncomplete (prepareStatsFromMetrics inp k obj) = IsIncomplete (unchecked_stat inp k obj)"
    by (simp add: IsIncomplete_def)
  then show ?thesis using unchecked_reasons [of inp k obj] by (simp add: p)
qed

text \<open>What is stored about a workload says exactly why it is excluded: it is excluded exactly if a
  code is recorded, each code is recorded once and exactly if its reason holds, and the flags of
  GPU and incomplete workloads agree with the codes.\<close>

lemma exclusion_reasons:
  "let w = prepareStatsFromMetrics inp k obj in
    distinct (md_ExcludedCodes (metadata_of w)) \<and>
    set (md_ExcludedCodes (metadata_of w)) =
      {code. code = ExcludedCodeIncomplete \<and> IsIncomplete w \<or>
        code = ExcludedCodeCPUHPA \<and> si_hpaCPU inp k = Some True \<or>
        code = ExcludedCodeMemoryHPA \<and> si_hpaMemory inp k = Some True \<or>
        code = ExcludedCodeGPUWorkload \<and>
          WorkloadHasGPU [GetContainerSpecs obj (si_podCache inp), GetInitContainerSpecs obj (si_podCache inp)]} \<and>
    md_Excluded (metadata_of w) = (md_ExcludedCodes (metadata_of w) \<noteq> []) \<and>
    IsGPUWorkload w =
      WorkloadHasGPU [GetContainerSpecs obj (si_podCache inp), GetInitContainerSpecs obj (si_podCache inp)]"
proof -
  have h: "set (hpa_codes a b) = {code. code = ExcludedCodeCPUHPA \<and> a \<or> code = ExcludedCodeMemoryHPA \<and> b}"
    for a b by (auto simp: hpa_codes_def)
  define w where "w = prepareStatsFromMetrics inp k obj"
  have r: "records_reasons w {code. code = ExcludedCodeIncomplete \<and> IsIncomplete w \<or>
        code = ExcludedCodeCPUHPA \<and> si_hpaCPU inp k = Some True \<or>
        code = ExcludedCodeMemoryHPA \<and> si_hpaMemory inp k = Some True \<or>
        code = ExcludedCodeGPUWorkload \<and> has_gpu inp obj}" (is "records_reasons w ?R")
    using prepared_reasons [of inp k obj] unfolding w_def [symmetric] h
    by (rule back_subst [of "records_reasons w"]) auto
  have "ExcludedCodeGPUWorkload \<in> ?R \<longleftrightarrow> has_gpu inp obj" by (simp add: ExcludedCode_defs)
  moreover have "IsGPUWorkload w = md_IsGPUWorkload (metadata_of w)"
    by (simp add: IsGPUWorkload_def metadata_of_def empty_metadata_def split: option.split)
  moreover have "md_ExcludedCodes (metadata_of w) \<noteq> [] \<longleftrightarrow> set (md_ExcludedCodes (metadata_of w)) \<noteq> {}" by simp
  ultimately show ?thesis
    using r unfolding Let_def w_def [symmetric] has_gpu_def [symmetric] records_reasons_def by metis
qed

section \<open>Complete statistics\<close>

lemma set_predictions_simps [simp]:
  "cs_ContainerName (set_predictions c m obj s) = cs_ContainerName s"
  "cs_ContainerType (set_predictions c m obj s) = cs_ContainerType s"
  "cs_CPUStats (set_predictions c m obj s) = cs_CPUStats s"
  "cs_MemoryStats (set_predictions c m obj s) = cs_MemoryStats s"
  by (simp_all add: set_predictions_def Let_def split: option.split)

text \<open>Statistics of a container that has both metrics, with predictions still missing.\<close>

definition measured :: "OriginalContainerResources list \<Rightarrow> ContainerStats \<Rightarrow> bool" where
  "measured rs s \<longleftrightarrow> cs_CPUStats s \<noteq> None \<and> cs_MemoryStats s \<noteq> None \<and>
     cs_SimplePredictionsCPU s = None \<and> cs_SimplePredictionsMemory s = None \<and>
     (\<exists>r \<in> set rs. oc_Type r \<noteq> InitContainer \<and> oc_Name r = cs_ContainerName s \<and> oc_Type r = cs_ContainerType s)"

lemma stats_loop_measured:
  "\<forall>s \<in> set (fst acc). measured all s \<Longrightarrow> set rs \<subseteq> set all \<Longrightarrow>
   \<forall>s \<in> set (fst (stats_loop ms rs acc)). measured all s"
proof (induction ms rs acc rule: stats_loop.induct)
  case (2 ms r rs cs mr)
  have "measured all (container_stats_of r m)" if "oc_Type r \<noteq> InitContainer" for m
    using 2(6) that by (auto simp: measured_def container_stats_of_def empty_container_stats_def)
  then show ?case using 2 by (auto split: option.split)
qed simp

lemma built_stats_measured:
  assumes "BuildContainerStatFromCache oob info cache res = Some st" "s \<in> set (ws_ContainerStats st)"
  shows "measured res s"
proof -
  obtain ms mr where "stats_loop ms res ([], lit 0) = (ws_ContainerStats st, mr)"
    using assms(1) by (auto simp: BuildContainerStatFromCache_def Let_def split: option.splits prod.splits if_splits)
  then show ?thesis using assms(2) stats_loop_measured [of "([], lit 0)" res res ms] by simp
qed

lemma incomplete_marked [simp]: "IsIncomplete (markWorkloadStatIncomplete w)"
  by (simp add: IsIncomplete_metadata markWorkloadStatIncomplete_def)

lemma with_metrics_stats:
  "\<not> IsIncomplete (with_metrics oob k obj ms res w) \<Longrightarrow>
   s \<in> set (ws_ContainerStats (with_metrics oob k obj ms res w)) \<Longrightarrow> measured res s"
  by (auto simp: with_metrics_def dest: built_stats_measured split: option.splits if_splits)

lemma with_hpa_stats [simp]:
  "ws_ContainerStats (with_hpa a b w) = ws_ContainerStats w"
  "ws_ContainerStats (with_gpu g codes w) = ws_ContainerStats w"
  by (simp_all add: with_hpa_def with_gpu_def Let_def split: option.split)

lemma IsIncomplete_hpa_gpu [simp]:
  "IsIncomplete (with_hpa a b w) = IsIncomplete w"
  "IsIncomplete (with_gpu g codes w) = IsIncomplete w"
  by (simp_all add: with_hpa_def with_gpu_def Let_def IsIncomplete_def metadata_of_def empty_metadata_def
      split: option.split)

lemma unchecked_stats:
  assumes "\<not> IsIncomplete (unchecked_stat inp k obj)"
  shows "\<exists>ss. ws_ContainerStats (unchecked_stat inp k obj) =
      map (set_predictions (nil_map (si_cpuPredictions inp) (GetNamespace obj))
        (nil_map (si_memoryPredictions inp) (GetNamespace obj)) obj) ss \<and>
    (\<forall>s \<in> set ss. measured (resources_of inp obj) s)"
proof -
  let ?res = "resources_of inp obj"
  define m where "m = with_metrics (si_oob inp) k obj (si_containerMetrics inp) ?res
    (buildBaseWorkloadStat (si_oob inp) (si_now inp) k obj ?res (si_workloadMetrics inp))"
  have "IsIncomplete (unchecked_stat inp k obj) = IsIncomplete m"
    by (simp add: unchecked_stat_def Let_def m_def resources_of_def IsIncomplete_def [of "_\<lparr>ws_Constraints := _\<rparr>"]
      IsIncomplete_def [of "_\<lparr>ws_ContainerStats := _\<rparr>"] flip: IsIncomplete_def)
  then have "\<forall>s \<in> set (ws_ContainerStats m). measured ?res s"
    using with_metrics_stats assms unfolding m_def by blast
  then show ?thesis
    by (intro exI [of _ "ws_ContainerStats m"]) (simp add: unchecked_stat_def Let_def m_def resources_of_def)
qed

lemma prepared_complete:
  assumes "\<not> IsIncomplete (prepareStatsFromMetrics inp k obj)"
  shows "\<not> IsIncomplete (unchecked_stat inp k obj)"
    "hasCompleteSimplePredictions (unchecked_stat inp k obj) (resources_of inp obj)"
    "ws_ContainerStats (prepareStatsFromMetrics inp k obj) = ws_ContainerStats (unchecked_stat inp k obj)"
proof -
  have "prepareStatsFromMetrics inp k obj = (unchecked_stat inp k obj)
      \<lparr>ws_EvictionRanking := stored_ranking obj (unchecked_stat inp k obj)\<rparr> \<and>
    \<not> IsIncomplete (unchecked_stat inp k obj) \<and>
    hasCompleteSimplePredictions (unchecked_stat inp k obj) (resources_of inp obj)"
    using assms by (auto simp: prepare_eq Let_def IsIncomplete_metadata metadata_of_def
        markWorkloadStatIncomplete_def split: if_splits)
  then show "\<not> IsIncomplete (unchecked_stat inp k obj)"
    "hasCompleteSimplePredictions (unchecked_stat inp k obj) (resources_of inp obj)"
    "ws_ContainerStats (prepareStatsFromMetrics inp k obj) = ws_ContainerStats (unchecked_stat inp k obj)"
    by simp_all
qed

lemma hasComplete_named:
  assumes "hasCompleteSimplePredictions w rs" "r \<in> set rs" "oc_Type r \<noteq> InitContainer"
  obtains c where "c \<in> set (ws_ContainerStats w)" "cs_ContainerName c = oc_Name r"
    "cs_SimplePredictionsCPU c \<noteq> None" "cs_SimplePredictionsMemory c \<noteq> None"
proof -
  let ?m = "map_of (rev (map (\<lambda>c. (cs_ContainerName c, c)) (ws_ContainerStats w)))"
  obtain c where "?m (oc_Name r) = Some c" "cs_SimplePredictionsCPU c \<noteq> None" "cs_SimplePredictionsMemory c \<noteq> None"
    using assms by (auto simp: hasCompleteSimplePredictions_def list_all_iff Let_def split: option.splits)
  then show thesis using that map_of_SomeD by fastforce
qed

lemma set_predictions_same:
  assumes "measured rs s" "measured rs' s'" "cs_ContainerName s = cs_ContainerName s'"
  shows "cs_SimplePredictionsCPU (set_predictions c m obj s) = cs_SimplePredictionsCPU (set_predictions c m obj s')"
    "cs_SimplePredictionsMemory (set_predictions c m obj s) = cs_SimplePredictionsMemory (set_predictions c m obj s')"
  using assms by (simp_all add: set_predictions_def Let_def measured_def split: option.split)

text \<open>C14. Statistics stored as complete are complete: there are statistics for exactly the containers that
  are not plain init containers, each of the kind of a container of its name, each with its CPU and
  memory statistics and both predictions, which is what the optimiser needs.\<close>

theorem complete_statistics:
  assumes "\<not> IsIncomplete (prepareStatsFromMetrics inp k obj)"
  shows "(\<forall>s \<in> set (ws_ContainerStats (prepareStatsFromMetrics inp k obj)). complete_cs s \<and>
      (\<exists>r \<in> set (resources_of inp obj). oc_Type r = cs_ContainerType s \<and> oc_Name r = cs_ContainerName s \<and>
         cs_ContainerType s \<noteq> InitContainer)) \<and>
    cs_ContainerName ` set (ws_ContainerStats (prepareStatsFromMetrics inp k obj)) =
      oc_Name ` {r \<in> set (resources_of inp obj). oc_Type r \<noteq> InitContainer}"
proof -
  note c = prepared_complete [OF assms]
  let ?P = "set_predictions (nil_map (si_cpuPredictions inp) (GetNamespace obj))
    (nil_map (si_memoryPredictions inp) (GetNamespace obj)) obj"
  obtain ss where ss: "ws_ContainerStats (unchecked_stat inp k obj) = map ?P ss"
    "\<And>s. s \<in> set ss \<Longrightarrow> measured (resources_of inp obj) s"
    using unchecked_stats [OF c(1)] by blast
  have named: "\<exists>s \<in> set ss. cs_ContainerName s = oc_Name r \<and>
      cs_SimplePredictionsCPU (?P s) \<noteq> None \<and> cs_SimplePredictionsMemory (?P s) \<noteq> None"
    if r: "r \<in> set (resources_of inp obj)" "oc_Type r \<noteq> InitContainer" for r
  proof -
    obtain q where "q \<in> set (ws_ContainerStats (unchecked_stat inp k obj))" "cs_ContainerName q = oc_Name r"
      "cs_SimplePredictionsCPU q \<noteq> None" "cs_SimplePredictionsMemory q \<noteq> None"
      by (rule hasComplete_named [OF c(2) r])
    then show ?thesis unfolding ss(1) by auto
  qed
  have "complete_cs (?P s) \<and> (\<exists>r \<in> set (resources_of inp obj). oc_Type r = cs_ContainerType s \<and>
      oc_Name r = cs_ContainerName s \<and> cs_ContainerType s \<noteq> InitContainer)" if s: "s \<in> set ss" for s
  proof -
    obtain r where r: "r \<in> set (resources_of inp obj)" "oc_Type r \<noteq> InitContainer"
      "oc_Name r = cs_ContainerName s" "oc_Type r = cs_ContainerType s"
      using ss(2) [OF s] by (auto simp: measured_def)
    obtain s' where s': "s' \<in> set ss" "cs_ContainerName s' = cs_ContainerName s"
      "cs_SimplePredictionsCPU (?P s') \<noteq> None" "cs_SimplePredictionsMemory (?P s') \<noteq> None"
      using named [OF r(1,2)] r(3) by auto
    note same = set_predictions_same [OF ss(2) [OF s'(1)] ss(2) [OF s] s'(2)]
    have "complete_cs (?P s)"
      using s'(3,4) same ss(2) [OF s] by (simp add: complete_cs_def measured_def)
    then show ?thesis using r by auto
  qed
  moreover have "cs_ContainerName ` set (map ?P ss) = oc_Name ` {r \<in> set (resources_of inp obj). oc_Type r \<noteq> InitContainer}"
    using named ss(2) by (force simp: measured_def image_iff)
  ultimately show ?thesis unfolding c(3) ss(1) by auto
qed

section \<open>Sample\<close>

definition sample_spec :: Container where
  "sample_spec = \<lparr>c_Name = ''app'', c_Requests = None, c_Limits = None, c_RestartPolicy = None\<rparr>"

definition sample_workload :: WorkloadObject where
  "sample_workload = DeploymentWrapper \<lparr>ao_Namespace = ''ns'', ao_Name = ''web'', ao_CreationTime = 0,
     ao_Selector = None, ao_Template = \<lparr>pt_Labels = Map.empty, pt_Annotations = Map.empty,
       pt_Containers = [sample_spec], pt_InitContainers = [], pt_Volumes = [], pt_Affinity = None,
       pt_TopologyKeys = []\<rparr>, ao_SpecReplicas = Some 2, ao_DesiredNumberScheduled = 0\<rparr>"

definition sample_inputs :: "(string \<rightharpoonup> (string \<rightharpoonup> SimplePrediction)) \<Rightarrow> StatsInputs" where
  "sample_inputs predictions = \<lparr>si_oob = (\<lambda>x. 0), si_now = 0,
     si_containerMetrics = (\<lambda>ns. Some (\<lambda>k. Some (\<lambda>n. Some (zero_container_metrics
       \<lparr>mx_HasCPUData := True, mx_HasMemoryData := True\<rparr>)))),
     si_workloadMetrics = Map.empty, si_cpuPredictions = predictions, si_memoryPredictions = predictions,
     si_hpaCPU = Map.empty, si_hpaMemory = Map.empty, si_dynamicClient = False,
     si_pdbCache = Map.empty, si_podCache = Map.empty\<rparr>"

definition sample_predictions :: "string \<rightharpoonup> (string \<rightharpoonup> SimplePrediction)" where
  "sample_predictions ns = Some (\<lambda>k. Some \<lparr>sp_WeeklyPrediction = lit 1, sp_HourlyPrediction = lit 1,
     sp_CurrentPrediction = lit 1, sp_MaxValue = lit 1\<rparr>)"

lemma sample_specs:
  "GetContainerSpecs sample_workload (si_podCache (sample_inputs p)) = [sample_spec]"
  "GetInitContainerSpecs sample_workload (si_podCache (sample_inputs p)) = []"
  by (simp_all add: sample_inputs_def sample_workload_def Deployment_GetContainerSpecs_def
      Deployment_GetInitContainerSpecs_def specs_with_pod_def Deployment_GetSelector_def
      LabelSelectorAsSelector_def wrapped_def GetMatchingPodsFromPodCache_def mergeContainers_def)

lemma sample_resources: "resources_of (sample_inputs p) sample_workload = [named_resources ''app'' AppContainer]"
  by (simp add: resources_of_def sample_specs sample_spec_def getAllContainerResourcesFromContainerSpecs_def
      setResourceRequestAndLimit_def named_resources_def rl_val_def rl_get_def zero_quantity_def)

lemma sample_namespace: "GetNamespace sample_workload = ''ns''" "GetReplicas sample_workload = 2"
  by (simp_all add: sample_workload_def GetNamespace_def)

lemma sample_unchecked:
  "unchecked_stat (sample_inputs p) k sample_workload =
     (buildBaseWorkloadStat (\<lambda>x. 0) 0 k sample_workload [named_resources ''app'' AppContainer] Map.empty)
     \<lparr>ws_ContainerStats := [set_predictions (nil_map p ''ns'') (nil_map p ''ns'') sample_workload
        (container_stats_of (named_resources ''app'' AppContainer)
          (zero_container_metrics\<lparr>mx_HasCPUData := True, mx_HasMemoryData := True\<rparr>))]\<rparr>"
proof -
  have r: "getAllContainerResourcesFromContainerSpecs [sample_spec] [] = [named_resources ''app'' AppContainer]"
    using sample_resources [of p] by (simp add: resources_of_def sample_specs)
  have g: "\<not> WorkloadHasGPU [[sample_spec], []]"
    by (simp add: WorkloadHasGPU_def containerHasGPU_def sample_spec_def)
  show ?thesis
    unfolding unchecked_stat_def Let_def sample_specs r
    using g by (simp add: sample_inputs_def with_metrics_def BuildContainerStatFromCache_def named_resources_def
        with_hpa_def with_gpu_def hpa_codes_def sample_namespace buildBaseWorkloadStat_def
        InitContainer_def AppContainer_def)
qed

lemma sample_prepared: "\<not> IsIncomplete (prepareStatsFromMetrics (sample_inputs sample_predictions) k sample_workload)"
  by (simp add: prepare_eq sample_unchecked sample_resources IsIncomplete_def buildBaseWorkloadStat_def
      hasCompleteSimplePredictions_def set_predictions_def nil_map_def sample_predictions_def named_resources_def
      container_stats_of_def empty_container_stats_def)

lemma complete_statistics_witness:
  "cs_ContainerName ` set (ws_ContainerStats (prepareStatsFromMetrics (sample_inputs sample_predictions) ''k'' sample_workload))
    = {''app''}"
  using complete_statistics [OF sample_prepared [of "''k''"]]
  by (auto simp: sample_resources named_resources_def InitContainer_def AppContainer_def)

text \<open>When the task skips memory it passes no memory predictions, and then every workload that has a
  container besides plain init containers is stored as incomplete, and so excluded.\<close>

lemma skip_memory_excludes_all:
  assumes "si_memoryPredictions inp = Map.empty"
    and "r \<in> set (resources_of inp obj)" "oc_Type r \<noteq> InitContainer"
  shows "IsIncomplete (prepareStatsFromMetrics inp k obj) \<and>
    HasExcludedCode (Some (prepareStatsFromMetrics inp k obj)) ExcludedCodeIncomplete"
proof -
  let ?w = "prepareStatsFromMetrics inp k obj"
  have i: "IsIncomplete ?w"
  proof (rule ccontr)
    assume "\<not> IsIncomplete ?w"
    note c = prepared_complete [OF this]
    obtain s where s: "s \<in> set (ws_ContainerStats (unchecked_stat inp k obj))" "cs_SimplePredictionsMemory s \<noteq> None"
      by (rule hasComplete_named [OF c(2) assms(2,3)])
    then show False using unchecked_stats [OF c(1)] assms(1)
      by (auto simp: set_predictions_def nil_map_def measured_def Let_def split: option.splits)
  qed
  then have "ExcludedCodeIncomplete \<in> set (md_ExcludedCodes (metadata_of ?w))"
    using prepared_reasons [of inp k obj] by (auto simp: records_reasons_def Let_def)
  then show ?thesis using i
    by (auto simp: HasExcludedCode_def metadata_of_def empty_metadata_def list_ex_iff split: option.splits)
qed

lemma skip_memory_excludes_all_witness:
  "IsIncomplete (prepareStatsFromMetrics (sample_inputs Map.empty) ''k'' sample_workload)"
  using skip_memory_excludes_all [of "sample_inputs Map.empty" "named_resources ''app'' AppContainer"
      sample_workload "''k''"]
  by (simp add: sample_resources sample_inputs_def [of Map.empty, THEN arg_cong, of si_memoryPredictions]
      named_resources_def InitContainer_def AppContainer_def)

end
