(* ===== verification/PromQueries.thy ===== *)
theory PromQueries
  imports Types GoStrings Float64
begin

text \<open>
  The PromQL queries of \<^verbatim>\<open>pkg/task/utils/prom.go\<close>, \<^verbatim>\<open>timeseriesprediction.go\<close> and
  \<^verbatim>\<open>pkg/adapters/metricsprovider/prometheus/promql.go\<close>, character for character. The provider
  has its own copies of the builders of \<^verbatim>\<open>utils\<close>; they are kept apart here (prefix
  \<^verbatim>\<open>provider_\<close>) and proved to build the same queries, which the comments in the two files ask
  to keep true.
\<close>

section \<open>Constants and formatting\<close>

definition ContainerMetricsJobMatcher :: string where
  "ContainerMetricsJobMatcher = ''job=~\"kubelet|kubernetes-nodes-cadvisor\"''"

definition RateIntervalMinutes :: int where "RateIntervalMinutes = 1"
definition BytesPerMB :: int where "BytesPerMB = 1000000"
definition MemoryDecimalPlaces :: int where "MemoryDecimalPlaces = 1"
definition CPULookbackWindow :: go_time where "CPULookbackWindow = 10 * Minute"
definition ReplicaLookbackWindow :: go_time where "ReplicaLookbackWindow = 7 * 24 * Hour"
definition MemoryLookbackWindow :: go_time where "MemoryLookbackWindow = 30 * Minute"
definition Memory7DayLookbackWindow :: go_time where "Memory7DayLookbackWindow = 7 * 24 * Hour"
definition CPUDecimalScale :: rat where "CPUDecimalScale = 1000"
definition timeStepSize :: go_time where "timeStepSize = 60 * Minute"

text \<open>The verbs \<^verbatim>\<open>%.2f\<close> and \<^verbatim>\<open>%.6f\<close> on a value that is not negative, and \<^verbatim>\<open>Duration.String\<close> on
  whole seconds.\<close>

definition padded :: "nat \<Rightarrow> nat \<Rightarrow> string" where
  "padded k n = (let s = show_nat n in replicate (k - length s) CHR ''0'' @ s)"

definition fixed :: "nat \<Rightarrow> rat \<Rightarrow> string" where
  "fixed k r = (let n = nat (rne (r * 10 ^ k))
                in show_nat (n div 10 ^ k) @ ''.'' @ padded k (n mod 10 ^ k))"

definition fixed2 :: "rat \<Rightarrow> string" where "fixed2 = fixed 2"
definition fixed6 :: "rat \<Rightarrow> string" where "fixed6 = fixed 6"

definition DurationString :: "go_time \<Rightarrow> string" where
  "DurationString d =
     (let s = d div 10 ^ 9; h = s div 3600; m = s div 60 mod 60; s' = s mod 60
      in (if 0 < h then show_int h @ ''h'' else '''')
         @ (if 0 < h \<or> 0 < m then show_int m @ ''m'' else '''') @ show_int s' @ ''s'')"

definition CompressQueryForLogging :: "string \<Rightarrow> string" where
  "CompressQueryForLogging query = join_with '' '' (Fields query)"

section \<open>The builders of \<^verbatim>\<open>pkg/task/utils\<close>\<close>

definition EncloseWithinQuantileOverTime :: "string \<Rightarrow> go_time \<Rightarrow> rat \<Rightarrow> string" where
  "EncloseWithinQuantileOverTime query quantileLookbackWindow percentile =
     ''quantile_over_time('' @ fixed2 percentile @ '', ('' @ query @ '')['' @ show_int (quantileLookbackWindow div 10 ^ 9) @ ''s:1m])''"

definition buildBatchPodInfoExpression :: "string \<Rightarrow> string" where
  "buildBatchPodInfoExpression namespace =
     ''max by (namespace, pod, container, node, created_by_kind, created_by_name) (
		kube_pod_info{
			job=\"kube-state-metrics\",
			namespace=\"'' @ namespace @ ''\",
			created_by_kind=~\".+\",
			created_by_name=~\".+\"
		}
		* on (namespace, pod) group_left ()
		max by (namespace, pod) (
			kube_pod_status_phase{
				job=\"kube-state-metrics\",
				namespace=\"'' @ namespace @ ''\",
				phase=\"Running\"
			} > 0
		)
	)''"

definition buildBatchCPUUsageExpression :: "string \<Rightarrow> bool \<Rightarrow> string" where
  "buildBatchCPUUsageExpression namespace psiAdjusted =
     (let psiAdjustedQuery = (if psiAdjusted then ''
		* on (namespace, pod, container, node) (1 + max by (namespace, pod, container, node) (
			rate(container_pressure_cpu_waiting_seconds_total{container!~\"\",'' @ ContainerMetricsJobMatcher @ '',namespace=\"'' @ namespace @ ''\"}['' @ show_int RateIntervalMinutes @ ''m])
		))
		'' else '''')
      in ''max by (namespace, pod, container, node) (
		rate(container_cpu_usage_seconds_total{container!~\"\",'' @ ContainerMetricsJobMatcher @ '',namespace=\"'' @ namespace @ ''\"}['' @ show_int RateIntervalMinutes @ ''m])
	)
	'' @ psiAdjustedQuery @ ''
	'')"

definition buildBatchThrottlingAwareCPUExpression :: "string \<Rightarrow> bool \<Rightarrow> string" where
  "buildBatchThrottlingAwareCPUExpression namespace psiAdjusted =
     ''(
		(
			max by (created_by_kind, created_by_name, namespace, container, node) (
				('' @ buildBatchCPUUsageExpression namespace psiAdjusted @ '')
				* on (namespace, pod, node) group_left(created_by_kind, created_by_name)
				('' @ buildBatchPodInfoExpression namespace @ '')
			) or vector(0)
		)
	)''"

definition BuildBatchCoreCPUExpression :: "string \<Rightarrow> bool \<Rightarrow> string" where
  "BuildBatchCoreCPUExpression namespace psiAdjusted =
     ''(max by (created_by_kind, created_by_name, namespace, container) ('' @ buildBatchThrottlingAwareCPUExpression namespace psiAdjusted @ '') or vector(0))''"

definition BuildBatchMemoryUsageExpression :: "string \<Rightarrow> string" where
  "BuildBatchMemoryUsageExpression namespace =
     ''max by (created_by_kind, created_by_name, namespace, container) (
      container_memory_working_set_bytes{
        '' @ ContainerMetricsJobMatcher @ '',
        namespace=\"'' @ namespace @ ''\",
        container!~\"\"
      }
      * on (namespace, pod, node) group_left(created_by_kind, created_by_name)
      ('' @ buildBatchPodInfoExpression namespace @ '')
    )''"

definition EncloseWithinMemoryCleanupFunction :: "string \<Rightarrow> int \<Rightarrow> string" where
  "EncloseWithinMemoryCleanupFunction query memoryDecimalPlaces =
     ''round(
		'' @ query @ '' / '' @ show_int BytesPerMB @ '',
		'' @ show_int memoryDecimalPlaces @ ''
	)''"

definition BuildClusterMemoryUtilizationExpression :: string where
  "BuildClusterMemoryUtilizationExpression =
     ''round(
      sum(
        sum by (node) (
          node_memory_MemTotal_bytes{job=\"node-exporter\"} - (node_memory_MemFree_bytes{job=\"node-exporter\"} + node_memory_Buffers_bytes{job=\"node-exporter\"} + node_memory_Cached_bytes{job=\"node-exporter\"})
        )
        unless
        max by (node) (
          max_over_time(kube_node_status_allocatable{job=\"kube-state-metrics\", resource=~\"nvidia_com_gpu|amd_com_gpu\"}[7d:]) > 0
        )
      )
      / 1000000000,
      0.001
    )''"

definition BuildClusterMemoryRequestExpression :: string where
  "BuildClusterMemoryRequestExpression =
     ''round(
      sum(
        sum by (node) (
          (
            (
              sum by (namespace, pod) (kube_pod_container_resource_requests{job=\"kube-state-metrics\", container!=\"\", resource=\"memory\"})
            )
            unless on (namespace, pod)
            (
              sum by (namespace, pod) (kube_pod_container_resource_requests{job=\"kube-state-metrics\", container!=\"\", resource=~\"nvidia_com_gpu|amd_com_gpu\"})
            )
          )
          * on (namespace, pod) group_left
            sum by (namespace, pod) (kube_pod_status_phase{job=\"kube-state-metrics\", phase!~\"Failed|Succeeded|Unknown|Pending\"})
        )
        unless on (node)
        (
          max by (node) (
            max_over_time(
              kube_node_status_allocatable{job=\"kube-state-metrics\", resource=~\"nvidia_com_gpu|amd_com_gpu\"}[7d:]
            )
          )
          >
          0
        )
      ) / 1000000000,
      0.001
    )''"

definition BuildClusterMemoryAllocatableExpression :: string where
  "BuildClusterMemoryAllocatableExpression =
     ''round(
      sum(
        sum by (node) (kube_node_status_allocatable{job=\"kube-state-metrics\", resource=\"memory\"})
        unless (
          sum by (node) (kube_node_spec_taint{job=\"kube-state-metrics\", key=\"nvidia.com/gpu\"})
        )
        unless on (node) (
          kube_node_labels{job=\"kube-state-metrics\", accelerator=\"nvidia\"}
        )
      ) / 1000000000,
      0.001
    )''"

definition BuildClusterCPUUtilizationExpression :: string where
  "BuildClusterCPUUtilizationExpression =
     ''round(
      sum(
        sum by (node) (
          rate(node_cpu_seconds_total{job=\"node-exporter\", mode=~\"user|system\"}[1m])
        )
        unless max by (node) (
          max_over_time(kube_node_status_allocatable{
            job=\"kube-state-metrics\",
            resource=~\"nvidia_com_gpu|amd_com_gpu\"
          }[7d:]) > 0
        )
      ),
      0.001
    )''"

definition BuildClusterCPURequestExpression :: string where
  "BuildClusterCPURequestExpression =
     ''round(
      sum(
        sum by (node) (
          (
            (
              sum by (namespace, pod) (kube_pod_container_resource_requests{job=\"kube-state-metrics\", container!=\"\", resource=\"cpu\"})
            )
            unless on (namespace, pod)
            (
              sum by (namespace, pod) (kube_pod_container_resource_requests{job=\"kube-state-metrics\", container!=\"\", resource=~\"nvidia_com_gpu|amd_com_gpu\"})
            )
          )
          * on (namespace, pod) group_left
            sum by (namespace, pod) (kube_pod_status_phase{job=\"kube-state-metrics\", phase!~\"Failed|Succeeded|Unknown|Pending\"})
        )
        unless on (node)
        (
          max by (node) (
            max_over_time(
              kube_node_status_allocatable{job=\"kube-state-metrics\", resource=~\"nvidia_com_gpu|amd_com_gpu\"}[7d:]
            )
          )
          >
          0
        )
      ),
      0.001
    )''"

definition BuildClusterCPUAllocatableExpression :: string where
  "BuildClusterCPUAllocatableExpression =
     ''round(
      sum(
        sum by (node) (kube_node_status_allocatable{job=\"kube-state-metrics\", resource=\"cpu\"})
        unless (
          sum by (node) (
            kube_node_spec_taint{job=\"kube-state-metrics\", key=\"nvidia.com/gpu\"}
          )
        )
        unless on (node) (
          kube_node_labels{job=\"kube-state-metrics\", accelerator=\"nvidia\"}
        )
      ),
      0.001
    )''"

section \<open>The builders of the Prometheus provider\<close>

definition provider_buildBatchPodInfoExpression :: "string \<Rightarrow> string" where
  "provider_buildBatchPodInfoExpression namespace =
     ''max by (namespace, pod, container, node, created_by_kind, created_by_name) (
		kube_pod_info{
			job=\"kube-state-metrics\",
			namespace=\"'' @ namespace @ ''\",
			created_by_kind=~\".+\",
			created_by_name=~\".+\"
		}
		* on (namespace, pod) group_left ()
		max by (namespace, pod) (
			kube_pod_status_phase{
				job=\"kube-state-metrics\",
				namespace=\"'' @ namespace @ ''\",
				phase=\"Running\"
			} > 0
		)
	)''"

definition provider_buildBatchCPUUsageExpression :: "string \<Rightarrow> bool \<Rightarrow> string" where
  "provider_buildBatchCPUUsageExpression namespace psiAdjusted =
     (let psiAdjustedQuery = (if psiAdjusted then ''
		* on (namespace, pod, container, node) (1 + max by (namespace, pod, container, node) (
			rate(container_pressure_cpu_waiting_seconds_total{container!~\"\",'' @ ContainerMetricsJobMatcher @ '',namespace=\"'' @ namespace @ ''\"}['' @ show_int RateIntervalMinutes @ ''m])
		))
		'' else '''')
      in ''max by (namespace, pod, container, node) (
		rate(container_cpu_usage_seconds_total{container!~\"\",'' @ ContainerMetricsJobMatcher @ '',namespace=\"'' @ namespace @ ''\"}['' @ show_int RateIntervalMinutes @ ''m])
	)
	'' @ psiAdjustedQuery @ ''
	'')"

definition buildBatchCPUExpression :: "string \<Rightarrow> bool \<Rightarrow> string" where
  "buildBatchCPUExpression namespace psiAdjusted =
     ''(
		(
			max by (created_by_kind, created_by_name, namespace, container, node) (
				('' @ provider_buildBatchCPUUsageExpression namespace psiAdjusted @ '')
				* on (namespace, pod, node) group_left(created_by_kind, created_by_name)
				('' @ provider_buildBatchPodInfoExpression namespace @ '')
			) or vector(0)
		)
	)''"

definition provider_BuildBatchCoreCPUExpression :: "string \<Rightarrow> bool \<Rightarrow> string" where
  "provider_BuildBatchCoreCPUExpression namespace psiAdjusted =
     ''(max by (created_by_kind, created_by_name, namespace, container) ('' @ buildBatchCPUExpression namespace psiAdjusted @ '') or vector(0))''"

definition provider_BuildBatchMemoryUsageExpression :: "string \<Rightarrow> string" where
  "provider_BuildBatchMemoryUsageExpression namespace =
     ''max by (created_by_kind, created_by_name, namespace, container) (
      container_memory_working_set_bytes{
        '' @ ContainerMetricsJobMatcher @ '',
        namespace=\"'' @ namespace @ ''\",
        container!~\"\"
      }
      * on (namespace, pod, node) group_left(created_by_kind, created_by_name)
      ('' @ provider_buildBatchPodInfoExpression namespace @ '')
    )''"

definition provider_EncloseWithinQuantileOverTime :: "string \<Rightarrow> go_time \<Rightarrow> rat \<Rightarrow> string" where
  "provider_EncloseWithinQuantileOverTime query quantileLookbackWindow percentile =
     ''quantile_over_time('' @ fixed2 percentile @ '', ('' @ query @ '')['' @ show_int (quantileLookbackWindow div 10 ^ 9) @ ''s:1m])''"

definition provider_EncloseWithinMemoryCleanupFunction :: "string \<Rightarrow> int \<Rightarrow> string" where
  "provider_EncloseWithinMemoryCleanupFunction query memoryDecimalPlaces =
     ''round(
		'' @ query @ '' / '' @ show_int BytesPerMB @ '',
		'' @ show_int memoryDecimalPlaces @ ''
	)''"

definition buildBatchCPURecommendationQuery :: "string \<Rightarrow> rat \<Rightarrow> bool \<Rightarrow> string" where
  "buildBatchCPURecommendationQuery namespace percentile psiAdjusted =
     ''ceil(
      quantile_over_time(
        '' @ fixed2 percentile @ '',
        ('' @ provider_BuildBatchCoreCPUExpression namespace psiAdjusted @ '')
        ['' @ DurationString CPULookbackWindow @ '':1m]
      )
      * '' @ fixed6 CPUDecimalScale @ ''
    ) / '' @ fixed6 CPUDecimalScale"

definition buildBatchMemoryRecommendationQuery :: "string \<Rightarrow> rat \<Rightarrow> string" where
  "buildBatchMemoryRecommendationQuery namespace percentile =
     ''
      quantile_over_time(
        '' @ fixed2 percentile @ '',
        ('' @ provider_BuildBatchMemoryUsageExpression namespace @ '')
        ['' @ DurationString MemoryLookbackWindow @ '':1m]
      )''"

definition buildBatch7DayMemoryRecommendationQuery :: "string \<Rightarrow> rat \<Rightarrow> string" where
  "buildBatch7DayMemoryRecommendationQuery namespace percentile =
     ''
      quantile_over_time(
        '' @ fixed2 percentile @ '',
        ('' @ provider_BuildBatchMemoryUsageExpression namespace @ '')
        ['' @ DurationString Memory7DayLookbackWindow @ '':1m]
      )''"

definition buildBatchReplicaCountQuery :: "string \<Rightarrow> string" where
  "buildBatchReplicaCountQuery namespace =
     ''count by (created_by_kind, created_by_name, namespace) ('' @ provider_buildBatchPodInfoExpression namespace @ '')''"

section \<open>The two copies agree\<close>

lemma usage_copies:
  "provider_buildBatchPodInfoExpression = buildBatchPodInfoExpression"
  "provider_buildBatchCPUUsageExpression = buildBatchCPUUsageExpression"
  by (intro ext; simp only: provider_buildBatchPodInfoExpression_def buildBatchPodInfoExpression_def
      provider_buildBatchCPUUsageExpression_def buildBatchCPUUsageExpression_def)+

text \<open>The provider's copies of the query builders build exactly the queries of the ones in
  \<^verbatim>\<open>utils\<close>: the usage of CPU with and without pressure, the usage of memory, and the two
  wrappers, for every namespace and window. So the percentiles and the predictions are computed
  over the same time series, as the comments on the duplicated builders require.\<close>

lemma query_copies_agree:
  "provider_BuildBatchCoreCPUExpression namespace psi = BuildBatchCoreCPUExpression namespace psi
   \<and> provider_BuildBatchMemoryUsageExpression namespace = BuildBatchMemoryUsageExpression namespace
   \<and> provider_EncloseWithinQuantileOverTime query window p = EncloseWithinQuantileOverTime query window p
   \<and> provider_EncloseWithinMemoryCleanupFunction query places
       = EncloseWithinMemoryCleanupFunction query places"
  by (simp only: usage_copies provider_BuildBatchCoreCPUExpression_def BuildBatchCoreCPUExpression_def
      buildBatchCPUExpression_def buildBatchThrottlingAwareCPUExpression_def
      provider_BuildBatchMemoryUsageExpression_def BuildBatchMemoryUsageExpression_def
      provider_EncloseWithinQuantileOverTime_def EncloseWithinQuantileOverTime_def
      provider_EncloseWithinMemoryCleanupFunction_def EncloseWithinMemoryCleanupFunction_def)

end
