(* ===== verification/GoTime.thy ===== *)
theory GoTime
  imports Types GoStrings
begin

text \<open>The part of Go's \<open>time\<close> package the prediction code uses: the proleptic Gregorian
calendar in UTC, \<open>Weekday\<close>, \<open>Hour\<close>, and \<open>Format\<close>/\<open>Parse\<close> with the layout
\<open>2006-01-02T15:04:05\<close>.  A \<open>time.Time\<close> is its distance from 1970-01-01T00:00:00Z in
nanoseconds (\<open>go_time\<close>); days are counted from the same instant.  The main lemma,
\<open>parse_format\<close>, is the round trip: for the years 0 to 9999 parsing what was formatted gives the
time cut to the second.\<close>

section \<open>The calendar\<close>

text \<open>Years are counted from the first of March, so that a leap day is the last day of its year.
\<open>year_start Y\<close> is the number of days from 0000-03-01 to the first of March of year \<open>Y\<close>.\<close>

definition year_start :: "int \<Rightarrow> int" where
  "year_start y = 365 * y + y div 4 - y div 100 + y div 400"

definition is_leap :: "int \<Rightarrow> bool" where
  "is_leap y \<longleftrightarrow> y mod 4 = 0 \<and> (y mod 100 \<noteq> 0 \<or> y mod 400 = 0)"

definition days_in :: "int \<Rightarrow> int \<Rightarrow> int" where
  "days_in y m =
    (if m = 2 then if is_leap y then 29 else 28
     else if m \<in> {4, 6, 9, 11} then 30 else 31)"

definition days_of_civil :: "int \<Rightarrow> int \<Rightarrow> int \<Rightarrow> int" where
  "days_of_civil y m d =
    (let y' = (if m \<le> 2 then y - 1 else y); mp = (m + 9) mod 12
     in year_start y' + (153 * mp + 2) div 5 + d - 1 - 719468)"

definition march_year :: "int \<Rightarrow> int" where
  "march_year n =
    (let y = (400 * n) div 146097
     in if n < year_start y then y - 1 else if year_start (y + 1) \<le> n then y + 1 else y)"

definition civil_of_days :: "int \<Rightarrow> int \<times> int \<times> int" where
  "civil_of_days z =
    (let n = z + 719468; y = march_year n; doy = n - year_start y; mp = (5 * doy + 2) div 153;
         m = (if mp < 10 then mp + 3 else mp - 9)
     in (if m \<le> 2 then y + 1 else y, m, doy - (153 * mp + 2) div 5 + 1))"

lemma div_bounds: "0 < k \<Longrightarrow> k * (n div k) \<le> n \<and> n < k * (n div k) + k" for k :: int
  using mult_div_mod_eq [of k n] pos_mod_bound [of k n] pos_mod_sign [of k n] by linarith

lemma year_start_bounds:
  "400 * year_start y \<le> 146097 * y + 400" "146097 * y - 700 \<le> 400 * year_start y"
  using div_bounds [of 4 y] div_bounds [of 100 y] div_bounds [of 400 y]
  unfolding year_start_def by simp_all

lemma div_Suc: "0 < k \<Longrightarrow> (y + 1) div k = y div k + (if (y + 1) mod k = 0 then 1 else 0)" for k :: int
proof -
  assume k: "0 < k"
  have y: "y = k * (y div k) + y mod k" and m: "0 \<le> y mod k" "y mod k < k" using k by simp_all
  show ?thesis
  proof (cases "y mod k = k - 1")
    case True
    then have "y + 1 = k * (y div k) + k" using y by linarith
    then have "y + 1 = k * (y div k + 1)" by (simp only: distrib_left mult_1_right)
    then show ?thesis using k by simp
  next
    case False
    then have e: "y + 1 = k * (y div k) + (y mod k + 1)" and r: "0 \<le> y mod k + 1" "y mod k + 1 < k"
      using y m by linarith+
    have "(y + 1) div k = y div k" "(y + 1) mod k = y mod k + 1"
      by (rule int_div_pos_eq [OF e r], rule int_mod_pos_eq [OF e r])
    then show ?thesis using m(1) by simp
  qed
qed

lemma leap_mods: "y mod 400 = 0 \<Longrightarrow> y mod 100 = 0" "y mod 100 = 0 \<Longrightarrow> y mod 4 = 0" for y :: int
  using mod_mod_cancel [of 100 400 y] mod_mod_cancel [of 4 100 y] by simp_all

lemma year_start_Suc:
  "year_start (y + 1) = year_start y + (if is_leap (y + 1) then 366 else 365)"
proof -
  define z where "z = y + 1"
  have d: "z div 4 = y div 4 + (if z mod 4 = 0 then 1 else 0)"
    "z div 100 = y div 100 + (if z mod 100 = 0 then 1 else 0)"
    "z div 400 = y div 400 + (if z mod 400 = 0 then 1 else 0)"
    by (simp_all only: z_def div_Suc zero_less_numeral)
  have y: "y = z - 1" using z_def by simp
  show ?thesis unfolding z_def [symmetric] year_start_def is_leap_def d unfolding y
    by (cases "z mod 4 = 0"; cases "z mod 100 = 0"; cases "z mod 400 = 0")
      (simp_all add: leap_mods [of z] split del: if_split)
qed

lemma march_year:
  "year_start (march_year n) \<le> n" "n < year_start (march_year n + 1)"
proof -
  define y where "y = (400 * n) div 146097"
  have y: "146097 * y \<le> 400 * n" "400 * n < 146097 * (y + 1)" 
    using div_bounds [of 146097 "400 * n"] unfolding y_def by (simp_all add: algebra_simps)
  have "year_start (y - 1) \<le> n" using year_start_bounds(1) [of "y - 1"] y by (simp add: algebra_simps)
  moreover have "n < year_start (y + 2)" using year_start_bounds(2) [of "y + 2"] y by (simp add: algebra_simps)
  ultimately have "year_start (march_year n) \<le> n \<and> n < year_start (march_year n + 1)"
    unfolding march_year_def Let_def y_def [symmetric] by (auto simp: add.commute)
  then show "year_start (march_year n) \<le> n" "n < year_start (march_year n + 1)" by auto
qed

lemma month_bounds:
  fixes doy :: int
  assumes doy: "0 \<le> doy" "doy \<le> 365" and mp: "mp = (5 * doy + 2) div 153"
  shows "0 \<le> mp" "mp \<le> 11" "(153 * mp + 2) div 5 \<le> doy" "doy < (153 * (mp + 1) + 2) div 5"
proof -
  have b: "153 * mp \<le> 5 * doy + 2" "5 * doy + 2 < 153 * mp + 153"
    using div_bounds [of 153 "5 * doy + 2"] mp by simp_all
  show "0 \<le> mp" "mp \<le> 11" using b doy by linarith+
  show "(153 * mp + 2) div 5 \<le> doy" using b(1) div_bounds [of 5 "153 * mp + 2"] by simp
  have "5 * (doy + 1) \<le> 153 * mp + 155" using b by (simp add: algebra_simps)
  then show "doy < (153 * (mp + 1) + 2) div 5"
    using div_bounds [of 5 "153 * (mp + 1) + 2"] by (simp add: algebra_simps)
qed

lemma civil_of_days:
  assumes "civil_of_days z = (y, m, d)"
  shows "days_of_civil y m d = z" "1 \<le> m" "m \<le> 12" "1 \<le> d" "d \<le> days_in y m"
proof -
  define Y where "Y = march_year (z + 719468)"
  define doy where "doy = z + 719468 - year_start Y"
  define mp where "mp = (5 * doy + 2) div 153"
  have len: "doy < (if is_leap (Y + 1) then 366 else 365)" and pos: "0 \<le> doy"
    using march_year [of "z + 719468"] year_start_Suc [of Y] unfolding doy_def Y_def by linarith+
  then have le: "doy \<le> 365" by (auto split: if_splits)
  note mb = month_bounds [OF pos le mp_def]
  have m: "m = (if mp < 10 then mp + 3 else mp - 9)" and d: "d = doy - (153 * mp + 2) div 5 + 1"
    and y: "y = (if m \<le> 2 then Y + 1 else Y)"
    using assms by (auto simp: civil_of_days_def Let_def Y_def doy_def mp_def)
  have mp_of_m: "(m + 9) mod 12 = mp"
  proof (cases "mp < 10")
    case True
    then have "m + 9 = mp + 12 * 1" using m by simp
    then show ?thesis using mb(1,2) by (simp only: mod_mult_self2 mod_pos_pos_trivial)
  next
    case False
    then show ?thesis using mb(1,2) m by (simp add: mod_pos_pos_trivial)
  qed
  show "days_of_civil y m d = z"
    unfolding days_of_civil_def Let_def mp_of_m using y d doy_def by auto
  show "1 \<le> m" "m \<le> 12" using mb(1,2) m by (auto split: if_splits)
  show "1 \<le> d" using mb(3) d by simp
  have "mp = 0 \<or> mp = 1 \<or> mp = 2 \<or> mp = 3 \<or> mp = 4 \<or> mp = 5 \<or> mp = 6 \<or> mp = 7 \<or> mp = 8
      \<or> mp = 9 \<or> mp = 10 \<or> mp = 11"
    using mb(1,2) by presburger
  moreover have "d \<le> (153 * (mp + 1) + 2) div 5 - (153 * mp + 2) div 5" using mb(4) d by simp
  moreover have "mp = 11 \<Longrightarrow> d \<le> (if is_leap (Y + 1) then 29 else 28)"
    using len d by (simp split: if_splits)
  ultimately show "d \<le> days_in y m"
    unfolding m y by (elim disjE) (simp_all add: days_in_def)
qed

section \<open>Clock fields\<close>

definition secs_of :: "go_time \<Rightarrow> int" where "secs_of t = t div 10 ^ 9"

definition Weekday :: "go_time \<Rightarrow> int" where
  "Weekday t = (secs_of t div 86400 + 4) mod 7"

definition Hour_of :: "go_time \<Rightarrow> int" where
  "Hour_of t = (secs_of t div 3600) mod 24"

section \<open>Format and Parse\<close>

definition digit :: "int \<Rightarrow> char" where "digit n = char_of (48 + nat n)"

definition is_digit :: "char \<Rightarrow> bool" where
  "is_digit c \<longleftrightarrow> (let n = (of_char c :: nat) in 48 \<le> n \<and> n \<le> 57)"

definition digit_val :: "char \<Rightarrow> int" where "digit_val c = int (of_char c) - 48"

definition pad2 :: "int \<Rightarrow> string" where "pad2 n = [digit (n div 10), digit (n mod 10)]"

text \<open>Four digits at least; the sign first (\<open>appendInt\<close>).\<close>

definition pad4 :: "int \<Rightarrow> string" where
  "pad4 n =
    (if 0 \<le> n \<and> n < 10000
     then [digit (n div 1000), digit (n div 100 mod 10), digit (n div 10 mod 10), digit (n mod 10)]
     else if n < 0
     then CHR ''-'' # replicate (4 - length (show_nat (nat (- n)))) CHR ''0'' @ show_nat (nat (- n))
     else show_nat (nat n))"

definition FormatSeconds :: "go_time \<Rightarrow> string" where
  "FormatSeconds t =
    (let s = secs_of t; (y, m, d) = civil_of_days (s div 86400); r = s mod 86400
     in pad4 y @ ''-'' @ pad2 m @ ''-'' @ pad2 d @ ''T'' @ pad2 (r div 3600) @ '':''
        @ pad2 (r div 60 mod 60) @ '':'' @ pad2 (r mod 60))"

text \<open>The pieces of \<open>Parse\<close>: a fixed text, two digits, the hour (one digit is accepted), the
year, and a fraction of a second, which the layout does not have but \<open>Parse\<close> accepts.\<close>

definition getnum2 :: "string \<Rightarrow> (int \<times> string) option" where
  "getnum2 s = (case s of
      a # b # s' \<Rightarrow> if is_digit a \<and> is_digit b then Some (10 * digit_val a + digit_val b, s') else None
    | _ \<Rightarrow> None)"

definition getnum :: "string \<Rightarrow> (int \<times> string) option" where
  "getnum s = (case s of
      a # b # s' \<Rightarrow>
        if \<not> is_digit a then None
        else if is_digit b then Some (10 * digit_val a + digit_val b, s')
        else Some (digit_val a, b # s')
    | [a] \<Rightarrow> if is_digit a then Some (digit_val a, []) else None
    | [] \<Rightarrow> None)"

definition getyear :: "string \<Rightarrow> (int \<times> string) option" where
  "getyear s = (case s of
      a # b # c # d # s' \<Rightarrow>
        if is_digit a \<and> is_digit b \<and> is_digit c \<and> is_digit d
        then Some (1000 * digit_val a + 100 * digit_val b + 10 * digit_val c + digit_val d, s')
        else None
    | _ \<Rightarrow> None)"

definition skip_char :: "char \<Rightarrow> string \<Rightarrow> string option" where
  "skip_char c s = (case s of [] \<Rightarrow> None | a # s' \<Rightarrow> if a = c then Some s' else None)"

definition in_field :: "int \<Rightarrow> int \<Rightarrow> int \<Rightarrow> unit option" where
  "in_field lo hi n = (if lo \<le> n \<and> n \<le> hi then Some () else None)"

definition fraction :: "string \<Rightarrow> int \<times> string" where
  "fraction s = (case s of
      p # a # s' \<Rightarrow>
        if (p = CHR ''.'' \<or> p = CHR '','') \<and> is_digit a
        then let ds = takeWhile is_digit (a # s'); ns = take 9 ds
             in (foldl (\<lambda>n c. 10 * n + digit_val c) 0 ns * 10 ^ (9 - length ns),
                 dropWhile is_digit (a # s'))
        else (0, s)
    | _ \<Rightarrow> (0, s))"

definition ParseSeconds :: "string \<Rightarrow> go_time option" where
  "ParseSeconds s0 = do {
     (y, s1) \<leftarrow> getyear s0;
     s2 \<leftarrow> skip_char CHR ''-'' s1;
     (m, s3) \<leftarrow> getnum2 s2;
     _ \<leftarrow> in_field 1 12 m;
     s4 \<leftarrow> skip_char CHR ''-'' s3;
     (d, s5) \<leftarrow> getnum2 s4;
     s6 \<leftarrow> skip_char CHR ''T'' s5;
     (h, s7) \<leftarrow> getnum s6;
     _ \<leftarrow> in_field 0 23 h;
     s8 \<leftarrow> skip_char CHR '':'' s7;
     (mi, s9) \<leftarrow> getnum2 s8;
     _ \<leftarrow> in_field 0 59 mi;
     s10 \<leftarrow> skip_char CHR '':'' s9;
     (sec, s11) \<leftarrow> getnum2 s10;
     _ \<leftarrow> in_field 0 59 sec;
     let (frac, s12) = fraction s11;
     _ \<leftarrow> (if s12 = [] then Some () else None);
     _ \<leftarrow> in_field 1 (days_in y m) d;
     Some ((days_of_civil y m d * 86400 + h * 3600 + mi * 60 + sec) * 10 ^ 9 + frac) }"

lemma of_char_digit: "0 \<le> n \<Longrightarrow> n < 10 \<Longrightarrow> (of_char (digit n) :: nat) = 48 + nat n"
  by (simp add: digit_def of_char_of take_bit_nat_def)

lemma digit_val_digit: "0 \<le> n \<Longrightarrow> n < 10 \<Longrightarrow> digit_val (digit n) = n"
  by (simp add: digit_val_def of_char_digit)

lemma is_digit_digit: "0 \<le> n \<Longrightarrow> n < 10 \<Longrightarrow> is_digit (digit n)"
  by (auto simp: is_digit_def of_char_digit Let_def)

lemma two_digits:
  "0 \<le> n \<Longrightarrow> n < 100 \<Longrightarrow> 0 \<le> n div 10 \<and> n div 10 < 10 \<and> 10 * (n div 10) + n mod 10 = n" for n :: int
  using div_bounds [of 10 n] mult_div_mod_eq [of 10 n] by linarith

lemma getnum_pad2:
  "0 \<le> n \<Longrightarrow> n < 100 \<Longrightarrow> getnum2 (digit (n div 10) # digit (n mod 10) # s) = Some (n, s)"
  "0 \<le> n \<Longrightarrow> n < 100 \<Longrightarrow> getnum (digit (n div 10) # digit (n mod 10) # s) = Some (n, s)"
  using two_digits [of n] by (simp_all add: getnum2_def getnum_def is_digit_digit digit_val_digit)

lemma horner: "10 * a + b = q \<Longrightarrow> 10 * q + c = p \<Longrightarrow> 10 * p + d = n
    \<Longrightarrow> 1000 * a + 100 * b + 10 * c + d = (n :: int)"
  by simp

lemma four_digits:
  fixes n :: int
  assumes "0 \<le> n" "n < 10000"
  shows "0 \<le> n div 1000 \<and> n div 1000 < 10
    \<and> 1000 * (n div 1000) + 100 * (n div 100 mod 10) + 10 * (n div 10 mod 10) + n mod 10 = n"
proof -
  have e: "n div 100 div 10 = n div 1000" "n div 10 div 10 = n div 100"
    by (simp_all add: zdiv_zmult2_eq [symmetric])
  have "1000 * (n div 1000) + 100 * (n div 100 mod 10) + 10 * (n div 10 mod 10) + n mod 10 = n"
    using mult_div_mod_eq [of 10 "n div 100"] mult_div_mod_eq [of 10 "n div 10"]
      mult_div_mod_eq [of 10 n] unfolding e by (rule horner)
  moreover have "0 \<le> n div 1000" "n div 1000 < 10"
    using assms div_bounds [of 1000 n] by linarith+
  ultimately show ?thesis by blast
qed

lemma getyear_pad4: "0 \<le> n \<Longrightarrow> n < 10000 \<Longrightarrow> getyear (pad4 n @ s) = Some (n, s)"
proof -
  assume n: "0 \<le> n" "n < 10000"
  have year: "getyear (digit a # digit b # digit c # digit d # s)
      = Some (1000 * a + 100 * b + 10 * c + d, s)"
    if "0 \<le> a" "a < 10" "0 \<le> b" "b < 10" "0 \<le> c" "c < 10" "0 \<le> d" "d < 10" for a b c d
    using that by (simp add: getyear_def is_digit_digit digit_val_digit)
  have "pad4 n @ s = digit (n div 1000) # digit (n div 100 mod 10) # digit (n div 10 mod 10)
      # digit (n mod 10) # s"
    using n by (simp only: pad4_def simp_thms if_True append.simps)
  then show ?thesis using four_digits [OF n]
    by (simp only: year pos_mod_sign pos_mod_bound zero_less_numeral)
qed

definition year_of :: "go_time \<Rightarrow> int" where
  "year_of t = fst (civil_of_days (secs_of t div 86400))"

lemma seconds_split:
  fixes r :: int
  assumes "0 \<le> r" "r < 86400"
  shows "0 \<le> r div 3600" "r div 3600 < 24" "0 \<le> r div 60 mod 60" "r div 60 mod 60 < 60"
    "0 \<le> r mod 60" "r mod 60 < 60" "r div 3600 * 3600 + r div 60 mod 60 * 60 + r mod 60 = r"
proof -
  have e: "r div 60 div 60 = r div 3600" by (simp add: zdiv_zmult2_eq [symmetric])
  show "0 \<le> r div 3600" "r div 3600 < 24" using assms div_bounds [of 3600 r] by linarith+
  show "0 \<le> r div 60 mod 60" "r div 60 mod 60 < 60" "0 \<le> r mod 60" "r mod 60 < 60" by simp_all
  show "r div 3600 * 3600 + r div 60 mod 60 * 60 + r mod 60 = r"
    using mult_div_mod_eq [of 60 "r div 60"] mult_div_mod_eq [of 60 r] unfolding e by linarith
qed

theorem parse_format:
  assumes "0 \<le> year_of t" "year_of t < 10000"
  shows "ParseSeconds (FormatSeconds t) = Some (secs_of t * 10 ^ 9)"
proof -
  define z where "z = secs_of t div 86400"
  define r where "r = secs_of t mod 86400"
  obtain y m d where c: "civil_of_days z = (y, m, d)" by (cases "civil_of_days z")
  note cd = civil_of_days [OF c]
  have y: "0 \<le> y" "y < 10000" using assms c by (simp_all add: year_of_def z_def)
  have d: "d \<le> 31" using cd(5) by (auto simp: days_in_def split: if_splits)
  have r: "0 \<le> r" "r < 86400" unfolding r_def by simp_all
  note ss = seconds_split [OF r]
  have z: "z * 86400 + r = secs_of t" unfolding z_def r_def by simp
  have f: "FormatSeconds t = pad4 y @ CHR ''-'' # digit (m div 10) # digit (m mod 10) # CHR ''-''
      # digit (d div 10) # digit (d mod 10) # CHR ''T'' # digit (r div 3600 div 10)
      # digit (r div 3600 mod 10) # CHR '':'' # digit (r div 60 mod 60 div 10)
      # digit (r div 60 mod 60 mod 10) # CHR '':'' # digit (r mod 60 div 10) # [digit (r mod 60 mod 10)]"
    unfolding FormatSeconds_def Let_def z_def [symmetric] r_def [symmetric] c by (simp add: pad2_def)
  show ?thesis
    unfolding ParseSeconds_def f using y cd(2-5) d ss(1-6)
    by (simp add: getyear_pad4 getnum_pad2 skip_char_def in_field_def fraction_def)
      (use cd(1) ss(7) z in linarith)
qed

lemma weekday_range: "0 \<le> Weekday t" "Weekday t < 7"
  by (simp_all add: Weekday_def)

lemma hour_range: "0 \<le> Hour_of t" "Hour_of t < 24"
  by (simp_all add: Hour_of_def)

text \<open>A known date: 2024-02-29T13:05:09Z was a Thursday.\<close>

lemma leap_day_formatted:
  "FormatSeconds (1709211909 * 10 ^ 9) = ''2024-02-29T13:05:09'' \<and> Weekday (1709211909 * 10 ^ 9) = 4"
  by code_simp

end
