(* ===== verification/Predictions.thy ===== *)
theory Predictions
  imports PromQueries GoTime Keys "HOL-Library.AList"
begin

text \<open>
  The predictions of \<^verbatim>\<open>pkg/task/utils/timeseriesprediction.go\<close>. A range query gives a series per
  ReplicaSet and container; the series of the ReplicaSets of a Deployment are merged by the maximum,
  and for every series the usage at this hour of the week, this hour of the day, now, and around this
  hour is predicted. The query itself is a parameter. A sample has its time in milliseconds; the
  groups of ReplicaSets are ranged over as a map, in the order \<open>perm\<close> gives them.
\<close>

section \<open>Results of Prometheus\<close>

record SampleStream =
  ss_Metric :: string_map
  ss_Values :: "(int \<times> float64) list"

record Sample =
  sa_Metric :: string_map
  sa_Value :: float64

datatype prom_value = Matrix "SampleStream list" | Vector "Sample list" | Scalar float64 | OtherValue

text \<open>A missing label reads as the empty string.\<close>

definition metric :: "string_map \<Rightarrow> string \<Rightarrow> string" where
  "metric m l = (case m l of None \<Rightarrow> '''' | Some v \<Rightarrow> v)"

section \<open>Merging ReplicaSets\<close>

type_synonym samples = "(int \<times> float64) list"

definition note_pair :: "samples \<Rightarrow> int \<times> float64 \<Rightarrow> samples" where
  "note_pair m = (\<lambda>(timestamp, value).
     case map_of m timestamp of
       None \<Rightarrow> AList.update timestamp value m
     | Some existing \<Rightarrow> if flt existing value then AList.update timestamp value m else m)"

text \<open>The timestamps of a map are distinct, so sorting by them has one result.\<close>

definition combineTimeSeriesByMax :: "SampleStream list \<Rightarrow> samples" where
  "combineTimeSeriesByMax samples =
     sort_key fst (foldl (\<lambda>m sample. foldl note_pair m (ss_Values sample)) [] samples)"

text \<open>The name cut at its last dash; the slice panics when there is none.\<close>

definition deployment_of :: "SampleStream \<Rightarrow> string panics" where
  "deployment_of sample = map_option fst (split_last_dash (metric (ss_Metric sample) ''created_by_name''))"

type_synonym groups = "(string \<times> SampleStream list) list"

fun group_loop :: "SampleStream list \<Rightarrow> SampleStream list \<Rightarrow> groups \<Rightarrow> (SampleStream list \<times> groups) panics" where
  "group_loop [] combinedMatrix deploymentGroups = Some (combinedMatrix, deploymentGroups)"
| "group_loop (sample # matrix) combinedMatrix deploymentGroups =
     (if metric (ss_Metric sample) ''created_by_kind'' \<noteq> ReplicaSetKind
      then group_loop matrix (combinedMatrix @ [sample]) deploymentGroups
      else do {
        deploymentName \<leftarrow> deployment_of sample;
        let groupKey = GetWorkloadContainerKey DeploymentKind (metric (ss_Metric sample) ''namespace'')
          deploymentName (metric (ss_Metric sample) ''container'');
        group_loop matrix combinedMatrix
          (AList.update groupKey
            ((case map_of deploymentGroups groupKey of None \<Rightarrow> [] | Some g \<Rightarrow> g) @ [sample]) deploymentGroups) })"

definition combined_sample :: "SampleStream list \<Rightarrow> SampleStream list panics" where
  "combined_sample samples =
     (case samples of
        [] \<Rightarrow> Some []
      | templateSample # _ \<Rightarrow> do {
          deploymentName \<leftarrow> deployment_of templateSample;
          Some [\<lparr>ss_Metric = (ss_Metric templateSample)(''created_by_kind'' \<mapsto> DeploymentKind,
                    ''created_by_name'' \<mapsto> deploymentName),
                 ss_Values = combineTimeSeriesByMax samples\<rparr>] })"

fun combine_groups :: "groups \<Rightarrow> SampleStream list panics" where
  "combine_groups [] = Some []"
| "combine_groups ((k, samples) # gs) =
     do { s \<leftarrow> combined_sample samples; ss \<leftarrow> combine_groups gs; Some (s @ ss) }"

definition combineReplicasetsToDeployments ::
    "(groups \<Rightarrow> groups) \<Rightarrow> SampleStream list \<Rightarrow> SampleStream list panics" where
  "combineReplicasetsToDeployments perm matrix = do {
     (combinedMatrix, deploymentGroups) \<leftarrow> group_loop matrix [] [];
     ss \<leftarrow> combine_groups (perm deploymentGroups);
     Some (combinedMatrix @ ss) }"

section \<open>Series\<close>

record SimpleTimeSeriesData =
  td_EntityName :: string
  td_Timestamps :: "string list"
  td_Values :: "float64 list"

definition series_key :: "SampleStream \<Rightarrow> string" where
  "series_key sample = GetWorkloadContainerKey (metric (ss_Metric sample) ''created_by_kind'')
     (metric (ss_Metric sample) ''namespace'') (metric (ss_Metric sample) ''created_by_name'')
     (metric (ss_Metric sample) ''container'')"

fun convert_loop :: "SampleStream list \<Rightarrow> SimpleTimeSeriesData list" where
  "convert_loop [] = []"
| "convert_loop (sample # matrix) =
     (let timestamps = map (\<lambda>(t, v). FormatSeconds (t * 10 ^ 6)) (ss_Values sample);
          values = map snd (ss_Values sample)
      in if length values > 0
         then \<lparr>td_EntityName = series_key sample, td_Timestamps = timestamps, td_Values = values\<rparr> # convert_loop matrix
         else convert_loop matrix)"

definition convertMatrixToSimpleTimeSeriesData ::
    "(groups \<Rightarrow> groups) \<Rightarrow> SampleStream list \<Rightarrow> SimpleTimeSeriesData list panics" where
  "convertMatrixToSimpleTimeSeriesData perm matrix = do {
     combinedMatrix \<leftarrow> combineReplicasetsToDeployments perm matrix;
     Some (convert_loop combinedMatrix) }"

section \<open>Predicting\<close>

record SimplePredictionResponse =
  sr_EntityName :: string
  sr_WeeklyPrediction :: float64
  sr_HourlyPrediction :: float64
  sr_CurrentPrediction :: float64
  sr_MaxValue :: float64

definition max_where :: "(go_time \<Rightarrow> bool) \<Rightarrow> (go_time \<times> float64) list \<Rightarrow> float64 \<Rightarrow> float64" where
  "max_where P parsed init = foldl (\<lambda>m (t, v). if P t then gomax m v else m) init parsed"

definition around_hour :: "int \<Rightarrow> go_time \<Rightarrow> bool" where
  "around_hour currentHour t \<longleftrightarrow>
     (let hour = Hour_of t; prevHour = (currentHour - 1 + 24) mod 24; nextHour = (currentHour + 1) mod 24
      in hour = currentHour \<or> hour = prevHour \<or> hour = nextHour)"

definition predict_entity :: "go_time \<Rightarrow> string \<Rightarrow> (go_time \<times> float64) list \<Rightarrow> SimplePredictionResponse" where
  "predict_entity currentTime entityName parsed =
     (let currentHour = Hour_of currentTime; currentWeekday = Weekday currentTime;
          weeklyPrediction = max_where (\<lambda>t. Weekday t = currentWeekday \<and> Hour_of t = currentHour) parsed (lit 0);
          hourlyPrediction = max_where (\<lambda>t. Hour_of t = currentHour) parsed (lit 0);
          oneHourAgo = currentTime - Hour;
          currentPrediction = max_where (\<lambda>t. \<not> t < oneHourAgo) parsed (lit 0);
          maxValue = max_where (around_hour currentHour) parsed currentPrediction
      in \<lparr>sr_EntityName = entityName, sr_WeeklyPrediction = weeklyPrediction,
          sr_HourlyPrediction = hourlyPrediction, sr_CurrentPrediction = currentPrediction,
          sr_MaxValue = maxValue\<rparr>)"

fun predict_loop :: "go_time \<Rightarrow> nat \<Rightarrow> SimpleTimeSeriesData list \<Rightarrow> SimplePredictionResponse list" where
  "predict_loop currentTime idx [] = []"
| "predict_loop currentTime idx (entity # es) =
     (let entityName = (if td_EntityName entity = '''' then ''entity_'' @ show_nat idx else td_EntityName entity);
          timestamps = td_Timestamps entity; values = td_Values entity
      in if length timestamps \<noteq> length values then predict_loop currentTime (Suc idx) es
         else let parsed = List.map_filter ParseSeconds timestamps
              in if length parsed \<noteq> length values then predict_loop currentTime (Suc idx) es
                 else predict_entity currentTime entityName (zip parsed values) # predict_loop currentTime (Suc idx) es)"

definition computeSimpleTimeSeriesPredictions ::
    "go_time \<Rightarrow> SimpleTimeSeriesData list \<Rightarrow> SimplePredictionResponse list" where
  "computeSimpleTimeSeriesPredictions currentTime timeseriesData = predict_loop currentTime 0 timeseriesData"

section \<open>The queries\<close>

definition MLLookbackWindow :: go_time where "MLLookbackWindow = 7 * 24 * Hour"

record query_range =
  qr_Start :: go_time
  qr_End :: go_time
  qr_Step :: go_time

type_synonym QueryRange = "string \<Rightarrow> query_range \<Rightarrow> string + prom_value"

definition fetchMemoryMatrix :: "QueryRange \<Rightarrow> string \<Rightarrow> query_range \<Rightarrow> string + SampleStream list" where
  "fetchMemoryMatrix queryRange namespace r =
     (case queryRange (EncloseWithinMemoryCleanupFunction
             (EncloseWithinQuantileOverTime (BuildBatchMemoryUsageExpression namespace) timeStepSize 1)
             MemoryDecimalPlaces) r of
        Inl e \<Rightarrow> Inl (''error querying prometheus for memory predictions: '' @ e)
      | Inr (Matrix memoryMatrix) \<Rightarrow> Inr memoryMatrix
      | Inr _ \<Rightarrow> Inl ''unable to convert memory result to matrix'')"

definition fetch_cpu_matrix :: "QueryRange \<Rightarrow> string \<Rightarrow> bool \<Rightarrow> query_range \<Rightarrow> string + SampleStream list" where
  "fetch_cpu_matrix queryRange namespace isPSIEnabled r =
     (case queryRange (EncloseWithinQuantileOverTime (BuildBatchCoreCPUExpression namespace isPSIEnabled)
             timeStepSize 1) r of
        Inl e \<Rightarrow> Inl (''failed to query prometheus for simple cpu predictions: '' @ e)
      | Inr (Matrix matrix) \<Rightarrow> Inr matrix
      | Inr _ \<Rightarrow> Inl ''unable to convert to matrix for simple cpu predictions'')"

type_synonym predictions = "string \<rightharpoonup> string \<rightharpoonup> SimplePrediction"

definition namespace_result :: "SimplePredictionResponse list \<Rightarrow> string \<rightharpoonup> SimplePrediction" where
  "namespace_result preds = foldl (\<lambda>m p. m(sr_EntityName p \<mapsto>
     \<lparr>sp_WeeklyPrediction = sr_WeeklyPrediction p, sp_HourlyPrediction = sr_HourlyPrediction p,
      sp_CurrentPrediction = sr_CurrentPrediction p, sp_MaxValue = sr_MaxValue p\<rparr>)) Map.empty preds"

text \<open>\<open>clock\<close> gives the times of the query and of the prediction for each namespace. A resource that is
  neither memory nor CPU is skipped.\<close>

fun predict_namespaces ::
    "(groups \<Rightarrow> groups) \<Rightarrow> (nat \<Rightarrow> go_time \<times> go_time) \<Rightarrow> QueryRange \<Rightarrow> string \<Rightarrow> bool \<Rightarrow> string list \<Rightarrow> predictions
     \<Rightarrow> (string + predictions) panics" where
  "predict_namespaces perm clock queryRange resourceType isPSIEnabled [] result = Some (Inr result)"
| "predict_namespaces perm clock queryRange resourceType isPSIEnabled (namespace # nss) result =
     (let continue = predict_namespaces perm (\<lambda>i. clock (Suc i)) queryRange resourceType isPSIEnabled nss;
          end_time = fst (clock 0);
          r = \<lparr>qr_Start = end_time - MLLookbackWindow, qr_End = end_time, qr_Step = timeStepSize\<rparr>
      in if resourceType \<noteq> ''memory'' \<and> resourceType \<noteq> ''cpu'' then continue result
         else case (if resourceType = ''memory'' then fetchMemoryMatrix queryRange namespace r
                    else fetch_cpu_matrix queryRange namespace isPSIEnabled r) of
           Inl e \<Rightarrow> Some (Inl e)
         | Inr matrix \<Rightarrow> do {
             timeseriesData \<leftarrow> convertMatrixToSimpleTimeSeriesData perm matrix;
             if length timeseriesData = 0 then continue result
             else continue (result(namespace \<mapsto>
               namespace_result (computeSimpleTimeSeriesPredictions (snd (clock 0)) timeseriesData))) })"

definition PredictSimpleStatsFromTimeSeriesModel ::
    "(groups \<Rightarrow> groups) \<Rightarrow> (nat \<Rightarrow> go_time \<times> go_time) \<Rightarrow> QueryRange \<Rightarrow> string list \<Rightarrow> string \<Rightarrow> bool
     \<Rightarrow> (string + predictions) panics" where
  "PredictSimpleStatsFromTimeSeriesModel perm clock queryRange namespaces resourceType isPSIEnabled =
     predict_namespaces perm clock queryRange resourceType isPSIEnabled namespaces Map.empty"


section \<open>Lemmas on maxima\<close>

lemma max_where_simps [simp]:
  "max_where P [] m = m" "max_where P ((t, v) # xs) m = max_where P xs (if P t then gomax m v else m)"
  by (simp_all add: max_where_def)

lemma max_where_bounds:
  assumes "\<not> is_nan m" "\<forall>(t, v) \<in> set xs. \<not> is_nan v"
  shows "fle m (max_where P xs m)" "(t, v) \<in> set xs \<Longrightarrow> P t \<Longrightarrow> fle v (max_where P xs m)"
    "max_where P xs m \<in> insert m (snd ` set xs)"
proof -
  have "fle m (max_where P xs m) \<and> (\<forall>(t, v) \<in> set xs. P t \<longrightarrow> fle v (max_where P xs m)) \<and>
      max_where P xs m \<in> insert m (snd ` set xs)"
    using assms
  proof (induction xs arbitrary: m)
    case (Cons x xs)
    obtain t v where x: "x = (t, v)" by fastforce
    have v: "\<not> is_nan v" using Cons.prems(2) x by simp
    let ?m = "if P t then gomax m v else m"
    have m: "\<not> is_nan ?m" "fle m ?m" "P t \<Longrightarrow> fle v ?m" "?m = m \<or> ?m = v"
      using gomax_nan gomax_ge gomax_cases v Cons.prems(1) by auto
    have "\<forall>(t, v) \<in> set xs. \<not> is_nan v" using Cons.prems(2) by simp
    from Cons.IH [OF m(1) this] have ih: "fle ?m (max_where P xs ?m)" "\<forall>(t, v) \<in> set xs. P t \<longrightarrow> fle v (max_where P xs ?m)"
      "max_where P xs ?m \<in> insert ?m (snd ` set xs)" by blast+
    have "fle m (max_where P xs ?m)" "P t \<Longrightarrow> fle v (max_where P xs ?m)"
      using fle_trans [OF m(2) ih(1)] fle_trans [OF m(3) ih(1)] by blast+
    moreover have "max_where P xs ?m \<in> insert m (insert v (snd ` set xs))" using ih(3) m(4) by (elim insertE disjE) simp_all
    ultimately show ?case using ih(2) unfolding x max_where_simps by simp
  qed simp
  then show "fle m (max_where P xs m)" "(t, v) \<in> set xs \<Longrightarrow> P t \<Longrightarrow> fle v (max_where P xs m)"
    "max_where P xs m \<in> insert m (snd ` set xs)" by auto
qed

lemma max_where_mono:
  assumes "fle m m'" "\<forall>(t, v) \<in> set xs. \<not> is_nan v" "\<And>t. P t \<Longrightarrow> Q t"
  shows "fle (max_where P xs m) (max_where Q xs m')"
proof -
  have m: "\<not> is_nan m" "\<not> is_nan m'" using fle_nan [OF assms(1)] by blast+
  have "max_where P xs m = m \<or> (\<exists>(t, v) \<in> set xs. P t \<and> max_where P xs m = v)"
    using m(1) assms(2)
  proof (induction xs arbitrary: m)
    case (Cons x xs)
    obtain t v where x: "x = (t, v)" by fastforce
    have "\<not> is_nan (if P t then gomax m v else m)" using Cons.prems x gomax_nan by auto
    moreover have "(if P t then gomax m v else m) = m \<or> P t \<and> (if P t then gomax m v else m) = v"
      using gomax_cases [of m v] Cons.prems x by auto
    ultimately show ?case using Cons.IH [of "if P t then gomax m v else m"] Cons.prems(2) x by fastforce
  qed simp
  then show ?thesis
  proof
    assume "max_where P xs m = m"
    then show ?thesis using max_where_bounds(1) [OF m(2) assms(2), of Q] assms(1) fle_trans by metis
  next
    assume "\<exists>(t, v) \<in> set xs. P t \<and> max_where P xs m = v"
    then show ?thesis using max_where_bounds(2) [OF m(2) assms(2), of _ _ Q] assms(3) by fastforce
  qed
qed

section \<open>Lemmas on merging\<close>

definition no_nans :: "samples \<Rightarrow> bool" where
  "no_nans xs \<longleftrightarrow> (\<forall>(t, v) \<in> set xs. \<not> is_nan v)"

text \<open>A map of maxima covers a set of samples: its entries are samples, and none is above its entry.\<close>

definition covers :: "samples \<Rightarrow> (int \<times> float64) set \<Rightarrow> bool" where
  "covers m A \<longleftrightarrow> distinct (map fst m) \<and> (\<forall>t v. map_of m t = Some v \<longrightarrow> (t, v) \<in> A) \<and>
     (\<forall>t v. (t, v) \<in> A \<longrightarrow> (\<exists>v'. map_of m t = Some v' \<and> fle v v'))"

lemma covers_note:
  assumes "covers m A" "\<not> is_nan v" "\<forall>(t, v) \<in> A. \<not> is_nan v"
  shows "covers (note_pair m (t, v)) (insert (t, v) A)"
proof (cases "map_of m t")
  case None
  then have "\<forall>u. (t, u) \<notin> A" using assms(1) by (force simp: covers_def)
  then show ?thesis using assms None
    by (auto simp: covers_def note_pair_def update_conv' distinct_update)
next
  case (Some e)
  then have "(t, e) \<in> A" using assms(1) by (simp add: covers_def)
  then have e: "(t, e) \<in> A" "\<not> is_nan e" using assms(3) by blast+
  have le: "(t, u) \<in> A \<Longrightarrow> fle u e" for u using assms(1) Some unfolding covers_def by (metis option.inject)
  show ?thesis
  proof (cases "flt e v")
    case True
    then have "(t, u) \<in> A \<Longrightarrow> fle u v" for u using le flt_fle fle_trans by blast
    moreover have "map_of (note_pair m (t, v)) = (map_of m)(t \<mapsto> v)" "distinct (map fst (note_pair m (t, v)))"
      using assms(1) Some True by (simp_all add: covers_def note_pair_def update_conv' distinct_update)
    ultimately show ?thesis using assms unfolding covers_def by auto
  next
    case False
    then have "fle v e" using not_flt [OF e(2) assms(2)] by simp
    then show ?thesis using assms(1) Some False by (auto simp: covers_def note_pair_def)
  qed
qed

lemma covers_notes:
  assumes "covers m A" "no_nans xs" "\<forall>(t, v) \<in> A. \<not> is_nan v"
  shows "covers (foldl note_pair m xs) (set xs \<union> A)"
  using assms
proof (induction xs arbitrary: m A)
  case (Cons x xs)
  obtain t v where x: "x = (t, v)" by fastforce
  have "covers (note_pair m (t, v)) (insert (t, v) A)" using covers_note Cons.prems x by (auto simp: no_nans_def)
  then have "covers (foldl note_pair (note_pair m (t, v)) xs) (set xs \<union> insert (t, v) A)"
    using Cons.prems x by (intro Cons.IH) (auto simp: no_nans_def)
  then show ?case using x by simp
qed simp

lemma covers_samples:
  assumes "covers m A" "\<forall>s \<in> set ss. no_nans (ss_Values s)" "\<forall>(t, v) \<in> A. \<not> is_nan v"
  shows "covers (foldl (\<lambda>m s. foldl note_pair m (ss_Values s)) m ss) ((\<Union>s \<in> set ss. set (ss_Values s)) \<union> A)"
  using assms
proof (induction ss arbitrary: m A)
  case (Cons s ss)
  let ?A = "set (ss_Values s) \<union> A"
  have "covers (foldl note_pair m (ss_Values s)) ?A" using covers_notes Cons.prems by simp
  moreover have "\<forall>(t, v) \<in> ?A. \<not> is_nan v" using Cons.prems by (auto simp: no_nans_def)
  ultimately have "covers (foldl (\<lambda>m s. foldl note_pair m (ss_Values s)) (foldl note_pair m (ss_Values s)) ss)
      ((\<Union>s \<in> set ss. set (ss_Values s)) \<union> ?A)" using Cons.IH Cons.prems(2) by simp
  then show ?case by (simp add: Un_ac)
qed simp

lemma combineTimeSeriesByMax:
  assumes "\<forall>s \<in> set ss. no_nans (ss_Values s)"
  shows "set (combineTimeSeriesByMax ss) \<subseteq> (\<Union>s \<in> set ss. set (ss_Values s))"
    "s \<in> set ss \<Longrightarrow> (t, v) \<in> set (ss_Values s) \<Longrightarrow> \<exists>v'. (t, v') \<in> set (combineTimeSeriesByMax ss) \<and> fle v v'"
    "sorted (map fst (combineTimeSeriesByMax ss))" "distinct (map fst (combineTimeSeriesByMax ss))"
proof -
  let ?m = "foldl (\<lambda>m s. foldl note_pair m (ss_Values s)) [] ss"
  have c: "covers ?m (\<Union>s \<in> set ss. set (ss_Values s))"
  proof -
    have "covers [] {}" by (simp add: covers_def)
    from covers_samples [OF this assms] show ?thesis by simp
  qed
  then have d: "distinct (map fst ?m)" unfolding covers_def by blast
  have m: "(t, v) \<in> set ?m \<longleftrightarrow> map_of ?m t = Some v" for t v using map_of_eq_Some_iff [OF d] by simp
  show "set (combineTimeSeriesByMax ss) \<subseteq> (\<Union>s \<in> set ss. set (ss_Values s))"
    using c m by (auto simp: combineTimeSeriesByMax_def covers_def)
  show "s \<in> set ss \<Longrightarrow> (t, v) \<in> set (ss_Values s) \<Longrightarrow> \<exists>v'. (t, v') \<in> set (combineTimeSeriesByMax ss) \<and> fle v v'"
  proof -
    assume s: "s \<in> set ss" "(t, v) \<in> set (ss_Values s)"
    then have "(t, v) \<in> (\<Union>s \<in> set ss. set (ss_Values s))" by blast
    then obtain v' where "map_of ?m t = Some v'" "fle v v'" using c unfolding covers_def by blast
    then show "\<exists>v'. (t, v') \<in> set (combineTimeSeriesByMax ss) \<and> fle v v'"
      using m [of t v'] by (auto simp: combineTimeSeriesByMax_def)
  qed
  show "sorted (map fst (combineTimeSeriesByMax ss))" by (simp add: combineTimeSeriesByMax_def)
  have "mset (map fst (combineTimeSeriesByMax ss)) = mset (map fst ?m)" by (simp add: combineTimeSeriesByMax_def)
  then show "distinct (map fst (combineTimeSeriesByMax ss))" using d by (metis mset_eq_imp_distinct_iff)
qed


section \<open>Lemmas on groups\<close>

definition is_rs :: "SampleStream \<Rightarrow> bool" where
  "is_rs s \<longleftrightarrow> metric (ss_Metric s) ''created_by_kind'' = ReplicaSetKind"

text \<open>The container of a workload a series belongs to, with the Deployment for a ReplicaSet.\<close>

definition owner_key :: "SampleStream \<Rightarrow> string" where
  "owner_key s = (if is_rs s
     then GetWorkloadContainerKey DeploymentKind (metric (ss_Metric s) ''namespace'')
       (case deployment_of s of None \<Rightarrow> '''' | Some d \<Rightarrow> d) (metric (ss_Metric s) ''container'')
     else series_key s)"

definition groups_ok :: "SampleStream set \<Rightarrow> groups \<Rightarrow> bool" where
  "groups_ok S gs \<longleftrightarrow> distinct (map fst gs) \<and>
     (\<forall>k g. map_of gs k = Some g \<longrightarrow> g \<noteq> [] \<and>
        (\<forall>s \<in> set g. s \<in> S \<and> is_rs s \<and> deployment_of s \<noteq> None \<and> owner_key s = k)) \<and>
     (\<forall>s \<in> S. is_rs s \<longrightarrow> (\<exists>g. map_of gs (owner_key s) = Some g \<and> s \<in> set g))"

lemma groups_add:
  assumes "groups_ok S gs" "is_rs s" "deployment_of s = Some d"
  shows "groups_ok (insert s S) (AList.update (owner_key s)
    ((case map_of gs (owner_key s) of None \<Rightarrow> [] | Some g \<Rightarrow> g) @ [s]) gs)" (is "groups_ok _ ?gs")
proof -
  define old where "old = (case map_of gs (owner_key s) of None \<Rightarrow> [] | Some g \<Rightarrow> g)"
  have a: "distinct (map fst gs)"
    and b: "\<And>k g t. map_of gs k = Some g \<Longrightarrow> g \<noteq> [] \<and>
      (t \<in> set g \<longrightarrow> t \<in> S \<and> is_rs t \<and> deployment_of t \<noteq> None \<and> owner_key t = k)"
    and c: "\<And>t. t \<in> S \<Longrightarrow> is_rs t \<Longrightarrow> \<exists>g. map_of gs (owner_key t) = Some g \<and> t \<in> set g"
    using assms(1) unfolding groups_ok_def by blast+
  have m: "map_of ?gs = (map_of gs)(owner_key s \<mapsto> old @ [s])" by (simp add: update_conv' old_def)
  have old: "t \<in> set old \<Longrightarrow> t \<in> S \<and> is_rs t \<and> deployment_of t \<noteq> None \<and> owner_key t = owner_key s" for t
    using b [of "owner_key s"] by (cases "map_of gs (owner_key s)") (simp_all add: old_def)
  have "distinct (map fst ?gs)" using a by (simp add: distinct_update)
  moreover have "g \<noteq> [] \<and> (\<forall>t \<in> set g. t \<in> insert s S \<and> is_rs t \<and> deployment_of t \<noteq> None \<and> owner_key t = k)"
    if k: "map_of ?gs k = Some g" for k g
  proof (cases "k = owner_key s")
    case True
    then have "g = old @ [s]" using k unfolding m by simp
    moreover have "t \<in> insert s S \<and> is_rs t \<and> deployment_of t \<noteq> None \<and> owner_key t = k" if "t \<in> set (old @ [s])" for t
      using that old [of t] assms(2,3) True by (cases "t = s") simp_all
    ultimately show ?thesis by simp
  next
    case False
    then have "map_of gs k = Some g" using k unfolding m by simp
    then show ?thesis using b by blast
  qed
  moreover have "\<exists>g. map_of ?gs (owner_key t) = Some g \<and> t \<in> set g" if t: "t \<in> insert s S" "is_rs t" for t
  proof (cases "owner_key t = owner_key s")
    case True
    have "t = s \<or> t \<in> set old" using t c [of t] True unfolding old_def by auto
    then show ?thesis unfolding m using True by auto
  next
    case False
    then have "t \<in> S" using t by auto
    then show ?thesis unfolding m using False c [of t] t(2) by simp
  qed
  ultimately show ?thesis unfolding groups_ok_def by blast
qed

lemma group_loop:
  assumes "\<forall>s \<in> set ms. is_rs s \<longrightarrow> deployment_of s \<noteq> None" "groups_ok S gs"
  shows "\<exists>gs'. group_loop ms cm gs = Some (cm @ filter (\<lambda>s. \<not> is_rs s) ms, gs') \<and> groups_ok (set ms \<union> S) gs'"
  using assms
proof (induction ms arbitrary: cm gs S)
  case (Cons s ms)
  show ?case
  proof (cases "is_rs s")
    case True
    then obtain d where d: "deployment_of s = Some d" using Cons.prems(1) by auto
    have ok: "GetWorkloadContainerKey DeploymentKind (metric (ss_Metric s) ''namespace'') d
        (metric (ss_Metric s) ''container'') = owner_key s" using True d by (simp add: owner_key_def)
    note add = groups_add [OF Cons.prems(2) True d]
    have "\<forall>s \<in> set ms. is_rs s \<longrightarrow> deployment_of s \<noteq> None" using Cons.prems(1) by simp
    from Cons.IH [OF this add, of cm] obtain gs' where gs':
      "group_loop ms cm (AList.update (owner_key s)
        ((case map_of gs (owner_key s) of None \<Rightarrow> [] | Some g \<Rightarrow> g) @ [s]) gs) =
        Some (cm @ filter (\<lambda>s. \<not> is_rs s) ms, gs')" "groups_ok (set ms \<union> insert s S) gs'" by blast
    have "group_loop (s # ms) cm gs = group_loop ms cm (AList.update (owner_key s)
        ((case map_of gs (owner_key s) of None \<Rightarrow> [] | Some g \<Rightarrow> g) @ [s]) gs)"
      using True d ok by (simp add: is_rs_def Let_def)
    moreover have "filter (\<lambda>s. \<not> is_rs s) (s # ms) = filter (\<lambda>s. \<not> is_rs s) ms" "set (s # ms) \<union> S = set ms \<union> insert s S"
      using True by simp_all
    ultimately show ?thesis using gs' by (intro exI [of _ gs'] conjI) (simp_all only:)
  next
    case False
    have "groups_ok (insert s S) gs" using Cons.prems(2) False unfolding groups_ok_def by (metis insert_iff)
    moreover have "\<forall>s \<in> set ms. is_rs s \<longrightarrow> deployment_of s \<noteq> None" using Cons.prems(1) by simp
    ultimately show ?thesis using Cons.IH [of "insert s S" gs "cm @ [s]"] False unfolding is_rs_def by simp
  qed
qed simp

lemma combined_sample:
  assumes "g \<noteq> []" "\<forall>s \<in> set g. is_rs s \<and> deployment_of s \<noteq> None \<and> owner_key s = k"
  shows "\<exists>c. combined_sample g = Some [c] \<and> series_key c = k \<and> ss_Values c = combineTimeSeriesByMax g"
proof -
  obtain t rest where g: "g = t # rest" using assms(1) by (cases g) auto
  then obtain d where d: "deployment_of t = Some d" "is_rs t" "owner_key t = k" using assms(2) by auto
  have "''namespace'' \<noteq> ''created_by_kind''" "''namespace'' \<noteq> ''created_by_name''"
    "''container'' \<noteq> ''created_by_kind''" "''container'' \<noteq> ''created_by_name''"
    "''created_by_kind'' \<noteq> ''created_by_name''" by simp_all
  then show ?thesis using g d by (simp add: combined_sample_def series_key_def owner_key_def metric_def)
qed

lemma combine_groups:
  assumes "\<forall>(k, g) \<in> set gs. g \<noteq> [] \<and> (\<forall>s \<in> set g. is_rs s \<and> deployment_of s \<noteq> None \<and> owner_key s = k)"
  shows "\<exists>cs. combine_groups gs = Some cs \<and>
    map (\<lambda>c. (series_key c, ss_Values c)) cs = map (\<lambda>(k, g). (k, combineTimeSeriesByMax g)) gs"
  using assms
proof (induction gs)
  case (Cons p gs)
  obtain k g where p: "p = (k, g)" by fastforce
  obtain c where "combined_sample g = Some [c]" "series_key c = k" "ss_Values c = combineTimeSeriesByMax g"
    using combined_sample [of g k] Cons.prems p by auto
  moreover obtain cs where "combine_groups gs = Some cs"
    "map (\<lambda>c. (series_key c, ss_Values c)) cs = map (\<lambda>(k, g). (k, combineTimeSeriesByMax g)) gs"
    using Cons by auto
  ultimately show ?case using p by simp
qed simp

text \<open>What the merged matrix holds: the other series as they are, and one per container of a Deployment.\<close>

lemma combined_matrix:
  assumes "\<forall>s \<in> set matrix. is_rs s \<longrightarrow> deployment_of s \<noteq> None" "\<And>gs. mset (perm gs) = mset gs"
    and "\<forall>s \<in> set matrix. no_nans (ss_Values s)"
  shows "\<exists>cm. combineReplicasetsToDeployments perm matrix = Some cm \<and>
    (\<forall>c \<in> set cm. no_nans (ss_Values c) \<and> (\<forall>x \<in> set (ss_Values c). \<exists>s \<in> set matrix. owner_key s = series_key c \<and> x \<in> set (ss_Values s))) \<and>
    (\<forall>s \<in> set matrix. \<forall>(t, v) \<in> set (ss_Values s). \<exists>c \<in> set cm. series_key c = owner_key s \<and>
       (\<exists>v'. (t, v') \<in> set (ss_Values c) \<and> fle v v'))"
proof -
  have "groups_ok {} []" by (simp add: groups_ok_def)
  from group_loop [OF assms(1) this, of "[]"] obtain gs where gs:
    "group_loop matrix [] [] = Some (filter (\<lambda>s. \<not> is_rs s) matrix, gs)" "groups_ok (set matrix) gs" by auto
  have d: "distinct (map fst gs)" using gs(2) by (simp add: groups_ok_def)
  have in_gs: "(k, g) \<in> set gs \<longleftrightarrow> map_of gs k = Some g" for k g using map_of_eq_Some_iff [OF d] by simp
  have g: "g \<noteq> []" "s \<in> set g \<Longrightarrow> s \<in> set matrix \<and> is_rs s \<and> deployment_of s \<noteq> None \<and> owner_key s = k"
    if "(k, g) \<in> set gs" for k g s
    using gs(2) that unfolding groups_ok_def in_gs by blast+
  have perm: "set (perm gs) = set gs" using assms(2) mset_eq_setD by blast
  have "\<forall>(k, g) \<in> set (perm gs). g \<noteq> [] \<and> (\<forall>s \<in> set g. is_rs s \<and> deployment_of s \<noteq> None \<and> owner_key s = k)"
    unfolding perm using g by blast
  then obtain cs where cs: "combine_groups (perm gs) = Some cs"
    "map (\<lambda>c. (series_key c, ss_Values c)) cs = map (\<lambda>(k, g). (k, combineTimeSeriesByMax g)) (perm gs)"
    using combine_groups by blast
  have eq: "(\<lambda>c. (series_key c, ss_Values c)) ` set cs = (\<lambda>(k, g). (k, combineTimeSeriesByMax g)) ` set gs"
    using arg_cong [OF cs(2), of set] perm by simp
  have nn: "\<forall>s \<in> set g. no_nans (ss_Values s)" if "(k, g) \<in> set gs" for k g using g(2) [OF that] assms(3) by blast
  let ?cm = "filter (\<lambda>s. \<not> is_rs s) matrix @ cs"
  have new: "\<exists>k g. (k, g) \<in> set gs \<and> series_key c = k \<and> ss_Values c = combineTimeSeriesByMax g" if "c \<in> set cs" for c
  proof -
    have "(series_key c, ss_Values c) \<in> (\<lambda>(k, g). (k, combineTimeSeriesByMax g)) ` set gs" using that eq by blast
    then show ?thesis by auto
  qed
  have vals: "x \<in> set (ss_Values c) \<Longrightarrow> \<exists>s \<in> set matrix. owner_key s = series_key c \<and> x \<in> set (ss_Values s)"
    if c: "c \<in> set ?cm" for c x
  proof (cases "c \<in> set cs")
    case True
    then obtain k g where kg: "(k, g) \<in> set gs" "series_key c = k" "ss_Values c = combineTimeSeriesByMax g" using new by blast
    assume "x \<in> set (ss_Values c)"
    then obtain s where "s \<in> set g" "x \<in> set (ss_Values s)" using combineTimeSeriesByMax(1) [OF nn [OF kg(1)]] kg(3) by auto
    then show ?thesis using kg(2) g(2) [OF kg(1)] by blast
  next
    case False
    assume "x \<in> set (ss_Values c)"
    then show ?thesis using False c by (auto simp: owner_key_def)
  qed
  then have "\<forall>c \<in> set ?cm. no_nans (ss_Values c)" using assms(3) unfolding no_nans_def by blast
  moreover have "\<exists>c \<in> set ?cm. series_key c = owner_key s \<and> (\<exists>v'. (t, v') \<in> set (ss_Values c) \<and> fle v v')"
    if s: "s \<in> set matrix" "(t, v) \<in> set (ss_Values s)" for s t v
  proof (cases "is_rs s")
    case True
    then obtain g where g': "(owner_key s, g) \<in> set gs" "s \<in> set g" using gs(2) s(1) in_gs unfolding groups_ok_def by blast
    have "(owner_key s, combineTimeSeriesByMax g) \<in> (\<lambda>(k, g). (k, combineTimeSeriesByMax g)) ` set gs"
      by (rule image_eqI [OF _ g'(1)]) simp
    then obtain c where "c \<in> set cs" "series_key c = owner_key s" "ss_Values c = combineTimeSeriesByMax g"
      unfolding eq [symmetric] by auto
    moreover obtain v' where "(t, v') \<in> set (combineTimeSeriesByMax g)" "fle v v'"
      using combineTimeSeriesByMax(2) [OF nn [OF g'(1)] g'(2) s(2)] by blast
    ultimately show ?thesis by (intro bexI [of _ c]) auto
  next
    case False
    have "\<not> is_nan v" using assms(3) s by (auto simp: no_nans_def)
    then show ?thesis using False s by (auto simp: owner_key_def intro!: bexI [of _ s])
  qed
  ultimately show ?thesis using gs(1) cs(1) vals
    by (intro exI [of _ ?cm]) (auto simp: combineReplicasetsToDeployments_def)
qed


section \<open>Predictions\<close>

text \<open>The time of a sample after it was printed and parsed: cut to the second.\<close>

definition sample_time :: "int \<Rightarrow> go_time" where
  "sample_time ms = secs_of (ms * 10 ^ 6) * 10 ^ 9"

definition printable :: "samples \<Rightarrow> bool" where
  "printable xs \<longleftrightarrow> (\<forall>(t, v) \<in> set xs. 0 \<le> year_of (t * 10 ^ 6) \<and> year_of (t * 10 ^ 6) < 10000)"

lemma parsed_times:
  "printable xs \<Longrightarrow> List.map_filter ParseSeconds (map (\<lambda>(t, v). FormatSeconds (t * 10 ^ 6)) xs) = map (\<lambda>(t, v). sample_time t) xs"
  by (induction xs) (auto simp: printable_def parse_format sample_time_def List.map_filter_simps)

lemma series_key_nonempty: "series_key s \<noteq> []"
  by (simp add: series_key_def GetWorkloadContainerKey_def)

lemma predict_loop_convert:
  assumes "\<forall>c \<in> set cm. printable (ss_Values c)"
  shows "predict_loop now i (convert_loop cm) =
    map (\<lambda>c. predict_entity now (series_key c) (map (\<lambda>(t, v). (sample_time t, v)) (ss_Values c)))
      (filter (\<lambda>c. ss_Values c \<noteq> []) cm)"
  using assms
proof (induction cm arbitrary: i)
  case (Cons c cm)
  have p: "List.map_filter ParseSeconds (map (\<lambda>(t, v). FormatSeconds (t * 10 ^ 6)) (ss_Values c)) =
      map (\<lambda>(t, v). sample_time t) (ss_Values c)" using parsed_times Cons.prems by simp
  have z: "zip (map (\<lambda>(t, v). sample_time t) xs) (map snd xs) = map (\<lambda>(t, v). (sample_time t, v)) xs" for xs :: samples
    by (induction xs) auto
  show ?case using Cons p z by (auto simp: Let_def series_key_nonempty)
qed simp

definition relevant :: "go_time \<Rightarrow> go_time \<Rightarrow> bool" where
  "relevant now t \<longleftrightarrow> around_hour (Hour_of now) t \<or> now - Hour \<le> t"

lemma predict_entity_bounds:
  assumes "\<forall>(t, v) \<in> set xs. \<not> is_nan v"
    and p_def: "p = predict_entity now key xs"
  shows "fle fzero (sr_WeeklyPrediction p)" "fle (sr_WeeklyPrediction p) (sr_HourlyPrediction p)"
    "fle (sr_HourlyPrediction p) (sr_MaxValue p)" "fle fzero (sr_CurrentPrediction p)"
    "fle (sr_CurrentPrediction p) (sr_MaxValue p)" "sr_MaxValue p \<in> insert fzero (snd ` set xs)"
    "(t, v) \<in> set xs \<Longrightarrow> relevant now t \<Longrightarrow> fle v (sr_MaxValue p)"
proof -
  let ?w = "\<lambda>t. Weekday t = Weekday now \<and> Hour_of t = Hour_of now" and ?h = "\<lambda>t. Hour_of t = Hour_of now"
  let ?c = "\<lambda>t. \<not> t < now - Hour" and ?a = "around_hour (Hour_of now)"
  let ?cur = "max_where ?c xs fzero"
  note b = max_where_bounds [OF _ assms(1)] and mono = max_where_mono [OF _ assms(1)]
  have p: "sr_WeeklyPrediction p = max_where ?w xs fzero" "sr_HourlyPrediction p = max_where ?h xs fzero"
    "sr_CurrentPrediction p = ?cur" "sr_MaxValue p = max_where ?a xs ?cur"
    by (simp_all add: p_def predict_entity_def Let_def)
  have cur: "fle fzero ?cur" using b(1) [of fzero ?c] by simp
  then have nc: "\<not> is_nan ?cur" using fle_nan by blast
  show "fle fzero (sr_WeeklyPrediction p)" unfolding p using b(1) [of fzero ?w] by simp
  show "fle (sr_WeeklyPrediction p) (sr_HourlyPrediction p)" unfolding p by (rule mono) simp_all
  show "fle (sr_HourlyPrediction p) (sr_MaxValue p)" unfolding p
    by (rule mono) (use cur in \<open>simp_all add: around_hour_def Let_def\<close>)
  show "fle fzero (sr_CurrentPrediction p)" unfolding p by (rule cur)
  show max: "fle (sr_CurrentPrediction p) (sr_MaxValue p)" unfolding p by (rule b(1) [OF nc])
  show "sr_MaxValue p \<in> insert fzero (snd ` set xs)" unfolding p
    by (rule subsetD [OF _ b(3) [OF nc]]) (rule insert_subsetI [OF b(3) [OF val_fzero(3)] subset_insertI])
  show "fle v (sr_MaxValue p)" if v: "(t, v) \<in> set xs" "relevant now t"
  proof (cases "?a t")
    case True
    then show ?thesis unfolding p using b(2) [OF nc v(1)] by blast
  next
    case False
    then have "\<not> t < now - Hour" using v(2) by (simp add: relevant_def)
    then have "fle v ?cur" using b(2) [of fzero t v ?c] v(1) by simp
    then show ?thesis using max fle_trans unfolding p by blast
  qed
qed

lemma predict_entity_name [simp]: "sr_EntityName (predict_entity now key xs) = key"
  by (simp add: predict_entity_def Let_def)

text \<open>C27. Provided every ReplicaSet has a dash in its name, times have years of four digits and no value is
  NaN, every container of a workload of which there is a sample gets a prediction, in whatever order
  the groups come, and only these do. The predictions are ordered: none is negative, the one for this
  hour of the week is at most the one for this hour of the day, and the maximum is at least that, the
  current one, and every sample of that container from around this hour or of the last hour; it is
  0 or one of the samples.\<close>

theorem predictions_bounded:
  assumes "\<forall>s \<in> set matrix. is_rs s \<longrightarrow> deployment_of s \<noteq> None" "\<And>gs. mset (perm gs) = mset gs"
    and "\<forall>s \<in> set matrix. no_nans (ss_Values s) \<and> printable (ss_Values s)"
  shows "\<exists>series. convertMatrixToSimpleTimeSeriesData perm matrix = Some series \<and>
    (let preds = computeSimpleTimeSeriesPredictions now series in
     sr_EntityName ` set preds = owner_key ` {s \<in> set matrix. ss_Values s \<noteq> []} \<and>
     (\<forall>p \<in> set preds. fle fzero (sr_WeeklyPrediction p) \<and> fle (sr_WeeklyPrediction p) (sr_HourlyPrediction p) \<and>
        fle (sr_HourlyPrediction p) (sr_MaxValue p) \<and> fle fzero (sr_CurrentPrediction p) \<and>
        fle (sr_CurrentPrediction p) (sr_MaxValue p) \<and>
        (sr_MaxValue p = fzero \<or> (\<exists>s \<in> set matrix. owner_key s = sr_EntityName p \<and>
           (\<exists>t. (t, sr_MaxValue p) \<in> set (ss_Values s))))) \<and>
     (\<forall>s \<in> set matrix. \<forall>(t, v) \<in> set (ss_Values s). relevant now (sample_time t) \<longrightarrow>
        (\<exists>p \<in> set preds. sr_EntityName p = owner_key s \<and> fle v (sr_MaxValue p))))"
proof -
  have nn: "\<forall>s \<in> set matrix. no_nans (ss_Values s)" using assms(3) by blast
  obtain cm where cm: "combineReplicasetsToDeployments perm matrix = Some cm"
    and own: "\<And>c x. c \<in> set cm \<Longrightarrow> x \<in> set (ss_Values c) \<Longrightarrow> \<exists>s \<in> set matrix. owner_key s = series_key c \<and> x \<in> set (ss_Values s)"
    and c_nn: "\<And>c. c \<in> set cm \<Longrightarrow> no_nans (ss_Values c)"
    and has: "\<And>s t v. s \<in> set matrix \<Longrightarrow> (t, v) \<in> set (ss_Values s) \<Longrightarrow>
      \<exists>c \<in> set cm. series_key c = owner_key s \<and> (\<exists>v'. (t, v') \<in> set (ss_Values c) \<and> fle v v')"
    using combined_matrix [OF assms(1,2) nn] by blast
  have pr: "\<forall>c \<in> set cm. printable (ss_Values c)"
    using own assms(3) unfolding printable_def by blast
  let ?xs = "\<lambda>c. map (\<lambda>(t, v). (sample_time t, v)) (ss_Values c)"
  let ?p = "\<lambda>c. predict_entity now (series_key c) (?xs c)"
  let ?preds = "computeSimpleTimeSeriesPredictions now (convert_loop cm)"
  have preds: "set ?preds = ?p ` {c \<in> set cm. ss_Values c \<noteq> []}"
    using predict_loop_convert [OF pr] by (simp add: computeSimpleTimeSeriesPredictions_def)
  have xs: "\<forall>(t, v) \<in> set (?xs c). \<not> is_nan v" if "c \<in> set cm" for c
    using c_nn [OF that] by (auto simp: no_nans_def)
  note bounds = predict_entity_bounds [OF xs refl, where now = now]
  have names: "sr_EntityName ` set ?preds = owner_key ` {s \<in> set matrix. ss_Values s \<noteq> []}"
  proof
    show "sr_EntityName ` set ?preds \<subseteq> owner_key ` {s \<in> set matrix. ss_Values s \<noteq> []}"
    proof
      fix n assume "n \<in> sr_EntityName ` set ?preds"
      then obtain c where c: "c \<in> set cm" "ss_Values c \<noteq> []" "n = series_key c" unfolding preds by auto
      then obtain s where "s \<in> set matrix" "owner_key s = n" "hd (ss_Values c) \<in> set (ss_Values s)"
        using own [of c "hd (ss_Values c)"] by auto
      then show "n \<in> owner_key ` {s \<in> set matrix. ss_Values s \<noteq> []}" by force
    qed
    show "owner_key ` {s \<in> set matrix. ss_Values s \<noteq> []} \<subseteq> sr_EntityName ` set ?preds"
    proof
      fix n assume "n \<in> owner_key ` {s \<in> set matrix. ss_Values s \<noteq> []}"
      then obtain s where s: "s \<in> set matrix" "ss_Values s \<noteq> []" "n = owner_key s" by blast
      obtain t v where "(t, v) \<in> set (ss_Values s)" using s(2) by (cases "ss_Values s") auto
      then obtain c v' where "c \<in> set cm" "series_key c = n" "(t, v') \<in> set (ss_Values c)" using has s by blast
      then show "n \<in> sr_EntityName ` set ?preds" unfolding preds by (force intro!: image_eqI [of _ _ "?p c"])
    qed
  qed
  have each: "fle fzero (sr_WeeklyPrediction p) \<and> fle (sr_WeeklyPrediction p) (sr_HourlyPrediction p) \<and>
        fle (sr_HourlyPrediction p) (sr_MaxValue p) \<and> fle fzero (sr_CurrentPrediction p) \<and>
        fle (sr_CurrentPrediction p) (sr_MaxValue p) \<and>
        (sr_MaxValue p = fzero \<or> (\<exists>s \<in> set matrix. owner_key s = sr_EntityName p \<and>
           (\<exists>t. (t, sr_MaxValue p) \<in> set (ss_Values s))))" if "p \<in> set ?preds" for p
  proof -
    obtain c where c: "c \<in> set cm" "p = ?p c" using \<open>p \<in> set ?preds\<close> unfolding preds by blast
    have "sr_MaxValue p = fzero \<or> (\<exists>t. (t, sr_MaxValue p) \<in> set (ss_Values c))"
      using bounds(6) [OF c(1), of "series_key c"] c(2) by auto
    then have "sr_MaxValue p = fzero \<or> (\<exists>s \<in> set matrix. owner_key s = sr_EntityName p \<and>
        (\<exists>t. (t, sr_MaxValue p) \<in> set (ss_Values s)))" using own [OF c(1)] c(2) by fastforce
    then show ?thesis using bounds(1-5) [OF c(1)] c(2) by blast
  qed
  have covered: "\<exists>p \<in> set ?preds. sr_EntityName p = owner_key s \<and> fle v (sr_MaxValue p)"
    if s: "s \<in> set matrix" "(t, v) \<in> set (ss_Values s)" "relevant now (sample_time t)" for s t v
  proof -
    obtain c v' where c: "c \<in> set cm" "series_key c = owner_key s" "(t, v') \<in> set (ss_Values c)" "fle v v'"
      using has s by blast
    have "(sample_time t, v') \<in> set (?xs c)" using c(3) by force
    then have "fle v' (sr_MaxValue (?p c))" using bounds(7) [OF c(1) _ s(3)] by blast
    then have "fle v (sr_MaxValue (?p c))" using c(4) fle_trans by blast
    moreover have "?p c \<in> set ?preds" unfolding preds using c(1,3) by (intro imageI) auto
    ultimately show ?thesis using c(2) by (intro bexI [of _ "?p c"]) simp_all
  qed
  show ?thesis using cm names each covered
    by (intro exI [of _ "convert_loop cm"]) (auto simp: convertMatrixToSimpleTimeSeriesData_def Let_def)
qed


definition sample_stream :: SampleStream where
  "sample_stream = \<lparr>ss_Metric = [''created_by_kind'' \<mapsto> ''ReplicaSet'', ''created_by_name'' \<mapsto> ''web-7d4b'',
     ''namespace'' \<mapsto> ''ns'', ''container'' \<mapsto> ''app''], ss_Values = [(0, lit 2)]\<rparr>"

lemma sample_stream_facts:
  "deployment_of sample_stream = Some ''web''" "is_rs sample_stream"
  "no_nans (ss_Values sample_stream)" "printable (ss_Values sample_stream)"
  "owner_key sample_stream = ''Deployment:ns:web:app''"
proof -
  show d: "deployment_of sample_stream = Some ''web''" and r: "is_rs sample_stream"
    by (simp_all add: deployment_of_def sample_stream_def metric_def split_last_dash_def is_rs_def ReplicaSetKind_def)
  show "no_nans (ss_Values sample_stream)" by (simp add: no_nans_def sample_stream_def)
  have "civil_of_days 0 = (1970, 1, 1)" by code_simp
  then show "printable (ss_Values sample_stream)" by (simp add: printable_def sample_stream_def year_of_def secs_of_def)
  show "owner_key sample_stream = ''Deployment:ns:web:app''"
    using d r by (simp add: owner_key_def sample_stream_def metric_def GetWorkloadContainerKey_def DeploymentKind_def)
qed

lemma predictions_bounded_witness:
  "\<exists>series p. convertMatrixToSimpleTimeSeriesData (\<lambda>gs. gs) [sample_stream] = Some series \<and>
     p \<in> set (computeSimpleTimeSeriesPredictions 0 series) \<and> sr_EntityName p = ''Deployment:ns:web:app'' \<and>
     fle (lit 2) (sr_MaxValue p)"
proof -
  have "relevant 0 (sample_time 0)" by (simp add: relevant_def sample_time_def secs_of_def Hour_def)
  moreover have "\<forall>s \<in> set [sample_stream]. is_rs s \<longrightarrow> deployment_of s \<noteq> None"
    "\<forall>s \<in> set [sample_stream]. no_nans (ss_Values s) \<and> printable (ss_Values s)"
    using sample_stream_facts by simp_all
  moreover have "(0, lit 2) \<in> set (ss_Values sample_stream)" by (simp add: sample_stream_def)
  note facts = calculation this
  obtain series where s: "convertMatrixToSimpleTimeSeriesData (\<lambda>gs. gs) [sample_stream] = Some series"
    "\<forall>s \<in> set [sample_stream]. \<forall>(t, v) \<in> set (ss_Values s). relevant 0 (sample_time t) \<longrightarrow>
        (\<exists>p \<in> set (computeSimpleTimeSeriesPredictions 0 series). sr_EntityName p = owner_key s \<and> fle v (sr_MaxValue p))"
    using predictions_bounded [OF facts(2) refl facts(3), where now = 0] unfolding Let_def by (elim exE conjE)
  then obtain p where "p \<in> set (computeSimpleTimeSeriesPredictions 0 series)" "sr_EntityName p = owner_key sample_stream"
    "fle (lit 2) (sr_MaxValue p)" using facts(1,4) by fastforce
  then show ?thesis using s(1) sample_stream_facts(5) by (intro exI [of _ series] exI [of _ p]) simp
qed

end
