(* ===== verification/Promql.thy ===== *)
theory Promql
  imports Stats Predictions
begin

text \<open>
  Running the Prometheus queries of a cluster, \<^verbatim>\<open>promql.go\<close> of
  \<^verbatim>\<open>pkg/adapters/metricsprovider/prometheus\<close>: the retries of a query, the queries of a namespace in
  parallel, and the caches they fill. What Prometheus answers to a query on each attempt is a
  parameter. The goroutines finish in any order: \<open>arrive\<close> is the order their results are received in,
  \<open>order\<close> the order a map of results is ranged over.
\<close>

section \<open>Retries\<close>

record ProviderConfig =
  pc_MaxQueryRetries :: int
  pc_RetryBackoffBase :: go_time
  pc_MaxConcurrentQueries :: int

type_synonym prom = "string \<Rightarrow> nat \<Rightarrow> string + prom_value"

definition backoffDuration :: "ProviderConfig \<Rightarrow> nat \<Rightarrow> go_time" where
  "backoffDuration cfg attempt =
     signed_take_bit 63 (pc_RetryBackoffBase cfg * signed_take_bit 63 (push_bit attempt 1))"

text \<open>The result, and how long is slept between the attempts. Wrapping a nil error prints \<^verbatim>\<open>%!w(<nil>)\<close>.\<close>

fun retry_loop ::
    "ProviderConfig \<Rightarrow> string \<Rightarrow> (nat \<Rightarrow> string + prom_value) \<Rightarrow> nat \<Rightarrow> nat \<Rightarrow> string option
     \<Rightarrow> (string + prom_value) \<times> go_time list" where
  "retry_loop cfg queryID answer 0 attempt lastErr =
     (Inl (''query '' @ queryID @ '' failed after '' @ show_int (pc_MaxQueryRetries cfg) @ '' attempts: '' @
        (case lastErr of None \<Rightarrow> ''%!w(<nil>)'' | Some e \<Rightarrow> e)), [])"
| "retry_loop cfg queryID answer (Suc n) attempt lastErr =
     (case answer attempt of
        Inr result \<Rightarrow> (Inr result, [])
      | Inl e \<Rightarrow>
          let (r, sleeps) = retry_loop cfg queryID answer n (Suc attempt) (Some e)
          in (r, if int attempt < pc_MaxQueryRetries cfg - 1 then backoffDuration cfg attempt # sleeps else sleeps))"

definition ExecuteQueryWithRetry ::
    "ProviderConfig \<Rightarrow> prom \<Rightarrow> string \<Rightarrow> string \<Rightarrow> (string + prom_value) \<times> go_time list" where
  "ExecuteQueryWithRetry cfg prom query queryID =
     retry_loop cfg queryID (prom query) (nat (pc_MaxQueryRetries cfg)) 0 None"

section \<open>Queries in parallel\<close>

record ParallelQueryRequest =
  rq_QueryID :: string
  rq_Query :: string

type_synonym query_result = "string \<times> (string + prom_value)"

fun collect_results :: "query_result list \<Rightarrow> (string \<rightharpoonup> prom_value) \<Rightarrow> string + (string \<rightharpoonup> prom_value)" where
  "collect_results [] results = Inr results"
| "collect_results ((queryID, r) # received) results =
     (case r of
        Inl e \<Rightarrow> Inl (''error executing query '' @ queryID @ '': '' @ e)
      | Inr v \<Rightarrow> collect_results received (results(queryID \<mapsto> v)))"

definition executeQueriesInParallel ::
    "ProviderConfig \<Rightarrow> prom \<Rightarrow> (query_result list \<Rightarrow> query_result list) \<Rightarrow> ParallelQueryRequest list
     \<Rightarrow> string + (string \<rightharpoonup> prom_value)" where
  "executeQueriesInParallel cfg prom arrive requests =
     collect_results (arrive (map (\<lambda>r. (rq_QueryID r,
       fst (ExecuteQueryWithRetry cfg prom (rq_Query r) (rq_QueryID r)))) requests)) Map.empty"

section \<open>Parsing\<close>

type_synonym RawBatchResult = "(string \<times> float64) list"

definition container_result :: "RawBatchResult \<Rightarrow> Sample \<Rightarrow> RawBatchResult" where
  "container_result rawResults sample =
     (let createdByKind = metric (sa_Metric sample) ''created_by_kind'';
          createdByName = metric (sa_Metric sample) ''created_by_name'';
          namespace = metric (sa_Metric sample) ''namespace'';
          containerName = metric (sa_Metric sample) ''container''
      in if createdByKind = '''' \<or> createdByName = '''' \<or> namespace = '''' \<or> containerName = '''' then rawResults
         else AList.update (GetWorkloadContainerKey createdByKind namespace createdByName containerName)
                (sa_Value sample) rawResults)"

definition parsePrometheusVectorResultForContainer :: "prom_value \<Rightarrow> string + RawBatchResult" where
  "parsePrometheusVectorResultForContainer result =
     (case result of
        Vector samples \<Rightarrow> Inr (foldl container_result [] samples)
      | _ \<Rightarrow> Inl ''expected vector result'')"

definition workload_result :: "RawBatchResult \<Rightarrow> Sample \<Rightarrow> RawBatchResult" where
  "workload_result rawResults sample =
     (let createdByKind = metric (sa_Metric sample) ''created_by_kind'';
          createdByName = metric (sa_Metric sample) ''created_by_name'';
          namespace = metric (sa_Metric sample) ''namespace''
      in if createdByKind = '''' \<or> createdByName = '''' \<or> namespace = '''' then rawResults
         else AList.update (GetWorkloadKey createdByKind namespace createdByName) (sa_Value sample) rawResults)"

definition parsePrometheusVectorResultForWorkload :: "prom_value \<Rightarrow> string + RawBatchResult" where
  "parsePrometheusVectorResultForWorkload result =
     (case result of
        Vector samples \<Rightarrow> Inr (foldl workload_result [] samples)
      | _ \<Rightarrow> Inl ''expected vector result'')"

section \<open>The metrics of a namespace\<close>

definition namespace_requests :: "string \<Rightarrow> bool \<Rightarrow> ParallelQueryRequest list" where
  "namespace_requests namespace isPSIEnabled =
     [\<lparr>rq_QueryID = namespace @ ''-cpu_p75'',
       rq_Query = buildBatchCPURecommendationQuery namespace (75 / 100) False\<rparr>] @
     (if isPSIEnabled
      then [\<lparr>rq_QueryID = namespace @ ''-cpu_p75-psi'',
             rq_Query = buildBatchCPURecommendationQuery namespace (75 / 100) True\<rparr>] else []) @
     [\<lparr>rq_QueryID = namespace @ ''-memory_p75-memory'',
       rq_Query = provider_EncloseWithinMemoryCleanupFunction
         (buildBatchMemoryRecommendationQuery namespace (75 / 100)) MemoryDecimalPlaces\<rparr>,
      \<lparr>rq_QueryID = namespace @ ''-memory_max-memory-7day'',
       rq_Query = provider_EncloseWithinMemoryCleanupFunction
         (buildBatch7DayMemoryRecommendationQuery namespace 1) MemoryDecimalPlaces\<rparr>,
      \<lparr>rq_QueryID = namespace @ ''-replica'',
       rq_Query = ''quantile_over_time(0.5, ('' @ buildBatchReplicaCountQuery namespace @ '')['' @
         DurationString ReplicaLookbackWindow @ '':1h])''\<rparr>]"

type_synonym map_order = "RawBatchResult \<Rightarrow> RawBatchResult"

definition merge_query ::
    "map_order \<Rightarrow> (string \<rightharpoonup> prom_value) \<Rightarrow> container_cache \<Rightarrow> string \<times> string \<times> bool \<Rightarrow> container_cache" where
  "merge_query order results cache = (\<lambda>(queryID, metricType, psiAdjusted).
     case results queryID of
       None \<Rightarrow> cache
     | Some result \<Rightarrow>
         (case parsePrometheusVectorResultForContainer result of
            Inl e \<Rightarrow> cache
          | Inr rawResults \<Rightarrow> MergeContainerRawResultsIntoCache cache (order rawResults) metricType psiAdjusted))"

definition container_queries :: "string \<Rightarrow> (string \<times> string \<times> bool) list" where
  "container_queries namespace =
     [(namespace @ ''-cpu_p75'', ''cpu_p75'', False), (namespace @ ''-cpu_p75-psi'', ''cpu_p75'', True),
      (namespace @ ''-memory_p75-memory'', ''memory_p75'', False),
      (namespace @ ''-memory_max-memory-7day'', ''memory_max_7day'', False)]"

text \<open>A map from workload keys to median replicas.\<close>

definition replica_result :: "(string \<rightharpoonup> float64) \<Rightarrow> string \<times> float64 \<Rightarrow> (string \<rightharpoonup> float64)" where
  "replica_result m = (\<lambda>(workloadKey, replicaValue).
     case ParseWorkloadKey workloadKey of
       None \<Rightarrow> m
     | Some (kind, namespace, name) \<Rightarrow>
         if kind = ReplicaSetKind
         then (case ExtractWorkloadFromReplicaSet name of
                 (deploymentName, True) \<Rightarrow> m(GetWorkloadKey DeploymentKind namespace deploymentName \<mapsto> replicaValue)
               | (_, False) \<Rightarrow> m)
         else m(GetWorkloadKey kind namespace name \<mapsto> replicaValue))"

definition replica_metrics :: "map_order \<Rightarrow> (string \<rightharpoonup> prom_value) \<Rightarrow> string \<Rightarrow> (string \<rightharpoonup> float64)" where
  "replica_metrics order results namespace =
     (case results (namespace @ ''-replica'') of
        None \<Rightarrow> Map.empty
      | Some result \<Rightarrow>
          (case parsePrometheusVectorResultForWorkload result of
             Inl e \<Rightarrow> Map.empty
           | Inr replicaResults \<Rightarrow> foldl replica_result Map.empty (order replicaResults)))"

definition fetchStatsForNamespace ::
    "ProviderConfig \<Rightarrow> prom \<Rightarrow> (query_result list \<Rightarrow> query_result list) \<Rightarrow> map_order \<Rightarrow> string \<Rightarrow> bool
     \<Rightarrow> string + container_cache \<times> (string \<rightharpoonup> float64)" where
  "fetchStatsForNamespace cfg prom arrive order namespace isPSIEnabled =
     (case executeQueriesInParallel cfg prom arrive (namespace_requests namespace isPSIEnabled) of
        Inl e \<Rightarrow> Inl e
      | Inr results \<Rightarrow>
          Inr (foldl (merge_query order results) Map.empty (container_queries namespace),
               replica_metrics order results namespace))"

section \<open>The metrics of all namespaces\<close>

type_synonym namespace_fetch = "string \<times> (string + container_cache \<times> (string \<rightharpoonup> float64))"

fun collect_namespaces ::
    "namespace_fetch list \<Rightarrow> (string \<rightharpoonup> container_cache) \<times> (string \<rightharpoonup> (string \<rightharpoonup> float64))
     \<Rightarrow> string + (string \<rightharpoonup> container_cache) \<times> (string \<rightharpoonup> (string \<rightharpoonup> float64))" where
  "collect_namespaces [] caches = Inr caches"
| "collect_namespaces ((namespace, r) # received) (globalContainerCache, globalWorkloadCache) =
     (case r of
        Inl e \<Rightarrow> Inl e
      | Inr (cache, workloadMetrics) \<Rightarrow>
          collect_namespaces received
            (globalContainerCache(namespace \<mapsto> cache), globalWorkloadCache(namespace \<mapsto> workloadMetrics)))"

definition FetchStatsForNamespaces ::
    "ProviderConfig \<Rightarrow> prom \<Rightarrow> (query_result list \<Rightarrow> query_result list) \<Rightarrow> (namespace_fetch list \<Rightarrow> namespace_fetch list)
     \<Rightarrow> map_order \<Rightarrow> string list \<Rightarrow> bool
     \<Rightarrow> string + (string \<rightharpoonup> container_cache) \<times> (string \<rightharpoonup> (string \<rightharpoonup> float64))" where
  "FetchStatsForNamespaces cfg prom arrive arrive_ns order namespaces isPSIEnabled =
     collect_namespaces
       (arrive_ns (map (\<lambda>ns. (ns, fetchStatsForNamespace cfg prom arrive order ns isPSIEnabled)) namespaces))
       (Map.empty, Map.empty)"

text \<open>\<^verbatim>\<open>QueryAndParsePrometheusScalar\<close>: the first number of the answer, 0 when there is none.\<close>

definition QueryAndParsePrometheusScalar :: "(string \<Rightarrow> string + prom_value) option \<Rightarrow> string \<Rightarrow> float64" where
  "QueryAndParsePrometheusScalar client q =
     (case client of
        None \<Rightarrow> lit 0
      | Some query \<Rightarrow>
          (case query q of
             Inr (Vector (s # _)) \<Rightarrow> sa_Value s
           | Inr (Scalar x) \<Rightarrow> x
           | _ \<Rightarrow> lit 0))"


section \<open>Lemmas\<close>

text \<open>The first attempt that succeeds gives the result; there are never more attempts than allowed.\<close>

lemma retry_first_success:
  "k < n \<Longrightarrow> answer (a + k) = Inr v \<Longrightarrow> \<forall>j < k. isl (answer (a + j)) \<Longrightarrow> fst (retry_loop cfg i answer n a e) = Inr v"
proof (induction n arbitrary: a e k)
  case (Suc n)
  show ?case
  proof (cases k)
    case 0
    then show ?thesis using Suc.prems(2) by simp
  next
    case (Suc k')
    have "isl (answer (a + 0))" using Suc.prems(3) Suc by blast
    then obtain x where x: "answer a = Inl x" by (cases "answer a") simp_all
    have "\<forall>j < k'. isl (answer (Suc a + j))" using Suc.prems(3) Suc by (metis Suc_less_eq add_Suc_shift)
    then have "fst (retry_loop cfg i answer n (Suc a) (Some x)) = Inr v"
      using Suc.IH [of k' "Suc a" "Some x"] Suc.prems(1,2) Suc by simp
    then show ?thesis using x by (simp add: case_prod_beta)
  qed
qed simp

lemma retry_all_fail:
  "\<forall>k < n. isl (answer (a + k)) \<Longrightarrow> isl (fst (retry_loop cfg i answer n a e))"
proof (induction n arbitrary: a e)
  case (Suc n)
  have "isl (answer (a + 0))" using Suc.prems by blast
  then obtain x where x: "answer a = Inl x" by (cases "answer a") simp_all
  have "\<forall>k < n. isl (answer (Suc a + k))" using Suc.prems by (metis Suc_less_eq add_Suc_shift)
  from Suc.IH [OF this, of "Some x"] show ?case using x by (simp add: case_prod_beta)
qed simp

lemma retry_sleeps: "length (snd (retry_loop cfg i answer n a e)) \<le> n"
proof (induction n arbitrary: a e)
  case (Suc n)
  show ?case using Suc.IH [of "Suc a"] by (cases "answer a") (simp_all add: case_prod_beta le_SucI)
qed simp

definition all_ok :: "('i \<times> ('e + 'a)) list \<Rightarrow> bool" where
  "all_ok xs \<longleftrightarrow> (\<forall>(i, r) \<in> set xs. \<not> isl r)"

lemma all_ok_simps [simp]: "all_ok []" "all_ok ((i, r) # xs) \<longleftrightarrow> \<not> isl r \<and> all_ok xs"
  by (auto simp: all_ok_def)

lemma all_ok_mset: "mset xs = mset ys \<Longrightarrow> all_ok xs = all_ok ys"
  using mset_eq_setD unfolding all_ok_def by metis

lemma collect_results_ok:
  "all_ok xs \<Longrightarrow> collect_results xs m = Inr (m ++ map_of (rev (map (\<lambda>(i, r). (i, projr r)) xs)))"
proof (induction xs arbitrary: m)
  case (Cons x xs)
  then show ?case by (cases x; cases "snd x") (auto simp: map_add_def fun_eq_iff split: option.split)
qed simp

lemma collect_results_error: "\<not> all_ok xs \<Longrightarrow> isl (collect_results xs m)"
proof (induction xs arbitrary: m)
  case (Cons x xs)
  then show ?case by (cases x; cases "snd x") auto
qed simp

lemma map_of_rev_mset:
  assumes "mset xs = mset ys" "distinct (map fst xs)"
  shows "map_of (rev xs) = map_of (rev ys)"
proof -
  have "distinct (map fst ys)" using assms by (metis mset_eq_imp_distinct_iff mset_map)
  then show ?thesis using assms map_of_inject_set [of "rev xs" "rev ys"] mset_eq_setD [OF assms(1)]
    by (simp add: rev_map [symmetric])
qed

lemma collect_results_perm:
  assumes "mset xs = mset ys" "distinct (map fst xs)"
  shows "isl (collect_results xs m) = isl (collect_results ys m) \<and>
    (\<not> isl (collect_results xs m) \<longrightarrow> collect_results ys m = collect_results xs m)"
proof (cases "all_ok xs")
  case True
  let ?f = "\<lambda>(i, r :: string + prom_value). (i, projr r)"
  have "all_ok ys" using True all_ok_mset [OF assms(1)] by simp
  moreover have "map_of (rev (map ?f xs)) = map_of (rev (map ?f ys))"
    by (rule map_of_rev_mset) (use assms in \<open>simp_all add: mset_map comp_def case_prod_beta\<close>)
  ultimately show ?thesis using True by (simp add: collect_results_ok)
next
  case False
  then have "\<not> all_ok ys" using all_ok_mset [OF assms(1)] by simp
  then show ?thesis using False collect_results_error by blast
qed

lemma collect_namespaces_ok:
  "all_ok xs \<Longrightarrow> collect_namespaces xs (c, w) =
     Inr (c ++ map_of (rev (map (\<lambda>(i, r). (i, fst (projr r))) xs)), w ++ map_of (rev (map (\<lambda>(i, r). (i, snd (projr r))) xs)))"
proof (induction xs arbitrary: c w)
  case (Cons x xs)
  then show ?case by (cases x; cases "snd x") (auto simp: map_add_def fun_eq_iff split: option.split)
qed simp

lemma collect_namespaces_error: "\<not> all_ok xs \<Longrightarrow> isl (collect_namespaces xs (c, w))"
proof (induction xs arbitrary: c w)
  case (Cons x xs)
  then show ?case by (cases x; cases "snd x") auto
qed simp

lemma request_ids: "distinct (map rq_QueryID (namespace_requests ns psi))"
  by (simp add: namespace_requests_def)

lemma queries_perm:
  fixes cfg :: ProviderConfig and prom :: prom and ns :: string and psi :: bool
  assumes "\<And>xs. mset (arrive xs) = mset xs" "\<And>xs. mset (arrive' xs) = mset xs"
  defines "q \<equiv> \<lambda>arrive. executeQueriesInParallel cfg prom arrive (namespace_requests ns psi)"
  shows "isl (q arrive) = isl (q arrive') \<and> (\<not> isl (q arrive) \<longrightarrow> q arrive' = q arrive)"
proof -
  let ?xs = "map (\<lambda>r. (rq_QueryID r, fst (ExecuteQueryWithRetry cfg prom (rq_Query r) (rq_QueryID r))))
    (namespace_requests ns psi)"
  have "mset (arrive ?xs) = mset (arrive' ?xs)" by (simp only: assms(1,2))
  moreover have "distinct (map fst (arrive ?xs))"
  proof -
    have "mset (map fst (arrive ?xs)) = mset (map fst ?xs)" by (simp only: mset_map assms(1))
    moreover have "map fst ?xs = map rq_QueryID (namespace_requests ns psi)" by (simp only: map_map comp_def fst_conv)
    ultimately have "mset (map fst (arrive ?xs)) = mset (map rq_QueryID (namespace_requests ns psi))" by (simp only:)
    then show ?thesis using request_ids [of ns psi] mset_eq_imp_distinct_iff by blast
  qed
  ultimately show ?thesis unfolding q_def executeQueriesInParallel_def by (rule collect_results_perm)
qed

lemma merge_query_order:
  assumes "cache_ok cache" "\<And>xs. mset (order xs) = mset xs" "\<And>xs. mset (order' xs) = mset xs"
    and "psi \<or> ty \<noteq> ''median_replicas''"
  shows "merge_query order results cache (q, ty, psi) = merge_query order' results cache (q, ty, psi)"
    "cache_ok (merge_query order results cache (q, ty, psi))"
proof -
  have "foldl (merge_result ty psi) cache (order raw) = foldl (merge_result ty psi) cache (order' raw)" for raw
    by (rule merge_foldl_mset [OF assms(1,4)]) (simp only: assms(2,3))
  then show "merge_query order results cache (q, ty, psi) = merge_query order' results cache (q, ty, psi)"
    by (simp add: merge_query_def MergeContainerRawResultsIntoCache_def split: option.split sum.split)
  show "cache_ok (merge_query order results cache (q, ty, psi))"
    using cache_ok_foldl [OF assms(1)] assms(1)
    by (simp add: merge_query_def MergeContainerRawResultsIntoCache_def split: option.split sum.split)
qed

lemma merge_queries_order:
  assumes "cache_ok cache" "\<And>xs. mset (order xs) = mset xs" "\<And>xs. mset (order' xs) = mset xs"
    and "\<forall>(q, ty, psi) \<in> set qs. psi \<or> ty \<noteq> ''median_replicas''"
  shows "foldl (merge_query order results) cache qs = foldl (merge_query order' results) cache qs"
  using assms(1,4)
proof (induction qs arbitrary: cache)
  case (Cons t qs)
  obtain q ty psi where t: "t = (q, ty, psi)" by (metis prod.exhaust)
  have p: "psi \<or> ty \<noteq> ''median_replicas''" using Cons.prems(2) t by simp
  have "merge_query order results cache t = merge_query order' results cache t"
    "cache_ok (merge_query order results cache t)"
    unfolding t by (rule merge_query_order [OF Cons.prems(1) assms(2,3) p])+
  then show ?case using Cons.IH Cons.prems(2) by simp
qed simp

lemma fetch_namespace_order:
  fixes cfg :: ProviderConfig and prom :: prom and ns :: string and psi :: bool
  assumes "\<And>xs. mset (arrive xs) = mset xs" "\<And>xs. mset (arrive' xs) = mset xs"
    and "\<And>xs. mset (order xs) = mset xs" "\<And>xs. mset (order' xs) = mset xs"
  defines "f \<equiv> \<lambda>arrive order. fetchStatsForNamespace cfg prom arrive order ns psi"
  shows "isl (f arrive order) = isl (f arrive' order') \<and>
    (\<not> isl (f arrive order) \<longrightarrow> fst (projr (f arrive order)) = fst (projr (f arrive' order')))"
proof -
  note q = queries_perm [of arrive arrive' cfg prom ns psi, OF assms(1,2)]
  have "foldl (merge_query order results) Map.empty (container_queries ns) =
      foldl (merge_query order' results) Map.empty (container_queries ns)" for results
    by (rule merge_queries_order [OF _ assms(3,4)]) (auto simp: cache_ok_def container_queries_def)
  then show ?thesis using q unfolding f_def fetchStatsForNamespace_def
    by (cases "executeQueriesInParallel cfg prom arrive (namespace_requests ns psi)";
        cases "executeQueriesInParallel cfg prom arrive' (namespace_requests ns psi)") auto
qed

lemma namespaces_failed:
  assumes "\<And>xs. mset (arrive xs) = mset xs" "\<not> (\<forall>ns \<in> set namespaces. \<not> isl (f ns))"
  shows "isl (collect_namespaces (arrive (map (\<lambda>ns. (ns, f ns)) namespaces)) (Map.empty, Map.empty))"
proof (rule collect_namespaces_error)
  have "\<not> all_ok (map (\<lambda>ns. (ns, f ns)) namespaces)" using assms(2) by (auto simp: all_ok_def)
  then show "\<not> all_ok (arrive (map (\<lambda>ns. (ns, f ns)) namespaces))" using all_ok_mset [OF assms(1)] by blast
qed

lemma map_of_arrived:
  assumes "\<And>xs. mset (arrive xs) = mset xs" "distinct namespaces"
  shows "map_of (rev (map (\<lambda>(i, r). (i, h r)) (arrive (map (\<lambda>ns. (ns, f ns)) namespaces)))) =
    (\<lambda>ns. if ns \<in> set namespaces then Some (h (f ns)) else None)"
proof -
  let ?xs = "map (\<lambda>ns. (ns, f ns)) namespaces" and ?h = "\<lambda>(i, r). (i, h r)"
  have d: "distinct (map fst (map ?h ?xs))" using assms(2) by (simp add: comp_def)
  have "mset (map ?h ?xs) = mset (map ?h (arrive ?xs))" by (simp only: mset_map assms(1))
  from map_of_rev_mset [OF this d]
  have e: "map_of (rev (map ?h (arrive ?xs))) = map_of (rev (map (\<lambda>ns. (ns, h (f ns))) namespaces))"
    by (simp add: comp_def)
  have "map_of (map (\<lambda>ns. (ns, h (f ns))) (rev namespaces)) =
      (\<lambda>ns. if ns \<in> set namespaces then Some (h (f ns)) else None)"
    by (auto simp: fun_eq_iff map_of_map_restrict restrict_map_def)
  then show ?thesis unfolding e by (simp only: rev_map)
qed

lemma namespaces_fetched:
  assumes "\<And>xs. mset (arrive xs) = mset xs" "distinct namespaces" "\<forall>ns \<in> set namespaces. \<not> isl (f ns)"
  shows "collect_namespaces (arrive (map (\<lambda>ns. (ns, f ns)) namespaces)) (Map.empty, Map.empty) =
    Inr (\<lambda>ns. if ns \<in> set namespaces then Some (fst (projr (f ns))) else None,
         \<lambda>ns. if ns \<in> set namespaces then Some (snd (projr (f ns))) else None)"
proof -
  have "all_ok (map (\<lambda>ns. (ns, f ns)) namespaces)" using assms(3) by (auto simp: all_ok_def)
  then have "all_ok (arrive (map (\<lambda>ns. (ns, f ns)) namespaces))" using all_ok_mset [OF assms(1)] by blast
  then show ?thesis
    using map_of_arrived [of arrive namespaces "\<lambda>r. fst (projr r)" f, OF assms(1,2)]
      map_of_arrived [of arrive namespaces "\<lambda>r. snd (projr r)" f, OF assms(1,2)]
    by (simp add: collect_namespaces_ok)
qed

text \<open>The workload a row of the replica query is about.\<close>

definition replica_target :: "string \<Rightarrow> string option" where
  "replica_target workloadKey =
     (case ParseWorkloadKey workloadKey of
        None \<Rightarrow> None
      | Some (kind, namespace, name) \<Rightarrow>
          if kind = ReplicaSetKind
          then (case ExtractWorkloadFromReplicaSet name of
                  (deploymentName, ok) \<Rightarrow>
                    if ok then Some (GetWorkloadKey DeploymentKind namespace deploymentName) else None)
          else Some (GetWorkloadKey kind namespace name))"

lemma replica_result_eq:
  "replica_result m (key, v) = (case replica_target key of None \<Rightarrow> m | Some k \<Rightarrow> m(k \<mapsto> v))"
  by (auto simp: replica_result_def replica_target_def split: option.split prod.split bool.split)

lemma foldl_replica_result:
  "foldl replica_result m rows k =
     (case map snd (filter (\<lambda>row. replica_target (fst row) = Some k) rows) of
        [] \<Rightarrow> m k | vs \<Rightarrow> Some (last vs))"
proof (induction rows arbitrary: m)
  case (Cons row rows)
  obtain key v where r: "row = (key, v)" by fastforce
  show ?case
  proof (cases "replica_target key = Some k")
    case True
    then have "replica_result m row = m(k \<mapsto> v)" by (simp add: r replica_result_eq)
    then have "foldl replica_result m (row # rows) k = foldl replica_result (m(k \<mapsto> v)) rows k" by simp
    then show ?thesis using True r unfolding Cons.IH
      by (cases "filter (\<lambda>row. replica_target (fst row) = Some k) rows") simp_all
  next
    case False
    then have "replica_result m row k = m k" by (simp add: r replica_result_eq split: option.split)
    moreover have "foldl replica_result m (row # rows) k = foldl replica_result (replica_result m row) rows k" by simp
    moreover have "replica_target (fst row) \<noteq> Some k" using r False by simp
    ultimately show ?thesis unfolding Cons.IH by (simp split: list.split)
  qed
qed simp

lemma foldl_replica_dom:
  "foldl replica_result Map.empty rows k = None \<longleftrightarrow> Some k \<notin> replica_target ` fst ` set rows"
proof -
  let ?rs = "filter (\<lambda>row. replica_target (fst row) = Some k) rows"
  have "foldl replica_result Map.empty rows k = None \<longleftrightarrow> ?rs = []"
    unfolding foldl_replica_result by (cases ?rs) simp_all
  then show ?thesis by (auto simp: filter_empty_conv image_iff)
qed

lemma foldl_replica_row:
  assumes "foldl replica_result Map.empty rows k = Some v"
  shows "\<exists>a \<in> set rows. replica_target (fst a) = Some k \<and> snd a = v"
proof -
  let ?vs = "map snd (filter (\<lambda>row. replica_target (fst row) = Some k) rows)"
  have ne: "?vs \<noteq> []" using assms by (auto simp: foldl_replica_result split: list.splits)
  then have "v = last ?vs" using assms unfolding foldl_replica_result by (cases ?vs) simp_all
  then have "v \<in> set ?vs" using last_in_set [OF ne] by simp
  then show ?thesis by auto
qed

lemma workload_rows_distinct:
  assumes "parsePrometheusVectorResultForWorkload result = Inr rows" shows "distinct (map fst rows)"
proof -
  have "distinct (map fst xs) \<Longrightarrow> distinct (map fst (foldl workload_result xs samples))" for xs samples
    by (induction samples arbitrary: xs) (auto simp: workload_result_def Let_def distinct_update)
  then show ?thesis using assms
    by (auto simp: parsePrometheusVectorResultForWorkload_def split: prom_value.splits)
qed

text \<open>
  What the order of a map of results may change in the median replicas: only the value of a
  workload with several rows.
\<close>

definition same_replicas ::
    "string + prom_value \<Rightarrow> (string \<rightharpoonup> float64) \<Rightarrow> (string \<rightharpoonup> float64) \<Rightarrow> bool" where
  "same_replicas answer m m' \<longleftrightarrow> dom m = dom m' \<and>
     (\<forall>k. m k \<noteq> m' k \<longrightarrow> (\<exists>result rows a b. answer = Inr result \<and>
        parsePrometheusVectorResultForWorkload result = Inr rows \<and> a \<in> set rows \<and> b \<in> set rows \<and>
        fst a \<noteq> fst b \<and> replica_target (fst a) = Some k \<and> replica_target (fst b) = Some k \<and>
        m k = Some (snd a) \<and> m' k = Some (snd b)))"

lemma same_replicas_orders:
  assumes "\<And>xs. mset (order xs) = mset xs" "\<And>xs. mset (order' xs) = mset xs"
    and "results (ns @ ''-replica'') = Some (projr answer)" "\<not> isl answer"
  shows "same_replicas answer (replica_metrics order results ns) (replica_metrics order' results ns)"
proof -
  obtain result where res: "answer = Inr result" "results (ns @ ''-replica'') = Some result"
    using assms(3,4) by (cases answer) auto
  show ?thesis
  proof (cases "parsePrometheusVectorResultForWorkload result")
    case (Inl e)
    then show ?thesis using res by (simp add: same_replicas_def replica_metrics_def)
  next
    case (Inr rows)
    let ?m = "foldl replica_result Map.empty (order rows)" and ?m' = "foldl replica_result Map.empty (order' rows)"
    have m: "replica_metrics order results ns = ?m" "replica_metrics order' results ns = ?m'"
      using res Inr by (simp_all add: replica_metrics_def)
    have s: "set (order rows) = set rows" "set (order' rows) = set rows"
      using assms(1,2) mset_eq_setD by blast+
    have d: "(?m k = None) = (?m' k = None)" for k unfolding foldl_replica_dom s ..
    have "\<exists>a b. a \<in> set rows \<and> b \<in> set rows \<and> fst a \<noteq> fst b \<and> replica_target (fst a) = Some k \<and>
        replica_target (fst b) = Some k \<and> ?m k = Some (snd a) \<and> ?m' k = Some (snd b)" if ne: "?m k \<noteq> ?m' k" for k
    proof -
      obtain v v' where v: "?m k = Some v" "?m' k = Some v'" "v \<noteq> v'" using ne d [of k] by auto
      obtain a b where ab: "a \<in> set rows" "b \<in> set rows" "replica_target (fst a) = Some k" "snd a = v"
        "replica_target (fst b) = Some k" "snd b = v'"
        using foldl_replica_row [OF v(1)] foldl_replica_row [OF v(2)] s by auto
      have "fst a \<noteq> fst b"
        using workload_rows_distinct [OF Inr] ab v(3) eq_key_imp_eq_value by (metis prod.collapse)
      then show ?thesis using ab v by blast
    qed
    moreover have "dom ?m = dom ?m'" using d by (auto simp: dom_def)
    ultimately show ?thesis unfolding same_replicas_def m using res(1) Inr by blast
  qed
qed

lemma executeQueries_result:
  assumes "executeQueriesInParallel cfg prom arrive requests = Inr results" "\<And>xs. mset (arrive xs) = mset xs"
    and "distinct (map rq_QueryID requests)" "r \<in> set requests"
  shows "results (rq_QueryID r) = Some (projr (fst (ExecuteQueryWithRetry cfg prom (rq_Query r) (rq_QueryID r))))"
    "\<not> isl (fst (ExecuteQueryWithRetry cfg prom (rq_Query r) (rq_QueryID r)))"
proof -
  let ?a = "\<lambda>r. fst (ExecuteQueryWithRetry cfg prom (rq_Query r) (rq_QueryID r))"
  let ?xs = "map (\<lambda>r. (rq_QueryID r, ?a r)) requests" and ?p = "\<lambda>(i, r :: string + prom_value). (i, projr r)"
  have ok: "all_ok (arrive ?xs)"
    using assms(1) collect_results_error [of "arrive ?xs" Map.empty] by (auto simp: executeQueriesInParallel_def)
  then have "all_ok ?xs" using all_ok_mset [OF assms(2)] by blast
  then show "\<not> isl (?a r)" using assms(4) by (auto simp: all_ok_def)
  have "results = map_of (rev (map ?p (arrive ?xs)))"
    using assms(1) collect_results_ok [OF ok, of Map.empty] by (simp add: executeQueriesInParallel_def)
  moreover have "map_of (rev (map ?p (arrive ?xs))) = map_of (rev (map ?p ?xs))"
  proof (rule map_of_rev_mset [symmetric])
    show "mset (map ?p ?xs) = mset (map ?p (arrive ?xs))" by (simp only: mset_map assms(2))
  qed (use assms(3) in \<open>simp add: comp_def\<close>)
  moreover have "distinct (map fst (rev (map ?p ?xs)))" using assms(3) by (simp add: rev_map [symmetric] comp_def)
  then have "map_of (rev (map ?p ?xs)) (rq_QueryID r) = Some (projr (?a r))"
    using assms(4) by (intro map_of_is_SomeI) auto
  ultimately show "results (rq_QueryID r) = Some (projr (?a r))" by simp
qed

definition replica_answer :: "ProviderConfig \<Rightarrow> prom \<Rightarrow> string \<Rightarrow> bool \<Rightarrow> string + prom_value" where
  "replica_answer cfg prom ns psi =
     (let r = last (namespace_requests ns psi) in fst (ExecuteQueryWithRetry cfg prom (rq_Query r) (rq_QueryID r)))"

lemma fetch_namespace_replicas:
  assumes "\<And>xs. mset (arrive xs) = mset xs" "\<And>xs. mset (arrive' xs) = mset xs"
    and "\<And>xs. mset (order xs) = mset xs" "\<And>xs. mset (order' xs) = mset xs"
    and "\<not> isl (fetchStatsForNamespace cfg prom arrive order ns psi)"
  shows "same_replicas (replica_answer cfg prom ns psi)
    (snd (projr (fetchStatsForNamespace cfg prom arrive order ns psi)))
    (snd (projr (fetchStatsForNamespace cfg prom arrive' order' ns psi)))"
proof -
  obtain results where r: "executeQueriesInParallel cfg prom arrive (namespace_requests ns psi) = Inr results"
    using assms(5) by (auto simp: fetchStatsForNamespace_def split: sum.splits)
  then have r': "executeQueriesInParallel cfg prom arrive' (namespace_requests ns psi) = Inr results"
    using queries_perm [of arrive arrive' cfg prom ns psi, OF assms(1,2)] by simp
  have l: "last (namespace_requests ns psi) \<in> set (namespace_requests ns psi)"
    "rq_QueryID (last (namespace_requests ns psi)) = ns @ ''-replica''"
    by (simp_all add: namespace_requests_def)
  have a: "results (ns @ ''-replica'') = Some (projr (replica_answer cfg prom ns psi))"
    "\<not> isl (replica_answer cfg prom ns psi)"
    using executeQueries_result [OF r assms(1) request_ids l(1)] unfolding replica_answer_def Let_def l(2) by blast+
  show ?thesis using same_replicas_orders [of order order' results ns, OF assms(3,4) a] r r'
    by (simp add: fetchStatsForNamespace_def)
qed

text \<open>C28. Fetching the metrics of a cluster is deterministic as far as it can be, although its goroutines
  finish in any order and the maps of results are ranged over in any order. Whether it fails is
  determined by the answers of Prometheus alone, and so is the whole cache of container metrics when
  it succeeds. Of the workload metrics it determines for which workloads there are median replicas,
  and their number for every workload that the answer to the replica query has one row for; where
  two runs differ, as they may for a Deployment with several replica sets, each has the value of one
  of the rows.\<close>

theorem fetch_deterministic:
  assumes "\<And>xs. mset (arrive xs) = mset xs" "\<And>xs. mset (arrive' xs) = mset xs"
    and "\<And>xs. mset (arrive_ns xs) = mset xs" "\<And>xs. mset (arrive_ns' xs) = mset xs"
    and "\<And>xs. mset (order xs) = mset xs" "\<And>xs. mset (order' xs) = mset xs"
    and "distinct namespaces"
  shows "(\<exists>e. FetchStatsForNamespaces cfg prom arrive arrive_ns order namespaces psi = Inl e \<and>
      (\<exists>e'. FetchStatsForNamespaces cfg prom arrive' arrive_ns' order' namespaces psi = Inl e')) \<or>
    (\<exists>cache w w'. FetchStatsForNamespaces cfg prom arrive arrive_ns order namespaces psi = Inr (cache, w) \<and>
      FetchStatsForNamespaces cfg prom arrive' arrive_ns' order' namespaces psi = Inr (cache, w') \<and>
      dom cache = set namespaces \<and> dom w = set namespaces \<and> dom w' = set namespaces \<and>
      (\<forall>ns \<in> set namespaces. \<exists>m m'. w ns = Some m \<and> w' ns = Some m' \<and> dom m = dom m' \<and>
         (\<forall>k. m k \<noteq> m' k \<longrightarrow> (\<exists>r result rows a b. r = last (namespace_requests ns psi) \<and>
            fst (ExecuteQueryWithRetry cfg prom (rq_Query r) (rq_QueryID r)) = Inr result \<and>
            parsePrometheusVectorResultForWorkload result = Inr rows \<and> a \<in> set rows \<and> b \<in> set rows \<and>
            fst a \<noteq> fst b \<and> replica_target (fst a) = Some k \<and> replica_target (fst b) = Some k \<and>
            m k = Some (snd a) \<and> m' k = Some (snd b)))))"
proof -
  let ?f = "\<lambda>ns. fetchStatsForNamespace cfg prom arrive order ns psi"
  let ?g = "\<lambda>ns. fetchStatsForNamespace cfg prom arrive' order' ns psi"
  note same = fetch_namespace_order [of arrive arrive' order order' cfg prom _ psi, OF assms(1,2,5,6)]
  show ?thesis
  proof (cases "\<forall>ns \<in> set namespaces. \<not> isl (?f ns)")
    case False
    then have "\<not> (\<forall>ns \<in> set namespaces. \<not> isl (?g ns))" using same by blast
    then show ?thesis
      using False namespaces_failed [of arrive_ns namespaces ?f, OF assms(3)]
        namespaces_failed [of arrive_ns' namespaces ?g, OF assms(4)]
      unfolding FetchStatsForNamespaces_def isl_def by blast
  next
    case True
    then have True': "\<forall>ns \<in> set namespaces. \<not> isl (?g ns)" using same by blast
    let ?c = "\<lambda>f ns. if ns \<in> set namespaces then Some (fst (projr (f ns))) else None"
    let ?w = "\<lambda>f ns. if ns \<in> set namespaces then Some (snd (projr (f ns))) else None"
    have "FetchStatsForNamespaces cfg prom arrive arrive_ns order namespaces psi = Inr (?c ?f, ?w ?f)"
      "FetchStatsForNamespaces cfg prom arrive' arrive_ns' order' namespaces psi = Inr (?c ?g, ?w ?g)"
      unfolding FetchStatsForNamespaces_def
      by (rule namespaces_fetched [OF assms(3,7) True] namespaces_fetched [OF assms(4,7) True'])+
    moreover have "?c ?f = ?c ?g" using True same by (auto simp: fun_eq_iff)
    moreover have "same_replicas (replica_answer cfg prom ns psi) (snd (projr (?f ns))) (snd (projr (?g ns)))"
      if "ns \<in> set namespaces" for ns
      using fetch_namespace_replicas [of arrive arrive' order order', OF assms(1,2,5,6)] True that by blast
    moreover have "dom (?c ?g) = set namespaces" "dom (?w ?f) = set namespaces" "dom (?w ?g) = set namespaces"
      by (auto split: if_splits)
    ultimately show ?thesis unfolding same_replicas_def replica_answer_def Let_def
      by (intro disjI2 exI [of _ "?c ?g"] exI [of _ "?w ?f"] exI [of _ "?w ?g"] conjI ballI) simp_all
  qed
qed

lemma fetch_deterministic_witness:
  "\<exists>cache w w'. FetchStatsForNamespaces \<lparr>pc_MaxQueryRetries = 1, pc_RetryBackoffBase = 0, pc_MaxConcurrentQueries = 1\<rparr>
      (\<lambda>_ _. Inr (Vector [])) (\<lambda>xs. xs) (\<lambda>xs. xs) (\<lambda>xs. xs) [''a'', ''b''] False = Inr (cache, w) \<and>
    FetchStatsForNamespaces \<lparr>pc_MaxQueryRetries = 1, pc_RetryBackoffBase = 0, pc_MaxConcurrentQueries = 1\<rparr>
      (\<lambda>_ _. Inr (Vector [])) rev rev rev [''a'', ''b''] False = Inr (cache, w')"
proof -
  let ?cfg = "\<lparr>pc_MaxQueryRetries = 1, pc_RetryBackoffBase = 0, pc_MaxConcurrentQueries = 1\<rparr>"
  let ?prom = "\<lambda>(_ :: string) (_ :: nat). Inr (Vector []) :: string + prom_value"
  have q: "fst (ExecuteQueryWithRetry ?cfg ?prom q i) = Inr (Vector [])" for q i
    by (simp add: ExecuteQueryWithRetry_def)
  have "\<not> isl (fetchStatsForNamespace ?cfg ?prom (\<lambda>xs. xs) (\<lambda>xs. xs) ns False)" for ns
    by (simp add: fetchStatsForNamespace_def executeQueriesInParallel_def q namespace_requests_def)
  then have "\<not> isl (FetchStatsForNamespaces ?cfg ?prom (\<lambda>xs. xs) (\<lambda>xs. xs) (\<lambda>xs. xs) [''a'', ''b''] False)"
    unfolding FetchStatsForNamespaces_def by (subst collect_namespaces_ok) (simp_all add: all_ok_def)
  moreover have "distinct [''a'', ''b'']" by simp
  note det = fetch_deterministic [of "\<lambda>xs. xs" rev "\<lambda>xs. xs" rev "\<lambda>xs. xs" rev, OF refl mset_rev refl mset_rev refl mset_rev this]
  ultimately show ?thesis using det [of ?cfg ?prom False] by (metis isl_def)
qed

end
