(* ===== verification/ApplyRun.thy ===== *)
theory ApplyRun
  imports ApplyTask StorageSpec Versions Promql
begin

text \<open>
  A run of the apply task, \<^verbatim>\<open>Run\<close> of \<^verbatim>\<open>pkg/task/taskapplyrecommendation.go\<close>: the check of the
  cluster's version, the collection of nodes, pods and stored statistics, the overrides read from
  the store, the strategy with its writes, and the snapshot saved at the end. The node map is ranged
  over more than once; \<open>au_order i\<close> is the order of the \<open>i\<close>th time.
\<close>

section \<open>The environment\<close>

datatype apply_error = ApplyApi api_error | ApplyStore string store_error | ApplyService string

record ApplyRunEnv =
  au_cfg :: ApplyConfig
  au_NodeStatsHost :: string
  au_service :: "string + WorkloadStat list"
  au_version :: "nat \<Rightarrow> (api_error + string) option"
  au_reads :: KubeReads
  au_late_reads :: KubeReads
  au_rows :: row_sorter
  au_sort :: sorter
  au_order :: "nat \<Rightarrow> (string \<times> NodeResourceInfo) list \<Rightarrow> (string \<times> NodeResourceInfo) list"
  au_writes :: ApplyEnv
  au_prom :: "(string \<Rightarrow> string + prom_value) option"
  au_now :: go_time
  au_snapshot_time :: go_time
  au_stats_faults :: faults
  au_workload_faults :: faults
  au_save_faults :: faults
  au_snapshot_faults :: faults

definition cluster_id :: "ApplyRunEnv \<Rightarrow> string" where
  "cluster_id env = ap_ClusterID (au_cfg env)"

section \<open>The nodes with their pods\<close>

definition LoadStatsFromClusterStorage ::
    "row_sorter \<Rightarrow> faults \<Rightarrow> string \<Rightarrow> Database \<Rightarrow> store_error + WorkloadStat list" where
  "LoadStatsFromClusterStorage srt fault clusterID db =
     wrap_result ''failed to read cluster stats: '' (ReadClusterStats srt fault clusterID db)"

definition stats_map :: "WorkloadStat list \<Rightarrow> string \<rightharpoonup> WorkloadStat" where
  "stats_map stats = foldl (\<lambda>m rec. m(ws_WorkloadIdentifier rec \<mapsto> rec)) Map.empty stats"

definition load_stats :: "ApplyRunEnv \<Rightarrow> Database \<Rightarrow> apply_error + WorkloadStat list" where
  "load_stats env db =
     (if au_NodeStatsHost env \<noteq> ''''
      then case au_service env of
             Inl e \<Rightarrow> Inl (ApplyService (''failed to load stats from client: '' @ e))
           | Inr stats \<Rightarrow> Inr stats
      else case LoadStatsFromClusterStorage (au_rows env) (au_stats_faults env) (cluster_id env) db of
             Inl e \<Rightarrow> Inl (ApplyStore ''failed to load stats from storage: '' e)
           | Inr stats \<Rightarrow> Inr stats)"

definition GenerateNodeStatsForCluster ::
    "ApplyRunEnv \<Rightarrow> Database \<Rightarrow> apply_error + (string \<times> NodeResourceInfo) list" where
  "GenerateNodeStatsForCluster env db =
     (case BuildPodToWorkloadMapping (au_reads env) '''' of
        Inl e \<Rightarrow> Inl (ApplyApi (wrap ''failed to build pod-to-workload mapping: '' e))
      | Inr (podToWorkloadMap, allPods) \<Rightarrow>
          (case load_stats env db of
             Inl e \<Rightarrow> Inl e
           | Inr stats \<Rightarrow>
               (case CreateNodeStatsMapping (kr_Nodes (au_reads env))
                       (CreatePodToStatsMapping podToWorkloadMap (stats_map stats))
                       (map_of podToWorkloadMap) allPods of
                  Inl e \<Rightarrow> Inl (ApplyApi (wrap ''failed to create node stats mapping: '' e))
                | Inr nodeMap \<Rightarrow> Inr nodeMap)))"

section \<open>The snapshot\<close>

definition isNodeReady :: "Node \<Rightarrow> bool" where
  "isNodeReady node =
     (case find (\<lambda>c. nc_Type c = ''Ready'') (n_Conditions node) of
        None \<Rightarrow> False
      | Some c \<Rightarrow> nc_Status c = ''True'')"

definition countNodeHealth :: "KubeReads \<Rightarrow> int \<times> int" where
  "countNodeHealth kr =
     (case kr_Nodes kr of
        Inl e \<Rightarrow> (0, 0)
      | Inr items \<Rightarrow> foldl (\<lambda>(healthy, unhealthy) node.
          if isNodeReady node then (healthy + 1, unhealthy) else (healthy, unhealthy + 1)) (0, 0) items)"

definition count_phase :: "(string \<times> int) list \<Rightarrow> Pod \<Rightarrow> (string \<times> int) list" where
  "count_phase counts pod =
     (let phase = (if p_Phase pod = '''' then ''Unknown'' else p_Phase pod);
          n = (case map_of counts phase of None \<Rightarrow> 0 | Some n \<Rightarrow> n)
      in AList.update phase (n + 1) counts)"

definition countPodsByStatus :: "KubeReads \<Rightarrow> string \<Rightarrow> (string \<times> int) list" where
  "countPodsByStatus kr targetNamespace =
     (case kr_Pods kr targetNamespace of
        Inl e \<Rightarrow> []
      | Inr items \<Rightarrow> foldl count_phase [] items)"

text \<open>What the pods of a node request by the original resources of their workloads.\<close>

definition workload_requests :: "NodeResourceInfo \<Rightarrow> float64 \<times> float64 \<Rightarrow> float64 \<times> float64" where
  "workload_requests ni acc =
     foldl (\<lambda>(cpu, memory) pod. case pi_Stats pod of
         None \<Rightarrow> (fadd cpu (pi_RequestedCPU pod), fadd memory (pi_RequestedMemory pod))
       | Some stats \<Rightarrow> (fadd cpu (CalculateTotalCPURequest stats), fadd memory (CalculateTotalMemoryRequest stats)))
       acc (nr_Pods ni)"

definition sum_nodes :: "(NodeResourceInfo \<Rightarrow> float64) \<Rightarrow> (string \<times> NodeResourceInfo) list \<Rightarrow> float64" where
  "sum_nodes f nodes = foldl (\<lambda>s (name, ni). fadd s (f ni)) (lit 0) nodes"

definition sum_recs ::
    "(PodContainerRecommendation \<Rightarrow> float64) \<Rightarrow> PodContainerRecommendation list \<Rightarrow> float64" where
  "sum_recs f recs = foldl (\<lambda>s rec. fadd s (f rec)) (lit 0) recs"

text \<open>Memory is in MB and stored in GB; the utilised memory is in GB already.\<close>

definition buildAndSaveSnapshot ::
    "ApplyRunEnv \<Rightarrow> (string \<times> NodeResourceInfo) list \<Rightarrow> RecommendationResult list \<Rightarrow> Database
     \<Rightarrow> apply_error option \<times> Database" where
  "buildAndSaveSnapshot env nodeRecommendationMap recommendationResults db =
     (let (workloadCPU, workloadMemory) =
            foldl (\<lambda>s (name, ni). workload_requests ni s) (lit 0, lit 0) nodeRecommendationMap;
          utilizedCPU = QueryAndParsePrometheusScalar (au_prom env) BuildClusterCPUUtilizationExpression;
          utilizedMemory = QueryAndParsePrometheusScalar (au_prom env) BuildClusterMemoryUtilizationExpression;
          recs = concat (map rr_PodContainerRecommendations recommendationResults);
          gb = (\<lambda>x. fdiv x (lit 1000));
          cpu = \<lparr>sm_CurrentAllocatable = sum_nodes nr_AllocatableCPU nodeRecommendationMap,
                 sm_CurrentRequested = sum_nodes nr_RequestedCPU nodeRecommendationMap,
                 sm_CurrentUtilized = utilizedCPU, sm_WorkloadRequested = workloadCPU,
                 sm_RecommendedRequested = sum_recs pr_CPU recs\<rparr>;
          memory = \<lparr>sm_CurrentAllocatable = gb (sum_nodes nr_AllocatableMemory nodeRecommendationMap),
                 sm_CurrentRequested = gb (sum_nodes nr_RequestedMemory nodeRecommendationMap),
                 sm_CurrentUtilized = utilizedMemory, sm_WorkloadRequested = gb workloadMemory,
                 sm_RecommendedRequested = gb (sum_recs pr_Memory recs)\<rparr>
      in if feq utilizedCPU (lit 0) \<or> feq utilizedMemory (lit 0) then (None, db)
         else if length recs = 0 then (None, db)
         else let (healthy, unhealthy) = countNodeHealth (au_late_reads env);
                  podsCount = countPodsByStatus (au_late_reads env) (ap_TargetNamespace (au_cfg env))
              in case InsertSnapshot (au_snapshot_time env) (au_snapshot_faults env)
                        (Some (cluster_id env, \<lparr>sd_CPU = cpu, sd_Memory = memory,
                          sd_Nodes = \<lparr>sn_Healthy = healthy, sn_Unhealthy = unhealthy\<rparr>,
                          sd_PodsCount = podsCount\<rparr>)) db of
                   (Some e, db) \<Rightarrow> (Some (ApplyStore ''insert node snapshot: failed to insert node snapshot: '' e), db)
                 | (None, db) \<Rightarrow> (None, db))"

section \<open>The run\<close>

definition save_rows ::
    "ApplyRunEnv \<Rightarrow> PodResourceRecommendationRow list \<Rightarrow> Database \<Rightarrow> store_error option \<times> Database" where
  "save_rows env rows db = SavePodRecommendations (au_save_faults env) (cluster_id env) (Some rows) db"

definition save_reply :: "ApplyRunEnv \<Rightarrow> Database \<Rightarrow> PodResourceRecommendationRow list \<Rightarrow> api_error option" where
  "save_reply env db rows =
     map_option (\<lambda>e. Other (''failed to save pod recommendations: '' @ store_message e)) (fst (save_rows env rows db))"

text \<open>Everything after the check of the version. Rows that fail to be saved leave the store as it was,
  as they are written in one transaction.\<close>

definition apply_run_body ::
    "ApplyRunEnv \<Rightarrow> bool \<Rightarrow> (string \<times> NodeResourceInfo) list \<Rightarrow> WorkloadInCluster list \<Rightarrow> Database
     \<Rightarrow> ((apply_error option \<times> Database) \<times> trace) panics" where
  "apply_run_body env supportsMemoryLimitReduction nodeRecommendationMap workloads db = do {
     (r, tr) \<leftarrow> ApplyRecommendationsWithStrategy (au_now env) (au_sort env)
       ((au_writes env)\<lparr>en_supportsMemoryReduction := supportsMemoryLimitReduction\<rparr>) (save_reply env db) (au_cfg env)
       (au_order env 0 nodeRecommendationMap) (overrides_loop workloads Map.empty) False;
     Some (case r of
             Inl e \<Rightarrow> ((Some (ApplyApi e), db), tr)
           | Inr (toApply, toSave) \<Rightarrow>
               (buildAndSaveSnapshot env (au_order env 1 nodeRecommendationMap) toSave
                  (snd (save_rows env (buildPodRecommendationRows toSave) db)), tr)) }"

definition ApplyRecommendation_Run ::
    "ApplyRunEnv \<Rightarrow> version_cache \<Rightarrow> Database
     \<Rightarrow> ((apply_error option \<times> version_cache \<times> Database) \<times> trace) panics" where
  "ApplyRecommendation_Run env cache db =
     (let (above, cache) = CheckIfClusterVersionAbove cache (cluster_id env) (au_version env 0) 1 33
      in if \<not> above then Some ((None, cache, db), [])
         else case GenerateNodeStatsForCluster env db of
           Inl e \<Rightarrow> Some ((Some e, cache, db), [])
         | Inr nodeRecommendationMap \<Rightarrow>
             (case GetWorkloads (au_rows env) (au_workload_faults env) (cluster_id env) db of
                Inl e \<Rightarrow> Some ((Some (ApplyStore ''failed to get workloads from storage: '' e), cache, db), [])
              | Inr workloads \<Rightarrow>
                  let (supports, cache) = CheckIfClusterVersionAbove cache (cluster_id env) (au_version env 1) 1 34
                  in map_option (\<lambda>((e, db), tr). ((e, cache, db), tr))
                       (apply_run_body env supports nodeRecommendationMap workloads db)))"


section \<open>Where recommendations come from\<close>

lemma OptimizeNode_rec_pods:
  assumes "OptimizeNode srt ov data = Some res" "go_sort srt" "rec \<in> set (op_PodContainerRecommendations res)"
  shows "pr_PodInfo rec \<in> set (nd_PodInfos data)"
proof -
  obtain ev kept ms where split: "mset (nd_PodInfos data) = mset ev + mset kept"
    and recs: "op_PodContainerRecommendations res = concat (map recs_of_pod ev) @ distribute ms"
    and ms: "collect_metrics kept = Some ms"
    using OptimizeNode_SomeE [OF assms(1,2)] by metis
  have "pr_PodInfo x \<in> set kept" if "x \<in> set (distribute ms)" for x
    using that collect_metrics_SomeD [OF ms] by (fastforce simp: distribute_def elim: container_metric_SomeD)
  moreover have "pr_PodInfo x \<in> set ev" if "x \<in> set (concat (map recs_of_pod ev))" for x
    using that recs_of_pod_mem by fastforce
  moreover have "set (nd_PodInfos data) = set ev \<union> set kept"
    using split by (metis set_mset_mset set_mset_union)
  ultimately show ?thesis using assms(3) unfolding recs by auto
qed

lemma default_rec_pods: "rec \<in> set (default_recs pods) \<Longrightarrow> pr_PodInfo rec \<in> set pods"
  by (auto simp: default_recs_def)

lemma excluded_container_rec_pods:
  "excluded_container_recs p st cs = Some rs \<Longrightarrow> rec \<in> set rs \<Longrightarrow> pr_PodInfo rec = p"
  by (induction cs arbitrary: rs) (auto simp: bind_eq_Some_conv split: option.splits prod.splits)

lemma excluded_rec_pods: "excluded_recs pods = Some rs \<Longrightarrow> rec \<in> set rs \<Longrightarrow> pr_PodInfo rec \<in> set pods"
proof (induction pods arbitrary: rs)
  case (Cons p ps)
  obtain r1 r2 where r: "excluded_recs ps = Some r2" "rs = r1 @ r2"
    "(if pi_ContainerResources p = [] then Some []
      else do { stats \<leftarrow> pi_Stats p; excluded_container_recs p stats (pi_ContainerResources p) }) = Some r1"
    using Cons.prems(1) by (auto simp: bind_eq_Some_conv)
  have "pr_PodInfo rec = p" if "rec \<in> set r1"
    using r(3) that excluded_container_rec_pods by (auto simp: bind_eq_Some_conv split: if_splits)
  then show ?case using Cons.IH [OF r(1)] Cons.prems(2) r(2) by auto
qed simp

lemma node_rec_pods:
  assumes "node_results now srt cfg ov (name, info) = Some (s, a)" "go_sort srt"
    and "rec \<in> set (rr_PodContainerRecommendations a)"
  shows "pr_PodInfo rec \<in> set (nr_Pods info)"
  using assms(1)
proof (cases rule: node_results_SomeE)
  case (1 excl resA)
  have "pr_PodInfo rec \<in> set (nr_Pods info)" if "rec \<in> set (op_PodContainerRecommendations resA)"
    using 1(5) OptimizeNode_rec_pods [OF _ assms(2) that] by fastforce
  then show ?thesis using assms(3) 1(6) default_rec_pods excluded_rec_pods [OF 1(4)] by fastforce
qed

section \<open>Overrides come from the store\<close>

lemma overrides_loop_from:
  "overrides_loop ws m k = Some i \<Longrightarrow> m k = Some i \<or>
     (\<exists>w \<in> set ws. \<exists>stat. wk_WorkloadID w = k \<and> wk_Stat w = Some stat \<and> \<not> IsGPUWorkload stat \<and>
        oi_Overrides i = Some (OverridesWithDefaults w))"
proof (induction ws arbitrary: m)
  case (Cons w ws)
  show ?case
  proof (cases "\<exists>stat. wk_Stat w = Some stat \<and> \<not> IsGPUWorkload stat")
    case True
    then show ?thesis using Cons.prems Cons.IH by (fastforce split: if_splits)
  next
    case False
    then have "overrides_loop ws m k = Some i" using Cons.prems by (auto split: option.splits if_splits)
    from Cons.IH [OF this] show ?thesis by auto
  qed
qed simp

lemma row_workloads_from:
  "row_workloads c rows = Inr ws \<Longrightarrow> w \<in> set ws \<Longrightarrow> \<exists>r \<in> set rows. row_workload c r = Inr w"
  by (induction rows arbitrary: ws) (fastforce split: sum.splits)+

text \<open>A stored workload that the task takes as enabled for application.\<close>

definition enabled_in_store :: "Database \<Rightarrow> string \<Rightarrow> string \<Rightarrow> bool" where
  "enabled_in_store db c w \<longleftrightarrow>
     (\<exists>row ov stat. workload_at db c w = Some row \<and> row_overrides row = Some (Some ov) \<and> ov_Enabled ov = Some True \<and>
        row_stat row = Some stat \<and> \<not> IsGPUWorkload stat)"

lemma enabled_from_store:
  assumes "db_ok db" "c \<noteq> []" "\<And>f rows. mset (srt f rows) = mset rows"
    and "GetWorkloads srt fault c db = Inr ws" "info_EffectiveEnabled (overrides_loop ws Map.empty k)"
  shows "enabled_in_store db c k"
proof -
  let ?rows = "filter (where_ids c []) (db_workloads db)"
  have rws: "row_workloads c (latest_first srt ?rows) = Inr ws"
    using assms(4) by (auto simp: GetWorkloads_def wrap_result_def GetWorkloadsInCluster_def split: sum.splits option.splits)
  obtain i where i: "overrides_loop ws Map.empty k = Some i" "info_EffectiveEnabled (Some i)"
    using assms(5) by (cases "overrides_loop ws Map.empty k") (auto simp: info_EffectiveEnabled_def)
  obtain w stat where w: "w \<in> set ws" "wk_WorkloadID w = k" "wk_Stat w = Some stat" "\<not> IsGPUWorkload stat"
    "oi_Overrides i = Some (OverridesWithDefaults w)" using overrides_loop_from [OF i(1)] by auto
  obtain r where r: "r \<in> set (latest_first srt ?rows)" "row_workload c r = Inr w"
    using row_workloads_from [OF rws w(1)] by blast
  have "set (latest_first srt ?rows) = set ?rows"
    unfolding latest_first_def by (rule mset_eq_setD [OF assms(3)])
  then have r': "r \<in> set (db_workloads db)" "wr_ClusterID r = c" using r(1) assms(2) by (auto simp: where_ids_def)
  have row: "row_stat r = Some stat" "row_overrides r = Some (wk_Overrides w)" "wr_WorkloadID r = k"
    using r(2) w(2,3) by (auto simp: row_workload_def split: option.splits)
  have "EffectiveEnabled w" using i(2) w(5) by (simp add: info_EffectiveEnabled_def EffectiveEnabled_def)
  then obtain ov where ov: "wk_Overrides w = Some ov" "ov_Enabled ov = Some True" by (auto simp: EffectiveEnabled_iff)
  have "row_key r = (c, k)" using r'(2) row(3) by (simp add: row_key_def)
  then have "workload_at db c k = Some r"
    using find_unique [of row_key "db_workloads db" r] assms(1) r'(1) by (simp add: workload_at_def db_ok_def)
  then show ?thesis using ov row w(4) by (auto simp: enabled_in_store_def)
qed


section \<open>What a run leaves behind\<close>

lemma snapshot_workloads: "db_workloads (snd (buildAndSaveSnapshot env nodes results db)) = db_workloads db"
  by (auto simp: buildAndSaveSnapshot_def Let_def InsertSnapshot_def split: prod.splits option.splits)

lemma save_rows_workloads: "db_workloads (snd (save_rows env rows db)) = db_workloads db"
  by (auto simp: save_rows_def SavePodRecommendations_def split: option.splits)

lemma apply_run_bodyE:
  assumes "apply_run_body env supports nodes ws db = Some ((err, db'), tr)"
  obtains (failed) "tr = []" "db' = db"
  | (complete) toApply toSave where "ApplyRecommendationsWithStrategy (au_now env) (au_sort env)
       ((au_writes env)\<lparr>en_supportsMemoryReduction := supports\<rparr>) (save_reply env db) (au_cfg env)
       (au_order env 0 nodes) (overrides_loop ws Map.empty) False = Some (Inr (toApply, toSave), tr)"
      "db_workloads db' = db_workloads db"
proof -
  obtain x where x: "ApplyRecommendationsWithStrategy (au_now env) (au_sort env)
       ((au_writes env)\<lparr>en_supportsMemoryReduction := supports\<rparr>) (save_reply env db) (au_cfg env)
       (au_order env 0 nodes) (overrides_loop ws Map.empty) False = Some x"
    "(case x of (r, tr) \<Rightarrow> Some (case r of Inl e \<Rightarrow> ((Some (ApplyApi e), db), tr)
             | Inr (toApply, toSave) \<Rightarrow> (buildAndSaveSnapshot env (au_order env 1 nodes) toSave
                  (snd (save_rows env (buildPodRecommendationRows toSave) db)), tr))) = Some ((err, db'), tr)"
    using assms unfolding apply_run_body_def bind_eq_Some_conv by blast
  then obtain r where run: "ApplyRecommendationsWithStrategy (au_now env) (au_sort env)
       ((au_writes env)\<lparr>en_supportsMemoryReduction := supports\<rparr>) (save_reply env db) (au_cfg env)
       (au_order env 0 nodes) (overrides_loop ws Map.empty) False = Some (r, tr)"
    and rest: "(case r of Inl e \<Rightarrow> (Some (ApplyApi e), db)
             | Inr (toApply, toSave) \<Rightarrow> buildAndSaveSnapshot env (au_order env 1 nodes) toSave
                  (snd (save_rows env (buildPodRecommendationRows toSave) db))) = (err, db')"
    by (cases x; cases "fst x") (auto simp del: One_nat_def)
  show thesis
  proof (cases r)
    case (Inl e)
    then have "tr = []" "db' = db" using run rest
      by (auto simp: ApplyRecommendationsWithStrategy_def bind_eq_Some_conv split: option.splits)
    then show ?thesis by (rule failed)
  next
    case (Inr b)
    obtain toApply toSave where b: "b = (toApply, toSave)" by fastforce
    have "db' = snd (buildAndSaveSnapshot env (au_order env 1 nodes) toSave
        (snd (save_rows env (buildPodRecommendationRows toSave) db)))" using rest Inr b by simp
    then have "db_workloads db' = db_workloads db" by (simp only: snapshot_workloads save_rows_workloads)
    then show ?thesis using complete run Inr b by blast
  qed
qed

definition above_version :: "version_cache \<Rightarrow> string \<Rightarrow> int \<Rightarrow> int \<Rightarrow> bool" where
  "above_version cache c targetMajor targetMinor \<longleftrightarrow>
     (\<exists>major minor. cache c = Some (major, minor) \<and> isVersionAtLeast major minor targetMajor targetMinor)"

lemma version_check_true:
  assumes "CheckIfClusterVersionAbove cache c client tM tm = (True, cache')"
  shows "above_version cache' c tM tm"
  using assms by (auto simp: CheckIfClusterVersionAbove_def above_version_def split: option.splits sum.splits)

lemma version_check_keeps:
  assumes "CheckIfClusterVersionAbove cache c client tM tm = (b, cache')" "above_version cache c M m"
  shows "above_version cache' c M m"
  using version_check_cases [OF assms(1)] assms(2) by (auto simp: above_version_def)

lemma apply_runE:
  assumes "ApplyRecommendation_Run env cache db = Some ((err, cache', db'), tr)"
  obtains (nothing) "tr = []" "db' = db"
  | (ran) supports nodes ws where "above_version cache' (cluster_id env) 1 33"
      "supports \<longrightarrow> above_version cache' (cluster_id env) 1 34"
      "GenerateNodeStatsForCluster env db = Inr nodes"
      "GetWorkloads (au_rows env) (au_workload_faults env) (cluster_id env) db = Inr ws"
      "apply_run_body env supports nodes ws db = Some ((err, db'), tr)"
proof -
  obtain above cache1 where v: "CheckIfClusterVersionAbove cache (cluster_id env) (au_version env 0) 1 33 = (above, cache1)"
    by fastforce
  obtain supports cache2 where v2: "CheckIfClusterVersionAbove cache1 (cluster_id env) (au_version env 1) 1 34 = (supports, cache2)"
    by fastforce
  show thesis
  proof (cases "above \<and> (\<exists>nodes ws. GenerateNodeStatsForCluster env db = Inr nodes \<and>
      GetWorkloads (au_rows env) (au_workload_faults env) (cluster_id env) db = Inr ws)")
    case False
    then have "tr = []" "db' = db" using assms
      by (auto simp: ApplyRecommendation_Run_def v split: if_splits sum.splits)
    then show ?thesis by (rule nothing)
  next
    case True
    then obtain nodes ws where g: "above" "GenerateNodeStatsForCluster env db = Inr nodes"
      "GetWorkloads (au_rows env) (au_workload_faults env) (cluster_id env) db = Inr ws" by blast
    have "cache' = cache2" "apply_run_body env supports nodes ws db = Some ((err, db'), tr)"
      using assms g by (auto simp: ApplyRecommendation_Run_def v v2 simp del: One_nat_def)
    moreover have "above_version cache2 (cluster_id env) 1 33"
      using version_check_keeps [OF v2 version_check_true] v g(1) by simp
    moreover have "supports \<longrightarrow> above_version cache2 (cluster_id env) 1 34" using version_check_true v2 by (cases supports) simp_all
    ultimately show ?thesis using ran g by blast
  qed
qed

section \<open>Properties\<close>

text \<open>C2. A run of the apply task evicts and resizes only pods that it finds on a node of the cluster when
  it acts, and only when their workload has a row in the store with its overrides set to enabled, is
  no GPU workload, and the cluster is known to run at least version 1.33. It changes the statistics
  and overrides of no workload. The store is any whose keys are unique, as they are in every
  reachable one.\<close>

theorem apply_run_safe:
  assumes "db_ok db" "cluster_id env \<noteq> []" "go_sort (au_sort env)"
    and "\<And>f rows. mset (au_rows env f rows) = mset rows" "\<And>i m. mset (au_order env i m) = mset m"
    and "ApplyRecommendation_Run env cache db = Some ((err, cache', db'), tr)"
  shows "db_workloads db' = db_workloads db \<and>
    (\<forall>a \<in> set tr. \<not> (\<exists>ev. a = ActAudit ev) \<longrightarrow>
       above_version cache' (cluster_id env) 1 33 \<and>
       (\<exists>nodes name info p fresh pod.
          GenerateNodeStatsForCluster env db = Inr nodes \<and> (name, info) \<in> set nodes \<and> p \<in> set (nr_Pods info) \<and>
          en_podsOnNode (au_writes env) name = Inr fresh \<and> pod \<in> set fresh \<and>
          GetPodKey (pi_Namespace p) (pi_Name p) = GetPodKey (p_Namespace pod) (p_Name pod) \<and>
          enabled_in_store db (cluster_id env) (GetWorkloadKey (pi_WorkloadKind p) (pi_Namespace p) (pi_WorkloadName p)) \<and>
          (a = ActEvict (p_Namespace pod) (p_Name pod) \<or>
           (\<exists>q. a = ActResize q \<and> rp_Namespace q = p_Namespace pod \<and> rp_Pod q = p_Name pod))))"
  using assms(6)
proof (cases rule: apply_runE)
  case (ran supports nodes ws)
  from ran(5) show ?thesis
  proof (cases rule: apply_run_bodyE)
    case (complete toApply toSave)
    have "\<exists>name info p fresh pod. (name, info) \<in> set nodes \<and> p \<in> set (nr_Pods info) \<and>
          en_podsOnNode (au_writes env) name = Inr fresh \<and> pod \<in> set fresh \<and>
          GetPodKey (pi_Namespace p) (pi_Name p) = GetPodKey (p_Namespace pod) (p_Name pod) \<and>
          enabled_in_store db (cluster_id env) (GetWorkloadKey (pi_WorkloadKind p) (pi_Namespace p) (pi_WorkloadName p)) \<and>
          (a = ActEvict (p_Namespace pod) (p_Name pod) \<or>
           (\<exists>q. a = ActResize q \<and> rp_Namespace q = p_Namespace pod \<and> rp_Pod q = p_Name pod))"
      if a: "a \<in> set tr" "\<not> (\<exists>ev. a = ActAudit ev)" for a
      using complete(1) a(1)
    proof (cases rule: run_action_cause)
      case (1 name info s res pods rec name' info' opt st ids)
      obtain pod where pod: "pods (GetPodKey (pi_Namespace (pr_PodInfo rec)) (pi_Name (pr_PodInfo rec))) = Some pod"
        and act: "a = ActEvict (p_Namespace pod) (p_Name pod) \<or>
          (\<exists>q. a = ActResize q \<and> rp_Namespace q = p_Namespace pod \<and> rp_Pod q = p_Name pod)"
        using 1(5) a(2) by (auto simp: caused_by_def resize_for_def)
      have "info_EffectiveEnabled (overrides_loop ws Map.empty (rec_workload_key rec))"
        using 1(8,9,10) by (auto simp: applies_def ShouldApply_iff)
      then have "enabled_in_store db (cluster_id env) (rec_workload_key rec)"
        by (rule enabled_from_store [OF assms(1,2,4) ran(4)])
      moreover have "(name, info) \<in> set nodes" using 1(1) mset_eq_setD [OF assms(5)] by blast
      moreover have "pr_PodInfo rec \<in> set (nr_Pods info)" using node_rec_pods [OF 1(2) assms(3) 1(3)] .
      ultimately show ?thesis
        using fresh_pod_lookup [OF 1(4) pod] act unfolding rec_workload_key_def by fastforce
    qed
    then show ?thesis using complete(2) ran(1,3) by blast
  qed simp
qed simp


section \<open>A sample run\<close>

text \<open>A node with one pod of a stored, enabled workload. The version of the pod listed at the start has no
  memory limit yet.\<close>

definition sample_listed_pod :: Pod where
  "sample_listed_pod = sample_pod\<lparr>p_Containers := [\<lparr>c_Name = ''app'', c_Requests = Some [(''cpu'', sample_quantity 3 3000),
      (''memory'', sample_quantity 300000000 300000000000)], c_Limits = None, c_RestartPolicy = None\<rparr>]\<rparr>"

definition sample_listed_node :: Node where
  "sample_listed_node = \<lparr>n_Name = ''node-1'', n_Allocatable = [(''cpu'', sample_quantity 8 8000),
      (''memory'', sample_quantity 8000000000 8000000000000)], n_Taints = [], n_Conditions = []\<rparr>"

definition sample_object :: AppsObject where
  "sample_object = \<lparr>ao_Namespace = ''ns'', ao_Name = ''web'', ao_CreationTime = 0, ao_Selector = Some (Some (\<lambda>l. True)),
     ao_Template = \<lparr>pt_Labels = Map.empty, pt_Annotations = Map.empty, pt_Containers = [], pt_InitContainers = [],
       pt_Volumes = [], pt_Affinity = None, pt_TopologyKeys = []\<rparr>,
     ao_SpecReplicas = Some 1, ao_DesiredNumberScheduled = 0\<rparr>"

definition sample_cluster_reads :: KubeReads where
  "sample_cluster_reads = \<lparr>kr_Deployments = (\<lambda>ns. Inr [sample_object]), kr_StatefulSets = (\<lambda>ns. Inr []),
     kr_DaemonSets = (\<lambda>ns. Inr []), kr_getDeployment = (\<lambda>ns n. Inr sample_object),
     kr_getStatefulSet = (\<lambda>ns n. Inl (NotFound [])), kr_getDaemonSet = (\<lambda>ns n. Inl (NotFound [])),
     kr_Pods = (\<lambda>ns. Inr [sample_listed_pod]), kr_PodsBySelector = (\<lambda>ns s. Inr []),
     kr_PDBs = (\<lambda>ns. Inr []), kr_getPDB = (\<lambda>ns n. Inl (NotFound [])),
     kr_Nodes = Inr [sample_listed_node], kr_getNode = (\<lambda>n. Inl (NotFound [])), kr_HPAs = (\<lambda>ns. Inr [])\<rparr>"

definition sample_run_env :: ApplyRunEnv where
  "sample_run_env = \<lparr>au_cfg = sample_config, au_NodeStatsHost = ''stats'', au_service = Inr [sample_stat ''web'' 1 100],
     au_version = (\<lambda>i. Some (Inr ''v1.33.2-gke.1'')), au_reads = sample_cluster_reads, au_late_reads = sample_cluster_reads,
     au_rows = (\<lambda>f rows. rows), au_sort = insertion_sort, au_order = (\<lambda>i m. m), au_writes = sample_env, au_prom = None,
     au_now = 0, au_snapshot_time = 0, au_stats_faults = (\<lambda>_. None), au_workload_faults = (\<lambda>_. None),
     au_save_faults = (\<lambda>_. None), au_snapshot_faults = (\<lambda>_. None)\<rparr>"

lemma sample_nodes: "GenerateNodeStatsForCluster sample_run_env db = Inr [(''node-1'', sample_node_info)]"
proof -
  let ?k = "GetWorkloadKey ''Deployment'' ''ns'' ''web''"
  have m: "BuildPodToWorkloadMapping sample_cluster_reads [] =
      Inr ([((''ns'', ''web''), \<lparr>wi_Kind = ''Deployment'', wi_Namespace = ''ns'', wi_Name = ''web''\<rparr>)], [sample_listed_pod])"
    by (simp add: BuildPodToWorkloadMapping_def getScheduledPodsAcrossNamespaces_def sample_cluster_reads_def
        sample_listed_pod_def sample_pod_def PodRunning_def ListAllWorkloadsWithSelectors_def entries_of_def
        sample_object_def LabelSelectorAsSelector_def DeploymentKind_def)
  have s: "stats_map [sample_stat ''web'' 1 100] = [?k \<mapsto> sample_stat ''web'' 1 100]"
    by (simp add: stats_map_def sample_stat_def)
  have p: "BuildPodInfoFromPod sample_listed_pod (Some \<lparr>wi_Kind = ''Deployment'', wi_Namespace = ''ns'', wi_Name = ''web''\<rparr>)
      (Some (sample_stat ''web'' 1 100)) = sample_web"
    by (simp add: BuildPodInfoFromPod_def sample_listed_pod_def sample_pod_def sample_pod_info_def Let_def
        getCurrentContainerResources_def opt_amount_def rl_get_def cores_def megabytes_def sample_quantity_def
        getCurrentPodCPU_def getCurrentPodMemory_def getCurrentPodCPULimit_def getCurrentPodMemoryLimit_def
        ResourceCPU_def ResourceMemory_def f64_eval)
  have n: "\<not> node_has_gpu sample_listed_node" by (simp add: node_has_gpu_def sample_listed_node_def)
  have i: "node_info [(''ns'', ''web'') \<mapsto> sample_stat ''web'' 1 100]
      [(''ns'', ''web'') \<mapsto> \<lparr>wi_Kind = ''Deployment'', wi_Namespace = ''ns'', wi_Name = ''web''\<rparr>]
      [sample_listed_pod] sample_listed_node = sample_node_info"
    using p by (simp add: node_info_def node_pod_step_eq sample_listed_node_def sample_listed_pod_def sample_pod_def
        Let_def sample_node_info_def rl_val_def cores_def megabytes_def sample_quantity_def ResourceCPU_def
        ResourceMemory_def getCurrentPodCPU_def getCurrentPodMemory_def rl_get_def f64_eval)
  have e: "au_reads sample_run_env = sample_cluster_reads" "load_stats sample_run_env db = Inr [sample_stat ''web'' 1 100]"
    "kr_Nodes sample_cluster_reads = Inr [sample_listed_node]" "n_Name sample_listed_node = ''node-1''"
    by (simp_all add: sample_run_env_def load_stats_def sample_cluster_reads_def sample_listed_node_def)
  show ?thesis by (simp add: GenerateNodeStatsForCluster_def e m s CreateNodeStatsMapping_def n i)
qed


definition sample_enabled :: Overrides where
  "sample_enabled = \<lparr>ov_EvictionRanking = None, ov_Enabled = Some True, ov_DisruptionWindows = []\<rparr>"

definition sample_stored_row :: "json \<Rightarrow> json \<Rightarrow> WorkloadRow" where
  "sample_stored_row stats overrides = \<lparr>wr_ID = 1, wr_ClusterID = ''c'',
     wr_WorkloadID = GetWorkloadKey ''Deployment'' ''ns'' ''web'', wr_Stats = stats, wr_GeneratedAt = 0,
     wr_CreatedAt = 0, wr_UpdatedAt = 0, wr_Overrides = Some overrides\<rparr>"

definition sample_store :: "json \<Rightarrow> json \<Rightarrow> Database" where
  "sample_store stats overrides = empty_db\<lparr>db_workloads := [sample_stored_row stats overrides], db_nextID := 2\<rparr>"

lemma sample_store_ok: "db_ok (sample_store stats overrides)"
  by (simp add: db_ok_def sample_store_def sample_stored_row_def empty_db_def row_key_def)

lemma sample_json:
  obtains js jo where "dec_WorkloadStat js = Some (sample_stat ''web'' 1 100)" "dec_Overrides jo = Some sample_enabled"
    "jo \<noteq> JObj []"
proof -
  have t: "enc_time 0 = Some (JTime 0)" by code_simp
  have "enc_WorkloadStat (sample_stat ''web'' 1 100) \<noteq> None"
    by (simp add: sample_defs enc_WorkloadStat_def enc_WorkloadConstraints_def enc_ContainerStats_def fld_def omitempty_def
        enc_ptr_def enc_list_def enc_string_def enc_bool_def enc_int_def in_width_def EvictionRankingHigh_def t AppContainer_def enc_CPUStats_def
        enc_MemoryStats_def enc_Memory7DayStats_def enc_SimplePrediction_def enc_float_def f64_eval)
  moreover have "enc_Overrides sample_enabled \<noteq> None"
    by (simp add: sample_enabled_def enc_Overrides_def fld_def omitempty_def enc_ptr_def enc_bool_def)
  moreover have "enc_Overrides sample_enabled \<noteq> Some (JObj [])"
    by (simp add: sample_enabled_def enc_Overrides_def fld_def omitempty_def enc_ptr_def enc_bool_def)
  ultimately show thesis using that c_WorkloadStat.dec_enc c_Overrides.dec_enc by fastforce
qed


lemma sample_workloads:
  assumes "dec_WorkloadStat js = Some (sample_stat ''web'' 1 100)" "dec_Overrides jo = Some sample_enabled" "jo \<noteq> JObj []"
  shows "\<exists>w. GetWorkloads (au_rows sample_run_env) (au_workload_faults sample_run_env) ''c'' (sample_store js jo) = Inr [w] \<and>
    overrides_loop [w] Map.empty = sample_overrides"
proof -
  let ?w = "\<lparr>wk_ClusterID = ''c'', wk_WorkloadID = GetWorkloadKey ''Deployment'' ''ns'' ''web'',
     wk_Stat = Some (sample_stat ''web'' 1 100), wk_Overrides = Some sample_enabled, wk_GeneratedAt = 0,
     wk_CreatedAt = 0, wk_UpdatedAt = 0\<rparr>"
  let ?r = "sample_stored_row js jo"
  have stat: "row_stat ?r = Some (sample_stat ''web'' 1 100)"
    using assms(1) by (simp add: row_stat_def sample_stored_row_def sample_stat_def)
  have over: "row_overrides ?r = Some (Some sample_enabled)"
    using assms(2,3) by (simp add: row_overrides_def sample_stored_row_def)
  have row: "row_workload ''c'' ?r = Inr ?w"
    unfolding row_workload_def stat over by (simp add: sample_stored_row_def)
  have "where_ids ''c'' [] ?r" by (simp add: where_ids_def sample_stored_row_def)
  then have "GetWorkloads (au_rows sample_run_env) (au_workload_faults sample_run_env) ''c'' (sample_store js jo) = Inr [?w]"
    by (simp add: GetWorkloads_def wrap_result_def GetWorkloadsInCluster_def sample_run_env_def sample_store_def
        latest_first_def row)
  moreover have "overrides_loop [?w] Map.empty = sample_overrides"
    by (simp add: sample_overrides_def sample_stat_def IsGPUWorkload_def OverridesWithDefaults_def sample_enabled_def)
  ultimately show ?thesis by blast
qed

lemma sample_full_run:
  assumes "dec_WorkloadStat js = Some (sample_stat ''web'' 1 100)" "dec_Overrides jo = Some sample_enabled" "jo \<noteq> JObj []"
  shows "\<exists>db'. ApplyRecommendation_Run sample_run_env Map.empty (sample_store js jo) =
    Some ((None, [''c'' \<mapsto> (1, 33)], db'), [ActResize sample_cpu_patch, ActResize sample_memory_patch])"
proof -
  let ?e = sample_run_env and ?db = "sample_store js jo"
  have env: "cluster_id ?e = ''c''" "au_version ?e i = Some (Inr ''v1.33.2-gke.1'')" "au_now ?e = 0"
    "au_sort ?e = insertion_sort" "au_cfg ?e = sample_config" "au_order ?e i = (\<lambda>m. m)" "au_prom ?e = None"
    "au_writes ?e\<lparr>en_supportsMemoryReduction := False\<rparr> = sample_env" for i
    by (simp_all add: sample_run_env_def cluster_id_def sample_config_def sample_env_def)
  have v: "CheckIfClusterVersionAbove [''c'' \<mapsto> (1, 33)] ''c'' (Some a) 1 34 = (False, [''c'' \<mapsto> (1, 33)])" for a
    using version_cached [of "[''c'' \<mapsto> (1, 33)]" "''c''" 1 33] by (simp add: isVersionAtLeast_def)
  obtain w where w: "GetWorkloads (au_rows ?e) (au_workload_faults ?e) ''c'' ?db = Inr [w]"
    "overrides_loop [w] Map.empty = sample_overrides" using sample_workloads [OF assms] by blast
  have sv: "save_reply ?e ?db = (\<lambda>rows. None)"
    by (rule ext) (auto simp: save_reply_def save_rows_def SavePodRecommendations_def sample_run_env_def find_None_iff
        split: option.split dest!: find_in)
  obtain a s where run: "ApplyRecommendationsWithStrategy 0 insertion_sort sample_env (\<lambda>rows. None) sample_config
     [(''node-1'', sample_node_info)] sample_overrides False =
     Some (Inr (a, s), [ActResize sample_cpu_patch, ActResize sample_memory_patch])" using sample_apply_run by blast
  have "fst (buildAndSaveSnapshot ?e nodes s db) = None" for nodes db
    by (simp add: buildAndSaveSnapshot_def Let_def env QueryAndParsePrometheusScalar_def f64_eval split: prod.split)
  then have snap: "\<exists>db'. buildAndSaveSnapshot ?e nodes s db = (None, db')" for nodes db by (metis prod.collapse)
  have "apply_run_body ?e False [(''node-1'', sample_node_info)] [w] ?db =
      Some (buildAndSaveSnapshot ?e [(''node-1'', sample_node_info)] s
        (snd (save_rows ?e (buildPodRecommendationRows s) ?db)), [ActResize sample_cpu_patch, ActResize sample_memory_patch])"
    unfolding apply_run_body_def env sv w(2) run by simp
  then obtain db' where body: "apply_run_body ?e False [(''node-1'', sample_node_info)] [w] ?db =
      Some ((None, db'), [ActResize sample_cpu_patch, ActResize sample_memory_patch])" using snap by fastforce
  have "ApplyRecommendation_Run ?e Map.empty ?db =
    Some ((None, [''c'' \<mapsto> (1, 33)], db'), [ActResize sample_cpu_patch, ActResize sample_memory_patch])"
    unfolding ApplyRecommendation_Run_def env version_sample sample_nodes w(1) v Let_def prod.case sum.case body by simp
  then show ?thesis by blast
qed

lemma apply_run_safe_witness:
  "\<exists>db. enabled_in_store db ''c'' (GetWorkloadKey ''Deployment'' ''ns'' ''web'') \<and> (\<exists>cache' db' tr.
     ApplyRecommendation_Run sample_run_env Map.empty db = Some ((None, cache', db'), tr) \<and>
     ActResize sample_cpu_patch \<in> set tr \<and> above_version cache' ''c'' 1 33 \<and> db_workloads db' = db_workloads db)"
proof (rule sample_json)
  fix js jo
  assume j: "dec_WorkloadStat js = Some (sample_stat ''web'' 1 100)" "dec_Overrides jo = Some sample_enabled" "jo \<noteq> JObj []"
  let ?db = "sample_store js jo"
  obtain db' where run: "ApplyRecommendation_Run sample_run_env Map.empty ?db =
    Some ((None, [''c'' \<mapsto> (1, 33)], db'), [ActResize sample_cpu_patch, ActResize sample_memory_patch])"
    using sample_full_run [OF j] by blast
  have c: "cluster_id sample_run_env = ''c''" by (simp add: cluster_id_def sample_run_env_def sample_config_def)
  have e: "go_sort (au_sort sample_run_env)" "cluster_id sample_run_env \<noteq> []"
    "mset (au_rows sample_run_env f rows) = mset rows" "mset (au_order sample_run_env i m) = mset m" for f rows i m
    using insertion.go_sort_axioms by (simp_all add: c) (simp_all add: sample_run_env_def)
  note safe = apply_run_safe [OF sample_store_ok e(2,1,3,4) run, unfolded c]
  from conjunct2 [OF safe, THEN bspec, of "ActResize sample_cpu_patch"]
  have v: "above_version [''c'' \<mapsto> (1, 33)] ''c'' 1 33"
    and n: "\<exists>nodes name info p. GenerateNodeStatsForCluster sample_run_env ?db = Inr nodes \<and> (name, info) \<in> set nodes \<and>
      p \<in> set (nr_Pods info) \<and>
      enabled_in_store ?db ''c'' (GetWorkloadKey (pi_WorkloadKind p) (pi_Namespace p) (pi_WorkloadName p))" by auto
  have "enabled_in_store ?db ''c'' (GetWorkloadKey ''Deployment'' ''ns'' ''web'')"
    using n unfolding sample_nodes by (auto simp: sample_node_info_def sample_pod_info_def)
  then show ?thesis using run v conjunct1 [OF safe]
    by (intro exI [of _ ?db] exI [of _ "[''c'' \<mapsto> (1, 33)]"] exI [of _ db']
        exI [of _ "[ActResize sample_cpu_patch, ActResize sample_memory_patch]"] conjI) simp_all
qed

end
