(* ===== verification/GoRetry.thy ===== *)
theory GoRetry
  imports Kube
begin

text \<open>
  \<^verbatim>\<open>retry.RetryOnConflict\<close> of the Kubernetes client library is an argument of the model. It runs
  a function of the state again as long as that fails with a conflict, a bounded number of
  times, and returns its last answer. That contract is the locale \<open>conflict_retry\<close>.
\<close>

type_synonym 's retried = "'s \<Rightarrow> api_error option \<times> 's"
type_synonym 's retrier = "'s retried \<Rightarrow> 's retried"

fun retry_n :: "nat \<Rightarrow> 's retrier" where
  "retry_n 0 f s = f s"
| "retry_n (Suc n) f s =
     (case f s of
        (None, s') \<Rightarrow> (None, s')
      | (Some e, s') \<Rightarrow> if IsConflict e then retry_n n f s' else (Some e, s'))"

lemma retry_n_last:
  assumes "P s" "\<And>s. P s \<Longrightarrow> P (snd (f s))"
  shows "\<exists>s'. P s' \<and> retry_n n f s = f s'"
  using assms(1)
proof (induction n arbitrary: s)
  case 0
  then show ?case by auto
next
  case (Suc n)
  obtain e s' where fs: "f s = (e, s')" by fastforce
  have p: "P s'" using assms(2) [OF Suc.prems] by (simp add: fs)
  show ?case
  proof (cases "\<exists>e'. e = Some e' \<and> IsConflict e'")
    case True
    then show ?thesis using Suc.IH [OF p] by (auto simp: fs)
  next
    case False
    then have "retry_n (Suc n) f s = f s" by (auto simp: fs split: option.splits)
    then show ?thesis using Suc.prems by blast
  qed
qed

locale conflict_retry =
  fixes retry :: "'s retrier"
  assumes bounded: "\<exists>n. retry f s = retry_n n f s"
begin

text \<open>The answer of a retried call is that of its last attempt, made in a state the earlier
  attempts lead to.\<close>

lemma last_attempt:
  assumes "P s" "\<And>s. P s \<Longrightarrow> P (snd (f s))"
  shows "\<exists>s'. P s' \<and> retry f s = f s'"
proof -
  obtain n where "retry f s = retry_n n f s" using bounded by blast
  then show ?thesis using retry_n_last [of P s f n, OF assms] by simp
qed

lemma preserves:
  assumes "P s" "\<And>s. P s \<Longrightarrow> P (snd (f s))"
  shows "P (snd (retry f s))"
proof -
  obtain s' where "P s'" "retry f s = f s'" using last_attempt [of P s f, OF assms] by blast
  then show ?thesis using assms(2) [of s'] by simp
qed

lemma success_at_once: "fst (f s) = None \<Longrightarrow> retry f s = f s"
proof -
  assume a: "fst (f s) = None"
  have "retry_n n f s = f s" for n
    using a by (cases n) (auto split: prod.splits option.splits)
  then show "retry f s = f s" using bounded by metis
qed

end

text \<open>The client library's default makes five attempts.\<close>

interpretation default_retry: conflict_retry "retry_n 4"
  by unfold_locales blast

end
