(* ===== verification/NodeLoad.thy ===== *)
theory NodeLoad
  imports Workloads Api GoRetry
begin

text \<open>
  \<^verbatim>\<open>pkg/task/tasknodeloadmonitoring.go\<close>: nodes whose load per core stays above one are tainted
  so that nothing more is scheduled on them, and the taint is removed when the load falls. The
  answer of Prometheus is an argument.
\<close>

section \<open>Load\<close>

datatype load_answer = Vector "(string_map \<times> float64) list" | NotVector string

definition NodeOverloadTaintKey :: string where "NodeOverloadTaintKey = ''cruisekube.truefoundry.com/overloaded''"
definition NodeOverloadTaintValue :: string where "NodeOverloadTaintValue = ''true''"
definition NodeOverloadTaintEffect :: string where "NodeOverloadTaintEffect = ''NoSchedule''"
definition LoadThreshold :: float64 where "LoadThreshold = lit 1"

definition OverloadTaint :: Taint where
  "OverloadTaint = \<lparr>t_Key = NodeOverloadTaintKey, t_Value = NodeOverloadTaintValue,
     t_Effect = NodeOverloadTaintEffect\<rparr>"

fun load_loop :: "(string_map \<times> float64) list \<Rightarrow> (string \<rightharpoonup> float64) \<Rightarrow> (string \<rightharpoonup> float64)" where
  "load_loop [] m = m"
| "load_loop ((metric, x) # samples) m =
     (let nodeName = (case metric ''node'' of None \<Rightarrow> '''' | Some s \<Rightarrow> s)
      in load_loop samples (if nodeName \<noteq> '''' then m(nodeName \<mapsto> x) else m))"

definition parseNodeLoadResults :: "load_answer \<Rightarrow> api_error + (string \<rightharpoonup> float64)" where
  "parseNodeLoadResults result =
     (case result of
        NotVector t \<Rightarrow> Inl (Other (''expected vector result, got '' @ t))
      | Vector samples \<Rightarrow> Inr (load_loop samples Map.empty))"

definition getNodeLoadMetrics :: "api_error + load_answer \<Rightarrow> api_error + (string \<rightharpoonup> float64)" where
  "getNodeLoadMetrics r =
     (case r of
        Inl e \<Rightarrow> Inl (wrap ''error querying prometheus for node load metrics: '' e)
      | Inr result \<Rightarrow> parseNodeLoadResults result)"

section \<open>The taint\<close>

definition nodeHasOverloadTaint :: "Node \<Rightarrow> bool" where
  "nodeHasOverloadTaint node \<longleftrightarrow>
     list_ex (\<lambda>t. t_Key t = NodeOverloadTaintKey \<and> t_Value t = NodeOverloadTaintValue \<and>
                  t_Effect t = NodeOverloadTaintEffect) (n_Taints node)"

definition with_taint :: "Node \<Rightarrow> Node" where
  "with_taint node = node\<lparr>n_Taints := n_Taints node @ [OverloadTaint]\<rparr>"

definition without_taint :: "Node \<Rightarrow> Node" where
  "without_taint node = node\<lparr>n_Taints :=
     filter (\<lambda>t. t_Key t \<noteq> NodeOverloadTaintKey \<or> t_Value t \<noteq> NodeOverloadTaintValue \<or>
                  t_Effect t \<noteq> NodeOverloadTaintEffect) (n_Taints node)\<rparr>"

record NodeLoadEnv =
  ne_reads :: "trace \<Rightarrow> KubeReads"
  ne_reply :: reply
  ne_recorder :: bool
  ne_retry :: "(trace \<times> bool) retrier"

text \<open>Get the node, and write it back changed unless it is already as wanted.\<close>

definition taint_attempt ::
    "NodeLoadEnv \<Rightarrow> (Node \<Rightarrow> bool) \<Rightarrow> (Node \<Rightarrow> Node) \<Rightarrow> string \<Rightarrow> (trace \<times> bool) retried" where
  "taint_attempt env done change nodeName = (\<lambda>(tr, updated).
     case kr_getNode (ne_reads env tr) nodeName of
       Inl e \<Rightarrow> (Some (wrap (''get node '' @ nodeName @ '': '') e), (tr, updated))
     | Inr node \<Rightarrow>
         if done node then (None, (tr, updated))
         else case ne_reply env tr (ActUpdateNode (change node)) of
                Some e \<Rightarrow> (Some (wrap (''update node '' @ nodeName @ '': '') e),
                           (tr @ [ActUpdateNode (change node)], updated))
              | None \<Rightarrow> (None, (tr @ [ActUpdateNode (change node)], True)))"

definition addOverloadTaint :: "NodeLoadEnv \<Rightarrow> string \<Rightarrow> trace \<Rightarrow> (api_error + bool) \<times> trace" where
  "addOverloadTaint env nodeName tr =
     (case ne_retry env (taint_attempt env nodeHasOverloadTaint with_taint nodeName) (tr, False) of
        (Some e, (tr, updated)) \<Rightarrow> (Inl (wrap (''add overload taint to node '' @ nodeName @ '': '') e), tr)
      | (None, (tr, updated)) \<Rightarrow> (Inr updated, tr))"

definition removeOverloadTaint :: "NodeLoadEnv \<Rightarrow> string \<Rightarrow> trace \<Rightarrow> (api_error + bool) \<times> trace" where
  "removeOverloadTaint env nodeName tr =
     (case ne_retry env (taint_attempt env (\<lambda>n. \<not> nodeHasOverloadTaint n) without_taint nodeName) (tr, False) of
        (Some e, (tr, updated)) \<Rightarrow> (Inl (wrap (''remove overload taint from node '' @ nodeName @ '': '') e), tr)
      | (None, (tr, updated)) \<Rightarrow> (Inr updated, tr))"

section \<open>The task\<close>

definition taint_event :: "bool \<Rightarrow> string \<Rightarrow> float64 option \<Rightarrow> AuditEvent" where
  "taint_event added nodeName load =
     \<lparr>ae_Type = EventTypeNormal,
      ae_Category = (if added then ''NODE_OVERLOAD_TAINT_ADDED'' else ''NODE_OVERLOAD_TAINT_REMOVED''),
      ae_Message = (if added then ''Overload taint added to node '' else ''Overload taint removed from node '') @
                   nodeName,
      ae_Target = [(''kind'', ''Node''), (''name'', nodeName)],
      ae_Details = (case load of None \<Rightarrow> [] | Some x \<Rightarrow> [(''loadRatio'', ANum x)])\<rparr>"

definition isOverloadedNode :: "(string \<rightharpoonup> float64) \<Rightarrow> string \<Rightarrow> bool" where
  "isOverloadedNode nodeLoadData nodeName \<longleftrightarrow>
     (case nodeLoadData nodeName of None \<Rightarrow> False | Some loadAvg \<Rightarrow> flt LoadThreshold loadAvg)"

definition monitor_node :: "NodeLoadEnv \<Rightarrow> (string \<rightharpoonup> float64) \<Rightarrow> Node \<Rightarrow> trace \<Rightarrow> trace" where
  "monitor_node env nodeLoadData node tr =
     (let isOverloaded = isOverloadedNode nodeLoadData (n_Name node);
          hasOverloadTaint = nodeHasOverloadTaint node;
          record = (\<lambda>added (res, tr).
             if res = Inr True
             then record_audit (ne_recorder env) (taint_event added (n_Name node) (nodeLoadData (n_Name node))) tr
             else tr)
      in if isOverloaded \<and> \<not> hasOverloadTaint then record True (addOverloadTaint env (n_Name node) tr)
         else if \<not> isOverloaded \<and> hasOverloadTaint then record False (removeOverloadTaint env (n_Name node) tr)
         else tr)"

fun monitor_nodes :: "NodeLoadEnv \<Rightarrow> (string \<rightharpoonup> float64) \<Rightarrow> Node list \<Rightarrow> trace \<Rightarrow> trace" where
  "monitor_nodes env nodeLoadData [] tr = tr"
| "monitor_nodes env nodeLoadData (node # nodes) tr =
     monitor_nodes env nodeLoadData nodes (monitor_node env nodeLoadData node tr)"

definition NodeLoad_Run :: "NodeLoadEnv \<Rightarrow> api_error + load_answer \<Rightarrow> api_error option \<times> trace" where
  "NodeLoad_Run env query =
     (case kr_Nodes (ne_reads env []) of
        Inl e \<Rightarrow> (Some (wrap ''failed to get nodes: '' e), [])
      | Inr nodes \<Rightarrow>
          (case getNodeLoadMetrics query of
             Inl e \<Rightarrow> (Some e, [])
           | Inr nodeLoadData \<Rightarrow> (None, monitor_nodes env nodeLoadData nodes [])))"

section \<open>The cluster the task acts on\<close>

text \<open>
  An API server that accepts every update and returns what was last written: the nodes as the
  updates of a trace leave them.
\<close>

definition node_update :: "(string \<rightharpoonup> Node) \<Rightarrow> action \<Rightarrow> (string \<rightharpoonup> Node)" where
  "node_update m a =
     (case a of
        ActUpdateNode q \<Rightarrow> if m (n_Name q) \<noteq> None then m(n_Name q \<mapsto> q) else m
      | _ \<Rightarrow> m)"

definition node_store :: "Node list \<Rightarrow> trace \<Rightarrow> string \<rightharpoonup> Node" where
  "node_store nodes tr = foldl node_update (\<lambda>n. find (\<lambda>q. n_Name q = n) nodes) tr"

definition serves_nodes :: "NodeLoadEnv \<Rightarrow> Node list \<Rightarrow> bool" where
  "serves_nodes env nodes \<longleftrightarrow>
     (\<forall>tr a. ne_reply env tr a = None) \<and>
     (\<forall>tr n. kr_getNode (ne_reads env tr) n =
        (case node_store nodes tr n of None \<Rightarrow> Inl (NotFound n) | Some q \<Rightarrow> Inr q)) \<and>
     kr_Nodes (ne_reads env []) = Inr nodes"

definition other_taints :: "Node \<Rightarrow> Taint list" where
  "other_taints node = filter (\<lambda>t. t \<noteq> OverloadTaint) (n_Taints node)"

section \<open>Lemmas\<close>

lemma taint_eq: "t_Key t = NodeOverloadTaintKey \<and> t_Value t = NodeOverloadTaintValue \<and>
    t_Effect t = NodeOverloadTaintEffect \<longleftrightarrow> t = OverloadTaint"
  by (cases t) (simp add: OverloadTaint_def)

lemma nodeHasOverloadTaint_iff: "nodeHasOverloadTaint node \<longleftrightarrow> OverloadTaint \<in> set (n_Taints node)"
  by (auto simp: nodeHasOverloadTaint_def taint_eq list_ex_iff)

lemma without_taint_eq: "without_taint node = node\<lparr>n_Taints := other_taints node\<rparr>"
proof -
  have "(\<lambda>t. t_Key t \<noteq> NodeOverloadTaintKey \<or> t_Value t \<noteq> NodeOverloadTaintValue \<or>
      t_Effect t \<noteq> NodeOverloadTaintEffect) = (\<lambda>t. t \<noteq> OverloadTaint)"
    using taint_eq by blast
  then show ?thesis by (simp add: without_taint_def other_taints_def)
qed

lemma taint_changes [simp]:
  "n_Name (with_taint node) = n_Name node" "n_Name (without_taint node) = n_Name node"
  "nodeHasOverloadTaint (with_taint node)" "\<not> nodeHasOverloadTaint (without_taint node)"
  "other_taints (with_taint node) = other_taints node" "other_taints (without_taint node) = other_taints node"
  by (simp_all add: with_taint_def without_taint_eq nodeHasOverloadTaint_iff other_taints_def)

lemma node_store_append: "node_store nodes (tr @ [a]) = node_update (node_store nodes tr) a"
  by (simp add: node_store_def)

lemma node_store_name: "node_store nodes tr n = Some q \<Longrightarrow> n_Name q = n"
proof (induction tr arbitrary: q rule: rev_induct)
  case Nil
  then show ?case by (auto simp: node_store_def find_Some_iff)
next
  case (snoc a tr)
  then show ?case by (cases a) (auto simp: node_store_append node_update_def split: if_splits)
qed

lemma node_store_audit [simp]: "node_store nodes (record_audit r ev tr) = node_store nodes tr"
  by (simp add: record_audit_def node_store_append node_update_def)

text \<open>One attempt on a cluster that serves the nodes brings its node to the wanted form.\<close>

lemma attempt_result:
  assumes "serves_nodes env nodes" "conflict_retry (ne_retry env)"
    and "node_store nodes tr n = Some q" "\<And>q. n_Name (change q) = n_Name q"
  shows "ne_retry env (taint_attempt env ok change n) (tr, False) =
    (None, (if ok q then (tr, False) else (tr @ [ActUpdateNode (change q)], True)))"
proof -
  have "taint_attempt env ok change n (tr, False) =
      (None, (if ok q then (tr, False) else (tr @ [ActUpdateNode (change q)], True)))"
    using assms(1,3) by (auto simp: taint_attempt_def serves_nodes_def)
  then show ?thesis
    using conflict_retry.success_at_once [OF assms(2), of "taint_attempt env ok change n" "(tr, False)"] by simp
qed

lemma monitor_node_store:
  assumes "serves_nodes env nodes" "conflict_retry (ne_retry env)"
    and q: "node_store nodes tr (n_Name node) = Some q" and t: "n_Taints q = n_Taints node"
  shows "\<exists>q'. node_store nodes (monitor_node env loads node tr) =
      (node_store nodes tr)(n_Name node \<mapsto> q') \<and>
    nodeHasOverloadTaint q' = isOverloadedNode loads (n_Name node) \<and> other_taints q' = other_taints node \<and>
    (nodeHasOverloadTaint node = isOverloadedNode loads (n_Name node) \<longrightarrow> monitor_node env loads node tr = tr)"
proof -
  have h: "nodeHasOverloadTaint q = nodeHasOverloadTaint node" "other_taints q = other_taints node"
    using t by (simp_all add: nodeHasOverloadTaint_def other_taints_def)
  have nm: "n_Name q = n_Name node" using node_store_name [OF q] .
  note a = attempt_result [OF assms(1,2) q, of with_taint nodeHasOverloadTaint]
  note r = attempt_result [OF assms(1,2) q, of without_taint "\<lambda>n. \<not> nodeHasOverloadTaint n"]
  have upd: "node_store nodes (tr @ [ActUpdateNode c]) = (node_store nodes tr)(n_Name node \<mapsto> c)"
    if "n_Name c = n_Name node" for c
    using that q by (auto simp: node_store_append node_update_def fun_eq_iff)
  consider (add) "isOverloadedNode loads (n_Name node)" "\<not> nodeHasOverloadTaint node"
    | (rem) "\<not> isOverloadedNode loads (n_Name node)" "nodeHasOverloadTaint node"
    | (same) "nodeHasOverloadTaint node = isOverloadedNode loads (n_Name node)" by blast
  then show ?thesis
  proof cases
    case add
    then have "node_store nodes (monitor_node env loads node tr) = (node_store nodes tr)(n_Name node \<mapsto> with_taint q)"
      using h nm upd [of "with_taint q"]
      by (simp add: monitor_node_def addOverloadTaint_def a)
    then show ?thesis using add h by (intro exI [of _ "with_taint q"]) simp
  next
    case rem
    then have "node_store nodes (monitor_node env loads node tr) = (node_store nodes tr)(n_Name node \<mapsto> without_taint q)"
      using h nm upd [of "without_taint q"] by (simp add: monitor_node_def removeOverloadTaint_def r)
    then show ?thesis using rem h by (intro exI [of _ "without_taint q"]) simp
  next
    case same
    then have "monitor_node env loads node tr = tr" by (auto simp: monitor_node_def Let_def)
    moreover have "(node_store nodes tr)(n_Name node \<mapsto> q) = node_store nodes tr" using q by auto
    ultimately show ?thesis using same h by (intro exI [of _ q]) simp
  qed
qed

lemma monitor_nodes_store:
  assumes "serves_nodes env nodes" "conflict_retry (ne_retry env)"
    and "distinct (map n_Name ns)" "\<forall>node \<in> set ns. node_store nodes tr (n_Name node) = Some node"
  shows "(\<forall>node \<in> set ns. \<exists>q. node_store nodes (monitor_nodes env loads ns tr) (n_Name node) = Some q \<and>
      nodeHasOverloadTaint q = isOverloadedNode loads (n_Name node) \<and> other_taints q = other_taints node) \<and>
    (\<forall>n. n \<notin> n_Name ` set ns \<longrightarrow> node_store nodes (monitor_nodes env loads ns tr) n = node_store nodes tr n) \<and>
    ((\<forall>node \<in> set ns. nodeHasOverloadTaint node = isOverloadedNode loads (n_Name node)) \<longrightarrow>
      monitor_nodes env loads ns tr = tr)"
  using assms(3,4)
proof (induction ns arbitrary: tr)
  case (Cons node ns)
  let ?tr = "monitor_node env loads node tr"
  have s: "node_store nodes tr (n_Name node) = Some node" using Cons.prems by simp
  obtain q where q: "node_store nodes ?tr = (node_store nodes tr)(n_Name node \<mapsto> q)"
    "nodeHasOverloadTaint q = isOverloadedNode loads (n_Name node)" "other_taints q = other_taints node"
    "nodeHasOverloadTaint node = isOverloadedNode loads (n_Name node) \<longrightarrow> ?tr = tr"
    using monitor_node_store [OF assms(1,2) s, of loads] by blast
  have nn: "n_Name node \<notin> n_Name ` set ns" using Cons.prems by simp
  have "\<forall>m \<in> set ns. node_store nodes ?tr (n_Name m) = Some m"
  proof
    fix m assume "m \<in> set ns"
    moreover from this have "n_Name m \<noteq> n_Name node" using nn by (metis imageI)
    ultimately show "node_store nodes ?tr (n_Name m) = Some m" using Cons.prems q(1) by simp
  qed
  moreover have "distinct (map n_Name ns)" using Cons.prems by simp
  ultimately have ih: "(\<forall>m \<in> set ns. \<exists>q. node_store nodes (monitor_nodes env loads ns ?tr) (n_Name m) = Some q \<and>
      nodeHasOverloadTaint q = isOverloadedNode loads (n_Name m) \<and> other_taints q = other_taints m)"
    "\<forall>n. n \<notin> n_Name ` set ns \<longrightarrow> node_store nodes (monitor_nodes env loads ns ?tr) n = node_store nodes ?tr n"
    "(\<forall>m \<in> set ns. nodeHasOverloadTaint m = isOverloadedNode loads (n_Name m)) \<longrightarrow>
      monitor_nodes env loads ns ?tr = ?tr"
    using Cons.IH [of ?tr] by blast+
  have "node_store nodes (monitor_nodes env loads ns ?tr) (n_Name node) = Some q"
    using ih(2) nn q(1) by simp
  then show ?case using ih q by auto
qed simp

lemma find_node:
  "distinct (map n_Name nodes) \<Longrightarrow> node \<in> set nodes \<Longrightarrow> node_store nodes [] (n_Name node) = Some node"
proof -
  assume d: "distinct (map n_Name nodes)" and n: "node \<in> set nodes"
  have "find (\<lambda>q. n_Name q = n_Name node) nodes = Some node"
    using d n by (induction nodes) (auto simp: image_iff)
  then show ?thesis by (simp add: node_store_def)
qed

lemma taint_attempt_actions:
  assumes "conflict_retry (ne_retry env)"
    "a \<in> set (snd (snd (case ne_retry env (taint_attempt env ok change n) (tr, False) of (e, (tr, u)) \<Rightarrow> (e, (u, tr)))))"
  shows "a \<in> set tr \<or> (\<exists>tr' cur. kr_getNode (ne_reads env tr') n = Inr cur \<and> \<not> ok cur \<and>
    a = ActUpdateNode (change cur))"
proof -
  let ?f = "taint_attempt env ok change n"
  define P where "P = (\<lambda>(tr', u :: bool). \<forall>a \<in> set tr'. a \<in> set tr \<or> (\<exists>tr' cur.
      kr_getNode (ne_reads env tr') n = Inr cur \<and> \<not> ok cur \<and> a = ActUpdateNode (change cur)))"
  have step: "P s \<Longrightarrow> P (snd (?f s))" for s
    by (cases s) (auto simp: P_def taint_attempt_def split: sum.splits option.splits)
  have "P (snd (ne_retry env ?f (tr, False)))"
    using conflict_retry.preserves [OF assms(1), of P "(tr, False)" ?f] step by (simp add: P_def)
  then show ?thesis using assms(2) by (auto simp: P_def split: prod.splits)
qed

text \<open>Why a run writes a node.\<close>

definition taint_write :: "NodeLoadEnv \<Rightarrow> (string \<rightharpoonup> float64) \<Rightarrow> Node \<Rightarrow> Node \<Rightarrow> bool" where
  "taint_write env loads node q \<longleftrightarrow>
     (\<exists>tr cur. kr_getNode (ne_reads env tr) (n_Name node) = Inr cur \<and>
        (isOverloadedNode loads (n_Name node) \<and> \<not> nodeHasOverloadTaint cur \<and> q = with_taint cur \<or>
         \<not> isOverloadedNode loads (n_Name node) \<and> nodeHasOverloadTaint cur \<and> q = without_taint cur))"

lemma monitor_node_actions:
  assumes "conflict_retry (ne_retry env)" "ActUpdateNode q \<in> set (monitor_node env loads node tr)"
  shows "ActUpdateNode q \<in> set tr \<or> taint_write env loads node q"
proof -
  have a: "ActUpdateNode q \<in> set (snd (addOverloadTaint env n tr)) \<Longrightarrow> ActUpdateNode q \<in> set tr \<or>
      (\<exists>tr' cur. kr_getNode (ne_reads env tr') n = Inr cur \<and> \<not> nodeHasOverloadTaint cur \<and> q = with_taint cur)" for n
    using taint_attempt_actions [OF assms(1), of "ActUpdateNode q" nodeHasOverloadTaint with_taint n tr]
    by (auto simp: addOverloadTaint_def split: prod.splits option.splits)
  have r: "ActUpdateNode q \<in> set (snd (removeOverloadTaint env n tr)) \<Longrightarrow> ActUpdateNode q \<in> set tr \<or>
      (\<exists>tr' cur. kr_getNode (ne_reads env tr') n = Inr cur \<and> nodeHasOverloadTaint cur \<and> q = without_taint cur)" for n
    using taint_attempt_actions [OF assms(1), of "ActUpdateNode q" "\<lambda>n. \<not> nodeHasOverloadTaint n" without_taint n tr]
    by (auto simp: removeOverloadTaint_def split: prod.splits option.splits)
  obtain ra ta where ea: "addOverloadTaint env (n_Name node) tr = (ra, ta)" by fastforce
  obtain rr tt where er: "removeOverloadTaint env (n_Name node) tr = (rr, tt)" by fastforce
  have "ActUpdateNode q \<in> set tr \<or> isOverloadedNode loads (n_Name node) \<and> ActUpdateNode q \<in> set ta \<or>
      \<not> isOverloadedNode loads (n_Name node) \<and> ActUpdateNode q \<in> set tt"
    using assms(2) by (auto simp: monitor_node_def ea er record_audit_def Let_def split: if_splits)
  then show ?thesis
    using a [of "n_Name node"] r [of "n_Name node"] unfolding ea er taint_write_def by auto
qed

lemma monitor_nodes_actions:
  assumes "conflict_retry (ne_retry env)" "ActUpdateNode q \<in> set (monitor_nodes env loads ns tr)"
  shows "ActUpdateNode q \<in> set tr \<or> (\<exists>node \<in> set ns. taint_write env loads node q)"
  using assms(2)
proof (induction ns arbitrary: tr)
  case (Cons node ns)
  then show ?case using monitor_node_actions [OF assms(1), of q loads node tr] by auto
qed simp

section \<open>A sample cluster\<close>

definition load_node :: "string \<Rightarrow> Taint list \<Rightarrow> Node" where
  "load_node n ts = \<lparr>n_Name = n, n_Allocatable = [], n_Taints = ts, n_Conditions = []\<rparr>"

definition sample_nodes :: "Node list" where
  "sample_nodes = [load_node ''a'' [], load_node ''b'' [OverloadTaint]]"

definition sample_load_env :: NodeLoadEnv where
  "sample_load_env = \<lparr>ne_reads = (\<lambda>tr. \<lparr>kr_Deployments = (\<lambda>ns. Inr []), kr_StatefulSets = (\<lambda>ns. Inr []),
     kr_DaemonSets = (\<lambda>ns. Inr []), kr_getDeployment = (\<lambda>ns n. Inl (NotFound [])),
     kr_getStatefulSet = (\<lambda>ns n. Inl (NotFound [])), kr_getDaemonSet = (\<lambda>ns n. Inl (NotFound [])),
     kr_Pods = (\<lambda>ns. Inr []), kr_PodsBySelector = (\<lambda>ns s. Inr []),
     kr_PDBs = (\<lambda>ns. Inr []), kr_getPDB = (\<lambda>ns n. Inl (NotFound [])),
     kr_Nodes = Inr sample_nodes,
     kr_getNode = (\<lambda>n. case node_store sample_nodes tr n of None \<Rightarrow> Inl (NotFound n) | Some q \<Rightarrow> Inr q),
     kr_HPAs = (\<lambda>ns. Inr [])\<rparr>),
     ne_reply = (\<lambda>tr a. None), ne_recorder = False, ne_retry = retry_n 4\<rparr>"

definition sample_load :: load_answer where
  "sample_load = Vector [([''node'' \<mapsto> ''a''], lit 2), ([''node'' \<mapsto> ''b''], lit (1 / 2))]"

lemma sample_serves: "serves_nodes sample_load_env sample_nodes" "conflict_retry (ne_retry sample_load_env)"
  by (simp_all add: serves_nodes_def sample_load_env_def default_retry.conflict_retry_axioms)

lemma sample_over:
  "isOverloadedNode (load_loop [([''node'' \<mapsto> ''a''], lit 2), ([''node'' \<mapsto> ''b''], lit (1 / 2))] Map.empty) ''a''"
  by (simp add: isOverloadedNode_def LoadThreshold_def f64_eval)

section \<open>Properties\<close>

text \<open>C13. On a cluster that accepts its updates, a run leaves every node tainted exactly if its measured
  load exceeds one per core, with its other taints as they were; when this already holds the run
  writes nothing.\<close>

theorem taints_follow_load:
  assumes "serves_nodes env nodes" "conflict_retry (ne_retry env)" "distinct (map n_Name nodes)"
    and "NodeLoad_Run env (Inr (Vector samples)) = (None, tr)"
  shows "(\<forall>node \<in> set nodes. \<exists>q. node_store nodes tr (n_Name node) = Some q \<and>
      nodeHasOverloadTaint q = isOverloadedNode (load_loop samples Map.empty) (n_Name node) \<and>
      other_taints q = other_taints node) \<and>
    ((\<forall>node \<in> set nodes. nodeHasOverloadTaint node =
        isOverloadedNode (load_loop samples Map.empty) (n_Name node)) \<longrightarrow> tr = [])"
proof -
  have tr: "tr = monitor_nodes env (load_loop samples Map.empty) nodes []"
    using assms(1,4) by (auto simp: NodeLoad_Run_def getNodeLoadMetrics_def parseNodeLoadResults_def serves_nodes_def)
  have "\<forall>node \<in> set nodes. node_store nodes [] (n_Name node) = Some node"
    using find_node [OF assms(3)] by blast
  from monitor_nodes_store [OF assms(1,2,3) this, of "load_loop samples Map.empty"]
  show ?thesis unfolding tr by blast
qed

lemma taints_follow_load_witness:
  "\<exists>tr q. NodeLoad_Run sample_load_env (Inr sample_load) = (None, tr) \<and>
     node_store sample_nodes tr ''a'' = Some q \<and> nodeHasOverloadTaint q"
proof -
  obtain tr where run: "NodeLoad_Run sample_load_env (Inr sample_load) = (None, tr)"
    by (simp add: NodeLoad_Run_def getNodeLoadMetrics_def parseNodeLoadResults_def sample_load_def
        sample_load_env_def)
  have d: "distinct (map n_Name sample_nodes)" by (simp add: sample_nodes_def load_node_def)
  have n: "load_node ''a'' [] \<in> set sample_nodes" by (simp add: sample_nodes_def)
  from taints_follow_load [OF sample_serves d run [unfolded sample_load_def]] n
  obtain q where "node_store sample_nodes tr (n_Name (load_node ''a'' [])) = Some q"
    "nodeHasOverloadTaint q = isOverloadedNode (load_loop [([''node'' \<mapsto> ''a''], lit 2),
       ([''node'' \<mapsto> ''b''], lit (1 / 2))] Map.empty) (n_Name (load_node ''a'' []))" by blast
  then show ?thesis using run sample_over by (auto simp: load_node_def)
qed

text \<open>Whatever the API server answers, a node is only ever written to add the missing taint of a node
  that is overloaded or to remove the taint of one that is not, as it was just read.\<close>

lemma node_writes_justified:
  assumes "NodeLoad_Run env query = (res, tr)" "conflict_retry (ne_retry env)" "ActUpdateNode q \<in> set tr"
  shows "\<exists>nodes loads node. kr_Nodes (ne_reads env []) = Inr nodes \<and> getNodeLoadMetrics query = Inr loads \<and>
    node \<in> set nodes \<and>
    (\<exists>tr' cur. kr_getNode (ne_reads env tr') (n_Name node) = Inr cur \<and>
       (isOverloadedNode loads (n_Name node) \<and> \<not> nodeHasOverloadTaint cur \<and> q = with_taint cur \<or>
        \<not> isOverloadedNode loads (n_Name node) \<and> nodeHasOverloadTaint cur \<and> q = without_taint cur))"
proof -
  obtain nodes loads where n: "kr_Nodes (ne_reads env []) = Inr nodes" "getNodeLoadMetrics query = Inr loads"
    and tr: "tr = monitor_nodes env loads nodes []"
    using assms(1,3) by (auto simp: NodeLoad_Run_def split: sum.splits)
  obtain node where "node \<in> set nodes" "taint_write env loads node q"
    using monitor_nodes_actions [OF assms(2), of q loads nodes "[]"] assms(3) tr by auto
  then show ?thesis using n unfolding taint_write_def by blast
qed

lemma node_writes_justified_witness:
  "\<exists>tr cur. kr_getNode (ne_reads sample_load_env tr) ''a'' = Inr cur \<and> \<not> nodeHasOverloadTaint cur"
proof -
  let ?q = "with_taint (load_node ''a'' [])"
  let ?loads = "load_loop [([''node'' \<mapsto> ''a''], lit 2), ([''node'' \<mapsto> ''b''], lit (1 / 2))] Map.empty"
  have st: "node_store sample_nodes [] ''a'' = Some (load_node ''a'' [])"
    "node_store sample_nodes [ActUpdateNode ?q] ''b'' = Some (load_node ''b'' [OverloadTaint])"
    by (simp_all add: node_store_def node_update_def sample_nodes_def load_node_def)
  have ad: "addOverloadTaint sample_load_env ''a'' [] = (Inr True, [ActUpdateNode ?q])"
    using attempt_result [OF sample_serves st(1), of with_taint nodeHasOverloadTaint]
    by (simp add: addOverloadTaint_def nodeHasOverloadTaint_def load_node_def)
  have rem: "ActUpdateNode ?q \<in> set (snd (removeOverloadTaint sample_load_env ''b'' [ActUpdateNode ?q]))"
    using attempt_result [OF sample_serves st(2), of without_taint "\<lambda>n. \<not> nodeHasOverloadTaint n"]
    by (simp add: removeOverloadTaint_def split: if_splits)
  have "monitor_node sample_load_env ?loads (load_node ''a'' []) [] = [ActUpdateNode ?q]"
    using ad sample_over
    by (simp add: monitor_node_def load_node_def nodeHasOverloadTaint_def record_audit_def sample_load_env_def)
  moreover have "ActUpdateNode ?q \<in> set (monitor_node sample_load_env ?loads (load_node ''b'' [OverloadTaint])
      [ActUpdateNode ?q])"
    using rem by (cases "removeOverloadTaint sample_load_env ''b'' [ActUpdateNode ?q]")
      (auto simp: monitor_node_def load_node_def nodeHasOverloadTaint_iff isOverloadedNode_def LoadThreshold_def
        f64_eval record_audit_def Let_def)
  ultimately have m: "ActUpdateNode ?q \<in> set (monitor_nodes sample_load_env ?loads sample_nodes [])"
    by (simp add: sample_nodes_def)
  obtain tr where run: "NodeLoad_Run sample_load_env (Inr sample_load) = (None, tr)"
    and tr: "tr = monitor_nodes sample_load_env ?loads sample_nodes []"
    by (simp add: NodeLoad_Run_def getNodeLoadMetrics_def parseNodeLoadResults_def sample_load_def
        sample_load_env_def)
  obtain nodes loads node tr' cur where n: "kr_Nodes (ne_reads sample_load_env []) = Inr nodes"
    "node \<in> set nodes" "kr_getNode (ne_reads sample_load_env tr') (n_Name node) = Inr cur"
    "\<not> nodeHasOverloadTaint cur \<and> ?q = with_taint cur \<or> nodeHasOverloadTaint cur \<and> ?q = without_taint cur"
    using node_writes_justified [OF run sample_serves(2) m [folded tr]] by blast
  have c: "\<not> nodeHasOverloadTaint cur" "?q = with_taint cur" using n(4) taint_changes(3,4) by metis+
  have "n_Name node = n_Name cur"
    using n(3) node_store_name by (auto simp: sample_load_env_def split: option.splits)
  also have "\<dots> = ''a''" using arg_cong [OF c(2), of n_Name] by (simp add: load_node_def)
  finally show ?thesis using n(3) c(1) by auto
qed

end
