(* ===== verification/JsonPatch.thy ===== *)
theory JsonPatch
  imports Json GoStrings
begin

text \<open>
  JSON pointers (RFC 6901) and JSON patches (RFC 6902), the language in which the webhook tells the
  API server how to change a pod. Applying a patch is what the documentation of the API server
  promises; an operation on a path that does not exist fails, and with it the admission of the pod.
  The lemmas reduce a patch below a common path to a patch of the value at that path.
\<close>

section \<open>Pointers\<close>

text \<open>\<^verbatim>\<open>escapeJSONPointer\<close> of \<^verbatim>\<open>pkg/handlers/controllerwebhookhandler.go\<close>, as the two replacements in
  their order.\<close>

fun replace_char :: "char \<Rightarrow> string \<Rightarrow> string \<Rightarrow> string" where
  "replace_char c r [] = []"
| "replace_char c r (x # s) = (if x = c then r @ replace_char c r s else x # replace_char c r s)"

definition escapeJSONPointer :: "string \<Rightarrow> string" where
  "escapeJSONPointer s = replace_char CHR ''/'' ''~1'' (replace_char CHR ''~'' ''~0'' s)"

fun unescape :: "string \<Rightarrow> string" where
  "unescape (c # d # s) =
     (if c = CHR ''~'' \<and> d = CHR ''1'' then CHR ''/'' # unescape s
      else if c = CHR ''~'' \<and> d = CHR ''0'' then CHR ''~'' # unescape s
      else c # unescape (d # s))"
| "unescape s = s"

definition pointer :: "string \<Rightarrow> string list option" where
  "pointer path =
     (case path of
        [] \<Rightarrow> Some []
      | c # s \<Rightarrow> if c = CHR ''/'' then Some (map unescape (split_on CHR ''/'' s)) else None)"

lemma escape_Nil [simp]: "escapeJSONPointer [] = []"
  by (simp add: escapeJSONPointer_def)

lemma escape_Cons:
  "escapeJSONPointer (c # s) =
     (if c = CHR ''~'' then ''~0'' else if c = CHR ''/'' then ''~1'' else [c]) @ escapeJSONPointer s"
  by (simp add: escapeJSONPointer_def)

lemma unescape_other: "c \<noteq> CHR ''~'' \<Longrightarrow> unescape (c # s) = c # unescape s"
  by (cases s) simp_all

lemma unescape_escape: "unescape (escapeJSONPointer s) = s"
  by (induction s) (auto simp: escape_Cons unescape_other)

lemma escape_no_slash: "CHR ''/'' \<notin> set (escapeJSONPointer s)"
  by (induction s) (auto simp: escape_Cons)

lemma escape_id: "CHR ''/'' \<notin> set s \<Longrightarrow> CHR ''~'' \<notin> set s \<Longrightarrow> escapeJSONPointer s = s"
  by (induction s) (auto simp: escape_Cons)

text \<open>The path made of these tokens.\<close>

fun path_of :: "string list \<Rightarrow> string" where
  "path_of [] = []"
| "path_of (t # ts) = ''/'' @ escapeJSONPointer t @ path_of ts"

lemma split_path:
  "CHR ''/'' \<notin> set t \<Longrightarrow> map unescape (split_on CHR ''/'' (t @ path_of ts)) = unescape t # ts"
proof (induction ts arbitrary: t)
  case Nil
  then show ?case by (simp add: split_on_no_sep)
next
  case (Cons u ts)
  then show ?case using split_on_append [of "CHR ''/''" t]
    by (simp add: escape_no_slash unescape_escape)
qed

lemma pointer_path: "ts \<noteq> [] \<Longrightarrow> pointer (path_of ts) = Some ts"
  using split_path [OF escape_no_slash] by (cases ts) (auto simp: pointer_def unescape_escape)

lemma path_of_append: "path_of (ts @ us) = path_of ts @ path_of us"
  by (induction ts) simp_all

section \<open>Array indices\<close>

definition digit_of :: "char \<Rightarrow> nat" where "digit_of c = of_char c - 48"

definition array_index :: "string \<Rightarrow> nat option" where
  "array_index s =
     (if s \<noteq> [] \<and> list_all (\<lambda>c. 48 \<le> (of_char c :: nat) \<and> (of_char c :: nat) \<le> 57) s \<and>
         (s = ''0'' \<or> hd s \<noteq> CHR ''0'')
      then Some (foldl (\<lambda>n c. 10 * n + digit_of c) 0 s) else None)"

lemma of_char_small: "n < 10 \<Longrightarrow> (of_char (char_of (48 + n) :: char) :: nat) = 48 + n" for n :: nat
  by (simp add: of_char_of take_bit_nat_def)

lemma show_nat_digits:
  "show_nat n \<noteq> [] \<and> list_all (\<lambda>c. 48 \<le> (of_char c :: nat) \<and> (of_char c :: nat) \<le> 57) (show_nat n) \<and>
     foldl (\<lambda>n c. 10 * n + digit_of c) 0 (show_nat n) = n \<and>
     (0 < n \<longrightarrow> hd (show_nat n) \<noteq> CHR ''0'')"
proof (induction n rule: show_nat.induct)
  case (1 n)
  show ?case
  proof (cases "n < 10")
    case True
    have "0 < n \<Longrightarrow> char_of (48 + n) \<noteq> CHR ''0''"
    proof
      assume "0 < n" "char_of (48 + n) = CHR ''0''"
      then have "(of_char (char_of (48 + n) :: char) :: nat) = of_char CHR ''0''" by simp
      then show False using True \<open>0 < n\<close> by (simp add: of_char_small)
    qed
    then show ?thesis using True by (simp add: show_nat.simps [of n] of_char_small digit_of_def)
  next
    case False
    have "0 < n div 10" "n mod 10 < 10" using False by (simp_all add: div_greater_zero_iff)
    then show ?thesis using 1 [OF False] False
      by (simp add: show_nat.simps [of n] of_char_small digit_of_def)
  qed
qed

lemma array_index_show [simp]: "array_index (show_nat n) = Some n"
proof (cases "0 < n")
  case True
  then show ?thesis using show_nat_digits [of n] by (simp add: array_index_def)
next
  case False
  then have "n = 0" by simp
  then show ?thesis by (simp add: array_index_def show_nat.simps [of 0] digit_of_def)
qed

lemma show_nat_inj: "show_nat m = show_nat n \<longleftrightarrow> m = n"
  using array_index_show by (metis option.inject)

lemma show_nat_plain: "CHR ''/'' \<notin> set (show_nat n)" "CHR ''~'' \<notin> set (show_nat n)"
  using show_nat_digits [of n] by (auto simp: list_all_iff)

section \<open>Documents\<close>

definition set_key :: "string \<Rightarrow> json \<Rightarrow> (string \<times> json) list \<Rightarrow> (string \<times> json) list" where
  "set_key k v kvs = filter (\<lambda>(k', _). k' \<noteq> k) kvs @ [(k, v)]"

definition del_key :: "string \<Rightarrow> (string \<times> json) list \<Rightarrow> (string \<times> json) list" where
  "del_key k kvs = filter (\<lambda>(k', _). k' \<noteq> k) kvs"

lemma lookup_append: "lookup (xs @ ys) k = (case lookup ys k of None \<Rightarrow> lookup xs k | Some v \<Rightarrow> Some v)"
  by (induction xs) (auto split: option.splits)

lemma lookup_del [simp]: "lookup (del_key k kvs) k' = (if k' = k then None else lookup kvs k')"
  unfolding del_key_def by (induction kvs) (auto split: option.splits)

lemma lookup_set [simp]: "lookup (set_key k v kvs) k' = (if k' = k then Some v else lookup kvs k')"
  using lookup_del [of k kvs k'] by (simp add: set_key_def del_key_def lookup_append)

fun child :: "string \<Rightarrow> json \<Rightarrow> json option" where
  "child k (JObj kvs) = lookup kvs k"
| "child k (JArr ds) = (case array_index k of
     None \<Rightarrow> None | Some i \<Rightarrow> if i < length ds then Some (ds ! i) else None)"
| "child k _ = None"

fun set_child :: "string \<Rightarrow> json \<Rightarrow> json \<Rightarrow> json" where
  "set_child k d (JObj kvs) = JObj (set_key k d kvs)"
| "set_child k d (JArr ds) = (case array_index k of None \<Rightarrow> JArr ds | Some i \<Rightarrow> JArr (ds[i := d]))"
| "set_child k d j = j"

fun get :: "string list \<Rightarrow> json \<Rightarrow> json option" where
  "get [] d = Some d"
| "get (k # ks) d = (case child k d of None \<Rightarrow> None | Some d' \<Rightarrow> get ks d')"

fun put :: "string list \<Rightarrow> json \<Rightarrow> json \<Rightarrow> json" where
  "put [] v d = v"
| "put (k # ks) v d = (case child k d of None \<Rightarrow> d | Some d' \<Rightarrow> set_child k (put ks v d') d)"

lemma child_set_same: "child k d \<noteq> None \<Longrightarrow> child k (set_child k v d) = Some v"
  by (cases d) (auto split: option.splits)

lemma child_set_other: "array_index k \<noteq> array_index k' \<or> (\<nexists>ds. d = JArr ds) \<Longrightarrow> k' \<noteq> k
    \<Longrightarrow> child k' (set_child k v d) = child k' d"
  by (cases d) (auto split: option.splits)

lemma get_append: "get (p @ q) d = (case get p d of None \<Rightarrow> None | Some d' \<Rightarrow> get q d')"
  by (induction p arbitrary: d) (auto split: option.splits)

lemma get_put_same: "get p d \<noteq> None \<Longrightarrow> get p (put p v d) = Some v"
  by (induction p arbitrary: d) (auto split: option.splits simp: child_set_same)

text \<open>Two paths that part at some point, at keys that are different keys of an object and, in an
  array, different indices.\<close>

fun apart :: "string list \<Rightarrow> string list \<Rightarrow> bool" where
  "apart (k # p) (l # q) \<longleftrightarrow>
     (if k = l then apart p q else array_index k = None \<or> array_index k \<noteq> array_index l)"
| "apart _ _ \<longleftrightarrow> False"

lemma array_index_child: "array_index k = None \<Longrightarrow> child k (JArr ds) = None"
  by simp

lemma get_put_apart: "apart p q \<Longrightarrow> get q (put p v d) = get q d"
proof (induction p q arbitrary: d rule: apart.induct)
  case (1 k p l q)
  show ?case
  proof (cases "k = l")
    case True
    then show ?thesis using 1 by (auto split: option.splits simp: child_set_same)
  next
    case False
    then have a: "array_index k = None \<or> array_index k \<noteq> array_index l" using 1(2) by simp
    have "child l (set_child k v' d) = child l d" for v'
      using a False by (cases d) (auto split: option.splits)
    then show ?thesis by (auto split: option.splits)
  qed
qed simp_all

section \<open>Patches\<close>

record Patch =
  pa_op :: string
  pa_path :: string
  pa_value :: "json option"

text \<open>One operation on the member a path ends at.\<close>

fun edit_member :: "string \<Rightarrow> json option \<Rightarrow> string \<Rightarrow> json \<Rightarrow> json option" where
  "edit_member opn v k (JObj kvs) =
     (if opn = ''add'' then map_option (\<lambda>x. JObj (set_key k x kvs)) v
      else if opn = ''replace'' \<and> lookup kvs k \<noteq> None then map_option (\<lambda>x. JObj (set_key k x kvs)) v
      else if opn = ''remove'' \<and> lookup kvs k \<noteq> None then Some (JObj (del_key k kvs))
      else None)"
| "edit_member opn v k (JArr ds) =
     (case (if opn = ''add'' \<and> k = ''-'' then Some (length ds) else array_index k) of
        None \<Rightarrow> None
      | Some i \<Rightarrow>
          if opn = ''add'' \<and> i \<le> length ds then map_option (\<lambda>x. JArr (take i ds @ x # drop i ds)) v
          else if opn = ''replace'' \<and> i < length ds then map_option (\<lambda>x. JArr (ds[i := x])) v
          else if opn = ''remove'' \<and> i < length ds then Some (JArr (take i ds @ drop (Suc i) ds))
          else None)"
| "edit_member opn v k _ = None"

fun edit :: "string \<Rightarrow> json option \<Rightarrow> string list \<Rightarrow> json \<Rightarrow> json option" where
  "edit opn v [] d = (if opn = ''add'' \<or> opn = ''replace'' then v else None)"
| "edit opn v [k] d = edit_member opn v k d"
| "edit opn v (k # l # ks) d =
     (case child k d of
        None \<Rightarrow> None
      | Some d' \<Rightarrow> map_option (\<lambda>x. set_child k x d) (edit opn v (l # ks) d'))"

definition apply_patch :: "Patch \<Rightarrow> json \<Rightarrow> json option" where
  "apply_patch p d = (case pointer (pa_path p) of None \<Rightarrow> None | Some ks \<Rightarrow> edit (pa_op p) (pa_value p) ks d)"

text \<open>The operations in their order; the first one that fails rejects the whole patch.\<close>

fun apply_patches :: "Patch list \<Rightarrow> json \<Rightarrow> json option" where
  "apply_patches [] d = Some d"
| "apply_patches (p # ps) d = (case apply_patch p d of None \<Rightarrow> None | Some d' \<Rightarrow> apply_patches ps d')"

lemma apply_patches_append:
  "apply_patches (ps @ qs) d = (case apply_patches ps d of None \<Rightarrow> None | Some d' \<Rightarrow> apply_patches qs d')"
  by (induction ps arbitrary: d) (auto split: option.splits)

lemma put_put: "put p v (put p w d) = put p v d"
proof (induction p arbitrary: d)
  case (Cons k p)
  have s: "set_child k x (set_child k y d) = set_child k x d" if "child k d \<noteq> None" for x y
    using that by (cases d) (auto split: option.splits simp: set_key_def)
  show ?case using Cons by (auto split: option.splits simp: child_set_same s)
qed simp

lemma edit_below:
  "q \<noteq> [] \<Longrightarrow> get p d = Some e \<Longrightarrow> edit opn v (p @ q) d = map_option (\<lambda>x. put p x d) (edit opn v q e)"
proof (induction p arbitrary: d)
  case Nil
  then show ?case by (simp add: option.map_ident)
next
  case (Cons k p)
  then obtain d' where d': "child k d = Some d'" "get p d' = Some e" by (auto split: option.splits)
  obtain l ks where lk: "p @ q = l # ks" using Cons(2) by (cases "p @ q") auto
  then show ?case using Cons(1) [OF Cons(2) d'(2)] d'
    by (simp add: option.map_comp comp_def)
qed

text \<open>A list of operations below one path changes the value there, as it would change it alone.\<close>

definition rel_patch :: "string \<Rightarrow> string list \<Rightarrow> json option \<Rightarrow> string \<Rightarrow> Patch" where
  "rel_patch opn q v base = \<lparr>pa_op = opn, pa_path = base @ path_of q, pa_value = v\<rparr>"

fun apply_rel :: "(string \<times> string list \<times> json option) list \<Rightarrow> json \<Rightarrow> json option" where
  "apply_rel [] d = Some d"
| "apply_rel ((opn, q, v) # rs) d = (case edit opn v q d of None \<Rightarrow> None | Some d' \<Rightarrow> apply_rel rs d')"

lemma apply_rel_patch:
  "q \<noteq> [] \<Longrightarrow> apply_patch (rel_patch opn q v (path_of p)) d = edit opn v (p @ q) d"
  by (simp add: apply_patch_def rel_patch_def path_of_append [symmetric] pointer_path)

lemma apply_below:
  assumes "\<forall>(opn, q, v) \<in> set rs. q \<noteq> []" "get p d = Some e" "apply_rel rs e = Some e'"
  shows "apply_patches (map (\<lambda>(opn, q, v). rel_patch opn q v (path_of p)) rs) d =
    Some (if rs = [] then d else put p e' d)"
  using assms
proof (induction rs arbitrary: d e)
  case (Cons r rs)
  obtain opn q v where r: "r = (opn, q, v)" by (cases r)
  then obtain f where f: "edit opn v q e = Some f" and rel: "apply_rel rs f = Some e'"
    using Cons(4) by (auto split: option.splits)
  have q: "q \<noteq> []" using Cons(2) r by simp
  have "apply_patch (rel_patch opn q v (path_of p)) d = Some (put p f d)"
    using edit_below [OF q Cons(3)] f apply_rel_patch [OF q] by simp
  moreover have "get p (put p f d) = Some f" using Cons(3) by (simp add: get_put_same)
  then have "apply_patches (map (\<lambda>(opn, q, v). rel_patch opn q v (path_of p)) rs) (put p f d) =
      Some (if rs = [] then put p f d else put p e' (put p f d))"
    using Cons(1) [of "put p f d" f] Cons(2) rel by simp
  moreover have "rs = [] \<Longrightarrow> f = e'" using rel by simp
  ultimately show ?case using r by (auto simp: put_put)
qed simp

end
