(* ===== verification/Disruption.thy ===== *)
theory Disruption
  imports Workloads Api GoRetry
begin

text \<open>
  Disruption windows (\<^verbatim>\<open>pkg/task/utils/disruptionwindow.go\<close>) and the task that lifts and
  restores what blocks the disruption of a workload
  (\<^verbatim>\<open>pkg/task/taskdisruptionforce.go\<close>). The cron parser is an argument: it maps an expression to
  the function \<open>Next\<close> of its schedule, or fails. So are \<^verbatim>\<open>intstr\<close>'s printing and parsing.
\<close>

section \<open>Windows\<close>

type_synonym cron_parser = "string \<Rightarrow> (go_time \<Rightarrow> go_time) option"

definition normalizeCronDOW7 :: "string \<Rightarrow> string" where
  "normalizeCronDOW7 expr =
     (let fields = Fields expr
      in if length fields \<noteq> 5 then expr
         else let dow = fields ! 4
              in if dow = ''*'' then expr
                 else let tokens = map (\<lambda>t. if t = ''7'' then ''0'' else t) (split_on CHR '','' dow)
                      in join_with '' '' (fields[4 := join_with '','' tokens]))"

definition InEvictionWindow :: "cron_parser \<Rightarrow> string \<Rightarrow> string \<Rightarrow> go_time \<Rightarrow> bool" where
  "InEvictionWindow parse startCron endCron tm \<longleftrightarrow>
     (if startCron = '''' \<or> endCron = '''' then False
      else case parse (normalizeCronDOW7 startCron) of
             None \<Rightarrow> False
           | Some startNext \<Rightarrow>
               (case parse (normalizeCronDOW7 endCron) of
                  None \<Rightarrow> False
                | Some endNext \<Rightarrow>
                    let nextStart = startNext tm; nextEnd = endNext tm
                    in nextEnd < nextStart \<or> nextEnd = nextStart))"

definition IsInAnyDisruptionWindow :: "cron_parser \<Rightarrow> go_time \<Rightarrow> DisruptionWindow list \<Rightarrow> bool" where
  "IsInAnyDisruptionWindow parse now windows \<longleftrightarrow>
     list_ex (\<lambda>w. InEvictionWindow parse (dw_StartCron w) (dw_EndCron w) now) windows"

datatype ReconcileState = StateIn | StateAboutToExit | StateOut

fun window_loop ::
    "cron_parser \<Rightarrow> go_time \<Rightarrow> go_time \<Rightarrow> DisruptionWindow list \<Rightarrow> bool \<times> bool \<Rightarrow> bool \<times> bool" where
  "window_loop parse now nextRun [] acc = acc"
| "window_loop parse now nextRun (w # ws) (inNow, inNext) =
     window_loop parse now nextRun ws
       (if InEvictionWindow parse (dw_StartCron w) (dw_EndCron w) now then True else inNow,
        if InEvictionWindow parse (dw_StartCron w) (dw_EndCron w) nextRun then True else inNext)"

definition computeStateFromWindows ::
    "cron_parser \<Rightarrow> go_time \<Rightarrow> int \<Rightarrow> DisruptionWindow list \<Rightarrow> ReconcileState" where
  "computeStateFromWindows parse now scheduleDuration windows =
     (let nextRun = now + scheduleDuration;
          (inNow, inNext) = window_loop parse now nextRun windows (False, False)
      in if inNow then (if inNext then StateIn else StateAboutToExit) else StateOut)"

section \<open>Environment of the task\<close>

record DisruptionEnv =
  de_reads :: "trace \<Rightarrow> KubeReads"
  de_reply :: reply
  de_recorder :: bool
  de_cron :: cron_parser
  de_String :: "IntOrString \<Rightarrow> string"
  de_Parse :: "string \<Rightarrow> IntOrString"
  de_retry :: "(trace \<times> bool) retrier"
  de_ClusterID :: string

section \<open>Disruption budgets\<close>

text \<open>The object after the reconciliation, and whether it must be written back.\<close>

definition applyPDBReconcileState ::
    "(IntOrString \<Rightarrow> string) \<Rightarrow> (string \<Rightarrow> IntOrString) \<Rightarrow> ReconcileState \<Rightarrow> PodDisruptionBudget
     \<Rightarrow> PodDisruptionBudget \<times> bool" where
  "applyPDBReconcileState print parse state pdb =
     (let anns = pdb_Annotations pdb in
      case state of
        StateIn \<Rightarrow>
          if anns AnnotationModified \<noteq> Some TrueValue
          then (case pdb_MaxUnavailable pdb of
                  Some v \<Rightarrow>
                    (pdb\<lparr>pdb_Annotations := anns(AnnotationPDBMaxUnavailable \<mapsto> print v,
                                                 AnnotationModified \<mapsto> TrueValue),
                         pdb_MaxUnavailable := Some (IsString ''100%'')\<rparr>, True)
                | None \<Rightarrow>
                    (case pdb_MinAvailable pdb of
                       Some v \<Rightarrow>
                         (pdb\<lparr>pdb_Annotations := anns(AnnotationPDBMinAvailable \<mapsto> print v,
                                                      AnnotationModified \<mapsto> TrueValue),
                              pdb_MinAvailable := Some (IsInt 0)\<rparr>, True)
                     | None \<Rightarrow> (pdb, False)))
          else (pdb, False)
      | _ \<Rightarrow>
          if anns AnnotationModified = Some TrueValue
          then let cleared = anns(AnnotationPDBMaxUnavailable := None,
                                  AnnotationPDBMinAvailable := None, AnnotationModified := None)
               in (case anns AnnotationPDBMaxUnavailable of
                     Some saved \<Rightarrow>
                       (pdb\<lparr>pdb_Annotations := cleared, pdb_MaxUnavailable := Some (parse saved),
                            pdb_MinAvailable := None\<rparr>, True)
                   | None \<Rightarrow>
                       (case anns AnnotationPDBMinAvailable of
                          Some saved \<Rightarrow>
                            (pdb\<lparr>pdb_Annotations := cleared, pdb_MinAvailable := Some (parse saved),
                                 pdb_MaxUnavailable := None\<rparr>, True)
                        | None \<Rightarrow> (pdb, False)))
          else (pdb, False))"

definition pdb_attempt :: "DisruptionEnv \<Rightarrow> string \<Rightarrow> string \<Rightarrow> ReconcileState \<Rightarrow> (trace \<times> bool) retried" where
  "pdb_attempt env ns name state = (\<lambda>(tr, updated).
     case kr_getPDB (de_reads env tr) ns name of
       Inl e \<Rightarrow> (Some (wrap (''get PDB '' @ ns @ ''/'' @ name @ '': '') e), (tr, updated))
     | Inr cur \<Rightarrow>
         let (cur, modified) = applyPDBReconcileState (de_String env) (de_Parse env) state cur
         in if \<not> modified then (None, (tr, updated))
            else case de_reply env tr (ActUpdatePDB cur) of
                   Some e \<Rightarrow> (Some (wrap (''update PDB '' @ ns @ ''/'' @ name @ '': '') e),
                              (tr @ [ActUpdatePDB cur], updated))
                 | None \<Rightarrow> (None, (tr @ [ActUpdatePDB cur], True)))"

definition pdb_event :: "ReconcileState \<Rightarrow> string \<Rightarrow> string \<Rightarrow> AuditEvent" where
  "pdb_event state ns name =
     \<lparr>ae_Type = EventTypeNormal,
      ae_Category = (if state = StateIn then ''PDB_RELAXED'' else ''PDB_RESTORED''),
      ae_Message = ''PDB '' @ ns @ ''/'' @ name @
        (if state = StateIn then '' relaxed for disruption window'' else '' restored after disruption window''),
      ae_Target = [(''kind'', ''PodDisruptionBudget''), (''namespace'', ns), (''name'', name)],
      ae_Details = []\<rparr>"

definition reconcilePDB ::
    "DisruptionEnv \<Rightarrow> PodDisruptionBudget \<Rightarrow> ReconcileState \<Rightarrow> trace \<Rightarrow> (api_error + bool) \<times> trace" where
  "reconcilePDB env pdb state tr =
     (let ns = pdb_Namespace pdb; name = pdb_Name pdb
      in case de_retry env (pdb_attempt env ns name state) (tr, False) of
           (Some e, (tr, updated)) \<Rightarrow> (Inl (wrap (''reconcile PDB '' @ ns @ ''/'' @ name @ '': '') e), tr)
         | (None, (tr, updated)) \<Rightarrow>
             (Inr updated, if updated then record_audit (de_recorder env) (pdb_event state ns name) tr else tr))"

section \<open>Pods\<close>

definition hasBlockingAnnotations :: "string_map \<Rightarrow> bool" where
  "hasBlockingAnnotations anns \<longleftrightarrow>
     list_ex (\<lambda>(key, expected). case anns key of
                None \<Rightarrow> False | Some v \<Rightarrow> EqualFold v expected) doNotDisruptAnnotations"

fun delete_keys :: "string list \<Rightarrow> string_map \<Rightarrow> bool \<Rightarrow> string_map \<times> bool" where
  "delete_keys [] anns modified = (anns, modified)"
| "delete_keys (k # ks) anns modified =
     (if anns k \<noteq> None then delete_keys ks (anns(k := None)) True else delete_keys ks anns modified)"

fun copy_keys :: "string list \<Rightarrow> string_map \<Rightarrow> string_map \<Rightarrow> string_map" where
  "copy_keys [] spec anns = anns"
| "copy_keys (k # ks) spec anns =
     (case spec k of None \<Rightarrow> copy_keys ks spec anns | Some v \<Rightarrow> copy_keys ks spec (anns(k \<mapsto> v)))"

definition dnd_keys :: "string list" where
  "dnd_keys = map fst doNotDisruptAnnotations"

text \<open>
  The annotations of a pod after the reconciliation, and whether the pod must be written back;
  \<open>spec\<close> are the annotations of the workload's template, read when blocks are restored.
\<close>

definition reconcile_annotations ::
    "string_map \<Rightarrow> ReconcileState \<Rightarrow> string_map \<Rightarrow> string_map \<times> bool" where
  "reconcile_annotations spec state anns =
     (case state of
        StateIn \<Rightarrow>
          if anns AnnotationModified \<noteq> Some TrueValue
          then let (anns, modified) = delete_keys dnd_keys anns False
               in (if modified then anns(AnnotationModified \<mapsto> TrueValue) else anns, modified)
          else (anns, False)
      | _ \<Rightarrow>
          if anns AnnotationModified = Some TrueValue
          then ((copy_keys dnd_keys spec anns)(AnnotationModified := None), True)
          else (anns, False))"

definition pod_event :: "ReconcileState \<Rightarrow> WorkloadInfo \<Rightarrow> Pod \<Rightarrow> AuditEvent" where
  "pod_event state info pod =
     \<lparr>ae_Type = EventTypeNormal,
      ae_Category = (if state = StateIn then ''POD_DISRUPTION_BLOCK_REMOVED''
                     else ''POD_DISRUPTION_BLOCK_RESTORED''),
      ae_Message = (if state = StateIn then ''DND annotations removed for disruption window for pod ''
                    else ''DND annotations restored after disruption window for pod '') @
                   p_Namespace pod @ ''/'' @ p_Name pod,
      ae_Target = [(''kind'', p_Kind pod), (''namespace'', p_Namespace pod), (''name'', p_Name pod)],
      ae_Details = [(''workloadId'', AStr (GetWorkloadKey (wi_Kind info) (wi_Namespace info) (wi_Name info))),
                    (''node'', AStr (p_NodeName pod))]\<rparr>"

definition reconcilePod ::
    "DisruptionEnv \<Rightarrow> Pod \<Rightarrow> WorkloadInfo \<Rightarrow> ReconcileState \<Rightarrow> trace \<Rightarrow> (api_error + bool) \<times> trace" where
  "reconcilePod env pod info state tr =
     (let finish = (\<lambda>spec.
        let (anns, modified) = reconcile_annotations spec state (p_Annotations pod);
            pod = pod\<lparr>p_Annotations := anns\<rparr>
        in if \<not> modified then (Inr False, tr)
           else case de_reply env tr (ActUpdatePod pod) of
                  Some e \<Rightarrow> (Inl (wrap ''failed to update pod: '' e), tr @ [ActUpdatePod pod])
                | None \<Rightarrow>
                    (Inr True,
                     record_audit (de_recorder env) (pod_event state info pod) (tr @ [ActUpdatePod pod])))
      in if state \<noteq> StateIn \<and> p_Annotations pod AnnotationModified = Some TrueValue
         then (case GetWorkloadPodSpec (de_reads env tr) info of
                 Inl e \<Rightarrow> (Inl (wrap ''failed to get workload pod spec: '' e), tr)
               | Inr spec \<Rightarrow> finish (pt_Annotations spec))
         else finish Map.empty)"

section \<open>The task\<close>

definition updateDisruptionWindowMetadata ::
    "DisruptionEnv \<Rightarrow> WorkloadInCluster \<Rightarrow> WorkloadStat \<Rightarrow> bool \<Rightarrow> trace \<Rightarrow> trace" where
  "updateDisruptionWindowMetadata env w stat inDisruptionWindow tr =
     (let md = (case ws_Metadata stat of None \<Rightarrow> empty_metadata | Some m \<Rightarrow> m)
      in if md_InDisruptionWindow md = inDisruptionWindow then tr
         else tr @ [ActUpsertStat (de_ClusterID env) (wk_WorkloadID w)
                      (stat\<lparr>ws_Metadata := Some (md\<lparr>md_InDisruptionWindow := inDisruptionWindow\<rparr>)\<rparr>)
                      (wk_GeneratedAt w)])"

fun group_pdbs ::
    "PodDisruptionBudget list \<Rightarrow> (string \<rightharpoonup> PodDisruptionBudget list)
     \<Rightarrow> (string \<rightharpoonup> PodDisruptionBudget list)" where
  "group_pdbs [] m = m"
| "group_pdbs (p # ps) m = group_pdbs ps (m(pdb_Namespace p \<mapsto> cached m (pdb_Namespace p) @ [p]))"

definition effective_state ::
    "DisruptionEnv \<Rightarrow> go_time \<Rightarrow> int \<Rightarrow> WorkloadInCluster \<Rightarrow> ReconcileState" where
  "effective_state env now scheduleDuration w =
     (case wk_Overrides w of
        None \<Rightarrow> StateOut
      | Some overrides \<Rightarrow>
          if length (ov_DisruptionWindows overrides) > 0
          then computeStateFromWindows (de_cron env) now scheduleDuration (ov_DisruptionWindows overrides)
          else StateOut)"

fun reconcile_pdbs ::
    "DisruptionEnv \<Rightarrow> ReconcileState \<Rightarrow> PodDisruptionBudget list \<Rightarrow> trace \<Rightarrow> trace" where
  "reconcile_pdbs env state [] tr = tr"
| "reconcile_pdbs env state (pdb # pdbs) tr =
     reconcile_pdbs env state pdbs (snd (reconcilePDB env pdb state tr))"

fun reconcile_pods ::
    "DisruptionEnv \<Rightarrow> WorkloadInfo \<Rightarrow> ReconcileState \<Rightarrow> Pod list \<Rightarrow> trace \<Rightarrow> trace" where
  "reconcile_pods env info state [] tr = tr"
| "reconcile_pods env info state (pod # pods) tr =
     (let hasModifiedMarker = (p_Annotations pod AnnotationModified = Some TrueValue)
      in if \<not> hasBlockingAnnotations (p_Annotations pod) \<and> \<not> hasModifiedMarker
         then reconcile_pods env info state pods tr
         else reconcile_pods env info state pods (snd (reconcilePod env pod info state tr)))"

definition reconcile_workload ::
    "DisruptionEnv \<Rightarrow> go_time \<Rightarrow> int \<Rightarrow> (string \<rightharpoonup> PodDisruptionBudget list) \<Rightarrow> WorkloadInCluster
     \<Rightarrow> trace \<Rightarrow> trace" where
  "reconcile_workload env now scheduleDuration pdbsByNamespace w tr =
     (case wk_Stat w of None \<Rightarrow> tr
      | Some stat \<Rightarrow>
     (case ws_Constraints stat of None \<Rightarrow> tr
      | Some constraints \<Rightarrow>
          if \<not> wc_BlockingConsolidation constraints then tr
          else
            let state = effective_state env now scheduleDuration w;
                tr = updateDisruptionWindowMetadata env w stat (state \<noteq> StateOut) tr;
                info = \<lparr>wi_Kind = ws_Kind stat, wi_Namespace = ws_Namespace stat, wi_Name = ws_Name stat\<rparr>
            in case GetWorkloadObject (de_reads env tr) (ws_Kind stat) (ws_Namespace stat) (ws_Name stat) of
                 Inl e \<Rightarrow> tr
               | Inr obj \<Rightarrow>
                   let tr = (if wc_PDB constraints
                             then reconcile_pdbs env state
                                    (FindMatchingPDBs (pt_Labels (GetPodTemplateSpec obj))
                                       (cached pdbsByNamespace (ws_Namespace stat))) tr
                             else tr)
                   in if \<not> wc_DoNotDisruptAnnotation constraints then tr
                      else (case GetSelector obj of
                              Inl e \<Rightarrow> tr
                            | Inr selector \<Rightarrow>
                                (case GetPods (de_reads env tr) (ws_Namespace stat) selector of
                                   Inl e \<Rightarrow> tr
                                 | Inr pods \<Rightarrow> reconcile_pods env info state pods tr))))"

fun reconcile_workloads ::
    "DisruptionEnv \<Rightarrow> go_time \<Rightarrow> int \<Rightarrow> (string \<rightharpoonup> PodDisruptionBudget list) \<Rightarrow> WorkloadInCluster list
     \<Rightarrow> trace \<Rightarrow> trace" where
  "reconcile_workloads env now dur pdbs [] tr = tr"
| "reconcile_workloads env now dur pdbs (w # ws) tr =
     reconcile_workloads env now dur pdbs ws (reconcile_workload env now dur pdbs w tr)"

text \<open>
  The run of the task: \<open>schedule\<close> is the parsed schedule (\<open>None\<close> when \<^verbatim>\<open>time.ParseDuration\<close>
  refuses it), \<open>workloads\<close> what the storage returns.
\<close>

definition DisruptionForce_Run ::
    "DisruptionEnv \<Rightarrow> go_time \<Rightarrow> int option \<Rightarrow> api_error + WorkloadInCluster list
     \<Rightarrow> api_error option \<times> trace" where
  "DisruptionForce_Run env now schedule workloads =
     (case schedule of
        None \<Rightarrow> (Some (Other ''failed to parse task schedule''), [])
      | Some scheduleDuration \<Rightarrow>
          (case workloads of
             Inl e \<Rightarrow> (Some (wrap ''failed to get workloads: '' e), [])
           | Inr ws \<Rightarrow>
               (case kr_PDBs (de_reads env []) '''' of
                  Inl e \<Rightarrow> (Some (wrap ''failed to list PDBs: '' e), [])
                | Inr allPDBs \<Rightarrow>
                    (None, reconcile_workloads env now scheduleDuration (group_pdbs allPDBs Map.empty) ws []))))"

section \<open>Lifting and restoring as a toggle\<close>

text \<open>
  What budgets and pods have in common: entering a window lifts the block and leaves a mark,
  leaving it restores the object and removes the mark, and nothing else happens.
\<close>

locale disruption_toggle =
  fixes step :: "ReconcileState \<Rightarrow> 'o \<Rightarrow> 'o \<times> bool"
    and marked :: "'o \<Rightarrow> bool" and adm :: "'o \<Rightarrow> bool"
  assumes unchanged: "\<not> snd (step s x) \<Longrightarrow> fst (step s x) = x"
    and marks: "snd (step StateIn x) \<Longrightarrow> \<not> marked x \<and> marked (fst (step StateIn x))"
    and unmarks: "s \<noteq> StateIn \<Longrightarrow> snd (step s x) \<Longrightarrow> marked x \<and> \<not> marked (fst (step s x))"
    and restores: "adm x \<Longrightarrow> \<not> marked x \<Longrightarrow> snd (step StateIn x) \<Longrightarrow> s \<noteq> StateIn
      \<Longrightarrow> step s (fst (step StateIn x)) = (x, True)"
begin

lemma idempotent: "step s (fst (step s x)) = (fst (step s x), False)"
proof (cases "snd (step s x)")
  case True
  then have "\<not> snd (step s (fst (step s x)))"
    using marks unmarks by (cases "s = StateIn") blast+
  then show ?thesis using unchanged by (metis prod.collapse)
next
  case False
  then show ?thesis using unchanged by (metis prod.collapse)
qed

lemma unmarked_out: "s \<noteq> StateIn \<Longrightarrow> \<not> marked x \<Longrightarrow> step s x = (x, False)"
  using unmarks unchanged by (metis prod.collapse)

text \<open>Whatever the sequence of windows, the object is as it was or as lifting leaves it; outside
  a window it is as it was.\<close>

lemma run_two_states:
  assumes "adm x" "\<not> marked x"
  shows "foldl (\<lambda>y s. fst (step s y)) x ss \<in> {x, fst (step StateIn x)}"
proof (induction ss rule: rev_induct)
  case (snoc s ss)
  let ?y = "foldl (\<lambda>y s. fst (step s y)) x ss"
  show ?case
  proof (cases "s = StateIn")
    case True
    then show ?thesis using snoc idempotent [of StateIn x] by auto
  next
    case False
    have a: "fst (step s x) = x" using unmarked_out [OF False assms(2)] by simp
    have b: "fst (step s (fst (step StateIn x))) = x"
    proof (cases "snd (step StateIn x)")
      case True
      then show ?thesis using restores [OF assms True False] by simp
    next
      case False
      then show ?thesis using unchanged a by simp
    qed
    show ?thesis using snoc a b by auto
  qed
qed simp

lemma run_ends_restored:
  assumes "adm x" "\<not> marked x" "s \<noteq> StateIn"
  shows "foldl (\<lambda>y s. fst (step s y)) x (ss @ [s]) = x"
proof -
  let ?y = "foldl (\<lambda>y s. fst (step s y)) x ss"
  have "?y = x \<or> ?y = fst (step StateIn x)" using run_two_states [OF assms(1,2), of ss] by blast
  moreover have a: "fst (step s x) = x" using unmarked_out [OF assms(3,2)] by simp
  moreover have "fst (step s (fst (step StateIn x))) = x"
    using restores [OF assms(1,2) _ assms(3)] unchanged [of StateIn x] a
    by (cases "snd (step StateIn x)") auto
  ultimately show ?thesis by auto
qed

lemma run_last:
  assumes "adm x" "\<not> marked x" "ss \<noteq> []" "last ss \<noteq> StateIn"
  shows "foldl (\<lambda>y s. fst (step s y)) x ss = x"
  using run_ends_restored [OF assms(1,2,4), of "butlast ss"] assms(3) by (simp del: foldl_append)

end

definition pdb_marked :: "PodDisruptionBudget \<Rightarrow> bool" where
  "pdb_marked pdb \<longleftrightarrow> pdb_Annotations pdb AnnotationModified = Some TrueValue"

text \<open>
  A budget as Kubernetes admits it (one of the two bounds) whose value survives printing and
  parsing and which carries none of the program's annotations.
\<close>

definition pdb_clean :: "(IntOrString \<Rightarrow> string) \<Rightarrow> (string \<Rightarrow> IntOrString) \<Rightarrow> PodDisruptionBudget \<Rightarrow> bool" where
  "pdb_clean print parse pdb \<longleftrightarrow>
     pdb_Annotations pdb AnnotationModified = None \<and>
     pdb_Annotations pdb AnnotationPDBMaxUnavailable = None \<and>
     pdb_Annotations pdb AnnotationPDBMinAvailable = None \<and>
     (case pdb_MaxUnavailable pdb of
        Some v \<Rightarrow> pdb_MinAvailable pdb = None \<and> parse (print v) = v
      | None \<Rightarrow> (case pdb_MinAvailable pdb of None \<Rightarrow> True | Some v \<Rightarrow> parse (print v) = v))"

lemma annotation_keys_distinct:
  "AnnotationModified \<noteq> AnnotationPDBMaxUnavailable" "AnnotationModified \<noteq> AnnotationPDBMinAvailable"
  "AnnotationPDBMaxUnavailable \<noteq> AnnotationPDBMinAvailable" "AnnotationModified \<notin> set dnd_keys"
  by (simp_all add: AnnotationModified_def AnnotationPDBMaxUnavailable_def AnnotationPDBMinAvailable_def
      dnd_keys_def doNotDisruptAnnotations_def)

lemmas annotation_keys = annotation_keys_distinct annotation_keys_distinct(1-3) [symmetric]

lemma state_cases: "s \<noteq> StateIn \<Longrightarrow> s = StateAboutToExit \<or> s = StateOut"
  by (cases s) auto

lemma map_eqI: "(\<And>k. m k = n k) \<Longrightarrow> m = n"
  by (rule ext)

lemma pdb_restores:
  assumes "pdb_clean print parse x" "\<not> pdb_marked x"
    "snd (applyPDBReconcileState print parse StateIn x)" "s \<noteq> StateIn"
  shows "applyPDBReconcileState print parse s (fst (applyPDBReconcileState print parse StateIn x)) = (x, True)"
proof (cases "pdb_MaxUnavailable x")
  case (Some v)
  have "(pdb_Annotations x)(AnnotationPDBMinAvailable := None, AnnotationPDBMaxUnavailable := None,
      AnnotationModified := None) = pdb_Annotations x"
    using assms(1) by (auto simp: pdb_clean_def)
  then show ?thesis
    using Some assms(1,2) state_cases [OF assms(4)]
    by (auto simp: applyPDBReconcileState_def pdb_clean_def pdb_marked_def Let_def annotation_keys
        fun_upd_twist)
next
  case None
  then obtain v where v: "pdb_MinAvailable x = Some v"
    using assms(3) by (auto simp: applyPDBReconcileState_def Let_def split: if_splits option.splits)
  have "(pdb_Annotations x)(AnnotationPDBMaxUnavailable := None, AnnotationPDBMinAvailable := None,
      AnnotationModified := None) = pdb_Annotations x"
    using assms(1) by (auto simp: pdb_clean_def)
  then show ?thesis
    using None v assms(1,2) state_cases [OF assms(4)]
    by (auto simp: applyPDBReconcileState_def pdb_clean_def pdb_marked_def Let_def annotation_keys
        fun_upd_twist)
qed

interpretation pdb: disruption_toggle "applyPDBReconcileState print parse" pdb_marked "pdb_clean print parse"
  for print parse
proof
  fix s x
  show "\<not> snd (applyPDBReconcileState print parse s x) \<Longrightarrow> fst (applyPDBReconcileState print parse s x) = x"
    by (auto simp: applyPDBReconcileState_def Let_def split: ReconcileState.splits option.splits if_splits)
  show "snd (applyPDBReconcileState print parse StateIn x) \<Longrightarrow>
      \<not> pdb_marked x \<and> pdb_marked (fst (applyPDBReconcileState print parse StateIn x))"
    by (auto simp: applyPDBReconcileState_def pdb_marked_def Let_def split: option.splits if_splits)
  show "s \<noteq> StateIn \<Longrightarrow> snd (applyPDBReconcileState print parse s x) \<Longrightarrow>
      pdb_marked x \<and> \<not> pdb_marked (fst (applyPDBReconcileState print parse s x))"
    by (cases s) (auto simp: applyPDBReconcileState_def pdb_marked_def Let_def split: option.splits if_splits)
qed (rule pdb_restores)

section \<open>Pods as a toggle\<close>

definition anns_marked :: "string_map \<Rightarrow> bool" where
  "anns_marked anns \<longleftrightarrow> anns AnnotationModified = Some TrueValue"

text \<open>The pod has the template's blocking annotations and not the program's mark.\<close>

definition anns_clean :: "string_map \<Rightarrow> string_map \<Rightarrow> bool" where
  "anns_clean spec anns \<longleftrightarrow> anns AnnotationModified = None \<and> (\<forall>k \<in> set dnd_keys. anns k = spec k)"

lemma delete_keys_eq:
  "delete_keys ks anns m = (anns |` (- set ks), m \<or> (\<exists>k \<in> set ks. anns k \<noteq> None))"
proof (induction ks arbitrary: anns m)
  case (Cons k ks)
  show ?case
  proof (cases "anns k")
    case None
    then have "anns |` (- set (k # ks)) = anns |` (- set ks)" by (auto simp: restrict_map_def)
    then show ?thesis using Cons None by auto
  next
    case (Some v)
    have e: "(anns(k := None)) |` (- set ks) = anns |` (- set (k # ks))" by (auto simp: restrict_map_def)
    have "delete_keys (k # ks) anns m = delete_keys ks (anns(k := None)) True" using Some by simp
    also have "\<dots> = (anns |` (- set (k # ks)), True)" unfolding Cons.IH e by simp
    finally show ?thesis using Some by auto
  qed
qed (simp add: restrict_map_def)

lemma copy_keys_lookup:
  "copy_keys ks spec anns k = (if k \<in> set ks \<and> spec k \<noteq> None then spec k else anns k)"
  by (induction ks arbitrary: anns) (auto split: option.splits)

lemma anns_restores:
  assumes "anns_clean spec x" "\<not> anns_marked x"
    "snd (reconcile_annotations spec StateIn x)" "s \<noteq> StateIn"
  shows "reconcile_annotations spec s (fst (reconcile_annotations spec StateIn x)) = (x, True)"
proof -
  let ?y = "(x |` (- set dnd_keys))(AnnotationModified \<mapsto> TrueValue)"
  have y: "fst (reconcile_annotations spec StateIn x) = ?y"
    using assms(2,3) by (auto simp: reconcile_annotations_def delete_keys_eq anns_marked_def split: if_splits)
  have "(copy_keys dnd_keys spec ?y)(AnnotationModified := None) = x"
  proof
    fix k
    show "((copy_keys dnd_keys spec ?y)(AnnotationModified := None)) k = x k"
      using assms(1) by (auto simp: copy_keys_lookup anns_clean_def restrict_map_def annotation_keys)
  qed
  then show ?thesis using y state_cases [OF assms(4)] by (auto simp: reconcile_annotations_def)
qed

interpretation pod: disruption_toggle "reconcile_annotations spec" anns_marked "anns_clean spec" for spec
proof
  fix s x
  show "\<not> snd (reconcile_annotations spec s x) \<Longrightarrow> fst (reconcile_annotations spec s x) = x"
    by (cases s) (auto simp: reconcile_annotations_def delete_keys_eq restrict_map_def
        intro!: ext split: if_splits)
  show "snd (reconcile_annotations spec StateIn x) \<Longrightarrow>
      \<not> anns_marked x \<and> anns_marked (fst (reconcile_annotations spec StateIn x))"
    by (auto simp: reconcile_annotations_def anns_marked_def delete_keys_eq split: if_splits)
  show "s \<noteq> StateIn \<Longrightarrow> snd (reconcile_annotations spec s x) \<Longrightarrow>
      anns_marked x \<and> \<not> anns_marked (fst (reconcile_annotations spec s x))"
    by (cases s) (auto simp: reconcile_annotations_def anns_marked_def split: if_splits)
qed (rule anns_restores)

section \<open>What a run writes\<close>

text \<open>
  The calls made from a trace on, each with the trace before it: \<open>Q t a\<close> says what holds of the
  call \<open>a\<close> made after \<open>t\<close>.
\<close>

inductive emits :: "(trace \<Rightarrow> action \<Rightarrow> bool) \<Rightarrow> trace \<Rightarrow> trace \<Rightarrow> bool" for Q where
  emits_nil: "emits Q tr tr"
| emits_call: "emits Q tr t \<Longrightarrow> Q t a \<Longrightarrow> emits Q tr (t @ [a])"

lemma emits_trans: "emits Q m out \<Longrightarrow> emits Q tr m \<Longrightarrow> emits Q tr out"
  by (induction rule: emits.induct) (auto intro: emits.intros)

lemma emits_prefix: "emits Q tr out \<Longrightarrow> prefix tr out"
  by (induction rule: emits.induct) auto

lemma emits_mono:
  "emits Q tr out \<Longrightarrow> (\<And>t a. prefix tr t \<Longrightarrow> Q t a \<Longrightarrow> Q' t a) \<Longrightarrow> emits Q' tr out"
  by (induction rule: emits.induct) (auto intro: emits.intros dest: emits_prefix)

lemma emits_split: "emits Q tr out \<Longrightarrow> out = t @ a # r \<Longrightarrow> length tr \<le> length t \<Longrightarrow> Q t a"
proof (induction arbitrary: r rule: emits.induct)
  case (emits_call tr m b)
  show ?case
  proof (cases r rule: rev_cases)
    case Nil
    then show ?thesis using emits_call by simp
  next
    case (snoc r' c)
    then show ?thesis using emits_call by simp
  qed
qed simp

text \<open>A budget of the workload: the selector of one in its namespace matches the labels of its pods;
  it is written as the task transforms what it reads just before.\<close>

definition pdb_write ::
    "DisruptionEnv \<Rightarrow> ReconcileState \<Rightarrow> (string \<rightharpoonup> PodDisruptionBudget list) \<Rightarrow> WorkloadStat
     \<Rightarrow> trace \<Rightarrow> PodDisruptionBudget \<Rightarrow> bool" where
  "pdb_write env state pdbs stat t q \<longleftrightarrow>
     (\<exists>t0 obj pdb cur. prefix t0 t \<and>
        GetWorkloadObject (de_reads env t0) (ws_Kind stat) (ws_Namespace stat) (ws_Name stat) = Inr obj \<and>
        pdb \<in> set (FindMatchingPDBs (pt_Labels (GetPodTemplateSpec obj)) (cached pdbs (ws_Namespace stat))) \<and>
        kr_getPDB (de_reads env t) (pdb_Namespace pdb) (pdb_Name pdb) = Inr cur \<and>
        applyPDBReconcileState (de_String env) (de_Parse env) state cur = (q, True))"

text \<open>A pod of the workload: one its selector lists, with its annotations transformed.\<close>

definition pod_write ::
    "DisruptionEnv \<Rightarrow> ReconcileState \<Rightarrow> WorkloadStat \<Rightarrow> trace \<Rightarrow> Pod \<Rightarrow> bool" where
  "pod_write env state stat t q \<longleftrightarrow>
     (\<exists>t0 t1 obj selector pods pod spec anns. prefix t0 t1 \<and> prefix t1 t \<and>
        GetWorkloadObject (de_reads env t0) (ws_Kind stat) (ws_Namespace stat) (ws_Name stat) = Inr obj \<and>
        GetSelector obj = Inr selector \<and>
        GetPods (de_reads env t1) (ws_Namespace stat) selector = Inr pods \<and> pod \<in> set pods \<and>
        reconcile_annotations spec state (p_Annotations pod) = (anns, True) \<and>
        q = pod\<lparr>p_Annotations := anns\<rparr>)"

text \<open>Every write of a run, with the workload it is made for.\<close>

definition disruption_write ::
    "DisruptionEnv \<Rightarrow> ReconcileState \<Rightarrow> (string \<rightharpoonup> PodDisruptionBudget list) \<Rightarrow> WorkloadInCluster
     \<Rightarrow> trace \<Rightarrow> action \<Rightarrow> bool" where
  "disruption_write env state pdbs w t a \<longleftrightarrow>
     (\<exists>stat c. wk_Stat w = Some stat \<and> ws_Constraints stat = Some c \<and> wc_BlockingConsolidation c \<and>
       (\<forall>q. a = ActUpdatePDB q \<longrightarrow> wc_PDB c \<and> pdb_write env state pdbs stat t q) \<and>
       (\<forall>q. a = ActUpdatePod q \<longrightarrow> wc_DoNotDisruptAnnotation c \<and> pod_write env state stat t q))"

lemma reconcilePDB_emits:
  assumes "conflict_retry (de_retry env)"
  shows "emits (\<lambda>t a. (\<exists>ev. a = ActAudit ev) \<or>
      (\<exists>q cur. a = ActUpdatePDB q \<and> kr_getPDB (de_reads env t) (pdb_Namespace pdb) (pdb_Name pdb) = Inr cur \<and>
         applyPDBReconcileState (de_String env) (de_Parse env) state cur = (q, True)))
    tr (snd (reconcilePDB env pdb state tr))" (is "emits ?Q tr _")
proof -
  let ?f = "pdb_attempt env (pdb_Namespace pdb) (pdb_Name pdb) state"
  define P where "P = (\<lambda>(t, u :: bool). emits ?Q tr t)"
  have step: "P s \<Longrightarrow> P (snd (?f s))" for s
    by (cases s) (auto simp: P_def pdb_attempt_def Let_def intro: emits_call
        split: sum.splits prod.splits option.splits)
  have "P (snd (de_retry env ?f (tr, False)))"
    using conflict_retry.preserves [OF assms(1), of P "(tr, False)" ?f] step
    by (simp add: P_def emits_nil)
  then show ?thesis
    by (auto simp: reconcilePDB_def P_def Let_def record_audit_def intro: emits_call
        split: prod.splits option.splits if_splits)
qed

lemma reconcilePod_emits:
  "emits (\<lambda>t a. (\<exists>ev. a = ActAudit ev) \<or>
      (\<exists>spec anns. a = ActUpdatePod (pod\<lparr>p_Annotations := anns\<rparr>) \<and>
         reconcile_annotations spec state (p_Annotations pod) = (anns, True)))
    tr (snd (reconcilePod env pod info state tr))" (is "emits ?Q tr _")
proof -
  have w: "emits ?Q tr (tr @ [ActUpdatePod (pod\<lparr>p_Annotations := anns\<rparr>)])"
    if "reconcile_annotations spec state (p_Annotations pod) = (anns, True)" for spec anns
    by (rule emits_call [OF emits_nil]) (use that in blast)
  have au: "emits ?Q tr (record_audit b ev t)" if "emits ?Q tr t" for t b ev
    using that emits_call [OF that, of "ActAudit ev"] by (simp add: record_audit_def)
  show ?thesis
  proof (cases "state \<noteq> StateIn \<and> p_Annotations pod AnnotationModified = Some TrueValue")
    case True
    show ?thesis
    proof (cases "GetWorkloadPodSpec (de_reads env tr) info")
      case (Inr spec)
      obtain anns m where r: "reconcile_annotations (pt_Annotations spec) state (p_Annotations pod) = (anns, m)"
        by (cases "reconcile_annotations (pt_Annotations spec) state (p_Annotations pod)")
      show ?thesis using True Inr r w [of "pt_Annotations spec" anns] au
        by (simp add: reconcilePod_def Let_def emits_nil split: option.split)
    qed (use True in \<open>simp add: reconcilePod_def Let_def emits_nil\<close>)
  next
    case False
    obtain anns m where r: "reconcile_annotations Map.empty state (p_Annotations pod) = (anns, m)"
      by (cases "reconcile_annotations Map.empty state (p_Annotations pod)")
    show ?thesis unfolding reconcilePod_def Let_def if_not_P [OF False]
      using r w [of Map.empty anns] au by (simp add: emits_nil split: option.split)
  qed
qed

lemma reconcile_pdbs_emits:
  assumes "conflict_retry (de_retry env)"
  shows "emits (\<lambda>t a. (\<exists>ev. a = ActAudit ev) \<or>
      (\<exists>pdb \<in> set pdbs. \<exists>q cur. a = ActUpdatePDB q \<and>
         kr_getPDB (de_reads env t) (pdb_Namespace pdb) (pdb_Name pdb) = Inr cur \<and>
         applyPDBReconcileState (de_String env) (de_Parse env) state cur = (q, True)))
    tr (reconcile_pdbs env state pdbs tr)"
proof (induction pdbs arbitrary: tr)
  case (Cons p ps)
  show ?case unfolding reconcile_pdbs.simps
    by (rule emits_trans [OF emits_mono [OF Cons.IH]
        emits_mono [OF reconcilePDB_emits [OF assms(1), of p state]]]) auto
qed (simp add: emits_nil)

lemma reconcile_pods_emits:
  "emits (\<lambda>t a. (\<exists>ev. a = ActAudit ev) \<or>
      (\<exists>pod \<in> set pods. \<exists>spec anns. a = ActUpdatePod (pod\<lparr>p_Annotations := anns\<rparr>) \<and>
         reconcile_annotations spec state (p_Annotations pod) = (anns, True)))
    tr (reconcile_pods env info state pods tr)"
proof (induction pods arbitrary: tr)
  case (Cons p ps)
  note tail = emits_mono [OF Cons.IH]
  show ?case
  proof (cases "\<not> hasBlockingAnnotations (p_Annotations p) \<and> p_Annotations p AnnotationModified \<noteq> Some TrueValue")
    case True
    then have "reconcile_pods env info state (p # ps) tr = reconcile_pods env info state ps tr" by simp
    then show ?thesis by (simp only:) (rule tail, auto)
  next
    case False
    then have "reconcile_pods env info state (p # ps) tr =
      reconcile_pods env info state ps (snd (reconcilePod env p info state tr))" by (auto simp: Let_def)
    then show ?thesis by (simp only:)
        (rule emits_trans [OF tail emits_mono [OF reconcilePod_emits [of p state]]], auto)
  qed
qed (simp add: emits_nil)

lemma updateDisruptionWindowMetadata_emits:
  "emits (\<lambda>t a. \<exists>c i s g. a = ActUpsertStat c i s g) tr (updateDisruptionWindowMetadata env w stat b tr)"
  by (auto simp: updateDisruptionWindowMetadata_def Let_def intro: emits.intros)

lemma reconcile_workload_emits:
  assumes "conflict_retry (de_retry env)"
  shows "emits (disruption_write env (effective_state env now dur w) pdbs w) tr
    (reconcile_workload env now dur pdbs w tr)" (is "emits ?Q _ _")
proof (cases "\<exists>stat c. wk_Stat w = Some stat \<and> ws_Constraints stat = Some c \<and> wc_BlockingConsolidation c")
  case False
  then have "reconcile_workload env now dur pdbs w tr = tr"
    by (auto simp: reconcile_workload_def split: option.splits)
  then show ?thesis by (simp add: emits_nil)
next
  case True
  then obtain stat c where w: "wk_Stat w = Some stat" "ws_Constraints stat = Some c" "wc_BlockingConsolidation c"
    by blast
  let ?s = "effective_state env now dur w"
  let ?info = "\<lparr>wi_Kind = ws_Kind stat, wi_Namespace = ws_Namespace stat, wi_Name = ws_Name stat\<rparr>"
  define tr1 where "tr1 = updateDisruptionWindowMetadata env w stat (?s \<noteq> StateOut) tr"
  have e1: "emits ?Q tr tr1" unfolding tr1_def
    by (rule emits_mono [OF updateDisruptionWindowMetadata_emits]) (use w in \<open>auto simp: disruption_write_def\<close>)
  show ?thesis
  proof (cases "GetWorkloadObject (de_reads env tr1) (ws_Kind stat) (ws_Namespace stat) (ws_Name stat)")
    case (Inl e)
    then show ?thesis using w e1 by (simp add: reconcile_workload_def Let_def tr1_def)
  next
    case obj: (Inr obj)
    define ps where "ps = FindMatchingPDBs (pt_Labels (GetPodTemplateSpec obj)) (cached pdbs (ws_Namespace stat))"
    define tr2 where "tr2 = (if wc_PDB c then reconcile_pdbs env ?s ps tr1 else tr1)"
    have "emits ?Q tr1 (reconcile_pdbs env ?s ps tr1)" if "wc_PDB c"
      by (rule emits_mono [OF reconcile_pdbs_emits [OF assms(1)]])
        (use w obj that in \<open>auto simp: disruption_write_def pdb_write_def ps_def\<close>)
    then have e2: "emits ?Q tr1 tr2" by (auto simp: tr2_def emits_nil)
    have pods: "emits ?Q tr2 (reconcile_pods env ?info ?s pods tr2)"
      if "wc_DoNotDisruptAnnotation c" "GetSelector obj = Inr selector"
        "GetPods (de_reads env tr2) (ws_Namespace stat) selector = Inr pods" for selector pods
    proof (rule emits_mono [OF reconcile_pods_emits], elim disjE exE bexE conjE)
      fix t a ev assume "a = ActAudit ev"
      then show "?Q t a" using w by (auto simp: disruption_write_def)
    next
      fix t a pod spec anns
      assume "prefix tr2 t" "pod \<in> set pods" "a = ActUpdatePod (pod\<lparr>p_Annotations := anns\<rparr>)"
        "reconcile_annotations spec ?s (p_Annotations pod) = (anns, True)"
      then have "pod_write env ?s stat t (pod\<lparr>p_Annotations := anns\<rparr>)"
        using that obj emits_prefix [OF e2] unfolding pod_write_def by blast
      then show "?Q t a" using w that(1) \<open>a = _\<close> by (simp add: disruption_write_def)
    qed
    have "reconcile_workload env now dur pdbs w tr =
        (if \<not> wc_DoNotDisruptAnnotation c then tr2
         else (case GetSelector obj of Inl e \<Rightarrow> tr2
           | Inr selector \<Rightarrow> (case GetPods (de_reads env tr2) (ws_Namespace stat) selector of Inl e \<Rightarrow> tr2
              | Inr pods \<Rightarrow> reconcile_pods env ?info ?s pods tr2)))"
      using w obj [unfolded tr1_def] unfolding reconcile_workload_def tr2_def ps_def tr1_def Let_def by simp
    then have "emits ?Q tr2 (reconcile_workload env now dur pdbs w tr)"
      using pods by (auto simp: emits_nil split: sum.splits)
    then show ?thesis using emits_trans e1 e2 by blast
  qed
qed

lemma reconcile_workloads_emits:
  assumes "conflict_retry (de_retry env)"
  shows "emits (\<lambda>t a. \<exists>w \<in> set ws. disruption_write env (effective_state env now dur w) pdbs w t a) tr
    (reconcile_workloads env now dur pdbs ws tr)"
proof (induction ws arbitrary: tr)
  case (Cons w ws)
  show ?case unfolding reconcile_workloads.simps
    by (rule emits_trans [OF emits_mono [OF Cons.IH] emits_mono [OF reconcile_workload_emits [OF assms, of now dur w pdbs]]])
      auto
qed (simp add: emits_nil)

lemma run_writes:
  assumes "DisruptionForce_Run env now (Some dur) (Inr ws) = (res, t @ a # r)" "conflict_retry (de_retry env)"
  obtains allPDBs w where "kr_PDBs (de_reads env []) '''' = Inr allPDBs" "w \<in> set ws"
    "disruption_write env (effective_state env now dur w) (group_pdbs allPDBs Map.empty) w t a"
proof -
  obtain allPDBs where p: "kr_PDBs (de_reads env []) '''' = Inr allPDBs"
    "reconcile_workloads env now dur (group_pdbs allPDBs Map.empty) ws [] = t @ a # r"
    using assms(1) by (auto simp: DisruptionForce_Run_def split: sum.splits)
  show thesis
    using emits_split [OF reconcile_workloads_emits [OF assms(2), of ws now dur "group_pdbs allPDBs Map.empty" "[]"] p(2)]
      that p(1) by auto
qed

lemma cached_group_pdbs:
  "cached (group_pdbs ps m) ns = cached m ns @ filter (\<lambda>p. pdb_Namespace p = ns) ps"
  by (induction ps arbitrary: m) (auto simp: cached_def)

lemma FindMatchingPDBs_filter:
  "set (FindMatchingPDBs l (filter P ps)) = {p \<in> set (FindMatchingPDBs l ps). P p}"
  by (induction ps) (auto split: sum.splits)

lemma matching_in_namespace:
  "pdb \<in> set (FindMatchingPDBs l (cached (group_pdbs allPDBs Map.empty) ns)) \<longleftrightarrow>
     pdb \<in> set (FindMatchingPDBs l allPDBs) \<and> pdb_Namespace pdb = ns"
  unfolding cached_group_pdbs by (simp add: cached_def FindMatchingPDBs_filter)

lemma window_loop_eq:
  "window_loop parse now nxt ws (a, b) =
     (a \<or> IsInAnyDisruptionWindow parse now ws, b \<or> IsInAnyDisruptionWindow parse nxt ws)"
  by (induction ws arbitrary: a b) (auto simp: IsInAnyDisruptionWindow_def)

lemma computeState_iff:
  "computeStateFromWindows parse now dur ws = StateIn \<longleftrightarrow>
     IsInAnyDisruptionWindow parse now ws \<and> IsInAnyDisruptionWindow parse (now + dur) ws"
  "computeStateFromWindows parse now dur ws = StateOut \<longleftrightarrow> \<not> IsInAnyDisruptionWindow parse now ws"
  by (simp_all add: computeStateFromWindows_def window_loop_eq Let_def)

lemma effective_state_in:
  "effective_state env now dur w = StateIn \<longleftrightarrow>
     (\<exists>ov. wk_Overrides w = Some ov \<and> IsInAnyDisruptionWindow (de_cron env) now (ov_DisruptionWindows ov) \<and>
        IsInAnyDisruptionWindow (de_cron env) (now + dur) (ov_DisruptionWindows ov))"
  by (auto simp: effective_state_def computeState_iff IsInAnyDisruptionWindow_def split: option.splits)

section \<open>Cron expressions and daily windows\<close>

definition fix_dow :: "string \<Rightarrow> string" where
  "fix_dow t = (if t = ''7'' then ''0'' else t)"

lemma fix_dow_idem [simp]: "fix_dow (fix_dow t) = fix_dow t"
  by (simp add: fix_dow_def)

lemma normalizeCronDOW7_eq:
  "normalizeCronDOW7 expr =
     (let fields = Fields expr in
      if length fields \<noteq> 5 \<or> fields ! 4 = ''*'' then expr
      else join_with '' '' (fields[4 := join_with '','' (map fix_dow (split_on CHR '','' (fields ! 4)))]))"
proof -
  have "fix_dow = (\<lambda>t. if t = ''7'' then ''0'' else t)" by (simp add: fun_eq_iff fix_dow_def)
  then show ?thesis by (simp add: normalizeCronDOW7_def Let_def)
qed

lemma fixed_dow_word:
  assumes "w \<noteq> []" "\<forall>x \<in> set w. \<not> is_space x"
  shows "join_with '','' (map fix_dow (split_on CHR '','' w)) \<noteq> [] \<and>
    (\<forall>x \<in> set (join_with '','' (map fix_dow (split_on CHR '','' w))). \<not> is_space x)"
proof
  let ?ps = "split_on CHR '','' w"
  show "join_with '','' (map fix_dow ?ps) \<noteq> []"
  proof (cases "length ?ps > 1")
    case True
    then show ?thesis by (intro join_Cons_nonempty) auto
  next
    case False
    then obtain p where p: "?ps = [p]"
      using split_on_nonempty [of "CHR '',''" w] by (cases ?ps) auto
    then have "p = w" using join_split [of "CHR '',''" w] by simp
    then show ?thesis using assms(1) p by (simp add: fix_dow_def)
  qed
  have sub: "\<Union> (set ` set (map fix_dow ?ps)) \<subseteq> set w \<union> {CHR ''0''}"
  proof -
    have "set (fix_dow p) \<subseteq> set w \<union> {CHR ''0''}" if "p \<in> set ?ps" for p
      using set_split [OF that] by (auto simp: fix_dow_def)
    then show ?thesis by auto
  qed
  show "\<forall>x \<in> set (join_with '','' (map fix_dow ?ps)). \<not> is_space x"
  proof
    fix x assume "x \<in> set (join_with '','' (map fix_dow ?ps))"
    then have "x \<in> set w \<union> {CHR ''0'', CHR '',''}" using set_join [of "'',''" "map fix_dow ?ps"] sub by auto
    then show "\<not> is_space x" using assms(2) by (auto simp: is_space_def)
  qed
qed

lemma split_fixed:
  "split_on CHR '','' (join_with '','' (map fix_dow (split_on CHR '','' w))) = map fix_dow (split_on CHR '','' w)"
proof (rule split_on_join)
  show "\<forall>p \<in> set (map fix_dow (split_on CHR '','' w)). CHR '','' \<notin> set p"
    using split_on_parts [of _ "CHR '',''" w] by (auto simp: fix_dow_def)
qed simp

definition Day :: int where "Day = 24 * Hour"

text \<open>The schedule that fires once a day, \<open>s\<close> after midnight: the next activation after \<open>t\<close>.\<close>

definition daily_next :: "int \<Rightarrow> go_time \<Rightarrow> go_time" where
  "daily_next s t = t + ((s - t - 1) mod Day) + 1"

lemma daily_offset:
  assumes "0 \<le> s" "s < Day"
  shows "daily_next s t - t = (if t mod Day < s then s - t mod Day else s - t mod Day + Day)"
proof -
  have D: "0 < Day" by (simp add: Day_def Hour_def)
  have x: "0 \<le> t mod Day" "t mod Day < Day" using D by simp_all
  have e: "(s - t - 1) mod Day = (s - t mod Day - 1) mod Day"
    by (metis diff_diff_eq2 mod_diff_cong mod_mod_trivial mod_diff_right_eq diff_diff_eq add.commute)
  show ?thesis
  proof (cases "t mod Day < s")
    case True
    then have "(s - t mod Day - 1) mod Day = s - t mod Day - 1" using x assms True by (intro mod_pos_pos_trivial) linarith+
    then show ?thesis using True e by (simp add: daily_next_def)
  next
    case False
    then have "(s - t mod Day - 1 + Day) mod Day = s - t mod Day - 1 + Day"
      using x assms False by (intro mod_pos_pos_trivial) linarith+
    then have "(s - t mod Day - 1) mod Day = s - t mod Day - 1 + Day" by simp
    then show ?thesis using False e by (simp add: daily_next_def)
  qed
qed

section \<open>A sample run\<close>

definition sample_print :: "IntOrString \<Rightarrow> string" where
  "sample_print v = (case v of IsInt n \<Rightarrow> show_int n | IsString s \<Rightarrow> s)"

definition sample_pdb :: PodDisruptionBudget where
  "sample_pdb = \<lparr>pdb_Namespace = ''ns'', pdb_Name = ''web'', pdb_Annotations = Map.empty,
     pdb_Selector = Some (Some (\<lambda>l. True)), pdb_MaxUnavailable = Some (IsString ''25%''),
     pdb_MinAvailable = None\<rparr>"

definition sample_template :: PodTemplateSpec where
  "sample_template = \<lparr>pt_Labels = Map.empty, pt_Annotations = Map.empty, pt_Containers = [],
     pt_InitContainers = [], pt_Volumes = [], pt_Affinity = None, pt_TopologyKeys = []\<rparr>"

definition sample_deployment :: AppsObject where
  "sample_deployment = \<lparr>ao_Namespace = ''ns'', ao_Name = ''web'', ao_CreationTime = 0,
     ao_Selector = Some (Some (\<lambda>l. True)), ao_Template = sample_template, ao_SpecReplicas = Some 2,
     ao_DesiredNumberScheduled = 0\<rparr>"

definition sample_reads :: KubeReads where
  "sample_reads = \<lparr>kr_Deployments = (\<lambda>ns. Inr [sample_deployment]), kr_StatefulSets = (\<lambda>ns. Inr []),
     kr_DaemonSets = (\<lambda>ns. Inr []), kr_getDeployment = (\<lambda>ns n. Inr sample_deployment),
     kr_getStatefulSet = (\<lambda>ns n. Inl (NotFound [])), kr_getDaemonSet = (\<lambda>ns n. Inl (NotFound [])),
     kr_Pods = (\<lambda>ns. Inr []), kr_PodsBySelector = (\<lambda>ns s. Inr []),
     kr_PDBs = (\<lambda>ns. Inr [sample_pdb]), kr_getPDB = (\<lambda>ns n. Inr sample_pdb),
     kr_Nodes = Inr [], kr_getNode = (\<lambda>n. Inl (NotFound [])), kr_HPAs = (\<lambda>ns. Inr [])\<rparr>"

text \<open>A parser that knows the two expressions of a window from 01:00 to 05:00.\<close>

definition sample_cron :: cron_parser where
  "sample_cron e = (if e = ''0 1 * * *'' then Some (daily_next Hour)
     else if e = ''0 5 * * *'' then Some (daily_next (5 * Hour)) else None)"

definition sample_disruption_env :: DisruptionEnv where
  "sample_disruption_env = \<lparr>de_reads = (\<lambda>tr. sample_reads), de_reply = (\<lambda>tr a. None), de_recorder = False,
     de_cron = sample_cron, de_String = sample_print, de_Parse = IsString,
     de_retry = retry_n 4, de_ClusterID = ''c''\<rparr>"

definition sample_blocked_stat :: WorkloadStat where
  "sample_blocked_stat = \<lparr>ws_WorkloadIdentifier = ''Deployment:ns:web'', ws_Kind = ''Deployment'',
     ws_Namespace = ''ns'', ws_Name = ''web'', ws_CreationTime = 0, ws_UpdatedAt = 0,
     ws_IsHorizontallyAutoscaledOnCPU = False, ws_IsHorizontallyAutoscaledOnMem = False,
     ws_Constraints = Some (no_constraints\<lparr>wc_BlockingConsolidation := True, wc_PDB := True\<rparr>),
     ws_EvictionRanking = EvictionRankingHigh, ws_Replicas = 2, ws_Metadata = None,
     ws_ContainerStats = [], ws_OriginalContainerResources = []\<rparr>"

definition sample_blocked :: WorkloadInCluster where
  "sample_blocked = \<lparr>wk_ClusterID = ''c'', wk_WorkloadID = ''Deployment:ns:web'', wk_Stat = Some sample_blocked_stat,
     wk_Overrides = Some \<lparr>ov_EvictionRanking = None, ov_Enabled = Some True,
       ov_DisruptionWindows = [\<lparr>dw_StartCron = ''0 1 * * *'', dw_EndCron = ''0 5 * * *''\<rparr>]\<rparr>,
     wk_GeneratedAt = 0, wk_CreatedAt = 0, wk_UpdatedAt = 0\<rparr>"

definition sample_relaxed :: PodDisruptionBudget where
  "sample_relaxed = sample_pdb\<lparr>pdb_Annotations :=
     [AnnotationPDBMaxUnavailable \<mapsto> ''25%'', AnnotationModified \<mapsto> TrueValue],
     pdb_MaxUnavailable := Some (IsString ''100%'')\<rparr>"

lemma sample_normalized: "normalizeCronDOW7 ''0 1 * * *'' = ''0 1 * * *''"
  "normalizeCronDOW7 ''0 5 * * *'' = ''0 5 * * *''"
  by (simp_all add: normalizeCronDOW7_def Fields_def is_space_def Let_def)

lemma sample_window:
  "InEvictionWindow sample_cron ''0 1 * * *'' ''0 5 * * *'' (2 * Hour)"
  "InEvictionWindow sample_cron ''0 1 * * *'' ''0 5 * * *'' (3 * Hour)"
  by (simp_all add: InEvictionWindow_def sample_normalized sample_cron_def daily_next_def Day_def Hour_def)

lemma sample_state: "effective_state sample_disruption_env (2 * Hour) Hour sample_blocked = StateIn"
  using sample_window
  by (simp add: effective_state_in sample_blocked_def sample_disruption_env_def IsInAnyDisruptionWindow_def)

lemma sample_relax: "applyPDBReconcileState sample_print IsString StateIn sample_pdb = (sample_relaxed, True)"
  by (simp add: applyPDBReconcileState_def sample_pdb_def sample_relaxed_def sample_print_def Let_def)

lemma sample_reconcile:
  "reconcilePDB sample_disruption_env sample_pdb StateIn tr = (Inr True, tr @ [ActUpdatePDB sample_relaxed])"
proof -
  have f: "pdb_attempt sample_disruption_env ''ns'' ''web'' StateIn (tr, False) =
      (None, (tr @ [ActUpdatePDB sample_relaxed], True))"
    using sample_relax by (simp add: pdb_attempt_def sample_disruption_env_def sample_reads_def)
  have "retry_n 4 (pdb_attempt sample_disruption_env ''ns'' ''web'' StateIn) (tr, False) =
      (None, (tr @ [ActUpdatePDB sample_relaxed], True))"
    using default_retry.success_at_once [of "pdb_attempt sample_disruption_env ''ns'' ''web'' StateIn" "(tr, False)"]
    by (simp add: f)
  then show ?thesis
    by (simp add: reconcilePDB_def sample_pdb_def record_audit_def sample_disruption_env_def)
qed

lemma sample_disruption_run:
  "\<exists>tr. DisruptionForce_Run sample_disruption_env (2 * Hour) (Some Hour) (Inr [sample_blocked]) =
     (None, tr) \<and> ActUpdatePDB sample_relaxed \<in> set tr"
proof -
  have g: "GetWorkloadObject (de_reads sample_disruption_env tr) ''Deployment'' ''ns'' ''web'' =
      Inr (DeploymentWrapper sample_deployment)" for tr
    by (simp add: GetWorkloadObject_def sample_disruption_env_def sample_reads_def DeploymentKind_def)
  have p: "FindMatchingPDBs (pt_Labels (GetPodTemplateSpec (DeploymentWrapper sample_deployment)))
      (cached (group_pdbs [sample_pdb] Map.empty) ''ns'') = [sample_pdb]"
    by (simp add: sample_pdb_def cached_def LabelSelectorAsSelector_def)
  have w: "reconcile_workload sample_disruption_env (2 * Hour) Hour (group_pdbs [sample_pdb] Map.empty)
      sample_blocked tr =
      updateDisruptionWindowMetadata sample_disruption_env sample_blocked sample_blocked_stat True tr @
      [ActUpdatePDB sample_relaxed]" for tr
    using sample_state g p
    by (simp add: reconcile_workload_def sample_blocked_def sample_blocked_stat_def no_constraints_def
        sample_reconcile del: group_pdbs.simps)
  have "kr_PDBs (de_reads sample_disruption_env []) '''' = Inr [sample_pdb]"
    by (simp add: sample_disruption_env_def sample_reads_def)
  then show ?thesis
    by (simp add: DisruptionForce_Run_def w del: group_pdbs.simps)
qed

section \<open>Properties\<close>

text \<open>C10. A disruption budget survives any sequence of windows: at each moment it is either as its owner
  wrote it or as entering a window leaves it, and outside a window it is as its owner wrote it,
  provided it carries none of the program's annotations and its value survives printing and
  parsing.\<close>

theorem pdb_lifted_and_restored:
  assumes "pdb_clean print parse pdb"
  shows "foldl (\<lambda>p s. fst (applyPDBReconcileState print parse s p)) pdb states
      \<in> {pdb, fst (applyPDBReconcileState print parse StateIn pdb)} \<and>
    (states \<noteq> [] \<and> last states \<noteq> StateIn \<longrightarrow>
      foldl (\<lambda>p s. fst (applyPDBReconcileState print parse s p)) pdb states = pdb)"
proof -
  have nm: "\<not> pdb_marked pdb" using assms by (simp add: pdb_clean_def pdb_marked_def)
  show ?thesis
    using pdb.run_two_states [OF assms nm, of states]
      pdb.run_last [OF assms nm, of states] by blast
qed

lemma pdb_lifted_and_restored_witness:
  "foldl (\<lambda>p s. fst (applyPDBReconcileState sample_print IsString s p)) sample_pdb
     [StateOut, StateIn, StateIn, StateAboutToExit] = sample_pdb"
proof -
  have "pdb_clean sample_print IsString sample_pdb"
    by (simp add: pdb_clean_def sample_pdb_def sample_print_def)
  from pdb_lifted_and_restored [OF this, of "[StateOut, StateIn, StateIn, StateAboutToExit]"]
  show ?thesis by (simp del: foldl_Cons)
qed

text \<open>C11. The same for the annotations of a pod, provided the pod's blocking annotations are those of
  its workload's template, from which they are restored.\<close>

theorem pod_block_lifted_and_restored:
  assumes "anns_clean spec anns"
  shows "foldl (\<lambda>a s. fst (reconcile_annotations spec s a)) anns states
      \<in> {anns, fst (reconcile_annotations spec StateIn anns)} \<and>
    (states \<noteq> [] \<and> last states \<noteq> StateIn \<longrightarrow>
      foldl (\<lambda>a s. fst (reconcile_annotations spec s a)) anns states = anns) \<and>
    \<not> hasBlockingAnnotations (fst (reconcile_annotations spec StateIn anns))"
proof -
  have nm: "\<not> anns_marked anns" using assms by (simp add: anns_clean_def anns_marked_def)
  have "fst (reconcile_annotations spec StateIn anns) k = None" if "k \<in> set dnd_keys" for k
    using that nm annotation_keys
    by (auto simp: reconcile_annotations_def anns_marked_def delete_keys_eq restrict_map_def)
  then have "fst (reconcile_annotations spec StateIn anns) (fst e) = None" if "e \<in> set doNotDisruptAnnotations" for e
    using that by (simp add: dnd_keys_def)
  then have "\<not> hasBlockingAnnotations (fst (reconcile_annotations spec StateIn anns))"
    by (fastforce simp: hasBlockingAnnotations_def list_ex_iff split: option.splits)
  then show ?thesis
    using pod.run_two_states [OF assms nm, of states]
      pod.run_last [OF assms nm, of states] by blast
qed

lemma pod_block_lifted_and_restored_witness:
  "foldl (\<lambda>a s. fst (reconcile_annotations [''karpenter.sh/do-not-disrupt'' \<mapsto> ''true''] s a))
     [''karpenter.sh/do-not-disrupt'' \<mapsto> ''true'', ''a'' \<mapsto> ''b''] [StateIn, StateOut] =
     [''karpenter.sh/do-not-disrupt'' \<mapsto> ''true'', ''a'' \<mapsto> ''b'']"
proof -
  have "anns_clean [''karpenter.sh/do-not-disrupt'' \<mapsto> ''true'']
      [''karpenter.sh/do-not-disrupt'' \<mapsto> ''true'', ''a'' \<mapsto> ''b'']"
    by (simp add: anns_clean_def dnd_keys_def doNotDisruptAnnotations_def AnnotationModified_def)
  from pod_block_lifted_and_restored [OF this, of "[StateIn, StateOut]"]
  show ?thesis by (simp del: foldl_Cons)
qed

text \<open>C12. A run of the task lifts a block only inside a window of the workload it blocks. For every
  call of the run that writes a budget or a pod with the task's mark, there is one of the stored
  workloads whose overrides have a window that is open now and one that is open at the next run,
  whose statistics say that it blocks consolidation, and whose object, read earlier in the run,
  ties it to what is written. A budget: the statistics name budgets, the budget is one of its
  namespace that selects the labels of its pods, and the call writes what was read from the API
  server just before, made ineffective and marked. A pod: the statistics name the annotation, the
  pod is among those the object's selector lists, and only its annotations change.\<close>

theorem lifted_only_in_window:
  assumes "DisruptionForce_Run env now (Some scheduleDuration) (Inr workloads) = (res, t @ a # r)"
    and "conflict_retry (de_retry env)"
    and "a = ActUpdatePDB pdb \<and> pdb_marked pdb \<or> a = ActUpdatePod pod \<and> anns_marked (p_Annotations pod)"
  shows "\<exists>w \<in> set workloads. \<exists>stat c ov t0 obj.
    wk_Overrides w = Some ov \<and>
    IsInAnyDisruptionWindow (de_cron env) now (ov_DisruptionWindows ov) \<and>
    IsInAnyDisruptionWindow (de_cron env) (now + scheduleDuration) (ov_DisruptionWindows ov) \<and>
    wk_Stat w = Some stat \<and> ws_Constraints stat = Some c \<and> wc_BlockingConsolidation c \<and>
    prefix t0 t \<and>
    GetWorkloadObject (de_reads env t0) (ws_Kind stat) (ws_Namespace stat) (ws_Name stat) = Inr obj \<and>
    (a = ActUpdatePDB pdb \<longrightarrow> wc_PDB c \<and>
       (\<exists>allPDBs b cur. kr_PDBs (de_reads env []) '''' = Inr allPDBs \<and>
          b \<in> set (FindMatchingPDBs (pt_Labels (GetPodTemplateSpec obj)) allPDBs) \<and>
          pdb_Namespace b = ws_Namespace stat \<and>
          kr_getPDB (de_reads env t) (ws_Namespace stat) (pdb_Name b) = Inr cur \<and>
          pdb = cur\<lparr>pdb_Annotations := pdb_Annotations pdb, pdb_MaxUnavailable := pdb_MaxUnavailable pdb,
                    pdb_MinAvailable := pdb_MinAvailable pdb\<rparr> \<and>
          (if pdb_MaxUnavailable cur \<noteq> None then pdb_MaxUnavailable pdb = Some (IsString ''100%'')
           else pdb_MinAvailable cur \<noteq> None \<and> pdb_MinAvailable pdb = Some (IsInt 0)))) \<and>
    (a = ActUpdatePod pod \<longrightarrow> wc_DoNotDisruptAnnotation c \<and>
       (\<exists>t1 selector pods p. prefix t0 t1 \<and> prefix t1 t \<and> GetSelector obj = Inr selector \<and>
          GetPods (de_reads env t1) (ws_Namespace stat) selector = Inr pods \<and> p \<in> set pods \<and>
          \<not> anns_marked (p_Annotations p) \<and> pod = p\<lparr>p_Annotations := p_Annotations pod\<rparr>))"
proof -
  obtain allPDBs w where all: "kr_PDBs (de_reads env []) '''' = Inr allPDBs" and w: "w \<in> set workloads"
    and d: "disruption_write env (effective_state env now scheduleDuration w) (group_pdbs allPDBs Map.empty) w t a"
    using run_writes [OF assms(1,2)] .
  let ?s = "effective_state env now scheduleDuration w"
  obtain stat c where st: "wk_Stat w = Some stat" "ws_Constraints stat = Some c" "wc_BlockingConsolidation c"
    and db: "\<And>q. a = ActUpdatePDB q \<Longrightarrow> wc_PDB c \<and> pdb_write env ?s (group_pdbs allPDBs Map.empty) stat t q"
    and dp: "\<And>q. a = ActUpdatePod q \<Longrightarrow> wc_DoNotDisruptAnnotation c \<and> pod_write env ?s stat t q"
    using d unfolding disruption_write_def by blast
  show ?thesis
  proof (cases "a = ActUpdatePDB pdb")
    case True
    then have m: "pdb_marked pdb" using assms(3) by simp
    obtain t0 obj b cur where b: "prefix t0 t"
      "GetWorkloadObject (de_reads env t0) (ws_Kind stat) (ws_Namespace stat) (ws_Name stat) = Inr obj"
      "b \<in> set (FindMatchingPDBs (pt_Labels (GetPodTemplateSpec obj)) allPDBs)" "pdb_Namespace b = ws_Namespace stat"
      "kr_getPDB (de_reads env t) (pdb_Namespace b) (pdb_Name b) = Inr cur"
      "applyPDBReconcileState (de_String env) (de_Parse env) ?s cur = (pdb, True)"
      using db [OF True] unfolding pdb_write_def matching_in_namespace by blast
    have s: "?s = StateIn" using pdb.unmarks m b(6) by (metis fst_conv snd_conv)
    then obtain ov where ov: "wk_Overrides w = Some ov"
      "IsInAnyDisruptionWindow (de_cron env) now (ov_DisruptionWindows ov)"
      "IsInAnyDisruptionWindow (de_cron env) (now + scheduleDuration) (ov_DisruptionWindows ov)"
      using effective_state_in by blast
    have "pdb = cur\<lparr>pdb_Annotations := pdb_Annotations pdb, pdb_MaxUnavailable := pdb_MaxUnavailable pdb,
          pdb_MinAvailable := pdb_MinAvailable pdb\<rparr> \<and>
        (if pdb_MaxUnavailable cur \<noteq> None then pdb_MaxUnavailable pdb = Some (IsString ''100%'')
         else pdb_MinAvailable cur \<noteq> None \<and> pdb_MinAvailable pdb = Some (IsInt 0))"
      using b(6) s by (auto simp: applyPDBReconcileState_def Let_def split: option.splits if_splits)
    moreover have "a \<noteq> ActUpdatePod pod" using True by simp
    ultimately show ?thesis using w st ov b(1-4) b(5) [unfolded b(4)] all db [OF True] by blast
  next
    case False
    then have a: "a = ActUpdatePod pod" and m: "anns_marked (p_Annotations pod)" using assms(3) by auto
    obtain t0 t1 obj selector pods p spec where p: "prefix t0 t1" "prefix t1 t"
      "GetWorkloadObject (de_reads env t0) (ws_Kind stat) (ws_Namespace stat) (ws_Name stat) = Inr obj"
      "GetSelector obj = Inr selector" "GetPods (de_reads env t1) (ws_Namespace stat) selector = Inr pods"
      "p \<in> set pods" "reconcile_annotations spec ?s (p_Annotations p) = (p_Annotations pod, True)"
      "pod = p\<lparr>p_Annotations := p_Annotations pod\<rparr>"
      using dp [OF a] unfolding pod_write_def by (elim conjE exE) simp
    have s: "?s = StateIn" using pod.unmarks m p(7) by (metis fst_conv snd_conv)
    then obtain ov where ov: "wk_Overrides w = Some ov"
      "IsInAnyDisruptionWindow (de_cron env) now (ov_DisruptionWindows ov)"
      "IsInAnyDisruptionWindow (de_cron env) (now + scheduleDuration) (ov_DisruptionWindows ov)"
      using effective_state_in by blast
    have "\<not> anns_marked (p_Annotations p)" using pod.marks s p(7) by (metis snd_conv)
    moreover have "prefix t0 t" using p(1,2) prefix_order.trans by blast
    ultimately show ?thesis using w st ov p False dp [OF a] by blast
  qed
qed

lemma lifted_only_in_window_witness:
  "IsInAnyDisruptionWindow sample_cron (2 * Hour) [\<lparr>dw_StartCron = ''0 1 * * *'', dw_EndCron = ''0 5 * * *''\<rparr>] \<and>
   pdb_MaxUnavailable sample_relaxed = Some (IsString ''100%'')"
proof -
  obtain t r where run: "DisruptionForce_Run sample_disruption_env (2 * Hour) (Some Hour) (Inr [sample_blocked]) =
     (None, t @ ActUpdatePDB sample_relaxed # r)"
    using sample_disruption_run by (metis split_list)
  have c: "conflict_retry (de_retry sample_disruption_env)"
    by (simp add: sample_disruption_env_def default_retry.conflict_retry_axioms)
  have m: "pdb_marked sample_relaxed"
    by (simp add: pdb_marked_def sample_relaxed_def annotation_keys)
  have g: "kr_getPDB (de_reads sample_disruption_env t) ns n = Inr sample_pdb" for ns n
    by (simp add: sample_disruption_env_def sample_reads_def)
  have x: "pdb_MaxUnavailable sample_pdb \<noteq> None" by (simp add: sample_pdb_def)
  show ?thesis
    using lifted_only_in_window [OF run c, of sample_relaxed] m x unfolding g
    by (auto simp: sample_blocked_def sample_disruption_env_def)
qed

text \<open>A window given by two daily cron expressions is open exactly in the part of the day between
  them, over midnight when the end comes first.\<close>

lemma daily_window:
  assumes "parse (normalizeCronDOW7 startCron) = Some (daily_next start)"
    and "parse (normalizeCronDOW7 endCron) = Some (daily_next stop)"
    and "startCron \<noteq> ''''" "endCron \<noteq> ''''"
    and "0 \<le> start" "start < Day" "0 \<le> stop" "stop < Day"
  shows "InEvictionWindow parse startCron endCron t \<longleftrightarrow>
    (if start < stop then start \<le> t mod Day \<and> t mod Day < stop
     else start \<le> t mod Day \<or> t mod Day < stop)"
proof -
  have "0 \<le> t mod Day" "t mod Day < Day" by (simp_all add: Day_def Hour_def)
  then have "daily_next stop t - t \<le> daily_next start t - t \<longleftrightarrow>
    (if start < stop then start \<le> t mod Day \<and> t mod Day < stop
     else start \<le> t mod Day \<or> t mod Day < stop)"
    unfolding daily_offset [OF assms(5,6)] daily_offset [OF assms(7,8)] using assms(5-8)
    by (auto split: if_splits)
  then show ?thesis using assms(1-4) by (auto simp: InEvictionWindow_def Let_def)
qed

lemma daily_window_witness: "\<not> InEvictionWindow sample_cron ''0 1 * * *'' ''0 5 * * *'' (6 * Hour)"
proof -
  have "InEvictionWindow sample_cron ''0 1 * * *'' ''0 5 * * *'' (6 * Hour) \<longleftrightarrow>
    (if Hour < 5 * Hour then Hour \<le> (6 * Hour) mod Day \<and> (6 * Hour) mod Day < 5 * Hour
     else Hour \<le> (6 * Hour) mod Day \<or> (6 * Hour) mod Day < 5 * Hour)"
    by (rule daily_window) (simp_all add: sample_normalized sample_cron_def Day_def Hour_def)
  then show ?thesis by (simp add: Day_def Hour_def)
qed

text \<open>Normalising a cron expression keeps its five fields, rewrites exactly the days of the week
  written as 7, and is idempotent; an expression without five fields is left alone.\<close>

lemma cron_normalized:
  "(length (Fields expr) = 5 \<longrightarrow>
      length (Fields (normalizeCronDOW7 expr)) = 5 \<and>
      take 4 (Fields (normalizeCronDOW7 expr)) = take 4 (Fields expr) \<and>
      split_on CHR '','' (Fields (normalizeCronDOW7 expr) ! 4) =
        map (\<lambda>t. if t = ''7'' then ''0'' else t) (split_on CHR '','' (Fields expr ! 4))) \<and>
   (length (Fields expr) \<noteq> 5 \<longrightarrow> normalizeCronDOW7 expr = expr) \<and>
   normalizeCronDOW7 (normalizeCronDOW7 expr) = normalizeCronDOW7 expr"
proof -
  let ?f = "Fields expr" and ?n = "normalizeCronDOW7 expr"
  let ?fix = "\<lambda>w. join_with '','' (map fix_dow (split_on CHR '','' w))"
  have fe: "fix_dow = (\<lambda>t. if t = ''7'' then ''0'' else t)" by (simp add: fun_eq_iff fix_dow_def)
  have star: "map fix_dow (split_on CHR '','' ''*'') = split_on CHR '','' ''*''" by (simp add: fix_dow_def)
  show ?thesis
  proof (cases "length ?f = 5 \<and> ?f ! 4 \<noteq> ''*''")
    case False
    then have "?n = expr" by (auto simp: normalizeCronDOW7_eq Let_def)
    then show ?thesis using False star by (auto simp: fe)
  next
    case True
    have n: "?n = join_with '' '' (?f[4 := ?fix (?f ! 4)])" using True by (simp add: normalizeCronDOW7_eq Let_def)
    have w: "?f ! 4 \<noteq> []" "\<forall>x \<in> set (?f ! 4). \<not> is_space x"
      using Fields_words [of "?f ! 4" expr] True by (auto simp: nth_mem)
    have "\<forall>p \<in> set (?f[4 := ?fix (?f ! 4)]). p \<noteq> [] \<and> (\<forall>x \<in> set p. \<not> is_space x)"
    proof
      fix p assume "p \<in> set (?f[4 := ?fix (?f ! 4)])"
      then have "p = ?fix (?f ! 4) \<or> p \<in> set ?f" using set_update_subset_insert [of ?f 4] by blast
      then show "p \<noteq> [] \<and> (\<forall>x \<in> set p. \<not> is_space x)"
      proof
        assume p: "p = ?fix (?f ! 4)"
        show ?thesis unfolding p by (rule fixed_dow_word [OF w])
      qed (rule Fields_words)
    qed
    then have fn: "Fields ?n = ?f[4 := ?fix (?f ! 4)]" unfolding n by (rule Fields_join)
    have d: "Fields ?n ! 4 = ?fix (?f ! 4)" "length (Fields ?n) = 5" using True fn by simp_all
    have sp: "split_on CHR '','' (Fields ?n ! 4) = map fix_dow (split_on CHR '','' (?f ! 4))"
      unfolding d by (rule split_fixed)
    have "normalizeCronDOW7 ?n = ?n"
    proof (cases "Fields ?n ! 4 = ''*''")
      case False
      have e: "?fix (Fields ?n ! 4) = Fields ?n ! 4"
        unfolding sp by (simp add: d(1) comp_def)
      have "normalizeCronDOW7 ?n = join_with '' '' (Fields ?n)"
        unfolding normalizeCronDOW7_eq [of ?n] Let_def using False d(2) e by simp
      then show ?thesis using fn n by simp
    qed (simp add: normalizeCronDOW7_eq Let_def)
    then show ?thesis using d sp fn by (simp add: fe)
  qed
qed

lemma cron_normalized_witness: "normalizeCronDOW7 (normalizeCronDOW7 ''0 1 * * 5,7'') = normalizeCronDOW7 ''0 1 * * 5,7''"
  using cron_normalized [of "''0 1 * * 5,7''"] by blast

text \<open>What the statistics task records about a workload is what the disruption task acts on: the
  budget constraint is set exactly if a budget of the namespace matches the template, and the
  annotation constraint exactly if a pod with the template's annotations would be reconciled; the
  workload blocks consolidation exactly in these cases, and a DaemonSet never does.\<close>

lemma constraints_agree_with_task:
  "wc_BlockingConsolidation (DetectWorkloadConstraints w pdbCache) \<longleftrightarrow>
     GetKind w \<noteq> DaemonSetKind \<and>
     (0 < length (FindMatchingPDBs (pt_Labels (GetPodTemplateSpec w)) (cached pdbCache (GetNamespace w))) \<or>
      hasBlockingAnnotations (pt_Annotations (GetPodTemplateSpec w)))"
proof -
  have "checkDoNotDisruptAnnotation t \<longleftrightarrow> hasBlockingAnnotations (pt_Annotations t)" for t
    by (simp add: checkDoNotDisruptAnnotation_def hasBlockingAnnotations_def doNotDisruptAnnotations_def
        EqualFold_def ToLower_def to_lower_char_def TrueValue_def FalseValue_def of_char_def split: option.splits)
  then show ?thesis
    by (cases w) (simp_all add: DetectWorkloadConstraints_def no_constraints_def Kind_defs
        checkWorkloadAgainstPDBs_def pdb_loop_iff Let_def)
qed

end
