(* ===== verification/Webhook.thy ===== *)
theory Webhook
  imports Recommend Api Versions JsonPatch Storage Disruption
begin

text \<open>
  The admission webhook. \<^verbatim>\<open>pkg/handlers/webhookadmission.go\<close> answers the API server: it forwards the
  review to the controller and returns the patches it gets. \<^verbatim>\<open>controllerwebhookhandler.go\<close> is the
  controller: it finds the workload of the pod, its stored statistics and overrides, decides
  whether the pod may be changed, and builds the patches. The value of an operation is a document.
\<close>

section \<open>Values\<close>

text \<open>Subtraction of 64-bit integers wraps around; division rounds towards zero.\<close>

definition int64_sub :: "int \<Rightarrow> int \<Rightarrow> int" where
  "int64_sub a b = (a - b + 2 ^ 63) mod 2 ^ 64 - 2 ^ 63"

definition go_div :: "int \<Rightarrow> int \<Rightarrow> int" where
  "go_div a b = (if a < 0 then - ((- a) div b) else a div b)"

definition memoryBytesToMB :: "int \<Rightarrow> string" where
  "memoryBytesToMB memoryBytes = show_int (go_div memoryBytes BytesToMBDivisor) @ ''M''"

definition millicores_text :: "(float64 \<Rightarrow> int) \<Rightarrow> float64 \<Rightarrow> string" where
  "millicores_text oob x = show_int (int64_of_f64 oob x) @ ''m''"

definition webhook_cpu :: "SimplePrediction \<Rightarrow> CPUStats \<Rightarrow> float64" where
  "webhook_cpu prediction cpu =
     (let recommendedCPU = gomax (sp_MaxValue prediction) (cpu_P75 cpu)
      in if flt CPUClampValue recommendedCPU then CPUClampValue else recommendedCPU)"

definition webhook_memory :: "SimplePrediction \<Rightarrow> MemoryStats \<Rightarrow> float64" where
  "webhook_memory prediction mem =
     (let recommendedMemory = gomax (sp_MaxValue prediction) (mem_P75 mem)
      in if flt (lit 0) (mem_OOMMemory mem) \<and> flt recommendedMemory (mem_OOMMemory mem)
         then mem_OOMMemory mem else recommendedMemory)"

definition webhook_memory_limit :: "ContainerStats \<Rightarrow> MemoryStats \<Rightarrow> float64 \<Rightarrow> float64" where
  "webhook_memory_limit cs mem recommendedMemory =
     (let recommendedMemoryLimit = fmul (lit 2) recommendedMemory
      in case cs_Memory7Day cs of
           None \<Rightarrow> recommendedMemoryLimit
         | Some m7 \<Rightarrow>
             if flt (lit 0) (m7_Max m7)
             then mathMax (fmul (lit 2) (m7_Max m7))
                    (gomax (fmul (lit 2) (mem_OOMMemory mem)) recommendedMemoryLimit)
             else recommendedMemoryLimit)"

definition to_bytes :: "(float64 \<Rightarrow> int) \<Rightarrow> float64 \<Rightarrow> int" where
  "to_bytes oob mb = int64_of_f64 oob (fmul mb (lit 1000000))"

section \<open>The patches of the resources\<close>

record RecommendationSettings =
  rs_NewWorkloadThresholdHours :: int
  rs_DisableMemoryApplication :: bool
  rs_OOMCooldownMinutes :: int
  rs_OptimizeGuaranteedPods :: bool

definition patch_op :: "string \<Rightarrow> string \<Rightarrow> json option \<Rightarrow> Patch" where
  "patch_op opn path v = \<lparr>pa_op = opn, pa_path = path, pa_value = v\<rparr>"

definition cpu_patches ::
    "(float64 \<Rightarrow> int) \<Rightarrow> string \<Rightarrow> string \<Rightarrow> Container \<Rightarrow> float64 \<Rightarrow> Patch list" where
  "cpu_patches oob kind containerPath container recommendedCPU =
     (let currentCPUMillicores = q_MilliValue (rl_val (c_Requests container) ResourceCPU);
          recommendedCPUMillicores = mathMax (fmul recommendedCPU (lit 1000)) (lit 1)
      in if 0 < currentCPUMillicores \<and> kind \<noteq> DaemonSetKind
         then [patch_op ''replace'' (containerPath @ ''/resources/requests/cpu'')
                 (Some (JStr (millicores_text oob recommendedCPUMillicores)))]
         else [])"

definition memory_patches ::
    "(float64 \<Rightarrow> int) \<Rightarrow> RecommendationSettings \<Rightarrow> string \<Rightarrow> string \<Rightarrow> Container \<Rightarrow> float64 \<Rightarrow> float64
     \<Rightarrow> Patch list" where
  "memory_patches oob cfg kind containerPath container recommendedMemory recommendedMemoryLimit =
     (let recommendedMemoryLimitBytes = to_bytes oob (mathMax recommendedMemoryLimit (lit 512));
          currentMemoryBytes = q_Value (rl_val (c_Requests container) ResourceMemory);
          currentMemoryLimitBytes = q_Value (rl_val (c_Limits container) ResourceMemory);
          recommendedMemoryBytes = to_bytes oob recommendedMemory;
          thresholdBytes = lit 16000000
      in if \<not> rs_DisableMemoryApplication cfg \<and> 0 < currentMemoryBytes
            \<and> flt thresholdBytes (mathAbs (f64_of_int (int64_sub recommendedMemoryBytes currentMemoryBytes)))
         then if kind = DaemonSetKind
              then if 0 < currentMemoryLimitBytes
                   then [patch_op ''replace'' (containerPath @ ''/resources/limits/memory'')
                      (Some (JStr (memoryBytesToMB (int64_of_f64 oob
                         (mathMax (f64_of_int currentMemoryLimitBytes)
                           (mathMax (f64_of_int recommendedMemoryLimitBytes) thresholdBytes))))))]
                   else []
              else [patch_op (if 0 < currentMemoryBytes then ''replace'' else ''add'')
                      (containerPath @ ''/resources/requests/memory'')
                      (Some (JStr (memoryBytesToMB recommendedMemoryBytes))),
                    patch_op (if 0 < currentMemoryLimitBytes then ''replace'' else ''add'')
                      (containerPath @ ''/resources/limits/memory'')
                      (Some (JStr (memoryBytesToMB recommendedMemoryLimitBytes)))]
         else [])"

definition shape_patches :: "string \<Rightarrow> Container \<Rightarrow> Patch list" where
  "shape_patches containerPath container =
     (if c_Requests container = None
      then [patch_op ''add'' (containerPath @ ''/resources/requests'') (Some (JObj []))] else []) @
     (if c_Limits container = None
      then [patch_op ''add'' (containerPath @ ''/resources/limits'') (Some (JObj []))] else []) @
     (if rl_get (c_Limits container) ResourceCPU \<noteq> None
      then [patch_op ''remove'' (containerPath @ ''/resources/limits/cpu'') None] else [])"

definition container_patches ::
    "(float64 \<Rightarrow> int) \<Rightarrow> RecommendationSettings \<Rightarrow> string \<Rightarrow> WorkloadStat \<Rightarrow> string \<Rightarrow> Container \<Rightarrow> Patch list" where
  "container_patches oob cfg kind stat containerPath container =
     shape_patches containerPath container @
     (case find (\<lambda>cs. cs_ContainerName cs = c_Name container) (ws_ContainerStats stat) of
        None \<Rightarrow> []
      | Some cs \<Rightarrow>
          (case (cs_CPUStats cs, cs_MemoryStats cs, cs_SimplePredictionsCPU cs, cs_SimplePredictionsMemory cs) of
             (Some cpu, Some mem, Some predictionCPU, Some predictionMemory) \<Rightarrow>
               let recommendedMemory = webhook_memory predictionMemory mem
               in cpu_patches oob kind containerPath container (webhook_cpu predictionCPU cpu) @
                  memory_patches oob cfg kind containerPath container recommendedMemory
                    (webhook_memory_limit cs mem recommendedMemory)
           | _ \<Rightarrow> []))"

text \<open>Containers come first, then init containers, each with its own index.\<close>

definition container_path :: "Pod \<Rightarrow> nat \<Rightarrow> string" where
  "container_path pod i =
     (if i < length (p_Containers pod) then ''/spec/containers/'' @ show_nat i
      else ''/spec/initContainers/'' @ show_nat (i - length (p_Containers pod)))"

definition adjustResources ::
    "(float64 \<Rightarrow> int) \<Rightarrow> RecommendationSettings \<Rightarrow> (string \<Rightarrow> store_error + WorkloadStat)
     \<Rightarrow> Pod \<Rightarrow> WorkloadInfo option \<Rightarrow> WorkloadStat option \<Rightarrow> Patch list" where
  "adjustResources oob cfg getStat pod workloadInfo workloadStat =
     (case (case workloadInfo of None \<Rightarrow> GetWorkloadInfoFromPod pod | Some w \<Rightarrow> Some w) of
        None \<Rightarrow> []
      | Some w \<Rightarrow>
          (case (case workloadStat of
                   Some stat \<Rightarrow> Inr stat
                 | None \<Rightarrow> getStat (GetWorkloadKey (wi_Kind w) (wi_Namespace w) (wi_Name w))) of
             Inl e \<Rightarrow> []
           | Inr stat \<Rightarrow>
               let containers = p_Containers pod @ p_InitContainers pod
               in concat (map (\<lambda>i. container_patches oob cfg (wi_Kind w) stat (container_path pod i)
                                     (containers ! i)) [0 ..< length containers])))"

section \<open>The patches of the annotations\<close>

definition annotation_path :: "string \<Rightarrow> string" where
  "annotation_path key = ''/metadata/annotations/'' @ escapeJSONPointer key"

text \<open>\<open>keys\<close> are the protecting annotations in the order the code ranges over them.\<close>

definition buildDisruptionAnnotationPatches ::
    "string list \<Rightarrow> cron_parser \<Rightarrow> go_time \<Rightarrow> Pod \<Rightarrow> WorkloadStat option \<Rightarrow> Overrides option \<Rightarrow> Patch list" where
  "buildDisruptionAnnotationPatches keys parse now pod stat overrides =
     (if \<not> (\<exists>s \<in> set_option stat. \<exists>c \<in> set_option (ws_Constraints s). wc_DoNotDisruptAnnotation c) then []
      else let windows = (case overrides of None \<Rightarrow> [] | Some ov \<Rightarrow> ov_DisruptionWindows ov)
           in if windows = [] \<or> \<not> IsInAnyDisruptionWindow parse now windows then []
              else let removed = map (\<lambda>k. patch_op ''remove'' (annotation_path k) None)
                                   (filter (\<lambda>k. p_Annotations pod k \<noteq> None) keys)
                   in if removed = [] then []
                      else removed @ [patch_op
                        (if p_Annotations pod AnnotationModified \<noteq> None then ''replace'' else ''add'')
                        (annotation_path AnnotationModified) (Some (JStr TrueValue))])"

section \<open>The controller\<close>

record 'raw AdmissionRequest =
  ar_UID :: string
  ar_Kind :: string
  ar_Object :: 'raw

record Resolved =
  mr_pod :: Pod
  mr_workloadInfo :: WorkloadInfo
  mr_workloadKey :: string
  mr_stat :: WorkloadStat
  mr_overrides :: "Overrides option"

record PatchResult =
  pr_statusCode :: int
  pr_errorMessage :: string
  pr_patches :: "Patch list"
  pr_audit :: "Resolved option"

text \<open>
  What the handler reads: the configuration, the clients of a cluster (an error, or what its API
  server answers to the \<open>i\<close>th question for the version; \<open>None\<close> is a nil client), the database with
  the failures of its driver, the clock, and how an object is decoded into a pod.
\<close>

record 'raw WebhookEnv =
  we_oob :: "float64 \<Rightarrow> int"
  we_now :: go_time
  we_cron :: cron_parser
  we_keys :: "string list"
  we_cfg :: RecommendationSettings
  we_clients :: "string \<Rightarrow> api_error + (nat \<Rightarrow> api_error + string) option"
  we_db :: Database
  we_faultStat :: faults
  we_faultOverrides :: faults
  we_decode :: "'raw \<Rightarrow> Pod option"
  we_recorder :: bool

definition emptyMutatingPatchResult :: PatchResult where
  "emptyMutatingPatchResult = \<lparr>pr_statusCode = 200, pr_errorMessage = '''', pr_patches = [], pr_audit = None\<rparr>"

definition extractMutatingPatchInput ::
    "('raw \<Rightarrow> Pod option) \<Rightarrow> 'raw AdmissionRequest option \<Rightarrow> PatchResult + Pod" where
  "extractMutatingPatchInput decode request =
     (case request of
        None \<Rightarrow> Inl emptyMutatingPatchResult
      | Some r \<Rightarrow>
          if ar_Kind r \<noteq> ''Pod'' then Inl emptyMutatingPatchResult
          else (case decode (ar_Object r) of
                  None \<Rightarrow> Inl \<lparr>pr_statusCode = 400, pr_errorMessage = ''invalid pod object'',
                                pr_patches = [], pr_audit = None\<rparr>
                | Some pod \<Rightarrow> Inr pod))"

definition resolveMutatingPatchContext ::
    "'raw WebhookEnv \<Rightarrow> string \<Rightarrow> Pod \<Rightarrow> PatchResult + Resolved \<times> (nat \<Rightarrow> api_error + string) option" where
  "resolveMutatingPatchContext env clusterID pod =
     (case GetWorkloadInfoFromPod pod of
        None \<Rightarrow> Inl emptyMutatingPatchResult
      | Some w \<Rightarrow>
          (case we_clients env clusterID of
             Inl e \<Rightarrow> Inl emptyMutatingPatchResult
           | Inr client \<Rightarrow>
               let workloadKey = GetWorkloadKey (wi_Kind w) (wi_Namespace w) (wi_Name w)
               in case GetStat (we_faultStat env) clusterID workloadKey (we_db env) of
                    Inl e \<Rightarrow> Inl emptyMutatingPatchResult
                  | Inr stat \<Rightarrow>
                      let overrides = (case GetWorkloadOverrides (we_faultOverrides env) clusterID workloadKey
                             (we_db env) of Inl e \<Rightarrow> None | Inr ov \<Rightarrow> Some ov)
                      in Inr (\<lparr>mr_pod = pod, mr_workloadInfo = w, mr_workloadKey = workloadKey,
                               mr_stat = stat, mr_overrides = overrides\<rparr>, client)))"

definition buildWorkloadOverrideInfo ::
    "string \<Rightarrow> WorkloadStat option \<Rightarrow> Overrides option \<Rightarrow> WorkloadOverrideInfo" where
  "buildWorkloadOverrideInfo workloadID stat overrides =
     (let effective = \<lparr>oe_EvictionRanking = EvictionRankingMedium, oe_Enabled = False, oe_DisruptionWindows = []\<rparr>;
          effective = (case stat of None \<Rightarrow> effective
                       | Some s \<Rightarrow> effective\<lparr>oe_EvictionRanking := ws_EvictionRanking s\<rparr>);
          effective = (case overrides of None \<Rightarrow> effective
                       | Some ov \<Rightarrow>
                           let effective = (case ov_Enabled ov of None \<Rightarrow> effective
                                            | Some b \<Rightarrow> effective\<lparr>oe_Enabled := b\<rparr>)
                           in case ov_EvictionRanking ov of None \<Rightarrow> effective
                              | Some r \<Rightarrow> effective\<lparr>oe_EvictionRanking := r\<rparr>)
      in \<lparr>oi_WorkloadID = workloadID,
          oi_Name = (case stat of None \<Rightarrow> '''' | Some s \<Rightarrow> ws_Name s),
          oi_Namespace = (case stat of None \<Rightarrow> '''' | Some s \<Rightarrow> ws_Namespace s),
          oi_Kind = (case stat of None \<Rightarrow> '''' | Some s \<Rightarrow> ws_Kind s),
          oi_Overrides = Some effective\<rparr>)"

definition shouldApplyMutatingPatch ::
    "'raw WebhookEnv \<Rightarrow> string \<Rightarrow> Resolved \<Rightarrow> (nat \<Rightarrow> api_error + string) option \<Rightarrow> version_cache
     \<Rightarrow> bool \<times> version_cache" where
  "shouldApplyMutatingPatch env clusterID r client cache =
     (let overrideInfo = buildWorkloadOverrideInfo (mr_workloadKey r) (Some (mr_stat r)) (mr_overrides r);
          podInfo = BuildPodInfoFromPod (mr_pod r) (Some (mr_workloadInfo r)) (Some (mr_stat r));
          (above33, cache) = CheckIfClusterVersionAbove cache clusterID (map_option (\<lambda>f. f 0) client) 1 33;
          (above34, cache) = CheckIfClusterVersionAbove cache clusterID (map_option (\<lambda>f. f 1) client) 1 34;
          input = \<lparr>ac_K8sVersionGE133 = above33, ac_K8sMemoryGE134 = above34,
            ac_OptimizeGuaranteedPods = rs_OptimizeGuaranteedPods (we_cfg env),
            ac_DisableMemoryApplication = rs_DisableMemoryApplication (we_cfg env),
            ac_NewWorkloadThresholdHours = rs_NewWorkloadThresholdHours (we_cfg env),
            ac_SkipMemory = False,
            ac_PodExcludedByAnnotation = PodExcludedByAnnotation (p_Annotations (mr_pod r))\<rparr>
      in (fst (ShouldApplyRecommendationToPod (we_now env) podInfo (Some overrideInfo) input), cache))"

definition buildMutatingPatches :: "'raw WebhookEnv \<Rightarrow> string \<Rightarrow> Resolved \<Rightarrow> Patch list" where
  "buildMutatingPatches env clusterID r =
     adjustResources (we_oob env) (we_cfg env)
       (\<lambda>workloadID. GetStat (we_faultStat env) clusterID workloadID (we_db env))
       (mr_pod r) (Some (mr_workloadInfo r)) (Some (mr_stat r)) @
     buildDisruptionAnnotationPatches (we_keys env) (we_cron env) (we_now env) (mr_pod r)
       (Some (mr_stat r)) (mr_overrides r)"

definition evaluateMutatingPatch ::
    "'raw WebhookEnv \<Rightarrow> string \<Rightarrow> 'raw AdmissionRequest option \<Rightarrow> version_cache \<Rightarrow> PatchResult \<times> version_cache" where
  "evaluateMutatingPatch env clusterID request cache =
     (case extractMutatingPatchInput (we_decode env) request of
        Inl result \<Rightarrow> (result, cache)
      | Inr pod \<Rightarrow>
          (case resolveMutatingPatchContext env clusterID pod of
             Inl result \<Rightarrow> (result, cache)
           | Inr (r, client) \<Rightarrow>
               let (apply, cache) = shouldApplyMutatingPatch env clusterID r client cache
               in if \<not> apply then (emptyMutatingPatchResult, cache)
                  else (\<lparr>pr_statusCode = 200, pr_errorMessage = '''',
                         pr_patches = buildMutatingPatches env clusterID r, pr_audit = Some r\<rparr>, cache)))"

definition hasResourcePatch :: "Patch list \<Rightarrow> bool" where
  "hasResourcePatch patches \<longleftrightarrow>
     list_ex (\<lambda>p. Contains (pa_path p) ''/resources/requests'' \<or> Contains (pa_path p) ''/resources/limits'') patches"

definition getPodName :: "Pod \<Rightarrow> string" where
  "getPodName pod =
     (if p_Name pod \<noteq> '''' then p_Name pod
      else if p_GenerateName pod \<noteq> '''' then p_GenerateName pod else ''unknown'')"

text \<open>The document of a patch in the details of the audit record: documents hold what the code
  puts into patches, texts and empty objects.\<close>

definition patch_audit_value :: "Patch \<Rightarrow> audit_value" where
  "patch_audit_value p =
     AMap ([(''op'', AStr (pa_op p)), (''path'', AStr (pa_path p))] @
           (case pa_value p of
              Some (JStr s) \<Rightarrow> [(''value'', AStr s)]
            | Some _ \<Rightarrow> [(''value'', AMap [])]
            | None \<Rightarrow> []))"

definition webhook_event :: "Resolved \<Rightarrow> Patch list \<Rightarrow> AuditEvent" where
  "webhook_event r patches =
     (let pod = mr_pod r; name = p_Namespace pod @ ''/'' @ getPodName pod
      in \<lparr>ae_Type = EventTypeNormal, ae_Category = ''WEBHOOK_MUTATION'',
          ae_Message = ''Pod '' @ name @
            (if hasResourcePatch patches then '' mutated with resource recommendations''
             else '' mutated with disruption annotation changes''),
          ae_Target = [(''kind'', p_Kind pod), (''namespace'', p_Namespace pod), (''name'', getPodName pod)],
          ae_Details = [(''workloadId'', AStr (mr_workloadKey r)), (''node'', AStr (p_NodeName pod)),
                        (''patches'', AList (map patch_audit_value patches))]\<rparr>)"

datatype PatchResponse = PatchError int string | PatchList int "Patch list"

definition writeMutatingPatchResponse :: "bool \<Rightarrow> PatchResult \<Rightarrow> trace \<Rightarrow> PatchResponse \<times> trace" where
  "writeMutatingPatchResponse recorder result tr =
     (if pr_errorMessage result \<noteq> ''''
      then (PatchError (pr_statusCode result) (pr_errorMessage result), tr)
      else (PatchList (pr_statusCode result) (pr_patches result),
            (case pr_audit result of
               None \<Rightarrow> tr
             | Some r \<Rightarrow> if pr_patches result = [] then tr
                         else record_audit recorder (webhook_event r (pr_patches result)) tr)))"

text \<open>The body of the request is a review or does not parse.\<close>

definition HandleMutatingPatch ::
    "'raw WebhookEnv \<Rightarrow> string \<Rightarrow> string + 'raw AdmissionRequest option \<Rightarrow> version_cache \<Rightarrow> trace
     \<Rightarrow> PatchResponse \<times> version_cache \<times> trace" where
  "HandleMutatingPatch env clusterID body cache tr =
     (case body of
        Inl e \<Rightarrow> (PatchError 400 e, cache, tr)
      | Inr request \<Rightarrow>
          let (result, cache) = evaluateMutatingPatch env clusterID request cache;
              (response, tr) = writeMutatingPatchResponse (we_recorder env) result tr
          in (response, cache, tr))"

section \<open>The webhook\<close>

record AdmissionResponse =
  as_UID :: string
  as_Allowed :: bool
  as_Patch :: "Patch list option"

datatype WebhookResponse = WebhookError int string | WebhookReview int AdmissionResponse

text \<open>
  The body is unreadable, no review, or a review; the client is the controller, which answers with
  an error or with patches (\<open>None\<close> when none is configured).
\<close>

datatype 'raw webhook_body = Unreadable | NoReview | Review "'raw AdmissionRequest option"

definition MutateHandler ::
    "('raw AdmissionRequest option \<Rightarrow> string + Patch list) option \<Rightarrow> 'raw webhook_body \<Rightarrow> WebhookResponse" where
  "MutateHandler recommender body =
     (case body of
        Unreadable \<Rightarrow> WebhookError 400 ''Failed to read request body''
      | NoReview \<Rightarrow> WebhookError 400 ''Failed to unmarshal admission review''
      | Review None \<Rightarrow> WebhookReview 200 \<lparr>as_UID = '''', as_Allowed = True, as_Patch = None\<rparr>
      | Review (Some request) \<Rightarrow>
          (case recommender of
             None \<Rightarrow> WebhookError 500 ''webhook not properly configured''
           | Some ask \<Rightarrow>
               let patches = (case ask (Some request) of Inl e \<Rightarrow> [] | Inr ps \<Rightarrow> ps)
               in WebhookReview 200 \<lparr>as_UID = ar_UID request, as_Allowed = True, as_Patch = Some patches\<rparr>))"

end
