(* ===== verification/WebhookSpec.thy ===== *)
theory WebhookSpec
  imports Webhook ApplyTask
begin

text \<open>
  What the patches of the webhook do to the object under admission. A document renders a pod when
  its resources and annotations are the ones the pod was decoded from. The patches of a container
  are reduced to a patch of its resources, and containers do not interfere.
\<close>

section \<open>Documents of pods\<close>

text \<open>The members of an object, where there is one.\<close>

definition members :: "json option \<Rightarrow> string \<rightharpoonup> json" where
  "members j = (case j of Some (JObj kvs) \<Rightarrow> lookup kvs | _ \<Rightarrow> Map.empty)"

definition is_obj :: "json option \<Rightarrow> (string \<rightharpoonup> json) \<Rightarrow> bool" where
  "is_obj j f \<longleftrightarrow> (\<exists>kvs. j = Some (JObj kvs) \<and> lookup kvs = f)"

text \<open>A resource list is nil when the document has none, and has its members otherwise.\<close>

definition renders_list :: "resource_list option \<Rightarrow> json option \<Rightarrow> bool" where
  "renders_list rl j =
     (case rl of
        None \<Rightarrow> j = None \<or> j = Some JNull
      | Some l \<Rightarrow> \<exists>f. is_obj j f \<and> dom f = fst ` set l)"

definition resources_path :: "Pod \<Rightarrow> nat \<Rightarrow> string list" where
  "resources_path pod i =
     (if i < length (p_Containers pod) then [''spec'', ''containers'', show_nat i, ''resources'']
      else [''spec'', ''initContainers'', show_nat (i - length (p_Containers pod)), ''resources''])"

definition all_containers :: "Pod \<Rightarrow> Container list" where
  "all_containers pod = p_Containers pod @ p_InitContainers pod"

definition renders :: "Pod \<Rightarrow> json \<Rightarrow> bool" where
  "renders pod doc \<longleftrightarrow>
     (\<forall>i < length (all_containers pod). \<exists>ro. get (resources_path pod i) doc = Some (JObj ro) \<and>
        renders_list (c_Requests (all_containers pod ! i)) (lookup ro ''requests'') \<and>
        renders_list (c_Limits (all_containers pod ! i)) (lookup ro ''limits'')) \<and>
     (p_Annotations pod = Map.empty \<or>
       (\<exists>f. is_obj (get [''metadata'', ''annotations''] doc) f \<and> dom f = dom (p_Annotations pod)))"

section \<open>Relative patches of the resources of a container\<close>

type_synonym rel = "string \<times> string list \<times> json option"

definition rel_shape :: "Container \<Rightarrow> rel list" where
  "rel_shape c =
     (if c_Requests c = None then [(''add'', [''requests''], Some (JObj []))] else []) @
     (if c_Limits c = None then [(''add'', [''limits''], Some (JObj []))] else []) @
     (if rl_get (c_Limits c) ResourceCPU \<noteq> None then [(''remove'', [''limits'', ''cpu''], None)] else [])"

definition at_base :: "string list \<Rightarrow> rel list \<Rightarrow> Patch list" where
  "at_base p rs = map (\<lambda>(opn, q, v). rel_patch opn q v (path_of p)) rs"

lemma at_base_simps [simp]:
  "at_base p [] = []"
  "at_base p ((opn, q, v) # rs) = rel_patch opn q v (path_of p) # at_base p rs"
  "at_base p (rs @ rs') = at_base p rs @ at_base p rs'"
  by (simp_all add: at_base_def)

lemma shape_patches_rel:
  "shape_patches (path_of p) c = at_base (p @ [''resources'']) (rel_shape c)"
  by (simp add: shape_patches_def rel_shape_def patch_op_def rel_patch_def path_of_append escape_Cons)

lemma is_objI: "lookup kvs = f \<Longrightarrow> is_obj (Some (JObj kvs)) f"
  by (simp add: is_obj_def)

lemma renders_list_members: "renders_list (Some l) j \<Longrightarrow> is_obj j (members j) \<and> dom (members j) = fst ` set l"
  by (clarsimp simp: renders_list_def is_obj_def members_def)

lemma renders_list_None: "renders_list None j \<Longrightarrow> members j = Map.empty"
  by (auto simp: renders_list_def members_def)

lemma rl_get_key: "rl_get rl k \<noteq> None \<Longrightarrow> \<exists>l. rl = Some l \<and> k \<in> fst ` set l"
  by (cases rl) (simp_all add: rl_get_def map_of_eq_None_iff)

text \<open>After the shape is right both lists are objects, and the limit on the CPU is gone.\<close>

lemma shape_result:
  assumes "renders_list (c_Requests c) (lookup ro ''requests'')"
    and "renders_list (c_Limits c) (lookup ro ''limits'')"
  shows "\<exists>ro'. apply_rel (rel_shape c) (JObj ro) = Some (JObj ro') \<and>
    is_obj (lookup ro' ''requests'') (members (lookup ro ''requests'')) \<and>
    is_obj (lookup ro' ''limits'') ((members (lookup ro ''limits''))(''cpu'' := None)) \<and>
    (\<forall>k. k \<noteq> ''requests'' \<longrightarrow> k \<noteq> ''limits'' \<longrightarrow> lookup ro' k = lookup ro k)"
proof -
  define rs1 :: "rel list" where
    "rs1 = (if c_Requests c = None then [(''add'', [''requests''], Some (JObj []))] else [])"
  define rs2 :: "rel list" where
    "rs2 = (if c_Limits c = None then [(''add'', [''limits''], Some (JObj []))] else [])"
  define rs3 :: "rel list" where
    "rs3 = (if rl_get (c_Limits c) ResourceCPU \<noteq> None then [(''remove'', [''limits'', ''cpu''], None)] else [])"
  have app: "apply_rel (rs @ rs') d = (case apply_rel rs d of None \<Rightarrow> None | Some d' \<Rightarrow> apply_rel rs' d')"
    for rs rs' d by (induction rs arbitrary: d) (auto split: option.splits)
  obtain ro1 where r1: "apply_rel rs1 (JObj ro) = Some (JObj ro1)"
    "is_obj (lookup ro1 ''requests'') (members (lookup ro ''requests''))"
    "\<forall>k. k \<noteq> ''requests'' \<longrightarrow> lookup ro1 k = lookup ro k"
  proof (cases "c_Requests c")
    case None
    then show ?thesis
      using that [of "set_key ''requests'' (JObj []) ro"] renders_list_None [of "lookup ro ''requests''"] assms(1)
      by (simp add: rs1_def is_obj_def fun_eq_iff)
  next
    case (Some l)
    then show ?thesis using that [of ro] renders_list_members [of l] assms(1) by (simp add: rs1_def)
  qed
  obtain ro2 where r2: "apply_rel rs2 (JObj ro1) = Some (JObj ro2)"
    "is_obj (lookup ro2 ''limits'') (members (lookup ro ''limits''))"
    "\<forall>k. k \<noteq> ''limits'' \<longrightarrow> lookup ro2 k = lookup ro1 k"
  proof (cases "c_Limits c")
    case None
    then show ?thesis
      using that [of "set_key ''limits'' (JObj []) ro1"] renders_list_None [of "lookup ro ''limits''"] assms(2)
      by (simp add: rs2_def is_obj_def fun_eq_iff)
  next
    case (Some l)
    then show ?thesis using that [of ro1] renders_list_members [of l] assms(2) r1(3) by (simp add: rs2_def)
  qed
  obtain kvs where kvs: "lookup ro2 ''limits'' = Some (JObj kvs)" "lookup kvs = members (lookup ro ''limits'')"
    using r2(2) by (auto simp: is_obj_def)
  obtain ro3 where r3: "apply_rel rs3 (JObj ro2) = Some (JObj ro3)"
    "is_obj (lookup ro3 ''limits'') ((members (lookup ro ''limits''))(''cpu'' := None))"
    "\<forall>k. k \<noteq> ''limits'' \<longrightarrow> lookup ro3 k = lookup ro2 k"
  proof (cases "rl_get (c_Limits c) ResourceCPU")
    case None
    have "members (lookup ro ''limits'') ''cpu'' = None"
    proof (cases "c_Limits c")
      case None
      then show ?thesis using renders_list_None assms(2) by simp
    next
      case (Some l)
      then have "''cpu'' \<notin> fst ` set l"
        using \<open>rl_get (c_Limits c) ResourceCPU = None\<close> by (simp add: rl_get_def ResourceCPU_def map_of_eq_None_iff)
      then show ?thesis using renders_list_members [of l "lookup ro ''limits''"] assms(2) Some by auto
    qed
    then show ?thesis using that [of ro2] None r2(2) by (simp add: rs3_def fun_upd_idem)
  next
    case (Some q)
    obtain l where l: "c_Limits c = Some l" "''cpu'' \<in> fst ` set l"
      using rl_get_key [of "c_Limits c" "''cpu''"] Some by (auto simp: ResourceCPU_def)
    then have "members (lookup ro ''limits'') ''cpu'' \<noteq> None"
      using renders_list_members [of l "lookup ro ''limits''"] assms(2) by auto
    then show ?thesis
      using that [of "set_key ''limits'' (JObj (del_key ''cpu'' kvs)) ro2"] Some kvs
      by (simp add: rs3_def is_obj_def fun_eq_iff)
  qed
  have "apply_rel (rel_shape c) (JObj ro) = Some (JObj ro3)"
    unfolding rel_shape_def rs1_def [symmetric] rs2_def [symmetric] rs3_def [symmetric] app r1(1)
      option.case r2(1) r3(1) ..
  moreover have "is_obj (lookup ro3 ''requests'') (members (lookup ro ''requests''))"
    using r1(2) r2(3) r3(3) by simp
  moreover have "\<forall>k. k \<noteq> ''requests'' \<longrightarrow> k \<noteq> ''limits'' \<longrightarrow> lookup ro3 k = lookup ro k"
    using r1(3) r2(3) r3(3) by simp
  ultimately show ?thesis using r3(2) by blast
qed

section \<open>What the values become\<close>

text \<open>The members the webhook sets in the requests and in the limits of a container.\<close>

definition sets_memory :: "(float64 \<Rightarrow> int) \<Rightarrow> RecommendationSettings \<Rightarrow> Container \<Rightarrow> float64 \<Rightarrow> bool" where
  "sets_memory oob cfg c mb \<longleftrightarrow>
     \<not> rs_DisableMemoryApplication cfg \<and> 0 < q_Value (rl_val (c_Requests c) ResourceMemory) \<and>
     flt (lit 16000000) (mathAbs (f64_of_int (int64_sub (to_bytes oob mb)
        (q_Value (rl_val (c_Requests c) ResourceMemory)))))"

definition new_requests ::
    "(float64 \<Rightarrow> int) \<Rightarrow> RecommendationSettings \<Rightarrow> string \<Rightarrow> Container \<Rightarrow> float64 \<Rightarrow> float64 \<Rightarrow> string \<rightharpoonup> json" where
  "new_requests oob cfg kind c cpu mb =
     (if kind = DaemonSetKind then Map.empty
      else (if 0 < q_MilliValue (rl_val (c_Requests c) ResourceCPU)
            then [''cpu'' \<mapsto> JStr (millicores_text oob (mathMax (fmul cpu (lit 1000)) (lit 1)))] else Map.empty) ++
           (if sets_memory oob cfg c mb
            then [''memory'' \<mapsto> JStr (memoryBytesToMB (to_bytes oob mb))] else Map.empty))"

definition new_limits ::
    "(float64 \<Rightarrow> int) \<Rightarrow> RecommendationSettings \<Rightarrow> string \<Rightarrow> Container \<Rightarrow> float64 \<Rightarrow> float64 \<Rightarrow> string \<rightharpoonup> json" where
  "new_limits oob cfg kind c mb limit =
     (let limitBytes = to_bytes oob (mathMax limit (lit 512));
          current = q_Value (rl_val (c_Limits c) ResourceMemory)
      in if \<not> sets_memory oob cfg c mb \<or> (kind = DaemonSetKind \<and> current \<le> 0) then Map.empty
         else [''memory'' \<mapsto> JStr (memoryBytesToMB
           (if kind = DaemonSetKind
            then int64_of_f64 oob (mathMax (f64_of_int current) (mathMax (f64_of_int limitBytes) (lit 16000000)))
            else limitBytes))])"

definition rel_cpu :: "(float64 \<Rightarrow> int) \<Rightarrow> string \<Rightarrow> Container \<Rightarrow> float64 \<Rightarrow> rel list" where
  "rel_cpu oob kind c cpu =
     (if 0 < q_MilliValue (rl_val (c_Requests c) ResourceCPU) \<and> kind \<noteq> DaemonSetKind
      then [(''replace'', [''requests'', ''cpu''],
             Some (JStr (millicores_text oob (mathMax (fmul cpu (lit 1000)) (lit 1)))))] else [])"

definition rel_memory ::
    "(float64 \<Rightarrow> int) \<Rightarrow> RecommendationSettings \<Rightarrow> string \<Rightarrow> Container \<Rightarrow> float64 \<Rightarrow> float64 \<Rightarrow> rel list" where
  "rel_memory oob cfg kind c mb limit =
     (let limitBytes = to_bytes oob (mathMax limit (lit 512));
          current = q_Value (rl_val (c_Limits c) ResourceMemory)
      in if \<not> sets_memory oob cfg c mb then []
         else if kind = DaemonSetKind
         then if 0 < current
              then [(''replace'', [''limits'', ''memory''], Some (JStr (memoryBytesToMB (int64_of_f64 oob
                     (mathMax (f64_of_int current) (mathMax (f64_of_int limitBytes) (lit 16000000)))))))]
              else []
         else [(''replace'', [''requests'', ''memory''], Some (JStr (memoryBytesToMB (to_bytes oob mb)))),
               ((if 0 < current then ''replace'' else ''add''), [''limits'', ''memory''],
                Some (JStr (memoryBytesToMB limitBytes)))])"

lemma cpu_patches_rel:
  "cpu_patches oob kind (path_of p) c cpu = at_base (p @ [''resources'']) (rel_cpu oob kind c cpu)"
  by (simp add: cpu_patches_def rel_cpu_def patch_op_def rel_patch_def path_of_append escape_Cons)

lemma memory_patches_rel:
  "memory_patches oob cfg kind (path_of p) c mb limit =
     at_base (p @ [''resources'']) (rel_memory oob cfg kind c mb limit)"
  by (simp add: memory_patches_def rel_memory_def sets_memory_def patch_op_def rel_patch_def
      path_of_append escape_Cons Let_def)

lemma set_member:
  assumes "is_obj (lookup ro r) f" "opn = ''add'' \<or> (opn = ''replace'' \<and> f k \<noteq> None)"
  shows "\<exists>ro'. apply_rel [(opn, [r, k], Some v)] (JObj ro) = Some (JObj ro') \<and>
    is_obj (lookup ro' r) (f(k \<mapsto> v)) \<and> (\<forall>r'. r' \<noteq> r \<longrightarrow> lookup ro' r' = lookup ro r')"
proof -
  obtain kvs where "lookup ro r = Some (JObj kvs)" "lookup kvs = f" using assms(1) by (auto simp: is_obj_def)
  then show ?thesis using assms(2)
    by (intro exI [of _ "set_key r (JObj (set_key k v kvs)) ro"]) (auto simp: is_obj_def fun_eq_iff)
qed

lemma apply_rel_append:
  "apply_rel (rs @ rs') d = (case apply_rel rs d of None \<Rightarrow> None | Some d' \<Rightarrow> apply_rel rs' d')"
  by (induction rs arbitrary: d) (auto split: option.splits)

text \<open>A quantity that is positive is in the list.\<close>

lemma positive_member:
  assumes "renders_list rl j" "0 < q_MilliValue (rl_val rl k) \<or> 0 < q_Value (rl_val rl k)"
  shows "members j k \<noteq> None"
proof -
  have "rl_get rl k \<noteq> None" using assms(2) by (auto simp: rl_val_def zero_quantity_def split: option.splits)
  then obtain l where l: "rl = Some l" "k \<in> fst ` set l" using rl_get_key by blast
  then show ?thesis using renders_list_members [of l j] assms(1) l(1) by auto
qed

lemma value_result:
  assumes "renders_list (c_Requests c) jr" "renders_list (c_Limits c) jl"
    and "is_obj (lookup ro ''requests'') (members jr)"
    and "is_obj (lookup ro ''limits'') ((members jl)(''cpu'' := None))"
  shows "\<exists>ro'. apply_rel (rel_cpu oob kind c cpu @ rel_memory oob cfg kind c mb limit) (JObj ro) = Some (JObj ro') \<and>
    is_obj (lookup ro' ''requests'') (members jr ++ new_requests oob cfg kind c cpu mb) \<and>
    is_obj (lookup ro' ''limits'') ((members jl)(''cpu'' := None) ++ new_limits oob cfg kind c mb limit) \<and>
    (\<forall>k. k \<noteq> ''requests'' \<longrightarrow> k \<noteq> ''limits'' \<longrightarrow> lookup ro' k = lookup ro k)"
proof -
  let ?cur = "q_Value (rl_val (c_Limits c) ResourceMemory)"
  let ?R = "if 0 < q_MilliValue (rl_val (c_Requests c) ResourceCPU) \<and> kind \<noteq> DaemonSetKind
    then (members jr)(''cpu'' \<mapsto> JStr (millicores_text oob (mathMax (fmul cpu (lit 1000)) (lit 1)))) else members jr"
  have cpu: "0 < q_MilliValue (rl_val (c_Requests c) ResourceCPU) \<Longrightarrow> members jr ''cpu'' \<noteq> None"
    using positive_member [OF assms(1), of ResourceCPU] by (simp add: ResourceCPU_def)
  have mem: "sets_memory oob cfg c mb \<Longrightarrow> ?R ''memory'' \<noteq> None"
    using positive_member [OF assms(1), of ResourceMemory] by (auto simp: sets_memory_def ResourceMemory_def)
  have lim: "0 < ?cur \<Longrightarrow> ((members jl)(''cpu'' := None)) ''memory'' \<noteq> None"
    using positive_member [OF assms(2), of ResourceMemory] by (simp add: ResourceMemory_def)
  obtain ro1 where r1: "apply_rel (rel_cpu oob kind c cpu) (JObj ro) = Some (JObj ro1)"
    "is_obj (lookup ro1 ''requests'') ?R" "\<forall>k. k \<noteq> ''requests'' \<longrightarrow> lookup ro1 k = lookup ro k"
  proof (cases "0 < q_MilliValue (rl_val (c_Requests c) ResourceCPU) \<and> kind \<noteq> DaemonSetKind")
    case True
    then show ?thesis using that set_member [OF assms(3), of "''replace''" "''cpu''"] cpu
      by (simp only: rel_cpu_def if_True simp_thms) blast
  next
    case False
    then show ?thesis using that [of ro] assms(3) by (simp only: rel_cpu_def if_False apply_rel.simps) blast
  qed
  have l1: "is_obj (lookup ro1 ''limits'') ((members jl)(''cpu'' := None))" using assms(4) r1(3) by simp
  show ?thesis
  proof (cases "sets_memory oob cfg c mb")
    case False
    then have e: "rel_memory oob cfg kind c mb limit = []" "new_limits oob cfg kind c mb limit = Map.empty"
      "members jr ++ new_requests oob cfg kind c cpu mb = ?R"
      by (auto simp: rel_memory_def new_limits_def new_requests_def Let_def)
    show ?thesis using r1 l1 by (intro exI [of _ ro1]) (simp add: e)
  next
    case True
    show ?thesis
    proof (cases "kind = DaemonSetKind")
      case ds: True
      have R: "members jr ++ new_requests oob cfg kind c cpu mb = ?R" using ds by (simp add: new_requests_def)
      show ?thesis
      proof (cases "0 < ?cur")
        case pos: True
        let ?v = "JStr (memoryBytesToMB (int64_of_f64 oob (mathMax (f64_of_int ?cur)
          (mathMax (f64_of_int (to_bytes oob (mathMax limit (lit 512)))) (lit 16000000)))))"
        have L: "new_limits oob cfg kind c mb limit = [''memory'' \<mapsto> ?v]"
          using True ds pos by (simp add: new_limits_def Let_def)
        have e: "rel_memory oob cfg kind c mb limit = [(''replace'', [''limits'', ''memory''], Some ?v)]"
          using True ds pos by (simp add: rel_memory_def Let_def)
        obtain ro2 where r2: "apply_rel [(''replace'', [''limits'', ''memory''], Some ?v)] (JObj ro1) = Some (JObj ro2)"
          "is_obj (lookup ro2 ''limits'') ((members jl)(''cpu'' := None, ''memory'' \<mapsto> ?v))"
          "\<forall>r'. r' \<noteq> ''limits'' \<longrightarrow> lookup ro2 r' = lookup ro1 r'"
          using set_member [OF l1, of "''replace''" "''memory''" ?v] lim [OF pos] by blast
        have "apply_rel (rel_cpu oob kind c cpu @ rel_memory oob cfg kind c mb limit) (JObj ro) = Some (JObj ro2)"
          unfolding e apply_rel_append r1(1) option.case r2(1) ..
        then show ?thesis using r1(2,3) r2(2,3) by (intro exI [of _ ro2]) (simp add: R L)
      next
        case neg: False
        then have "rel_memory oob cfg kind c mb limit = []" "new_limits oob cfg kind c mb limit = Map.empty"
          using True ds by (auto simp: rel_memory_def new_limits_def Let_def)
        then show ?thesis using r1 l1 by (intro exI [of _ ro1]) (simp add: R)
      qed
    next
      case nds: False
      let ?v = "JStr (memoryBytesToMB (to_bytes oob mb))"
      let ?w = "JStr (memoryBytesToMB (to_bytes oob (mathMax limit (lit 512))))"
      have R: "members jr ++ new_requests oob cfg kind c cpu mb = ?R(''memory'' \<mapsto> ?v)"
        using nds True by (auto simp: new_requests_def fun_eq_iff map_add_def)
      have L: "new_limits oob cfg kind c mb limit = [''memory'' \<mapsto> ?w]"
        using nds True by (simp add: new_limits_def Let_def)
      obtain ro2 where r2: "apply_rel [(''replace'', [''requests'', ''memory''], Some ?v)] (JObj ro1) = Some (JObj ro2)"
        "is_obj (lookup ro2 ''requests'') (?R(''memory'' \<mapsto> ?v))"
        "\<forall>r'. r' \<noteq> ''requests'' \<longrightarrow> lookup ro2 r' = lookup ro1 r'"
        using set_member [OF r1(2), of "''replace''" "''memory''" ?v] mem [OF True] by blast
      have l2: "is_obj (lookup ro2 ''limits'') ((members jl)(''cpu'' := None))" using l1 r2(3) by simp
      have opn: "(if 0 < ?cur then ''replace'' else ''add'') = ''add'' \<or>
          (if 0 < ?cur then ''replace'' else ''add'') = ''replace'' \<and> ((members jl)(''cpu'' := None)) ''memory'' \<noteq> None"
        using lim by simp
      obtain ro3 where r3: "apply_rel [((if 0 < ?cur then ''replace'' else ''add''), [''limits'', ''memory''], Some ?w)]
            (JObj ro2) = Some (JObj ro3)"
        "is_obj (lookup ro3 ''limits'') ((members jl)(''cpu'' := None, ''memory'' \<mapsto> ?w))"
        "\<forall>r'. r' \<noteq> ''limits'' \<longrightarrow> lookup ro3 r' = lookup ro2 r'"
        using set_member [OF l2 opn] by blast
      have e: "rel_memory oob cfg kind c mb limit = [(''replace'', [''requests'', ''memory''], Some ?v)] @
          [((if 0 < ?cur then ''replace'' else ''add''), [''limits'', ''memory''], Some ?w)]"
        using True nds by (simp add: rel_memory_def Let_def)
      have "apply_rel (rel_cpu oob kind c cpu @ rel_memory oob cfg kind c mb limit) (JObj ro) = Some (JObj ro3)"
        unfolding e apply_rel_append r1(1) option.case r2(1) r3(1) ..
      then show ?thesis using r1(3) r2 r3 by (intro exI [of _ ro3]) (simp add: R L)
    qed
  qed
qed

section \<open>A container\<close>

text \<open>The recommendation a container has, when its statistics are complete.\<close>

definition webhook_recommendation :: "WorkloadStat \<Rightarrow> Container \<Rightarrow> (float64 \<times> float64 \<times> float64) option" where
  "webhook_recommendation stat c =
     (case find (\<lambda>cs. cs_ContainerName cs = c_Name c) (ws_ContainerStats stat) of
        None \<Rightarrow> None
      | Some cs \<Rightarrow>
          (case (cs_CPUStats cs, cs_MemoryStats cs, cs_SimplePredictionsCPU cs, cs_SimplePredictionsMemory cs) of
             (Some cpu, Some mem, Some pc, Some pm) \<Rightarrow>
               Some (webhook_cpu pc cpu, webhook_memory pm mem,
                     webhook_memory_limit cs mem (webhook_memory pm mem))
           | _ \<Rightarrow> None))"

definition rel_container ::
    "(float64 \<Rightarrow> int) \<Rightarrow> RecommendationSettings \<Rightarrow> string \<Rightarrow> WorkloadStat \<Rightarrow> Container \<Rightarrow> rel list" where
  "rel_container oob cfg kind stat c =
     rel_shape c @ (case webhook_recommendation stat c of
        None \<Rightarrow> []
      | Some (cpu, mb, limit) \<Rightarrow> rel_cpu oob kind c cpu @ rel_memory oob cfg kind c mb limit)"

lemma container_patches_rel:
  "container_patches oob cfg kind stat (path_of p) c =
     at_base (p @ [''resources'']) (rel_container oob cfg kind stat c)"
  unfolding container_patches_def rel_container_def shape_patches_rel webhook_recommendation_def
  by (auto simp: cpu_patches_rel memory_patches_rel Let_def split: option.split)

definition requests_set ::
    "(float64 \<Rightarrow> int) \<Rightarrow> RecommendationSettings \<Rightarrow> string \<Rightarrow> WorkloadStat \<Rightarrow> Container \<Rightarrow> string \<rightharpoonup> json" where
  "requests_set oob cfg kind stat c =
     (case webhook_recommendation stat c of None \<Rightarrow> Map.empty
      | Some (cpu, mb, limit) \<Rightarrow> new_requests oob cfg kind c cpu mb)"

definition limits_set ::
    "(float64 \<Rightarrow> int) \<Rightarrow> RecommendationSettings \<Rightarrow> string \<Rightarrow> WorkloadStat \<Rightarrow> Container \<Rightarrow> string \<rightharpoonup> json" where
  "limits_set oob cfg kind stat c =
     (case webhook_recommendation stat c of None \<Rightarrow> Map.empty
      | Some (cpu, mb, limit) \<Rightarrow> new_limits oob cfg kind c mb limit)"

lemma rel_container_paths: "\<forall>(opn, q, v) \<in> set (rel_container oob cfg kind stat c). q \<noteq> []"
  by (auto simp: rel_container_def rel_shape_def rel_cpu_def rel_memory_def Let_def
      split: option.splits if_splits)

lemma patched_container:
  assumes "renders_list (c_Requests c) (lookup ro ''requests'')"
    and "renders_list (c_Limits c) (lookup ro ''limits'')"
  shows "\<exists>ro'. apply_rel (rel_container oob cfg kind stat c) (JObj ro) = Some (JObj ro') \<and>
    is_obj (lookup ro' ''requests'') (members (lookup ro ''requests'') ++ requests_set oob cfg kind stat c) \<and>
    is_obj (lookup ro' ''limits'') ((members (lookup ro ''limits''))(''cpu'' := None) ++ limits_set oob cfg kind stat c) \<and>
    (\<forall>k. k \<noteq> ''requests'' \<longrightarrow> k \<noteq> ''limits'' \<longrightarrow> lookup ro' k = lookup ro k)"
proof -
  obtain ro1 where r1: "apply_rel (rel_shape c) (JObj ro) = Some (JObj ro1)"
    "is_obj (lookup ro1 ''requests'') (members (lookup ro ''requests''))"
    "is_obj (lookup ro1 ''limits'') ((members (lookup ro ''limits''))(''cpu'' := None))"
    "\<forall>k. k \<noteq> ''requests'' \<longrightarrow> k \<noteq> ''limits'' \<longrightarrow> lookup ro1 k = lookup ro k"
    using shape_result [OF assms] by blast
  show ?thesis
  proof (cases "webhook_recommendation stat c")
    case None
    then show ?thesis using r1
      by (intro exI [of _ ro1]) (simp add: rel_container_def requests_set_def limits_set_def)
  next
    case (Some r)
    obtain cpu mb limit where r: "r = (cpu, mb, limit)" by (cases r)
    obtain ro2 where r2: "apply_rel (rel_cpu oob kind c cpu @ rel_memory oob cfg kind c mb limit) (JObj ro1) = Some (JObj ro2)"
      "is_obj (lookup ro2 ''requests'') (members (lookup ro ''requests'') ++ new_requests oob cfg kind c cpu mb)"
      "is_obj (lookup ro2 ''limits'') ((members (lookup ro ''limits''))(''cpu'' := None) ++ new_limits oob cfg kind c mb limit)"
      "\<forall>k. k \<noteq> ''requests'' \<longrightarrow> k \<noteq> ''limits'' \<longrightarrow> lookup ro2 k = lookup ro1 k"
      using value_result [OF assms r1(2,3)] by blast
    have "apply_rel (rel_container oob cfg kind stat c) (JObj ro) = Some (JObj ro2)"
      unfolding rel_container_def Some r option.case prod.case
      by (subst apply_rel_append) (simp only: r1(1) r2(1) option.case)
    then show ?thesis using r1(4) r2 Some r
      by (intro exI [of _ ro2]) (simp add: requests_set_def limits_set_def)
  qed
qed

section \<open>All containers\<close>

lemma container_path_of: "container_path pod i @ ''/resources'' = path_of (resources_path pod i)"
  by (simp add: container_path_def resources_path_def escape_Cons escape_id [OF show_nat_plain])

lemma resources_path_split: "\<exists>p. resources_path pod i = p @ [''resources''] \<and> container_path pod i = path_of p"
proof -
  have "resources_path pod i = butlast (resources_path pod i) @ [''resources'']"
    by (simp add: resources_path_def)
  moreover have "container_path pod i = path_of (butlast (resources_path pod i))"
    by (simp add: container_path_def resources_path_def escape_Cons escape_id [OF show_nat_plain])
  ultimately show ?thesis by blast
qed

lemma plain_keys: "array_index ''spec'' = None" "array_index ''containers'' = None"
  "array_index ''initContainers'' = None" "array_index ''metadata'' = None"
  by (simp_all add: array_index_def)

lemma resources_apart:
  "i \<noteq> j \<Longrightarrow> apart (resources_path pod i) (resources_path pod j)"
  using plain_keys by (auto simp: resources_path_def show_nat_inj)

lemma resources_annotations_apart:
  "apart (resources_path pod i) (''metadata'' # q)" "apart (''metadata'' # q) (resources_path pod i)"
  using plain_keys by (auto simp: resources_path_def)

text \<open>What the resources of the first \<open>n\<close> containers become; \<open>R\<close> relates an old object to a new one.\<close>

lemma fold_containers:
  assumes "\<forall>i < n. \<exists>ro. get (resources_path pod i) doc = Some (JObj ro) \<and>
      (\<exists>ro'. apply_rel (rel i) (JObj ro) = Some (JObj ro') \<and> R i ro ro')"
    and "\<forall>i < n. \<forall>(opn, q, v) \<in> set (rel i). q \<noteq> []"
    and "\<And>i ro ro'. rel i = [] \<Longrightarrow> apply_rel (rel i) (JObj ro) = Some (JObj ro') \<Longrightarrow> ro' = ro"
  shows "\<exists>doc'. apply_patches (concat (map (\<lambda>i. at_base (resources_path pod i) (rel i)) [0 ..< n])) doc = Some doc' \<and>
    (\<forall>i < n. \<exists>ro ro'. get (resources_path pod i) doc = Some (JObj ro) \<and>
        get (resources_path pod i) doc' = Some (JObj ro') \<and> R i ro ro') \<and>
    (\<forall>q. (\<forall>i < n. apart (resources_path pod i) q) \<longrightarrow> get q doc' = get q doc)"
  using assms(1,2)
proof (induction n)
  case 0
  then show ?case by simp
next
  case (Suc n)
  let ?p = "resources_path pod"
  have pre: "\<forall>i < n. \<exists>ro. get (?p i) doc = Some (JObj ro) \<and>
      (\<exists>ro'. apply_rel (rel i) (JObj ro) = Some (JObj ro') \<and> R i ro ro')"
    "\<forall>i < n. \<forall>(opn, q, v) \<in> set (rel i). q \<noteq> []"
    using Suc(2,3) less_SucI by blast+
  obtain d1 where d1: "apply_patches (concat (map (\<lambda>i. at_base (?p i) (rel i)) [0 ..< n])) doc = Some d1"
    "\<forall>i < n. \<exists>ro ro'. get (?p i) doc = Some (JObj ro) \<and> get (?p i) d1 = Some (JObj ro') \<and> R i ro ro'"
    "\<forall>q. (\<forall>i < n. apart (?p i) q) \<longrightarrow> get q d1 = get q doc"
    using Suc(1) [OF pre] by blast
  obtain ro ro' where ro: "get (?p n) doc = Some (JObj ro)" "apply_rel (rel n) (JObj ro) = Some (JObj ro')" "R n ro ro'"
    using Suc(2) by blast
  have g1: "get (?p n) d1 = Some (JObj ro)"
    using d1(3) ro(1) resources_apart by (metis less_irrefl)
  let ?d2 = "if rel n = [] then d1 else put (?p n) (JObj ro') d1"
  have "\<forall>(opn, q, v) \<in> set (rel n). q \<noteq> []" using Suc(3) by blast
  then have a2: "apply_patches (at_base (?p n) (rel n)) d1 = Some ?d2"
    using apply_below [OF _ g1 ro(2)] unfolding at_base_def by blast
  have g2: "get (?p n) ?d2 = Some (JObj ro')"
    using g1 ro(2) assms(3) [of n ro ro'] by (auto simp: get_put_same)
  have o2: "apart (?p n) q \<Longrightarrow> get q ?d2 = get q d1" for q by (simp add: get_put_apart)
  show ?case
  proof (intro exI [of _ ?d2] conjI allI impI)
    show "apply_patches (concat (map (\<lambda>i. at_base (?p i) (rel i)) [0 ..< Suc n])) doc = Some ?d2"
      using d1(1) a2 by (simp add: apply_patches_append)
    fix i assume "i < Suc n"
    then show "\<exists>ro ro'. get (?p i) doc = Some (JObj ro) \<and> get (?p i) ?d2 = Some (JObj ro') \<and> R i ro ro'"
      using d1(2) ro g2 o2 [OF resources_apart [of n i]] by (cases "i = n") auto
  next
    fix q assume "\<forall>i < Suc n. apart (?p i) q"
    then show "get q ?d2 = get q doc" using d1(3) o2 by (metis less_SucI lessI)
  qed
qed

section \<open>The annotations\<close>

text \<open>The protecting annotations that are taken off the pod.\<close>

definition stripped_keys ::
    "string list \<Rightarrow> cron_parser \<Rightarrow> go_time \<Rightarrow> Pod \<Rightarrow> WorkloadStat \<Rightarrow> Overrides option \<Rightarrow> string list" where
  "stripped_keys keys parse now pod stat overrides =
     (if (\<exists>c \<in> set_option (ws_Constraints stat). wc_DoNotDisruptAnnotation c) \<and>
         (\<exists>ov \<in> set_option overrides. IsInAnyDisruptionWindow parse now (ov_DisruptionWindows ov))
      then filter (\<lambda>k. p_Annotations pod k \<noteq> None) keys else [])"

definition rel_annotations :: "Pod \<Rightarrow> string list \<Rightarrow> rel list" where
  "rel_annotations pod ks =
     (if ks = [] then []
      else map (\<lambda>k. (''remove'', [k], None)) ks @
        [((if p_Annotations pod AnnotationModified \<noteq> None then ''replace'' else ''add''),
          [AnnotationModified], Some (JStr TrueValue))])"

lemma annotation_path_of: "annotation_path k = path_of [''metadata'', ''annotations'', k]"
  by (simp add: annotation_path_def escape_Cons)

lemma annotation_patches_rel:
  "buildDisruptionAnnotationPatches keys parse now pod (Some stat) overrides =
     at_base [''metadata'', ''annotations''] (rel_annotations pod (stripped_keys keys parse now pod stat overrides))"
proof -
  have p: "patch_op opn (annotation_path k) v = rel_patch opn [k] v (path_of [''metadata'', ''annotations''])" for opn k v
    by (simp add: patch_op_def rel_patch_def annotation_path_of)
  have b: "at_base b (map (\<lambda>k. (''remove'', [k], None)) ks) = map (\<lambda>k. rel_patch ''remove'' [k] None (path_of b)) ks"
    for b ks by (simp add: at_base_def)
  show ?thesis
    by (cases "ws_Constraints stat"; cases overrides)
      (simp_all add: buildDisruptionAnnotationPatches_def stripped_keys_def rel_annotations_def p b Let_def
        IsInAnyDisruptionWindow_def del: path_of.simps)
qed

lemma remove_members:
  assumes "distinct ks" "\<forall>k \<in> set ks. lookup kvs k \<noteq> None"
  shows "\<exists>kvs'. apply_rel (map (\<lambda>k. (''remove'', [k], None)) ks) (JObj kvs) = Some (JObj kvs') \<and>
    (\<forall>k. lookup kvs' k = (if k \<in> set ks then None else lookup kvs k))"
  using assms
proof (induction ks arbitrary: kvs)
  case (Cons k ks)
  have "\<exists>kvs'. apply_rel (map (\<lambda>k. (''remove'', [k], None)) ks) (JObj (del_key k kvs)) = Some (JObj kvs') \<and>
      (\<forall>k'. lookup kvs' k' = (if k' \<in> set ks then None else lookup (del_key k kvs) k'))"
    using Cons(2,3) by (intro Cons(1)) auto
  then show ?case using Cons(3) by auto
qed simp

lemma annotations_result:
  assumes "distinct ks" "ks \<noteq> []" "AnnotationModified \<notin> set ks" "\<forall>k \<in> set ks. p_Annotations pod k \<noteq> None"
    and "dom (lookup kvs) = dom (p_Annotations pod)"
  shows "\<exists>kvs'. apply_rel (rel_annotations pod ks) (JObj kvs) = Some (JObj kvs') \<and>
    (\<forall>k. lookup kvs' k = (if k \<in> set ks then None
       else if k = AnnotationModified then Some (JStr TrueValue) else lookup kvs k))"
proof -
  have "\<forall>k \<in> set ks. lookup kvs k \<noteq> None" using assms(4,5) by blast
  then obtain kvs1 where k1: "apply_rel (map (\<lambda>k. (''remove'', [k], None)) ks) (JObj kvs) = Some (JObj kvs1)"
    "\<forall>k. lookup kvs1 k = (if k \<in> set ks then None else lookup kvs k)"
    using remove_members [OF assms(1)] by blast
  have m: "p_Annotations pod AnnotationModified \<noteq> None \<Longrightarrow> lookup kvs AnnotationModified \<noteq> None"
    using assms(5) by blast
  show ?thesis
    using k1 m assms(2,3)
    by (intro exI [of _ "set_key AnnotationModified (JStr TrueValue) kvs1"])
      (auto simp: rel_annotations_def apply_rel_append)
qed

lemma stripped_keys_subset:
  "set (stripped_keys keys parse now pod stat overrides) \<subseteq> set keys"
  "distinct keys \<Longrightarrow> distinct (stripped_keys keys parse now pod stat overrides)"
  "k \<in> set (stripped_keys keys parse now pod stat overrides) \<Longrightarrow> p_Annotations pod k \<noteq> None"
  by (auto simp: stripped_keys_def)

lemma protecting_keys:
  "mset keys = mset (map fst doNotDisruptAnnotations) \<Longrightarrow> distinct keys \<and> AnnotationModified \<notin> set keys"
proof -
  assume a: "mset keys = mset (map fst doNotDisruptAnnotations)"
  have "distinct (map fst doNotDisruptAnnotations)" "AnnotationModified \<notin> set (map fst doNotDisruptAnnotations)"
    by (simp_all add: doNotDisruptAnnotations_def AnnotationModified_def)
  then show ?thesis using a by (metis mset_eq_imp_distinct_iff mset_eq_setD)
qed

section \<open>The pod\<close>

lemma adjustResources_rel:
  "adjustResources oob cfg getStat pod (Some w) (Some stat) =
     concat (map (\<lambda>i. at_base (resources_path pod i) (rel_container oob cfg (wi_Kind w) stat (all_containers pod ! i)))
       [0 ..< length (all_containers pod)])"
proof -
  have "container_patches oob cfg kind stat (container_path pod i) c =
      at_base (resources_path pod i) (rel_container oob cfg kind stat c)" for kind i c
    using resources_path_split [of pod i] container_patches_rel by metis
  then show ?thesis by (simp add: adjustResources_def all_containers_def Let_def)
qed

lemma annotations_patched:
  fixes keys parse now pod stat overrides
  defines "ks \<equiv> stripped_keys keys parse now pod stat overrides"
  assumes "mset keys = mset (map fst doNotDisruptAnnotations)"
    and "p_Annotations pod = Map.empty \<or>
      (\<exists>f. is_obj (get [''metadata'', ''annotations''] d) f \<and> dom f = dom (p_Annotations pod))"
  shows "\<exists>d'. apply_patches (at_base [''metadata'', ''annotations''] (rel_annotations pod ks)) d = Some d' \<and>
    (\<forall>k. get [''metadata'', ''annotations'', k] d' = (if k \<in> set ks then None
       else if ks \<noteq> [] \<and> k = AnnotationModified then Some (JStr TrueValue)
       else get [''metadata'', ''annotations'', k] d)) \<and>
    (\<forall>q. apart [''metadata'', ''annotations''] q \<longrightarrow> get q d' = get q d)"
proof (cases "ks = []")
  case True
  then show ?thesis by (simp add: rel_annotations_def)
next
  case False
  let ?a = "[''metadata'', ''annotations'']"
  have sub: "set ks \<subseteq> set keys" "distinct keys \<Longrightarrow> distinct ks" "\<forall>k \<in> set ks. p_Annotations pod k \<noteq> None"
    unfolding ks_def using stripped_keys_subset(1,2) by (blast, blast, auto simp: stripped_keys_def)
  obtain k0 where "k0 \<in> set ks" using False by (cases ks) auto
  then have "p_Annotations pod \<noteq> Map.empty" using sub(3) by fastforce
  then obtain kvs where kvs: "get ?a d = Some (JObj kvs)" "dom (lookup kvs) = dom (p_Annotations pod)"
    using assms(3) by (auto simp: is_obj_def)
  obtain kvs' where k': "apply_rel (rel_annotations pod ks) (JObj kvs) = Some (JObj kvs')"
    "\<forall>k. lookup kvs' k = (if k \<in> set ks then None
       else if k = AnnotationModified then Some (JStr TrueValue) else lookup kvs k)"
    using annotations_result [OF _ False _ sub(3) kvs(2)] sub(1,2) protecting_keys [OF assms(2)] by blast
  have ne: "\<forall>(opn, q, v) \<in> set (rel_annotations pod ks). q \<noteq> []" "rel_annotations pod ks \<noteq> []"
    using False by (auto simp: rel_annotations_def)
  have "apply_patches (at_base ?a (rel_annotations pod ks)) d = Some (put ?a (JObj kvs') d)"
    using apply_below [OF ne(1) kvs(1) k'(1)] ne(2) unfolding at_base_def by simp
  moreover have "get (?a @ [k]) (put ?a (JObj kvs') d) = lookup kvs' k" for k
    unfolding get_append using get_put_same [of ?a d "JObj kvs'"] kvs(1) by (simp split: option.split)
  moreover have "get (?a @ [k]) d = lookup kvs k" for k
    unfolding get_append using kvs(1) by (simp split: option.split)
  ultimately show ?thesis using k'(2) False get_put_apart [of ?a]
    by (intro exI [of _ "put ?a (JObj kvs') d"]) simp
qed

definition container_patched :: "'raw WebhookEnv \<Rightarrow> Resolved \<Rightarrow> Container \<Rightarrow> (string \<times> json) list \<Rightarrow> (string \<times> json) list \<Rightarrow> bool" where
  "container_patched env r c ro ro' \<longleftrightarrow>
     is_obj (lookup ro' ''requests'') (members (lookup ro ''requests'') ++
       requests_set (we_oob env) (we_cfg env) (wi_Kind (mr_workloadInfo r)) (mr_stat r) c) \<and>
     is_obj (lookup ro' ''limits'') ((members (lookup ro ''limits''))(''cpu'' := None) ++
       limits_set (we_oob env) (we_cfg env) (wi_Kind (mr_workloadInfo r)) (mr_stat r) c) \<and>
     (\<forall>k. k \<noteq> ''requests'' \<longrightarrow> k \<noteq> ''limits'' \<longrightarrow> lookup ro' k = lookup ro k)"

lemma containers_patched:
  fixes r and env :: "'raw WebhookEnv"
  defines "n \<equiv> length (all_containers (mr_pod r))"
  assumes "renders (mr_pod r) doc"
  shows "\<exists>d. apply_patches (adjustResources (we_oob env) (we_cfg env) getStat (mr_pod r) (Some (mr_workloadInfo r))
        (Some (mr_stat r))) doc = Some d \<and>
    (\<forall>i < n. \<exists>ro ro'. get (resources_path (mr_pod r) i) doc = Some (JObj ro) \<and>
        get (resources_path (mr_pod r) i) d = Some (JObj ro') \<and>
        container_patched env r (all_containers (mr_pod r) ! i) ro ro') \<and>
    (\<forall>q. (\<forall>i < n. apart (resources_path (mr_pod r) i) q) \<longrightarrow> get q d = get q doc)"
proof -
  let ?cs = "all_containers (mr_pod r)"
  let ?rel = "\<lambda>i. rel_container (we_oob env) (we_cfg env) (wi_Kind (mr_workloadInfo r)) (mr_stat r) (?cs ! i)"
  have "\<forall>i < n. \<exists>ro. get (resources_path (mr_pod r) i) doc = Some (JObj ro) \<and>
      (\<exists>ro'. apply_rel (?rel i) (JObj ro) = Some (JObj ro') \<and> container_patched env r (?cs ! i) ro ro')"
    using assms(2) patched_container unfolding renders_def n_def container_patched_def by meson
  moreover have "\<forall>i < n. \<forall>(opn, q, v) \<in> set (?rel i). q \<noteq> []" using rel_container_paths by blast
  moreover have "ro' = ro" if "?rel i = []" "apply_rel (?rel i) (JObj ro) = Some (JObj ro')" for i ro ro'
    using that by simp
  ultimately show ?thesis
    using fold_containers [of n "mr_pod r" doc ?rel "\<lambda>i. container_patched env r (?cs ! i)"]
    unfolding adjustResources_rel n_def by blast
qed

text \<open>C18. The API server can always apply what the webhook asks for, so the webhook never keeps a
  pod from being admitted. For every object under admission that renders the pod, the patches
  apply one after the other without an error. In the result every container (init containers too)
  has its requests and its limits with exactly the changes of the recommendation: the limit on the
  CPU is gone, the members of \<^verbatim>\<open>requests_set\<close> and \<^verbatim>\<open>limits_set\<close> have their new values, every other
  member and every other field of the resources is as it was. Of the annotations the protecting
  ones are removed, and the mark is set, exactly when a window of the workload is open. Nothing
  else of the object changes.\<close>

theorem webhook_patches_apply:
  assumes "renders (mr_pod r) doc" "mset (we_keys env) = mset (map fst doNotDisruptAnnotations)"
  shows "\<exists>doc'. apply_patches (buildMutatingPatches env clusterID r) doc = Some doc' \<and>
    (\<forall>i < length (all_containers (mr_pod r)). \<exists>ro ro'.
       get (resources_path (mr_pod r) i) doc = Some (JObj ro) \<and>
       get (resources_path (mr_pod r) i) doc' = Some (JObj ro') \<and>
       container_patched env r (all_containers (mr_pod r) ! i) ro ro') \<and>
    (\<forall>k. get [''metadata'', ''annotations'', k] doc' =
       (let ks = stripped_keys (we_keys env) (we_cron env) (we_now env) (mr_pod r) (mr_stat r) (mr_overrides r)
        in if k \<in> set ks then None
           else if ks \<noteq> [] \<and> k = AnnotationModified then Some (JStr TrueValue)
           else get [''metadata'', ''annotations'', k] doc)) \<and>
    (\<forall>q. (\<forall>i < length (all_containers (mr_pod r)). apart (resources_path (mr_pod r) i) q) \<longrightarrow>
       apart [''metadata'', ''annotations''] q \<longrightarrow> get q doc' = get q doc)"
proof -
  let ?a = "[''metadata'', ''annotations'']"
  let ?ks = "stripped_keys (we_keys env) (we_cron env) (we_now env) (mr_pod r) (mr_stat r) (mr_overrides r)"
  let ?n = "length (all_containers (mr_pod r))"
  obtain d1 where d1: "apply_patches (adjustResources (we_oob env) (we_cfg env)
       (\<lambda>workloadID. GetStat (we_faultStat env) clusterID workloadID (we_db env))
       (mr_pod r) (Some (mr_workloadInfo r)) (Some (mr_stat r))) doc = Some d1"
    "\<forall>i < ?n. \<exists>ro ro'. get (resources_path (mr_pod r) i) doc = Some (JObj ro) \<and>
        get (resources_path (mr_pod r) i) d1 = Some (JObj ro') \<and>
        container_patched env r (all_containers (mr_pod r) ! i) ro ro'"
    "\<forall>q. (\<forall>i < ?n. apart (resources_path (mr_pod r) i) q) \<longrightarrow> get q d1 = get q doc"
    using containers_patched [OF assms(1)] by blast
  have ga: "get (''metadata'' # q) d1 = get (''metadata'' # q) doc" for q
    using d1(3) resources_annotations_apart by blast
  have rn: "p_Annotations (mr_pod r) = Map.empty \<or>
      (\<exists>f. is_obj (get ?a d1) f \<and> dom f = dom (p_Annotations (mr_pod r)))"
    using assms(1) unfolding renders_def ga by blast
  obtain d2 where d2: "apply_patches (at_base ?a (rel_annotations (mr_pod r) ?ks)) d1 = Some d2"
    "\<forall>k. get [''metadata'', ''annotations'', k] d2 = (if k \<in> set ?ks then None
       else if ?ks \<noteq> [] \<and> k = AnnotationModified then Some (JStr TrueValue)
       else get [''metadata'', ''annotations'', k] d1)"
    "\<forall>q. apart ?a q \<longrightarrow> get q d2 = get q d1"
    using annotations_patched [OF assms(2) rn] by blast
  have r2: "get (resources_path (mr_pod r) i) d2 = get (resources_path (mr_pod r) i) d1" for i
    using d2(3) resources_annotations_apart(2) [of "[''annotations'']"] by blast
  show ?thesis
  proof (intro exI [of _ d2] conjI)
    show "apply_patches (buildMutatingPatches env clusterID r) doc = Some d2"
      unfolding buildMutatingPatches_def annotation_patches_rel apply_patches_append d1(1) option.case d2(1) ..
    show "\<forall>k. get [''metadata'', ''annotations'', k] d2 = (let ks = ?ks in if k \<in> set ks then None
           else if ks \<noteq> [] \<and> k = AnnotationModified then Some (JStr TrueValue)
           else get [''metadata'', ''annotations'', k] doc)"
      using d2(2) unfolding Let_def by (simp only: ga simp_thms)
  qed (use d1(2,3) d2(3) r2 in simp_all)
qed

definition sample_webhook_env :: "unit WebhookEnv" where
  "sample_webhook_env = \<lparr>we_oob = (\<lambda>x. 0), we_now = 0, we_cron = (\<lambda>s. None),
     we_keys = map fst doNotDisruptAnnotations,
     we_cfg = \<lparr>rs_NewWorkloadThresholdHours = 0, rs_DisableMemoryApplication = False,
       rs_OOMCooldownMinutes = 0, rs_OptimizeGuaranteedPods = False\<rparr>,
     we_clients = (\<lambda>c. Inr None), we_db = \<lparr>db_workloads = [], db_oomEvents = [], db_recommendations = [],
       db_auditEvents = [], db_snapshots = [], db_clusters = [], db_nextID = 1\<rparr>,
     we_faultStat = (\<lambda>i. None), we_faultOverrides = (\<lambda>i. None), we_decode = (\<lambda>x. None), we_recorder = False\<rparr>"

definition sample_resolved :: Resolved where
  "sample_resolved = \<lparr>mr_pod = sample_pod, mr_workloadInfo = \<lparr>wi_Kind = ''Deployment'', wi_Namespace = ''ns'',
     wi_Name = ''web''\<rparr>, mr_workloadKey = ''Deployment:ns:web'', mr_stat = sample_stat ''web'' 1 100,
     mr_overrides = None\<rparr>"

definition sample_review_object :: json where
  "sample_review_object = JObj [(''spec'', JObj [(''containers'', JArr [JObj [(''name'', JStr ''app''),
     (''resources'', JObj [(''requests'', JObj [(''cpu'', JStr ''3''), (''memory'', JStr ''300M'')]),
                           (''limits'', JObj [(''memory'', JStr ''500M'')])])]])])]"

lemma sample_renders: "renders sample_pod sample_review_object"
  by (auto simp: renders_def sample_pod_def sample_review_object_def all_containers_def resources_path_def
      array_index_def show_nat.simps [of 0] digit_of_def renders_list_def is_obj_def dom_def
      split: if_splits)

lemma webhook_patches_apply_witness:
  "\<exists>doc'. apply_patches (buildMutatingPatches sample_webhook_env ''c'' sample_resolved) sample_review_object = Some doc'"
  using webhook_patches_apply [of sample_resolved sample_review_object sample_webhook_env "''c''"] sample_renders
  by (auto simp: sample_resolved_def sample_webhook_env_def)

section \<open>The values\<close>






















text \<open>C20. The webhook changes a pod only if it may: whatever it answers, the list of patches is empty,
  or the object is a pod of a workload with stored statistics whose overrides were read and enable
  it, the pod does not carry the annotation that excludes it, the cluster is at least version 1.33,
  guaranteed pods are let through only by the configuration, and the checks shared with the apply
  task, with the configured age of new workloads, ask for a recommendation. In particular a failure to read the overrides changes nothing.\<close>

theorem webhook_only_enabled:
  "pr_patches (fst (evaluateMutatingPatch env clusterID request cache)) = [] \<or>
    (\<exists>req pod w stat ov client input.
       request = Some req \<and> ar_Kind req = ''Pod'' \<and> we_decode env (ar_Object req) = Some pod \<and>
       GetWorkloadInfoFromPod pod = Some w \<and> we_clients env clusterID = Inr client \<and>
       GetStat (we_faultStat env) clusterID (GetWorkloadKey (wi_Kind w) (wi_Namespace w) (wi_Name w))
         (we_db env) = Inr stat \<and>
       GetWorkloadOverrides (we_faultOverrides env) clusterID
         (GetWorkloadKey (wi_Kind w) (wi_Namespace w) (wi_Name w)) (we_db env) = Inr ov \<and>
       ov_Enabled ov = Some True \<and> \<not> PodExcludedByAnnotation (p_Annotations pod) \<and>
       fst (CheckIfClusterVersionAbove cache clusterID (map_option (\<lambda>f. f 0) client) 1 33) \<and>
       \<not> (IsGuaranteedPod (BuildPodInfoFromPod pod (Some w) (Some stat)) \<and>
          \<not> rs_OptimizeGuaranteedPods (we_cfg env)) \<and>
       ac_NewWorkloadThresholdHours input = rs_NewWorkloadThresholdHours (we_cfg env) \<and>
       ac_SkipMemory input = False \<and>
       fst (ShouldGenerateRecommendation (we_now env) (BuildPodInfoFromPod pod (Some w) (Some stat)) input))"
proof (cases "pr_patches (fst (evaluateMutatingPatch env clusterID request cache)) = []")
  case False
  obtain pod where pod: "extractMutatingPatchInput (we_decode env) request = Inr pod"
    using False by (cases "extractMutatingPatchInput (we_decode env) request")
      (auto simp: evaluateMutatingPatch_def extractMutatingPatchInput_def emptyMutatingPatchResult_def
        split: option.splits if_splits)
  then obtain req where req: "request = Some req" "ar_Kind req = ''Pod''" "we_decode env (ar_Object req) = Some pod"
    by (auto simp: extractMutatingPatchInput_def split: option.splits if_splits)
  obtain r client where r: "resolveMutatingPatchContext env clusterID pod = Inr (r, client)"
    using False pod by (cases "resolveMutatingPatchContext env clusterID pod")
      (auto simp: evaluateMutatingPatch_def resolveMutatingPatchContext_def emptyMutatingPatchResult_def Let_def
        split: option.splits sum.splits)
  then obtain w stat where w: "GetWorkloadInfoFromPod pod = Some w" "we_clients env clusterID = Inr client"
    "GetStat (we_faultStat env) clusterID (GetWorkloadKey (wi_Kind w) (wi_Namespace w) (wi_Name w)) (we_db env) = Inr stat"
    and rw: "mr_pod r = pod" "mr_workloadInfo r = w" "mr_stat r = stat"
    "mr_workloadKey r = GetWorkloadKey (wi_Kind w) (wi_Namespace w) (wi_Name w)"
    "mr_overrides r = (case GetWorkloadOverrides (we_faultOverrides env) clusterID (mr_workloadKey r) (we_db env)
       of Inl e \<Rightarrow> None | Inr ov \<Rightarrow> Some ov)"
    by (auto simp: resolveMutatingPatchContext_def Let_def split: option.splits sum.splits)
  obtain cache' where s: "shouldApplyMutatingPatch env clusterID r client cache = (True, cache')"
    using False pod r by (cases "shouldApplyMutatingPatch env clusterID r client cache")
      (auto simp: evaluateMutatingPatch_def emptyMutatingPatchResult_def split: if_splits)
  define input where "input = \<lparr>
      ac_K8sVersionGE133 = fst (CheckIfClusterVersionAbove cache clusterID (map_option (\<lambda>f. f 0) client) 1 33),
      ac_K8sMemoryGE134 = fst (CheckIfClusterVersionAbove
        (snd (CheckIfClusterVersionAbove cache clusterID (map_option (\<lambda>f. f 0) client) 1 33))
        clusterID (map_option (\<lambda>f. f 1) client) 1 34),
      ac_OptimizeGuaranteedPods = rs_OptimizeGuaranteedPods (we_cfg env),
      ac_DisableMemoryApplication = rs_DisableMemoryApplication (we_cfg env),
      ac_NewWorkloadThresholdHours = rs_NewWorkloadThresholdHours (we_cfg env),
      ac_SkipMemory = False, ac_PodExcludedByAnnotation = PodExcludedByAnnotation (p_Annotations pod)\<rparr>"
  have "fst (ShouldApplyRecommendationToPod (we_now env) (BuildPodInfoFromPod pod (Some w) (Some stat))
        (Some (buildWorkloadOverrideInfo (mr_workloadKey r) (Some stat) (mr_overrides r))) input)"
    using s by (simp add: shouldApplyMutatingPatch_def Let_def rw(1-3) split_beta input_def)
  then have checks: "fst (ShouldGenerateRecommendation (we_now env) (BuildPodInfoFromPod pod (Some w) (Some stat)) input)"
    "\<not> ac_PodExcludedByAnnotation input" "ac_K8sVersionGE133 input"
    "\<not> (IsGuaranteedPod (BuildPodInfoFromPod pod (Some w) (Some stat)) \<and> \<not> ac_OptimizeGuaranteedPods input)"
    "info_EffectiveEnabled (Some (buildWorkloadOverrideInfo (mr_workloadKey r) (Some stat) (mr_overrides r)))"
    unfolding ShouldApply_iff by blast+
  obtain ov where ov: "mr_overrides r = Some ov" "ov_Enabled ov = Some True"
    using checks(5) by (auto simp: info_EffectiveEnabled_def buildWorkloadOverrideInfo_def Let_def split: option.splits)
  then have "GetWorkloadOverrides (we_faultOverrides env) clusterID (mr_workloadKey r) (we_db env) = Inr ov"
    using rw(5) by (auto split: sum.splits)
  moreover have inp: "ac_NewWorkloadThresholdHours input = rs_NewWorkloadThresholdHours (we_cfg env) \<and>
      ac_SkipMemory input = False"
      "ac_K8sVersionGE133 input = fst (CheckIfClusterVersionAbove cache clusterID (map_option (\<lambda>f. f 0) client) 1 33)"
      "ac_OptimizeGuaranteedPods input = rs_OptimizeGuaranteedPods (we_cfg env)"
      "ac_PodExcludedByAnnotation input = PodExcludedByAnnotation (p_Annotations pod)"
    by (simp_all add: input_def)
  ultimately show ?thesis
    using req w ov(2) checks(1-4) unfolding rw(4) inp(2-4) by blast
qed simp

end
