(* ===== verification/AuditQueue.thy ===== *)
theory AuditQueue
  imports StorageSpec
begin

text \<open>
  The recorder of audit events, \<^verbatim>\<open>pkg/audit/audit.go\<close>: a bounded channel between the callers of
  \<^verbatim>\<open>Record\<close>, which never wait, and one worker that writes to the database. Callers, the worker and
  \<^verbatim>\<open>Close\<close> run concurrently; the state machine has a transition for every point at which they can
  interleave (a send under the mutex, a receive, a write, the close of the channel). What was
  accepted and what was written, in order, is kept as history.
\<close>

section \<open>State\<close>

type_synonym auditPayload = "string \<times> AuditEvent"

record Audit =
  au_BufferSize :: nat
  au_ch :: "auditPayload list"
  au_closed :: bool
  au_done :: bool
  au_current :: "auditPayload option"
  au_db :: Database
  au_accepted :: "auditPayload list"
  au_written :: "(auditPayload \<times> go_time \<times> faults) list"

definition defaultBufferSize :: nat where "defaultBufferSize = 5000"

definition NewAudit :: "Database \<Rightarrow> int \<Rightarrow> Audit" where
  "NewAudit db bufferSize =
     \<lparr>au_BufferSize = (if bufferSize \<le> 0 then defaultBufferSize else nat bufferSize),
      au_ch = [], au_closed = False, au_done = False, au_current = None, au_db = db,
      au_accepted = [], au_written = []\<rparr>"

section \<open>Operations\<close>

definition Record :: "string \<Rightarrow> AuditEvent \<Rightarrow> Audit \<Rightarrow> Audit" where
  "Record clusterID event a =
     (if au_closed a then a
      else if length (au_ch a) < au_BufferSize a
      then a\<lparr>au_ch := au_ch a @ [(clusterID, event)], au_accepted := au_accepted a @ [(clusterID, event)]\<rparr>
      else a)"

text \<open>The part of \<^verbatim>\<open>Close\<close> before it waits for the worker.\<close>

definition Close :: "Audit \<Rightarrow> Audit" where
  "Close a = a\<lparr>au_closed := True\<rparr>"

text \<open>One move of the worker: it writes the event it holds, or takes the next one, or is done when the
  channel is closed and empty; otherwise it waits. An error of the database is logged and ignored.\<close>

definition run_step :: "go_time \<Rightarrow> faults \<Rightarrow> Audit \<Rightarrow> Audit" where
  "run_step now fault a =
     (case au_current a of
        Some (clusterID, event) \<Rightarrow>
          a\<lparr>au_current := None, au_db := snd (InsertAuditEvent now fault clusterID event (au_db a)),
            au_written := au_written a @ [((clusterID, event), now, fault)]\<rparr>
      | None \<Rightarrow>
          (case au_ch a of
             p # ps \<Rightarrow> a\<lparr>au_current := Some p, au_ch := ps\<rparr>
           | [] \<Rightarrow> if au_closed a then a\<lparr>au_done := True\<rparr> else a))"

inductive audit_step :: "Audit \<Rightarrow> Audit \<Rightarrow> bool" where
  record_event: "audit_step a (Record clusterID event a)"
| close: "audit_step a (Close a)"
| work: "audit_step a (run_step now fault a)"

inductive audit_reach :: "Audit \<Rightarrow> Audit \<Rightarrow> bool" where
  start: "audit_reach a a"
| step: "audit_reach a b \<Longrightarrow> audit_step b c \<Longrightarrow> audit_reach a c"

inductive_cases audit_stepE: "audit_step a b"

section \<open>Invariant\<close>

definition write_all :: "(auditPayload \<times> go_time \<times> faults) list \<Rightarrow> Database \<Rightarrow> Database" where
  "write_all ws db = foldl (\<lambda>db ((clusterID, event), now, fault).
     snd (InsertAuditEvent now fault clusterID event db)) db ws"

definition audit_ok :: "Database \<Rightarrow> Audit \<Rightarrow> bool" where
  "audit_ok db a \<longleftrightarrow>
     au_accepted a = map fst (au_written a) @ (case au_current a of None \<Rightarrow> [] | Some p \<Rightarrow> [p]) @ au_ch a \<and>
     length (au_ch a) \<le> au_BufferSize a \<and> au_db a = write_all (au_written a) db \<and>
     (au_done a \<longrightarrow> au_closed a \<and> au_ch a = [] \<and> au_current a = None)"

lemma audit_ok_step: "audit_ok db a \<Longrightarrow> audit_step a b \<Longrightarrow> audit_ok db b"
  by (erule audit_stepE)
    (auto simp: audit_ok_def Record_def Close_def run_step_def write_all_def split: option.splits list.splits)

lemma audit_step_size: "audit_step a b \<Longrightarrow> au_BufferSize b = au_BufferSize a"
  by (erule audit_stepE) (auto simp: Record_def Close_def run_step_def split: option.splits list.splits)

lemma audit_reach_ok:
  assumes "audit_reach (NewAudit db bufSize) a"
  shows "audit_ok db a \<and> au_BufferSize a = au_BufferSize (NewAudit db bufSize)"
  using assms
proof (induction "NewAudit db bufSize" a rule: audit_reach.induct)
  case start
  then show ?case by (simp add: audit_ok_def NewAudit_def write_all_def)
next
  case (step b c)
  then show ?case using audit_ok_step audit_step_size by metis
qed

text \<open>C21. Recording never loses or reorders an accepted event: however callers, the worker and
  \<^verbatim>\<open>Close\<close> interleave, the accepted events are the ones handed to the database, then the one the
  worker holds, then the ones in the channel, in the order of their acceptance; the channel never
  holds more than its size, and the database is what the writes in that order make of it.\<close>

theorem audit_in_order:
  assumes "audit_reach (NewAudit db bufSize) a"
  shows "au_accepted a =
      map fst (au_written a) @ (case au_current a of None \<Rightarrow> [] | Some p \<Rightarrow> [p]) @ au_ch a \<and>
    length (au_ch a) \<le> (if bufSize \<le> 0 then defaultBufferSize else nat bufSize) \<and>
    au_db a = write_all (au_written a) db"
  using audit_reach_ok [OF assms] by (simp add: audit_ok_def NewAudit_def)

definition sample_queue_event :: "string \<Rightarrow> AuditEvent" where
  "sample_queue_event m = \<lparr>ae_Type = EventTypeNormal, ae_Category = ''test'', ae_Message = m,
     ae_Target = [], ae_Details = []\<rparr>"

text \<open>A channel of one place: the worker takes the first event, which makes room for the second; the third
  is dropped.\<close>

definition sample_audit :: Audit where
  "sample_audit = Record ''c'' (sample_queue_event ''3'') (Record ''c'' (sample_queue_event ''2'')
     (run_step 0 (\<lambda>_. None) (Record ''c'' (sample_queue_event ''1'') (NewAudit empty_db 1))))"

lemma sample_audit_reach: "audit_reach (NewAudit empty_db 1) sample_audit"
  unfolding sample_audit_def by (intro audit_reach.step [OF _ audit_step.record_event]
    audit_reach.step [OF _ audit_step.work] audit_reach.start)

theorem audit_in_order_witness:
  "au_accepted sample_audit = [(''c'', sample_queue_event ''1''), (''c'', sample_queue_event ''2'')] \<and>
   au_accepted sample_audit = map fst (au_written sample_audit) @
     (case au_current sample_audit of None \<Rightarrow> [] | Some p \<Rightarrow> [p]) @ au_ch sample_audit"
  using audit_in_order [OF sample_audit_reach]
  by (simp add: sample_audit_def Record_def run_step_def NewAudit_def)

section \<open>Closing\<close>

lemma run_step_empty: "au_current a = None \<Longrightarrow> au_ch a = [] \<Longrightarrow> au_closed a \<Longrightarrow> au_done (run_step now fault a)"
  by (simp add: run_step_def)

lemma run_step_history [simp]:
  "au_accepted (run_step now fault a) = au_accepted a" "au_closed (run_step now fault a) = au_closed a"
  by (auto simp: run_step_def split: option.splits list.splits)

lemma run_steps_history:
  "au_accepted ((run_step now fault ^^ n) a) = au_accepted a \<and> au_closed ((run_step now fault ^^ n) a) = au_closed a"
  by (induction n) simp_all

lemma run_drains:
  "au_closed a \<Longrightarrow> au_current a = None \<Longrightarrow> au_done ((run_step now fault ^^ (2 * length (au_ch a) + 1)) a)"
proof (induction "au_ch a" arbitrary: a)
  case Nil
  then show ?case using run_step_empty by simp
next
  case (Cons p ps)
  let ?b = "run_step now fault (run_step now fault a)"
  have b: "au_ch ?b = ps" "au_current ?b = None" "au_closed ?b"
    using Cons(2-4) by (cases p; auto simp: run_step_def split: list.splits)+
  have "au_done ((run_step now fault ^^ (2 * length (au_ch ?b) + 1)) ?b)"
    using Cons(1) [of ?b] b by simp
  moreover have "2 * length (au_ch a) + 1 = Suc (Suc (2 * length ps + 1))" using Cons(2) by (metis length_Cons mult_Suc_right add_Suc add_2_eq_Suc)
  ultimately show ?case using b(1) by (simp add: funpow_swap1)
qed

lemma run_steps_reach: "audit_reach a b \<Longrightarrow> audit_reach a ((run_step now fault ^^ n) b)"
  by (induction n) (auto intro: audit_reach.step audit_step.work)

text \<open>C22. \<^verbatim>\<open>Close\<close> returns, and everything accepted before it has then been handed to the database: in
  every state that is reached after the close, the worker is done after at most two moves for
  every waiting event and two more, and then the written events are the accepted ones.\<close>

theorem audit_close_drains:
  assumes "audit_reach (NewAudit db bufSize) a" "au_closed a"
  shows "\<exists>n \<le> 2 * length (au_ch a) + 2. let b = (run_step now fault ^^ n) a in
    au_done b \<and> map fst (au_written b) = au_accepted a \<and> au_db b = write_all (au_written b) db"
proof -
  have "\<exists>n \<le> 2 * length (au_ch a) + 2. au_done ((run_step now fault ^^ n) a)"
  proof (cases "au_current a")
    case None
    then show ?thesis using run_drains [OF assms(2)] by (intro exI [of _ "2 * length (au_ch a) + 1"]) simp
  next
    case (Some p)
    let ?b = "run_step now fault a"
    have b: "au_current ?b = None" "au_closed ?b" "au_ch ?b = au_ch a"
      using Some assms(2) by (cases p; simp add: run_step_def)+
    then have "au_done ((run_step now fault ^^ (2 * length (au_ch a) + 1)) ?b)" using run_drains [of ?b] by simp
    then show ?thesis by (intro exI [of _ "Suc (2 * length (au_ch a) + 1)"]) (simp add: funpow_swap1)
  qed
  then obtain n where n: "n \<le> 2 * length (au_ch a) + 2" "au_done ((run_step now fault ^^ n) a)" by blast
  let ?b = "(run_step now fault ^^ n) a"
  have "audit_ok db ?b" using audit_reach_ok run_steps_reach assms(1) by blast
  then have "map fst (au_written ?b) = au_accepted ?b" "au_db ?b = write_all (au_written ?b) db"
    using n(2) by (simp_all add: audit_ok_def)
  then show ?thesis using n run_steps_history [of n now fault a] unfolding Let_def by auto
qed

theorem audit_close_drains_witness:
  "\<exists>n \<le> 4. map fst (au_written ((run_step 0 (\<lambda>_. None) ^^ n) (Close sample_audit))) =
     [(''c'', sample_queue_event ''1''), (''c'', sample_queue_event ''2'')]"
proof -
  have "audit_reach (NewAudit empty_db 1) (Close sample_audit)"
    using sample_audit_reach by (rule audit_reach.step) (rule audit_step.close)
  moreover have "au_closed (Close sample_audit)" by (simp add: Close_def)
  ultimately have "\<exists>n \<le> 2 * length (au_ch (Close sample_audit)) + 2.
      let b = (run_step 0 (\<lambda>_. None) ^^ n) (Close sample_audit) in
      au_done b \<and> map fst (au_written b) = au_accepted (Close sample_audit) \<and> au_db b = write_all (au_written b) empty_db"
    by (rule audit_close_drains)
  moreover have "length (au_ch (Close sample_audit)) = 1"
    "au_accepted (Close sample_audit) = [(''c'', sample_queue_event ''1''), (''c'', sample_queue_event ''2'')]"
    by (simp_all add: Close_def sample_audit_def Record_def run_step_def NewAudit_def)
  ultimately show ?thesis unfolding Let_def by auto
qed

end
