(* ===== verification/Oom.thy ===== *)
theory Oom
  imports StorageSpec Workloads
begin

text \<open>
  OOM detection, \<^verbatim>\<open>pkg/oom\<close>: the observer turns a pod update into the containers that were killed
  (\<^verbatim>\<open>observer.go\<close>), the processor records each in the store and evicts the pod when that is allowed
  (\<^verbatim>\<open>processor.go\<close>). The two are joined by a channel, so the processor handles one event after the
  other, in the order they were sent. \<^verbatim>\<open>resource.ParseQuantity\<close> is a parameter.
\<close>

section \<open>The observer\<close>

record Info =
  in_ContainerID :: string
  in_NodeName :: string
  in_PodName :: string
  in_Namespace :: string
  in_Timestamp :: go_time
  in_MemoryLimit :: int
  in_MemoryRequest :: int
  in_LastObservedMemory :: int

definition findStatus :: "string \<Rightarrow> ContainerStatus list \<Rightarrow> ContainerStatus option" where
  "findStatus name containerStatuses = find (\<lambda>s. st_Name s = name) containerStatuses"

definition findContainerSpec :: "string \<Rightarrow> Container list \<Rightarrow> Container list \<Rightarrow> Container option" where
  "findContainerSpec name containers initContainers =
     (case find (\<lambda>c. c_Name c = name) containers of
        Some c \<Rightarrow> Some c
      | None \<Rightarrow> find (\<lambda>c. c_Name c = name) initContainers)"

text \<open>The amount of memory a container names in a resource map, 0 when it names none.\<close>

definition memory_value :: "resource_list option \<Rightarrow> int" where
  "memory_value rl = (case rl_get rl ResourceMemory of None \<Rightarrow> 0 | Some q \<Rightarrow> q_Value q)"

definition oom_status :: "Pod \<Rightarrow> ContainerStatus \<Rightarrow> go_time option" where
  "oom_status oldPod status =
     (case st_Terminated status of
        None \<Rightarrow> None
      | Some (reason, finishedAt) \<Rightarrow>
          if st_RestartCount status > 0 \<and> reason = ''OOMKilled''
          then (case findStatus (st_Name status) (p_ContainerStatuses oldPod @ p_InitContainerStatuses oldPod) of
                  None \<Rightarrow> None
                | Some oldStatus \<Rightarrow>
                    if st_RestartCount status > st_RestartCount oldStatus then Some finishedAt else None)
          else None)"

definition oom_info :: "Pod \<Rightarrow> ContainerStatus \<Rightarrow> go_time \<Rightarrow> Info list" where
  "oom_info newPod status finishedAt =
     (case GetWorkloadInfoFromPod newPod of
        None \<Rightarrow> []
      | Some workloadInfo \<Rightarrow>
          (case findContainerSpec (st_Name status) (p_Containers newPod) (p_InitContainers newPod) of
             None \<Rightarrow> []
           | Some containerSpec \<Rightarrow>
               [\<lparr>in_ContainerID = GetWorkloadContainerKey (wi_Kind workloadInfo) (wi_Namespace workloadInfo)
                    (wi_Name workloadInfo) (st_Name status),
                 in_NodeName = p_NodeName newPod, in_PodName = p_Name newPod,
                 in_Namespace = p_Namespace newPod, in_Timestamp = finishedAt,
                 in_MemoryLimit = memory_value (c_Limits containerSpec),
                 in_MemoryRequest = memory_value (c_Requests containerSpec),
                 in_LastObservedMemory = memory_value (c_Limits containerSpec)\<rparr>]))"

text \<open>What is sent to the channel, in order.\<close>

fun oom_statuses :: "Pod \<Rightarrow> Pod \<Rightarrow> ContainerStatus list \<Rightarrow> Info list" where
  "oom_statuses oldPod newPod [] = []"
| "oom_statuses oldPod newPod (status # statuses) =
     (case oom_status oldPod status of
        None \<Rightarrow> []
      | Some finishedAt \<Rightarrow> oom_info newPod status finishedAt) @ oom_statuses oldPod newPod statuses"

definition checkContainersForOOM :: "Pod \<Rightarrow> Pod \<Rightarrow> Info list" where
  "checkContainersForOOM oldPod newPod =
     oom_statuses oldPod newPod (p_ContainerStatuses newPod @ p_InitContainerStatuses newPod)"

record Event =
  ev_Reason :: string
  ev_Kind :: string
  ev_Namespace :: string
  ev_Name :: string
  ev_Annotations :: string_map
  ev_CreationTimestamp :: go_time

definition extractArray :: "string_map \<Rightarrow> string \<Rightarrow> string list" where
  "extractArray annotations key =
     (case annotations key of None \<Rightarrow> [] | Some str \<Rightarrow> split_on CHR '','' str)"

definition offending_info ::
    "(string \<Rightarrow> quantity option) \<Rightarrow> Pod \<Rightarrow> WorkloadInfo \<Rightarrow> go_time \<Rightarrow> string \<times> string \<times> string \<Rightarrow> Info list" where
  "offending_info ParseQuantity pod workloadInfo created = (\<lambda>(container, usage, starved).
     if starved \<noteq> ''memory'' then []
     else case ParseQuantity usage of
       None \<Rightarrow> []
     | Some memory \<Rightarrow>
         let spec = findContainerSpec container (p_Containers pod) (p_InitContainers pod);
             memoryLimit = (case spec of None \<Rightarrow> 0 | Some c \<Rightarrow> memory_value (c_Limits c));
             memoryRequest = (case spec of None \<Rightarrow> 0 | Some c \<Rightarrow> memory_value (c_Requests c))
         in [\<lparr>in_ContainerID = GetWorkloadContainerKey (wi_Kind workloadInfo) (wi_Namespace workloadInfo)
                 (wi_Name workloadInfo) container,
              in_NodeName = p_NodeName pod, in_PodName = p_Name pod, in_Namespace = p_Namespace pod,
              in_Timestamp = created,
              in_MemoryLimit = (if memoryLimit = 0 then q_Value memory else memoryLimit),
              in_MemoryRequest = memoryRequest, in_LastObservedMemory = q_Value memory\<rparr>])"

text \<open>\<open>getPod\<close> answers the read of the pod. What is found is logged and not sent.\<close>

definition parseEvictionEvent ::
    "(string \<Rightarrow> quantity option) \<Rightarrow> (string \<Rightarrow> string \<Rightarrow> api_error + Pod) \<Rightarrow> Event \<Rightarrow> Info list" where
  "parseEvictionEvent ParseQuantity getPod event =
     (if ev_Reason event \<noteq> ''Evicted'' \<or> ev_Kind event \<noteq> ''Pod'' then []
      else let offendingContainers = extractArray (ev_Annotations event) ''offending_containers'';
               usage = extractArray (ev_Annotations event) ''offending_containers_usage'';
               starved = extractArray (ev_Annotations event) ''starved_resource''
           in if length offendingContainers \<noteq> length usage \<or> length offendingContainers \<noteq> length starved then []
              else case getPod (ev_Namespace event) (ev_Name event) of
                Inl e \<Rightarrow> []
              | Inr pod \<Rightarrow>
                  (case GetWorkloadInfoFromPod pod of
                     None \<Rightarrow> []
                   | Some workloadInfo \<Rightarrow>
                       concat (map (offending_info ParseQuantity pod workloadInfo (ev_CreationTimestamp event))
                         (zip offendingContainers (zip usage starved)))))"

section \<open>The processor\<close>

text \<open>
  What one event meets: the time since the last one is measured at, the time rows are written at,
  the answers of the driver to the five accesses, of the API server to the read of the pod and to the
  eviction. The cooldown is a 64-bit duration.
\<close>

record OomEnv =
  oe_ClusterID :: string
  oe_OOMCooldownMinutes :: int
  oe_DisableMemoryApplication :: bool
  oe_Recorder :: bool
  oe_now :: go_time
  oe_written :: go_time
  oe_faults :: "nat \<Rightarrow> faults"
  oe_getPod :: "string \<Rightarrow> string \<Rightarrow> api_error + Pod"
  oe_reply :: reply

type_synonym oom_state = "Database \<times> trace"

definition oom_cooldown :: "OomEnv \<Rightarrow> int" where
  "oom_cooldown env = signed_take_bit 63 (oe_OOMCooldownMinutes env * Minute)"

definition oom_event :: "OomEnv \<Rightarrow> Info \<Rightarrow> OOMEvent" where
  "oom_event env info = \<lparr>om_ID = 0, om_ClusterID = oe_ClusterID env, om_ContainerID = in_ContainerID info,
     om_PodName = in_PodName info, om_NodeName = in_NodeName info, om_Namespace = in_Namespace info,
     om_Timestamp = in_Timestamp info, om_MemoryLimit = in_MemoryLimit info,
     om_MemoryRequest = in_MemoryRequest info, om_LastObservedMemory = in_LastObservedMemory info,
     om_CreatedAt = 0, om_UpdatedAt = 0\<rparr>"

definition oom_audit_event :: "Info \<Rightarrow> Pod \<Rightarrow> string \<Rightarrow> string \<Rightarrow> AuditEvent" where
  "oom_audit_event info pod workloadID containerName =
     \<lparr>ae_Type = EventTypeNormal, ae_Category = ''OOM_EVENT'',
      ae_Message = ''Pod '' @ in_Namespace info @ ''/'' @ in_PodName info @
        '' evicted after OOM; new pod will receive updated memory via webhook'',
      ae_Target = [(''kind'', p_Kind pod), (''namespace'', in_Namespace info), (''name'', in_PodName info)],
      ae_Details = [(''workloadId'', AStr workloadID), (''node'', AStr (in_NodeName info)),
        (''containerName'', AStr containerName),
        (''memoryLimit'', ANum (fdiv (f64_of_int (in_MemoryLimit info)) (lit (of_int BytesToMBDivisor)))),
        (''lastObservedMemory'', ANum (fdiv (f64_of_int (in_LastObservedMemory info)) (lit (of_int BytesToMBDivisor))))]\<rparr>"

definition in_cooldown :: "OomEnv \<Rightarrow> Info \<Rightarrow> Database \<Rightarrow> bool" where
  "in_cooldown env info db =
     (case GetLatestOOMEvent (oe_faults env 0) (oe_ClusterID env) (in_ContainerID info) (in_PodName info) db of
        Inl e \<Rightarrow> False
      | Inr latestEvent \<Rightarrow> oe_now env - om_Timestamp latestEvent < oom_cooldown env)"

text \<open>A workload whose overrides cannot be read counts as enabled; so does a pod without one.\<close>

definition oom_evictable :: "OomEnv \<Rightarrow> Pod \<Rightarrow> Database \<Rightarrow> bool" where
  "oom_evictable env pod db =
     (case GetWorkloadInfoFromPod pod of
        None \<Rightarrow> True
      | Some w \<Rightarrow>
          (case GetWorkloadOverrides (oe_faults env 4) (oe_ClusterID env)
                  (slashes_to_colons (GetWorkloadKey (wi_Kind w) (wi_Namespace w) (wi_Name w))) db of
             Inl e \<Rightarrow> True
           | Inr workloadOverrides \<Rightarrow> ov_Enabled workloadOverrides = Some True))"

definition evict_after_oom :: "OomEnv \<Rightarrow> Info \<Rightarrow> string \<Rightarrow> string \<Rightarrow> oom_state \<Rightarrow> oom_state" where
  "evict_after_oom env info workloadID containerName = (\<lambda>(db, tr).
     if oe_DisableMemoryApplication env then (db, tr)
     else case oe_getPod env (in_Namespace info) (in_PodName info) of
       Inl e \<Rightarrow> (db, tr)
     | Inr pod \<Rightarrow>
         if PodExcludedByAnnotation (p_Annotations pod) \<or> \<not> oom_evictable env pod db then (db, tr)
         else let ((evicted, errStr), tr) = EvictPod (oe_reply env) pod tr
              in if \<not> evicted \<or> errStr \<noteq> '''' then (db, tr)
                 else (db, record_audit (oe_Recorder env) (oom_audit_event info pod workloadID containerName) tr))"

definition processOOMEvent :: "OomEnv \<Rightarrow> Info \<Rightarrow> oom_state \<Rightarrow> oom_state" where
  "processOOMEvent env info = (\<lambda>(db, tr).
     case ParseWorkloadContainerKey (in_ContainerID info) of
       None \<Rightarrow> (db, tr)
     | Some (kind, namespace, workloadName, containerName) \<Rightarrow>
         let workloadID = GetWorkloadKey kind namespace workloadName
         in if in_cooldown env info db then (db, tr)
            else case InsertOOMEvent (oe_written env) (oe_faults env 1) (oom_event env info) db of
              (Some e, db) \<Rightarrow> (db, tr)
            | (None, db) \<Rightarrow>
                (case UpdateOOMMemoryForContainer (oe_written env) (oe_faults env 2) (oe_faults env 3)
                        (oe_ClusterID env) workloadID containerName (in_LastObservedMemory info) db of
                   (Some e, db) \<Rightarrow> (db, tr)
                 | (None, db) \<Rightarrow> evict_after_oom env info workloadID containerName (db, tr)))"

text \<open>The loop of \<^verbatim>\<open>Start\<close> over what it receives.\<close>

fun Processor_Start :: "(OomEnv \<times> Info) list \<Rightarrow> oom_state \<Rightarrow> oom_state" where
  "Processor_Start [] s = s"
| "Processor_Start ((env, info) # received) s = Processor_Start received (processOOMEvent env info s)"

section \<open>Lemmas\<close>

lemma newest_none: "newest evs = None \<longleftrightarrow> evs = []"
  by (cases evs) (auto split: option.splits)

lemma newest_in: "newest evs = Some x \<Longrightarrow> x \<in> set evs"
  by (induction evs arbitrary: x) (auto split: option.splits if_splits)

lemma newest_max: "newest evs = Some x \<Longrightarrow> y \<in> set evs \<Longrightarrow> om_Timestamp y \<le> om_Timestamp x"
proof (induction evs arbitrary: x)
  case (Cons e evs)
  then show ?case
    by (cases "newest evs") (auto simp: newest_none split: if_splits)
qed simp

definition oom_of :: "string \<Rightarrow> Info \<Rightarrow> OOMEvent \<Rightarrow> bool" where
  "oom_of clusterID info ev \<longleftrightarrow> om_ClusterID ev = clusterID \<and> om_ContainerID ev = in_ContainerID info \<and>
     om_PodName ev = in_PodName info"

lemma GetLatestOOMEvent_of:
  "fault 0 = None \<Longrightarrow> GetLatestOOMEvent fault clusterID (in_ContainerID info) (in_PodName info) db =
     (case newest (filter (oom_of clusterID info) (db_oomEvents db)) of
        None \<Rightarrow> Inl (ErrOOMEventNotFound (''no OOM event for container '' @ in_ContainerID info @
          '' in pod '' @ in_PodName info @ '': OOM event not found''))
      | Some ev \<Rightarrow> Inr ev)"
  by (simp add: GetLatestOOMEvent_def GetLatestOOMEventForContainer_def oom_of_def [abs_def] split: option.split)

lemma in_cooldown_iff:
  assumes "oe_faults env 0 0 = None"
  shows "in_cooldown env info db \<longleftrightarrow> (\<exists>ev \<in> set (db_oomEvents db). oom_of (oe_ClusterID env) info ev \<and>
    oe_now env - om_Timestamp ev < oom_cooldown env)"
proof (cases "newest (filter (oom_of (oe_ClusterID env) info) (db_oomEvents db))")
  case None
  then show ?thesis
    using assms by (auto simp: in_cooldown_def GetLatestOOMEvent_of newest_none filter_empty_conv)
next
  case (Some x)
  moreover have "x \<in> set (filter (oom_of (oe_ClusterID env) info) (db_oomEvents db))"
    using Some newest_in by blast
  moreover have "om_Timestamp y \<le> om_Timestamp x"
    if "y \<in> set (db_oomEvents db)" "oom_of (oe_ClusterID env) info y" for y
    using newest_max [OF Some] that by simp
  ultimately show ?thesis
    using assms by (fastforce simp: in_cooldown_def GetLatestOOMEvent_of)
qed

lemma InsertOOMEvent_events:
  "InsertOOMEvent now fault event db = (r, db') \<Longrightarrow> set (db_oomEvents db) \<subseteq> set (db_oomEvents db')"
  by (auto simp: InsertOOMEvent_def split: option.splits if_splits)

lemma InsertOOMEvent_recorded:
  assumes "InsertOOMEvent now fault event db = (None, db')" "\<not> list_ex (same_oom event) (db_oomEvents db)"
  shows "event\<lparr>om_ID := db_nextID db, om_CreatedAt := now, om_UpdatedAt := now\<rparr> \<in> set (db_oomEvents db')"
  using assms by (auto simp: InsertOOMEvent_def split: option.splits if_splits)

lemma InsertOOMEvent_kept:
  "InsertOOMEvent now fault event db = (None, db') \<Longrightarrow> list_ex (same_oom event) (db_oomEvents db')"
  by (auto simp: InsertOOMEvent_def same_oom_def list_ex_iff split: option.splits if_splits)

lemma UpsertStat_events: "UpsertStat now fault c w stat g db = (r, db') \<Longrightarrow> db_oomEvents db' = db_oomEvents db"
  by (auto simp: UpsertStat_def Let_def split: option.splits if_splits)

lemma UpdateOOM_events:
  "UpdateOOMMemoryForContainer now fg f c w n b db = (r, db') \<Longrightarrow> db_oomEvents db' = db_oomEvents db"
  by (auto simp: UpdateOOMMemoryForContainer_def dest: UpsertStat_events split: sum.splits option.splits prod.splits)

lemma evict_after_oom_db [simp]: "fst (evict_after_oom env info w c s) = fst s"
  by (cases s) (auto simp: evict_after_oom_def EvictPod_def Let_def split: sum.split option.split)

lemma processOOMEvent_events: "set (db_oomEvents (fst s)) \<subseteq> set (db_oomEvents (fst (processOOMEvent env info s)))"
  by (cases s) (fastforce simp: processOOMEvent_def Let_def dest: InsertOOMEvent_events UpdateOOM_events
      split: option.split prod.split)

lemma Processor_Start_events: "set (db_oomEvents (fst s)) \<subseteq> set (db_oomEvents (fst (Processor_Start received s)))"
proof (induction received arbitrary: s)
  case (Cons r received)
  obtain env info where "r = (env, info)" by fastforce
  then show ?case using Cons.IH processOOMEvent_events [of s env info] by (metis Processor_Start.simps(2) subset_trans)
qed simp

lemma cooldown_idle: "in_cooldown env info (fst s) \<Longrightarrow> processOOMEvent env info s = s"
  by (cases s) (simp add: processOOMEvent_def Let_def split: option.split prod.split)

text \<open>What an event that led to a write has gone through.\<close>

lemma processOOMEvent_wrote:
  assumes "processOOMEvent env info (db, tr) = (db', tr')" "tr' \<noteq> tr"
  obtains k ns w c db1 where "ParseWorkloadContainerKey (in_ContainerID info) = Some (k, ns, w, c)"
    "\<not> in_cooldown env info db"
    "InsertOOMEvent (oe_written env) (oe_faults env 1) (oom_event env info) db = (None, db1)"
    "UpdateOOMMemoryForContainer (oe_written env) (oe_faults env 2) (oe_faults env 3) (oe_ClusterID env)
       (GetWorkloadKey k ns w) c (in_LastObservedMemory info) db1 = (None, db')"
    "evict_after_oom env info (GetWorkloadKey k ns w) c (db', tr) = (db', tr')"
proof -
  obtain k ns w c where k: "ParseWorkloadContainerKey (in_ContainerID info) = Some (k, ns, w, c)"
    using assms by (cases "ParseWorkloadContainerKey (in_ContainerID info)") (auto simp: processOOMEvent_def)
  have cd: "\<not> in_cooldown env info db" using assms cooldown_idle [of env info "(db, tr)"] by auto
  obtain db1 where i: "InsertOOMEvent (oe_written env) (oe_faults env 1) (oom_event env info) db = (None, db1)"
    using assms k cd
    by (cases "InsertOOMEvent (oe_written env) (oe_faults env 1) (oom_event env info) db")
      (auto simp: processOOMEvent_def Let_def split: option.splits)
  obtain db2 where u: "UpdateOOMMemoryForContainer (oe_written env) (oe_faults env 2) (oe_faults env 3)
      (oe_ClusterID env) (GetWorkloadKey k ns w) c (in_LastObservedMemory info) db1 = (None, db2)"
    using assms k cd i
    by (cases "UpdateOOMMemoryForContainer (oe_written env) (oe_faults env 2) (oe_faults env 3)
      (oe_ClusterID env) (GetWorkloadKey k ns w) c (in_LastObservedMemory info) db1")
      (auto simp: processOOMEvent_def Let_def split: option.splits)
  have e: "evict_after_oom env info (GetWorkloadKey k ns w) c (db2, tr) = (db', tr')"
    using assms(1) k cd i u by (simp add: processOOMEvent_def)
  moreover have "db2 = db'" using arg_cong [OF e, of fst] by simp
  ultimately show thesis using that k cd i u by blast
qed

lemma evict_after_oom_wrote:
  assumes "evict_after_oom env info workloadID c (db, tr) = (db, tr')" "tr' \<noteq> tr"
  obtains pod where "\<not> oe_DisableMemoryApplication env"
    "oe_getPod env (in_Namespace info) (in_PodName info) = Inr pod"
    "\<not> PodExcludedByAnnotation (p_Annotations pod)" "oom_evictable env pod db"
    "tr' = tr @ [ActEvict (p_Namespace pod) (p_Name pod)] \<or>
     tr' = tr @ [ActEvict (p_Namespace pod) (p_Name pod), ActAudit (oom_audit_event info pod workloadID c)]"
proof -
  obtain pod where pod: "\<not> oe_DisableMemoryApplication env"
    "oe_getPod env (in_Namespace info) (in_PodName info) = Inr pod"
    "\<not> PodExcludedByAnnotation (p_Annotations pod)" "oom_evictable env pod db"
    using assms by (auto simp: evict_after_oom_def split: if_splits sum.splits)
  obtain r tr2 where r: "EvictPod (oe_reply env) pod tr = (r, tr2)" by fastforce
  then have "tr2 = tr @ [ActEvict (p_Namespace pod) (p_Name pod)]"
    using EvictPod_trace [of "oe_reply env" pod tr] by simp
  moreover have "tr' = tr2 \<or> tr' = record_audit (oe_Recorder env) (oom_audit_event info pod workloadID c) tr2"
    using assms(1) pod r by (cases r) (auto simp: evict_after_oom_def split: if_splits)
  ultimately show thesis using that [OF pod] by (auto simp: record_audit_def split: if_splits)
qed


section \<open>Evictions\<close>

text \<open>C23. The processor writes to the cluster for an event only when everything allows it: the identifier
  names a workload and a container, no event of that container in that pod is recorded within the
  cooldown (unless the store could not be read), the event is recorded and the memory stored for
  the workload, memory may be applied, the pod as read now is not excluded, and its workload is
  enabled (unless its overrides could not be read). The writes are then one eviction of that pod and
  at most one audit record.\<close>

theorem oom_eviction_justified:
  assumes "processOOMEvent env info (db, tr) = (db', tr')" "tr' \<noteq> tr"
  shows "\<exists>k ns w c db1 pod.
    in_ContainerID info = GetWorkloadContainerKey k ns w c \<and>
    (oe_faults env 0 0 = None \<longrightarrow> (\<forall>ev \<in> set (db_oomEvents db). oom_of (oe_ClusterID env) info ev \<longrightarrow>
       oom_cooldown env \<le> oe_now env - om_Timestamp ev)) \<and>
    list_ex (same_oom (oom_event env info)) (db_oomEvents db') \<and>
    UpdateOOMMemoryForContainer (oe_written env) (oe_faults env 2) (oe_faults env 3) (oe_ClusterID env)
      (GetWorkloadKey k ns w) c (in_LastObservedMemory info) db1 = (None, db') \<and>
    \<not> oe_DisableMemoryApplication env \<and>
    oe_getPod env (in_Namespace info) (in_PodName info) = Inr pod \<and>
    \<not> PodExcludedByAnnotation (p_Annotations pod) \<and>
    (\<forall>wi. GetWorkloadInfoFromPod pod = Some wi \<longrightarrow>
       (case GetWorkloadOverrides (oe_faults env 4) (oe_ClusterID env)
               (slashes_to_colons (GetWorkloadKey (wi_Kind wi) (wi_Namespace wi) (wi_Name wi))) db' of
          Inl e \<Rightarrow> True | Inr ov \<Rightarrow> ov_Enabled ov = Some True)) \<and>
    (tr' = tr @ [ActEvict (p_Namespace pod) (p_Name pod)] \<or>
     tr' = tr @ [ActEvict (p_Namespace pod) (p_Name pod),
       ActAudit (oom_audit_event info pod (GetWorkloadKey k ns w) c)])"
proof -
  obtain k ns w c db1 where p: "ParseWorkloadContainerKey (in_ContainerID info) = Some (k, ns, w, c)"
    and cd: "\<not> in_cooldown env info db"
    and i: "InsertOOMEvent (oe_written env) (oe_faults env 1) (oom_event env info) db = (None, db1)"
    and u: "UpdateOOMMemoryForContainer (oe_written env) (oe_faults env 2) (oe_faults env 3) (oe_ClusterID env)
       (GetWorkloadKey k ns w) c (in_LastObservedMemory info) db1 = (None, db')"
    and e: "evict_after_oom env info (GetWorkloadKey k ns w) c (db', tr) = (db', tr')"
    using processOOMEvent_wrote [OF assms] by metis
  obtain pod where pod: "\<not> oe_DisableMemoryApplication env"
    "oe_getPod env (in_Namespace info) (in_PodName info) = Inr pod"
    "\<not> PodExcludedByAnnotation (p_Annotations pod)" "oom_evictable env pod db'"
    "tr' = tr @ [ActEvict (p_Namespace pod) (p_Name pod)] \<or>
     tr' = tr @ [ActEvict (p_Namespace pod) (p_Name pod),
       ActAudit (oom_audit_event info pod (GetWorkloadKey k ns w) c)]"
    using evict_after_oom_wrote [OF e assms(2)] by metis
  have r: "list_ex (same_oom (oom_event env info)) (db_oomEvents db')"
    using InsertOOMEvent_kept [OF i] UpdateOOM_events [OF u] by simp
  have k: "in_ContainerID info = GetWorkloadContainerKey k ns w c"
    using p by (auto simp: ParseWorkloadContainerKey_iff dest: split_four)
  have ov: "\<forall>wi. GetWorkloadInfoFromPod pod = Some wi \<longrightarrow>
       (case GetWorkloadOverrides (oe_faults env 4) (oe_ClusterID env)
               (slashes_to_colons (GetWorkloadKey (wi_Kind wi) (wi_Namespace wi) (wi_Name wi))) db' of
          Inl e \<Rightarrow> True | Inr ov \<Rightarrow> ov_Enabled ov = Some True)"
    using pod(4) by (auto simp: oom_evictable_def)
  have old: "oe_faults env 0 0 = None \<longrightarrow> (\<forall>ev \<in> set (db_oomEvents db). oom_of (oe_ClusterID env) info ev \<longrightarrow>
       oom_cooldown env \<le> oe_now env - om_Timestamp ev)"
    using cd in_cooldown_iff [of env info db] by (meson not_less)
  show ?thesis by (intro exI conjI) (fact k old r u pod(1-3) ov pod(5))+
qed

text \<open>C24. The cooldown spaces the evictions of a pod after the OOM kills of one container. Take two
  events of the same container and pod, the first of which evicted, and any events processed between
  them. Until the cooldown has passed since the kill that the first one reports, the second changes
  nothing, neither the store nor the cluster. So when it does evict, the two evictions are at least
  the cooldown apart, less the time the first event had waited since its kill. This needs the first
  kill to be the only one at its moment of that container in the cluster, since events are unique by
  these alone, and the read of the last event not to fail.\<close>

theorem oom_evictions_spaced:
  assumes "processOOMEvent env1 info1 (db0, tr0) = (db1, tr1)" "tr1 \<noteq> tr0"
    and "Processor_Start between (db1, tr1) = (db2, tr2)"
    and "processOOMEvent env2 info2 (db2, tr2) = (db3, tr3)"
    and "in_ContainerID info2 = in_ContainerID info1" "in_PodName info2 = in_PodName info1"
    and "oe_ClusterID env2 = oe_ClusterID env1" "oe_faults env2 0 0 = None"
    and "\<not> list_ex (same_oom (oom_event env1 info1)) (db_oomEvents db0)"
  shows "(oe_now env2 < in_Timestamp info1 + oom_cooldown env2 \<longrightarrow> db3 = db2 \<and> tr3 = tr2) \<and>
    (tr3 \<noteq> tr2 \<longrightarrow>
       oom_cooldown env2 - (oe_now env1 - in_Timestamp info1) \<le> oe_now env2 - oe_now env1)"
proof -
  obtain k ns w c db' where
    i: "InsertOOMEvent (oe_written env1) (oe_faults env1 1) (oom_event env1 info1) db0 = (None, db')"
    and u: "UpdateOOMMemoryForContainer (oe_written env1) (oe_faults env1 2) (oe_faults env1 3) (oe_ClusterID env1)
       (GetWorkloadKey k ns w) c (in_LastObservedMemory info1) db' = (None, db1)"
    using processOOMEvent_wrote [OF assms(1,2)] by metis
  let ?ev = "(oom_event env1 info1)\<lparr>om_ID := db_nextID db0, om_CreatedAt := oe_written env1,
    om_UpdatedAt := oe_written env1\<rparr>"
  have "?ev \<in> set (db_oomEvents db1)"
    using InsertOOMEvent_recorded [OF i assms(9)] UpdateOOM_events [OF u] by simp
  then have ev: "?ev \<in> set (db_oomEvents db2)"
    using Processor_Start_events [of "(db1, tr1)" between] assms(3) by auto
  have idle: "db3 = db2 \<and> tr3 = tr2" if "oe_now env2 < in_Timestamp info1 + oom_cooldown env2"
  proof -
    have "oom_of (oe_ClusterID env2) info2 ?ev" using assms(5-7) by (simp add: oom_of_def oom_event_def)
    moreover have "oe_now env2 - om_Timestamp ?ev < oom_cooldown env2" using that by (simp add: oom_event_def)
    ultimately have "in_cooldown env2 info2 db2" using in_cooldown_iff [OF assms(8)] ev by blast
    then show ?thesis using cooldown_idle [of env2 info2 "(db2, tr2)"] assms(4) by simp
  qed
  then show ?thesis by force
qed


section \<open>An example\<close>

definition sample_info :: Info where
  "sample_info = \<lparr>in_ContainerID = ''Deployment:ns:web:app'', in_NodeName = ''n1'', in_PodName = ''web-1'',
     in_Namespace = ''ns'', in_Timestamp = 0, in_MemoryLimit = 64000000, in_MemoryRequest = 64000000,
     in_LastObservedMemory = 64000000\<rparr>"

definition sample_oom_pod :: Pod where
  "sample_oom_pod = \<lparr>p_Namespace = ''ns'', p_Name = ''web-1'', p_GenerateName = '''', p_Kind = ''Pod'',
     p_Labels = Map.empty, p_Annotations = Map.empty, p_OwnerReferences = [], p_NodeName = ''n1'',
     p_Phase = ''Running'', p_Containers = [], p_InitContainers = [], p_ContainerStatuses = [],
     p_InitContainerStatuses = []\<rparr>"

definition sample_oom_env :: "go_time \<Rightarrow> OomEnv" where
  "sample_oom_env now = \<lparr>oe_ClusterID = ''c'', oe_OOMCooldownMinutes = 5, oe_DisableMemoryApplication = False,
     oe_Recorder = False, oe_now = now, oe_written = 1, oe_faults = (\<lambda>_ _. None),
     oe_getPod = (\<lambda>_ _. Inr sample_oom_pod), oe_reply = (\<lambda>_ _. None)\<rparr>"

lemma sample_oom_env_simps [simp]:
  "oe_ClusterID (sample_oom_env n) = ''c''" "oe_faults (sample_oom_env n) i = (\<lambda>_. None)"
  "oe_written (sample_oom_env n) = 1" "in_ContainerID sample_info = ''Deployment:ns:web:app''"
  "in_LastObservedMemory sample_info = 64000000"
  by (simp_all add: sample_oom_env_def sample_info_def)

definition sample_oom_db :: Database where
  "sample_oom_db = exec (OpUpsertStat 0 (\<lambda>_. None) ''c'' ''Deployment:ns:web'' sample_stored_stat 0) empty_db"

lemma GetStat_workloads:
  assumes "db_workloads db' = db_workloads db"
  shows "GetStat f c w db' = GetStat f c w db"
  unfolding GetStat_def GetStatForWorkload_def assms ..

lemma sample_oom_stat:
  "GetStat (\<lambda>_. None) ''c'' ''Deployment:ns:web'' sample_oom_db = Inr (sample_stored_stat\<lparr>ws_UpdatedAt := 0\<rparr>)"
  "db_oomEvents sample_oom_db = []"
proof -
  have e: "enc_WorkloadStat sample_stored_stat \<noteq> None"
    by (simp add: sample_stored_stat_def sample_container_stat_def enc_simps)
  have u: "UpsertStat 0 (\<lambda>_. None) ''c'' ''Deployment:ns:web'' sample_stored_stat 0 empty_db = (None, sample_oom_db)"
    unfolding sample_oom_db_def using upsert_succeeds [OF e] by simp
  have ok: "db_ok empty_db" by (rule reachable_ok [OF start])
  obtain j r where j: "enc_WorkloadStat sample_stored_stat = Some j"
    and r: "workload_at sample_oom_db ''c'' ''Deployment:ns:web'' = Some r" "wr_Stats r = j" "wr_UpdatedAt r = 0"
    using UpsertStat_at [OF ok _ _ u] by (fastforce simp: workload_at_def empty_db_def new_row_def)
  then show "GetStat (\<lambda>_. None) ''c'' ''Deployment:ns:web'' sample_oom_db = Inr (sample_stored_stat\<lparr>ws_UpdatedAt := 0\<rparr>)"
    using c_WorkloadStat.dec_enc [OF j]
    by (simp add: GetStat_def GetStatForWorkload_def where_ids_key workload_at_def row_stat_def)
  show "db_oomEvents sample_oom_db = []" using UpsertStat_events [OF u] by (simp add: empty_db_def)
qed

lemma sample_oom_update:
  assumes "GetStat (\<lambda>_. None) ''c'' w db = Inr (sample_stored_stat\<lparr>ws_UpdatedAt := 0\<rparr>)"
  shows "\<exists>db'. UpdateOOMMemoryForContainer 1 (\<lambda>_. None) (\<lambda>_. None) ''c'' w ''app'' 64000000 db = (None, db')"
proof -
  have "set_oom_memory ''app'' 64000000 (ws_ContainerStats (sample_stored_stat\<lparr>ws_UpdatedAt := 0\<rparr>)) =
      Some [sample_container_stat\<lparr>cs_MemoryStats := Some (zero_MemoryStats\<lparr>mem_OOMMemory :=
        fdiv (f64_of_int 64000000) (lit 1000000)\<rparr>)\<rparr>]"
    by (simp add: sample_stored_stat_def sample_container_stat_def zero_ContainerStats_def)
  moreover have "fdiv (f64_of_int 64000000) (lit 1000000) = lit 64"
    by (simp add: f64_of_int_def f64_eval)
  moreover have e: "enc_WorkloadStat (sample_stored_stat\<lparr>ws_UpdatedAt := 0, ws_ContainerStats :=
      [sample_container_stat\<lparr>cs_MemoryStats := Some (zero_MemoryStats\<lparr>mem_OOMMemory := lit 64\<rparr>)\<rparr>]\<rparr>) \<noteq> None"
    by (simp add: sample_stored_stat_def sample_container_stat_def enc_simps)
  ultimately show ?thesis
    using assms upsert_succeeds [OF e, of 1 "''c''" w 1 db]
    by (cases "snd (UpsertStat 1 (\<lambda>_. None) ''c'' w (sample_stored_stat\<lparr>ws_UpdatedAt := 0, ws_ContainerStats :=
      [sample_container_stat\<lparr>cs_MemoryStats := Some (zero_MemoryStats\<lparr>mem_OOMMemory := lit 64\<rparr>)\<rparr>]\<rparr>) 1 db)")
      (simp add: UpdateOOMMemoryForContainer_def)
qed

lemma sample_oom_processed:
  "\<exists>db'. processOOMEvent (sample_oom_env 60) sample_info (sample_oom_db, []) = (db', [ActEvict ''ns'' ''web-1''])"
proof -
  obtain db1 where i: "InsertOOMEvent 1 (\<lambda>_. None) (oom_event (sample_oom_env 60) sample_info) sample_oom_db = (None, db1)"
      "db_workloads db1 = db_workloads sample_oom_db"
    by (simp add: InsertOOMEvent_def sample_oom_stat)
  obtain db' where "UpdateOOMMemoryForContainer 1 (\<lambda>_. None) (\<lambda>_. None) ''c'' ''Deployment:ns:web'' ''app'' 64000000
      db1 = (None, db')"
    using sample_oom_update GetStat_workloads [OF i(2)] sample_oom_stat(1) by metis
  moreover have "ParseWorkloadContainerKey ''Deployment:ns:web:app'' = Some (''Deployment'', ''ns'', ''web'', ''app'')"
    by (simp add: ParseWorkloadContainerKey_def)
  moreover have "\<not> in_cooldown (sample_oom_env 60) sample_info sample_oom_db"
    using in_cooldown_iff [of "sample_oom_env 60" sample_info sample_oom_db]
    by (simp add: sample_oom_stat sample_oom_env_def)
  moreover have "evict_after_oom (sample_oom_env 60) sample_info w ''app'' (db', []) = (db', [ActEvict ''ns'' ''web-1''])" for w
    by (simp add: evict_after_oom_def sample_oom_env_def sample_oom_pod_def PodExcludedByAnnotation_def oom_evictable_def
      GetWorkloadInfoFromPod_def EvictPod_def record_audit_def)
  ultimately show ?thesis
    using i(1) by (auto simp: processOOMEvent_def GetWorkloadKey_def Let_def)
qed

lemma oom_eviction_justified_witness:
  "\<exists>db'. list_ex (same_oom (oom_event (sample_oom_env 60) sample_info)) (db_oomEvents (db' :: Database))"
proof -
  obtain db' where p: "processOOMEvent (sample_oom_env 60) sample_info (sample_oom_db, []) = (db', [ActEvict ''ns'' ''web-1''])"
    using sample_oom_processed by blast
  show ?thesis
    using oom_eviction_justified [OF p list.distinct(2)] by (elim exE conjE) (rule exI [of _ db'], assumption)
qed

lemma oom_evictions_spaced_witness:
  "\<exists>db'. processOOMEvent (sample_oom_env Minute) sample_info (db', [ActEvict ''ns'' ''web-1'']) =
     (db', [ActEvict ''ns'' ''web-1''])"
proof -
  obtain db' where p: "processOOMEvent (sample_oom_env 60) sample_info (sample_oom_db, []) = (db', [ActEvict ''ns'' ''web-1''])"
    using sample_oom_processed by blast
  obtain db3 tr3 where q: "processOOMEvent (sample_oom_env Minute) sample_info (db', [ActEvict ''ns'' ''web-1'']) = (db3, tr3)"
    by fastforce
  have n: "Processor_Start [] (db', [ActEvict ''ns'' ''web-1'']) = (db', [ActEvict ''ns'' ''web-1''])" by simp
  have "db3 = db' \<and> tr3 = [ActEvict ''ns'' ''web-1'']"
    by (rule conjunct1 [OF oom_evictions_spaced [OF p list.distinct(2) n q], rule_format])
      (simp_all add: sample_oom_stat sample_oom_env_def sample_info_def oom_cooldown_def Minute_def signed_take_bit_eq_if_positive)
  then show ?thesis using q by auto
qed

end
