(* ===== verification/Killswitch.thy ===== *)
theory Killswitch
  imports Api Workloads Disruption
begin

text \<open>
  The kill switch, \<^verbatim>\<open>pkg/handlers/killswitch.go\<close>: it removes the webhook configuration, so that no new
  pod is changed, and evicts every pod whose containers differ from the template of its workload, so
  that they come back as their owners wrote them.
\<close>

section \<open>Comparing a pod with its workload\<close>

definition resourcesEqual :: "quantity option \<Rightarrow> quantity option \<Rightarrow> bool" where
  "resourcesEqual podResource workloadResource =
     (case (podResource, workloadResource) of
        (None, None) \<Rightarrow> True
      | (Some p, Some w) \<Rightarrow> q_Amount p = q_Amount w
      | _ \<Rightarrow> False)"

text \<open>\<^verbatim>\<open>Cpu()\<close> and \<^verbatim>\<open>Memory()\<close> give a zero quantity where the list has none, never nil.\<close>

definition res :: "resource_list option \<Rightarrow> string \<Rightarrow> quantity option" where
  "res rl n = Some (rl_val rl n)"

text \<open>A map built by assigning every container: the last one of a name stays.\<close>

definition container_map :: "Container list \<Rightarrow> string \<rightharpoonup> Container" where
  "container_map cs = foldl (\<lambda>m c. m(c_Name c \<mapsto> c)) Map.empty cs"

fun compare_containers :: "(string \<rightharpoonup> Container) \<Rightarrow> Container list \<Rightarrow> bool \<times> string" where
  "compare_containers workloadContainerMap [] = (False, ''resources match workload template'')"
| "compare_containers workloadContainerMap (podContainer # cs) =
     (let name = c_Name podContainer
      in case workloadContainerMap name of
        None \<Rightarrow> (True, ''container '' @ name @ '' exists in pod but not in workload template'')
      | Some workloadContainer \<Rightarrow>
          if \<not> resourcesEqual (res (c_Requests podContainer) ResourceCPU) (res (c_Requests workloadContainer) ResourceCPU)
          then (True, ''container '' @ name @ '' has different CPU request'')
          else if \<not> resourcesEqual (res (c_Limits podContainer) ResourceCPU) (res (c_Limits workloadContainer) ResourceCPU)
          then (True, ''container '' @ name @ '' has different CPU limit'')
          else if \<not> resourcesEqual (res (c_Requests podContainer) ResourceMemory) (res (c_Requests workloadContainer) ResourceMemory)
          then (True, ''container '' @ name @ '' has different memory request'')
          else if \<not> resourcesEqual (res (c_Limits podContainer) ResourceMemory) (res (c_Limits workloadContainer) ResourceMemory)
          then (True, ''container '' @ name @ '' has different memory limit'')
          else compare_containers workloadContainerMap cs)"

definition comparePodWithWorkload :: "Pod \<Rightarrow> WorkloadObject \<Rightarrow> bool \<times> string" where
  "comparePodWithWorkload pod workload =
     (let workloadContainers = GetContainerSpecs workload Map.empty;
          workloadInitContainers = GetInitContainerSpecs workload Map.empty
      in compare_containers (container_map (workloadContainers @ workloadInitContainers)) (p_Containers pod))"

section \<open>Killing pods\<close>

record KillEnv =
  ke_ClusterID :: string
  ke_reads :: KubeReads
  ke_reply :: reply
  ke_Recorder :: bool

definition kill_event :: "Pod \<Rightarrow> WorkloadInfo \<Rightarrow> string \<Rightarrow> AuditEvent" where
  "kill_event pod workloadInfo reason =
     \<lparr>ae_Type = EventTypeNormal, ae_Category = ''POD_EVICTION'',
      ae_Message = ''Pod ('' @ p_Namespace pod @ ''/'' @ p_Name pod @ '') killed by user (killswitch): '' @ reason,
      ae_Target = [(''kind'', p_Kind pod), (''namespace'', p_Namespace pod), (''name'', p_Name pod)],
      ae_Details = [(''workloadId'', AStr (GetWorkloadKey (wi_Kind workloadInfo) (wi_Namespace workloadInfo)
                       (wi_Name workloadInfo))),
        (''node'', AStr (p_NodeName pod)), (''reason'', AStr reason)]\<rparr>"

record KillResult =
  kl_Analyzed :: nat
  kl_Killed :: nat
  kl_KilledPods :: "string list"
  kl_Errors :: "string list"

definition kill_pod ::
    "KillEnv \<Rightarrow> (PodKey \<times> WorkloadInfo) list \<Rightarrow> Pod \<Rightarrow> KillResult \<times> trace \<Rightarrow> KillResult \<times> trace" where
  "kill_pod env podToWorkloadMap pod = (\<lambda>(r, tr).
     let r = r\<lparr>kl_Analyzed := Suc (kl_Analyzed r)\<rparr>
     in case map_of podToWorkloadMap (p_Namespace pod, p_Name pod) of
          None \<Rightarrow> (r, tr)
        | Some info \<Rightarrow>
            (case GetWorkloadObject (ke_reads env) (wi_Kind info) (wi_Namespace info) (wi_Name info) of
               Inl e \<Rightarrow> (r\<lparr>kl_Errors := kl_Errors r @ [''Failed to get workload '' @ wi_Kind info @ ''/'' @
                   wi_Namespace info @ ''/'' @ wi_Name info @ '': '' @ err_msg e]\<rparr>, tr)
             | Inr workloadObj \<Rightarrow>
                 let (hasResourceDiff, reason) = comparePodWithWorkload pod workloadObj
                 in if \<not> hasResourceDiff then (r, tr)
                    else let ((success, evictErr), tr) = EvictPod (ke_reply env) pod tr;
                             name = p_Namespace pod @ ''/'' @ p_Name pod
                         in if success
                            then (r\<lparr>kl_Killed := Suc (kl_Killed r), kl_KilledPods := kl_KilledPods r @ [name]\<rparr>,
                                  record_audit (ke_Recorder env) (kill_event pod info reason) tr)
                            else (r\<lparr>kl_Errors := kl_Errors r @ [''Failed to kill pod '' @ name @ '': '' @ evictErr]\<rparr>,
                                  tr)))"

fun kill_loop ::
    "KillEnv \<Rightarrow> (PodKey \<times> WorkloadInfo) list \<Rightarrow> Pod list \<Rightarrow> KillResult \<times> trace \<Rightarrow> KillResult \<times> trace" where
  "kill_loop env m [] s = s"
| "kill_loop env m (pod # pods) s = kill_loop env m pods (kill_pod env m pod s)"

definition analyzeAndKillPods :: "KillEnv \<Rightarrow> trace \<Rightarrow> KillResult \<times> trace" where
  "analyzeAndKillPods env tr =
     (case BuildPodToWorkloadMapping (ke_reads env) '''' of
        Inl e \<Rightarrow> (\<lparr>kl_Analyzed = 0, kl_Killed = 0, kl_KilledPods = [],
            kl_Errors = [''Failed to build pod-to-workload mapping: '' @ err_msg e]\<rparr>, tr)
      | Inr (podToWorkloadMap, allPods) \<Rightarrow>
          kill_loop env podToWorkloadMap allPods
            (\<lparr>kl_Analyzed = 0, kl_Killed = 0, kl_KilledPods = [], kl_Errors = []\<rparr>, tr))"

definition deleteMutatingWebhookConfiguration :: "reply \<Rightarrow> string \<Rightarrow> trace \<Rightarrow> api_error option \<times> trace" where
  "deleteMutatingWebhookConfiguration reply clusterID tr =
     (let name = ''cruisekube-resource-adjuster-'' @ clusterID;
          act = ActDeleteWebhookConfiguration name
      in case reply tr act of
           Some e \<Rightarrow>
             if IsNotFound e then (None, tr @ [act])
             else (Some (wrap (''failed to delete MutatingWebhookConfiguration '' @ name @ '': '') e), tr @ [act])
         | None \<Rightarrow> (None, tr @ [act]))"

record KillswitchResponse =
  kw_Message :: string
  kw_DeletedMutatingWebhook :: bool
  kw_PodsAnalyzed :: nat
  kw_PodsKilled :: nat
  kw_KilledPods :: "string list"
  kw_Errors :: "string list"

text \<open>
  \<open>clients\<close> is the error of looking the cluster up, if any; the answer is a status with an error or
  the response. \<open>print\<close> prints a number.
\<close>

definition KillswitchHandler ::
    "(nat \<Rightarrow> string) \<Rightarrow> string option \<Rightarrow> KillEnv \<Rightarrow> trace \<Rightarrow> (nat \<times> (string + KillswitchResponse)) \<times> trace" where
  "KillswitchHandler print clients env tr =
     (case clients of
        Some e \<Rightarrow> ((500, Inl (''Unable to fetch cluster clients for cluster '' @ ke_ClusterID env @ '': '' @ e)), tr)
      | None \<Rightarrow>
          let (err, tr) = deleteMutatingWebhookConfiguration (ke_reply env) (ke_ClusterID env) tr;
              errors = (case err of None \<Rightarrow> []
                | Some e \<Rightarrow> [''Failed to delete MutatingWebhookConfiguration: '' @ err_msg e]);
              (r, tr) = analyzeAndKillPods env tr;
              deleted = (err = None)
          in ((200, Inr \<lparr>kw_Message = ''Killswitch completed. MutatingWebhookConfiguration deleted: '' @
                 (if deleted then ''true'' else ''false'') @ '', Pods analyzed: '' @ print (kl_Analyzed r) @
                 '', Pods killed: '' @ print (kl_Killed r),
               kw_DeletedMutatingWebhook = deleted, kw_PodsAnalyzed = kl_Analyzed r,
               kw_PodsKilled = kl_Killed r, kw_KilledPods = kl_KilledPods r,
               kw_Errors = errors @ kl_Errors r\<rparr>), tr))"


section \<open>What is killed\<close>

text \<open>A container of a pod is as in the template: it is there, and the four amounts agree.\<close>

definition container_matches :: "Container list \<Rightarrow> Container \<Rightarrow> bool" where
  "container_matches ws c \<longleftrightarrow> (\<exists>w. find (\<lambda>w. c_Name w = c_Name c) (rev ws) = Some w \<and>
     (\<forall>n \<in> {ResourceCPU, ResourceMemory}. q_Amount (rl_val (c_Requests c) n) = q_Amount (rl_val (c_Requests w) n) \<and>
       q_Amount (rl_val (c_Limits c) n) = q_Amount (rl_val (c_Limits w) n)))"

definition pod_differs :: "Pod \<Rightarrow> WorkloadObject \<Rightarrow> bool" where
  "pod_differs pod workload \<longleftrightarrow> (\<exists>c \<in> set (p_Containers pod). \<not> container_matches
     (pt_Containers (GetPodTemplateSpec workload) @ pt_InitContainers (GetPodTemplateSpec workload)) c)"

lemma container_map_find: "container_map cs n = find (\<lambda>c. c_Name c = n) (rev cs)"
  by (induction cs rule: rev_induct) (auto simp: container_map_def)

lemma specs_without_pods [simp]: "specs_with_pod field cs sel Map.empty ns = cs"
  by (simp add: specs_with_pod_def GetMatchingPodsFromPodCache_def mergeContainers_def Let_def split: sum.split)

lemma template_containers:
  "GetContainerSpecs w Map.empty = pt_Containers (GetPodTemplateSpec w)"
  "GetInitContainerSpecs w Map.empty = pt_InitContainers (GetPodTemplateSpec w)"
  by (cases w; simp add: GetPodTemplateSpec_def Deployment_GetContainerSpecs_def StatefulSet_GetContainerSpecs_def
      DaemonSet_GetContainerSpecs_def Deployment_GetInitContainerSpecs_def StatefulSet_GetInitContainerSpecs_def
      DaemonSet_GetInitContainerSpecs_def)+

lemma compare_containers_differ:
  "fst (compare_containers (container_map ws) cs) \<longleftrightarrow> (\<exists>c \<in> set cs. \<not> container_matches ws c)"
proof (induction cs)
  case (Cons c cs)
  then show ?case
    by (cases "find (\<lambda>w. c_Name w = c_Name c) (rev ws)")
      (auto simp: container_map_find container_matches_def resourcesEqual_def res_def Let_def)
qed simp

lemma comparePodWithWorkload_differs: "fst (comparePodWithWorkload pod w) \<longleftrightarrow> pod_differs pod w"
  by (simp add: comparePodWithWorkload_def pod_differs_def template_containers compare_containers_differ)

definition to_kill :: "KubeReads \<Rightarrow> WorkloadLabelSelectorList list \<Rightarrow> Pod \<Rightarrow> bool" where
  "to_kill kr workloads pod \<longleftrightarrow> (\<exists>info obj. first_workload pod workloads = Some info \<and>
     GetWorkloadObject kr (wi_Kind info) (wi_Namespace info) (wi_Name info) = Inr obj \<and> pod_differs pod obj)"

definition evictions :: "trace \<Rightarrow> (string \<times> string) list" where
  "evictions tr = concat (map (\<lambda>a. case a of ActEvict ns n \<Rightarrow> [(ns, n)] | _ \<Rightarrow> []) tr)"

lemma evictions_simps [simp]:
  "evictions [] = []" "evictions (ActEvict ns n # tr) = (ns, n) # evictions tr"
  "evictions (ActAudit e # tr) = evictions tr" "evictions (ActDeleteWebhookConfiguration c # tr) = evictions tr"
  "evictions (tr @ tr') = evictions tr @ evictions tr'"
  by (simp_all add: evictions_def)

lemma kill_pod_effect:
  assumes "kill_pod env m pod (r, tr) = (r', tr')" "map_of m (p_Namespace pod, p_Name pod) = first_workload pod ws"
  shows "evictions tr' = evictions tr @ (if to_kill (ke_reads env) ws pod then [(p_Namespace pod, p_Name pod)] else [])"
    "kl_Analyzed r' = Suc (kl_Analyzed r)"
    "length (kl_KilledPods r) = kl_Killed r \<Longrightarrow> length (kl_KilledPods r') = kl_Killed r'"
    "take (length tr) tr' = tr"
proof -
  consider "first_workload pod ws = None"
    | info e where "first_workload pod ws = Some info"
      "GetWorkloadObject (ke_reads env) (wi_Kind info) (wi_Namespace info) (wi_Name info) = Inl e"
    | info obj where "first_workload pod ws = Some info"
      "GetWorkloadObject (ke_reads env) (wi_Kind info) (wi_Namespace info) (wi_Name info) = Inr obj"
    by (metis obj_sumE option.exhaust)
  note cs = this
  obtain res tr2 where ev: "EvictPod (ke_reply env) pod tr = (res, tr2)" by fastforce
  then have tr2: "tr2 = tr @ [ActEvict (p_Namespace pod) (p_Name pod)]"
    using EvictPod_trace [of "ke_reply env" pod tr] by simp
  from cs have all: "evictions tr' = evictions tr @ (if to_kill (ke_reads env) ws pod then [(p_Namespace pod, p_Name pod)] else []) \<and>
    kl_Analyzed r' = Suc (kl_Analyzed r) \<and>
    (length (kl_KilledPods r) = kl_Killed r \<longrightarrow> length (kl_KilledPods r') = kl_Killed r') \<and> take (length tr) tr' = tr"
  proof cases
    case 1
    then show ?thesis using assms by (auto simp: kill_pod_def to_kill_def)
  next
    case 2
    then show ?thesis using assms by (auto simp: kill_pod_def to_kill_def)
  next
    case (3 info obj)
    moreover obtain d reason where c: "comparePodWithWorkload pod obj = (d, reason)" by fastforce
    moreover have "d \<longleftrightarrow> pod_differs pod obj" using comparePodWithWorkload_differs [of pod obj] c by simp
    ultimately show ?thesis using assms ev tr2
      by (cases res) (auto simp: kill_pod_def to_kill_def record_audit_def Let_def split: if_splits)
  qed
  then show "evictions tr' = evictions tr @ (if to_kill (ke_reads env) ws pod then [(p_Namespace pod, p_Name pod)] else [])"
    "kl_Analyzed r' = Suc (kl_Analyzed r)" "take (length tr) tr' = tr" by blast+
  show "length (kl_KilledPods r) = kl_Killed r \<Longrightarrow> length (kl_KilledPods r') = kl_Killed r'" using all by blast
qed


lemma delete_trace:
  "snd (deleteMutatingWebhookConfiguration reply clusterID tr) =
     tr @ [ActDeleteWebhookConfiguration (''cruisekube-resource-adjuster-'' @ clusterID)]"
  unfolding deleteMutatingWebhookConfiguration_def Let_def by (auto split: option.split)

lemma kill_loop_effect:
  assumes "\<forall>pod \<in> set pods. map_of m (p_Namespace pod, p_Name pod) = first_workload pod ws"
    and "kill_loop env m pods (r, tr) = (r', tr')"
  shows "evictions tr' = evictions tr @ map (\<lambda>p. (p_Namespace p, p_Name p)) (filter (to_kill (ke_reads env) ws) pods) \<and>
    kl_Analyzed r' = kl_Analyzed r + length pods \<and>
    (length (kl_KilledPods r) = kl_Killed r \<longrightarrow> length (kl_KilledPods r') = kl_Killed r') \<and>
    (\<exists>tr2. tr' = tr @ tr2)"
  using assms
proof (induction pods arbitrary: r tr)
  case (Cons pod pods)
  obtain r2 tr2 where k: "kill_pod env m pod (r, tr) = (r2, tr2)" by fastforce
  have "map_of m (p_Namespace pod, p_Name pod) = first_workload pod ws" using Cons.prems(1) by simp
  note one = kill_pod_effect [OF k this]
  obtain tr3 where "tr2 = tr @ tr3" using one(4) by (metis append_take_drop_id)
  moreover have "kill_loop env m pods (r2, tr2) = (r', tr')" using Cons.prems(2) k by simp
  note rest = Cons.IH [OF _ this]
  ultimately show ?case using one rest Cons.prems(1) by auto
qed simp

text \<open>C25. The kill switch first asks for the webhook configuration to be deleted, and then evicts exactly the
  scheduled pods that belong to a readable workload and of which some container is not as in the
  template, each once and in order, whatever the API server answers; the pods it reports as killed
  are counted right.\<close>

theorem killswitch_evicts_changed:
  assumes "getScheduledPodsAcrossNamespaces (ke_reads env) '''' = Inr pods"
    and "distinct (map (\<lambda>p. (p_Namespace p, p_Name p)) pods)"
    and "KillswitchHandler print None env [] = ((status, result), tr)"
  shows "\<exists>tr' resp. tr = ActDeleteWebhookConfiguration (''cruisekube-resource-adjuster-'' @ ke_ClusterID env) # tr' \<and>
    evictions tr' = map (\<lambda>p. (p_Namespace p, p_Name p))
      (filter (to_kill (ke_reads env) (ListAllWorkloadsWithSelectors (ke_reads env) '''')) pods) \<and>
    status = 200 \<and> result = Inr resp \<and> kw_PodsAnalyzed resp = length pods \<and>
    kw_PodsKilled resp = length (kw_KilledPods resp)"
proof -
  let ?ws = "ListAllWorkloadsWithSelectors (ke_reads env) ''''"
  let ?m = "createPodToWorkloadMapping pods ?ws []"
  let ?r = "\<lparr>kl_Analyzed = 0, kl_Killed = 0, kl_KilledPods = [], kl_Errors = []\<rparr>"
  let ?d = "[ActDeleteWebhookConfiguration (''cruisekube-resource-adjuster-'' @ ke_ClusterID env)]"
  obtain err where d: "deleteMutatingWebhookConfiguration (ke_reply env) (ke_ClusterID env) [] = (err, ?d)"
    using delete_trace [of "ke_reply env" "ke_ClusterID env" "[]"]
    by (cases "deleteMutatingWebhookConfiguration (ke_reply env) (ke_ClusterID env) []") simp
  obtain r' tr' where k: "kill_loop env ?m pods (?r, ?d) = (r', tr')" by fastforce
  have a: "analyzeAndKillPods env ?d = (r', tr')"
    using assms(1) k by (simp add: analyzeAndKillPods_def BuildPodToWorkloadMapping_def)
  have m: "\<forall>pod \<in> set pods. map_of ?m (p_Namespace pod, p_Name pod) = first_workload pod ?ws"
    using mapping_lookup [OF assms(2)] by blast
  have t: "tr = tr'" "status = 200" "\<exists>resp. result = Inr resp \<and> kw_PodsAnalyzed resp = kl_Analyzed r' \<and>
      kw_PodsKilled resp = kl_Killed r' \<and> kw_KilledPods resp = kl_KilledPods r'"
    using assms(3) d a by (auto simp: KillswitchHandler_def Let_def)
  then show ?thesis using kill_loop_effect [OF m k] by auto
qed


definition sample_changed_pod :: Pod where
  "sample_changed_pod = \<lparr>p_Namespace = ''ns'', p_Name = ''web-1'', p_GenerateName = '''', p_Kind = ''Pod'',
     p_Labels = Map.empty, p_Annotations = Map.empty, p_OwnerReferences = [], p_NodeName = ''n1'',
     p_Phase = ''Running'', p_Containers = [\<lparr>c_Name = ''app'', c_Requests = None, c_Limits = None,
       c_RestartPolicy = None\<rparr>], p_InitContainers = [], p_ContainerStatuses = [], p_InitContainerStatuses = []\<rparr>"

definition sample_kill_env :: KillEnv where
  "sample_kill_env = \<lparr>ke_ClusterID = ''c'', ke_reads = sample_reads\<lparr>kr_Pods := \<lambda>_. Inr [sample_changed_pod]\<rparr>,
     ke_reply = (\<lambda>_ _. Some (Other ''unavailable'')), ke_Recorder = True\<rparr>"

lemma sample_to_kill:
  "to_kill (ke_reads sample_kill_env) (ListAllWorkloadsWithSelectors (ke_reads sample_kill_env) '''') sample_changed_pod"
  by (simp add: to_kill_def ListAllWorkloadsWithSelectors_def entries_of_def sample_kill_env_def sample_reads_def
      sample_deployment_def LabelSelectorAsSelector_def sample_changed_pod_def GetWorkloadObject_def
      pod_differs_def GetPodTemplateSpec_def sample_template_def container_matches_def)

lemma killswitch_evicts_changed_witness:
  "evictions (snd (KillswitchHandler (\<lambda>_. '''') None sample_kill_env [])) = [(''ns'', ''web-1'')]"
proof -
  obtain status result tr where run: "KillswitchHandler (\<lambda>_. '''') None sample_kill_env [] = ((status, result), tr)"
    by (metis prod.exhaust)
  have pods: "getScheduledPodsAcrossNamespaces (ke_reads sample_kill_env) '''' = Inr [sample_changed_pod]"
    by (simp add: getScheduledPodsAcrossNamespaces_def sample_kill_env_def sample_changed_pod_def PodRunning_def)
  have "distinct (map (\<lambda>p. (p_Namespace p, p_Name p)) [sample_changed_pod])" by simp
  from killswitch_evicts_changed [OF pods this run]
  show ?thesis using run sample_to_kill by (auto simp: sample_changed_pod_def)
qed

end
