(* ===== verification/CreateStats.thy ===== *)
theory CreateStats
  imports Promql StorageSpec Disruption
begin

text \<open>
  A run of the statistics task, \<^verbatim>\<open>Run\<close> of \<^verbatim>\<open>pkg/task/taskcreatestats.go\<close>: it lists the workloads,
  fetches their metrics, predictions, autoscalers, disruption budgets and pods, prepares the
  statistics of each workload and stores them in place of those of workloads that are gone. The map
  of workloads is ranged over several times; each range has an order of its own.
\<close>

section \<open>The run\<close>

datatype run_error = ApiFailed string api_error | PromFailed string string | StoreFailed string store_error

type_synonym workload_map = "(string \<times> WorkloadObject) list"

record StatsEnv =
  se_ClusterID :: string
  se_TargetNamespace :: string
  se_SkipMemory :: bool
  se_dynamicClient :: bool
  se_reads :: KubeReads
  se_provider :: ProviderConfig
  se_prom :: prom
  se_range :: QueryRange
  se_arrive :: "query_result list \<Rightarrow> query_result list"
  se_arrive_ns :: "namespace_fetch list \<Rightarrow> namespace_fetch list"
  se_order :: map_order
  se_groups :: "groups \<Rightarrow> groups"
  se_workloads :: "nat \<Rightarrow> workload_map \<Rightarrow> workload_map"
  se_cpu_clock :: "nat \<Rightarrow> go_time \<times> go_time"
  se_memory_clock :: "nat \<Rightarrow> go_time \<times> go_time"
  se_oob :: "float64 \<Rightarrow> int"
  se_start :: go_time
  se_prepared :: "string \<Rightarrow> go_time"
  se_written :: go_time
  se_delete_faults :: faults
  se_write_faults :: "nat \<Rightarrow> faults"

text \<open>The assertion that the answer is a vector panics when it is not.\<close>

definition isPSIEnabled :: "ProviderConfig \<Rightarrow> prom \<Rightarrow> bool panics" where
  "isPSIEnabled cfg prom =
     (case fst (ExecuteQueryWithRetry cfg prom ''max(max_over_time(container_pressure_cpu_waiting_seconds_total[1m]))''
               ''PSI_CHECK'') of
        Inl e \<Rightarrow> Some False
      | Inr (Vector samples) \<Rightarrow> Some (length samples \<noteq> 0)
      | Inr _ \<Rightarrow> None)"

definition workload_key :: "WorkloadObject \<Rightarrow> string" where
  "workload_key w = GetWorkloadKey (GetKind w) (GetNamespace w) (GetName w)"

definition unique_workloads :: "WorkloadObject list \<Rightarrow> workload_map" where
  "unique_workloads ws = foldl (\<lambda>m w. AList.update (workload_key w) w m) [] ws"

text \<open>A map with every workload marked false.\<close>

definition unmarked :: "workload_map \<Rightarrow> (string \<rightharpoonup> bool)" where
  "unmarked m = (\<lambda>k. if map_of m k = None then None else Some False)"

definition hpa_maps :: "StatsEnv \<Rightarrow> workload_map \<Rightarrow> run_error + (string \<rightharpoonup> bool) \<times> (string \<rightharpoonup> bool)" where
  "hpa_maps env uniqueWorkloads =
     (if \<not> se_dynamicClient env then Inr (unmarked uniqueWorkloads, unmarked uniqueWorkloads)
      else case CheckHPAOnCPU (se_reads env) (se_TargetNamespace env) (unmarked uniqueWorkloads) of
        (_, Some e) \<Rightarrow> Inl (ApiFailed ''failed to check HPA on CPU: '' e)
      | (cpu, None) \<Rightarrow>
          (case CheckHPAOnMemory (se_reads env) (se_TargetNamespace env) (unmarked uniqueWorkloads) of
             (_, Some e) \<Rightarrow> Inl (ApiFailed ''failed to check HPA on memory: '' e)
           | (memory, None) \<Rightarrow> Inr (cpu, memory)))"

definition memory_predictions :: "StatsEnv \<Rightarrow> string list \<Rightarrow> bool \<Rightarrow> (string + predictions) panics" where
  "memory_predictions env namespaces psi =
     (if se_SkipMemory env then Some (Inr Map.empty)
      else PredictSimpleStatsFromTimeSeriesModel (se_groups env) (se_memory_clock env) (se_range env) namespaces ''memory'' psi)"

text \<open>Everything that is read before the first workload is prepared, except the time.\<close>

definition gather_inputs :: "StatsEnv \<Rightarrow> workload_map \<Rightarrow> bool \<Rightarrow> (run_error + StatsInputs) panics" where
  "gather_inputs env uniqueWorkloads psi =
     (let namespaces = ExtractUniqueNamespaces (se_workloads env 0 uniqueWorkloads)
      in case FetchStatsForNamespaces (se_provider env) (se_prom env) (se_arrive env) (se_arrive_ns env) (se_order env)
                namespaces psi of
           Inl e \<Rightarrow> Some (Inl (PromFailed ''failed to fetch stats for namespaces: '' e))
         | Inr (containerMetrics, workloadMetrics) \<Rightarrow> do {
             cpu \<leftarrow> PredictSimpleStatsFromTimeSeriesModel (se_groups env) (se_cpu_clock env) (se_range env)
                      namespaces ''cpu'' psi;
             case cpu of
               Inl e \<Rightarrow> Some (Inl (PromFailed ''failed to predict simple CPU stats: '' e))
             | Inr cpuPredictions \<Rightarrow> do {
                 memory \<leftarrow> memory_predictions env namespaces psi;
                 case memory of
                   Inl e \<Rightarrow> Some (Inl (PromFailed ''failed to predict simple memory stats: '' e))
                 | Inr memoryPredictions \<Rightarrow>
                     (case hpa_maps env uniqueWorkloads of
                        Inl e \<Rightarrow> Some (Inl e)
                      | Inr (hpaCPU, hpaMemory) \<Rightarrow>
                          (case FetchPDBsForNamespaces (se_reads env) namespaces of
                             (_, Some e) \<Rightarrow> Some (Inl (ApiFailed ''failed to fetch PDBs for namespaces: '' e))
                           | (pdbCache, None) \<Rightarrow>
                               (case FetchPodsForNamespaces (se_reads env) namespaces of
                                  (_, Some e) \<Rightarrow> Some (Inl (ApiFailed ''failed to fetch Pods for namespaces: '' e))
                                | (podCache, None) \<Rightarrow>
                                    Some (Inr \<lparr>si_oob = se_oob env, si_now = 0, si_containerMetrics = containerMetrics,
                                      si_workloadMetrics = workloadMetrics, si_cpuPredictions = cpuPredictions,
                                      si_memoryPredictions = memoryPredictions, si_hpaCPU = hpaCPU,
                                      si_hpaMemory = hpaMemory, si_dynamicClient = se_dynamicClient env,
                                      si_pdbCache = pdbCache, si_podCache = podCache\<rparr>)))) } })"

definition storeStats ::
    "StatsEnv \<Rightarrow> WorkloadStat list \<Rightarrow> Database \<Rightarrow> run_error option \<times> Database" where
  "storeStats env newStats db =
     (case WriteClusterStats (se_written env) (se_write_faults env) (se_ClusterID env) newStats (se_start env) db of
        (Some e, db) \<Rightarrow> (Some (StoreFailed (''error writing stats for cluster '' @ se_ClusterID env @ '': '') e), db)
      | (None, db) \<Rightarrow> (None, db))"

definition CreateStats_Run :: "StatsEnv \<Rightarrow> Database \<Rightarrow> (run_error option \<times> Database) panics" where
  "CreateStats_Run env db =
     (case ListAllWorkloadObjects (se_reads env) (se_TargetNamespace env) of
        Inl e \<Rightarrow> Some (Some (ApiFailed ''failed to list workloads: '' e), db)
      | Inr workloadObjectsList \<Rightarrow> do {
          psi \<leftarrow> isPSIEnabled (se_provider env) (se_prom env);
          let uniqueWorkloads = unique_workloads workloadObjectsList;
          inputs \<leftarrow> gather_inputs env uniqueWorkloads psi;
          case inputs of
            Inl e \<Rightarrow> Some (Some e, db)
          | Inr inp \<Rightarrow>
              let newStats = map (\<lambda>(key, w). prepareStatsFromMetrics (inp\<lparr>si_now := se_prepared env key\<rparr>) key w)
                    (se_workloads env 1 uniqueWorkloads);
                  currentWorkloadIds = map fst (se_workloads env 2 uniqueWorkloads)
              in if length newStats > 0
                 then let (deleted, db) = DeleteStaleWorkloads (se_delete_faults env) (se_ClusterID env)
                            currentWorkloadIds db
                      in Some (storeStats env newStats db)
                 else Some (None, db) })"


section \<open>Lemmas\<close>

lemma set_update_subset: "set (AList.update k v m) \<subseteq> insert (k, v) (set m)"
  by (induction m) auto

lemma unique_workloads_aux:
  assumes "distinct (map fst m)" "\<forall>(k, w) \<in> set m. k = workload_key w \<and> w \<in> S"
  shows "let m' = foldl (\<lambda>m w. AList.update (workload_key w) w m) m ws in
    distinct (map fst m') \<and> (\<forall>(k, w) \<in> set m'. k = workload_key w \<and> w \<in> S \<union> set ws) \<and>
    fst ` set m' = fst ` set m \<union> workload_key ` set ws"
  using assms
proof (induction ws arbitrary: m S)
  case (Cons w ws)
  let ?m = "AList.update (workload_key w) w m"
  have "distinct (map fst ?m)" using Cons.prems(1) by (rule distinct_update)
  moreover have "\<forall>(k, v) \<in> set ?m. k = workload_key v \<and> v \<in> insert w S"
    using Cons.prems(2) set_update_subset [of "workload_key w" w m] by blast
  ultimately have "let m' = foldl (\<lambda>m w. AList.update (workload_key w) w m) ?m ws in
    distinct (map fst m') \<and> (\<forall>(k, w') \<in> set m'. k = workload_key w' \<and> w' \<in> insert w S \<union> set ws) \<and>
    fst ` set m' = fst ` set ?m \<union> workload_key ` set ws" by (rule Cons.IH)
  then show ?case by (simp add: Let_def dom_update insert_commute Un_commute)
qed (simp add: Let_def)

lemma unique_workloads:
  "distinct (map fst (unique_workloads ws))"
  "(k, w) \<in> set (unique_workloads ws) \<Longrightarrow> k = workload_key w \<and> w \<in> set ws"
  "fst ` set (unique_workloads ws) = workload_key ` set ws"
  using unique_workloads_aux [of "[]" "{}" ws] unfolding unique_workloads_def Let_def by auto

lemma prepared_identifier: "ws_WorkloadIdentifier (prepareStatsFromMetrics inp key w) = key"
  by (simp add: prepareStatsFromMetrics_def Let_def with_metrics_def with_hpa_def with_gpu_def
      markWorkloadStatIncomplete_def buildBaseWorkloadStat_def split: option.split)

lemma slashes_idle: "CHR ''/'' \<notin> set s \<Longrightarrow> slashes_to_colons s = s"
  unfolding slashes_to_colons_def by (rule map_idI) auto

lemma workload_at_filter:
  assumes "\<And>r. P r \<longleftrightarrow> Q (row_key r)"
  shows "workload_at (db\<lparr>db_workloads := filter P (db_workloads db)\<rparr>) c w = (if Q (c, w) then workload_at db c w else None)"
proof -
  have "(\<lambda>r. P r \<and> row_key r = (c, w)) = (\<lambda>r. Q (c, w) \<and> row_key r = (c, w))" using assms by auto
  then show ?thesis by (auto simp: workload_at_def find_filter find_None_iff)
qed

lemma delete_stale:
  assumes "fault 0 = None" "ids \<noteq> []" "DeleteStaleWorkloads fault cluster ids db = (n, db')"
  shows "workload_at db' c w = (if c = cluster \<and> w \<notin> set ids then None else workload_at db c w)"
proof -
  let ?P = "\<lambda>r. \<not> (wr_ClusterID r = cluster \<and> (ids = [] \<or> wr_WorkloadID r \<notin> set ids))"
  have "db' = db\<lparr>db_workloads := filter ?P (db_workloads db)\<rparr>"
    using assms(1,3) by (auto simp: DeleteStaleWorkloads_def DeleteWorkloadsNotInCluster_def delete_where_def split: prod.splits)
  moreover have "?P r \<longleftrightarrow> (\<lambda>(c, w). \<not> (c = cluster \<and> w \<notin> set ids)) (row_key r)" for r
    using assms(2) by (auto simp: row_key_def)
  ultimately show ?thesis using workload_at_filter [of ?P "\<lambda>(c, w). \<not> (c = cluster \<and> w \<notin> set ids)" db c w] by simp
qed

lemma delete_stale_ok:
  assumes "db_ok db" "DeleteStaleWorkloads fault cluster ids db = (n, db')"
  shows "db_ok db'"
proof -
  have "db' = snd (DeleteWorkloadsNotInCluster fault cluster ids db)"
    using assms(2) by (auto simp: DeleteStaleWorkloads_def split: prod.splits)
  then show ?thesis using delete_where_effect(2) [OF assms(1)] by (simp only: DeleteWorkloadsNotInCluster_def)
qed

text \<open>What is stored by a run that gathered its inputs.\<close>

lemma stored_stats:
  assumes "db_ok db" "cluster \<noteq> []" "distinct (map fst m)" "\<forall>(k, w) \<in> set m. CHR ''/'' \<notin> set k \<and> k \<noteq> []"
    and "WriteClusterStats now faults cluster (map (\<lambda>(k, w). prepareStatsFromMetrics (f k) k w) m) g db = (None, db')"
  shows "stat_at (c, k) db' = (case map_of m k of
      Some w \<Rightarrow> if c = cluster then Some (prepareStatsFromMetrics (f k) k w) else stat_at (c, k) db
    | None \<Rightarrow> stat_at (c, k) db)"
    "overrides_at db cluster k \<noteq> None \<Longrightarrow> overrides_at db' cluster k = overrides_at db cluster k"
proof -
  let ?stats = "map (\<lambda>(k, w). prepareStatsFromMetrics (f k) k w) m"
  have ids: "\<forall>st \<in> set ?stats. ws_WorkloadIdentifier st \<noteq> []" using assms(4) by (auto simp: prepared_identifier)
  note run = write_stats_run [OF assms(1,2,5) ids]
  let ?kv = "map (\<lambda>(k, w). ((cluster, k), prepareStatsFromMetrics (f k) k w)) m"
  have "map (\<lambda>st. ((cluster, slashes_to_colons (ws_WorkloadIdentifier st)), st)) ?stats = ?kv"
    using assms(4) by (auto simp: prepared_identifier slashes_idle)
  moreover have d: "distinct (map fst ?kv)"
  proof -
    have "map fst ?kv = map (Pair cluster) (map fst m)" by (simp add: comp_def case_prod_beta)
    then show ?thesis using assms(3) by (metis distinct_map inj_on_def Pair_inject)
  qed
  moreover have "map_of (rev ?kv) = map_of ?kv" using map_of_rev_mset [OF _ d, of "rev ?kv"] by simp
  ultimately have at: "stat_at x db' = (case map_of ?kv x of Some st \<Rightarrow> Some st | None \<Rightarrow> stat_at x db)" for x
    using run by (simp only:)
  have "map_of ?kv (c, k) = (if c = cluster then map_option (prepareStatsFromMetrics (f k) k) (map_of m k) else None)"
    by (induction m) auto
  then show "stat_at (c, k) db' = (case map_of m k of
      Some w \<Rightarrow> if c = cluster then Some (prepareStatsFromMetrics (f k) k w) else stat_at (c, k) db
    | None \<Rightarrow> stat_at (c, k) db)" using at [of "(c, k)"] by (auto split: option.split)
  show "overrides_at db cluster k \<noteq> None \<Longrightarrow> overrides_at db' cluster k = overrides_at db cluster k" using run by blast
qed

text \<open>C26. A run of the statistics task that returns without an error, on a cluster with workloads, leaves in
  the store for this cluster exactly the listed workloads, each with the statistics prepared from
  what was gathered; statistics of workloads that are gone are removed, those of other clusters are
  untouched, and the overrides of the listed workloads survive. This holds in whatever order maps
  are ranged over and goroutines finish.\<close>

theorem stats_run_stores:
  assumes "reachable db" "se_ClusterID env \<noteq> []" "\<And>i m. mset (se_workloads env i m) = mset m"
    and "ListAllWorkloadObjects (se_reads env) (se_TargetNamespace env) = Inr ws" "ws \<noteq> []"
    and "\<forall>w \<in> set ws. CHR ''/'' \<notin> set (workload_key w)" "se_delete_faults env 0 = None"
    and "CreateStats_Run env db = Some (None, db')"
  shows "\<exists>psi inp. gather_inputs env (unique_workloads ws) psi = Some (Inr inp) \<and>
    (\<forall>k \<in> workload_key ` set ws. \<exists>w \<in> set ws. workload_key w = k \<and>
       stat_at (se_ClusterID env, k) db' = Some (prepareStatsFromMetrics (inp\<lparr>si_now := se_prepared env k\<rparr>) k w)) \<and>
    (\<forall>k. k \<notin> workload_key ` set ws \<longrightarrow> stat_at (se_ClusterID env, k) db' = None) \<and>
    (\<forall>c k. c \<noteq> se_ClusterID env \<longrightarrow> stat_at (c, k) db' = stat_at (c, k) db) \<and>
    (\<forall>k \<in> workload_key ` set ws. overrides_at db (se_ClusterID env) k \<noteq> None \<longrightarrow>
       overrides_at db' (se_ClusterID env) k = overrides_at db (se_ClusterID env) k)"
proof -
  let ?u = "unique_workloads ws" and ?c = "se_ClusterID env"
  obtain psi inputs where "gather_inputs env ?u psi = Some inputs"
    and rest: "(case inputs of Inl e \<Rightarrow> Some (Some e, db) | Inr inp \<Rightarrow>
      let newStats = map (\<lambda>(key, w). prepareStatsFromMetrics (inp\<lparr>si_now := se_prepared env key\<rparr>) key w) (se_workloads env 1 ?u);
          currentWorkloadIds = map fst (se_workloads env 2 ?u)
      in if length newStats > 0
         then let (deleted, db) = DeleteStaleWorkloads (se_delete_faults env) ?c currentWorkloadIds db
              in Some (storeStats env newStats db)
         else Some (None, db)) = Some (None, db')"
    using assms(4,8) unfolding CreateStats_Run_def by (simp only: sum.case bind_eq_Some_conv Let_def) blast
  then obtain inp where g: "gather_inputs env ?u psi = Some (Inr inp)" and "inputs = Inr inp"
    by (cases inputs) auto
  note tail = rest [unfolded this sum.case]
  let ?m = "se_workloads env 1 ?u" and ?ids = "map fst (se_workloads env 2 ?u)"
  have sets: "set ?m = set ?u" "set ?ids = workload_key ` set ws"
    using mset_eq_setD [OF assms(3)] unique_workloads(3) by auto
  have "?u \<noteq> []" using unique_workloads(3) [of ws] assms(5) by auto
  then have ne: "?m \<noteq> []" "?ids \<noteq> []" using sets assms(5) by auto
  obtain n db1 where del: "DeleteStaleWorkloads (se_delete_faults env) ?c ?ids db = (n, db1)" by fastforce
  have wr: "WriteClusterStats (se_written env) (se_write_faults env) ?c
      (map (\<lambda>(k, w). prepareStatsFromMetrics (inp\<lparr>si_now := se_prepared env k\<rparr>) k w) ?m) (se_start env) db1 = (None, db')"
    using tail ne del by (auto simp: Let_def storeStats_def split: prod.splits option.splits)
  have dm: "distinct (map fst ?m)"
    using unique_workloads(1) [of ws] assms(3) by (metis mset_eq_imp_distinct_iff mset_map)
  have keys: "\<forall>(k, w) \<in> set ?m. CHR ''/'' \<notin> set k \<and> k \<noteq> []"
    using unique_workloads(2) assms(6) unfolding sets by (fastforce simp: workload_key_def GetWorkloadKey_def)
  note st = stored_stats [OF delete_stale_ok [OF reachable_ok [OF assms(1)] del] assms(2) dm keys wr]
  note dl = delete_stale [OF assms(7) ne(2) del]
  have at1: "stat_at (c, k) db1 = (if c = ?c \<and> k \<notin> workload_key ` set ws then None else stat_at (c, k) db)" for c k
    using dl [of c k] sets(2) by (simp add: stat_at_def)
  have mo: "map_of ?m k = None \<longleftrightarrow> k \<notin> workload_key ` set ws" for k
    using unique_workloads(3) [of ws] sets(1) by (metis map_of_eq_None_iff)
  have in_m: "map_of ?m k = Some w \<Longrightarrow> w \<in> set ws \<and> workload_key w = k" for k w
    using unique_workloads(2) sets(1) map_of_SomeD by metis
  have "\<exists>w \<in> set ws. workload_key w = k \<and>
       stat_at (?c, k) db' = Some (prepareStatsFromMetrics (inp\<lparr>si_now := se_prepared env k\<rparr>) k w)"
    if k: "k \<in> workload_key ` set ws" for k
  proof -
    have "map_of ?m k \<noteq> None" using mo [of k] k by blast
    then obtain w where w: "map_of ?m k = Some w" by blast
    have "stat_at (?c, k) db' = Some (prepareStatsFromMetrics (inp\<lparr>si_now := se_prepared env k\<rparr>) k w)"
      by (simp only: st(1) w option.case if_True refl)
    then show ?thesis using in_m [OF w] by blast
  qed
  moreover have "stat_at (?c, k) db' = None" if "k \<notin> workload_key ` set ws" for k
    using st(1) [of ?c k] mo [of k] at1 [of ?c k] that by simp
  moreover have "stat_at (c, k) db' = stat_at (c, k) db" if "c \<noteq> ?c" for c k
    using st(1) [of c k] at1 [of c k] that by (cases "map_of ?m k") simp_all
  moreover have "overrides_at db' ?c k = overrides_at db ?c k"
    if "k \<in> workload_key ` set ws" "overrides_at db ?c k \<noteq> None" for k
    using st(2) [of k] dl [of ?c k] sets(2) that by (simp add: overrides_at_def)
  ultimately show ?thesis using g by blast
qed


definition sample_stats_env :: StatsEnv where
  "sample_stats_env = \<lparr>se_ClusterID = ''c'', se_TargetNamespace = [], se_SkipMemory = False, se_dynamicClient = False,
     se_reads = sample_reads,
     se_provider = \<lparr>pc_MaxQueryRetries = 1, pc_RetryBackoffBase = 0, pc_MaxConcurrentQueries = 1\<rparr>,
     se_prom = (\<lambda>_ _. Inr (Vector [])), se_range = (\<lambda>_ _. Inr (Matrix [])),
     se_arrive = rev, se_arrive_ns = rev, se_order = rev, se_groups = rev,
     se_workloads = (\<lambda>i m. rev m), se_cpu_clock = (\<lambda>_. (0, 0)), se_memory_clock = (\<lambda>_. (0, 0)), se_oob = (\<lambda>_. 0),
     se_start = 0, se_prepared = (\<lambda>_. 0), se_written = 0, se_delete_faults = (\<lambda>_. None),
     se_write_faults = (\<lambda>_ _. None)\<rparr>"

lemma sample_fetch:
  "FetchStatsForNamespaces (se_provider sample_stats_env) (se_prom sample_stats_env) rev rev rev [''ns''] False =
     Inr ([''ns'' \<mapsto> Map.empty], [''ns'' \<mapsto> Map.empty])"
proof -
  let ?cfg = "se_provider sample_stats_env" and ?prom = "se_prom sample_stats_env"
  have q: "fst (ExecuteQueryWithRetry ?cfg ?prom q i) = Inr (Vector [])" for q i
    by (simp add: ExecuteQueryWithRetry_def sample_stats_env_def)
  have "fetchStatsForNamespace ?cfg ?prom rev rev ''ns'' False = Inr (Map.empty, Map.empty)"
    by (simp add: fetchStatsForNamespace_def executeQueriesInParallel_def q namespace_requests_def container_queries_def
        merge_query_def replica_metrics_def parsePrometheusVectorResultForContainer_def
        parsePrometheusVectorResultForWorkload_def MergeContainerRawResultsIntoCache_def)
  then show ?thesis by (simp add: FetchStatsForNamespaces_def)
qed

lemmas sample_object = sample_deployment_def GetNamespace_def GetName_def DeploymentKind_def

abbreviation sample_object_map :: workload_map where
  "sample_object_map \<equiv> [(''Deployment:ns:web'', DeploymentWrapper sample_deployment)]"

lemma sample_listed:
  "ListAllWorkloadObjects (se_reads sample_stats_env) [] = Inr [DeploymentWrapper sample_deployment]"
  "unique_workloads [DeploymentWrapper sample_deployment] = sample_object_map"
  "ExtractUniqueNamespaces sample_object_map = [''ns'']"
  by (simp_all add: ListAllWorkloadObjects_def sample_stats_env_def sample_reads_def sample_object with_selector_def
      unique_workloads_def workload_key_def GetWorkloadKey_def ExtractUniqueNamespaces_def)

lemma sample_psi: "isPSIEnabled (se_provider sample_stats_env) (se_prom sample_stats_env) = Some False"
  by (simp add: isPSIEnabled_def ExecuteQueryWithRetry_def sample_stats_env_def)

lemma sample_no_series:
  assumes "r = ''cpu'' \<or> r = ''memory''"
  shows "PredictSimpleStatsFromTimeSeriesModel rev clock (se_range sample_stats_env) [''ns''] r False = Some (Inr Map.empty)"
proof -
  have "convertMatrixToSimpleTimeSeriesData rev [] = Some []"
    by (simp add: convertMatrixToSimpleTimeSeriesData_def combineReplicasetsToDeployments_def Let_def)
  then show ?thesis using assms
    by (auto simp: PredictSimpleStatsFromTimeSeriesModel_def sample_stats_env_def fetch_cpu_matrix_def
        fetchMemoryMatrix_def)
qed

definition sample_gathered :: StatsInputs where
  "sample_gathered = \<lparr>si_oob = se_oob sample_stats_env, si_now = 0, si_containerMetrics = [''ns'' \<mapsto> Map.empty],
     si_workloadMetrics = [''ns'' \<mapsto> Map.empty], si_cpuPredictions = Map.empty, si_memoryPredictions = Map.empty,
     si_hpaCPU = unmarked sample_object_map, si_hpaMemory = unmarked sample_object_map, si_dynamicClient = False,
     si_pdbCache = [''ns'' \<mapsto> [sample_pdb]], si_podCache = [''ns'' \<mapsto> []]\<rparr>"

lemma sample_gather: "gather_inputs sample_stats_env sample_object_map False = Some (Inr sample_gathered)"
proof -
  let ?e = sample_stats_env
  have env: "se_workloads ?e = (\<lambda>_. rev)" "se_arrive ?e = rev" "se_arrive_ns ?e = rev" "se_order ?e = rev"
    "se_groups ?e = rev" "se_SkipMemory ?e = False" "se_dynamicClient ?e = False" "se_reads ?e = sample_reads"
    by (simp_all add: sample_stats_env_def)
  have "FetchPDBsForNamespaces sample_reads [''ns''] = ([''ns'' \<mapsto> [sample_pdb]], None)"
    "FetchPodsForNamespaces sample_reads [''ns''] = ([''ns'' \<mapsto> []], None)"
    by (simp_all add: FetchPDBsForNamespaces_def FetchPodsForNamespaces_def sample_reads_def)
  then show ?thesis
    by (simp add: gather_inputs_def env sample_listed(3) sample_fetch sample_no_series memory_predictions_def hpa_maps_def
        sample_gathered_def)
qed

lemma sample_encodes:
  "enc_WorkloadStat (prepareStatsFromMetrics sample_gathered ''Deployment:ns:web'' (DeploymentWrapper sample_deployment)) \<noteq> None"
proof -
  have t: "enc_time 0 = Some (JTime 0)" by code_simp
  show ?thesis
    by (simp add: prepareStatsFromMetrics_def sample_gathered_def sample_object sample_template_def Let_def
        buildBaseWorkloadStat_def with_metrics_def with_hpa_def with_gpu_def unmarked_def markWorkloadStatIncomplete_def
        Deployment_GetContainerSpecs_def Deployment_GetInitContainerSpecs_def specs_with_pod_def mergeContainers_def
        GetMatchingPodsFromPodCache_def Deployment_GetSelector_def LabelSelectorAsSelector_def wrapped_def
        getAllContainerResourcesFromContainerSpecs_def WorkloadHasGPU_def nil_map_def t GetCreationTime_def
        buildIncompleteContainerStats_def metadata_of_def empty_metadata_def appendExcludedCode_def IsIncomplete_def
        stored_ranking_def enc_WorkloadStat_def enc_WorkloadStatMetadata_def fld_def omitempty_def enc_ptr_def enc_list_def
        enc_string_def enc_bool_def enc_int_def in_width_def StatefulSetKind_def EvictionRankingHigh_def)
qed


text \<open>A run over one workload for which Prometheus has no data stores the workload as incomplete.\<close>

lemma sample_stats_run: "\<exists>db'. CreateStats_Run sample_stats_env empty_db = Some (None, db')"
proof -
  let ?e = sample_stats_env and ?w = "DeploymentWrapper sample_deployment"
  have env: "se_TargetNamespace ?e = []" "se_workloads ?e = (\<lambda>_. rev)" "se_prepared ?e = (\<lambda>_. 0)"
    "se_write_faults ?e = (\<lambda>_ _. None)"
    by (simp_all add: sample_stats_env_def)
  let ?st = "prepareStatsFromMetrics (sample_gathered\<lparr>si_now := 0\<rparr>) ''Deployment:ns:web'' ?w"
  have "?st = prepareStatsFromMetrics sample_gathered ''Deployment:ns:web'' ?w" by (simp add: sample_gathered_def)
  then have "\<exists>db'. storeStats ?e [?st] db = (None, db')" for db
    using prepared_identifier [of sample_gathered "''Deployment:ns:web''" ?w] env(4)
    by (auto simp: storeStats_def Let_def split: prod.splits option.splits)
      (metis upsert_succeeds [OF sample_encodes] fst_conv option.distinct(1))
  then show ?thesis
    by (simp add: CreateStats_Run_def env sample_listed(1,2) sample_psi sample_gather Let_def split: prod.split)
qed

lemma stats_run_stores_witness:
  "\<exists>db'. CreateStats_Run sample_stats_env empty_db = Some (None, db') \<and>
     stat_at (''c'', ''Deployment:ns:web'') db' \<noteq> None \<and> stat_at (''c'', ''Deployment:ns:api'') db' = None"
proof -
  let ?e = sample_stats_env
  obtain db' where run: "CreateStats_Run ?e empty_db = Some (None, db')" using sample_stats_run by blast
  have e: "se_ClusterID ?e = ''c''" "se_TargetNamespace ?e = []" by (simp_all add: sample_stats_env_def)
  have k: "workload_key ` set [DeploymentWrapper sample_deployment] = {''Deployment:ns:web''}"
    by (simp add: workload_key_def GetWorkloadKey_def sample_object)
  have "(\<forall>k \<in> {''Deployment:ns:web''}. \<exists>st. stat_at (''c'', k) db' = Some st) \<and>
      (\<forall>k. k \<notin> {''Deployment:ns:web''} \<longrightarrow> stat_at (''c'', k) db' = None)"
    using stats_run_stores [OF start _ _ _ _ _ _ run, of "[DeploymentWrapper sample_deployment]"] sample_listed(1) k
    unfolding e by (fastforce simp: sample_stats_env_def)
  then show ?thesis using run by auto
qed


end
