(* ===== verification/Scheduler.thy ===== *)
theory Scheduler
  imports Versions Workloads PromQueries
begin

text \<open>
  The scheduler of the tasks, \<^verbatim>\<open>pkg/cluster/scheduler.go\<close>, with the manager that registers them
  (\<^verbatim>\<open>pkg/cluster/singleclustermanager.go\<close>) and the handler that runs one by hand
  (\<^verbatim>\<open>pkg/handlers/tasktrigger.go\<close>). Every task has a goroutine with a ticker and a lock; the
  interleavings of the goroutines are the executions of a step relation whose steps are labelled
  with what happens.
\<close>

section \<open>Durations\<close>

text \<open>\<^verbatim>\<open>time.ParseDuration\<close>: a sign, then numbers with units. The errors differ only in their text.\<close>

definition digit_value :: "char \<Rightarrow> nat" where "digit_value c = of_char c - 48"

fun leadingInt :: "nat \<Rightarrow> string \<Rightarrow> (nat \<times> string) option" where
  "leadingInt x [] = Some (x, [])"
| "leadingInt x (c # s) =
     (if \<not> decimal_digit c then Some (x, c # s)
      else if x > 2 ^ 63 div 10 then None
      else if x * 10 + digit_value c > 2 ^ 63 then None
      else leadingInt (x * 10 + digit_value c) s)"

fun leadingFraction :: "nat \<Rightarrow> float64 \<Rightarrow> bool \<Rightarrow> string \<Rightarrow> nat \<times> float64 \<times> string" where
  "leadingFraction x scale overflow [] = (x, scale, [])"
| "leadingFraction x scale overflow (c # s) =
     (if \<not> decimal_digit c then (x, scale, c # s)
      else if overflow \<or> x > (2 ^ 63 - 1) div 10 \<or> x * 10 + digit_value c > 2 ^ 63
      then leadingFraction x scale True s
      else leadingFraction (x * 10 + digit_value c) (fmul scale (lit 10)) False s)"

definition unitMap :: "string \<Rightarrow> nat option" where
  "unitMap u =
     (if u = ''ns'' then Some 1
      else if u = ''us'' \<or> u = [CHR 0xC2, CHR 0xB5, CHR ''s''] \<or> u = [CHR 0xCE, CHR 0xBC, CHR ''s''] then Some 1000
      else if u = ''ms'' then Some 1000000
      else if u = ''s'' then Some (10 ^ 9)
      else if u = ''m'' then Some (60 * 10 ^ 9)
      else if u = ''h'' then Some (3600 * 10 ^ 9)
      else None)"

text \<open>The fraction of a number, if there is one, and whether it has a digit.\<close>

definition parse_fraction :: "string \<Rightarrow> nat \<times> float64 \<times> string \<times> bool" where
  "parse_fraction s =
     (case s of
        [] \<Rightarrow> (0, lit 1, s, False)
      | c # t \<Rightarrow>
          if c = CHR ''.''
          then (case leadingFraction 0 (lit 1) False t of (f, scale, r) \<Rightarrow> (f, scale, r, length t \<noteq> length r))
          else (0, lit 1, s, False))"

definition parse_number :: "string \<Rightarrow> (nat \<times> nat \<times> float64 \<times> string) option" where
  "parse_number s =
     (if s = [] \<or> hd s \<noteq> CHR ''.'' \<and> \<not> decimal_digit (hd s) then None
      else do {
        (v, s1) \<leftarrow> leadingInt 0 s;
        let pre = length s \<noteq> length s1;
        let (f, scale, s2, post) = parse_fraction s1;
        if \<not> pre \<and> \<not> post then None else Some (v, f, scale, s2) })"

definition unit_char :: "char \<Rightarrow> bool" where
  "unit_char c \<longleftrightarrow> c \<noteq> CHR ''.'' \<and> \<not> decimal_digit c"

text \<open>One number with its unit in nanoseconds, and the rest. The fraction of a unit is less than an hour, so its
  conversion to an integer is in range.\<close>

definition parse_component :: "string \<Rightarrow> (nat \<times> string) option" where
  "parse_component s = do {
     (v, f, scale, s) \<leftarrow> parse_number s;
     let u = takeWhile unit_char s;
     unit \<leftarrow> (if u = [] then None else unitMap u);
     if v > 2 ^ 63 div unit then None
     else let v = v * unit;
              v = (if f > 0
                   then v + nat (f64_trunc (val (fmul (f64_of_int (int f)) (fdiv (f64_of_int (int unit)) scale))))
                   else v)
          in if f > 0 \<and> v > 2 ^ 63 then None else Some (v, dropWhile unit_char s) }"

lemma leadingInt_length: "leadingInt x s = Some (v, t) \<Longrightarrow> length t \<le> length s"
  by (induction s arbitrary: x) (fastforce split: if_splits)+

lemma leadingFraction_length: "leadingFraction x scale ov s = (f, sc, t) \<Longrightarrow> length t \<le> length s"
  by (induction s arbitrary: x scale ov) (fastforce split: if_splits)+

lemma parse_fraction_length: "parse_fraction s = (f, scale, t, post) \<Longrightarrow> length t \<le> length s"
  by (cases s) (fastforce simp: parse_fraction_def split: if_splits prod.splits dest: leadingFraction_length)+

lemma parse_number_length:
  assumes "parse_number s = Some (v, f, scale, t)"
  shows "length t \<le> length s"
proof -
  obtain v' s1 where l: "leadingInt 0 s = Some (v', s1)"
    using assms by (cases "leadingInt 0 s") (auto simp: parse_number_def split: if_splits)
  obtain f' scale' t' post where f: "parse_fraction s1 = (f', scale', t', post)" by (metis prod_cases4)
  have "t' = t" using assms l f by (auto simp: parse_number_def Let_def split: if_splits)
  then show ?thesis using leadingInt_length [OF l] parse_fraction_length [OF f] by simp
qed

lemma parse_component_shorter:
  assumes "parse_component s = Some (v, t)"
  shows "length t < length s"
proof -
  obtain w f scale r where n: "parse_number s = Some (w, f, scale, r)" "takeWhile unit_char r \<noteq> []"
    "t = dropWhile unit_char r"
    using assms by (auto simp: parse_component_def bind_eq_Some_conv Let_def split: if_splits)
  have "length r = length (takeWhile unit_char r) + length t"
    unfolding n(3) by (metis takeWhile_dropWhile_id length_append)
  then show ?thesis using parse_number_length [OF n(1)] n(2) by (cases "takeWhile unit_char r") auto
qed

function parse_components :: "nat \<Rightarrow> string \<Rightarrow> nat option" where
  "parse_components d s =
     (if s = [] then Some d
      else case parse_component s of
        None \<Rightarrow> None
      | Some (v, rest) \<Rightarrow> if d + v > 2 ^ 63 then None else parse_components (d + v) rest)"
  by pat_completeness auto
termination
  by (relation "measure (\<lambda>(d, s). length s)") (auto dest: parse_component_shorter)

declare parse_components.simps [simp del]

definition ParseDuration :: "string \<Rightarrow> int option" where
  "ParseDuration s =
     (let (neg, s) = (case s of [] \<Rightarrow> (False, [])
            | c # t \<Rightarrow> if c = CHR ''-'' \<or> c = CHR ''+'' then (c = CHR ''-'', t) else (False, s))
      in if s = ''0'' then Some 0
         else if s = [] then None
         else case parse_components 0 s of
           None \<Rightarrow> None
         | Some d \<Rightarrow> if neg then Some (- int d) else if d > 2 ^ 63 - 1 then None else Some (int d))"


text \<open>\<^verbatim>\<open>Duration.String\<close>: below a second in the largest unit that fits, else in hours, minutes and seconds, with
  the fraction without its trailing zeros.\<close>

definition fraction_text :: "nat \<Rightarrow> nat \<Rightarrow> string" where
  "fraction_text digits n =
     (let ds = rev (dropWhile ((=) CHR ''0'') (rev (padded digits (n mod 10 ^ digits))))
      in if ds = [] then '''' else ''.'' @ ds)"

definition Duration_String :: "go_time \<Rightarrow> string" where
  "Duration_String d =
     (let u = nat \<bar>d\<bar>;
          text = (if u = 0 then ''0s''
                  else if u < 10 ^ 3 then show_nat u @ ''ns''
                  else if u < 10 ^ 6 then show_nat (u div 10 ^ 3) @ fraction_text 3 u @ [CHR 0xC2, CHR 0xB5, CHR ''s'']
                  else if u < 10 ^ 9 then show_nat (u div 10 ^ 6) @ fraction_text 6 u @ ''ms''
                  else let s = u div 10 ^ 9; m = s div 60; h = m div 60
                       in (if h > 0 then show_nat h @ ''h'' else '''') @
                          (if m > 0 then show_nat (m mod 60) @ ''m'' else '''') @
                          show_nat (s mod 60) @ fraction_text 9 u @ ''s'')
      in if d < 0 then CHR ''-'' # text else text)"

section \<open>The scheduler\<close>

text \<open>A task's goroutine is about to run it for the first time, waits in its \<^verbatim>\<open>select\<close>, runs it, or has returned.\<close>

datatype phase = Starting | Selecting | Running | Returned

text \<open>The ticker's channel holds one tick; ticks that come while one waits are dropped.\<close>

record TaskEntry =
  te_period :: int
  te_tick :: bool
  te_ticking :: bool
  te_lock :: bool
  te_phase :: phase

record SchedulerState =
  sc_tasks :: "string \<rightharpoonup> TaskEntry"
  sc_quit :: bool

definition NewScheduler :: SchedulerState where
  "NewScheduler = \<lparr>sc_tasks = Map.empty, sc_quit = False\<rparr>"

datatype schedule_error = BadSchedule string | TaskExists string

text \<open>\<^verbatim>\<open>NewTicker\<close> panics on a period that is not positive.\<close>

definition ScheduleTask ::
    "string \<Rightarrow> string \<Rightarrow> SchedulerState \<Rightarrow> (schedule_error option \<times> SchedulerState) panics" where
  "ScheduleTask name schedule s =
     (case ParseDuration schedule of
        None \<Rightarrow> Some (Some (BadSchedule name), s)
      | Some duration \<Rightarrow>
          if sc_tasks s name \<noteq> None then Some (Some (TaskExists name), s)
          else if duration \<le> 0 then None
          else Some (None, s\<lparr>sc_tasks := (sc_tasks s)(name \<mapsto>
                 \<lparr>te_period = duration, te_tick = False, te_ticking = True, te_lock = False, te_phase = Starting\<rparr>)\<rparr>))"

datatype outcome = Succeeded | FailedWith string | Panicked string

datatype event =
  EvTick string
| EvBegin string
| EvSkip string
| EvEnd string outcome
| EvReturn string
| EvStop
| EvAdd string
| EvSchedule string
| EvTrigger string
| EvTriggered string

text \<open>\<^verbatim>\<open>executeTask\<close> up to the call of the task: it takes the lock if it is free and gives up otherwise.\<close>

definition executeTask :: "string \<Rightarrow> TaskEntry \<Rightarrow> event \<times> TaskEntry" where
  "executeTask name entry =
     (if te_lock entry then (EvSkip name, entry\<lparr>te_phase := Selecting\<rparr>)
      else (EvBegin name, entry\<lparr>te_lock := True, te_phase := Running\<rparr>))"

text \<open>The deferred calls release the lock and recover from a panic, so the loop goes on whatever the outcome.\<close>

definition finishTask :: "TaskEntry \<Rightarrow> TaskEntry" where
  "finishTask entry = entry\<lparr>te_lock := False, te_phase := Selecting\<rparr>"

definition Stop :: "SchedulerState \<Rightarrow> SchedulerState" where "Stop s = s\<lparr>sc_quit := True\<rparr>"

section \<open>The manager\<close>

record Task =
  tk_Name :: string
  tk_Schedule :: string
  tk_Enabled :: bool

text \<open>\<open>ma_manual\<close> has the names of the tasks that the trigger handler is running.\<close>

record Manager =
  ma_registered :: "string \<rightharpoonup> Task"
  ma_scheduler :: SchedulerState
  ma_manual :: "string list"

definition NewManager :: Manager where
  "NewManager = \<lparr>ma_registered = Map.empty, ma_scheduler = NewScheduler, ma_manual = []\<rparr>"

definition AddTask :: "Task \<Rightarrow> Manager \<Rightarrow> Manager" where
  "AddTask task m = m\<lparr>ma_registered := (ma_registered m)(tk_Name task \<mapsto> task)\<rparr>"

definition GetTask :: "string \<Rightarrow> Manager \<Rightarrow> string + Task" where
  "GetTask taskName m =
     (case ma_registered m taskName of
        None \<Rightarrow> Inl (''task '' @ taskName @ '' not found'')
      | Some task \<Rightarrow> Inr task)"

text \<open>The list has the registered tasks in the order in which the map is ranged over.\<close>

fun schedule_loop ::
    "(string \<times> Task) list \<Rightarrow> SchedulerState \<Rightarrow> (schedule_error option \<times> SchedulerState) panics" where
  "schedule_loop [] s = Some (None, s)"
| "schedule_loop ((taskName, task) # tasks) s =
     (if tk_Enabled task
      then do {
        (err, s) \<leftarrow> ScheduleTask taskName (tk_Schedule task) s;
        if err \<noteq> None then Some (err, s) else schedule_loop tasks s }
      else schedule_loop tasks s)"

definition ScheduleAllTasks ::
    "(string \<times> Task) list \<Rightarrow> Manager \<Rightarrow> (schedule_error option \<times> Manager) panics" where
  "ScheduleAllTasks order m =
     map_option (\<lambda>(err, s). (err, m\<lparr>ma_scheduler := s\<rparr>)) (schedule_loop order (ma_scheduler m))"

definition StopScheduler :: "Manager \<Rightarrow> Manager" where
  "StopScheduler m = m\<lparr>ma_scheduler := Stop (ma_scheduler m)\<rparr>"

section \<open>The trigger handler\<close>

record TaskTriggerResponse =
  tt_Code :: nat
  tt_Status :: string
  tt_Message :: string
  tt_Error :: string
  tt_Duration :: string

text \<open>\<open>run\<close> is the error of the task's run, \<open>duration\<close> how long it took. The run does not go through the
  scheduler.\<close>

definition HandleTaskTrigger :: "string \<Rightarrow> (Task \<Rightarrow> string option) \<Rightarrow> go_time \<Rightarrow> Manager \<Rightarrow> TaskTriggerResponse" where
  "HandleTaskTrigger taskName run duration m =
     (case GetTask taskName m of
        Inl e \<Rightarrow> \<lparr>tt_Code = 404, tt_Status = ''error'', tt_Message = '''',
                   tt_Error = ''Task '' @ [CHR 0x27] @ taskName @ [CHR 0x27] @ '' not found'', tt_Duration = ''''\<rparr>
      | Inr task \<Rightarrow>
          (case run task of
             Some e \<Rightarrow> \<lparr>tt_Code = 500, tt_Status = ''error'', tt_Message = '''', tt_Error = e,
                          tt_Duration = Duration_String duration\<rparr>
           | None \<Rightarrow> \<lparr>tt_Code = 200, tt_Status = ''success'',
                        tt_Message = ''Task '' @ [CHR 0x27] @ taskName @ [CHR 0x27] @ '' completed successfully'',
                        tt_Error = '''', tt_Duration = Duration_String duration\<rparr>))"


section \<open>Executions\<close>

definition with_entry :: "string \<Rightarrow> TaskEntry \<Rightarrow> Manager \<Rightarrow> Manager" where
  "with_entry name entry m =
     m\<lparr>ma_scheduler := (ma_scheduler m)\<lparr>sc_tasks := (sc_tasks (ma_scheduler m))(name \<mapsto> entry)\<rparr>\<rparr>"

abbreviation entry_of :: "Manager \<Rightarrow> string \<Rightarrow> TaskEntry option" where
  "entry_of m name \<equiv> sc_tasks (ma_scheduler m) name"

inductive manager_step :: "Manager \<Rightarrow> event \<Rightarrow> Manager \<Rightarrow> bool" where
  add: "manager_step m (EvAdd (tk_Name task)) (AddTask task m)"
| schedule: "ma_registered m name = Some task \<Longrightarrow> tk_Enabled task \<Longrightarrow>
     ScheduleTask name (tk_Schedule task) (ma_scheduler m) = Some (err, s) \<Longrightarrow>
     manager_step m (EvSchedule name) (m\<lparr>ma_scheduler := s\<rparr>)"
| tick: "entry_of m name = Some e \<Longrightarrow> te_ticking e \<Longrightarrow>
     manager_step m (EvTick name) (with_entry name (e\<lparr>te_tick := True\<rparr>) m)"
| first: "entry_of m name = Some e \<Longrightarrow> te_phase e = Starting \<Longrightarrow> executeTask name e = (ev, e') \<Longrightarrow>
     manager_step m ev (with_entry name e' m)"
| ticked: "entry_of m name = Some e \<Longrightarrow> te_phase e = Selecting \<Longrightarrow> te_tick e \<Longrightarrow>
     executeTask name (e\<lparr>te_tick := False\<rparr>) = (ev, e') \<Longrightarrow> manager_step m ev (with_entry name e' m)"
| finish: "entry_of m name = Some e \<Longrightarrow> te_phase e = Running \<Longrightarrow>
     manager_step m (EvEnd name outcome) (with_entry name (finishTask e) m)"
| return: "entry_of m name = Some e \<Longrightarrow> te_phase e = Selecting \<Longrightarrow> sc_quit (ma_scheduler m) \<Longrightarrow>
     manager_step m (EvReturn name) (with_entry name (e\<lparr>te_ticking := False, te_phase := Returned\<rparr>) m)"
| stop: "manager_step m EvStop (StopScheduler m)"
| trigger: "GetTask name m = Inr task \<Longrightarrow>
     manager_step m (EvTrigger name) (m\<lparr>ma_manual := name # ma_manual m\<rparr>)"
| triggered: "name \<in> set (ma_manual m) \<Longrightarrow>
     manager_step m (EvTriggered name) (m\<lparr>ma_manual := remove1 name (ma_manual m)\<rparr>)"

inductive execution :: "Manager \<Rightarrow> event list \<Rightarrow> Manager \<Rightarrow> bool" where
  start: "execution m [] m"
| step: "execution m evs m' \<Longrightarrow> manager_step m' ev m'' \<Longrightarrow> execution m (evs @ [ev]) m''"

inductive_cases manager_stepE: "manager_step m ev m'"

section \<open>Lemmas\<close>

definition entry_ok :: "TaskEntry \<Rightarrow> bool" where
  "entry_ok e \<longleftrightarrow> te_period e > 0 \<and> (te_lock e \<longleftrightarrow> te_phase e = Running) \<and> (te_ticking e \<longleftrightarrow> te_phase e \<noteq> Returned)"

definition running :: "string \<Rightarrow> Manager \<Rightarrow> bool" where
  "running name m \<longleftrightarrow> (\<exists>e. entry_of m name = Some e \<and> te_phase e = Running)"

definition returned :: "string \<Rightarrow> Manager \<Rightarrow> bool" where
  "returned name m \<longleftrightarrow> (\<exists>e. entry_of m name = Some e \<and> te_phase e = Returned)"

definition begins :: "string \<Rightarrow> event list \<Rightarrow> nat" where
  "begins name evs = length (filter ((=) (EvBegin name)) evs)"

definition ends :: "string \<Rightarrow> event list \<Rightarrow> nat" where
  "ends name evs = length (filter (\<lambda>ev. \<exists>r. ev = EvEnd name r) evs)"

definition manager_ok :: "event list \<Rightarrow> Manager \<Rightarrow> bool" where
  "manager_ok evs m \<longleftrightarrow>
     (\<forall>name e. entry_of m name = Some e \<longrightarrow> entry_ok e) \<and>
     (\<forall>name. begins name evs = ends name evs + (if running name m then 1 else 0)) \<and>
     (\<forall>name. EvSkip name \<notin> set evs) \<and>
     (\<forall>name. EvReturn name \<in> set evs \<longrightarrow> returned name m) \<and>
     (sc_quit (ma_scheduler m) \<longleftrightarrow> EvStop \<in> set evs)"

lemma entry_of_with [simp]:
  "entry_of (with_entry name e m) n = (if n = name then Some e else entry_of m n)"
  "sc_quit (ma_scheduler (with_entry name e m)) = sc_quit (ma_scheduler m)"
  by (simp_all add: with_entry_def)

lemma entry_of_other [simp]:
  "entry_of (AddTask task m) n = entry_of m n" "entry_of (StopScheduler m) n = entry_of m n"
  "entry_of (m\<lparr>ma_manual := xs\<rparr>) n = entry_of m n"
  "sc_quit (ma_scheduler (AddTask task m)) = sc_quit (ma_scheduler m)"
  "sc_quit (ma_scheduler (StopScheduler m))"
  "sc_quit (ma_scheduler (m\<lparr>ma_manual := xs\<rparr>)) = sc_quit (ma_scheduler m)"
  by (simp_all add: AddTask_def StopScheduler_def Stop_def)

lemma schedule_effect:
  assumes "ScheduleTask name schedule s = Some (err, s')"
  shows "s' = s \<and> err \<noteq> None \<or> err = None \<and> sc_tasks s name = None \<and> (\<exists>d > 0. s' = s\<lparr>sc_tasks := (sc_tasks s)(name \<mapsto>
    \<lparr>te_period = d, te_tick = False, te_ticking = True, te_lock = False, te_phase = Starting\<rparr>)\<rparr>)"
  using assms by (fastforce simp: ScheduleTask_def not_le split: option.splits if_splits)

lemma execute_ok:
  assumes "entry_ok e" "te_phase e = Starting \<or> te_phase e = Selecting" "executeTask name e = (ev, e')"
  shows "ev = EvBegin name \<and> entry_ok e' \<and> te_phase e' = Running"
  using assms by (auto simp: executeTask_def entry_ok_def split: if_splits)

lemma counts [simp]:
  "begins n [] = 0" "ends n [] = 0"
  "begins n (evs @ [ev]) = begins n evs + (if ev = EvBegin n then 1 else 0)"
  "ends n (evs @ [ev]) = ends n evs + (if \<exists>r. ev = EvEnd n r then 1 else 0)"
  by (simp_all add: begins_def ends_def)


lemma running_with [simp]:
  "running n (with_entry name e m) \<longleftrightarrow> (if n = name then te_phase e = Running else running n m)"
  "returned n (with_entry name e m) \<longleftrightarrow> (if n = name then te_phase e = Returned else returned n m)"
  by (auto simp: running_def returned_def)

text \<open>A step that changes one entry.\<close>

lemma with_entry_ok:
  assumes "manager_ok evs m" "entry_of m name = Some e" "entry_ok e'"
    and "te_phase e = Returned \<Longrightarrow> te_phase e' = Returned"
    and "ev = EvBegin name \<and> te_phase e \<noteq> Running \<and> te_phase e' = Running \<or>
      (\<exists>r. ev = EvEnd name r) \<and> te_phase e = Running \<and> te_phase e' \<noteq> Running \<or>
      ev = EvTick name \<and> (te_phase e = Running \<longleftrightarrow> te_phase e' = Running) \<or>
      ev = EvReturn name \<and> te_phase e \<noteq> Running \<and> te_phase e' = Returned"
  shows "manager_ok (evs @ [ev]) (with_entry name e' m)"
proof -
  note ok = assms(1) [unfolded manager_ok_def]
  have r: "running name m \<longleftrightarrow> te_phase e = Running" "returned name m \<longleftrightarrow> te_phase e = Returned"
    using assms(2) by (auto simp: running_def returned_def)
  have b: "begins n (evs @ [ev]) = ends n (evs @ [ev]) + (if running n (with_entry name e' m) then 1 else 0)" for n
    using ok assms(5) r(1) by (auto split: if_splits)
  have "EvReturn n \<in> set (evs @ [ev]) \<longrightarrow> returned n (with_entry name e' m)" for n
    using ok assms(4,5) r(2) by auto
  moreover have "EvSkip n \<notin> set (evs @ [ev])" "EvStop \<in> set (evs @ [ev]) \<longleftrightarrow> EvStop \<in> set evs" for n
    using ok assms(5) by auto
  moreover have "\<forall>n e. entry_of (with_entry name e' m) n = Some e \<longrightarrow> entry_ok e" using ok assms(3) by auto
  ultimately show ?thesis using ok b unfolding manager_ok_def entry_of_with(2) by blast
qed

text \<open>A step that changes no entry.\<close>

lemma same_entries_ok:
  assumes "manager_ok evs m" "\<And>n. entry_of m' n = entry_of m n" "sc_quit (ma_scheduler m') = sc_quit (ma_scheduler m)"
    and "\<forall>n. ev \<noteq> EvBegin n \<and> ev \<noteq> EvSkip n \<and> ev \<noteq> EvReturn n \<and> (\<forall>r. ev \<noteq> EvEnd n r)" "ev \<noteq> EvStop"
  shows "manager_ok (evs @ [ev]) m'"
proof -
  have "running n m' = running n m" "returned n m' = returned n m" for n
    using assms(2) by (simp_all add: running_def returned_def)
  then show ?thesis using assms unfolding manager_ok_def by auto
qed

lemma manager_step_ok:
  assumes "manager_ok evs m" "manager_step m ev m'"
  shows "manager_ok (evs @ [ev]) m'"
proof -
  have entries: "entry_of m n = Some e \<Longrightarrow> entry_ok e" for n e using assms(1) by (simp add: manager_ok_def)
  from assms(2) show ?thesis
  proof (cases rule: manager_step.cases)
    case (add task)
    show ?thesis unfolding add by (rule same_entries_ok [OF assms(1)]) simp_all
  next
    case (schedule name task err s)
    show ?thesis
    proof (cases "err = None")
      case False
      then have "s = ma_scheduler m" using schedule_effect [OF schedule(5)] by blast
      then show ?thesis unfolding schedule(1,2) by (intro same_entries_ok [OF assms(1)]) simp_all
    next
      case True
      then obtain d where d: "d > 0" "entry_of m name = None" "s = (ma_scheduler m)\<lparr>sc_tasks := (sc_tasks (ma_scheduler m))(name \<mapsto>
          \<lparr>te_period = d, te_tick = False, te_ticking = True, te_lock = False, te_phase = Starting\<rparr>)\<rparr>"
        using schedule_effect [OF schedule(5)] by blast
      have "running n m' = running n m" "returned n m \<longrightarrow> returned n m'" for n
        using d(2) unfolding schedule(2) d(3) by (auto simp: running_def returned_def)
      moreover have "entry_of m' n = Some e \<Longrightarrow> entry_ok e" for n e
        using entries d(1) unfolding schedule(2) d(3) by (auto simp: entry_ok_def split: if_splits)
      moreover have "sc_quit (ma_scheduler m') = sc_quit (ma_scheduler m)" unfolding schedule(2) d(3) by simp
      ultimately show ?thesis using assms(1) unfolding manager_ok_def schedule(1) by auto
    qed
  next
    case (tick name e)
    show ?thesis unfolding tick(1,2)
      using entries [OF tick(3)] by (intro with_entry_ok [OF assms(1) tick(3)]) (auto simp: entry_ok_def)
  next
    case (first name e e')
    note x = execute_ok [OF entries [OF first(2)] _ first(4)]
    show ?thesis unfolding first(1)
      using x first(3) by (intro with_entry_ok [OF assms(1) first(2)]) auto
  next
    case (ticked name e e')
    have "entry_ok (e\<lparr>te_tick := False\<rparr>)" using entries [OF ticked(2)] by (simp add: entry_ok_def)
    note x = execute_ok [OF this _ ticked(5)]
    show ?thesis unfolding ticked(1)
      using x ticked(3) by (intro with_entry_ok [OF assms(1) ticked(2)]) auto
  next
    case (finish name e outcome)
    show ?thesis unfolding finish(1,2)
      using entries [OF finish(3)] finish(4)
      by (intro with_entry_ok [OF assms(1) finish(3)]) (auto simp: entry_ok_def finishTask_def)
  next
    case (return name e)
    show ?thesis unfolding return(1,2)
      using entries [OF return(3)] return(4)
      by (intro with_entry_ok [OF assms(1) return(3)]) (auto simp: entry_ok_def)
  next
    case stop
    have "running n m' = running n m" "returned n m' = returned n m" for n
      unfolding stop by (simp_all add: running_def returned_def)
    then show ?thesis using assms(1) unfolding manager_ok_def stop by auto
  next
    case (trigger name task)
    show ?thesis unfolding trigger(1,2) by (rule same_entries_ok [OF assms(1)]) simp_all
  next
    case (triggered name)
    show ?thesis unfolding triggered(1,2) by (rule same_entries_ok [OF assms(1)]) simp_all
  qed
qed

lemma new_manager_ok: "manager_ok [] NewManager"
  by (simp add: manager_ok_def NewManager_def NewScheduler_def running_def)

lemma execution_ok: "execution m0 evs m \<Longrightarrow> m0 = NewManager \<Longrightarrow> manager_ok evs m"
  by (induction rule: execution.induct) (auto simp: new_manager_ok intro: manager_step_ok)


text \<open>Scheduling all tasks is a sequence of scheduling steps.\<close>

lemma execution_trans: "execution m' evs' m'' \<Longrightarrow> execution m evs m' \<Longrightarrow> execution m (evs @ evs') m''"
  by (induction rule: execution.induct) (auto simp flip: append_assoc intro: execution.step)

lemma execution_one: "manager_step m ev m' \<Longrightarrow> execution m [ev] m'"
  using execution.step [OF execution.start] by force

lemma execution_cons: "manager_step m ev m' \<Longrightarrow> execution m' evs m'' \<Longrightarrow> execution m (ev # evs) m''"
  using execution_trans [OF _ execution_one] by force

lemma schedule_loop_steps:
  assumes "schedule_loop order (ma_scheduler m) = Some (err, s)" "\<forall>(n, t) \<in> set order. ma_registered m n = Some t"
  shows "\<exists>evs. execution m evs (m\<lparr>ma_scheduler := s\<rparr>) \<and> set evs \<subseteq> EvSchedule ` fst ` set order"
  using assms
proof (induction order arbitrary: m)
  case Nil
  have "m\<lparr>ma_scheduler := ma_scheduler m\<rparr> = m" by simp
  then show ?case using Nil execution.start by (intro exI [of _ "[]"]) auto
next
  case (Cons x order)
  obtain n t where x: "x = (n, t)" by fastforce
  have reg: "ma_registered m n = Some t" "\<forall>(n, t) \<in> set order. ma_registered m n = Some t" using Cons.prems(2) x by auto
  show ?case
  proof (cases "tk_Enabled t")
    case False
    then have "schedule_loop order (ma_scheduler m) = Some (err, s)" using Cons.prems(1) x by simp
    from Cons.IH [OF this reg(2)] show ?thesis using x by auto
  next
    case True
    obtain e s1 where st: "ScheduleTask n (tk_Schedule t) (ma_scheduler m) = Some (e, s1)"
      and rest: "(if e \<noteq> None then Some (e, s1) else schedule_loop order s1) = Some (err, s)"
      using Cons.prems(1) True x by (auto simp: bind_eq_Some_conv)
    let ?m = "m\<lparr>ma_scheduler := s1\<rparr>"
    have one: "manager_step m (EvSchedule n) ?m" by (rule manager_step.schedule [OF reg(1) True st])
    show ?thesis
    proof (cases "e = None")
      case False
      then have "s1 = s" using rest by simp
      then have "execution m [EvSchedule n] (m\<lparr>ma_scheduler := s\<rparr>)" using execution_one [OF one] by simp
      then show ?thesis using x by (intro exI [of _ "[EvSchedule n]"]) simp
    next
      case True
      have l: "schedule_loop order (ma_scheduler ?m) = Some (err, s)" "\<forall>(n, t) \<in> set order. ma_registered ?m n = Some t"
        using rest True reg(2) by simp_all
      obtain evs where evs: "execution ?m evs (?m\<lparr>ma_scheduler := s\<rparr>)" "set evs \<subseteq> EvSchedule ` fst ` set order"
        using Cons.IH [OF l] by blast
      have "execution m (EvSchedule n # evs) (m\<lparr>ma_scheduler := s\<rparr>)" using execution_cons [OF one evs(1)] by simp
      moreover have "set (EvSchedule n # evs) \<subseteq> EvSchedule ` fst ` set (x # order)" using evs(2) x by auto
      ultimately show ?thesis by blast
    qed
  qed
qed

lemma schedule_all_steps:
  assumes "ScheduleAllTasks order m = Some (err, m')" "map_of order = ma_registered m" "distinct (map fst order)"
  shows "\<exists>evs. execution m evs m' \<and> set evs \<subseteq> EvSchedule ` fst ` set order"
proof -
  obtain s where "schedule_loop order (ma_scheduler m) = Some (err, s)" "m' = m\<lparr>ma_scheduler := s\<rparr>"
    using assms(1) by (auto simp: ScheduleAllTasks_def)
  moreover have "\<forall>(n, t) \<in> set order. ma_registered m n = Some t" using assms(2,3) by (auto simp flip: assms(2))
  ultimately show ?thesis using schedule_loop_steps by blast
qed

text \<open>A task that ends, however it ends, leaves its lock free.\<close>

lemma stop_returns:
  assumes "manager_ok evs m" "EvStop \<in> set evs" "entry_of m n = Some e"
  shows "\<exists>evs' m'. length evs' \<le> 3 \<and> execution m evs' m' \<and> returned n m'"
proof -
  have q: "sc_quit (ma_scheduler m)" and ok: "entry_ok e" using assms by (auto simp: manager_ok_def)
  have sel: "\<exists>m'. execution m1 [EvReturn n] m' \<and> returned n m'"
    if "sc_quit (ma_scheduler m1)" "entry_of m1 n = Some e1" "te_phase e1 = Selecting" for m1 e1
    using manager_step.return [OF that(2,3,1)] execution_one by (fastforce simp: returned_def)
  have run: "\<exists>m'. execution m1 [EvEnd n Succeeded, EvReturn n] m' \<and> returned n m'"
    if r: "sc_quit (ma_scheduler m1)" "entry_of m1 n = Some e1" "te_phase e1 = Running" for m1 e1
  proof -
    let ?m = "with_entry n (finishTask e1) m1"
    obtain m' where "execution ?m [EvReturn n] m'" "returned n m'"
      using sel [of ?m "finishTask e1"] r(1) by (auto simp: finishTask_def)
    then show ?thesis using execution_cons [OF manager_step.finish [OF r(2,3)]] by blast
  qed
  show ?thesis
  proof (cases "te_phase e")
    case Starting
    let ?e = "e\<lparr>te_lock := True, te_phase := Running\<rparr>"
    let ?m = "with_entry n ?e m"
    have x: "executeTask n e = (EvBegin n, ?e)" using ok Starting by (simp add: executeTask_def entry_ok_def)
    obtain m' where m': "execution ?m [EvEnd n Succeeded, EvReturn n] m'" "returned n m'"
      using run [of ?m ?e] q by auto
    have "execution m [EvBegin n, EvEnd n Succeeded, EvReturn n] m'"
      by (rule execution_cons [OF manager_step.first [OF assms(3) Starting x] m'(1)])
    then show ?thesis using m'(2) by (intro exI [of _ "[EvBegin n, EvEnd n Succeeded, EvReturn n]"] exI [of _ m']) simp
  next
    case Selecting
    then obtain m' where "execution m [EvReturn n] m'" "returned n m'" using sel [OF q assms(3)] by blast
    then show ?thesis by (intro exI [of _ "[EvReturn n]"] exI [of _ m']) simp
  next
    case Running
    then obtain m' where "execution m [EvEnd n Succeeded, EvReturn n] m'" "returned n m'" using run [OF q assms(3)] by blast
    then show ?thesis by (intro exI [of _ "[EvEnd n Succeeded, EvReturn n]"] exI [of _ m']) simp
  next
    case Returned
    then show ?thesis using assms(3) execution.start by (intro exI [of _ "[]"] exI [of _ m]) (auto simp: returned_def)
  qed
qed

text \<open>A goroutine returns by itself only, after a stop.\<close>

lemma step_returned:
  assumes "manager_step m ev m'" "returned n m'"
  shows "returned n m \<or> ev = EvReturn n \<and> sc_quit (ma_scheduler m)"
  using assms
proof (cases rule: manager_step.cases)
  case (schedule name task err s)
  then show ?thesis using assms(2) schedule_effect [OF schedule(5)]
    by (auto simp: returned_def split: if_splits)
qed (use assms(2) in \<open>auto simp: returned_def executeTask_def finishTask_def split: if_splits\<close>)

lemma returned_after_stop:
  "execution m0 evs m \<Longrightarrow> m0 = NewManager \<Longrightarrow> returned n m \<Longrightarrow> EvReturn n \<in> set evs \<and> EvStop \<in> set evs"
proof (induction rule: execution.induct)
  case (start m)
  then show ?case by (simp add: returned_def NewManager_def NewScheduler_def)
next
  case (step m evs m' ev m'')
  have "manager_ok evs m'" using execution_ok step.hyps(1) step.prems(1) by blast
  then have "sc_quit (ma_scheduler m') \<longrightarrow> EvStop \<in> set evs" by (simp add: manager_ok_def)
  then show ?case using step_returned [OF step.hyps(2) step.prems(2)] step by auto
qed

text \<open>After a run the task can run again at the next tick, however the run ended.\<close>

lemma runs_again:
  assumes "manager_ok evs m" "manager_step m (EvEnd n r) m'"
  shows "\<exists>m''. execution m' [EvTick n, EvBegin n] m'' \<and> running n m''"
proof -
  obtain e where e: "entry_of m n = Some e" "te_phase e = Running" "m' = with_entry n (finishTask e) m"
    using assms(2) by (auto elim!: manager_stepE simp: executeTask_def split: if_splits)
  have "entry_ok e" using assms(1) e(1) by (simp add: manager_ok_def)
  then have t: "te_ticking (finishTask e)" using e(2) by (simp add: entry_ok_def finishTask_def)
  let ?e1 = "(finishTask e)\<lparr>te_tick := True\<rparr>"
  let ?e2 = "?e1\<lparr>te_tick := False, te_lock := True, te_phase := Running\<rparr>"
  let ?m1 = "with_entry n ?e1 m'"
  have s1: "manager_step m' (EvTick n) ?m1" by (rule manager_step.tick) (simp_all add: e(3) t)
  have s2: "manager_step ?m1 (EvBegin n) (with_entry n ?e2 ?m1)"
    by (rule manager_step.ticked [of _ _ ?e1]) (simp_all add: finishTask_def executeTask_def)
  show ?thesis
    by (intro exI [of _ "with_entry n ?e2 ?m1"] conjI execution_cons [OF s1 execution_one [OF s2]]) simp
qed

section \<open>Properties\<close>

text \<open>C29. In every execution of the scheduler the runs of one task do not overlap: each begins after the one before has
  ended, so the branch that skips a task because it is already running is never taken. A run that
  fails or panics does not stop its task: whatever the outcome with which a run ends, at the next
  tick the task can run again. A task's goroutine returns only once the scheduler was stopped;
  then it stays returned and the task is never run again. After a stop it can return within three
  steps.\<close>

theorem scheduled_runs_disjoint:
  assumes "execution NewManager evs m"
  shows "begins n evs = ends n evs + (if running n m then 1 else 0) \<and> EvSkip n \<notin> set evs \<and>
    (\<forall>outcome m'. manager_step m (EvEnd n outcome) m' \<longrightarrow>
       (\<exists>m''. execution m' [EvTick n, EvBegin n] m'' \<and> running n m'')) \<and>
    (returned n m \<longleftrightarrow> EvReturn n \<in> set evs) \<and> (EvReturn n \<in> set evs \<longrightarrow> EvStop \<in> set evs) \<and>
    (EvStop \<in> set evs \<longrightarrow> entry_of m n \<noteq> None \<longrightarrow>
       (\<exists>evs' m'. length evs' \<le> 3 \<and> execution m evs' m' \<and> returned n m'))"
proof -
  have ok: "manager_ok evs m" by (rule execution_ok [OF assms refl])
  have "returned n m \<Longrightarrow> EvReturn n \<in> set evs \<and> EvStop \<in> set evs"
    using returned_after_stop [OF assms refl] .
  then show ?thesis using ok stop_returns [OF ok] runs_again [OF ok] unfolding manager_ok_def by blast
qed

definition sample_task :: Task where
  "sample_task = \<lparr>tk_Name = ''stats'', tk_Schedule = ''1h'', tk_Enabled = True\<rparr>"

definition sample_entry :: TaskEntry where
  "sample_entry = \<lparr>te_period = 3600000000000, te_tick = False, te_ticking = True, te_lock = False, te_phase = Starting\<rparr>"

lemma sample_duration: "ParseDuration ''1h'' = Some 3600000000000"
  by (simp add: ParseDuration_def parse_components.simps parse_component_def parse_number_def parse_fraction_def
      decimal_digit_def digit_value_def unit_char_def unitMap_def)

lemma sample_scheduled:
  "\<exists>m. execution NewManager [EvAdd ''stats'', EvSchedule ''stats'', EvBegin ''stats''] m \<and> running ''stats'' m \<and>
     GetTask ''stats'' m = Inr sample_task"
proof -
  let ?m1 = "AddTask sample_task NewManager"
  let ?m2 = "with_entry ''stats'' sample_entry ?m1"
  let ?m3 = "with_entry ''stats'' (sample_entry\<lparr>te_lock := True, te_phase := Running\<rparr>) ?m2"
  have a: "manager_step NewManager (EvAdd ''stats'') ?m1"
    using manager_step.add [of NewManager sample_task] by (simp add: sample_task_def)
  have b: "manager_step ?m1 (EvSchedule ''stats'') ?m2"
    using manager_step.schedule [of ?m1 "''stats''" sample_task None "ma_scheduler ?m2"]
    by (simp add: ScheduleTask_def sample_task_def sample_duration AddTask_def NewManager_def NewScheduler_def with_entry_def
        sample_entry_def)
  have c: "manager_step ?m2 (EvBegin ''stats'') ?m3"
    using manager_step.first [of ?m2 "''stats''" sample_entry] by (simp add: sample_entry_def executeTask_def)
  have "execution NewManager [EvAdd ''stats'', EvSchedule ''stats'', EvBegin ''stats''] ?m3"
    by (rule execution_cons [OF a execution_cons [OF b execution_one [OF c]]])
  moreover have "running ''stats'' ?m3" by simp
  moreover have "GetTask ''stats'' ?m3 = Inr sample_task"
    by (simp add: GetTask_def with_entry_def AddTask_def NewManager_def sample_task_def)
  ultimately show ?thesis by blast
qed

lemma scheduled_runs_disjoint_witness:
  "\<exists>m. execution NewManager [EvAdd ''stats'', EvSchedule ''stats'', EvBegin ''stats''] m \<and> running ''stats'' m \<and>
     begins ''stats'' [EvAdd ''stats'', EvSchedule ''stats'', EvBegin ''stats''] = 1"
proof -
  obtain m where m: "execution NewManager [EvAdd ''stats'', EvSchedule ''stats'', EvBegin ''stats''] m" "running ''stats'' m"
    using sample_scheduled by blast
  have "ends ''stats'' [EvAdd ''stats'', EvSchedule ''stats'', EvBegin ''stats''] = 0" by (simp add: ends_def)
  then show ?thesis using scheduled_runs_disjoint [OF m(1), of "''stats''"] m by auto
qed

text \<open>A task may be triggered by hand while its scheduled run is going on: the handler does not take the lock.\<close>

lemma manual_run_overlaps:
  "\<exists>evs m. execution NewManager evs m \<and> running ''stats'' m \<and> ''stats'' \<in> set (ma_manual m)"
proof -
  obtain m where m: "execution NewManager [EvAdd ''stats'', EvSchedule ''stats'', EvBegin ''stats''] m" "running ''stats'' m"
    "GetTask ''stats'' m = Inr sample_task" using sample_scheduled by blast
  from execution.step [OF m(1) manager_step.trigger [OF m(3)]] m(2) show ?thesis
    by (fastforce simp: running_def)
qed

end
