(* ===== verification/Handlers.thy ===== *)
theory Handlers
  imports StorageSpec Versions
begin

text \<open>
  The handlers of the API over the store: overrides (\<^verbatim>\<open>pkg/handlers/overrides.go\<close>), settings
  (\<^verbatim>\<open>settings.go\<close>) and audit events (\<^verbatim>\<open>audit.go\<close>). A handler answers a request with a status and an
  error, or with status 200 and a body. What the JSON decoder makes of the request's body is an
  argument.
\<close>

section \<open>Responses\<close>

type_synonym 'a response = "(nat \<times> string) + 'a"

section \<open>Overrides\<close>

record OverridesUpdated =
  ou_ClusterID :: string
  ou_WorkloadID :: string
  ou_Overrides :: "Overrides option"

definition UpdateWorkloadOverridesHandler ::
    "go_time \<Rightarrow> faults \<Rightarrow> faults \<Rightarrow> string \<Rightarrow> string \<Rightarrow> string + Overrides option \<Rightarrow> Database
     \<Rightarrow> OverridesUpdated response \<times> Database" where
  "UpdateWorkloadOverridesHandler now fault_has fault clusterID workloadID body db =
     (case body of
        Inl e \<Rightarrow> (Inl (400, ''Invalid request body: '' @ e), db)
      | Inr overrides \<Rightarrow>
          (case UpdateWorkloadOverrides now fault_has fault clusterID workloadID overrides db of
             (Some e, db) \<Rightarrow>
               (if Contains (store_message e) ''workload not found''
                then Inl (404, ''Workload not found'')
                else Inl (500, ''Failed to update workload overrides''), db)
           | (None, db) \<Rightarrow>
               (Inr \<lparr>ou_ClusterID = clusterID, ou_WorkloadID = workloadID, ou_Overrides = overrides\<rparr>, db)))"

record batchOverridesRequest =
  bq_WorkloadIDs :: "string list"
  bq_Overrides :: "Overrides option"

record batchOverridesResponse =
  br_ClusterID :: string
  br_Updated :: "string list"
  br_NotFound :: "string list"

definition BatchUpdateWorkloadOverridesHandler ::
    "go_time \<Rightarrow> faults \<Rightarrow> string \<Rightarrow> string + batchOverridesRequest \<Rightarrow> Database
     \<Rightarrow> batchOverridesResponse response \<times> Database" where
  "BatchUpdateWorkloadOverridesHandler now fault clusterID body db =
     (case body of
        Inl e \<Rightarrow> (Inl (400, ''Invalid request body: '' @ e), db)
      | Inr req \<Rightarrow>
          if length (bq_WorkloadIDs req) = 0 then (Inl (400, ''workload_ids must not be empty''), db)
          else if bq_Overrides req = None then (Inl (400, ''overrides must not be null''), db)
          else (case BatchUpdateWorkloadOverrides now fault clusterID (bq_WorkloadIDs req) (bq_Overrides req) db of
             (Inl e, db) \<Rightarrow> (Inl (500, ''Failed to batch update workload overrides''), db)
           | (Inr (updated, notFound), db) \<Rightarrow>
               (Inr \<lparr>br_ClusterID = clusterID, br_Updated = updated, br_NotFound = notFound\<rparr>, db)))"

section \<open>Settings\<close>

definition defaultCPUPricePerCorePerHour :: float64 where
  "defaultCPUPricePerCorePerHour = lit (145 / 10000)"

definition defaultMemoryPricePerGBPerHour :: float64 where
  "defaultMemoryPricePerGBPerHour = lit (724 / 100000)"

definition GetSettingsHandler :: "faults \<Rightarrow> string \<Rightarrow> Database \<Rightarrow> ClusterSettings response" where
  "GetSettingsHandler fault clusterID db =
     (case GetSettings fault clusterID db of
        Inl (ErrSettingsNotFound m) \<Rightarrow>
          Inr \<lparr>cl_CPUPricePerCorePerHour = defaultCPUPricePerCorePerHour,
               cl_MemoryPricePerGBPerHour = defaultMemoryPricePerGBPerHour\<rparr>
      | Inl e \<Rightarrow> Inl (500, store_message e)
      | Inr settings \<Rightarrow> Inr settings)"

definition UpdateSettingsHandler ::
    "go_time \<Rightarrow> faults \<Rightarrow> string \<Rightarrow> string + ClusterSettings \<Rightarrow> Database
     \<Rightarrow> ClusterSettings response \<times> Database" where
  "UpdateSettingsHandler now fault clusterID body db =
     (case body of
        Inl e \<Rightarrow> (Inl (400, e), db)
      | Inr settings \<Rightarrow>
          (case UpdateSettings now fault clusterID (Some settings) db of
             (Some e, db) \<Rightarrow> (Inl (500, store_message e), db)
           | (None, db) \<Rightarrow> (Inr settings, db)))"

section \<open>Audit events\<close>

definition defaultAuditMinutes :: int where "defaultAuditMinutes = 60"
definition maxAuditMinutes :: int where "maxAuditMinutes = 43200"

datatype minutes_error = NotAnInteger string | TooFew int | TooMany int

text \<open>The text of the error quotes the parameter; \<open>quote\<close> is the verb \<^verbatim>\<open>%q\<close>.\<close>

fun minutes_text :: "(string \<Rightarrow> string) \<Rightarrow> minutes_error \<Rightarrow> string" where
  "minutes_text quote (NotAnInteger s) = ''minutes must be a valid integer, got '' @ quote s"
| "minutes_text quote (TooFew m) = ''minutes must be at least 1, got '' @ show_int m"
| "minutes_text quote (TooMany m) = ''minutes must be at most '' @ show_int maxAuditMinutes @ '', got '' @ show_int m"

text \<open>A parameter that is not given is \<open>None\<close>.\<close>

definition parseMinutesParam :: "string option \<Rightarrow> minutes_error + int" where
  "parseMinutesParam param =
     (let s = (case param of None \<Rightarrow> show_int defaultAuditMinutes | Some s \<Rightarrow> s)
      in case Atoi s of
           None \<Rightarrow> Inl (NotAnInteger s)
         | Some m \<Rightarrow> if m < 1 then Inl (TooFew m) else if m > maxAuditMinutes then Inl (TooMany m) else Inr m)"

text \<open>A server without a store has \<open>None\<close>.\<close>

definition GetAuditEventsHandler ::
    "(string \<Rightarrow> string) \<Rightarrow> audit_sorter \<Rightarrow> go_time \<Rightarrow> faults \<Rightarrow> string \<Rightarrow> string option \<Rightarrow> Database option
     \<Rightarrow> AuditEventRow list response" where
  "GetAuditEventsHandler quote srt now fault clusterID param db =
     (case parseMinutesParam param of
        Inl e \<Rightarrow> Inl (400, minutes_text quote e)
      | Inr minutes \<Rightarrow>
          (case db of
             None \<Rightarrow> Inl (500, ''storage not available'')
           | Some db \<Rightarrow>
               (case LoadAuditEvents srt fault clusterID (now - minutes * Minute) db of
                  Inl e \<Rightarrow> Inl (500, store_message e)
                | Inr events \<Rightarrow> Inr events)))"

definition GetAuditEventsForWorkloadHandler ::
    "(string \<Rightarrow> string) \<Rightarrow> (json \<Rightarrow> string option) \<Rightarrow> audit_sorter \<Rightarrow> go_time \<Rightarrow> faults \<Rightarrow> string \<Rightarrow> string
     \<Rightarrow> string option \<Rightarrow> Database option \<Rightarrow> AuditEventRow list response" where
  "GetAuditEventsForWorkloadHandler quote as_text srt now fault clusterID workloadID param db =
     (case parseMinutesParam param of
        Inl e \<Rightarrow> Inl (400, minutes_text quote e)
      | Inr minutes \<Rightarrow>
          (case db of
             None \<Rightarrow> Inl (500, ''storage not available'')
           | Some db \<Rightarrow>
               (case LoadAuditEventsForWorkload as_text srt fault clusterID workloadID (now - minutes * Minute) db of
                  Inl e \<Rightarrow> Inl (500, store_message e)
                | Inr events \<Rightarrow> Inr events)))"

section \<open>What an update of overrides does\<close>

lemma UpdateStatOverrides_cases:
  assumes "UpdateStatOverridesForWorkload now f c w ov db = (r, db')"
  shows "r \<noteq> None \<and> db' = db \<or>
    (\<exists>j. r = None \<and> enc_ptr enc_Overrides ov = Some j \<and> db' = set_overrides j now (where_ids c w) db)"
  using assms by (auto simp: UpdateStatOverridesForWorkload_def split: option.splits if_splits)

lemma where_ids_full: "c \<noteq> '''' \<Longrightarrow> w \<noteq> '''' \<Longrightarrow> where_ids c w r \<longleftrightarrow> row_key r = (c, w)"
  by (auto simp: where_ids_def row_key_def)

lemma overrides_set_at:
  assumes "\<And>r. row_key r = (c, w) \<Longrightarrow> P r" "workload_at db c w \<noteq> None"
  shows "overrides_at (set_overrides j now P db) c w = Some (Some j)"
proof -
  let ?f = "\<lambda>r. if P r then r\<lparr>wr_Overrides := Some j, wr_UpdatedAt := now\<rparr> else r"
  obtain r where r: "find (\<lambda>r. row_key r = (c, w)) (db_workloads db) = Some r"
    using assms(2) by (auto simp: workload_at_def)
  have "find (\<lambda>r. row_key r = (c, w)) (map ?f (db_workloads db)) = map_option ?f (Some r)"
    unfolding r [symmetric] by (rule find_map) (auto simp: row_key_def)
  moreover have "P r" using r assms(1) by (auto dest: find_in)
  ultimately show ?thesis by (simp add: overrides_at_def workload_at_def set_overrides_def)
qed

lemma batch_cases:
  assumes "BatchUpdateStatOverridesForWorkloads now f c ids ov db = (r, db')" "ids \<noteq> []"
  shows "(\<exists>e. r = Inl e) \<and> db' = db \<or>
    (\<exists>j found. r = Inr found \<and> enc_ptr enc_Overrides ov = Some j \<and>
       found = map wr_WorkloadID (filter (\<lambda>r. wr_ClusterID r = c \<and> wr_WorkloadID r \<in> set ids) (db_workloads db)) \<and>
       db' = (if found = [] then db
              else set_overrides j now (\<lambda>r. wr_ClusterID r = c \<and> wr_WorkloadID r \<in> set found) db))"
  using assms by (auto simp: BatchUpdateStatOverridesForWorkloads_def Let_def split: option.splits if_splits)

lemma found_at:
  "w \<in> set (map wr_WorkloadID (filter (\<lambda>r. wr_ClusterID r = c \<and> wr_WorkloadID r \<in> set ids) (db_workloads db))) \<longleftrightarrow>
     w \<in> set ids \<and> workload_at db c w \<noteq> None"
proof -
  have "workload_at db c w \<noteq> None \<longleftrightarrow> (\<exists>r \<in> set (db_workloads db). row_key r = (c, w))"
    by (auto simp: workload_at_def find_None_iff)
  then show ?thesis by (auto simp: row_key_def)
qed

text \<open>C32. A batch update either fails and changes nothing, or it divides the named workloads into those of the cluster, whose
  overrides are now the given ones, and those the cluster does not have; the overrides of all other
  workloads stay as they are.\<close>

theorem batch_overrides_effect:
  assumes "db_ok db" "BatchUpdateWorkloadOverridesHandler now fault c (Inr req) db = (answer, db')"
  shows "case answer of
      Inl (code, _) \<Rightarrow> db' = db \<and> (code = 400 \<longleftrightarrow> bq_WorkloadIDs req = [] \<or> bq_Overrides req = None)
    | Inr resp \<Rightarrow> \<exists>j. enc_ptr enc_Overrides (bq_Overrides req) = Some j \<and> distinct (br_Updated resp) \<and>
        set (br_Updated resp) = {w \<in> set (bq_WorkloadIDs req). workload_at db c w \<noteq> None} \<and>
        br_NotFound resp = filter (\<lambda>w. workload_at db c w = None) (bq_WorkloadIDs req) \<and>
        (\<forall>c' w. overrides_at db' c' w =
           (if c' = c \<and> w \<in> set (br_Updated resp) then Some (Some j) else overrides_at db c' w))"
proof (cases "bq_WorkloadIDs req = [] \<or> bq_Overrides req = None")
  case True
  then show ?thesis using assms(2) by (auto simp: BatchUpdateWorkloadOverridesHandler_def split: if_splits)
next
  case False
  let ?ids = "bq_WorkloadIDs req" and ?ov = "bq_Overrides req"
  obtain r db1 where b: "BatchUpdateStatOverridesForWorkloads now fault c ?ids ?ov db = (r, db1)" by fastforce
  consider (failed) e where "r = Inl e" "db1 = db"
    | (found) j found where "r = Inr found" "enc_ptr enc_Overrides ?ov = Some j"
      "found = map wr_WorkloadID (filter (\<lambda>r. wr_ClusterID r = c \<and> wr_WorkloadID r \<in> set ?ids) (db_workloads db))"
      "db1 = (if found = [] then db else set_overrides j now (\<lambda>r. wr_ClusterID r = c \<and> wr_WorkloadID r \<in> set found) db)"
    using batch_cases [OF b] False by blast
  then show ?thesis
  proof cases
    case failed
    then show ?thesis using assms(2) b False
      by (auto simp: BatchUpdateWorkloadOverridesHandler_def BatchUpdateWorkloadOverrides_def)
  next
    case found
    have answer: "answer = Inr \<lparr>br_ClusterID = c, br_Updated = found, br_NotFound = filter (\<lambda>i. i \<notin> set found) ?ids\<rparr>"
        "db' = db1"
      using assms(2) b False found(1)
      by (auto simp: BatchUpdateWorkloadOverridesHandler_def BatchUpdateWorkloadOverrides_def)
    have at: "w \<in> set found \<longleftrightarrow> w \<in> set ?ids \<and> workload_at db c w \<noteq> None" for w
      unfolding found(3) by (rule found_at)
    have "distinct found"
    proof -
      have "inj_on wr_WorkloadID {r \<in> set (db_workloads db). wr_ClusterID r = c}"
        using assms(1) by (auto simp: db_ok_def distinct_map inj_on_def row_key_def)
      moreover have "distinct (db_workloads db)" using assms(1) by (auto simp: db_ok_def distinct_map)
      ultimately show ?thesis unfolding found(3) distinct_map by (auto intro: inj_on_subset)
    qed
    moreover have "overrides_at db1 c' w = (if c' = c \<and> w \<in> set found then Some (Some j) else overrides_at db c' w)" for c' w
    proof (cases "c' = c \<and> w \<in> set found")
      case True
      then have "overrides_at (set_overrides j now (\<lambda>r. wr_ClusterID r = c \<and> wr_WorkloadID r \<in> set found) db) c w = Some (Some j)"
        using at by (intro overrides_set_at) (auto simp: row_key_def)
      then show ?thesis using True found(4) by auto
    next
      case False
      then have "overrides_at (set_overrides j now (\<lambda>r. wr_ClusterID r = c \<and> wr_WorkloadID r \<in> set found) db) c' w =
          overrides_at db c' w"
        by (intro overrides_set) (auto simp: row_key_def)
      then show ?thesis using False found(4) by auto
    qed
    moreover have "filter (\<lambda>i. i \<notin> set found) ?ids = filter (\<lambda>w. workload_at db c w = None) ?ids"
      by (rule filter_cong) (auto simp: at)
    ultimately show ?thesis using answer found(2) at by auto
  qed
qed

lemma batch_overrides_effect_witness:
  "\<exists>db' j. overrides_at db' ''c'' ''w'' = Some (Some j) \<and>
     (\<exists>resp. BatchUpdateWorkloadOverridesHandler 5 (\<lambda>_. None) ''c''
        (Inr \<lparr>bq_WorkloadIDs = [''x'', ''w''], bq_Overrides = Some zero_Overrides\<rparr>) sample_db = (Inr resp, db') \<and>
        br_NotFound resp = [''x''])"
proof -
  have ok: "db_ok sample_db"
    by (simp add: db_ok_def sample_db_def sample_row_def new_row_def empty_db_def row_key_def)
  obtain j where j: "enc_ptr enc_Overrides (Some zero_Overrides) = Some j"
    by (simp add: enc_Overrides_def zero_Overrides_def fld_def omitempty_def enc_ptr_def)
  obtain resp db' where run: "BatchUpdateWorkloadOverridesHandler 5 (\<lambda>_. None) ''c''
      (Inr \<lparr>bq_WorkloadIDs = [''x'', ''w''], bq_Overrides = Some zero_Overrides\<rparr>) sample_db = (Inr resp, db')"
    by (simp add: BatchUpdateWorkloadOverridesHandler_def BatchUpdateWorkloadOverrides_def
        BatchUpdateStatOverridesForWorkloads_def j sample_db_def sample_row_def new_row_def)
  have w: "workload_at sample_db ''c'' ''w'' \<noteq> None" "workload_at sample_db ''c'' ''x'' = None"
    by (simp_all add: workload_at_def sample_db_def sample_row_def new_row_def row_key_def)
  have "\<exists>j. set (br_Updated resp) = {w \<in> set [''x'', ''w'']. workload_at sample_db ''c'' w \<noteq> None} \<and>
      br_NotFound resp = filter (\<lambda>w. workload_at sample_db ''c'' w = None) [''x'', ''w''] \<and>
      (\<forall>c' w. overrides_at db' c' w =
         (if c' = ''c'' \<and> w \<in> set (br_Updated resp) then Some (Some j) else overrides_at sample_db c' w))"
    using batch_overrides_effect [OF ok run] unfolding sum.case batchOverridesRequest.simps by blast
  then obtain k where k: "set (br_Updated resp) = {w \<in> set [''x'', ''w'']. workload_at sample_db ''c'' w \<noteq> None}"
      "br_NotFound resp = filter (\<lambda>w. workload_at sample_db ''c'' w = None) [''x'', ''w'']"
      "\<forall>c' w. overrides_at db' c' w =
         (if c' = ''c'' \<and> w \<in> set (br_Updated resp) then Some (Some k) else overrides_at sample_db c' w)" by blast
  have "''w'' \<in> set (br_Updated resp)" using w k(1) by simp
  then have "overrides_at db' ''c'' ''w'' = Some (Some k)" using k(3) by simp
  moreover have "br_NotFound resp = [''x'']" using w k(2) by simp
  ultimately show ?thesis using run by blast
qed


end
