(* ===== verification/Dashboard.thy ===== *)
theory Dashboard
  imports Handlers ApplyRun GoTime
begin

text \<open>
  The pages of the dashboard: the list of workloads with their recommendations and costs
  (\<^verbatim>\<open>pkg/handlers/workloadsummary.go\<close>), the overview of a cluster (\<^verbatim>\<open>overview.go\<close>) and the history of
  its snapshots (\<^verbatim>\<open>snapshot.go\<close>). They read the store and, for the list, Prometheus; \<open>prom\<close> is
  \<open>None\<close> when there is no client for it.
\<close>

section \<open>Prices and resources of a cluster\<close>

definition defaultHoursPerMonth :: float64 where "defaultHoursPerMonth = lit 720"

record workloadPricing =
  wp_CPUPerCorePerHour :: float64
  wp_MemPerGBPerHour :: float64

definition getEffectivePricing :: "faults \<Rightarrow> string \<Rightarrow> Database option \<Rightarrow> workloadPricing" where
  "getEffectivePricing fault clusterID storage =
     (let p = \<lparr>wp_CPUPerCorePerHour = defaultCPUPricePerCorePerHour,
               wp_MemPerGBPerHour = defaultMemoryPricePerGBPerHour\<rparr>
      in case storage of
           None \<Rightarrow> p
         | Some db \<Rightarrow>
             (case GetSettings fault clusterID db of
                Inl e \<Rightarrow> p
              | Inr settings \<Rightarrow>
                  let p = (if flt (lit 0) (cl_CPUPricePerCorePerHour settings)
                           then p\<lparr>wp_CPUPerCorePerHour := cl_CPUPricePerCorePerHour settings\<rparr> else p)
                  in if flt (lit 0) (cl_MemoryPricePerGBPerHour settings)
                     then p\<lparr>wp_MemPerGBPerHour := cl_MemoryPricePerGBPerHour settings\<rparr> else p))"

record ClusterResourceDTO =
  cr_Utilised :: float64
  cr_Requested :: float64
  cr_Allocatable :: float64

record ClusterResourcesDTO =
  cr_CPU :: ClusterResourceDTO
  cr_Memory :: ClusterResourceDTO

definition no_resources :: ClusterResourcesDTO where
  "no_resources =
     (let zero = \<lparr>cr_Utilised = lit 0, cr_Requested = lit 0, cr_Allocatable = lit 0\<rparr>
      in \<lparr>cr_CPU = zero, cr_Memory = zero\<rparr>)"

definition getClusterResourcesFromPrometheus ::
    "(string \<Rightarrow> string + prom_value) option \<Rightarrow> ClusterResourcesDTO" where
  "getClusterResourcesFromPrometheus prom =
     (case prom of
        None \<Rightarrow> no_resources
      | Some _ \<Rightarrow>
          \<lparr>cr_CPU = \<lparr>cr_Utilised = QueryAndParsePrometheusScalar prom BuildClusterCPUUtilizationExpression,
                     cr_Requested = QueryAndParsePrometheusScalar prom BuildClusterCPURequestExpression,
                     cr_Allocatable = QueryAndParsePrometheusScalar prom BuildClusterCPUAllocatableExpression\<rparr>,
           cr_Memory = \<lparr>cr_Utilised = QueryAndParsePrometheusScalar prom BuildClusterMemoryUtilizationExpression,
                     cr_Requested = QueryAndParsePrometheusScalar prom BuildClusterMemoryRequestExpression,
                     cr_Allocatable = QueryAndParsePrometheusScalar prom BuildClusterMemoryAllocatableExpression\<rparr>\<rparr>)"

section \<open>Stored recommendations\<close>

text \<open>A JSON column of a row of recommendations as the handlers meet it. \<open>Unparsed\<close> has what
  \<^verbatim>\<open>json.Unmarshal\<close> had filled in when it gave up.\<close>

datatype 'a column = EmptyText | Unparsed 'a | Holds 'a

record ColumnRow =
  cw_WorkloadID :: string
  cw_NodeName :: string
  cw_Namespace :: string
  cw_Pod :: string
  cw_Container :: string
  cw_Recommendation :: "PodResourceRecommendation column"
  cw_Current :: "PodCurrentResources column"

definition column_row :: "PodResourceRecommendationRow \<Rightarrow> ColumnRow" where
  "column_row row =
     \<lparr>cw_WorkloadID = rw_WorkloadID row, cw_NodeName = rw_NodeName row, cw_Namespace = rw_Namespace row,
      cw_Pod = rw_Pod row, cw_Container = rw_Container row, cw_Recommendation = Holds (rw_Recommendation row),
      cw_Current = (case rw_Current row of None \<Rightarrow> EmptyText | Some c \<Rightarrow> Holds c)\<rparr>"

text \<open>What the current resources are after an attempt to parse them, whose failure is only logged.\<close>

fun current_of :: "PodCurrentResources column \<Rightarrow> PodCurrentResources" where
  "current_of EmptyText = zero_PodCurrentResources"
| "current_of (Unparsed c) = c"
| "current_of (Holds c) = c"

record parsedPodRecommendation =
  pp_WorkloadID :: string
  pp_Namespace :: string
  pp_Pod :: string
  pp_Rec :: PodResourceRecommendation
  pp_Current :: PodCurrentResources

fun parse_rows :: "ColumnRow list \<Rightarrow> parsedPodRecommendation list" where
  "parse_rows [] = []"
| "parse_rows (row # rows) =
     (case cw_Recommendation row of
        Holds rec \<Rightarrow>
          \<lparr>pp_WorkloadID = cw_WorkloadID row, pp_Namespace = cw_Namespace row, pp_Pod = cw_Pod row,
           pp_Rec = rec, pp_Current = current_of (cw_Current row)\<rparr> # parse_rows rows
      | _ \<Rightarrow> parse_rows rows)"

definition getPodRecommendationsForCluster ::
    "faults \<Rightarrow> string \<Rightarrow> Database \<Rightarrow> store_error + parsedPodRecommendation list" where
  "getPodRecommendationsForCluster fault clusterID db =
     (case LoadClusterRecommendations fault clusterID db of
        Inl e \<Rightarrow> Inl (store_wrap (''get pod recommendations for cluster '' @ clusterID @ '': '') e)
      | Inr recRows \<Rightarrow> Inr (parse_rows (map column_row recRows)))"

section \<open>Aggregates of a workload\<close>

record workloadRecAgg =
  wa_CPUMin :: float64
  wa_CPUAvg :: float64
  wa_CPUMax :: float64
  wa_MemMin :: float64
  wa_MemAvg :: float64
  wa_MemMax :: float64
  wa_TotalCPU :: float64
  wa_TotalMem :: float64

definition no_agg :: workloadRecAgg where
  "no_agg = \<lparr>wa_CPUMin = lit 0, wa_CPUAvg = lit 0, wa_CPUMax = lit 0, wa_MemMin = lit 0, wa_MemAvg = lit 0,
     wa_MemMax = lit 0, wa_TotalCPU = lit 0, wa_TotalMem = lit 0\<rparr>"

fun agg_loop :: "bool \<Rightarrow> parsedPodRecommendation list \<Rightarrow> workloadRecAgg \<Rightarrow> workloadRecAgg" where
  "agg_loop first [] a = a"
| "agg_loop first (p # recs) a =
     (let cpu = rc_CPURequest (pp_Rec p);
          mem = rc_MemoryRequest (pp_Rec p);
          a = a\<lparr>wa_TotalCPU := fadd (wa_TotalCPU a) cpu, wa_TotalMem := fadd (wa_TotalMem a) mem\<rparr>
      in agg_loop False recs
           (if first then a\<lparr>wa_CPUMin := cpu, wa_CPUMax := cpu, wa_MemMin := mem, wa_MemMax := mem\<rparr>
            else a\<lparr>wa_CPUMin := (if flt cpu (wa_CPUMin a) then cpu else wa_CPUMin a),
                   wa_CPUMax := (if flt (wa_CPUMax a) cpu then cpu else wa_CPUMax a),
                   wa_MemMin := (if flt mem (wa_MemMin a) then mem else wa_MemMin a),
                   wa_MemMax := (if flt (wa_MemMax a) mem then mem else wa_MemMax a)\<rparr>))"

definition aggregateRecsForWorkload :: "parsedPodRecommendation list \<Rightarrow> WorkloadStat \<Rightarrow> workloadRecAgg" where
  "aggregateRecsForWorkload recs stat =
     (if length recs = 0
      then let cpu = CalculateTotalCPURequest stat; mem = CalculateTotalMemoryRequest stat
           in \<lparr>wa_CPUMin = cpu, wa_CPUAvg = cpu, wa_CPUMax = cpu, wa_MemMin = mem, wa_MemAvg = mem, wa_MemMax = mem,
               wa_TotalCPU = fmul cpu (f64_of_int (ws_Replicas stat)),
               wa_TotalMem = fmul mem (f64_of_int (ws_Replicas stat))\<rparr>
      else let a = agg_loop True recs no_agg;
               n = (if ws_Replicas stat > 0 then f64_of_int (ws_Replicas stat) else f64_of_int (int (length recs)))
           in a\<lparr>wa_CPUAvg := fdiv (wa_TotalCPU a) n, wa_MemAvg := fdiv (wa_TotalMem a) n\<rparr>)"

definition aggregatePodCurrentsForWorkload :: "PodCurrentResources list \<Rightarrow> WorkloadStat \<Rightarrow> PodCurrentResources" where
  "aggregatePodCurrentsForWorkload podCurrents stat =
     (if length podCurrents = 0 then zero_PodCurrentResources
      else let cpu = foldl (\<lambda>s p. fadd s (pc_CPURequest p)) (lit 0) podCurrents;
               mem = foldl (\<lambda>s p. fadd s (pc_MemoryRequest p)) (lit 0) podCurrents;
               n = (if ws_Replicas stat > 0 then f64_of_int (ws_Replicas stat)
                    else f64_of_int (int (length podCurrents)))
           in zero_PodCurrentResources\<lparr>pc_CPURequest := fdiv cpu n, pc_MemoryRequest := fdiv mem n\<rparr>)"

section \<open>Details of a workload\<close>

record WorkloadSummaryConstraints = WorkloadConstraints +
  sc_IsGPUWorkload :: bool

record WorkloadConfig =
  cf_CriticalityLevel :: string
  cf_CruiseEnabled :: bool
  cf_DisruptionSchedule :: "DisruptionWindow list"
  cf_InDisruptionWindow :: bool
  cf_HPAEnabled :: bool
  cf_ExcludedCodes :: "ExcludedCode list"

text \<open>\<^verbatim>\<open>WorkloadCPU\<close> and \<^verbatim>\<open>WorkloadMemory\<close> have the same fields, as have \<^verbatim>\<open>CPURecommended\<close> and
  \<^verbatim>\<open>MemoryRecommended\<close>.\<close>

record Recommended =
  re_Min :: float64
  re_Avg :: float64
  re_Max :: float64
  re_Change :: float64

record WorkloadResource =
  wu_Current :: float64
  wu_Recommended :: Recommended
  wu_PodCurrentAvg :: float64

definition no_resource :: WorkloadResource where
  "no_resource = \<lparr>wu_Current = lit 0,
     wu_Recommended = \<lparr>re_Min = lit 0, re_Avg = lit 0, re_Max = lit 0, re_Change = lit 0\<rparr>, wu_PodCurrentAvg = lit 0\<rparr>"

record WorkloadDetail =
  wd_WorkloadID :: string
  wd_Kind :: string
  wd_Namespace :: string
  wd_Name :: string
  wd_UpdatedAt :: int
  wd_PodsCount :: int
  wd_ScaledDown :: bool
  wd_Constraints :: WorkloadSummaryConstraints
  wd_CPU :: WorkloadResource
  wd_Memory :: WorkloadResource
  wd_DollarSavingsPerMonth :: float64
  wd_DollarExpenditurePerMonth :: float64
  wd_Config :: WorkloadConfig

definition criticality :: "EvictionRanking \<Rightarrow> string" where
  "criticality ranking =
     (if ranking = EvictionRankingDisabled then ''very-high''
      else if ranking = EvictionRankingLow then ''low''
      else if ranking = EvictionRankingMedium then ''medium''
      else if ranking = EvictionRankingHigh then ''high''
      else ''medium'')"

definition buildWorkloadDetail :: "WorkloadInCluster \<Rightarrow> WorkloadStat \<Rightarrow> WorkloadDetail" where
  "buildWorkloadDetail w stat =
     (let effective = OverridesWithDefaults w;
          constraints = (case ws_Constraints stat of
              None \<Rightarrow> \<lparr>wc_BlockingConsolidation = False, wc_PDB = False, wc_DoNotDisruptAnnotation = False,
                wc_Volume = False, wc_Affinity = False, wc_TopologySpreadConstraint = False,
                wc_PodAntiAffinity = False, wc_ExcludedAnnotation = False, sc_IsGPUWorkload = False\<rparr>
            | Some c \<Rightarrow> \<lparr>wc_BlockingConsolidation = wc_BlockingConsolidation c, wc_PDB = wc_PDB c,
                wc_DoNotDisruptAnnotation = wc_DoNotDisruptAnnotation c, wc_Volume = wc_Volume c,
                wc_Affinity = wc_Affinity c, wc_TopologySpreadConstraint = wc_TopologySpreadConstraint c,
                wc_PodAntiAffinity = wc_PodAntiAffinity c, wc_ExcludedAnnotation = wc_ExcludedAnnotation c,
                sc_IsGPUWorkload = IsGPUWorkload stat\<rparr>)
      in \<lparr>wd_WorkloadID = wk_WorkloadID w, wd_Kind = ws_Kind stat, wd_Namespace = ws_Namespace stat,
          wd_Name = ws_Name stat, wd_UpdatedAt = secs_of (ws_UpdatedAt stat), wd_PodsCount = ws_Replicas stat,
          wd_ScaledDown = (ws_Replicas stat \<le> 0), wd_Constraints = constraints, wd_CPU = no_resource,
          wd_Memory = no_resource, wd_DollarSavingsPerMonth = lit 0, wd_DollarExpenditurePerMonth = lit 0,
          wd_Config =
            \<lparr>cf_CriticalityLevel = criticality (oe_EvictionRanking effective),
             cf_CruiseEnabled = (oe_Enabled effective \<and> \<not> IsGPUWorkload stat),
             cf_DisruptionSchedule = oe_DisruptionWindows effective,
             cf_InDisruptionWindow = (case ws_Metadata stat of None \<Rightarrow> False | Some m \<Rightarrow> md_InDisruptionWindow m),
             cf_HPAEnabled = (ws_IsHorizontallyAutoscaledOnCPU stat \<or> ws_IsHorizontallyAutoscaledOnMem stat),
             cf_ExcludedCodes = (case ws_Metadata stat of None \<Rightarrow> [] | Some m \<Rightarrow> md_ExcludedCodes m)\<rparr>\<rparr>)"

text \<open>The cost in a month of what \<open>a\<close> is above \<open>b\<close>.\<close>

definition monthly_cpu :: "float64 \<Rightarrow> float64 \<Rightarrow> workloadPricing \<Rightarrow> float64" where
  "monthly_cpu a b p =
     (if flt b a then fmul (fmul (fsub a b) (wp_CPUPerCorePerHour p)) defaultHoursPerMonth else lit 0)"

definition monthly_mem :: "float64 \<Rightarrow> float64 \<Rightarrow> workloadPricing \<Rightarrow> float64" where
  "monthly_mem a b p =
     (if flt b a then fmul (fmul (fdiv (fsub a b) (lit 1000)) (wp_MemPerGBPerHour p)) defaultHoursPerMonth
      else lit 0)"

definition fillWorkloadDetailDollars :: "WorkloadDetail \<Rightarrow> workloadRecAgg \<Rightarrow> workloadPricing \<Rightarrow> WorkloadDetail" where
  "fillWorkloadDetailDollars d agg p =
     (let totalCurrentCPU = fmul (wu_Current (wd_CPU d)) (f64_of_int (wd_PodsCount d));
          totalCurrentMem = fmul (wu_Current (wd_Memory d)) (f64_of_int (wd_PodsCount d));
          totalRecCPU = wa_TotalCPU agg;
          totalRecMem = wa_TotalMem agg
      in d\<lparr>wd_DollarSavingsPerMonth :=
             fadd (monthly_cpu totalCurrentCPU totalRecCPU p) (monthly_mem totalCurrentMem totalRecMem p),
           wd_DollarExpenditurePerMonth :=
             fadd (monthly_cpu totalRecCPU totalCurrentCPU p) (monthly_mem totalRecMem totalCurrentMem p)\<rparr>)"

section \<open>The workloads of a cluster\<close>

record WorkloadsData =
  da_details :: "WorkloadDetail list"
  da_recAgg :: "string \<rightharpoonup> workloadRecAgg"
  da_ReqCPU :: float64
  da_ReqMem :: float64
  da_RecCPU :: float64
  da_RecMem :: float64

text \<open>A complete workload without recommendations counts as one without pods.\<close>

definition effective_recs :: "parsedPodRecommendation list \<Rightarrow> WorkloadInCluster \<Rightarrow> WorkloadStat \<Rightarrow> parsedPodRecommendation list" where
  "effective_recs parsedRecs w stat =
     (if IsIncomplete stat then [] else filter (\<lambda>p. pp_WorkloadID p = wk_WorkloadID w) parsedRecs)"

definition effective_stat :: "parsedPodRecommendation list \<Rightarrow> WorkloadInCluster \<Rightarrow> WorkloadStat \<Rightarrow> WorkloadStat" where
  "effective_stat parsedRecs w stat =
     (if length (effective_recs parsedRecs w stat) = 0 \<and> \<not> IsIncomplete stat then stat\<lparr>ws_Replicas := 0\<rparr> else stat)"

definition resource_of ::
    "float64 \<Rightarrow> float64 \<Rightarrow> float64 \<Rightarrow> float64 \<Rightarrow> float64 \<Rightarrow> float64 \<Rightarrow> WorkloadResource" where
  "resource_of current mn avg mx change podAvg =
     \<lparr>wu_Current = current, wu_Recommended = \<lparr>re_Min = mn, re_Avg = avg, re_Max = mx, re_Change = change\<rparr>,
      wu_PodCurrentAvg = podAvg\<rparr>"

definition add_workload :: "parsedPodRecommendation list \<Rightarrow> WorkloadInCluster \<Rightarrow> WorkloadsData \<Rightarrow> WorkloadsData" where
  "add_workload parsedRecs w data =
     (case wk_Stat w of
        None \<Rightarrow> data
      | Some stat \<Rightarrow>
          let recs = effective_recs parsedRecs w stat;
              stat = effective_stat parsedRecs w stat;
              agg = aggregateRecsForWorkload recs stat;
              podCurrents = map pp_Current (filter (\<lambda>p. pp_WorkloadID p = wk_WorkloadID w) parsedRecs);
              podCurrentAvg = aggregatePodCurrentsForWorkload podCurrents stat;
              cpu = CalculateTotalCPURequest stat;
              mem = CalculateTotalMemoryRequest stat;
              n = f64_of_int (ws_Replicas stat);
              running = ws_Replicas stat > 0;
              cpuChange = (if running then fsub (wa_CPUAvg agg) cpu else lit 0);
              memChange = (if running then fsub (wa_MemAvg agg) mem else lit 0);
              detail = (buildWorkloadDetail w stat)
                \<lparr>wd_CPU := resource_of cpu (wa_CPUMin agg) (wa_CPUAvg agg) (wa_CPUMax agg) cpuChange
                   (pc_CPURequest podCurrentAvg),
                 wd_Memory := resource_of mem (wa_MemMin agg) (wa_MemAvg agg) (wa_MemMax agg) memChange
                   (pc_MemoryRequest podCurrentAvg)\<rparr>;
              data = data\<lparr>da_details := da_details data @ [detail],
                          da_recAgg := (da_recAgg data)(wk_WorkloadID w \<mapsto> agg)\<rparr>
          in if running
             then data\<lparr>da_ReqCPU := fadd (da_ReqCPU data) (fmul cpu n),
                       da_ReqMem := fadd (da_ReqMem data) (fmul mem n),
                       da_RecCPU := fadd (da_RecCPU data) (wa_TotalCPU agg),
                       da_RecMem := fadd (da_RecMem data) (wa_TotalMem agg)\<rparr>
             else data)"

definition getWorkloadsData ::
    "row_sorter \<Rightarrow> faults \<Rightarrow> faults \<Rightarrow> string \<Rightarrow> Database \<Rightarrow> store_error + WorkloadsData" where
  "getWorkloadsData srt fault_workloads fault_recs clusterID db =
     (case GetWorkloads srt fault_workloads clusterID db of
        Inl e \<Rightarrow> Inl (store_wrap (''get workloads for cluster '' @ clusterID @ '': '') e)
      | Inr workloads \<Rightarrow>
          (case getPodRecommendationsForCluster fault_recs clusterID db of
             Inl e \<Rightarrow> Inl (store_wrap (''get pod recommendations for cluster '' @ clusterID @ '': '') e)
           | Inr parsedRecs \<Rightarrow>
               Inr (fold (add_workload parsedRecs) workloads
                 \<lparr>da_details = [], da_recAgg = Map.empty, da_ReqCPU = lit 0, da_ReqMem = lit 0, da_RecCPU = lit 0,
                  da_RecMem = lit 0\<rparr>)))"

section \<open>The list of workloads\<close>

record ImpactSummary =
  im_DollarCurrentCost :: float64
  im_DollarCurrentSavings :: float64
  im_DollarPossibleSavings :: float64
  im_ClusterResources :: ClusterResourcesDTO

record WorkloadSummaryResponse =
  su_ImpactSummary :: ImpactSummary
  su_WorkloadDetails :: "WorkloadDetail list"

definition with_dollars :: "workloadPricing \<Rightarrow> (string \<rightharpoonup> workloadRecAgg) \<Rightarrow> WorkloadDetail \<Rightarrow> WorkloadDetail" where
  "with_dollars p recAgg d =
     (if sc_IsGPUWorkload (wd_Constraints d) \<or> wd_PodsCount d = 0 \<or> wd_ScaledDown d \<or> cf_HPAEnabled (wd_Config d)
      then d\<lparr>wd_DollarExpenditurePerMonth := lit 0, wd_DollarSavingsPerMonth := lit 0\<rparr>
      else fillWorkloadDetailDollars d
             (case recAgg (wd_WorkloadID d) of None \<Rightarrow> no_agg | Some agg \<Rightarrow> agg) p)"

definition monthly_cost :: "float64 \<Rightarrow> float64 \<Rightarrow> workloadPricing \<Rightarrow> float64" where
  "monthly_cost cpu mem p =
     fadd (fmul (fmul cpu (wp_CPUPerCorePerHour p)) defaultHoursPerMonth)
          (fmul (fmul mem (wp_MemPerGBPerHour p)) defaultHoursPerMonth)"

definition current_cost :: "ClusterResourcesDTO \<Rightarrow> workloadPricing \<Rightarrow> float64" where
  "current_cost res p =
     fmul (fadd (fmul (cr_Allocatable (cr_CPU res)) (wp_CPUPerCorePerHour p))
                (fmul (cr_Allocatable (cr_Memory res)) (wp_MemPerGBPerHour p))) defaultHoursPerMonth"

definition request_ratio :: "ClusterResourceDTO \<Rightarrow> float64" where
  "request_ratio res = (if flt (lit 0) (cr_Allocatable res) then fdiv (cr_Requested res) (cr_Allocatable res) else lit 1)"

definition WorkloadSummaryHandler ::
    "row_sorter \<Rightarrow> faults \<Rightarrow> faults \<Rightarrow> faults \<Rightarrow> (string \<Rightarrow> string + prom_value) option \<Rightarrow> string \<Rightarrow> Database
     \<Rightarrow> WorkloadSummaryResponse response" where
  "WorkloadSummaryHandler srt fault_workloads fault_recs fault_settings prom clusterID db =
     (case getWorkloadsData srt fault_workloads fault_recs clusterID db of
        Inl e \<Rightarrow> Inl (500, store_message e)
      | Inr data \<Rightarrow>
          let p = getEffectivePricing fault_settings clusterID (Some db);
              details = map (with_dollars p (da_recAgg data)) (da_details data);
              clusterRes = getClusterResourcesFromPrometheus prom;
              ratioCPU = request_ratio (cr_CPU clusterRes);
              ratioMem = request_ratio (cr_Memory clusterRes);
              requestedMemGB = fdiv (da_ReqMem data) (lit 1000);
              recommendedMemGB = fdiv (da_RecMem data) (lit 1000);
              currentCost = current_cost clusterRes p;
              workloadCost = monthly_cost (fdiv (da_ReqCPU data) ratioCPU) (fdiv requestedMemGB ratioMem) p;
              optimizedCost = monthly_cost (fdiv (da_RecCPU data) ratioCPU) (fdiv recommendedMemGB ratioMem) p
          in Inr \<lparr>su_ImpactSummary =
                   \<lparr>im_DollarCurrentCost = currentCost, im_DollarCurrentSavings = fsub workloadCost currentCost,
                    im_DollarPossibleSavings = fsub workloadCost optimizedCost, im_ClusterResources = clusterRes\<rparr>,
                 su_WorkloadDetails = details\<rparr>)"


section \<open>The overview\<close>

definition percent :: "float64 \<Rightarrow> float64 \<Rightarrow> float64" where
  "percent part whole = (if fle whole (lit 0) then lit 0 else fmul (fdiv part whole) (lit 100))"

text \<open>No manager, no clients or no client for the API server is \<open>None\<close>.\<close>

definition getClusterNodeCount :: "(api_error + Node list) option \<Rightarrow> int" where
  "getClusterNodeCount client =
     (case client of Some (Inr nodes) \<Rightarrow> int (length nodes) | _ \<Rightarrow> 0)"

record clusterResourcesFromDB =
  rd_Resources :: ClusterResourcesDTO
  rd_RecommendedCPU :: float64
  rd_RecommendedMemory :: float64
  rd_OriginalCPU :: float64
  rd_OriginalMemory :: float64
  rd_ReqAllocRatioCPU :: float64
  rd_ReqAllocRatioMem :: float64

definition ratioLookbackDays :: int where "ratioLookbackDays = 7"

definition resources_of_snapshot :: "SnapshotResourceMetrics \<Rightarrow> ClusterResourceDTO" where
  "resources_of_snapshot m = \<lparr>cr_Utilised = sm_CurrentUtilized m, cr_Requested = sm_CurrentRequested m,
     cr_Allocatable = sm_CurrentAllocatable m\<rparr>"

definition getClusterResourcesFromDatabase ::
    "snapshot_sorter \<Rightarrow> go_time \<Rightarrow> faults \<Rightarrow> string \<Rightarrow> Database option \<Rightarrow> clusterResourcesFromDB" where
  "getClusterResourcesFromDatabase srt now fault clusterID storage =
     (let out = \<lparr>rd_Resources = no_resources, rd_RecommendedCPU = lit 0, rd_RecommendedMemory = lit 0,
            rd_OriginalCPU = lit 0, rd_OriginalMemory = lit 0, rd_ReqAllocRatioCPU = lit 1, rd_ReqAllocRatioMem = lit 1\<rparr>
      in case storage of
           None \<Rightarrow> out
         | Some db \<Rightarrow>
             (case LoadSnapshotsInRange srt fault clusterID (now - days ratioLookbackDays) now db of
                Inl e \<Rightarrow> out
              | Inr snapshots \<Rightarrow>
                  if length snapshots = 0 then out
                  else let latest = fst (snd (last snapshots));
                           cpu = sd_CPU latest;
                           mem = sd_Memory latest;
                           out = out\<lparr>rd_Resources := \<lparr>cr_CPU = resources_of_snapshot cpu, cr_Memory = resources_of_snapshot mem\<rparr>,
                                     rd_RecommendedCPU := sm_RecommendedRequested cpu,
                                     rd_RecommendedMemory := sm_RecommendedRequested mem,
                                     rd_OriginalCPU := sm_WorkloadRequested cpu,
                                     rd_OriginalMemory := sm_WorkloadRequested mem\<rparr>
                       in if feq (sm_CurrentAllocatable cpu) (lit 0) \<or> feq (sm_CurrentAllocatable mem) (lit 0) then out
                          else out\<lparr>rd_ReqAllocRatioCPU := fdiv (sm_CurrentRequested cpu) (sm_CurrentAllocatable cpu),
                                   rd_ReqAllocRatioMem := fdiv (sm_CurrentRequested mem) (sm_CurrentAllocatable mem)\<rparr>))"

text \<open>The totals of the workloads stand in for those of a snapshot that has none; memory is stored in MB and
  shown in GB.\<close>

definition fill_totals :: "WorkloadsData \<Rightarrow> clusterResourcesFromDB \<Rightarrow> clusterResourcesFromDB" where
  "fill_totals data r =
     (let r = (if feq (rd_OriginalCPU r) (lit 0) \<and> flt (lit 0) (da_ReqCPU data)
               then r\<lparr>rd_OriginalCPU := da_ReqCPU data\<rparr> else r);
          r = (if feq (rd_RecommendedCPU r) (lit 0) \<and> flt (lit 0) (da_RecCPU data)
               then r\<lparr>rd_RecommendedCPU := da_RecCPU data\<rparr> else r);
          r = (if feq (rd_OriginalMemory r) (lit 0) \<and> flt (lit 0) (da_ReqMem data)
               then r\<lparr>rd_OriginalMemory := fdiv (da_ReqMem data) (lit 1000)\<rparr> else r)
      in if feq (rd_RecommendedMemory r) (lit 0) \<and> flt (lit 0) (da_RecMem data)
         then r\<lparr>rd_RecommendedMemory := fdiv (da_RecMem data) (lit 1000)\<rparr> else r)"

definition utilisation :: "ClusterResourceDTO \<Rightarrow> float64 option" where
  "utilisation r =
     (if flt (lit 0) (cr_Allocatable r) then Some (fdiv (cr_Utilised r) (cr_Allocatable r)) else None)"

definition cluster_utilisation :: "ClusterResourcesDTO \<Rightarrow> float64" where
  "cluster_utilisation res =
     (case (utilisation (cr_CPU res), utilisation (cr_Memory res)) of
        (Some c, Some m) \<Rightarrow> fmul (gomin c m) (lit 100)
      | (Some c, None) \<Rightarrow> fmul c (lit 100)
      | (None, Some m) \<Rightarrow> fmul m (lit 100)
      | (None, None) \<Rightarrow> lit 0)"

definition isNonOptimizableWorkload :: "WorkloadDetail \<Rightarrow> bool" where
  "isNonOptimizableWorkload d \<longleftrightarrow>
     sc_IsGPUWorkload (wd_Constraints d) \<or> cf_HPAEnabled (wd_Config d) \<or> length (cf_ExcludedCodes (wd_Config d)) > 0"

record coverage =
  cv_totalCPU :: float64
  cv_totalMem :: float64
  cv_enabledCPU :: float64
  cv_enabledMem :: float64
  cv_optimizable :: int
  cv_nonOptimizable :: int
  cv_excluded :: int

definition no_coverage :: coverage where
  "no_coverage = \<lparr>cv_totalCPU = lit 0, cv_totalMem = lit 0, cv_enabledCPU = lit 0, cv_enabledMem = lit 0,
     cv_optimizable = 0, cv_nonOptimizable = 0, cv_excluded = 0\<rparr>"

definition cover :: "WorkloadDetail \<Rightarrow> coverage \<Rightarrow> coverage" where
  "cover d c =
     (let n = f64_of_int (wd_PodsCount d);
          cpu = fmul (wu_Current (wd_CPU d)) n;
          mem = fmul (wu_Current (wd_Memory d)) n;
          c = c\<lparr>cv_totalCPU := fadd (cv_totalCPU c) cpu, cv_totalMem := fadd (cv_totalMem c) mem\<rparr>
      in if isNonOptimizableWorkload d
         then c\<lparr>cv_totalCPU := fsub (cv_totalCPU c) cpu, cv_totalMem := fsub (cv_totalMem c) mem,
                cv_nonOptimizable := cv_nonOptimizable c + 1\<rparr>
         else if cf_CruiseEnabled (wd_Config d)
         then c\<lparr>cv_optimizable := cv_optimizable c + 1, cv_enabledCPU := fadd (cv_enabledCPU c) cpu,
                cv_enabledMem := fadd (cv_enabledMem c) mem\<rparr>
         else c\<lparr>cv_excluded := cv_excluded c + 1\<rparr>)"

record OverviewCoverageBreakdown =
  ob_Optimizable :: int
  ob_NonOptimizable :: int
  ob_OptimizableButExcluded :: int
  ob_Total :: int

record OverviewCoverage =
  oa_Adoption :: OverviewCoverageBreakdown
  oa_CPU :: "float64 \<times> float64"
  oa_Memory :: "float64 \<times> float64"

record OverviewResourceStats =
  os_Allocatable :: float64
  os_Requested :: float64
  os_WorkloadRequested :: float64
  os_Usage :: float64
  os_Recommended :: float64

record OverviewResponse =
  or_CurrentMonthlyCost :: int
  or_CurrentSavings :: int
  or_PossibleSavings :: int
  or_ClusterUtilisation :: float64
  or_NodeCount :: int
  or_Coverage :: OverviewCoverage
  or_CPUStats :: OverviewResourceStats
  or_MemoryStats :: OverviewResourceStats

definition resource_stats :: "ClusterResourceDTO \<Rightarrow> float64 \<Rightarrow> float64 \<Rightarrow> OverviewResourceStats" where
  "resource_stats r original recommended =
     \<lparr>os_Allocatable = cr_Allocatable r, os_Requested = cr_Requested r, os_WorkloadRequested = original,
      os_Usage = cr_Utilised r, os_Recommended = recommended\<rparr>"

definition OverviewHandler ::
    "(float64 \<Rightarrow> int) \<Rightarrow> row_sorter \<Rightarrow> snapshot_sorter \<Rightarrow> go_time \<Rightarrow> faults \<Rightarrow> faults \<Rightarrow> faults \<Rightarrow> faults
     \<Rightarrow> (api_error + Node list) option \<Rightarrow> string \<Rightarrow> Database \<Rightarrow> OverviewResponse response" where
  "OverviewHandler oob srt snapshot_srt now fault_workloads fault_recs fault_settings fault_snapshots client clusterID db =
     (case getWorkloadsData srt fault_workloads fault_recs clusterID db of
        Inl e \<Rightarrow> Inl (500, store_message e)
      | Inr data \<Rightarrow>
          let details = da_details data;
              p = getEffectivePricing fault_settings clusterID (Some db);
              dbRes = fill_totals data (getClusterResourcesFromDatabase snapshot_srt now fault_snapshots clusterID (Some db));
              clusterRes = rd_Resources dbRes;
              ratioCPU = rd_ReqAllocRatioCPU dbRes;
              ratioMem = rd_ReqAllocRatioMem dbRes;
              currentCost = mathRound (current_cost clusterRes p);
              workloadCost = mathRound (monthly_cost (fdiv (rd_OriginalCPU dbRes) ratioCPU)
                (fdiv (rd_OriginalMemory dbRes) ratioMem) p);
              optimizedCost = mathRound (monthly_cost (fdiv (rd_RecommendedCPU dbRes) ratioCPU)
                (fdiv (rd_RecommendedMemory dbRes) ratioMem) p);
              c = fold cover details no_coverage
          in Inr
             \<lparr>or_CurrentMonthlyCost = int64_of_f64 oob currentCost,
              or_CurrentSavings = int64_of_f64 oob (fsub workloadCost currentCost),
              or_PossibleSavings = int64_of_f64 oob (fsub workloadCost optimizedCost),
              or_ClusterUtilisation = mathRound (cluster_utilisation clusterRes),
              or_NodeCount = getClusterNodeCount client,
              or_Coverage =
                \<lparr>oa_Adoption =
                   \<lparr>ob_Optimizable = cv_optimizable c, ob_NonOptimizable = cv_nonOptimizable c,
                    ob_OptimizableButExcluded = cv_excluded c, ob_Total = int (length details)\<rparr>,
                 oa_CPU = (percent (cv_enabledCPU c) (cv_totalCPU c),
                           percent (fsub (cv_totalCPU c) (cv_enabledCPU c)) (cv_totalCPU c)),
                 oa_Memory = (percent (cv_enabledMem c) (cv_totalMem c),
                              percent (fsub (cv_totalMem c) (cv_enabledMem c)) (cv_totalMem c))\<rparr>,
              or_CPUStats = resource_stats (cr_CPU clusterRes) (rd_OriginalCPU dbRes) (rd_RecommendedCPU dbRes),
              or_MemoryStats = resource_stats (cr_Memory clusterRes) (rd_OriginalMemory dbRes) (rd_RecommendedMemory dbRes)\<rparr>)"

section \<open>The history\<close>

text \<open>\<^verbatim>\<open>time.Parse\<close> with the layout of RFC 3339: an offset of up to 24 hours and 60 minutes, or Z.\<close>

definition zone_offset :: "string \<Rightarrow> int option" where
  "zone_offset s =
     (case s of
        [c] \<Rightarrow> if c = CHR ''Z'' then Some 0 else None
      | [c, h1, h2, colon, m1, m2] \<Rightarrow>
          if (c = CHR ''+'' \<or> c = CHR ''-'') \<and> colon = CHR '':'' then do {
            (h, _) \<leftarrow> getnum2 [h1, h2];
            (m, _) \<leftarrow> getnum2 [m1, m2];
            _ \<leftarrow> in_field 0 24 h;
            _ \<leftarrow> in_field 0 60 m;
            Some ((if c = CHR ''-'' then -1 else 1) * (h * 3600 + m * 60)) }
          else None
      | _ \<Rightarrow> None)"

definition ParseRFC3339 :: "string \<Rightarrow> go_time option" where
  "ParseRFC3339 raw =
     (let zone = (if raw \<noteq> [] \<and> last raw = CHR ''Z'' then drop (length raw - 1) raw else drop (length raw - 6) raw)
      in do {
        offset \<leftarrow> zone_offset zone;
        t \<leftarrow> ParseSeconds (take (length raw - length zone) raw);
        Some (t - offset * 10 ^ 9) })"

definition parseUTCTimestamp :: "string \<Rightarrow> go_time option" where
  "parseUTCTimestamp raw =
     (if raw = '''' then None
      else case Atoi raw of
             Some unix \<Rightarrow> Some (if unix > 1000000000000 then unix * 1000000 else unix * 10 ^ 9)
           | None \<Rightarrow> ParseRFC3339 raw)"

definition timeline_ratio :: "SnapshotResourceMetrics \<Rightarrow> float64" where
  "timeline_ratio m =
     (if flt (lit 0) (sm_CurrentAllocatable m) \<and> flt (lit 0) (sm_CurrentRequested m)
      then fdiv (sm_CurrentRequested m) (sm_CurrentAllocatable m) else lit 1)"

definition hourly_cost :: "float64 \<Rightarrow> float64 \<Rightarrow> workloadPricing \<Rightarrow> float64" where
  "hourly_cost cpu mem p = fadd (fmul cpu (wp_CPUPerCorePerHour p)) (fmul mem (wp_MemPerGBPerHour p))"

definition buildCostFromSnapshot :: "workloadPricing \<Rightarrow> SnapshotData \<Rightarrow> float64 \<times> float64 \<times> float64" where
  "buildCostFromSnapshot p data =
     (let cpu = sd_CPU data; mem = sd_Memory data; ratioCPU = timeline_ratio cpu; ratioMem = timeline_ratio mem
      in (hourly_cost (sm_CurrentAllocatable cpu) (sm_CurrentAllocatable mem) p,
          hourly_cost (fdiv (sm_WorkloadRequested cpu) ratioCPU) (fdiv (sm_WorkloadRequested mem) ratioMem) p,
          hourly_cost (fdiv (sm_RecommendedRequested cpu) ratioCPU) (fdiv (sm_RecommendedRequested mem) ratioMem) p))"

record HistoricalTimelineItem =
  ht_Legend :: string
  ht_Color :: string
  ht_Threshold :: float64
  ht_Timestamp :: go_time
  ht_Value :: float64

text \<open>\<^verbatim>\<open>math.Round(x * 1000) / 1000\<close>.\<close>

definition thousandths :: "float64 \<Rightarrow> float64" where
  "thousandths x = fdiv (mathRound (fmul x (lit 1000))) (lit 1000)"

definition addTimelinePoint :: "string \<Rightarrow> string \<Rightarrow> float64 \<Rightarrow> go_time \<Rightarrow> float64 \<Rightarrow> HistoricalTimelineItem" where
  "addTimelinePoint legend color threshold timestamp v =
     \<lparr>ht_Legend = legend, ht_Color = color, ht_Threshold = threshold, ht_Timestamp = timestamp,
      ht_Value = thousandths v\<rparr>"

definition resource_points :: "SnapshotResourceMetrics \<Rightarrow> go_time \<Rightarrow> HistoricalTimelineItem list" where
  "resource_points m t =
     (let threshold = sm_CurrentAllocatable m
      in [addTimelinePoint ''Allocatable'' ''#2563eb'' threshold t (sm_CurrentAllocatable m),
          addTimelinePoint ''Requested'' ''#f59e0b'' threshold t (sm_CurrentRequested m),
          addTimelinePoint ''Original Requested'' ''#b45309'' threshold t (sm_WorkloadRequested m),
          addTimelinePoint ''Usage'' ''#16a34a'' threshold t (sm_CurrentUtilized m),
          addTimelinePoint ''Recommended'' ''#7c3aed'' threshold t (sm_RecommendedRequested m)])"

definition cost_points :: "workloadPricing \<Rightarrow> SnapshotData \<Rightarrow> go_time \<Rightarrow> HistoricalTimelineItem list" where
  "cost_points p data t =
     (let (currentCost, withoutCruiseKubeCost, withCruiseKubeCost) = buildCostFromSnapshot p data
      in [addTimelinePoint ''Hourly Cost Without CruiseKube'' ''#f59e0b'' currentCost t withoutCruiseKubeCost,
          addTimelinePoint ''Hourly Cost'' ''#2563eb'' currentCost t currentCost,
          addTimelinePoint ''Hourly Cost With CruiseKube'' ''#16a34a'' currentCost t withCruiseKubeCost])"

definition GetOverviewHistoricalTimelineHandler ::
    "snapshot_sorter \<Rightarrow> faults \<Rightarrow> faults \<Rightarrow> string \<Rightarrow> string \<Rightarrow> string \<Rightarrow> string \<Rightarrow> Database option
     \<Rightarrow> HistoricalTimelineItem list response" where
  "GetOverviewHistoricalTimelineHandler srt fault_snapshots fault_settings clusterID metricName start stop storage =
     (if metricName \<noteq> ''cpu'' \<and> metricName \<noteq> ''memory'' \<and> metricName \<noteq> ''cost''
      then Inl (400, ''invalid metric, expected one of: cpu, memory, cost'')
      else case parseUTCTimestamp start of
        None \<Rightarrow> Inl (400, ''invalid startTime'')
      | Some startTime \<Rightarrow>
          (case parseUTCTimestamp stop of
             None \<Rightarrow> Inl (400, ''invalid endTime'')
           | Some endTime \<Rightarrow>
               if endTime < startTime then Inl (400, ''endTime must be greater than or equal to startTime'')
               else if endTime - startTime > 90 * 24 * Hour
               then Inl (400, ''time range too large; max allowed is 90 days'')
               else case storage of
                 None \<Rightarrow> Inl (500, ''storage not available'')
               | Some db \<Rightarrow>
                   (case LoadSnapshotsInRange srt fault_snapshots clusterID startTime endTime db of
                      Inl e \<Rightarrow> Inl (500, store_message e)
                    | Inr snapshots \<Rightarrow>
                        if metricName = ''cpu''
                        then Inr (concat (map (\<lambda>(c, data, t). resource_points (sd_CPU data) t) snapshots))
                        else if metricName = ''memory''
                        then Inr (concat (map (\<lambda>(c, data, t). resource_points (sd_Memory data) t) snapshots))
                        else let pricing = getEffectivePricing fault_settings clusterID (Some db)
                             in Inr (concat (map (\<lambda>(c, data, t). cost_points pricing data t) snapshots)))))"


section \<open>Lemmas on the workloads\<close>

definition no_data :: WorkloadsData where
  "no_data = \<lparr>da_details = [], da_recAgg = Map.empty, da_ReqCPU = lit 0, da_ReqMem = lit 0, da_RecCPU = lit 0,
     da_RecMem = lit 0\<rparr>"

definition detail_of :: "parsedPodRecommendation list \<Rightarrow> WorkloadInCluster \<Rightarrow> WorkloadDetail" where
  "detail_of recs w = hd (da_details (add_workload recs w no_data))"

definition stated :: "WorkloadInCluster list \<Rightarrow> WorkloadInCluster list" where
  "stated ws = filter (\<lambda>w. wk_Stat w \<noteq> None) ws"

lemma add_workload_details:
  "da_details (add_workload recs w data) = da_details data @ map (detail_of recs) (stated [w])"
  by (simp add: add_workload_def detail_of_def no_data_def stated_def Let_def split: option.split)

lemma fold_details: "da_details (fold (add_workload recs) ws data) = da_details data @ map (detail_of recs) (stated ws)"
  by (induction ws arbitrary: data) (simp_all add: add_workload_details stated_def)

lemma getWorkloadsDataE:
  assumes "getWorkloadsData srt fw fr c db = Inr data"
  obtains workloads recs where "GetWorkloads srt fw c db = Inr workloads"
    "getPodRecommendationsForCluster fr c db = Inr recs" "da_details data = map (detail_of recs) (stated workloads)"
proof -
  obtain workloads where w: "GetWorkloads srt fw c db = Inr workloads"
    using assms by (auto simp: getWorkloadsData_def split: sum.splits)
  obtain recs where r: "getPodRecommendationsForCluster fr c db = Inr recs"
    using assms w by (auto simp: getWorkloadsData_def split: sum.splits)
  have "da_details data = map (detail_of recs) (stated workloads)"
    using assms w r by (auto simp: getWorkloadsData_def fold_details)
  with w r show thesis by (rule that)
qed

text \<open>What the page shows of a workload comes from its row.\<close>

lemma effective_stat_fields:
  "ws_Constraints (effective_stat recs w s) = ws_Constraints s" "ws_Metadata (effective_stat recs w s) = ws_Metadata s"
  "ws_IsHorizontallyAutoscaledOnCPU (effective_stat recs w s) = ws_IsHorizontallyAutoscaledOnCPU s"
  "ws_IsHorizontallyAutoscaledOnMem (effective_stat recs w s) = ws_IsHorizontallyAutoscaledOnMem s"
  "IsGPUWorkload (effective_stat recs w s) = IsGPUWorkload s"
  by (simp_all add: effective_stat_def IsGPUWorkload_def)

lemma detail_of_fields:
  assumes "wk_Stat w = Some stat"
  shows "wd_WorkloadID (detail_of recs w) = wk_WorkloadID w"
    "cf_HPAEnabled (wd_Config (detail_of recs w)) \<longleftrightarrow>
       ws_IsHorizontallyAutoscaledOnCPU stat \<or> ws_IsHorizontallyAutoscaledOnMem stat"
    "sc_IsGPUWorkload (wd_Constraints (detail_of recs w)) \<longleftrightarrow> ws_Constraints stat \<noteq> None \<and> IsGPUWorkload stat"
    "cf_ExcludedCodes (wd_Config (detail_of recs w)) =
       (case ws_Metadata stat of None \<Rightarrow> [] | Some m \<Rightarrow> md_ExcludedCodes m)"
    "cf_CruiseEnabled (wd_Config (detail_of recs w)) \<longleftrightarrow> EffectiveEnabled w \<and> \<not> IsGPUWorkload stat"
    "wd_PodsCount (detail_of recs w) = ws_Replicas (effective_stat recs w stat)"
    "wd_ScaledDown (detail_of recs w) \<longleftrightarrow> ws_Replicas (effective_stat recs w stat) \<le> 0"
  unfolding detail_of_def add_workload_def assms no_data_def
  by (simp_all add: Let_def buildWorkloadDetail_def effective_stat_fields EffectiveEnabled_def split: option.split)

section \<open>Lemmas on costs\<close>

lemma lit_positive: "1 / 256 \<le> q \<Longrightarrow> flt (lit 0) (lit q)"
proof -
  assume "1 / 256 \<le> q"
  then have "fle (lit (1 / 256)) (lit q)" unfolding lit_def by (rule fle_fround)
  moreover have "flt (lit 0) (lit (1 / 256))" by (simp add: f64_eval)
  ultimately show ?thesis by (rule flt_fle_trans [rotated])
qed

lemma pricing_positive:
  "flt (lit 0) (wp_CPUPerCorePerHour (getEffectivePricing f c storage))"
  "flt (lit 0) (wp_MemPerGBPerHour (getEffectivePricing f c storage))"
proof -
  have "flt (lit 0) defaultCPUPricePerCorePerHour" "flt (lit 0) defaultMemoryPricePerGBPerHour"
    unfolding defaultCPUPricePerCorePerHour_def defaultMemoryPricePerGBPerHour_def by (rule lit_positive; simp)+
  then show "flt (lit 0) (wp_CPUPerCorePerHour (getEffectivePricing f c storage))"
    "flt (lit 0) (wp_MemPerGBPerHour (getEffectivePricing f c storage))"
    by (simp_all add: getEffectivePricing_def Let_def split: option.split sum.split)
qed


lemma fmul_nonneg_num: "fle fzero a \<Longrightarrow> is_num p \<Longrightarrow> flt (lit 0) p \<Longrightarrow> fle fzero (fmul a p)"
proof (rule fmul_nonneg)
  assume a: "fle fzero a" and p: "is_num p" "flt (lit 0) p"
  then show "fle fzero p" by (auto simp: fzero_le flt_def is_num_def)
  show "\<not> is_nan (fmul a p)"
  proof (cases "is_num a")
    case True
    then show ?thesis using fmul_num [OF True p(1)] by auto
  next
    case False
    then have "a = Infty False" using a by (auto simp: fzero_le)
    then show ?thesis using p by (auto simp: is_num_iff flt_def split: if_splits)
  qed
qed

lemma fsub_nonneg: "flt b a \<Longrightarrow> fle fzero (fsub a b)"
proof -
  assume "flt b a"
  then consider "is_num a" "is_num b" "val b < val a" | "a = Infty False" "\<not> is_nan b" "b \<noteq> Infty False"
    | "is_num a" "b = Infty True"
    by (cases a; cases b) (auto simp: flt_def is_num_def split: if_splits)
  then show ?thesis
  proof cases
    case 1
    then show ?thesis using fsub_num [OF 1(1,2)] by (auto intro!: fround_nonneg)
  next
    case 2
    then show ?thesis by (cases b) (auto simp: fsub_def fle_def)
  next
    case 3
    then show ?thesis by (auto simp: is_num_iff fsub_def fle_def)
  qed
qed

lemma fdiv_nonneg_lit: "fle fzero a \<Longrightarrow> fle fzero (fdiv a (lit 1000))"
proof -
  assume a: "fle fzero a"
  show ?thesis
  proof (cases "is_num a")
    case True
    then show ?thesis using fdiv_num [OF True, of "lit 1000"] a by (auto simp: fzero_le [of a] intro!: fround_nonneg)
  next
    case False
    then have "a = Infty False" using a by (auto simp: fzero_le)
    then show ?thesis by (simp add: pos_scale fle_def)
  qed
qed

definition finite_prices :: "workloadPricing \<Rightarrow> bool" where
  "finite_prices p \<longleftrightarrow> is_num (wp_CPUPerCorePerHour p) \<and> is_num (wp_MemPerGBPerHour p) \<and>
     flt (lit 0) (wp_CPUPerCorePerHour p) \<and> flt (lit 0) (wp_MemPerGBPerHour p)"

lemma monthly_nonneg:
  assumes "finite_prices p"
  shows "fle fzero (monthly_cpu a b p)" "fle fzero (monthly_mem a b p)"
proof -
  have h: "is_num defaultHoursPerMonth" "flt (lit 0) defaultHoursPerMonth"
    by (simp_all add: defaultHoursPerMonth_def f64_eval)
  have z: "fle fzero fzero" by simp
  show "fle fzero (monthly_cpu a b p)" "fle fzero (monthly_mem a b p)"
    using assms h unfolding monthly_cpu_def monthly_mem_def finite_prices_def
    by (simp_all add: fmul_nonneg_num fdiv_nonneg_lit fsub_nonneg z)
qed

text \<open>A resource is either saved or spent.\<close>

lemma monthly_one_side: "monthly_cpu a b p = lit 0 \<or> monthly_cpu b a p = lit 0"
  "monthly_mem a b p = lit 0 \<or> monthly_mem b a p = lit 0"
  using flt_trans [of a b a] by (auto simp: monthly_cpu_def monthly_mem_def)

lemma dollars_nonneg:
  assumes "finite_prices p"
  shows "fle fzero (wd_DollarSavingsPerMonth (with_dollars p agg d)) \<and>
    fle fzero (wd_DollarExpenditurePerMonth (with_dollars p agg d))"
proof -
  have "fle fzero (fadd (monthly_cpu a b p) (monthly_mem c e p))" for a b c e
    by (rule nonneg_fadd(1) [OF monthly_nonneg [OF assms]])
  then show ?thesis
    by (simp add: with_dollars_def fillWorkloadDetailDollars_def Let_def)
qed


section \<open>Lemmas on the overview\<close>

lemma fold_cover:
  "cv_nonOptimizable (fold cover ds c) = cv_nonOptimizable c + int (length (filter isNonOptimizableWorkload ds))"
  "cv_optimizable (fold cover ds c) = cv_optimizable c +
     int (length (filter (\<lambda>d. \<not> isNonOptimizableWorkload d \<and> cf_CruiseEnabled (wd_Config d)) ds))"
  "cv_excluded (fold cover ds c) = cv_excluded c +
     int (length (filter (\<lambda>d. \<not> isNonOptimizableWorkload d \<and> \<not> cf_CruiseEnabled (wd_Config d)) ds))"
  by (induction ds arbitrary: c) (simp_all add: cover_def Let_def)

lemma counts_partition:
  "length (filter P xs) + length (filter (\<lambda>x. \<not> P x \<and> Q x) xs) + length (filter (\<lambda>x. \<not> P x \<and> \<not> Q x) xs) = length xs"
  by (induction xs) auto

text \<open>The three kinds of workloads, in terms of what is stored.\<close>

definition cannot_optimize :: "WorkloadStat \<Rightarrow> bool" where
  "cannot_optimize s \<longleftrightarrow> ws_Constraints s \<noteq> None \<and> IsGPUWorkload s \<or> ws_IsHorizontallyAutoscaledOnCPU s \<or>
     ws_IsHorizontallyAutoscaledOnMem s \<or> HasExcludedCodes (Some s)"

lemma nonOptimizable_stored:
  "wk_Stat w = Some s \<Longrightarrow> isNonOptimizableWorkload (detail_of recs w) \<longleftrightarrow> cannot_optimize s"
  by (auto simp: isNonOptimizableWorkload_def cannot_optimize_def detail_of_fields HasExcludedCodes_def split: option.split)

lemma count_stated:
  assumes "\<And>w s. wk_Stat w = Some s \<Longrightarrow> P (detail_of recs w) \<longleftrightarrow> Q w s"
  shows "length (filter P (map (detail_of recs) (stated ws))) =
    length (filter (\<lambda>w. \<exists>s. wk_Stat w = Some s \<and> Q w s) ws)"
  using assms by (induction ws) (auto simp: stated_def)

section \<open>Lemmas on the history\<close>

lemma snapshot_records_times:
  "map (snd \<circ> snd) (snapshot_records rs) = map sr_CreatedAt (filter (\<lambda>r. dec_SnapshotData (sr_Data r) \<noteq> None) rs)"
  by (induction rs) (auto split: option.split)

lemma snapshots_loaded:
  assumes "LoadSnapshotsInRange srt f c s e db = Inr snapshots" "go_sort srt"
  shows "sorted (map (snd \<circ> snd) snapshots) \<and> set (map (snd \<circ> snd) snapshots) \<subseteq>
    {sr_CreatedAt r |r. r \<in> set (db_snapshots db) \<and> sr_ClusterID r = c \<and> s \<le> sr_CreatedAt r \<and> sr_CreatedAt r \<le> e}"
proof -
  let ?rows = "filter (\<lambda>r. sr_ClusterID r = c \<and> s \<le> sr_CreatedAt r \<and> sr_CreatedAt r \<le> e) (db_snapshots db)"
  let ?lt = "\<lambda>a b. sr_CreatedAt a < sr_CreatedAt b"
  have sn: "snapshots = snapshot_records (srt ?lt ?rows)"
    using assms(1) by (auto simp: LoadSnapshotsInRange_def wrap_result_def GetSnapshotsInRange_def split: option.splits)
  have sw: "strict_weak ?lt (set ?rows)" by (auto simp: strict_weak_def)
  from go_sort.sorted_srt [OF assms(2) sw]
  have "sorted_wrt (\<lambda>a b. sr_CreatedAt a \<le> sr_CreatedAt b) (srt ?lt ?rows)" by (simp add: not_less)
  then have "sorted (map sr_CreatedAt (filter (\<lambda>r. dec_SnapshotData (sr_Data r) \<noteq> None) (srt ?lt ?rows)))"
    by (simp add: sorted_wrt_map sorted_wrt_filter)
  moreover have "set (srt ?lt ?rows) = set ?rows" by (rule go_sort.set_srt [OF assms(2)])
  ultimately show ?thesis by (auto simp: sn snapshot_records_times)
qed

lemma sorted_points:
  assumes "sorted (map g xs)" "\<And>x. x \<in> set xs \<Longrightarrow> \<forall>y \<in> set (f x). t y = g x"
  shows "sorted (map t (concat (map f xs)))"
  using assms
proof (induction xs)
  case (Cons x xs)
  have "map t (f x) = replicate (length (f x)) (g x)" using Cons.prems(2) [of x] by (simp add: list_eq_iff_nth_eq)
  then have "sorted (map t (f x))" by simp
  moreover have "t y \<le> t z" if y: "y \<in> set (f x)" and z: "z \<in> set (concat (map f xs))" for y z
  proof -
    obtain w where w: "w \<in> set xs" "z \<in> set (f w)" using z by auto
    then have "t y = g x" "t z = g w" using y Cons.prems(2) by auto
    moreover have "g x \<le> g w" using Cons.prems(1) w(1) by auto
    ultimately show ?thesis by simp
  qed
  ultimately show ?case using Cons by (auto simp: sorted_append)
qed simp

lemma points_of_snapshot:
  "length (resource_points m t) = 5" "length (cost_points p data t) = 3"
  "y \<in> set (resource_points m t) \<Longrightarrow> ht_Timestamp y = t" "y \<in> set (cost_points p data t) \<Longrightarrow> ht_Timestamp y = t"
  by (auto simp: resource_points_def cost_points_def Let_def addTimelinePoint_def buildCostFromSnapshot_def)


section \<open>Properties\<close>

text \<open>C30. The list of workloads has every stored workload with statistics once, in the order of the store. What it
  says a workload saves or spends is never negative nor undefined, and is zero for workloads with a GPU,
  with autoscaling or without pods.\<close>

theorem summary_dollars:
  assumes "WorkloadSummaryHandler srt fw fr fs prom c db = Inr resp" "GetWorkloads srt fw c db = Inr workloads"
    and "is_num (wp_CPUPerCorePerHour (getEffectivePricing fs c (Some db)))"
    and "is_num (wp_MemPerGBPerHour (getEffectivePricing fs c (Some db)))"
  shows "map wd_WorkloadID (su_WorkloadDetails resp) = map wk_WorkloadID (stated workloads) \<and>
    (\<forall>d \<in> set (su_WorkloadDetails resp).
      fle fzero (wd_DollarSavingsPerMonth d) \<and> fle fzero (wd_DollarExpenditurePerMonth d) \<and>
      (sc_IsGPUWorkload (wd_Constraints d) \<or> cf_HPAEnabled (wd_Config d) \<or> wd_PodsCount d \<le> 0 \<longrightarrow>
         wd_DollarSavingsPerMonth d = fzero \<and> wd_DollarExpenditurePerMonth d = fzero))"
proof -
  let ?p = "getEffectivePricing fs c (Some db)"
  obtain data where d: "getWorkloadsData srt fw fr c db = Inr data"
      "su_WorkloadDetails resp = map (with_dollars ?p (da_recAgg data)) (da_details data)"
    using assms(1) by (auto simp: WorkloadSummaryHandler_def Let_def split: sum.splits)
  obtain recs where r: "da_details data = map (detail_of recs) (stated workloads)"
    using getWorkloadsDataE [OF d(1)] assms(2) by (metis Inr_inject)
  have fields: "wd_WorkloadID (with_dollars p agg d) = wd_WorkloadID d"
      "wd_Constraints (with_dollars p agg d) = wd_Constraints d" "wd_Config (with_dollars p agg d) = wd_Config d"
      "wd_PodsCount (with_dollars p agg d) = wd_PodsCount d" for p agg d
    by (simp_all add: with_dollars_def fillWorkloadDetailDollars_def Let_def)
  have ids: "map wd_WorkloadID (su_WorkloadDetails resp) = map wk_WorkloadID (stated workloads)"
    by (auto simp: d(2) r fields detail_of_fields stated_def)
  have "finite_prices ?p" using assms(3,4) pricing_positive by (simp add: finite_prices_def)
  moreover have "wd_ScaledDown (detail_of recs w) \<longleftrightarrow> wd_PodsCount (detail_of recs w) \<le> 0" if "w \<in> set (stated workloads)" for w
    using that by (auto simp: stated_def detail_of_fields)
  ultimately have "\<forall>d \<in> set (su_WorkloadDetails resp).
      fle fzero (wd_DollarSavingsPerMonth d) \<and> fle fzero (wd_DollarExpenditurePerMonth d) \<and>
      (sc_IsGPUWorkload (wd_Constraints d) \<or> cf_HPAEnabled (wd_Config d) \<or> wd_PodsCount d \<le> 0 \<longrightarrow>
         wd_DollarSavingsPerMonth d = fzero \<and> wd_DollarExpenditurePerMonth d = fzero)"
    unfolding d(2) r using dollars_nonneg by (auto simp: fields) (auto simp: with_dollars_def)
  with ids show ?thesis by (rule conjI)
qed

definition dash_stat :: WorkloadStat where
  "dash_stat = (sample_stat ''web'' 1 100)\<lparr>ws_Replicas := 1, ws_OriginalContainerResources :=
     [\<lparr>oc_Name = ''app'', oc_Type = AppContainer, oc_CPURequest = lit 2, oc_CPULimit = lit 0,
       oc_MemoryRequest = lit 200, oc_MemoryLimit = lit 0\<rparr>]\<rparr>"

definition dash_workload :: WorkloadInCluster where
  "dash_workload = \<lparr>wk_ClusterID = ''c'', wk_WorkloadID = GetWorkloadKey ''Deployment'' ''ns'' ''web'',
     wk_Stat = Some dash_stat, wk_Overrides = None, wk_GeneratedAt = 0, wk_CreatedAt = 0, wk_UpdatedAt = 0\<rparr>"

definition dash_rec :: PodResourceRecommendationRow where
  "dash_rec = \<lparr>rw_WorkloadID = GetWorkloadKey ''Deployment'' ''ns'' ''web'', rw_NodeName = ''node-1'',
     rw_Namespace = ''ns'', rw_Pod = ''web-1'', rw_Container = ''app'', rw_Recommendation =
       \<lparr>rc_CPURequest = lit 1, rc_MemoryRequest = lit 100, rc_CPULimit = lit 0, rc_MemoryLimit = lit 0,
        rc_ToBeEvicted = False\<rparr>, rw_Current = None\<rparr>"

definition dash_db :: "json \<Rightarrow> Database" where
  "dash_db js = (sample_store js (JObj []))\<lparr>db_recommendations :=
     [\<lparr>rr_ID = 1, rr_ClusterID = ''c'', rr_Row = dash_rec\<rparr>]\<rparr>"

lemma dash_json: "\<exists>js. dec_WorkloadStat js = Some dash_stat"
proof -
  have t: "enc_time 0 = Some (JTime 0)" by code_simp
  have "enc_WorkloadStat dash_stat \<noteq> None"
    by (simp add: dash_stat_def sample_defs enc_WorkloadStat_def enc_WorkloadConstraints_def enc_ContainerStats_def fld_def
        omitempty_def enc_ptr_def enc_list_def enc_string_def enc_bool_def enc_int_def in_width_def EvictionRankingHigh_def t
        AppContainer_def enc_CPUStats_def enc_MemoryStats_def enc_Memory7DayStats_def enc_SimplePrediction_def
        enc_OriginalContainerResources_def enc_float_def f64_eval)
  then show ?thesis using c_WorkloadStat.dec_enc by fastforce
qed

lemma dash_workloads:
  assumes "dec_WorkloadStat js = Some dash_stat"
  shows "GetWorkloads (\<lambda>f rows. rows) (\<lambda>_. None) ''c'' (dash_db js) = Inr [dash_workload]"
proof -
  let ?r = "sample_stored_row js (JObj [])"
  have "row_stat ?r = Some dash_stat"
    using assms by (simp add: row_stat_def sample_stored_row_def dash_stat_def sample_stat_def)
  then have "row_workload ''c'' ?r = Inr dash_workload"
    by (simp add: row_workload_def row_overrides_def sample_stored_row_def dash_workload_def)
  then show ?thesis
    by (simp add: GetWorkloads_def wrap_result_def GetWorkloadsInCluster_def dash_db_def sample_store_def
        latest_first_def where_ids_def sample_stored_row_def)
qed

lemma dash_recs:
  "getPodRecommendationsForCluster (\<lambda>_. None) ''c'' (dash_db js) = Inr (parse_rows [column_row dash_rec])"
  by (simp add: getPodRecommendationsForCluster_def LoadClusterRecommendations_def wrap_result_def
      GetPodRecommendationsForCluster_def dash_db_def)

lemma dash_pricing: "getEffectivePricing (\<lambda>_. None) ''c'' (Some (dash_db js)) =
    \<lparr>wp_CPUPerCorePerHour = defaultCPUPricePerCorePerHour, wp_MemPerGBPerHour = defaultMemoryPricePerGBPerHour\<rparr>"
  by (simp add: getEffectivePricing_def GetSettings_def GetClusterSettings_def dash_db_def sample_store_def empty_db_def)

lemma small_lit_num: "0 \<le> q \<Longrightarrow> q \<le> 1 \<Longrightarrow> is_num (lit q)"
  using fround_le [of "lit 1" q False] fround_nonneg [of q False]
  by (cases "lit q") (auto simp: lit_def [symmetric] fle_def is_num_def split: if_splits)

lemma summary_dollars_witness:
  "\<exists>db d. WorkloadSummaryHandler (\<lambda>f rows. rows) (\<lambda>_. None) (\<lambda>_. None) (\<lambda>_. None) None ''c'' db = Inr d \<and>
     map wd_WorkloadID (su_WorkloadDetails d) = [GetWorkloadKey ''Deployment'' ''ns'' ''web'']"
proof -
  obtain js where js: "dec_WorkloadStat js = Some dash_stat" using dash_json by blast
  obtain d where d: "WorkloadSummaryHandler (\<lambda>f rows. rows) (\<lambda>_. None) (\<lambda>_. None) (\<lambda>_. None) None ''c'' (dash_db js) = Inr d"
    by (simp add: WorkloadSummaryHandler_def getWorkloadsData_def dash_workloads [OF js] dash_recs Let_def)
  have "is_num defaultCPUPricePerCorePerHour" "is_num defaultMemoryPricePerGBPerHour"
    unfolding defaultCPUPricePerCorePerHour_def defaultMemoryPricePerGBPerHour_def by (rule small_lit_num; simp)+
  then have "map wd_WorkloadID (su_WorkloadDetails d) = map wk_WorkloadID (stated [dash_workload])"
    by (intro conjunct1 [OF summary_dollars [OF d dash_workloads [OF js]]]) (simp_all add: dash_pricing)
  then have "map wd_WorkloadID (su_WorkloadDetails d) = [GetWorkloadKey ''Deployment'' ''ns'' ''web'']"
    by (simp add: stated_def dash_workload_def)
  with d show ?thesis by (intro exI conjI)
qed


text \<open>The overview counts every workload with statistics exactly once: as one that cannot be optimised (autoscaled,
  excluded, or with a GPU), as one that is optimised because it is enabled, or as one that is left out.\<close>

lemma overview_counts:
  assumes "OverviewHandler oob srt ssrt now fw fr fs fsn client c db = Inr resp" "GetWorkloads srt fw c db = Inr workloads"
  shows "ob_NonOptimizable (oa_Adoption (or_Coverage resp)) =
      int (length (filter (\<lambda>w. \<exists>s. wk_Stat w = Some s \<and> cannot_optimize s) workloads)) \<and>
    ob_Optimizable (oa_Adoption (or_Coverage resp)) =
      int (length (filter (\<lambda>w. \<exists>s. wk_Stat w = Some s \<and> \<not> cannot_optimize s \<and> EffectiveEnabled w \<and> \<not> IsGPUWorkload s) workloads)) \<and>
    ob_Total (oa_Adoption (or_Coverage resp)) = int (length (stated workloads)) \<and>
    ob_NonOptimizable (oa_Adoption (or_Coverage resp)) + ob_Optimizable (oa_Adoption (or_Coverage resp)) +
      ob_OptimizableButExcluded (oa_Adoption (or_Coverage resp)) = ob_Total (oa_Adoption (or_Coverage resp))"
proof -
  obtain data where d: "getWorkloadsData srt fw fr c db = Inr data"
      "oa_Adoption (or_Coverage resp) = (let cv = fold cover (da_details data) no_coverage in
        \<lparr>ob_Optimizable = cv_optimizable cv, ob_NonOptimizable = cv_nonOptimizable cv,
         ob_OptimizableButExcluded = cv_excluded cv, ob_Total = int (length (da_details data))\<rparr>)"
    using assms(1) by (auto simp: OverviewHandler_def Let_def split: sum.splits)
  obtain recs where r: "da_details data = map (detail_of recs) (stated workloads)"
    using getWorkloadsDataE [OF d(1)] assms(2) by (metis Inr_inject)
  let ?ds = "map (detail_of recs) (stated workloads)"
  have n: "length (filter isNonOptimizableWorkload ?ds) =
      length (filter (\<lambda>w. \<exists>s. wk_Stat w = Some s \<and> cannot_optimize s) workloads)"
    by (rule count_stated) (rule nonOptimizable_stored)
  have o: "length (filter (\<lambda>d. \<not> isNonOptimizableWorkload d \<and> cf_CruiseEnabled (wd_Config d)) ?ds) =
      length (filter (\<lambda>w. \<exists>s. wk_Stat w = Some s \<and> \<not> cannot_optimize s \<and> EffectiveEnabled w \<and> \<not> IsGPUWorkload s) workloads)"
    by (rule count_stated) (simp add: nonOptimizable_stored detail_of_fields)
  have "length (filter isNonOptimizableWorkload ?ds) +
      length (filter (\<lambda>d. \<not> isNonOptimizableWorkload d \<and> cf_CruiseEnabled (wd_Config d)) ?ds) +
      length (filter (\<lambda>d. \<not> isNonOptimizableWorkload d \<and> \<not> cf_CruiseEnabled (wd_Config d)) ?ds) = length ?ds"
    by (rule counts_partition)
  then have "length (filter (\<lambda>w. \<exists>s. wk_Stat w = Some s \<and> cannot_optimize s) workloads) +
      length (filter (\<lambda>w. \<exists>s. wk_Stat w = Some s \<and> \<not> cannot_optimize s \<and> EffectiveEnabled w \<and> \<not> IsGPUWorkload s) workloads) +
      length (filter (\<lambda>d. \<not> isNonOptimizableWorkload d \<and> \<not> cf_CruiseEnabled (wd_Config d)) ?ds) = length ?ds"
    unfolding n o .
  then show ?thesis
    unfolding d(2) r Let_def fold_cover no_coverage_def n o by simp
qed

lemma dash_snapshots: "getClusterResourcesFromDatabase insertion_sort 0 (\<lambda>_. None) ''c'' (Some (dash_db js)) =
    getClusterResourcesFromDatabase insertion_sort 0 (\<lambda>_. None) ''c'' None"
  by (simp add: getClusterResourcesFromDatabase_def LoadSnapshotsInRange_def wrap_result_def GetSnapshotsInRange_def
      dash_db_def sample_store_def empty_db_def insertion_sort_def)

lemma overview_counts_witness:
  "\<exists>db resp. OverviewHandler (\<lambda>_. 0) (\<lambda>f rows. rows) insertion_sort 0 (\<lambda>_. None) (\<lambda>_. None) (\<lambda>_. None) (\<lambda>_. None) None
       ''c'' db = Inr resp \<and>
     ob_Total (oa_Adoption (or_Coverage resp)) = 1 \<and> ob_Optimizable (oa_Adoption (or_Coverage resp)) = 0"
proof -
  obtain js where js: "dec_WorkloadStat js = Some dash_stat" using dash_json by blast
  obtain d where d: "OverviewHandler (\<lambda>_. 0) (\<lambda>f rows. rows) insertion_sort 0 (\<lambda>_. None) (\<lambda>_. None) (\<lambda>_. None) (\<lambda>_. None)
      None ''c'' (dash_db js) = Inr d"
    by (simp add: OverviewHandler_def getWorkloadsData_def dash_workloads [OF js] dash_recs Let_def)
  have "\<not> EffectiveEnabled dash_workload" by (simp add: EffectiveEnabled_def OverridesWithDefaults_def dash_workload_def)
  then have "ob_Total (oa_Adoption (or_Coverage d)) = 1 \<and> ob_Optimizable (oa_Adoption (or_Coverage d)) = 0"
    using overview_counts [OF d dash_workloads [OF js]] by (simp add: stated_def dash_workload_def)
  with d show ?thesis by (intro exI conjI) auto
qed

text \<open>The history answers only ranges of at most 90 days, with five points for every stored snapshot of the cluster in
  the range, or three for the costs, in the order of time.\<close>

lemma timeline_points:
  assumes "GetOverviewHistoricalTimelineHandler srt fsn fs c metricName start stop storage = Inr points" "go_sort srt"
  shows "\<exists>s e snapshots db. parseUTCTimestamp start = Some s \<and> parseUTCTimestamp stop = Some e \<and> storage = Some db \<and>
    s \<le> e \<and> e \<le> s + days 90 \<and> LoadSnapshotsInRange srt fsn c s e db = Inr snapshots \<and>
    length points = (if metricName = ''cost'' then 3 else 5) * length snapshots \<and> sorted (map ht_Timestamp points) \<and>
    (\<forall>p \<in> set points. s \<le> ht_Timestamp p \<and> ht_Timestamp p \<le> e \<and>
       (\<exists>r \<in> set (db_snapshots db). sr_ClusterID r = c \<and> sr_CreatedAt r = ht_Timestamp p))"
proof -
  obtain s e db snapshots where
    r: "parseUTCTimestamp start = Some s" "parseUTCTimestamp stop = Some e" "storage = Some db" "s \<le> e"
      "e - s \<le> 90 * 24 * Hour" "LoadSnapshotsInRange srt fsn c s e db = Inr snapshots"
    using assms(1) by (auto simp: GetOverviewHistoricalTimelineHandler_def split: if_splits option.splits sum.splits)
  obtain f where f: "points = concat (map f snapshots)"
      "\<And>x. length (f x) = (if metricName = ''cost'' then 3 else 5)" "\<And>x y. y \<in> set (f x) \<Longrightarrow> ht_Timestamp y = (snd \<circ> snd) x"
  proof (cases "metricName = ''cost''")
    case True
    then show thesis
      using assms(1) r that [of "\<lambda>(c', data, t). cost_points (getEffectivePricing fs c (Some db)) data t"]
      by (auto simp: GetOverviewHistoricalTimelineHandler_def Let_def points_of_snapshot split: if_splits)
  next
    case False
    then show thesis
      using assms(1) r that [of "\<lambda>(c', data, t). resource_points (if metricName = ''cpu'' then sd_CPU data else sd_Memory data) t"]
      by (auto simp: GetOverviewHistoricalTimelineHandler_def Let_def points_of_snapshot split: if_splits)
  qed
  note load = snapshots_loaded [OF r(6) assms(2)]
  have "length points = (if metricName = ''cost'' then 3 else 5) * length snapshots"
    by (simp add: f(1,2) length_concat comp_def sum_list_triv)
  moreover have "sorted (map ht_Timestamp points)"
    unfolding f(1) using load f(3) by (intro sorted_points [of "snd \<circ> snd"]) auto
  moreover have "\<forall>p \<in> set points. s \<le> ht_Timestamp p \<and> ht_Timestamp p \<le> e \<and>
      (\<exists>r \<in> set (db_snapshots db). sr_ClusterID r = c \<and> sr_CreatedAt r = ht_Timestamp p)"
  proof
    fix p assume "p \<in> set points"
    then obtain x where x: "x \<in> set snapshots" "ht_Timestamp p = (snd \<circ> snd) x" using f(1,3) by auto
    have "(snd \<circ> snd) x \<in> {sr_CreatedAt r |r. r \<in> set (db_snapshots db) \<and> sr_ClusterID r = c \<and> s \<le> sr_CreatedAt r \<and>
        sr_CreatedAt r \<le> e}" using conjunct2 [OF load] x(1) by auto
    then show "s \<le> ht_Timestamp p \<and> ht_Timestamp p \<le> e \<and>
        (\<exists>r \<in> set (db_snapshots db). sr_ClusterID r = c \<and> sr_CreatedAt r = ht_Timestamp p)" using x(2) by auto
  qed
  ultimately show ?thesis using r by (auto simp: days_def)
qed


text \<open>One snapshot is in the range, one is not.\<close>

definition history_db :: Database where
  "history_db = empty_db\<lparr>db_snapshots :=
     [\<lparr>sr_ID = 1, sr_ClusterID = ''c'', sr_Data = JNull, sr_CreatedAt = 1700000050000000000\<rparr>,
      \<lparr>sr_ID = 2, sr_ClusterID = ''c'', sr_Data = JNull, sr_CreatedAt = 1700000200000000000\<rparr>]\<rparr>"

lemma timeline_points_witness:
  "\<exists>points. GetOverviewHistoricalTimelineHandler insertion_sort (\<lambda>_. None) (\<lambda>_. None) ''c'' ''cpu'' ''1700000000''
      ''1700000100'' (Some history_db) = Inr points \<and> length points = 5 \<and> sorted (map ht_Timestamp points)"
proof -
  have p: "parseUTCTimestamp ''1700000000'' = Some (1700000000000000000)"
    "parseUTCTimestamp ''1700000100'' = Some (1700000100000000000)"
    by (simp_all add: parseUTCTimestamp_def Atoi_def decimal_def decimal_digit_def Let_def)
  obtain data where l: "LoadSnapshotsInRange insertion_sort (\<lambda>_. None) ''c'' (1700000000000000000) (1700000100000000000) history_db =
      Inr [(''c'', data, 1700000050000000000)]"
    by (simp add: LoadSnapshotsInRange_def wrap_result_def GetSnapshotsInRange_def history_db_def insertion_sort_def)
  obtain points where run: "GetOverviewHistoricalTimelineHandler insertion_sort (\<lambda>_. None) (\<lambda>_. None) ''c'' ''cpu'' ''1700000000''
      ''1700000100'' (Some history_db) = Inr points"
    by (simp add: GetOverviewHistoricalTimelineHandler_def p Hour_def l)
  have "length points = 5 \<and> sorted (map ht_Timestamp points)"
    using timeline_points [OF run insertion.go_sort_axioms] p l by auto
  with run show ?thesis by blast
qed

text \<open>The list of workloads divides by the share of the allocatable resources that is requested. When Prometheus
  answers the query for the allocatable resources and not that for the requested ones, the share is
  zero, so that the costs of the workloads are no numbers and the response cannot be encoded. The
  history guards against it.\<close>

lemma mag_val_one: "mag_val (mk_mag 1) = 1"
  using val_num_lit [of 1] by simp

lemma summary_share_zero:
  "request_ratio \<lparr>cr_Utilised = lit 0, cr_Requested = lit 0, cr_Allocatable = lit 1\<rparr> = lit 0"
  "fdiv (lit 1) (lit 0) = Infty False" "fdiv (lit 0) (lit 0) = NaN"
  by (simp_all add: request_ratio_def f64_eval) (simp_all add: fzero_eq lit_num val_num_lit mag_val_one)

lemma timeline_ratio_positive:
  "timeline_ratio m = lit 1 \<or> flt (lit 0) (sm_CurrentRequested m) \<and> flt (lit 0) (sm_CurrentAllocatable m)"
  by (simp add: timeline_ratio_def)


end
