(* ===== verification/WorkloadDetails.thy ===== *)
theory WorkloadDetails
  imports Dashboard "HOL-Library.List_Lexorder" "HOL-Library.Char_ord"
begin

text \<open>
  The page of one workload, \<^verbatim>\<open>pkg/handlers/workloaddetail.go\<close>: its pods and containers with what they
  request and what is recommended, from the stored statistics and recommendations. The map of the
  pods is an association list in the order of insertion; the response has the pods sorted by name.
\<close>

section \<open>The response\<close>

record ContainerDetail =
  cd_Container :: string
  cd_WorkloadCpuRequest :: float64
  cd_RecomCpuRequest :: float64
  cd_WorkloadMemRequest :: float64
  cd_RecomMemRequest :: float64
  cd_CurrentCpuRequest :: float64
  cd_CurrentMemRequest :: float64

record PodDetail =
  pd_PodName :: string
  pd_NodeName :: "string option"
  pd_Containers :: "ContainerDetail list"

record WorkloadDetailResponse =
  wl_Cluster :: string
  wl_Namespace :: string
  wl_Workload :: string
  wl_Type :: string
  wl_CurrentCpuRequest :: float64
  wl_CurrentCpuLimit :: float64
  wl_CurrentMemRequest :: float64
  wl_CurrentMemLimit :: float64
  wl_CurrentPodAvgCPU :: float64
  wl_CurrentPodAvgMemory :: float64
  wl_PotentialCpuSavings :: float64
  wl_PotentialMemSavings :: float64
  wl_Pods :: "PodDetail list"

section \<open>Rows\<close>

record rowWithValues =
  rv_row :: ColumnRow
  rv_rec :: PodResourceRecommendation
  rv_current :: PodCurrentResources
  rv_cpuReq :: float64
  rv_memReq :: float64
  rv_cpuRec :: float64
  rv_memRec :: float64

text \<open>Rows that cannot be parsed, and rows of containers the statistics do not know, are left out. Without a
  recommendation the request stands for it.\<close>

definition parse_row :: "WorkloadStat \<Rightarrow> ColumnRow \<Rightarrow> rowWithValues option" where
  "parse_row stat row = do {
     rec \<leftarrow> (case cw_Recommendation row of
        EmptyText \<Rightarrow> Some zero_PodResourceRecommendation | Unparsed _ \<Rightarrow> None | Holds r \<Rightarrow> Some r);
     orig \<leftarrow> GetOriginalContainerResource stat (cw_Container row);
     let cpuReq = oc_CPURequest orig;
     let memReq = oc_MemoryRequest orig;
     let (cpuRec, memRec) = (if cw_Recommendation row = EmptyText then (cpuReq, memReq)
                             else (rc_CPURequest rec, rc_MemoryRequest rec));
     Some \<lparr>rv_row = row, rv_rec = rec, rv_current = current_of (cw_Current row), rv_cpuReq = cpuReq,
           rv_memReq = memReq, rv_cpuRec = cpuRec, rv_memRec = memRec\<rparr> }"

definition container_detail :: "rowWithValues \<Rightarrow> ContainerDetail" where
  "container_detail p =
     \<lparr>cd_Container = cw_Container (rv_row p), cd_WorkloadCpuRequest = thousandths (rv_cpuReq p),
      cd_RecomCpuRequest = thousandths (rv_cpuRec p), cd_WorkloadMemRequest = mathRound (rv_memReq p),
      cd_RecomMemRequest = mathRound (rv_memRec p), cd_CurrentCpuRequest = pc_CPURequest (rv_current p),
      cd_CurrentMemRequest = pc_MemoryRequest (rv_current p)\<rparr>"

definition row_node :: "ColumnRow \<Rightarrow> string option" where
  "row_node row = (if cw_NodeName row \<noteq> '''' then Some (cw_NodeName row) else None)"

text \<open>One row goes into the map of the pods: a container that is there already is skipped.\<close>

definition add_row :: "rowWithValues \<Rightarrow> (string \<times> PodDetail) list \<Rightarrow> (string \<times> PodDetail) list" where
  "add_row p podMap =
     (let row = rv_row p;
          pod = (case map_of podMap (cw_Pod row) of
              None \<Rightarrow> \<lparr>pd_PodName = cw_Pod row, pd_NodeName = row_node row, pd_Containers = []\<rparr>
            | Some pod \<Rightarrow> pod);
          pod = (if pd_NodeName pod = None then pod\<lparr>pd_NodeName := row_node row\<rparr> else pod);
          pod = (if list_ex (\<lambda>co. cd_Container co = cw_Container row) (pd_Containers pod) then pod
                 else pod\<lparr>pd_Containers := pd_Containers pod @ [container_detail p]\<rparr>)
      in AList.update (cw_Pod row) pod podMap)"

definition pods_of_rows :: "rowWithValues list \<Rightarrow> PodDetail list" where
  "pods_of_rows parsed =
     (let podMap = fold add_row parsed []
      in map (\<lambda>name. the (map_of podMap name)) (sort (map fst podMap)))"

section \<open>The handler\<close>

text \<open>The first workload of that name that is not one with a GPU.\<close>

definition find_workload :: "string \<Rightarrow> string \<Rightarrow> WorkloadInCluster list \<Rightarrow> (string \<times> WorkloadStat) option" where
  "find_workload namespace workloadName workloads =
     map_option (\<lambda>w. (wk_WorkloadID w, the (wk_Stat w)))
       (find (\<lambda>w. case wk_Stat w of None \<Rightarrow> False
          | Some s \<Rightarrow> \<not> IsGPUWorkload s \<and> ws_Namespace s = namespace \<and> ws_Name s = workloadName) workloads)"

definition total_limits :: "WorkloadStat \<Rightarrow> float64 \<times> float64" where
  "total_limits stat =
     foldl (\<lambda>(cpu, mem) r. (fadd cpu (oc_CPULimit r), fadd mem (oc_MemoryLimit r))) (lit 0, lit 0)
       (ws_OriginalContainerResources stat)"

definition with_rows :: "WorkloadStat \<Rightarrow> ColumnRow list \<Rightarrow> WorkloadDetailResponse \<Rightarrow> WorkloadDetailResponse" where
  "with_rows stat rows resp =
     (let parsed = List.map_filter (parse_row stat) rows;
          avg = aggregatePodCurrentsForWorkload (map rv_current parsed) stat;
          cpuDiff = foldl (\<lambda>s p. fadd s (fsub (rv_cpuReq p) (rv_cpuRec p))) (lit 0) parsed;
          memDiff = foldl (\<lambda>s p. fadd s (fsub (rv_memReq p) (rv_memRec p))) (lit 0) parsed
      in resp\<lparr>wl_CurrentPodAvgCPU := thousandths (pc_CPURequest avg),
              wl_CurrentPodAvgMemory := mathRound (pc_MemoryRequest avg),
              wl_PotentialCpuSavings := thousandths cpuDiff, wl_PotentialMemSavings := mathRound memDiff,
              wl_Pods := pods_of_rows parsed\<rparr>)"

definition HandleWorkloadDetail ::
    "row_sorter \<Rightarrow> faults \<Rightarrow> faults \<Rightarrow> string \<Rightarrow> string \<Rightarrow> string \<Rightarrow> Database \<Rightarrow> WorkloadDetailResponse response" where
  "HandleWorkloadDetail srt fault_workloads fault_recs clusterID namespace workloadName db =
     (case GetWorkloads srt fault_workloads clusterID db of
        Inl e \<Rightarrow> Inl (500, ''Failed to get workloads for '' @ clusterID @ '': '' @ store_message e)
      | Inr workloads \<Rightarrow>
          (case find_workload namespace workloadName workloads of
             None \<Rightarrow> Inl (404, ''workload not found'')
           | Some (workloadID, stat) \<Rightarrow>
               (case LoadWorkloadRecommendations fault_recs clusterID workloadID db of
                  Inl e \<Rightarrow> Inl (500, ''Failed to get pod recommendations for workload: '' @ store_message e)
                | Inr rows \<Rightarrow>
                    let (cpuLimit, memLimit) = total_limits stat;
                        resp = \<lparr>wl_Cluster = clusterID, wl_Namespace = namespace, wl_Workload = workloadName,
                          wl_Type = ws_Kind stat, wl_CurrentCpuRequest = thousandths (CalculateTotalCPURequest stat),
                          wl_CurrentCpuLimit = thousandths cpuLimit,
                          wl_CurrentMemRequest = mathRound (CalculateTotalMemoryRequest stat),
                          wl_CurrentMemLimit = mathRound memLimit, wl_CurrentPodAvgCPU = lit 0,
                          wl_CurrentPodAvgMemory = lit 0, wl_PotentialCpuSavings = lit 0,
                          wl_PotentialMemSavings = lit 0, wl_Pods = []\<rparr>
                    in Inr (if length rows = 0 then resp else with_rows stat (map column_row rows) resp))))"

section \<open>What the page shows\<close>

text \<open>The first row of every container of a list of rows.\<close>

definition firsts :: "('a \<Rightarrow> 'b) \<Rightarrow> 'a list \<Rightarrow> 'a list" where
  "firsts f xs = fold (\<lambda>x acc. if f x \<in> f ` set acc then acc else acc @ [x]) xs []"

lemma firsts_simps [simp]:
  "firsts f [] = []"
  "firsts f (xs @ [x]) = (if f x \<in> f ` set (firsts f xs) then firsts f xs else firsts f xs @ [x])"
  by (simp_all add: firsts_def)

lemma firsts_distinct: "distinct (map f (firsts f xs))"
  by (induction xs rule: rev_induct) auto

lemma firsts_keys: "f ` set (firsts f xs) = f ` set xs"
  by (induction xs rule: rev_induct) auto

abbreviation row_pod :: "rowWithValues \<Rightarrow> string" where "row_pod p \<equiv> cw_Pod (rv_row p)"
abbreviation row_container :: "rowWithValues \<Rightarrow> string" where "row_container p \<equiv> cw_Container (rv_row p)"

definition pods_ok :: "rowWithValues list \<Rightarrow> (string \<times> PodDetail) list \<Rightarrow> bool" where
  "pods_ok ps m \<longleftrightarrow>
     distinct (map fst m) \<and> fst ` set m = row_pod ` set ps \<and>
     (\<forall>k pod. map_of m k = Some pod \<longrightarrow> pd_PodName pod = k \<and>
        pd_Containers pod = map container_detail (firsts row_container (filter (\<lambda>p. row_pod p = k) ps)))"

lemma container_listed:
  "list_ex (\<lambda>co. cd_Container co = c) (map container_detail ps) \<longleftrightarrow> c \<in> row_container ` set ps"
  by (auto simp: list_ex_iff container_detail_def)

lemma no_rows: "map_of m k = None \<Longrightarrow> pods_ok ps m \<Longrightarrow> filter (\<lambda>p. row_pod p = k) ps = []"
  by (auto simp: pods_ok_def map_of_eq_None_iff filter_empty_conv)

lemma add_row_ok:
  assumes "pods_ok ps m"
  shows "pods_ok (ps @ [p]) (add_row p m)"
proof -
  define old where "old = (case map_of m (row_pod p) of
      None \<Rightarrow> \<lparr>pd_PodName = row_pod p, pd_NodeName = row_node (rv_row p), pd_Containers = []\<rparr> | Some pod \<Rightarrow> pod)"
  define L where "L = firsts row_container (filter (\<lambda>q. row_pod q = row_pod p) ps)"
  have old: "pd_PodName old = row_pod p" "pd_Containers old = map container_detail L"
    using assms no_rows [OF _ assms, of "row_pod p"]
    by (auto simp: old_def L_def pods_ok_def split: option.split)
  obtain pod where m': "add_row p m = AList.update (row_pod p) pod m" and pod: "pd_PodName pod = row_pod p"
      "pd_Containers pod = (if row_container p \<in> row_container ` set L then map container_detail L
        else map container_detail (L @ [p]))"
    using that old unfolding add_row_def Let_def old_def [symmetric] container_listed [symmetric]
    by (auto split: if_splits)
  show ?thesis
    unfolding m' pods_ok_def update_conv' using assms pod
    by (auto simp: pods_ok_def L_def distinct_update dom_update update_conv' dom_map_of_conv_image_fst [symmetric])
qed

lemma pods_ok_fold: "pods_ok ps (fold add_row ps [])"
  by (induction ps rule: rev_induct) (auto simp: pods_ok_def [of "[]"] intro: add_row_ok)

lemma sort_names: "distinct xs \<Longrightarrow> sort xs = sorted_list_of_set (set xs)" for xs :: "string list"
  by (simp add: sorted_list_of_set_sort_remdups distinct_remdups_id)

lemma pods_of_rows_spec:
  "map pd_PodName (pods_of_rows ps) = sorted_list_of_set (row_pod ` set ps) \<and>
   (\<forall>pod \<in> set (pods_of_rows ps). pd_Containers pod =
      map container_detail (firsts row_container (filter (\<lambda>p. row_pod p = pd_PodName pod) ps)))"
proof -
  let ?m = "fold add_row ps []"
  note ok = pods_ok_fold [of ps]
  have pod: "\<exists>pod. map_of ?m k = Some pod \<and> pd_PodName pod = k \<and> pd_Containers pod =
      map container_detail (firsts row_container (filter (\<lambda>p. row_pod p = k) ps))" if "k \<in> set (sort (map fst ?m))" for k
    using that ok by (cases "map_of ?m k") (auto simp: pods_ok_def map_of_eq_None_iff)
  have "map (pd_PodName \<circ> (\<lambda>name. the (map_of ?m name))) (sort (map fst ?m)) = sort (map fst ?m)"
    using pod by (intro map_idI) fastforce
  also have "\<dots> = sorted_list_of_set (row_pod ` set ps)"
    using ok by (simp add: pods_ok_def sort_names)
  finally show ?thesis using pod by (fastforce simp: pods_of_rows_def Let_def)
qed


lemma parse_stored_row:
  "parse_row stat (column_row r) = map_option (\<lambda>orig.
     \<lparr>rv_row = column_row r, rv_rec = rw_Recommendation r, rv_current = current_of (cw_Current (column_row r)),
      rv_cpuReq = oc_CPURequest orig, rv_memReq = oc_MemoryRequest orig,
      rv_cpuRec = rc_CPURequest (rw_Recommendation r), rv_memRec = rc_MemoryRequest (rw_Recommendation r)\<rparr>)
     (GetOriginalContainerResource stat (rw_Container r))"
  by (simp add: parse_row_def column_row_def map_option_bind Let_def map_option_case split: option.split)

lemma column_row_fields [simp]: "cw_Pod (column_row r) = rw_Pod r" "cw_Container (column_row r) = rw_Container r"
  by (simp_all add: column_row_def)

text \<open>The rows of containers that the statistics know.\<close>

definition known :: "WorkloadStat \<Rightarrow> PodResourceRecommendationRow \<Rightarrow> bool" where
  "known stat r \<longleftrightarrow> GetOriginalContainerResource stat (rw_Container r) \<noteq> None"

lemma in_map_filter: "y \<in> set (List.map_filter f xs) \<longleftrightarrow> (\<exists>x \<in> set xs. f x = Some y)"
  by (induction xs) (auto simp: List.map_filter_simps split: option.split)

lemma parsed_rows:
  "p \<in> set (List.map_filter (parse_row stat) (map column_row rows)) \<longleftrightarrow>
     (\<exists>r \<in> set rows. known stat r \<and> parse_row stat (column_row r) = Some p)"
  unfolding in_map_filter by (auto simp: known_def parse_stored_row)

lemma parsed_row_of:
  "parse_row stat (column_row r) = Some p \<Longrightarrow> row_pod p = rw_Pod r \<and> row_container p = rw_Container r"
  by (auto simp: parse_stored_row)

lemma known_parsed: "known stat r \<Longrightarrow> \<exists>p. parse_row stat (column_row r) = Some p"
  by (auto simp: known_def parse_stored_row)

lemma parsed_pods:
  "row_pod ` set (List.map_filter (parse_row stat) (map column_row rows)) = {rw_Pod r |r. r \<in> set rows \<and> known stat r}"
  (is "?l = ?r")
proof
  show "?l \<subseteq> ?r" using parsed_row_of parsed_rows by fastforce
  show "?r \<subseteq> ?l"
  proof
    fix x assume "x \<in> ?r"
    then obtain r where r: "x = rw_Pod r" "r \<in> set rows" "known stat r" by blast
    then obtain p where "parse_row stat (column_row r) = Some p" using known_parsed by blast
    then show "x \<in> ?l" using r parsed_row_of parsed_rows by (metis imageI)
  qed
qed

lemma parsed_containers:
  "row_container ` set (filter (\<lambda>p. row_pod p = k) (List.map_filter (parse_row stat) (map column_row rows))) =
     {rw_Container r |r. r \<in> set rows \<and> known stat r \<and> rw_Pod r = k}" (is "?l = ?r")
proof
  show "?l \<subseteq> ?r" using parsed_row_of parsed_rows by fastforce
  show "?r \<subseteq> ?l"
  proof
    fix x assume "x \<in> ?r"
    then obtain r where r: "x = rw_Container r" "r \<in> set rows" "known stat r" "rw_Pod r = k" by blast
    then obtain p where p: "parse_row stat (column_row r) = Some p" using known_parsed by blast
    then have "p \<in> set (filter (\<lambda>p. row_pod p = k) (List.map_filter (parse_row stat) (map column_row rows)))"
      using r parsed_row_of [OF p] parsed_rows [of p stat rows] by auto
    then show "x \<in> ?l" using r parsed_row_of [OF p] by (metis imageI)
  qed
qed

text \<open>What a container shows comes from a stored row of it and from its original resources.\<close>

definition shows_row :: "WorkloadStat \<Rightarrow> ContainerDetail \<Rightarrow> PodResourceRecommendationRow \<Rightarrow> bool" where
  "shows_row stat co r \<longleftrightarrow>
     (\<exists>orig. GetOriginalContainerResource stat (rw_Container r) = Some orig \<and> cd_Container co = rw_Container r \<and>
        cd_WorkloadCpuRequest co = thousandths (oc_CPURequest orig) \<and>
        cd_WorkloadMemRequest co = mathRound (oc_MemoryRequest orig) \<and>
        cd_RecomCpuRequest co = thousandths (rc_CPURequest (rw_Recommendation r)) \<and>
        cd_RecomMemRequest co = mathRound (rc_MemoryRequest (rw_Recommendation r)) \<and>
        (case rw_Current r of
           None \<Rightarrow> cd_CurrentCpuRequest co = lit 0 \<and> cd_CurrentMemRequest co = lit 0
         | Some current \<Rightarrow> cd_CurrentCpuRequest co = pc_CPURequest current \<and>
             cd_CurrentMemRequest co = pc_MemoryRequest current))"

lemma firsts_subset: "set (firsts f xs) \<subseteq> set xs"
  by (induction xs rule: rev_induct) auto

definition pods_shown :: "WorkloadStat \<Rightarrow> PodResourceRecommendationRow list \<Rightarrow> PodDetail list \<Rightarrow> bool" where
  "pods_shown stat rows pods \<longleftrightarrow>
     map pd_PodName pods = sorted_list_of_set {rw_Pod r |r. r \<in> set rows \<and> known stat r} \<and>
     (\<forall>pod \<in> set pods. distinct (map cd_Container (pd_Containers pod)) \<and>
        cd_Container ` set (pd_Containers pod) =
          {rw_Container r |r. r \<in> set rows \<and> known stat r \<and> rw_Pod r = pd_PodName pod} \<and>
        (\<forall>co \<in> set (pd_Containers pod). \<exists>r \<in> set rows. rw_Pod r = pd_PodName pod \<and> shows_row stat co r))"

lemma pods_of_rows_shown:
  "pods_shown stat rows (pods_of_rows (List.map_filter (parse_row stat) (map column_row rows)))"
proof -
  let ?ps = "List.map_filter (parse_row stat) (map column_row rows)"
  note spec = pods_of_rows_spec [of ?ps]
  have names: "map cd_Container (map container_detail qs) = map row_container qs" for qs
    by (simp add: container_detail_def)
  have "distinct (map cd_Container (pd_Containers pod)) \<and> cd_Container ` set (pd_Containers pod) =
      {rw_Container r |r. r \<in> set rows \<and> known stat r \<and> rw_Pod r = pd_PodName pod} \<and>
      (\<forall>co \<in> set (pd_Containers pod). \<exists>r \<in> set rows. rw_Pod r = pd_PodName pod \<and> shows_row stat co r)"
    if pod: "pod \<in> set (pods_of_rows ?ps)" for pod
  proof -
    let ?qs = "firsts row_container (filter (\<lambda>p. row_pod p = pd_PodName pod) ?ps)"
    have cs: "pd_Containers pod = map container_detail ?qs" using spec pod by blast
    have "cd_Container ` set (pd_Containers pod) = row_container ` set ?qs"
      using names [of ?qs] by (metis cs list.set_map)
    moreover have "\<exists>r \<in> set rows. rw_Pod r = pd_PodName pod \<and> shows_row stat co r" if co: "co \<in> set (pd_Containers pod)" for co
    proof -
      obtain p where p: "co = container_detail p" "p \<in> set ?ps" "row_pod p = pd_PodName pod"
        using co firsts_subset [of row_container "filter (\<lambda>p. row_pod p = pd_PodName pod) ?ps"]
        unfolding cs by auto
      then obtain r where r: "r \<in> set rows" "parse_row stat (column_row r) = Some p" unfolding parsed_rows by blast
      have "shows_row stat co r" using r(2) unfolding parse_stored_row
        by (auto simp: p(1) shows_row_def container_detail_def column_row_def zero_PodCurrentResources_def
            split: option.split)
      then show ?thesis using r p(3) parsed_row_of [OF r(2)] by auto
    qed
    moreover have "distinct (map cd_Container (pd_Containers pod))"
      unfolding cs names by (rule firsts_distinct)
    ultimately show ?thesis unfolding firsts_keys parsed_containers by blast
  qed
  then show ?thesis using spec by (simp add: pods_shown_def parsed_pods)
qed

section \<open>Property\<close>

text \<open>C31. The page of a workload shows, of the workload in the store that has the name and no GPU, exactly
  the pods with a stored recommendation for a container that the workload's statistics know, sorted
  and each once, with each of these containers once. For a container it shows the requests the
  workload was created with, and from one and the same row stored for it the recommended requests and
  the current ones (zero when none are stored). Rows of containers that the statistics do not know are left out. It answers
  "not found" only when there is no such workload.\<close>

theorem workload_detail_pods:
  assumes "GetWorkloads srt fw c db = Inr workloads" "fr 0 = None"
  shows "case HandleWorkloadDetail srt fw fr c namespace name db of
      Inl (code, _) \<Rightarrow> code = 404 \<and> \<not> (\<exists>w \<in> set workloads. \<exists>s. wk_Stat w = Some s \<and> \<not> IsGPUWorkload s \<and>
        ws_Namespace s = namespace \<and> ws_Name s = name)
    | Inr resp \<Rightarrow> \<exists>w \<in> set workloads. \<exists>stat. wk_Stat w = Some stat \<and> \<not> IsGPUWorkload stat \<and>
        ws_Namespace stat = namespace \<and> ws_Name stat = name \<and>
        pods_shown stat (map rr_Row (filter (\<lambda>r. rr_ClusterID r = c \<and> rw_WorkloadID (rr_Row r) = wk_WorkloadID w)
          (db_recommendations db))) (wl_Pods resp)"
proof (cases "find_workload namespace name workloads")
  case None
  then have "\<not> (\<exists>w \<in> set workloads. \<exists>s. wk_Stat w = Some s \<and> \<not> IsGPUWorkload s \<and>
      ws_Namespace s = namespace \<and> ws_Name s = name)"
    by (fastforce simp: find_workload_def find_None_iff split: option.splits)
  then show ?thesis using assms(1) None by (simp add: HandleWorkloadDetail_def)
next
  case (Some ws)
  then obtain w stat where w: "ws = (wk_WorkloadID w, stat)" "w \<in> set workloads" "wk_Stat w = Some stat"
      "\<not> IsGPUWorkload stat" "ws_Namespace stat = namespace" "ws_Name stat = name"
    by (auto simp: find_workload_def dest!: find_in split: option.splits)
  let ?rows = "map rr_Row (filter (\<lambda>r. rr_ClusterID r = c \<and> rw_WorkloadID (rr_Row r) = wk_WorkloadID w)
    (db_recommendations db))"
  have l: "LoadWorkloadRecommendations fr c (wk_WorkloadID w) db = Inr ?rows"
    using assms(2) by (simp add: LoadWorkloadRecommendations_def wrap_result_def GetPodRecommendationsForWorkload_def)
  have "pods_shown stat [] []" using pods_of_rows_shown [of stat "[]"]
    by (simp add: pods_shown_def)
  then have "\<exists>resp. HandleWorkloadDetail srt fw fr c namespace name db = Inr resp \<and> pods_shown stat ?rows (wl_Pods resp)"
    using pods_of_rows_shown [of stat ?rows]
    by (auto simp: HandleWorkloadDetail_def assms(1) Some w(1) l with_rows_def Let_def split: prod.split)
  then obtain resp where "HandleWorkloadDetail srt fw fr c namespace name db = Inr resp" "pods_shown stat ?rows (wl_Pods resp)"
    by blast
  then show ?thesis using w by (simp, intro bexI [of _ w] exI [of _ stat] conjI) simp_all
qed

lemma singleton_list: "set xs = {x} \<Longrightarrow> distinct xs \<Longrightarrow> xs = [x]"
  by (cases xs; cases "tl xs") auto

lemma workload_detail_pods_witness:
  "\<exists>db resp. HandleWorkloadDetail (\<lambda>f rows. rows) (\<lambda>_. None) (\<lambda>_. None) ''c'' ''ns'' ''web'' db = Inr resp \<and>
     map pd_PodName (wl_Pods resp) = [''web-1''] \<and> (\<forall>pod \<in> set (wl_Pods resp). map cd_Container (pd_Containers pod) = [''app''])"
proof -
  obtain js where js: "dec_WorkloadStat js = Some dash_stat" using dash_json by blast
  let ?run = "HandleWorkloadDetail (\<lambda>f rows. rows) (\<lambda>_. None) (\<lambda>_. None) ''c'' ''ns'' ''web'' (dash_db js)"
  have stat: "wk_Stat dash_workload = Some dash_stat" "\<not> IsGPUWorkload dash_stat" "ws_Namespace dash_stat = ''ns''"
    "ws_Name dash_stat = ''web''" by (simp_all add: dash_workload_def dash_stat_def sample_stat_def IsGPUWorkload_def)
  have rows: "map rr_Row (filter (\<lambda>r. rr_ClusterID r = ''c'' \<and> rw_WorkloadID (rr_Row r) = wk_WorkloadID dash_workload)
      (db_recommendations (dash_db js))) = [dash_rec]"
    by (simp add: dash_db_def dash_workload_def dash_rec_def)
  have k: "known dash_stat dash_rec" "rw_Pod dash_rec = ''web-1''" "rw_Container dash_rec = ''app''"
    by (simp_all add: known_def dash_stat_def dash_rec_def GetOriginalContainerResource_def)
  note page = workload_detail_pods [OF dash_workloads [OF js], of "\<lambda>_. None" "''ns''" "''web''"]
  have "\<exists>resp. ?run = Inr resp \<and> pods_shown dash_stat [dash_rec] (wl_Pods resp)"
  proof (cases ?run)
    case (Inl e)
    then show ?thesis using page stat by (cases e) simp
  next
    case (Inr resp)
    then show ?thesis using page stat rows by simp
  qed
  then obtain resp where resp: "?run = Inr resp" "pods_shown dash_stat [dash_rec] (wl_Pods resp)" by blast
  have names: "{rw_Pod r |r. r \<in> set [dash_rec] \<and> known dash_stat r} = {''web-1''}" using k by auto
  have pods: "map pd_PodName (wl_Pods resp) = [''web-1'']"
    using resp(2) unfolding pods_shown_def names by simp
  have "map cd_Container (pd_Containers pod) = [''app'']" if pod: "pod \<in> set (wl_Pods resp)" for pod
  proof (rule singleton_list)
    have "pd_PodName pod \<in> set (map pd_PodName (wl_Pods resp))" using pod by auto
    then have "pd_PodName pod = ''web-1''" unfolding pods by simp
    then have cs: "{rw_Container r |r. r \<in> set [dash_rec] \<and> known dash_stat r \<and> rw_Pod r = pd_PodName pod} = {''app''}"
      using k by auto
    have "\<forall>pod \<in> set (wl_Pods resp). distinct (map cd_Container (pd_Containers pod)) \<and> cd_Container ` set (pd_Containers pod) =
        {rw_Container r |r. r \<in> set [dash_rec] \<and> known dash_stat r \<and> rw_Pod r = pd_PodName pod}"
      using resp(2) unfolding pods_shown_def by blast
    from bspec [OF this pod] show "set (map cd_Container (pd_Containers pod)) = {''app''}"
      "distinct (map cd_Container (pd_Containers pod))" unfolding cs set_map by blast+
  qed
  with resp(1) pods show ?thesis by (intro exI conjI ballI)
qed

end
