(* ===== verification/Access.thy ===== *)
theory Access
  imports Dashboard
begin

text \<open>
  Who may reach which handler: the routes of the servers (\<^verbatim>\<open>pkg/server/server.go\<close>) with the
  middleware in front of them (\<^verbatim>\<open>pkg/middleware/middleware.go\<close>), the login
  (\<^verbatim>\<open>pkg/handlers/login.go\<close>), and the small handlers of \<^verbatim>\<open>handlers.go\<close>, \<^verbatim>\<open>ui.go\<close> and \<^verbatim>\<open>config.go\<close>.
  \<^verbatim>\<open>gin.BasicAuth\<close> is a parameter under its documented contract, the locale \<open>basic_auth\<close>.
\<close>

section \<open>Base 64\<close>

definition base64_alphabet :: string where
  "base64_alphabet = ''ABCDEFGHIJKLMNOPQRSTUVWXYZabcdefghijklmnopqrstuvwxyz0123456789+/''"

definition base64_digit :: "nat \<Rightarrow> char" where "base64_digit i = base64_alphabet ! (i mod 64)"

text \<open>\<^verbatim>\<open>base64.StdEncoding.EncodeToString\<close>.\<close>

fun EncodeToString :: "string \<Rightarrow> string" where
  "EncodeToString [] = []"
| "EncodeToString [a] =
     (let n = of_char a * 65536 in [base64_digit (n div 262144), base64_digit (n div 4096), CHR ''='', CHR ''=''])"
| "EncodeToString [a, b] =
     (let n = of_char a * 65536 + of_char b * 256
      in [base64_digit (n div 262144), base64_digit (n div 4096), base64_digit (n div 64), CHR ''=''])"
| "EncodeToString (a # b # c # s) =
     (let n = of_char a * 65536 + of_char b * 256 + of_char c
      in base64_digit (n div 262144) # base64_digit (n div 4096) # base64_digit (n div 64) # base64_digit n #
           EncodeToString s)"

section \<open>Requests and middleware\<close>

record AuthConfig =
  auth_Enabled :: bool
  auth_Username :: string
  auth_Password :: string

text \<open>The cluster of the path, empty when the path has none, and the header \<^verbatim>\<open>Authorization\<close>.\<close>

record request =
  rq_clusterID :: string
  rq_Authorization :: "string option"

definition SingleClusterID :: string where "SingleClusterID = ''default''"

text \<open>The manager's clients, by cluster; a single cluster manager has those of one.\<close>

definition GetClusterIDs :: "(string \<times> 'c) list \<Rightarrow> string list" where
  "GetClusterIDs clusterClients = map fst clusterClients"

definition GetClusterClients :: "string \<Rightarrow> (string \<times> 'c) list \<Rightarrow> string + 'c" where
  "GetClusterClients clusterID clusterClients =
     (case map_of clusterClients clusterID of
        None \<Rightarrow> Inl (''cluster '' @ clusterID @ '' not found'')
      | Some clients \<Rightarrow> Inr clients)"

type_synonym basic_check = "(string \<times> string) list \<Rightarrow> string option \<Rightarrow> bool"

text \<open>A middleware lets a request pass, \<open>None\<close>, or answers it.\<close>

definition AuthBasic :: "basic_check \<Rightarrow> AuthConfig \<Rightarrow> request \<Rightarrow> (nat \<times> string) option" where
  "AuthBasic check auth req =
     (if \<not> auth_Enabled auth then None
      else if auth_Username auth = '''' \<or> auth_Password auth = ''''
      then Some (503, ''server authentication is enabled but credentials are not configured'')
      else if check [(auth_Username auth, auth_Password auth)] (rq_Authorization req) then None else Some (401, ''''))"

definition AuthWebhook :: "request \<Rightarrow> (nat \<times> string) option" where
  "AuthWebhook req = None"

definition EnsureClusterExists :: "(string \<times> 'c) list \<Rightarrow> request \<Rightarrow> (nat \<times> string) option" where
  "EnsureClusterExists clusterClients req =
     (if rq_clusterID req = SingleClusterID then None
      else if rq_clusterID req = '''' then Some (400, ''Invalid cluster endpoint format'')
      else case GetClusterClients (rq_clusterID req) clusterClients of
             Inl e \<Rightarrow> Some (404, ''Cluster '' @ rq_clusterID req @ '' not found'')
           | Inr _ \<Rightarrow> None)"

section \<open>Routes\<close>

datatype api_handler =
  HandleHealth | HandleRoot | HandleLoginRequest | HandleListClusters | HandleClusterStats | GetConfigH | KillswitchH
| ListWorkloads | WorkloadSummary | WorkloadDetailH | UpdateOverrides | BatchUpdateOverrides | AuditEvents
| AuditEventsForWorkload | Overview | HistoricalTimeline | GetSettingsH | UpdateSettingsH | Preflight | TaskTrigger
| MutatingPatch | Mutate | MetricsH

datatype guard = AuthAPI | AuthWebhookGuard | EnsureCluster

record route =
  rt_Method :: string
  rt_Path :: string
  rt_Guards :: "guard list"
  rt_Handler :: api_handler

definition group :: "string \<Rightarrow> guard list \<Rightarrow> (string \<times> string \<times> api_handler) list \<Rightarrow> route list" where
  "group base guards rs =
     map (\<lambda>(m, p, h). \<lparr>rt_Method = m, rt_Path = base @ p, rt_Guards = guards, rt_Handler = h\<rparr>) rs"

definition SetupServerEngine :: "bool \<Rightarrow> route list" where
  "SetupServerEngine enableDevAPIs =
     group '''' [] [(''GET'', ''/health'', HandleHealth)] @
     group ''/api/v1'' [] [(''GET'', ''/'', HandleRoot), (''POST'', ''/auth/login'', HandleLoginRequest)] @
     group ''/api/v1'' [AuthAPI] [(''GET'', ''/clusters'', HandleListClusters)] @
     group ''/api/v1/clusters/:clusterID'' [AuthAPI, EnsureCluster]
       [(''GET'', ''/stats'', HandleClusterStats),
        (''GET'', ''/config'', GetConfigH),
        (''POST'', ''/killswitch'', KillswitchH),
        (''GET'', ''/workloads'', ListWorkloads),
        (''GET'', ''/workloads/summary'', WorkloadSummary),
        (''GET'', ''/workloads/:namespace/:workloadName/detail'', WorkloadDetailH),
        (''POST'', ''/workloads/:workloadID/overrides'', UpdateOverrides),
        (''POST'', ''/workloads/overrides'', BatchUpdateOverrides),
        (''GET'', ''/audit-events'', AuditEvents),
        (''GET'', ''/audit-events/:workloadID'', AuditEventsForWorkload),
        (''GET'', ''/ui/overview'', Overview),
        (''GET'', ''/ui/overview/historical-timeline/:metric'', HistoricalTimeline),
        (''GET'', ''/settings'', GetSettingsH),
        (''PUT'', ''/settings'', UpdateSettingsH),
        (''GET'', ''/preflight'', Preflight)] @
     (if enableDevAPIs
      then group ''/api/v1/dev/clusters/:clusterID'' [AuthAPI, EnsureCluster]
        [(''POST'', ''/tasks/:taskName/trigger'', TaskTrigger)]
      else []) @
     group ''/api/v1/webhook/clusters/:clusterID'' [AuthWebhookGuard, EnsureCluster] [(''POST'', ''/mutate'', MutatingPatch)]"

definition SetupWebhookServerEngine :: "route list" where
  "SetupWebhookServerEngine = group ''/clusters/:clusterID'' [] [(''POST'', ''/webhook/mutate'', Mutate)]"

definition SetupMetricsServerEngine :: "route list" where
  "SetupMetricsServerEngine = group '''' [] [(''GET'', ''/metrics'', MetricsH), (''GET'', ''/health'', HandleHealth)]"

fun guard_answer ::
    "basic_check \<Rightarrow> AuthConfig \<Rightarrow> (string \<times> 'c) list \<Rightarrow> request \<Rightarrow> guard \<Rightarrow> (nat \<times> string) option" where
  "guard_answer check auth clusterClients req AuthAPI = AuthBasic check auth req"
| "guard_answer check auth clusterClients req AuthWebhookGuard = AuthWebhook req"
| "guard_answer check auth clusterClients req EnsureCluster = EnsureClusterExists clusterClients req"

text \<open>The guards of a route run in order; the first that answers ends the request.\<close>

fun run_guards ::
    "basic_check \<Rightarrow> AuthConfig \<Rightarrow> (string \<times> 'c) list \<Rightarrow> request \<Rightarrow> guard list \<Rightarrow> api_handler \<Rightarrow> (nat \<times> string) + api_handler" where
  "run_guards check auth clusterClients req [] h = Inr h"
| "run_guards check auth clusterClients req (g # gs) h =
     (case guard_answer check auth clusterClients req g of
        Some answer \<Rightarrow> Inl answer
      | None \<Rightarrow> run_guards check auth clusterClients req gs h)"

definition serve ::
    "basic_check \<Rightarrow> AuthConfig \<Rightarrow> (string \<times> 'c) list \<Rightarrow> route \<Rightarrow> request \<Rightarrow> (nat \<times> string) + api_handler" where
  "serve check auth clusterClients r req = run_guards check auth clusterClients req (rt_Guards r) (rt_Handler r)"

section \<open>The login\<close>

record loginResponse =
  lg_Token :: string
  lg_TokenType :: string

text \<open>The body is what binds to the request; both fields are required, so an empty one does not bind.\<close>

definition HandleLogin :: "AuthConfig \<Rightarrow> (string \<times> string) option \<Rightarrow> loginResponse response" where
  "HandleLogin auth body =
     (if \<not> auth_Enabled auth then Inl (404, ''authentication is disabled'')
      else if auth_Username auth = '''' \<or> auth_Password auth = ''''
      then Inl (503, ''server authentication is not configured'')
      else case body of
        None \<Rightarrow> Inl (400, ''username and password are required'')
      | Some (username, password) \<Rightarrow>
          if username = '''' \<or> password = '''' then Inl (400, ''username and password are required'')
          else case map_of [(auth_Username auth, auth_Password auth)] username of
             None \<Rightarrow> Inl (401, ''invalid credentials'')
           | Some expectedPassword \<Rightarrow>
               if password \<noteq> expectedPassword then Inl (401, ''invalid credentials'')
               else Inr \<lparr>lg_Token = EncodeToString (username @ '':'' @ password), lg_TokenType = ''Basic''\<rparr>)"

section \<open>Small handlers\<close>

text \<open>The static answers, and the dependencies a handler gets: what is nil is refused.\<close>

record rootResponse =
  rr_Message :: string
  rr_AuthEnabled :: bool
  rr_Endpoints :: "(string \<times> string) list"

definition HandleRootRequest :: "bool \<Rightarrow> rootResponse" where
  "HandleRootRequest authEnabled = \<lparr>rr_Message = ''cruisekube API Server'', rr_AuthEnabled = authEnabled, rr_Endpoints =
     [(''/clusters'', ''Lists all available clusters''),
      (''/clusters/{clusterId}/stats'', ''Serves stats file for specific cluster''),
      (''/clusters/{clusterId}/killswitch'', ''Deletes MutatingWebhookConfiguration objects and kills pods with resource differences (POST only)''),
      (''/clusters/{clusterId}/preflight'', ''Dashboard readiness check: Prometheus connectivity, Kubernetes/node/Prometheus versions, and required-metric existence (thresholds are backend-defined; no parameters)''),
      (''/clusters/{clusterId}/webhook/mutate'', ''Mutating admission webhook for pod resource adjustment''),
      (''/dev/clusters/{clusterId}/tasks/{taskName}/trigger'', ''Manually triggers a specific task (POST)''),
      (''/health'', ''Health check endpoint'')]\<rparr>"

definition NewHandlerDependencies :: "'s option \<Rightarrow> 'm option \<Rightarrow> 'c option \<Rightarrow> string + 's \<times> 'm \<times> 'c" where
  "NewHandlerDependencies storage clusterManager cfg =
     (case storage of
        None \<Rightarrow> Inl ''storage is required''
      | Some s \<Rightarrow> (case clusterManager of
          None \<Rightarrow> Inl ''cluster manager is required''
        | Some m \<Rightarrow> (case cfg of
            None \<Rightarrow> Inl ''config is required''
          | Some c \<Rightarrow> Inr (s, m, c))))"

definition NewWebhookHandlerDependencies :: "'c option \<Rightarrow> 'r option \<Rightarrow> string + 'c \<times> 'r" where
  "NewWebhookHandlerDependencies cfg recommender =
     (case cfg of
        None \<Rightarrow> Inl ''config is required''
      | Some c \<Rightarrow> (case recommender of None \<Rightarrow> Inl ''recommender client is required'' | Some r \<Rightarrow> Inr (c, r)))"

text \<open>A cluster whose statistics cannot be looked up is left out. The list is in the order of the manager's map.\<close>

definition ClusterStatsExists :: "faults \<Rightarrow> string \<Rightarrow> Database \<Rightarrow> store_error + bool" where
  "ClusterStatsExists fault clusterID db =
     wrap_result ''failed to check cluster stats existence: '' (HasCluster fault clusterID db)"

definition ListClusters :: "(string \<Rightarrow> faults) \<Rightarrow> string list \<Rightarrow> Database \<Rightarrow> (string \<times> bool) list" where
  "ListClusters fault clusterIDs db =
     List.map_filter (\<lambda>clusterID. case ClusterStatsExists (fault clusterID) clusterID db of
        Inl e \<Rightarrow> None
      | Inr statsExists \<Rightarrow> Some (clusterID, statsExists)) clusterIDs"

definition ClusterStats :: "row_sorter \<Rightarrow> faults \<Rightarrow> string \<Rightarrow> Database \<Rightarrow> WorkloadStat list response" where
  "ClusterStats srt fault clusterID db =
     (case ReadClusterStats srt fault clusterID db of
        Inl e \<Rightarrow> Inl (500, ''Failed to read cluster stats for '' @ clusterID @ '': '' @ store_message e)
      | Inr stats \<Rightarrow> Inr (filter (\<lambda>s. \<not> IsGPUWorkload s) stats))"

definition override_info :: "WorkloadInCluster \<Rightarrow> WorkloadOverrideInfo option" where
  "override_info workload =
     (case wk_Stat workload of
        None \<Rightarrow> None
      | Some stat \<Rightarrow>
          if IsGPUWorkload stat then None
          else Some \<lparr>oi_WorkloadID = wk_WorkloadID workload, oi_Name = ws_Name stat, oi_Namespace = ws_Namespace stat,
                 oi_Kind = ws_Kind stat, oi_Overrides = Some (OverridesWithDefaults workload)\<rparr>)"

definition ListWorkloadsHandler :: "row_sorter \<Rightarrow> faults \<Rightarrow> string \<Rightarrow> Database \<Rightarrow> WorkloadOverrideInfo list response" where
  "ListWorkloadsHandler srt fault clusterID db =
     (case GetWorkloads srt fault clusterID db of
        Inl e \<Rightarrow> Inl (500, ''Failed to get workloads in cluster '' @ clusterID @ '': '' @ store_message e)
      | Inr workloads \<Rightarrow> Inr (List.map_filter override_info workloads))"

record ConfigResponse =
  cg_Code :: nat
  cg_URL :: string
  cg_Connected :: bool
  cg_Error :: string

text \<open>\<open>clients\<close> has what \<^verbatim>\<open>Buildinfo\<close> answers for every cluster, \<open>None\<close> where there is no Prometheus client.\<close>

definition GetConfigHandler ::
    "string \<Rightarrow> string \<Rightarrow> string \<Rightarrow> (string \<times> (string option) option) list \<Rightarrow> string \<Rightarrow> ConfigResponse" where
  "GetConfigHandler controllerMode localURL inClusterURL clients clusterID =
     (let bad = (\<lambda>url e. \<lparr>cg_Code = 500, cg_URL = url, cg_Connected = False, cg_Error = e\<rparr>);
          url = (if controllerMode = ''local'' then Some localURL
                 else if controllerMode = ''in-cluster'' then Some inClusterURL else None)
      in case url of
           None \<Rightarrow> bad '''' (''Unknown controller mode: '' @ controllerMode)
         | Some prometheusURL \<Rightarrow>
             (case GetClusterClients clusterID clients of
                Inl e \<Rightarrow> bad prometheusURL (''Failed to get cluster clients: '' @ e)
              | Inr None \<Rightarrow> \<lparr>cg_Code = 200, cg_URL = prometheusURL, cg_Connected = False,
                               cg_Error = ''Prometheus client not available''\<rparr>
              | Inr (Some (Some e)) \<Rightarrow> \<lparr>cg_Code = 200, cg_URL = prometheusURL, cg_Connected = False,
                               cg_Error = ''Connection test failed: '' @ e\<rparr>
              | Inr (Some None) \<Rightarrow> \<lparr>cg_Code = 200, cg_URL = prometheusURL, cg_Connected = True, cg_Error = ''''\<rparr>))"

section \<open>The contract of \<^verbatim>\<open>gin.BasicAuth\<close>\<close>

text \<open>A request is accepted when its header is the one of an account.\<close>

definition authorizationHeader :: "string \<times> string \<Rightarrow> string" where
  "authorizationHeader account = ''Basic '' @ EncodeToString (fst account @ '':'' @ snd account)"

locale basic_auth =
  fixes check :: basic_check
  assumes check_iff: "check accounts header \<longleftrightarrow> (\<exists>account \<in> set accounts. header = Some (authorizationHeader account))"
begin

lemma passes_iff:
  "AuthBasic check auth req = None \<longleftrightarrow> \<not> auth_Enabled auth \<or> auth_Username auth \<noteq> '''' \<and> auth_Password auth \<noteq> '''' \<and>
     rq_Authorization req = Some (authorizationHeader (auth_Username auth, auth_Password auth))"
  by (simp add: AuthBasic_def check_iff)

lemma login_passes:
  assumes "HandleLogin auth body = Inr resp" "rq_Authorization req = Some (lg_TokenType resp @ '' '' @ lg_Token resp)"
  shows "AuthBasic check auth req = None"
  using assms by (auto simp: HandleLogin_def passes_iff authorizationHeader_def split: if_splits option.splits)

end

text \<open>The reference that compares with every account.\<close>

definition compare_accounts :: basic_check where
  "compare_accounts accounts header = list_ex (\<lambda>account. header = Some (authorizationHeader account)) accounts"

interpretation gin_auth: basic_auth compare_accounts
  by unfold_locales (simp add: compare_accounts_def list_ex_iff)

section \<open>Property\<close>

definition is_public :: "api_handler \<Rightarrow> bool" where
  "is_public h \<longleftrightarrow> h \<in> {HandleHealth, HandleRoot, HandleLoginRequest, MutatingPatch}"

lemma run_guards_iff:
  "run_guards check auth cs req gs h = Inr h' \<longleftrightarrow> h' = h \<and> (\<forall>g \<in> set gs. guard_answer check auth cs req g = None)"
  by (induction gs) (auto split: option.split)

lemma ensure_known:
  assumes "EnsureClusterExists clients req = None" "SingleClusterID \<in> set (GetClusterIDs clients)"
  shows "rq_clusterID req \<in> set (GetClusterIDs clients)"
proof (cases "rq_clusterID req = SingleClusterID")
  case False
  then obtain c where "map_of clients (rq_clusterID req) = Some c"
    using assms(1) by (auto simp: EnsureClusterExists_def GetClusterClients_def split: if_splits option.splits)
  from map_of_SomeD [OF this] show ?thesis unfolding GetClusterIDs_def by force
qed (simp add: assms(2))

definition guarded :: "bool \<Rightarrow> route \<Rightarrow> bool" where
  "guarded dev r \<longleftrightarrow> (is_public (rt_Handler r) \<or> AuthAPI \<in> set (rt_Guards r)) \<and>
     (rt_Handler r \<in> {HandleHealth, HandleRoot, HandleLoginRequest, HandleListClusters} \<or> EnsureCluster \<in> set (rt_Guards r)) \<and>
     (rt_Handler r = TaskTrigger \<longrightarrow> dev)"

lemma routes_guarded_dev: "list_all (guarded True) (SetupServerEngine True)"
  by code_simp

lemma routes_guarded_plain: "list_all (guarded False) (SetupServerEngine False)"
  by code_simp

lemma route_guards: "r \<in> set (SetupServerEngine dev) \<Longrightarrow> guarded dev r"
proof (cases dev)
  case True
  then show "r \<in> set (SetupServerEngine dev) \<Longrightarrow> guarded dev r"
    using routes_guarded_dev [unfolded list_all_iff] by (simp only:)
next
  case False
  then show "r \<in> set (SetupServerEngine dev) \<Longrightarrow> guarded dev r"
    using routes_guarded_plain [unfolded list_all_iff] by (simp only:)
qed

lemma token: "EncodeToString ''admin:secret'' = ''YWRtaW46c2VjcmV0''"
  by (simp add: base64_digit_def base64_alphabet_def)

text \<open>C33. With authentication enabled, no handler of the API but those of the health check, the description, the login and the
  webhook is reached without the configured credentials, which are not empty; no handler of a
  cluster is reached for a cluster the manager does not know; tasks can be triggered only with
  the development API enabled. The token of a successful login is accepted by every such
  route.\<close>

theorem api_protected:
  assumes "basic_auth check" "r \<in> set (SetupServerEngine dev)" "auth_Enabled auth"
    and "SingleClusterID \<in> set (GetClusterIDs clients)"
  shows "(\<forall>h. serve check auth clients r req = Inr h \<longrightarrow>
      (is_public h \<or> auth_Username auth \<noteq> '''' \<and> auth_Password auth \<noteq> '''' \<and>
         rq_Authorization req = Some (authorizationHeader (auth_Username auth, auth_Password auth))) \<and>
      (h \<in> {HandleHealth, HandleRoot, HandleLoginRequest, HandleListClusters} \<or>
         rq_clusterID req \<in> set (GetClusterIDs clients)) \<and>
      (h = TaskTrigger \<longrightarrow> dev)) \<and>
    (\<forall>body resp. HandleLogin auth body = Inr resp \<longrightarrow>
      rq_Authorization req = Some (lg_TokenType resp @ '' '' @ lg_Token resp) \<longrightarrow>
      rq_clusterID req \<in> set (GetClusterIDs clients) \<longrightarrow> rq_clusterID req \<noteq> '''' \<longrightarrow>
      serve check auth clients r req = Inr (rt_Handler r))"
proof (intro conjI allI impI)
  fix h assume "serve check auth clients r req = Inr h"
  then have h: "h = rt_Handler r" and g: "\<forall>g \<in> set (rt_Guards r). guard_answer check auth clients req g = None"
    by (auto simp: serve_def run_guards_iff)
  show "is_public h \<or> auth_Username auth \<noteq> '''' \<and> auth_Password auth \<noteq> '''' \<and>
      rq_Authorization req = Some (authorizationHeader (auth_Username auth, auth_Password auth))"
  proof (cases "is_public h")
    case False
    then have "guard_answer check auth clients req AuthAPI = None" using route_guards [OF assms(2)] h g unfolding guarded_def by blast
    then show ?thesis using basic_auth.passes_iff [OF assms(1)] assms(3) by simp
  qed simp
  show "h \<in> {HandleHealth, HandleRoot, HandleLoginRequest, HandleListClusters} \<or> rq_clusterID req \<in> set (GetClusterIDs clients)"
  proof (cases "h \<in> {HandleHealth, HandleRoot, HandleLoginRequest, HandleListClusters}")
    case False
    then have "guard_answer check auth clients req EnsureCluster = None" using route_guards [OF assms(2)] h g unfolding guarded_def by blast
    then have "EnsureClusterExists clients req = None" by simp
    from ensure_known [OF this assms(4)] show ?thesis by (rule disjI2)
  qed (rule disjI1)
  show "dev" if "h = TaskTrigger" using route_guards [OF assms(2)] h that unfolding guarded_def by blast
next
  fix body resp
  assume login: "HandleLogin auth body = Inr resp" "rq_Authorization req = Some (lg_TokenType resp @ '' '' @ lg_Token resp)"
    and c: "rq_clusterID req \<in> set (GetClusterIDs clients)" "rq_clusterID req \<noteq> ''''"
  have "EnsureClusterExists clients req = None"
    using c by (auto simp: EnsureClusterExists_def GetClusterClients_def GetClusterIDs_def map_of_eq_None_iff split: option.split)
  then have "guard_answer check auth clients req g = None" for g
    using basic_auth.login_passes [OF assms(1) login] by (cases g) (simp_all add: AuthWebhook_def)
  then show "serve check auth clients r req = Inr (rt_Handler r)" by (simp add: serve_def run_guards_iff)
qed

lemma api_protected_witness:
  "serve compare_accounts \<lparr>auth_Enabled = True, auth_Username = ''admin'', auth_Password = ''secret''\<rparr> [(''default'', ())]
     \<lparr>rt_Method = ''GET'', rt_Path = ''/api/v1/clusters'', rt_Guards = [AuthAPI], rt_Handler = HandleListClusters\<rparr>
     \<lparr>rq_clusterID = ''default'', rq_Authorization = Some ''Basic YWRtaW46c2VjcmV0''\<rparr> = Inr HandleListClusters \<and>
   HandleLogin \<lparr>auth_Enabled = True, auth_Username = ''admin'', auth_Password = ''secret''\<rparr> (Some (''admin'', ''secret'')) =
     Inr \<lparr>lg_Token = ''YWRtaW46c2VjcmV0'', lg_TokenType = ''Basic''\<rparr>"
proof -
  let ?auth = "\<lparr>auth_Enabled = True, auth_Username = ''admin'', auth_Password = ''secret''\<rparr>"
  let ?r = "\<lparr>rt_Method = ''GET'', rt_Path = ''/api/v1/clusters'', rt_Guards = [AuthAPI], rt_Handler = HandleListClusters\<rparr>"
  have login: "HandleLogin ?auth (Some (''admin'', ''secret'')) = Inr \<lparr>lg_Token = ''YWRtaW46c2VjcmV0'', lg_TokenType = ''Basic''\<rparr>"
    using token by (simp add: HandleLogin_def del: EncodeToString.simps)
  have "?r \<in> set (SetupServerEngine False)" unfolding SetupServerEngine_def group_def set_append by simp
  from conjunct2 [OF api_protected [OF gin_auth.basic_auth_axioms this, of ?auth "[(''default'', ())]"
      "\<lparr>rq_clusterID = ''default'', rq_Authorization = Some ''Basic YWRtaW46c2VjcmV0''\<rparr>"], rule_format, OF _ _ login]
  have "serve compare_accounts ?auth [(''default'', ())] ?r
      \<lparr>rq_clusterID = ''default'', rq_Authorization = Some ''Basic YWRtaW46c2VjcmV0''\<rparr> = Inr HandleListClusters"
    by (simp add: SingleClusterID_def GetClusterIDs_def)
  with login show ?thesis by blast
qed

end
