(* ===== verification/Config.thy ===== *)
theory Config
  imports Access Webhook Scheduler
begin

text \<open>
  The configuration, \<^verbatim>\<open>pkg/config\<close>: its data (\<^verbatim>\<open>config.go\<close>, \<^verbatim>\<open>taskconfig.go\<close>), the defaults, the command
  line flags (\<^verbatim>\<open>cmd/cruisekube/rootcommand.go\<close>) and the validation (\<^verbatim>\<open>viper.go\<close>). Reading files, flags
  and environment variables is viper's; what it decodes into is an argument. The values of maps
  with no type of their own are \<open>json\<close>.
\<close>

section \<open>Data\<close>

definition ApplyRecommendationKey :: string where "ApplyRecommendationKey = ''applyrecommendation''"
definition FetchMetricsKey :: string where "FetchMetricsKey = ''fetchmetrics''"
definition CreateStatsKey :: string where "CreateStatsKey = ''createstats''"
definition NodeLoadMonitoringKey :: string where "NodeLoadMonitoringKey = ''nodeloadmonitoring''"
definition CleanupKey :: string where "CleanupKey = ''cleanup''"
definition DisruptionForceKey :: string where "DisruptionForceKey = ''disruptionforce''"

definition ClusterModeLocal :: string where "ClusterModeLocal = ''local''"
definition ClusterModeInCluster :: string where "ClusterModeInCluster = ''in-cluster''"

definition ExecutionModeController :: string where "ExecutionModeController = ''controller''"
definition ExecutionModeWebhook :: string where "ExecutionModeWebhook = ''webhook''"
definition ExecutionModeBoth :: string where "ExecutionModeBoth = ''both''"

type_synonym metadata = "(string \<times> json) list"

record TaskConfig =
  tc_Enabled :: bool
  tc_Schedule :: string
  tc_Metadata :: "metadata option"

record LocalDeps =
  ld_KubeconfigPath :: string
  ld_PrometheusURL :: string
  ld_InsecureSkipTLSVerify :: bool

record InClusterDeps =
  ic_PrometheusURL :: string
  ic_InsecureSkipTLSVerify :: bool

record Dependencies =
  dp_Local :: LocalDeps
  dp_InCluster :: InClusterDeps

text \<open>The map of the tasks may be nil, and so may a task in it.\<close>

record ControllerConfig =
  cc_TargetNamespace :: string
  cc_TargetClusterID :: string
  cc_Tasks :: "(string \<rightharpoonup> TaskConfig option) option"

record URLConfig =
  ur_Host :: string
  ur_TfyClusterToken :: string

record ServerConfig =
  sv_Port :: string
  sv_Auth :: AuthConfig
  sv_EnableDevAPIs :: bool

record WebhookConfig =
  wc_Port :: string
  wc_CertsDir :: string
  wc_StatsURL :: URLConfig

record DatabaseConfig =
  dc_Type :: string
  dc_Host :: string
  dc_Port :: int
  dc_Database :: string
  dc_Username :: string
  dc_Password :: string
  dc_SSLMode :: string

record TelemetryConfig =
  te_Enabled :: bool
  te_ExporterOTLPEndpoint :: string
  te_ExporterOTLPHeaders :: string
  te_ServiceName :: string
  te_TraceRatio :: float64

record UsageTelemetryConfig =
  ut_Enabled :: bool
  ut_Interval :: string
  ut_InstallID :: string
  ut_ProviderAPIKey :: string
  ut_ProviderConfig :: metadata
  ut_HelmChartVersion :: string

record MetricsConfig =
  mt_Enabled :: bool
  mt_Port :: string

record SentryConfig =
  sy_Enabled :: bool
  sy_DSN :: string
  sy_Environment :: string

text \<open>\<open>RecommendationSettings\<close> is the record of the webhook; the number of concurrent queries is not in it, since
  nothing reads that field.\<close>

record Config =
  cf_ControllerMode :: string
  cf_Dependencies :: Dependencies
  cf_ExecutionMode :: string
  cf_Controller :: ControllerConfig
  cf_Server :: ServerConfig
  cf_Webhook :: WebhookConfig
  cf_DB :: DatabaseConfig
  cf_RecommendationSettings :: RecommendationSettings
  cf_Telemetry :: TelemetryConfig
  cf_UsageTelemetry :: UsageTelemetryConfig
  cf_Metrics :: MetricsConfig
  cf_Sentry :: SentryConfig
  cf_Custom :: metadata

definition GetTaskConfig :: "Config \<Rightarrow> string \<Rightarrow> TaskConfig option" where
  "GetTaskConfig c taskName =
     (case cc_Tasks (cf_Controller c) of
        None \<Rightarrow> None
      | Some tasks \<Rightarrow> (case tasks taskName of None \<Rightarrow> None | Some p \<Rightarrow> p))"

definition RequiredTaskKeys :: "string list" where
  "RequiredTaskKeys =
     [CreateStatsKey, ApplyRecommendationKey, NodeLoadMonitoringKey, FetchMetricsKey, CleanupKey, DisruptionForceKey]"

text \<open>The decoder is mapstructure's; \<open>zero\<close> is the target as it was.\<close>

definition ConvertMetadataToStruct :: "(metadata \<Rightarrow> string + 'a) \<Rightarrow> TaskConfig \<Rightarrow> 'a \<Rightarrow> string + 'a" where
  "ConvertMetadataToStruct decode tc zero =
     (case tc_Metadata tc of
        None \<Rightarrow> Inr zero
      | Some md \<Rightarrow> (case decode md of
          Inl e \<Rightarrow> Inl (''failed to decode metadata: '' @ e)
        | Inr x \<Rightarrow> Inr x))"

section \<open>Defaults and flags\<close>

definition defaultUsageTelemetryInterval :: string where "defaultUsageTelemetryInterval = ''30m''"

definition config_defaults :: "(string \<times> json) list" where
  "config_defaults =
     [(''controllerMode'', JStr ClusterModeInCluster),
      (''executionMode'', JStr ExecutionModeBoth),
      (''dependencies.local.kubeconfigPath'', JStr ''''),
      (''dependencies.local.prometheusURL'', JStr ''''),
      (''dependencies.local.insecureSkipTLSVerify'', JBool False),
      (''dependencies.inCluster.prometheusURL'', JStr ''''),
      (''dependencies.inCluster.insecureSkipTLSVerify'', JBool False),
      (''controller.tasks.applyRecommendation.enabled'', JBool True),
      (''controller.tasks.applyRecommendation.schedule'', JStr ''5m''),
      (''controller.tasks.applyRecommendation.nodeStatsURL.host'', JStr ''localhost:8080''),
      (''controller.tasks.applyRecommendation.overridesURL.host'', JStr ''localhost:8080''),
      (''recommendationSettings.maxConcurrentQueries'', JInt 5),
      (''recommendationSettings.oomCooldownMinutes'', JInt 5),
      (''controller.tasks.cleanup.enabled'', JBool False),
      (''controller.tasks.cleanup.schedule'', JStr ''24h''),
      (''controller.tasks.cleanup.metadata.retentionDays'', JInt 7),
      (''server.auth.enabled'', JBool True),
      (''server.port'', JStr ''8080''),
      (''server.enableDevAPIs'', JBool False),
      (''webhook.port'', JStr ''8443''),
      (''webhook.certsDir'', JStr ''/certs''),
      (''db.filePath'', JStr ''cruisekube.db''),
      (''telemetry.enabled'', JBool False),
      (''telemetry.traceRatio'', JNum (lit (1 / 10))),
      (''usageTelemetry.enabled'', JBool False),
      (''usageTelemetry.interval'', JStr defaultUsageTelemetryInterval),
      (''usageTelemetry.installID'', JStr ''''),
      (''usageTelemetry.helmChartVersion'', JStr '''')]"

text \<open>A flag of the command line and the key it is bound to.\<close>

definition bindPersistentFlags :: "(string \<times> string) list" where
  "bindPersistentFlags =
     [(''controllerMode'', ''controller-mode''),
      (''executionMode'', ''execution-mode''),
      (''dependencies.local.kubeconfigPath'', ''kubeconfig-path''),
      (''dependencies.local.prometheusURL'', ''prometheus-url''),
      (''dependencies.inCluster.prometheusURL'', ''prometheus-url''),
      (''server.port'', ''server-port''),
      (''server.enableDevAPIs'', ''enable-dev-apis''),
      (''webhook.port'', ''webhook-port''),
      (''webhook.certsDir'', ''webhook-certs-dir''),
      (''webhook.statsURL.host'', ''webhook-stats-url-host''),
      (''db.filePath'', ''db-file-path'')]"

text \<open>The keys the fields of \<^verbatim>\<open>Config\<close> outside the maps are decoded from.\<close>

definition config_keys :: "string list" where
  "config_keys =
     [''controllerMode'', ''dependencies.local.kubeconfigPath'', ''dependencies.local.prometheusURL'',
      ''dependencies.local.insecureSkipTLSVerify'', ''dependencies.inCluster.prometheusURL'',
      ''dependencies.inCluster.insecureSkipTLSVerify'', ''executionMode'', ''controller.targetNamespace'',
      ''controller.targetClusterID'', ''controller.tasks'', ''server.port'', ''server.auth.enabled'',
      ''server.auth.username'', ''server.auth.password'', ''server.enableDevAPIs'', ''webhook.port'',
      ''webhook.certsDir'', ''webhook.statsURL.host'', ''webhook.statsURL.tfyClusterToken'', ''db.type'', ''db.host'',
      ''db.port'', ''db.database'', ''db.username'', ''db.password'', ''db.sslmode'',
      ''recommendationSettings.newWorkloadThresholdHours'', ''recommendationSettings.disableMemoryApplication'',
      ''recommendationSettings.maxConcurrentQueries'', ''recommendationSettings.oomCooldownMinutes'',
      ''recommendationSettings.optimizeGuaranteedPods'', ''telemetry.enabled'', ''telemetry.exporterOTLPEndpoint'',
      ''telemetry.exporterOTLPHeaders'', ''telemetry.serviceName'', ''telemetry.traceRatio'', ''usageTelemetry.enabled'',
      ''usageTelemetry.interval'', ''usageTelemetry.installID'', ''usageTelemetry.providerApiKey'',
      ''usageTelemetry.providerConfig'', ''usageTelemetry.helmChartVersion'', ''metrics.enabled'', ''metrics.port'',
      ''sentry.enabled'', ''sentry.dsn'', ''sentry.environment'']"

section \<open>Validation\<close>

text \<open>\<^verbatim>\<open>strings.TrimSpace\<close> on ASCII.\<close>

definition TrimSpace :: "string \<Rightarrow> string" where
  "TrimSpace s = rev (dropWhile is_space (rev (dropWhile is_space s)))"

text \<open>\<open>sprint\<close> is \<^verbatim>\<open>fmt.Sprint\<close> on a value that is not a string.\<close>

definition usageTelemetryStringFromMap :: "(json \<Rightarrow> string) \<Rightarrow> metadata \<Rightarrow> string \<Rightarrow> string" where
  "usageTelemetryStringFromMap sprint m key =
     (case map_of m key of
        None \<Rightarrow> ''''
      | Some JNull \<Rightarrow> ''''
      | Some (JStr s) \<Rightarrow> TrimSpace s
      | Some v \<Rightarrow> TrimSpace (sprint v))"

definition EffectiveUsageTelemetryProviderAPIKey :: "(json \<Rightarrow> string) \<Rightarrow> string \<Rightarrow> Config \<Rightarrow> string" where
  "EffectiveUsageTelemetryProviderAPIKey sprint defaultKey c =
     (let k = TrimSpace (ut_ProviderAPIKey (cf_UsageTelemetry c))
      in if k \<noteq> '''' then k
         else let k = TrimSpace defaultKey
              in if k \<noteq> '''' then k
                 else usageTelemetryStringFromMap sprint (ut_ProviderConfig (cf_UsageTelemetry c)) ''api_key'')"

text \<open>\<open>raw\<close> and \<open>sm\<close> are the provider's configuration as viper gives it as a string and as a map; \<open>parse\<close> is
  \<^verbatim>\<open>json.Unmarshal\<close> into a map, which may leave it nil.\<close>

definition hydrateUsageTelemetryProviderConfig ::
    "string \<Rightarrow> metadata \<Rightarrow> (string \<Rightarrow> string + metadata option) \<Rightarrow> Config \<Rightarrow> string + Config" where
  "hydrateUsageTelemetryProviderConfig raw sm parse cfg =
     (let set = (\<lambda>m. cfg\<lparr>cf_UsageTelemetry := (cf_UsageTelemetry cfg)\<lparr>ut_ProviderConfig := m\<rparr>\<rparr>)
      in if length (ut_ProviderConfig (cf_UsageTelemetry cfg)) > 0 then Inr cfg
         else let raw = TrimSpace raw
              in if raw \<noteq> '''' \<and> HasPrefix ''{'' raw
                 then (case parse raw of
                         Inl e \<Rightarrow> Inl (''usageTelemetry.providerConfig: invalid JSON: '' @ e)
                       | Inr None \<Rightarrow> Inr (set [])
                       | Inr (Some parsed) \<Rightarrow> Inr (set parsed))
                 else Inr (set sm))"

definition ValidateWebhookExecutionMode :: "Config \<Rightarrow> string option" where
  "ValidateWebhookExecutionMode c =
     (let missing = (if wc_Port (cf_Webhook c) = '''' then [''webhook.port''] else []) @
            (if ur_Host (wc_StatsURL (cf_Webhook c)) = '''' then [''webhook.statsURL.host''] else []) @
            (if wc_CertsDir (cf_Webhook c) = '''' then [''webhook.certsDir''] else [])
      in if length missing > 0
         then Some (''missing required webhook configuration values: '' @ join_with '', '' missing)
         else None)"

text \<open>It does not fail, but repairs the interval and disables the telemetry.\<close>

definition validateUsageTelemetryForController :: "(json \<Rightarrow> string) \<Rightarrow> string \<Rightarrow> Config \<Rightarrow> Config" where
  "validateUsageTelemetryForController sprint defaultKey c =
     (let ut = cf_UsageTelemetry c
      in if \<not> ut_Enabled ut then c
         else let interval = TrimSpace (ut_Interval ut);
                  (ut, interval) = (if interval = ''''
                    then (ut\<lparr>ut_Interval := defaultUsageTelemetryInterval\<rparr>, defaultUsageTelemetryInterval)
                    else (ut, interval));
                  (ut, d) = (case ParseDuration interval of
                      None \<Rightarrow> (ut\<lparr>ut_Interval := defaultUsageTelemetryInterval\<rparr>, 30 * Minute)
                    | Some d \<Rightarrow> (ut, d));
                  ut = (if d \<le> 0 then ut\<lparr>ut_Interval := defaultUsageTelemetryInterval\<rparr> else ut)
              in if TrimSpace (ut_InstallID ut) = '''' \<or> length (ut_ProviderConfig ut) = 0 \<or>
                    EffectiveUsageTelemetryProviderAPIKey sprint defaultKey c = ''''
                 then c\<lparr>cf_UsageTelemetry := ut\<lparr>ut_Enabled := False\<rparr>\<rparr>
                 else c\<lparr>cf_UsageTelemetry := ut\<rparr>)"

definition missing_tasks :: "Config \<Rightarrow> string list" where
  "missing_tasks c = filter (\<lambda>taskKey. GetTaskConfig c taskKey = None) RequiredTaskKeys"

definition mode_error :: "Config \<Rightarrow> string option" where
  "mode_error c =
     (let controllerMode = TrimSpace (cf_ControllerMode c)
      in if controllerMode = ClusterModeLocal
         then (if TrimSpace (ld_PrometheusURL (dp_Local (cf_Dependencies c))) = ''''
               then Some ''dependencies.local.prometheusURL is required in local mode'' else None)
         else if controllerMode = ClusterModeInCluster
         then (if TrimSpace (ic_PrometheusURL (dp_InCluster (cf_Dependencies c))) = ''''
               then Some ''dependencies.inCluster.prometheusURL is required in inCluster mode'' else None)
         else Some (''invalid controller-mode: '' @ controllerMode @ '' (expected local|in-cluster)''))"

definition ValidateControllerExecutionMode :: "(json \<Rightarrow> string) \<Rightarrow> string \<Rightarrow> Config \<Rightarrow> string + Config" where
  "ValidateControllerExecutionMode sprint defaultKey c =
     (case mode_error c of
        Some e \<Rightarrow> Inl e
      | None \<Rightarrow>
          if length (missing_tasks c) > 0
          then Inl (''missing required controller task configurations: '' @ join_with '', '' (missing_tasks c))
          else Inr (validateUsageTelemetryForController sprint defaultKey c))"

definition Validate :: "(json \<Rightarrow> string) \<Rightarrow> string \<Rightarrow> Config \<Rightarrow> string + Config" where
  "Validate sprint defaultKey c =
     (if cf_ExecutionMode c = ExecutionModeWebhook
      then (case ValidateWebhookExecutionMode c of Some e \<Rightarrow> Inl e | None \<Rightarrow> Inr c)
      else if cf_ExecutionMode c = ExecutionModeController
      then ValidateControllerExecutionMode sprint defaultKey c
      else if cf_ExecutionMode c = ExecutionModeBoth
      then (case ValidateWebhookExecutionMode c of
              Some e \<Rightarrow> Inl e
            | None \<Rightarrow> ValidateControllerExecutionMode sprint defaultKey c)
      else Inl (''invalid execution-mode: '' @ cf_ExecutionMode c @ '' (expected controller|webhook|both)''))"

end
