(* ===== verification/Startup.thy ===== *)
theory Startup
  imports Config
begin

text \<open>
  Starting and stopping the program, \<^verbatim>\<open>cmd/cruisekube\<close>: the manager of what runs and of what is to be
  cleaned up (\<^verbatim>\<open>runtimemanager.go\<close>), the order in which the parts are started (\<^verbatim>\<open>runtime.go\<close>,
  \<^verbatim>\<open>webhookruntime.go\<close>, \<^verbatim>\<open>controllerruntime.go\<close>) and the registration of the tasks with the scheduler's
  manager. The clients of Kubernetes, Prometheus and the database are built by their
  libraries: whether that succeeds is a field of the environment.
\<close>

section \<open>The runtime manager\<close>

datatype cleanup =
  ShutdownTelemetry | ShutdownMetricsServer | ShutdownWebhookServer | CloseDatabase | CloseAudit | StopTasks
| ShutdownControllerServer | CloseReporter

record runtimeManager =
  rm_cancelled :: bool
  rm_errCh :: "string option"
  rm_started :: "string list"
  rm_cleanups :: "cleanup list"

definition newRuntimeManager :: runtimeManager where
  "newRuntimeManager = \<lparr>rm_cancelled = False, rm_errCh = None, rm_started = [], rm_cleanups = []\<rparr>"

text \<open>The channel holds one error; further ones are dropped.\<close>

definition reportError :: "string \<Rightarrow> runtimeManager \<Rightarrow> runtimeManager" where
  "reportError e m = (case rm_errCh m of None \<Rightarrow> m\<lparr>rm_errCh := Some e\<rparr> | Some _ \<Rightarrow> m)"

datatype go_result = GoReturns "string option" | GoPanics string string

definition Go :: "string \<Rightarrow> runtimeManager \<Rightarrow> runtimeManager" where
  "Go name m = m\<lparr>rm_started := rm_started m @ [name]\<rparr>"

text \<open>A goroutine ends; a panic carries its value and the stack.\<close>

definition go_ends :: "string \<Rightarrow> go_result \<Rightarrow> runtimeManager \<Rightarrow> runtimeManager" where
  "go_ends name r m =
     (case r of
        GoReturns None \<Rightarrow> m
      | GoReturns (Some e) \<Rightarrow> reportError (name @ '': '' @ e) m
      | GoPanics v stack \<Rightarrow> reportError (name @ '' panic: '' @ v @ [CHR 0x0A] @ stack) m)"

definition AddCleanup :: "cleanup \<Rightarrow> runtimeManager \<Rightarrow> runtimeManager" where
  "AddCleanup fn m = m\<lparr>rm_cleanups := rm_cleanups m @ [fn]\<rparr>"

text \<open>\<^verbatim>\<open>Wait\<close> may return either when both an error and the end of the context are there.\<close>

definition Wait_returns :: "runtimeManager \<Rightarrow> string option \<Rightarrow> bool" where
  "Wait_returns m r \<longleftrightarrow> (case r of Some e \<Rightarrow> rm_errCh m = Some e | None \<Rightarrow> rm_cancelled m)"

type_synonym 's cleaner = "cleanup \<Rightarrow> 's \<Rightarrow> string option \<times> 's"

fun run_cleanups :: "'s cleaner \<Rightarrow> cleanup list \<Rightarrow> 's \<Rightarrow> string list \<times> 's" where
  "run_cleanups clean [] s = ([], s)"
| "run_cleanups clean (c # cs) s =
     (let (err, s) = clean c s; (errs, s) = run_cleanups clean cs s
      in (case err of None \<Rightarrow> errs | Some e \<Rightarrow> e # errs, s))"

text \<open>The last one added comes first; the errors are joined.\<close>

definition Shutdown :: "'s cleaner \<Rightarrow> runtimeManager \<Rightarrow> 's \<Rightarrow> string option \<times> runtimeManager \<times> 's" where
  "Shutdown clean m s =
     (let m = m\<lparr>rm_cancelled := True\<rparr>; (errs, s) = run_cleanups clean (rev (rm_cleanups m)) s
      in (if errs = [] then None else Some (join_with [CHR 0x0A] errs), m, s))"

section \<open>The tasks\<close>

record TaskSettings =
  ts_Name :: string
  ts_Enabled :: bool
  ts_Schedule :: string
  ts_ClusterID :: string

record CreateStatsTaskConfig = TaskSettings +
  ts_TargetClusterID :: string
  ts_TargetNamespace :: string
  ts_RecentStatsLookbackMinutes :: int
  ts_TimeStepSize :: go_time
  ts_MLLookbackWindow :: go_time
  ts_SkipMemory :: bool

record ApplyRecommendationMetadata =
  am_NodeStatsURL :: URLConfig
  am_OverridesURL :: URLConfig
  am_SkipMemory :: bool

record ApplyRecommendationTaskConfig = TaskSettings +
  ta_TargetClusterID :: string
  ta_TargetNamespace :: string
  ta_Auth :: AuthConfig
  ta_RecommendationSettings :: RecommendationSettings
  ta_Metadata :: ApplyRecommendationMetadata

record CleanupTaskConfig = TaskSettings +
  tl_RetentionDays :: int

datatype core_task =
  CreateStatsTask CreateStatsTaskConfig
| ApplyRecommendationTask ApplyRecommendationTaskConfig
| FetchMetricsTask TaskSettings
| NodeLoadMonitoringTask TaskSettings
| CleanupTask CleanupTaskConfig
| DisruptionForceTask TaskSettings

definition shown :: "'a TaskSettings_scheme \<Rightarrow> Task" where
  "shown c = \<lparr>tk_Name = ts_Name c, tk_Schedule = ts_Schedule c, tk_Enabled = ts_Enabled c\<rparr>"

text \<open>\<^verbatim>\<open>GetName\<close>, \<^verbatim>\<open>GetSchedule\<close> and \<^verbatim>\<open>IsEnabled\<close> of the six tasks.\<close>

fun task_of :: "core_task \<Rightarrow> Task" where
  "task_of (CreateStatsTask c) = shown c"
| "task_of (ApplyRecommendationTask c) = shown c"
| "task_of (FetchMetricsTask c) = shown c"
| "task_of (NodeLoadMonitoringTask c) = shown c"
| "task_of (CleanupTask c) = shown c"
| "task_of (DisruptionForceTask c) = shown c"

record decoders =
  de_create :: "metadata \<Rightarrow> string + bool"
  de_apply :: "metadata \<Rightarrow> string + ApplyRecommendationMetadata"
  de_cleanup :: "metadata \<Rightarrow> string + int"

definition no_url :: URLConfig where "no_url = \<lparr>ur_Host = '''', ur_TfyClusterToken = ''''\<rparr>"

definition DefaultRetentionDays :: int where "DefaultRetentionDays = 7"

text \<open>The constructors return nil when the metadata does not decode.\<close>

definition NewCreateStatsTask :: "decoders \<Rightarrow> CreateStatsTaskConfig \<Rightarrow> TaskConfig \<Rightarrow> core_task option" where
  "NewCreateStatsTask de c tc =
     (case ConvertMetadataToStruct (de_create de) tc False of
        Inl e \<Rightarrow> None
      | Inr skipMemory \<Rightarrow> Some (CreateStatsTask (c\<lparr>ts_SkipMemory := skipMemory\<rparr>)))"

definition NewApplyRecommendationTask ::
    "decoders \<Rightarrow> ApplyRecommendationTaskConfig \<Rightarrow> TaskConfig \<Rightarrow> core_task option" where
  "NewApplyRecommendationTask de c tc =
     (case ConvertMetadataToStruct (de_apply de) tc
             \<lparr>am_NodeStatsURL = no_url, am_OverridesURL = no_url, am_SkipMemory = False\<rparr> of
        Inl e \<Rightarrow> None
      | Inr md \<Rightarrow> Some (ApplyRecommendationTask (c\<lparr>ta_Metadata := md\<rparr>)))"

definition NewCleanupTask :: "decoders \<Rightarrow> CleanupTaskConfig \<Rightarrow> TaskConfig \<Rightarrow> core_task option" where
  "NewCleanupTask de c tc =
     (case ConvertMetadataToStruct (de_cleanup de) tc 0 of
        Inl e \<Rightarrow> None
      | Inr n \<Rightarrow> Some (CleanupTask (c\<lparr>tl_RetentionDays := (if n \<le> 0 then DefaultRetentionDays else n)\<rparr>)))"

text \<open>The manager with the tasks behind the names. Adding a nil task panics, since its name is read.\<close>

type_synonym registry = "Manager \<times> (string \<rightharpoonup> core_task)"

definition AddCoreTask :: "core_task option \<Rightarrow> registry \<Rightarrow> registry panics" where
  "AddCoreTask t r =
     (case t of
        None \<Rightarrow> None
      | Some t \<Rightarrow> Some (AddTask (task_of t) (fst r), (snd r)(tk_Name (task_of t) \<mapsto> t)))"

definition task_settings :: "string \<Rightarrow> string \<Rightarrow> TaskConfig \<Rightarrow> TaskSettings" where
  "task_settings clusterID key tc =
     \<lparr>ts_Name = clusterID @ ''_'' @ key, ts_Enabled = tc_Enabled tc, ts_Schedule = tc_Schedule tc,
      ts_ClusterID = clusterID\<rparr>"

text \<open>A task that is not configured is a nil pointer, whose fields are read.\<close>

definition registerCreateStatsTask :: "decoders \<Rightarrow> Config \<Rightarrow> string \<Rightarrow> registry \<Rightarrow> registry panics" where
  "registerCreateStatsTask de cfg clusterID r = do {
     tc \<leftarrow> GetTaskConfig cfg CreateStatsKey;
     AddCoreTask (NewCreateStatsTask de
       \<lparr>ts_Name = clusterID @ ''_'' @ CreateStatsKey, ts_Enabled = tc_Enabled tc, ts_Schedule = tc_Schedule tc,
        ts_ClusterID = clusterID, ts_TargetClusterID = cc_TargetClusterID (cf_Controller cfg),
        ts_TargetNamespace = cc_TargetNamespace (cf_Controller cfg), ts_RecentStatsLookbackMinutes = 1,
        ts_TimeStepSize = 5 * Minute, ts_MLLookbackWindow = 1 * Hour, ts_SkipMemory = False\<rparr> tc) r }"

definition registerApplyRecommendationTask :: "decoders \<Rightarrow> Config \<Rightarrow> string \<Rightarrow> registry \<Rightarrow> registry panics" where
  "registerApplyRecommendationTask de cfg clusterID r = do {
     tc \<leftarrow> GetTaskConfig cfg ApplyRecommendationKey;
     AddCoreTask (NewApplyRecommendationTask de
       \<lparr>ts_Name = clusterID @ ''_'' @ ApplyRecommendationKey, ts_Enabled = tc_Enabled tc, ts_Schedule = tc_Schedule tc,
        ts_ClusterID = clusterID, ta_TargetClusterID = cc_TargetClusterID (cf_Controller cfg),
        ta_TargetNamespace = cc_TargetNamespace (cf_Controller cfg), ta_Auth = sv_Auth (cf_Server cfg),
        ta_RecommendationSettings = cf_RecommendationSettings cfg,
        ta_Metadata = \<lparr>am_NodeStatsURL = no_url, am_OverridesURL = no_url, am_SkipMemory = False\<rparr>\<rparr> tc) r }"

definition registerFetchMetricsTask :: "Config \<Rightarrow> string \<Rightarrow> registry \<Rightarrow> registry panics" where
  "registerFetchMetricsTask cfg clusterID r = do {
     tc \<leftarrow> GetTaskConfig cfg FetchMetricsKey;
     AddCoreTask (Some (FetchMetricsTask (task_settings clusterID FetchMetricsKey tc))) r }"

definition registerNodeLoadMonitoringTask :: "Config \<Rightarrow> string \<Rightarrow> registry \<Rightarrow> registry panics" where
  "registerNodeLoadMonitoringTask cfg clusterID r = do {
     tc \<leftarrow> GetTaskConfig cfg NodeLoadMonitoringKey;
     AddCoreTask (Some (NodeLoadMonitoringTask (task_settings clusterID NodeLoadMonitoringKey tc))) r }"

definition registerCleanupTask :: "decoders \<Rightarrow> Config \<Rightarrow> string \<Rightarrow> registry \<Rightarrow> registry panics" where
  "registerCleanupTask de cfg clusterID r = do {
     tc \<leftarrow> GetTaskConfig cfg CleanupKey;
     AddCoreTask (NewCleanupTask de
       \<lparr>ts_Name = clusterID @ ''_'' @ CleanupKey, ts_Enabled = tc_Enabled tc, ts_Schedule = tc_Schedule tc,
        ts_ClusterID = clusterID, tl_RetentionDays = 0\<rparr> tc) r }"

definition registerDisruptionForceTask :: "Config \<Rightarrow> string \<Rightarrow> registry \<Rightarrow> registry panics" where
  "registerDisruptionForceTask cfg clusterID r = do {
     tc \<leftarrow> GetTaskConfig cfg DisruptionForceKey;
     AddCoreTask (Some (DisruptionForceTask (task_settings clusterID DisruptionForceKey tc))) r }"

fun registerControllerTasks :: "decoders \<Rightarrow> Config \<Rightarrow> string list \<Rightarrow> registry \<Rightarrow> registry panics" where
  "registerControllerTasks de cfg [] r = Some r"
| "registerControllerTasks de cfg (clusterID # clusters) r = do {
     r \<leftarrow> registerCreateStatsTask de cfg clusterID r;
     r \<leftarrow> registerApplyRecommendationTask de cfg clusterID r;
     r \<leftarrow> registerFetchMetricsTask cfg clusterID r;
     r \<leftarrow> registerNodeLoadMonitoringTask cfg clusterID r;
     r \<leftarrow> registerCleanupTask de cfg clusterID r;
     r \<leftarrow> registerDisruptionForceTask cfg clusterID r;
     registerControllerTasks de cfg clusters r }"

section \<open>Starting\<close>

text \<open>What the libraries answer: whether a client could be made, the text of the error of a schedule, and
  the order in which the map of the tasks is ranged over.\<close>

record StartEnv =
  st_sprint :: "json \<Rightarrow> string"
  st_defaultKey :: string
  st_decoders :: decoders
  st_Home :: string
  st_UserProfile :: string
  st_Telemetry :: "string option"
  st_Database :: "string option"
  st_KubeClient :: "string \<Rightarrow> string option"
  st_DynamicClient :: "string \<Rightarrow> string option"
  st_PromClient :: "string \<Rightarrow> bool \<Rightarrow> string option"
  st_Observer :: "string \<Rightarrow> string option"
  st_Reporter :: "string option"
  st_badSchedule :: "string \<Rightarrow> string"
  st_range :: "(string \<rightharpoonup> Task) \<Rightarrow> (string \<times> Task) list"

definition homeDir :: "StartEnv \<Rightarrow> string" where
  "homeDir env = (if st_Home env \<noteq> '''' then st_Home env else st_UserProfile env)"

definition shouldStartWebhook :: "string \<Rightarrow> bool" where
  "shouldStartWebhook mode \<longleftrightarrow> mode = ExecutionModeWebhook \<or> mode = ExecutionModeBoth"

definition shouldStartController :: "string \<Rightarrow> bool" where
  "shouldStartController mode \<longleftrightarrow> mode = ExecutionModeController \<or> mode = ExecutionModeBoth"

definition startHTTPServer :: "string \<Rightarrow> cleanup \<Rightarrow> runtimeManager \<Rightarrow> runtimeManager" where
  "startHTTPServer name c m = Go name (AddCleanup c m)"

definition setupTelemetry :: "StartEnv \<Rightarrow> Config \<Rightarrow> runtimeManager \<Rightarrow> string option \<times> runtimeManager" where
  "setupTelemetry env cfg m =
     (if \<not> te_Enabled (cf_Telemetry cfg) then (None, m)
      else case st_Telemetry env of
             Some e \<Rightarrow> (Some (''failed to initialize telemetry: '' @ e), m)
           | None \<Rightarrow> (None, AddCleanup ShutdownTelemetry m))"

definition startMetricsServer :: "Config \<Rightarrow> runtimeManager \<Rightarrow> runtimeManager" where
  "startMetricsServer cfg m =
     (if \<not> mt_Enabled (cf_Metrics cfg) then m else startHTTPServer ''metrics server'' ShutdownMetricsServer m)"

definition startWebhookRuntime :: "Config \<Rightarrow> runtimeManager \<Rightarrow> runtimeManager panics" where
  "startWebhookRuntime cfg m =
     (case NewWebhookHandlerDependencies (Some cfg) (Some (wc_StatsURL (cf_Webhook cfg))) of
        Inl e \<Rightarrow> None
      | Inr deps \<Rightarrow> Some (startHTTPServer ''webhook server'' ShutdownWebhookServer m))"

definition initDatabaseAdapter :: "StartEnv \<Rightarrow> runtimeManager \<Rightarrow> string option \<times> runtimeManager" where
  "initDatabaseAdapter env m =
     (case st_Database env of
        Some e \<Rightarrow> (Some (''failed to initialize database: '' @ e), m)
      | None \<Rightarrow> (None, AddCleanup CloseDatabase m))"

definition initAuditRecorder :: "runtimeManager \<Rightarrow> runtimeManager" where
  "initAuditRecorder m = AddCleanup CloseAudit m"

text \<open>The clients of a cluster, in the order in which they are made; the first failure ends it.\<close>

definition build_clients :: "StartEnv \<Rightarrow> string \<Rightarrow> string \<Rightarrow> bool \<Rightarrow> string + Manager" where
  "build_clients env kubeconfigPath prometheusURL insecure =
     (case st_KubeClient env kubeconfigPath of
        Some e \<Rightarrow> Inl (''failed to create kube client: '' @ e)
      | None \<Rightarrow> (case st_DynamicClient env kubeconfigPath of
          Some e \<Rightarrow> Inl (''failed to create dynamic client: '' @ e)
        | None \<Rightarrow> (case st_PromClient env prometheusURL insecure of
            Some e \<Rightarrow> Inl (''failed to create prometheus client: '' @ e)
          | None \<Rightarrow> Inr NewManager)))"

definition buildLocalClusterRuntime :: "StartEnv \<Rightarrow> Config \<Rightarrow> string + Manager" where
  "buildLocalClusterRuntime env cfg =
     (let local = dp_Local (cf_Dependencies cfg);
          kubeconfigPath = (if ld_KubeconfigPath local = '''' \<and> homeDir env \<noteq> ''''
            then homeDir env @ ''/.kube/config'' else ld_KubeconfigPath local)
      in build_clients env kubeconfigPath (ld_PrometheusURL local) (ld_InsecureSkipTLSVerify local))"

definition buildInClusterRuntime :: "StartEnv \<Rightarrow> Config \<Rightarrow> string + Manager" where
  "buildInClusterRuntime env cfg =
     (let deps = dp_InCluster (cf_Dependencies cfg)
      in build_clients env '''' (ic_PrometheusURL deps) (ic_InsecureSkipTLSVerify deps))"

definition buildClusterRuntime :: "StartEnv \<Rightarrow> Config \<Rightarrow> string + Manager" where
  "buildClusterRuntime env cfg =
     (if cf_ControllerMode cfg = ClusterModeLocal then buildLocalClusterRuntime env cfg
      else if cf_ControllerMode cfg = ClusterModeInCluster then buildInClusterRuntime env cfg
      else Inl (''invalid controller mode: '' @ cf_ControllerMode cfg))"

definition buildControllerRuntime :: "StartEnv \<Rightarrow> Config \<Rightarrow> runtimeManager \<Rightarrow> (string + Manager) \<times> runtimeManager" where
  "buildControllerRuntime env cfg m =
     (case initDatabaseAdapter env m of
        (Some e, m) \<Rightarrow> (Inl e, m)
      | (None, m) \<Rightarrow> (buildClusterRuntime env cfg, initAuditRecorder m))"

text \<open>The clusters whose out-of-memory events are watched.\<close>

definition startOOMWorkers :: "StartEnv \<Rightarrow> Config \<Rightarrow> string list \<Rightarrow> string list" where
  "startOOMWorkers env cfg clusterIDs =
     filter (\<lambda>clusterID. st_Observer env (cc_TargetNamespace (cf_Controller cfg)) = None) clusterIDs"

definition startUsageTelemetryHeartbeat :: "StartEnv \<Rightarrow> Config \<Rightarrow> string list \<Rightarrow> runtimeManager \<Rightarrow> runtimeManager" where
  "startUsageTelemetryHeartbeat env cfg clusterIDs m =
     (if \<not> ut_Enabled (cf_UsageTelemetry cfg) then m
      else if SingleClusterID \<notin> set clusterIDs then m
      else case st_Reporter env of
             Some e \<Rightarrow> m
           | None \<Rightarrow> Go ''usage telemetry heartbeat'' (AddCleanup CloseReporter m))"

text \<open>What is running: the clusters of the manager, those watched for out-of-memory events, and the tasks.\<close>

record controllerRuntime =
  cr_clusters :: "string list"
  cr_watched :: "string list"
  cr_registry :: registry

datatype start_outcome = Started | Failed string | Crashed

definition schedule_text :: "StartEnv \<Rightarrow> schedule_error \<Rightarrow> string" where
  "schedule_text env e =
     (case e of
        BadSchedule name \<Rightarrow> ''parse schedule for task '' @ name @ '': '' @ st_badSchedule env name
      | TaskExists name \<Rightarrow> ''task '' @ name @ '' already exists'')"

definition startControllerRuntime ::
    "StartEnv \<Rightarrow> Config \<Rightarrow> runtimeManager \<Rightarrow> start_outcome \<times> runtimeManager \<times> controllerRuntime option" where
  "startControllerRuntime env cfg m =
     (case buildControllerRuntime env cfg m of
        (Inl e, m) \<Rightarrow> (Failed e, m, None)
      | (Inr manager, m) \<Rightarrow>
          (let m = startHTTPServer ''controller HTTP server'' ShutdownControllerServer (AddCleanup StopTasks m);
               clusters = [SingleClusterID];
               watched = startOOMWorkers env cfg clusters
           in case registerControllerTasks (st_decoders env) cfg clusters (manager, Map.empty) of
                None \<Rightarrow> (Crashed, m, None)
              | Some (manager, byName) \<Rightarrow>
                  (case ScheduleAllTasks (st_range env (ma_registered manager)) manager of
                     None \<Rightarrow> (Crashed, m, None)
                   | Some (Some e, manager) \<Rightarrow> (Failed (''failed to schedule tasks: '' @ schedule_text env e), m,
                       Some \<lparr>cr_clusters = clusters, cr_watched = watched, cr_registry = (manager, byName)\<rparr>)
                   | Some (None, manager) \<Rightarrow> (Started, startUsageTelemetryHeartbeat env cfg clusters m,
                       Some \<lparr>cr_clusters = clusters, cr_watched = watched, cr_registry = (manager, byName)\<rparr>))))"

definition start_controller ::
    "StartEnv \<Rightarrow> Config \<Rightarrow> runtimeManager \<Rightarrow> start_outcome \<times> runtimeManager \<times> controllerRuntime option" where
  "start_controller env cfg m =
     (if shouldStartController (cf_ExecutionMode cfg) then startControllerRuntime env cfg m else (Started, m, None))"

text \<open>\<^verbatim>\<open>runCruiseKube\<close> up to the wait.\<close>

definition start_all ::
    "StartEnv \<Rightarrow> Config \<Rightarrow> runtimeManager \<Rightarrow> start_outcome \<times> runtimeManager \<times> controllerRuntime option" where
  "start_all env cfg m =
     (case setupTelemetry env cfg m of
        (Some e, m) \<Rightarrow> (Failed e, m, None)
      | (None, m) \<Rightarrow>
          (let m = startMetricsServer cfg m
           in if shouldStartWebhook (cf_ExecutionMode cfg)
              then (case startWebhookRuntime cfg m of
                      None \<Rightarrow> (Crashed, m, None)
                    | Some m \<Rightarrow> start_controller env cfg m)
              else start_controller env cfg m))"

text \<open>The error the program ends with, from that of the run and that of the shutdown; a crash stays one.\<close>

definition program_error :: "string option \<Rightarrow> string option \<Rightarrow> string option" where
  "program_error runErr shutdownErr =
     (case shutdownErr of
        None \<Rightarrow> runErr
      | Some e \<Rightarrow> (case runErr of None \<Rightarrow> Some (''shutdown failed: '' @ e) | Some _ \<Rightarrow> runErr))"

text \<open>\<open>life\<close> is what the goroutines do to the manager until \<^verbatim>\<open>Wait\<close> returns \<open>waited\<close>.\<close>

definition runCruiseKube ::
    "StartEnv \<Rightarrow> 's cleaner \<Rightarrow> (runtimeManager \<Rightarrow> runtimeManager) \<Rightarrow> string option \<Rightarrow> string + Config \<Rightarrow> 's
     \<Rightarrow> (string option panics) \<times> 's" where
  "runCruiseKube env clean life waited loaded s =
     (case loaded of
        Inl e \<Rightarrow> (Some (Some (''failed to load config: '' @ e)), s)
      | Inr cfg \<Rightarrow>
          (case Validate (st_sprint env) (st_defaultKey env) cfg of
             Inl e \<Rightarrow> (Some (Some (''invalid configuration: '' @ e)), s)
           | Inr cfg \<Rightarrow>
               (case start_all env cfg newRuntimeManager of
                  (Crashed, m, _) \<Rightarrow> (None, snd (snd (Shutdown clean m s)))
                | (Failed e, m, _) \<Rightarrow>
                    (case Shutdown clean m s of (err, m, s) \<Rightarrow> (Some (program_error (Some e) err), s))
                | (Started, m, _) \<Rightarrow>
                    (case Shutdown clean (life m) s of (err, m, s) \<Rightarrow> (Some (program_error waited err), s)))))"

section \<open>The tasks of a validated configuration\<close>

lemma missing_none: "missing_tasks c = [] \<Longrightarrow> key \<in> set RequiredTaskKeys \<Longrightarrow> \<exists>tc. GetTaskConfig c key = Some tc"
  unfolding missing_tasks_def filter_empty_conv by blast

text \<open>The metadata of the three tasks that have some decodes.\<close>

definition metadata_decodes :: "decoders \<Rightarrow> Config \<Rightarrow> bool" where
  "metadata_decodes de cfg \<longleftrightarrow>
     (\<forall>tc. GetTaskConfig cfg CreateStatsKey = Some tc \<longrightarrow> \<not> isl (ConvertMetadataToStruct (de_create de) tc False)) \<and>
     (\<forall>tc. GetTaskConfig cfg ApplyRecommendationKey = Some tc \<longrightarrow> \<not> isl (ConvertMetadataToStruct (de_apply de) tc
         \<lparr>am_NodeStatsURL = no_url, am_OverridesURL = no_url, am_SkipMemory = False\<rparr>)) \<and>
     (\<forall>tc. GetTaskConfig cfg CleanupKey = Some tc \<longrightarrow> \<not> isl (ConvertMetadataToStruct (de_cleanup de) tc 0))"

text \<open>The entry a task leaves in the manager.\<close>

definition entry_for :: "Config \<Rightarrow> string \<Rightarrow> string \<Rightarrow> Task option" where
  "entry_for cfg clusterID key =
     map_option (\<lambda>tc. \<lparr>tk_Name = clusterID @ ''_'' @ key, tk_Schedule = tc_Schedule tc, tk_Enabled = tc_Enabled tc\<rparr>)
       (GetTaskConfig cfg key)"

definition registers :: "(registry \<Rightarrow> registry panics) \<Rightarrow> Config \<Rightarrow> string \<Rightarrow> string \<Rightarrow> bool" where
  "registers f cfg clusterID key \<longleftrightarrow>
     (\<exists>t. entry_for cfg clusterID key = Some (task_of t) \<and> (\<forall>r. f r = AddCoreTask (Some t) r))"

lemma registersI:
  assumes "\<And>r. f r = AddCoreTask (Some t) r" "entry_for cfg clusterID key = Some (task_of t)"
  shows "registers f cfg clusterID key"
  using assms unfolding registers_def by blast

lemma isr_cases: "\<not> isl x \<Longrightarrow> (\<And>y. x = Inr y \<Longrightarrow> P) \<Longrightarrow> P"
  by (cases x) auto

lemma registers_six:
  assumes "missing_tasks cfg = []" "metadata_decodes de cfg"
  shows "registers (registerCreateStatsTask de cfg c) cfg c CreateStatsKey"
    "registers (registerApplyRecommendationTask de cfg c) cfg c ApplyRecommendationKey"
    "registers (registerFetchMetricsTask cfg c) cfg c FetchMetricsKey"
    "registers (registerNodeLoadMonitoringTask cfg c) cfg c NodeLoadMonitoringKey"
    "registers (registerCleanupTask de cfg c) cfg c CleanupKey"
    "registers (registerDisruptionForceTask cfg c) cfg c DisruptionForceKey"
proof -
  note tc = missing_none [OF assms(1), unfolded RequiredTaskKeys_def]
  note de = assms(2) [unfolded metadata_decodes_def]
  obtain tc1 where 1: "GetTaskConfig cfg CreateStatsKey = Some tc1" using tc by fastforce
  moreover obtain b where "ConvertMetadataToStruct (de_create de) tc1 False = Inr b" using de 1 by (blast elim: isr_cases)
  ultimately show "registers (registerCreateStatsTask de cfg c) cfg c CreateStatsKey"
    by (intro registersI) (simp add: registerCreateStatsTask_def NewCreateStatsTask_def shown_def, simp add: entry_for_def shown_def)
  obtain tc2 where 2: "GetTaskConfig cfg ApplyRecommendationKey = Some tc2" using tc by fastforce
  moreover obtain md where "ConvertMetadataToStruct (de_apply de) tc2
      \<lparr>am_NodeStatsURL = no_url, am_OverridesURL = no_url, am_SkipMemory = False\<rparr> = Inr md" using de 2 by (blast elim: isr_cases)
  ultimately show "registers (registerApplyRecommendationTask de cfg c) cfg c ApplyRecommendationKey"
    by (intro registersI) (simp add: registerApplyRecommendationTask_def NewApplyRecommendationTask_def shown_def, simp add: entry_for_def shown_def)
  obtain tc3 where 3: "GetTaskConfig cfg CleanupKey = Some tc3" using tc by fastforce
  moreover obtain n where "ConvertMetadataToStruct (de_cleanup de) tc3 0 = Inr n" using de 3 by (blast elim: isr_cases)
  ultimately show "registers (registerCleanupTask de cfg c) cfg c CleanupKey"
    by (intro registersI) (simp add: registerCleanupTask_def NewCleanupTask_def shown_def, simp add: entry_for_def shown_def)
  obtain tc4 where "GetTaskConfig cfg FetchMetricsKey = Some tc4" using tc by fastforce
  then show "registers (registerFetchMetricsTask cfg c) cfg c FetchMetricsKey"
    by (intro registersI) (simp add: registerFetchMetricsTask_def task_settings_def shown_def, simp add: entry_for_def shown_def)
  obtain tc5 where "GetTaskConfig cfg NodeLoadMonitoringKey = Some tc5" using tc by fastforce
  then show "registers (registerNodeLoadMonitoringTask cfg c) cfg c NodeLoadMonitoringKey"
    by (intro registersI) (simp add: registerNodeLoadMonitoringTask_def task_settings_def shown_def, simp add: entry_for_def shown_def)
  obtain tc6 where "GetTaskConfig cfg DisruptionForceKey = Some tc6" using tc by fastforce
  then show "registers (registerDisruptionForceTask cfg c) cfg c DisruptionForceKey"
    by (intro registersI) (simp add: registerDisruptionForceTask_def task_settings_def shown_def, simp add: entry_for_def shown_def)
qed

definition registry_ok :: "Config \<Rightarrow> string \<Rightarrow> string set \<Rightarrow> registry \<Rightarrow> bool" where
  "registry_ok cfg clusterID keys r \<longleftrightarrow>
     dom (ma_registered (fst r)) = (\<lambda>key. clusterID @ ''_'' @ key) ` keys \<and>
     (\<forall>key \<in> keys. ma_registered (fst r) (clusterID @ ''_'' @ key) = entry_for cfg clusterID key) \<and>
     (\<forall>name. map_option task_of ((snd r) name) = ma_registered (fst r) name) \<and>
     ma_scheduler (fst r) = NewScheduler"

lemma registers_step:
  assumes "registers f cfg c key" "registry_ok cfg c keys r"
  obtains r' where "f r = Some r'" "registry_ok cfg c (insert key keys) r'"
proof -
  obtain t where t: "entry_for cfg c key = Some (task_of t)" "f r = AddCoreTask (Some t) r"
    using assms(1) unfolding registers_def by blast
  have n: "tk_Name (task_of t) = c @ ''_'' @ key" using t(1) by (auto simp: entry_for_def dest!: sym [of _ "task_of t"])
  let ?r = "(AddTask (task_of t) (fst r), (snd r)(tk_Name (task_of t) \<mapsto> t))"
  have "registry_ok cfg c (insert key keys) ?r"
    using assms(2) t(1) unfolding registry_ok_def AddTask_def n by (simp add: n)
  then show thesis using that t(2) by (simp add: AddCoreTask_def)
qed

lemma register_all:
  assumes "missing_tasks cfg = []" "metadata_decodes de cfg"
  obtains r where "registerControllerTasks de cfg [c] (NewManager, Map.empty) = Some r"
    "registry_ok cfg c (set RequiredTaskKeys) r"
proof -
  note reg = registers_six [OF assms, of c]
  have "registry_ok cfg c {} (NewManager, Map.empty)" by (simp add: registry_ok_def NewManager_def)
  from registers_step [OF reg(1) this] obtain r1 where 1: "registerCreateStatsTask de cfg c (NewManager, Map.empty) = Some r1"
    "registry_ok cfg c {CreateStatsKey} r1" by blast
  from registers_step [OF reg(2) 1(2)] obtain r2 where 2: "registerApplyRecommendationTask de cfg c r1 = Some r2"
    "registry_ok cfg c {ApplyRecommendationKey, CreateStatsKey} r2" by blast
  from registers_step [OF reg(3) 2(2)] obtain r3 where 3: "registerFetchMetricsTask cfg c r2 = Some r3"
    "registry_ok cfg c {FetchMetricsKey, ApplyRecommendationKey, CreateStatsKey} r3" by blast
  from registers_step [OF reg(4) 3(2)] obtain r4 where 4: "registerNodeLoadMonitoringTask cfg c r3 = Some r4"
    "registry_ok cfg c {NodeLoadMonitoringKey, FetchMetricsKey, ApplyRecommendationKey, CreateStatsKey} r4" by blast
  from registers_step [OF reg(5) 4(2)] obtain r5 where 5: "registerCleanupTask de cfg c r4 = Some r5"
    "registry_ok cfg c {CleanupKey, NodeLoadMonitoringKey, FetchMetricsKey, ApplyRecommendationKey, CreateStatsKey} r5" by blast
  from registers_step [OF reg(6) 5(2)] obtain r6 where 6: "registerDisruptionForceTask cfg c r5 = Some r6"
    "registry_ok cfg c {DisruptionForceKey, CleanupKey, NodeLoadMonitoringKey, FetchMetricsKey, ApplyRecommendationKey,
       CreateStatsKey} r6" by blast
  have "{DisruptionForceKey, CleanupKey, NodeLoadMonitoringKey, FetchMetricsKey, ApplyRecommendationKey, CreateStatsKey} =
      set RequiredTaskKeys" unfolding RequiredTaskKeys_def list.set by blast
  then show thesis using that 1(1) 2(1) 3(1) 4(1) 5(1) 6 by simp
qed

text \<open>Metadata that does not decode stops the start: the task is nil, and its name is read.\<close>

lemma register_panics:
  assumes "\<not> metadata_decodes de cfg"
  shows "registerControllerTasks de cfg [c] r = None"
proof -
  have "(\<forall>r. registerCreateStatsTask de cfg c r = None) \<or> (\<forall>r. registerApplyRecommendationTask de cfg c r = None) \<or>
      (\<forall>r. registerCleanupTask de cfg c r = None)"
    using assms unfolding metadata_decodes_def isl_def
    by (auto simp: registerCreateStatsTask_def NewCreateStatsTask_def registerApplyRecommendationTask_def
        NewApplyRecommendationTask_def registerCleanupTask_def NewCleanupTask_def AddCoreTask_def)
  then show ?thesis
  proof (elim disjE)
    assume "\<forall>r. registerCreateStatsTask de cfg c r = None"
    then show ?thesis by (simp del: split_paired_All)
  next
    assume "\<forall>r. registerApplyRecommendationTask de cfg c r = None"
    then show ?thesis by (cases "registerCreateStatsTask de cfg c r") (simp_all del: split_paired_All)
  next
    assume "\<forall>r. registerCleanupTask de cfg c r = None"
    then show ?thesis by (simp del: split_paired_All)
  qed
qed

lemma validated_controller:
  assumes "ValidateControllerExecutionMode sprint dk cfg = Inr cfg'"
  shows "missing_tasks cfg = []" "cfg' = validateUsageTelemetryForController sprint dk cfg" "mode_error cfg = None"
  using assms by (auto simp: ValidateControllerExecutionMode_def split: option.splits if_splits)

lemma default_interval: "ParseDuration ''30m'' = Some 1800000000000"
  by (simp add: ParseDuration_def parse_components.simps parse_component_def parse_number_def parse_fraction_def
      decimal_digit_def digit_value_def unit_char_def unitMap_def)

lemma no_space_trim: "TrimSpace ''30m'' = ''30m''"
  by code_simp

lemma validated_telemetry:
  assumes "cfg' = validateUsageTelemetryForController sprint dk cfg"
  shows "cf_Controller cfg' = cf_Controller cfg" "cf_Dependencies cfg' = cf_Dependencies cfg"
    "cf_ControllerMode cfg' = cf_ControllerMode cfg" "cf_ExecutionMode cfg' = cf_ExecutionMode cfg"
    "cf_Server cfg' = cf_Server cfg"
    "ut_Enabled (cf_UsageTelemetry cfg') \<Longrightarrow> \<exists>d > 0. ParseDuration (TrimSpace (ut_Interval (cf_UsageTelemetry cfg'))) = Some d"
proof -
  show "cf_Controller cfg' = cf_Controller cfg" "cf_Dependencies cfg' = cf_Dependencies cfg"
    "cf_ControllerMode cfg' = cf_ControllerMode cfg" "cf_ExecutionMode cfg' = cf_ExecutionMode cfg"
    "cf_Server cfg' = cf_Server cfg"
    unfolding assms validateUsageTelemetryForController_def Let_def by (simp_all split: prod.split)
  show "\<exists>d > 0. ParseDuration (TrimSpace (ut_Interval (cf_UsageTelemetry cfg'))) = Some d"
    if "ut_Enabled (cf_UsageTelemetry cfg')"
    using that unfolding assms validateUsageTelemetryForController_def Let_def
    by (auto simp: default_interval no_space_trim defaultUsageTelemetryInterval_def split: if_splits option.splits)
qed

section \<open>The order of the clean-up\<close>

text \<open>The clean-ups each stage of the start registers, as the stage leaves them.\<close>

lemma cleanups_Go [simp]:
  "rm_cleanups (Go name m) = rm_cleanups m" "rm_cleanups (AddCleanup c m) = rm_cleanups m @ [c]"
  "rm_cleanups (startHTTPServer name c m) = rm_cleanups m @ [c]"
  by (simp_all add: Go_def AddCleanup_def startHTTPServer_def)

lemma cleanups_telemetry:
  "setupTelemetry env cfg m = (e, m') \<Longrightarrow>
     rm_cleanups m' = rm_cleanups m @ [c \<leftarrow> [ShutdownTelemetry]. te_Enabled (cf_Telemetry cfg) \<and> st_Telemetry env = None] \<and>
     (e = None \<longleftrightarrow> (te_Enabled (cf_Telemetry cfg) \<longrightarrow> st_Telemetry env = None))"
  by (auto simp: setupTelemetry_def split: if_splits option.splits)

lemma cleanups_metrics:
  "rm_cleanups (startMetricsServer cfg m) = rm_cleanups m @ [c \<leftarrow> [ShutdownMetricsServer]. mt_Enabled (cf_Metrics cfg)]"
  by (simp add: startMetricsServer_def)

lemma webhook_starts:
  "startWebhookRuntime cfg m = Some (startHTTPServer ''webhook server'' ShutdownWebhookServer m)"
  by (simp add: startWebhookRuntime_def NewWebhookHandlerDependencies_def)

lemma cleanups_build:
  "buildControllerRuntime env cfg m = (r, m') \<Longrightarrow>
     rm_cleanups m' = rm_cleanups m @ [c \<leftarrow> [CloseDatabase, CloseAudit]. st_Database env = None] \<and>
     (isl r \<longleftrightarrow> st_Database env \<noteq> None \<or> isl (buildClusterRuntime env cfg))"
  by (auto simp: buildControllerRuntime_def initDatabaseAdapter_def initAuditRecorder_def split: option.splits)

definition heartbeat_starts :: "StartEnv \<Rightarrow> Config \<Rightarrow> bool" where
  "heartbeat_starts env cfg \<longleftrightarrow> ut_Enabled (cf_UsageTelemetry cfg) \<and> st_Reporter env = None"

lemma cleanups_heartbeat:
  "rm_cleanups (startUsageTelemetryHeartbeat env cfg [SingleClusterID] m) =
     rm_cleanups m @ [c \<leftarrow> [CloseReporter]. heartbeat_starts env cfg]"
  by (auto simp: startUsageTelemetryHeartbeat_def heartbeat_starts_def split: option.split)

lemma controller_manager:
  assumes "startControllerRuntime env cfg m = (o', m', rt)" "buildControllerRuntime env cfg m = (Inr manager, m1)"
    and "m2 = startHTTPServer ''controller HTTP server'' ShutdownControllerServer (AddCleanup StopTasks m1)"
  shows "m' = (if o' = Started then startUsageTelemetryHeartbeat env cfg [SingleClusterID] m2 else m2)"
  using assms by (auto simp: startControllerRuntime_def Let_def simp del: registerControllerTasks.simps
      split: option.splits prod.splits)

definition serves :: "StartEnv \<Rightarrow> Config \<Rightarrow> bool" where
  "serves env cfg \<longleftrightarrow> st_Database env = None \<and> \<not> isl (buildClusterRuntime env cfg)"

lemma cleanups_controller:
  assumes "startControllerRuntime env cfg m = (o', m', rt)"
  shows "rm_cleanups m' = rm_cleanups m @ [c \<leftarrow> [CloseDatabase, CloseAudit]. st_Database env = None] @
      [c \<leftarrow> [StopTasks, ShutdownControllerServer]. serves env cfg] @
      [c \<leftarrow> [CloseReporter]. serves env cfg \<and> o' = Started \<and> heartbeat_starts env cfg] \<and>
    (o' = Started \<longrightarrow> serves env cfg)"
proof -
  obtain r m1 where b: "buildControllerRuntime env cfg m = (r, m1)" by fastforce
  note c1 = cleanups_build [OF b]
  show ?thesis
  proof (cases r)
    case (Inl e)
    then have "m' = m1" "o' = Failed e" using assms by (simp_all add: startControllerRuntime_def b)
    then show ?thesis using c1 Inl by (auto simp: serves_def)
  next
    case (Inr manager)
    have "serves env cfg" using c1 Inr by (simp add: serves_def)
    then show ?thesis
      using c1 controller_manager [OF assms b [unfolded Inr] refl] by (auto simp: cleanups_heartbeat serves_def)
  qed
qed

text \<open>What the start brought up when it stopped with an outcome, in that order.\<close>

definition telemetry_ok :: "StartEnv \<Rightarrow> Config \<Rightarrow> bool" where
  "telemetry_ok env cfg \<longleftrightarrow> (te_Enabled (cf_Telemetry cfg) \<longrightarrow> st_Telemetry env = None)"

definition brought_up :: "StartEnv \<Rightarrow> Config \<Rightarrow> start_outcome \<Rightarrow> cleanup \<Rightarrow> bool" where
  "brought_up env cfg outcome c \<longleftrightarrow>
     (let controller = telemetry_ok env cfg \<and> shouldStartController (cf_ExecutionMode cfg)
      in case c of
           ShutdownTelemetry \<Rightarrow> te_Enabled (cf_Telemetry cfg) \<and> st_Telemetry env = None
         | ShutdownMetricsServer \<Rightarrow> telemetry_ok env cfg \<and> mt_Enabled (cf_Metrics cfg)
         | ShutdownWebhookServer \<Rightarrow> telemetry_ok env cfg \<and> shouldStartWebhook (cf_ExecutionMode cfg)
         | CloseDatabase \<Rightarrow> controller \<and> st_Database env = None
         | CloseAudit \<Rightarrow> controller \<and> st_Database env = None
         | StopTasks \<Rightarrow> controller \<and> serves env cfg
         | ShutdownControllerServer \<Rightarrow> controller \<and> serves env cfg
         | CloseReporter \<Rightarrow> controller \<and> serves env cfg \<and> outcome = Started \<and> heartbeat_starts env cfg)"

definition all_cleanups :: "cleanup list" where
  "all_cleanups = [ShutdownTelemetry, ShutdownMetricsServer, ShutdownWebhookServer, CloseDatabase, CloseAudit, StopTasks,
     ShutdownControllerServer, CloseReporter]"

lemma cleanups_start:
  assumes "start_all env cfg m = (o', m', rt)"
  shows "rm_cleanups m' = rm_cleanups m @ filter (brought_up env cfg o') all_cleanups \<and>
    (o' = Started \<longrightarrow> telemetry_ok env cfg \<and> (shouldStartController (cf_ExecutionMode cfg) \<longrightarrow> serves env cfg))"
proof -
  obtain e m1 where t: "setupTelemetry env cfg m = (e, m1)" by fastforce
  note c1 = cleanups_telemetry [OF t]
  define m2 where "m2 = startMetricsServer cfg m1"
  have c2: "rm_cleanups m2 = rm_cleanups m1 @ [c \<leftarrow> [ShutdownMetricsServer]. mt_Enabled (cf_Metrics cfg)]"
    unfolding m2_def by (rule cleanups_metrics)
  define m3 where "m3 = (if shouldStartWebhook (cf_ExecutionMode cfg)
    then startHTTPServer ''webhook server'' ShutdownWebhookServer m2 else m2)"
  have c3: "rm_cleanups m3 = rm_cleanups m2 @
      [c \<leftarrow> [ShutdownWebhookServer]. shouldStartWebhook (cf_ExecutionMode cfg)]"
    by (simp add: m3_def)
  show ?thesis
  proof (cases e)
    case (Some a)
    then have "m' = m1" "o' = Failed a" using assms by (auto simp: start_all_def t)
    then show ?thesis using c1 Some by (simp add: all_cleanups_def brought_up_def telemetry_ok_def Let_def)
  next
    case None
    then have ok: "telemetry_ok env cfg" using c1 by (simp add: telemetry_ok_def)
    have s: "start_controller env cfg m3 = (o', m', rt)"
      using assms None by (simp add: start_all_def t webhook_starts m2_def m3_def Let_def split: if_splits)
    show ?thesis
    proof (cases "shouldStartController (cf_ExecutionMode cfg)")
      case True
      then have "startControllerRuntime env cfg m3 = (o', m', rt)" using s by (simp add: start_controller_def)
      from cleanups_controller [OF this] show ?thesis using True ok c1 c2 c3
        by (simp add: all_cleanups_def brought_up_def Let_def)
    next
      case False
      then have "m' = m3" "o' = Started" using s by (simp_all add: start_controller_def)
      then show ?thesis using False ok c1 c2 c3 by (simp add: all_cleanups_def brought_up_def Let_def)
    qed
  qed
qed

lemma run_cleanups_all:
  "run_cleanups (\<lambda>c s. (err c, s @ [c])) cs s = (List.map_filter err cs, s @ cs)"
  by (induction cs arbitrary: s) (auto simp: Let_def List.map_filter_simps split: option.split)

section \<open>Properties\<close>

text \<open>C35. A configuration that passes the validation of the controller registers, for its cluster, exactly the
  six tasks, under their names and with the schedules and switches of the configuration, without
  reading a nil pointer: registering panics exactly when the metadata of a task does not decode. The
  validation changes nothing but the telemetry, which is left enabled only with an interval that
  parses to a positive duration, as its ticker needs.\<close>

theorem validated_tasks:
  assumes "Validate sprint key cfg = Inr cfg'" "shouldStartController (cf_ExecutionMode cfg)"
  shows "(registerControllerTasks de cfg' [''default''] (NewManager, Map.empty) = None \<longleftrightarrow> \<not> metadata_decodes de cfg) \<and>
    (\<forall>m byName. registerControllerTasks de cfg' [''default''] (NewManager, Map.empty) = Some (m, byName) \<longrightarrow>
      dom (ma_registered m) = (\<lambda>taskKey. ''default'' @ ''_'' @ taskKey) ` set RequiredTaskKeys \<and>
      (\<forall>taskKey \<in> set RequiredTaskKeys. \<exists>tc. GetTaskConfig cfg taskKey = Some tc \<and>
        ma_registered m (''default'' @ ''_'' @ taskKey) = Some \<lparr>tk_Name = ''default'' @ ''_'' @ taskKey,
          tk_Schedule = tc_Schedule tc, tk_Enabled = tc_Enabled tc\<rparr>) \<and>
      (\<forall>name. map_option task_of (byName name) = ma_registered m name)) \<and>
    cfg' = cfg\<lparr>cf_UsageTelemetry := cf_UsageTelemetry cfg'\<rparr> \<and>
    (ut_Enabled (cf_UsageTelemetry cfg') \<longrightarrow>
      (\<exists>d > 0. ParseDuration (TrimSpace (ut_Interval (cf_UsageTelemetry cfg'))) = Some d))"
proof -
  have v: "ValidateControllerExecutionMode sprint key cfg = Inr cfg'"
    using assms by (auto simp: Validate_def shouldStartController_def ExecutionModeController_def ExecutionModeBoth_def
        ExecutionModeWebhook_def split: option.splits if_splits)
  note c = validated_controller [OF v] and t = validated_telemetry [OF validated_controller(2) [OF v]]
  have get: "GetTaskConfig cfg' = GetTaskConfig cfg" by (simp add: GetTaskConfig_def t(1) fun_eq_iff)
  have same: "missing_tasks cfg' = []" "metadata_decodes de cfg' \<longleftrightarrow> metadata_decodes de cfg"
    "entry_for cfg' = entry_for cfg"
    using c(1) by (simp_all add: missing_tasks_def metadata_decodes_def entry_for_def get fun_eq_iff)
  have eq: "cfg' = cfg\<lparr>cf_UsageTelemetry := cf_UsageTelemetry cfg'\<rparr>"
    unfolding c(2) validateUsageTelemetryForController_def Let_def by (simp split: prod.split)
  let ?reg = "registerControllerTasks de cfg' [''default''] (NewManager, Map.empty)"
  let ?good = "\<lambda>m byName. dom (ma_registered m) = (\<lambda>taskKey. ''default'' @ ''_'' @ taskKey) ` set RequiredTaskKeys \<and>
      (\<forall>taskKey \<in> set RequiredTaskKeys. \<exists>tc. GetTaskConfig cfg taskKey = Some tc \<and>
        ma_registered m (''default'' @ ''_'' @ taskKey) = Some \<lparr>tk_Name = ''default'' @ ''_'' @ taskKey,
          tk_Schedule = tc_Schedule tc, tk_Enabled = tc_Enabled tc\<rparr>) \<and>
      (\<forall>name. map_option task_of (byName name) = ma_registered m name)"
  have "(?reg = None \<longleftrightarrow> \<not> metadata_decodes de cfg) \<and> (\<forall>m byName. ?reg = Some (m, byName) \<longrightarrow> ?good m byName)"
  proof (cases "metadata_decodes de cfg")
    case False
    have "?reg = None" by (rule register_panics) (simp only: same(2) False not_False_eq_True)
    then show ?thesis using False by (simp only:) blast
  next
    case True
    from register_all [OF same(1), of de "''default''"] True obtain r where
      r: "?reg = Some r" "registry_ok cfg' ''default'' (set RequiredTaskKeys) r" unfolding same(2) by blast
    have e: "\<exists>tc. GetTaskConfig cfg taskKey = Some tc \<and> entry_for cfg ''default'' taskKey = Some \<lparr>tk_Name = ''default'' @ ''_'' @ taskKey,
          tk_Schedule = tc_Schedule tc, tk_Enabled = tc_Enabled tc\<rparr>" if "taskKey \<in> set RequiredTaskKeys" for taskKey
      using missing_none [OF c(1) that] by (auto simp: entry_for_def)
    have good: "?good (fst r) (snd r)"
    proof (intro conjI ballI)
      fix taskKey assume k: "taskKey \<in> set RequiredTaskKeys"
      then have "ma_registered (fst r) (''default'' @ ''_'' @ taskKey) = entry_for cfg ''default'' taskKey"
        using r(2) unfolding registry_ok_def same(3) by blast
      then show "\<exists>tc. GetTaskConfig cfg taskKey = Some tc \<and> ma_registered (fst r) (''default'' @ ''_'' @ taskKey) =
          Some \<lparr>tk_Name = ''default'' @ ''_'' @ taskKey, tk_Schedule = tc_Schedule tc, tk_Enabled = tc_Enabled tc\<rparr>"
        using e [OF k] by (simp only:)
    qed (use r(2) [unfolded registry_ok_def] in blast)+
    have "?good m byName" if "?reg = Some (m, byName)" for m byName
    proof -
      have eq: "r = (m, byName)" using that r(1) by (simp only: option.inject)
      show ?thesis using good unfolding eq fst_conv snd_conv .
    qed
    then show ?thesis using r(1) True by (simp only: option.distinct simp_thms) blast
  qed
  with eq t(6) show ?thesis by blast
qed

lemma validated_mode:
  assumes "Validate sprint key cfg = Inr cfg'" shows "cf_ExecutionMode cfg' = cf_ExecutionMode cfg"
proof -
  have "cfg' = cfg \<or> ValidateControllerExecutionMode sprint key cfg = Inr cfg'"
    using assms by (auto simp: Validate_def split: if_splits option.splits)
  then show ?thesis using validated_telemetry(4) [OF validated_controller(2)] by blast
qed

text \<open>C36. However far the start of the program got, whether it failed, crashed or ran until it was
  stopped, exactly the parts it had brought up are cleaned up, each once, whether or not others
  fail, and in one fixed order: the requests and the tasks stop before the audit queue is drained,
  and the database is closed after it. Telemetry and the metrics server are cleaned up when they
  are enabled, the webhook server when the mode has it, the database and the audit queue of a
  controller once the database was reached, its tasks and its server once the clients of the
  cluster were built, the reporter when the start succeeded with usage telemetry enabled. Without
  an error the program ends only when it was told to and everything could be cleaned up.\<close>

theorem program_stops_in_order:
  assumes "\<And>m. rm_cleanups (life m) = rm_cleanups m" "Validate (st_sprint env) (st_defaultKey env) cfg = Inr cfg'"
    and "runCruiseKube env (\<lambda>c done_so_far. (err c, done_so_far @ [c])) life waited (Inr cfg) [] = (r, order)"
  shows "subseq order [CloseReporter, ShutdownControllerServer, StopTasks, CloseAudit, CloseDatabase, ShutdownWebhookServer,
      ShutdownMetricsServer, ShutdownTelemetry] \<and>
    (let begun = (te_Enabled (cf_Telemetry cfg') \<longrightarrow> st_Telemetry env = None);
         controller = (begun \<and> shouldStartController (cf_ExecutionMode cfg) \<and> st_Database env = None);
         serving = (controller \<and> \<not> isl (buildClusterRuntime env cfg'));
         started = (fst (start_all env cfg' newRuntimeManager) = Started)
     in (ShutdownTelemetry \<in> set order \<longleftrightarrow> te_Enabled (cf_Telemetry cfg') \<and> st_Telemetry env = None) \<and>
        (ShutdownMetricsServer \<in> set order \<longleftrightarrow> begun \<and> mt_Enabled (cf_Metrics cfg')) \<and>
        (ShutdownWebhookServer \<in> set order \<longleftrightarrow> begun \<and> shouldStartWebhook (cf_ExecutionMode cfg)) \<and>
        (CloseDatabase \<in> set order \<longleftrightarrow> controller) \<and> (CloseAudit \<in> set order \<longleftrightarrow> controller) \<and>
        (StopTasks \<in> set order \<longleftrightarrow> serving) \<and> (ShutdownControllerServer \<in> set order \<longleftrightarrow> serving) \<and>
        (CloseReporter \<in> set order \<longleftrightarrow>
           serving \<and> started \<and> ut_Enabled (cf_UsageTelemetry cfg') \<and> st_Reporter env = None) \<and>
        (started \<longrightarrow> begun \<and> (shouldStartController (cf_ExecutionMode cfg) \<longrightarrow> serving)) \<and>
        (r = Some None \<longleftrightarrow> started \<and> waited = None \<and> (\<forall>c \<in> set order. err c = None)))"
proof -
  obtain o' m rt where st: "start_all env cfg' newRuntimeManager = (o', m, rt)" by (metis prod_cases3)
  note cl = cleanups_start [OF st]
  have rm: "rm_cleanups m = filter (brought_up env cfg' o') all_cleanups" using cl by (simp add: newRuntimeManager_def)
  have ord: "order = rev (rm_cleanups m)"
    using assms(3)
    by (cases o') (auto simp: runCruiseKube_def assms(1,2) st Shutdown_def run_cleanups_all Let_def)
  then have order: "order = filter (brought_up env cfg' o') (rev all_cleanups)" unfolding rm by (simp add: rev_filter)
  have 1: "subseq order [CloseReporter, ShutdownControllerServer, StopTasks, CloseAudit, CloseDatabase,
      ShutdownWebhookServer, ShutdownMetricsServer, ShutdownTelemetry]"
    using subseq_filter_left [of "brought_up env cfg' o'" "rev all_cleanups"] unfolding order
    by (simp only: all_cleanups_def rev.simps append.simps)
  have mode: "cf_ExecutionMode cfg' = cf_ExecutionMode cfg" by (rule validated_mode [OF assms(2)])
  have mem: "c \<in> set order \<longleftrightarrow> brought_up env cfg' o' c" for c
    unfolding order by (cases c) (simp_all add: all_cleanups_def)
  have errs: "List.map_filter err (rev (rm_cleanups m)) = [] \<longleftrightarrow> (\<forall>c \<in> set order. err c = None)"
    by (auto simp: ord List.map_filter_def filter_empty_conv)
  have 3: "r = Some None \<longleftrightarrow> o' = Started \<and> waited = None \<and> (\<forall>c \<in> set order. err c = None)"
    using assms(3) unfolding errs [symmetric]
    by (cases o') (auto simp: runCruiseKube_def assms(1,2) st Shutdown_def run_cleanups_all Let_def program_error_def
      split: option.splits if_splits)
  have 4: "o' = Started \<longrightarrow> telemetry_ok env cfg' \<and> (shouldStartController (cf_ExecutionMode cfg) \<longrightarrow> serves env cfg')"
    using cl mode by simp
  show ?thesis using 1 3 4 unfolding Let_def st fst_conv mem
    by (auto simp: brought_up_def serves_def telemetry_ok_def heartbeat_starts_def mode)
qed

section \<open>A sample\<close>

definition sample_startup_config :: Config where
  "sample_startup_config = \<lparr>cf_ControllerMode = ClusterModeLocal,
     cf_Dependencies = \<lparr>dp_Local = \<lparr>ld_KubeconfigPath = '''', ld_PrometheusURL = ''http://prometheus:9090'',
         ld_InsecureSkipTLSVerify = False\<rparr>, dp_InCluster = \<lparr>ic_PrometheusURL = '''', ic_InsecureSkipTLSVerify = False\<rparr>\<rparr>,
     cf_ExecutionMode = ExecutionModeController,
     cf_Controller = \<lparr>cc_TargetNamespace = '''', cc_TargetClusterID = '''',
       cc_Tasks = Some (\<lambda>_. Some (Some \<lparr>tc_Enabled = True, tc_Schedule = ''5m'', tc_Metadata = None\<rparr>))\<rparr>,
     cf_Server = \<lparr>sv_Port = ''8080'', sv_Auth = \<lparr>auth_Enabled = False, auth_Username = '''', auth_Password = ''''\<rparr>,
       sv_EnableDevAPIs = False\<rparr>,
     cf_Webhook = \<lparr>wc_Port = '''', wc_CertsDir = '''', wc_StatsURL = no_url\<rparr>,
     cf_DB = \<lparr>dc_Type = ''sqlite'', dc_Host = '''', dc_Port = 0, dc_Database = ''cruisekube.db'', dc_Username = '''',
       dc_Password = '''', dc_SSLMode = ''''\<rparr>,
     cf_RecommendationSettings = \<lparr>rs_NewWorkloadThresholdHours = 0, rs_DisableMemoryApplication = False,
       rs_OOMCooldownMinutes = 5, rs_OptimizeGuaranteedPods = False\<rparr>,
     cf_Telemetry = \<lparr>te_Enabled = True, te_ExporterOTLPEndpoint = '''', te_ExporterOTLPHeaders = '''',
       te_ServiceName = ''cruisekube'', te_TraceRatio = lit (1 / 10)\<rparr>,
     cf_UsageTelemetry = \<lparr>ut_Enabled = False, ut_Interval = '''', ut_InstallID = '''', ut_ProviderAPIKey = '''',
       ut_ProviderConfig = [], ut_HelmChartVersion = ''''\<rparr>,
     cf_Metrics = \<lparr>mt_Enabled = False, mt_Port = ''''\<rparr>,
     cf_Sentry = \<lparr>sy_Enabled = False, sy_DSN = '''', sy_Environment = ''''\<rparr>, cf_Custom = []\<rparr>"

definition sample_decoders :: decoders where
  "sample_decoders = \<lparr>de_create = (\<lambda>_. Inr False),
     de_apply = (\<lambda>_. Inr \<lparr>am_NodeStatsURL = no_url, am_OverridesURL = no_url, am_SkipMemory = False\<rparr>), de_cleanup = (\<lambda>_. Inr 0)\<rparr>"

definition sample_start_env :: StartEnv where
  "sample_start_env = \<lparr>st_sprint = (\<lambda>_. ''''), st_defaultKey = '''', st_decoders = sample_decoders, st_Home = ''/root'',
     st_UserProfile = '''', st_Telemetry = None, st_Database = Some ''no connection'', st_KubeClient = (\<lambda>_. None),
     st_DynamicClient = (\<lambda>_. None), st_PromClient = (\<lambda>_ _. None), st_Observer = (\<lambda>_. None), st_Reporter = None,
     st_badSchedule = (\<lambda>_. ''''), st_range = (\<lambda>_. [])\<rparr>"

lemma sample_validates: "Validate sprint key sample_startup_config = Inr sample_startup_config"
proof -
  have u: "validateUsageTelemetryForController sprint key sample_startup_config = sample_startup_config"
    by (simp add: validateUsageTelemetryForController_def sample_startup_config_def)
  have t: "missing_tasks sample_startup_config = []"
    by (simp add: missing_tasks_def GetTaskConfig_def sample_startup_config_def)
  have "TrimSpace ClusterModeLocal = ClusterModeLocal" "TrimSpace ''http://prometheus:9090'' \<noteq> ''''" by code_simp+
  then have m: "mode_error sample_startup_config = None" by (simp add: mode_error_def sample_startup_config_def)
  have "cf_ExecutionMode sample_startup_config = ExecutionModeController" by (simp add: sample_startup_config_def)
  moreover have "ExecutionModeController \<noteq> ExecutionModeWebhook"
    by (simp add: ExecutionModeController_def ExecutionModeWebhook_def)
  ultimately show ?thesis by (simp add: Validate_def ValidateControllerExecutionMode_def u t m)
qed

lemma sample_controller: "shouldStartController (cf_ExecutionMode sample_startup_config)"
  by (simp add: shouldStartController_def sample_startup_config_def)

lemma validated_tasks_witness:
  "\<exists>m byName. registerControllerTasks sample_decoders sample_startup_config [''default''] (NewManager, Map.empty) = Some (m, byName) \<and>
     ma_registered m ''default_cleanup'' = Some \<lparr>tk_Name = ''default_cleanup'', tk_Schedule = ''5m'', tk_Enabled = True\<rparr>"
proof -
  note v = validated_tasks [OF sample_validates sample_controller, of sample_decoders]
  have "metadata_decodes sample_decoders sample_startup_config"
    by (simp add: metadata_decodes_def sample_decoders_def ConvertMetadataToStruct_def split: option.split)
  then obtain m byName where r: "registerControllerTasks sample_decoders sample_startup_config [''default''] (NewManager, Map.empty) =
      Some (m, byName)" using v by (metis not_None_eq surj_pair)
  have "CleanupKey \<in> set RequiredTaskKeys" unfolding RequiredTaskKeys_def list.set by blast
  then obtain tc where "GetTaskConfig sample_startup_config CleanupKey = Some tc"
    "ma_registered m (''default'' @ ''_'' @ CleanupKey) = Some \<lparr>tk_Name = ''default'' @ ''_'' @ CleanupKey,
       tk_Schedule = tc_Schedule tc, tk_Enabled = tc_Enabled tc\<rparr>"
    using v r by blast
  then have "ma_registered m ''default_cleanup'' = Some \<lparr>tk_Name = ''default_cleanup'', tk_Schedule = ''5m'', tk_Enabled = True\<rparr>"
    by (auto simp: GetTaskConfig_def sample_startup_config_def CleanupKey_def)
  with r show ?thesis by (intro exI conjI)
qed

lemma program_stops_in_order_witness:
  "runCruiseKube sample_start_env (\<lambda>c done_so_far. (None, done_so_far @ [c])) id None (Inr sample_startup_config) [] =
     (Some (Some ''failed to initialize database: no connection''), [ShutdownTelemetry]) \<and>
   subseq [ShutdownTelemetry] [CloseReporter, ShutdownControllerServer, StopTasks, CloseAudit, CloseDatabase,
     ShutdownWebhookServer, ShutdownMetricsServer, ShutdownTelemetry]"
proof -
  have t: "setupTelemetry sample_start_env sample_startup_config newRuntimeManager =
      (None, AddCleanup ShutdownTelemetry newRuntimeManager)"
    by (simp add: setupTelemetry_def sample_startup_config_def sample_start_env_def)
  have m: "startMetricsServer sample_startup_config x = x" for x
    by (simp add: startMetricsServer_def sample_startup_config_def)
  have w: "\<not> shouldStartWebhook (cf_ExecutionMode sample_startup_config)"
    by (simp add: shouldStartWebhook_def sample_startup_config_def ExecutionModeController_def ExecutionModeWebhook_def
        ExecutionModeBoth_def)
  have c: "startControllerRuntime sample_start_env sample_startup_config x =
      (Failed ''failed to initialize database: no connection'', x, None)" for x
    by (simp add: startControllerRuntime_def buildControllerRuntime_def initDatabaseAdapter_def sample_start_env_def)
  have "start_all sample_start_env sample_startup_config newRuntimeManager =
      (Failed ''failed to initialize database: no connection'', AddCleanup ShutdownTelemetry newRuntimeManager, None)"
    by (simp add: start_all_def t m w start_controller_def sample_controller c)
  then have r: "runCruiseKube sample_start_env (\<lambda>c done_so_far. (None, done_so_far @ [c])) id None (Inr sample_startup_config) [] =
     (Some (Some ''failed to initialize database: no connection''), [ShutdownTelemetry])"
    by (simp add: runCruiseKube_def sample_validates AddCleanup_def newRuntimeManager_def Shutdown_def program_error_def)
  from program_stops_in_order [OF _ sample_validates r] show ?thesis using r
    by (simp add: Let_def)
qed

text \<open>The validation trims the mode of the controller, the start compares it as it is.\<close>

lemma padded_mode_fails:
  "mode_error (sample_startup_config\<lparr>cf_ControllerMode := '' local''\<rparr>) = None"
  "buildClusterRuntime env (sample_startup_config\<lparr>cf_ControllerMode := '' local''\<rparr>) = Inl ''invalid controller mode:  local''"
proof -
  have "TrimSpace '' local'' = ClusterModeLocal" "TrimSpace ''http://prometheus:9090'' \<noteq> ''''" by code_simp+
  then show "mode_error (sample_startup_config\<lparr>cf_ControllerMode := '' local''\<rparr>) = None"
    by (simp add: mode_error_def sample_startup_config_def)
  show "buildClusterRuntime env (sample_startup_config\<lparr>cf_ControllerMode := '' local''\<rparr>) = Inl ''invalid controller mode:  local''"
    by (simp add: buildClusterRuntime_def ClusterModeLocal_def ClusterModeInCluster_def)
qed

text \<open>Every flag is bound to a key some field is decoded from, but that of the database's file.\<close>

lemma unread_flags: "filter (\<lambda>(key, flag). key \<notin> set config_keys) bindPersistentFlags = [(''db.filePath'', ''db-file-path'')]"
  by (simp add: bindPersistentFlags_def config_keys_def)

end
