(* ===== verification/FetchMetrics.thy ===== *)
theory FetchMetrics
  imports ApplyRun Promql GoTime
begin

text \<open>
  The metrics task, \<^verbatim>\<open>pkg/task/taskfetchmetrics.go\<close>: fourteen groups of Prometheus queries and the age
  of the stored statistics, each written to gauges of \<^verbatim>\<open>pkg/metrics/metrics.go\<close>. The gauges of
  the cluster are a map from the name of the gauge to the value set last; a fetch that fails
  leaves its gauges as they were. \<^verbatim>\<open>sort.Float64s\<close> is a parameter under the contract \<open>go_sort\<close>.
\<close>

section \<open>Fetches\<close>

type_synonym gauges = "string \<rightharpoonup> float64"

record FetchEnv =
  fe_ClusterID :: string
  fe_provider :: ProviderConfig
  fe_prom :: prom
  fe_rows :: row_sorter
  fe_fault :: faults
  fe_sort :: "(float64 \<Rightarrow> float64 \<Rightarrow> bool) \<Rightarrow> float64 list \<Rightarrow> float64 list"
  fe_oob :: "float64 \<Rightarrow> int"
  fe_now :: go_time
  fe_db :: Database

type_synonym fetch = "FetchEnv \<Rightarrow> gauges \<Rightarrow> gauges"

definition ask :: "FetchEnv \<Rightarrow> string \<Rightarrow> string \<Rightarrow> string + prom_value" where
  "ask env query queryID = fst (ExecuteQueryWithRetry (fe_provider env) (fe_prom env) query queryID)"

definition extractScalarValue :: "prom_value \<Rightarrow> float64 option" where
  "extractScalarValue result =
     (case result of
        Vector v \<Rightarrow> (case v of [] \<Rightarrow> None | sample # _ \<Rightarrow> Some (sa_Value sample))
      | Scalar s \<Rightarrow> Some s
      | _ \<Rightarrow> None)"

text \<open>\<open>absent\<close> is what is set when the answer holds no value, if anything is.\<close>

definition fetch_scalar :: "FetchEnv \<Rightarrow> string \<Rightarrow> string \<Rightarrow> string \<Rightarrow> float64 option \<Rightarrow> gauges \<Rightarrow> gauges" where
  "fetch_scalar env query queryID gauge absent gs =
     (case ask env query queryID of
        Inl e \<Rightarrow> gs
      | Inr result \<Rightarrow>
          (case extractScalarValue result of
             Some v \<Rightarrow> gs(gauge \<mapsto> v)
           | None \<Rightarrow> (case absent of None \<Rightarrow> gs | Some v \<Rightarrow> gs(gauge \<mapsto> v))))"

definition fetchMaxAndP50Metrics ::
    "FetchEnv \<Rightarrow> string \<Rightarrow> string \<Rightarrow> string \<Rightarrow> string \<Rightarrow> string \<Rightarrow> gauges \<Rightarrow> gauges" where
  "fetchMaxAndP50Metrics env baseQuery maxMetric p50Metric maxQueryName p50QueryName gs =
     (let maxQuery = ''max('' @ baseQuery @ '')'';
          gs = fetch_scalar env maxQuery maxQueryName maxMetric None gs;
          p50Query = ''quantile(0.50, '' @ baseQuery @ '')''
      in fetch_scalar env p50Query p50QueryName p50Metric None gs)"

definition fetchClusterCPUUtilization :: fetch where
  "fetchClusterCPUUtilization env =
     (let query = ''sum(
		sum by (node) (
			rate(container_cpu_usage_seconds_total{'' @ ContainerMetricsJobMatcher @ '',container!~\"POD|\"}[1m])
		)
		unless sum by (node) (kube_node_status_allocatable{job=\"kube-state-metrics\",resource=\"nvidia_com_gpu\"} > 0)
	)''
      in fetch_scalar env query ''cluster_cpu_utilization'' ''cruisekube_cluster_cpu_utilization_cores'' None)"

definition fetchClusterCPURequest :: fetch where
  "fetchClusterCPURequest env =
     (let query = ''(
		sum(
			sum by (node) (
				sum by (namespace, pod, node) (
				  kube_pod_container_resource_requests{container!=\"\",job=\"kube-state-metrics\",resource=\"cpu\"}
				)
			* on (namespace, pod) group_left ()
			  max by (namespace, pod) (kube_pod_status_phase{job=\"kube-state-metrics\",phase=\"Running\"} > 0)
			)
			unless
			  sum by (node) (kube_node_status_allocatable{job=\"kube-state-metrics\",resource=\"nvidia_com_gpu\"} > 0)
		)
	)''
      in fetch_scalar env query ''cluster_cpu_request'' ''cruisekube_cluster_cpu_request_cores'' None)"

definition fetchClusterCPUAllocated :: fetch where
  "fetchClusterCPUAllocated env =
     (let query = ''sum(
		kube_node_status_allocatable{job=\"kube-state-metrics\",resource=\"cpu\"}
		unless sum by (node) (kube_node_status_allocatable{job=\"kube-state-metrics\",resource=\"nvidia_com_gpu\"} > 0)
	)''
      in fetch_scalar env query ''cluster_cpu_allocated'' ''cruisekube_cluster_cpu_allocated_cores'' None)"

definition fetchNodeCPUWaiting :: fetch where
  "fetchNodeCPUWaiting env =
     (let query = ''rate(node_pressure_cpu_waiting_seconds_total{job=\"node-exporter\"}[1m])
	unless on (node) sum by (node) (kube_node_status_allocatable{job=\"kube-state-metrics\",resource=\"nvidia_com_gpu\"} > 0)''
      in fetchMaxAndP50Metrics env query ''cruisekube_node_cpu_waiting_max'' ''cruisekube_node_cpu_waiting_p50'' ''node_cpu_waiting_max'' ''node_cpu_waiting_p50'')"

definition fetchNodeCPULoad :: fetch where
  "fetchNodeCPULoad env =
     (let query = ''
		(
			node_load1{job=\"node-exporter\"}
		  / on (node) group_left ()
			kube_node_status_capacity{job=\"kube-state-metrics\",resource=\"cpu\"}
		)
	  *
		100
	unless on (node)
	  sum by (node) (kube_node_status_allocatable{job=\"kube-state-metrics\",resource=\"nvidia_com_gpu\"} > 0)''
      in fetchMaxAndP50Metrics env query ''cruisekube_node_cpu_load_max'' ''cruisekube_node_cpu_load_p50'' ''node_cpu_load_max'' ''node_cpu_load_p50'')"

definition fetchContainerCPUWaiting :: fetch where
  "fetchContainerCPUWaiting env =
     (let query = ''rate(container_pressure_cpu_waiting_seconds_total{'' @ ContainerMetricsJobMatcher @ '',container!=\"\"}[1m])
	unless on (node) sum by (node) (kube_node_status_allocatable{job=\"kube-state-metrics\",resource=\"nvidia_com_gpu\"} > 0)''
      in fetchMaxAndP50Metrics env query ''cruisekube_container_cpu_waiting_max'' ''cruisekube_container_cpu_waiting_p50'' ''container_cpu_waiting_max'' ''container_cpu_waiting_p50'')"

definition fetchClusterMemoryUtilization :: fetch where
  "fetchClusterMemoryUtilization env =
     (let query = ''sum(
		sum by (node) (
			container_memory_working_set_bytes{'' @ ContainerMetricsJobMatcher @ '',container!~\"POD|\"}
		)
		unless sum by (node) (kube_node_status_allocatable{job=\"kube-state-metrics\",resource=\"nvidia_com_gpu\"} > 0)
	)''
      in fetch_scalar env query ''cluster_memory_utilization'' ''cruisekube_cluster_memory_utilization_bytes'' None)"

definition fetchClusterMemoryRequest :: fetch where
  "fetchClusterMemoryRequest env =
     (let query = ''(
		sum(
		    sum by (node) (
				sum by (namespace, pod, node) (
                    kube_pod_container_resource_requests{container!=\"\",job=\"kube-state-metrics\",resource=\"memory\"}
                )
				* on (namespace, pod) group_left ()
				max by (namespace, pod) (kube_pod_status_phase{job=\"kube-state-metrics\",phase=\"Running\"} > 0)
            )
			unless
			  sum by (node) (kube_node_status_allocatable{job=\"kube-state-metrics\",resource=\"nvidia_com_gpu\"} > 0)
		)
	)''
      in fetch_scalar env query ''cluster_memory_request'' ''cruisekube_cluster_memory_request_bytes'' None)"

definition fetchClusterMemoryAllocated :: fetch where
  "fetchClusterMemoryAllocated env =
     (let query = ''sum(
		kube_node_status_allocatable{job=\"kube-state-metrics\",resource=\"memory\"}
		unless sum by (node) (kube_node_status_allocatable{job=\"kube-state-metrics\",resource=\"nvidia_com_gpu\"} > 0)
	)''
      in fetch_scalar env query ''cluster_memory_allocated'' ''cruisekube_cluster_memory_allocated_bytes'' None)"

definition fetchNodeMemoryWaiting :: fetch where
  "fetchNodeMemoryWaiting env =
     (let query = ''rate(node_pressure_memory_waiting_seconds_total{job=\"node-exporter\"}[1m])
	unless on (node) sum by (node) (kube_node_status_allocatable{job=\"kube-state-metrics\",resource=\"nvidia_com_gpu\"} > 0)''
      in fetchMaxAndP50Metrics env query ''cruisekube_node_memory_waiting_max'' ''cruisekube_node_memory_waiting_p50'' ''node_memory_waiting_max'' ''node_memory_waiting_p50'')"

definition fetchContainerMemoryWaiting :: fetch where
  "fetchContainerMemoryWaiting env =
     (let query = ''rate(container_pressure_memory_waiting_seconds_total{'' @ ContainerMetricsJobMatcher @ '',container!=\"\"}[1m])
	unless on (node) sum by (node) (kube_node_status_allocatable{job=\"kube-state-metrics\",resource=\"nvidia_com_gpu\"} > 0)''
      in fetchMaxAndP50Metrics env query ''cruisekube_container_memory_waiting_max'' ''cruisekube_container_memory_waiting_p50'' ''container_memory_waiting_max'' ''container_memory_waiting_p50'')"

text \<open>The sum over the containers.\<close>

definition set_oom_events :: "string + prom_value \<Rightarrow> gauges \<Rightarrow> gauges" where
  "set_oom_events answer gs =
     (case answer of
        Inr (Vector vec) \<Rightarrow>
          gs(''cruisekube_cluster_oom_events_total'' \<mapsto> foldl (\<lambda>t sample. fadd t (sa_Value sample)) fzero vec)
      | _ \<Rightarrow> gs)"

definition fetchClusterOOMEvents :: fetch where
  "fetchClusterOOMEvents env gs =
     (let query = ''sum by (namespace, pod, container) (
		(kube_pod_container_status_last_terminated_reason{job=\"kube-state-metrics\",reason=\"OOMKilled\"}) 
		* on (namespace, pod, container) 
		sum by (namespace, pod, container) (increase(kube_pod_container_status_restarts_total{job=\"kube-state-metrics\"}[1m]))
	)''
      in set_oom_events (ask env query ''cluster_oom_events'') gs)"

definition fetchKarpenterConsolidationEvictionCount :: fetch where
  "fetchKarpenterConsolidationEvictionCount env =
     (let query = ''increase((sum by (reason) (karpenter_nodeclaims_disrupted_total))[1m:])''
      in fetch_scalar env query ''cluster_unschedulable_pods'' ''cruisekube_karpenter_consolidation_eviction_count'' (Some fzero))"

definition fetchClusterUnschedulablePods :: fetch where
  "fetchClusterUnschedulablePods env =
     (let query = ''sum(kube_pod_status_phase{job=\"kube-state-metrics\",phase=\"Pending\"})''
      in fetch_scalar env query ''cluster_unschedulable_pods_count'' ''cruisekube_cluster_unschedulable_pods_count'' (Some fzero))"

section \<open>The age of the statistics\<close>

text \<open>\<^verbatim>\<open>Time.Sub\<close> saturates; \<^verbatim>\<open>Minutes\<close> adds whole minutes and a fraction; a float converted to an index
  is cut; an index out of range panics.\<close>

definition Time_Sub :: "go_time \<Rightarrow> go_time \<Rightarrow> int" where
  "Time_Sub t u = max (- (2 ^ 63)) (min (2 ^ 63 - 1) (t - u))"

definition quot :: "int \<Rightarrow> int \<Rightarrow> int" where
  "quot a b = (if a < 0 then - ((- a) div b) else a div b)"

definition Minutes :: "int \<Rightarrow> float64" where
  "Minutes d = fadd (f64_of_int (quot d Minute)) (fdiv (f64_of_int (d - quot d Minute * Minute)) (lit 60000000000))"

definition float_less :: "float64 \<Rightarrow> float64 \<Rightarrow> bool" where
  "float_less a b \<longleftrightarrow> flt a b \<or> is_nan a \<and> \<not> is_nan b"

definition at_index :: "'a list \<Rightarrow> int \<Rightarrow> 'a panics" where
  "at_index xs i = (if 0 \<le> i \<and> i < int (length xs) then Some (xs ! nat i) else None)"

definition p90_index :: "(float64 \<Rightarrow> int) \<Rightarrow> nat \<Rightarrow> int" where
  "p90_index oob n = int64_of_f64 oob (fmul (f64_of_int (int n)) (lit (9 / 10)))"

definition stats_ages :: "go_time \<Rightarrow> WorkloadStat list \<Rightarrow> float64 list" where
  "stats_ages now stats = map (\<lambda>stat. Minutes (Time_Sub now (ws_UpdatedAt stat))) stats"

definition fetchWorkloadStatsAge :: "FetchEnv \<Rightarrow> gauges \<Rightarrow> gauges panics" where
  "fetchWorkloadStatsAge env gs =
     (case GetAllStatsForCluster (fe_rows env) (fe_fault env) (fe_ClusterID env) (fe_db env) of
        Inl e \<Rightarrow> Some gs
      | Inr stats \<Rightarrow>
          if length stats = 0 then Some gs
          else do {
            let ages = fe_sort env float_less (stats_ages (fe_now env) stats);
            maxAge \<leftarrow> at_index ages (int (length ages) - 1);
            p90 \<leftarrow> at_index ages (p90_index (fe_oob env) (length ages));
            p50 \<leftarrow> at_index ages (int (length ages) div 2);
            Some (gs(''cruisekube_workload_stats_age_max_minutes'' \<mapsto> maxAge,
                     ''cruisekube_workload_stats_age_p90_minutes'' \<mapsto> p90,
                     ''cruisekube_workload_stats_age_p50_minutes'' \<mapsto> p50)) })"

section \<open>The run\<close>

definition FetchMetrics_Run :: "FetchEnv \<Rightarrow> gauges \<Rightarrow> gauges panics" where
  "FetchMetrics_Run env gs =
     (let gs = fetchClusterCPUUtilization env gs;
          gs = fetchClusterCPURequest env gs;
          gs = fetchClusterCPUAllocated env gs;
          gs = fetchNodeCPUWaiting env gs;
          gs = fetchNodeCPULoad env gs;
          gs = fetchContainerCPUWaiting env gs;
          gs = fetchClusterMemoryUtilization env gs;
          gs = fetchClusterMemoryRequest env gs;
          gs = fetchClusterMemoryAllocated env gs;
          gs = fetchNodeMemoryWaiting env gs;
          gs = fetchContainerMemoryWaiting env gs;
          gs = fetchClusterOOMEvents env gs;
          gs = fetchKarpenterConsolidationEvictionCount env gs;
          gs = fetchClusterUnschedulablePods env gs
      in fetchWorkloadStatsAge env gs)"

section \<open>Counting in a sorted list\<close>

lemma count_take:
  assumes "i \<le> length xs" "\<And>a. a \<in> set (take i xs) \<Longrightarrow> P a"
  shows "i \<le> length (filter P xs)"
proof -
  have "length (filter P (take i xs)) = i" using assms by (simp add: filter_True)
  moreover have "filter P xs = filter P (take i xs) @ filter P (drop i xs)"
    by (simp flip: filter_append)
  ultimately show ?thesis by simp
qed

lemma count_drop:
  assumes "\<And>a. a \<in> set (drop i xs) \<Longrightarrow> P a"
  shows "length xs - i \<le> length (filter P xs)"
proof -
  have "length (filter P (drop i xs)) = length xs - i" using assms by (simp add: filter_True)
  moreover have "filter P xs = filter P (take i xs) @ filter P (drop i xs)"
    by (simp flip: filter_append)
  ultimately show ?thesis by simp
qed

lemma sorted_counts:
  assumes s: "sorted_wrt fle xs" and nan: "\<And>x. x \<in> set xs \<Longrightarrow> \<not> is_nan x" and i: "i < length xs"
  shows "Suc i \<le> length (filter (\<lambda>a. fle a (xs ! i)) xs)"
    and "length xs - i \<le> length (filter (fle (xs ! i)) xs)"
proof -
  have le: "fle (xs ! j) (xs ! k)" if "j \<le> k" "k < length xs" for j k
    using sorted_wrt_nth_less [OF s, of j k] nan that by (cases "j = k") auto
  show "Suc i \<le> length (filter (\<lambda>a. fle a (xs ! i)) xs)"
    using i le by (intro count_take) (auto simp: in_set_conv_nth)
  show "length xs - i \<le> length (filter (fle (xs ! i)) xs)"
    using i le by (intro count_drop) (auto simp: in_set_conv_nth)
qed

lemma float_less_weak: "strict_weak float_less S"
proof -
  have "\<not> float_less x x" for x by (simp add: float_less_def)
  moreover have "float_less x y \<Longrightarrow> float_less y z \<Longrightarrow> float_less x z" for x y z
    unfolding float_less_def using flt_trans flt_nan by blast
  moreover have "float_less x z \<Longrightarrow> float_less x y \<or> float_less y z" for x y z
    unfolding float_less_def by (auto simp: flt_def)
  ultimately show ?thesis unfolding strict_weak_def by blast
qed

lemma sorted_fle:
  assumes "go_sort srt" and nan: "\<And>x. x \<in> set xs \<Longrightarrow> \<not> is_nan x"
  shows "sorted_wrt fle (srt float_less xs)"
proof -
  have "sorted_wrt (\<lambda>a b. \<not> float_less b a) (srt float_less xs)"
    by (rule go_sort.sorted_srt [OF assms(1) float_less_weak])
  moreover have "fle a b" if "a \<in> set (srt float_less xs)" "b \<in> set (srt float_less xs)" "\<not> float_less b a" for a b
    using that nan not_flt by (auto simp: float_less_def go_sort.set_srt [OF assms(1)])
  ultimately show ?thesis by (metis (no_types, lifting) sorted_wrt_mono_rel)
qed

section \<open>The index of the ninetieth percentile\<close>

lemma val_nine_tenths: "lit (9 / 10) = lit (8106479329266893 / 9007199254740992)"
  by (rule lit_rnd) code_simp+

lemma p90_index:
  assumes "n < 2 ^ 49"
  shows "p90_index oob n = int (9 * n div 10)"
proof -
  define k where "k = int (9 * n div 10)"
  define x where "x = rat_of_int (int n) * (8106479329266893 / 9007199254740992)"
  have n: "int n < 562949953421312" using assms by simp
  have k: "10 * k \<le> 9 * int n" "9 * int n \<le> 10 * k + 9" "0 \<le> k" unfolding k_def by simp_all
  have rep: "rep64 (of_int (int n))" "rep64 (of_int k)" "rep64 (of_int (16 * k + 15) / of_int 16)"
    using rep64_dyadic [of "int n" 0] rep64_dyadic [of k 0] rep64_frac [of "16 * k + 15" 16] n k
    by (simp_all add: pow2_def)
  have lo: "rat_of_int k \<le> x"
  proof -
    have "10 * rat_of_int k \<le> 9 * rat_of_int (int n)" using k(1) by linarith
    then show ?thesis unfolding x_def by (simp add: field_simps)
  qed
  have hi: "x \<le> of_int (16 * k + 15) / of_int 16"
  proof -
    have "9 * rat_of_int (int n) \<le> 10 * rat_of_int k + 9" "rat_of_int (int n) < 562949953421312"
      using k(2) n by linarith+
    then show ?thesis unfolding x_def by simp
  qed
  obtain s where s: "fmul (f64_of_int (int n)) (lit (9 / 10)) = fround s x"
    using fmul_num [of "f64_of_int (int n)" "lit (9 / 10)"] rep(1)
    by (auto simp: f64_of_int_def val_nine_tenths x_def)
  have f: "fle (lit (of_int k)) (fround s x)" "fle (fround s x) (lit (of_int (16 * k + 15) / of_int 16))"
    using lo hi rep by (auto intro: fround_ge fround_le)
  then have num: "\<not> is_nan (fround s x)" "rk (fround s x) = 0"
    "of_int k \<le> val (fround s x)" "val (fround s x) \<le> of_int (16 * k + 15) / of_int 16"
    using rep by (auto simp: fle_def)
  have "\<lfloor>val (fround s x)\<rfloor> = k"
    using num(3,4) by (intro floor_unique) simp_all
  then have "f64_trunc (val (fround s x)) = k" using num(3) k(3) by (simp add: f64_trunc_def)
  then show ?thesis using num k n by (simp add: p90_index_def int64_of_f64_def s k_def [symmetric])
qed

lemma rep64_two63: "rep64 (9223372036854775808 :: rat)"
  using rep64_dyadic [of 1 63] by (simp add: pow2_def)

lemma fround_finite:
  assumes "\<bar>q\<bar> \<le> 9223372036854775808" shows "is_num (fround s q)"
proof -
  have "fle (lit (- 9223372036854775808)) (fround s q)" "fle (fround s q) (lit 9223372036854775808)"
    using assms rep64_two63 by (auto intro!: fround_ge fround_le)
  then show ?thesis using rep64_two63 by (auto simp: fle_def is_num_def)
qed

lemma Minutes_not_nan: "\<not> is_nan (Minutes (Time_Sub t u))"
proof -
  define d where "d = Time_Sub t u"
  define q where "q = quot d Minute"
  have d: "\<bar>d\<bar> \<le> 9223372036854775808" unfolding d_def Time_Sub_def by simp
  have q: "\<bar>q\<bar> \<le> \<bar>d\<bar> \<and> \<bar>d - q * Minute\<bar> < Minute"
    using div_bounds [of Minute d] div_bounds [of Minute "- d"]
    unfolding q_def quot_def Minute_def by (auto simp: abs_if)
  have "is_num (f64_of_int q)" unfolding f64_of_int_def lit_def
    using d q by (intro fround_finite) (simp flip: of_int_abs)
  moreover have "is_num (fdiv (f64_of_int (d - q * Minute)) (lit 60000000000))"
  proof -
    have r: "\<bar>d - q * Minute\<bar> < 60000000000" using q by (simp add: Minute_def)
    then have i: "rep64 (of_int (d - q * Minute))" using rep64_dyadic [of "d - q * Minute" 0] by (simp add: pow2_def)
    have "\<bar>rat_of_int (d - q * Minute)\<bar> < 60000000000" using r by linarith
    then have "\<bar>rat_of_int (d - q * Minute) / 60000000000\<bar> \<le> 9223372036854775808"
      by simp
    then show ?thesis
      using fdiv_num [of "f64_of_int (d - q * Minute)" "lit 60000000000"] i fround_finite
      by (auto simp: f64_of_int_def)
  qed
  ultimately show ?thesis
    unfolding Minutes_def d_def [symmetric] q_def [symmetric] by (auto simp: fadd_nan is_num_def split: if_splits)
qed

section \<open>Property\<close>

text \<open>The percentiles the task publishes, of the ages of the statistics.\<close>

definition percentiles_ok :: "float64 list \<Rightarrow> float64 \<Rightarrow> float64 \<Rightarrow> float64 \<Rightarrow> bool" where
  "percentiles_ok ages mx p90 p50 \<longleftrightarrow>
     {mx, p90, p50} \<subseteq> set ages \<and> fle p50 p90 \<and> (\<forall>a \<in> set ages. fle a mx) \<and>
     9 * length ages < 10 * length (filter (\<lambda>a. fle a p90) ages) \<and> length ages \<le> 10 * length (filter (fle p90) ages) \<and>
     length ages < 2 * length (filter (\<lambda>a. fle a p50) ages) \<and> length ages \<le> 2 * length (filter (fle p50) ages)"

lemma percentiles_sorted:
  assumes s: "sorted_wrt fle xs" "\<And>x. x \<in> set xs \<Longrightarrow> \<not> is_nan x" and n: "xs \<noteq> []"
  shows "percentiles_ok xs (xs ! (length xs - 1)) (xs ! (9 * length xs div 10)) (xs ! (length xs div 2))"
proof -
  let ?n = "length xs"
  have i: "?n - 1 < ?n" "9 * ?n div 10 < ?n" "?n div 2 < ?n" using n by (simp_all add: length_greater_0_conv [symmetric] del: length_greater_0_conv) 
  have le: "fle (xs ! j) (xs ! k)" if "j \<le> k" "k < ?n" for j k
    using sorted_wrt_nth_less [OF s(1), of j k] s(2) that by (cases "j = k") auto
  have "fle a (xs ! (?n - 1))" if a: "a \<in> set xs" for a
  proof -
    obtain j where "j < ?n" "a = xs ! j" using a by (auto simp: in_set_conv_nth)
    then show ?thesis using le [of j "?n - 1"] by simp
  qed
  moreover have "fle (xs ! (?n div 2)) (xs ! (9 * ?n div 10))" by (rule le [OF _ i(2)]) linarith
  moreover have "9 * ?n < 10 * Suc (9 * ?n div 10) \<and> ?n \<le> 10 * (?n - 9 * ?n div 10) \<and> ?n < 2 * Suc (?n div 2) \<and>
      ?n \<le> 2 * (?n - ?n div 2)"
  proof -
    define k h where "k = 9 * ?n div 10" and "h = ?n div 2"
    have k: "10 * k \<le> 9 * ?n" "9 * ?n < 10 * k + 10" and h: "2 * h \<le> ?n" "?n < 2 * h + 2"
      unfolding k_def h_def by simp_all
    have "?n \<le> 10 * (?n - k)" using k(1) by (simp add: diff_mult_distrib2)
    moreover have "?n \<le> 2 * (?n - h)" using h(1) by (simp add: diff_mult_distrib2)
    ultimately show ?thesis unfolding k_def [symmetric] h_def [symmetric] using k(2) h(2) by simp
  qed
  ultimately show ?thesis
    using sorted_counts [OF s i(2)] sorted_counts [OF s i(3)] i unfolding percentiles_ok_def by auto
qed

lemma percentiles_mset:
  assumes "mset xs = mset ys" shows "percentiles_ok xs a b c \<longleftrightarrow> percentiles_ok ys a b c"
proof -
  have "length (filter P xs) = length (filter P ys)" for P
    using assms by (metis mset_filter size_mset)
  then show ?thesis
    using mset_eq_setD [OF assms] mset_eq_length [OF assms] unfolding percentiles_ok_def by simp
qed

lemma ages_not_nan: "x \<in> set (stats_ages now stats) \<Longrightarrow> \<not> is_nan x"
  unfolding stats_ages_def using Minutes_not_nan by auto

lemma age_percentiles:
  assumes srt: "go_sort (fe_sort env)"
    and read: "GetAllStatsForCluster (fe_rows env) (fe_fault env) (fe_ClusterID env) (fe_db env) = Inr stats"
    and n: "stats \<noteq> []" "length stats < 2 ^ 49"
  shows "\<exists>mx p90 p50. percentiles_ok (stats_ages (fe_now env) stats) mx p90 p50 \<and>
    fetchWorkloadStatsAge env gs = Some (gs(''cruisekube_workload_stats_age_max_minutes'' \<mapsto> mx,
      ''cruisekube_workload_stats_age_p90_minutes'' \<mapsto> p90, ''cruisekube_workload_stats_age_p50_minutes'' \<mapsto> p50))"
proof -
  define ages where "ages = fe_sort env float_less (stats_ages (fe_now env) stats)"
  have m: "mset ages = mset (stats_ages (fe_now env) stats)"
    unfolding ages_def by (rule go_sort.mset_srt [OF srt])
  then have len: "length ages = length stats" by (metis mset_eq_length stats_ages_def length_map)
  have ne: "ages \<noteq> []" using len n(1) by auto
  have "percentiles_ok ages (ages ! (length ages - 1)) (ages ! (9 * length ages div 10)) (ages ! (length ages div 2))"
    unfolding ages_def
    by (rule percentiles_sorted [OF sorted_fle [OF srt]])
      (use ages_not_nan ne in \<open>auto simp: go_sort.set_srt [OF srt] ages_def\<close>)
  then have p: "percentiles_ok (stats_ages (fe_now env) stats) (ages ! (length ages - 1)) (ages ! (9 * length ages div 10))
      (ages ! (length ages div 2))"
    using percentiles_mset [OF m] by blast
  have idx: "p90_index (fe_oob env) (length ages) = int (9 * length ages div 10)" by (rule p90_index) (simp only: len n(2))
  have at: "at_index ages (int i) = Some (ages ! i)" if "i < length ages" for i using that by (simp add: at_index_def)
  have pos: "0 < length ages" using ne by simp
  have "9 * length ages div 10 < length ages" using pos by linarith
  then have "at_index ages (int (length ages) - 1) = Some (ages ! (length ages - 1))"
    "at_index ages (int (9 * length ages div 10)) = Some (ages ! (9 * length ages div 10))"
    "at_index ages (int (length ages) div 2) = Some (ages ! (length ages div 2))"
    using at [of "length ages - 1"] at [of "9 * length ages div 10"] at [of "length ages div 2"] pos
    by (simp_all add: of_nat_diff zdiv_int)
  then have "fetchWorkloadStatsAge env gs = Some (gs(''cruisekube_workload_stats_age_max_minutes'' \<mapsto> ages ! (length ages - 1),
      ''cruisekube_workload_stats_age_p90_minutes'' \<mapsto> ages ! (9 * length ages div 10),
      ''cruisekube_workload_stats_age_p50_minutes'' \<mapsto> ages ! (length ages div 2)))"
    unfolding fetchWorkloadStatsAge_def read sum.case Let_def ages_def [symmetric] idx using n(1) by simp
  then show ?thesis using p by blast
qed

text \<open>A fetch whose query is not answered leaves the gauges alone.\<close>

definition unanswered :: "FetchEnv \<Rightarrow> bool" where
  "unanswered env \<longleftrightarrow> (\<forall>query queryID. isl (ask env query queryID))"

lemma unanswered_ask: "unanswered env \<Longrightarrow> \<exists>e. ask env query queryID = Inl e"
  by (simp add: unanswered_def isl_def)

lemma unanswered_scalar: "unanswered env \<Longrightarrow> fetch_scalar env query queryID gauge absent gs = gs"
  using unanswered_ask [of env query queryID] by (auto simp: fetch_scalar_def)

lemma unanswered_pair: "unanswered env \<Longrightarrow> fetchMaxAndP50Metrics env query g1 g2 q1 q2 gs = gs"
  unfolding fetchMaxAndP50Metrics_def Let_def by (simp only: unanswered_scalar)

lemma unanswered_oom: "unanswered env \<Longrightarrow> fetchClusterOOMEvents env gs = gs"
proof -
  assume "unanswered env"
  then have "set_oom_events (ask env query queryID) gs = gs" for query queryID
    using unanswered_ask [of env query queryID] by (auto simp: set_oom_events_def)
  then show ?thesis unfolding fetchClusterOOMEvents_def Let_def .
qed

lemma unanswered_run: "unanswered env \<Longrightarrow> FetchMetrics_Run env gs = fetchWorkloadStatsAge env gs"
  unfolding FetchMetrics_Run_def Let_def fetchClusterCPUUtilization_def fetchClusterCPURequest_def
    fetchClusterCPUAllocated_def fetchNodeCPUWaiting_def fetchNodeCPULoad_def fetchContainerCPUWaiting_def
    fetchClusterMemoryUtilization_def fetchClusterMemoryRequest_def fetchClusterMemoryAllocated_def
    fetchNodeMemoryWaiting_def fetchContainerMemoryWaiting_def fetchKarpenterConsolidationEvictionCount_def
    fetchClusterUnschedulablePods_def
  by (simp only: unanswered_scalar unanswered_pair unanswered_oom)

text \<open>C34. A run of the metrics task over stored statistics does not panic, and publishes the largest, the
  ninetieth percentile and the median of their ages: each is the age of a stored statistic, at
  least nine tenths and half of the ages are at most the percentiles, at least a tenth and half
  are not below them, and the median is not above the ninetieth percentile. When Prometheus
  answers no query, these three gauges are all that changes.\<close>

theorem metrics_run_percentiles:
  assumes "go_sort (fe_sort env)"
    and "GetAllStatsForCluster (fe_rows env) (fe_fault env) (fe_ClusterID env) (fe_db env) = Inr stats"
    and "stats \<noteq> []" "length stats < 2 ^ 49"
  shows "\<exists>gs' mx p90 p50. FetchMetrics_Run env gs = Some gs' \<and>
    percentiles_ok (map (\<lambda>stat. Minutes (Time_Sub (fe_now env) (ws_UpdatedAt stat))) stats) mx p90 p50 \<and>
    gs' ''cruisekube_workload_stats_age_max_minutes'' = Some mx \<and>
    gs' ''cruisekube_workload_stats_age_p90_minutes'' = Some p90 \<and>
    gs' ''cruisekube_workload_stats_age_p50_minutes'' = Some p50 \<and>
    (unanswered env \<longrightarrow> (\<forall>g. g \<noteq> ''cruisekube_workload_stats_age_max_minutes'' \<longrightarrow>
      g \<noteq> ''cruisekube_workload_stats_age_p90_minutes'' \<longrightarrow> g \<noteq> ''cruisekube_workload_stats_age_p50_minutes'' \<longrightarrow> gs' g = gs g))"
proof -
  obtain gs1 where run: "FetchMetrics_Run env gs = fetchWorkloadStatsAge env gs1" and same: "unanswered env \<longrightarrow> gs1 = gs"
  proof (cases "unanswered env")
    case True
    from that [OF unanswered_run [OF True, of gs]] show thesis by simp
  next
    case False
    have "\<exists>gs1. FetchMetrics_Run env gs = fetchWorkloadStatsAge env gs1" unfolding FetchMetrics_Run_def Let_def by blast
    with that False show thesis by blast
  qed
  obtain mx p90 p50 where p: "percentiles_ok (stats_ages (fe_now env) stats) mx p90 p50"
    and gs': "FetchMetrics_Run env gs = Some (gs1(''cruisekube_workload_stats_age_max_minutes'' \<mapsto> mx,
      ''cruisekube_workload_stats_age_p90_minutes'' \<mapsto> p90, ''cruisekube_workload_stats_age_p50_minutes'' \<mapsto> p50))"
    using age_percentiles [OF assms, of gs1] unfolding run by blast
  show ?thesis
    by (intro exI conjI, rule gs', rule p [unfolded stats_ages_def]) (use same in simp_all)
qed

definition sample_fetch_env :: "Database \<Rightarrow> FetchEnv" where
  "sample_fetch_env db = \<lparr>fe_ClusterID = ''c'',
     fe_provider = \<lparr>pc_MaxQueryRetries = 0, pc_RetryBackoffBase = 0, pc_MaxConcurrentQueries = 1\<rparr>,
     fe_prom = (\<lambda>_ _. Inl ''down''), fe_rows = (\<lambda>_ rows. rows), fe_fault = (\<lambda>_. None), fe_sort = insertion_sort,
     fe_oob = (\<lambda>_. 0), fe_now = 5 * Minute, fe_db = db\<rparr>"

lemma metrics_run_percentiles_witness:
  "\<exists>db gs'. FetchMetrics_Run (sample_fetch_env db) Map.empty = Some gs' \<and>
     (\<forall>g. g \<noteq> ''cruisekube_workload_stats_age_max_minutes'' \<longrightarrow> g \<noteq> ''cruisekube_workload_stats_age_p90_minutes'' \<longrightarrow>
       g \<noteq> ''cruisekube_workload_stats_age_p50_minutes'' \<longrightarrow> gs' g = None) \<and>
     gs' ''cruisekube_workload_stats_age_max_minutes'' = Some (Minutes (Time_Sub (5 * Minute) 0))"
proof -
  obtain js and jo :: json where j: "dec_WorkloadStat js = Some (sample_stat ''web'' 1 100)" using sample_json by metis
  define db where "db = sample_store js jo"
  have "row_stat (sample_stored_row js jo) = Some (sample_stat ''web'' 1 100)"
    using j by (simp add: row_stat_def sample_stored_row_def sample_stat_def)
  moreover have "where_ids ''c'' [] (sample_stored_row js jo)" by (simp add: where_ids_def sample_stored_row_def)
  ultimately have read: "GetAllStatsForCluster (fe_rows (sample_fetch_env db)) (fe_fault (sample_fetch_env db))
      (fe_ClusterID (sample_fetch_env db)) (fe_db (sample_fetch_env db)) = Inr [sample_stat ''web'' 1 100]"
    by (simp add: GetAllStatsForCluster_def wrap_result_def GetStatsForCluster_def sample_fetch_env_def db_def
        sample_store_def latest_first_def)
  have srt: "go_sort (fe_sort (sample_fetch_env db))" by (simp add: sample_fetch_env_def insertion.go_sort_axioms)
  have un: "unanswered (sample_fetch_env db)"
    by (simp add: unanswered_def ask_def ExecuteQueryWithRetry_def sample_fetch_env_def)
  obtain gs' mx p90 p50 where r: "FetchMetrics_Run (sample_fetch_env db) Map.empty = Some gs'"
    and p: "percentiles_ok (map (\<lambda>stat. Minutes (Time_Sub (fe_now (sample_fetch_env db)) (ws_UpdatedAt stat)))
       [sample_stat ''web'' 1 100]) mx p90 p50"
    and mx: "gs' ''cruisekube_workload_stats_age_max_minutes'' = Some mx"
    and keep: "\<forall>g. g \<noteq> ''cruisekube_workload_stats_age_max_minutes'' \<longrightarrow>
      g \<noteq> ''cruisekube_workload_stats_age_p90_minutes'' \<longrightarrow> g \<noteq> ''cruisekube_workload_stats_age_p50_minutes'' \<longrightarrow> gs' g = None"
    using metrics_run_percentiles [OF srt read, of Map.empty] un by fastforce
  have "mx = Minutes (Time_Sub (5 * Minute) 0)"
    using p by (simp add: percentiles_ok_def sample_fetch_env_def sample_stat_def)
  with mx have "gs' ''cruisekube_workload_stats_age_max_minutes'' = Some (Minutes (Time_Sub (5 * Minute) 0))" by (simp only:)
  with r keep show ?thesis by (intro exI conjI)
qed

end
