(* ===== verification/Preflight.thy ===== *)
theory Preflight
  imports Access Scheduler "HOL-Library.List_Lexorder" "HOL-Library.Char_ord"
begin

text \<open>
  The readiness checks of the dashboard, \<^verbatim>\<open>pkg/handlers/preflight.go\<close> with \<^verbatim>\<open>versions.go\<close>: the connection to
  Prometheus, the versions of Kubernetes, of the nodes and of Prometheus, and the metrics the
  program relies on, folded into one verdict. Versions are those of the library, whose parser and
  comparison are parameters, as is the URL parser; the answers of the two servers are given. The
  probes run in parallel but each writes its own place, so their order does not matter.
\<close>

section \<open>Data\<close>

definition defaultMinKubeVersion :: string where "defaultMinKubeVersion = ''v1.33.0''"
definition defaultMinKubernetesVersion :: string where "defaultMinKubernetesVersion = ''v1.33.0''"
definition defaultMinPrometheusVersion :: string where "defaultMinPrometheusVersion = ''2.30.0''"
definition defaultMetricLookback :: string where "defaultMetricLookback = ''15m''"
definition prometheusUnreachableMsg :: string where "prometheusUnreachableMsg = ''Prometheus is not reachable''"

record metricProbe =
  mp_Metric :: string
  mp_JobMatcher :: string
  mp_Group :: string
  mp_Required :: bool

definition probe :: "string \<Rightarrow> string \<Rightarrow> string \<Rightarrow> bool \<Rightarrow> metricProbe" where
  "probe m j g r = \<lparr>mp_Metric = m, mp_JobMatcher = j, mp_Group = g, mp_Required = r\<rparr>"

definition preflightMetricProbes :: "metricProbe list" where
  "preflightMetricProbes =
     [ probe ''kube_pod_info'' ''job=\"kube-state-metrics\"'' ''kube-state-metrics'' True,
      probe ''kube_pod_status_phase'' ''job=\"kube-state-metrics\"'' ''kube-state-metrics'' True,
      probe ''kube_pod_container_resource_requests'' ''job=\"kube-state-metrics\"'' ''kube-state-metrics'' True,
      probe ''kube_pod_container_status_restarts_total'' ''job=\"kube-state-metrics\"'' ''kube-state-metrics'' True,
      probe ''kube_node_status_allocatable'' ''job=\"kube-state-metrics\"'' ''kube-state-metrics'' True,
      probe ''kube_node_status_capacity'' ''job=\"kube-state-metrics\"'' ''kube-state-metrics'' True,
      probe ''kube_node_labels'' ''job=\"kube-state-metrics\"'' ''kube-state-metrics'' True,
      probe ''kube_node_spec_taint'' ''job=\"kube-state-metrics\"'' ''kube-state-metrics'' False,
      probe ''kube_pod_container_status_last_terminated_reason'' ''job=\"kube-state-metrics\"'' ''kube-state-metrics'' False,
      probe ''container_cpu_usage_seconds_total'' ''job=~\"kubelet|kubernetes-nodes-cadvisor\"'' ''cadvisor-kubelet'' True,
      probe ''container_memory_working_set_bytes'' ''job=~\"kubelet|kubernetes-nodes-cadvisor\"'' ''cadvisor-kubelet'' True,
      probe ''node_load1'' ''job=\"node-exporter\"'' ''node-exporter'' True,
      probe ''node_cpu_seconds_total'' ''job=\"node-exporter\"'' ''node-exporter'' True,
      probe ''container_pressure_cpu_waiting_seconds_total'' ''job=~\"kubelet|kubernetes-nodes-cadvisor\"'' ''psi'' False,
      probe ''container_pressure_memory_waiting_seconds_total'' ''job=~\"kubelet|kubernetes-nodes-cadvisor\"'' ''psi'' False,
      probe ''node_pressure_cpu_waiting_seconds_total'' ''job=\"node-exporter\"'' ''psi'' False,
      probe ''node_pressure_memory_waiting_seconds_total'' ''job=\"node-exporter\"'' ''psi'' False,
      probe ''karpenter_nodeclaims_disrupted_total'' '''' ''karpenter'' False]"

record PrometheusConnectivity =
  pn_Connected :: bool
  pn_Healthy :: bool
  pn_Target :: string
  pn_URL :: string
  pn_Host :: string
  pn_Port :: string
  pn_Probe :: string
  pn_Version :: string
  pn_Revision :: string
  pn_Error :: string

record MetricCheck =
  ck_Metric :: string
  ck_Required :: bool
  ck_Present :: bool
  ck_Series :: int
  ck_Labels :: "string list"
  ck_Error :: string

record MetricGroup =
  mg_Name :: string
  mg_JobMatcher :: string
  mg_Required :: bool
  mg_Present :: bool
  mg_Checks :: "MetricCheck list"

record MetricReport =
  mr_Passed :: bool
  mr_Lookback :: string
  mr_Groups :: "MetricGroup list"

record PreflightFailure =
  pf_Step :: string
  pf_Item :: string
  pf_Message :: string

record PreflightSummary =
  ps_TotalChecks :: nat
  ps_Passed :: nat
  ps_Failed :: nat

record NodeVersionInfo =
  nv_Name :: string
  nv_KubeletVersion :: string
  nv_KubeProxyVersion :: string
  nv_OSImage :: string
  nv_ContainerRuntime :: string
  nv_Kernel :: string
  nv_Architecture :: string
  nv_MeetsMinimum :: bool
  nv_Error :: string

record PrometheusVersionInfo =
  pv_Version :: string
  pv_MeetsMinimum :: bool
  pv_Error :: string

record KubernetesVersionInfo =
  kv_Version :: string
  kv_MeetsMinimum :: bool
  kv_Error :: string

record VersionReport =
  vr_Passed :: bool
  vr_CruisekubeVersion :: string
  vr_MinKubeVersion :: string
  vr_MinKubernetesVersion :: string
  vr_MinPrometheusVersion :: string
  vr_Kubernetes :: KubernetesVersionInfo
  vr_Nodes :: "NodeVersionInfo list"
  vr_NodeCount :: nat
  vr_NodesBelowMinimum :: nat
  vr_NodeError :: string
  vr_Prometheus :: PrometheusVersionInfo

record PreflightResponse =
  pr_ClusterID :: string
  pr_Healthy :: bool
  pr_GeneratedAt :: string
  pr_Summary :: PreflightSummary
  pr_Failures :: "PreflightFailure list"
  pr_PrometheusConnectivity :: PrometheusConnectivity
  pr_Versions :: VersionReport
  pr_Metrics :: MetricReport

section \<open>The environment\<close>

text \<open>The libraries: parsing, comparing and printing versions, the URL parser (scheme, host with port, host name,
  port), the verb \<^verbatim>\<open>%q\<close>, sorting, and the conversion of a float that is out of range.\<close>

record 'v PreflightLibs =
  pl_ParseGeneric :: "string \<Rightarrow> string + 'v"
  pl_AtLeast :: "'v \<Rightarrow> 'v \<Rightarrow> bool"
  pl_String :: "'v \<Rightarrow> string"
  pl_URL :: "string \<Rightarrow> (string \<times> string \<times> string \<times> string) option"
  pl_quote :: "string \<Rightarrow> string"
  pl_sort :: "(NodeVersionInfo \<Rightarrow> NodeVersionInfo \<Rightarrow> bool) \<Rightarrow> NodeVersionInfo list \<Rightarrow> NodeVersionInfo list"
  pl_oob :: "float64 \<Rightarrow> int"

text \<open>The answers of Kubernetes: the nodes with what their status says, and the version of the server. Every cluster
  has its Kubernetes client, which is a pointer that the start of the program sets before the server runs, so the
  handler never hands over a nil one; a Prometheus client that is \<open>None\<close> is a nil interface.\<close>

record NodeSystemInfo =
  ni_Name :: string
  ni_KubeletVersion :: string
  ni_KubeProxyVersion :: string
  ni_OSImage :: string
  ni_ContainerRuntimeVersion :: string
  ni_KernelVersion :: string
  ni_Architecture :: string

record KubeAnswers =
  ka_Nodes :: "string + NodeSystemInfo list"
  ka_ServerVersion :: "string + string"

record promAPI =
  pa_Query :: "string \<Rightarrow> string + prom_value"
  pa_Buildinfo :: "string + string \<times> string"
  pa_LabelNames :: "string \<Rightarrow> string + string list"

record PreflightClients =
  cl_Kube :: KubeAnswers
  cl_Prometheus :: "promAPI option"

section \<open>Versions\<close>

text \<open>A version with the error of its parser, if it does not parse, and whether it meets the minimum.\<close>

definition meets :: "'v PreflightLibs \<Rightarrow> string \<Rightarrow> string \<Rightarrow> 'v \<Rightarrow> bool \<times> string" where
  "meets lib what s minVer =
     (case pl_ParseGeneric lib s of
        Inl e \<Rightarrow> (False, ''could not parse '' @ what @ '' version '' @ pl_quote lib s @ '': '' @ e)
      | Inr v \<Rightarrow> (pl_AtLeast lib v minVer, ''''))"

definition node_version :: "'v PreflightLibs \<Rightarrow> 'v \<Rightarrow> NodeSystemInfo \<Rightarrow> NodeVersionInfo" where
  "node_version lib minKubeVer node =
     (let (ok, err) = meets lib ''kubelet'' (ni_KubeletVersion node) minKubeVer
      in \<lparr>nv_Name = ni_Name node, nv_KubeletVersion = ni_KubeletVersion node,
          nv_KubeProxyVersion = ni_KubeProxyVersion node, nv_OSImage = ni_OSImage node,
          nv_ContainerRuntime = ni_ContainerRuntimeVersion node, nv_Kernel = ni_KernelVersion node,
          nv_Architecture = ni_Architecture node, nv_MeetsMinimum = ok, nv_Error = err\<rparr>)"

definition collectNodeVersions ::
    "'v PreflightLibs \<Rightarrow> KubeAnswers option \<Rightarrow> 'v \<Rightarrow> string + NodeVersionInfo list \<times> nat" where
  "collectNodeVersions lib kubeClient minKubeVer =
     (case kubeClient of
        None \<Rightarrow> Inl ''kubernetes client is not configured for this cluster''
      | Some k \<Rightarrow>
          (case ka_Nodes k of
             Inl e \<Rightarrow> Inl (''failed to list nodes: '' @ e)
           | Inr nodes \<Rightarrow>
               (let infos = map (node_version lib minKubeVer) nodes;
                    below = length (filter (\<lambda>ni. \<not> nv_MeetsMinimum ni) infos)
                in Inr (pl_sort lib (\<lambda>a b. nv_Name a < nv_Name b) infos, below))))"

definition detectKubernetesServerVersion :: "'v PreflightLibs \<Rightarrow> KubeAnswers option \<Rightarrow> 'v \<Rightarrow> KubernetesVersionInfo" where
  "detectKubernetesServerVersion lib kubeClient minVer =
     (let bad = (\<lambda>v e. \<lparr>kv_Version = v, kv_MeetsMinimum = False, kv_Error = e\<rparr>)
      in case kubeClient of
           None \<Rightarrow> bad '''' ''kubernetes client is not configured for this cluster''
         | Some k \<Rightarrow>
             (case ka_ServerVersion k of
                Inl e \<Rightarrow> bad '''' (''failed to get kubernetes server version: '' @ e)
              | Inr gitVersion \<Rightarrow>
                  if gitVersion = '''' then bad '''' ''kubernetes server version is empty''
                  else (let (ok, err) = meets lib ''kubernetes'' gitVersion minVer
                        in \<lparr>kv_Version = gitVersion, kv_MeetsMinimum = ok, kv_Error = err\<rparr>)))"

definition no_prometheus :: PrometheusVersionInfo where
  "no_prometheus = \<lparr>pv_Version = '''', pv_MeetsMinimum = False, pv_Error = ''''\<rparr>"

definition buildVersionReport ::
    "'v PreflightLibs \<Rightarrow> string \<Rightarrow> KubeAnswers option \<Rightarrow> 'v \<Rightarrow> 'v \<Rightarrow> 'v \<Rightarrow> VersionReport" where
  "buildVersionReport lib cruisekubeVersion kubeClient minKubeVer minK8sVer minPromVer =
     (let report = \<lparr>vr_Passed = False, vr_CruisekubeVersion = cruisekubeVersion,
            vr_MinKubeVersion = pl_String lib minKubeVer, vr_MinKubernetesVersion = pl_String lib minK8sVer,
            vr_MinPrometheusVersion = pl_String lib minPromVer,
            vr_Kubernetes = detectKubernetesServerVersion lib kubeClient minK8sVer, vr_Nodes = [], vr_NodeCount = 0,
            vr_NodesBelowMinimum = 0, vr_NodeError = '''', vr_Prometheus = no_prometheus\<rparr>
      in case collectNodeVersions lib kubeClient minKubeVer of
           Inl e \<Rightarrow> report\<lparr>vr_NodeError := e\<rparr>
         | Inr (nodes, below) \<Rightarrow>
             report\<lparr>vr_Nodes := nodes, vr_NodeCount := length nodes, vr_NodesBelowMinimum := below\<rparr>)"

definition finalize_versions :: "VersionReport \<Rightarrow> VersionReport" where
  "finalize_versions r =
     r\<lparr>vr_Passed := vr_NodeError r = '''' \<and> vr_NodesBelowMinimum r = 0 \<and> kv_MeetsMinimum (vr_Kubernetes r) \<and>
        pv_MeetsMinimum (vr_Prometheus r)\<rparr>"

definition evaluatePrometheusVersion :: "'v PreflightLibs \<Rightarrow> string \<Rightarrow> 'v \<Rightarrow> PrometheusVersionInfo" where
  "evaluatePrometheusVersion lib versionStr minVer =
     (if versionStr = '''' then no_prometheus\<lparr>pv_Error := ''prometheus version could not be determined''\<rparr>
      else let (ok, err) = meets lib ''prometheus'' versionStr minVer
           in \<lparr>pv_Version = versionStr, pv_MeetsMinimum = ok, pv_Error = err\<rparr>)"

definition detectPrometheusVersion :: "'v PreflightLibs \<Rightarrow> promAPI option \<Rightarrow> 'v \<Rightarrow> PrometheusVersionInfo" where
  "detectPrometheusVersion lib client minVer =
     (case client of
        None \<Rightarrow> no_prometheus\<lparr>pv_Error := ''prometheus client is not configured for this cluster''\<rparr>
      | Some api \<Rightarrow>
          (case pa_Query api ''prometheus_build_info'' of
             Inl e \<Rightarrow> no_prometheus\<lparr>pv_Error := ''failed to query prometheus_build_info: '' @ e\<rparr>
           | Inr (Vector (sample # _)) \<Rightarrow>
               (let versionStr = metric (sa_Metric sample) ''version''
                in if versionStr = ''''
                   then no_prometheus\<lparr>pv_Error := ''prometheus_build_info sample did not contain a version label''\<rparr>
                   else evaluatePrometheusVersion lib versionStr minVer)
           | Inr _ \<Rightarrow> no_prometheus\<lparr>pv_Error := ''prometheus_build_info returned no samples; version could not be determined''\<rparr>))"

section \<open>The connection\<close>

definition splitPrometheusTarget :: "'v PreflightLibs \<Rightarrow> string \<Rightarrow> string \<times> string" where
  "splitPrometheusTarget lib rawURL =
     (case pl_URL lib rawURL of
        None \<Rightarrow> ('''', '''')
      | Some (scheme, host, hostname, port) \<Rightarrow>
          if host = '''' then ('''', '''')
          else (hostname, if port = '''' then (if scheme = ''https'' then ''443'' else if scheme = ''http'' then ''80'' else '''')
                          else port))"

text \<open>The connection information is the URL, \<open>None\<close> when it could not be looked up.\<close>

definition checkPrometheusConnectivity ::
    "'v PreflightLibs \<Rightarrow> promAPI option \<Rightarrow> string option \<Rightarrow> PrometheusConnectivity" where
  "checkPrometheusConnectivity lib client connInfo =
     (let url = (case connInfo of None \<Rightarrow> '''' | Some u \<Rightarrow> u);
          (host, port) = (if url = '''' then ('''', '''') else splitPrometheusTarget lib url);
          target = (if url = '''' then ''the configured Prometheus'' else url);
          conn = \<lparr>pn_Connected = False, pn_Healthy = False, pn_Target = url, pn_URL = url, pn_Host = host, pn_Port = port,
                  pn_Probe = '''', pn_Version = '''', pn_Revision = '''', pn_Error = ''''\<rparr>
      in case client of
           None \<Rightarrow> conn\<lparr>pn_Error := ''prometheus client is not configured for this cluster''\<rparr>
         | Some api \<Rightarrow>
             (case pa_Buildinfo api of
                Inr (v, revision) \<Rightarrow> conn\<lparr>pn_Connected := True, pn_Healthy := True, pn_Probe := ''buildinfo'',
                    pn_Version := v, pn_Revision := revision\<rparr>
              | Inl _ \<Rightarrow>
                  (case pa_Query api ''vector(1)'' of
                     Inl e \<Rightarrow> conn\<lparr>pn_Error := ''failed to reach Prometheus at '' @ target @ '': '' @ e\<rparr>
                   | Inr _ \<Rightarrow> conn\<lparr>pn_Connected := True, pn_Healthy := True, pn_Probe := ''query-fallback''\<rparr>)))"

definition resolvePrometheusVersion ::
    "'v PreflightLibs \<Rightarrow> promAPI option \<Rightarrow> 'v \<Rightarrow> PrometheusConnectivity \<Rightarrow> PrometheusVersionInfo" where
  "resolvePrometheusVersion lib client minVer conn =
     (if pn_Version conn \<noteq> '''' then evaluatePrometheusVersion lib (pn_Version conn) minVer
      else if pn_Connected conn then detectPrometheusVersion lib client minVer
      else no_prometheus\<lparr>pv_Error := (if pn_Error conn = '''' then prometheusUnreachableMsg else pn_Error conn)\<rparr>)"

section \<open>The metrics\<close>

definition metricLabelNames :: "promAPI \<Rightarrow> string \<Rightarrow> string + string list" where
  "metricLabelNames api selector =
     (case pa_LabelNames api selector of
        Inl e \<Rightarrow> Inl (''label names query failed: '' @ e)
      | Inr names \<Rightarrow> Inr (filter (\<lambda>n. n \<noteq> ''__name__'') names))"

definition selector :: "metricProbe \<Rightarrow> string" where
  "selector p = (if mp_JobMatcher p \<noteq> '''' then mp_Metric p @ ''{'' @ mp_JobMatcher p @ ''}'' else mp_Metric p)"

definition probeOneMetric :: "(float64 \<Rightarrow> int) \<Rightarrow> promAPI \<Rightarrow> metricProbe \<Rightarrow> string \<Rightarrow> MetricCheck" where
  "probeOneMetric oob api p lookback =
     (let check = \<lparr>ck_Metric = mp_Metric p, ck_Required = mp_Required p, ck_Present = False, ck_Series = 0, ck_Labels = [],
            ck_Error = ''''\<rparr>;
          absent = ''no series found in last '' @ lookback
      in case pa_Query api (''count(last_over_time('' @ selector p @ ''['' @ lookback @ '']))'') of
           Inl e \<Rightarrow> check\<lparr>ck_Error := ''query failed: '' @ e\<rparr>
         | Inr (Vector (sample # _)) \<Rightarrow>
             (let series = int64_of_f64 oob (sa_Value sample);
                  check = check\<lparr>ck_Series := series, ck_Present := 0 < series\<rparr>
              in if \<not> ck_Present check then check\<lparr>ck_Error := absent\<rparr>
                 else case metricLabelNames api (selector p) of
                        Inl _ \<Rightarrow> check
                      | Inr labels \<Rightarrow> check\<lparr>ck_Labels := labels\<rparr>)
         | Inr _ \<Rightarrow> check\<lparr>ck_Error := absent\<rparr>)"

text \<open>A group is added when its first probe comes; \<open>index\<close> has the places of the groups.\<close>

type_synonym grouping = "MetricGroup list \<times> (string \<rightharpoonup> nat)"

definition add_check :: "grouping \<Rightarrow> metricProbe \<times> MetricCheck \<Rightarrow> grouping" where
  "add_check gr pc =
     (let (groups, index) = gr; (p, check) = pc;
          (gi, groups, index) = (case index (mp_Group p) of
              Some gi \<Rightarrow> (gi, groups, index)
            | None \<Rightarrow> (length groups,
                groups @ [\<lparr>mg_Name = mp_Group p, mg_JobMatcher = mp_JobMatcher p, mg_Required = False, mg_Present = True,
                           mg_Checks = []\<rparr>],
                index(mp_Group p \<mapsto> length groups)));
          g = groups ! gi;
          g = (if mp_Required p
               then g\<lparr>mg_Required := True, mg_Present := (if ck_Present check then mg_Present g else False)\<rparr> else g)
      in (groups[gi := g\<lparr>mg_Checks := mg_Checks g @ [check]\<rparr>], index))"

definition groupMetricChecks :: "metricProbe list \<Rightarrow> MetricCheck list \<Rightarrow> MetricGroup list" where
  "groupMetricChecks probes checks = fst (foldl add_check ([], Map.empty) (zip probes checks))"

definition probeMetrics ::
    "(float64 \<Rightarrow> int) \<Rightarrow> promAPI option \<Rightarrow> string \<Rightarrow> string \<Rightarrow> MetricReport" where
  "probeMetrics oob client lookback connErr =
     (let failed_checks = (\<lambda>e. map (\<lambda>p. \<lparr>ck_Metric = mp_Metric p, ck_Required = mp_Required p, ck_Present = False,
            ck_Series = 0, ck_Labels = [], ck_Error = e\<rparr>) preflightMetricProbes);
          checks = (case client of
              None \<Rightarrow> failed_checks (if connErr = '''' then ''prometheus client is not configured for this cluster'' else connErr)
            | Some api \<Rightarrow> if connErr \<noteq> '''' then failed_checks connErr
                else map (\<lambda>p. probeOneMetric oob api p lookback) preflightMetricProbes);
          groups = groupMetricChecks preflightMetricProbes checks
      in \<lparr>mr_Passed = list_all mg_Present groups, mr_Lookback = lookback, mr_Groups = groups\<rparr>)"

section \<open>The verdict\<close>

text \<open>The counts and the failures so far.\<close>

record verdict =
  vt_total :: nat
  vt_passed :: nat
  vt_failures :: "PreflightFailure list"

definition tally :: "bool \<Rightarrow> string \<Rightarrow> string \<Rightarrow> string \<Rightarrow> verdict \<Rightarrow> verdict" where
  "tally ok stp item msg v =
     (let v = v\<lparr>vt_total := vt_total v + 1\<rparr>
      in if ok then v\<lparr>vt_passed := vt_passed v + 1\<rparr>
         else v\<lparr>vt_failures := vt_failures v @ [\<lparr>pf_Step = stp, pf_Item = item, pf_Message = msg\<rparr>]\<rparr>)"

definition or_else :: "string \<Rightarrow> string \<Rightarrow> string" where
  "or_else msg other = (if msg = '''' then other else msg)"

definition tally_node :: "string \<Rightarrow> verdict \<Rightarrow> NodeVersionInfo \<Rightarrow> verdict" where
  "tally_node minKube v n =
     tally (nv_MeetsMinimum n) ''versions'' (nv_Name n)
       (or_else (nv_Error n) (''kubelet version '' @ nv_KubeletVersion n @ '' is below minimum '' @ minKube)) v"

definition tally_check :: "string \<Rightarrow> verdict \<Rightarrow> MetricCheck \<Rightarrow> verdict" where
  "tally_check matcher v ck =
     tally (ck_Present ck) ''metrics'' (ck_Metric ck)
       (''metric '' @ ck_Metric ck @ matcher @ '': '' @ or_else (ck_Error ck) ''metric not found'') v"

definition tally_group :: "verdict \<Rightarrow> MetricGroup \<Rightarrow> verdict" where
  "tally_group v g =
     foldl (tally_check (if mg_JobMatcher g \<noteq> '''' then ''{'' @ mg_JobMatcher g @ ''}'' else '''')) v (mg_Checks g)"

definition finalizePreflight :: "PreflightResponse \<Rightarrow> PreflightResponse" where
  "finalizePreflight resp =
     (let conn = pr_PrometheusConnectivity resp; vers = pr_Versions resp;
          k8s = vr_Kubernetes vers; prom = vr_Prometheus vers;
          v = \<lparr>vt_total = 0, vt_passed = 0, vt_failures = []\<rparr>;
          v = tally (pn_Connected conn \<and> pn_Healthy conn) ''prometheus_connectivity'' ''prometheus''
                (or_else (pn_Error conn) prometheusUnreachableMsg) v;
          v = tally (kv_MeetsMinimum k8s) ''versions'' ''kubernetes''
                (or_else (kv_Error k8s) (''kubernetes server version '' @ kv_Version k8s @ '' is below minimum '' @
                   vr_MinKubernetesVersion vers)) v;
          v = foldl (tally_node (vr_MinKubeVersion vers)) v (vr_Nodes vers);
          v = (if vr_NodeError vers \<noteq> '''' then tally False ''versions'' ''nodes'' (vr_NodeError vers) v else v);
          v = tally (pv_MeetsMinimum prom) ''versions'' ''prometheus''
                (or_else (pv_Error prom) (''prometheus version '' @ pv_Version prom @ '' is below minimum '' @
                   vr_MinPrometheusVersion vers)) v;
          v = foldl tally_group v (mr_Groups (pr_Metrics resp))
      in resp\<lparr>pr_Summary := \<lparr>ps_TotalChecks = vt_total v, ps_Passed = vt_passed v, ps_Failed = vt_total v - vt_passed v\<rparr>,
           pr_Failures := vt_failures v,
           pr_Healthy := pn_Connected conn \<and> pn_Healthy conn \<and> vr_Passed vers \<and> mr_Passed (pr_Metrics resp)\<rparr>)"

text \<open>The minimal versions are parsed when the program starts, which panics if one does not parse.\<close>

definition preflight_minimums :: "'v PreflightLibs \<Rightarrow> ('v \<times> 'v \<times> 'v) panics" where
  "preflight_minimums lib =
     (case (pl_ParseGeneric lib defaultMinKubeVersion, pl_ParseGeneric lib defaultMinKubernetesVersion,
            pl_ParseGeneric lib defaultMinPrometheusVersion) of
        (Inr a, Inr b, Inr c) \<Rightarrow> Some (a, b, c)
      | _ \<Rightarrow> None)"

definition HandlePreflight ::
    "'v PreflightLibs \<Rightarrow> 'v \<times> 'v \<times> 'v \<Rightarrow> string \<Rightarrow> string \<Rightarrow> (string \<times> PreflightClients) list \<Rightarrow> string option \<Rightarrow> string
     \<Rightarrow> PreflightResponse response" where
  "HandlePreflight lib minimums cruisekubeVersion generatedAt clusterClients connInfo clusterID =
     (case GetClusterClients clusterID clusterClients of
        Inl e \<Rightarrow> Inl (404, ''cluster '' @ pl_quote lib clusterID @ '' not found'')
      | Inr clients \<Rightarrow>
          (let (minKubeVer, minK8sVer, minPromVer) = minimums;
               conn = checkPrometheusConnectivity lib (cl_Prometheus clients) connInfo;
               versions = buildVersionReport lib cruisekubeVersion (Some (cl_Kube clients)) minKubeVer minK8sVer minPromVer;
               versions = finalize_versions (versions\<lparr>vr_Prometheus :=
                   resolvePrometheusVersion lib (cl_Prometheus clients) minPromVer conn\<rparr>);
               connErr = (if pn_Connected conn then '''' else or_else (pn_Error conn) prometheusUnreachableMsg);
               metrics = probeMetrics (pl_oob lib) (cl_Prometheus clients) defaultMetricLookback connErr
           in Inr (finalizePreflight \<lparr>pr_ClusterID = clusterID, pr_Healthy = False, pr_GeneratedAt = generatedAt,
                pr_Summary = \<lparr>ps_TotalChecks = 0, ps_Passed = 0, ps_Failed = 0\<rparr>, pr_Failures = [],
                pr_PrometheusConnectivity = conn, pr_Versions = versions, pr_Metrics = metrics\<rparr>)))"

section \<open>Grouping is grouping by name\<close>

text \<open>The reference: the groups in the order in which they first come, each with the checks of its probes.\<close>

definition of_group :: "string \<Rightarrow> (metricProbe \<times> MetricCheck) list \<Rightarrow> (metricProbe \<times> MetricCheck) list" where
  "of_group n pcs = filter (\<lambda>pc. mp_Group (fst pc) = n) pcs"

definition group_of :: "(metricProbe \<times> MetricCheck) list \<Rightarrow> string \<Rightarrow> MetricGroup" where
  "group_of pcs n = \<lparr>mg_Name = n, mg_JobMatcher = mp_JobMatcher (fst (hd (of_group n pcs))),
     mg_Required = list_ex (\<lambda>pc. mp_Required (fst pc)) (of_group n pcs),
     mg_Present = list_all (\<lambda>pc. mp_Required (fst pc) \<longrightarrow> ck_Present (snd pc)) (of_group n pcs),
     mg_Checks = map snd (of_group n pcs)\<rparr>"

definition add_name :: "string list \<Rightarrow> metricProbe \<times> MetricCheck \<Rightarrow> string list" where
  "add_name ns pc = (if mp_Group (fst pc) \<in> set ns then ns else ns @ [mp_Group (fst pc)])"

definition group_names :: "(metricProbe \<times> MetricCheck) list \<Rightarrow> string list" where
  "group_names pcs = foldl add_name [] pcs"

lemma group_names_snoc: "group_names (pcs @ [pc]) = add_name (group_names pcs) pc"
  by (simp add: group_names_def)

lemma group_names_set: "set (group_names pcs) = (\<lambda>pc. mp_Group (fst pc)) ` set pcs" "distinct (group_names pcs)"
proof (induction pcs rule: rev_induct)
  case (snoc pc pcs)
  show "set (group_names (pcs @ [pc])) = (\<lambda>pc. mp_Group (fst pc)) ` set (pcs @ [pc])"
    using snoc by (auto simp: group_names_snoc add_name_def)
  show "distinct (group_names (pcs @ [pc]))" using snoc by (simp add: group_names_snoc add_name_def)
qed (simp_all add: group_names_def)

definition grouping_ok :: "(metricProbe \<times> MetricCheck) list \<Rightarrow> grouping \<Rightarrow> bool" where
  "grouping_ok pcs gr \<longleftrightarrow> fst gr = map (group_of pcs) (group_names pcs) \<and>
     (\<forall>n. snd gr n = None \<longrightarrow> n \<notin> set (group_names pcs)) \<and>
     (\<forall>n i. snd gr n = Some i \<longrightarrow> i < length (group_names pcs) \<and> group_names pcs ! i = n)"

lemma of_group_snoc: "of_group n (pcs @ [pc]) = (if mp_Group (fst pc) = n then of_group n pcs @ [pc] else of_group n pcs)"
  by (simp add: of_group_def)

lemma of_group_empty: "n \<notin> set (group_names pcs) \<Longrightarrow> of_group n pcs = []"
  by (auto simp: of_group_def filter_empty_conv group_names_set)

lemma of_group_nonempty: "n \<in> set (group_names pcs) \<Longrightarrow> of_group n pcs \<noteq> []"
  by (auto simp: of_group_def filter_empty_conv group_names_set)

lemma group_of_other: "mp_Group (fst pc) \<noteq> n \<Longrightarrow> group_of (pcs @ [pc]) n = group_of pcs n"
  by (simp add: group_of_def of_group_snoc)

lemma add_check_ok:
  assumes "grouping_ok pcs gr" shows "grouping_ok (pcs @ [(p, ck)]) (add_check gr (p, ck))"
proof (cases "snd gr (mp_Group p)")
  case None
  then have n: "mp_Group p \<notin> set (group_names pcs)" using assms by (simp add: grouping_ok_def)
  have names: "group_names (pcs @ [(p, ck)]) = group_names pcs @ [mp_Group p]"
    using n by (simp add: group_names_snoc add_name_def)
  have old: "map (group_of (pcs @ [(p, ck)])) (group_names pcs) = map (group_of pcs) (group_names pcs)"
    using n by (intro map_cong refl group_of_other) auto
  have len: "length (fst gr) = length (group_names pcs)" using assms by (simp add: grouping_ok_def)
  have upd: "(xs @ [y])[length (group_names pcs) := z] = xs @ [z]" if "length xs = length (group_names pcs)" for xs and y z :: MetricGroup
    using that by (simp add: list_update_append)
  show ?thesis using assms None len
    by (cases gr) (auto simp: grouping_ok_def add_check_def Let_def names old nth_append upd group_of_def of_group_snoc
        of_group_empty [OF n] intro: less_SucI split: if_splits)
next
  case (Some i)
  then have i: "i < length (group_names pcs)" "group_names pcs ! i = mp_Group p" using assms by (simp_all add: grouping_ok_def)
  then have n: "mp_Group p \<in> set (group_names pcs)" by (metis nth_mem)
  have names: "group_names (pcs @ [(p, ck)]) = group_names pcs" using n by (simp add: group_names_snoc add_name_def)
  have g: "fst gr ! i = group_of pcs (mp_Group p)" using assms i by (simp add: grouping_ok_def)
  have new: "group_of (pcs @ [(p, ck)]) (mp_Group p) =
      (let g = group_of pcs (mp_Group p); g = (if mp_Required p
         then g\<lparr>mg_Required := True, mg_Present := (if ck_Present ck then mg_Present g else False)\<rparr> else g)
       in g\<lparr>mg_Checks := mg_Checks g @ [ck]\<rparr>)"
    using of_group_nonempty [OF n] by (auto simp: group_of_def of_group_snoc Let_def)
  have "map (group_of (pcs @ [(p, ck)])) (group_names pcs) =
      (map (group_of pcs) (group_names pcs))[i := group_of (pcs @ [(p, ck)]) (mp_Group p)]"
  proof (rule nth_equalityI)
    fix j assume "j < length (map (group_of (pcs @ [(p, ck)])) (group_names pcs))"
    then show "map (group_of (pcs @ [(p, ck)])) (group_names pcs) ! j =
        (map (group_of pcs) (group_names pcs))[i := group_of (pcs @ [(p, ck)]) (mp_Group p)] ! j"
      using i group_names_set(2) [of pcs]
      by (cases "j = i") (auto simp: nth_eq_iff_index_eq intro!: group_of_other)
  qed simp
  then show ?thesis using assms Some g
    by (cases gr) (simp add: grouping_ok_def add_check_def names new Let_def)
qed

lemma grouping_all: "grouping_ok pcs (foldl add_check ([], Map.empty) pcs)"
proof (induction pcs rule: rev_induct)
  case (snoc pc pcs)
  then show ?case using add_check_ok by (cases pc) simp
qed (simp add: grouping_ok_def group_names_def)

lemma groups_by_name:
  "groupMetricChecks ps cs = map (group_of (zip ps cs)) (group_names (zip ps cs))"
  using grouping_all [of "zip ps cs"] by (simp add: groupMetricChecks_def grouping_ok_def)

lemma groups_present:
  "list_all mg_Present (groupMetricChecks ps cs) \<longleftrightarrow> (\<forall>pc \<in> set (zip ps cs). mp_Required (fst pc) \<longrightarrow> ck_Present (snd pc))"
proof -
  define pcs where "pcs = zip ps cs"
  have "list_all mg_Present (map (group_of pcs) (group_names pcs)) \<longleftrightarrow>
      (\<forall>n \<in> (\<lambda>pc. mp_Group (fst pc)) ` set pcs. \<forall>pc \<in> set pcs. mp_Group (fst pc) = n \<longrightarrow> mp_Required (fst pc) \<longrightarrow> ck_Present (snd pc))"
    by (simp only: list_all_iff group_names_set(1) [symmetric] set_map) (fastforce simp: group_of_def of_group_def list_all_iff)
  then show ?thesis unfolding groups_by_name pcs_def [symmetric] by blast
qed

lemma groups_members:
  "(\<Union>g \<in> set (groupMetricChecks ps cs). set (mg_Checks g)) = snd ` set (zip ps cs)"
proof -
  define pcs where "pcs = zip ps cs"
  have "(\<Union>g \<in> set (map (group_of pcs) (group_names pcs)). set (mg_Checks g)) =
      (\<Union>n \<in> (\<lambda>pc. mp_Group (fst pc)) ` set pcs. snd ` {pc \<in> set pcs. mp_Group (fst pc) = n})"
    by (simp only: group_names_set(1) [symmetric] set_map) (simp add: group_of_def of_group_def)
  then show ?thesis unfolding groups_by_name pcs_def [symmetric] by blast
qed

section \<open>The verdict and its counts\<close>

definition verdict_ok :: "verdict \<Rightarrow> bool" where
  "verdict_ok v \<longleftrightarrow> vt_total v = vt_passed v + length (vt_failures v)"

lemma tally_ok: "verdict_ok v \<Longrightarrow> verdict_ok (tally ok stp item msg v)"
  by (simp add: tally_def verdict_ok_def Let_def)

lemma tally_failures:
  "vt_failures (tally ok stp item msg v) =
     vt_failures v @ (if ok then [] else [\<lparr>pf_Step = stp, pf_Item = item, pf_Message = msg\<rparr>])"
  by (simp add: tally_def Let_def)

lemma tally_nodes:
  "verdict_ok v \<Longrightarrow> verdict_ok (foldl (tally_node m) v ns)"
  "vt_failures (foldl (tally_node m) v ns) = [] \<longleftrightarrow> vt_failures v = [] \<and> (\<forall>n \<in> set ns. nv_MeetsMinimum n)"
  by (induction ns arbitrary: v) (auto simp: tally_node_def tally_ok tally_failures)

text \<open>The failures that some steps add, all of the metrics.\<close>

definition metric_failures :: "verdict \<Rightarrow> verdict \<Rightarrow> bool \<Rightarrow> bool" where
  "metric_failures v v' ok \<longleftrightarrow>
     (\<exists>fs. vt_failures v' = vt_failures v @ fs \<and> (\<forall>f \<in> set fs. pf_Step f = ''metrics'') \<and> (fs = [] \<longleftrightarrow> ok))"

lemma metric_failures_trans:
  "metric_failures v v' ok \<Longrightarrow> metric_failures v' v'' ok' \<Longrightarrow> metric_failures v v'' (ok \<and> ok')"
  unfolding metric_failures_def by (elim exE) (rule_tac x = "fs @ fsa" in exI, auto)

lemma metric_failures_refl: "metric_failures v v True"
  by (simp add: metric_failures_def)

lemma metric_failures_check: "metric_failures v (tally_check m v ck) (ck_Present ck)"
  by (simp add: metric_failures_def tally_check_def tally_failures)

lemma tally_check_ok: "verdict_ok v \<Longrightarrow> verdict_ok (tally_check m v ck)"
  by (simp add: tally_check_def tally_ok)

lemma tally_checks_ok: "verdict_ok v \<Longrightarrow> verdict_ok (foldl (tally_check m) v cks)"
  by (induction cks arbitrary: v) (simp_all add: tally_check_ok)

lemma tally_checks: "metric_failures v (foldl (tally_check m) v cks) (\<forall>ck \<in> set cks. ck_Present ck)"
proof (induction cks arbitrary: v)
  case (Cons ck cks)
  from metric_failures_trans [OF metric_failures_check Cons] show ?case by simp
qed (simp add: metric_failures_refl)

lemma tally_group_ok: "verdict_ok v \<Longrightarrow> verdict_ok (tally_group v g)"
  unfolding tally_group_def by (rule tally_checks_ok)

lemma tally_groups_ok: "verdict_ok v \<Longrightarrow> verdict_ok (foldl tally_group v gs)"
  by (induction gs arbitrary: v) (simp_all add: tally_group_ok)

lemma tally_groups: "metric_failures v (foldl tally_group v gs) (\<forall>g \<in> set gs. \<forall>ck \<in> set (mg_Checks g). ck_Present ck)"
proof (induction gs arbitrary: v)
  case (Cons g gs)
  have "metric_failures v (tally_group v g) (\<forall>ck \<in> set (mg_Checks g). ck_Present ck)"
    unfolding tally_group_def by (rule tally_checks)
  from metric_failures_trans [OF this Cons] show ?case by simp
qed (simp add: metric_failures_refl)

text \<open>What the report says of the servers, apart from the metrics.\<close>

definition base_ok :: "PreflightResponse \<Rightarrow> bool" where
  "base_ok resp \<longleftrightarrow> pn_Connected (pr_PrometheusConnectivity resp) \<and> pn_Healthy (pr_PrometheusConnectivity resp) \<and>
     kv_MeetsMinimum (vr_Kubernetes (pr_Versions resp)) \<and> (\<forall>n \<in> set (vr_Nodes (pr_Versions resp)). nv_MeetsMinimum n) \<and>
     vr_NodeError (pr_Versions resp) = '''' \<and> pv_MeetsMinimum (vr_Prometheus (pr_Versions resp))"

lemma finalize_counts:
  "ps_TotalChecks (pr_Summary (finalizePreflight resp)) =
     ps_Passed (pr_Summary (finalizePreflight resp)) + ps_Failed (pr_Summary (finalizePreflight resp)) \<and>
   ps_Failed (pr_Summary (finalizePreflight resp)) = length (pr_Failures (finalizePreflight resp)) \<and>
   (pr_Failures (finalizePreflight resp) = [] \<longleftrightarrow> base_ok resp \<and>
      (\<forall>g \<in> set (mr_Groups (pr_Metrics resp)). \<forall>ck \<in> set (mg_Checks g). ck_Present ck)) \<and>
   (base_ok resp \<longrightarrow> (\<forall>f \<in> set (pr_Failures (finalizePreflight resp)). pf_Step f = ''metrics''))"
proof -
  define v0 where "v0 = \<lparr>vt_total = 0, vt_passed = 0, vt_failures = []\<rparr>"
  define v1 where "v1 = tally (pn_Connected (pr_PrometheusConnectivity resp) \<and> pn_Healthy (pr_PrometheusConnectivity resp))
    ''prometheus_connectivity'' ''prometheus'' (or_else (pn_Error (pr_PrometheusConnectivity resp)) prometheusUnreachableMsg) v0"
  define v2 where "v2 = tally (kv_MeetsMinimum (vr_Kubernetes (pr_Versions resp))) ''versions'' ''kubernetes''
    (or_else (kv_Error (vr_Kubernetes (pr_Versions resp))) (''kubernetes server version '' @
      kv_Version (vr_Kubernetes (pr_Versions resp)) @ '' is below minimum '' @ vr_MinKubernetesVersion (pr_Versions resp))) v1"
  define v3 where "v3 = foldl (tally_node (vr_MinKubeVersion (pr_Versions resp))) v2 (vr_Nodes (pr_Versions resp))"
  define v4 where "v4 = (if vr_NodeError (pr_Versions resp) \<noteq> ''''
    then tally False ''versions'' ''nodes'' (vr_NodeError (pr_Versions resp)) v3 else v3)"
  define v5 where "v5 = tally (pv_MeetsMinimum (vr_Prometheus (pr_Versions resp))) ''versions'' ''prometheus''
    (or_else (pv_Error (vr_Prometheus (pr_Versions resp))) (''prometheus version '' @ pv_Version (vr_Prometheus (pr_Versions resp)) @
      '' is below minimum '' @ vr_MinPrometheusVersion (pr_Versions resp))) v4"
  define v6 where "v6 = foldl tally_group v5 (mr_Groups (pr_Metrics resp))"
  have fin: "pr_Summary (finalizePreflight resp) =
      \<lparr>ps_TotalChecks = vt_total v6, ps_Passed = vt_passed v6, ps_Failed = vt_total v6 - vt_passed v6\<rparr>"
    "pr_Failures (finalizePreflight resp) = vt_failures v6"
    by (simp_all add: finalizePreflight_def Let_def v6_def v5_def v4_def v3_def v2_def v1_def v0_def)
  have "verdict_ok v0" by (simp add: v0_def verdict_ok_def)
  then have "verdict_ok v5" by (simp add: v5_def v4_def v3_def v2_def v1_def tally_ok tally_nodes(1))
  then have 6: "verdict_ok v6" unfolding v6_def by (rule tally_groups_ok)
  have "vt_failures v0 = []" by (simp add: v0_def)
  then have "vt_failures v2 = [] \<longleftrightarrow> pn_Connected (pr_PrometheusConnectivity resp) \<and> pn_Healthy (pr_PrometheusConnectivity resp) \<and>
      kv_MeetsMinimum (vr_Kubernetes (pr_Versions resp))"
    by (simp add: v2_def v1_def tally_failures)
  then have 5: "vt_failures v5 = [] \<longleftrightarrow> base_ok resp"
    by (auto simp: v5_def v4_def v3_def tally_failures tally_nodes(2) base_ok_def split: if_splits)
  have "metric_failures v5 v6 (\<forall>g \<in> set (mr_Groups (pr_Metrics resp)). \<forall>ck \<in> set (mg_Checks g). ck_Present ck)"
    unfolding v6_def by (rule tally_groups)
  then show ?thesis using 5 6 unfolding fin verdict_ok_def metric_failures_def by auto
qed

section \<open>The parts of the report\<close>

definition version_ok :: "'v PreflightLibs \<Rightarrow> string \<Rightarrow> 'v \<Rightarrow> bool" where
  "version_ok lib s minVer \<longleftrightarrow> (case pl_ParseGeneric lib s of Inl e \<Rightarrow> False | Inr v \<Rightarrow> pl_AtLeast lib v minVer)"

lemma meets_ok: "fst (meets lib what s minVer) \<longleftrightarrow> version_ok lib s minVer"
  by (simp add: meets_def version_ok_def split: sum.split)

lemma conn_ok:
  "pn_Connected (checkPrometheusConnectivity lib client info) \<longleftrightarrow>
     (\<exists>api. client = Some api \<and> (\<not> isl (pa_Buildinfo api) \<or> \<not> isl (pa_Query api ''vector(1)'')))"
  "pn_Healthy (checkPrometheusConnectivity lib client info) = pn_Connected (checkPrometheusConnectivity lib client info)"
  by (cases client; auto simp: checkPrometheusConnectivity_def Let_def split: sum.split prod.split)+

text \<open>The version a reachable Prometheus tells: of its build information, else of the first sample of the metric.\<close>

definition running_prometheus :: "promAPI \<Rightarrow> string" where
  "running_prometheus api =
     (let of_metric = (case pa_Query api ''prometheus_build_info'' of
              Inr (Vector (sample # _)) \<Rightarrow> metric (sa_Metric sample) ''version'' | _ \<Rightarrow> '''')
      in case pa_Buildinfo api of Inr (v, _) \<Rightarrow> (if v = '''' then of_metric else v) | Inl _ \<Rightarrow> of_metric)"

lemma evaluated_version: "pv_Version (evaluatePrometheusVersion lib s minVer) = s"
  by (simp add: evaluatePrometheusVersion_def no_prometheus_def split: prod.split)

lemma detected_version:
  "pv_Version (detectPrometheusVersion lib (Some api) minVer) =
     (case pa_Query api ''prometheus_build_info'' of
        Inr (Vector (sample # _)) \<Rightarrow> metric (sa_Metric sample) ''version'' | _ \<Rightarrow> '''')"
  by (simp add: detectPrometheusVersion_def evaluated_version Let_def no_prometheus_def
      split: sum.split prom_value.split list.split)

lemma resolved_version:
  assumes "\<not> isl (pa_Buildinfo api) \<or> \<not> isl (pa_Query api ''vector(1)'')"
  shows "pv_Version (resolvePrometheusVersion lib (Some api) minVer (checkPrometheusConnectivity lib (Some api) info)) =
    running_prometheus api"
proof -
  have c: "pn_Connected (checkPrometheusConnectivity lib (Some api) info)" using assms by (simp add: conn_ok(1))
  have v: "pn_Version (checkPrometheusConnectivity lib (Some api) info) =
      (case pa_Buildinfo api of Inr (v, _) \<Rightarrow> v | Inl _ \<Rightarrow> '''')"
    by (simp add: checkPrometheusConnectivity_def Let_def split: sum.split prod.split)
  have d: "pv_Version (resolvePrometheusVersion lib (Some api) minVer (checkPrometheusConnectivity lib (Some api) info)) =
      (if pn_Version (checkPrometheusConnectivity lib (Some api) info) = ''''
       then pv_Version (detectPrometheusVersion lib (Some api) minVer)
       else pn_Version (checkPrometheusConnectivity lib (Some api) info))"
    using c by (simp add: resolvePrometheusVersion_def evaluated_version)
  show ?thesis
    unfolding d v detected_version running_prometheus_def Let_def
    by (cases "pa_Buildinfo api") (auto split: prod.split)
qed

lemma server_ok:
  "kv_MeetsMinimum (detectKubernetesServerVersion lib kube minVer) \<longleftrightarrow>
     (\<exists>k s. kube = Some k \<and> ka_ServerVersion k = Inr s \<and> s \<noteq> '''' \<and> version_ok lib s minVer)"
proof (cases kube)
  case (Some k)
  show ?thesis
  proof (cases "ka_ServerVersion k")
    case (Inr s)
    obtain ok err where m: "meets lib ''kubernetes'' s minVer = (ok, err)" by (rule prod.exhaust)
    have "ok \<longleftrightarrow> version_ok lib s minVer" using meets_ok [of lib "''kubernetes''" s minVer] unfolding m by simp
    then show ?thesis by (cases "s = ''''") (simp_all add: detectKubernetesServerVersion_def Let_def Some Inr m)
  qed (simp add: detectKubernetesServerVersion_def Let_def Some)
qed (simp add: detectKubernetesServerVersion_def Let_def)

lemma node_meets: "nv_MeetsMinimum (node_version lib minVer n) \<longleftrightarrow> version_ok lib (ni_KubeletVersion n) minVer"
  using meets_ok [of lib "''kubelet''" "ni_KubeletVersion n" minVer] by (auto simp: node_version_def split: prod.split)

lemma collect_nodes:
  assumes "go_sort (pl_sort lib)" "collectNodeVersions lib kube minVer = Inr (infos, below)"
  shows "\<exists>k nodes. kube = Some k \<and> ka_Nodes k = Inr nodes \<and>
      (below = 0 \<longleftrightarrow> (\<forall>n \<in> set nodes. version_ok lib (ni_KubeletVersion n) minVer)) \<and>
      (below = 0 \<longleftrightarrow> (\<forall>i \<in> set infos. nv_MeetsMinimum i))"
  using assms(2) by (cases kube)
    (auto simp: collectNodeVersions_def Let_def filter_empty_conv node_meets go_sort.set_srt [OF assms(1)] split: sum.splits)

lemma collect_error:
  assumes "collectNodeVersions lib kube minVer = Inl e"
  shows "e \<noteq> ''''" "\<not> (\<exists>k nodes. kube = Some k \<and> ka_Nodes k = Inr nodes)"
  using assms by (auto simp: collectNodeVersions_def Let_def split: option.splits sum.splits)

lemma nodes_ok:
  assumes "go_sort (pl_sort lib)" and r: "r = buildVersionReport lib cv kube minKube minK8s minProm"
  shows "vr_NodeError r = '''' \<and> vr_NodesBelowMinimum r = 0 \<longleftrightarrow>
      (\<exists>k nodes. kube = Some k \<and> ka_Nodes k = Inr nodes \<and> (\<forall>n \<in> set nodes. version_ok lib (ni_KubeletVersion n) minKube))"
    and "vr_NodeError r = '''' \<and> (\<forall>n \<in> set (vr_Nodes r). nv_MeetsMinimum n) \<longleftrightarrow> vr_NodeError r = '''' \<and> vr_NodesBelowMinimum r = 0"
    and "vr_Kubernetes r = detectKubernetesServerVersion lib kube minK8s"
proof -
  show "vr_Kubernetes r = detectKubernetesServerVersion lib kube minK8s"
    by (simp add: r buildVersionReport_def Let_def split: sum.split prod.split)
  have "(vr_NodeError r = '''' \<and> vr_NodesBelowMinimum r = 0 \<longleftrightarrow>
      (\<exists>k nodes. kube = Some k \<and> ka_Nodes k = Inr nodes \<and> (\<forall>n \<in> set nodes. version_ok lib (ni_KubeletVersion n) minKube))) \<and>
    (vr_NodeError r = '''' \<and> (\<forall>n \<in> set (vr_Nodes r). nv_MeetsMinimum n) \<longleftrightarrow> vr_NodeError r = '''' \<and> vr_NodesBelowMinimum r = 0)"
  proof (cases "collectNodeVersions lib kube minKube")
    case (Inl e)
    then show ?thesis using collect_error [OF Inl] by (simp add: r buildVersionReport_def Let_def)
  next
    case (Inr a)
    then obtain infos below where a: "collectNodeVersions lib kube minKube = Inr (infos, below)" by (cases a) simp
    from collect_nodes [OF assms(1) a] show ?thesis by (auto simp: r buildVersionReport_def Let_def a)
  qed
  then show "vr_NodeError r = '''' \<and> vr_NodesBelowMinimum r = 0 \<longleftrightarrow>
      (\<exists>k nodes. kube = Some k \<and> ka_Nodes k = Inr nodes \<and> (\<forall>n \<in> set nodes. version_ok lib (ni_KubeletVersion n) minKube))"
    "vr_NodeError r = '''' \<and> (\<forall>n \<in> set (vr_Nodes r). nv_MeetsMinimum n) \<longleftrightarrow> vr_NodeError r = '''' \<and> vr_NodesBelowMinimum r = 0"
    by blast+
qed

lemma evaluate_ok:
  "pv_MeetsMinimum (evaluatePrometheusVersion lib s minVer) \<longleftrightarrow>
     pv_Version (evaluatePrometheusVersion lib s minVer) \<noteq> '''' \<and>
     version_ok lib (pv_Version (evaluatePrometheusVersion lib s minVer)) minVer"
  using meets_ok [of lib "''prometheus''" s minVer]
  by (auto simp: evaluatePrometheusVersion_def no_prometheus_def split: prod.split)

lemma no_prometheus [simp]:
  "\<not> pv_MeetsMinimum (no_prometheus\<lparr>pv_Error := e\<rparr>)" "pv_Version (no_prometheus\<lparr>pv_Error := e\<rparr>) = ''''"
  by (simp_all add: no_prometheus_def)

lemma resolve_ok:
  "pv_MeetsMinimum (resolvePrometheusVersion lib client minVer conn) \<longleftrightarrow>
     pv_Version (resolvePrometheusVersion lib client minVer conn) \<noteq> '''' \<and>
     version_ok lib (pv_Version (resolvePrometheusVersion lib client minVer conn)) minVer"
proof -
  have "(\<exists>s. detectPrometheusVersion lib client minVer = evaluatePrometheusVersion lib s minVer) \<or>
      (\<exists>e. detectPrometheusVersion lib client minVer = no_prometheus\<lparr>pv_Error := e\<rparr>)"
    unfolding detectPrometheusVersion_def Let_def
    by (cases client) (simp_all only: option.case split: sum.split prom_value.split list.split if_split, blast+)
  then have "pv_MeetsMinimum (detectPrometheusVersion lib client minVer) \<longleftrightarrow>
     pv_Version (detectPrometheusVersion lib client minVer) \<noteq> '''' \<and>
     version_ok lib (pv_Version (detectPrometheusVersion lib client minVer)) minVer"
    using evaluate_ok by (elim disjE exE) (simp_all only: no_prometheus simp_thms)
  then show ?thesis using evaluate_ok [of lib "pn_Version conn" minVer] unfolding resolvePrometheusVersion_def
    by (cases "pn_Version conn = ''''"; cases "pn_Connected conn") (simp_all only: if_True if_False not_True_eq_False not_False_eq_True no_prometheus simp_thms)
qed

lemma probes_passed:
  "mr_Passed (probeMetrics oob (Some api) lookback '''') \<longleftrightarrow>
     (\<forall>p \<in> set preflightMetricProbes. mp_Required p \<longrightarrow> ck_Present (probeOneMetric oob api p lookback))"
proof -
  have z: "set (zip ps (map f ps)) = (\<lambda>p. (p, f p)) ` set ps" for ps :: "metricProbe list" and f :: "metricProbe \<Rightarrow> MetricCheck"
    by (induction ps) simp_all
  show ?thesis by (simp add: probeMetrics_def Let_def groups_present z)
qed

lemma resolved_versions:
  fixes r p defines "v \<equiv> finalize_versions (r\<lparr>vr_Prometheus := p\<rparr>)"
  shows "vr_Passed v \<longleftrightarrow> vr_NodeError r = '''' \<and> vr_NodesBelowMinimum r = 0 \<and> kv_MeetsMinimum (vr_Kubernetes r) \<and>
      pv_MeetsMinimum p"
    "vr_Kubernetes v = vr_Kubernetes r" "vr_Nodes v = vr_Nodes r" "vr_NodeError v = vr_NodeError r" "vr_Prometheus v = p"
  by (simp_all add: v_def finalize_versions_def)

lemma finalize_fields:
  "pr_Healthy (finalizePreflight resp) \<longleftrightarrow> pn_Connected (pr_PrometheusConnectivity resp) \<and>
     pn_Healthy (pr_PrometheusConnectivity resp) \<and> vr_Passed (pr_Versions resp) \<and> mr_Passed (pr_Metrics resp)"
  "pr_Versions (finalizePreflight resp) = pr_Versions resp"
  by (simp_all add: finalizePreflight_def Let_def)

text \<open>A probe that is missing fails its group if it is required, so no failure at all means healthy.\<close>

lemma all_present_passed:
  assumes "\<forall>g \<in> set (mr_Groups (probeMetrics oob client lookback e)). \<forall>ck \<in> set (mg_Checks g). ck_Present ck"
  shows "mr_Passed (probeMetrics oob client lookback e)"
proof -
  define cks where "cks = (let failed_checks = (\<lambda>e. map (\<lambda>p. \<lparr>ck_Metric = mp_Metric p, ck_Required = mp_Required p, ck_Present = False,
            ck_Series = 0, ck_Labels = [], ck_Error = e\<rparr>) preflightMetricProbes)
     in case client of
              None \<Rightarrow> failed_checks (if e = '''' then ''prometheus client is not configured for this cluster'' else e)
            | Some api \<Rightarrow> if e \<noteq> '''' then failed_checks e
                else map (\<lambda>p. probeOneMetric oob api p lookback) preflightMetricProbes)"
  have g: "mr_Groups (probeMetrics oob client lookback e) = groupMetricChecks preflightMetricProbes cks"
    "mr_Passed (probeMetrics oob client lookback e) = list_all mg_Present (groupMetricChecks preflightMetricProbes cks)"
    by (simp_all add: probeMetrics_def cks_def Let_def)
  have "\<forall>ck \<in> snd ` set (zip preflightMetricProbes cks). ck_Present ck"
    using assms unfolding g groups_members [symmetric] by blast
  then show ?thesis unfolding g groups_present by blast
qed

text \<open>C37. The verdict of the readiness check is the one the documentation gives: a cluster is healthy exactly when
  Prometheus answers one of the two probes and has every required metric, the server and every kubelet have at
  least the minimal version and so has Prometheus, whose version in the report is, when it answers, the one of its
  build information or else of its metric. The counts of the summary add up, each failed check is in the list
  of failures, with no failure the cluster is healthy, and the failures of a healthy cluster are optional metrics.\<close>

theorem healthy_verdict:
  assumes h: "HandlePreflight lib (minKube, minK8s, minProm) cv ga clusterClients connInfo clusterID = Inr resp"
    and cl: "GetClusterClients clusterID clusterClients = Inr cl" and srt: "go_sort (pl_sort lib)"
  shows "(pr_Healthy resp \<longleftrightarrow>
      (\<exists>api. cl_Prometheus cl = Some api \<and> (\<not> isl (pa_Buildinfo api) \<or> \<not> isl (pa_Query api ''vector(1)'')) \<and>
         (\<forall>p \<in> set preflightMetricProbes. mp_Required p \<longrightarrow> ck_Present (probeOneMetric (pl_oob lib) api p defaultMetricLookback))) \<and>
      (\<exists>s nodes. ka_ServerVersion (cl_Kube cl) = Inr s \<and> s \<noteq> '''' \<and> version_ok lib s minK8s \<and>
         ka_Nodes (cl_Kube cl) = Inr nodes \<and> (\<forall>n \<in> set nodes. version_ok lib (ni_KubeletVersion n) minKube)) \<and>
      pv_Version (vr_Prometheus (pr_Versions resp)) \<noteq> '''' \<and>
      version_ok lib (pv_Version (vr_Prometheus (pr_Versions resp))) minProm) \<and>
    (\<forall>api. cl_Prometheus cl = Some api \<longrightarrow> \<not> isl (pa_Buildinfo api) \<or> \<not> isl (pa_Query api ''vector(1)'') \<longrightarrow>
       pv_Version (vr_Prometheus (pr_Versions resp)) = running_prometheus api) \<and>
    ps_TotalChecks (pr_Summary resp) = ps_Passed (pr_Summary resp) + ps_Failed (pr_Summary resp) \<and>
    ps_Failed (pr_Summary resp) = length (pr_Failures resp) \<and>
    (pr_Failures resp = [] \<longrightarrow> pr_Healthy resp) \<and>
    (pr_Healthy resp \<longrightarrow> (\<forall>f \<in> set (pr_Failures resp). pf_Step f = ''metrics''))"
proof -
  define conn where "conn = checkPrometheusConnectivity lib (cl_Prometheus cl) connInfo"
  define r where "r = buildVersionReport lib cv (Some (cl_Kube cl)) minKube minK8s minProm"
  define prom where "prom = resolvePrometheusVersion lib (cl_Prometheus cl) minProm conn"
  define vers where "vers = finalize_versions (r\<lparr>vr_Prometheus := prom\<rparr>)"
  define e where "e = (if pn_Connected conn then '''' else or_else (pn_Error conn) prometheusUnreachableMsg)"
  define mets where "mets = probeMetrics (pl_oob lib) (cl_Prometheus cl) defaultMetricLookback e"
  define b where "b = \<lparr>pr_ClusterID = clusterID, pr_Healthy = False, pr_GeneratedAt = ga,
                pr_Summary = \<lparr>ps_TotalChecks = 0, ps_Passed = 0, ps_Failed = 0\<rparr>, pr_Failures = [],
                pr_PrometheusConnectivity = conn, pr_Versions = vers, pr_Metrics = mets\<rparr>"
  have resp: "resp = finalizePreflight b"
    by (rule sym) (use h in \<open>simp only: HandlePreflight_def cl sum.case Let_def prod.case sum.inject b_def mets_def
      e_def vers_def prom_def r_def conn_def\<close>)
  have fields: "pr_PrometheusConnectivity b = conn" "pr_Versions b = vers" "pr_Metrics b = mets" by (simp_all add: b_def)
  note cn = conn_ok [of lib "cl_Prometheus cl" connInfo, folded conn_def]
  note vs = resolved_versions [where r = r and p = prom, folded vers_def]
  note nd = nodes_ok [OF srt r_def] and sv = server_ok [of lib "Some (cl_Kube cl)" minK8s]
  note pr = resolve_ok [of lib "cl_Prometheus cl" minProm conn, folded prom_def]
  have m: "mr_Passed mets \<longleftrightarrow> (\<forall>p \<in> set preflightMetricProbes. mp_Required p \<longrightarrow>
      ck_Present (probeOneMetric (pl_oob lib) api p defaultMetricLookback))"
    if "pn_Connected conn" "cl_Prometheus cl = Some api" for api
    using that probes_passed unfolding mets_def e_def by simp
  have healthy: "pr_Healthy resp \<longleftrightarrow> pn_Connected conn \<and> vr_Passed vers \<and> mr_Passed mets"
    unfolding resp finalize_fields fields cn(2) by blast
  have base: "base_ok b \<longleftrightarrow> pn_Connected conn \<and> vr_Passed vers"
    unfolding base_ok_def fields cn(2) vs using nd(2) by blast
  note fc = finalize_counts [of b, folded resp, unfolded fields base]
  have 1: "pr_Failures resp = [] \<longrightarrow> pr_Healthy resp"
    using fc all_present_passed unfolding healthy mets_def by blast
  have 2: "pr_Healthy resp \<longrightarrow> (\<forall>f \<in> set (pr_Failures resp). pf_Step f = ''metrics'')"
    using fc healthy by blast
  have v: "vr_Prometheus (pr_Versions resp) = prom" unfolding resp finalize_fields fields vs by (rule refl)
  have kube: "vr_Passed vers \<longleftrightarrow> (\<exists>s nodes. ka_ServerVersion (cl_Kube cl) = Inr s \<and> s \<noteq> '''' \<and>
      version_ok lib s minK8s \<and> ka_Nodes (cl_Kube cl) = Inr nodes \<and> (\<forall>n \<in> set nodes. version_ok lib (ni_KubeletVersion n) minKube)) \<and>
      pv_Version prom \<noteq> '''' \<and> version_ok lib (pv_Version prom) minProm"
    unfolding vs nd(3) sv pr using nd(1) by (smt (verit, best) option.inject)
  have "pr_Healthy resp \<longleftrightarrow> (\<exists>api. cl_Prometheus cl = Some api \<and> (\<not> isl (pa_Buildinfo api) \<or> \<not> isl (pa_Query api ''vector(1)'')) \<and>
      (\<forall>p \<in> set preflightMetricProbes. mp_Required p \<longrightarrow> ck_Present (probeOneMetric (pl_oob lib) api p defaultMetricLookback))) \<and>
      vr_Passed vers"
    unfolding healthy using m cn(1) by blast
  moreover have "\<forall>api. cl_Prometheus cl = Some api \<longrightarrow> \<not> isl (pa_Buildinfo api) \<or> \<not> isl (pa_Query api ''vector(1)'') \<longrightarrow>
      pv_Version prom = running_prometheus api"
    unfolding prom_def conn_def by (intro allI impI) (simp only: resolved_version)
  ultimately show ?thesis unfolding v kube [symmetric] using fc 1 2 by blast
qed

definition sample_libs :: "nat PreflightLibs" where
  "sample_libs = \<lparr>pl_ParseGeneric = (\<lambda>s. if s = '''' then Inl ''empty'' else Inr (List.length s)), pl_AtLeast = (\<lambda>v w. w \<le> v),
     pl_String = (\<lambda>v. ''v''), pl_URL = (\<lambda>u. None), pl_quote = (\<lambda>s. s), pl_sort = insertion_sort, pl_oob = (\<lambda>x. 0)\<rparr>"

definition sample_prom_api :: promAPI where
  "sample_prom_api = \<lparr>pa_Query = (\<lambda>q. Inr (Vector [\<lparr>sa_Metric = Map.empty, sa_Value = lit 1\<rparr>])), pa_Buildinfo = Inr (''2.53.0'', ''a1b2''),
     pa_LabelNames = (\<lambda>s. Inr [])\<rparr>"

definition sample_clients :: PreflightClients where
  "sample_clients = \<lparr>cl_Kube = \<lparr>ka_Nodes = Inr [], ka_ServerVersion = Inr ''v1.33.0''\<rparr>, cl_Prometheus = Some sample_prom_api\<rparr>"

lemma sample_present: "ck_Present (probeOneMetric oob sample_prom_api p lookback)"
proof -
  have "f64_trunc 1 = 1" by (simp add: f64_trunc_def)
  then have "int64_of_f64 oob (lit 1) = 1"
    using is_num_lit [of 1] rep64_lit(1) [of 1] by (simp add: int64_of_f64_def is_num_def rep64_1)
  then show ?thesis by (simp add: probeOneMetric_def sample_prom_api_def Let_def metricLabelNames_def)
qed

lemma healthy_verdict_witness:
  "\<exists>resp. HandlePreflight sample_libs (1, 1, 1) ''v1'' ''now'' [(''default'', sample_clients)] None ''default'' = Inr resp \<and> pr_Healthy resp"
proof -
  have cl: "GetClusterClients ''default'' [(''default'', sample_clients)] = Inr sample_clients" by (simp add: GetClusterClients_def)
  obtain resp where resp: "HandlePreflight sample_libs (1, 1, 1) ''v1'' ''now'' [(''default'', sample_clients)] None ''default'' = Inr resp"
    by (simp add: HandlePreflight_def cl Let_def)
  have srt: "go_sort (pl_sort sample_libs)" by (simp add: sample_libs_def insertion.go_sort_axioms)
  have p: "pv_Version (resolvePrometheusVersion sample_libs (cl_Prometheus sample_clients) 1
      (checkPrometheusConnectivity sample_libs (cl_Prometheus sample_clients) None)) = ''2.53.0''"
    by (simp add: resolvePrometheusVersion_def checkPrometheusConnectivity_def evaluatePrometheusVersion_def
        sample_clients_def sample_prom_api_def Let_def split: prod.split)
  have v: "pv_Version (vr_Prometheus (pr_Versions resp)) = ''2.53.0''"
    using resp unfolding HandlePreflight_def cl by (auto simp: Let_def finalize_fields resolved_versions p [unfolded One_nat_def])
  have "pr_Healthy resp"
    using conjunct1 [OF healthy_verdict [OF resp cl srt]] sample_present
    by (simp add: v sample_clients_def version_ok_def sample_libs_def) (simp add: sample_prom_api_def)
  then show ?thesis using resp by blast
qed

end
