(* ===== verification/QuerySlots.thy ===== *)
theory QuerySlots
  imports Promql "HOL-Library.Multiset"
begin

text \<open>
  The goroutines that query Prometheus, \<^verbatim>\<open>promql.go\<close> of \<^verbatim>\<open>pkg/adapters/metricsprovider/prometheus\<close>:
  a semaphore per cluster, a buffered channel created on demand in a \<^verbatim>\<open>sync.Map\<close>, bounds how many
  queries of the cluster run at once. Every access to the map or to a channel is a step of its own,
  and steps of different goroutines interleave in any way. A goroutine may wait before its first
  step, so goroutines that the program starts later are present from the beginning.
\<close>

section \<open>State\<close>

text \<open>What is stored for a cluster: a channel, by its number, or a value of another type.\<close>

datatype sem_value = Semaphore nat | OtherType

text \<open>The map, and how full each channel is; all have the same capacity.\<close>

record provider =
  pv_querySemaphores :: "string \<rightharpoonup> sem_value"
  pv_chans :: "nat list"

type_synonym answer = "string + prom_value"

text \<open>Where a goroutine is: in which attempt of its query, and what it does next.\<close>

datatype stage =
    AtLoad nat | AtStore nat | AtSend nat nat
  | AtQuery nat
  | AtRelease nat answer | AtReceive nat answer nat
  | AtReturn answer | Ended | Crashed

record goroutine =
  gr_batch :: nat
  gr_cluster :: string
  gr_request :: ParallelQueryRequest
  gr_stage :: stage

record slots =
  sl_provider :: provider
  sl_goroutines :: "goroutine list"
  sl_results :: "(nat \<times> query_result) list"

section \<open>Operations\<close>

definition load_semaphore :: "nat \<Rightarrow> string \<Rightarrow> provider \<Rightarrow> provider \<times> stage" where
  "load_semaphore a clusterId p =
     (case pv_querySemaphores p clusterId of
        Some (Semaphore sem) \<Rightarrow> (p, AtSend a sem)
      | Some OtherType \<Rightarrow> (p\<lparr>pv_querySemaphores := (pv_querySemaphores p)(clusterId := None)\<rparr>, AtStore a)
      | None \<Rightarrow> (p, AtStore a))"

definition store_semaphore :: "ProviderConfig \<Rightarrow> nat \<Rightarrow> string \<Rightarrow> provider \<Rightarrow> provider \<times> stage" where
  "store_semaphore cfg a clusterId p =
     (if pc_MaxConcurrentQueries cfg < 0 then (p, Crashed)
      else let newSem = length (pv_chans p); p = p\<lparr>pv_chans := pv_chans p @ [0]\<rparr>
           in case pv_querySemaphores p clusterId of
                Some (Semaphore sem) \<Rightarrow> (p, AtSend a sem)
              | Some OtherType \<Rightarrow> (p, Crashed)
              | None \<Rightarrow> (p\<lparr>pv_querySemaphores := (pv_querySemaphores p)(clusterId \<mapsto> Semaphore newSem)\<rparr>, AtSend a newSem))"

text \<open>A send or a receive blocks, \<open>None\<close>, on a full or an empty channel.\<close>

definition acquire_slot :: "ProviderConfig \<Rightarrow> nat \<Rightarrow> nat \<Rightarrow> provider \<Rightarrow> (provider \<times> stage) option" where
  "acquire_slot cfg a sem p =
     (if int (pv_chans p ! sem) < pc_MaxConcurrentQueries cfg
      then Some (p\<lparr>pv_chans := (pv_chans p)[sem := pv_chans p ! sem + 1]\<rparr>, AtQuery a) else None)"

text \<open>The loop over the attempts: the next attempt, or the error after the last.\<close>

definition next_attempt :: "ProviderConfig \<Rightarrow> string \<Rightarrow> nat \<Rightarrow> string option \<Rightarrow> stage" where
  "next_attempt cfg queryID a lastErr =
     (if int a < pc_MaxQueryRetries cfg then AtLoad a
      else AtReturn (Inl (''query '' @ queryID @ '' failed after '' @ show_int (pc_MaxQueryRetries cfg) @ '' attempts: '' @
        (case lastErr of None \<Rightarrow> ''%!w(<nil>)'' | Some e \<Rightarrow> e))))"

definition after_query :: "ProviderConfig \<Rightarrow> string \<Rightarrow> nat \<Rightarrow> answer \<Rightarrow> stage" where
  "after_query cfg queryID a answer =
     (case answer of Inr result \<Rightarrow> AtReturn (Inr result) | Inl e \<Rightarrow> next_attempt cfg queryID (Suc a) (Some e))"

definition load_for_release :: "ProviderConfig \<Rightarrow> string \<Rightarrow> nat \<Rightarrow> answer \<Rightarrow> string \<Rightarrow> provider \<Rightarrow> stage" where
  "load_for_release cfg queryID a answer clusterId p =
     (case pv_querySemaphores p clusterId of
        Some (Semaphore sem) \<Rightarrow> AtReceive a answer sem
      | _ \<Rightarrow> after_query cfg queryID a answer)"

definition release_slot :: "ProviderConfig \<Rightarrow> string \<Rightarrow> nat \<Rightarrow> answer \<Rightarrow> nat \<Rightarrow> provider \<Rightarrow> (provider \<times> stage) option" where
  "release_slot cfg queryID a answer sem p =
     (if 0 < pv_chans p ! sem
      then Some (p\<lparr>pv_chans := (pv_chans p)[sem := pv_chans p ! sem - 1]\<rparr>, after_query cfg queryID a answer) else None)"

text \<open>One step of a goroutine: the provider, its next stage and what it sends to the results.\<close>

definition go_step ::
    "ProviderConfig \<Rightarrow> prom \<Rightarrow> provider \<Rightarrow> goroutine \<Rightarrow> (provider \<times> stage \<times> (nat \<times> query_result) list) option" where
  "go_step cfg prom p g =
     (let k = gr_cluster g; q = gr_request g; quiet = map_option (\<lambda>(p, st). (p, st, []))
      in case gr_stage g of
           AtLoad a \<Rightarrow> quiet (Some (load_semaphore a k p))
         | AtStore a \<Rightarrow> quiet (Some (store_semaphore cfg a k p))
         | AtSend a sem \<Rightarrow> quiet (acquire_slot cfg a sem p)
         | AtQuery a \<Rightarrow> Some (p, AtRelease a (prom (rq_Query q) a), [])
         | AtRelease a answer \<Rightarrow> Some (p, load_for_release cfg (rq_QueryID q) a answer k p, [])
         | AtReceive a answer sem \<Rightarrow> quiet (release_slot cfg (rq_QueryID q) a answer sem p)
         | AtReturn r \<Rightarrow> Some (p, Ended, [(gr_batch g, (rq_QueryID q, r))])
         | Ended \<Rightarrow> None
         | Crashed \<Rightarrow> None)"

inductive slot_step :: "ProviderConfig \<Rightarrow> prom \<Rightarrow> slots \<Rightarrow> slots \<Rightarrow> bool" for cfg prom where
  run: "i < length (sl_goroutines s) \<Longrightarrow> go_step cfg prom (sl_provider s) (sl_goroutines s ! i) = Some (p, st, sent) \<Longrightarrow>
    slot_step cfg prom s \<lparr>sl_provider = p, sl_goroutines = (sl_goroutines s)[i := (sl_goroutines s ! i)\<lparr>gr_stage := st\<rparr>],
      sl_results = sl_results s @ sent\<rparr>"

inductive slot_run :: "ProviderConfig \<Rightarrow> prom \<Rightarrow> slots \<Rightarrow> nat \<Rightarrow> slots \<Rightarrow> bool" for cfg prom s0 where
  start: "slot_run cfg prom s0 0 s0"
| step: "slot_run cfg prom s0 n s \<Longrightarrow> slot_step cfg prom s s' \<Longrightarrow> slot_run cfg prom s0 (Suc n) s'"

inductive_cases slot_stepE: "slot_step cfg prom s s'"

text \<open>A request with the number of its batch, its cluster and its query.\<close>

definition start_goroutine :: "ProviderConfig \<Rightarrow> nat \<times> string \<times> ParallelQueryRequest \<Rightarrow> goroutine" where
  "start_goroutine cfg job =
     (let (batch, clusterId, request) = job
      in \<lparr>gr_batch = batch, gr_cluster = clusterId, gr_request = request,
          gr_stage = next_attempt cfg (rq_QueryID request) 0 None\<rparr>)"

definition start_slots :: "ProviderConfig \<Rightarrow> (nat \<times> string \<times> ParallelQueryRequest) list \<Rightarrow> slots" where
  "start_slots cfg jobs =
     \<lparr>sl_provider = \<lparr>pv_querySemaphores = Map.empty, pv_chans = []\<rparr>,
      sl_goroutines = map (start_goroutine cfg) jobs, sl_results = []\<rparr>"

section \<open>Invariant\<close>

fun attempt_of :: "stage \<Rightarrow> nat option" where
  "attempt_of (AtLoad a) = Some a"
| "attempt_of (AtStore a) = Some a"
| "attempt_of (AtSend a sem) = Some a"
| "attempt_of (AtQuery a) = Some a"
| "attempt_of (AtRelease a answer) = Some a"
| "attempt_of (AtReceive a answer sem) = Some a"
| "attempt_of (AtReturn r) = None"
| "attempt_of Ended = None"
| "attempt_of Crashed = None"

fun holding :: "stage \<Rightarrow> bool" where
  "holding (AtQuery a) = True"
| "holding (AtRelease a answer) = True"
| "holding (AtReceive a answer sem) = True"
| "holding _ = False"

text \<open>The semaphore a stage has read.\<close>

fun sem_of :: "stage \<Rightarrow> nat option" where
  "sem_of (AtSend a sem) = Some sem"
| "sem_of (AtReceive a answer sem) = Some sem"
| "sem_of _ = None"

text \<open>The result that a goroutine is going to return.\<close>

definition sequential :: "ProviderConfig \<Rightarrow> prom \<Rightarrow> ParallelQueryRequest \<Rightarrow> answer" where
  "sequential cfg prom q = fst (ExecuteQueryWithRetry cfg prom (rq_Query q) (rq_QueryID q))"

definition loop_from :: "ProviderConfig \<Rightarrow> prom \<Rightarrow> ParallelQueryRequest \<Rightarrow> nat \<Rightarrow> string option \<Rightarrow> answer" where
  "loop_from cfg prom q a e =
     fst (retry_loop cfg (rq_QueryID q) (prom (rq_Query q)) (nat (pc_MaxQueryRetries cfg) - a) a e)"

definition loop_after :: "ProviderConfig \<Rightarrow> prom \<Rightarrow> ParallelQueryRequest \<Rightarrow> nat \<Rightarrow> answer \<Rightarrow> answer" where
  "loop_after cfg prom q a answer =
     (case answer of Inr v \<Rightarrow> Inr v | Inl e \<Rightarrow> loop_from cfg prom q (Suc a) (Some e))"

fun final_result :: "ProviderConfig \<Rightarrow> prom \<Rightarrow> ParallelQueryRequest \<Rightarrow> stage \<Rightarrow> answer" where
  "final_result cfg prom q (AtLoad a) = loop_from cfg prom q a None"
| "final_result cfg prom q (AtStore a) = loop_from cfg prom q a None"
| "final_result cfg prom q (AtSend a sem) = loop_from cfg prom q a None"
| "final_result cfg prom q (AtQuery a) = loop_from cfg prom q a None"
| "final_result cfg prom q (AtRelease a answer) = loop_after cfg prom q a answer"
| "final_result cfg prom q (AtReceive a answer sem) = loop_after cfg prom q a answer"
| "final_result cfg prom q (AtReturn r) = r"
| "final_result cfg prom q Ended = sequential cfg prom q"
| "final_result cfg prom q Crashed = sequential cfg prom q"

definition goroutine_ok :: "ProviderConfig \<Rightarrow> prom \<Rightarrow> provider \<Rightarrow> goroutine \<Rightarrow> bool" where
  "goroutine_ok cfg prom p g \<longleftrightarrow> gr_stage g \<noteq> Crashed \<and>
     (\<forall>a. attempt_of (gr_stage g) = Some a \<longrightarrow> int a < pc_MaxQueryRetries cfg) \<and>
     (\<forall>sem. sem_of (gr_stage g) = Some sem \<longrightarrow> pv_querySemaphores p (gr_cluster g) = Some (Semaphore sem)) \<and>
     (holding (gr_stage g) \<longrightarrow> pv_querySemaphores p (gr_cluster g) \<noteq> None) \<and>
     final_result cfg prom (gr_request g) (gr_stage g) = sequential cfg prom (gr_request g)"

definition holders :: "string \<Rightarrow> goroutine list \<Rightarrow> nat" where
  "holders k gs = length (filter (\<lambda>g. gr_cluster g = k \<and> holding (gr_stage g)) gs)"

definition provider_ok :: "ProviderConfig \<Rightarrow> provider \<Rightarrow> goroutine list \<Rightarrow> bool" where
  "provider_ok cfg p gs \<longleftrightarrow>
     (\<forall>k. pv_querySemaphores p k \<noteq> Some OtherType) \<and>
     (\<forall>k sem. pv_querySemaphores p k = Some (Semaphore sem) \<longrightarrow> sem < length (pv_chans p) \<and>
        pv_chans p ! sem = holders k gs \<and> int (pv_chans p ! sem) \<le> pc_MaxConcurrentQueries cfg) \<and>
     (\<forall>k k' sem. pv_querySemaphores p k = Some (Semaphore sem) \<longrightarrow> pv_querySemaphores p k' = Some (Semaphore sem) \<longrightarrow> k = k')"

text \<open>What the goroutines that ended have sent.\<close>

definition sent_by :: "ProviderConfig \<Rightarrow> prom \<Rightarrow> goroutine \<Rightarrow> nat \<times> query_result" where
  "sent_by cfg prom g = (gr_batch g, (rq_QueryID (gr_request g), sequential cfg prom (gr_request g)))"

definition slots_ok :: "ProviderConfig \<Rightarrow> prom \<Rightarrow> slots \<Rightarrow> bool" where
  "slots_ok cfg prom s \<longleftrightarrow> provider_ok cfg (sl_provider s) (sl_goroutines s) \<and>
     (\<forall>g \<in> set (sl_goroutines s). goroutine_ok cfg prom (sl_provider s) g) \<and>
     mset (sl_results s) = mset (map (sent_by cfg prom) (filter (\<lambda>g. gr_stage g = Ended) (sl_goroutines s)))"

subsection \<open>The result\<close>

lemma loop_from_attempt:
  assumes "int a < pc_MaxQueryRetries cfg"
  shows "loop_from cfg prom q a e = loop_after cfg prom q a (prom (rq_Query q) a)"
proof -
  have "nat (pc_MaxQueryRetries cfg) - a = Suc (nat (pc_MaxQueryRetries cfg) - Suc a)" using assms by simp
  then show ?thesis by (simp add: loop_from_def loop_after_def Let_def split: sum.split prod.split)
qed

lemma final_result_next: "final_result cfg prom q (next_attempt cfg (rq_QueryID q) a e) = loop_from cfg prom q a e"
proof (cases "int a < pc_MaxQueryRetries cfg")
  case True
  then show ?thesis by (simp add: next_attempt_def loop_from_attempt)
next
  case False
  then have "nat (pc_MaxQueryRetries cfg) - a = 0" by simp
  then show ?thesis using False by (simp add: next_attempt_def loop_from_def)
qed

lemma final_result_after: "final_result cfg prom q (after_query cfg (rq_QueryID q) a answer) = loop_after cfg prom q a answer"
  by (simp add: after_query_def loop_after_def final_result_next split: sum.split)

lemma next_attempt_stage:
  "attempt_of (next_attempt cfg i a e) = Some b \<Longrightarrow> int b < pc_MaxQueryRetries cfg" "\<not> holding (next_attempt cfg i a e)"
  "sem_of (next_attempt cfg i a e) = None" "next_attempt cfg i a e \<noteq> Crashed" "next_attempt cfg i a e \<noteq> Ended"
  by (auto simp: next_attempt_def split: if_splits)

lemma after_query_stage:
  "attempt_of (after_query cfg i a r) = Some b \<Longrightarrow> int b < pc_MaxQueryRetries cfg" "\<not> holding (after_query cfg i a r)"
  "sem_of (after_query cfg i a r) = None" "after_query cfg i a r \<noteq> Crashed" "after_query cfg i a r \<noteq> Ended"
  by (auto simp: after_query_def next_attempt_stage split: sum.splits)

subsection \<open>Steps\<close>

text \<open>A step changes one goroutine of the list.\<close>

lemma split_at:
  assumes "i < length xs"
  obtains ys zs where "xs = ys @ xs ! i # zs" "\<And>y. xs[i := y] = ys @ y # zs"
  using that id_take_nth_drop [OF assms] upd_conv_take_nth_drop [OF assms] by metis

lemma holders_split: "holders k (ys @ g # zs) =
    holders k ys + (if gr_cluster g = k \<and> holding (gr_stage g) then 1 else 0) + holders k zs"
  by (simp add: holders_def)

lemma go_step_sems:
  assumes "go_step cfg prom p g = Some (p', st, sent)" "provider_ok cfg p gs"
  shows "pv_querySemaphores p \<subseteq>\<^sub>m pv_querySemaphores p'"
  using assms by (cases "gr_stage g")
    (auto simp: go_step_def Let_def provider_ok_def load_semaphore_def store_semaphore_def acquire_slot_def release_slot_def
      map_le_def split: option.splits sem_value.splits if_splits)

lemma go_step_goroutine:
  assumes s: "go_step cfg prom p g = Some (p', st, sent)" and p: "provider_ok cfg p (ys @ g # zs)"
    and g: "goroutine_ok cfg prom p g" and pos: "0 < pc_MaxConcurrentQueries cfg"
  shows "goroutine_ok cfg prom p' (g\<lparr>gr_stage := st\<rparr>)"
  using s p g pos
  by (cases "gr_stage g")
    (auto simp: go_step_def Let_def goroutine_ok_def provider_ok_def load_semaphore_def store_semaphore_def acquire_slot_def
      release_slot_def load_for_release_def loop_from_attempt final_result_after after_query_stage
      split: option.splits sem_value.splits if_splits dest: after_query_stage(1))

lemma provider_ok_same:
  assumes "provider_ok cfg p (ys @ g # zs)" "holding st = holding (gr_stage g)"
  shows "provider_ok cfg p (ys @ g\<lparr>gr_stage := st\<rparr> # zs)"
proof -
  have h: "holders k (ys @ g\<lparr>gr_stage := st\<rparr> # zs) = holders k (ys @ g # zs)" for k
    using assms(2) by (simp add: holders_split)
  show ?thesis using assms(1) unfolding provider_ok_def h .
qed

lemma provider_ok_count:
  assumes p: "provider_ok cfg p (ys @ g # zs)" and c: "pv_querySemaphores p (gr_cluster g) = Some (Semaphore c)"
    and n: "n + of_bool (holding (gr_stage g)) = pv_chans p ! c + of_bool (holding st)" "int n \<le> pc_MaxConcurrentQueries cfg"
  shows "provider_ok cfg (p\<lparr>pv_chans := (pv_chans p)[c := n]\<rparr>) (ys @ g\<lparr>gr_stage := st\<rparr> # zs)"
proof -
  have old: "sem < length (pv_chans p)" "pv_chans p ! sem = holders k (ys @ g # zs)"
    "int (pv_chans p ! sem) \<le> pc_MaxConcurrentQueries cfg" if "pv_querySemaphores p k = Some (Semaphore sem)" for k sem
    using p that unfolding provider_ok_def by blast+
  have inj: "k = k'" if "pv_querySemaphores p k = Some (Semaphore sem)" "pv_querySemaphores p k' = Some (Semaphore sem)" for k k' sem
    using p that unfolding provider_ok_def by blast
  have new: "sem < length (pv_chans p) \<and> (pv_chans p)[c := n] ! sem = holders k (ys @ g\<lparr>gr_stage := st\<rparr> # zs) \<and>
      int ((pv_chans p)[c := n] ! sem) \<le> pc_MaxConcurrentQueries cfg"
    if k: "pv_querySemaphores p k = Some (Semaphore sem)" for k sem
  proof (cases "k = gr_cluster g")
    case True
    then have "sem = c" using k c by simp
    then show ?thesis using n old(1,2) [OF k] True by (auto simp: holders_split split: if_splits)
  next
    case False
    then have "sem \<noteq> c" using inj k c by blast
    then show ?thesis using old [OF k] False by (simp add: holders_split)
  qed
  have "\<forall>k. pv_querySemaphores p k \<noteq> Some OtherType" using p by (simp add: provider_ok_def)
  moreover have "pv_querySemaphores (p\<lparr>pv_chans := (pv_chans p)[c := n]\<rparr>) = pv_querySemaphores p"
    "pv_chans (p\<lparr>pv_chans := (pv_chans p)[c := n]\<rparr>) = (pv_chans p)[c := n]" by simp_all
  ultimately show ?thesis unfolding provider_ok_def using new inj by (simp only: length_list_update) blast
qed

lemma go_step_provider:
  assumes s: "go_step cfg prom p g = Some (p', st, sent)" and p: "provider_ok cfg p (ys @ g # zs)"
    and g: "goroutine_ok cfg prom p g" and hs: "\<forall>h \<in> set ys \<union> set zs. goroutine_ok cfg prom p h"
    and pos: "0 < pc_MaxConcurrentQueries cfg"
  shows "provider_ok cfg p' (ys @ g\<lparr>gr_stage := st\<rparr> # zs)"
proof -
  have none: "holders (gr_cluster g) ys = 0" "holders (gr_cluster g) zs = 0"
    if "pv_querySemaphores p (gr_cluster g) = None"
    using hs that by (auto simp: holders_def filter_empty_conv goroutine_ok_def)
  have sem: "sem < length (pv_chans p)" "sem < Suc (length (pv_chans p))"
    "pv_chans p ! sem = holders k ys + (if gr_cluster g = k \<and> holding (gr_stage g) then 1 else 0) + holders k zs"
    "int (pv_chans p ! sem) \<le> pc_MaxConcurrentQueries cfg" if "pv_querySemaphores p k = Some (Semaphore sem)" for k sem
  proof -
    have "sem < length (pv_chans p) \<and> pv_chans p ! sem = holders k (ys @ g # zs) \<and>
        int (pv_chans p ! sem) \<le> pc_MaxConcurrentQueries cfg"
      using p that unfolding provider_ok_def by blast
    then show "sem < length (pv_chans p)" "sem < Suc (length (pv_chans p))"
      "pv_chans p ! sem = holders k ys + (if gr_cluster g = k \<and> holding (gr_stage g) then 1 else 0) + holders k zs"
      "int (pv_chans p ! sem) \<le> pc_MaxConcurrentQueries cfg"
      unfolding holders_split by simp_all
  qed
  have inj: "k = k'" if "pv_querySemaphores p k = Some (Semaphore sem)" "pv_querySemaphores p k' = Some (Semaphore sem)" for k k' sem
    using p that unfolding provider_ok_def by blast
  have type: "pv_querySemaphores p k \<noteq> Some OtherType" for k using p by (simp add: provider_ok_def)
  show ?thesis
  proof (cases "gr_stage g")
    case (AtStore a)
    show ?thesis
    proof (cases "pv_querySemaphores p (gr_cluster g)")
      case None
      then have "p' = p\<lparr>pv_chans := pv_chans p @ [0],
          pv_querySemaphores := (pv_querySemaphores p)(gr_cluster g \<mapsto> Semaphore (length (pv_chans p)))\<rparr>"
        "st = AtSend a (length (pv_chans p))"
        using s pos AtStore by (auto simp: go_step_def store_semaphore_def Let_def)
      then show ?thesis
        using sem inj type none [OF None] pos AtStore unfolding provider_ok_def
        by (auto simp: holders_split nth_append)
    next
      case (Some v)
      then obtain c where "v = Semaphore c" using type by (cases v) auto
      then have "p' = p\<lparr>pv_chans := pv_chans p @ [0]\<rparr>" "st = AtSend a c"
        using s pos AtStore Some by (auto simp: go_step_def store_semaphore_def Let_def)
      then show ?thesis
        using sem inj type AtStore unfolding provider_ok_def by (auto simp: holders_split nth_append)
    qed
  next
    case (AtSend a c)
    have c: "pv_querySemaphores p (gr_cluster g) = Some (Semaphore c)" using g AtSend by (simp add: goroutine_ok_def)
    have "p' = p\<lparr>pv_chans := (pv_chans p)[c := pv_chans p ! c + 1]\<rparr>" "st = AtQuery a"
      "int (pv_chans p ! c) < pc_MaxConcurrentQueries cfg"
      using s AtSend by (auto simp: go_step_def acquire_slot_def split: if_splits)
    then show ?thesis using provider_ok_count [OF p c, of "pv_chans p ! c + 1" "AtQuery a"] AtSend by simp
  next
    case (AtReceive a answer c)
    have c: "pv_querySemaphores p (gr_cluster g) = Some (Semaphore c)" using g AtReceive by (simp add: goroutine_ok_def)
    have "p' = p\<lparr>pv_chans := (pv_chans p)[c := pv_chans p ! c - 1]\<rparr>" "\<not> holding st" "0 < pv_chans p ! c"
      using s AtReceive by (auto simp: go_step_def release_slot_def after_query_stage split: if_splits)
    moreover have "int (pv_chans p ! c) \<le> pc_MaxConcurrentQueries cfg" by (rule sem(4) [OF c])
    ultimately show ?thesis using provider_ok_count [OF p c, of "pv_chans p ! c - 1" st] AtReceive by simp
  next
    case (AtRelease a answer)
    obtain v where v: "pv_querySemaphores p (gr_cluster g) = Some v" using g AtRelease by (auto simp: goroutine_ok_def)
    then obtain c where "v = Semaphore c" using type by (cases v) auto
    then have "p' = p" "holding st" using s AtRelease v by (auto simp: go_step_def load_for_release_def)
    then show ?thesis using provider_ok_same [OF p] AtRelease by simp
  next
    case (AtLoad a)
    have "p' = p" "\<not> holding st" using s type AtLoad
      by (auto simp: go_step_def Let_def load_semaphore_def split: option.splits sem_value.splits)
    then show ?thesis using provider_ok_same [OF p] AtLoad by simp
  qed (use s provider_ok_same [OF p] in \<open>auto simp: go_step_def\<close>)
qed

lemma go_step_sent:
  assumes "go_step cfg prom p g = Some (p', st, sent)" "goroutine_ok cfg prom p g"
  shows "gr_stage g \<noteq> Ended" "sent = (if st = Ended then [sent_by cfg prom g] else [])"
  using assms by (cases "gr_stage g"; force simp: go_step_def Let_def sent_by_def goroutine_ok_def load_semaphore_def
      store_semaphore_def acquire_slot_def release_slot_def load_for_release_def after_query_stage
      split: option.splits sem_value.splits if_splits)+

lemma goroutine_ok_mono:
  assumes "goroutine_ok cfg prom p h" "pv_querySemaphores p \<subseteq>\<^sub>m pv_querySemaphores p'"
  shows "goroutine_ok cfg prom p' h"
  using assms unfolding goroutine_ok_def map_le_def by (metis domI option.exhaust)

lemma slots_ok_step:
  assumes "slots_ok cfg prom s" "slot_step cfg prom s s'" "0 < pc_MaxConcurrentQueries cfg"
  shows "slots_ok cfg prom s'"
  using assms(2)
proof (cases rule: slot_step.cases)
  case (run i p' st sent)
  define g where "g = sl_goroutines s ! i"
  obtain ys zs where gs: "sl_goroutines s = ys @ g # zs" "\<And>y. (sl_goroutines s)[i := y] = ys @ y # zs"
    using split_at [OF run(2)] unfolding g_def by blast
  have st: "go_step cfg prom (sl_provider s) g = Some (p', st, sent)" using run(3) by (simp add: g_def)
  have ok: "provider_ok cfg (sl_provider s) (ys @ g # zs)" "goroutine_ok cfg prom (sl_provider s) g"
    "\<forall>h \<in> set ys \<union> set zs. goroutine_ok cfg prom (sl_provider s) h"
    "mset (sl_results s) = mset (map (sent_by cfg prom) (filter (\<lambda>g. gr_stage g = Ended) (ys @ g # zs)))"
    using assms(1) by (auto simp: slots_ok_def gs)
  note le = go_step_sems [OF st ok(1)]
  note sent = go_step_sent [OF st ok(2)]
  have "sent_by cfg prom (g\<lparr>gr_stage := st\<rparr>) = sent_by cfg prom g" by (simp add: sent_by_def)
  then show ?thesis
    using go_step_provider [OF st ok(1-3) assms(3)] go_step_goroutine [OF st ok(1,2) assms(3)] ok(3,4) sent
      goroutine_ok_mono [OF _ le]
    unfolding run(1) slots_ok_def g_def [symmetric] gs(2) by auto
qed

section \<open>Every run ends\<close>

text \<open>How many steps a goroutine can still take.\<close>

fun rank :: "ProviderConfig \<Rightarrow> stage \<Rightarrow> nat" where
  "rank cfg (AtLoad a) = 6 * (nat (pc_MaxQueryRetries cfg) - a) + 1"
| "rank cfg (AtStore a) = 6 * (nat (pc_MaxQueryRetries cfg) - a)"
| "rank cfg (AtSend a sem) = 6 * (nat (pc_MaxQueryRetries cfg) - a) - 1"
| "rank cfg (AtQuery a) = 6 * (nat (pc_MaxQueryRetries cfg) - a) - 2"
| "rank cfg (AtRelease a answer) = 6 * (nat (pc_MaxQueryRetries cfg) - a) - 3"
| "rank cfg (AtReceive a answer sem) = 6 * (nat (pc_MaxQueryRetries cfg) - a) - 4"
| "rank cfg (AtReturn r) = 1"
| "rank cfg Ended = 0"
| "rank cfg Crashed = 0"

definition ranks :: "ProviderConfig \<Rightarrow> goroutine list \<Rightarrow> nat" where
  "ranks cfg gs = sum_list (map (\<lambda>g. rank cfg (gr_stage g)) gs)"

lemma rank_next: "rank cfg (next_attempt cfg i a e) \<le> 6 * (nat (pc_MaxQueryRetries cfg) - a) + 1"
  by (simp add: next_attempt_def)

lemma rank_after:
  assumes "int a < pc_MaxQueryRetries cfg"
  shows "rank cfg (after_query cfg i a r) < 6 * (nat (pc_MaxQueryRetries cfg) - a) - 4"
proof -
  have "nat (pc_MaxQueryRetries cfg) - a = Suc (nat (pc_MaxQueryRetries cfg) - Suc a)" using assms by simp
  then show ?thesis using rank_next [of cfg i "Suc a"]
    by (auto simp: after_query_def split: sum.split intro: le_less_trans)
qed

lemma go_step_rank:
  assumes "go_step cfg prom p g = Some (p', st, sent)" "goroutine_ok cfg prom p g"
  shows "rank cfg st < rank cfg (gr_stage g)"
proof (cases "attempt_of (gr_stage g)")
  case None
  then show ?thesis using assms by (cases "gr_stage g") (auto simp: go_step_def)
next
  case (Some a)
  then have a: "int a < pc_MaxQueryRetries cfg" using assms(2) by (simp add: goroutine_ok_def)
  then have "0 < nat (pc_MaxQueryRetries cfg) - a" by simp
  then show ?thesis using assms Some a rank_after [OF a, of "rq_QueryID (gr_request g)"]
    by (cases "gr_stage g")
      (auto simp: go_step_def Let_def load_semaphore_def store_semaphore_def acquire_slot_def release_slot_def
        load_for_release_def split: option.splits sem_value.splits if_splits
        intro: less_trans [OF rank_after [OF a]])
qed

lemma slot_step_rank:
  assumes "slots_ok cfg prom s" "slot_step cfg prom s s'"
  shows "ranks cfg (sl_goroutines s') < ranks cfg (sl_goroutines s)"
  using assms(2)
proof (cases rule: slot_step.cases)
  case (run i p' st sent)
  obtain ys zs where gs: "sl_goroutines s = ys @ sl_goroutines s ! i # zs" "\<And>y. (sl_goroutines s)[i := y] = ys @ y # zs"
    using split_at [OF run(2)] by blast
  have "goroutine_ok cfg prom (sl_provider s) (sl_goroutines s ! i)" using assms(1) run(2) by (simp add: slots_ok_def)
  from go_step_rank [OF run(3) this] show ?thesis
    unfolding run(1) by (subst (2) gs(1)) (simp add: gs(2) ranks_def)
qed

section \<open>No run is stuck\<close>

lemma run_goroutine:
  assumes "g \<in> set (sl_goroutines s)" "go_step cfg prom (sl_provider s) g \<noteq> None"
  shows "\<exists>s'. slot_step cfg prom s s'"
proof -
  obtain i where i: "i < length (sl_goroutines s)" "sl_goroutines s ! i = g" using assms(1) by (meson in_set_conv_nth)
  obtain p st sent where "go_step cfg prom (sl_provider s) g = Some (p, st, sent)" using assms(2) by (cases "go_step cfg prom (sl_provider s) g") auto
  from slot_step.run [OF i(1) this [folded i(2)]] show ?thesis ..
qed

text \<open>A goroutine that has a slot can go on; one that waits for a slot waits for one that has it.\<close>

lemma holder_runs:
  assumes "slots_ok cfg prom s" "h \<in> set (sl_goroutines s)" "holding (gr_stage h)"
  shows "go_step cfg prom (sl_provider s) h \<noteq> None"
proof (cases "gr_stage h")
  case (AtReceive a answer sem)
  have "pv_querySemaphores (sl_provider s) (gr_cluster h) = Some (Semaphore sem)"
    using assms AtReceive by (auto simp: slots_ok_def goroutine_ok_def)
  then have "pv_chans (sl_provider s) ! sem = holders (gr_cluster h) (sl_goroutines s)"
    using assms(1) by (simp add: slots_ok_def provider_ok_def)
  moreover have "0 < holders (gr_cluster h) (sl_goroutines s)" using assms(2,3) by (auto simp: holders_def filter_empty_conv)
  ultimately show ?thesis using AtReceive by (simp add: go_step_def Let_def release_slot_def)
qed (use assms(3) in \<open>simp_all add: go_step_def Let_def\<close>)

lemma slots_progress:
  assumes ok: "slots_ok cfg prom s" and pos: "0 < pc_MaxConcurrentQueries cfg"
    and g: "g \<in> set (sl_goroutines s)" "gr_stage g \<noteq> Ended"
  shows "\<exists>s'. slot_step cfg prom s s'"
proof (cases "go_step cfg prom (sl_provider s) g = None")
  case True
  have gok: "goroutine_ok cfg prom (sl_provider s) g" using ok g(1) by (simp add: slots_ok_def)
  then have nh: "\<not> holding (gr_stage g)" using holder_runs [OF ok g(1)] True by blast
  then obtain a sem where st: "gr_stage g = AtSend a sem"
    using True gok g(2) by (cases "gr_stage g") (simp_all add: go_step_def Let_def goroutine_ok_def)
  then have k: "pv_querySemaphores (sl_provider s) (gr_cluster g) = Some (Semaphore sem)" using gok by (simp add: goroutine_ok_def)
  have "0 < pv_chans (sl_provider s) ! sem"
    using True pos st by (simp add: go_step_def Let_def acquire_slot_def split: if_splits)
  then have "0 < holders (gr_cluster g) (sl_goroutines s)" using ok k by (simp add: slots_ok_def provider_ok_def)
  then obtain h where "h \<in> set (sl_goroutines s)" "holding (gr_stage h)" by (auto simp: holders_def filter_empty_conv)
  then show ?thesis using run_goroutine holder_runs [OF ok] by blast
qed (use run_goroutine g in blast)

section \<open>The queries of the program\<close>

lemma start_ok: "slots_ok cfg prom (start_slots cfg jobs)"
proof -
  have 1: "goroutine_ok cfg prom p (start_goroutine cfg job)" for p job
    by (cases job) (simp add: start_goroutine_def goroutine_ok_def next_attempt_stage final_result_next sequential_def
        ExecuteQueryWithRetry_def loop_from_def)
  have 2: "gr_stage (start_goroutine cfg job) \<noteq> Ended" for job
    by (cases job) (simp add: start_goroutine_def next_attempt_stage)
  have "filter (\<lambda>g. gr_stage g = Ended) (map (start_goroutine cfg) jobs) = []"
    using 2 by (auto simp: filter_empty_conv)
  then show ?thesis using 1 by (simp add: slots_ok_def start_slots_def provider_ok_def)
qed

lemma slot_run_ok:
  assumes "slot_run cfg prom (start_slots cfg jobs) n s" "0 < pc_MaxConcurrentQueries cfg"
  shows "slots_ok cfg prom s \<and> n + ranks cfg (sl_goroutines s) \<le> ranks cfg (sl_goroutines (start_slots cfg jobs)) \<and>
    map (sent_by cfg prom) (sl_goroutines s) = map (\<lambda>(b, k, q). (b, (rq_QueryID q, sequential cfg prom q))) jobs"
  using assms(1)
proof (induction rule: slot_run.induct)
  case start
  have "sent_by cfg prom (start_goroutine cfg job) = (case job of (b, k, q) \<Rightarrow> (b, (rq_QueryID q, sequential cfg prom q)))" for job
    by (cases job) (simp add: sent_by_def start_goroutine_def)
  then show ?case using start_ok by (simp add: start_slots_def)
next
  case (step n s s')
  then have ok: "slots_ok cfg prom s" by blast
  have "map (sent_by cfg prom) (sl_goroutines s') = map (sent_by cfg prom) (sl_goroutines s)"
    using step.hyps(2) by (cases rule: slot_step.cases)
      (auto simp: map_update sent_by_def intro!: list_update_same_conv [THEN iffD2])
  then show ?case
    using step.IH slots_ok_step [OF ok step.hyps(2) assms(2)] slot_step_rank [OF ok step.hyps(2)] by auto
qed

text \<open>The results channel of a batch.\<close>

definition received :: "nat \<Rightarrow> slots \<Rightarrow> query_result list" where
  "received b s = map snd (filter (\<lambda>r. fst r = b) (sl_results s))"

definition querying :: "string \<Rightarrow> slots \<Rightarrow> nat" where
  "querying k s = length (filter (\<lambda>g. gr_cluster g = k \<and> (\<exists>a. gr_stage g = AtQuery a)) (sl_goroutines s))"

lemma querying_le:
  assumes "slots_ok cfg prom s" "0 < pc_MaxConcurrentQueries cfg"
  shows "int (querying k s) \<le> pc_MaxConcurrentQueries cfg"
proof -
  have "length (filter (\<lambda>g. gr_cluster g = k \<and> (\<exists>a. gr_stage g = AtQuery a)) gs) \<le> holders k gs" for gs
    unfolding holders_def by (induction gs) auto
  then have "querying k s \<le> holders k (sl_goroutines s)" by (simp add: querying_def)
  moreover have "int (holders k (sl_goroutines s)) \<le> pc_MaxConcurrentQueries cfg"
  proof (cases "holders k (sl_goroutines s) = 0")
    case False
    then obtain g where "g \<in> set (sl_goroutines s)" "gr_cluster g = k" "holding (gr_stage g)"
      by (auto simp: holders_def filter_empty_conv)
    then obtain v where v: "pv_querySemaphores (sl_provider s) k = Some v"
      using assms(1) by (auto simp: slots_ok_def goroutine_ok_def)
    then obtain c where "v = Semaphore c" using assms(1) by (cases v) (auto simp: slots_ok_def provider_ok_def)
    then have "pv_chans (sl_provider s) ! c = holders k (sl_goroutines s) \<and> int (pv_chans (sl_provider s) ! c) \<le> pc_MaxConcurrentQueries cfg"
      using assms(1) v unfolding slots_ok_def provider_ok_def by blast
    then show ?thesis by simp
  qed (use assms(2) in simp)
  ultimately show ?thesis by linarith
qed

lemma ended_results:
  assumes ok: "slots_ok cfg prom s" and e: "\<forall>g \<in> set (sl_goroutines s). gr_stage g = Ended"
    and jobs: "map (sent_by cfg prom) (sl_goroutines s) = map (\<lambda>(b, k, q). (b, (rq_QueryID q, sequential cfg prom q))) jobs"
  shows "mset (received b s) = mset (map (\<lambda>(b, k, q). (rq_QueryID q, sequential cfg prom q)) (filter (\<lambda>job. fst job = b) jobs))"
proof -
  have "filter (\<lambda>g. gr_stage g = Ended) (sl_goroutines s) = sl_goroutines s" using e by (simp add: filter_id_conv)
  then have "mset (sl_results s) = mset (map (\<lambda>(b, k, q). (b, (rq_QueryID q, sequential cfg prom q))) jobs)"
    using ok by (simp add: slots_ok_def jobs)
  then have "mset (received b s) = image_mset snd (filter_mset (\<lambda>r. fst r = b)
      (mset (map (\<lambda>(b, k, q). (b, (rq_QueryID q, sequential cfg prom q))) jobs)))"
    by (simp add: received_def)
  also have "\<dots> = mset (map (\<lambda>(b, k, q). (rq_QueryID q, sequential cfg prom q)) (filter (\<lambda>job. fst job = b) jobs))"
    by (induction jobs) auto
  finally show ?thesis .
qed

text \<open>C38. However the goroutines that query Prometheus interleave, at most the configured number of queries of a
  cluster run at once, no goroutine panics, and no run is stuck: it can go on until every query has returned, after a
  bounded number of steps. Then each batch has received the result of each of its queries once, and it is
  the one that the query has when it runs alone.\<close>

theorem parallel_queries_complete:
  assumes run: "slot_run cfg prom (start_slots cfg jobs) n s" and pos: "0 < pc_MaxConcurrentQueries cfg"
  shows "int (querying k s) \<le> pc_MaxConcurrentQueries cfg \<and>
    (\<forall>g \<in> set (sl_goroutines s). gr_stage g \<noteq> Crashed) \<and>
    n \<le> length jobs * (6 * nat (pc_MaxQueryRetries cfg) + 1) \<and>
    ((\<exists>g \<in> set (sl_goroutines s). gr_stage g \<noteq> Ended) \<longrightarrow> (\<exists>s'. slot_step cfg prom s s')) \<and>
    ((\<forall>g \<in> set (sl_goroutines s). gr_stage g = Ended) \<longrightarrow>
      mset (received b s) = mset (map (\<lambda>(b, k, q). (rq_QueryID q, fst (ExecuteQueryWithRetry cfg prom (rq_Query q) (rq_QueryID q))))
        (filter (\<lambda>job. fst job = b) jobs)))"
proof -
  note r = slot_run_ok [OF run pos]
  then have ok: "slots_ok cfg prom s" by blast
  have "rank cfg (gr_stage (start_goroutine cfg job)) \<le> 6 * nat (pc_MaxQueryRetries cfg) + 1" for job
    using rank_next [of cfg _ 0] by (cases job) (simp add: start_goroutine_def)
  then have "sum_list (map (\<lambda>job. rank cfg (gr_stage (start_goroutine cfg job))) jobs) \<le>
      sum_list (map (\<lambda>job. 6 * nat (pc_MaxQueryRetries cfg) + 1) jobs)"
    by (intro sum_list_mono)
  then have "ranks cfg (sl_goroutines (start_slots cfg jobs)) \<le> length jobs * (6 * nat (pc_MaxQueryRetries cfg) + 1)"
    by (simp add: ranks_def start_slots_def comp_def sum_list_triv)
  then have n: "n \<le> length jobs * (6 * nat (pc_MaxQueryRetries cfg) + 1)" using r by linarith
  have crash: "\<forall>g \<in> set (sl_goroutines s). gr_stage g \<noteq> Crashed" using ok by (simp add: slots_ok_def goroutine_ok_def)
  show ?thesis
    using querying_le [OF ok pos] crash n slots_progress [OF ok pos] ended_results [OF ok, of jobs b] r
    unfolding sequential_def by blast
qed

definition sample_cfg :: ProviderConfig where
  "sample_cfg = \<lparr>pc_MaxQueryRetries = 1, pc_RetryBackoffBase = 5, pc_MaxConcurrentQueries = 1\<rparr>"

lemma parallel_queries_complete_witness:
  "\<exists>s. slot_run sample_cfg (\<lambda>q a. Inl ''down'') (start_slots sample_cfg
      [(0, ''c'', \<lparr>rq_QueryID = ''a'', rq_Query = ''up''\<rparr>), (0, ''c'', \<lparr>rq_QueryID = ''b'', rq_Query = ''up''\<rparr>)]) 1 s \<and>
    querying ''c'' s \<le> 1 \<and> (\<exists>s'. slot_step sample_cfg (\<lambda>q a. Inl ''down'') s s')"
proof -
  let ?jobs = "[(0::nat, ''c'', \<lparr>rq_QueryID = ''a'', rq_Query = ''up''\<rparr>), (0, ''c'', \<lparr>rq_QueryID = ''b'', rq_Query = ''up''\<rparr>)]"
  let ?prom = "\<lambda>q a. Inl ''down''"
  let ?s = "start_slots sample_cfg ?jobs"
  have "go_step sample_cfg ?prom (sl_provider ?s) (sl_goroutines ?s ! 0) = Some (sl_provider ?s, AtStore 0, [])"
    by (simp add: start_slots_def start_goroutine_def next_attempt_def sample_cfg_def go_step_def load_semaphore_def)
  from slot_step.run [OF _ this]
  have "slot_step sample_cfg ?prom ?s (?s\<lparr>sl_goroutines := (sl_goroutines ?s)[0 := (sl_goroutines ?s ! 0)\<lparr>gr_stage := AtStore 0\<rparr>]\<rparr>)"
    by (simp add: start_slots_def)
  from slot_run.step [OF slot_run.start this]
  have run: "slot_run sample_cfg ?prom ?s 1
    (?s\<lparr>sl_goroutines := (sl_goroutines ?s)[0 := (sl_goroutines ?s ! 0)\<lparr>gr_stage := AtStore 0\<rparr>]\<rparr>)" by simp
  have "0 < pc_MaxConcurrentQueries sample_cfg" by (simp add: sample_cfg_def)
  from parallel_queries_complete [OF run this, of "''c''"] run show ?thesis
    by (auto simp: sample_cfg_def start_slots_def)
qed

end
