(* ===== verification/Client.thy ===== *)
theory Client
  imports WebhookSpec Access
begin

text \<open>
  The client of the webhook for the controller, \<^verbatim>\<open>pkg/client/recommenderserviceclient.go\<close>, and an
  admission from one end to the other: the webhook's handler, the request over HTTP, the routes and
  guards of the controller, its handler, and the way back. The transport is a parameter: whether a
  request can be built, what the other side answers, and how documents are printed and parsed.
\<close>

section \<open>The client\<close>

record ClientConfig =
  cc_Host :: string
  cc_Username :: string
  cc_Password :: string
  cc_ClusterToken :: string
  cc_Timeout :: go_time

record RecommenderServiceClient =
  rc_host :: string
  rc_timeout :: go_time
  rc_basicUser :: string
  rc_basicPassword :: string
  rc_clusterToken :: string

definition TrimSuffix :: "string \<Rightarrow> string \<Rightarrow> string" where
  "TrimSuffix s sfx = (if HasSuffix s sfx then take (length s - length sfx) s else s)"

definition NewRecommenderServiceClient :: "ClientConfig \<Rightarrow> RecommenderServiceClient" where
  "NewRecommenderServiceClient config =
     \<lparr>rc_host = TrimSuffix (cc_Host config) ''/'',
      rc_timeout = (if cc_Timeout config = 0 then 30 * 10 ^ 9 else cc_Timeout config),
      rc_basicUser = cc_Username config, rc_basicPassword = cc_Password config, rc_clusterToken = cc_ClusterToken config\<rparr>"

definition NewRecommenderServiceClientWithClusterToken :: "string \<Rightarrow> string \<Rightarrow> RecommenderServiceClient" where
  "NewRecommenderServiceClientWithClusterToken host clusterToken =
     NewRecommenderServiceClient \<lparr>cc_Host = host, cc_Username = '''', cc_Password = '''', cc_ClusterToken = clusterToken,
       cc_Timeout = 0\<rparr>"

record http_request =
  hq_Method :: string
  hq_URL :: string
  hq_Headers :: "(string \<times> string) list"
  hq_Body :: "string option"

text \<open>The body is what \<^verbatim>\<open>io.ReadAll\<close> returns; closing it may fail as well.\<close>

record http_response =
  hs_StatusCode :: int
  hs_Body :: "string + string"
  hs_CloseFails :: bool

record Transport =
  tp_NewRequest :: "string \<Rightarrow> string \<Rightarrow> string option"
  tp_Do :: "http_request \<Rightarrow> string + http_response"
  tp_Marshal :: "json \<Rightarrow> string"
  tp_Unmarshal :: "string \<Rightarrow> string + json"

text \<open>The body is absent, cannot be marshalled, or is a document; \<open>result\<close> decodes the answer, or is nil. Next to the
  result is whether the variable \<^verbatim>\<open>err\<close> that the deferred function counts is set at the end: not
  for an error of a nested scope, and after a response it is the error of closing the body.\<close>

definition makeRequest ::
    "Transport \<Rightarrow> RecommenderServiceClient \<Rightarrow> string \<Rightarrow> string \<Rightarrow> (string + json) option \<Rightarrow> (json \<Rightarrow> string + 'r) option
     \<Rightarrow> (string + 'r option) \<times> bool" where
  "makeRequest t c meth endpoint body result =
     (case body of
        Some (Inl e) \<Rightarrow> (Inl (''failed to marshal request body: '' @ e), False)
      | _ \<Rightarrow>
         (let reqBody = (case body of Some (Inr j) \<Rightarrow> Some (tp_Marshal t j) | _ \<Rightarrow> None);
              fullURL = rc_host c @ endpoint
          in case tp_NewRequest t meth fullURL of
               Some e \<Rightarrow> (Inl (''failed to create request: '' @ e), True)
             | None \<Rightarrow>
                (let headers = (if body \<noteq> None then [(''Content-Type'', ''application/json'')] else []) @
                       (if rc_basicUser c \<noteq> '''' \<or> rc_basicPassword c \<noteq> ''''
                        then [(''Authorization'', ''Basic '' @ EncodeToString (rc_basicUser c @ '':'' @ rc_basicPassword c))]
                        else if rc_clusterToken c \<noteq> '''' then [(''x-cluster-token'', rc_clusterToken c)] else [])
                 in case tp_Do t \<lparr>hq_Method = meth, hq_URL = fullURL, hq_Headers = headers, hq_Body = reqBody\<rparr> of
                      Inl e \<Rightarrow> (Inl (''request failed: '' @ e), True)
                    | Inr resp \<Rightarrow>
                       ((case hs_Body resp of
                           Inl e \<Rightarrow> Inl (''failed to read response body: '' @ e)
                         | Inr respBody \<Rightarrow>
                             if 400 \<le> hs_StatusCode resp
                             then Inl (''request failed with status '' @ show_int (hs_StatusCode resp) @ '': '' @ respBody)
                             else case result of
                                    None \<Rightarrow> Inr None
                                  | Some dec \<Rightarrow>
                                      (case (case tp_Unmarshal t respBody of Inl e \<Rightarrow> Inl e | Inr j \<Rightarrow> dec j) of
                                         Inl e \<Rightarrow> Inl (''failed to unmarshal response: '' @ e)
                                       | Inr r \<Rightarrow> Inr (Some r))),
                        hs_CloseFails resp))))"

definition call_status :: "bool \<Rightarrow> string" where
  "call_status err = (if err then ''error'' else ''success'')"

text \<open>The document of a patch. A value decoded into an interface has its numbers as \<^verbatim>\<open>float64\<close>, and null is nil.\<close>

fun as_interface :: "json \<Rightarrow> json" where
  "as_interface (JInt i) = JNum (f64_of_int i)"
| "as_interface (JArr js) = JArr (map as_interface js)"
| "as_interface (JObj kvs) = JObj (map (map_prod id as_interface) kvs)"
| "as_interface j = j"

definition enc_JSONPatchOp :: "Patch \<Rightarrow> json" where
  "enc_JSONPatchOp p =
     JObj (present [(''op'', Some (JStr (pa_op p))), (''path'', Some (JStr (pa_path p))), (''value'', pa_value p)])"

fun dec_JSONPatchOp :: "json \<Rightarrow> Patch option" where
  "dec_JSONPatchOp (JObj kvs) = do {
     op \<leftarrow> field_or kvs ''op'' dec_string '''';
     path \<leftarrow> field_or kvs ''path'' dec_string '''';
     Some \<lparr>pa_op = op, pa_path = path,
       pa_value = (case lookup kvs ''value'' of None \<Rightarrow> None | Some JNull \<Rightarrow> None | Some j \<Rightarrow> Some (as_interface j))\<rparr> }"
| "dec_JSONPatchOp JNull = Some \<lparr>pa_op = '''', pa_path = '''', pa_value = None\<rparr>"
| "dec_JSONPatchOp _ = None"

definition patches_document :: "Patch list \<Rightarrow> json" where
  "patches_document patches = JArr (map enc_JSONPatchOp patches)"

definition dec_patches :: "json \<Rightarrow> string + Patch list" where
  "dec_patches j = (case dec_list dec_JSONPatchOp j of None \<Rightarrow> Inl ''cannot unmarshal'' | Some ps \<Rightarrow> Inr ps)"

definition WebhookMutatingPatch ::
    "Transport \<Rightarrow> RecommenderServiceClient \<Rightarrow> string \<Rightarrow> string + json \<Rightarrow> (string + Patch list) \<times> bool" where
  "WebhookMutatingPatch t c clusterID body =
     (let (r, err) = makeRequest t c ''POST'' (''/api/v1/webhook/clusters/'' @ clusterID @ ''/mutate'') (Some body) (Some dec_patches)
      in (case r of Inl e \<Rightarrow> Inl e | Inr None \<Rightarrow> Inr [] | Inr (Some ps) \<Rightarrow> Inr ps, err))"

definition dec_StatsResponse :: "json \<Rightarrow> string + WorkloadStat list" where
  "dec_StatsResponse j =
     (case j of
        JObj kvs \<Rightarrow> (case field_or kvs ''stats'' (dec_list dec_WorkloadStat) [] of
            None \<Rightarrow> Inl ''cannot unmarshal'' | Some ss \<Rightarrow> Inr ss)
      | JNull \<Rightarrow> Inr []
      | _ \<Rightarrow> Inl ''cannot unmarshal'')"

definition GetClusterStats :: "Transport \<Rightarrow> RecommenderServiceClient \<Rightarrow> string \<Rightarrow> (string + WorkloadStat list) \<times> bool" where
  "GetClusterStats t c clusterID =
     (let (r, err) = makeRequest t c ''GET'' (''/api/v1/clusters/'' @ clusterID @ ''/stats'') None (Some dec_StatsResponse)
      in (case r of Inl e \<Rightarrow> Inl e | Inr None \<Rightarrow> Inr [] | Inr (Some ss) \<Rightarrow> Inr ss, err))"

section \<open>The patches of the webhook survive the way\<close>

definition plain_patch :: "Patch \<Rightarrow> bool" where
  "plain_patch p \<longleftrightarrow> (case pa_value p of None \<Rightarrow> True | Some (JStr s) \<Rightarrow> True | Some (JObj []) \<Rightarrow> True | _ \<Rightarrow> False)"

lemma plain_patch_op [simp]:
  "plain_patch (patch_op opn path None)" "plain_patch (patch_op opn path (Some (JStr s)))"
  "plain_patch (patch_op opn path (Some (JObj [])))"
  by (simp_all add: plain_patch_def patch_op_def)

lemma dec_enc_patch: "plain_patch p \<Longrightarrow> dec_JSONPatchOp (enc_JSONPatchOp p) = Some p"
proof -
  assume "plain_patch p"
  then consider "pa_value p = None" | s where "pa_value p = Some (JStr s)" | "pa_value p = Some (JObj [])"
    by (auto simp: plain_patch_def split: option.splits json.splits list.splits)
  then show ?thesis by cases (simp_all add: enc_JSONPatchOp_def field_or_def)
qed

lemma dec_enc_patches: "list_all plain_patch ps \<Longrightarrow> dec_patches (patches_document ps) = Inr ps"
proof -
  assume "list_all plain_patch ps"
  then have "dec_all dec_JSONPatchOp (map enc_JSONPatchOp ps) = Some ps"
    by (induction ps) (simp_all add: dec_enc_patch del: dec_JSONPatchOp.simps)
  then show ?thesis by (simp add: dec_patches_def patches_document_def)
qed

lemma container_patches_plain: "list_all plain_patch (container_patches oob cfg kind stat path c)"
proof -
  have "list_all plain_patch (shape_patches path c)" by (simp add: shape_patches_def)
  moreover have "list_all plain_patch (cpu_patches oob kind path c r)" for r by (simp add: cpu_patches_def Let_def)
  moreover have "list_all plain_patch (memory_patches oob cfg kind path c r l)" for r l by (simp add: memory_patches_def Let_def)
  ultimately show ?thesis by (simp add: container_patches_def Let_def split: option.split)
qed

lemma webhook_patches_plain: "list_all plain_patch (pr_patches (fst (evaluateMutatingPatch env clusterID request cache)))"
proof -
  have "list_all plain_patch (adjustResources oob cfg gs pod w s)" for oob cfg gs pod w s
    using container_patches_plain
    by (auto simp: adjustResources_def Let_def list_all_iff split: option.split sum.split)
  moreover have "list_all plain_patch (buildDisruptionAnnotationPatches keys parse now pod s ov)" for keys parse now pod s ov
    by (auto simp: buildDisruptionAnnotationPatches_def Let_def list_all_iff)
  ultimately have "list_all plain_patch (buildMutatingPatches env clusterID r)" for r
    by (simp add: buildMutatingPatches_def)
  then show ?thesis
    by (auto simp: evaluateMutatingPatch_def extractMutatingPatchInput_def resolveMutatingPatchContext_def
        emptyMutatingPatchResult_def Let_def split: option.splits sum.splits prod.split)
qed

lemma error_no_patches:
  "pr_errorMessage (fst (evaluateMutatingPatch env clusterID request cache)) \<noteq> '''' \<Longrightarrow>
   pr_patches (fst (evaluateMutatingPatch env clusterID request cache)) = [] \<and>
   400 \<le> pr_statusCode (fst (evaluateMutatingPatch env clusterID request cache))"
  "pr_errorMessage (fst (evaluateMutatingPatch env clusterID request cache)) = '''' \<Longrightarrow>
   pr_statusCode (fst (evaluateMutatingPatch env clusterID request cache)) = 200"
  by (auto simp: evaluateMutatingPatch_def extractMutatingPatchInput_def resolveMutatingPatchContext_def
      emptyMutatingPatchResult_def Let_def split: option.splits sum.splits prod.splits if_splits)

section \<open>The other side\<close>

text \<open>The controller's answer to a request of the route of the webhook: its guards, then its handler.\<close>

definition mutate_route :: route where
  "mutate_route = \<lparr>rt_Method = ''POST'', rt_Path = ''/api/v1/webhook/clusters/:clusterID/mutate'',
     rt_Guards = [AuthWebhookGuard, EnsureCluster], rt_Handler = MutatingPatch\<rparr>"

lemma mutate_route: "mutate_route \<in> set (SetupServerEngine dev)"
  by (simp add: SetupServerEngine_def group_def mutate_route_def)

definition error_document :: "string \<Rightarrow> json" where "error_document e = JObj [(''error'', JStr e)]"

definition controller_answer ::
    "Transport \<Rightarrow> (string \<Rightarrow> string + 'raw AdmissionRequest option) \<Rightarrow> basic_check \<Rightarrow> AuthConfig \<Rightarrow> (string \<times> 'c) list
     \<Rightarrow> 'raw WebhookEnv \<Rightarrow> version_cache \<Rightarrow> trace \<Rightarrow> string \<Rightarrow> http_request \<Rightarrow> http_response" where
  "controller_answer t binding check auth clusterClients env cache tr clusterID req =
     (let (code, document) =
        (case serve check auth clusterClients mutate_route
            \<lparr>rq_clusterID = clusterID, rq_Authorization = map_of (hq_Headers req) ''Authorization''\<rparr> of
           Inl (code, message) \<Rightarrow> (int code, error_document message)
         | Inr _ \<Rightarrow>
             (case fst (HandleMutatingPatch env clusterID
                (case hq_Body req of None \<Rightarrow> Inl ''EOF'' | Some text \<Rightarrow> binding text) cache tr) of
                PatchError code e \<Rightarrow> (code, error_document e)
              | PatchList code patches \<Rightarrow> (code, patches_document patches)))
      in \<lparr>hs_StatusCode = code, hs_Body = Inr (tp_Marshal t document), hs_CloseFails = False\<rparr>)"

text \<open>The webhook with its client: an admission of a request whose document is \<open>review\<close>.\<close>

definition admission ::
    "Transport \<Rightarrow> RecommenderServiceClient \<Rightarrow> string \<Rightarrow> ('raw AdmissionRequest option \<Rightarrow> string + json) \<Rightarrow> 'raw webhook_body
     \<Rightarrow> WebhookResponse" where
  "admission t c clusterID review = MutateHandler (Some (\<lambda>request. fst (WebhookMutatingPatch t c clusterID (review request))))"

lemma makeRequest_delivered:
  assumes "tp_NewRequest t meth (rc_host c @ endpoint) = None"
    and "\<And>hs. tp_Do t \<lparr>hq_Method = meth, hq_URL = rc_host c @ endpoint, hq_Headers = hs, hq_Body = Some (tp_Marshal t j)\<rparr> =
      Inr (answer \<lparr>hq_Method = meth, hq_URL = rc_host c @ endpoint, hq_Headers = hs, hq_Body = Some (tp_Marshal t j)\<rparr>)"
  shows "\<exists>hs. fst (makeRequest t c meth endpoint (Some (Inr j)) (Some dec)) =
    (let resp = answer \<lparr>hq_Method = meth, hq_URL = rc_host c @ endpoint, hq_Headers = hs, hq_Body = Some (tp_Marshal t j)\<rparr>
     in case hs_Body resp of
          Inl e \<Rightarrow> Inl (''failed to read response body: '' @ e)
        | Inr text \<Rightarrow>
            if 400 \<le> hs_StatusCode resp
            then Inl (''request failed with status '' @ show_int (hs_StatusCode resp) @ '': '' @ text)
            else case (case tp_Unmarshal t text of Inl e \<Rightarrow> Inl e | Inr j \<Rightarrow> dec j) of
                   Inl e \<Rightarrow> Inl (''failed to unmarshal response: '' @ e)
                 | Inr r \<Rightarrow> Inr (Some r))"
  unfolding makeRequest_def Let_def
  by (simp only: option.case sum.case assms fst_conv) (rule exI, rule refl)

text \<open>C39. An admission from one end to the other. Whatever the network and the controller do, the webhook allows
  the pod, under the identity of its request, with a list of patches. If the request reaches the route of a
  controller that has the cluster, and the two documents survive printing and parsing, these are exactly the
  patches that the controller evaluates for that request, so a refused or failed evaluation leaves the pod as it is.\<close>

theorem admission_end_to_end:
  fixes t host token clusterID
  defines "c \<equiv> NewRecommenderServiceClientWithClusterToken host token"
  assumes print: "tp_Unmarshal t (tp_Marshal t (patches_document
      (pr_patches (fst (evaluateMutatingPatch env clusterID (Some request) cache))))) =
      Inr (patches_document (pr_patches (fst (evaluateMutatingPatch env clusterID (Some request) cache))))"
    and review: "review (Some request) = Inr j" "binding (tp_Marshal t j) = Inr (Some request)"
    and url: "tp_NewRequest t ''POST'' (TrimSuffix host ''/'' @ ''/api/v1/webhook/clusters/'' @ clusterID @ ''/mutate'') = None"
    and delivered: "\<And>req. hq_Method req = ''POST'' \<Longrightarrow>
      hq_URL req = TrimSuffix host ''/'' @ ''/api/v1/webhook/clusters/'' @ clusterID @ ''/mutate'' \<Longrightarrow>
      tp_Do t req = Inr (controller_answer t binding check auth clusterClients env cache tr clusterID req)"
    and known: "clusterID \<in> set (GetClusterIDs clusterClients)" "clusterID \<noteq> ''''"
  shows "(\<forall>t' review'. \<exists>patches. admission t' c clusterID review' (Review (Some request)) =
        WebhookReview 200 \<lparr>as_UID = ar_UID request, as_Allowed = True, as_Patch = Some patches\<rparr>) \<and>
    admission t c clusterID review (Review (Some request)) =
      WebhookReview 200 \<lparr>as_UID = ar_UID request, as_Allowed = True,
        as_Patch = Some (pr_patches (fst (evaluateMutatingPatch env clusterID (Some request) cache)))\<rparr>"
proof -
  let ?ep = "''/api/v1/webhook/clusters/'' @ clusterID @ ''/mutate''"
  let ?res = "fst (evaluateMutatingPatch env clusterID (Some request) cache)"
  have host: "rc_host c = TrimSuffix host ''/''"
    by (simp add: c_def NewRecommenderServiceClientWithClusterToken_def NewRecommenderServiceClient_def)
  have served: "serve check auth clusterClients mutate_route \<lparr>rq_clusterID = clusterID, rq_Authorization = a\<rparr> = Inr MutatingPatch" for a
    using known by (auto simp: serve_def mutate_route_def AuthWebhook_def EnsureClusterExists_def GetClusterClients_def
        GetClusterIDs_def split: option.split dest: map_of_eq_None_iff [THEN iffD1])
  have answer: "controller_answer t binding check auth clusterClients env cache tr clusterID
      \<lparr>hq_Method = ''POST'', hq_URL = TrimSuffix host ''/'' @ ?ep, hq_Headers = hs, hq_Body = Some (tp_Marshal t j)\<rparr> =
    \<lparr>hs_StatusCode = pr_statusCode ?res, hs_Body = Inr (tp_Marshal t (if pr_errorMessage ?res \<noteq> ''''
       then error_document (pr_errorMessage ?res) else patches_document (pr_patches ?res))), hs_CloseFails = False\<rparr>" for hs
    by (simp add: controller_answer_def served review(2) HandleMutatingPatch_def writeMutatingPatchResponse_def split_beta)
  have doc: "tp_NewRequest t ''POST'' (rc_host c @ ?ep) = None"
    "tp_Do t \<lparr>hq_Method = ''POST'', hq_URL = rc_host c @ ?ep, hq_Headers = hs, hq_Body = Some (tp_Marshal t j)\<rparr> =
      Inr (controller_answer t binding check auth clusterClients env cache tr clusterID
        \<lparr>hq_Method = ''POST'', hq_URL = rc_host c @ ?ep, hq_Headers = hs, hq_Body = Some (tp_Marshal t j)\<rparr>)" for hs
    unfolding host by (rule url, rule delivered) (simp_all only: http_request.simps)
  have status: "400 \<le> pr_statusCode ?res \<longleftrightarrow> pr_errorMessage ?res \<noteq> ''''"
    using error_no_patches [of env clusterID "Some request" cache] by fastforce
  have "fst (makeRequest t c ''POST'' ?ep (Some (Inr j)) (Some dec_patches)) =
    (if pr_errorMessage ?res \<noteq> '''' then Inl (''request failed with status '' @ show_int (pr_statusCode ?res) @ '': '' @
       tp_Marshal t (error_document (pr_errorMessage ?res))) else Inr (Some (pr_patches ?res)))"
    using makeRequest_delivered [OF doc, of dec_patches]
    unfolding host answer Let_def http_response.simps sum.case status
    by (cases "pr_errorMessage ?res = ''''")
      (simp_all only: print dec_enc_patches [OF webhook_patches_plain] if_True if_False simp_thms sum.case not_True_eq_False not_False_eq_True ex_simps)
  then have "fst (WebhookMutatingPatch t c clusterID (review (Some request))) =
    (if pr_errorMessage ?res \<noteq> '''' then Inl (''request failed with status '' @ show_int (pr_statusCode ?res) @ '': '' @
       tp_Marshal t (error_document (pr_errorMessage ?res))) else Inr (pr_patches ?res))"
    unfolding review(1) WebhookMutatingPatch_def by (simp add: split_beta)
  then have "admission t c clusterID review (Review (Some request)) =
      WebhookReview 200 \<lparr>as_UID = ar_UID request, as_Allowed = True, as_Patch = Some (pr_patches ?res)\<rparr>"
    using error_no_patches [of env clusterID "Some request" cache] by (auto simp: admission_def MutateHandler_def)
  then show ?thesis by (simp add: admission_def MutateHandler_def)
qed


definition sample_review :: "unit AdmissionRequest" where
  "sample_review = \<lparr>ar_UID = ''u1'', ar_Kind = ''PodDisruptionBudget'', ar_Object = ()\<rparr>"

definition sample_documents :: Transport where
  "sample_documents = \<lparr>tp_NewRequest = (\<lambda>m u. None), tp_Do = (\<lambda>r. Inl ''unreachable''),
     tp_Marshal = (\<lambda>j. if j = JArr [] then ''[]'' else ''review''), tp_Unmarshal = (\<lambda>s. Inr (JArr []))\<rparr>"

definition sample_binding :: "string \<Rightarrow> string + unit AdmissionRequest option" where
  "sample_binding text = Inr (Some sample_review)"

definition sample_transport :: Transport where
  "sample_transport = sample_documents\<lparr>tp_Do := \<lambda>req. Inr (controller_answer sample_documents sample_binding compare_accounts
     \<lparr>auth_Enabled = True, auth_Username = ''admin'', auth_Password = ''secret''\<rparr> [(''default'', ())] sample_webhook_env
     (\<lambda>c. None) [] ''default'' req)\<rparr>"

lemma admission_end_to_end_witness:
  "admission sample_transport (NewRecommenderServiceClientWithClusterToken ''http://controller/'' ''token'') ''default''
     (\<lambda>r. Inr JNull) (Review (Some sample_review)) =
   WebhookReview 200 \<lparr>as_UID = ''u1'', as_Allowed = True, as_Patch = Some []\<rparr>"
proof -
  have e: "pr_patches (fst (evaluateMutatingPatch sample_webhook_env ''default'' (Some sample_review) (\<lambda>c. None))) = []"
    by (simp add: evaluateMutatingPatch_def extractMutatingPatchInput_def sample_review_def emptyMutatingPatchResult_def)
  have print: "tp_Unmarshal sample_transport (tp_Marshal sample_transport (patches_document [])) = Inr (patches_document [])"
    by (simp add: sample_transport_def sample_documents_def patches_document_def)
  have binding: "sample_binding (tp_Marshal sample_transport JNull) = Inr (Some sample_review)"
    by (simp add: sample_binding_def)
  have answers: "tp_Do sample_transport req = Inr (controller_answer sample_transport sample_binding compare_accounts
     \<lparr>auth_Enabled = True, auth_Username = ''admin'', auth_Password = ''secret''\<rparr> [(''default'', ())] sample_webhook_env
     (\<lambda>c. None) [] ''default'' req)" for req
    by (simp add: sample_transport_def controller_answer_def)
  have "tp_NewRequest sample_transport m u = None" for m u by (simp add: sample_transport_def sample_documents_def)
  from conjunct2 [OF admission_end_to_end [where review = "\<lambda>r. Inr JNull" and host = "''http://controller/''" and token = "''token''",
        OF print [folded e] refl binding this answers]]
  show ?thesis unfolding e by (simp add: GetClusterIDs_def) (simp add: sample_review_def)
qed

section \<open>Credentials and the count of failures\<close>

text \<open>With a user name or a password, every request carries them the way the login's token does.\<close>

lemma sends_credentials:
  assumes "rc_basicUser c \<noteq> '''' \<or> rc_basicPassword c \<noteq> ''''"
  shows "makeRequest (t\<lparr>tp_Do := \<lambda>req. if map_of (hq_Headers req) ''Authorization'' =
      Some (authorizationHeader (rc_basicUser c, rc_basicPassword c)) then tp_Do t req else Inl e\<rparr>) c meth endpoint body result =
    makeRequest t c meth endpoint body result"
  using assms by (cases body; cases "tp_NewRequest t meth (rc_host c @ endpoint)"; cases result)
    (auto simp: makeRequest_def authorizationHeader_def Let_def split: sum.split)

text \<open>A request that the controller refuses is counted as a success: the error of closing the body replaces it.\<close>

lemma refusal_counted_as_success:
  assumes "tp_NewRequest t meth (rc_host c @ endpoint) = None" "\<And>req. tp_Do t req = Inr resp"
    and "400 \<le> hs_StatusCode resp" "hs_Body resp = Inr text" "\<not> hs_CloseFails resp"
  shows "\<exists>e failed. makeRequest t c meth endpoint (Some (Inr j)) result = (Inl e, failed) \<and> call_status failed = ''success''"
  using assms by (auto simp: makeRequest_def Let_def call_status_def)


end
