(* ===== verification/OomWatch.thy ===== *)
theory OomWatch
  imports Oom
begin

text \<open>
  What happens between a pod's update and the processing of its out-of-memory kills: the informer and
  the watch of eviction events (\<^verbatim>\<open>pkg/oom/informer.go\<close>), the observer with its channel
  (\<^verbatim>\<open>observer.go\<close>) and the goroutine of the processor (\<^verbatim>\<open>processor.go\<close>). The informer calls the observer for
  one update after the other, and a send blocks on a full channel. Updates, sends, receives,
  cancellation and the two \<^verbatim>\<open>Stop\<close> interleave in any way; what was observed and what was processed, in
  order, is kept as history.
\<close>

section \<open>Setting up\<close>

definition evictionWatchRetryWait :: go_time where "evictionWatchRetryWait = 10 * 10 ^ 9"

text \<open>The informer: the field selector, then whether the handler could be added and the cache got in sync.\<close>

definition setupPodInformer :: "string option \<Rightarrow> bool \<Rightarrow> string + string" where
  "setupPodInformer addHandler synced =
     (case addHandler of
        Some e \<Rightarrow> Inl (''failed to add oom event handler to pod informer: '' @ e)
      | None \<Rightarrow> if \<not> synced then Inl ''failed to sync pod cache for oom observer'' else Inr ''status.phase!=Pending'')"

definition Observer_Start :: "string option \<Rightarrow> bool \<Rightarrow> string option" where
  "Observer_Start addHandler synced =
     (case setupPodInformer addHandler synced of
        Inl e \<Rightarrow> Some (''failed to setup pod informer: '' @ e)
      | Inr _ \<Rightarrow> None)"

section \<open>The watch of events\<close>

text \<open>What the select of the loop sees: the end of the context, a closed channel, or an event with its type, whose
  object is an event or not.\<close>

datatype watch_item = ContextDone | ChannelClosed | WatchEvent string "Event option"

fun watchEvents :: "watch_item list \<Rightarrow> Event list" where
  "watchEvents [] = []"
| "watchEvents (ContextDone # items) = []"
| "watchEvents (ChannelClosed # items) = []"
| "watchEvents (WatchEvent ty obj # items) =
     (if ty = ''ADDED'' then (case obj of Some event \<Rightarrow> event # watchEvents items | None \<Rightarrow> watchEvents items)
      else watchEvents items)"

text \<open>An attempt finds the context at its end, cannot start the watch, or watches.\<close>

datatype watch_attempt = Cancelled | CannotWatch string | Watches "watch_item list"

fun watchEventsWithRetries :: "watch_attempt list \<Rightarrow> Event list" where
  "watchEventsWithRetries [] = []"
| "watchEventsWithRetries (Cancelled # attempts) = []"
| "watchEventsWithRetries (CannotWatch e # attempts) = watchEventsWithRetries attempts"
| "watchEventsWithRetries (Watches items # attempts) = watchEvents items @ watchEventsWithRetries attempts"

section \<open>Observer and processor\<close>

text \<open>The observer's object of an update may be of another type; only pods are looked at.\<close>

definition OnUpdate :: "Pod option \<Rightarrow> Pod option \<Rightarrow> Info list" where
  "OnUpdate oldObj newObj =
     (case oldObj of
        None \<Rightarrow> []
      | Some oldPod \<Rightarrow> (case newObj of None \<Rightarrow> [] | Some newPod \<Rightarrow> checkContainersForOOM oldPod newPod))"

record oom_workers =
  ow_pending :: "Info list"
  ow_channel :: "Info list"
  ow_closed :: bool
  ow_cancelled :: bool
  ow_stopped :: bool
  ow_running :: bool
  ow_panicked :: bool
  ow_state :: oom_state
  ow_observed :: "Info list"
  ow_processed :: "(OomEnv \<times> Info) list"

definition channel_size :: nat where "channel_size = 1000"

definition NewObserver :: "oom_state \<Rightarrow> oom_workers" where
  "NewObserver s = \<lparr>ow_pending = [], ow_channel = [], ow_closed = False, ow_cancelled = False, ow_stopped = False,
     ow_running = True, ow_panicked = False, ow_state = s, ow_observed = [], ow_processed = []\<rparr>"

definition observe :: "Pod option \<Rightarrow> Pod option \<Rightarrow> oom_workers \<Rightarrow> oom_workers" where
  "observe oldObj newObj w =
     (if ow_pending w = [] then w\<lparr>ow_pending := OnUpdate oldObj newObj, ow_observed := ow_observed w @ OnUpdate oldObj newObj\<rparr>
      else w)"

text \<open>A send to a closed channel panics.\<close>

definition send_info :: "oom_workers \<Rightarrow> oom_workers" where
  "send_info w =
     (case ow_pending w of
        [] \<Rightarrow> w
      | info # rest \<Rightarrow>
          if ow_closed w then w\<lparr>ow_panicked := True\<rparr>
          else if length (ow_channel w) < channel_size
          then w\<lparr>ow_pending := rest, ow_channel := ow_channel w @ [info]\<rparr> else w)"

text \<open>The select of the processor takes any case that is ready.\<close>

datatype ready = ContextEnds | StopRequested | Receives

definition processor_step :: "OomEnv \<Rightarrow> ready \<Rightarrow> oom_workers \<Rightarrow> oom_workers" where
  "processor_step env r w =
     (if \<not> ow_running w then w
      else case r of
        ContextEnds \<Rightarrow> if ow_cancelled w then w\<lparr>ow_running := False\<rparr> else w
      | StopRequested \<Rightarrow> if ow_stopped w then w\<lparr>ow_running := False\<rparr> else w
      | Receives \<Rightarrow>
          (case ow_channel w of
             [] \<Rightarrow> if ow_closed w then w\<lparr>ow_running := False\<rparr> else w
           | info # rest \<Rightarrow> w\<lparr>ow_channel := rest, ow_state := processOOMEvent env info (ow_state w),
               ow_processed := ow_processed w @ [(env, info)]\<rparr>))"

text \<open>Closing a channel a second time panics.\<close>

definition Observer_Stop :: "oom_workers \<Rightarrow> oom_workers" where
  "Observer_Stop w = (if ow_closed w then w\<lparr>ow_panicked := True\<rparr> else w\<lparr>ow_closed := True\<rparr>)"

definition Processor_Stop :: "oom_workers \<Rightarrow> oom_workers" where
  "Processor_Stop w = (if ow_stopped w then w\<lparr>ow_panicked := True\<rparr> else w\<lparr>ow_stopped := True\<rparr>)"

inductive oom_step :: "oom_workers \<Rightarrow> oom_workers \<Rightarrow> bool" where
  update: "oom_step w (observe oldObj newObj w)"
| send: "oom_step w (send_info w)"
| process: "oom_step w (processor_step env r w)"
| cancel: "oom_step w (w\<lparr>ow_cancelled := True\<rparr>)"
| stop_observer: "oom_step w (Observer_Stop w)"
| stop_processor: "oom_step w (Processor_Stop w)"

inductive oom_reach :: "oom_workers \<Rightarrow> oom_workers \<Rightarrow> bool" for w0 where
  start: "oom_reach w0 w0"
| step: "oom_reach w0 w \<Longrightarrow> oom_step w w' \<Longrightarrow> oom_reach w0 w'"

inductive_cases oom_stepE: "oom_step w w'"

section \<open>No kill is lost or reordered\<close>

definition workers_ok :: "oom_state \<Rightarrow> oom_workers \<Rightarrow> bool" where
  "workers_ok s w \<longleftrightarrow> ow_observed w = map snd (ow_processed w) @ ow_channel w @ ow_pending w \<and>
     length (ow_channel w) \<le> channel_size \<and> ow_state w = Processor_Start (ow_processed w) s"

lemma Processor_Start_snoc: "Processor_Start (xs @ [(env, info)]) s = processOOMEvent env info (Processor_Start xs s)"
  by (induction xs s rule: Processor_Start.induct) simp_all

lemma workers_ok_step: "workers_ok s w \<Longrightarrow> oom_step w w' \<Longrightarrow> workers_ok s w'"
  by (erule oom_stepE)
    (auto simp: workers_ok_def observe_def send_info_def processor_step_def Observer_Stop_def Processor_Stop_def
      Processor_Start_snoc split: list.splits ready.splits)

text \<open>What was observed is what was processed, then what is in the channel, then what waits to be sent: the
  store is what the kills make of it in the order in which they were observed, each with its own clock and
  failures. Nothing is dropped when the channel is full.\<close>

lemma oom_kills_in_order:
  assumes "oom_reach (NewObserver s) w"
  shows "ow_observed w = map snd (ow_processed w) @ ow_channel w @ ow_pending w \<and> length (ow_channel w) \<le> channel_size \<and>
    ow_state w = Processor_Start (ow_processed w) s"
proof -
  have "workers_ok s w"
    using assms
  proof induction
    case start
    show ?case by (simp add: NewObserver_def workers_ok_def)
  next
    case (step w w')
    from workers_ok_step [OF step.IH step.hyps(2)] show ?case .
  qed
  then show ?thesis by (simp add: workers_ok_def)
qed

text \<open>Stopping the observer while an update waits to be sent ends the program.\<close>

lemma send_after_stop:
  assumes "\<not> ow_closed w" "ow_pending w \<noteq> []" shows "ow_panicked (send_info (Observer_Stop w))"
  using assms by (auto simp: send_info_def Observer_Stop_def split: list.split)

text \<open>The events of the watch are the added ones, in order, each once.\<close>

lemma watched_events:
  "watchEvents (map (\<lambda>(ty, e). WatchEvent ty (Some e)) xs) = map snd (filter (\<lambda>(ty, e). ty = ''ADDED'') xs)"
  by (induction xs) auto

end
