(* ===== verification/Connect.thy ===== *)
theory Connect
  imports Startup Client
begin

text \<open>
  How the program connects to what it uses: the database with the migration of its tables
  (\<^verbatim>\<open>pkg/adapters/database/database.go\<close>, \<^verbatim>\<open>clients/\<close>), the API server (\<^verbatim>\<open>pkg/adapters/kube/client.go\<close>),
  Prometheus (\<^verbatim>\<open>prometheus/prometheus.go\<close>, \<^verbatim>\<open>utils.go\<close>) and the usage telemetry (\<^verbatim>\<open>pkg/usageheartbeat\<close>,
  \<^verbatim>\<open>posthog/reporter.go\<close>). Opening a connection is answered by a parameter, and so are the three calls
  the migration makes of GORM; the locale \<open>migrator\<close> states what the code relies on: a renaming that
  fails changes nothing, and \<^verbatim>\<open>AutoMigrate\<close> creates a missing table and never drops a table or a row.
\<close>

section \<open>The database\<close>

record FactoryConfig =
  fc_Type :: string
  fc_Host :: string
  fc_Port :: int
  fc_Database :: string
  fc_Username :: string
  fc_Password :: string
  fc_SSLMode :: string

datatype ClientFactory = SQLiteClientFactory string | PostgreSQLClientFactory FactoryConfig

definition CreateClientFactory :: "FactoryConfig \<Rightarrow> ClientFactory" where
  "CreateClientFactory config =
     (if fc_Type config = ''sqlite'' \<or> fc_Type config = '''' then SQLiteClientFactory (fc_Database config)
      else if fc_Type config = ''postgres'' then PostgreSQLClientFactory config
      else SQLiteClientFactory (fc_Database config))"

definition with_postgres_defaults :: "FactoryConfig \<Rightarrow> FactoryConfig" where
  "with_postgres_defaults config =
     (let config = (if fc_Host config = '''' then config\<lparr>fc_Host := ''localhost''\<rparr> else config);
          config = (if fc_Port config = 0 then config\<lparr>fc_Port := 5432\<rparr> else config)
      in if fc_SSLMode config = '''' then config\<lparr>fc_SSLMode := ''disable''\<rparr> else config)"

definition postgres_dsn :: "FactoryConfig \<Rightarrow> string" where
  "postgres_dsn config =
     ''host='' @ fc_Host config @ '' user='' @ fc_Username config @ '' password='' @ fc_Password config @
     '' dbname='' @ fc_Database config @ '' port='' @ show_int (fc_Port config) @ '' sslmode='' @ fc_SSLMode config"

text \<open>The directory of the file, opening the database, and its pool: each may fail.\<close>

record Drivers =
  dv_MkdirAll :: "string \<Rightarrow> string option"
  dv_OpenSQLite :: "string \<Rightarrow> string option"
  dv_OpenPostgres :: "string \<Rightarrow> string option"
  dv_DB :: "string option"

text \<open>What is opened: the file or the data source, and the limit of open connections.\<close>

definition SQLite_CreateClient :: "Drivers \<Rightarrow> string \<Rightarrow> string + string \<times> nat" where
  "SQLite_CreateClient dv dbPath =
     (case dv_MkdirAll dv dbPath of
        Some e \<Rightarrow> Inl (''failed to create database directory: '' @ e)
      | None \<Rightarrow> (case dv_OpenSQLite dv dbPath of
          Some e \<Rightarrow> Inl (''failed to open SQLite database: '' @ e)
        | None \<Rightarrow> (case dv_DB dv of
            Some e \<Rightarrow> Inl (''failed to get underlying sql.DB: '' @ e)
          | None \<Rightarrow> Inr (dbPath, 1))))"

definition PostgreSQL_CreateClient :: "Drivers \<Rightarrow> FactoryConfig \<Rightarrow> string + string \<times> nat" where
  "PostgreSQL_CreateClient dv config =
     (let dsn = postgres_dsn (with_postgres_defaults config)
      in case dv_OpenPostgres dv dsn of
           Some e \<Rightarrow> Inl (''failed to open PostgreSQL database: '' @ e)
         | None \<Rightarrow> (case dv_DB dv of
             Some e \<Rightarrow> Inl (''failed to get underlying sql.DB: '' @ e)
           | None \<Rightarrow> Inr (dsn, 25)))"

definition CreateClient :: "Drivers \<Rightarrow> ClientFactory \<Rightarrow> string + string \<times> nat" where
  "CreateClient dv factory =
     (case factory of
        SQLiteClientFactory dbPath \<Rightarrow> SQLite_CreateClient dv dbPath
      | PostgreSQLClientFactory config \<Rightarrow> PostgreSQL_CreateClient dv config)"

section \<open>The migration\<close>

text \<open>GORM's migrator on a database \<open>'d\<close>: an error of \<^verbatim>\<open>HasTable\<close> is not reported, the other two return theirs.\<close>

record 'd Migrator =
  mg_HasTable :: "string \<Rightarrow> 'd \<Rightarrow> bool"
  mg_Exec :: "string \<Rightarrow> 'd \<Rightarrow> string option \<times> 'd"
  mg_AutoMigrate :: "string \<Rightarrow> 'd \<Rightarrow> string option \<times> 'd"

text \<open>The tables of the models with what the error calls them.\<close>

definition migrated_models :: "(string \<times> string) list" where
  "migrated_models = [(''clusters'', ''Cluster''), (''workloads'', ''workloads''), (''oom_events'', ''OOMEvent''),
     (''pod_resource_recommendations'', ''PodResourceRecommendation''), (''audit_events'', ''AuditEventRow''),
     (''snapshots'', ''Snapshot'')]"

fun migrate_models :: "'d Migrator \<Rightarrow> (string \<times> string) list \<Rightarrow> 'd \<Rightarrow> string option \<times> 'd" where
  "migrate_models mg [] d = (None, d)"
| "migrate_models mg ((name, model) # models) d =
     (case mg_AutoMigrate mg name d of
        (Some e, d) \<Rightarrow> (Some (''failed to auto-migrate '' @ model @ '': '' @ e), d)
      | (None, d) \<Rightarrow> migrate_models mg models d)"

definition createTables :: "'d Migrator \<Rightarrow> 'd \<Rightarrow> string option \<times> 'd" where
  "createTables mg d =
     (if mg_HasTable mg ''stats'' d \<and> \<not> mg_HasTable mg ''workloads'' d
      then (case mg_Exec mg ''ALTER TABLE stats RENAME TO workloads'' d of
              (Some e, d) \<Rightarrow> (Some (''failed to rename stats table to workloads: '' @ e), d)
            | (None, d) \<Rightarrow> migrate_models mg migrated_models d)
      else migrate_models mg migrated_models d)"

definition NewDatabase :: "Drivers \<Rightarrow> 'd Migrator \<Rightarrow> FactoryConfig \<Rightarrow> 'd \<Rightarrow> string option \<times> 'd" where
  "NewDatabase dv mg config d =
     (case CreateClient dv (CreateClientFactory config) of
        Inl e \<Rightarrow> (Some (''failed to create database client: '' @ e), d)
      | Inr _ \<Rightarrow> (case createTables mg d of
          (Some e, d) \<Rightarrow> (Some (''failed to create tables: '' @ e), d)
        | (None, d) \<Rightarrow> (None, d)))"

text \<open>The start of the program retries until one attempt succeeds or the time is over; each attempt finds the
  database as the one before left it.\<close>

fun retry_database ::
    "FactoryConfig \<Rightarrow> (Drivers \<times> 'd Migrator) list \<Rightarrow> string option \<Rightarrow> 'd \<Rightarrow> string option \<times> 'd" where
  "retry_database config [] lastErr d = (lastErr, d)"
| "retry_database config ((dv, mg) # attempts) lastErr d =
     (case NewDatabase dv mg config d of
        (None, d) \<Rightarrow> (None, d)
      | (Some e, d) \<Rightarrow> retry_database config attempts (Some e) d)"

section \<open>Retrying the migration loses no row\<close>

text \<open>The tables there are, with their rows. Between two states either nothing is lost, or the rows of
  \<^verbatim>\<open>stats\<close> have moved to \<^verbatim>\<open>workloads\<close>, which was not there.\<close>

type_synonym 'row tables = "string \<rightharpoonup> 'row list"

definition kept :: "'row tables \<Rightarrow> 'row tables \<Rightarrow> bool" where
  "kept old new \<longleftrightarrow> old \<subseteq>\<^sub>m new \<and> new ''stats'' = old ''stats''"

definition moved :: "'row tables \<Rightarrow> 'row tables \<Rightarrow> bool" where
  "moved old new \<longleftrightarrow> old ''workloads'' = None \<and> old ''stats'' \<noteq> None \<and>
     old(''workloads'' := old ''stats'', ''stats'' := None) \<subseteq>\<^sub>m new \<and> new ''stats'' = None"

lemma kept_refl: "kept t t" by (simp add: kept_def)

lemma kept_trans: "kept a b \<Longrightarrow> kept b c \<Longrightarrow> kept a c"
  unfolding kept_def by (auto intro: map_le_trans [of a b c])

lemma moved_kept: "moved a b \<Longrightarrow> kept b c \<Longrightarrow> moved a c"
  unfolding moved_def kept_def by (auto intro: map_le_trans [of _ b c])

lemma kept_moved:
  assumes "kept a b" "moved b c" shows "moved a c"
proof -
  have w: "a ''workloads'' = None" using assms by (auto simp: kept_def moved_def map_le_def dom_def)
  have "a(''workloads'' := a ''stats'', ''stats'' := None) \<subseteq>\<^sub>m b(''workloads'' := b ''stats'', ''stats'' := None)"
    using assms(1) by (auto simp: kept_def map_le_def)
  then have "a(''workloads'' := a ''stats'', ''stats'' := None) \<subseteq>\<^sub>m c"
    using assms(2) by (auto simp: moved_def intro: map_le_trans)
  then show ?thesis using assms w by (simp add: kept_def moved_def)
qed

lemma moved_once: "moved a b \<Longrightarrow> \<not> moved b c"
  by (simp add: moved_def)

lemma safe_trans:
  "kept a b \<or> moved a b \<Longrightarrow> kept b c \<or> moved b c \<Longrightarrow> kept a c \<or> moved a c"
  using kept_trans [of a b c] moved_kept [of a b c] kept_moved [of a b c] moved_once [of a b c] by argo

text \<open>What the code relies on of GORM's documented behaviour.\<close>

locale migrator =
  fixes rows :: "'d \<Rightarrow> 'row tables" and mg :: "'d Migrator"
  assumes has_table: "mg_HasTable mg t d \<Longrightarrow> rows d t \<noteq> None"
    and rename_done: "mg_Exec mg ''ALTER TABLE stats RENAME TO workloads'' d = (None, d') \<Longrightarrow>
      rows d ''workloads'' = None \<and> rows d' = (rows d)(''workloads'' := rows d ''stats'', ''stats'' := None)"
    and rename_failed: "mg_Exec mg ''ALTER TABLE stats RENAME TO workloads'' d = (Some e, d') \<Longrightarrow> rows d' = rows d"
    and migrate_keeps: "mg_AutoMigrate mg t d = (r, d') \<Longrightarrow> rows d \<subseteq>\<^sub>m rows d'"
    and migrate_other: "mg_AutoMigrate mg t d = (r, d') \<Longrightarrow> t' \<noteq> t \<Longrightarrow> rows d' t' = rows d t'"
    and migrate_creates: "mg_AutoMigrate mg t d = (None, d') \<Longrightarrow> rows d' t \<noteq> None"
begin

lemma models_kept:
  "''stats'' \<notin> fst ` set models \<Longrightarrow> migrate_models mg models d = (r, d') \<Longrightarrow> kept (rows d) (rows d')"
proof (induction models arbitrary: d)
  case (Cons m models)
  obtain name model where m: "m = (name, model)" by fastforce
  obtain r1 d1 where a: "mg_AutoMigrate mg name d = (r1, d1)" by fastforce
  have k: "kept (rows d) (rows d1)"
    using migrate_keeps [OF a] migrate_other [OF a, of "''stats''"] Cons.prems(1) m by (auto simp: kept_def)
  then show ?case using Cons kept_trans a m by (cases r1) auto
qed (simp add: kept_refl)

lemma models_there:
  "''stats'' \<notin> fst ` set models \<Longrightarrow> migrate_models mg models d = (None, d') \<Longrightarrow> t \<in> fst ` set models \<Longrightarrow> rows d' t \<noteq> None"
proof (induction models arbitrary: d)
  case (Cons m models)
  obtain name model where m: "m = (name, model)" by fastforce
  then obtain d1 where a: "mg_AutoMigrate mg name d = (None, d1)" "migrate_models mg models d1 = (None, d')"
    using Cons.prems(2) by (auto split: prod.splits option.splits)
  show ?case
  proof (cases "t \<in> fst ` set models")
    case True
    then show ?thesis using Cons a by auto
  next
    case False
    then have "rows d1 t \<noteq> None" using Cons.prems(3) migrate_creates [OF a(1)] m by auto
    moreover have "kept (rows d1) (rows d')" using models_kept [OF _ a(2)] Cons.prems(1) by auto
    ultimately show ?thesis unfolding kept_def map_le_def by (metis domIff)
  qed
qed simp

lemma no_stats: "''stats'' \<notin> fst ` set migrated_models"
  by (simp add: migrated_models_def)

lemma tables_created:
  assumes "createTables mg d = (r, d')"
  shows "kept (rows d) (rows d') \<or> moved (rows d) (rows d')"
    and "r = None \<Longrightarrow> t \<in> fst ` set migrated_models \<Longrightarrow> rows d' t \<noteq> None"
proof -
  consider "migrate_models mg migrated_models d = (r, d')"
    | e where "r \<noteq> None" "mg_Exec mg ''ALTER TABLE stats RENAME TO workloads'' d = (Some e, d')"
    | d1 where "mg_HasTable mg ''stats'' d" "mg_Exec mg ''ALTER TABLE stats RENAME TO workloads'' d = (None, d1)"
        "migrate_models mg migrated_models d1 = (r, d')"
    using assms by (auto simp: createTables_def split: if_splits prod.splits option.splits)
  then have "(kept (rows d) (rows d') \<or> moved (rows d) (rows d')) \<and>
      (r = None \<longrightarrow> (\<forall>t \<in> fst ` set migrated_models. rows d' t \<noteq> None))"
  proof cases
    case 1
    then show ?thesis using models_kept [OF no_stats 1] models_there [OF no_stats] by blast
  next
    case (2 e)
    then show ?thesis using rename_failed [OF 2(2)] by (auto simp: kept_def)
  next
    case (3 d1)
    have "moved (rows d) (rows d1)" using rename_done [OF 3(2)] has_table [OF 3(1)] by (simp add: moved_def)
    then show ?thesis using moved_kept models_kept [OF no_stats 3(3)] models_there [OF no_stats] 3(3) by blast
  qed
  then show "kept (rows d) (rows d') \<or> moved (rows d) (rows d')"
    "r = None \<Longrightarrow> t \<in> fst ` set migrated_models \<Longrightarrow> rows d' t \<noteq> None" by blast+
qed

text \<open>When \<^verbatim>\<open>HasTable\<close> is right about the two tables, an attempt that succeeds has moved the rows that were to move,
  and one that fails has moved them or left the old table alone.\<close>

lemma tables_moved:
  assumes "createTables mg d = (r, d')" "\<And>t d. mg_HasTable mg t d \<longleftrightarrow> rows d t \<noteq> None"
    and "rows d ''stats'' \<noteq> None" "rows d ''workloads'' = None"
  shows "moved (rows d) (rows d') \<or> r \<noteq> None \<and> rows d' = rows d"
proof -
  have h: "mg_HasTable mg ''stats'' d \<and> \<not> mg_HasTable mg ''workloads'' d" using assms(2-4) by simp
  obtain r1 d1 where x: "mg_Exec mg ''ALTER TABLE stats RENAME TO workloads'' d = (r1, d1)" by fastforce
  show ?thesis
  proof (cases r1)
    case None
    then have "migrate_models mg migrated_models d1 = (r, d')" using assms(1) h x by (simp add: createTables_def)
    moreover have "moved (rows d) (rows d1)"
      using rename_done [OF x [unfolded None]] assms(3) by (simp add: moved_def)
    ultimately show ?thesis using moved_kept models_kept [OF no_stats] by blast
  next
    case (Some e)
    then have "d' = d1" "r \<noteq> None" using assms(1) h x by (auto simp: createTables_def)
    then show ?thesis using rename_failed [OF x [unfolded Some]] by simp
  qed
qed

end

lemma NewDatabase_tables:
  assumes "NewDatabase dv mg config d = (r, d')"
  shows "r \<noteq> None \<and> d' = d \<or> (\<exists>r'. createTables mg d = (r', d') \<and> (r' = None \<longleftrightarrow> r = None))"
  using assms by (auto simp: NewDatabase_def split: sum.splits prod.splits option.splits)

lemma moved_rows:
  assumes "moved old new" shows "new ''workloads'' = old ''stats''"
proof -
  let ?m = "old(''workloads'' := old ''stats'', ''stats'' := None)"
  have "?m ''workloads'' = old ''stats''" "old ''stats'' \<noteq> None" using assms by (simp_all add: moved_def)
  moreover have "?m \<subseteq>\<^sub>m new" using assms by (simp add: moved_def)
  ultimately show ?thesis unfolding map_le_def by (metis domIff)
qed

lemma retried_safe:
  assumes "\<forall>(dv, mg) \<in> set attempts. migrator rows mg"
    and "retry_database config attempts lastErr d = (r, d')" "lastErr \<noteq> None"
  shows "kept (rows d) (rows d') \<or> moved (rows d) (rows d')"
    and "r = None \<Longrightarrow> t \<in> fst ` set migrated_models \<Longrightarrow> rows d' t \<noteq> None"
proof -
  have "(kept (rows d) (rows d') \<or> moved (rows d) (rows d')) \<and>
      (r = None \<longrightarrow> (\<forall>t \<in> fst ` set migrated_models. rows d' t \<noteq> None))"
    using assms
  proof (induction attempts arbitrary: lastErr d)
    case (Cons a attempts)
    obtain dv mg where a: "a = (dv, mg)" by fastforce
    have m: "migrator rows mg" using Cons.prems(1) a by simp
    obtain r1 d1 where n: "NewDatabase dv mg config d = (r1, d1)" by fastforce
    have s: "kept (rows d) (rows d1) \<or> moved (rows d) (rows d1)"
      and all: "r1 = None \<Longrightarrow> \<forall>t \<in> fst ` set migrated_models. rows d1 t \<noteq> None"
      using NewDatabase_tables [OF n] migrator.tables_created [OF m] kept_refl by blast+
    show ?case
    proof (cases r1)
      case None
      then show ?thesis using Cons.prems(2) a n s all by simp
    next
      case (Some e)
      then have "retry_database config attempts (Some e) d1 = (r, d')" using Cons.prems(2) a n by simp
      then have "(kept (rows d1) (rows d') \<or> moved (rows d1) (rows d')) \<and>
          (r = None \<longrightarrow> (\<forall>t \<in> fst ` set migrated_models. rows d' t \<noteq> None))"
        using Cons.IH [of "Some e" d1] Cons.prems(1) by auto
      then show ?thesis using safe_trans [OF s] by simp
    qed
  qed (auto simp: kept_refl)
  then show "kept (rows d) (rows d') \<or> moved (rows d) (rows d')"
    "r = None \<Longrightarrow> t \<in> fst ` set migrated_models \<Longrightarrow> rows d' t \<noteq> None" by blast+
qed

lemma retried_moves:
  assumes "\<forall>(dv, mg) \<in> set attempts. migrator rows mg"
    and "retry_database config attempts lastErr d = (r, d')" "lastErr \<noteq> None"
    and "r = None" "rows d ''stats'' \<noteq> None" "rows d ''workloads'' = None"
    and "\<forall>(dv, mg) \<in> set attempts. \<forall>t d. mg_HasTable mg t d \<longleftrightarrow> rows d t \<noteq> None"
  shows "rows d' ''workloads'' = rows d ''stats''"
  using assms
proof (induction attempts arbitrary: lastErr d)
  case (Cons a attempts)
  obtain dv mg where a: "a = (dv, mg)" by fastforce
  have m: "migrator rows mg" using Cons.prems(1) a by simp
  have h: "\<And>t d. mg_HasTable mg t d \<longleftrightarrow> rows d t \<noteq> None" using Cons.prems(7) a by auto
  obtain r1 d1 where n: "NewDatabase dv mg config d = (r1, d1)" by fastforce
  have s: "moved (rows d) (rows d1) \<or> r1 \<noteq> None \<and> rows d1 = rows d"
  proof (cases "r1 \<noteq> None \<and> d1 = d")
    case False
    then obtain r' where c: "createTables mg d = (r', d1)" "r' = None \<longleftrightarrow> r1 = None"
      using NewDatabase_tables [OF n] by auto
    have "moved (rows d) (rows d1) \<or> r' \<noteq> None \<and> rows d1 = rows d"
      by (rule migrator.tables_moved [of rows mg d r' d1, OF m c(1) h Cons.prems(5,6)])
    then show ?thesis using c(2) by blast
  qed simp
  show ?case
  proof (cases r1)
    case None
    then show ?thesis using Cons.prems(2) a n s moved_rows by auto
  next
    case (Some e)
    then have r: "retry_database config attempts (Some e) d1 = (r, d')" using Cons.prems(2) a n by simp
    have ms: "\<forall>(dv, mg) \<in> set attempts. migrator rows mg" using Cons.prems(1) by simp
    from s show ?thesis
    proof
      assume mv: "moved (rows d) (rows d1)"
      have "kept (rows d1) (rows d')" using retried_safe(1) [OF ms r] moved_once [OF mv] by blast
      then show ?thesis using moved_rows [OF moved_kept [OF mv]] by blast
    next
      assume "r1 \<noteq> None \<and> rows d1 = rows d"
      then show ?thesis using Cons.IH [OF ms r _ Cons.prems(4)] Cons.prems(5-7) by simp
    qed
  qed
qed simp

text \<open>The contract is met by a plain map of tables, with a failure for every table that cannot be migrated.\<close>

definition map_migrator :: "(string \<Rightarrow> string option) \<Rightarrow> 'row tables Migrator" where
  "map_migrator fault =
     \<lparr>mg_HasTable = (\<lambda>t d. d t \<noteq> None),
      mg_Exec = (\<lambda>stmt d. if d ''stats'' \<noteq> None \<and> d ''workloads'' = None
        then (None, d(''workloads'' := d ''stats'', ''stats'' := None)) else (Some ''there is no such table'', d)),
      mg_AutoMigrate = (\<lambda>t d. case fault t of Some e \<Rightarrow> (Some e, d)
        | None \<Rightarrow> (None, if d t = None then d(t \<mapsto> []) else d))\<rparr>"

interpretation map_store: migrator "\<lambda>d. d" "map_migrator fault" for fault
  by unfold_locales (auto simp: map_migrator_def map_le_def dom_def split: if_splits option.splits)

text \<open>C40. However often the start is retried and wherever its attempts fail, no row is lost: every table
  that was there is there with its rows, except that the rows of \<^verbatim>\<open>stats\<close> may have moved to
  \<^verbatim>\<open>workloads\<close>, and only if that table was not there. Once an attempt succeeds the six tables
  the program uses are there; if \<^verbatim>\<open>stats\<close> was there without \<^verbatim>\<open>workloads\<close>, its rows have then
  moved, provided that GORM told truly which of the two there are (it has no way to report an
  error). Of GORM this needs that a renaming that fails changes nothing and one that succeeds
  renames, and that migrating a model keeps the rows there are and, if it succeeds, leaves its table.\<close>

theorem retried_migration_keeps_rows:
  assumes "\<forall>(dv, mg) \<in> set attempts. migrator rows mg"
    and "retry_database config attempts lastErr d = (r, d')" "lastErr \<noteq> None"
  shows "(rows d \<subseteq>\<^sub>m rows d' \<or>
      rows d ''workloads'' = None \<and> rows d ''stats'' \<noteq> None \<and>
      (rows d)(''workloads'' := rows d ''stats'', ''stats'' := None) \<subseteq>\<^sub>m rows d') \<and>
    (r = None \<longrightarrow> (\<forall>t \<in> {''clusters'', ''workloads'', ''oom_events'', ''pod_resource_recommendations'',
       ''audit_events'', ''snapshots''}. rows d' t \<noteq> None)) \<and>
    (r = None \<longrightarrow> rows d ''stats'' \<noteq> None \<longrightarrow> rows d ''workloads'' = None \<longrightarrow>
       (\<forall>(dv, mg) \<in> set attempts. \<forall>t d. mg_HasTable mg t d \<longleftrightarrow> rows d t \<noteq> None) \<longrightarrow>
       rows d' ''workloads'' = rows d ''stats'')"
proof -
  have six: "fst ` set migrated_models = {''clusters'', ''workloads'', ''oom_events'', ''pod_resource_recommendations'',
       ''audit_events'', ''snapshots''}" by (simp add: migrated_models_def)
  have "kept (rows d) (rows d') \<or> moved (rows d) (rows d')"
    using retried_safe(1) [OF assms] .
  moreover have "r = None \<longrightarrow> (\<forall>t \<in> fst ` set migrated_models. rows d' t \<noteq> None)"
    using retried_safe(2) [OF assms] by blast
  moreover have "moved (rows d) (rows d') \<Longrightarrow> rows d' ''workloads'' = rows d ''stats''"
    by (rule moved_rows)
  ultimately show ?thesis using retried_moves [OF assms] unfolding six [symmetric] kept_def moved_def by blast
qed

definition sample_drivers :: Drivers where
  "sample_drivers = \<lparr>dv_MkdirAll = (\<lambda>p. None), dv_OpenSQLite = (\<lambda>p. None), dv_OpenPostgres = (\<lambda>d. None), dv_DB = None\<rparr>"

text \<open>An attempt that fails after the renaming, and one that succeeds.\<close>

lemma retried_migration_keeps_rows_witness:
  "\<exists>tabs'. retry_database \<lparr>fc_Type = '''', fc_Host = '''', fc_Port = 0, fc_Database = ''db'', fc_Username = '''', fc_Password = '''',
       fc_SSLMode = ''''\<rparr> [(sample_drivers, map_migrator (\<lambda>t. if t = ''oom_events'' then Some ''locked'' else None)),
       (sample_drivers, map_migrator (\<lambda>t. None))]
       (Some ''not started'') [''stats'' \<mapsto> [7::nat]] = (None, tabs') \<and> tabs' ''workloads'' = Some [7] \<and> tabs' ''snapshots'' \<noteq> None"
proof -
  let ?c = "\<lparr>fc_Type = '''', fc_Host = '''', fc_Port = 0, fc_Database = ''db'', fc_Username = '''', fc_Password = '''', fc_SSLMode = ''''\<rparr>"
  let ?as = "[(sample_drivers, map_migrator (\<lambda>t. if t = ''oom_events'' then Some ''locked'' else None)),
    (sample_drivers, map_migrator (\<lambda>t. None))] :: (Drivers \<times> nat tables Migrator) list"
  let ?d = "[''stats'' \<mapsto> [7::nat]]"
  have client: "CreateClient sample_drivers (CreateClientFactory ?c) = Inr (''db'', 1)"
    by (simp add: CreateClient_def SQLite_CreateClient_def CreateClientFactory_def sample_drivers_def)
  have "fst (retry_database ?c ?as (Some ''not started'') ?d) = None"
    by (simp add: NewDatabase_def client createTables_def migrated_models_def map_migrator_def split_beta)
  then obtain tabs' where r: "retry_database ?c ?as (Some ''not started'') ?d = (None, tabs')"
    by (cases "retry_database ?c ?as (Some ''not started'') ?d") simp
  have ms: "\<forall>(dv, mg) \<in> set ?as. migrator (\<lambda>d. d) mg"
    by (simp add: map_store.migrator_axioms)
  have h: "\<forall>(dv, mg) \<in> set ?as. \<forall>t d. mg_HasTable mg t d \<longleftrightarrow> d t \<noteq> None" by (simp add: map_migrator_def)
  note p = retried_migration_keeps_rows [OF ms r option.distinct(2)]
  have d: "?d ''stats'' \<noteq> None" "?d ''workloads'' = None" "?d ''stats'' = Some [7]" by simp_all
  have "tabs' ''workloads'' = ?d ''stats''"
    by (rule mp [OF mp [OF mp [OF mp [OF conjunct2 [OF conjunct2 [OF p]] refl] d(1)] d(2)] h])
  then have w: "tabs' ''workloads'' = Some [7]" unfolding d(3) .
  have "tabs' ''snapshots'' \<noteq> None"
    by (rule bspec [OF mp [OF conjunct1 [OF conjunct2 [OF p]] refl]]) simp
  then show ?thesis by (intro exI [of _ tabs'] conjI r w)
qed

section \<open>The API server\<close>

text \<open>\<open>stat\<close> tells whether a file can be read. Where the configuration comes from, and the errors of reading it and of
  building the client.\<close>

definition isRunningInCluster :: "(string \<Rightarrow> bool) \<Rightarrow> bool" where
  "isRunningInCluster stat \<longleftrightarrow>
     stat ''/var/run/secrets/kubernetes.io/serviceaccount/token'' \<and> stat ''/var/run/secrets/kubernetes.io/serviceaccount/ca.crt''"

datatype kube_config = InClusterConfig | Kubeconfig string

definition kube_config_of :: "(string \<Rightarrow> bool) \<Rightarrow> (kube_config \<Rightarrow> string option) \<Rightarrow> string \<Rightarrow> string + kube_config" where
  "kube_config_of stat load path =
     (if isRunningInCluster stat
      then (case load InClusterConfig of
              Some e \<Rightarrow> Inl (''failed to get in-cluster config: '' @ e) | None \<Rightarrow> Inr InClusterConfig)
      else (case load (Kubeconfig path) of
              Some e \<Rightarrow> Inl (''failed to build config from flags: '' @ e) | None \<Rightarrow> Inr (Kubeconfig path)))"

definition NewKubeClient ::
    "(string \<Rightarrow> bool) \<Rightarrow> (kube_config \<Rightarrow> string option) \<Rightarrow> string option \<Rightarrow> string \<Rightarrow> string + kube_config" where
  "NewKubeClient stat load build kubeconfigPath =
     (case kube_config_of stat load kubeconfigPath of
        Inl e \<Rightarrow> Inl e
      | Inr config \<Rightarrow> (case build of
          Some e \<Rightarrow> Inl (''failed to create kubernetes clientset: '' @ e) | None \<Rightarrow> Inr config))"

text \<open>The dynamic client falls back to the file in the home directory, whose path is taken to be clean.\<close>

definition NewDynamicClient ::
    "(string \<Rightarrow> bool) \<Rightarrow> (kube_config \<Rightarrow> string option) \<Rightarrow> string option \<Rightarrow> string \<Rightarrow> string \<Rightarrow> string + kube_config" where
  "NewDynamicClient stat load build home kubeconfigPath =
     (case kube_config_of stat load (if kubeconfigPath = '''' then home @ ''/.kube/config'' else kubeconfigPath) of
        Inl e \<Rightarrow> Inl e
      | Inr config \<Rightarrow> (case build of
          Some e \<Rightarrow> Inl (''failed to create dynamic client: '' @ e) | None \<Rightarrow> Inr config))"

text \<open>Both clients of one cluster talk to the same API server, and inside a cluster no file is read.\<close>

lemma clients_agree:
  assumes "NewKubeClient stat load b1 path = Inr c1" "NewDynamicClient stat load b2 home path = Inr c2" "path \<noteq> ''''"
  shows "c1 = c2"
  using assms by (auto simp: NewKubeClient_def NewDynamicClient_def split: sum.splits option.splits)

lemma in_cluster_reads_no_file:
  assumes "isRunningInCluster stat"
  shows "NewKubeClient stat load b path = NewKubeClient stat load b path'" "NewKubeClient stat load b path \<noteq> Inr (Kubeconfig f)"
  using assms by (auto simp: NewKubeClient_def kube_config_of_def split: option.splits)

section \<open>Prometheus\<close>

record PrometheusClientConfig =
  pm_PrometheusURL :: string
  pm_BearerToken :: string
  pm_QueryTimeout :: go_time
  pm_MaxConnsPerHost :: int
  pm_MaxIdleConns :: int
  pm_IdleConnTimeout :: go_time
  pm_ResponseTimeout :: go_time
  pm_DialTimeout :: go_time
  pm_KeepAlive :: go_time
  pm_TLSHandshakeTimeout :: go_time
  pm_InsecureSkipVerify :: bool
  pm_Provider :: ProviderConfig

definition GetPrometheusClientConfig :: "string \<Rightarrow> bool \<Rightarrow> PrometheusClientConfig" where
  "GetPrometheusClientConfig prometheusURL insecureSkipVerify =
     \<lparr>pm_PrometheusURL = prometheusURL, pm_BearerToken = '''', pm_QueryTimeout = 300 * 10 ^ 9, pm_MaxConnsPerHost = 100,
      pm_MaxIdleConns = 50, pm_IdleConnTimeout = 90 * 10 ^ 9, pm_ResponseTimeout = 300 * 10 ^ 9,
      pm_DialTimeout = 10 * 10 ^ 9, pm_KeepAlive = 30 * 10 ^ 9, pm_TLSHandshakeTimeout = 10 * 10 ^ 9,
      pm_InsecureSkipVerify = insecureSkipVerify,
      pm_Provider = \<lparr>pc_MaxQueryRetries = 3, pc_RetryBackoffBase = 5 * 10 ^ 9, pc_MaxConcurrentQueries = 10\<rparr>\<rparr>"

text \<open>Setting a header replaces the values it has.\<close>

definition set_header :: "string \<Rightarrow> string \<Rightarrow> (string \<times> string) list \<Rightarrow> (string \<times> string) list" where
  "set_header k v hs = filter (\<lambda>(k', _). k' \<noteq> k) hs @ [(k, v)]"

definition RoundTrip :: "string \<Rightarrow> (http_request \<Rightarrow> string + 'r) \<Rightarrow> http_request \<Rightarrow> string + 'r" where
  "RoundTrip bearerToken proxied req =
     (let req = (if bearerToken \<noteq> '''' then req\<lparr>hq_Headers := set_header ''Authorization'' (''Bearer '' @ bearerToken) (hq_Headers req)\<rparr>
                 else req)
      in case proxied req of Inl e \<Rightarrow> Inl (''failed to execute round trip: '' @ e) | Inr resp \<Rightarrow> Inr resp)"

definition provider_transport :: "PrometheusClientConfig \<Rightarrow> (http_request \<Rightarrow> string + 'r) \<Rightarrow> http_request \<Rightarrow> string + 'r" where
  "provider_transport config transport =
     (if pm_BearerToken config \<noteq> '''' then RoundTrip (pm_BearerToken config) transport else transport)"

lemma set_header_only: "(''Authorization'', v) \<in> set (set_header ''Authorization'' w hs) \<longleftrightarrow> v = w"
  by (auto simp: set_header_def)

text \<open>With a token every request carries it and no other authorization; without one the request goes out as it is.\<close>

lemma bearer_sent:
  "pm_BearerToken config \<noteq> '''' \<Longrightarrow>
   \<exists>hs. (\<forall>v. (''Authorization'', v) \<in> set hs \<longleftrightarrow> v = ''Bearer '' @ pm_BearerToken config) \<and>
     isl (provider_transport config transport req) = isl (transport (req\<lparr>hq_Headers := hs\<rparr>))"
  "pm_BearerToken config = '''' \<Longrightarrow> provider_transport config transport req = transport req"
  unfolding provider_transport_def RoundTrip_def Let_def
  by (rule exI [of _ "set_header ''Authorization'' (''Bearer '' @ pm_BearerToken config) (hq_Headers req)"])
    (simp_all add: set_header_only split: sum.split)

text \<open>The semaphores of the configuration of the program have slots.\<close>

lemma configured_slots: "0 < pc_MaxConcurrentQueries (pm_Provider (GetPrometheusClientConfig url insecure))"
  by (simp add: GetPrometheusClientConfig_def)

section \<open>The usage telemetry\<close>

record UsageHeartbeat =
  hb_CruisekubeVersion :: string
  hb_K8sMajor :: string
  hb_K8sMinor :: string
  hb_HelmChartVersion :: string

text \<open>The version of the server is its major and minor version.\<close>

definition Collect :: "string + string \<times> string \<Rightarrow> Config \<Rightarrow> string + UsageHeartbeat" where
  "Collect serverVersion cfg =
     (case serverVersion of
        Inl e \<Rightarrow> Inl (''server version: '' @ e)
      | Inr (major, minor) \<Rightarrow> Inr \<lparr>hb_CruisekubeVersion = '''', hb_K8sMajor = major, hb_K8sMinor = minor,
          hb_HelmChartVersion = TrimSpace (ut_HelmChartVersion (cf_UsageTelemetry cfg))\<rparr>)"

text \<open>The reporter's client is there until it is closed; \<open>enqueue\<close> answers a heartbeat.\<close>

definition ReportHeartbeat :: "bool \<Rightarrow> (UsageHeartbeat \<Rightarrow> string option) \<Rightarrow> UsageHeartbeat \<Rightarrow> string option" where
  "ReportHeartbeat clientOpen enqueue hb =
     (if \<not> clientOpen then Some ''posthog reporter: client is closed or not initialized''
      else case enqueue hb of Some e \<Rightarrow> Some (''posthog capture enqueue: '' @ e) | None \<Rightarrow> None)"

definition Reporter_Close :: "bool \<Rightarrow> string option \<Rightarrow> string option \<times> bool" where
  "Reporter_Close clientOpen closeErr =
     (if \<not> clientOpen then (None, False)
      else (case closeErr of Some e \<Rightarrow> Some (''posthog client close: '' @ e) | None \<Rightarrow> None, False))"

text \<open>A tick: what the server answers and whether the reporter takes it. The heartbeats that were sent.\<close>

fun heartbeat_sends :: "string \<Rightarrow> Config \<Rightarrow> ((string + string \<times> string) \<times> (UsageHeartbeat \<Rightarrow> string option)) list \<Rightarrow> UsageHeartbeat list" where
  "heartbeat_sends version cfg [] = []"
| "heartbeat_sends version cfg ((serverVersion, report) # ticks) =
     (case Collect serverVersion cfg of
        Inl e \<Rightarrow> heartbeat_sends version cfg ticks
      | Inr hb \<Rightarrow> (let hb = hb\<lparr>hb_CruisekubeVersion := version\<rparr>
          in case report hb of
               Some e \<Rightarrow> heartbeat_sends version cfg ticks
             | None \<Rightarrow> hb # heartbeat_sends version cfg ticks))"

text \<open>One heartbeat at the start and one at each tick until the context ends; an interval that does not parse ends it,
  and a ticker of an interval that is not positive panics.\<close>

definition heartbeat_Start ::
    "string \<Rightarrow> Config \<Rightarrow> ((string + string \<times> string) \<times> (UsageHeartbeat \<Rightarrow> string option)) list \<Rightarrow> UsageHeartbeat list panics" where
  "heartbeat_Start version cfg ticks =
     (case ParseDuration (TrimSpace (ut_Interval (cf_UsageTelemetry cfg))) of
        None \<Rightarrow> Some []
      | Some interval \<Rightarrow> if interval \<le> 0 then None else Some (heartbeat_sends version cfg ticks))"

text \<open>A heartbeat holds the versions and nothing else of the cluster.\<close>

lemma heartbeat_anonymous:
  "heartbeat_Start version cfg ticks = Some hbs \<Longrightarrow> hb \<in> set hbs \<Longrightarrow>
   \<exists>major minor report. (Inr (major, minor), report) \<in> set ticks \<and>
     hb = \<lparr>hb_CruisekubeVersion = version, hb_K8sMajor = major, hb_K8sMinor = minor,
       hb_HelmChartVersion = TrimSpace (ut_HelmChartVersion (cf_UsageTelemetry cfg))\<rparr>"
proof -
  assume "heartbeat_Start version cfg ticks = Some hbs" "hb \<in> set hbs"
  then have "hb \<in> set (heartbeat_sends version cfg ticks)" by (auto simp: heartbeat_Start_def split: option.splits if_splits)
  then show ?thesis
    by (induction version cfg ticks rule: heartbeat_sends.induct)
      (fastforce simp: Collect_def Let_def split: sum.splits option.splits)+
qed

text \<open>The validated configuration of a controller starts it without a panic.\<close>

lemma validated_heartbeat:
  assumes "cfg' = validateUsageTelemetryForController sprint dk cfg" "ut_Enabled (cf_UsageTelemetry cfg')"
  shows "heartbeat_Start version cfg' ticks = Some (heartbeat_sends version cfg' ticks)"
  using validated_telemetry(6) [OF assms] by (auto simp: heartbeat_Start_def)

lemma close_twice: "Reporter_Close (snd (Reporter_Close o' e)) e' = (None, False)"
  "ReportHeartbeat (snd (Reporter_Close o' e)) enqueue hb \<noteq> None"
  by (simp_all add: Reporter_Close_def ReportHeartbeat_def)

end
