(* ===== verification/Spec2Isabelle.thy ===== *)
theory Spec2Isabelle
  imports ApplyRun NodeLoad Stats StorageSpec GoTime PromQueries WebhookSpec AuditQueue Oom Killswitch CreateStats Scheduler WorkloadDetails Startup FetchMetrics Preflight QuerySlots Client OomWatch Connect
begin

text \<open>
  A model of CruiseKube, an autoscaler for Kubernetes workloads written in Go, and the theorems
  that make it correct. Paths below are under \<^verbatim>\<open>src/pkg/\<close>.

  \<^bold>\<open>The program.\<close> A controller runs tasks on a schedule. The statistics task
  (\<^verbatim>\<open>task/taskcreatestats.go\<close>) asks Prometheus how much the containers of every workload use,
  prepares a record per workload and stores it. The apply task
  (\<^verbatim>\<open>task/taskapplyrecommendation.go\<close>) collects the pods of every node with the stored
  statistics, decides which of them it may change, lets a strategy
  (\<^verbatim>\<open>task/applystrategies\<close>) distribute the node among them, and resizes pods in place or
  evicts them. The disruption task (\<^verbatim>\<open>task/taskdisruptionforce.go\<close>) lifts what protects pods from
  eviction while a maintenance window is open and restores it afterwards. The node load task
  (\<^verbatim>\<open>task/tasknodeloadmonitoring.go\<close>) taints overloaded nodes. All tasks share the store
  (\<^verbatim>\<open>repository/storage\<close> over \<^verbatim>\<open>adapters/database\<close>).

  \<^bold>\<open>Conventions.\<close> A Go panic is \<open>None\<close> of the option type and code that may panic is a
  \<^theory_text>\<open>do\<close>-block over it; an error next to a value is a sum with the error on the left; a
  pointer is an option. A map is a partial function; where the code ranges over one, the pairs come
  as a list in the order of that iteration, and every theorem holds for every order. Every write to
  the API server is recorded in a trace, and whether it succeeds is asked of a parameter that sees
  the trace so far, so that theorems hold whatever fails. \<^verbatim>\<open>sort.Slice\<close> and
  \<^verbatim>\<open>RetryOnConflict\<close> are parameters under the contracts of their documentation, stated as the
  locales \<^verbatim>\<open>go_sort\<close> and \<^verbatim>\<open>conflict_retry\<close>. Numbers of type \<^verbatim>\<open>float64\<close> are IEEE binary64 with the
  rounding written out; a conversion to an integer that Go leaves undefined is a parameter. A time is
  a count of nanoseconds since 1970.

  \<^bold>\<open>Theories.\<close>
  \<^item> \<^verbatim>\<open>Prelude\<close>, \<^verbatim>\<open>Float64\<close>, \<^verbatim>\<open>Float64_Order\<close>, \<^verbatim>\<open>GoStrings\<close>, \<^verbatim>\<open>GoTime\<close>, \<^verbatim>\<open>GoSort\<close>, \<^verbatim>\<open>GoRetry\<close>: what
    the code uses of the language and its libraries. \<^verbatim>\<open>Float64_Order\<close> has the order facts
    (rounding is monotone, the operations keep bounds) that the properties of the optimiser rest on;
    \<^verbatim>\<open>GoTime\<close> has the calendar with the round trip of formatting and parsing.
  \<^item> \<^verbatim>\<open>Types\<close>, \<^verbatim>\<open>Kube\<close>, \<^verbatim>\<open>Keys\<close>, \<^verbatim>\<open>Api\<close>: \<^verbatim>\<open>types/\<close>, the fields of the Kubernetes objects the code reads,
    the keys and owners of \<^verbatim>\<open>task/utils/util.go\<close> and \<^verbatim>\<open>const.go\<close>, and the trace of writes.
  \<^item> \<^verbatim>\<open>NodeStats\<close>, \<^verbatim>\<open>Recommend\<close>: \<^verbatim>\<open>task/utils/nodestats.go\<close>, \<^verbatim>\<open>nodestatsbuilder.go\<close> and
    \<^verbatim>\<open>recommendationapply.go\<close>. The values written to a pod are ones Kubernetes accepts.
  \<^item> \<^verbatim>\<open>Optimize\<close>: the strategy. It always returns on pods with complete statistics, evicts only pods
    it may, in the order of their priority, and recommends within the bounds of the statistics.
  \<^item> \<^verbatim>\<open>ApplyTask\<close>, \<^verbatim>\<open>ApplyRun\<close>: the apply task over the nodes with every write it attempts, and its run
    from the stored statistics and overrides to the snapshot; the pods it touches are
    the ones that are enabled, and the values it writes are valid.
  \<^item> \<^verbatim>\<open>Workloads\<close>, \<^verbatim>\<open>Disruption\<close>: \<^verbatim>\<open>task/utils/workloadhandler.go\<close> and the disruption task; PDBs and pods
    are lifted only for a workload with an open window and restored to what they were.
  \<^item> \<^verbatim>\<open>NodeLoad\<close>: the taints follow the load.
  \<^item> \<^verbatim>\<open>PromQueries\<close>: the text of the Prometheus queries; the two copies of the builders agree.
  \<^item> \<^verbatim>\<open>Stats\<close>: the cache of metrics and the statistics of one workload; the cache does not depend on
    the order of the results, and statistics stored as complete have what the optimiser reads.
  \<^item> \<^verbatim>\<open>Json\<close>, \<^verbatim>\<open>Database\<close>, \<^verbatim>\<open>Storage\<close>: the encoding of the stored structs with its round trip, every
    operation on the tables with every statement that may fail, and the repository over them.
  \<^item> \<^verbatim>\<open>StorageSpec\<close>: the store as a map from cluster and workload to statistics, the states reachable
    by its operations, and what each operation does to that map.
  \<^item> \<^verbatim>\<open>Promql\<close>, \<^verbatim>\<open>Predictions\<close>, \<^verbatim>\<open>CreateStats\<close>: running the queries with retries and in parallel
    (\<^verbatim>\<open>adapters/metricsprovider/prometheus/promql.go\<close>), the predictions made from past usage
    (\<^verbatim>\<open>task/utils/timeseriesprediction.go\<close>) and the run of the statistics task. The metrics of
    containers that are fetched do not depend on the order of the answers, nor do the workloads that have
    replicas (their number does, where there are several rows for one workload); a prediction is an upper bound of the samples around its hour,
    and a run leaves exactly the statistics of the listed workloads in the store.
  \<^item> \<^verbatim>\<open>JsonPatch\<close>, \<^verbatim>\<open>Versions\<close>, \<^verbatim>\<open>Webhook\<close>, \<^verbatim>\<open>WebhookSpec\<close>: the admission webhook
    (\<^verbatim>\<open>handlers/controllerwebhookhandler.go\<close>, \<^verbatim>\<open>webhookadmission.go\<close>) and the cache of the API server's
    version (\<^verbatim>\<open>task/utils/versioncache.go\<close>). \<^verbatim>\<open>JsonPatch\<close> says what applying a patch does, and the patches
    of the webhook always apply and write only values Kubernetes accepts.
  \<^item> \<^verbatim>\<open>AuditQueue\<close>: the bounded queue of audit events (\<^verbatim>\<open>audit/audit.go\<close>) as a state machine with the
    worker that drains it.
  \<^item> \<^verbatim>\<open>Oom\<close>: the observer and the processor of out-of-memory kills (\<^verbatim>\<open>oom/\<close>); evictions are justified
    and spaced by the cooldown, which counts from the kill.
  \<^item> \<^verbatim>\<open>OomWatch\<close>: the informer, the watch and the channel between observer and processor
    (\<^verbatim>\<open>oom/informer.go\<close>, \<^verbatim>\<open>observer.go\<close>, \<^verbatim>\<open>processor.go\<close>) as a step relation; no kill is dropped or reordered.
  \<^item> \<^verbatim>\<open>Killswitch\<close>: the handler that removes the webhook and evicts the pods that differ from their
    workload (\<^verbatim>\<open>handlers/killswitch.go\<close>).
  \<^item> \<^verbatim>\<open>Scheduler\<close>: the durations of the configuration, the scheduler and the manager of a cluster
    (\<^verbatim>\<open>cluster/scheduler.go\<close>, \<^verbatim>\<open>singleclustermanager.go\<close>) as a step relation over the goroutines of the
    tasks, and the handler that starts a task by hand (\<^verbatim>\<open>handlers/tasktrigger.go\<close>); the scheduled runs
    of a task never overlap.

  \<^item> \<^verbatim>\<open>QuerySlots\<close>: the goroutines behind \<^verbatim>\<open>Promql\<close>, with the semaphore that bounds the queries of a cluster,
    as a step relation. No more than the configured number of queries run at once, no run is stuck,
    and each batch ends with the results of the sequential model in some order, which is the one that
    \<^verbatim>\<open>Promql\<close> leaves open.
  \<^item> \<^verbatim>\<open>Handlers\<close>, \<^verbatim>\<open>Dashboard\<close>, \<^verbatim>\<open>WorkloadDetails\<close>: the handlers of the API over the store
    (\<^verbatim>\<open>handlers/overrides.go\<close>, \<^verbatim>\<open>settings.go\<close>, \<^verbatim>\<open>audit.go\<close>) and the pages of the dashboard
    (\<^verbatim>\<open>workloadsummary.go\<close>, \<^verbatim>\<open>overview.go\<close>, \<^verbatim>\<open>snapshot.go\<close>, \<^verbatim>\<open>workloaddetail.go\<close>), with the status of every
    error; a batch of overrides changes the named workloads or nothing, and the pages show each stored
    workload, pod and container once.
  \<^item> \<^verbatim>\<open>Access\<close>: the routes of the three servers, the middleware in front of them and the login
    (\<^verbatim>\<open>server/server.go\<close>, \<^verbatim>\<open>middleware/middleware.go\<close>, \<^verbatim>\<open>handlers/login.go\<close>). The check of basic
    authentication is a parameter under the contract of the locale \<^verbatim>\<open>basic_auth\<close>.
  \<^item> \<^verbatim>\<open>Client\<close>: the client of the webhook for the controller
    (\<^verbatim>\<open>client/recommenderserviceclient.go\<close>) and an admission from the webhook through the routes of
    \<^verbatim>\<open>Access\<close> to the handler of \<^verbatim>\<open>Webhook\<close> and back.
  \<^item> \<^verbatim>\<open>Preflight\<close>: the readiness check (\<^verbatim>\<open>handlers/preflight.go\<close>, \<^verbatim>\<open>versions.go\<close>); its verdict is the
    one the documentation gives. Grouping by an index is shown to be grouping by name.
  \<^item> \<^verbatim>\<open>FetchMetrics\<close>: the metrics task (\<^verbatim>\<open>task/taskfetchmetrics.go\<close>).
  \<^item> \<^verbatim>\<open>Config\<close>, \<^verbatim>\<open>Startup\<close>: the configuration with its validation (\<^verbatim>\<open>config/\<close>) and the start and stop of
    the program (\<^verbatim>\<open>cmd/cruisekube\<close>, beside \<^verbatim>\<open>pkg\<close>): a validated configuration registers exactly the six
    tasks, and exactly what was started is cleaned up, once and in a fixed order.

  \<^item> \<^verbatim>\<open>Connect\<close>: the connections of the program and the migration of its tables
    (\<^verbatim>\<open>adapters/database\<close>, \<^verbatim>\<open>adapters/kube\<close>, \<^verbatim>\<open>metricsprovider/prometheus\<close>) and the usage heartbeat
    (\<^verbatim>\<open>usageheartbeat\<close>, \<^verbatim>\<open>adapters/usagetelemetry\<close>). GORM's
    migrator is a parameter under the contract of the locale \<^verbatim>\<open>migrator\<close>. Retrying a failed migration
    loses no row.

  \<^bold>\<open>Bounds.\<close> No definition needs fuel: every loop is structural or has a measure that is proved.
  Only the year of a formatted time is bounded (0 to 9999), as the layout has four digits. The number
  of steps of the goroutines in \<^verbatim>\<open>QuerySlots\<close> is bounded by six for each attempt of each query and one
  for its return.

  \<^bold>\<open>Not modelled.\<close> Logging, tracing and the gauges, error reports to Sentry and signal handling: they are
  output, and nothing the program decides depends on them. The CORS, logging and recovery middleware, and
  what Kubernetes, Prometheus, GORM, gin, viper, PostHog and the cron parser do inside: their answers are
  parameters. Where the home directory is joined with the path of the kubeconfig file, \<^verbatim>\<open>Startup\<close> and
  \<^verbatim>\<open>Connect\<close> take a path that is clean. Concurrency is modelled where goroutines share state (the audit
  queue, the scheduler, the query slots, the out-of-memory workers);
  where only the results of goroutines are merged, they are taken in any order.
\<close>

end
